(* ===== verification/Prelude.thy ===== *)
theory Prelude
  imports Main "HOL-Library.Word"
begin

unbundle bit_operations_syntax

text \<open>
  Shared vocabulary of the development: the machine types of the C sources, the faults a
  memory-unsafe statement ends in, the few functions of the C library the sources call
  (\<^verbatim>\<open>strtok\<close>, \<^verbatim>\<open>strcasecmp\<close>, \<^verbatim>\<open>snprintf\<close> with \<^verbatim>\<open>%s\<close>) and the little-endian
  byte layout of the packed structures both ends of the USB link exchange.
\<close>

section \<open>Types\<close>

type_synonym u8 = "8 word"
type_synonym u16 = "16 word"
type_synonym u32 = "32 word"
type_synonym u64 = "64 word"
type_synonym bytes = "u8 list"

text \<open>The limit of the system headers on a path.\<close>

definition PATH_MAX :: nat where "PATH_MAX = 4096"

text \<open>The flags of an open call of the PSP (\<^verbatim>\<open>psp_fileio.h\<close>).\<close>

definition PSP_O_RDONLY :: u32 where "PSP_O_RDONLY = 0x0001"
definition PSP_O_WRONLY :: u32 where "PSP_O_WRONLY = 0x0002"
definition PSP_O_RDWR :: u32 where "PSP_O_RDWR = PSP_O_RDONLY OR PSP_O_WRONLY"
definition PSP_O_APPEND :: u32 where "PSP_O_APPEND = 0x0100"
definition PSP_O_CREAT :: u32 where "PSP_O_CREAT = 0x0200"
definition PSP_O_TRUNC :: u32 where "PSP_O_TRUNC = 0x0400"
definition PSP_O_EXCL :: u32 where "PSP_O_EXCL = 0x0800"

text \<open>
  A C statement that writes past an array, reads past the end of one, follows a null or freed
  pointer, or never finishes has no result. The models return such an execution as a value of
  its own.
\<close>

datatype fault = Buffer_Overflow | Unterminated_String | Bad_Pointer | No_Return | Undefined_Value

type_synonym 'a run = "fault + 'a"

named_theorems codec_simps \<open>facts about the byte layout of the packed structures\<close>
named_theorems path_simps \<open>facts about path components\<close>

section \<open>Signed readings\<close>

definition s32 :: "int \<Rightarrow> u32" where
  "s32 i = word_of_int i"

lemma sint_s32: "- (2 ^ 31) \<le> i \<Longrightarrow> i < 2 ^ 31 \<Longrightarrow> sint (s32 i) = i"
  by (simp add: s32_def sint_sbintrunc' signed_take_bit_int_eq_self)

lemma s32_minus_1: "s32 (- 1) = 0xFFFFFFFF"
  by (simp add: s32_def)

section \<open>Loops that may not end\<close>

text \<open>\<^verbatim>\<open>partial_function (option)\<close> gives \<open>None\<close> for a loop that does not end.\<close>

definition of_loop :: "'a option \<Rightarrow> 'a run" where
  "of_loop r = (case r of None \<Rightarrow> Inl No_Return | Some x \<Rightarrow> Inr x)"

lemma of_loop_simps [simp]: "of_loop None = Inl No_Return" "of_loop (Some x) = Inr x"
  by (simp_all add: of_loop_def)

lemma of_loop_eq_Inr [simp]: "of_loop r = Inr x \<longleftrightarrow> r = Some x"
  by (cases r) simp_all

section \<open>C strings\<close>

text \<open>
  A C string is the list of its characters before the terminating NUL. A buffer is a byte
  list; \<open>cstr\<close> reads the string at its start, \<open>None\<close> when no NUL ends it inside the buffer.
\<close>

definition chr_of :: "u8 \<Rightarrow> char" where
  "chr_of b = char_of (unat b)"

definition byte_of :: "char \<Rightarrow> u8" where
  "byte_of c = word_of_nat (of_char c)"

lemma of_char_less_256: "(of_char c :: nat) < 256"
  by simp

lemma chr_of_byte_of [simp]: "chr_of (byte_of c) = c"
proof -
  have "(of_char c :: nat) mod 256 = of_char c" by simp
  then show ?thesis by (simp add: chr_of_def byte_of_def unsigned_of_nat take_bit_eq_mod)
qed

lemma byte_of_chr_of [simp]: "byte_of (chr_of b) = b"
proof -
  have "unat b < 256" using unsigned_less [of b] by simp
  then show ?thesis by (simp add: chr_of_def byte_of_def)
qed

lemma byte_of_inj: "byte_of a = byte_of b \<longleftrightarrow> a = b"
  by (metis chr_of_byte_of)

lemma byte_of_NUL: "byte_of (CHR 0x00) = 0"
  by (simp add: byte_of_def)

lemma byte_of_eq_0: "byte_of c = 0 \<longleftrightarrow> c = CHR 0x00"
  using byte_of_inj [of c "CHR 0x00"] by (simp add: byte_of_NUL)

definition cbytes :: "string \<Rightarrow> bytes" where
  "cbytes s = map byte_of s @ [0]"

definition cstr :: "bytes \<Rightarrow> string option" where
  "cstr bs = (if 0 \<in> set bs then Some (map chr_of (takeWhile (\<lambda>b. b \<noteq> 0) bs)) else None)"

definition no_nul :: "string \<Rightarrow> bool" where
  "no_nul s \<longleftrightarrow> CHR 0x00 \<notin> set s"

lemma takeWhile_cbytes:
  "no_nul s \<Longrightarrow> takeWhile (\<lambda>b. b \<noteq> 0) (map byte_of s @ 0 # r) = map byte_of s"
  by (induction s) (auto simp: no_nul_def byte_of_eq_0)

lemma cstr_cbytes_append: "no_nul s \<Longrightarrow> cstr (cbytes s @ r) = Some s"
  by (simp add: cstr_def cbytes_def takeWhile_cbytes o_def)

lemma cstr_cbytes [simp]: "no_nul s \<Longrightarrow> cstr (cbytes s) = Some s"
  using cstr_cbytes_append [of s "[]"] by simp

lemma length_cbytes [simp]: "length (cbytes s) = length s + 1"
  by (simp add: cbytes_def)

lemma cstr_length: "cstr bs = Some s \<Longrightarrow> length s < length bs"
proof -
  assume a: "cstr bs = Some s"
  then have "0 \<in> set bs" and s: "s = map chr_of (takeWhile (\<lambda>b. b \<noteq> 0) bs)"
    by (simp_all add: cstr_def split: if_splits)
  then have "takeWhile (\<lambda>b. b \<noteq> 0) bs \<noteq> bs" by (metis (full_types) set_takeWhileD)
  moreover have "length (takeWhile (\<lambda>b. b \<noteq> 0) bs) \<le> length bs" by (rule length_takeWhile_le)
  moreover have "takeWhile (\<lambda>b. b \<noteq> 0) bs = take (length (takeWhile (\<lambda>b. b \<noteq> 0) bs)) bs"
    by (rule takeWhile_eq_take)
  ultimately have "length (takeWhile (\<lambda>b. b \<noteq> 0) bs) < length bs"
    by (metis le_neq_implies_less take_all order_refl)
  with s show ?thesis by simp
qed

text \<open>\<^verbatim>\<open>tolower\<close> of the C locale and \<^verbatim>\<open>strcasecmp (a, b) == 0\<close>.\<close>

definition c_tolower :: "char \<Rightarrow> char" where
  "c_tolower c = (if 65 \<le> (of_char c :: nat) \<and> (of_char c :: nat) \<le> 90
     then char_of ((of_char c :: nat) + 32) else c)"

text \<open>The same on the bits of a character, for evaluation.\<close>

lemma c_tolower_code [code]:
  "c_tolower (Char b0 b1 b2 b3 b4 b5 b6 b7) =
     (if b7 then Char b0 b1 b2 b3 b4 b5 b6 b7
      else if b6 then
        if b5 then Char b0 b1 b2 b3 b4 b5 b6 b7
        else if (if b4 then if b3 then if b2 then False else if b1 then \<not> b0 else True else True
                 else if b3 then True else if b2 then True else if b1 then True else b0)
          then Char b0 b1 b2 b3 b4 True b6 b7 else Char b0 b1 b2 b3 b4 b5 b6 b7
      else Char b0 b1 b2 b3 b4 b5 b6 b7)"
  by (cases b0; cases b1; cases b2; cases b3; cases b4; cases b5; cases b6; cases b7; simp add: c_tolower_def char_of_def bit_0)

definition strcaseeq :: "string \<Rightarrow> string \<Rightarrow> bool" where
  "strcaseeq a b \<longleftrightarrow> map c_tolower a = map c_tolower b"

lemma strcaseeq_refl [simp]: "strcaseeq s s"
  by (simp add: strcaseeq_def)

text \<open>The comparison character by character, which stops at the first difference.\<close>

fun case_eq :: "string \<Rightarrow> string \<Rightarrow> bool" where
  "case_eq [] b = (case b of [] \<Rightarrow> True | _ \<Rightarrow> False)"
| "case_eq (x # a) b = (case b of [] \<Rightarrow> False | y # b' \<Rightarrow> if c_tolower x = c_tolower y then case_eq a b' else False)"

lemma strcaseeq_code [code]: "strcaseeq a b = case_eq a b"
  by (induction a arbitrary: b) (auto simp: strcaseeq_def split: list.splits)

lemma strcaseeq_length: "strcaseeq a b \<Longrightarrow> length a = length b"
  unfolding strcaseeq_def by (metis length_map)

text \<open>
  \<^verbatim>\<open>snprintf (buf, n, "%s...", ...)\<close> writes at most \<open>n - 1\<close> characters and returns the
  length the whole text would have.
\<close>

definition snprintf :: "nat \<Rightarrow> string \<Rightarrow> string \<times> nat" where
  "snprintf n s = (take (n - 1) s, length s)"

section \<open>strtok\<close>

text \<open>
  \<^verbatim>\<open>strtok\<close> with a delimiter set: skip delimiters, return the characters up to the next
  delimiter and leave the position after it; \<open>None\<close> when only delimiters are left.
\<close>

definition strtok :: "(char \<Rightarrow> bool) \<Rightarrow> string \<Rightarrow> (string \<times> string) option" where
  "strtok d s = (case dropWhile d s of
     [] \<Rightarrow> None
   | c # cs \<Rightarrow> Some (c # takeWhile (\<lambda>x. \<not> d x) cs, drop 1 (dropWhile (\<lambda>x. \<not> d x) cs)))"

lemma strtok_Nil [simp]: "strtok d [] = None"
  by (simp add: strtok_def)

lemma strtok_delim [simp]: "d c \<Longrightarrow> strtok d (c # s) = strtok d s"
  by (simp add: strtok_def)

lemma strtok_None: "strtok d s = None \<longleftrightarrow> (\<forall>c \<in> set s. d c)"
proof -
  have "strtok d s = None \<longleftrightarrow> dropWhile d s = []"
    by (cases "dropWhile d s") (simp_all add: strtok_def del: dropWhile_eq_Nil_conv)
  then show ?thesis by simp
qed

lemma strtok_Some:
  assumes "strtok d s = Some (t, r)"
  shows "t \<noteq> []" and "\<forall>c \<in> set t. \<not> d c" and "length t + length r \<le> length s"
proof -
  obtain c cs where ds: "dropWhile d s = c # cs" and t: "t = c # takeWhile (\<lambda>x. \<not> d x) cs"
    and r: "r = drop 1 (dropWhile (\<lambda>x. \<not> d x) cs)"
    using assms by (auto simp: strtok_def split: list.splits)
  have nd: "\<not> d c" using ds by (metis hd_dropWhile list.sel(1) list.distinct(1))
  show "t \<noteq> []" by (simp add: t)
  show "\<forall>c \<in> set t. \<not> d c" using nd by (auto simp: t dest: set_takeWhileD)
  have "length (c # cs) \<le> length s" by (metis ds length_dropWhile_le)
  moreover have "length (takeWhile (\<lambda>x. \<not> d x) cs) + length (dropWhile (\<lambda>x. \<not> d x) cs) = length cs"
    by (metis length_append takeWhile_dropWhile_id)
  ultimately show "length t + length r \<le> length s" by (simp add: t r)
qed

lemma strtok_token:
  assumes "t \<noteq> []" and "\<forall>c \<in> set t. \<not> d c" and "d x"
  shows "strtok d (t @ x # r) = Some (t, r)" and "strtok d t = Some (t, [])"
proof -
  obtain c cs where t: "t = c # cs" using assms(1) by (cases t) auto
  have "takeWhile (\<lambda>x. \<not> d x) (cs @ x # r) = cs" "dropWhile (\<lambda>x. \<not> d x) (cs @ x # r) = x # r"
    using assms(2,3) by (auto simp: t)
  then show "strtok d (t @ x # r) = Some (t, r)" using assms(2) by (simp add: strtok_def t)
  have "dropWhile (\<lambda>x. \<not> d x) cs = []"
    using assms(2) by (simp add: t)
  then have "drop 1 (dropWhile (\<lambda>x. \<not> d x) cs) = []" by (simp del: dropWhile_eq_Nil_conv)
  moreover have "takeWhile (\<lambda>x. \<not> d x) cs = cs"
    using assms(2) by (simp add: t)
  ultimately show "strtok d t = Some (t, [])"
    using assms(2) by (simp add: strtok_def t del: drop_eq_Nil)
qed

lemma strtok_split:
  assumes "strtok d s = Some (t, r)"
  obtains pre where "\<forall>c \<in> set pre. d c" and "s = pre @ t" and "r = []"
  | pre x where "\<forall>c \<in> set pre. d c" and "d x" and "s = pre @ t @ x # r"
proof -
  obtain c cs where ds: "dropWhile d s = c # cs" and t: "t = c # takeWhile (\<lambda>x. \<not> d x) cs"
    and r: "r = drop 1 (dropWhile (\<lambda>x. \<not> d x) cs)"
    using assms by (auto simp: strtok_def split: list.splits)
  let ?pre = "takeWhile d s"
  have s: "s = ?pre @ c # cs" by (metis ds takeWhile_dropWhile_id)
  have pre: "\<forall>c \<in> set ?pre. d c" by (auto dest: set_takeWhileD)
  have cs: "cs = takeWhile (\<lambda>x. \<not> d x) cs @ dropWhile (\<lambda>x. \<not> d x) cs" by simp
  show thesis
  proof (cases "dropWhile (\<lambda>x. \<not> d x) cs")
    case Nil
    then show ?thesis using that(1) [OF pre] s cs t r by (metis append.right_neutral drop_Nil)
  next
    case (Cons x xs)
    then have "d x" by (metis hd_dropWhile list.sel(1) list.distinct(1))
    moreover have "s = ?pre @ t @ x # r" using s cs t r Cons by (metis append_Cons drop0 drop_Suc_Cons One_nat_def)
    ultimately show ?thesis using that(2) [OF pre] by blast
  qed
qed

section \<open>Little-endian fields\<close>

text \<open>
  The structures of \<^verbatim>\<open>usbhostfs.h\<close> are packed and little-endian. A field is written by
  \<open>le16\<close>, \<open>le32\<close>, \<open>le64\<close> and read at a byte offset by \<open>rd16\<close>, \<open>rd32\<close>, \<open>rd64\<close>.
\<close>

definition le16 :: "u16 \<Rightarrow> bytes" where
  "le16 w = [ucast w, ucast (drop_bit 8 w)]"

definition le32 :: "u32 \<Rightarrow> bytes" where
  "le32 w = [ucast w, ucast (drop_bit 8 w), ucast (drop_bit 16 w), ucast (drop_bit 24 w)]"

definition le64 :: "u64 \<Rightarrow> bytes" where
  "le64 w = le32 (ucast w) @ le32 (ucast (drop_bit 32 w))"

definition rd16 :: "nat \<Rightarrow> bytes \<Rightarrow> u16" where
  "rd16 i bs = ucast (bs ! i) OR push_bit 8 (ucast (bs ! (i + 1)))"

definition rd32 :: "nat \<Rightarrow> bytes \<Rightarrow> u32" where
  "rd32 i bs = ucast (bs ! i) OR push_bit 8 (ucast (bs ! (i + 1)))
     OR push_bit 16 (ucast (bs ! (i + 2))) OR push_bit 24 (ucast (bs ! (i + 3)))"

definition rd64 :: "nat \<Rightarrow> bytes \<Rightarrow> u64" where
  "rd64 i bs = ucast (rd32 i bs) OR push_bit 32 (ucast (rd32 (i + 4) bs))"

lemma length_le [simp]:
  "length (le16 a) = 2" "length (le32 b) = 4" "length (le64 c) = 8"
  by (simp_all add: le16_def le32_def le64_def)

lemma rd16_le16: "rd16 0 (le16 w @ r) = w"
  by (rule bit_word_eqI) (auto simp: rd16_def le16_def bit_simps)

lemma rd32_le32: "rd32 0 (le32 w @ r) = w"
proof (rule bit_word_eqI)
  fix n assume n: "n < LENGTH(32)"
  consider "n < 8" | "8 \<le> n" "n < 16" | "16 \<le> n" "n < 24" | "24 \<le> n" by linarith
  then show "bit (rd32 0 (le32 w @ r)) n = bit w n"
    using n by cases (auto simp: rd32_def le32_def bit_simps)
qed

lemma rd32_append: "rd32 (length a + i) (a @ b) = rd32 i b"
  by (simp add: rd32_def nth_append add.assoc)

lemma rd64_le64: "rd64 0 (le64 w @ r) = w"
proof -
  have a: "rd32 0 (le64 w @ r) = ucast w" by (simp add: le64_def rd32_le32)
  have b: "rd32 4 (le64 w @ r) = ucast (drop_bit 32 w)"
    using rd32_append [of "le32 (ucast w)" 0] by (simp add: le64_def rd32_le32)
  show ?thesis
    by (rule bit_word_eqI) (auto simp: rd64_def a b bit_simps)
qed

text \<open>Reading the field after a prefix whose length the simplifier can compute.\<close>

lemma rd_skip [codec_simps]:
  assumes "length a \<le> i"
  shows "rd16 i (a @ b) = rd16 (i - length a) b"
    and "rd32 i (a @ b) = rd32 (i - length a) b"
    and "rd64 i (a @ b) = rd64 (i - length a) b"
proof -
  from assms obtain j where i: "i = length a + j" using le_Suc_ex by blast
  show "rd16 i (a @ b) = rd16 (i - length a) b" "rd32 i (a @ b) = rd32 (i - length a) b"
    "rd64 i (a @ b) = rd64 (i - length a) b"
    by (simp_all add: i rd16_def rd32_def rd64_def nth_append)
qed

lemma rd_here [codec_simps]:
  "rd16 0 (le16 v @ r) = v" "rd16 0 (le16 v) = v"
  "rd32 0 (le32 w @ r) = w" "rd32 0 (le32 w) = w"
  "rd64 0 (le64 x @ r) = x" "rd64 0 (le64 x) = x"
  using rd16_le16 [of v "[]"] rd32_le32 [of w "[]"] rd64_le64 [of x "[]"]
  by (simp_all add: rd16_le16 rd32_le32 rd64_le64)

end
