(* ===== verification/Protocol.thy ===== *)
theory Protocol
  imports Prelude
begin

unbundle bit_operations_syntax

text \<open>
  The wire protocol of \<^verbatim>\<open>usbhostfs/usbhostfs.h\<close>, shared by the PSP driver and the PC
  server: the magic numbers, the command numbers and the packed structures. A structure is
  a record; \<open>enc_\<close> lays it out in memory, \<open>dec_\<close> reads it from the bytes received, and
  the locale \<open>packed_struct\<close> is the contract both ends rely on. Structures of the header
  that have the same members share one record.
\<close>

section \<open>Constants\<close>

definition HOSTFS_MAGIC :: u32 where "HOSTFS_MAGIC = 0x782F0812"
definition ASYNC_MAGIC :: u32 where "ASYNC_MAGIC = 0x782F0813"
definition BULK_MAGIC :: u32 where "BULK_MAGIC = 0x782F0814"
definition HOSTFS_PATHMAX :: nat where "HOSTFS_PATHMAX = 4096"
definition HOSTFS_MAX_BLOCK :: nat where "HOSTFS_MAX_BLOCK = 65536"
definition HOSTFS_RENAME_BUFSIZE :: nat where "HOSTFS_RENAME_BUFSIZE = 1024"
definition HOSTFS_BULK_MAXWRITE :: nat where "HOSTFS_BULK_MAXWRITE = 1048576"
definition DEVCTL_GET_INFO :: u32 where "DEVCTL_GET_INFO = 0x02425818"
definition MAX_ASYNC_CHANNELS :: nat where "MAX_ASYNC_CHANNELS = 8"
definition ASYNC_SHELL :: nat where "ASYNC_SHELL = 0"
definition ASYNC_GDB :: nat where "ASYNC_GDB = 1"

datatype HostFsCommands =
    CMD_HELLO | CMD_BYE | CMD_OPEN | CMD_CLOSE | CMD_READ | CMD_WRITE | CMD_LSEEK
  | CMD_REMOVE | CMD_MKDIR | CMD_RMDIR | CMD_DOPEN | CMD_DREAD | CMD_DCLOSE
  | CMD_GETSTAT | CMD_CHSTAT | CMD_RENAME | CMD_CHDIR | CMD_IOCTL | CMD_DEVCTL

fun cmd_num :: "HostFsCommands \<Rightarrow> u32" where
  "cmd_num CMD_HELLO = 0x8FFC0000"
| "cmd_num CMD_BYE = 0x8FFC0001"
| "cmd_num CMD_OPEN = 0x8FFC0002"
| "cmd_num CMD_CLOSE = 0x8FFC0003"
| "cmd_num CMD_READ = 0x8FFC0004"
| "cmd_num CMD_WRITE = 0x8FFC0005"
| "cmd_num CMD_LSEEK = 0x8FFC0006"
| "cmd_num CMD_REMOVE = 0x8FFC0007"
| "cmd_num CMD_MKDIR = 0x8FFC0008"
| "cmd_num CMD_RMDIR = 0x8FFC0009"
| "cmd_num CMD_DOPEN = 0x8FFC000A"
| "cmd_num CMD_DREAD = 0x8FFC000B"
| "cmd_num CMD_DCLOSE = 0x8FFC000C"
| "cmd_num CMD_GETSTAT = 0x8FFC000D"
| "cmd_num CMD_CHSTAT = 0x8FFC000E"
| "cmd_num CMD_RENAME = 0x8FFC000F"
| "cmd_num CMD_CHDIR = 0x8FFC0010"
| "cmd_num CMD_IOCTL = 0x8FFC0011"
| "cmd_num CMD_DEVCTL = 0x8FFC0012"

lemma cmd_num_inj: "cmd_num a = cmd_num b \<Longrightarrow> a = b"
  by (cases a; cases b) simp_all

section \<open>The packed structures\<close>

record HostFsTimeStamp =
  ts_year :: u16
  ts_month :: u16
  ts_day :: u16
  ts_hour :: u16
  ts_minute :: u16
  ts_second :: u16

record HostFsCmd =
  magic :: u32
  command :: u32
  extralen :: u32

record HostFsOpenCmd =
  open_cmd :: HostFsCmd
  open_mode :: u32
  open_mask :: u32
  open_fsnum :: u32

record HostFsReadCmd =
  read_cmd :: HostFsCmd
  read_fid :: u32
  read_len :: u32

record HostFsLseekCmd =
  lseek_cmd :: HostFsCmd
  lseek_fid :: u32
  lseek_ofs :: u64
  lseek_whence :: u32

record HostFsIoctlCmd =
  ioctl_cmd :: HostFsCmd
  ioctl_fid :: u32
  ioctl_cmdno :: u32
  ioctl_outlen :: u32

record HostFsDevctlCmd =
  devctl_cmd :: HostFsCmd
  devctl_cmdno :: u32
  devctl_fsnum :: u32
  devctl_outlen :: u32

record HostFsMkdirCmd =
  mkdir_cmd :: HostFsCmd
  mkdir_mode :: u32
  mkdir_fsnum :: u32

record HostFsChstatCmd =
  chstat_cmd :: HostFsCmd
  chstat_bits :: u32
  chstat_mode :: u32
  chstat_size :: u64
  chstat_atime :: HostFsTimeStamp
  chstat_mtime :: HostFsTimeStamp
  chstat_fsnum :: u32

text \<open>Structures that are the header and one word: a file or directory id, a drive, a result.\<close>

record HostFsIdCmd =
  id_cmd :: HostFsCmd
  id_val :: u32

type_synonym HostFsCloseCmd = HostFsIdCmd
type_synonym HostFsWriteCmd = HostFsIdCmd
type_synonym HostFsDreadCmd = HostFsIdCmd
type_synonym HostFsDcloseCmd = HostFsIdCmd

record HostFsFsnumCmd =
  fs_cmd :: HostFsCmd
  fs_num :: u32

type_synonym HostFsRemoveCmd = HostFsFsnumCmd
type_synonym HostFsDopenCmd = HostFsFsnumCmd
type_synonym HostFsRmdirCmd = HostFsFsnumCmd
type_synonym HostFsGetstatCmd = HostFsFsnumCmd
type_synonym HostFsRenameCmd = HostFsFsnumCmd
type_synonym HostFsChdirCmd = HostFsFsnumCmd

record HostFsResp =
  resp_cmd :: HostFsCmd
  resp_res :: u32

type_synonym HostFsOpenResp = HostFsResp
type_synonym HostFsCloseResp = HostFsResp
type_synonym HostFsReadResp = HostFsResp
type_synonym HostFsWriteResp = HostFsResp
type_synonym HostFsIoctlResp = HostFsResp
type_synonym HostFsDevctlResp = HostFsResp
type_synonym HostFsRemoveResp = HostFsResp
type_synonym HostFsDopenResp = HostFsResp
type_synonym HostFsDreadResp = HostFsResp
type_synonym HostFsDcloseResp = HostFsResp
type_synonym HostFsMkdirResp = HostFsResp
type_synonym HostFsRmdirResp = HostFsResp
type_synonym HostFsGetstatResp = HostFsResp
type_synonym HostFsChstatResp = HostFsResp
type_synonym HostFsRenameResp = HostFsResp
type_synonym HostFsChdirResp = HostFsResp

record HostFsLseekResp =
  lresp_cmd :: HostFsCmd
  lresp_res :: u32
  lresp_ofs :: u64

record AsyncCommand =
  async_magic :: u32
  async_channel :: u32

record BulkCommand =
  bulk_magic :: u32
  bulk_channel :: u32
  bulk_size :: u32

section \<open>Memory layout\<close>

definition enc_ts :: "HostFsTimeStamp \<Rightarrow> bytes" where
  "enc_ts t = le16 (ts_year t) @ le16 (ts_month t) @ le16 (ts_day t)
     @ le16 (ts_hour t) @ le16 (ts_minute t) @ le16 (ts_second t)"

definition dec_ts :: "bytes \<Rightarrow> HostFsTimeStamp" where
  "dec_ts b = \<lparr>ts_year = rd16 0 b, ts_month = rd16 2 b, ts_day = rd16 4 b,
     ts_hour = rd16 6 b, ts_minute = rd16 8 b, ts_second = rd16 10 b\<rparr>"

definition enc_cmd :: "HostFsCmd \<Rightarrow> bytes" where
  "enc_cmd c = le32 (magic c) @ le32 (command c) @ le32 (extralen c)"

definition dec_cmd :: "bytes \<Rightarrow> HostFsCmd" where
  "dec_cmd b = \<lparr>magic = rd32 0 b, command = rd32 4 b, extralen = rd32 8 b\<rparr>"

definition enc_open :: "HostFsOpenCmd \<Rightarrow> bytes" where
  "enc_open c = enc_cmd (open_cmd c) @ le32 (open_mode c) @ le32 (open_mask c) @ le32 (open_fsnum c)"

definition dec_open :: "bytes \<Rightarrow> HostFsOpenCmd" where
  "dec_open b = \<lparr>open_cmd = dec_cmd b, open_mode = rd32 12 b, open_mask = rd32 16 b,
     open_fsnum = rd32 20 b\<rparr>"

definition enc_read :: "HostFsReadCmd \<Rightarrow> bytes" where
  "enc_read c = enc_cmd (read_cmd c) @ le32 (read_fid c) @ le32 (read_len c)"

definition dec_read :: "bytes \<Rightarrow> HostFsReadCmd" where
  "dec_read b = \<lparr>read_cmd = dec_cmd b, read_fid = rd32 12 b, read_len = rd32 16 b\<rparr>"

definition enc_lseek :: "HostFsLseekCmd \<Rightarrow> bytes" where
  "enc_lseek c = enc_cmd (lseek_cmd c) @ le32 (lseek_fid c) @ le64 (lseek_ofs c) @ le32 (lseek_whence c)"

definition dec_lseek :: "bytes \<Rightarrow> HostFsLseekCmd" where
  "dec_lseek b = \<lparr>lseek_cmd = dec_cmd b, lseek_fid = rd32 12 b, lseek_ofs = rd64 16 b,
     lseek_whence = rd32 24 b\<rparr>"

definition enc_ioctl :: "HostFsIoctlCmd \<Rightarrow> bytes" where
  "enc_ioctl c = enc_cmd (ioctl_cmd c) @ le32 (ioctl_fid c) @ le32 (ioctl_cmdno c) @ le32 (ioctl_outlen c)"

definition dec_ioctl :: "bytes \<Rightarrow> HostFsIoctlCmd" where
  "dec_ioctl b = \<lparr>ioctl_cmd = dec_cmd b, ioctl_fid = rd32 12 b, ioctl_cmdno = rd32 16 b,
     ioctl_outlen = rd32 20 b\<rparr>"

definition enc_devctl :: "HostFsDevctlCmd \<Rightarrow> bytes" where
  "enc_devctl c = enc_cmd (devctl_cmd c) @ le32 (devctl_cmdno c) @ le32 (devctl_fsnum c)
     @ le32 (devctl_outlen c)"

definition dec_devctl :: "bytes \<Rightarrow> HostFsDevctlCmd" where
  "dec_devctl b = \<lparr>devctl_cmd = dec_cmd b, devctl_cmdno = rd32 12 b, devctl_fsnum = rd32 16 b,
     devctl_outlen = rd32 20 b\<rparr>"

definition enc_mkdir :: "HostFsMkdirCmd \<Rightarrow> bytes" where
  "enc_mkdir c = enc_cmd (mkdir_cmd c) @ le32 (mkdir_mode c) @ le32 (mkdir_fsnum c)"

definition dec_mkdir :: "bytes \<Rightarrow> HostFsMkdirCmd" where
  "dec_mkdir b = \<lparr>mkdir_cmd = dec_cmd b, mkdir_mode = rd32 12 b, mkdir_fsnum = rd32 16 b\<rparr>"

definition enc_chstat :: "HostFsChstatCmd \<Rightarrow> bytes" where
  "enc_chstat c = enc_cmd (chstat_cmd c) @ le32 (chstat_bits c) @ le32 (chstat_mode c)
     @ le64 (chstat_size c) @ enc_ts (chstat_atime c) @ enc_ts (chstat_mtime c) @ le32 (chstat_fsnum c)"

definition dec_chstat :: "bytes \<Rightarrow> HostFsChstatCmd" where
  "dec_chstat b = \<lparr>chstat_cmd = dec_cmd b, chstat_bits = rd32 12 b, chstat_mode = rd32 16 b,
     chstat_size = rd64 20 b, chstat_atime = dec_ts (drop 28 b), chstat_mtime = dec_ts (drop 40 b),
     chstat_fsnum = rd32 52 b\<rparr>"

definition enc_id :: "HostFsIdCmd \<Rightarrow> bytes" where
  "enc_id c = enc_cmd (id_cmd c) @ le32 (id_val c)"

definition dec_id :: "bytes \<Rightarrow> HostFsIdCmd" where
  "dec_id b = \<lparr>id_cmd = dec_cmd b, id_val = rd32 12 b\<rparr>"

definition enc_fs :: "HostFsFsnumCmd \<Rightarrow> bytes" where
  "enc_fs c = enc_cmd (fs_cmd c) @ le32 (fs_num c)"

definition dec_fs :: "bytes \<Rightarrow> HostFsFsnumCmd" where
  "dec_fs b = \<lparr>fs_cmd = dec_cmd b, fs_num = rd32 12 b\<rparr>"

definition enc_resp :: "HostFsResp \<Rightarrow> bytes" where
  "enc_resp c = enc_cmd (resp_cmd c) @ le32 (resp_res c)"

definition dec_resp :: "bytes \<Rightarrow> HostFsResp" where
  "dec_resp b = \<lparr>resp_cmd = dec_cmd b, resp_res = rd32 12 b\<rparr>"

definition enc_lresp :: "HostFsLseekResp \<Rightarrow> bytes" where
  "enc_lresp c = enc_cmd (lresp_cmd c) @ le32 (lresp_res c) @ le64 (lresp_ofs c)"

definition dec_lresp :: "bytes \<Rightarrow> HostFsLseekResp" where
  "dec_lresp b = \<lparr>lresp_cmd = dec_cmd b, lresp_res = rd32 12 b, lresp_ofs = rd64 16 b\<rparr>"

definition enc_async :: "AsyncCommand \<Rightarrow> bytes" where
  "enc_async c = le32 (async_magic c) @ le32 (async_channel c)"

definition dec_async :: "bytes \<Rightarrow> AsyncCommand" where
  "dec_async b = \<lparr>async_magic = rd32 0 b, async_channel = rd32 4 b\<rparr>"

definition enc_bulk :: "BulkCommand \<Rightarrow> bytes" where
  "enc_bulk c = le32 (bulk_magic c) @ le32 (bulk_channel c) @ le32 (bulk_size c)"

definition dec_bulk :: "bytes \<Rightarrow> BulkCommand" where
  "dec_bulk b = \<lparr>bulk_magic = rd32 0 b, bulk_channel = rd32 4 b, bulk_size = rd32 8 b\<rparr>"

section \<open>The contract of a packed structure\<close>

text \<open>
  The sender writes \<open>enc x\<close>, \<open>sizeof\<close> bytes; the receiver casts the buffer it read, which
  may hold more bytes after them, and finds \<open>x\<close> again.
\<close>

locale packed_struct =
  fixes enc :: "'a \<Rightarrow> bytes"
    and dec :: "bytes \<Rightarrow> 'a"
    and sizeof :: nat
  assumes length_enc: "length (enc x) = sizeof"
    and dec_enc_append: "dec (enc x @ r) = x"
begin

lemma dec_enc: "dec (enc x) = x"
  using dec_enc_append [of x "[]"] by simp

lemma enc_inj: "enc x = enc y \<longleftrightarrow> x = y"
  by (metis dec_enc)

lemma take_enc: "take sizeof (enc x @ r) = enc x"
  by (simp add: length_enc)

lemma drop_enc: "drop sizeof (enc x @ r) = r"
  by (simp add: length_enc)

lemma dec_take: "dec (take sizeof (enc x @ r)) = x"
  by (simp only: take_enc dec_enc)

end

lemma drop_le [codec_simps]:
  assumes "length a \<le> n"
  shows "drop n (a @ b) = drop (n - length a) b"
  using assms by simp

interpretation ts_struct: packed_struct enc_ts dec_ts 12
  by unfold_locales (simp_all add: enc_ts_def dec_ts_def codec_simps)

interpretation cmd_struct: packed_struct enc_cmd dec_cmd 12
  by unfold_locales (simp_all add: enc_cmd_def dec_cmd_def codec_simps)

lemmas cmd_codec = cmd_struct.length_enc cmd_struct.dec_enc_append cmd_struct.dec_enc
  ts_struct.length_enc ts_struct.dec_enc_append ts_struct.dec_enc

interpretation open_struct: packed_struct enc_open dec_open 24
  by unfold_locales (simp_all add: enc_open_def dec_open_def codec_simps cmd_codec)

interpretation read_struct: packed_struct enc_read dec_read 20
  by unfold_locales (simp_all add: enc_read_def dec_read_def codec_simps cmd_codec)

interpretation lseek_struct: packed_struct enc_lseek dec_lseek 28
  by unfold_locales (simp_all add: enc_lseek_def dec_lseek_def codec_simps cmd_codec)

interpretation ioctl_struct: packed_struct enc_ioctl dec_ioctl 24
  by unfold_locales (simp_all add: enc_ioctl_def dec_ioctl_def codec_simps cmd_codec)

interpretation devctl_struct: packed_struct enc_devctl dec_devctl 24
  by unfold_locales (simp_all add: enc_devctl_def dec_devctl_def codec_simps cmd_codec)

interpretation mkdir_struct: packed_struct enc_mkdir dec_mkdir 20
  by unfold_locales (simp_all add: enc_mkdir_def dec_mkdir_def codec_simps cmd_codec)

interpretation chstat_struct: packed_struct enc_chstat dec_chstat 56
  by unfold_locales (simp_all add: enc_chstat_def dec_chstat_def codec_simps cmd_codec)

interpretation id_struct: packed_struct enc_id dec_id 16
  by unfold_locales (simp_all add: enc_id_def dec_id_def codec_simps cmd_codec)

interpretation fs_struct: packed_struct enc_fs dec_fs 16
  by unfold_locales (simp_all add: enc_fs_def dec_fs_def codec_simps cmd_codec)

interpretation resp_struct: packed_struct enc_resp dec_resp 16
  by unfold_locales (simp_all add: enc_resp_def dec_resp_def codec_simps cmd_codec)

interpretation lresp_struct: packed_struct enc_lresp dec_lresp 24
  by unfold_locales (simp_all add: enc_lresp_def dec_lresp_def codec_simps cmd_codec)

interpretation async_struct: packed_struct enc_async dec_async 8
  by unfold_locales (simp_all add: enc_async_def dec_async_def codec_simps)

interpretation bulk_struct: packed_struct enc_bulk dec_bulk 12
  by unfold_locales (simp_all add: enc_bulk_def dec_bulk_def codec_simps)

end
