(* ===== verification/HostOs.thy ===== *)
theory HostOs
  imports Protocol
begin

unbundle bit_operations_syntax

text \<open>
  What \<^verbatim>\<open>usbhostfs_pc/main.c\<close> stands on and what it keeps. The kernel of the PC, its
  file system, libusb and the sockets are not part of the repository: they are the
  operations of the record \<open>os\<close>, over a state of the world of any type \<open>'w\<close>. A call that
  returns -1 and sets \<^verbatim>\<open>errno\<close> is \<open>Inl errno\<close>. \<open>os_chdir\<close> returns
  the working directory after the change, \<open>os_get_text\<close> and \<open>os_put_text\<close> read and write a whole
  text file. The record \<open>host\<close> holds the globals of the program; the structures of \<^verbatim>\<open>psp_fileio.h\<close> are laid out as the PSP expects them.
\<close>

section \<open>The operating system\<close>

record host_stat =
  sb_mode :: u32
  sb_size :: u64
  sb_ctime :: int
  sb_atime :: int
  sb_mtime :: int

record host_tm =
  tm_year :: int
  tm_mon :: int
  tm_mday :: int
  tm_hour :: int
  tm_min :: int
  tm_sec :: int

record host_statvfs =
  f_blocks :: u64
  f_bfree :: u64
  f_frsize :: u64

record 'w os =
  os_open :: "string \<Rightarrow> u32 \<Rightarrow> u32 \<Rightarrow> 'w \<Rightarrow> (nat + nat) \<times> 'w"
  os_close :: "nat \<Rightarrow> 'w \<Rightarrow> (nat + unit) \<times> 'w"
  os_read :: "nat \<Rightarrow> nat \<Rightarrow> 'w \<Rightarrow> (nat + bytes) \<times> 'w"
  os_write :: "nat \<Rightarrow> bytes \<Rightarrow> 'w \<Rightarrow> (nat + nat) \<times> 'w"
  os_lseek :: "nat \<Rightarrow> u64 \<Rightarrow> u32 \<Rightarrow> 'w \<Rightarrow> u64 \<times> 'w"
  os_unlink :: "string \<Rightarrow> 'w \<Rightarrow> (nat + unit) \<times> 'w"
  os_rmdir :: "string \<Rightarrow> 'w \<Rightarrow> (nat + unit) \<times> 'w"
  os_mkdir :: "string \<Rightarrow> u32 \<Rightarrow> 'w \<Rightarrow> (nat + unit) \<times> 'w"
  os_rename :: "string \<Rightarrow> string \<Rightarrow> 'w \<Rightarrow> (nat + unit) \<times> 'w"
  os_stat :: "string \<Rightarrow> 'w \<Rightarrow> (nat + host_stat) \<times> 'w"
  os_chmod :: "string \<Rightarrow> u32 \<Rightarrow> 'w \<Rightarrow> (nat + unit) \<times> 'w"
  os_utime :: "string \<Rightarrow> int \<Rightarrow> int \<Rightarrow> 'w \<Rightarrow> (nat + unit) \<times> 'w"
  os_statvfs :: "string \<Rightarrow> 'w \<Rightarrow> (nat + host_statvfs) \<times> 'w"
  os_scandir :: "string \<Rightarrow> 'w \<Rightarrow> (nat + string list) \<times> 'w"
  os_readdir :: "string \<Rightarrow> 'w \<Rightarrow> string list option \<times> 'w"
  os_errno :: "'w \<Rightarrow> nat"
  os_localtime :: "int \<Rightarrow> host_tm"
  os_mktime :: "host_tm \<Rightarrow> int"
  os_usb_read :: "nat \<Rightarrow> u32 \<Rightarrow> 'w \<Rightarrow> (int \<times> bytes) \<times> 'w"
  os_usb_write :: "nat \<Rightarrow> bytes \<Rightarrow> 'w \<Rightarrow> int \<times> 'w"
  os_lock :: "'w \<Rightarrow> bool \<times> 'w"
  os_chdir :: "string \<Rightarrow> 'w \<Rightarrow> string option \<times> 'w"
  os_get_text :: "string \<Rightarrow> 'w \<Rightarrow> string option \<times> 'w"
  os_put_text :: "string \<Rightarrow> string \<Rightarrow> 'w \<Rightarrow> bool \<times> 'w"

definition EINTR :: nat where "EINTR = 4"
definition ENOENT :: nat where "ENOENT = 2"
definition EINVAL :: nat where "EINVAL = 22"
definition EMFILE :: nat where "EMFILE = 24"
definition ENAMETOOLONG :: nat where "ENAMETOOLONG = 36"

text \<open>\<^verbatim>\<open>GETERROR(x)\<close>: the PSP error number for a host \<^verbatim>\<open>errno\<close>.\<close>

definition GETERROR :: "nat \<Rightarrow> u32" where
  "GETERROR x = 0x80010000 OR of_nat x"

definition MAX_FILES :: nat where "MAX_FILES = 256"
definition MAX_DIRS :: nat where "MAX_DIRS = 256"
definition MAX_TOKENS :: nat where "MAX_TOKENS = 256"
definition MAX_HOSTDRIVES :: nat where "MAX_HOSTDRIVES = 8"

section \<open>Structures of psp_fileio.h\<close>

definition FIO_S_IFLNK :: u32 where "FIO_S_IFLNK = 0x4000"
definition FIO_S_IFDIR :: u32 where "FIO_S_IFDIR = 0x1000"
definition FIO_S_IFREG :: u32 where "FIO_S_IFREG = 0x2000"
definition FIO_S_IRWX :: u32 where "FIO_S_IRWX = 0x01FF"
definition FIO_SO_IFLNK :: u32 where "FIO_SO_IFLNK = 0x0008"
definition FIO_SO_IFDIR :: u32 where "FIO_SO_IFDIR = 0x0010"
definition FIO_SO_IFREG :: u32 where "FIO_SO_IFREG = 0x0020"
definition PSP_CHSTAT_MODE :: u32 where "PSP_CHSTAT_MODE = 0x01"
definition PSP_CHSTAT_SIZE :: u32 where "PSP_CHSTAT_SIZE = 0x04"
definition PSP_CHSTAT_ATIME :: u32 where "PSP_CHSTAT_ATIME = 0x10"
definition PSP_CHSTAT_MTIME :: u32 where "PSP_CHSTAT_MTIME = 0x20"

record ScePspDateTime =
  dt_year :: u16
  dt_month :: u16
  dt_day :: u16
  dt_hour :: u16
  dt_minute :: u16
  dt_second :: u16
  dt_microsecond :: u32

record SceIoStat =
  io_mode :: u32
  io_attr :: u32
  io_size :: u64
  io_ctime :: ScePspDateTime
  io_atime :: ScePspDateTime
  io_mtime :: ScePspDateTime

record SceIoDirent =
  d_stat :: SceIoStat
  d_name :: string

definition zero_date :: ScePspDateTime where
  "zero_date = \<lparr>dt_year = 0, dt_month = 0, dt_day = 0, dt_hour = 0, dt_minute = 0,
     dt_second = 0, dt_microsecond = 0\<rparr>"

definition zero_stat :: SceIoStat where
  "zero_stat = \<lparr>io_mode = 0, io_attr = 0, io_size = 0, io_ctime = zero_date,
     io_atime = zero_date, io_mtime = zero_date\<rparr>"

definition enc_date :: "ScePspDateTime \<Rightarrow> bytes" where
  "enc_date t = le16 (dt_year t) @ le16 (dt_month t) @ le16 (dt_day t) @ le16 (dt_hour t)
     @ le16 (dt_minute t) @ le16 (dt_second t) @ le32 (dt_microsecond t)"

definition dec_date :: "bytes \<Rightarrow> ScePspDateTime" where
  "dec_date b = \<lparr>dt_year = rd16 0 b, dt_month = rd16 2 b, dt_day = rd16 4 b, dt_hour = rd16 6 b,
     dt_minute = rd16 8 b, dt_second = rd16 10 b, dt_microsecond = rd32 12 b\<rparr>"

text \<open>The six words of \<^verbatim>\<open>st_private\<close> are zero on this side.\<close>

definition enc_stat :: "SceIoStat \<Rightarrow> bytes" where
  "enc_stat s = le32 (io_mode s) @ le32 (io_attr s) @ le64 (io_size s) @ enc_date (io_ctime s)
     @ enc_date (io_atime s) @ enc_date (io_mtime s) @ replicate 24 0"

definition dec_stat :: "bytes \<Rightarrow> SceIoStat" where
  "dec_stat b = \<lparr>io_mode = rd32 0 b, io_attr = rd32 4 b, io_size = rd64 8 b,
     io_ctime = dec_date (drop 16 b), io_atime = dec_date (drop 32 b), io_mtime = dec_date (drop 48 b)\<rparr>"

text \<open>The 256 bytes of \<^verbatim>\<open>name\<close> were zeroed before the copy; the two words after it stay zero.\<close>

definition enc_dirent :: "SceIoDirent \<Rightarrow> bytes" where
  "enc_dirent d = enc_stat (d_stat d) @ map byte_of (d_name d)
     @ replicate (256 - length (d_name d)) 0 @ replicate 8 0"

interpretation date_struct: packed_struct enc_date dec_date 16
  by unfold_locales (simp_all add: enc_date_def dec_date_def codec_simps)

interpretation stat_struct: packed_struct enc_stat dec_stat 88
  by unfold_locales (simp_all add: enc_stat_def dec_stat_def codec_simps
      date_struct.length_enc date_struct.dec_enc_append)

lemma length_enc_dirent: "length (d_name d) \<le> 256 \<Longrightarrow> length (enc_dirent d) = 352"
  by (simp add: enc_dirent_def stat_struct.length_enc)

section \<open>The globals of the program\<close>

record HostDrive =
  rootdir :: string
  currdir :: string

record FileHandle =
  fh_opened :: bool
  fh_mode :: u32
  fh_name :: "string option"

text \<open>The pointer to the entries of a directory: null, live, or left behind after \<^verbatim>\<open>free\<close>.\<close>

datatype dir_buf = Null | Entries "SceIoDirent list" | Freed

record DirHandle =
  dh_opened :: bool
  dh_count :: nat
  dh_pos :: nat
  dh_pDir :: dir_buf

record host =
  open_files :: "FileHandle list"
  open_dirs :: "DirHandle list"
  g_drives :: "HostDrive list"
  g_rootdir :: string
  g_nocase :: bool
  g_msslash :: bool
  g_clientsocks :: "int list"

definition no_file :: FileHandle where
  "no_file = \<lparr>fh_opened = False, fh_mode = 0, fh_name = None\<rparr>"

definition no_dir :: DirHandle where
  "no_dir = \<lparr>dh_opened = False, dh_count = 0, dh_pos = 0, dh_pDir = Null\<rparr>"

text \<open>\<^verbatim>\<open>init_hostfs\<close>: empty handle tables, every drive at its root.\<close>

definition init_hostfs :: "host \<Rightarrow> host" where
  "init_hostfs h = h\<lparr>open_files := replicate MAX_FILES no_file,
     open_dirs := replicate MAX_DIRS no_dir,
     g_drives := map (\<lambda>d. d\<lparr>currdir := ''/''\<rparr>) (g_drives h)\<rparr>"

end
