(* ===== verification/HostPath.thy ===== *)
theory HostPath
  imports HostOs
begin

text \<open>
  Path handling of \<^verbatim>\<open>usbhostfs_pc/main.c\<close>: \<^verbatim>\<open>gen_path\<close> (normalise), \<^verbatim>\<open>calc_rating\<close>,
  \<^verbatim>\<open>find_nocase\<close>, \<^verbatim>\<open>make_nocase\<close> (case-insensitive lookup) and \<^verbatim>\<open>make_path\<close>, through
  which every path the PSP sends is turned into a path of the PC. The lemmas state what a
  normalised path is and that \<^verbatim>\<open>make_path\<close> never leaves the root directory of its drive.
\<close>

section \<open>gen_path\<close>

abbreviation is_slash :: "char \<Rightarrow> bool" where
  "is_slash c \<equiv> c = CHR ''/''"

text \<open>The tokenising loop: at most \<open>n\<close> tokens are stored, the rest of the path is dropped.\<close>

fun path_tokens :: "nat \<Rightarrow> string \<Rightarrow> string list" where
  "path_tokens 0 s = []"
| "path_tokens (Suc n) s = (case strtok is_slash s of
     None \<Rightarrow> [] | Some (t, r) \<Rightarrow> t # path_tokens n r)"

text \<open>The loop over the tokens, with \<^verbatim>\<open>outtokens[0..pathpos)\<close> as a list.\<close>

definition dot_step :: "string list \<Rightarrow> string \<Rightarrow> string list" where
  "dot_step out t = (if t = ''.'' then out else if t = ''..'' then butlast out else out @ [t])"

definition resolve_dots :: "string list \<Rightarrow> string list" where
  "resolve_dots ts = foldl dot_step [] ts"

text \<open>The loop that writes the path back: a slash after every token but, without \<open>dir\<close>, the last.\<close>

fun emit_tokens :: "bool \<Rightarrow> string list \<Rightarrow> string" where
  "emit_tokens dir [] = []"
| "emit_tokens dir (t # ts) =
     t @ (if dir \<or> ts \<noteq> [] then ''/'' else []) @ emit_tokens dir ts"

definition gen_path :: "string \<Rightarrow> bool \<Rightarrow> string" where
  "gen_path path dir =
     ''/'' @ emit_tokens dir (resolve_dots (path_tokens (MAX_TOKENS - 1) path))"

section \<open>Case-insensitive lookup\<close>

fun calc_rating :: "string \<Rightarrow> string \<Rightarrow> nat" where
  "calc_rating (a # as) (b # bs) = (if a = b then 1 else 0) + calc_rating as bs"
| "calc_rating _ _ = 0"

text \<open>
  The loop over the directory entries: \<open>found\<close>, the best match so far and its rating.
\<close>

fun nocase_scan :: "string \<Rightarrow> string list \<Rightarrow> bool \<times> string \<times> int \<Rightarrow> bool \<times> string \<times> int" where
  "nocase_scan token [] acc = acc"
| "nocase_scan token (e # es) (found, match, rating) =
     nocase_scan token es
       (if strcaseeq e token then
          (let tmp = int (calc_rating token e)
           in if tmp > rating then (True, e, tmp) else (True, match, rating))
        else (found, match, rating))"

definition find_nocase :: "'w os \<Rightarrow> string \<Rightarrow> string \<Rightarrow> string \<Rightarrow> 'w \<Rightarrow> (bool \<times> string) \<times> 'w" where
  "find_nocase os root relpath token w =
     (let (abspath, len) = snprintf PATH_MAX (root @ relpath)
      in if len > PATH_MAX then ((False, token), w)
         else (case os_readdir os abspath w of
             (None, w1) \<Rightarrow> ((False, token), w1)
           | (Some ents, w1) \<Rightarrow>
               (let (found, match, rating) = nocase_scan token ents (False, [], - 1)
                in ((found, if found then match else token), w1))))"

text \<open>The loop of \<^verbatim>\<open>make_nocase\<close>; \<open>None\<close> when it stops before the last token.\<close>

fun nocase_loop :: "'w os \<Rightarrow> string \<Rightarrow> bool \<Rightarrow> string list \<Rightarrow> string \<Rightarrow> 'w \<Rightarrow> string option \<times> 'w" where
  "nocase_loop os root dir [] retpath w = (Some retpath, w)"
| "nocase_loop os root dir (t # ts) retpath w =
     (case find_nocase os root retpath t w of
       ((found, t'), w1) \<Rightarrow>
         if \<not> found \<and> ts \<noteq> [] then (None, w1)
         else nocase_loop os root dir ts
                (retpath @ t' @ (if dir \<or> ts \<noteq> [] then ''/'' else [])) w1)"

definition make_nocase :: "'w os \<Rightarrow> string \<Rightarrow> string \<Rightarrow> bool \<Rightarrow> 'w \<Rightarrow> string \<times> 'w" where
  "make_nocase os root path dir w =
     (case nocase_loop os root dir (path_tokens (MAX_TOKENS - 1) path) ''/'' w of
       (None, w1) \<Rightarrow> (path, w1)
     | (Some ret, w1) \<Rightarrow> (ret, w1))"

section \<open>make_path\<close>

definition backslash_to_slash :: "string \<Rightarrow> string" where
  "backslash_to_slash s = map (\<lambda>c. if c = CHR 0x5C then CHR ''/'' else c) s"

text \<open>
  The result is \<open>None\<close> where the code returns -1. \<^verbatim>\<open>gen_path\<close> writes its result into the
  \<^verbatim>\<open>PATH_MAX\<close> bytes of its argument, which it may exceed: that is \<open>Buffer_Overflow\<close>.
\<close>

definition make_path ::
  "'w os \<Rightarrow> host \<Rightarrow> u32 \<Rightarrow> string \<Rightarrow> bool \<Rightarrow> 'w \<Rightarrow> (string option \<times> 'w) run" where
  "make_path os h drive path dir w =
     (if unat drive \<ge> MAX_HOSTDRIVES then Inr (None, w) else
      case os_lock os w of (locked, w1) \<Rightarrow>
      if \<not> locked then Inr (None, w1) else
      let d = g_drives h ! unat drive;
          hostpath = currdir d @ path
      in if length hostpath \<ge> PATH_MAX then Inr (None, w1) else
      let hostpath1 = (if g_msslash h then backslash_to_slash hostpath else hostpath);
          hostpath2 = gen_path hostpath1 dir
      in if length hostpath2 \<ge> PATH_MAX then Inl Buffer_Overflow else
      case (if g_nocase h then make_nocase os (rootdir d) hostpath2 dir w1 else (hostpath2, w1)) of
        (hostpath3, w2) \<Rightarrow>
      let retpath = rootdir d @ ''/'' @ hostpath3
      in if length retpath \<ge> PATH_MAX then Inr (None, w2) else
      let retpath1 = gen_path retpath dir
      in if length retpath1 \<ge> PATH_MAX then Inl Buffer_Overflow
         else Inr (Some retpath1, w2))"

section \<open>Path components\<close>

text \<open>All tokens of a path; the loop of \<^verbatim>\<open>gen_path\<close> stores a prefix of them.\<close>

definition components :: "string \<Rightarrow> string list" where
  "components s = path_tokens (length s) s"

definition segment :: "string \<Rightarrow> bool" where
  "segment t \<longleftrightarrow> t \<noteq> [] \<and> CHR ''/'' \<notin> set t"

definition plain :: "string \<Rightarrow> bool" where
  "plain t \<longleftrightarrow> segment t \<and> t \<noteq> ''.'' \<and> t \<noteq> ''..''"

lemma plain_segment [simp]: "plain t \<Longrightarrow> segment t"
  by (simp add: plain_def)

lemma strtok_segment: "strtok is_slash s = Some (t, r) \<Longrightarrow> segment t \<and> length r < length s"
  using strtok_Some [of is_slash s t r] by (cases t) (auto simp: segment_def)

lemma segment_strtok:
  assumes "segment t"
  shows "strtok is_slash (t @ CHR ''/'' # r) = Some (t, r)" and "strtok is_slash t = Some (t, [])"
  using strtok_token [of t is_slash] assms by (auto simp: segment_def)

lemma path_tokens_Nil [simp]: "path_tokens n [] = []"
  by (cases n) simp_all

lemma path_tokens_fuel:
  "length s \<le> m \<Longrightarrow> length s \<le> n \<Longrightarrow> path_tokens m s = path_tokens n s"
proof (induction m arbitrary: n s)
  case 0
  then show ?case by simp
next
  case (Suc m)
  show ?case
  proof (cases "strtok is_slash s")
    case None
    then show ?thesis by (cases n) simp_all
  next
    case (Some p)
    obtain t r where p: "p = (t, r)" by fastforce
    then have r: "length r < length s" using Some strtok_segment by simp
    with Suc.prems obtain k where k: "n = Suc k" by (cases n) auto
    have "path_tokens m r = path_tokens k r" by (rule Suc.IH) (use r k Suc.prems in simp_all)
    then show ?thesis by (simp add: k Some p)
  qed
qed

lemma path_tokens_enough: "length s \<le> n \<Longrightarrow> path_tokens n s = components s"
  unfolding components_def by (rule path_tokens_fuel) simp_all

lemma components_unfold:
  "components s = (case strtok is_slash s of None \<Rightarrow> [] | Some (t, r) \<Rightarrow> t # components r)"
proof (cases "strtok is_slash s")
  case None
  then show ?thesis by (cases "length s") (simp_all add: components_def)
next
  case (Some p)
  obtain t r where p: "p = (t, r)" by fastforce
  have "length r < length s" using Some p strtok_segment by simp
  then obtain n where n: "length s = Suc n" by (cases "length s") auto
  with \<open>length r < length s\<close> have "path_tokens n r = components r" by (simp add: path_tokens_enough)
  with Some p n show ?thesis by (simp add: components_def)
qed

lemma components_Nil [simp]: "components [] = []"
  by (simp add: components_def)

lemma path_tokens_components: "path_tokens n s = take n (components s)"
proof (induction n arbitrary: s)
  case 0
  then show ?case by simp
next
  case (Suc n)
  then show ?case
    by (subst components_unfold) (auto split: option.splits)
qed

lemma components_segment: "t \<in> set (components s) \<Longrightarrow> segment t"
proof (induction s rule: length_induct)
  case (1 s)
  show ?case
  proof (cases "strtok is_slash s")
    case None
    then show ?thesis using 1 by (subst (asm) (2) components_unfold) simp
  next
    case (Some p)
    obtain u r where p: "p = (u, r)" by fastforce
    have "t \<in> set (u # components r)" using 1(2) by (simp add: components_unfold [of s] Some p)
    then show ?thesis using 1(1) strtok_segment [of s u r] Some p by auto
  qed
qed

lemma components_slash [simp]: "components (CHR ''/'' # s) = components s"
  by (subst (1 2) components_unfold) simp

lemma components_slashes: "\<forall>c \<in> set pre. is_slash c \<Longrightarrow> components (pre @ s) = components s"
  by (induction pre) simp_all

lemma components_seg_slash: "segment t \<Longrightarrow> components (t @ CHR ''/'' # s) = t # components s"
  by (subst components_unfold) (simp add: segment_strtok)

lemma components_seg: "segment t \<Longrightarrow> components t = [t]"
  by (subst components_unfold) (simp add: segment_strtok)

lemma components_append:
  "components (a @ CHR ''/'' # b) = components a @ components b"
proof (induction a rule: length_induct)
  case (1 a)
  show ?case
  proof (cases "strtok is_slash a")
    case None
    then have "\<forall>c \<in> set a. is_slash c" by (simp add: strtok_None)
    then have "components (a @ CHR ''/'' # b) = components b" "components a = []"
      using components_slashes [of a "CHR ''/'' # b"] components_slashes [of a "[]"] by simp_all
    then show ?thesis by simp
  next
    case (Some p)
    obtain t r where p: "p = (t, r)" by fastforce
    note t = Some [unfolded p]
    have seg: "segment t" and len: "length r < length a" using strtok_segment [OF t] by simp_all
    from t show ?thesis
    proof (cases rule: strtok_split)
      case (1 pre)
      then show ?thesis by (simp add: components_slashes components_seg_slash components_seg seg)
    next
      case (2 pre x)
      then have "components (a @ CHR ''/'' # b) = t # components (r @ CHR ''/'' # b)"
        and "components a = t # components r"
        by (simp_all add: components_slashes components_seg_slash seg)
      then show ?thesis using 1 len by simp
    qed
  qed
qed

lemma components_emit:
  "\<forall>t \<in> set ts. segment t \<Longrightarrow> components (emit_tokens dir ts) = ts"
proof (induction ts)
  case Nil
  then show ?case by simp
next
  case (Cons t ts)
  then show ?case
    by (cases "dir \<or> ts \<noteq> []") (auto simp: components_seg_slash components_seg)
qed

section \<open>What a normalised path is\<close>

lemma dot_step_simps [path_simps]:
  "dot_step out ''.'' = out" "dot_step out ''..'' = butlast out" "plain t \<Longrightarrow> dot_step out t = out @ [t]"
  by (simp_all add: dot_step_def plain_def)

lemma foldl_dot_plain:
  "\<forall>t \<in> set ts. segment t \<Longrightarrow> \<forall>t \<in> set out. plain t \<Longrightarrow> \<forall>t \<in> set (foldl dot_step out ts). plain t"
proof (induction ts arbitrary: out)
  case Nil
  then show ?case by simp
next
  case (Cons t ts)
  have "\<forall>u \<in> set (dot_step out t). plain u"
    using Cons.prems by (auto simp: dot_step_def plain_def dest: in_set_butlastD)
  with Cons show ?case by simp
qed

lemma foldl_dot_append: "\<forall>t \<in> set ts. plain t \<Longrightarrow> foldl dot_step out ts = out @ ts"
  by (induction ts arbitrary: out) (simp_all add: path_simps)

lemma resolve_dots_plain: "\<forall>t \<in> set ts. segment t \<Longrightarrow> \<forall>t \<in> set (resolve_dots ts). plain t"
  using foldl_dot_plain [of ts "[]"] by (simp add: resolve_dots_def)

lemma resolve_dots_id: "\<forall>t \<in> set ts. plain t \<Longrightarrow> resolve_dots ts = ts"
  by (simp add: resolve_dots_def foldl_dot_append)

lemma resolve_dots_append_plain:
  "\<forall>t \<in> set ys. plain t \<Longrightarrow> resolve_dots (xs @ ys) = resolve_dots xs @ ys"
  by (simp add: resolve_dots_def foldl_dot_append)

lemma length_foldl_dot: "length (foldl dot_step out ts) \<le> length out + length ts"
proof (induction ts arbitrary: out)
  case (Cons t ts)
  have "length (dot_step out t) \<le> Suc (length out)" by (auto simp: dot_step_def)
  with Cons [of "dot_step out t"] show ?case by simp
qed simp

lemma components_gen_path:
  "components (gen_path p dir) = resolve_dots (take 255 (components p))"
proof -
  let ?ts = "take 255 (components p)"
  have "\<forall>t \<in> set ?ts. segment t" by (auto dest: in_set_takeD components_segment)
  then have "\<forall>t \<in> set (resolve_dots ?ts). segment t" using resolve_dots_plain plain_segment by blast
  then show ?thesis
    by (simp add: gen_path_def MAX_TOKENS_def path_tokens_components components_emit)
qed

lemma gen_path_plain: "t \<in> set (components (gen_path p dir)) \<Longrightarrow> plain t"
proof -
  have "\<forall>t \<in> set (take 255 (components p)). segment t" by (auto dest: in_set_takeD components_segment)
  then show "t \<in> set (components (gen_path p dir)) \<Longrightarrow> plain t"
    using resolve_dots_plain by (simp add: components_gen_path)
qed

lemma length_components_gen_path: "length (components (gen_path p dir)) \<le> 255"
  using length_foldl_dot [of "[]" "take 255 (components p)"]
  by (simp add: components_gen_path resolve_dots_def)

text \<open>A path that \<^verbatim>\<open>gen_path\<close> returns is determined by its components.\<close>

lemma gen_path_emit: "gen_path p dir = ''/'' @ emit_tokens dir (components (gen_path p dir))"
proof -
  have "gen_path p dir = ''/'' @ emit_tokens dir (resolve_dots (take 255 (components p)))"
    by (simp add: gen_path_def MAX_TOKENS_def path_tokens_components)
  then show ?thesis by (subst components_gen_path)
qed

lemma gen_path_idem: "gen_path (gen_path p d1) d2 = ''/'' @ emit_tokens d2 (components (gen_path p d1))"
proof -
  have "resolve_dots (take 255 (components (gen_path p d1))) = components (gen_path p d1)"
    using gen_path_plain length_components_gen_path [of p d1] by (simp add: resolve_dots_id)
  then show ?thesis by (simp add: gen_path_def MAX_TOKENS_def path_tokens_components)
qed

section \<open>Case-insensitive lookup: the best match\<close>

lemma calc_rating_le: "calc_rating a b \<le> length a"
  by (induction a b rule: calc_rating.induct) auto

lemma calc_rating_self [simp]: "calc_rating a a = length a"
  by (induction a) simp_all

lemma calc_rating_full: "length a = length b \<Longrightarrow> calc_rating a b = length a \<Longrightarrow> a = b"
proof (induction a b rule: calc_rating.induct)
  case (1 a as b bs)
  have "calc_rating as bs \<le> length as" by (rule calc_rating_le)
  with 1 show ?case by (auto split: if_splits)
qed auto

lemma nocase_scan_Cons:
  "nocase_scan token (e # es) (f, m, r) = nocase_scan token es
     (if strcaseeq e token then
        if int (calc_rating token e) > r then (True, e, int (calc_rating token e)) else (True, m, r)
      else (f, m, r))"
  by (simp add: Let_def)

lemma nocase_scan_spec:
  "nocase_scan token es (f, m, r) = (f', m', r') \<Longrightarrow>
     f' = (f \<or> (\<exists>e \<in> set es. strcaseeq e token)) \<and> r \<le> r'
   \<and> (\<forall>e \<in> set es. strcaseeq e token \<longrightarrow> int (calc_rating token e) \<le> r')
   \<and> (m' = m \<and> r' = r \<or> m' \<in> set es \<and> strcaseeq m' token \<and> r' = int (calc_rating token m'))"
proof (induction es arbitrary: f m r)
  case Nil
  then show ?case by simp
next
  case (Cons e es)
  let ?t = "int (calc_rating token e)"
  obtain f1 m1 r1 where acc:
    "(if strcaseeq e token then if ?t > r then (True, e, ?t) else (True, m, r) else (f, m, r)) = (f1, m1, r1)"
    by (metis prod_cases3)
  have "nocase_scan token es (f1, m1, r1) = (f', m', r')"
    using Cons.prems by (simp only: nocase_scan_Cons acc)
  from Cons.IH [OF this] show ?case using acc by (auto split: if_splits)
qed

lemma nocase_scan_start:
  assumes "nocase_scan token es (False, [], - 1) = (f, m, r)"
  shows "f \<longleftrightarrow> (\<exists>e \<in> set es. strcaseeq e token)"
    and "f \<Longrightarrow> m \<in> set es \<and> strcaseeq m token
           \<and> (\<forall>e \<in> set es. strcaseeq e token \<longrightarrow> calc_rating token e \<le> calc_rating token m)"
proof -
  note sp = nocase_scan_spec [OF assms]
  show f: "f \<longleftrightarrow> (\<exists>e \<in> set es. strcaseeq e token)" using sp by simp
  assume "f"
  then obtain e where "e \<in> set es" "strcaseeq e token" using f by blast
  with sp have "r \<noteq> - 1" by fastforce
  with sp have "m \<in> set es \<and> strcaseeq m token \<and> r = int (calc_rating token m)" by blast
  with sp show "m \<in> set es \<and> strcaseeq m token
      \<and> (\<forall>e \<in> set es. strcaseeq e token \<longrightarrow> calc_rating token e \<le> calc_rating token m)" by auto
qed

lemma find_nocase_cases:
  assumes "find_nocase os root rel token w = ((found, t'), w1)"
  shows "found \<Longrightarrow> strcaseeq t' token" and "\<not> found \<Longrightarrow> t' = token"
  using assms nocase_scan_start(2) [of token _ found]
  by (auto simp: find_nocase_def snprintf_def Let_def split: if_splits option.splits prod.splits)

lemma find_nocase_strcaseeq:
  "find_nocase os root rel token w = ((found, t'), w1) \<Longrightarrow> strcaseeq t' token"
  using find_nocase_cases [of os root rel token w found t' w1] by (cases found) auto

section \<open>Components survive the lookup\<close>

lemma c_tolower_low: "(of_char (c_tolower c) :: nat) < 65 \<Longrightarrow> c_tolower c = c"
proof -
  assume a: "(of_char (c_tolower c) :: nat) < 65"
  have "(of_char c :: nat) < 256" by simp
  with a show ?thesis by (auto simp: c_tolower_def split: if_splits)
qed

lemma c_tolower_slash [simp]: "c_tolower c = CHR ''/'' \<longleftrightarrow> c = CHR ''/''"
  using c_tolower_low [of c] by (auto simp: c_tolower_def)

lemma c_tolower_dot [simp]: "c_tolower c = CHR ''.'' \<longleftrightarrow> c = CHR ''.''"
  using c_tolower_low [of c] by (auto simp: c_tolower_def)

lemma strcaseeq_slash: "strcaseeq a b \<Longrightarrow> CHR ''/'' \<in> set a \<Longrightarrow> CHR ''/'' \<in> set b"
proof -
  assume e: "strcaseeq a b" and "CHR ''/'' \<in> set a"
  then have "c_tolower (CHR ''/'') \<in> set (map c_tolower a)" by simp
  moreover have "c_tolower (CHR ''/'') = CHR ''/''" by simp
  ultimately have "CHR ''/'' \<in> set (map c_tolower a)" by simp
  also have "map c_tolower a = map c_tolower b" using e by (simp only: strcaseeq_def)
  finally have "CHR ''/'' \<in> c_tolower ` set b" by simp
  then obtain c where c: "CHR ''/'' = c_tolower c" "c \<in> set b" by (rule imageE)
  then have "c = CHR ''/''" using c_tolower_slash [of c] by metis
  with c(2) show ?thesis by simp
qed

lemma strcaseeq_dots:
  "strcaseeq ''.'' b \<Longrightarrow> b = ''.''" "strcaseeq ''..'' b \<Longrightarrow> b = ''..''"
proof -
  have d: "c_tolower CHR ''.'' = CHR ''.''" by simp
  have h: "c = CHR ''.''" if "CHR ''.'' = c_tolower c" for c using that c_tolower_dot [of c] by simp
  show "strcaseeq ''.'' b \<Longrightarrow> b = ''.''" "strcaseeq ''..'' b \<Longrightarrow> b = ''..''"
    unfolding strcaseeq_def list.map d by (auto simp: Cons_eq_map_conv intro: h)
qed

lemma strcaseeq_plain: "strcaseeq a b \<Longrightarrow> plain b \<Longrightarrow> plain a"
  using strcaseeq_length [of a b] strcaseeq_slash [of a b] strcaseeq_dots [of b]
  by (auto simp: plain_def segment_def)

lemma nocase_loop_emit:
  "nocase_loop os root dir ts ret w = (Some r, w1)
     \<Longrightarrow> \<exists>ts'. r = ret @ emit_tokens dir ts' \<and> list_all2 strcaseeq ts' ts"
proof (induction ts arbitrary: ret w)
  case Nil
  then show ?case by simp
next
  case (Cons t ts)
  obtain found t' w2 where f: "find_nocase os root ret t w = ((found, t'), w2)" by (metis prod_cases3 surj_pair)
  have n: "nocase_loop os root dir ts (ret @ t' @ (if dir \<or> ts \<noteq> [] then ''/'' else [])) w2 = (Some r, w1)"
  proof (cases "\<not> found \<and> ts \<noteq> []")
    case True
    then show ?thesis using Cons.prems by (simp add: f)
  next
    case False
    then have "nocase_loop os root dir (t # ts) ret w
        = nocase_loop os root dir ts (ret @ t' @ (if dir \<or> ts \<noteq> [] then ''/'' else [])) w2"
      by (simp only: nocase_loop.simps f prod.case if_False)
    then show ?thesis using Cons.prems by simp
  qed
  from Cons.IH [OF n] obtain ts' where
    r: "r = (ret @ t' @ (if dir \<or> ts \<noteq> [] then ''/'' else [])) @ emit_tokens dir ts'"
    and eq: "list_all2 strcaseeq ts' ts" by blast
  have "ts' = [] \<longleftrightarrow> ts = []" using eq by (metis list_all2_lengthD length_0_conv)
  then have "r = ret @ emit_tokens dir (t' # ts')" using r by simp
  moreover have "list_all2 strcaseeq (t' # ts') (t # ts)" using find_nocase_strcaseeq [OF f] eq by simp
  ultimately show ?case by blast
qed

lemma make_nocase_spec:
  assumes "make_nocase os root (gen_path q dir) dir w = (p, w1)"
  shows "\<exists>ts. p = ''/'' @ emit_tokens dir ts
           \<and> list_all2 strcaseeq ts (components (gen_path q dir)) \<and> (\<forall>t \<in> set ts. plain t)"
proof -
  let ?cs = "components (gen_path q dir)"
  have plain: "\<forall>t \<in> set ?cs. plain t" using gen_path_plain by blast
  have tok: "path_tokens (MAX_TOKENS - Suc 0) (gen_path q dir) = ?cs"
    using length_components_gen_path [of q dir] by (simp add: MAX_TOKENS_def path_tokens_components)
  have refl: "list_all2 strcaseeq ?cs ?cs" by (simp add: list.rel_refl)
  obtain ts where "p = ''/'' @ emit_tokens dir ts" and eq: "list_all2 strcaseeq ts ?cs"
  proof (cases "nocase_loop os root dir ?cs ''/'' w")
    case (Pair res w2)
    show ?thesis
    proof (cases res)
      case None
      then have "p = gen_path q dir" using assms Pair by (simp add: make_nocase_def tok)
      then show ?thesis using that [of ?cs] refl gen_path_emit [of q dir] by simp
    next
      case (Some r)
      then have "p = r" using assms Pair by (simp add: make_nocase_def tok)
      then show ?thesis using that nocase_loop_emit [of os root dir ?cs "''/''" w r w2] Pair Some by auto
    qed
  qed
  moreover have "\<forall>t \<in> set ts. plain t"
    using eq plain by (metis in_set_conv_nth list_all2_conv_all_nth strcaseeq_plain)
  ultimately show ?thesis by blast
qed

section \<open>make_path stays under the root of the drive\<close>

text \<open>
  The root directories are absolute normalised paths: \<^verbatim>\<open>add_drive\<close> and \<^verbatim>\<open>parse_args\<close> store
  what \<^verbatim>\<open>gen_path\<close> returned.
\<close>

definition clean_root :: "string \<Rightarrow> bool" where
  "clean_root r \<longleftrightarrow> (\<forall>t \<in> set (components r). plain t) \<and> length (components r) \<le> 255"

lemma gen_path_clean_root: "clean_root (gen_path p d)"
  using gen_path_plain length_components_gen_path by (auto simp: clean_root_def)

lemma components_root_slash:
  "\<forall>t \<in> set ts. plain t \<Longrightarrow> components (r @ CHR ''/'' # CHR ''/'' # emit_tokens dir ts) = components r @ ts"
  by (simp add: components_append components_emit)

lemma gen_path_under_root:
  assumes "clean_root r" and "\<forall>t \<in> set ts. plain t"
  shows "components (gen_path (r @ CHR ''/'' # CHR ''/'' # emit_tokens dir ts) d)
           = components r @ take (255 - length (components r)) ts"
proof -
  have "\<forall>t \<in> set (take (255 - length (components r)) ts). plain t" using assms(2) by (auto dest: in_set_takeD)
  then show ?thesis
    using assms by (simp add: components_gen_path components_root_slash clean_root_def resolve_dots_id
        resolve_dots_append_plain)
qed

lemma make_path_result:
  assumes "make_path os h drive path dir w = Inr (Some p, w1)"
  obtains ts where "unat drive < MAX_HOSTDRIVES" and "\<forall>t \<in> set ts. plain t"
    and "p = gen_path (rootdir (g_drives h ! unat drive) @ CHR ''/'' # CHR ''/'' # emit_tokens dir ts) dir"
    and "length p < PATH_MAX"
proof -
  let ?d = "g_drives h ! unat drive"
  let ?q0 = "currdir ?d @ path"
  let ?q = "gen_path (if g_msslash h then backslash_to_slash ?q0 else ?q0) dir"
  obtain w2 p3 w3 where n: "(if g_nocase h then make_nocase os (rootdir ?d) ?q dir w2 else (?q, w2)) = (p3, w3)"
    and drive: "unat drive < MAX_HOSTDRIVES" and len: "length p < PATH_MAX"
    and p: "p = gen_path (rootdir ?d @ ''/'' @ p3) dir"
    using assms by (auto simp: make_path_def Let_def split: if_splits prod.splits)
  obtain ts where ts: "p3 = ''/'' @ emit_tokens dir ts" "\<forall>t \<in> set ts. plain t"
  proof (cases "g_nocase h")
    case True
    with n have "make_nocase os (rootdir ?d) ?q dir w2 = (p3, w3)" by simp
    from make_nocase_spec [OF this] that show ?thesis by blast
  next
    case False
    with n have "p3 = ?q" by simp
    moreover have "?q = ''/'' @ emit_tokens dir (components ?q)" by (rule gen_path_emit)
    ultimately show ?thesis using that [of "components ?q"] gen_path_plain by metis
  qed
  show thesis using that [OF drive ts(2) _ len] p ts(1) by simp
qed

lemma make_path_components:
  assumes "make_path os h drive path dir w = Inr (Some p, w1)"
    and "clean_root (rootdir (g_drives h ! unat drive))"
  shows "\<exists>rest. components p = components (rootdir (g_drives h ! unat drive)) @ rest
           \<and> (\<forall>t \<in> set rest. plain t)"
proof -
  from assms(1) obtain ts where ts: "\<forall>t \<in> set ts. plain t"
    and p: "p = gen_path (rootdir (g_drives h ! unat drive) @ CHR ''/'' # CHR ''/'' # emit_tokens dir ts) dir"
    by (rule make_path_result)
  have "\<forall>t \<in> set (take n ts). plain t" for n using ts by (auto dest: in_set_takeD)
  then show ?thesis using gen_path_under_root [OF assms(2) ts] p by blast
qed

end
