(* ===== verification/Demo.thy ===== *)
theory Demo
  imports HostPath
begin

text \<open>
  A small world on which the properties are applied to concrete inputs: packets waiting on the
  USB pipe, packets sent, the unread part of one file, the bytes written to another, a text
  file. A transfer moves at most two bytes and is interrupted \<open>d_eintr\<close> times.
\<close>

record demo =
  d_in :: "bytes list"
  d_out :: "bytes list"
  d_rest :: bytes
  d_file :: bytes
  d_eintr :: nat
  d_text :: string

definition demo_world :: demo where
  "demo_world = \<lparr>d_in = [], d_out = [], d_rest = [1, 2, 3, 4, 5], d_file = [], d_eintr = 1, d_text = []\<rparr>"

definition demo_read :: "nat \<Rightarrow> nat \<Rightarrow> demo \<Rightarrow> (nat + bytes) \<times> demo" where
  "demo_read fd n w = (if d_eintr w > 0 then (Inl EINTR, w\<lparr>d_eintr := d_eintr w - 1\<rparr>)
     else (Inr (take (min n 2) (d_rest w)), w\<lparr>d_rest := drop (min n 2) (d_rest w)\<rparr>))"

definition demo_write :: "nat \<Rightarrow> bytes \<Rightarrow> demo \<Rightarrow> (nat + nat) \<times> demo" where
  "demo_write fd bs w = (if d_eintr w > 0 then (Inl EINTR, w\<lparr>d_eintr := d_eintr w - 1\<rparr>)
     else (Inr (min (length bs) 2), w\<lparr>d_file := d_file w @ take 2 bs\<rparr>))"

definition demo_stat :: host_stat where
  "demo_stat = \<lparr>sb_mode = 0x81FF, sb_size = 5, sb_ctime = 0, sb_atime = 0, sb_mtime = 0\<rparr>"

definition demo_os :: "demo os" where
  "demo_os = \<lparr>
     os_open = (\<lambda>p f m w. (Inr 3, w)),
     os_close = (\<lambda>fd w. (Inr (), w)),
     os_read = demo_read,
     os_write = demo_write,
     os_lseek = (\<lambda>fd ofs wh w. (ofs, w)),
     os_unlink = (\<lambda>p w. (Inr (), w)),
     os_rmdir = (\<lambda>p w. (Inr (), w)),
     os_mkdir = (\<lambda>p m w. (Inr (), w)),
     os_rename = (\<lambda>p q w. (Inr (), w)),
     os_stat = (\<lambda>p w. (Inr demo_stat, w)),
     os_chmod = (\<lambda>p m w. (Inr (), w)),
     os_utime = (\<lambda>p a m w. (Inr (), w)),
     os_statvfs = (\<lambda>p w. (Inl ENOENT, w)),
     os_scandir = (\<lambda>p w. (Inr [''.'', ''a.txt''], w)),
     os_readdir = (\<lambda>p w. (Some [''game'', ''GAME''], w)),
     os_errno = (\<lambda>w. ENOENT),
     os_localtime = (\<lambda>t. \<lparr>tm_year = 70, tm_mon = 0, tm_mday = 1, tm_hour = 0, tm_min = 0, tm_sec = 0\<rparr>),
     os_mktime = (\<lambda>t. 0),
     os_usb_read = (\<lambda>ep n w. case d_in w of [] \<Rightarrow> ((0, []), w)
        | p # ps \<Rightarrow> ((int (length p), p), w\<lparr>d_in := ps\<rparr>)),
     os_usb_write = (\<lambda>ep bs w. (int (length bs), w\<lparr>d_out := d_out w @ [bs]\<rparr>)),
     os_lock = (\<lambda>w. (True, w)),
     os_chdir = (\<lambda>p w. (Some p, w)),
     os_get_text = (\<lambda>p w. (Some (d_text w), w)),
     os_put_text = (\<lambda>p t w. (True, w\<lparr>d_text := t\<rparr>))\<rparr>"

definition demo_drive :: HostDrive where
  "demo_drive = \<lparr>rootdir = ''/psp'', currdir = ''/''\<rparr>"

definition demo_host :: host where
  "demo_host = \<lparr>open_files = replicate MAX_FILES no_file, open_dirs = replicate MAX_DIRS no_dir,
     g_drives = replicate MAX_HOSTDRIVES demo_drive, g_rootdir = ''/home'', g_nocase = False,
     g_msslash = False, g_clientsocks = replicate 8 (- 1)\<rparr>"

text \<open>Descriptor 3 open for reading.\<close>

definition demo_open :: host where
  "demo_open = demo_host\<lparr>open_files := (open_files demo_host)[3 :=
     \<lparr>fh_opened = True, fh_mode = 1, fh_name = Some ''/psp/a''\<rparr>]\<rparr>"

lemma demo_simps [simp]:
  "os_lock demo_os w = (True, w)" "os_read demo_os = demo_read" "os_write demo_os = demo_write"
  "os_close demo_os fd w = (Inr (), w)" "os_readdir demo_os p w = (Some [''game'', ''GAME''], w)"
  "os_usb_write demo_os ep bs w = (int (length bs), w\<lparr>d_out := d_out w @ [bs]\<rparr>)"
  by (simp_all add: demo_os_def)

lemma demo_root: "components ''psp'' = [''psp'']" "components ''/psp'' = [''psp'']"
  by code_simp+

end
