(* ===== verification/HostPathProps.thy ===== *)
theory HostPathProps
  imports Demo
begin

text \<open>
  Properties of the path component of the PC server: normal form, best case-insensitive
  match, confinement to the root directory of the drive, and the size of the buffers.
\<close>

section \<open>Sizes\<close>

definition seg_weight :: "string list \<Rightarrow> nat" where
  "seg_weight ts = sum_list (map (\<lambda>t. length t + 1) ts)"

lemma seg_weight_simps [simp]:
  "seg_weight [] = 0" "seg_weight (t # ts) = length t + 1 + seg_weight ts"
  "seg_weight (xs @ ys) = seg_weight xs + seg_weight ys"
  by (simp_all add: seg_weight_def)

lemma length_emit_dir: "length (emit_tokens True ts) = seg_weight ts"
  by (induction ts) simp_all

lemma length_emit_file: "length (emit_tokens False ts) = seg_weight ts - 1"
proof (induction ts)
  case (Cons t ts)
  then show ?case by (cases ts) auto
qed simp

lemma seg_weight_components: "seg_weight (components s) \<le> length s + 1"
proof (induction s rule: length_induct)
  case (1 s)
  show ?case
  proof (cases "strtok is_slash s")
    case None
    then show ?thesis by (subst components_unfold) simp
  next
    case (Some p)
    obtain t r where p: "p = (t, r)" by fastforce
    note t = Some [unfolded p]
    have r: "seg_weight (components r) \<le> length r + 1" using 1 strtok_segment [OF t] by simp
    have s: "seg_weight (components s) = length t + 1 + seg_weight (components r)"
      by (subst components_unfold) (simp add: t)
    from t show ?thesis
    proof (cases rule: strtok_split)
      case (1 pre)
      then show ?thesis using s by simp
    next
      case (2 pre x)
      then show ?thesis using s r by simp
    qed
  qed
qed

lemma seg_weight_butlast: "seg_weight (butlast ts) \<le> seg_weight ts"
  by (cases ts rule: rev_cases) simp_all

lemma seg_weight_take: "seg_weight (take n ts) \<le> seg_weight ts"
  by (metis append_take_drop_id le_add1 seg_weight_simps(3))

lemma seg_weight_foldl: "seg_weight (foldl dot_step out ts) \<le> seg_weight out + seg_weight ts"
proof (induction ts arbitrary: out)
  case (Cons t ts)
  have "seg_weight (dot_step out t) \<le> seg_weight out + length t + 1"
    using seg_weight_butlast [of out] by (auto simp: dot_step_def)
  with Cons [of "dot_step out t"] show ?case by simp
qed simp

lemma seg_weight_gen_path: "seg_weight (components (gen_path p d)) \<le> seg_weight (components p)"
  using seg_weight_foldl [of "[]" "take 255 (components p)"] seg_weight_take [of 255 "components p"]
  by (simp add: components_gen_path resolve_dots_def)

text \<open>The buffer \<^verbatim>\<open>gen_path\<close> rewrites: one byte more than the argument when it adds a slash.\<close>

lemma length_gen_path_file:
  "length (gen_path (CHR ''/'' # p) False) \<le> length (CHR ''/'' # p)"
proof -
  let ?q = "CHR ''/'' # p"
  have "length (gen_path ?q False) = 1 + (seg_weight (components (gen_path ?q False)) - 1)"
    by (subst gen_path_emit) (simp add: length_emit_file)
  also have "\<dots> \<le> 1 + length p"
    using seg_weight_gen_path [of ?q False] seg_weight_components [of p] by simp
  finally show ?thesis by simp
qed

text \<open>Without a slash to begin with, the result is longer than the argument only when there was nothing to normalise.\<close>

lemma weight_full: "seg_weight (components s) = length s + 1 \<Longrightarrow> emit_tokens False (components s) = s"
proof (induction s rule: length_induct)
  case (1 s)
  show ?case
  proof (cases "strtok is_slash s")
    case None
    then show ?thesis using 1(2) by (simp add: components_unfold [of s])
  next
    case (Some p)
    obtain t r where p: "p = (t, r)" by fastforce
    note t = Some [unfolded p]
    have c: "components s = t # components r" by (simp add: components_unfold [of s] t)
    from t show ?thesis
    proof (cases rule: strtok_split)
      case (1 pre)
      then show ?thesis using c "1.prems" by simp
    next
      case (2 pre x)
      then have w: "seg_weight (components r) = length r + 1" "pre = []"
        using c "1.prems" seg_weight_components [of r] by simp_all
      then have "emit_tokens False (components r) = r" using "1.IH" 2 by simp
      moreover have "components r \<noteq> []" using w(1) by auto
      ultimately show ?thesis using 2 c w(2) by simp
    qed
  qed
qed

lemma foldl_dot_full:
  "seg_weight (foldl dot_step out ts) = seg_weight out + seg_weight ts \<Longrightarrow> foldl dot_step out ts = out @ ts"
proof (induction ts arbitrary: out)
  case (Cons t ts)
  have le: "seg_weight (foldl dot_step (dot_step out t) ts) \<le> seg_weight (dot_step out t) + seg_weight ts"
    by (rule seg_weight_foldl)
  have "dot_step out t = out @ [t]"
  proof (rule ccontr)
    assume "dot_step out t \<noteq> out @ [t]"
    then have "seg_weight (dot_step out t) \<le> seg_weight out"
      using seg_weight_butlast [of out] by (auto simp: dot_step_def split: if_splits)
    then show False using le Cons.prems by simp
  qed
  then show ?case using Cons.IH [of "out @ [t]"] Cons.prems by simp
qed simp

lemma longer_gen_path:
  assumes "length q < length (gen_path q False)"
  shows "gen_path q False = CHR ''/'' # q"
proof -
  let ?cs = "components q" and ?ts = "components (gen_path q False)"
  have emit: "gen_path q False = CHR ''/'' # emit_tokens False ?ts" using gen_path_emit [of q False] by simp
  have ts: "?ts = foldl dot_step [] (take 255 ?cs)" by (simp add: components_gen_path resolve_dots_def)
  have "length (gen_path q False) = 1 + (seg_weight ?ts - 1)" by (subst emit) (simp add: length_emit_file)
  then have len: "length q \<le> seg_weight ?ts - 1" using assms by simp
  have le: "seg_weight ?ts \<le> seg_weight (take 255 ?cs)" "seg_weight (take 255 ?cs) \<le> seg_weight ?cs"
    "seg_weight ?cs \<le> length q + 1"
    using seg_weight_foldl [of "[]" "take 255 ?cs"] seg_weight_take seg_weight_components unfolding ts by simp_all
  show ?thesis
  proof (cases "q = []")
    case True
    then have e: "?ts = []" unfolding ts by simp
    show ?thesis using emit unfolding e by (simp add: True)
  next
    case False
    then have "seg_weight ?ts = length q + 1" using len le by (cases q) simp_all
    then have w: "seg_weight ?ts = seg_weight (take 255 ?cs)" "seg_weight (take 255 ?cs) = seg_weight ?cs"
      "seg_weight ?cs = length q + 1" using le by simp_all
    have "take 255 ?cs = ?cs"
    proof -
      have "seg_weight (take 255 ?cs) + seg_weight (drop 255 ?cs) = seg_weight ?cs"
        by (metis append_take_drop_id seg_weight_simps(3))
      then have "drop 255 ?cs = []" using w(2) by (cases "drop 255 ?cs") simp_all
      then show ?thesis by simp
    qed
    moreover have "?ts = take 255 ?cs" using foldl_dot_full [of "[]" "take 255 ?cs"] w(1) by (simp add: ts)
    ultimately show ?thesis using weight_full [OF w(3)] emit by simp
  qed
qed

lemma length_make_nocase:
  assumes "make_nocase os root (gen_path q d) d w = (p, w1)"
  shows "length p = length (gen_path q d)"
proof -
  from make_nocase_spec [OF assms] obtain ts where p: "p = ''/'' @ emit_tokens d ts"
    and eq: "list_all2 strcaseeq ts (components (gen_path q d))" by blast
  from eq have "seg_weight ts = seg_weight (components (gen_path q d))"
    by (induction rule: list_all2_induct) (simp_all add: strcaseeq_length)
  moreover have "length (gen_path q d) = 1 + length (emit_tokens d (components (gen_path q d)))"
    by (subst gen_path_emit) simp
  ultimately show ?thesis by (cases d) (simp_all add: p length_emit_dir length_emit_file)
qed

section \<open>Properties\<close>

text \<open>C7: Whatever path the PSP sends (dots, backslashes, several slashes, with or without the
  case-insensitive lookup), a path that make_path returns for a drive whose root is a
  normalised path lies under that root: its components are those of the root followed by
  components that are neither "." nor "..".\<close>

theorem make_path_sandbox:
  assumes "make_path os h drive path dir w = Inr (Some p, w1)"
    and "clean_root (rootdir (g_drives h ! unat drive))"
  shows "\<exists>rest. components p = components (rootdir (g_drives h ! unat drive)) @ rest
           \<and> list_all plain rest"
  using make_path_components [OF assms] by (simp add: list_all_iff)

theorem make_path_sandbox_witness:
  "make_path demo_os demo_host 0 ''../../etc/./passwd'' False demo_world = Inr (Some ''/psp/etc/passwd'', demo_world)
   \<and> (\<exists>rest. components ''/psp/etc/passwd'' = components ''/psp'' @ rest \<and> list_all plain rest)"
proof -
  have m: "make_path demo_os demo_host 0 ''../../etc/./passwd'' False demo_world
      = Inr (Some ''/psp/etc/passwd'', demo_world)" by code_simp
  have "clean_root (rootdir (g_drives demo_host ! unat (0 :: u32)))"
    by (simp add: demo_host_def demo_drive_def demo_root clean_root_def MAX_HOSTDRIVES_def plain_def segment_def)
  from make_path_sandbox [OF m this] m show ?thesis
    by (simp add: demo_host_def demo_drive_def MAX_HOSTDRIVES_def)
qed

text \<open>Gen_path returns an absolute path whose components are the result of resolving "." and
  ".." in the first 255 components of its argument; none of them is "." or ".." and
  normalising again changes nothing.\<close>

theorem gen_path_normalises:
  "components (gen_path p d) = resolve_dots (take 255 (components p))
   \<and> list_all plain (components (gen_path p d))
   \<and> gen_path (gen_path p d) d = gen_path p d"
proof -
  have "gen_path (gen_path p d) d = gen_path p d"
    by (subst gen_path_idem) (rule gen_path_emit [symmetric])
  then show ?thesis using components_gen_path gen_path_plain by (auto simp: list_all_iff)
qed

text \<open>The case-insensitive lookup returns an entry of the directory that equals the token up
  to case and agrees with it in at least as many positions as any other such entry; when
  the token itself is an entry it is returned unchanged.\<close>

theorem find_nocase_best:
  assumes "root @ rel \<noteq> []" and "length (root @ rel) < PATH_MAX"
    and "os_readdir os (root @ rel) w = (Some ents, w1)"
    and "find_nocase os root rel token w = ((found, t), w2)"
  shows "found = (\<exists>e \<in> set ents. strcaseeq e token)
    \<and> (found \<longrightarrow> t \<in> set ents \<and> strcaseeq t token
         \<and> (\<forall>e \<in> set ents. strcaseeq e token \<longrightarrow> calc_rating token e \<le> calc_rating token t))
    \<and> (token \<in> set ents \<longrightarrow> t = token)"
proof -
  obtain f m r where s: "nocase_scan token ents (False, [], - 1) = (f, m, r)" by (metis prod_cases3)
  have ft: "found = f" "t = (if f then m else token)"
    using assms s by (auto simp: find_nocase_def snprintf_def Let_def PATH_MAX_def)
  note sp = nocase_scan_start [OF s]
  have "t = token" if "token \<in> set ents"
  proof -
    from that sp(1) have "f" using strcaseeq_refl by blast
    with sp(2) that have m: "strcaseeq m token" "calc_rating token token \<le> calc_rating token m" by auto
    then have "calc_rating token m = length token" using calc_rating_le [of token m] by simp
    then show ?thesis using ft \<open>f\<close> calc_rating_full [of token m] strcaseeq_length [OF m(1)] by simp
  qed
  with sp ft show ?thesis by auto
qed

theorem find_nocase_best_witness:
  "find_nocase demo_os ''/psp'' ''/'' ''GAMe'' demo_world = ((True, ''GAME''), demo_world)
   \<and> strcaseeq ''GAME'' ''GAMe'' \<and> calc_rating ''GAMe'' ''game'' \<le> 3"
proof -
  have f: "find_nocase demo_os ''/psp'' ''/'' ''GAMe'' demo_world = ((True, ''GAME''), demo_world)" by code_simp
  have "calc_rating ''GAMe'' ''GAME'' = 3" "strcaseeq ''game'' ''GAMe''" by code_simp+
  with find_nocase_best [OF _ _ _ f, of "[''game'', ''GAME'']" demo_world] f
  show ?thesis by (simp add: PATH_MAX_def)
qed



text \<open>For a directory path the same buffer overflows: a directory name of 4094 characters below
  the root of the drive passes the length check, and the slash gen_path appends leaves no
  room for the terminating NUL.\<close>

theorem make_path_dir_overflow:
  assumes "unat drive < MAX_HOSTDRIVES" and "currdir (g_drives h ! unat drive) = ''/''"
    and "os_lock os w = (True, w1)" and "g_msslash h = False"
    and "plain t" and "length t = 4094"
  shows "make_path os h drive t True w = Inl Buffer_Overflow"
proof -
  have "components (''/'' @ t) = [t]" using assms(5) components_seg [of t] by simp
  then have "components (gen_path (''/'' @ t) True) = [t]"
    using assms(5) resolve_dots_id [of "[t]"] by (simp add: components_gen_path)
  then have "gen_path (''/'' @ t) True = ''/'' @ t @ ''/''"
    using gen_path_emit [of "''/'' @ t" True] by simp
  then show ?thesis using assms by (simp add: make_path_def Let_def PATH_MAX_def)
qed

theorem make_path_dir_overflow_witness:
  "make_path demo_os demo_host 0 (replicate 4094 CHR ''a'') True demo_world = Inl Buffer_Overflow"
proof (rule make_path_dir_overflow)
  have "hd (replicate 4094 CHR ''a'') = CHR ''a''" by (rule hd_replicate) simp
  moreover have "length (replicate 4094 CHR ''a'') = 4094" by (rule length_replicate)
  ultimately show "plain (replicate 4094 CHR ''a'')"
    by (auto simp: plain_def segment_def simp del: length_replicate)
qed (simp_all add: demo_host_def demo_drive_def MAX_HOSTDRIVES_def)

end
