(* ===== verification/HostServer.thy ===== *)
theory HostServer
  imports HostPath
begin

unbundle bit_operations_syntax

text \<open>
  The file server of \<^verbatim>\<open>usbhostfs_pc/main.c\<close>: the file and directory handle tables, one
  handler per HostFS command, the dispatcher \<^verbatim>\<open>do_hostfs\<close>, the asynchronous and bulk
  channels and one turn of the command loop of \<^verbatim>\<open>start_hostfs\<close>. A handler takes the buffer
  the command was read into and the number of bytes read, and returns the value of its
  \<^verbatim>\<open>ret\<close> with the new globals and the new world, or the fault it ran into.
\<close>

section \<open>Files\<close>

text \<open>Flag and mode bits of the PC (Linux).\<close>

definition O_RDONLY :: u32 where "O_RDONLY = 0"
definition O_WRONLY :: u32 where "O_WRONLY = 1"
definition O_RDWR :: u32 where "O_RDWR = 2"
definition O_CREAT :: u32 where "O_CREAT = 0x40"
definition O_EXCL :: u32 where "O_EXCL = 0x80"
definition O_TRUNC :: u32 where "O_TRUNC = 0x200"
definition O_APPEND :: u32 where "O_APPEND = 0x400"

definition S_ISDIR :: "u32 \<Rightarrow> bool" where "S_ISDIR m \<longleftrightarrow> m AND 0xF000 = 0x4000"
definition S_ISLNK :: "u32 \<Rightarrow> bool" where "S_ISLNK m \<longleftrightarrow> m AND 0xF000 = 0xA000"

definition is_dir :: "'w os \<Rightarrow> string \<Rightarrow> 'w \<Rightarrow> bool \<times> 'w" where
  "is_dir os path w = (case os_stat os path w of
     (Inl e, w1) \<Rightarrow> (False, w1) | (Inr s, w1) \<Rightarrow> (S_ISDIR (sb_mode s), w1))"

definition real_mode :: "u32 \<Rightarrow> u32 option" where
  "real_mode mode =
     (let access = (if mode AND PSP_O_RDWR = PSP_O_RDWR then Some O_RDWR
                    else if mode AND PSP_O_RDONLY \<noteq> 0 then Some O_RDONLY
                    else if mode AND PSP_O_WRONLY \<noteq> 0 then Some O_WRONLY
                    else None)
      in map_option (\<lambda>m. m OR (if mode AND PSP_O_APPEND \<noteq> 0 then O_APPEND else 0)
                           OR (if mode AND PSP_O_CREAT \<noteq> 0 then O_CREAT else 0)
                           OR (if mode AND PSP_O_TRUNC \<noteq> 0 then O_TRUNC else 0)
                           OR (if mode AND PSP_O_EXCL \<noteq> 0 then O_EXCL else 0)) access)"

definition open_file ::
  "'w os \<Rightarrow> host \<Rightarrow> u32 \<Rightarrow> string \<Rightarrow> u32 \<Rightarrow> u32 \<Rightarrow> 'w \<Rightarrow> (u32 \<times> host \<times> 'w) run" where
  "open_file os h drive path mode msk w =
     (case make_path os h drive path False w of
        Inl f \<Rightarrow> Inl f
      | Inr (None, w1) \<Rightarrow> Inr (GETERROR ENOENT, h, w1)
      | Inr (Some fullpath, w1) \<Rightarrow>
          (case real_mode mode of
             None \<Rightarrow> Inr (GETERROR EINVAL, h, w1)
           | Some rmode \<Rightarrow>
               (case is_dir os fullpath w1 of
                  (True, w2) \<Rightarrow> Inr (GETERROR ENOENT, h, w2)
                | (False, w2) \<Rightarrow>
                    (case os_open os fullpath rmode (msk AND NOT 0x49) w2 of
                       (Inl e, w3) \<Rightarrow> Inr (GETERROR e, h, w3)
                     | (Inr fd, w3) \<Rightarrow>
                         if fd < MAX_FILES then
                           Inr (of_nat fd,
                                h\<lparr>open_files := (open_files h)[fd :=
                                   \<lparr>fh_opened = True, fh_mode = mode, fh_name = Some fullpath\<rparr>]\<rparr>, w3)
                         else
                           (case os_close os fd w3 of
                              (_, w4) \<Rightarrow> Inr (GETERROR EMFILE, h, w4))))))"

definition fill_time :: "'w os \<Rightarrow> int \<Rightarrow> ScePspDateTime" where
  "fill_time os t = (let f = os_localtime os t in
     \<lparr>dt_year = word_of_int (tm_year f + 1900), dt_month = word_of_int (tm_mon f + 1),
      dt_day = word_of_int (tm_mday f), dt_hour = word_of_int (tm_hour f),
      dt_minute = word_of_int (tm_min f), dt_second = word_of_int (tm_sec f), dt_microsecond = 0\<rparr>)"

text \<open>\<open>dirname = None\<close>: \<open>name\<close> is a converted path. \<open>Inl\<close> is the negative error result.\<close>

definition fill_stat ::
  "'w os \<Rightarrow> string option \<Rightarrow> string \<Rightarrow> 'w \<Rightarrow> (u32 + SceIoStat) \<times> 'w" where
  "fill_stat os dirname name w =
     (let (path, len) = (case dirname of
            None \<Rightarrow> (name, length name)
          | Some d \<Rightarrow> if d \<noteq> [] \<and> last d = CHR ''/'' then snprintf PATH_MAX (d @ name)
                      else snprintf PATH_MAX (d @ ''/'' @ name))
      in if dirname \<noteq> None \<and> len > PATH_MAX then (Inl (GETERROR ENAMETOOLONG), w)
         else (case os_stat os path w of
             (Inl e, w1) \<Rightarrow> (Inl (GETERROR e), w1)
           | (Inr st, w1) \<Rightarrow>
               (let (attr, fmt) =
                  (if S_ISLNK (sb_mode st) then (FIO_SO_IFLNK, FIO_S_IFLNK)
                   else if S_ISDIR (sb_mode st) then (FIO_SO_IFDIR, FIO_S_IFDIR)
                   else (FIO_SO_IFREG, FIO_S_IFREG))
                in (Inr \<lparr>io_mode = fmt OR (sb_mode st AND 0x1FF), io_attr = attr, io_size = sb_size st,
                     io_ctime = fill_time os (sb_ctime st), io_atime = fill_time os (sb_atime st),
                     io_mtime = fill_time os (sb_mtime st)\<rparr>, w1))))"

section \<open>Directories\<close>

text \<open>The first free slot of the table, \<open>length\<close> of the table when there is none.\<close>

fun first_free :: "DirHandle list \<Rightarrow> nat" where
  "first_free [] = 0"
| "first_free (d # ds) = (if \<not> dh_opened d then 0 else Suc (first_free ds))"

text \<open>
  The loop that fills in the entries; \<open>None\<close> when \<^verbatim>\<open>fill_stat\<close> fails on one. A name is copied
  into the 256 bytes of \<^verbatim>\<open>SceIoDirent.name\<close>.
\<close>

fun fill_dirents ::
  "'w os \<Rightarrow> string \<Rightarrow> string list \<Rightarrow> SceIoDirent list \<Rightarrow> 'w \<Rightarrow> (SceIoDirent list option \<times> 'w) run" where
  "fill_dirents os fulldir [] acc w = Inr (Some acc, w)"
| "fill_dirents os fulldir (n # ns) acc w =
     (if length n \<ge> 256 then Inl Buffer_Overflow else
      case fill_stat os (Some fulldir) n w of
        (Inl e, w1) \<Rightarrow> Inr (None, w1)
      | (Inr st, w1) \<Rightarrow> fill_dirents os fulldir ns (acc @ [\<lparr>d_stat = st, d_name = n\<rparr>]) w1)"

definition dir_open ::
  "'w os \<Rightarrow> host \<Rightarrow> u32 \<Rightarrow> string \<Rightarrow> 'w \<Rightarrow> (u32 \<times> host \<times> 'w) run" where
  "dir_open os h drive dirname w =
     (let did = first_free (open_dirs h) in
      if did = length (open_dirs h) then Inr (GETERROR EMFILE, h, w) else
      case make_path os h drive dirname True w of
        Inl f \<Rightarrow> Inl f
      | Inr (None, w1) \<Rightarrow> Inr (GETERROR ENOENT, h, w1)
      | Inr (Some fulldir, w1) \<Rightarrow>
          (let h1 = h\<lparr>open_dirs := (open_dirs h)[did := no_dir]\<rparr> in
           case os_scandir os fulldir w1 of
             (Inl e, w2) \<Rightarrow> Inr (GETERROR e, h1, w2)
           | (Inr names, w2) \<Rightarrow>
               if names = [] then Inr (GETERROR (os_errno os w2), h1, w2) else
               (case fill_dirents os fulldir names [] w2 of
                  Inl f \<Rightarrow> Inl f
                | Inr (None, w3) \<Rightarrow>
                    Inr (s32 (- 1), h1\<lparr>open_dirs := (open_dirs h)[did := no_dir\<lparr>dh_pDir := Freed\<rparr>]\<rparr>, w3)
                | Inr (Some ents, w3) \<Rightarrow>
                    Inr (of_nat did,
                         h1\<lparr>open_dirs := (open_dirs h1)[did :=
                            \<lparr>dh_opened = True, dh_count = length names, dh_pos = 0,
                             dh_pDir = Entries ents\<rparr>]\<rparr>, w3))))"

definition dir_close :: "int \<Rightarrow> host \<Rightarrow> (u32 \<times> host) run" where
  "dir_close did h =
     (if 0 \<le> did \<and> did < int MAX_DIRS \<and> dh_opened (open_dirs h ! nat did)
      then (if dh_pDir (open_dirs h ! nat did) = Freed then Inl Bad_Pointer
            else Inr (0, h\<lparr>open_dirs := (open_dirs h)[nat did := no_dir]\<rparr>))
      else Inr (s32 (- 1), h))"

section \<open>Receiving and answering\<close>

text \<open>
  \<^verbatim>\<open>euid_usb_bulk_read (g_hDev, 0x81, buf, n, 10000)\<close> into a buffer of \<open>cap\<close> bytes.
  The user id changes around the call have no effect the model can see.
\<close>

definition euid_usb_bulk_read ::
  "'w os \<Rightarrow> nat \<Rightarrow> u32 \<Rightarrow> 'w \<Rightarrow> ((int \<times> bytes) \<times> 'w) run" where
  "euid_usb_bulk_read os cap n w = (case os_usb_read os 0x81 n w of
     ((ret, data), w1) \<Rightarrow> if length data > cap then Inl Buffer_Overflow else Inr ((ret, data), w1))"

definition euid_usb_bulk_write :: "'w os \<Rightarrow> nat \<Rightarrow> bytes \<Rightarrow> 'w \<Rightarrow> int \<times> 'w" where
  "euid_usb_bulk_write os ep data w = os_usb_write os ep data w"

definition mk_resp :: "HostFsCommands \<Rightarrow> u32 \<Rightarrow> u32 \<Rightarrow> HostFsResp" where
  "mk_resp c extra res = \<lparr>resp_cmd = \<lparr>magic = HOSTFS_MAGIC, command = cmd_num c, extralen = extra\<rparr>,
     resp_res = res\<rparr>"

definition send_resp :: "'w os \<Rightarrow> HostFsResp \<Rightarrow> host \<Rightarrow> 'w \<Rightarrow> (int \<times> host \<times> 'w) run" where
  "send_resp os r h w = (case euid_usb_bulk_write os 0x2 (enc_resp r) w of (ret, w1) \<Rightarrow> Inr (ret, h, w1))"

text \<open>The response, then, unless that failed, the data announced in its \<^verbatim>\<open>extralen\<close>.\<close>

definition send_resp_data ::
  "'w os \<Rightarrow> HostFsResp \<Rightarrow> bytes \<Rightarrow> host \<Rightarrow> 'w \<Rightarrow> (int \<times> host \<times> 'w) run" where
  "send_resp_data os r data h w =
     (case euid_usb_bulk_write os 0x2 (enc_resp r) w of (ret, w1) \<Rightarrow>
        if ret < 0 then Inr (ret, h, w1)
        else if extralen (resp_cmd r) > 0 then
          (case euid_usb_bulk_write os 0x2 data w1 of (ret2, w2) \<Rightarrow> Inr (ret2, h, w2))
        else Inr (ret, h, w1))"

text \<open>
  The block with which every handler that takes a name reads it into \<^verbatim>\<open>path\<close>: \<open>Inl ret\<close> when
  the handler gives up with that \<^verbatim>\<open>ret\<close>, \<open>Inr path\<close> when it goes on. Using the array as a
  string needs a NUL among the bytes received.
\<close>

definition recv_path :: "'w os \<Rightarrow> HostFsCmd \<Rightarrow> 'w \<Rightarrow> ((int + string) \<times> 'w) run" where
  "recv_path os c w =
     (if extralen c = 0 then Inr (Inl (- 1), w) else
      case euid_usb_bulk_read os HOSTFS_PATHMAX (extralen c) w of
        Inl f \<Rightarrow> Inl f
      | Inr ((ret, data), w1) \<Rightarrow>
          if word_of_int ret \<noteq> extralen c then Inr (Inl ret, w1)
          else (case cstr data of
                  None \<Rightarrow> Inl Unterminated_String
                | Some path \<Rightarrow> Inr (Inr path, w1)))"

section \<open>Handlers: open, close, directories\<close>

definition handle_hello :: "'w os \<Rightarrow> host \<Rightarrow> 'w \<Rightarrow> (int \<times> host \<times> 'w) run" where
  "handle_hello os h w =
     (case os_usb_write os 0x2 (enc_cmd \<lparr>magic = HOSTFS_MAGIC, command = cmd_num CMD_HELLO, extralen = 0\<rparr>) w
      of (ret, w1) \<Rightarrow> Inr (ret, h, w1))"

definition handle_open :: "'w os \<Rightarrow> bytes \<Rightarrow> nat \<Rightarrow> host \<Rightarrow> 'w \<Rightarrow> (int \<times> host \<times> 'w) run" where
  "handle_open os buf cmdlen h w =
     (if cmdlen \<noteq> 24 then Inr (- 1, h, w) else
      let c = dec_open buf in
      case recv_path os (open_cmd c) w of
        Inl f \<Rightarrow> Inl f
      | Inr (Inl ret, w1) \<Rightarrow> Inr (ret, h, w1)
      | Inr (Inr path, w1) \<Rightarrow>
          (case open_file os h (open_fsnum c) path (open_mode c) (open_mask c) w1 of
             Inl f \<Rightarrow> Inl f
           | Inr (res, h1, w2) \<Rightarrow> send_resp os (mk_resp CMD_OPEN 0 res) h1 w2))"

definition handle_dopen :: "'w os \<Rightarrow> bytes \<Rightarrow> nat \<Rightarrow> host \<Rightarrow> 'w \<Rightarrow> (int \<times> host \<times> 'w) run" where
  "handle_dopen os buf cmdlen h w =
     (if cmdlen \<noteq> 16 then Inr (- 1, h, w) else
      let c = dec_fs buf in
      case recv_path os (fs_cmd c) w of
        Inl f \<Rightarrow> Inl f
      | Inr (Inl ret, w1) \<Rightarrow> Inr (ret, h, w1)
      | Inr (Inr path, w1) \<Rightarrow>
          (case dir_open os h (fs_num c) path w1 of
             Inl f \<Rightarrow> Inl f
           | Inr (res, h1, w2) \<Rightarrow> send_resp os (mk_resp CMD_DOPEN 0 res) h1 w2))"

definition handle_close :: "'w os \<Rightarrow> bytes \<Rightarrow> nat \<Rightarrow> host \<Rightarrow> 'w \<Rightarrow> (int \<times> host \<times> 'w) run" where
  "handle_close os buf cmdlen h w =
     (if cmdlen \<noteq> 16 then Inr (- 1, h, w) else
      let fid = sint (id_val (dec_id buf)) in
      if 2 < fid \<and> fid < int MAX_FILES \<and> fh_opened (open_files h ! nat fid) then
        (case os_close os (nat fid) w of (r, w1) \<Rightarrow>
           let res = (case r of Inl e \<Rightarrow> GETERROR e | Inr _ \<Rightarrow> 0);
               f = open_files h ! nat fid;
               h1 = h\<lparr>open_files := (open_files h)[nat fid := f\<lparr>fh_opened := False, fh_name := None\<rparr>]\<rparr>
           in send_resp os (mk_resp CMD_CLOSE 0 res) h1 w1)
      else send_resp os (mk_resp CMD_CLOSE 0 (s32 (- 1))) h w)"

definition handle_dclose :: "'w os \<Rightarrow> bytes \<Rightarrow> nat \<Rightarrow> host \<Rightarrow> 'w \<Rightarrow> (int \<times> host \<times> 'w) run" where
  "handle_dclose os buf cmdlen h w =
     (if cmdlen \<noteq> 16 then Inr (- 1, h, w) else
      case dir_close (sint (id_val (dec_id buf))) h of
        Inl f \<Rightarrow> Inl f
      | Inr (res, h1) \<Rightarrow> send_resp os (mk_resp CMD_DCLOSE 0 res) h1 w)"

definition handle_dread :: "'w os \<Rightarrow> bytes \<Rightarrow> nat \<Rightarrow> host \<Rightarrow> 'w \<Rightarrow> (int \<times> host \<times> 'w) run" where
  "handle_dread os buf cmdlen h w =
     (if cmdlen \<noteq> 16 then Inr (- 1, h, w) else
      let did = sint (id_val (dec_id buf)) in
      if 0 \<le> did \<and> did < int MAX_FILES \<and> dh_opened (open_dirs h ! nat did) then
        (let d = open_dirs h ! nat did in
         if dh_pos d < dh_count d then
           (case dh_pDir d of
              Entries ents \<Rightarrow>
                if dh_pos d \<ge> length ents then Inl Buffer_Overflow else
                (let ent = ents ! dh_pos d;
                     d1 = d\<lparr>dh_pos := dh_pos d + 1\<rparr>;
                     res = of_nat (dh_count d1 - dh_pos d1 + 1)
                 in send_resp_data os (mk_resp CMD_READ 352 res) (enc_dirent ent)
                      (h\<lparr>open_dirs := (open_dirs h)[nat did := d1]\<rparr>) w)
            | _ \<Rightarrow> Inl Bad_Pointer)
         else send_resp_data os (mk_resp CMD_READ 0 0) [] h w)
      else send_resp_data os (mk_resp CMD_READ 0 (s32 (- 1))) [] h w)"

section \<open>Handlers: read, write, seek\<close>

text \<open>
  \<^verbatim>\<open>fixed_write\<close> and \<^verbatim>\<open>fixed_read\<close> repeat the system call until all is done: \<open>wr\<close> and \<open>rd\<close>
  are \<open>os_write\<close> and \<open>os_read\<close> of the descriptor.
\<close>

partial_function (option) fixed_write ::
  "(bytes \<Rightarrow> 'w \<Rightarrow> (nat + nat) \<times> 'w) \<Rightarrow> bytes \<Rightarrow> nat \<Rightarrow> 'w \<Rightarrow> (u32 \<times> 'w) option" where
  "fixed_write wr data byteswrite w =
     (if byteswrite < length data then
        (case wr (drop byteswrite data) w of
           (Inl e, w1) \<Rightarrow>
             if e \<noteq> EINTR then Some (GETERROR e, w1) else fixed_write wr data byteswrite w1
         | (Inr n, w1) \<Rightarrow>
             if n = 0 then Some (of_nat byteswrite, w1)
             else fixed_write wr data (byteswrite + n) w1)
      else Some (of_nat byteswrite, w))"

text \<open>\<open>acc\<close> holds the bytes read so far.\<close>

partial_function (option) fixed_read ::
  "(nat \<Rightarrow> 'w \<Rightarrow> (nat + bytes) \<times> 'w) \<Rightarrow> nat \<Rightarrow> bytes \<Rightarrow> 'w \<Rightarrow> ((u32 \<times> bytes) \<times> 'w) option" where
  "fixed_read rd len acc w =
     (if length acc < len then
        (case rd (len - length acc) w of
           (Inl e, w1) \<Rightarrow>
             if e \<noteq> EINTR then Some ((GETERROR e, acc), w1) else fixed_read rd len acc w1
         | (Inr bs, w1) \<Rightarrow>
             if bs = [] then Some ((of_nat (length acc), acc), w1)
             else fixed_read rd len (acc @ bs) w1)
      else Some ((of_nat (length acc), acc), w))"

definition handle_write :: "'w os \<Rightarrow> bytes \<Rightarrow> nat \<Rightarrow> host \<Rightarrow> 'w \<Rightarrow> (int \<times> host \<times> 'w) run" where
  "handle_write os buf cmdlen h w =
     (if cmdlen \<noteq> 16 then Inr (- 1, h, w) else
      let c = dec_id buf; extra = extralen (id_cmd c) in
      if extra = 0 then Inr (- 1, h, w) else
      case euid_usb_bulk_read os HOSTFS_MAX_BLOCK extra w of
        Inl f \<Rightarrow> Inl f
      | Inr ((ret, data), w1) \<Rightarrow>
          if word_of_int ret \<noteq> extra then Inr (ret, h, w1) else
          let fid = sint (id_val c) in
          if 0 \<le> fid \<and> fid < int MAX_FILES \<and> fh_opened (open_files h ! nat fid) then
            (case of_loop (fixed_write (os_write os (nat fid)) data 0 w1) of
               Inl f \<Rightarrow> Inl f
             | Inr (res, w2) \<Rightarrow> send_resp os (mk_resp CMD_WRITE 0 res) h w2)
          else send_resp os (mk_resp CMD_WRITE 0 (s32 (- 1))) h w1)"

definition handle_read :: "'w os \<Rightarrow> bytes \<Rightarrow> nat \<Rightarrow> host \<Rightarrow> 'w \<Rightarrow> (int \<times> host \<times> 'w) run" where
  "handle_read os buf cmdlen h w =
     (if cmdlen \<noteq> 20 then Inr (- 1, h, w) else
      let c = dec_read buf; len = sint (read_len c); fid = sint (read_fid c) in
      if len \<le> 0 then Inr (- 1, h, w) else
      if 0 \<le> fid \<and> fid < int MAX_FILES \<and> fh_opened (open_files h ! nat fid) then
        (case of_loop (fixed_read (os_read os (nat fid)) (nat len) [] w) of
           Inl f \<Rightarrow> Inl f
         | Inr ((res, data), w1) \<Rightarrow>
             if length data > HOSTFS_MAX_BLOCK then Inl Buffer_Overflow
             else send_resp_data os (mk_resp CMD_READ (if sint res \<ge> 0 then res else 0) res) data h w1)
      else send_resp_data os (mk_resp CMD_READ 0 (s32 (- 1))) [] h w)"

definition handle_lseek :: "'w os \<Rightarrow> bytes \<Rightarrow> nat \<Rightarrow> host \<Rightarrow> 'w \<Rightarrow> (int \<times> host \<times> 'w) run" where
  "handle_lseek os buf cmdlen h w =
     (if cmdlen \<noteq> 28 then Inr (- 1, h, w) else
      let c = dec_lseek buf; fid = sint (lseek_fid c);
          hdr = \<lparr>magic = HOSTFS_MAGIC, command = cmd_num CMD_LSEEK, extralen = 0\<rparr> in
      case (if 2 < fid \<and> fid < int MAX_FILES \<and> fh_opened (open_files h ! nat fid) then
              (case os_lseek os (nat fid) (lseek_ofs c) (lseek_whence c) w of
                 (ofs, w1) \<Rightarrow> (\<lparr>lresp_cmd = hdr, lresp_res = (if sint ofs < 0 then s32 (- 1) else 0),
                                 lresp_ofs = ofs\<rparr>, w1))
            else (\<lparr>lresp_cmd = hdr, lresp_res = s32 (- 1), lresp_ofs = 0\<rparr>, w)) of
        (resp, w1) \<Rightarrow> (case euid_usb_bulk_write os 0x2 (enc_lresp resp) w1 of (ret, w2) \<Rightarrow> Inr (ret, h, w2)))"

section \<open>Handlers: names\<close>

text \<open>\<open>0\<close>, or \<^verbatim>\<open>GETERROR (errno)\<close>, for a system call of the result \<open>r\<close>.\<close>

definition sys_res :: "nat + unit \<Rightarrow> u32" where
  "sys_res r = (case r of Inl e \<Rightarrow> GETERROR e | Inr _ \<Rightarrow> 0)"

text \<open>\<^verbatim>\<open>resp.res\<close> after \<^verbatim>\<open>if (make_path (...) == 0) resp.res = f (fullpath)\<close>.\<close>

definition path_op ::
  "'w os \<Rightarrow> host \<Rightarrow> u32 \<Rightarrow> string \<Rightarrow> (string \<Rightarrow> 'w \<Rightarrow> u32 \<times> 'w) \<Rightarrow> 'w \<Rightarrow> (u32 \<times> 'w) run" where
  "path_op os h drive path f w =
     (case make_path os h drive path False w of
        Inl x \<Rightarrow> Inl x
      | Inr (None, w1) \<Rightarrow> Inr (s32 (- 1), w1)
      | Inr (Some fullpath, w1) \<Rightarrow> Inr (f fullpath w1))"

definition handle_remove :: "'w os \<Rightarrow> bytes \<Rightarrow> nat \<Rightarrow> host \<Rightarrow> 'w \<Rightarrow> (int \<times> host \<times> 'w) run" where
  "handle_remove os buf cmdlen h w =
     (if cmdlen \<noteq> 16 then Inr (- 1, h, w) else
      let c = dec_fs buf in
      case recv_path os (fs_cmd c) w of
        Inl f \<Rightarrow> Inl f
      | Inr (Inl ret, w1) \<Rightarrow> Inr (ret, h, w1)
      | Inr (Inr path, w1) \<Rightarrow>
          (case path_op os h (fs_num c) path
                  (\<lambda>p w. case os_unlink os p w of (r, w') \<Rightarrow> (sys_res r, w')) w1 of
             Inl f \<Rightarrow> Inl f
           | Inr (res, w2) \<Rightarrow> send_resp os (mk_resp CMD_REMOVE 0 res) h w2))"

definition handle_rmdir :: "'w os \<Rightarrow> bytes \<Rightarrow> nat \<Rightarrow> host \<Rightarrow> 'w \<Rightarrow> (int \<times> host \<times> 'w) run" where
  "handle_rmdir os buf cmdlen h w =
     (if cmdlen \<noteq> 16 then Inr (- 1, h, w) else
      let c = dec_fs buf in
      case recv_path os (fs_cmd c) w of
        Inl f \<Rightarrow> Inl f
      | Inr (Inl ret, w1) \<Rightarrow> Inr (ret, h, w1)
      | Inr (Inr path, w1) \<Rightarrow>
          (case path_op os h (fs_num c) path
                  (\<lambda>p w. case os_rmdir os p w of (r, w') \<Rightarrow> (sys_res r, w')) w1 of
             Inl f \<Rightarrow> Inl f
           | Inr (res, w2) \<Rightarrow> send_resp os (mk_resp CMD_RMDIR 0 res) h w2))"

definition handle_mkdir :: "'w os \<Rightarrow> bytes \<Rightarrow> nat \<Rightarrow> host \<Rightarrow> 'w \<Rightarrow> (int \<times> host \<times> 'w) run" where
  "handle_mkdir os buf cmdlen h w =
     (if cmdlen \<noteq> 20 then Inr (- 1, h, w) else
      let c = dec_mkdir buf in
      case recv_path os (mkdir_cmd c) w of
        Inl f \<Rightarrow> Inl f
      | Inr (Inl ret, w1) \<Rightarrow> Inr (ret, h, w1)
      | Inr (Inr path, w1) \<Rightarrow>
          (case path_op os h (mkdir_fsnum c) path
                  (\<lambda>p w. case os_mkdir os p (mkdir_mode c) w of (r, w') \<Rightarrow> (sys_res r, w')) w1 of
             Inl f \<Rightarrow> Inl f
           | Inr (res, w2) \<Rightarrow> send_resp os (mk_resp CMD_MKDIR 0 res) h w2))"

definition handle_getstat :: "'w os \<Rightarrow> bytes \<Rightarrow> nat \<Rightarrow> host \<Rightarrow> 'w \<Rightarrow> (int \<times> host \<times> 'w) run" where
  "handle_getstat os buf cmdlen h w =
     (if cmdlen \<noteq> 16 then Inr (- 1, h, w) else
      let c = dec_fs buf in
      case recv_path os (fs_cmd c) w of
        Inl f \<Rightarrow> Inl f
      | Inr (Inl ret, w1) \<Rightarrow> Inr (ret, h, w1)
      | Inr (Inr path, w1) \<Rightarrow>
          (case make_path os h (fs_num c) path False w1 of
             Inl f \<Rightarrow> Inl f
           | Inr (None, w2) \<Rightarrow> send_resp_data os (mk_resp CMD_GETSTAT 0 (s32 (- 1))) [] h w2
           | Inr (Some fullpath, w2) \<Rightarrow>
               (case fill_stat os None fullpath w2 of
                  (Inl e, w3) \<Rightarrow> send_resp_data os (mk_resp CMD_GETSTAT 0 e) [] h w3
                | (Inr st, w3) \<Rightarrow> send_resp_data os (mk_resp CMD_GETSTAT 88 0) (enc_stat st) h w3)))"

text \<open>
  \<^verbatim>\<open>psp_settime\<close>: the result of the call, negative when it fails. \<^verbatim>\<open>tm_isdst\<close> of the C structure
  is not initialised; \<open>os_mktime\<close> has no such field.
\<close>

definition psp_settime :: "'w os \<Rightarrow> string \<Rightarrow> HostFsTimeStamp \<Rightarrow> u32 \<Rightarrow> 'w \<Rightarrow> bool \<times> 'w" where
  "psp_settime os path ts which w =
     (let stime = \<lparr>tm_year = uint (ts_year ts) - 1900, tm_mon = uint (ts_month ts) - 1,
                   tm_mday = uint (ts_day ts), tm_hour = uint (ts_hour ts),
                   tm_min = uint (ts_minute ts), tm_sec = uint (ts_second ts)\<rparr>
      in case os_stat os path w of
           (Inl e, w1) \<Rightarrow> (False, w1)
         | (Inr st, w1) \<Rightarrow>
             (let convtime = os_mktime os stime in
              if convtime = - 1 then (False, w1)
              else if which = PSP_CHSTAT_ATIME then
                (case os_utime os path convtime (sb_mtime st) w1 of (r, w2) \<Rightarrow> (\<not> isl r, w2))
              else if which = PSP_CHSTAT_MTIME then
                (case os_utime os path (sb_atime st) convtime w1 of (r, w2) \<Rightarrow> (\<not> isl r, w2))
              else (False, w1)))"

definition psp_chstat :: "'w os \<Rightarrow> string \<Rightarrow> HostFsChstatCmd \<Rightarrow> 'w \<Rightarrow> u32 \<times> 'w" where
  "psp_chstat os path c w =
     (case (if chstat_bits c AND PSP_CHSTAT_MODE \<noteq> 0
            then (case os_chmod os path (chstat_mode c AND FIO_S_IRWX) w of
                    (Inl e, w1) \<Rightarrow> (Some (GETERROR e), w1) | (Inr _, w1) \<Rightarrow> (None, w1))
            else (None, w)) of
        (Some e, w1) \<Rightarrow> (e, w1)
      | (None, w1) \<Rightarrow>
          (case (if chstat_bits c AND PSP_CHSTAT_ATIME \<noteq> 0
                 then psp_settime os path (chstat_atime c) PSP_CHSTAT_ATIME w1 else (True, w1)) of
             (False, w2) \<Rightarrow> (s32 (- 1), w2)
           | (True, w2) \<Rightarrow>
               (case (if chstat_bits c AND PSP_CHSTAT_MTIME \<noteq> 0
                      then psp_settime os path (chstat_mtime c) PSP_CHSTAT_MTIME w2 else (True, w2)) of
                  (False, w3) \<Rightarrow> (s32 (- 1), w3)
                | (True, w3) \<Rightarrow> (0, w3))))"

definition handle_chstat :: "'w os \<Rightarrow> bytes \<Rightarrow> nat \<Rightarrow> host \<Rightarrow> 'w \<Rightarrow> (int \<times> host \<times> 'w) run" where
  "handle_chstat os buf cmdlen h w =
     (if cmdlen \<noteq> 56 then Inr (- 1, h, w) else
      let c = dec_chstat buf in
      case recv_path os (chstat_cmd c) w of
        Inl f \<Rightarrow> Inl f
      | Inr (Inl ret, w1) \<Rightarrow> Inr (ret, h, w1)
      | Inr (Inr path, w1) \<Rightarrow>
          (case path_op os h (chstat_fsnum c) path (\<lambda>p w. psp_chstat os p c w) w1 of
             Inl f \<Rightarrow> Inl f
           | Inr (res, w2) \<Rightarrow> send_resp os (mk_resp CMD_CHSTAT 0 res) h w2))"

text \<open>
  The destination of a rename: a relative new name is taken in the directory of an absolute old
  one.
\<close>

definition rename_dest :: "string \<Rightarrow> string \<Rightarrow> string" where
  "rename_dest path new =
     (if path \<noteq> [] \<and> hd path = CHR ''/'' \<and> (new = [] \<or> hd new \<noteq> CHR ''/'')
      then rev (dropWhile (\<lambda>c. c \<noteq> CHR ''/'') (rev path)) @ new
      else new)"

text \<open>The two names arrive in a zeroed buffer of \<^verbatim>\<open>HOSTFS_PATHMAX\<close> bytes, one after the other.\<close>

definition handle_rename :: "'w os \<Rightarrow> bytes \<Rightarrow> nat \<Rightarrow> host \<Rightarrow> 'w \<Rightarrow> (int \<times> host \<times> 'w) run" where
  "handle_rename os buf cmdlen h w =
     (if cmdlen \<noteq> 16 then Inr (- 1, h, w) else
      let c = dec_fs buf in
      if extralen (fs_cmd c) = 0 then Inr (- 1, h, w) else
      case euid_usb_bulk_read os HOSTFS_PATHMAX (extralen (fs_cmd c)) w of
        Inl f \<Rightarrow> Inl f
      | Inr ((ret, data), w1) \<Rightarrow>
          if word_of_int ret \<noteq> extralen (fs_cmd c) then Inr (ret, h, w1) else
          let arr = data @ replicate (HOSTFS_PATHMAX - length data) 0 in
          (case cstr arr of
             None \<Rightarrow> Inl Unterminated_String
           | Some path \<Rightarrow>
               (case cstr (drop (length path + 1) arr) of
                  None \<Rightarrow> Inl Unterminated_String
                | Some new \<Rightarrow>
                    (case make_path os h (fs_num c) path False w1 of
                       Inl f \<Rightarrow> Inl f
                     | Inr (None, w2) \<Rightarrow> send_resp os (mk_resp CMD_RENAME 0 (s32 (- 1))) h w2
                     | Inr (Some oldpath, w2) \<Rightarrow>
                         (case path_op os h (fs_num c) (rename_dest path new)
                                 (\<lambda>newpath w. case os_rename os oldpath newpath w of
                                    (r, w') \<Rightarrow> (sys_res r, w')) w2 of
                            Inl f \<Rightarrow> Inl f
                          | Inr (res, w3) \<Rightarrow> send_resp os (mk_resp CMD_RENAME 0 res) h w3)))))"

definition handle_chdir :: "'w os \<Rightarrow> bytes \<Rightarrow> nat \<Rightarrow> host \<Rightarrow> 'w \<Rightarrow> (int \<times> host \<times> 'w) run" where
  "handle_chdir os buf cmdlen h w =
     (if cmdlen \<noteq> 16 then Inr (- 1, h, w) else
      let c = dec_fs buf in
      case recv_path os (fs_cmd c) w of
        Inl f \<Rightarrow> Inl f
      | Inr (Inl ret, w1) \<Rightarrow> Inr (ret, h, w1)
      | Inr (Inr path, w1) \<Rightarrow>
          (let fsnum = sint (fs_num c) in
           if 0 \<le> fsnum \<and> fsnum < int MAX_HOSTDRIVES then
             send_resp os (mk_resp CMD_CHDIR 0 0)
               (h\<lparr>g_drives := (g_drives h)[nat fsnum := (g_drives h ! nat fsnum)\<lparr>currdir := path\<rparr>]\<rparr>) w1
           else send_resp os (mk_resp CMD_CHDIR 0 (s32 (- 1))) h w1))"

section \<open>Handlers: ioctl and devctl\<close>

text \<open>
  The arguments of both commands: a positive length is read into a static buffer of 64 KB.
  \<open>Some ret\<close> when the handler gives up.
\<close>

definition recv_args :: "'w os \<Rightarrow> HostFsCmd \<Rightarrow> 'w \<Rightarrow> (int option \<times> 'w) run" where
  "recv_args os c w =
     (let inlen = sint (extralen c) in
      if inlen > 0 then
        (case euid_usb_bulk_read os 65536 (extralen c) w of
           Inl f \<Rightarrow> Inl f
         | Inr ((ret, data), w1) \<Rightarrow> Inr (if ret \<noteq> inlen then Some ret else None, w1))
      else Inr (None, w))"

definition handle_ioctl :: "'w os \<Rightarrow> bytes \<Rightarrow> nat \<Rightarrow> host \<Rightarrow> 'w \<Rightarrow> (int \<times> host \<times> 'w) run" where
  "handle_ioctl os buf cmdlen h w =
     (if cmdlen \<noteq> 24 then Inr (- 1, h, w) else
      case recv_args os (ioctl_cmd (dec_ioctl buf)) w of
        Inl f \<Rightarrow> Inl f
      | Inr (Some ret, w1) \<Rightarrow> Inr (ret, h, w1)
      | Inr (None, w1) \<Rightarrow> send_resp_data os (mk_resp CMD_IOCTL 0 (s32 (- 1))) [] h w1)"

record DevctlGetInfo =
  btotal :: u32
  bfree :: u32
  dg_unk :: u32
  ssize :: u32
  sects :: u32

definition enc_info :: "DevctlGetInfo \<Rightarrow> bytes" where
  "enc_info i = le32 (btotal i) @ le32 (bfree i) @ le32 (dg_unk i) @ le32 (ssize i) @ le32 (sects i)"

definition get_drive_info :: "'w os \<Rightarrow> host \<Rightarrow> u32 \<Rightarrow> 'w \<Rightarrow> DevctlGetInfo option \<times> 'w" where
  "get_drive_info os h drive w =
     (if unat drive \<ge> MAX_HOSTDRIVES then (None, w) else
      case os_lock os w of (locked, w1) \<Rightarrow>
      if \<not> locked then (None, w1) else
      case os_statvfs os (rootdir (g_drives h ! unat drive)) w1 of
        (Inl e, w2) \<Rightarrow> (None, w2)
      | (Inr st, w2) \<Rightarrow>
          (Some \<lparr>btotal = ucast (f_blocks st), bfree = ucast (f_bfree st), dg_unk = ucast (f_blocks st),
                 ssize = 512, sects = ucast (f_frsize st div 512)\<rparr>, w2))"

definition handle_devctl :: "'w os \<Rightarrow> bytes \<Rightarrow> nat \<Rightarrow> host \<Rightarrow> 'w \<Rightarrow> (int \<times> host \<times> 'w) run" where
  "handle_devctl os buf cmdlen h w =
     (if cmdlen \<noteq> 24 then Inr (- 1, h, w) else
      let c = dec_devctl buf in
      case recv_args os (devctl_cmd c) w of
        Inl f \<Rightarrow> Inl f
      | Inr (Some ret, w1) \<Rightarrow> Inr (ret, h, w1)
      | Inr (None, w1) \<Rightarrow>
          (if devctl_cmdno c = DEVCTL_GET_INFO then
             (case get_drive_info os h (devctl_fsnum c) w1 of
                (None, w2) \<Rightarrow> send_resp_data os (mk_resp CMD_DEVCTL 0 (s32 (- 1))) [] h w2
              | (Some info, w2) \<Rightarrow> send_resp_data os (mk_resp CMD_DEVCTL 20 0) (enc_info info) h w2)
           else send_resp_data os (mk_resp CMD_DEVCTL 0 (s32 (- 1))) [] h w1))"

section \<open>Dispatch\<close>

text \<open>
  \<^verbatim>\<open>do_hostfs\<close>. The dispatcher only prints when a handler's result is negative: the model
  returns it, \<open>0\<close> for a command it does not know.
\<close>

definition do_hostfs :: "'w os \<Rightarrow> bytes \<Rightarrow> nat \<Rightarrow> host \<Rightarrow> 'w \<Rightarrow> (int \<times> host \<times> 'w) run" where
  "do_hostfs os buf readlen h w =
     (let c = command (dec_cmd buf) in
      if c = cmd_num CMD_HELLO then handle_hello os h w
      else if c = cmd_num CMD_OPEN then handle_open os buf readlen h w
      else if c = cmd_num CMD_CLOSE then handle_close os buf readlen h w
      else if c = cmd_num CMD_WRITE then handle_write os buf readlen h w
      else if c = cmd_num CMD_READ then handle_read os buf readlen h w
      else if c = cmd_num CMD_LSEEK then handle_lseek os buf readlen h w
      else if c = cmd_num CMD_DOPEN then handle_dopen os buf readlen h w
      else if c = cmd_num CMD_DCLOSE then handle_dclose os buf readlen h w
      else if c = cmd_num CMD_DREAD then handle_dread os buf readlen h w
      else if c = cmd_num CMD_REMOVE then handle_remove os buf readlen h w
      else if c = cmd_num CMD_RMDIR then handle_rmdir os buf readlen h w
      else if c = cmd_num CMD_MKDIR then handle_mkdir os buf readlen h w
      else if c = cmd_num CMD_CHDIR then handle_chdir os buf readlen h w
      else if c = cmd_num CMD_RENAME then handle_rename os buf readlen h w
      else if c = cmd_num CMD_GETSTAT then handle_getstat os buf readlen h w
      else if c = cmd_num CMD_CHSTAT then handle_chstat os buf readlen h w
      else if c = cmd_num CMD_IOCTL then handle_ioctl os buf readlen h w
      else if c = cmd_num CMD_DEVCTL then handle_devctl os buf readlen h w
      else Inr (0, h, w))"

end
