(* ===== verification/CLib.thy ===== *)
theory CLib
  imports Prelude
begin

text \<open>
  The character classes and number conversions of the C library the sources call:
  \<^verbatim>\<open>isspace\<close>, \<^verbatim>\<open>isdigit\<close>, \<^verbatim>\<open>strtoul\<close> (with its end pointer), \<^verbatim>\<open>printf\<close> of an unsigned number
  in base 10 and 16, trimming of a line, with the round trip of printing and parsing.
\<close>

section \<open>Characters\<close>

abbreviation code :: "char \<Rightarrow> nat" where "code c \<equiv> of_char c"

definition isspace :: "char \<Rightarrow> bool" where
  "isspace c \<longleftrightarrow> code c = 32 \<or> 9 \<le> code c \<and> code c \<le> 13"

definition isdigit :: "char \<Rightarrow> bool" where
  "isdigit c \<longleftrightarrow> 48 \<le> code c \<and> code c \<le> 57"

text \<open>The value of a digit in any base up to 36, \<open>36\<close> for a character that is no digit.\<close>

definition digit_val :: "char \<Rightarrow> nat" where
  "digit_val c = (if 48 \<le> code c \<and> code c \<le> 57 then code c - 48
     else if 97 \<le> code c \<and> code c \<le> 122 then code c - 87
     else if 65 \<le> code c \<and> code c \<le> 90 then code c - 55
     else 36)"

definition digit_char :: "nat \<Rightarrow> char" where
  "digit_char d = (if d < 10 then char_of (48 + d) else char_of (87 + d))"

lemma digit_val_char: "d < 36 \<Longrightarrow> digit_val (digit_char d) = d"
  by (auto simp: digit_val_def digit_char_def of_char_of take_bit_nat_def)

lemma digit_char_not_space [simp]: "d < 36 \<Longrightarrow> \<not> isspace (digit_char d)"
  by (auto simp: isspace_def digit_char_def of_char_of take_bit_nat_def)

section \<open>strtoul\<close>

fun skip_space :: "string \<Rightarrow> string" where
  "skip_space [] = []"
| "skip_space (c # s) = (if isspace c then skip_space s else c # s)"

text \<open>The digits of a number: the value added to \<open>acc\<close>, and what follows.\<close>

fun scan_digits :: "nat \<Rightarrow> nat \<Rightarrow> string \<Rightarrow> nat \<times> string" where
  "scan_digits b acc [] = (acc, [])"
| "scan_digits b acc (c # s) =
     (if digit_val c < b then scan_digits b (acc * b + digit_val c) s else (acc, c # s))"

definition starts_digit :: "nat \<Rightarrow> string \<Rightarrow> bool" where
  "starts_digit b s \<longleftrightarrow> s \<noteq> [] \<and> digit_val (hd s) < b"

text \<open>The prefix \<^verbatim>\<open>0x\<close> counts only when a digit follows; base 0 is decided by the prefix.\<close>

definition hex_prefix :: "string \<Rightarrow> bool" where
  "hex_prefix s \<longleftrightarrow> length s > 2 \<and> s ! 0 = CHR ''0'' \<and> (s ! 1 = CHR ''x'' \<or> s ! 1 = CHR ''X'')
     \<and> starts_digit 16 (drop 2 s)"

definition number_base :: "nat \<Rightarrow> string \<Rightarrow> nat \<times> string" where
  "number_base b s =
     (if (b = 0 \<or> b = 16) \<and> hex_prefix s then (16, drop 2 s)
      else if b = 0 then (if s \<noteq> [] \<and> hd s = CHR ''0'' then (8, s) else (10, s))
      else (b, s))"

text \<open>
  \<open>strtoul w b s\<close>: the value as an \<^verbatim>\<open>unsigned long\<close> of \<open>w\<close> bits and the text at \<^verbatim>\<open>endp\<close>, which
  is all of \<open>s\<close> when no number was found.
\<close>

definition strtoul :: "nat \<Rightarrow> nat \<Rightarrow> string \<Rightarrow> nat \<times> string" where
  "strtoul w b s =
     (let s1 = skip_space s;
          neg = (s1 \<noteq> [] \<and> hd s1 = CHR ''-'');
          s2 = (if s1 \<noteq> [] \<and> (hd s1 = CHR ''-'' \<or> hd s1 = CHR ''+'') then tl s1 else s1);
          (base, s3) = number_base b s2
      in if \<not> starts_digit base s3 then (0, s)
         else (case scan_digits base 0 s3 of (n, r) \<Rightarrow>
           (if n \<ge> 2 ^ w then 2 ^ w - 1 else if neg then (2 ^ w - n) mod 2 ^ w else n, r)))"

text \<open>\<open>strtol\<close>: the same as a \<^verbatim>\<open>long\<close>, cut to its range.\<close>

definition strtol :: "nat \<Rightarrow> nat \<Rightarrow> string \<Rightarrow> int \<times> string" where
  "strtol w b s =
     (let s1 = skip_space s;
          neg = (s1 \<noteq> [] \<and> hd s1 = CHR ''-'');
          s2 = (if s1 \<noteq> [] \<and> (hd s1 = CHR ''-'' \<or> hd s1 = CHR ''+'') then tl s1 else s1);
          (base, s3) = number_base b s2
      in if \<not> starts_digit base s3 then (0, s)
         else (case scan_digits base 0 s3 of (n, r) \<Rightarrow>
           (if neg then max (- (2 ^ (w - 1))) (- int n) else min (2 ^ (w - 1) - 1) (int n), r)))"

section \<open>Printing numbers\<close>

fun digits_of :: "nat \<Rightarrow> nat \<Rightarrow> string" where
  "digits_of b n = (if b < 2 then [] else if n < b then [digit_char n]
                    else digits_of b (n div b) @ [digit_char (n mod b)])"

declare digits_of.simps [simp del]

definition print_dec :: "nat \<Rightarrow> string" where "print_dec n = digits_of 10 n"
definition print_hex :: "nat \<Rightarrow> string" where "print_hex n = digits_of 16 n"

definition hex_upper :: "nat \<Rightarrow> char" where
  "hex_upper d = (if d < 10 then char_of (48 + d) else char_of (55 + d))"

text \<open>\<^verbatim>\<open>%08X\<close> of a 32-bit number.\<close>

definition fmt_08X :: "u32 \<Rightarrow> string" where
  "fmt_08X w = map (\<lambda>i. hex_upper (unat w div 16 ^ (7 - i) mod 16)) [0, 1, 2, 3, 4, 5, 6, 7]"

text \<open>\<^verbatim>\<open>%d\<close> and \<^verbatim>\<open>%o\<close> of a 32-bit number, \<^verbatim>\<open>%02X\<close> of a byte.\<close>

definition fmt_d :: "u32 \<Rightarrow> string" where
  "fmt_d w = (if sint w < 0 then CHR ''-'' # print_dec (nat (- sint w)) else print_dec (nat (sint w)))"

definition fmt_o :: "u32 \<Rightarrow> string" where
  "fmt_o w = digits_of 8 (unat w)"

definition fmt_02X :: "u8 \<Rightarrow> string" where
  "fmt_02X w = [hex_upper (unat w div 16), hex_upper (unat w mod 16)]"

text \<open>\<^verbatim>\<open>%X\<close>, \<^verbatim>\<open>%02d\<close>, \<^verbatim>\<open>%d\<close> of an \<^verbatim>\<open>int\<close>, and \<^verbatim>\<open>%-ns\<close>.\<close>

fun digits_upper :: "nat \<Rightarrow> string" where
  "digits_upper n = (if n < 16 then [hex_upper n] else digits_upper (n div 16) @ [hex_upper (n mod 16)])"

declare digits_upper.simps [simp del]

definition fmt_02d :: "nat \<Rightarrow> string" where
  "fmt_02d n = (if n < 10 then CHR ''0'' # print_dec n else print_dec n)"

definition print_dint :: "int \<Rightarrow> string" where
  "print_dint i = (if i < 0 then CHR ''-'' # print_dec (nat (- i)) else print_dec (nat i))"

definition pad_right :: "nat \<Rightarrow> string \<Rightarrow> string" where
  "pad_right n s = s @ replicate (n - length s) (CHR '' '')"

lemma scan_digits_append:
  "scan_digits b acc xs = (v, []) \<Longrightarrow> scan_digits b acc (xs @ ys) = scan_digits b v ys"
  by (induction xs arbitrary: acc) (auto split: if_splits)

lemma scan_digits_of:
  assumes "2 \<le> b" and "b \<le> 36"
  shows "scan_digits b 0 (digits_of b n) = (n, [])"
  using assms
proof (induction b n rule: digits_of.induct)
  case (1 b n)
  show ?case
  proof (cases "n < b")
    case True
    then show ?thesis using 1(2,3) by (subst digits_of.simps) (simp add: digit_val_char)
  next
    case False
    then have "scan_digits b 0 (digits_of b (n div b)) = (n div b, [])" using 1 by simp
    moreover have "n mod b < b" using 1(2) by simp
    ultimately show ?thesis using False 1(2,3)
      by (subst digits_of.simps) (simp add: scan_digits_append digit_val_char del: mod_less_divisor)
  qed
qed

lemma digits_of_hd:
  assumes "2 \<le> b" and "b \<le> 36"
  shows "digits_of b n \<noteq> [] \<and> (\<exists>d < b. hd (digits_of b n) = digit_char d \<and> (n \<ge> 1 \<longrightarrow> d \<ge> 1))"
  using assms
proof (induction b n rule: digits_of.induct)
  case (1 b n)
  show ?case
  proof (cases "n < b")
    case True
    then show ?thesis using 1(2,3) by (subst (1 2) digits_of.simps) (auto intro!: exI [of _ n])
  next
    case False
    then have ih: "digits_of b (n div b) \<noteq> []" "\<exists>d < b. hd (digits_of b (n div b)) = digit_char d
        \<and> (n div b \<ge> 1 \<longrightarrow> d \<ge> 1)" using 1 by auto
    have "n div b \<ge> 1" using False 1(2) by (simp add: Suc_le_eq div_greater_zero_iff)
    then show ?thesis using ih False 1(2) by (subst (1 2) digits_of.simps) auto
  qed
qed

lemma code_digit_char: "d < 36 \<Longrightarrow> code (digit_char d) = (if d < 10 then 48 + d else 87 + d)"
  by (auto simp: digit_char_def of_char_of take_bit_nat_def)

lemma digit_char_signs: "d < 10 \<Longrightarrow> digit_char d \<noteq> CHR ''-'' \<and> digit_char d \<noteq> CHR ''+''"
  using code_digit_char [of d] by (intro conjI notI) simp_all

text \<open>Parsing a printed decimal number gives it back, whatever non-digit follows.\<close>

lemma strtoul_print_dec:
  assumes "n < 2 ^ w" and "\<not> starts_digit 10 r"
  shows "strtoul w 10 (print_dec n @ r) = (n, r)"
proof -
  obtain d ds where p: "print_dec n = digit_char d # ds" and d: "d < 10"
    using digits_of_hd [of 10 n] unfolding print_dec_def by (cases "digits_of 10 n") auto
  have sc: "scan_digits 10 0 (print_dec n @ r) = (n, r)"
  proof -
    have "scan_digits 10 0 (print_dec n @ r) = scan_digits 10 n r"
      unfolding print_dec_def by (rule scan_digits_append) (rule scan_digits_of, simp_all)
    also have "\<dots> = (n, r)" using assms(2) by (cases r) (auto simp: starts_digit_def)
    finally show ?thesis .
  qed
  have "digit_char d \<noteq> CHR ''-''" "digit_char d \<noteq> CHR ''+''" "\<not> isspace (digit_char d)"
    using d digit_char_signs [of d] by auto
  then show ?thesis
    using assms(1) sc d by (simp add: strtoul_def number_base_def p starts_digit_def digit_val_char Let_def)
qed

section \<open>Arrays of characters\<close>

text \<open>\<^verbatim>\<open>strncpy\<close> into an array of \<open>n\<close> characters, and the string an array holds.\<close>

definition strncpy :: "nat \<Rightarrow> string \<Rightarrow> string" where
  "strncpy n s = take n s @ replicate (n - length s) (CHR 0x00)"

definition str_of :: "string \<Rightarrow> string" where
  "str_of s = takeWhile (\<lambda>c. c \<noteq> CHR 0x00) s"

section \<open>Lines\<close>

text \<open>Trailing, then leading, white space removed.\<close>

definition trim_line :: "string \<Rightarrow> string" where
  "trim_line s = skip_space (rev (skip_space (rev s)))"

lemma skip_space_id: "s = [] \<or> \<not> isspace (hd s) \<Longrightarrow> skip_space s = s"
  by (cases s) auto

end
