(* ===== verification/HostShell.thy ===== *)
theory HostShell
  imports HostPath CLib
begin

text \<open>
  The console of \<^verbatim>\<open>usbhostfs_pc/main.c\<close>: the drive table (\<^verbatim>\<open>add_drive\<close>, the arguments of the
  program, map files), the settings and the command interpreter \<^verbatim>\<open>parse_shell\<close>. What a
  command prints is not modelled.
\<close>

section \<open>The drive table\<close>

text \<open>
  \<^verbatim>\<open>add_drive\<close>: \<open>1\<close> on success, \<open>0\<close> otherwise. A directory that is not absolute is taken below
  \<^verbatim>\<open>g_rootdir\<close>; an absolute one is copied unchecked into \<^verbatim>\<open>path[PATH_MAX]\<close>.
\<close>

definition add_drive :: "'w os \<Rightarrow> int \<Rightarrow> string \<Rightarrow> host \<Rightarrow> 'w \<Rightarrow> (nat \<times> host \<times> 'w) run" where
  "add_drive os num dir h w =
     (if num < 0 \<or> num \<ge> int MAX_HOSTDRIVES then Inr (0, h, w) else
      let absolute = (dir \<noteq> [] \<and> hd dir = CHR ''/'');
          path0 = (if absolute then dir else fst (snprintf PATH_MAX (g_rootdir h @ ''/'' @ dir)))
      in if absolute \<and> length dir \<ge> PATH_MAX then Inl Buffer_Overflow else
      let path = gen_path path0 False
      in if length path \<ge> PATH_MAX then Inl Buffer_Overflow else
      case os_readdir os path w of
        (None, w1) \<Rightarrow> Inr (0, h, w1)
      | (Some _, w1) \<Rightarrow>
          (case os_lock os w1 of
             (False, w2) \<Rightarrow> Inr (0, h, w2)
           | (True, w2) \<Rightarrow>
               Inr (1, h\<lparr>g_drives := (g_drives h)[nat num := \<lparr>rootdir = path, currdir = ''/''\<rparr>]\<rparr>, w2)))"

text \<open>
  The drive part of \<^verbatim>\<open>parse_args\<close>: every drive starts at the working directory, the arguments
  left after the options give the roots of the first drives.
\<close>

fun arg_roots :: "string \<Rightarrow> nat \<Rightarrow> string list \<Rightarrow> HostDrive list \<Rightarrow> HostDrive list run" where
  "arg_roots cwd i [] ds = Inr ds"
| "arg_roots cwd i (a # as) ds =
     (if i \<ge> MAX_HOSTDRIVES then Inr ds else
      let absolute = (a \<noteq> [] \<and> hd a = CHR ''/'');
          root0 = (if absolute then a else fst (snprintf PATH_MAX (cwd @ ''/'' @ a)))
      in if absolute \<and> length a \<ge> PATH_MAX then Inl Buffer_Overflow else
      let root = gen_path root0 False
      in if length root \<ge> PATH_MAX then Inl Buffer_Overflow
         else arg_roots cwd (i + 1) as (ds[i := (ds ! i)\<lparr>rootdir := root\<rparr>]))"

definition parse_args_drives :: "string \<Rightarrow> string list \<Rightarrow> host \<Rightarrow> host run" where
  "parse_args_drives cwd args h =
     (case arg_roots cwd 0 args (map (\<lambda>d. d\<lparr>rootdir := cwd\<rparr>) (g_drives h)) of
        Inl f \<Rightarrow> Inl f
      | Inr ds \<Rightarrow> Inr (h\<lparr>g_rootdir := cwd, g_drives := ds\<rparr>))"

section \<open>Map files\<close>

text \<open>\<^verbatim>\<open>fgets (buf, n, fp)\<close>: a line with its newline, at most \<open>n - 1\<close> characters of it.\<close>

fun fgets :: "nat \<Rightarrow> string \<Rightarrow> string \<times> string" where
  "fgets 0 s = ([], s)"
| "fgets (Suc n) [] = ([], [])"
| "fgets (Suc n) (c # s) =
     (if n = 0 then ([], c # s)
      else if c = CHR 0x0A then ([c], s)
      else case fgets n s of (l, r) \<Rightarrow> (c # l, r))"

lemma fgets_append: "fgets n s = (l, r) \<Longrightarrow> l @ r = s"
  by (induction n s arbitrary: l rule: fgets.induct) (auto split: if_splits prod.splits)

text \<open>One line of a map file, \<^verbatim>\<open>num=path\<close>; any other line is reported and skipped.\<close>

definition load_line :: "'w os \<Rightarrow> string \<Rightarrow> host \<Rightarrow> 'w \<Rightarrow> (host \<times> 'w) run" where
  "load_line os line h w =
     (let buf = trim_line line in
      if buf = [] \<or> \<not> isdigit (hd buf) then Inr (h, w) else
      case strtoul 64 10 buf of (num, endp) \<Rightarrow>
        if endp = [] \<or> hd endp \<noteq> CHR ''='' \<or> tl endp = [] \<or> isspace (hd (tl endp)) then Inr (h, w)
        else (case add_drive os (sint (word_of_nat num :: u32)) (tl endp) h w of
                Inl f \<Rightarrow> Inl f
              | Inr (_, h1, w1) \<Rightarrow> Inr (h1, w1)))"

lemma fgets_shorter: "fgets n s = (l, r) \<Longrightarrow> l \<noteq> [] \<Longrightarrow> length r < length s"
proof -
  assume "fgets n s = (l, r)" "l \<noteq> []"
  then have "l @ r = s" "0 < length l" using fgets_append by auto
  then show ?thesis by (metis length_append less_add_same_cancel2)
qed

function load_lines :: "'w os \<Rightarrow> string \<Rightarrow> host \<Rightarrow> 'w \<Rightarrow> (host \<times> 'w) run" where
  "load_lines os text h w =
     (case fgets PATH_MAX text of (line, r) \<Rightarrow>
        if line = [] then Inr (h, w)
        else (case load_line os line h w of
                Inl f \<Rightarrow> Inl f
              | Inr (h1, w1) \<Rightarrow> load_lines os r h1 w1))"
  by pat_completeness auto

termination
  by (relation "measure (\<lambda>(os, text, h, w). length text)") (auto dest: fgets_shorter [OF sym])

declare load_lines.simps [simp del]

definition load_mapfile :: "'w os \<Rightarrow> string \<Rightarrow> host \<Rightarrow> 'w \<Rightarrow> (host \<times> 'w) run" where
  "load_mapfile os mapfile h w =
     (case os_get_text os mapfile w of
        (None, w1) \<Rightarrow> Inr (h, w1)
      | (Some text, w1) \<Rightarrow> load_lines os text h w1)"

definition save_text :: "HostDrive list \<Rightarrow> string" where
  "save_text ds = concat (map (\<lambda>(i, d). print_dec i @ ''='' @ rootdir d @ [CHR 0x0A]) (enumerate 0 ds))"

section \<open>Console commands\<close>

datatype outcome = COMMAND_OK | COMMAND_ERR | COMMAND_HELP | EXIT_APP

definition blank :: "char \<Rightarrow> bool" where
  "blank c \<longleftrightarrow> c = CHR '' '' \<or> c = CHR 0x09"

text \<open>\<^verbatim>\<open>strtok (NULL, "")\<close>: what is left of the line, if anything.\<close>

definition strtok_rest :: "string \<Rightarrow> string option" where
  "strtok_rest s = (if s = [] then None else Some s)"

definition on_off :: "string \<Rightarrow> bool \<Rightarrow> bool" where
  "on_off args old = (case strtok blank args of
     None \<Rightarrow> old
   | Some (arg, _) \<Rightarrow> if arg = ''on'' then True else if arg = ''off'' then False else old)"

definition nocase_set :: "string \<Rightarrow> host \<Rightarrow> outcome \<times> host" where
  "nocase_set args h = (COMMAND_OK, h\<lparr>g_nocase := on_off args (g_nocase h)\<rparr>)"

definition msslash_set :: "string \<Rightarrow> host \<Rightarrow> outcome \<times> host" where
  "msslash_set args h = (COMMAND_OK, h\<lparr>g_msslash := on_off args (g_msslash h)\<rparr>)"

definition mount_drive :: "'w os \<Rightarrow> string \<Rightarrow> host \<Rightarrow> 'w \<Rightarrow> (outcome \<times> host \<times> 'w) run" where
  "mount_drive os args h w =
     (case strtok blank args of
        None \<Rightarrow> Inr (COMMAND_ERR, h, w)
      | Some (num, r) \<Rightarrow>
          (case strtok_rest r of
             None \<Rightarrow> Inr (COMMAND_ERR, h, w)
           | Some dir \<Rightarrow>
               (case strtoul 64 10 num of (val, endp) \<Rightarrow>
                  if endp \<noteq> [] then Inr (COMMAND_ERR, h, w)
                  else (case add_drive os (sint (word_of_nat val :: u32)) dir h w of
                          Inl f \<Rightarrow> Inl f
                        | Inr (ok, h1, w1) \<Rightarrow>
                            Inr (if ok = 0 then COMMAND_ERR else COMMAND_OK, h1, w1)))))"

definition load_drives :: "'w os \<Rightarrow> string \<Rightarrow> host \<Rightarrow> 'w \<Rightarrow> (outcome \<times> host \<times> 'w) run" where
  "load_drives os args h w =
     (case strtok_rest args of
        None \<Rightarrow> Inr (COMMAND_ERR, h, w)
      | Some mapfile \<Rightarrow>
          (case load_mapfile os mapfile h w of
             Inl f \<Rightarrow> Inl f
           | Inr (h1, w1) \<Rightarrow> Inr (COMMAND_OK, h1, w1)))"

definition save_drives :: "'w os \<Rightarrow> string \<Rightarrow> host \<Rightarrow> 'w \<Rightarrow> outcome \<times> host \<times> 'w" where
  "save_drives os args h w =
     (case strtok_rest args of
        None \<Rightarrow> (COMMAND_ERR, h, w)
      | Some mapfile \<Rightarrow>
          (case os_put_text os mapfile (save_text (g_drives h)) w of
             (False, w1) \<Rightarrow> (COMMAND_ERR, h, w1)
           | (True, w1) \<Rightarrow> (COMMAND_OK, h, w1)))"

definition ch_dir :: "'w os \<Rightarrow> string \<Rightarrow> host \<Rightarrow> 'w \<Rightarrow> outcome \<times> host \<times> 'w" where
  "ch_dir os args h w =
     (case strtok_rest args of
        None \<Rightarrow> (COMMAND_ERR, h, w)
      | Some dir \<Rightarrow>
          (case os_chdir os dir w of
             (Some cwd, w1) \<Rightarrow> (COMMAND_OK, h\<lparr>g_rootdir := cwd\<rparr>, w1)
           | (None, w1) \<Rightarrow> (COMMAND_OK, h, w1)))"

text \<open>
  The table \<^verbatim>\<open>g_commands\<close>, with the argument each command finds in \<^verbatim>\<open>strtok (NULL, ...)\<close>. The
  commands that only print (\<^verbatim>\<open>drives\<close>, \<^verbatim>\<open>gdbdebug\<close>, \<^verbatim>\<open>verbose\<close>, \<^verbatim>\<open>pwd\<close>) leave the state alone.
\<close>

definition run_command :: "'w os \<Rightarrow> string \<Rightarrow> string \<Rightarrow> host \<Rightarrow> 'w \<Rightarrow> (outcome \<times> host \<times> 'w) run" where
  "run_command os cmd args h w =
     (if cmd \<in> {''drives'', ''gdbdebug'', ''verbose'', ''pwd''} then Inr (COMMAND_OK, h, w)
      else if cmd = ''mount'' then mount_drive os args h w
      else if cmd = ''save'' then Inr (save_drives os args h w)
      else if cmd = ''load'' then load_drives os args h w
      else if cmd = ''nocase'' then (case nocase_set args h of (r, h1) \<Rightarrow> Inr (r, h1, w))
      else if cmd = ''msslash'' then (case msslash_set args h of (r, h1) \<Rightarrow> Inr (r, h1, w))
      else if cmd = ''cd'' then Inr (ch_dir os args h w)
      else if cmd = ''exit'' then Inr (EXIT_APP, h, w)
      else Inr (COMMAND_HELP, h, w))"

text \<open>
  \<^verbatim>\<open>parse_shell\<close> of a line (\<open>None\<close> for the null pointer of an end of file). A line that starts
  with an exclamation mark goes to \<^verbatim>\<open>system\<close> and changes nothing here.
\<close>

definition parse_shell :: "'w os \<Rightarrow> string option \<Rightarrow> host \<Rightarrow> 'w \<Rightarrow> (outcome \<times> host \<times> 'w) run" where
  "parse_shell os buf h w =
     (case buf of
        None \<Rightarrow> Inr (EXIT_APP, h, w)
      | Some s \<Rightarrow>
          (let line = trim_line s in
           if line = [] then Inr (COMMAND_OK, h, w)
           else if hd line = CHR ''!'' then Inr (COMMAND_OK, h, w)
           else (case strtok blank line of
                   None \<Rightarrow> Inr (COMMAND_HELP, h, w)
                 | Some (cmd, args) \<Rightarrow> run_command os cmd args h w)))"

end
