(* ===== verification/HostSession.thy ===== *)
theory HostSession
  imports HostServer HostShell
begin

text \<open>
  The life of the server of \<^verbatim>\<open>usbhostfs_pc/main.c\<close>: the asynchronous and bulk channels, one
  turn of the command loop of \<^verbatim>\<open>start_hostfs\<close>, connecting and disconnecting, and the console
  commands the main thread interleaves with them, as the step relation \<open>session_step\<close>.
\<close>

section \<open>Channels to the sockets\<close>

definition do_async :: "'w os \<Rightarrow> bytes \<Rightarrow> nat \<Rightarrow> host \<Rightarrow> 'w \<Rightarrow> 'w" where
  "do_async os buf readlen h w =
     (if readlen > 8 then
        (let data = take (readlen - 8) (drop 8 buf);
             chan = unat (async_channel (dec_async buf))
         in if chan < MAX_ASYNC_CHANNELS \<and> g_clientsocks h ! chan \<ge> 0
            then snd (os_write os (nat (g_clientsocks h ! chan)) data w)
            else w)
      else w)"

text \<open>
  The loop of \<^verbatim>\<open>do_bulk\<close>: blocks of at most \<^verbatim>\<open>HOSTFS_MAX_BLOCK\<close> into the static
  \<^verbatim>\<open>block[HOSTFS_BULK_MAXWRITE]\<close>; \<open>None\<close> when a transfer falls short.
\<close>

function bulk_blocks :: "'w os \<Rightarrow> nat \<Rightarrow> bytes \<Rightarrow> nat \<Rightarrow> 'w \<Rightarrow> (bytes option \<times> 'w) run" where
  "bulk_blocks os len acc rd w =
     (if rd < len then
        (let readsize = (if len - rd > HOSTFS_MAX_BLOCK then HOSTFS_MAX_BLOCK else len - rd) in
         case euid_usb_bulk_read os (HOSTFS_BULK_MAXWRITE - rd) (of_nat readsize) w of
           Inl f \<Rightarrow> Inl f
         | Inr ((ret, data), w1) \<Rightarrow>
             if ret \<noteq> int readsize then Inr (None, w1)
             else bulk_blocks os len (acc @ data) (rd + readsize) w1)
      else Inr (Some acc, w))"
  by pat_completeness auto

termination
  by (relation "measure (\<lambda>(os, len, acc, rd, w). len - rd)") (auto simp: Let_def HOSTFS_MAX_BLOCK_def)

declare bulk_blocks.simps [simp del]

definition do_bulk :: "'w os \<Rightarrow> bytes \<Rightarrow> nat \<Rightarrow> host \<Rightarrow> 'w \<Rightarrow> 'w run" where
  "do_bulk os buf readlen h w =
     (let c = dec_bulk buf; chan = unat (bulk_channel c); len = nat (sint (bulk_size c)) in
      case bulk_blocks os len [] 0 w of
        Inl f \<Rightarrow> Inl f
      | Inr (None, w1) \<Rightarrow> Inr w1
      | Inr (Some block, w1) \<Rightarrow>
          if chan < MAX_ASYNC_CHANNELS \<and> g_clientsocks h ! chan \<ge> 0 then
            (case of_loop (fixed_write (os_write os (nat (g_clientsocks h ! chan))) block 0 w1) of
               Inl f \<Rightarrow> Inl f
             | Inr (_, w2) \<Rightarrow> Inr w2)
          else Inr w1)"

section \<open>Start and end of a connection\<close>

fun close_files :: "'w os \<Rightarrow> nat \<Rightarrow> FileHandle list \<Rightarrow> 'w \<Rightarrow> FileHandle list \<times> 'w" where
  "close_files os i [] w = ([], w)"
| "close_files os i (f # fs) w =
     (case (if i \<ge> 3 \<and> fh_opened f then (f\<lparr>fh_opened := False, fh_name := None\<rparr>, snd (os_close os i w))
            else (f, w)) of
        (f1, w1) \<Rightarrow> (case close_files os (i + 1) fs w1 of (fs1, w2) \<Rightarrow> (f1 # fs1, w2)))"

fun close_dirs :: "nat list \<Rightarrow> host \<Rightarrow> host run" where
  "close_dirs [] h = Inr h"
| "close_dirs (i # is) h =
     (if dh_opened (open_dirs h ! i) then
        (case dir_close (int i) h of Inl f \<Rightarrow> Inl f | Inr (_, h1) \<Rightarrow> close_dirs is h1)
      else close_dirs is h)"

definition close_hostfs :: "'w os \<Rightarrow> host \<Rightarrow> 'w \<Rightarrow> (host \<times> 'w) run" where
  "close_hostfs os h w =
     (case close_files os 0 (open_files h) w of
        (fs, w1) \<Rightarrow> (case close_dirs [0..<MAX_DIRS] (h\<lparr>open_files := fs\<rparr>) of
                       Inl f \<Rightarrow> Inl f | Inr h1 \<Rightarrow> Inr (h1, w1)))"

section \<open>One turn of the command loop\<close>

definition ETIMEDOUT :: int where "ETIMEDOUT = 110"

text \<open>
  The body of the inner loop of \<^verbatim>\<open>start_hostfs\<close>. \<open>buf\<close> is the 512-byte array of the function,
  which keeps what earlier transfers left in it; the result says whether the loop goes on.
\<close>

definition serve_turn ::
  "'w os \<Rightarrow> bytes \<Rightarrow> host \<Rightarrow> 'w \<Rightarrow> (bool \<times> bytes \<times> host \<times> 'w) run" where
  "serve_turn os buf h w =
     (case euid_usb_bulk_read os 512 512 w of
        Inl f \<Rightarrow> Inl f
      | Inr ((readlen, data), w1) \<Rightarrow>
          (let buf1 = data @ drop (length data) buf; n = nat readlen; magicno = rd32 0 buf1 in
           if readlen = 0 then Inr (False, buf1, h, w1)
           else if readlen = - ETIMEDOUT then Inr (True, buf1, h, w1)
           else if readlen < 0 then Inr (False, buf1, h, w1)
           else if n < 4 then Inr (False, buf1, h, w1)
           else if magicno = HOSTFS_MAGIC then
             (if n < 12 then Inr (False, buf1, h, w1)
              else case do_hostfs os buf1 n h w1 of
                     Inl f \<Rightarrow> Inl f
                   | Inr (_, h1, w2) \<Rightarrow> Inr (True, buf1, h1, w2))
           else if magicno = ASYNC_MAGIC then
             (if n < 8 then Inr (False, buf1, h, w1)
              else Inr (True, buf1, h, do_async os buf1 n h w1))
           else if magicno = BULK_MAGIC then
             (if n < 12 then Inr (False, buf1, h, w1)
              else case do_bulk os buf1 n h w1 of
                     Inl f \<Rightarrow> Inl f
                   | Inr w2 \<Rightarrow> Inr (True, buf1, h, w2))
           else Inr (True, buf1, h, w1)))"

section \<open>The life of the server\<close>

datatype phase = Waiting | Connected

record 'w session =
  ss_phase :: phase
  ss_buf :: bytes
  ss_host :: host
  ss_world :: 'w

text \<open>
  \<open>connect\<close>: \<^verbatim>\<open>wait_for_device\<close> has found the PSP and the magic is sent; when that fails the
  connection is closed at once. \<open>turn\<close> and \<open>hangup\<close>: a turn of the loop that goes on, or ends
  with \<^verbatim>\<open>close_hostfs\<close>. \<open>console\<close>: a line typed on the PC. \<open>socket\<close>: the asynchronous thread
  accepts or drops a client.
\<close>

inductive session_step :: "'w os \<Rightarrow> 'w session \<Rightarrow> 'w session \<Rightarrow> bool" for os where
  connect: "ss_phase s = Waiting \<Longrightarrow> euid_usb_bulk_write os 0x2 (le32 HOSTFS_MAGIC) (ss_world s) = (4, w1)
    \<Longrightarrow> session_step os s (s\<lparr>ss_phase := Connected, ss_host := init_hostfs (ss_host s), ss_world := w1\<rparr>)"
| no_connect: "ss_phase s = Waiting \<Longrightarrow>
    euid_usb_bulk_write os 0x2 (le32 HOSTFS_MAGIC) (ss_world s) = (n, w1) \<Longrightarrow> n \<noteq> 4 \<Longrightarrow>
    close_hostfs os (init_hostfs (ss_host s)) w1 = Inr (h2, w2)
    \<Longrightarrow> session_step os s (s\<lparr>ss_host := h2, ss_world := w2\<rparr>)"
| turn: "ss_phase s = Connected \<Longrightarrow>
    serve_turn os (ss_buf s) (ss_host s) (ss_world s) = Inr (True, b1, h1, w1)
    \<Longrightarrow> session_step os s (s\<lparr>ss_buf := b1, ss_host := h1, ss_world := w1\<rparr>)"
| hangup: "ss_phase s = Connected \<Longrightarrow>
    serve_turn os (ss_buf s) (ss_host s) (ss_world s) = Inr (False, b1, h1, w1) \<Longrightarrow>
    close_hostfs os h1 w1 = Inr (h2, w2)
    \<Longrightarrow> session_step os s (s\<lparr>ss_phase := Waiting, ss_buf := b1, ss_host := h2, ss_world := w2\<rparr>)"
| console: "parse_shell os line (ss_host s) (ss_world s) = Inr (r, h1, w1) \<Longrightarrow> r \<noteq> EXIT_APP
    \<Longrightarrow> session_step os s (s\<lparr>ss_host := h1, ss_world := w1\<rparr>)"
| socket: "chan < MAX_ASYNC_CHANNELS
    \<Longrightarrow> session_step os s (s\<lparr>ss_host := (ss_host s)\<lparr>g_clientsocks := (g_clientsocks (ss_host s))[chan := fd]\<rparr>\<rparr>)"

inductive session_reach :: "'w os \<Rightarrow> 'w session \<Rightarrow> 'w session \<Rightarrow> bool" for os s0 where
  start: "session_reach os s0 s0"
| step: "session_reach os s0 s \<Longrightarrow> session_step os s t \<Longrightarrow> session_reach os s0 t"

end
