(* ===== verification/HostServerProps.thy ===== *)
theory HostServerProps
  imports HostSession
begin

text \<open>
  The invariant of the server's tables and its preservation by every handler, by the end of
  a connection and by the console; what the handlers do with handles that are not open.
\<close>

section \<open>The invariant\<close>

definition file_ok :: "FileHandle \<Rightarrow> bool" where
  "file_ok f \<longleftrightarrow> fh_opened f = (fh_name f \<noteq> None)"

definition dir_ok :: "DirHandle \<Rightarrow> bool" where
  "dir_ok d = (if dh_opened d
     then (case dh_pDir d of
             Entries ents \<Rightarrow> dh_count d = length ents \<and> 0 < dh_count d \<and> dh_pos d \<le> dh_count d
                \<and> list_all (\<lambda>e. length (d_name e) < 256) ents
           | _ \<Rightarrow> False)
     else dh_count d = 0 \<and> dh_pos d = 0 \<and> (dh_pDir d = Null \<or> dh_pDir d = Freed))"

definition host_wf :: "host \<Rightarrow> bool" where
  "host_wf h \<longleftrightarrow> length (open_files h) = MAX_FILES \<and> list_all file_ok (open_files h)
     \<and> length (open_dirs h) = MAX_DIRS \<and> list_all dir_ok (open_dirs h)
     \<and> length (g_drives h) = MAX_HOSTDRIVES \<and> list_all (\<lambda>d. clean_root (rootdir d)) (g_drives h)
     \<and> length (g_clientsocks h) = MAX_ASYNC_CHANNELS"

lemma list_all_update: "list_all P xs \<Longrightarrow> P x \<Longrightarrow> list_all P (xs[i := x])"
  by (metis (full_types) insert_iff list_all_iff set_update_subset_insert subsetD)

lemma dir_ok_no_dir [simp]: "dir_ok no_dir" "dir_ok (no_dir\<lparr>dh_pDir := Freed\<rparr>)"
  by (simp_all add: dir_ok_def no_dir_def)

lemma file_ok_no_file [simp]: "file_ok no_file"
  by (simp add: file_ok_def no_file_def)

lemma host_wf_file: "host_wf h \<Longrightarrow> file_ok f \<Longrightarrow> host_wf (h\<lparr>open_files := (open_files h)[i := f]\<rparr>)"
  by (simp add: host_wf_def list_all_update)

lemma host_wf_dir: "host_wf h \<Longrightarrow> dir_ok d \<Longrightarrow> host_wf (h\<lparr>open_dirs := (open_dirs h)[i := d]\<rparr>)"
  by (simp add: host_wf_def list_all_update)

lemma host_wf_currdir:
  "host_wf h \<Longrightarrow> i < MAX_HOSTDRIVES \<Longrightarrow>
   host_wf (h\<lparr>g_drives := (g_drives h)[i := (g_drives h ! i)\<lparr>currdir := p\<rparr>]\<rparr>)"
  by (auto simp: host_wf_def list_all_length nth_list_update)

lemma host_wf_dirs_nth: "host_wf h \<Longrightarrow> 0 \<le> i \<Longrightarrow> i < int MAX_DIRS \<Longrightarrow> dir_ok (open_dirs h ! nat i)"
  by (auto simp: host_wf_def list_all_length)

section \<open>Handlers that leave the globals alone\<close>

named_theorems keeps_host

lemma send_resp_keeps: "send_resp os r h w = Inr (n, h1, w1) \<Longrightarrow> h1 = h"
  by (auto simp: send_resp_def split: prod.splits)

lemma send_resp_data_keeps: "send_resp_data os r data h w = Inr (n, h1, w1) \<Longrightarrow> h1 = h"
  by (auto simp: send_resp_data_def split: prod.splits if_splits)

lemma handle_hello_keeps [keeps_host]: "handle_hello os h w = Inr (n, h1, w1) \<Longrightarrow> h1 = h"
  by (auto simp: handle_hello_def split: prod.splits)

lemma handle_write_keeps [keeps_host]: "handle_write os buf k h w = Inr (n, h1, w1) \<Longrightarrow> h1 = h"
  by (auto simp: handle_write_def Let_def split: sum.splits prod.splits if_splits dest: send_resp_keeps)

lemma handle_read_keeps [keeps_host]: "handle_read os buf k h w = Inr (n, h1, w1) \<Longrightarrow> h1 = h"
  by (auto simp: handle_read_def Let_def split: sum.splits prod.splits if_splits dest: send_resp_data_keeps)

lemma handle_lseek_keeps [keeps_host]: "handle_lseek os buf k h w = Inr (n, h1, w1) \<Longrightarrow> h1 = h"
  by (auto simp: handle_lseek_def Let_def split: prod.splits if_splits)

lemma handle_remove_keeps [keeps_host]: "handle_remove os buf k h w = Inr (n, h1, w1) \<Longrightarrow> h1 = h"
  by (auto simp: handle_remove_def Let_def split: sum.splits prod.splits if_splits dest: send_resp_keeps)

lemma handle_rmdir_keeps [keeps_host]: "handle_rmdir os buf k h w = Inr (n, h1, w1) \<Longrightarrow> h1 = h"
  by (auto simp: handle_rmdir_def Let_def split: sum.splits prod.splits if_splits dest: send_resp_keeps)

lemma handle_mkdir_keeps [keeps_host]: "handle_mkdir os buf k h w = Inr (n, h1, w1) \<Longrightarrow> h1 = h"
  by (auto simp: handle_mkdir_def Let_def split: sum.splits prod.splits if_splits dest: send_resp_keeps)

lemma handle_chstat_keeps [keeps_host]: "handle_chstat os buf k h w = Inr (n, h1, w1) \<Longrightarrow> h1 = h"
  by (auto simp: handle_chstat_def Let_def split: sum.splits prod.splits if_splits dest: send_resp_keeps)

lemma handle_getstat_keeps [keeps_host]: "handle_getstat os buf k h w = Inr (n, h1, w1) \<Longrightarrow> h1 = h"
  by (auto simp: handle_getstat_def Let_def split: sum.splits prod.splits if_splits option.splits
      dest: send_resp_data_keeps)

lemma handle_rename_keeps [keeps_host]: "handle_rename os buf k h w = Inr (n, h1, w1) \<Longrightarrow> h1 = h"
  by (auto simp: handle_rename_def Let_def split: sum.splits prod.splits if_splits option.splits
      dest: send_resp_keeps)

lemma handle_ioctl_keeps [keeps_host]: "handle_ioctl os buf k h w = Inr (n, h1, w1) \<Longrightarrow> h1 = h"
  by (auto simp: handle_ioctl_def Let_def split: sum.splits prod.splits if_splits option.splits
      dest: send_resp_data_keeps)

lemma handle_devctl_keeps [keeps_host]: "handle_devctl os buf k h w = Inr (n, h1, w1) \<Longrightarrow> h1 = h"
  by (auto simp: handle_devctl_def Let_def split: sum.splits prod.splits if_splits option.splits
      dest: send_resp_data_keeps)

section \<open>Handlers that change the tables\<close>

lemma open_file_wf: "host_wf h \<Longrightarrow> open_file os h d p m k w = Inr (r, h1, w1) \<Longrightarrow> host_wf h1"
  by (auto simp: open_file_def file_ok_def split: sum.splits prod.splits if_splits option.splits bool.splits
      intro!: host_wf_file)

lemma fill_dirents_names:
  assumes "fill_dirents os dir ns acc w = Inr (Some ents, w1)"
    and "list_all (\<lambda>e. length (d_name e) < 256) acc"
  shows "length ents = length acc + length ns \<and> list_all (\<lambda>e. length (d_name e) < 256) ents"
  using assms
  by (induction os dir ns acc w rule: fill_dirents.induct) (auto split: if_splits prod.splits sum.splits)

lemma dir_open_wf: "host_wf h \<Longrightarrow> dir_open os h d p w = Inr (r, h1, w1) \<Longrightarrow> host_wf h1"
  by (auto simp: dir_open_def Let_def dir_ok_def [of "\<lparr>dh_opened = _, dh_count = _, dh_pos = _, dh_pDir = _\<rparr>"]
      split: sum.splits prod.splits if_splits option.splits
      intro!: host_wf_dir dest!: fill_dirents_names)

lemma dir_close_wf: "host_wf h \<Longrightarrow> dir_close i h = Inr (r, h1) \<Longrightarrow> host_wf h1"
  by (auto simp: dir_close_def split: if_splits intro!: host_wf_dir)

lemma handle_open_wf: "host_wf h \<Longrightarrow> handle_open os buf k h w = Inr (n, h1, w1) \<Longrightarrow> host_wf h1"
  by (auto simp: handle_open_def Let_def split: sum.splits prod.splits if_splits
      dest!: send_resp_keeps dest: open_file_wf)

lemma handle_dopen_wf: "host_wf h \<Longrightarrow> handle_dopen os buf k h w = Inr (n, h1, w1) \<Longrightarrow> host_wf h1"
  by (auto simp: handle_dopen_def Let_def split: sum.splits prod.splits if_splits
      dest!: send_resp_keeps dest: dir_open_wf)

lemma handle_close_wf: "host_wf h \<Longrightarrow> handle_close os buf k h w = Inr (n, h1, w1) \<Longrightarrow> host_wf h1"
  by (auto simp: handle_close_def Let_def file_ok_def split: sum.splits prod.splits if_splits
      dest!: send_resp_keeps intro!: host_wf_file)

lemma handle_dclose_wf: "host_wf h \<Longrightarrow> handle_dclose os buf k h w = Inr (n, h1, w1) \<Longrightarrow> host_wf h1"
  by (auto simp: handle_dclose_def Let_def split: sum.splits prod.splits if_splits
      dest!: send_resp_keeps dest: dir_close_wf)

lemma dir_ok_advance:
  "dir_ok d \<Longrightarrow> dh_opened d \<Longrightarrow> dh_pos d < dh_count d \<Longrightarrow> dir_ok (d\<lparr>dh_pos := Suc (dh_pos d)\<rparr>)"
  by (auto simp: dir_ok_def split: dir_buf.splits)

lemma handle_dread_wf: "host_wf h \<Longrightarrow> handle_dread os buf k h w = Inr (n, h1, w1) \<Longrightarrow> host_wf h1"
  using host_wf_dirs_nth [of h "sint (id_val (dec_id buf))"]
  by (auto simp: handle_dread_def Let_def MAX_FILES_def MAX_DIRS_def
      split: sum.splits prod.splits if_splits dir_buf.splits
      dest!: send_resp_data_keeps intro!: host_wf_dir dir_ok_advance)

lemma handle_chdir_wf: "host_wf h \<Longrightarrow> handle_chdir os buf k h w = Inr (n, h1, w1) \<Longrightarrow> host_wf h1"
  by (auto simp: handle_chdir_def Let_def split: sum.splits prod.splits if_splits
      dest!: send_resp_keeps intro!: host_wf_currdir)

lemma do_hostfs_wf: "host_wf h \<Longrightarrow> do_hostfs os buf n h w = Inr (r, h1, w1) \<Longrightarrow> host_wf h1"
  unfolding do_hostfs_def Let_def
  by (auto split: if_splits dest: handle_open_wf handle_dopen_wf handle_close_wf handle_dclose_wf
      handle_dread_wf handle_chdir_wf keeps_host simp del: cmd_num.simps)

section \<open>Faults\<close>

text \<open>The faults of the parts that no invariant of the tables rules out.\<close>

lemma euid_read_fault: "euid_usb_bulk_read os cap n w = Inl f \<Longrightarrow> f = Buffer_Overflow"
  by (auto simp: euid_usb_bulk_read_def split: prod.splits if_splits)

lemma recv_path_fault: "recv_path os c w = Inl f \<Longrightarrow> f \<noteq> Bad_Pointer"
  by (auto simp: recv_path_def split: prod.splits if_splits sum.splits option.splits dest: euid_read_fault)

lemma recv_args_fault: "recv_args os c w = Inl f \<Longrightarrow> f \<noteq> Bad_Pointer"
  by (auto simp: recv_args_def Let_def split: prod.splits if_splits sum.splits dest: euid_read_fault)

lemma make_path_fault: "make_path os h d p b w = Inl f \<Longrightarrow> f = Buffer_Overflow"
  by (auto simp: make_path_def Let_def split: prod.splits if_splits)

lemma of_loop_fault: "of_loop r = Inl f \<Longrightarrow> f = No_Return"
  by (auto simp: of_loop_def split: option.splits)

lemma send_resp_fault [simp]: "send_resp os r h w \<noteq> Inl f"
  by (auto simp: send_resp_def split: prod.splits)

lemma send_resp_data_fault [simp]: "send_resp_data os r data h w \<noteq> Inl f"
  by (auto simp: send_resp_data_def split: prod.splits)

lemma path_op_fault: "path_op os h d p f w = Inl x \<Longrightarrow> x = Buffer_Overflow"
  by (auto simp: path_op_def split: sum.splits prod.splits option.splits dest: make_path_fault)

lemma open_file_fault: "open_file os h d p m k w = Inl f \<Longrightarrow> f = Buffer_Overflow"
  by (auto simp: open_file_def split: sum.splits prod.splits if_splits option.splits bool.splits
      dest: make_path_fault)

lemma fill_dirents_fault: "fill_dirents os d ns acc w = Inl f \<Longrightarrow> f = Buffer_Overflow"
  by (induction os d ns acc w rule: fill_dirents.induct) (auto split: if_splits prod.splits sum.splits)

lemma dir_open_fault: "dir_open os h d p w = Inl f \<Longrightarrow> f = Buffer_Overflow"
  by (auto simp: dir_open_def Let_def split: sum.splits prod.splits if_splits option.splits
      dest: make_path_fault fill_dirents_fault)

lemmas part_faults = recv_path_fault recv_args_fault path_op_fault open_file_fault dir_open_fault
  make_path_fault of_loop_fault euid_read_fault

lemma dir_close_fault: "host_wf h \<Longrightarrow> dir_close i h \<noteq> Inl f"
  using host_wf_dirs_nth [of h i]
  by (auto simp: dir_close_def dir_ok_def split: if_splits dir_buf.splits)

lemma handle_dread_fault: "host_wf h \<Longrightarrow> handle_dread os buf k h w \<noteq> Inl f"
  using host_wf_dirs_nth [of h "sint (id_val (dec_id buf))"]
  by (auto simp: handle_dread_def Let_def MAX_FILES_def MAX_DIRS_def dir_ok_def
      split: if_splits dir_buf.splits)

lemma handle_dclose_fault: "host_wf h \<Longrightarrow> handle_dclose os buf k h w \<noteq> Inl f"
  by (auto simp: handle_dclose_def Let_def dir_close_fault split: sum.splits prod.splits)

lemma handler_faults:
  "handle_hello os h w \<noteq> Inl Bad_Pointer"
  "handle_open os buf k h w \<noteq> Inl Bad_Pointer"
  "handle_dopen os buf k h w \<noteq> Inl Bad_Pointer"
  "handle_close os buf k h w \<noteq> Inl Bad_Pointer"
  "handle_write os buf k h w \<noteq> Inl Bad_Pointer"
  "handle_read os buf k h w \<noteq> Inl Bad_Pointer"
  "handle_lseek os buf k h w \<noteq> Inl Bad_Pointer"
  "handle_remove os buf k h w \<noteq> Inl Bad_Pointer"
  "handle_rmdir os buf k h w \<noteq> Inl Bad_Pointer"
  "handle_mkdir os buf k h w \<noteq> Inl Bad_Pointer"
  "handle_getstat os buf k h w \<noteq> Inl Bad_Pointer"
  "handle_chstat os buf k h w \<noteq> Inl Bad_Pointer"
  "handle_rename os buf k h w \<noteq> Inl Bad_Pointer"
  "handle_chdir os buf k h w \<noteq> Inl Bad_Pointer"
  "handle_ioctl os buf k h w \<noteq> Inl Bad_Pointer"
  "handle_devctl os buf k h w \<noteq> Inl Bad_Pointer"
  by (auto simp: handle_hello_def handle_open_def handle_dopen_def handle_close_def handle_write_def
      handle_read_def handle_lseek_def handle_remove_def handle_rmdir_def handle_mkdir_def
      handle_getstat_def handle_chstat_def handle_rename_def handle_chdir_def handle_ioctl_def
      handle_devctl_def Let_def split: sum.splits prod.splits if_splits option.splits dest: part_faults)

lemma do_hostfs_fault: "host_wf h \<Longrightarrow> do_hostfs os buf n h w \<noteq> Inl Bad_Pointer"
  unfolding do_hostfs_def Let_def
  by (auto split: if_splits simp: handle_dread_fault handle_dclose_fault handler_faults
      simp del: cmd_num.simps)

section \<open>The console and the end of a connection\<close>

lemma host_wf_settings:
  "host_wf (h\<lparr>g_nocase := a\<rparr>) = host_wf h" "host_wf (h\<lparr>g_msslash := a\<rparr>) = host_wf h"
  "host_wf (h\<lparr>g_rootdir := r\<rparr>) = host_wf h"
  by (simp_all add: host_wf_def)

lemma add_drive_wf: "host_wf h \<Longrightarrow> add_drive os i d h w = Inr (r, h1, w1) \<Longrightarrow> host_wf h1"
  by (auto simp: add_drive_def Let_def host_wf_def gen_path_clean_root
      split: if_splits prod.splits option.splits bool.splits intro!: list_all_update)

lemma load_line_wf: "host_wf h \<Longrightarrow> load_line os l h w = Inr (h1, w1) \<Longrightarrow> host_wf h1"
  by (auto simp: load_line_def Let_def split: if_splits prod.splits sum.splits dest: add_drive_wf)

lemma load_lines_inv:
  assumes line: "\<And>l h w h1 w1. load_line os l h w = Inr (h1, w1) \<Longrightarrow> P h \<Longrightarrow> P h1"
    and "load_lines os tx h w = Inr (h1, w1)" and "P h"
  shows "P h1"
  using assms(2,3)
proof (induction "length tx" arbitrary: tx h w rule: less_induct)
  case less
  obtain l r where f: "fgets PATH_MAX tx = (l, r)" by fastforce
  show ?case
  proof (cases "l = []")
    case True
    then show ?thesis using less.prems f by (simp add: load_lines.simps [of os tx])
  next
    case False
    then obtain h2 w2 where l: "load_line os l h w = Inr (h2, w2)" and r: "load_lines os r h2 w2 = Inr (h1, w1)"
      using less.prems f by (auto simp: load_lines.simps [of os tx] split: sum.splits)
    show ?thesis using less.hyps [OF fgets_shorter [OF f False] r] line [OF l] less.prems(2) by blast
  qed
qed

lemma load_lines_wf: "host_wf h \<Longrightarrow> load_lines os tx h w = Inr (h1, w1) \<Longrightarrow> host_wf h1"
  by (rule load_lines_inv [where P = host_wf and os = os and tx = tx and h = h and w = w])
     (auto dest: load_line_wf)

lemma parse_shell_wf: "host_wf h \<Longrightarrow> parse_shell os buf h w = Inr (r, h1, w1) \<Longrightarrow> host_wf h1"
  by (auto simp: parse_shell_def run_command_def mount_drive_def save_drives_def load_drives_def
      load_mapfile_def nocase_set_def msslash_set_def ch_dir_def Let_def host_wf_settings
      split: if_splits prod.splits sum.splits option.splits bool.splits
      dest: add_drive_wf load_lines_wf)

text \<open>A table in which nothing is open but, perhaps, the three standard descriptors.\<close>

definition all_closed :: "host \<Rightarrow> bool" where
  "all_closed h \<longleftrightarrow> list_all (\<lambda>f. \<not> fh_opened f) (drop 3 (open_files h))
     \<and> list_all (\<lambda>d. \<not> dh_opened d) (open_dirs h)"

lemma close_files_spec:
  assumes "close_files os i fs w = (fs1, w1)" and "list_all file_ok fs"
  shows "length fs1 = length fs \<and> list_all file_ok fs1
    \<and> list_all (\<lambda>f. \<not> fh_opened f) (drop (3 - i) fs1)"
  using assms
proof (induction os i fs w arbitrary: fs1 w1 rule: close_files.induct)
  case (2 os i f fs w)
  obtain f1 wa where f1: "(if i \<ge> 3 \<and> fh_opened f then (f\<lparr>fh_opened := False, fh_name := None\<rparr>, snd (os_close os i w))
            else (f, w)) = (f1, wa)" by fastforce
  obtain fsa wb where fsa: "close_files os (i + 1) fs wa = (fsa, wb)" by fastforce
  have ih: "length fsa = length fs \<and> list_all file_ok fsa \<and> list_all (\<lambda>f. \<not> fh_opened f) (drop (3 - (i + 1)) fsa)"
    using 2 f1 fsa by simp
  have "fs1 = f1 # fsa" using "2.prems"(1) f1 fsa by simp
  moreover have "file_ok f1" "i \<ge> 3 \<longrightarrow> \<not> fh_opened f1" using f1 "2.prems"(2) by (auto simp: file_ok_def split: if_splits)
  moreover have "drop (3 - i) (f1 # fsa) = (if i \<ge> 3 then f1 # fsa else drop (3 - (i + 1)) fsa)"
    by (auto simp: drop_Cons' Suc_diff_le)
  ultimately show ?case using ih by auto
qed simp

lemma close_dirs_spec:
  assumes "host_wf h" and "list_all (\<lambda>i. i < MAX_DIRS) is"
  shows "\<exists>h1. close_dirs is h = Inr h1 \<and> host_wf h1 \<and> open_files h1 = open_files h
    \<and> (\<forall>i < MAX_DIRS. i \<in> set is \<or> \<not> dh_opened (open_dirs h ! i) \<longrightarrow> \<not> dh_opened (open_dirs h1 ! i))"
  using assms
proof (induction "is" arbitrary: h)
  case (Cons i "is")
  show ?case
  proof (cases "dh_opened (open_dirs h ! i)")
    case False
    from Cons.IH [OF Cons.prems(1)] Cons.prems(2) obtain h2 where h2: "close_dirs is h = Inr h2" "host_wf h2"
      "open_files h2 = open_files h"
      "\<forall>j < MAX_DIRS. j \<in> set is \<or> \<not> dh_opened (open_dirs h ! j) \<longrightarrow> \<not> dh_opened (open_dirs h2 ! j)"
      by auto
    then show ?thesis using False by (intro exI [of _ h2]) auto
  next
    case True
    obtain r h1 where d: "dir_close (int i) h = Inr (r, h1)"
      using dir_close_fault [OF Cons.prems(1), of "int i"] by (cases "dir_close (int i) h") auto
    then have h1: "h1 = h\<lparr>open_dirs := (open_dirs h)[i := no_dir]\<rparr>"
      using True Cons.prems(2) by (auto simp: dir_close_def split: if_splits)
    have wf: "host_wf h1" using dir_close_wf [OF Cons.prems(1) d] .
    have len: "length (open_dirs h) = MAX_DIRS" using Cons.prems(1) by (simp add: host_wf_def)
    from Cons.IH [OF wf] Cons.prems(2) obtain h2 where h2: "close_dirs is h1 = Inr h2" "host_wf h2"
      "open_files h2 = open_files h1"
      "\<forall>j < MAX_DIRS. j \<in> set is \<or> \<not> dh_opened (open_dirs h1 ! j) \<longrightarrow> \<not> dh_opened (open_dirs h2 ! j)"
      by auto
    have "\<not> dh_opened (open_dirs h2 ! j)"
      if "j < MAX_DIRS" "j = i \<or> j \<in> set is \<or> \<not> dh_opened (open_dirs h ! j)" for j
    proof (cases "j \<in> set is")
      case False
      with that have "\<not> dh_opened (open_dirs h1 ! j)" using len by (cases "i = j") (auto simp: h1 no_dir_def)
      then show ?thesis using h2(4) that(1) by blast
    qed (use h2(4) that(1) in blast)
    then show ?thesis using True d h2(1-3) h1 by auto
  qed
qed simp

lemma close_hostfs_spec:
  assumes "host_wf h"
  shows "\<exists>h1 w1. close_hostfs os h w = Inr (h1, w1) \<and> host_wf h1 \<and> all_closed h1"
proof -
  obtain fs w1 where fs: "close_files os 0 (open_files h) w = (fs, w1)" by fastforce
  have sp: "length fs = length (open_files h) \<and> list_all file_ok fs \<and> list_all (\<lambda>f. \<not> fh_opened f) (drop 3 fs)"
    using close_files_spec [OF fs] assms by (simp add: host_wf_def)
  let ?h = "h\<lparr>open_files := fs\<rparr>"
  have wf: "host_wf ?h" using assms sp by (simp add: host_wf_def)
  from close_dirs_spec [OF wf, of "[0..<MAX_DIRS]"] obtain h1 where h1: "close_dirs [0..<MAX_DIRS] ?h = Inr h1"
    "host_wf h1" "open_files h1 = fs" "\<forall>i < MAX_DIRS. \<not> dh_opened (open_dirs h1 ! i)"
    by (auto simp: list_all_iff)
  moreover have "all_closed h1" using h1 sp by (auto simp: all_closed_def host_wf_def list_all_length)
  ultimately show ?thesis using fs by (auto simp: close_hostfs_def)
qed

lemma init_hostfs_wf: "host_wf h \<Longrightarrow> host_wf (init_hostfs h) \<and> all_closed (init_hostfs h)"
  by (auto simp: host_wf_def init_hostfs_def all_closed_def list_all_length no_file_def no_dir_def
      file_ok_def dir_ok_def)

lemma serve_turn_wf: "host_wf h \<Longrightarrow> serve_turn os b h w = Inr (c, b1, h1, w1) \<Longrightarrow> host_wf h1"
  by (auto simp: serve_turn_def Let_def split: sum.splits prod.splits if_splits dest: do_hostfs_wf)

lemma parse_shell_tables:
  "parse_shell os buf h w = Inr (r, h1, w1) \<Longrightarrow> open_files h1 = open_files h \<and> open_dirs h1 = open_dirs h"
proof -
  have ad: "add_drive os i d h w = Inr (r, h1, w1) \<Longrightarrow> open_files h1 = open_files h \<and> open_dirs h1 = open_dirs h"
    for i d h w r h1 w1
    by (auto simp: add_drive_def Let_def split: if_splits prod.splits option.splits bool.splits)
  have ll: "load_line os l h w = Inr (h1, w1) \<Longrightarrow> open_files h1 = open_files h \<and> open_dirs h1 = open_dirs h"
    for l h w h1 w1
    by (auto simp: load_line_def Let_def split: if_splits prod.splits sum.splits dest: ad)
  have ls: "load_lines os l h w = Inr (h1, w1) \<Longrightarrow> open_files h1 = open_files h \<and> open_dirs h1 = open_dirs h"
    for l h w h1 w1
    using load_lines_inv [of os "\<lambda>g. open_files g = open_files h \<and> open_dirs g = open_dirs h"] ll by metis
  assume "parse_shell os buf h w = Inr (r, h1, w1)"
  then show ?thesis
    by (auto simp: parse_shell_def run_command_def mount_drive_def save_drives_def load_drives_def
      load_mapfile_def nocase_set_def msslash_set_def ch_dir_def Let_def
      split: if_splits prod.splits sum.splits option.splits bool.splits dest: ad ls)
qed

end
