(* ===== verification/HostConfine.thy ===== *)
theory HostConfine
  imports HostServerProps
begin

text \<open>
  Confinement of the PC server. \<open>confine h os\<close> is the same operating system except that it
  refuses every operation that opens, lists (\<open>opendir\<close> and \<open>scandir\<close>), creates, changes, renames or removes
  something outside the roots of the drives of \<open>h\<close>, and to tell the space left there; no handler notices the
  difference. Only \<open>stat\<close> is left as it is: a listing asks for the attributes of \<open>..\<close>, and of the root of a drive
  that is its parent.
\<close>

definition EACCES :: nat where "EACCES = 13"

definition in_drive :: "host \<Rightarrow> string \<Rightarrow> bool" where
  "in_drive h p = list_ex (\<lambda>d. let r = components (rootdir d) in
     take (length r) (components p) = r \<and> list_all plain (drop (length r) (components p))) (g_drives h)"

definition confine :: "host \<Rightarrow> 'w os \<Rightarrow> 'w os" where
  "confine h os = os\<lparr>
     os_open := (\<lambda>p f m w. if in_drive h p then os_open os p f m w else (Inl EACCES, w)),
     os_unlink := (\<lambda>p w. if in_drive h p then os_unlink os p w else (Inl EACCES, w)),
     os_rmdir := (\<lambda>p w. if in_drive h p then os_rmdir os p w else (Inl EACCES, w)),
     os_mkdir := (\<lambda>p m w. if in_drive h p then os_mkdir os p m w else (Inl EACCES, w)),
     os_rename := (\<lambda>p q w. if in_drive h p \<and> in_drive h q then os_rename os p q w else (Inl EACCES, w)),
     os_chmod := (\<lambda>p m w. if in_drive h p then os_chmod os p m w else (Inl EACCES, w)),
     os_utime := (\<lambda>p a m w. if in_drive h p then os_utime os p a m w else (Inl EACCES, w)),
     os_scandir := (\<lambda>p w. if in_drive h p then os_scandir os p w else (Inl EACCES, w)),
     os_readdir := (\<lambda>p w. if in_drive h p then os_readdir os p w else (None, w)),
     os_statvfs := (\<lambda>p w. if in_drive h p then os_statvfs os p w else (Inl EACCES, w))\<rparr>"

lemma confine_same [simp]:
  "os_close (confine h os) = os_close os" "os_read (confine h os) = os_read os"
  "os_write (confine h os) = os_write os" "os_lseek (confine h os) = os_lseek os"
  "os_stat (confine h os) = os_stat os" "os_errno (confine h os) = os_errno os"
  "os_localtime (confine h os) = os_localtime os" "os_mktime (confine h os) = os_mktime os"
  "os_usb_read (confine h os) = os_usb_read os" "os_usb_write (confine h os) = os_usb_write os"
  "os_lock (confine h os) = os_lock os"
  by (simp_all add: confine_def)

lemma confine_inside:
  assumes "in_drive h p"
  shows "os_open (confine h os) p = os_open os p" "os_unlink (confine h os) p = os_unlink os p"
    "os_rmdir (confine h os) p = os_rmdir os p" "os_mkdir (confine h os) p = os_mkdir os p"
    "os_chmod (confine h os) p = os_chmod os p" "os_utime (confine h os) p = os_utime os p"
    "os_scandir (confine h os) p = os_scandir os p" "os_readdir (confine h os) p = os_readdir os p"
    "os_statvfs (confine h os) p = os_statvfs os p"
    "in_drive h q \<Longrightarrow> os_rename (confine h os) p q = os_rename os p q"
  using assms by (simp_all add: confine_def fun_eq_iff)

section \<open>The case-insensitive search reads only directories of its drive\<close>

lemma drive_in_drive:
  assumes "d \<in> set (g_drives h)" and "components p = components (rootdir d) @ ts" and "\<forall>t \<in> set ts. plain t"
  shows "in_drive h p"
  using assms unfolding in_drive_def list_ex_iff Let_def
  by (intro bexI [of _ d]) (simp_all add: list_all_iff)

text \<open>A path that ends in a slash has the same components without it.\<close>

lemma components_butlast: "s \<noteq> [] \<Longrightarrow> last s = CHR ''/'' \<Longrightarrow> components (butlast s) = components s"
  using components_append [of "butlast s" "[]"] by (metis append_Nil2 append_butlast_last_id components_Nil)

text \<open>The path \<^verbatim>\<open>snprintf\<close> makes, which may lose the slash at its end.\<close>

lemma snprintf_path:
  assumes "s \<noteq> []" and "last s = CHR ''/''" and "length s \<le> n"
  shows "components (fst (snprintf n s)) = components s"
proof (cases "length s = n")
  case True
  then have "fst (snprintf n s) = butlast s" using assms(1) by (simp add: snprintf_def butlast_conv_take)
  then show ?thesis using components_butlast [OF assms(1,2)] by simp
next
  case False
  then show ?thesis using assms(3) by (simp add: snprintf_def)
qed

lemma emit_dir_append: "emit_tokens True (ts @ [t]) = emit_tokens True ts @ t @ ''/''"
  by (induction ts) simp_all

lemma last_emit: "last (CHR ''/'' # emit_tokens True ts) = CHR ''/''"
  by (cases ts rule: rev_cases) (simp_all add: emit_dir_append)

lemma find_nocase_confine:
  assumes "d \<in> set (g_drives h)" and "\<forall>t \<in> set ts. plain t"
  shows "find_nocase (confine h os) (rootdir d) (CHR ''/'' # emit_tokens True ts) token w
       = find_nocase os (rootdir d) (CHR ''/'' # emit_tokens True ts) token w"
proof -
  let ?s = "rootdir d @ CHR ''/'' # emit_tokens True ts"
  have seg: "\<forall>t \<in> set ts. segment t" using assms(2) by simp
  have "in_drive h (fst (snprintf PATH_MAX ?s))" if "length ?s \<le> PATH_MAX"
  proof (rule drive_in_drive [OF assms(1) _ assms(2)])
    show "components (fst (snprintf PATH_MAX ?s)) = components (rootdir d) @ ts"
      using snprintf_path [OF _ _ that] last_emit [of ts] by (simp add: components_append components_emit [OF seg])
  qed
  moreover have "snd (snprintf PATH_MAX ?s) = length ?s" by (simp add: snprintf_def)
  ultimately show ?thesis
    by (cases "snprintf PATH_MAX ?s") (simp add: find_nocase_def confine_inside)
qed

lemma nocase_loop_confine:
  "d \<in> set (g_drives h) \<Longrightarrow> \<forall>t \<in> set seen. plain t \<Longrightarrow> \<forall>t \<in> set ts. plain t \<Longrightarrow>
    nocase_loop (confine h os) (rootdir d) dir ts (CHR ''/'' # emit_tokens True seen) w
  = nocase_loop os (rootdir d) dir ts (CHR ''/'' # emit_tokens True seen) w"
proof (induction ts arbitrary: seen w)
  case (Cons t ts)
  let ?rel = "CHR ''/'' # emit_tokens True seen"
  obtain found t' w1 where f: "find_nocase os (rootdir d) ?rel t w = ((found, t'), w1)" by (metis prod.collapse)
  have fc: "find_nocase (confine h os) (rootdir d) ?rel t w = ((found, t'), w1)"
    by (simp add: find_nocase_confine [OF Cons.prems(1,2)] f)
  have "plain t'" using strcaseeq_plain [OF find_nocase_strcaseeq [OF f]] Cons.prems(3) by simp
  then have ih: "nocase_loop (confine h os) (rootdir d) dir ts (CHR ''/'' # emit_tokens True (seen @ [t'])) w1
      = nocase_loop os (rootdir d) dir ts (CHR ''/'' # emit_tokens True (seen @ [t'])) w1"
    using Cons.prems by (intro Cons.IH) auto
  show ?case
  proof (cases "ts = []")
    case False
    then show ?thesis using ih by (simp add: f fc emit_dir_append)
  qed (simp add: f fc)
qed simp

lemma make_path_confine:
  assumes "host_wf h"
  shows "make_path (confine h os) h drive path dir w = make_path os h drive path dir w"
proof (cases "unat drive < MAX_HOSTDRIVES")
  case True
  let ?d = "g_drives h ! unat drive"
  have d: "?d \<in> set (g_drives h)" using assms True by (simp add: host_wf_def)
  have "make_nocase (confine h os) (rootdir ?d) (gen_path q dir) dir w1 = make_nocase os (rootdir ?d) (gen_path q dir) dir w1"
    for q w1
  proof -
    have "\<forall>t \<in> set (path_tokens (MAX_TOKENS - 1) (gen_path q dir)). plain t"
      using gen_path_plain by (auto simp: path_tokens_components dest: in_set_takeD)
    from nocase_loop_confine [OF d _ this, of "[]" os dir w1] show ?thesis by (simp add: make_nocase_def)
  qed
  then show ?thesis by (simp add: make_path_def Let_def split: prod.split)
qed (simp add: make_path_def)

section \<open>The parts of the server that name no file\<close>

lemma fill_stat_confine [simp]: "fill_stat (confine h os) = fill_stat os"
  by (intro ext) (unfold fill_stat_def fill_time_def confine_same, rule refl)

lemma fill_dirents_confine [simp]: "fill_dirents (confine h os) d ns acc w = fill_dirents os d ns acc w"
  by (induction os d ns acc w rule: fill_dirents.induct) (auto split: prod.splits sum.splits)

lemma is_dir_confine [simp]: "is_dir (confine h os) = is_dir os"
  by (intro ext) (unfold is_dir_def confine_same, rule refl)

lemma usb_confine [simp]:
  "euid_usb_bulk_read (confine h os) = euid_usb_bulk_read os"
  "euid_usb_bulk_write (confine h os) = euid_usb_bulk_write os"
  unfolding euid_usb_bulk_read_def [abs_def] euid_usb_bulk_write_def [abs_def] confine_same
  by (rule refl)+

lemma send_confine [simp]:
  "send_resp (confine h os) = send_resp os" "send_resp_data (confine h os) = send_resp_data os"
  "recv_path (confine h os) = recv_path os" "recv_args (confine h os) = recv_args os"
  unfolding send_resp_def [abs_def] send_resp_data_def [abs_def] recv_path_def [abs_def]
    recv_args_def [abs_def] usb_confine
  by (rule refl)+

section \<open>Paths that make_path returns are inside\<close>

lemma make_path_in_drive:
  assumes "host_wf h" and "make_path os h d path b w = Inr (Some p, w1)"
  shows "in_drive h p"
proof -
  from assms(2) have d: "unat d < MAX_HOSTDRIVES" by (rule make_path_result)
  have len: "length (g_drives h) = MAX_HOSTDRIVES" and "clean_root (rootdir (g_drives h ! unat d))"
    using assms(1) d by (auto simp: host_wf_def list_all_length)
  from make_path_components [OF assms(2) this(2)] obtain rest where
    "components p = components (rootdir (g_drives h ! unat d)) @ rest" "\<forall>t \<in> set rest. plain t" by blast
  moreover have "g_drives h ! unat d \<in> set (g_drives h)" using d len by simp
  ultimately show ?thesis by (rule drive_in_drive [rotated])
qed

lemma path_op_cong:
  assumes "host_wf h" and "\<And>p. in_drive h p \<Longrightarrow> f p = g p"
  shows "path_op (confine h os) h d path f w = path_op os h d path g w"
proof -
  have "f p = g p" if "make_path os h d path False w = Inr (Some p, w1)" for p w1
    by (rule assms(2)) (rule make_path_in_drive [OF assms(1) that])
  then show ?thesis by (auto simp: path_op_def make_path_confine [OF assms(1)] split: sum.splits prod.splits option.splits)
qed

lemma open_file_confine:
  assumes "host_wf h"
  shows "open_file (confine h os) h d p m k w = open_file os h d p m k w"
proof (cases "make_path os h d p False w")
  case (Inr r)
  then show ?thesis
    using make_path_in_drive [OF assms, of os d p False w]
    by (cases r; cases "fst r") (auto simp: open_file_def confine_inside make_path_confine [OF assms] split: sum.splits prod.splits
        option.splits bool.splits)
qed (simp add: open_file_def make_path_confine [OF assms])

lemma dir_open_confine:
  assumes "host_wf h"
  shows "dir_open (confine h os) h d p w = dir_open os h d p w"
proof (cases "make_path os h d p True w")
  case (Inr r)
  then show ?thesis
    using make_path_in_drive [OF assms, of os d p True w]
    by (cases r; cases "fst r") (auto simp: dir_open_def Let_def confine_inside make_path_confine [OF assms] split: sum.splits prod.splits
        option.splits)
qed (simp add: dir_open_def Let_def make_path_confine [OF assms])

lemma psp_settime_confine: "in_drive h p \<Longrightarrow> psp_settime (confine h os) p = psp_settime os p"
  by (intro ext) (simp add: psp_settime_def confine_inside Let_def split: sum.splits prod.splits)

lemma psp_chstat_confine: "in_drive h p \<Longrightarrow> psp_chstat (confine h os) p = psp_chstat os p"
  by (intro ext) (unfold psp_chstat_def psp_settime_confine confine_inside, rule refl)

lemma get_drive_info_confine:
  assumes "host_wf h"
  shows "get_drive_info (confine h os) h drive = get_drive_info os h drive"
proof -
  have "in_drive h (rootdir (g_drives h ! unat drive))" if "unat drive < MAX_HOSTDRIVES"
    using assms that by (intro drive_in_drive [of "g_drives h ! unat drive" h _ "[]"]) (simp_all add: host_wf_def)
  then show ?thesis
    by (intro ext) (simp add: get_drive_info_def confine_inside split: prod.split)
qed

section \<open>The handlers\<close>

named_theorems confined

lemma same_handlers [confined]:
  "handle_hello (confine h os) = handle_hello os"
  "handle_close (confine h os) = handle_close os"
  "handle_dclose (confine h os) = handle_dclose os"
  "handle_dread (confine h os) = handle_dread os"
  "handle_write (confine h os) = handle_write os"
  "handle_read (confine h os) = handle_read os"
  "handle_lseek (confine h os) = handle_lseek os"
  "handle_chdir (confine h os) = handle_chdir os"
  "handle_ioctl (confine h os) = handle_ioctl os"
  unfolding handle_hello_def [abs_def] handle_close_def [abs_def] handle_dclose_def [abs_def]
    handle_dread_def [abs_def] handle_write_def [abs_def] handle_read_def [abs_def]
    handle_lseek_def [abs_def] handle_chdir_def [abs_def] handle_ioctl_def [abs_def]
    usb_confine send_confine confine_same
  by (rule refl)+

lemma devctl_handler [confined]:
  assumes wf: "host_wf h"
  shows "handle_devctl (confine h os) buf n h w = handle_devctl os buf n h w"
  unfolding handle_devctl_def send_confine get_drive_info_confine [OF wf] by (rule refl)

lemma name_handlers [confined]:
  assumes wf: "host_wf h"
  shows "handle_open (confine h os) buf n h w = handle_open os buf n h w"
    and "handle_dopen (confine h os) buf n h w = handle_dopen os buf n h w"
  unfolding handle_open_def handle_dopen_def send_confine open_file_confine [OF wf] dir_open_confine [OF wf]
  by (rule refl)+

lemma path_handlers [confined]:
  assumes wf: "host_wf h"
  shows "handle_remove (confine h os) buf n h w = handle_remove os buf n h w"
    and "handle_rmdir (confine h os) buf n h w = handle_rmdir os buf n h w"
    and "handle_mkdir (confine h os) buf n h w = handle_mkdir os buf n h w"
    and "handle_chstat (confine h os) buf n h w = handle_chstat os buf n h w"
    and "handle_getstat (confine h os) buf n h w = handle_getstat os buf n h w"
proof -
  have "path_op (confine h os) h d p (\<lambda>p w. case os_unlink (confine h os) p w of (r, w') \<Rightarrow> (sys_res r, w'))
      = path_op os h d p (\<lambda>p w. case os_unlink os p w of (r, w') \<Rightarrow> (sys_res r, w'))" for d p
    by (intro ext path_op_cong [OF wf]) (simp add: confine_inside)
  then show "handle_remove (confine h os) buf n h w = handle_remove os buf n h w"
    unfolding handle_remove_def send_confine by (simp only:)
  have "path_op (confine h os) h d p (\<lambda>p w. case os_rmdir (confine h os) p w of (r, w') \<Rightarrow> (sys_res r, w'))
      = path_op os h d p (\<lambda>p w. case os_rmdir os p w of (r, w') \<Rightarrow> (sys_res r, w'))" for d p
    by (intro ext path_op_cong [OF wf]) (simp add: confine_inside)
  then show "handle_rmdir (confine h os) buf n h w = handle_rmdir os buf n h w"
    unfolding handle_rmdir_def send_confine by (simp only:)
  have "path_op (confine h os) h d p (\<lambda>p w. case os_mkdir (confine h os) p m w of (r, w') \<Rightarrow> (sys_res r, w'))
      = path_op os h d p (\<lambda>p w. case os_mkdir os p m w of (r, w') \<Rightarrow> (sys_res r, w'))" for d p m
    by (intro ext path_op_cong [OF wf]) (simp add: confine_inside)
  then show "handle_mkdir (confine h os) buf n h w = handle_mkdir os buf n h w"
    unfolding handle_mkdir_def send_confine Let_def by (simp only:)
  have "path_op (confine h os) h d p (\<lambda>p w. psp_chstat (confine h os) p c w)
      = path_op os h d p (\<lambda>p w. psp_chstat os p c w)" for d p c
    by (intro ext path_op_cong [OF wf]) (simp add: psp_chstat_confine)
  then show "handle_chstat (confine h os) buf n h w = handle_chstat os buf n h w"
    unfolding handle_chstat_def send_confine Let_def by (simp only:)
  show "handle_getstat (confine h os) buf n h w = handle_getstat os buf n h w"
    unfolding handle_getstat_def send_confine make_path_confine [OF wf] fill_stat_confine by (rule refl)
qed

lemma rename_handler [confined]:
  assumes wf: "host_wf h"
  shows "handle_rename (confine h os) buf n h w = handle_rename os buf n h w"
proof -
  have op: "path_op (confine h os) h d q
        (\<lambda>newpath w. case os_rename (confine h os) p newpath w of (r, w') \<Rightarrow> (sys_res r, w')) w2
      = path_op os h d q (\<lambda>newpath w. case os_rename os p newpath w of (r, w') \<Rightarrow> (sys_res r, w')) w2"
    if "make_path os h e old False w1 = Inr (Some p, w2)" for d q p e old w1 w2
    by (intro path_op_cong [OF wf] ext) (simp add: confine_inside make_path_in_drive [OF wf that])
  show ?thesis
    by (auto simp: handle_rename_def Let_def op make_path_confine [OF wf] split: sum.splits prod.splits option.splits)
qed

lemma do_hostfs_confine:
  assumes "host_wf h"
  shows "do_hostfs (confine h os) buf n h w = do_hostfs os buf n h w"
  unfolding do_hostfs_def by (simp only: confined assms)

end
