(* ===== verification/HostFiles.thy ===== *)
theory HostFiles
  imports HostServerProps Demo
begin

text \<open>
  Functional behaviour of the file handlers of the PC server: a read returns the bytes of the
  file and a write stores all of its data, however the system call splits the transfer and
  however often a signal interrupts it; a listing returns every entry; a closed handle is dead.
\<close>

section \<open>Transfers that the system splits\<close>

text \<open>
  \<open>delivers rd rest patience\<close>: \<^verbatim>\<open>read\<close> takes its bytes from the front of \<open>rest\<close>, at least one
  when there is one, at most what was asked for, and fails only with \<^verbatim>\<open>EINTR\<close>, finitely often
  in a row. \<open>accepts\<close> is the same contract for \<^verbatim>\<open>write\<close>, which appends to \<open>sink\<close>.
\<close>

definition delivers :: "(nat \<Rightarrow> 'w \<Rightarrow> (nat + bytes) \<times> 'w) \<Rightarrow> ('w \<Rightarrow> bytes) \<Rightarrow> ('w \<Rightarrow> nat) \<Rightarrow> bool" where
  "delivers rd rest patience \<longleftrightarrow> (\<forall>n w. case rd n w of
       (Inl e, w1) \<Rightarrow> e = EINTR \<and> rest w1 = rest w \<and> patience w1 < patience w
     | (Inr bs, w1) \<Rightarrow> rest w = bs @ rest w1 \<and> length bs \<le> n \<and> (0 < n \<and> rest w \<noteq> [] \<longrightarrow> bs \<noteq> []))"

definition accepts :: "(bytes \<Rightarrow> 'w \<Rightarrow> (nat + nat) \<times> 'w) \<Rightarrow> ('w \<Rightarrow> bytes) \<Rightarrow> ('w \<Rightarrow> nat) \<Rightarrow> bool" where
  "accepts wr sink patience \<longleftrightarrow> (\<forall>bs w. case wr bs w of
       (Inl e, w1) \<Rightarrow> e = EINTR \<and> sink w1 = sink w \<and> patience w1 < patience w
     | (Inr n, w1) \<Rightarrow> n \<le> length bs \<and> (bs \<noteq> [] \<longrightarrow> 0 < n) \<and> sink w1 = sink w @ take n bs)"

lemma deliversD:
  assumes "delivers rd rest patience"
  shows "rd n w = (Inl e, w1) \<Longrightarrow> e = EINTR \<and> rest w1 = rest w \<and> patience w1 < patience w"
    and "rd n w = (Inr bs, w1) \<Longrightarrow>
      rest w = bs @ rest w1 \<and> length bs \<le> n \<and> (0 < n \<and> rest w \<noteq> [] \<longrightarrow> bs \<noteq> [])"
  using assms unfolding delivers_def by (auto dest!: spec [of _ n] spec [of _ w])

lemma acceptsD:
  assumes "accepts wr sink patience"
  shows "wr bs w = (Inl e, w1) \<Longrightarrow> e = EINTR \<and> sink w1 = sink w \<and> patience w1 < patience w"
    and "wr bs w = (Inr n, w1) \<Longrightarrow> n \<le> length bs \<and> (bs \<noteq> [] \<longrightarrow> 0 < n) \<and> sink w1 = sink w @ take n bs"
  using assms unfolding accepts_def by (auto dest!: spec [of _ bs] spec [of _ w])

lemma fixed_read_steps:
  "length acc \<ge> len \<Longrightarrow> fixed_read rd len acc w = Some ((of_nat (length acc), acc), w)"
  "length acc < len \<Longrightarrow> rd (len - length acc) w = (Inl EINTR, w1) \<Longrightarrow>
     fixed_read rd len acc w = fixed_read rd len acc w1"
  "length acc < len \<Longrightarrow> rd (len - length acc) w = (Inr [], w1) \<Longrightarrow>
     fixed_read rd len acc w = Some ((of_nat (length acc), acc), w1)"
  "length acc < len \<Longrightarrow> rd (len - length acc) w = (Inr bs, w1) \<Longrightarrow> bs \<noteq> [] \<Longrightarrow>
     fixed_read rd len acc w = fixed_read rd len (acc @ bs) w1"
  by (subst fixed_read.simps, simp)+

lemma fixed_write_steps:
  "k \<ge> length data \<Longrightarrow> fixed_write wr data k w = Some (of_nat k, w)"
  "k < length data \<Longrightarrow> wr (drop k data) w = (Inl EINTR, w1) \<Longrightarrow>
     fixed_write wr data k w = fixed_write wr data k w1"
  "k < length data \<Longrightarrow> wr (drop k data) w = (Inr n, w1) \<Longrightarrow> 0 < n \<Longrightarrow>
     fixed_write wr data k w = fixed_write wr data (k + n) w1"
  by (subst fixed_write.simps, simp)+

lemma fixed_read_acc:
  assumes d: "delivers rd rest patience" and "length acc \<le> len"
  shows "\<exists>w1. fixed_read rd len acc w =
      Some ((of_nat (length acc + min (len - length acc) (length (rest w))),
             acc @ take (len - length acc) (rest w)), w1)
    \<and> rest w1 = drop (len - length acc) (rest w)"
  using assms(2)
proof (induction "(length (rest w), patience w)" arbitrary: acc w
    rule: wf_induct_rule [OF wf_lex_prod [OF wf_less_than wf_less_than]])
  case 1
  note IH = 1(1) and le = 1(2)
  show ?case
  proof (cases "length acc < len")
    case False
    then show ?thesis using le by (simp add: fixed_read_steps(1))
  next
    case True
    let ?n = "len - length acc"
    obtain r w1 where rd: "rd ?n w = (r, w1)" by fastforce
    show ?thesis
    proof (cases r)
      case (Inl e)
      with rd have e: "e = EINTR" "rest w1 = rest w" "patience w1 < patience w"
        using deliversD(1) [OF d, of ?n w e w1] by simp_all
      then have "((length (rest w1), patience w1), (length (rest w), patience w)) \<in> less_than <*lex*> less_than" by simp
      from IH [OF this le] show ?thesis using fixed_read_steps(2) [of acc len rd w w1] True rd Inl e by simp
    next
      case (Inr bs)
      then have rd': "rd ?n w = (Inr bs, w1)" using rd by simp
      have "0 < ?n" using True by simp
      with deliversD(2) [OF d rd']
      have b: "rest w = bs @ rest w1" and lb: "length bs \<le> ?n" and "rest w \<noteq> [] \<longrightarrow> bs \<noteq> []"
        by blast+
      show ?thesis
      proof (cases "bs = []")
        case True
        then have "rest w = []" using \<open>rest w \<noteq> [] \<longrightarrow> bs \<noteq> []\<close> by blast
        moreover have "rest w1 = []" using b calculation by (metis append_is_Nil_conv)
        ultimately show ?thesis using fixed_read_steps(3) [of acc len rd w w1] rd' True \<open>length acc < len\<close> by simp
      next
        case False
        then have "((length (rest w1), patience w1), (length (rest w), patience w)) \<in> less_than <*lex*> less_than"
          by (simp add: b)
        moreover have "length (acc @ bs) \<le> len" using lb True by simp
        ultimately obtain w2 where "fixed_read rd len (acc @ bs) w1 =
          Some ((of_nat (length (acc @ bs) + min (len - length (acc @ bs)) (length (rest w1))),
             (acc @ bs) @ take (len - length (acc @ bs)) (rest w1)), w2)"
          "rest w2 = drop (len - length (acc @ bs)) (rest w1)" using IH by blast
        moreover have "length acc + min ?n (length (rest w)) =
            length (acc @ bs) + min (len - length (acc @ bs)) (length (rest w1))"
          using lb True by (simp add: b)
        moreover have "fixed_read rd len acc w = fixed_read rd len (acc @ bs) w1"
          using fixed_read_steps(4) [of acc len rd w bs w1] False True rd' by blast
        ultimately show ?thesis using lb by (simp add: b)
      qed
    qed
  qed
qed

lemma fixed_write_acc:
  assumes a: "accepts wr sink patience" and "k \<le> length data"
  shows "\<exists>w1. fixed_write wr data k w = Some (of_nat (length data), w1) \<and> sink w1 = sink w @ drop k data"
  using assms(2)
proof (induction "(length data - k, patience w)" arbitrary: k w
    rule: wf_induct_rule [OF wf_lex_prod [OF wf_less_than wf_less_than]])
  case 1
  note IH = 1(1) and le = 1(2)
  show ?case
  proof (cases "k < length data")
    case False
    then show ?thesis using le by (simp add: fixed_write_steps(1))
  next
    case True
    obtain r w1 where wr: "wr (drop k data) w = (r, w1)" by fastforce
    show ?thesis
    proof (cases r)
      case (Inl e)
      with wr have e: "e = EINTR" "sink w1 = sink w" "patience w1 < patience w"
        using acceptsD(1) [OF a, of "drop k data" w e w1] by simp_all
      then have "((length data - k, patience w1), (length data - k, patience w)) \<in> less_than <*lex*> less_than" by simp
      from IH [OF this le] show ?thesis using fixed_write_steps(2) [of k data wr w w1] True wr Inl e by simp
    next
      case (Inr n)
      with wr have n: "n \<le> length (drop k data)" "drop k data \<noteq> [] \<longrightarrow> 0 < n"
        "sink w1 = sink w @ take n (drop k data)"
        using acceptsD(2) [OF a, of "drop k data" w n w1] by simp_all
      then have "((length data - (k + n), patience w1), (length data - k, patience w)) \<in> less_than <*lex*> less_than"
        using True by auto
      moreover have "k + n \<le> length data" using n(1) True by simp
      ultimately obtain w2 where "fixed_write wr data (k + n) w1 = Some (of_nat (length data), w2)"
        "sink w2 = sink w1 @ drop (k + n) data" using IH by blast
      moreover have "take n (drop k data) @ drop (k + n) data = drop k data"
        by (metis add.commute append_take_drop_id drop_drop)
      ultimately show ?thesis using fixed_write_steps(3) [of k data wr w n w1] True wr Inr n by simp
    qed
  qed
qed

text \<open>What the system call leaves alone, the loop leaves alone.\<close>

lemma fixed_read_frame:
  assumes "\<And>n w. frame (snd (rd n w)) = frame w" and "fixed_read rd len acc w = Some y"
  shows "frame (snd y) = frame w"
proof -
  have "(\<forall>n w. frame (snd (rd n w)) = frame w) \<longrightarrow> frame (snd y) = frame w"
  proof (rule fixed_read.raw_induct [where P = "\<lambda>rd len acc w y. (\<forall>n w. frame (snd (rd n w)) = frame w)
      \<longrightarrow> frame (snd y) = frame w", OF _ assms(2)], rule impI)
    fix g :: "(nat \<Rightarrow> 'a \<Rightarrow> (nat + bytes) \<times> 'a) \<Rightarrow> nat \<Rightarrow> bytes \<Rightarrow> 'a \<Rightarrow> ((u32 \<times> bytes) \<times> 'a) option"
    fix rd :: "nat \<Rightarrow> 'a \<Rightarrow> (nat + bytes) \<times> 'a" and len acc w y
    assume ih: "\<And>rd len acc w y. g rd len acc w = Some y \<Longrightarrow>
        (\<forall>n w. frame (snd (rd n w)) = frame w) \<longrightarrow> frame (snd y) = frame w"
      and eq: "(if length acc < len
        then case rd (len - length acc) w of
             (Inl e, w1) \<Rightarrow> if e \<noteq> EINTR then Some ((GETERROR e, acc), w1) else g rd len acc w1
             | (Inr bs, w1) \<Rightarrow>
                 if bs = [] then Some ((of_nat (length acc), acc), w1) else g rd len (acc @ bs) w1
        else Some ((of_nat (length acc), acc), w)) = Some y"
      and fr: "\<forall>n w. frame (snd (rd n w)) = frame w"
    have f: "rd n w = (r, w1) \<Longrightarrow> frame w1 = frame w" for n w r w1 using fr by (metis snd_conv)
    show "frame (snd y) = frame w"
      using eq ih fr f by (auto split: if_splits prod.splits sum.splits) 
  qed
  then show ?thesis using assms(1) by blast
qed

lemma fixed_write_frame:
  assumes "\<And>bs w. frame (snd (wr bs w)) = frame w" and "fixed_write wr data k w = Some y"
  shows "frame (snd y) = frame w"
proof -
  have "(\<forall>bs w. frame (snd (wr bs w)) = frame w) \<longrightarrow> frame (snd y) = frame w"
  proof (rule fixed_write.raw_induct [where P = "\<lambda>wr data k w y. (\<forall>bs w. frame (snd (wr bs w)) = frame w)
      \<longrightarrow> frame (snd y) = frame w", OF _ assms(2)], rule impI)
    fix g :: "(bytes \<Rightarrow> 'a \<Rightarrow> (nat + nat) \<times> 'a) \<Rightarrow> bytes \<Rightarrow> nat \<Rightarrow> 'a \<Rightarrow> (u32 \<times> 'a) option"
    fix wr :: "bytes \<Rightarrow> 'a \<Rightarrow> (nat + nat) \<times> 'a" and data k w y
    assume ih: "\<And>wr data k w y. g wr data k w = Some y \<Longrightarrow>
        (\<forall>bs w. frame (snd (wr bs w)) = frame w) \<longrightarrow> frame (snd y) = frame w"
      and eq: "(if k < length data
        then case wr (drop k data) w of
             (Inl e, w1) \<Rightarrow> if e \<noteq> EINTR then Some (GETERROR e, w1) else g wr data k w1
             | (Inr n, w1) \<Rightarrow> if n = 0 then Some (of_nat k, w1) else g wr data (k + n) w1
        else Some (of_nat k, w)) = Some y"
      and fr: "\<forall>bs w. frame (snd (wr bs w)) = frame w"
    have f: "wr bs w = (r, w1) \<Longrightarrow> frame w1 = frame w" for bs w r w1 using fr by (metis snd_conv)
    show "frame (snd y) = frame w"
      using eq ih fr f by (auto split: if_splits prod.splits sum.splits)
  qed
  then show ?thesis using assms(1) by blast
qed

section \<open>The demo world keeps the contract\<close>

lemma demo_delivers: "delivers (demo_read fd) d_rest d_eintr"
  by (auto simp: delivers_def demo_read_def)

lemma demo_accepts: "accepts (demo_write fd) d_file d_eintr"
  by (auto simp: accepts_def demo_write_def min_def take_all)

lemma demo_open_3 [simp]: "fh_opened (open_files demo_open ! 3)"
  by (simp add: demo_open_def demo_host_def MAX_FILES_def)

lemma list_all_replicate: "list_all P (replicate n x) \<longleftrightarrow> n = 0 \<or> P x"
  by (cases n) (auto simp: list_all_iff)

lemma demo_wf: "host_wf demo_host"
  by (simp add: host_wf_def demo_host_def demo_drive_def clean_root_def demo_root plain_def segment_def MAX_FILES_def MAX_DIRS_def MAX_HOSTDRIVES_def MAX_ASYNC_CHANNELS_def list_all_replicate)

lemma demo_path: "make_path demo_os demo_host 0 ''x'' True demo_world = Inr (Some ''/psp/x/'', demo_world)"
  by code_simp

lemma demo_dopen: "case dir_open demo_os demo_host 0 ''x'' demo_world of Inr (r, h1, w1) \<Rightarrow> r = 0 | Inl f \<Rightarrow> False"
  by code_simp

section \<open>Reading and writing\<close>

lemma sint_small: "n < 2 ^ 31 \<Longrightarrow> sint (of_nat n :: u32) = int n"
  using sint_s32 [of "int n"] by (simp add: s32_def)

lemma handle_read_file:
  assumes "delivers (os_read os fid) rest patience"
    and "fid < MAX_FILES" and "fh_opened (open_files h ! fid)"
    and "0 < len" and "len \<le> HOSTFS_MAX_BLOCK"
  shows "\<exists>w1. handle_read os (enc_read \<lparr>read_cmd = c, read_fid = of_nat fid, read_len = of_nat len\<rparr> @ junk) 20 h w
      = send_resp_data os (mk_resp CMD_READ (of_nat (min len (length (rest w)))) (of_nat (min len (length (rest w)))))
          (take len (rest w)) h w1
    \<and> rest w1 = drop len (rest w) \<and> (\<exists>k. fixed_read (os_read os fid) len [] w = Some (k, w1))"
proof -
  have s: "sint (of_nat fid :: u32) = int fid" "sint (of_nat len :: u32) = int len"
    "sint (of_nat (min len (length (rest w))) :: u32) = int (min len (length (rest w)))"
    using assms(2,5) by (simp_all add: sint_small MAX_FILES_def HOSTFS_MAX_BLOCK_def)
  from fixed_read_acc [OF assms(1), of "[]" len w] obtain w1 where
    r: "fixed_read (os_read os fid) len [] w = Some ((of_nat (min len (length (rest w))), take len (rest w)), w1)"
    and w1: "rest w1 = drop len (rest w)" by auto
  show ?thesis
    using assms(2-5) r w1 s by (intro exI [of _ w1]) (simp add: handle_read_def read_struct.dec_enc_append Let_def)
qed

text \<open>A read command on an open file answers with the next bytes of the file: exactly as many as
  asked for, fewer only at the end of the file, however the system splits the transfer and
  however often a signal interrupts it; the file is left positioned after them.\<close>

theorem handle_read_returns_file:
  assumes "delivers (os_read os fid) rest patience"
    and "fid < MAX_FILES" and "fh_opened (open_files h ! fid)"
    and "0 < len" and "len \<le> HOSTFS_MAX_BLOCK"
  shows "\<exists>w1. handle_read os (enc_read \<lparr>read_cmd = c, read_fid = of_nat fid, read_len = of_nat len\<rparr>) 20 h w
      = send_resp_data os (mk_resp CMD_READ (of_nat (min len (length (rest w)))) (of_nat (min len (length (rest w)))))
          (take len (rest w)) h w1
    \<and> rest w1 = drop len (rest w)"
  using handle_read_file [OF assms, of c "[]" w] by auto

theorem handle_read_returns_file_witness:
  "\<exists>w1. handle_read demo_os (enc_read \<lparr>read_cmd = \<lparr>magic = 0, command = 0, extralen = 0\<rparr>,
          read_fid = of_nat 3, read_len = of_nat 4\<rparr>) 20 demo_open demo_world
      = send_resp_data demo_os (mk_resp CMD_READ 4 4) [1, 2, 3, 4] demo_open w1 \<and> d_rest w1 = [5]"
proof -
  have "delivers (os_read demo_os 3) d_rest d_eintr" by (simp add: demo_delivers)
  from handle_read_returns_file [OF this, of demo_open 4 "\<lparr>magic = 0, command = 0, extralen = 0\<rparr>" demo_world]
  show ?thesis by (simp add: MAX_FILES_def HOSTFS_MAX_BLOCK_def demo_world_def)
qed

lemma handle_write_file:
  assumes "accepts (os_write os fid) sink patience"
    and "os_usb_read os 0x81 (of_nat (length data)) w = ((int (length data), data), w1)"
    and "fid < MAX_FILES" and "fh_opened (open_files h ! fid)"
    and "0 < length data" and "length data \<le> HOSTFS_MAX_BLOCK"
  shows "\<exists>w2. handle_write os (enc_id \<lparr>id_cmd = \<lparr>magic = m, command = c, extralen = of_nat (length data)\<rparr>,
              id_val = of_nat fid\<rparr> @ junk) 16 h w
      = send_resp os (mk_resp CMD_WRITE 0 (of_nat (length data))) h w2
    \<and> sink w2 = sink w1 @ data \<and> (\<exists>k. fixed_write (os_write os fid) data 0 w1 = Some (k, w2))"
proof -
  have s: "sint (of_nat fid :: u32) = int fid"
    using assms(3) by (simp add: sint_small MAX_FILES_def)
  have nz: "(of_nat (length data) :: u32) \<noteq> 0"
    using assms(5,6) by (simp add: HOSTFS_MAX_BLOCK_def word_of_nat_eq_0_iff nat_dvd_not_less)
  from fixed_write_acc [OF assms(1), of 0 data w1] obtain w2 where
    r: "fixed_write (os_write os fid) data 0 w1 = Some (of_nat (length data), w2)"
    and w2: "sink w2 = sink w1 @ data" by auto
  show ?thesis
    using assms(2-6) r w2 s nz
    by (intro exI [of _ w2]) (simp add: handle_write_def id_struct.dec_enc_append Let_def euid_usb_bulk_read_def)
qed

text \<open>A write command on an open file stores all the data that follows it, in order, after what
  was written before, whatever the sizes of the partial writes, and answers with its length.\<close>

theorem handle_write_stores_data:
  assumes "accepts (os_write os fid) sink patience"
    and "os_usb_read os 0x81 (of_nat (length data)) w = ((int (length data), data), w1)"
    and "fid < MAX_FILES" and "fh_opened (open_files h ! fid)"
    and "0 < length data" and "length data \<le> HOSTFS_MAX_BLOCK"
  shows "\<exists>w2. handle_write os (enc_id \<lparr>id_cmd = \<lparr>magic = m, command = c, extralen = of_nat (length data)\<rparr>,
              id_val = of_nat fid\<rparr>) 16 h w
      = send_resp os (mk_resp CMD_WRITE 0 (of_nat (length data))) h w2
    \<and> sink w2 = sink w1 @ data"
  using handle_write_file [OF assms, of m c "[]"] by auto

theorem handle_write_stores_data_witness:
  "\<exists>w2. handle_write demo_os (enc_id \<lparr>id_cmd = \<lparr>magic = 0, command = 0, extralen = of_nat 3\<rparr>, id_val = of_nat 3\<rparr>)
          16 demo_open (demo_world\<lparr>d_in := [[7, 8, 9]]\<rparr>)
      = send_resp demo_os (mk_resp CMD_WRITE 0 (of_nat 3)) demo_open w2 \<and> d_file w2 = [7, 8, 9]"
proof -
  have "accepts (os_write demo_os 3) d_file d_eintr" by (simp add: demo_accepts)
  from handle_write_stores_data [OF this, of "[7, 8, 9]" "demo_world\<lparr>d_in := [[7, 8, 9]]\<rparr>" demo_world demo_open 0 0]
  show ?thesis by (simp add: MAX_FILES_def HOSTFS_MAX_BLOCK_def demo_world_def demo_os_def)
qed

section \<open>Listing a directory\<close>

text \<open>\<open>n\<close> read-directory commands with the same id.\<close>

fun dread_seq :: "'w os \<Rightarrow> bytes \<Rightarrow> nat \<Rightarrow> host \<Rightarrow> 'w \<Rightarrow> (host \<times> 'w) run" where
  "dread_seq os buf 0 h w = Inr (h, w)"
| "dread_seq os buf (Suc n) h w =
     (case handle_dread os buf 16 h w of
        Inl f \<Rightarrow> Inl f
      | Inr (_, h1, w1) \<Rightarrow> dread_seq os buf n h1 w1)"

text \<open>Sending an answer and its data, without the globals it does not touch.\<close>

definition sent :: "'w os \<Rightarrow> HostFsResp \<Rightarrow> bytes \<Rightarrow> 'w \<Rightarrow> int \<times> 'w" where
  "sent os r data w = (case euid_usb_bulk_write os 0x2 (enc_resp r) w of (ret, w1) \<Rightarrow>
     if ret < 0 then (ret, w1)
     else if extralen (resp_cmd r) > 0 then euid_usb_bulk_write os 0x2 data w1 else (ret, w1))"

lemma send_resp_data_sent:
  "send_resp_data os r data h w = (case sent os r data w of (n, w1) \<Rightarrow> Inr (n, h, w1))"
  by (simp add: send_resp_data_def sent_def split: prod.splits)

text \<open>What should go out: every entry with the number of entries left, then an empty answer.\<close>

fun send_listing :: "'w os \<Rightarrow> SceIoDirent list \<Rightarrow> 'w \<Rightarrow> 'w" where
  "send_listing os [] w = snd (sent os (mk_resp CMD_READ 0 0) [] w)"
| "send_listing os (e # es) w = send_listing os es
     (snd (sent os (mk_resp CMD_READ 352 (of_nat (length (e # es)))) (enc_dirent e) w))"

lemma dread_seq_pos:
  assumes "host_wf h" and "did < MAX_DIRS" and "sint (id_val (dec_id buf)) = int did"
    and "open_dirs h ! did = \<lparr>dh_opened = True, dh_count = length ents, dh_pos = p, dh_pDir = Entries ents\<rparr>"
    and "p \<le> length ents"
  shows "\<exists>h1. dread_seq os buf (Suc (length ents - p)) h w = Inr (h1, send_listing os (drop p ents) w)"
  using assms
proof (induction "length ents - p" arbitrary: p h w)
  case 0
  then show ?case
    by (simp add: handle_dread_def Let_def MAX_DIRS_def MAX_FILES_def send_resp_data_sent split: prod.splits)
next
  case (Suc k)
  then have p: "p < length ents" by simp
  let ?d = "\<lparr>dh_opened = True, dh_count = length ents, dh_pos = Suc p, dh_pDir = Entries ents\<rparr>"
  let ?h = "h\<lparr>open_dirs := (open_dirs h)[did := ?d]\<rparr>"
  obtain n w1 where s: "sent os (mk_resp CMD_READ 352 (of_nat (length ents - p))) (enc_dirent (ents ! p)) w = (n, w1)"
    by fastforce
  have res: "Suc (length ents - Suc p) = length ents - p" using p by simp
  have step: "handle_dread os buf 16 h w = Inr (n, ?h, w1)"
    using Suc.prems p s by (simp add: handle_dread_def Let_def MAX_DIRS_def MAX_FILES_def res
        send_resp_data_sent del: of_nat_Suc of_nat_diff)
  have wf: "host_wf ?h" by (rule handle_dread_wf [OF Suc.prems(1) step])
  have at: "open_dirs ?h ! did = ?d"
    using Suc.prems(1,2) by (simp add: host_wf_def)
  have "\<exists>h1. dread_seq os buf (Suc (length ents - Suc p)) ?h w1 = Inr (h1, send_listing os (drop (Suc p) ents) w1)"
    using Suc.hyps(2) p by (intro Suc.hyps(1) wf Suc.prems(2,3) at) auto
  moreover have "drop p ents = ents ! p # drop (Suc p) ents" using p by (rule Cons_nth_drop_Suc [symmetric])
  ultimately show ?case
    using step s by (simp add: res del: dread_seq.simps(2)) (simp add: res)
qed

lemma first_free_le: "first_free ds \<le> length ds"
  by (induction ds) auto

lemma GETERROR_neg: "sint (GETERROR e) < 0"
proof -
  have "bit (GETERROR e) 31" by (simp add: GETERROR_def bit_simps)
  then show ?thesis by (simp add: sint_uint bit_simps not_le [symmetric] bit_last_iff)
qed

lemma fill_dirents_map:
  "fill_dirents os d ns acc w = Inr (Some ents, w1) \<Longrightarrow> map d_name ents = map d_name acc @ ns"
  by (induction os d ns acc w rule: fill_dirents.induct) (auto split: if_splits prod.splits sum.splits)

lemma dir_open_ok:
  assumes "host_wf h" and "make_path os h d p True w = Inr (Some full, wa)"
    and "os_scandir os full wa = (Inr names, wb)" and "dir_open os h d p w = Inr (r, h1, w1)" and "0 \<le> sint r"
  obtains ents did where "map d_name ents = names" and "did < MAX_DIRS" and "sint r = int did"
    and "open_dirs h1 ! did = \<lparr>dh_opened = True, dh_count = length ents, dh_pos = 0, dh_pDir = Entries ents\<rparr>"
proof -
  let ?did = "first_free (open_dirs h)"
  have len: "length (open_dirs h) = MAX_DIRS" using assms(1) by (simp add: host_wf_def)
  have ne: "?did \<noteq> length (open_dirs h)" and "names \<noteq> []"
    using assms(2-5) GETERROR_neg by (auto simp: dir_open_def Let_def not_le [symmetric] split: if_splits)
  have neg: "sint (s32 (- 1)) < 0" by (simp add: sint_s32)
  obtain ents wc where f: "fill_dirents os full names [] wb = Inr (Some ents, wc)"
    and h1: "h1 = h\<lparr>open_dirs := (open_dirs h)[?did := \<lparr>dh_opened = True, dh_count = length names,
        dh_pos = 0, dh_pDir = Entries ents\<rparr>]\<rparr>" and r: "r = of_nat ?did"
    using assms(2-5) ne \<open>names \<noteq> []\<close> neg
    by (auto simp: dir_open_def Let_def split: if_splits sum.splits prod.splits option.splits)
  have did: "?did < MAX_DIRS" using first_free_le [of "open_dirs h"] ne len by simp
  have m: "map d_name ents = names" using fill_dirents_map [OF f] by simp
  then have l: "length ents = length names" by (metis length_map)
  show ?thesis
  proof (rule that [OF m did])
    show "sint r = int ?did" using did by (simp add: r sint_small MAX_DIRS_def)
    show "open_dirs h1 ! ?did = \<lparr>dh_opened = True, dh_count = length ents, dh_pos = 0, dh_pDir = Entries ents\<rparr>"
      using did len by (simp add: h1 l)
  qed
qed

text \<open>C10: After a successful open-directory, as many read-directory commands as the directory has
  entries, plus one, send each entry that the system listed exactly once and in order, each with
  the number of entries left, and end with an empty answer.\<close>

theorem directory_listing:
  assumes "host_wf h" and "make_path os h d p True w = Inr (Some full, wa)"
    and "os_scandir os full wa = (Inr names, wb)"
    and "dir_open os h d p w = Inr (r, h1, w1)" and "0 \<le> sint r"
  shows "\<exists>ents h2. map d_name ents = names
    \<and> dread_seq os (enc_id \<lparr>id_cmd = c, id_val = r\<rparr>) (Suc (length names)) h1 w1 = Inr (h2, send_listing os ents w1)"
proof -
  from dir_open_ok [OF assms] obtain ents did where e: "map d_name ents = names" and d: "did < MAX_DIRS"
    "sint r = int did"
    "open_dirs h1 ! did = \<lparr>dh_opened = True, dh_count = length ents, dh_pos = 0, dh_pDir = Entries ents\<rparr>"
    by blast
  have "length names = length ents" using e by auto
  then show ?thesis
    using dread_seq_pos [of h1 did "enc_id \<lparr>id_cmd = c, id_val = r\<rparr>" ents 0 os w1]
      dir_open_wf [OF assms(1,4)] d e by (auto simp: id_struct.dec_enc)
qed

theorem directory_listing_witness:
  "\<exists>ents h1 w1 h2. map d_name ents = [''.'', ''a.txt'']
    \<and> dread_seq demo_os (enc_id \<lparr>id_cmd = \<lparr>magic = 0, command = 0, extralen = 0\<rparr>, id_val = 0\<rparr>)
        (Suc (length [''.'', ''a.txt''])) h1 w1
      = Inr (h2, send_listing demo_os ents w1)"
proof -
  obtain h1 w1 where d: "dir_open demo_os demo_host 0 ''x'' demo_world = Inr (0, h1, w1)"
    using demo_dopen by (auto split: sum.splits)
  have "os_scandir demo_os ''/psp/x/'' demo_world = (Inr [''.'', ''a.txt''], demo_world)"
    by (simp add: demo_os_def)
  from directory_listing [OF demo_wf demo_path this d, of "\<lparr>magic = 0, command = 0, extralen = 0\<rparr>"]
  obtain ents h2 where "map d_name ents = [''.'', ''a.txt'']"
    "dread_seq demo_os (enc_id \<lparr>id_cmd = \<lparr>magic = 0, command = 0, extralen = 0\<rparr>, id_val = 0\<rparr>)
        (Suc (length [''.'', ''a.txt''])) h1 w1 = Inr (h2, send_listing demo_os ents w1)" by (metis order_refl signed_0)
  then show ?thesis by (intro exI conjI)
qed

section \<open>Dead handles\<close>

lemma opened_update: "\<not> fh_opened ((fs[i := f\<lparr>fh_opened := False, fh_name := None\<rparr>]) ! i)" if "i < length fs"
  using that by simp

text \<open>Once a close command for an open descriptor has been carried out, whatever it answered, a
  read, a seek and another close of that descriptor answer with the error -1 and touch neither
  the tables nor the file system.\<close>

theorem closed_handle_is_dead:
  assumes "host_wf h" and "handle_close os (enc_id \<lparr>id_cmd = c, id_val = of_nat fid\<rparr>) 16 h w = Inr (n, h1, w1)"
    and "2 < fid" and "fid < MAX_FILES" and "0 < sint len"
  shows "handle_read os (enc_read \<lparr>read_cmd = c2, read_fid = of_nat fid, read_len = len\<rparr>) 20 h1 w2
      = send_resp_data os (mk_resp CMD_READ 0 (s32 (- 1))) [] h1 w2
    \<and> handle_close os (enc_id \<lparr>id_cmd = c, id_val = of_nat fid\<rparr>) 16 h1 w2
      = send_resp os (mk_resp CMD_CLOSE 0 (s32 (- 1))) h1 w2
    \<and> handle_lseek os (enc_lseek \<lparr>lseek_cmd = c2, lseek_fid = of_nat fid, lseek_ofs = ofs, lseek_whence = wh\<rparr>) 28 h1 w2
      = (case euid_usb_bulk_write os 0x2 (enc_lresp \<lparr>lresp_cmd = \<lparr>magic = HOSTFS_MAGIC,
            command = cmd_num CMD_LSEEK, extralen = 0\<rparr>, lresp_res = s32 (- 1), lresp_ofs = 0\<rparr>) w2
         of (r, w3) \<Rightarrow> Inr (r, h1, w3))"
proof -
  have s: "sint (of_nat fid :: u32) = int fid" using assms(4) by (simp add: sint_small MAX_FILES_def)
  have "length (open_files h) = MAX_FILES" using assms(1) by (simp add: host_wf_def)
  then have "\<not> fh_opened (open_files h1 ! fid)"
    using assms(2,3,4) s by (auto simp: handle_close_def id_struct.dec_enc Let_def
        split: if_splits prod.splits dest!: send_resp_keeps)
  then show ?thesis
    using assms(3,4,5) s
    by (simp add: handle_read_def handle_close_def handle_lseek_def id_struct.dec_enc read_struct.dec_enc
        lseek_struct.dec_enc Let_def)
qed

theorem closed_handle_is_dead_witness:
  "\<exists>h1. handle_read demo_os (enc_read \<lparr>read_cmd = \<lparr>magic = 0, command = 0, extralen = 0\<rparr>, read_fid = of_nat 3,
        read_len = 1\<rparr>) 20 h1 demo_world
      = send_resp_data demo_os (mk_resp CMD_READ 0 (s32 (- 1))) [] h1 demo_world"
proof -
  let ?c = "\<lparr>magic = 0, command = 0, extralen = 0\<rparr>"
  have wf: "host_wf demo_open"
    unfolding demo_open_def by (rule host_wf_file [OF demo_wf]) (simp add: file_ok_def)
  obtain n h1 w1 where "handle_close demo_os (enc_id \<lparr>id_cmd = ?c, id_val = of_nat 3\<rparr>) 16 demo_open demo_world
      = Inr (n, h1, w1)"
    by (cases "handle_close demo_os (enc_id \<lparr>id_cmd = ?c, id_val = of_nat 3\<rparr>) 16 demo_open demo_world")
       (auto simp: handle_close_def Let_def split: prod.splits if_splits)
  from closed_handle_is_dead [OF wf this, of 1 ?c demo_world 0 0] show ?thesis
    by (auto simp: MAX_FILES_def)
qed


end
