(* ===== verification/HostProps.thy ===== *)
theory HostProps
  imports HostConfine HostFiles
begin

text \<open>
  The properties of the PC server as a whole: what holds in every reachable state of its life,
  that it never leaves the roots of its drives, that malformed commands are ignored, and that
  a saved drive table loads back.
\<close>

section \<open>Reachable states\<close>

lemma bulk_blocks_fault: "bulk_blocks os len acc rd w = Inl f \<Longrightarrow> f = Buffer_Overflow"
proof (induction "len - rd" arbitrary: acc rd w rule: less_induct)
  case less
  show ?case
  proof (cases "rd < len")
    case False
    then show ?thesis using less.prems by (simp add: bulk_blocks.simps [of os len acc rd w])
  next
    case True
    define n where "n = (if len - rd > HOSTFS_MAX_BLOCK then HOSTFS_MAX_BLOCK else len - rd)"
    have n: "len - (rd + n) < len - rd" using True by (auto simp: n_def HOSTFS_MAX_BLOCK_def)
    consider "euid_usb_bulk_read os (HOSTFS_BULK_MAXWRITE - rd) (of_nat n) w = Inl f"
      | data w1 where "bulk_blocks os len (acc @ data) (rd + n) w1 = Inl f"
      using less.prems True unfolding bulk_blocks.simps [of os len acc rd w] Let_def n_def [symmetric]
      by (auto split: sum.splits prod.splits if_split_asm)
    then show ?thesis using euid_read_fault less.hyps [OF n] by cases auto
  qed
qed

lemma do_bulk_fault: "do_bulk os buf n h w \<noteq> Inl Bad_Pointer"
  by (auto simp: do_bulk_def Let_def split: sum.splits prod.splits option.splits if_splits
      dest: bulk_blocks_fault of_loop_fault)

lemma serve_turn_fault: "host_wf h \<Longrightarrow> serve_turn os b h w \<noteq> Inl Bad_Pointer"
  by (auto simp: serve_turn_def Let_def do_hostfs_fault do_bulk_fault
      split: sum.splits prod.splits if_splits dest: euid_read_fault)

definition session_ok :: "'w session \<Rightarrow> bool" where
  "session_ok s \<longleftrightarrow> host_wf (ss_host s) \<and> (ss_phase s = Waiting \<longrightarrow> all_closed (ss_host s))"

lemma session_step_ok:
  assumes "session_step os s t" and "session_ok s"
  shows "session_ok t"
  using assms
proof (induction rule: session_step.induct)
  case (connect s w1)
  then show ?case using init_hostfs_wf by (simp add: session_ok_def)
next
  case (no_connect s n w1 h2 w2)
  then show ?case
    using init_hostfs_wf [of "ss_host s"] close_hostfs_spec [of "init_hostfs (ss_host s)" os w1]
    by (auto simp: session_ok_def)
next
  case (turn s b1 h1 w1)
  then show ?case using serve_turn_wf by (auto simp: session_ok_def)
next
  case (hangup s b1 h1 w1 h2 w2)
  then have "host_wf h1" using serve_turn_wf by (auto simp: session_ok_def)
  then show ?case using hangup close_hostfs_spec [of h1 os w1] by (auto simp: session_ok_def)
next
  case (console line s r h1 w1)
  then show ?case using parse_shell_wf [of "ss_host s"] parse_shell_tables [of os line "ss_host s"]
    by (auto simp: session_ok_def all_closed_def)
next
  case (socket chan s fd)
  then show ?case by (auto simp: session_ok_def host_wf_def all_closed_def)
qed

lemma session_reach_ok: "session_reach os s0 s \<Longrightarrow> session_ok s0 \<Longrightarrow> session_ok s"
  by (induction rule: session_reach.induct) (auto intro: session_step_ok)

text \<open>C4: In every state the server can reach, through any sequence of connections, commands of the
  PSP, console lines and socket clients, the handle tables are well formed and the roots of the
  drives are normalised paths; while no PSP is connected nothing is left open; a turn of the
  loop never follows a null or freed directory buffer, and closing a connection never frees one
  twice.\<close>

theorem session_invariant:
  assumes "session_reach os s0 s" and "session_ok s0"
  shows "host_wf (ss_host s) \<and> (ss_phase s = Waiting \<longrightarrow> all_closed (ss_host s))
    \<and> serve_turn os (ss_buf s) (ss_host s) (ss_world s) \<noteq> Inl Bad_Pointer
    \<and> (\<exists>h1 w1. close_hostfs os (ss_host s) (ss_world s) = Inr (h1, w1) \<and> all_closed h1)"
  using session_reach_ok [OF assms] serve_turn_fault close_hostfs_spec by (fastforce simp: session_ok_def)

definition demo_session :: "demo session" where
  "demo_session = \<lparr>ss_phase = Waiting, ss_buf = replicate 512 0, ss_host = demo_host, ss_world = demo_world\<rparr>"

theorem session_invariant_witness:
  "\<exists>s. session_reach demo_os demo_session s \<and> ss_phase s = Connected
     \<and> serve_turn demo_os (ss_buf s) (ss_host s) (ss_world s) \<noteq> Inl Bad_Pointer"
proof -
  let ?s = "demo_session\<lparr>ss_phase := Connected, ss_host := init_hostfs (ss_host demo_session),
    ss_world := (ss_world demo_session)\<lparr>d_out := [le32 HOSTFS_MAGIC]\<rparr>\<rparr>"
  have "session_step demo_os demo_session ?s"
    by (rule session_step.connect) (simp_all add: demo_session_def euid_usb_bulk_write_def demo_world_def)
  then have r: "session_reach demo_os demo_session ?s"
    using session_reach.start session_reach.step by fast
  have "session_ok demo_session"
    using demo_wf by (simp add: session_ok_def demo_session_def all_closed_def demo_host_def list_all_replicate
        MAX_FILES_def MAX_DIRS_def no_dir_def no_file_def list_all_length)
  from session_invariant [OF r this] r show ?thesis by (intro exI [of _ ?s]) simp
qed

section \<open>Confinement\<close>

text \<open>C6: The server is confined to its drives: replacing the operating system by one that refuses to open, list
  (\<open>opendir\<close> in the case-insensitive search, \<open>scandir\<close> in a listing), create, remove, rename or modify anything
  outside the roots of the drives, and to tell the free space there, changes neither the result, nor the tables, nor
  the world after any command whatever the PSP sends. Reading attributes (\<open>stat\<close>) is not restricted: a listing
  includes \<open>..\<close>.\<close>

theorem server_is_confined:
  assumes "host_wf h"
  shows "do_hostfs (confine h os) buf n h w = do_hostfs os buf n h w"
  by (rule do_hostfs_confine [OF assms])

text \<open>An operating system that notes the directories it lists (\<open>?\<close>) and the files it removes (\<open>*\<close>), and the command
  to remove \<open>../GAMe/./GAME\<close> from a drive searched without regard to case.\<close>

definition demo_spy :: "demo os" where
  "demo_spy = demo_os\<lparr>os_unlink := (\<lambda>p w. (Inr (), w\<lparr>d_text := d_text w @ p @ ''*''\<rparr>)),
     os_readdir := (\<lambda>p w. (Some [''game'', ''GAME''], w\<lparr>d_text := d_text w @ p @ ''?''\<rparr>))\<rparr>"

definition demo_remove :: bytes where
  "demo_remove = enc_fs \<lparr>fs_cmd = \<lparr>magic = HOSTFS_MAGIC, command = cmd_num CMD_REMOVE, extralen = 16\<rparr>, fs_num = 0\<rparr>"

definition demo_nocase :: host where
  "demo_nocase = demo_host\<lparr>g_nocase := True\<rparr>"

definition demo_asked :: demo where
  "demo_asked = demo_world\<lparr>d_in := [map byte_of ''../GAMe/./GAME'' @ [0, 0]]\<rparr>"

lemma do_hostfs_remove: "command (dec_cmd buf) = cmd_num CMD_REMOVE \<Longrightarrow> do_hostfs os buf n h w = handle_remove os buf n h w"
  unfolding do_hostfs_def Let_def by (simp cong: if_cong)

theorem server_is_confined_witness:
  "map_sum id (\<lambda>(r, h1, w1). (r, d_text w1)) (do_hostfs (confine demo_nocase demo_spy) demo_remove 16 demo_nocase demo_asked)
     = Inr (16, ''/psp/?/psp/GAME/?/psp/GAME/GAME*'')
   \<and> \<not> in_drive demo_nocase ''/etc/passwd'' \<and> \<not> in_drive demo_nocase ''/'' \<and> in_drive demo_nocase ''/psp/GAME/''"
proof (intro conjI)
  have c: "command (dec_cmd demo_remove) = cmd_num CMD_REMOVE" by code_simp
  have wf: "host_wf demo_nocase" using demo_wf by (simp add: demo_nocase_def host_wf_def)
  have "map_sum id (\<lambda>(r, h1, w1). (r, d_text w1)) (handle_remove demo_spy demo_remove 16 demo_nocase demo_asked)
     = Inr (16, ''/psp/?/psp/GAME/?/psp/GAME/GAME*'')" by code_simp
  then show "map_sum id (\<lambda>(r, h1, w1). (r, d_text w1)) (do_hostfs (confine demo_nocase demo_spy) demo_remove 16 demo_nocase demo_asked)
     = Inr (16, ''/psp/?/psp/GAME/?/psp/GAME/GAME*'')"
    by (subst server_is_confined [OF wf], subst do_hostfs_remove [OF c])
  show "\<not> in_drive demo_nocase ''/etc/passwd''" "\<not> in_drive demo_nocase ''/''" "in_drive demo_nocase ''/psp/GAME/''"
    by code_simp+
qed

section \<open>Malformed commands\<close>

text \<open>The size of the structure of each command.\<close>

fun cmd_size :: "HostFsCommands \<Rightarrow> nat" where
  "cmd_size CMD_OPEN = 24" | "cmd_size CMD_READ = 20" | "cmd_size CMD_LSEEK = 28"
| "cmd_size CMD_MKDIR = 20" | "cmd_size CMD_CHSTAT = 56" | "cmd_size CMD_IOCTL = 24"
| "cmd_size CMD_DEVCTL = 24" | "cmd_size CMD_HELLO = 12" | "cmd_size CMD_BYE = 12"
| "cmd_size _ = 16"

text \<open>A command whose length is not the size of its structure is answered with nothing: the
  handler gives up with -1 before it reads, writes or changes anything.\<close>

theorem wrong_size_rejected:
  assumes "command (dec_cmd buf) = cmd_num c" and "n \<noteq> cmd_size c"
    and "c \<noteq> CMD_HELLO" and "c \<noteq> CMD_BYE"
  shows "do_hostfs os buf n h w = Inr (- 1, h, w)"
  using assms by (cases c) (simp_all add: do_hostfs_def handle_open_def handle_close_def handle_read_def
      handle_write_def handle_lseek_def handle_remove_def handle_mkdir_def handle_rmdir_def
      handle_dopen_def handle_dread_def handle_dclose_def handle_getstat_def handle_chstat_def
      handle_rename_def handle_chdir_def handle_ioctl_def handle_devctl_def)

theorem wrong_size_rejected_witness:
  "do_hostfs demo_os (enc_cmd \<lparr>magic = HOSTFS_MAGIC, command = cmd_num CMD_REMOVE, extralen = 5\<rparr>) 12
     demo_host demo_world = Inr (- 1, demo_host, demo_world)"
  by (rule wrong_size_rejected [of _ CMD_REMOVE]) (simp_all add: cmd_struct.dec_enc)

section \<open>The drive table\<close>

definition savable :: "string \<Rightarrow> bool" where
  "savable r \<longleftrightarrow> r \<noteq> [] \<and> hd r = CHR ''/'' \<and> gen_path r False = r \<and> length r + 4 < PATH_MAX
     \<and> CHR 0x0A \<notin> set r \<and> \<not> isspace (last r)"

lemma fgets_first_line: "CHR 0x0A \<notin> set l \<Longrightarrow> length l + 2 \<le> n \<Longrightarrow> fgets n (l @ CHR 0x0A # r) = (l @ [CHR 0x0A], r)"
proof (induction l arbitrary: n)
  case Nil
  then show ?case by (cases n) auto
next
  case (Cons c l)
  then show ?case by (cases n) auto
qed

lemma print_dec_digit: "i < 10 \<Longrightarrow> print_dec i = [digit_char i]"
  by (simp add: print_dec_def digits_of.simps [of 10 i])

lemma load_saved_line:
  assumes "i < MAX_HOSTDRIVES" and "savable r"
    and "os_readdir os r w = (Some es, w)" and "os_lock os w = (True, w)"
  shows "load_line os (print_dec i @ CHR ''='' # r @ [CHR 0x0A]) h w
     = Inr (h\<lparr>g_drives := (g_drives h)[i := \<lparr>rootdir = r, currdir = ''/''\<rparr>]\<rparr>, w)"
proof -
  have i: "i < 10" "i < 36" using assms(1) by (simp_all add: MAX_HOSTDRIVES_def)
  have d: "isdigit (digit_char i)" using i code_digit_char [of i] by (simp add: isdigit_def)
  have r: "r = rev (rev r)" "rev r \<noteq> []" "hd (rev r) = last r" using assms(2) by (auto simp: savable_def hd_rev)
  have "skip_space (rev (print_dec i @ CHR ''='' # r @ [CHR 0x0A])) = rev (print_dec i @ CHR ''='' # r)"
    using r assms(2) by (cases "rev r") (auto simp: savable_def isspace_def hd_rev)
  then have t: "trim_line (print_dec i @ CHR ''='' # r @ [CHR 0x0A]) = digit_char i # CHR ''='' # r"
    using i by (simp add: trim_line_def print_dec_digit)
  have s: "strtoul 64 10 (digit_char i # CHR ''='' # r) = (i, CHR ''='' # r)"
    using strtoul_print_dec [of i 64 "CHR ''='' # r"] i
    by (simp add: print_dec_digit starts_digit_def digit_val_def)
  have n: "sint (of_nat i :: u32) = int i" using i by (simp add: sint_small)
  have "\<not> isspace (hd r)" using assms(2) by (simp add: savable_def isspace_def)
  moreover have "add_drive os (int i) r h w
      = Inr (1, h\<lparr>g_drives := (g_drives h)[i := \<lparr>rootdir = r, currdir = ''/''\<rparr>]\<rparr>, w)"
    using assms by (auto simp: add_drive_def savable_def Let_def)
  ultimately show ?thesis
    using assms(2) d by (simp add: load_line_def t s n savable_def)
qed

definition table_of :: "HostDrive list \<Rightarrow> HostDrive list" where
  "table_of ds = map (\<lambda>d. d\<lparr>currdir := ''/''\<rparr>) ds"

definition save_from :: "nat \<Rightarrow> HostDrive list \<Rightarrow> string" where
  "save_from k ds = concat (map (\<lambda>(i, d). print_dec i @ ''='' @ rootdir d @ [CHR 0x0A]) (enumerate k ds))"

lemma load_saved_from:
  assumes "\<And>d. d \<in> set ds \<Longrightarrow> \<exists>es. os_readdir os (rootdir d) w = (Some es, w)"
    and "os_lock os w = (True, w)" and "\<forall>d \<in> set ds. savable (rootdir d)"
    and "length (g_drives h) = k + length ds" and "k + length ds \<le> MAX_HOSTDRIVES"
  shows "load_lines os (save_from k ds) h w = Inr (h\<lparr>g_drives := take k (g_drives h) @ table_of ds\<rparr>, w)"
  using assms
proof (induction ds arbitrary: k h)
  case Nil
  have "fgets PATH_MAX [] = ([], [])" by (simp add: PATH_MAX_def eval_nat_numeral)
  then show ?case using Nil by (simp add: save_from_def table_of_def load_lines.simps [of os "[]"])
next
  case (Cons d ds)
  let ?l = "print_dec k @ CHR ''='' # rootdir d"
  have k: "k < MAX_HOSTDRIVES" using Cons.prems(5) by simp
  have sv: "savable (rootdir d)" using Cons.prems(3) by simp
  have pd: "print_dec k = [digit_char k]" using k by (simp add: print_dec_digit MAX_HOSTDRIVES_def)
  have "digit_char k \<noteq> CHR 0x0A" using code_digit_char [of k] k by (auto simp: MAX_HOSTDRIVES_def)
  then have f: "fgets PATH_MAX (save_from k (d # ds)) = (?l @ [CHR 0x0A], save_from (Suc k) ds)"
    using sv fgets_first_line [of ?l PATH_MAX "save_from (Suc k) ds"] by (simp add: save_from_def savable_def pd)
  obtain es where es: "os_readdir os (rootdir d) w = (Some es, w)" using Cons.prems(1) by fastforce
  let ?h = "h\<lparr>g_drives := (g_drives h)[k := \<lparr>rootdir = rootdir d, currdir = ''/''\<rparr>]\<rparr>"
  have ln: "load_line os (?l @ [CHR 0x0A]) h w = Inr (?h, w)"
    using load_saved_line [OF k sv es Cons.prems(2)] by simp
  have "load_lines os (save_from k (d # ds)) h w = load_lines os (save_from (Suc k) ds) ?h w"
    using f ln by (simp add: load_lines.simps [of os "save_from k (d # ds)"])
  also have "\<dots> = Inr (?h\<lparr>g_drives := take (Suc k) (g_drives ?h) @ table_of ds\<rparr>, w)"
    by (rule Cons.IH) (use Cons.prems in auto)
  also have "take (Suc k) (g_drives ?h) @ table_of ds = take k (g_drives h) @ table_of (d # ds)"
    using Cons.prems(4) by (simp add: table_of_def take_Suc_conv_app_nth)
  finally show ?case by simp
qed

text \<open>C11: Saving the drive table to a map file with the command \<open>save\<close> and loading it with \<open>load\<close>, at any later time
  and into whatever table there is then, gives back every drive's root, in order, with the current directories reset,
  provided the file still holds what was written, and the saved roots are normalised absolute paths that fit a line,
  contain no newline, do not end in white space, and can still be opened as directories (these, and no other path).\<close>

theorem save_load_roundtrip:
  assumes "mapfile \<noteq> []" and "os_put_text os mapfile (save_text (g_drives h)) w = (True, w1)"
    and "os_get_text os mapfile w2 = (Some (save_text (g_drives h)), w3)"
    and "os_lock os w3 = (True, w3)" and "\<forall>d \<in> set (g_drives h). \<exists>es. os_readdir os (rootdir d) w3 = (Some es, w3)"
    and "list_all (\<lambda>d. savable (rootdir d)) (g_drives h)"
    and "length (g_drives h) = MAX_HOSTDRIVES" and "length (g_drives h2) = MAX_HOSTDRIVES"
  shows "run_command os ''save'' mapfile h w = Inr (COMMAND_OK, h, w1)
    \<and> run_command os ''load'' mapfile h2 w2
        = Inr (COMMAND_OK, h2\<lparr>g_drives := map (\<lambda>d. d\<lparr>currdir := ''/''\<rparr>) (g_drives h)\<rparr>, w3)"
proof
  show "run_command os ''save'' mapfile h w = Inr (COMMAND_OK, h, w1)"
    using assms(1,2) by (simp add: run_command_def save_drives_def strtok_rest_def)
  have "load_lines os (save_from 0 (g_drives h)) h2 w3 = Inr (h2\<lparr>g_drives := take 0 (g_drives h2) @ table_of (g_drives h)\<rparr>, w3)"
    using assms(4-8) by (intro load_saved_from) (auto simp: list_all_iff)
  then show "run_command os ''load'' mapfile h2 w2
      = Inr (COMMAND_OK, h2\<lparr>g_drives := map (\<lambda>d. d\<lparr>currdir := ''/''\<rparr>) (g_drives h)\<rparr>, w3)"
    using assms(1,3) by (simp add: run_command_def load_drives_def load_mapfile_def strtok_rest_def save_text_def
        save_from_def table_of_def)
qed

text \<open>A system with two directories; a table with both of them, loaded over one with the first alone.\<close>

definition demo_dirs :: "demo os" where
  "demo_dirs = demo_os\<lparr>os_readdir := (\<lambda>p w. (if p = ''/psp'' \<or> p = ''/games'' then Some [] else None, w))\<rparr>"

definition demo_drives :: "HostDrive list" where
  "demo_drives = (replicate 8 demo_drive)[5 := \<lparr>rootdir = ''/games'', currdir = ''/old''\<rparr>]"

theorem save_load_roundtrip_witness:
  "\<exists>w1 h1. run_command demo_dirs ''save'' ''map'' (demo_host\<lparr>g_drives := demo_drives\<rparr>) demo_world
      = Inr (COMMAND_OK, demo_host\<lparr>g_drives := demo_drives\<rparr>, w1)
     \<and> run_command demo_dirs ''load'' ''map'' demo_host w1 = Inr (COMMAND_OK, h1, w1)
     \<and> g_drives h1 = (replicate 8 demo_drive)[5 := \<lparr>rootdir = ''/games'', currdir = ''/''\<rparr>]"
proof -
  let ?h = "demo_host\<lparr>g_drives := demo_drives\<rparr>" and ?w1 = "demo_world\<lparr>d_text := save_text demo_drives\<rparr>"
  have p: "os_put_text demo_dirs ''map'' (save_text (g_drives ?h)) demo_world = (True, ?w1)"
    "os_get_text demo_dirs ''map'' ?w1 = (Some (save_text (g_drives ?h)), ?w1)" "os_lock demo_dirs ?w1 = (True, ?w1)"
    by (simp_all add: demo_dirs_def demo_os_def)
  have n: "gen_path ''/psp'' False = ''/psp''" "gen_path ''/games'' False = ''/games''" by code_simp+
  have roots: "\<forall>d \<in> set (g_drives ?h). rootdir d = ''/psp'' \<or> rootdir d = ''/games''"
    by (simp add: demo_drives_def demo_drive_def eval_nat_numeral)
  then have d: "\<forall>d \<in> set (g_drives ?h). \<exists>es. os_readdir demo_dirs (rootdir d) ?w1 = (Some es, ?w1)"
    by (auto simp: demo_dirs_def)
  have s: "list_all (\<lambda>d. savable (rootdir d)) (g_drives ?h)"
    using roots n by (auto simp: list_all_iff savable_def PATH_MAX_def isspace_def)
  have l: "length (g_drives ?h) = MAX_HOSTDRIVES" "length (g_drives demo_host) = MAX_HOSTDRIVES"
    by (simp_all add: demo_drives_def demo_host_def MAX_HOSTDRIVES_def)
  have m: "map (\<lambda>d. d\<lparr>currdir := ''/''\<rparr>) demo_drives = (replicate 8 demo_drive)[5 := \<lparr>rootdir = ''/games'', currdir = ''/''\<rparr>]"
    by (simp add: demo_drives_def demo_drive_def eval_nat_numeral)
  show ?thesis
    using save_load_roundtrip [OF _ p(1,2,3) d s l, simplified] m by (intro exI conjI) auto
qed

end
