(* ===== verification/HostReplies.thy ===== *)
theory HostReplies
  imports HostFiles
begin

unbundle bit_operations_syntax

text \<open>
  What the PC server sends. \<open>outbox\<close> reads from the world of the operating system the messages that have gone to the
  PSP, the last one at the end; only \<open>os_usb_write\<close> adds to it.
\<close>

definition sends :: "'w os \<Rightarrow> ('w \<Rightarrow> bytes list) \<Rightarrow> bool" where
  "sends os outbox \<longleftrightarrow>
     (\<forall>p f m w. outbox (snd (os_open os p f m w)) = outbox w) \<and> (\<forall>fd w. outbox (snd (os_close os fd w)) = outbox w)
   \<and> (\<forall>fd n w. outbox (snd (os_read os fd n w)) = outbox w) \<and> (\<forall>fd bs w. outbox (snd (os_write os fd bs w)) = outbox w)
   \<and> (\<forall>fd ofs wh w. outbox (snd (os_lseek os fd ofs wh w)) = outbox w) \<and> (\<forall>p w. outbox (snd (os_unlink os p w)) = outbox w)
   \<and> (\<forall>p w. outbox (snd (os_rmdir os p w)) = outbox w) \<and> (\<forall>p m w. outbox (snd (os_mkdir os p m w)) = outbox w)
   \<and> (\<forall>p q w. outbox (snd (os_rename os p q w)) = outbox w) \<and> (\<forall>p w. outbox (snd (os_stat os p w)) = outbox w)
   \<and> (\<forall>p m w. outbox (snd (os_chmod os p m w)) = outbox w) \<and> (\<forall>p a m w. outbox (snd (os_utime os p a m w)) = outbox w)
   \<and> (\<forall>p w. outbox (snd (os_statvfs os p w)) = outbox w) \<and> (\<forall>p w. outbox (snd (os_scandir os p w)) = outbox w)
   \<and> (\<forall>p w. outbox (snd (os_readdir os p w)) = outbox w) \<and> (\<forall>w. outbox (snd (os_lock os w)) = outbox w)
   \<and> (\<forall>ep n w. outbox (snd (os_usb_read os ep n w)) = outbox w)
   \<and> (\<forall>ep bs w. outbox (snd (os_usb_write os ep bs w)) = outbox w @ [bs])"

lemma sends_calls:
  assumes "sends os outbox"
  shows "os_open os p f m w = (r1, w') \<Longrightarrow> outbox w' = outbox w" "os_close os fd w = (r2, w') \<Longrightarrow> outbox w' = outbox w"
    "os_read os fd n w = (r3, w') \<Longrightarrow> outbox w' = outbox w" "os_write os fd bs w = (r4, w') \<Longrightarrow> outbox w' = outbox w"
    "os_lseek os fd ofs wh w = (r5, w') \<Longrightarrow> outbox w' = outbox w" "os_unlink os p w = (r6, w') \<Longrightarrow> outbox w' = outbox w"
    "os_rmdir os p w = (r7, w') \<Longrightarrow> outbox w' = outbox w" "os_mkdir os p m w = (r8, w') \<Longrightarrow> outbox w' = outbox w"
    "os_rename os p q w = (r9, w') \<Longrightarrow> outbox w' = outbox w" "os_stat os p w = (ra, w') \<Longrightarrow> outbox w' = outbox w"
    "os_chmod os p m w = (rb, w') \<Longrightarrow> outbox w' = outbox w" "os_utime os p a t w = (rc, w') \<Longrightarrow> outbox w' = outbox w"
    "os_statvfs os p w = (rd, w') \<Longrightarrow> outbox w' = outbox w" "os_scandir os p w = (re, w') \<Longrightarrow> outbox w' = outbox w"
    "os_readdir os p w = (rf, w') \<Longrightarrow> outbox w' = outbox w" "os_lock os w = (rg, w') \<Longrightarrow> outbox w' = outbox w"
    "os_usb_read os ep l w = (rh, w') \<Longrightarrow> outbox w' = outbox w"
  using assms unfolding sends_def by (metis snd_conv)+

lemma sends_write: "sends os outbox \<Longrightarrow> os_usb_write os ep bs w = (r, w') \<Longrightarrow> outbox w' = outbox w @ [bs]"
  unfolding sends_def by (metis snd_conv)

section \<open>The parts that send nothing\<close>

lemma find_nocase_quiet:
  assumes "sends os outbox"
  shows "find_nocase os r rel t w = (x, w') \<Longrightarrow> outbox w' = outbox w"
  by (auto simp: find_nocase_def Let_def split: prod.splits if_splits option.splits dest!: sends_calls [OF assms])

lemma nocase_loop_quiet:
  assumes "sends os outbox"
  shows "nocase_loop os r d ts rel w = (x, w') \<Longrightarrow> outbox w' = outbox w"
  using assms by (induction os r d ts rel w rule: nocase_loop.induct)
    (auto split: prod.splits if_splits dest: find_nocase_quiet)

lemma make_path_quiet:
  assumes "sends os outbox"
  shows "make_path os h d p b w = Inr (x, w') \<Longrightarrow> outbox w' = outbox w"
  by (auto simp: make_path_def make_nocase_def Let_def split: prod.splits if_splits option.splits
      dest!: nocase_loop_quiet [OF assms] sends_calls [OF assms])

lemma is_dir_quiet:
  assumes "sends os outbox"
  shows "is_dir os p w = (x, w') \<Longrightarrow> outbox w' = outbox w"
  by (auto simp: is_dir_def split: prod.splits sum.splits dest!: sends_calls [OF assms])

lemma open_file_quiet:
  assumes "sends os outbox"
  shows "open_file os h d p m k w = Inr (x, h1, w') \<Longrightarrow> outbox w' = outbox w"
  by (auto simp: open_file_def split: sum.splits prod.splits if_splits option.splits bool.splits
      dest!: make_path_quiet [OF assms] is_dir_quiet [OF assms] sends_calls [OF assms])

lemma fill_stat_quiet:
  assumes "sends os outbox"
  shows "fill_stat os d n w = (x, w') \<Longrightarrow> outbox w' = outbox w"
  by (auto simp: fill_stat_def Let_def split: prod.splits if_splits sum.splits option.splits dest!: sends_calls [OF assms])

lemma fill_dirents_quiet:
  assumes "sends os outbox"
  shows "fill_dirents os d ns acc w = Inr (x, w') \<Longrightarrow> outbox w' = outbox w"
  using assms by (induction os d ns acc w rule: fill_dirents.induct)
    (auto split: prod.splits if_splits sum.splits dest: fill_stat_quiet)

lemma dir_open_quiet:
  assumes "sends os outbox"
  shows "dir_open os h d p w = Inr (x, h1, w') \<Longrightarrow> outbox w' = outbox w"
  by (auto simp: dir_open_def Let_def split: sum.splits prod.splits if_splits option.splits
      dest!: make_path_quiet [OF assms] fill_dirents_quiet [OF assms] sends_calls [OF assms])

lemma usb_read_quiet:
  assumes "sends os outbox"
  shows "euid_usb_bulk_read os cap n w = Inr (x, w') \<Longrightarrow> outbox w' = outbox w"
  by (auto simp: euid_usb_bulk_read_def split: prod.splits if_splits dest!: sends_calls [OF assms])

lemma recv_path_quiet:
  assumes "sends os outbox"
  shows "recv_path os c w = Inr (x, w') \<Longrightarrow> outbox w' = outbox w"
  by (auto simp: recv_path_def split: prod.splits if_splits sum.splits option.splits dest!: usb_read_quiet [OF assms])

lemma recv_args_quiet:
  assumes "sends os outbox"
  shows "recv_args os c w = Inr (x, w') \<Longrightarrow> outbox w' = outbox w"
  by (auto simp: recv_args_def Let_def split: prod.splits if_splits sum.splits dest!: usb_read_quiet [OF assms])

lemma path_op_quiet:
  assumes "sends os outbox"
  shows "(\<And>p w x w'. f p w = (x, w') \<Longrightarrow> outbox w' = outbox w) \<Longrightarrow> path_op os h d path f w = Inr (x, w')
    \<Longrightarrow> outbox w' = outbox w"
  by (auto simp: path_op_def split: prod.splits sum.splits option.splits dest!: make_path_quiet [OF assms])

lemma psp_settime_quiet:
  assumes "sends os outbox"
  shows "psp_settime os p t which w = (x, w') \<Longrightarrow> outbox w' = outbox w"
  by (auto simp: psp_settime_def Let_def split: prod.splits sum.splits if_splits dest!: sends_calls [OF assms])

lemma psp_chstat_quiet:
  assumes "sends os outbox"
  shows "psp_chstat os p c w = (x, w') \<Longrightarrow> outbox w' = outbox w"
  by (auto simp: psp_chstat_def split: prod.splits sum.splits if_splits option.splits bool.splits
      dest!: psp_settime_quiet [OF assms] sends_calls [OF assms])

lemma get_drive_info_quiet:
  assumes "sends os outbox"
  shows "get_drive_info os h d w = (x, w') \<Longrightarrow> outbox w' = outbox w"
  by (auto simp: get_drive_info_def split: prod.splits sum.splits if_splits dest!: sends_calls [OF assms])

lemma fixed_read_quiet:
  assumes "sends os outbox"
  shows "fixed_read (os_read os fd) len acc w = Some (x, w') \<Longrightarrow> outbox w' = outbox w"
  using fixed_read_frame [of outbox "os_read os fd" len acc w "(x, w')"] assms
  by (auto simp: sends_def of_loop_def split: option.splits)

lemma fixed_write_quiet:
  assumes "sends os outbox"
  shows "fixed_write (os_write os fd) data k w = Some (x, w') \<Longrightarrow> outbox w' = outbox w"
  using fixed_write_frame [of outbox "os_write os fd" data k w "(x, w')"] assms
  by (auto simp: sends_def of_loop_def split: option.splits)

section \<open>Replies\<close>

text \<open>
  What answers a command: nothing, or a message of the structure of its response, with the magic and the number of the
  command (but that of \<^verbatim>\<open>HOSTFS_CMD_READ\<close> for \<^verbatim>\<open>HOSTFS_CMD_DREAD\<close>), and, when the length it announces is not zero, a
  second message of just that length. When only the first could be outbox the result is negative.
\<close>

definition resp_size :: "u32 \<Rightarrow> nat" where
  "resp_size c = (if c = cmd_num CMD_HELLO then 12 else if c = cmd_num CMD_LSEEK then 24 else 16)"

definition replied_as :: "u32 \<Rightarrow> u32" where
  "replied_as c = (if c = cmd_num CMD_DREAD then cmd_num CMD_READ else c)"

definition reply_ok :: "u32 \<Rightarrow> int \<Rightarrow> bytes list \<Rightarrow> bool" where
  "reply_ok c ret msgs =
     (case msgs of
        [] \<Rightarrow> True
      | m # data \<Rightarrow>
          (let d = dec_cmd m in
           length m = resp_size c \<and> magic d = HOSTFS_MAGIC \<and> command d = replied_as c
           \<and> (if extralen d = 0 then data = []
               else data = [] \<and> ret < 0 \<or> (\<exists>x. data = [x] \<and> length x = unat (extralen d)))))"

definition replies :: "('w \<Rightarrow> bytes list) \<Rightarrow> u32 \<Rightarrow> 'w \<Rightarrow> (int \<times> host \<times> 'w) run \<Rightarrow> bool" where
  "replies outbox c w r \<longleftrightarrow> (\<forall>n h1 w1. r = Inr (n, h1, w1) \<longrightarrow> (\<exists>msgs. outbox w1 = outbox w @ msgs \<and> reply_ok c n msgs))"

lemma replies_none: "outbox w1 = outbox w \<Longrightarrow> replies outbox c w (Inr (n, h1, w1))"
  by (simp add: replies_def reply_ok_def)

lemma replies_fault: "replies outbox c w (Inl f)"
  by (simp add: replies_def)

lemma replies_from: "outbox w1 = outbox w \<Longrightarrow> replies outbox c w1 r \<Longrightarrow> replies outbox c w r"
  by (simp add: replies_def)

lemma dec_resp_header: "dec_cmd (enc_resp r) = resp_cmd r" "length (enc_resp r) = 16"
  by (simp_all add: enc_resp_def cmd_codec codec_simps)

lemma replies_resp:
  assumes "sends os outbox" and "c \<noteq> cmd_num CMD_HELLO" "c \<noteq> cmd_num CMD_LSEEK" "cmd_num k = replied_as c"
  shows "replies outbox c w (send_resp os (mk_resp k 0 res) h w)"
  using sends_write [OF assms(1)] assms(2-4)
  by (auto simp: replies_def send_resp_def euid_usb_bulk_write_def reply_ok_def resp_size_def dec_resp_header mk_resp_def Let_def
      split: prod.splits)

lemma replies_resp_data:
  assumes "sends os outbox" and "c \<noteq> cmd_num CMD_HELLO" "c \<noteq> cmd_num CMD_LSEEK" "cmd_num k = replied_as c"
    and "e \<noteq> 0 \<Longrightarrow> length data = unat e"
  shows "replies outbox c w (send_resp_data os (mk_resp k e res) data h w)"
  using assms(2-5)
  by (auto simp: replies_def send_resp_data_def euid_usb_bulk_write_def reply_ok_def resp_size_def dec_resp_header mk_resp_def Let_def
      word_neq_0_conv
      split: prod.splits if_splits dest!: sends_write [OF assms(1)])

section \<open>The handlers\<close>

named_theorems replying

lemma replies_send:
  assumes "sends os outbox" and "outbox w1 = outbox w" and "c \<noteq> cmd_num CMD_HELLO" "c \<noteq> cmd_num CMD_LSEEK"
  shows "cmd_num k = replied_as c \<Longrightarrow> replies outbox c w (send_resp os (mk_resp k 0 res) h w1)"
    and "cmd_num k = replied_as c \<Longrightarrow> e = 0 \<or> length data = unat e \<Longrightarrow> replies outbox c w (send_resp_data os (mk_resp k e res) data h w1)"
  using replies_from [where outbox = outbox, OF assms(2)] replies_resp [OF assms(1,3,4)] replies_resp_data [OF assms(1,3,4)] by blast+

lemma simple_handlers [replying]:
  assumes "sends os outbox"
  shows "replies outbox (cmd_num CMD_HELLO) w (handle_hello os h w)"
    and "replies outbox (cmd_num CMD_LSEEK) w (handle_lseek os buf n h w)"
  by (auto simp: replies_def handle_hello_def handle_lseek_def Let_def euid_usb_bulk_write_def reply_ok_def resp_size_def
      replied_as_def enc_lresp_def cmd_codec codec_simps split: prod.splits if_splits
      dest!: sends_write [OF assms] sends_calls [OF assms])

lemmas quiet = recv_path_quiet recv_args_quiet open_file_quiet dir_open_quiet make_path_quiet fill_stat_quiet
  get_drive_info_quiet usb_read_quiet fixed_read_quiet fixed_write_quiet sends_calls

lemma name_replies [replying]:
  assumes s: "sends os outbox"
  shows "replies outbox (cmd_num CMD_OPEN) w (handle_open os buf n h w)"
    and "replies outbox (cmd_num CMD_DOPEN) w (handle_dopen os buf n h w)"
    and "replies outbox (cmd_num CMD_CLOSE) w (handle_close os buf n h w)"
    and "replies outbox (cmd_num CMD_DCLOSE) w (handle_dclose os buf n h w)"
    and "replies outbox (cmd_num CMD_WRITE) w (handle_write os buf n h w)"
    and "replies outbox (cmd_num CMD_CHDIR) w (handle_chdir os buf n h w)"
    and "replies outbox (cmd_num CMD_IOCTL) w (handle_ioctl os buf n h w)"
  unfolding handle_open_def handle_dopen_def handle_close_def handle_dclose_def handle_write_def handle_chdir_def
    handle_ioctl_def Let_def
  by (auto simp: replied_as_def split: sum.split prod.split option.split intro!: replies_none replies_fault replies_send [OF s]
      dest!: quiet [OF s])


lemma path_replies [replying]:
  assumes s: "sends os outbox"
  shows "replies outbox (cmd_num CMD_REMOVE) w (handle_remove os buf n h w)"
    and "replies outbox (cmd_num CMD_RMDIR) w (handle_rmdir os buf n h w)"
    and "replies outbox (cmd_num CMD_MKDIR) w (handle_mkdir os buf n h w)"
    and "replies outbox (cmd_num CMD_CHSTAT) w (handle_chstat os buf n h w)"
    and "replies outbox (cmd_num CMD_RENAME) w (handle_rename os buf n h w)"
proof -
  have q: "outbox w2 = outbox w1" if "path_op os h d p f w1 = Inr (r, w2)" and "\<And>p w x w'. f p w = (x, w') \<Longrightarrow> outbox w' = outbox w"
    for d p f w1 r w2 using path_op_quiet [OF s _ that(1)] that(2) by blast
  note u = q [of _ _ "\<lambda>p w. case os_unlink os p w of (r, w') \<Rightarrow> (sys_res r, w')"]
    q [of _ _ "\<lambda>p w. case os_rmdir os p w of (r, w') \<Rightarrow> (sys_res r, w')"]
    q [of _ _ "\<lambda>p w. case os_mkdir os p m w of (r, w') \<Rightarrow> (sys_res r, w')" for m]
    q [of _ _ "\<lambda>p w. psp_chstat os p c w" for c]
    q [of _ _ "\<lambda>newpath w. case os_rename os old newpath w of (r, w') \<Rightarrow> (sys_res r, w')" for old]
  show "replies outbox (cmd_num CMD_REMOVE) w (handle_remove os buf n h w)"
    and "replies outbox (cmd_num CMD_RMDIR) w (handle_rmdir os buf n h w)"
    and "replies outbox (cmd_num CMD_MKDIR) w (handle_mkdir os buf n h w)"
    and "replies outbox (cmd_num CMD_CHSTAT) w (handle_chstat os buf n h w)"
    and "replies outbox (cmd_num CMD_RENAME) w (handle_rename os buf n h w)"
    unfolding handle_remove_def handle_rmdir_def handle_mkdir_def handle_chstat_def handle_rename_def Let_def
    by (auto simp: replied_as_def split: sum.split prod.split option.split prod.splits
      intro!: replies_none replies_fault replies_send [OF s]
      dest!: recv_path_quiet [OF s] usb_read_quiet [OF s] make_path_quiet [OF s] u psp_chstat_quiet [OF s] sends_calls [OF s])
qed

lemma data_replies [replying]:
  assumes s: "sends os outbox"
  shows "replies outbox (cmd_num CMD_GETSTAT) w (handle_getstat os buf n h w)"
    and "replies outbox (cmd_num CMD_DEVCTL) w (handle_devctl os buf n h w)"
  unfolding handle_getstat_def handle_devctl_def Let_def
  by (auto simp: replied_as_def stat_struct.length_enc enc_info_def codec_simps split: sum.split prod.split option.split
      intro!: replies_none replies_fault replies_send [OF s]
      dest!: recv_path_quiet [OF s] make_path_quiet [OF s] fill_stat_quiet [OF s] recv_args_quiet [OF s] get_drive_info_quiet [OF s])


lemma fixed_read_result:
  assumes "fixed_read rd len acc w = Some y"
  shows "fst (fst y) = of_nat (length (snd (fst y))) \<or> sint (fst (fst y)) < 0"
proof (rule fixed_read.raw_induct [where P = "\<lambda>rd len acc w y. fst (fst y) = of_nat (length (snd (fst y))) \<or> sint (fst (fst y)) < 0",
    OF _ assms])
  fix g :: "(nat \<Rightarrow> 'a \<Rightarrow> (nat + bytes) \<times> 'a) \<Rightarrow> nat \<Rightarrow> bytes \<Rightarrow> 'a \<Rightarrow> ((u32 \<times> bytes) \<times> 'a) option"
  fix rd :: "nat \<Rightarrow> 'a \<Rightarrow> (nat + bytes) \<times> 'a" and len acc w y
  assume ih: "\<And>rd len acc w y. g rd len acc w = Some y \<Longrightarrow> fst (fst y) = of_nat (length (snd (fst y))) \<or> sint (fst (fst y)) < 0"
    and eq: "(if length acc < len
        then case rd (len - length acc) w of
             (Inl e, w1) \<Rightarrow> if e \<noteq> EINTR then Some ((GETERROR e, acc), w1) else g rd len acc w1
             | (Inr bs, w1) \<Rightarrow>
                 if bs = [] then Some ((of_nat (length acc), acc), w1) else g rd len (acc @ bs) w1
        else Some ((of_nat (length acc), acc), w)) = Some y"
  show "fst (fst y) = of_nat (length (snd (fst y))) \<or> sint (fst (fst y)) < 0"
    using eq by (auto simp: GETERROR_neg split: if_splits prod.splits sum.splits dest: ih)
qed

lemma read_replies [replying]:
  assumes s: "sends os outbox"
  shows "replies outbox (cmd_num CMD_READ) w (handle_read os buf n h w)"
proof -
  have l: "length d = unat (if 0 \<le> sint r then r else 0)" if "fixed_read rd len acc w = Some ((r, d), w1)" "length d \<le> HOSTFS_MAX_BLOCK"
      "0 \<le> sint r" for rd len acc w r d w1
    using fixed_read_result [OF that(1)] that(2,3)
    by (auto simp: HOSTFS_MAX_BLOCK_def unsigned_of_nat take_bit_nat_eq_self)
  show ?thesis
    unfolding handle_read_def Let_def
    by (auto simp: replied_as_def split: sum.split prod.split
      intro!: replies_none replies_fault replies_send [OF s] dest: fixed_read_quiet [OF s] l)
qed

lemma dread_replies [replying]:
  assumes s: "sends os outbox" and "host_wf h"
  shows "replies outbox (cmd_num CMD_DREAD) w (handle_dread os buf n h w)"
proof -
  have "length (enc_dirent (ents ! dh_pos d)) = 352"
    if "dh_pDir d = Entries ents" "dir_ok d" "dh_pos d < length ents" for d ents
    using that by (auto simp: dir_ok_def list_all_length split: if_splits intro!: length_enc_dirent less_imp_le)
  moreover have "dir_ok (open_dirs h ! nat i)" if "0 \<le> i" "i < int MAX_FILES" for i
    using host_wf_dirs_nth [OF assms(2)] that by (simp add: MAX_FILES_def MAX_DIRS_def)
  ultimately show ?thesis
    unfolding handle_dread_def Let_def
    by (auto simp: replied_as_def split: dir_buf.split intro!: replies_none replies_fault replies_send [OF s])
qed

text \<open>C5: Every command gets an answer of the type of its response: nothing at all, or one message of the size of the
  structure, with the magic and the number of the command (HOSTFS_CMD_READ where the command is HOSTFS_CMD_DREAD),
  followed, when the length it announces is not zero, by one message of exactly that length, unless sending the first
  one failed, which the negative result tells.\<close>

theorem answers_well_typed:
  assumes "sends os outbox" and "host_wf h" and "do_hostfs os buf n h w = Inr (r, h1, w1)"
  shows "\<exists>msgs. outbox w1 = outbox w @ msgs \<and> reply_ok (command (dec_cmd buf)) r msgs"
proof -
  have "replies outbox (command (dec_cmd buf)) w (do_hostfs os buf n h w)"
    unfolding do_hostfs_def Let_def
    by (simp del: cmd_num.simps add: replying [OF assms(1)] dread_replies [OF assms(1,2)] replies_none)
  then show ?thesis using assms(3) by (simp add: replies_def)
qed

lemma demo_sends: "sends demo_os d_out"
  by (auto simp: sends_def demo_os_def demo_read_def demo_write_def split: list.split)

theorem answers_well_typed_witness:
  "\<exists>h1 w1. do_hostfs demo_os (enc_read \<lparr>read_cmd = \<lparr>magic = HOSTFS_MAGIC, command = cmd_num CMD_READ, extralen = 0\<rparr>,
       read_fid = 3, read_len = 2\<rparr>) 20 demo_open demo_world = Inr (2, h1, w1)
     \<and> d_out w1 = [enc_resp (mk_resp CMD_READ 2 2), [1, 2]] \<and> reply_ok (cmd_num CMD_READ) 2 (d_out w1)"
proof -
  let ?buf = "enc_read \<lparr>read_cmd = \<lparr>magic = HOSTFS_MAGIC, command = cmd_num CMD_READ, extralen = 0\<rparr>, read_fid = 3, read_len = 2\<rparr>"
  have wf: "host_wf demo_open"
    using demo_wf host_wf_file [OF demo_wf] by (simp add: demo_open_def file_ok_def)
  have c: "command (dec_cmd ?buf) = cmd_num CMD_READ" by (simp add: enc_read_def cmd_codec del: cmd_num.simps)
  have r: "do_hostfs demo_os ?buf 20 demo_open demo_world = handle_read demo_os ?buf 20 demo_open demo_world"
    unfolding do_hostfs_def Let_def c by (simp cong: if_cong)
  have f: "fixed_read (demo_read 3) 2 [] demo_world = Some ((2, [1, 2]), demo_world\<lparr>d_eintr := 0, d_rest := [3, 4, 5]\<rparr>)"
    by (simp add: fixed_read.simps demo_read_def demo_world_def EINTR_def)
  have o: "fh_opened (open_files demo_open ! 3)" by (simp add: demo_open_def demo_host_def MAX_FILES_def)
  have "\<exists>w1. do_hostfs demo_os ?buf 20 demo_open demo_world = Inr (2, demo_open, w1)
      \<and> d_out w1 = [enc_resp (mk_resp CMD_READ 2 2), [1, 2]]"
    unfolding r handle_read_def read_struct.dec_enc Let_def
    by (simp add: f o MAX_FILES_def) (simp add: HOSTFS_MAX_BLOCK_def send_resp_data_def euid_usb_bulk_write_def mk_resp_def demo_world_def)
  then obtain w1 where d: "do_hostfs demo_os ?buf 20 demo_open demo_world = Inr (2, demo_open, w1)"
    and o: "d_out w1 = [enc_resp (mk_resp CMD_READ 2 2), [1, 2]]" by blast
  show ?thesis using answers_well_typed [OF demo_sends wf d] c d o by (auto simp: demo_world_def simp del: cmd_num.simps)
qed

end
