(* ===== verification/AsyncChan.thy ===== *)
theory AsyncChan
  imports Protocol
begin

unbundle bit_operations_syntax

text \<open>
  The asynchronous channels of the PSP driver (\<^verbatim>\<open>usbhostfs/main.c\<close>, \<^verbatim>\<open>usbasync.h\<close>): each
  registered endpoint is a ring buffer the USB thread fills and its owner reads. Endpoints are
  memory of their owners, so the driver's table holds addresses into a store. The locale
  \<open>byte_queue\<close> is the contract of a bounded queue; the ring buffer implements it.
\<close>

section \<open>The ring buffer\<close>

definition MAX_ASYNC_BUFFER :: nat where "MAX_ASYNC_BUFFER = 4096"
definition ASYNC_USER :: nat where "ASYNC_USER = 4"
definition ASYNC_ALLOC_CHAN :: u32 where "ASYNC_ALLOC_CHAN = - 1"

record AsyncEndpoint =
  ep_buffer :: bytes
  ep_read_pos :: nat
  ep_write_pos :: nat
  ep_size :: nat

text \<open>The loop of \<^verbatim>\<open>fill_async\<close> over the bytes there is room for.\<close>

fun ring_put :: "AsyncEndpoint \<Rightarrow> bytes \<Rightarrow> AsyncEndpoint" where
  "ring_put e [] = e"
| "ring_put e (b # bs) = ring_put
     (e\<lparr>ep_buffer := (ep_buffer e)[ep_write_pos e := b],
        ep_write_pos := (ep_write_pos e + 1) mod MAX_ASYNC_BUFFER,
        ep_size := ep_size e + 1\<rparr>) bs"

definition ring_fill :: "AsyncEndpoint \<Rightarrow> bytes \<Rightarrow> AsyncEndpoint" where
  "ring_fill e bs = ring_put e (take (min (length bs) (MAX_ASYNC_BUFFER - ep_size e)) bs)"

text \<open>The loop of \<^verbatim>\<open>usbAsyncReadWithTimeout\<close>.\<close>

fun ring_get :: "AsyncEndpoint \<Rightarrow> nat \<Rightarrow> bytes \<times> AsyncEndpoint" where
  "ring_get e 0 = ([], e)"
| "ring_get e (Suc n) =
     (let b = ep_buffer e ! ep_read_pos e;
          e1 = e\<lparr>ep_read_pos := (ep_read_pos e + 1) mod MAX_ASYNC_BUFFER, ep_size := ep_size e - 1\<rparr>
      in case ring_get e1 n of (bs, e2) \<Rightarrow> (b # bs, e2))"

definition ring_flush :: "AsyncEndpoint \<Rightarrow> AsyncEndpoint" where
  "ring_flush e = e\<lparr>ep_size := 0, ep_read_pos := 0, ep_write_pos := 0\<rparr>"

definition ring_read :: "AsyncEndpoint \<Rightarrow> int \<Rightarrow> bytes \<times> AsyncEndpoint" where
  "ring_read e len = ring_get e (nat (min len (int (ep_size e))))"

section \<open>The channels\<close>

text \<open>\<open>a_event\<close>: the bits of the event flag \<^verbatim>\<open>g_asyncevent\<close>.\<close>

record async =
  a_mem :: "nat \<Rightarrow> AsyncEndpoint"
  a_chan :: "nat option list"
  a_event :: "bool list"

definition fill_async :: "bytes \<Rightarrow> nat \<Rightarrow> async \<Rightarrow> async" where
  "fill_async pkt len s =
     (if len > 8 then
        (let c = dec_async pkt; data = take (len - 8) (drop 8 pkt); chan = unat (async_channel c) in
         if async_magic c = ASYNC_MAGIC \<and> chan < MAX_ASYNC_CHANNELS then
           (case a_chan s ! chan of
              None \<Rightarrow> s
            | Some p \<Rightarrow> s\<lparr>a_mem := (a_mem s)(p := ring_fill (a_mem s p) data),
                          a_event := (a_event s)[chan := True]\<rparr>)
         else s)
      else s)"

definition usbAsyncFlush :: "u32 \<Rightarrow> async \<Rightarrow> async" where
  "usbAsyncFlush chan s =
     (if unat chan \<ge> MAX_ASYNC_CHANNELS then s else
      case a_chan s ! unat chan of
        None \<Rightarrow> s
      | Some p \<Rightarrow> s\<lparr>a_mem := (a_mem s)(p := ring_flush (a_mem s p)),
                    a_event := (a_event s)[unat chan := False]\<rparr>)"

text \<open>The first free channel for users, \<open>None\<close> when all are taken.\<close>

fun alloc_chan :: "nat \<Rightarrow> nat option list \<Rightarrow> nat option" where
  "alloc_chan i [] = None"
| "alloc_chan i (c # cs) = (if i \<ge> ASYNC_USER \<and> c = None then Some i else alloc_chan (i + 1) cs)"

definition usbAsyncRegister :: "u32 \<Rightarrow> nat option \<Rightarrow> async \<Rightarrow> int \<times> async" where
  "usbAsyncRegister chan endp s =
     (case endp of
        None \<Rightarrow> (- 1, s)
      | Some p \<Rightarrow>
          (case (if chan = ASYNC_ALLOC_CHAN then alloc_chan 0 (a_chan s)
                 else if unat chan \<ge> MAX_ASYNC_CHANNELS \<or> a_chan s ! unat chan \<noteq> None then None
                 else Some (unat chan)) of
             None \<Rightarrow> (- 1, s)
           | Some c \<Rightarrow> (int c, usbAsyncFlush (of_nat c) (s\<lparr>a_chan := (a_chan s)[c := Some p]\<rparr>))))"

definition usbAsyncUnregister :: "u32 \<Rightarrow> async \<Rightarrow> int \<times> async" where
  "usbAsyncUnregister chan s =
     (if unat chan \<ge> MAX_ASYNC_CHANNELS \<or> a_chan s ! unat chan = None then (- 1, s)
      else (0, s\<lparr>a_chan := (a_chan s)[unat chan := None]\<rparr>))"

text \<open>
  \<^verbatim>\<open>usbAsyncReadWithTimeout\<close> in its two parts. Interrupts are off only in the second, so the USB
  thread and other threads may run between them. \<open>async_wait\<close>: the checks and the wait on the
  channel's bit, whose result is \<open>waited\<close>; a successful wait clears the bit. \<open>async_take\<close>: the
  copy; the table is read again, and an entry that is \<open>NULL\<close> by then is dereferenced.
\<close>

definition async_wait :: "u32 \<Rightarrow> int \<Rightarrow> async \<Rightarrow> int \<times> async" where
  "async_wait chan waited s =
     (if unat chan \<ge> MAX_ASYNC_CHANNELS \<or> a_chan s ! unat chan = None then (- 1, s)
      else if waited < 0 then (- 1, s)
      else (0, s\<lparr>a_event := (a_event s)[unat chan := False]\<rparr>))"

definition async_take :: "u32 \<Rightarrow> int \<Rightarrow> async \<Rightarrow> ((int \<times> bytes) \<times> async) run" where
  "async_take chan len s =
     (case a_chan s ! unat chan of
        None \<Rightarrow> Inl Bad_Pointer
      | Some p \<Rightarrow>
          (case ring_read (a_mem s p) len of
             (bs, e1) \<Rightarrow>
               Inr ((min len (int (ep_size (a_mem s p))), bs),
                s\<lparr>a_mem := (a_mem s)(p := e1),
                  a_event := (if ep_size e1 \<noteq> 0 then (a_event s)[unat chan := True] else a_event s)\<rparr>)))"

definition usbAsyncReadWithTimeout :: "u32 \<Rightarrow> int \<Rightarrow> int \<Rightarrow> async \<Rightarrow> ((int \<times> bytes) \<times> async) run" where
  "usbAsyncReadWithTimeout chan len waited s =
     (case async_wait chan waited s of (r, s1) \<Rightarrow>
        if r < 0 then Inr ((- 1, []), s1) else async_take chan len s1)"

section \<open>The contract of a bounded queue\<close>

locale byte_queue =
  fixes ok :: "'q \<Rightarrow> bool"
    and contents :: "'q \<Rightarrow> bytes"
    and fill :: "'q \<Rightarrow> bytes \<Rightarrow> 'q"
    and fetch :: "'q \<Rightarrow> nat \<Rightarrow> bytes \<times> 'q"
    and flush :: "'q \<Rightarrow> 'q"
    and capacity :: nat
  assumes bounded: "ok q \<Longrightarrow> length (contents q) \<le> capacity"
    and fill_ok: "ok q \<Longrightarrow> ok (fill q bs)"
    and fill_contents: "ok q \<Longrightarrow> contents (fill q bs) = take capacity (contents q @ bs)"
    and fetch_ok: "ok q \<Longrightarrow> n \<le> length (contents q) \<Longrightarrow> ok (snd (fetch q n))"
    and fetch_result: "ok q \<Longrightarrow> n \<le> length (contents q) \<Longrightarrow> fst (fetch q n) = take n (contents q)"
    and fetch_contents: "ok q \<Longrightarrow> n \<le> length (contents q) \<Longrightarrow> contents (snd (fetch q n)) = drop n (contents q)"
    and flush_ok: "ok q \<Longrightarrow> ok (flush q)"
    and flush_contents: "ok q \<Longrightarrow> contents (flush q) = []"
begin

text \<open>A history of fills and reads; a read takes at most what is there.\<close>

fun run :: "'q \<Rightarrow> (bytes + nat) list \<Rightarrow> bytes \<times> bytes \<times> 'q" where
  "run q [] = ([], [], q)"
| "run q (Inl bs # es) = (case run (fill q bs) es of
     (inp, out, q') \<Rightarrow> (take (capacity - length (contents q)) bs @ inp, out, q'))"
| "run q (Inr n # es) = (case fetch q (min n (length (contents q))) of
     (bs, q1) \<Rightarrow> (case run q1 es of (inp, out, q') \<Rightarrow> (inp, bs @ out, q')))"

text \<open>First in, first out: what is read is, in order, what was accepted, up to what is still queued.\<close>

lemma run_fifo:
  assumes "ok q" and "run q es = (inp, out, q')"
  shows "ok q' \<and> contents q @ inp = out @ contents q'"
  using assms
proof (induction es arbitrary: q inp out)
  case Nil
  then show ?case by simp
next
  case (Cons e es)
  show ?case
  proof (cases e)
    case (Inl bs)
    obtain i where r: "run (fill q bs) es = (i, out, q')" and inp: "inp = take (capacity - length (contents q)) bs @ i"
      using Cons.prems(2) Inl by (auto split: prod.splits)
    have "contents (fill q bs) = contents q @ take (capacity - length (contents q)) bs"
      using fill_contents [OF Cons.prems(1)] bounded [OF Cons.prems(1)] by simp
    then show ?thesis using Cons.IH [OF fill_ok [OF Cons.prems(1)] r] inp by simp
  next
    case (Inr n)
    let ?n = "min n (length (contents q))"
    obtain bs q1 where f: "fetch q ?n = (bs, q1)" by fastforce
    obtain o1 where r: "run q1 es = (inp, o1, q')" and out: "out = bs @ o1"
      using Cons.prems(2) Inr f by (auto split: prod.splits)
    have l: "?n \<le> length (contents q)" by simp
    have "ok q1" "bs = take ?n (contents q)" "contents q1 = drop ?n (contents q)"
      using fetch_ok [OF Cons.prems(1) l] fetch_result [OF Cons.prems(1) l] fetch_contents [OF Cons.prems(1) l] f
      by simp_all
    moreover from Cons.IH [OF this(1) r] have "ok q'" "contents q1 @ inp = o1 @ contents q'" by auto
    ultimately show ?thesis using out by (metis append.assoc append_take_drop_id)
  qed
qed

end

section \<open>The ring buffer implements it\<close>

definition ring_ok :: "AsyncEndpoint \<Rightarrow> bool" where
  "ring_ok e \<longleftrightarrow> length (ep_buffer e) = MAX_ASYNC_BUFFER \<and> ep_read_pos e < MAX_ASYNC_BUFFER
     \<and> ep_size e \<le> MAX_ASYNC_BUFFER \<and> ep_write_pos e = (ep_read_pos e + ep_size e) mod MAX_ASYNC_BUFFER"

definition ring_contents :: "AsyncEndpoint \<Rightarrow> bytes" where
  "ring_contents e = map (\<lambda>i. ep_buffer e ! ((ep_read_pos e + i) mod MAX_ASYNC_BUFFER)) [0..<ep_size e]"

lemma length_ring_contents [simp]: "length (ring_contents e) = ep_size e"
  by (simp add: ring_contents_def)

lemma mod_ring_le:
  assumes "i \<le> j" and "j < n" and "(r + i) mod n = (r + j) mod (n::nat)"
  shows "i = j"
proof -
  have "n dvd (r + j) - (r + i)" using assms(1,3) by (subst mod_eq_dvd_iff_nat [symmetric]) simp_all
  then have "n dvd j - i" by simp
  moreover have "j - i < n" using assms(2) by simp
  ultimately have "j - i = 0" by (metis nat_dvd_not_less not_gr_zero)
  then show ?thesis using assms(1) by simp
qed

lemma mod_ring_inj: "i < n \<Longrightarrow> j < n \<Longrightarrow> (r + i) mod n = (r + j) mod (n::nat) \<Longrightarrow> i = j"
  using mod_ring_le [of i j n r] mod_ring_le [of j i n r] by (cases "i \<le> j") simp_all

lemma ring_put_one:
  fixes b :: u8
  assumes "ring_ok e" and "ep_size e < MAX_ASYNC_BUFFER"
  defines "e1 \<equiv> e\<lparr>ep_buffer := (ep_buffer e)[ep_write_pos e := b],
        ep_write_pos := (ep_write_pos e + 1) mod MAX_ASYNC_BUFFER, ep_size := ep_size e + 1\<rparr>"
  shows "ring_ok e1" and "ring_contents e1 = ring_contents e @ [b]"
proof -
  show "ring_ok e1" using assms(1,2) by (simp add: ring_ok_def e1_def mod_Suc_eq)
  have w: "ep_write_pos e < length (ep_buffer e)" using assms(1) by (simp add: ring_ok_def MAX_ASYNC_BUFFER_def)
  have ne: "(ep_read_pos e + i) mod MAX_ASYNC_BUFFER \<noteq> ep_write_pos e" if "i < ep_size e" for i
  proof
    assume "(ep_read_pos e + i) mod MAX_ASYNC_BUFFER = ep_write_pos e"
    then have "i = ep_size e"
      using mod_ring_inj [of i MAX_ASYNC_BUFFER "ep_size e" "ep_read_pos e"] assms(1,2) that by (simp add: ring_ok_def)
    then show False using that by simp
  qed
  have last: "(ep_read_pos e + ep_size e) mod MAX_ASYNC_BUFFER = ep_write_pos e"
    using assms(1) by (simp add: ring_ok_def)
  have "map (\<lambda>i. (ep_buffer e)[ep_write_pos e := b] ! ((ep_read_pos e + i) mod MAX_ASYNC_BUFFER)) [0..<ep_size e]
      = ring_contents e"
    unfolding ring_contents_def by (rule map_cong) (auto simp: nth_list_update ne[symmetric])
  then show "ring_contents e1 = ring_contents e @ [b]"
    using w last by (simp add: ring_contents_def e1_def)
qed

lemma ring_put_spec:
  "ring_ok e \<Longrightarrow> ep_size e + length bs \<le> MAX_ASYNC_BUFFER \<Longrightarrow>
   ring_ok (ring_put e bs) \<and> ring_contents (ring_put e bs) = ring_contents e @ bs"
proof (induction bs arbitrary: e)
  case (Cons b bs)
  then show ?case using ring_put_one [of e b] by simp
qed simp

lemma ring_get_spec:
  "ring_ok e \<Longrightarrow> n \<le> ep_size e \<Longrightarrow>
   ring_ok (snd (ring_get e n)) \<and> fst (ring_get e n) = take n (ring_contents e)
     \<and> ring_contents (snd (ring_get e n)) = drop n (ring_contents e)"
proof (induction n arbitrary: e)
  case (Suc n)
  let ?e = "e\<lparr>ep_read_pos := (ep_read_pos e + 1) mod MAX_ASYNC_BUFFER, ep_size := ep_size e - 1\<rparr>"
  obtain m where m: "ep_size e = Suc m" using Suc.prems(2) by (cases "ep_size e") auto
  have ok: "ring_ok ?e"
    using Suc.prems(1) m by (simp add: ring_ok_def MAX_ASYNC_BUFFER_def mod_add_left_eq)
  have c: "ring_contents e = (ep_buffer e ! ep_read_pos e) # ring_contents ?e"
  proof -
    have "[0..<ep_size e] = 0 # map Suc [0..<ep_size e - 1]"
      using Suc.prems(2) by (simp add: upt_conv_Cons map_Suc_upt)
    then show ?thesis using Suc.prems(1)
      by (simp add: ring_contents_def ring_ok_def mod_simps o_def add.assoc)
  qed
  have "n \<le> ep_size ?e" using Suc.prems(2) m by simp
  from Suc.IH [OF ok this] show ?case unfolding c by (auto simp: Let_def split: prod.splits)
qed simp

interpretation ring: byte_queue ring_ok ring_contents ring_fill ring_get ring_flush MAX_ASYNC_BUFFER
proof
  fix q bs n
  assume ok: "ring_ok q"
  then have le: "ep_size q \<le> MAX_ASYNC_BUFFER" by (simp add: ring_ok_def)
  show "length (ring_contents q) \<le> MAX_ASYNC_BUFFER" using le by simp
  have f: "ring_ok (ring_fill q bs) \<and> ring_contents (ring_fill q bs)
      = ring_contents q @ take (MAX_ASYNC_BUFFER - ep_size q) bs"
  proof -
    have "ring_fill q bs = ring_put q (take (MAX_ASYNC_BUFFER - ep_size q) bs)"
      by (simp add: ring_fill_def min_def)
    moreover have "ep_size q + length (take (MAX_ASYNC_BUFFER - ep_size q) bs) \<le> MAX_ASYNC_BUFFER" using le by simp
    ultimately show ?thesis using ring_put_spec [OF ok] by simp
  qed
  then show "ring_ok (ring_fill q bs)"
    and "ring_contents (ring_fill q bs) = take MAX_ASYNC_BUFFER (ring_contents q @ bs)" using le by simp_all
  show "ring_ok (ring_flush q)" "ring_contents (ring_flush q) = []"
    using ok by (simp_all add: ring_flush_def ring_ok_def ring_contents_def)
  assume "n \<le> length (ring_contents q)"
  then show "ring_ok (snd (ring_get q n))" "fst (ring_get q n) = take n (ring_contents q)"
    "ring_contents (snd (ring_get q n)) = drop n (ring_contents q)"
    using ring_get_spec [OF ok, of n] by simp_all
qed

end
