(* ===== verification/AsyncProps.thy ===== *)
theory AsyncProps
  imports AsyncChan
begin

text \<open>
  The properties of the asynchronous channels: what a reader receives is what the PC sent, in
  order, and a reader that waits for data that is there is always woken.
\<close>

section \<open>First in, first out\<close>

definition chan_ep :: "nat \<Rightarrow> async \<Rightarrow> AsyncEndpoint" where
  "chan_ep chan s = a_mem s (the (a_chan s ! chan))"

definition chan_ok :: "nat \<Rightarrow> async \<Rightarrow> bool" where
  "chan_ok chan s \<longleftrightarrow> chan < MAX_ASYNC_CHANNELS \<and> length (a_chan s) = MAX_ASYNC_CHANNELS
     \<and> a_chan s ! chan \<noteq> None \<and> ring_ok (chan_ep chan s)"

text \<open>
  A history of one channel: packets that arrive for it (\<open>Inl\<close>) and reads of a length (\<open>Inr\<close>).
  The result is what was accepted into the buffer, what the reads returned, and the state.
\<close>

fun chan_run :: "nat \<Rightarrow> async \<Rightarrow> (bytes + nat) list \<Rightarrow> (bytes \<times> bytes \<times> async) run" where
  "chan_run chan s [] = Inr ([], [], s)"
| "chan_run chan s (Inl data # es) =
     (let room = MAX_ASYNC_BUFFER - ep_size (chan_ep chan s);
          s1 = fill_async (enc_async \<lparr>async_magic = ASYNC_MAGIC, async_channel = of_nat chan\<rparr> @ data)
                 (8 + length data) s
      in case chan_run chan s1 es of
           Inl f \<Rightarrow> Inl f | Inr (inp, out, t) \<Rightarrow> Inr (take room data @ inp, out, t))"
| "chan_run chan s (Inr n # es) =
     (case usbAsyncReadWithTimeout (of_nat chan) (int n) 0 s of
        Inl f \<Rightarrow> Inl f
      | Inr ((_, bs), s1) \<Rightarrow> (case chan_run chan s1 es of
           Inl f \<Rightarrow> Inl f | Inr (inp, out, t) \<Rightarrow> Inr (inp, bs @ out, t)))"

lemma unat_chan: "chan < MAX_ASYNC_CHANNELS \<Longrightarrow> unat (of_nat chan :: u32) = chan"
  by (simp add: MAX_ASYNC_CHANNELS_def unsigned_of_nat take_bit_nat_eq_self)

lemma fill_async_chan:
  fixes data :: bytes
  assumes "chan_ok chan s"
  defines "t \<equiv> fill_async (enc_async \<lparr>async_magic = ASYNC_MAGIC, async_channel = of_nat chan\<rparr> @ data)
                 (8 + length data) s"
  shows "chan_ok chan t \<and> chan_ep chan t = ring_fill (chan_ep chan s) data"
proof (cases "data = []")
  case True
  then have "t = s" by (simp add: t_def fill_async_def)
  moreover have "ring_fill (chan_ep chan s) [] = chan_ep chan s" by (simp add: ring_fill_def)
  ultimately show ?thesis using assms(1) True by simp
next
  case False
  obtain p where p: "a_chan s ! chan = Some p" using assms(1) by (auto simp: chan_ok_def)
  have "t = s\<lparr>a_mem := (a_mem s)(p := ring_fill (a_mem s p) data), a_event := (a_event s)[chan := True]\<rparr>"
    using False assms(1) p by (simp add: t_def fill_async_def async_struct.dec_enc_append async_struct.length_enc
        unat_chan chan_ok_def)
  then show ?thesis using assms(1) p ring.fill_ok [of "a_mem s p" data] by (simp add: chan_ok_def chan_ep_def)
qed

lemma take_chan:
  assumes "a_chan s ! unat c = Some p" and "ring_ok (a_mem s p)"
  shows "\<exists>bs t. async_take c (int n) s = Inr ((int (length bs), bs), t) \<and> a_chan t = a_chan s
    \<and> (bs, a_mem t p) = ring_get (a_mem s p) (min n (ep_size (a_mem s p)))"
proof -
  let ?e = "a_mem s p" and ?n = "min n (ep_size (a_mem s p))"
  have mn: "nat (min (int n) (int m)) = min n m" "min (int n) (int m) = int (min n m)" for m
    by (simp_all add: min_def)
  obtain bs e1 where g: "ring_get ?e ?n = (bs, e1)" by fastforce
  have "bs = take ?n (ring_contents ?e)" using ring_get_spec [OF assms(2), of ?n] g by simp
  then have "length bs = ?n" by simp
  then show ?thesis using g assms(1) by (simp add: async_take_def ring_read_def mn del: of_nat_min)
qed

lemma read_chan:
  assumes "chan_ok chan s"
  shows "\<exists>bs t. usbAsyncReadWithTimeout (of_nat chan) (int n) 0 s = Inr ((int (length bs), bs), t)
    \<and> chan_ok chan t \<and> (bs, chan_ep chan t) = ring_get (chan_ep chan s) (min n (ep_size (chan_ep chan s)))"
proof -
  obtain p where p: "a_chan s ! chan = Some p" and c: "chan < MAX_ASYNC_CHANNELS"
    using assms by (auto simp: chan_ok_def)
  let ?s = "s\<lparr>a_event := (a_event s)[chan := False]\<rparr>"
  have ok: "ring_ok (a_mem ?s p)" using assms p by (simp add: chan_ok_def chan_ep_def)
  have "a_chan ?s ! unat (of_nat chan :: u32) = Some p" using p c by (simp add: unat_chan)
  from take_chan [OF this ok, of n] obtain bs t where t: "async_take (of_nat chan) (int n) ?s = Inr ((int (length bs), bs), t)"
    "a_chan t = a_chan s" and g: "(bs, a_mem t p) = ring_get (a_mem s p) (min n (ep_size (a_mem s p)))" by auto
  have "ring_ok (a_mem t p)"
    using ring_get_spec [OF ok, of "min n (ep_size (a_mem s p))"] by (simp add: g [symmetric])
  then show ?thesis using assms p c t g
    by (auto simp: usbAsyncReadWithTimeout_def async_wait_def unat_chan chan_ok_def chan_ep_def)
qed

lemma chan_run_ring:
  "chan_ok chan s \<Longrightarrow> \<exists>inp out t. chan_run chan s es = Inr (inp, out, t) \<and> chan_ok chan t
     \<and> ring.run (chan_ep chan s) es = (inp, out, chan_ep chan t)"
proof (induction es arbitrary: s)
  case (Cons e es)
  show ?case
  proof (cases e)
    case (Inl data)
    define s1 where "s1 = fill_async (enc_async \<lparr>async_magic = ASYNC_MAGIC, async_channel = of_nat chan\<rparr> @ data)
                 (8 + length data) s"
    have s1: "chan_ok chan s1" "chan_ep chan s1 = ring_fill (chan_ep chan s) data"
      using fill_async_chan [OF Cons.prems(1), of data] by (simp_all add: s1_def)
    from Cons.IH [OF s1(1)] show ?thesis using s1(2) Inl by (auto simp: Let_def s1_def [symmetric])
  next
    case (Inr n)
    obtain bs t where rd: "usbAsyncReadWithTimeout (of_nat chan) (int n) 0 s = Inr ((int (length bs), bs), t)"
      and t: "chan_ok chan t" "(bs, chan_ep chan t) = ring_get (chan_ep chan s) (min n (ep_size (chan_ep chan s)))"
      using read_chan [OF Cons.prems] by blast
    from Cons.IH [OF t(1)] show ?thesis using Inr rd t(2) [symmetric] by (auto split: prod.splits)
  qed
qed simp

text \<open>C12: A channel is a queue: through any sequence of packets and reads, what was buffered before
  followed by what the packets put in is what the reads returned, in order, followed by what is
  still buffered. Nothing is lost, repeated or reordered, across every wrap of the ring; a packet
  is cut only where the 4096 bytes are full.\<close>

theorem channel_fifo:
  assumes "chan_ok chan s"
  shows "\<exists>inp out t. chan_run chan s es = Inr (inp, out, t) \<and> chan_ok chan t
    \<and> ring_contents (chan_ep chan s) @ inp = out @ ring_contents (chan_ep chan t)"
  using chan_run_ring [OF assms, of es] ring.run_fifo [of "chan_ep chan s" es] assms by (auto simp: chan_ok_def)

definition demo_ep :: AsyncEndpoint where
  "demo_ep = \<lparr>ep_buffer = replicate 4096 0, ep_read_pos = 4095, ep_write_pos = 4095, ep_size = 0\<rparr>"

definition demo_async :: async where
  "demo_async = \<lparr>a_mem = (\<lambda>_. demo_ep), a_chan = (replicate 8 None)[0 := Some 0],
     a_event = replicate 8 False\<rparr>"

lemma demo_chan_ok: "chan_ok 0 demo_async"
  by (simp add: chan_ok_def demo_async_def MAX_ASYNC_CHANNELS_def chan_ep_def demo_ep_def ring_ok_def
      MAX_ASYNC_BUFFER_def)

theorem channel_fifo_witness:
  "\<exists>inp out t. chan_run 0 demo_async [Inl [1, 2, 3], Inr 2, Inr 5] = Inr (inp, out, t)
     \<and> inp = out @ ring_contents (chan_ep 0 t)"
proof -
  have "ring_contents (chan_ep 0 demo_async) = []"
    by (simp add: ring_contents_def chan_ep_def demo_async_def demo_ep_def)
  with channel_fifo [OF demo_chan_ok, of "[Inl [1, 2, 3], Inr 2, Inr 5]"] show ?thesis by auto
qed

section \<open>No lost wake-up\<close>

text \<open>
  The steps of the USB thread, of the owners of the channels and of the readers, in any order;
  between its wait and its copy a reader is in the list of those in progress. A channel is not
  given up by its owner while a reader is in progress on it.
\<close>

inductive async_step :: "async \<times> (u32 \<times> int) list \<Rightarrow> async \<times> (u32 \<times> int) list \<Rightarrow> bool" where
  packet: "async_step (s, rs) (fill_async pkt len s, rs)"
| register: "Some p \<notin> set (a_chan s) \<Longrightarrow> async_step (s, rs) (snd (usbAsyncRegister chan (Some p) s), rs)"
| unregister: "chan \<notin> fst ` set rs \<Longrightarrow> async_step (s, rs) (snd (usbAsyncUnregister chan s), rs)"
| flush: "async_step (s, rs) (usbAsyncFlush chan s, rs)"
| wait: "async_wait chan 0 s = (0, t) \<Longrightarrow> a_event s ! unat chan \<Longrightarrow> async_step (s, rs) (t, (chan, len) # rs)"
| take: "(chan, len) \<in> set rs \<Longrightarrow> async_take chan len s = Inr (res, t) \<Longrightarrow>
    async_step (s, rs) (t, remove1 (chan, len) rs)"

inductive async_reach :: "async \<Rightarrow> async \<times> (u32 \<times> int) list \<Rightarrow> bool" for s0 where
  start: "async_reach s0 (s0, [])"
| step: "async_reach s0 x \<Longrightarrow> async_step x y \<Longrightarrow> async_reach s0 y"

text \<open>
  Every registered endpoint is a ring, belongs to one channel, and, when not empty, has its bit
  or a reader (\<open>R\<close>: the channels with a reader in progress).
\<close>

definition async_ok :: "nat set \<Rightarrow> async \<Rightarrow> bool" where
  "async_ok R s \<longleftrightarrow> length (a_chan s) = MAX_ASYNC_CHANNELS \<and> length (a_event s) = MAX_ASYNC_CHANNELS
     \<and> (\<forall>p. length (ep_buffer (a_mem s p)) = MAX_ASYNC_BUFFER)
     \<and> (\<forall>c < MAX_ASYNC_CHANNELS. \<forall>p. a_chan s ! c = Some p \<longrightarrow> ring_ok (a_mem s p)
          \<and> (ep_size (a_mem s p) \<noteq> 0 \<longrightarrow> a_event s ! c \<or> c \<in> R))
     \<and> (\<forall>c < MAX_ASYNC_CHANNELS. \<forall>d < MAX_ASYNC_CHANNELS. \<forall>p. a_chan s ! c = Some p \<longrightarrow> a_chan s ! d = Some p \<longrightarrow> c = d)
     \<and> (\<forall>c \<in> R. c < MAX_ASYNC_CHANNELS \<and> a_chan s ! c \<noteq> None)"

abbreviation reading :: "(u32 \<times> int) list \<Rightarrow> nat set" where
  "reading rs \<equiv> (\<lambda>r. unat (fst r)) ` set rs"

lemma length_ring_put [simp]: "length (ep_buffer (ring_put e bs)) = length (ep_buffer e)"
  by (induction e bs rule: ring_put.induct) simp_all

lemma ring_get_buffer: "ep_buffer (snd (ring_get e n)) = ep_buffer e"
proof (induction n arbitrary: e)
  case (Suc n)
  show ?case
    using Suc.IH [of "e\<lparr>ep_read_pos := (ep_read_pos e + 1) mod MAX_ASYNC_BUFFER, ep_size := ep_size e - 1\<rparr>"]
    by (auto simp: Let_def split: prod.splits)
qed simp

lemma ring_fill_buffer [simp]: "length (ep_buffer (ring_fill e bs)) = length (ep_buffer e)"
  by (simp add: ring_fill_def)

lemma ring_flush_ok: "length (ep_buffer e) = MAX_ASYNC_BUFFER \<Longrightarrow> ring_ok (ring_flush e)"
  by (simp add: ring_ok_def ring_flush_def MAX_ASYNC_BUFFER_def)

lemma ring_read_ok:
  assumes "ring_ok e" and "ring_read e len = (bs, e1)"
  shows "ring_ok e1 \<and> length (ep_buffer e1) = length (ep_buffer e)"
  using assms ring_get_spec [OF assms(1), of "nat (min len (int (ep_size e)))"]
    ring_get_buffer [of e "nat (min len (int (ep_size e)))"]
  by (simp add: ring_read_def)

text \<open>An operation on the endpoint of one channel that keeps the ring and sets the bit as needed.\<close>

lemma async_ok_update:
  assumes "async_ok R s" and "c < MAX_ASYNC_CHANNELS" and "a_chan s ! c = Some p"
    and "ring_ok e" and "length (ep_buffer e) = MAX_ASYNC_BUFFER" and "ep_size e \<noteq> 0 \<Longrightarrow> v"
  shows "async_ok R (s\<lparr>a_mem := (a_mem s)(p := e), a_event := (a_event s)[c := v]\<rparr>)"
  using assms unfolding async_ok_def by (auto simp: nth_list_update)

lemma alloc_chan_Some:
  "alloc_chan i cs = Some c \<Longrightarrow> i \<le> c \<and> c < i + length cs \<and> cs ! (c - i) = None"
proof (induction i cs rule: alloc_chan.induct)
  case (2 i x cs)
  then show ?case by (auto simp: nth_Cons' split: if_splits)
qed simp

lemma fill_async_ok:
  assumes "async_ok R s"
  shows "async_ok R (fill_async pkt len s)"
  using assms by (auto simp: fill_async_def Let_def async_ok_def [of R s] split: option.splits
        intro!: async_ok_update [OF assms] ring.fill_ok)

lemma usbAsyncFlush_ok:
  assumes "async_ok R s"
  shows "async_ok R (usbAsyncFlush chan s)"
  using assms by (auto simp: usbAsyncFlush_def async_ok_def [of R s] split: option.splits
        intro!: async_ok_update [OF assms] ring_flush_ok) (auto simp: ring_flush_def)

text \<open>Registering writes the table and flushes in one go.\<close>

lemma usbAsyncRegister_ok:
  assumes ok: "async_ok R s" and p: "Some p \<notin> set (a_chan s)"
  shows "async_ok R (snd (usbAsyncRegister chan (Some p) s))"
proof (cases "fst (usbAsyncRegister chan (Some p) s) = - 1")
  case True
  then show ?thesis using ok by (auto simp: usbAsyncRegister_def split: option.splits if_splits)
next
  case False
  then obtain c where c: "(if chan = ASYNC_ALLOC_CHAN then alloc_chan 0 (a_chan s)
               else if unat chan \<ge> MAX_ASYNC_CHANNELS \<or> a_chan s ! unat chan \<noteq> None then None
               else Some (unat chan)) = Some c"
    and t: "snd (usbAsyncRegister chan (Some p) s) = usbAsyncFlush (of_nat c) (s\<lparr>a_chan := (a_chan s)[c := Some p]\<rparr>)"
    by (auto simp: usbAsyncRegister_def split: option.splits)
  have l: "length (a_chan s) = MAX_ASYNC_CHANNELS" using ok by (simp add: async_ok_def)
  have free: "c < MAX_ASYNC_CHANNELS" "a_chan s ! c = None"
    using c l alloc_chan_Some [of 0 "a_chan s" c] by (auto split: if_splits)
  have fresh: "a_chan s ! d \<noteq> Some p" "Some p \<noteq> a_chan s ! d" if "d < MAX_ASYNC_CHANNELS" for d
    using p that l nth_mem by metis+
  have u: "usbAsyncFlush (of_nat c) (s\<lparr>a_chan := (a_chan s)[c := Some p]\<rparr>)
      = s\<lparr>a_chan := (a_chan s)[c := Some p], a_mem := (a_mem s)(p := ring_flush (a_mem s p)),
          a_event := (a_event s)[c := False]\<rparr>"
    using free(1) l by (simp add: usbAsyncFlush_def unat_chan)
  have r: "ring_ok (ring_flush (a_mem s p))" "ep_size (ring_flush (a_mem s p)) = 0"
    "length (ep_buffer (ring_flush (a_mem s p))) = MAX_ASYNC_BUFFER"
    using ok by (simp_all add: async_ok_def ring_flush_ok) (simp_all add: ring_flush_def)
  show ?thesis unfolding t u using ok free fresh l r unfolding async_ok_def by (auto simp: nth_list_update)
qed

text \<open>A reader: after the wait it stands for the bit it cleared; the copy sets the bit again if it leaves data.\<close>

lemma async_wait_ok:
  assumes "async_ok R s" and "async_wait chan 0 s = (0, t)"
  shows "async_ok (insert (unat chan) R) t"
  using assms unfolding async_ok_def by (auto simp: async_wait_def nth_list_update split: if_splits)

lemma async_take_ok:
  assumes ok: "async_ok R s" and c: "unat chan \<in> R" and t: "async_take chan len s = Inr (res, t)"
    and R: "R - {unat chan} \<subseteq> S" "S \<subseteq> R"
  shows "async_ok S t"
proof -
  obtain p where p: "a_chan s ! unat chan = Some p" "unat chan < MAX_ASYNC_CHANNELS"
    using ok c by (fastforce simp: async_ok_def)
  obtain bs e1 where r: "ring_read (a_mem s p) len = (bs, e1)" by fastforce
  have "ring_ok (a_mem s p)" "length (ep_buffer (a_mem s p)) = MAX_ASYNC_BUFFER"
    using ok p by (auto simp: async_ok_def)
  note e1 = ring_read_ok [OF this(1) r]
  define ev where "ev = (if ep_size e1 \<noteq> 0 then (a_event s)[unat chan := True] else a_event s)"
  have t: "a_mem t = (a_mem s)(p := e1)" "a_event t = ev" "a_chan t = a_chan s"
    using t p r by (auto simp: async_take_def ev_def)
  have ev: "length ev = length (a_event s)" "ep_size e1 \<noteq> 0 \<Longrightarrow> ev ! unat chan"
    "d \<noteq> unat chan \<Longrightarrow> ev ! d = a_event s ! d" for d
    using ok p by (auto simp: ev_def async_ok_def)
  have "ring_ok ((a_mem t) q) \<and> (ep_size (a_mem t q) \<noteq> 0 \<longrightarrow> a_event t ! d \<or> d \<in> S)"
    if d: "d < MAX_ASYNC_CHANNELS" "a_chan s ! d = Some q" for d q
  proof (cases "d = unat chan")
    case True
    then show ?thesis using p d t ev(2) e1 by auto
  next
    case False
    moreover have "q \<noteq> p" using False p d ok unfolding async_ok_def by metis
    moreover have "ring_ok (a_mem s q) \<and> (ep_size (a_mem s q) \<noteq> 0 \<longrightarrow> a_event s ! d \<or> d \<in> R)"
      using ok d unfolding async_ok_def by blast
    moreover have "d \<in> R \<longrightarrow> d \<in> S" using R(1) False by blast
    ultimately show ?thesis using ev(3) [of d] by (auto simp: t)
  qed
  moreover have "\<forall>d \<in> S. d < MAX_ASYNC_CHANNELS \<and> a_chan s ! d \<noteq> None"
    using ok R(2) unfolding async_ok_def by blast
  moreover have "length (ep_buffer (a_mem t q)) = MAX_ASYNC_BUFFER" for q
    using ok e1 unfolding async_ok_def t(1) by simp
  ultimately show ?thesis using ok ev(1) unfolding async_ok_def t(2,3) by simp
qed

lemma async_step_ok:
  assumes "async_step x y" and "async_ok (reading (snd x)) (fst x)"
  shows "async_ok (reading (snd y)) (fst y)"
  using assms
proof (induction rule: async_step.induct)
  case (unregister chan rs s)
  then have "unat chan \<notin> reading rs" by (auto dest: unsigned_word_eqI)
  then show ?case using unregister(2) by (auto simp: usbAsyncUnregister_def async_ok_def nth_list_update)
next
  case (wait chan s t rs len)
  then show ?case using async_wait_ok by auto
next
  case (take chan len rs s res t)
  show ?case
  proof (simp, rule async_take_ok [of "reading rs" s chan len res t])
    show "async_ok (reading rs) s" using take.prems by simp
    show "unat chan \<in> reading rs" using take.hyps(1) by force
    show "async_take chan len s = Inr (res, t)" by (rule take.hyps(2))
    show "reading rs - {unat chan} \<subseteq> reading (remove1 (chan, len) rs)"
    proof
      fix x assume x: "x \<in> reading rs - {unat chan}"
      then obtain r where "r \<in> set rs" "x = unat (fst r)" by auto
      moreover from this x have "r \<noteq> (chan, len)" by auto
      ultimately show "x \<in> reading (remove1 (chan, len) rs)" by (auto simp: in_set_remove1)
    qed
    show "reading (remove1 (chan, len) rs) \<subseteq> reading rs" using set_remove1_subset by fastforce
  qed
qed (auto simp: fill_async_ok usbAsyncFlush_ok usbAsyncRegister_ok)

lemma async_reach_ok: "async_reach s0 x \<Longrightarrow> async_ok {} s0 \<Longrightarrow> async_ok (reading (snd x)) (fst x)"
  by (induction rule: async_reach.induct) (auto intro: async_step_ok)

text \<open>The copy of a woken reader: what it takes and what it leaves behind.\<close>

lemma async_take_result:
  assumes ok: "async_ok R s" and c: "unat chan < MAX_ASYNC_CHANNELS" and p: "a_chan s ! unat chan = Some p"
  shows "\<exists>t. async_take chan len s = Inr ((min len (int (length (ring_contents (a_mem s p)))), take (nat len) (ring_contents (a_mem s p))), t)
    \<and> ring_contents (a_mem t p) = drop (nat len) (ring_contents (a_mem s p))
    \<and> (a_event t ! unat chan \<or> ring_contents (a_mem t p) = [])"
proof -
  let ?e = "a_mem s p" and ?n = "nat (min len (int (ep_size (a_mem s p))))"
  have r: "ring_ok ?e" "length (a_event s) = MAX_ASYNC_CHANNELS" using ok c p by (auto simp: async_ok_def)
  have g: "fst (ring_get ?e ?n) = take ?n (ring_contents ?e)" "ring_contents (snd (ring_get ?e ?n)) = drop ?n (ring_contents ?e)"
    using ring.fetch_result [OF r(1), of ?n] ring.fetch_contents [OF r(1), of ?n] by simp_all
  have n: "take ?n (ring_contents ?e) = take (nat len) (ring_contents ?e)" "drop ?n (ring_contents ?e) = drop (nat len) (ring_contents ?e)"
    by (cases "len \<le> int (ep_size ?e)"; simp add: min_def)+
  obtain bs e1 where b: "ring_get ?e ?n = (bs, e1)" by fastforce
  have e1: "ring_contents e1 = drop (nat len) (ring_contents ?e)" "bs = take (nat len) (ring_contents ?e)"
    using g n b by simp_all
  have "ep_size e1 = 0 \<Longrightarrow> ring_contents e1 = []" by (simp add: ring_contents_def)
  then show ?thesis using p c r(2) b e1 by (auto simp: async_take_def ring_read_def)
qed


lemma demo_async_ok: "async_ok {} demo_async"
  unfolding async_ok_def
  by (auto simp: demo_async_def MAX_ASYNC_CHANNELS_def MAX_ASYNC_BUFFER_def demo_ep_def ring_ok_def
      nth_list_update split: if_splits)


text \<open>Giving a channel up while a reader has been woken but has not copied yet makes the reader
  dereference the empty entry of the table: the copy reads the table again without a check.\<close>

theorem async_unregister_race:
  assumes "async_wait chan waited s = (0, t)" and "length (a_chan s) = MAX_ASYNC_CHANNELS"
  shows "async_take chan len (snd (usbAsyncUnregister chan t)) = Inl Bad_Pointer"
  using assms by (auto simp: async_wait_def usbAsyncUnregister_def async_take_def split: if_splits)

theorem async_unregister_race_witness:
  "async_take 0 1 (snd (usbAsyncUnregister 0 (snd (async_wait 0 0 demo_async)))) = Inl Bad_Pointer"
proof -
  have "async_wait 0 0 demo_async = (0, snd (async_wait 0 0 demo_async))"
    by (simp add: async_wait_def demo_async_def MAX_ASYNC_CHANNELS_def)
  from async_unregister_race [OF this] show ?thesis by (simp add: demo_async_def MAX_ASYNC_CHANNELS_def)
qed

end
