(* ===== verification/PspUsb.thy ===== *)
theory PspUsb
  imports Protocol
begin

unbundle bit_operations_syntax

text \<open>
  The transfer layer of the PSP driver, \<^verbatim>\<open>usbhostfs/main.c\<close>: block transfers over the bulk
  endpoints, the exchange of a command with the PC, asynchronous and bulk writes. The
  kernel of the PSP is the record \<open>kern\<close> over a state of any type \<open>'k\<close>; a transfer is the request and the wait for its event flag together.
\<close>

section \<open>The kernel\<close>

text \<open>
  \<open>k_bulkin\<close>: the result of the wait, the \<^verbatim>\<open>retcode\<close> and the \<^verbatim>\<open>recvsize\<close> of a request that sends
  data to the PC. \<open>k_bulkout\<close>: \<open>None\<close> when the request cannot be made, else the same with the
  bytes received in place of their number. \<open>k_connected\<close> reads \<^verbatim>\<open>g_connected\<close>, which the USB
  thread sets.
\<close>

record 'k kern =
  k_bulkin :: "bytes \<Rightarrow> 'k \<Rightarrow> (int \<times> int \<times> nat) \<times> 'k"
  k_bulkout :: "nat \<Rightarrow> 'k \<Rightarrow> (int \<times> int \<times> bytes) option \<times> 'k"
  k_wait_sema :: "'k \<Rightarrow> int \<times> 'k"
  k_signal_sema :: "'k \<Rightarrow> 'k"
  k_connected :: "'k \<Rightarrow> bool"

definition TX_BUF :: nat where "TX_BUF = 65536"

section \<open>Block transfers\<close>

text \<open>
  \<^verbatim>\<open>read_data\<close> into a buffer of \<open>cap\<close> bytes: the result (\<open>- 1\<close> on an error) and the bytes stored.
\<close>

function read_loop :: "'k kern \<Rightarrow> nat \<Rightarrow> nat \<Rightarrow> bytes \<Rightarrow> 'k \<Rightarrow> ((int \<times> bytes) \<times> 'k) run" where
  "read_loop kn cap sz acc k =
     (if length acc < sz then
        (let nextsize = (if sz - length acc > TX_BUF then TX_BUF else sz - length acc) in
         case k_bulkout kn nextsize k of
           (None, k1) \<Rightarrow> Inr ((- 1, acc), k1)
         | (Some (ret, retcode, bs), k1) \<Rightarrow>
             if ret \<noteq> 0 then Inr ((- 1, acc), k1)
             else if retcode = 0 \<and> bs \<noteq> [] then
               (if length bs > TX_BUF \<or> length acc + length bs > cap then Inl Buffer_Overflow
                else read_loop kn cap sz (acc @ bs) k1)
             else Inr ((- 1, acc), k1))
      else Inr ((int (length acc), acc), k))"
  by pat_completeness auto

termination
  by (relation "measure (\<lambda>(kn, cap, sz, acc, k). sz - length acc)") (auto simp: diff_less_mono2)

declare read_loop.simps [simp del]

definition read_data :: "'k kern \<Rightarrow> nat \<Rightarrow> nat \<Rightarrow> 'k \<Rightarrow> ((int \<times> bytes) \<times> 'k) run" where
  "read_data kn cap sz k = read_loop kn cap sz [] k"

text \<open>
  \<^verbatim>\<open>write_data\<close>. Its two branches differ in the buffer the request is given (a copy when the data
  is not aligned to a cache line), not in what is sent.
\<close>

function write_loop :: "'k kern \<Rightarrow> bytes \<Rightarrow> nat \<Rightarrow> 'k \<Rightarrow> int \<times> 'k" where
  "write_loop kn data writelen k =
     (if writelen < length data then
        (let nextsize = (if length data - writelen > TX_BUF then TX_BUF else length data - writelen) in
         case k_bulkin kn (take nextsize (drop writelen data)) k of
           ((ret, retcode, n), k1) \<Rightarrow>
             if ret \<noteq> 0 then (- 1, k1)
             else if retcode = 0 \<and> n > 0 then write_loop kn data (writelen + n) k1
             else (- 1, k1))
      else (int writelen, k))"
  by pat_completeness auto

termination
  by (relation "measure (\<lambda>(kn, data, writelen, k). length data - writelen)") auto

declare write_loop.simps [simp del]

definition write_data :: "'k kern \<Rightarrow> bytes \<Rightarrow> 'k \<Rightarrow> int \<times> 'k" where
  "write_data kn data k = write_loop kn data 0 k"

definition write_data_large :: "'k kern \<Rightarrow> bool \<Rightarrow> bytes \<Rightarrow> 'k \<Rightarrow> int \<times> 'k" where
  "write_data_large kn aligned data k =
     (if \<not> aligned then (- 1, k) else
      case k_bulkin kn data k of
        ((ret, retcode, n), k1) \<Rightarrow>
          (if ret = 0 \<and> retcode = 0 \<and> n > 0 then int (length data) else - 1, k1))"

section \<open>Exchanging a command\<close>

text \<open>
  \<^verbatim>\<open>command_xchg\<close>: the command, its data, a response of \<open>incmdlen\<close> bytes, and the data the
  response announces, into a buffer of \<open>cap\<close> bytes of which the caller passes \<open>inlen\<close> as the
  length. \<open>None\<close> for the result \<^verbatim>\<open>0\<close>; the semaphore is signalled on every path that took it.
\<close>

definition xchg_body ::
  "'k kern \<Rightarrow> bytes \<Rightarrow> nat \<Rightarrow> bytes \<Rightarrow> nat \<Rightarrow> int \<Rightarrow> 'k \<Rightarrow> ((bytes \<times> bytes) option \<times> 'k) run" where
  "xchg_body kn outcmd incmdlen outdata cap inlen k =
     (case (if length outcmd > 0 then write_data kn outcmd k else (0, k)) of (err1, k1) \<Rightarrow>
      if err1 \<noteq> int (length outcmd) then Inr (None, k1) else
      case (if length outdata > 0 then write_data kn outdata k1 else (0, k1)) of (err2, k2) \<Rightarrow>
      if err2 \<noteq> int (length outdata) then Inr (None, k2) else
      if incmdlen = 0 then Inr (Some ([], []), k2) else
      case read_data kn incmdlen incmdlen k2 of
        Inl f \<Rightarrow> Inl f
      | Inr ((err3, resp), k3) \<Rightarrow>
          if err3 \<noteq> int incmdlen then Inr (None, k3) else
          let r = dec_cmd resp in
          if magic r \<noteq> HOSTFS_MAGIC \<and> command r \<noteq> command (dec_cmd outcmd) then Inr (None, k3) else
          if extralen r > 0 \<and> inlen > 0 then
            (case read_data kn cap (nat (sint (extralen r))) k3 of
               Inl f \<Rightarrow> Inl f
             | Inr ((err4, ind), k4) \<Rightarrow>
                 if word_of_int err4 \<noteq> extralen r then Inr (None, k4)
                 else Inr (Some (resp, ind), k4))
          else Inr (Some (resp, []), k3))"

definition command_xchg ::
  "'k kern \<Rightarrow> bytes \<Rightarrow> nat \<Rightarrow> bytes \<Rightarrow> nat \<Rightarrow> int \<Rightarrow> 'k \<Rightarrow> ((bytes \<times> bytes) option \<times> 'k) run" where
  "command_xchg kn outcmd incmdlen outdata cap inlen k =
     (case k_wait_sema kn k of (err, k1) \<Rightarrow>
      if err < 0 then Inr (None, k1) else
      case xchg_body kn outcmd incmdlen outdata cap inlen k1 of
        Inl f \<Rightarrow> Inl f
      | Inr (r, k2) \<Rightarrow> Inr (r, k_signal_sema kn k2))"

definition send_async :: "'k kern \<Rightarrow> bytes \<Rightarrow> 'k \<Rightarrow> bool \<times> 'k" where
  "send_async kn data k =
     (case k_wait_sema kn k of (err, k1) \<Rightarrow>
      if err < 0 then (False, k1) else
      case (if data \<noteq> [] then (case write_data kn data k1 of (n, k2) \<Rightarrow> (n = int (length data), k2))
            else (True, k1)) of
        (ok, k2) \<Rightarrow> (ok, k_signal_sema kn k2))"

definition send_hello_cmd :: "'k kern \<Rightarrow> 'k \<Rightarrow> (bool \<times> 'k) run" where
  "send_hello_cmd kn k =
     (case command_xchg kn (enc_cmd \<lparr>magic = HOSTFS_MAGIC, command = cmd_num CMD_HELLO, extralen = 0\<rparr>)
             12 [] 0 0 k of
        Inl f \<Rightarrow> Inl f
      | Inr (r, k1) \<Rightarrow> Inr (r \<noteq> None, k1))"

section \<open>Asynchronous and bulk writes\<close>

text \<open>The loop of \<^verbatim>\<open>usbAsyncWrite\<close>: packets of 512 bytes, the header included.\<close>

function async_blocks :: "'k kern \<Rightarrow> u32 \<Rightarrow> bytes \<Rightarrow> nat \<Rightarrow> 'k \<Rightarrow> nat \<times> 'k" where
  "async_blocks kn chan data written k =
     (if written < length data then
        (let sz = (if length data - written > 504 then 504 else length data - written) in
         case send_async kn (enc_async \<lparr>async_magic = ASYNC_MAGIC, async_channel = chan\<rparr>
                               @ take sz (drop written data)) k of
           (True, k1) \<Rightarrow> async_blocks kn chan data (written + sz) k1
         | (False, k1) \<Rightarrow> (written, k1))
      else (written, k))"
  by pat_completeness auto

termination
  by (relation "measure (\<lambda>(kn, chan, data, written, k). length data - written)") (auto simp: Let_def)

declare async_blocks.simps [simp del]

definition usbAsyncWrite :: "'k kern \<Rightarrow> u32 \<Rightarrow> bytes \<Rightarrow> 'k \<Rightarrow> int \<times> 'k" where
  "usbAsyncWrite kn chan data k =
     (if \<not> k_connected kn k then (- 1, k)
      else (case async_blocks kn chan data 0 k of (n, k1) \<Rightarrow> (int n, k1)))"

definition usbWriteBulkData :: "'k kern \<Rightarrow> u32 \<Rightarrow> bool \<Rightarrow> bytes \<Rightarrow> 'k \<Rightarrow> int \<times> 'k" where
  "usbWriteBulkData kn chan aligned data k =
     (if \<not> k_connected kn k then (- 1, k)
      else if data = [] \<or> length data > HOSTFS_BULK_MAXWRITE then (- 1, k)
      else (case k_wait_sema kn k of (err, k1) \<Rightarrow>
        if err < 0 then (- 1, k1) else
        case write_data kn (enc_bulk \<lparr>bulk_magic = BULK_MAGIC, bulk_channel = chan,
               bulk_size = of_nat (length data)\<rparr>) k1 of
          (n, k2) \<Rightarrow>
            if n \<noteq> 12 then (- 1, k_signal_sema kn k2)
            else (case write_data_large kn aligned data k2 of
                    (m, k3) \<Rightarrow> (if m = int (length data) then m else - 1, k_signal_sema kn k3))))"

end
