(* ===== verification/HostDriver.thy ===== *)
theory HostDriver
  imports PspUsb HostOs
begin

unbundle bit_operations_syntax

text \<open>
  The PSP side of the host file system, \<^verbatim>\<open>usbhostfs/host_driver.c\<close>: the functions of the I/O
  driver \<^verbatim>\<open>host:\<close>. Each fills in the structure of its command, exchanges it with the PC and
  decodes the response. A pointer that may be null is an option; \<open>fsn\<close> and \<open>arg\<close> are the
  members \<^verbatim>\<open>fs_num\<close> and \<^verbatim>\<open>arg\<close> of \<^verbatim>\<open>PspIoDrvFileArg\<close> the functions use. The results are C integers.
\<close>

section \<open>Commands with a result only\<close>

definition hdr :: "HostFsCommands \<Rightarrow> u32 \<Rightarrow> HostFsCmd" where
  "hdr c extra = \<lparr>magic = HOSTFS_MAGIC, command = cmd_num c, extralen = extra\<rparr>"

text \<open>
  The common shape of the functions: not connected and a failed exchange give \<open>- 1\<close>, otherwise
  the \<^verbatim>\<open>res\<close> of the response.
\<close>

definition xchg_res ::
  "'k kern \<Rightarrow> bytes \<Rightarrow> bytes \<Rightarrow> nat \<Rightarrow> int \<Rightarrow> 'k \<Rightarrow> ((int \<times> bytes) \<times> 'k) run" where
  "xchg_res kn cmd outdata cap inlen k =
     (if \<not> k_connected kn k then Inr ((- 1, []), k) else
      case command_xchg kn cmd 16 outdata cap inlen k of
        Inl f \<Rightarrow> Inl f
      | Inr (None, k1) \<Rightarrow> Inr ((- 1, []), k1)
      | Inr (Some (resp, ind), k1) \<Rightarrow> Inr ((sint (resp_res (dec_resp resp)), ind), k1))"

definition strlen1 :: "string \<Rightarrow> u32" where
  "strlen1 s = of_nat (length s + 1)"

text \<open>The result of opening: the new \<^verbatim>\<open>arg->arg\<close> on success.\<close>

definition open_res :: "int \<Rightarrow> u32 option \<times> int" where
  "open_res res = (if res \<ge> 0 then (Some (s32 res), 0) else (None, res))"

definition io_open ::
  "'k kern \<Rightarrow> u32 \<Rightarrow> string option \<Rightarrow> u32 \<Rightarrow> u32 \<Rightarrow> 'k \<Rightarrow> ((u32 option \<times> int) \<times> 'k) run" where
  "io_open kn fsn file mode msk k =
     (case file of
        None \<Rightarrow> Inr ((None, - 1), k)
      | Some f \<Rightarrow>
          (case xchg_res kn (enc_open \<lparr>open_cmd = hdr CMD_OPEN (strlen1 f), open_mode = mode,
                  open_mask = msk, open_fsnum = fsn\<rparr>) (cbytes f) 0 0 k of
             Inl e \<Rightarrow> Inl e
           | Inr ((res, _), k1) \<Rightarrow> Inr (open_res res, k1)))"

definition io_close :: "'k kern \<Rightarrow> u32 \<Rightarrow> 'k \<Rightarrow> (int \<times> 'k) run" where
  "io_close kn arg k =
     (case xchg_res kn (enc_id \<lparr>id_cmd = hdr CMD_CLOSE 0, id_val = arg\<rparr>) [] 0 0 k of
        Inl e \<Rightarrow> Inl e | Inr ((res, _), k1) \<Rightarrow> Inr (res, k1))"

section \<open>Reading and writing\<close>

text \<open>Storing \<open>bs\<close> at an offset of a buffer.\<close>

definition place :: "nat \<Rightarrow> bytes \<Rightarrow> bytes \<Rightarrow> bytes" where
  "place pos bs buf = take pos buf @ bs @ drop (pos + length bs) buf"

record xfer =
  xf_buf :: bytes
  xf_pos :: nat
  xf_ret :: int

text \<open>
  One block of \<^verbatim>\<open>usb_read_data\<close>: \<open>True\<close> when the loop goes on. The exchange is told the length
  of the block; the memory it may fill is what is left of the caller's buffer.
\<close>

definition read_block ::
  "'k kern \<Rightarrow> u32 \<Rightarrow> nat \<Rightarrow> xfer \<Rightarrow> 'k \<Rightarrow> ((bool \<times> xfer) \<times> 'k) run" where
  "read_block kn fd len x k =
     (if \<not> k_connected kn k then Inr ((False, x\<lparr>xf_ret := - 1\<rparr>), k) else
      case command_xchg kn (enc_read \<lparr>read_cmd = hdr CMD_READ 0, read_fid = fd, read_len = of_nat len\<rparr>)
             16 [] (length (xf_buf x) - xf_pos x) (int len) k of
        Inl f \<Rightarrow> Inl f
      | Inr (None, k1) \<Rightarrow> Inr ((False, x\<lparr>xf_ret := - 1\<rparr>), k1)
      | Inr (Some (resp, ind), k1) \<Rightarrow>
          (let res = sint (resp_res (dec_resp resp));
               x1 = x\<lparr>xf_buf := place (xf_pos x) ind (xf_buf x)\<rparr>
           in if res > 0 then Inr ((True, x1\<lparr>xf_pos := xf_pos x + nat res, xf_ret := xf_ret x + res\<rparr>), k1)
              else if res < 0 \<and> xf_ret x = 0 then Inr ((False, x1\<lparr>xf_ret := res\<rparr>), k1)
              else Inr ((False, x1), k1)))"

fun read_blocks :: "'k kern \<Rightarrow> u32 \<Rightarrow> nat \<Rightarrow> xfer \<Rightarrow> 'k \<Rightarrow> ((bool \<times> xfer) \<times> 'k) run" where
  "read_blocks kn fd 0 x k = Inr ((True, x), k)"
| "read_blocks kn fd (Suc blocks) x k =
     (case read_block kn fd HOSTFS_MAX_BLOCK x k of
        Inl f \<Rightarrow> Inl f
      | Inr ((False, x1), k1) \<Rightarrow> Inr ((False, x1), k1)
      | Inr ((True, x1), k1) \<Rightarrow> read_blocks kn fd blocks x1 k1)"

text \<open>\<^verbatim>\<open>usb_read_data\<close>: the result and the caller's buffer afterwards.\<close>

definition usb_read_data ::
  "'k kern \<Rightarrow> u32 \<Rightarrow> bytes option \<Rightarrow> int \<Rightarrow> 'k \<Rightarrow> ((int \<times> bytes) \<times> 'k) run" where
  "usb_read_data kn fd data len k =
     (if len < 0 then Inr ((- 1, case data of None \<Rightarrow> [] | Some b \<Rightarrow> b), k) else
      if len = 0 then Inr ((0, case data of None \<Rightarrow> [] | Some b \<Rightarrow> b), k) else
      case data of None \<Rightarrow> Inr ((- 1, []), k) | Some buf \<Rightarrow>
        (let blocks = nat len div HOSTFS_MAX_BLOCK; residual = nat len mod HOSTFS_MAX_BLOCK in
         case read_blocks kn fd blocks \<lparr>xf_buf = buf, xf_pos = 0, xf_ret = 0\<rparr> k of
           Inl f \<Rightarrow> Inl f
         | Inr ((done, x), k1) \<Rightarrow>
             if done \<and> residual > 0 then
               (case read_block kn fd residual x k1 of
                  Inl f \<Rightarrow> Inl f
                | Inr ((_, x1), k2) \<Rightarrow> Inr ((xf_ret x1, xf_buf x1), k2))
             else Inr ((xf_ret x, xf_buf x), k1)))"

definition io_read :: "'k kern \<Rightarrow> u32 \<Rightarrow> bytes option \<Rightarrow> int \<Rightarrow> 'k \<Rightarrow> ((int \<times> bytes) \<times> 'k) run" where
  "io_read kn arg data len k = usb_read_data kn arg data len k"

text \<open>
  One block of \<^verbatim>\<open>usb_write_data\<close>: \<open>pos\<close> and \<open>ret\<close> move on by what the PC reports; a position
  past the end of the data reads memory that is not the caller's.
\<close>

definition write_block ::
  "'k kern \<Rightarrow> u32 \<Rightarrow> bytes \<Rightarrow> nat \<Rightarrow> nat \<Rightarrow> int \<Rightarrow> 'k \<Rightarrow> ((bool \<times> nat \<times> int) \<times> 'k) run" where
  "write_block kn fd data len pos ret k =
     (if \<not> k_connected kn k then Inr ((False, pos, - 1), k) else
      if pos + len > length data then Inl Buffer_Overflow else
      case command_xchg kn (enc_id \<lparr>id_cmd = hdr CMD_WRITE (of_nat len), id_val = fd\<rparr>) 16
             (take len (drop pos data)) 0 0 k of
        Inl f \<Rightarrow> Inl f
      | Inr (None, k1) \<Rightarrow> Inr ((False, pos, - 1), k1)
      | Inr (Some (resp, _), k1) \<Rightarrow>
          (let res = sint (resp_res (dec_resp resp)) in
           if res > 0 then Inr ((True, pos + nat res, ret + res), k1)
           else if res < 0 \<and> ret = 0 then Inr ((False, pos, res), k1)
           else Inr ((False, pos, ret), k1)))"

fun write_blocks ::
  "'k kern \<Rightarrow> u32 \<Rightarrow> bytes \<Rightarrow> nat \<Rightarrow> nat \<Rightarrow> int \<Rightarrow> 'k \<Rightarrow> ((bool \<times> nat \<times> int) \<times> 'k) run" where
  "write_blocks kn fd data 0 pos ret k = Inr ((True, pos, ret), k)"
| "write_blocks kn fd data (Suc blocks) pos ret k =
     (case write_block kn fd data HOSTFS_MAX_BLOCK pos ret k of
        Inl f \<Rightarrow> Inl f
      | Inr ((False, p, r), k1) \<Rightarrow> Inr ((False, p, r), k1)
      | Inr ((True, p, r), k1) \<Rightarrow> write_blocks kn fd data blocks p r k1)"

definition usb_write_data :: "'k kern \<Rightarrow> u32 \<Rightarrow> bytes option \<Rightarrow> int \<Rightarrow> 'k \<Rightarrow> (int \<times> 'k) run" where
  "usb_write_data kn fd data len k =
     (if len < 0 then Inr (- 1, k) else
      if len = 0 then Inr (0, k) else
      case data of None \<Rightarrow> Inr (- 1, k) | Some buf \<Rightarrow>
        (let blocks = nat len div HOSTFS_MAX_BLOCK; residual = nat len mod HOSTFS_MAX_BLOCK in
         case write_blocks kn fd buf blocks 0 0 k of
           Inl f \<Rightarrow> Inl f
         | Inr ((done, pos, ret), k1) \<Rightarrow>
             if done \<and> residual > 0 then
               (case write_block kn fd buf residual pos ret k1 of
                  Inl f \<Rightarrow> Inl f
                | Inr ((_, _, r), k2) \<Rightarrow> Inr (r, k2))
             else Inr (ret, k1)))"

definition io_write :: "'k kern \<Rightarrow> u32 \<Rightarrow> bytes option \<Rightarrow> int \<Rightarrow> 'k \<Rightarrow> (int \<times> 'k) run" where
  "io_write kn arg data len k = usb_write_data kn arg data len k"

definition io_lseek :: "'k kern \<Rightarrow> u32 \<Rightarrow> u64 \<Rightarrow> u32 \<Rightarrow> 'k \<Rightarrow> (u64 \<times> 'k) run" where
  "io_lseek kn arg ofs whence k =
     (if \<not> k_connected kn k then Inr (- 1, k) else
      case command_xchg kn (enc_lseek \<lparr>lseek_cmd = hdr CMD_LSEEK 0, lseek_fid = arg, lseek_ofs = ofs,
             lseek_whence = whence\<rparr>) 24 [] 0 0 k of
        Inl f \<Rightarrow> Inl f
      | Inr (None, k1) \<Rightarrow> Inr (- 1, k1)
      | Inr (Some (resp, _), k1) \<Rightarrow>
          (let r = dec_lresp resp in Inr (if sint (lresp_res r) \<ge> 0 then lresp_ofs r else - 1, k1)))"

section \<open>Control\<close>

text \<open>\<open>outcap\<close>: the size of the caller's output buffer, \<open>None\<close> for a null pointer.\<close>

definition io_ioctl ::
  "'k kern \<Rightarrow> u32 \<Rightarrow> u32 \<Rightarrow> bytes option \<Rightarrow> nat option \<Rightarrow> 'k \<Rightarrow> ((int \<times> bytes) \<times> 'k) run" where
  "io_ioctl kn arg cmdno indata outcap k =
     (let ins = (case indata of None \<Rightarrow> [] | Some b \<Rightarrow> b);
          outlen = (case outcap of None \<Rightarrow> 0 | Some n \<Rightarrow> n)
      in xchg_res kn (enc_ioctl \<lparr>ioctl_cmd = hdr CMD_IOCTL (of_nat (length ins)), ioctl_fid = arg,
             ioctl_cmdno = cmdno, ioctl_outlen = of_nat outlen\<rparr>) ins outlen (int outlen) k)"

text \<open>
  \<^verbatim>\<open>DEVCTL_GET_INFO\<close> takes in its input a pointer to the output buffer: \<open>info_ptr\<close> says whether
  there is one and it is not null.
\<close>

definition io_devctl ::
  "'k kern \<Rightarrow> u32 \<Rightarrow> bool \<Rightarrow> u32 \<Rightarrow> bytes option \<Rightarrow> bool \<Rightarrow> nat option \<Rightarrow> 'k \<Rightarrow> ((int \<times> bytes) \<times> 'k) run" where
  "io_devctl kn fsn has_name cmdno indata info_ptr outcap k =
     (if \<not> has_name then Inr ((- 1, []), k) else
      if cmdno = DEVCTL_GET_INFO \<and> \<not> info_ptr then Inr ((- 1, []), k) else
      let (ins, outlen) =
        (if cmdno = DEVCTL_GET_INFO then ([], 20)
         else (case indata of None \<Rightarrow> [] | Some b \<Rightarrow> b, case outcap of None \<Rightarrow> 0 | Some n \<Rightarrow> n))
      in xchg_res kn (enc_devctl \<lparr>devctl_cmd = hdr CMD_DEVCTL (of_nat (length ins)), devctl_cmdno = cmdno,
             devctl_fsnum = fsn, devctl_outlen = of_nat outlen\<rparr>) ins outlen (int outlen) k)"

section \<open>Names\<close>

definition io_remove :: "'k kern \<Rightarrow> u32 \<Rightarrow> string option \<Rightarrow> 'k \<Rightarrow> (int \<times> 'k) run" where
  "io_remove kn fsn name k =
     (case name of
        None \<Rightarrow> Inr (- 1, k)
      | Some f \<Rightarrow>
          (case xchg_res kn (enc_fs \<lparr>fs_cmd = hdr CMD_REMOVE (strlen1 f), fs_num = fsn\<rparr>) (cbytes f) 0 0 k of
             Inl e \<Rightarrow> Inl e | Inr ((res, _), k1) \<Rightarrow> Inr (res, k1)))"

definition io_mkdir :: "'k kern \<Rightarrow> u32 \<Rightarrow> string option \<Rightarrow> u32 \<Rightarrow> 'k \<Rightarrow> (int \<times> 'k) run" where
  "io_mkdir kn fsn name mode k =
     (case name of
        None \<Rightarrow> Inr (- 1, k)
      | Some f \<Rightarrow>
          (case xchg_res kn (enc_mkdir \<lparr>mkdir_cmd = hdr CMD_MKDIR (strlen1 f), mkdir_mode = mode,
                  mkdir_fsnum = fsn\<rparr>) (cbytes f) 0 0 k of
             Inl e \<Rightarrow> Inl e | Inr ((res, _), k1) \<Rightarrow> Inr (res, k1)))"

definition io_rmdir :: "'k kern \<Rightarrow> u32 \<Rightarrow> string option \<Rightarrow> 'k \<Rightarrow> (int \<times> 'k) run" where
  "io_rmdir kn fsn name k =
     (case name of
        None \<Rightarrow> Inr (- 1, k)
      | Some f \<Rightarrow>
          (case xchg_res kn (enc_fs \<lparr>fs_cmd = hdr CMD_RMDIR (strlen1 f), fs_num = fsn\<rparr>) (cbytes f) 0 0 k of
             Inl e \<Rightarrow> Inl e | Inr ((res, _), k1) \<Rightarrow> Inr (res, k1)))"

definition io_chdir :: "'k kern \<Rightarrow> u32 \<Rightarrow> string option \<Rightarrow> 'k \<Rightarrow> (int \<times> 'k) run" where
  "io_chdir kn fsn name k =
     (case name of
        None \<Rightarrow> Inr (- 1, k)
      | Some f \<Rightarrow>
          (case xchg_res kn (enc_fs \<lparr>fs_cmd = hdr CMD_CHDIR (strlen1 f), fs_num = fsn\<rparr>) (cbytes f) 0 0 k of
             Inl e \<Rightarrow> Inl e | Inr ((res, _), k1) \<Rightarrow> Inr (res, k1)))"

text \<open>
  \<^verbatim>\<open>io_getstat\<close>: the result and the bytes stored in the caller's \<^verbatim>\<open>SceIoStat\<close> of 88 bytes.
\<close>

definition io_getstat :: "'k kern \<Rightarrow> u32 \<Rightarrow> string option \<Rightarrow> bool \<Rightarrow> 'k \<Rightarrow> ((int \<times> bytes) \<times> 'k) run" where
  "io_getstat kn fsn name has_stat k =
     (case name of
        None \<Rightarrow> Inr ((- 1, []), k)
      | Some f \<Rightarrow>
          if \<not> has_stat then Inr ((- 1, []), k)
          else xchg_res kn (enc_fs \<lparr>fs_cmd = hdr CMD_GETSTAT (strlen1 f), fs_num = fsn\<rparr>) (cbytes f) 88 88 k)"

text \<open>The time stamps of \<^verbatim>\<open>io_chstat\<close>, with the minute and second of the access time it takes.\<close>

definition stamp_of :: "ScePspDateTime \<Rightarrow> u16 \<Rightarrow> u16 \<Rightarrow> HostFsTimeStamp" where
  "stamp_of t minute second = \<lparr>ts_year = dt_year t, ts_month = dt_month t, ts_day = dt_day t,
     ts_hour = dt_hour t, ts_minute = minute, ts_second = second\<rparr>"

definition io_chstat ::
  "'k kern \<Rightarrow> u32 \<Rightarrow> string option \<Rightarrow> SceIoStat option \<Rightarrow> u32 \<Rightarrow> 'k \<Rightarrow> (int \<times> 'k) run" where
  "io_chstat kn fsn name stat bits k =
     (case name of
        None \<Rightarrow> Inr (- 1, k)
      | Some f \<Rightarrow>
          (case stat of
             None \<Rightarrow> Inr (- 1, k)
           | Some st \<Rightarrow>
               (case xchg_res kn (enc_chstat \<lparr>chstat_cmd = hdr CMD_CHSTAT (strlen1 f), chstat_bits = bits,
                        chstat_mode = io_mode st, chstat_size = io_size st,
                        chstat_atime = stamp_of (io_atime st) (dt_minute (io_mtime st)) (dt_second (io_mtime st)),
                        chstat_mtime = stamp_of (io_mtime st) (dt_minute (io_mtime st)) (dt_second (io_mtime st)),
                        chstat_fsnum = fsn\<rparr>) (cbytes f) 0 0 k of
                  Inl e \<Rightarrow> Inl e | Inr ((res, _), k1) \<Rightarrow> Inr (res, k1))))"

definition io_rename ::
  "'k kern \<Rightarrow> u32 \<Rightarrow> string option \<Rightarrow> string option \<Rightarrow> 'k \<Rightarrow> (int \<times> 'k) run" where
  "io_rename kn fsn oldname newname k =
     (case (oldname, newname) of
        (Some f, Some g) \<Rightarrow>
          (let sz = length f + length g + 2 in
           if sz > HOSTFS_RENAME_BUFSIZE then Inr (- 1, k) else
           (case xchg_res kn (enc_fs \<lparr>fs_cmd = hdr CMD_RENAME (of_nat sz), fs_num = fsn\<rparr>)
                   (cbytes f @ cbytes g) 0 0 k of
              Inl e \<Rightarrow> Inl e | Inr ((res, _), k1) \<Rightarrow> Inr (res, k1)))
      | _ \<Rightarrow> Inr (- 1, k))"

section \<open>Directories\<close>

definition io_dopen :: "'k kern \<Rightarrow> u32 \<Rightarrow> string option \<Rightarrow> 'k \<Rightarrow> ((u32 option \<times> int) \<times> 'k) run" where
  "io_dopen kn fsn name k =
     (case name of
        None \<Rightarrow> Inr ((None, - 1), k)
      | Some f \<Rightarrow>
          (case xchg_res kn (enc_fs \<lparr>fs_cmd = hdr CMD_DOPEN (strlen1 f), fs_num = fsn\<rparr>) (cbytes f) 0 0 k of
             Inl e \<Rightarrow> Inl e | Inr ((res, _), k1) \<Rightarrow> Inr (open_res res, k1)))"

definition io_dclose :: "'k kern \<Rightarrow> u32 \<Rightarrow> 'k \<Rightarrow> (int \<times> 'k) run" where
  "io_dclose kn arg k =
     (case xchg_res kn (enc_id \<lparr>id_cmd = hdr CMD_DCLOSE 0, id_val = arg\<rparr>) [] 0 0 k of
        Inl e \<Rightarrow> Inl e | Inr ((res, _), k1) \<Rightarrow> Inr (res, k1))"

text \<open>The result and the bytes stored in the caller's \<^verbatim>\<open>SceIoDirent\<close> of 352 bytes.\<close>

definition io_dread :: "'k kern \<Rightarrow> u32 \<Rightarrow> bool \<Rightarrow> 'k \<Rightarrow> ((int \<times> bytes) \<times> 'k) run" where
  "io_dread kn arg has_dir k =
     (if \<not> has_dir then Inr ((- 1, []), k)
      else xchg_res kn (enc_id \<lparr>id_cmd = hdr CMD_DREAD 0, id_val = arg\<rparr>) [] 352 352 k)"

text \<open>The driver functions that do nothing.\<close>

definition io_mount :: int where "io_mount = - 1"
definition io_umount :: int where "io_umount = - 1"
definition io_unknown :: int where "io_unknown = - 1"

end
