(* ===== verification/Link.thy ===== *)
theory Link
  imports HostDriver HostFiles
begin

text \<open>
  Both ends of the cable: the PSP driver of \<open>HostDriver\<close> talking to the PC server of
  \<open>HostSession\<close> over a pair of packet queues. \<open>link_os\<close> is an operating system whose USB pipe is
  the link; \<open>link_kern\<close> is a PSP kernel in which waiting for data from an empty pipe lets the
  server take one turn of its loop.
\<close>

section \<open>The link\<close>

record 'v link =
  l_out :: "bytes list"
  l_in :: "bytes list"
  l_fs :: 'v

definition lift :: "('v \<Rightarrow> 'a \<times> 'v) \<Rightarrow> 'v link \<Rightarrow> 'a \<times> 'v link" where
  "lift f w = (case f (l_fs w) of (r, v) \<Rightarrow> (r, w\<lparr>l_fs := v\<rparr>))"

definition link_os :: "'v os \<Rightarrow> 'v link os" where
  "link_os os = \<lparr>
     os_open = (\<lambda>p f m. lift (os_open os p f m)),
     os_close = (\<lambda>fd. lift (os_close os fd)),
     os_read = (\<lambda>fd n. lift (os_read os fd n)),
     os_write = (\<lambda>fd bs. lift (os_write os fd bs)),
     os_lseek = (\<lambda>fd o1 wh. lift (os_lseek os fd o1 wh)),
     os_unlink = (\<lambda>p. lift (os_unlink os p)),
     os_rmdir = (\<lambda>p. lift (os_rmdir os p)),
     os_mkdir = (\<lambda>p m. lift (os_mkdir os p m)),
     os_rename = (\<lambda>p q. lift (os_rename os p q)),
     os_stat = (\<lambda>p. lift (os_stat os p)),
     os_chmod = (\<lambda>p m. lift (os_chmod os p m)),
     os_utime = (\<lambda>p a m. lift (os_utime os p a m)),
     os_statvfs = (\<lambda>p. lift (os_statvfs os p)),
     os_scandir = (\<lambda>p. lift (os_scandir os p)),
     os_readdir = (\<lambda>p. lift (os_readdir os p)),
     os_errno = (\<lambda>w. os_errno os (l_fs w)),
     os_localtime = os_localtime os,
     os_mktime = os_mktime os,
     os_usb_read = (\<lambda>ep n w. case l_out w of [] \<Rightarrow> ((0, []), w)
        | p # ps \<Rightarrow> ((int (length p), p), w\<lparr>l_out := ps\<rparr>)),
     os_usb_write = (\<lambda>ep bs w. (int (length bs), w\<lparr>l_in := l_in w @ [bs]\<rparr>)),
     os_lock = lift (os_lock os),
     os_chdir = (\<lambda>p. lift (os_chdir os p)),
     os_get_text = (\<lambda>p. lift (os_get_text os p)),
     os_put_text = (\<lambda>p t. lift (os_put_text os p t))\<rparr>"

record 'v both =
  b_buf :: bytes
  b_host :: host
  b_link :: "'v link"

definition server_turn :: "'v os \<Rightarrow> 'v both \<Rightarrow> 'v both" where
  "server_turn os s = (case serve_turn (link_os os) (b_buf s) (b_host s) (b_link s) of
     Inl f \<Rightarrow> s
   | Inr (_, b, h, w) \<Rightarrow> \<lparr>b_buf = b, b_host = h, b_link = w\<rparr>)"

definition link_kern :: "'v os \<Rightarrow> 'v both kern" where
  "link_kern os = \<lparr>
     k_bulkin = (\<lambda>bs s. ((0, 0, length bs), s\<lparr>b_link := (b_link s)\<lparr>l_out := l_out (b_link s) @ [bs]\<rparr>\<rparr>)),
     k_bulkout = (\<lambda>n s. let s1 = (if l_in (b_link s) = [] then server_turn os s else s) in
        case l_in (b_link s1) of
          [] \<Rightarrow> (None, s1)
        | p # ps \<Rightarrow> (Some (0, 0, take n p),
             s1\<lparr>b_link := (b_link s1)\<lparr>l_in := (if length p \<le> n then ps else drop n p # ps)\<rparr>\<rparr>)),
     k_wait_sema = (\<lambda>s. (0, s)),
     k_signal_sema = (\<lambda>s. s),
     k_connected = (\<lambda>s. True)\<rparr>"

text \<open>A state between two commands: nothing in flight.\<close>

definition idle :: "'v both \<Rightarrow> bool" where
  "idle s \<longleftrightarrow> l_out (b_link s) = [] \<and> l_in (b_link s) = []"

definition fs_of :: "'v both \<Rightarrow> 'v" where
  "fs_of s = l_fs (b_link s)"

lemma link_simps [simp]:
  "k_wait_sema (link_kern os) s = (0, s)" "k_signal_sema (link_kern os) s = s"
  "k_connected (link_kern os) s"
  "os_read (link_os os) fd n w = lift (os_read os fd n) w"
  "os_write (link_os os) fd bs w = lift (os_write os fd bs) w"
  "os_usb_write (link_os os) ep bs w = (int (length bs), w\<lparr>l_in := l_in w @ [bs]\<rparr>)"
  "os_usb_read (link_os os) ep m w = (case l_out w of [] \<Rightarrow> ((0, []), w)
        | p # ps \<Rightarrow> ((int (length p), p), w\<lparr>l_out := ps\<rparr>))"
  by (simp_all add: link_kern_def link_os_def)

section \<open>Transfers over the link\<close>

definition push :: "bytes \<Rightarrow> 'v both \<Rightarrow> 'v both" where
  "push bs s = s\<lparr>b_link := (b_link s)\<lparr>l_out := l_out (b_link s) @ [bs]\<rparr>\<rparr>"

lemma push_simps [simp]:
  "b_buf (push bs s) = b_buf s" "b_host (push bs s) = b_host s" "l_in (b_link (push bs s)) = l_in (b_link s)"
  "l_out (b_link (push bs s)) = l_out (b_link s) @ [bs]"
  "b_link (push bs s) = (b_link s)\<lparr>l_out := l_out (b_link s) @ [bs]\<rparr>"
  by (simp_all add: push_def)

lemma bulkin_link [simp]: "k_bulkin (link_kern os) bs s = ((0, 0, length bs), push bs s)"
  by (simp add: link_kern_def push_def)

lemma write_data_link:
  "0 < length bs \<Longrightarrow> length bs \<le> TX_BUF \<Longrightarrow> write_data (link_kern os) bs s = (int (length bs), push bs s)"
  by (simp add: write_data_def write_loop.simps [of "link_kern os" bs])

text \<open>Reading a packet that waits, of the size asked for.\<close>

lemma read_data_packet:
  assumes "l_in (b_link s) = p # ps" and "p \<noteq> []" and "length p \<le> TX_BUF" and "length p \<le> cap"
  shows "read_data (link_kern os) cap (length p) s
    = Inr ((int (length p), p), s\<lparr>b_link := (b_link s)\<lparr>l_in := ps\<rparr>\<rparr>)"
proof -
  have r: "read_loop (link_kern os) cap (length p) p t = Inr ((int (length p), p), t)" for t
    by (subst read_loop.simps) simp
  have "k_bulkout (link_kern os) (length p) s = (Some (0, 0, p), s\<lparr>b_link := (b_link s)\<lparr>l_in := ps\<rparr>\<rparr>)"
    using assms(1) by (simp add: link_kern_def)
  then show ?thesis using assms(2-4) r
    by (simp add: read_data_def read_loop.simps [of "link_kern os" cap "length p" "[]" s])
qed

text \<open>Waiting on an empty pipe: the server takes its turn first.\<close>

lemma read_data_turn:
  assumes "l_in (b_link s) = []" and "l_in (b_link (server_turn os s)) = p # ps"
    and "p \<noteq> []" and "length p \<le> TX_BUF" and "length p \<le> cap"
  shows "read_data (link_kern os) cap (length p) s = read_data (link_kern os) cap (length p) (server_turn os s)"
proof -
  have "k_bulkout (link_kern os) (length p) s = k_bulkout (link_kern os) (length p) (server_turn os s)"
    using assms(1,2) by (simp add: link_kern_def)
  then show ?thesis using assms(3-5)
    by (simp add: read_data_def read_loop.simps [of "link_kern os" cap "length p" "[]"])
qed

text \<open>What the server does with a command the driver has sent.\<close>

lemma server_turn_command:
  assumes "l_out (b_link s) = cmd # ps" and "12 \<le> length cmd" and "length cmd \<le> 512"
    and "magic (dec_cmd cmd) = HOSTFS_MAGIC"
    and "do_hostfs (link_os os) (cmd @ drop (length cmd) (b_buf s)) (length cmd) (b_host s)
          ((b_link s)\<lparr>l_out := ps\<rparr>) = Inr (r, h1, w1)"
  shows "server_turn os s = \<lparr>b_buf = cmd @ drop (length cmd) (b_buf s), b_host = h1, b_link = w1\<rparr>"
proof -
  have ne: "cmd \<noteq> []" using assms(2) by auto
  have "rd32 0 (cmd @ x) = HOSTFS_MAGIC" for x
  proof -
    from ne have "rd32 0 (cmd @ x) = rd32 0 cmd" using assms(2) by (simp add: rd32_def nth_append)
    then show ?thesis using assms(4) by (simp add: dec_cmd_def)
  qed
  then show ?thesis
    using assms(1,2,3,5) ne by (simp add: server_turn_def serve_turn_def euid_usb_bulk_read_def Let_def ETIMEDOUT_def)
qed

lemma xchg_body_steps:
  assumes "(if length cmd > 0 then write_data kn cmd k else (0, k)) = (int (length cmd), k1)"
    and "(if length out > 0 then write_data kn out k1 else (0, k1)) = (int (length out), k2)"
    and "read_data kn n n k2 = Inr ((int n, resp), k3)" and "n \<noteq> 0"
    and "magic (dec_cmd resp) = HOSTFS_MAGIC"
  shows "xchg_body kn cmd n out cap inlen k =
    (if extralen (dec_cmd resp) > 0 \<and> inlen > 0 then
       (case read_data kn cap (nat (sint (extralen (dec_cmd resp)))) k3 of
          Inl f \<Rightarrow> Inl f
        | Inr ((err4, ind), k4) \<Rightarrow>
            if word_of_int err4 \<noteq> extralen (dec_cmd resp) then Inr (None, k4)
            else Inr (Some (resp, ind), k4))
     else Inr (Some (resp, []), k3))"
  unfolding xchg_body_def assms(1) prod.case assms(2) using assms(3-) by (simp add: Let_def)

text \<open>
  A whole exchange, from what the server answers to the command: a response of 16 bytes, with
  its data when it announces some.
\<close>

lemma xchg_link:
  assumes "idle s" and cmd: "12 \<le> length cmd" "length cmd \<le> 512" "magic (dec_cmd cmd) = HOSTFS_MAGIC"
    and out: "length out \<le> TX_BUF"
    and srv: "do_hostfs (link_os os) (cmd @ drop (length cmd) (b_buf s)) (length cmd) (b_host s)
          ((b_link s)\<lparr>l_out := (if out = [] then [] else [out])\<rparr>) = Inr (r, h1, w1)"
    and resp: "l_out w1 = []" "l_in w1 = enc_resp rs # (if extralen (resp_cmd rs) = 0 then [] else [ind])"
      "magic (resp_cmd rs) = HOSTFS_MAGIC"
    and ind: "extralen (resp_cmd rs) \<noteq> 0 \<Longrightarrow> extralen (resp_cmd rs) = of_nat (length ind) \<and> 0 < length ind
        \<and> length ind \<le> TX_BUF \<and> length ind \<le> cap \<and> 0 < inlen"
  shows "\<exists>s1. command_xchg (link_kern os) cmd 16 out cap inlen s
      = Inr (Some (enc_resp rs, if extralen (resp_cmd rs) = 0 then [] else ind), s1)
    \<and> idle s1 \<and> b_host s1 = h1 \<and> l_fs (b_link s1) = l_fs w1"
proof -
  let ?s1 = "push cmd s" and ?s2 = "if out = [] then push cmd s else push out (push cmd s)"
  let ?t = "\<lparr>b_buf = cmd @ drop (length cmd) (b_buf s), b_host = h1, b_link = w1\<rparr>"
  have w: "(if length cmd > 0 then write_data (link_kern os) cmd s else (0, s)) = (int (length cmd), ?s1)"
    using cmd write_data_link [of cmd os s] by (auto simp: TX_BUF_def)
  have wo: "(if length out > 0 then write_data (link_kern os) out ?s1 else (0, ?s1)) = (int (length out), ?s2)"
    using out write_data_link [of out os ?s1] by (cases "out = []") auto
  have lnk: "(b_link ?s2)\<lparr>l_out := ps\<rparr> = (b_link s)\<lparr>l_out := ps\<rparr>" "b_buf ?s2 = b_buf s" "b_host ?s2 = b_host s" for ps
    by simp_all
  have "l_out (b_link ?s2) = cmd # (if out = [] then [] else [out])" using assms(1) by (simp add: idle_def)
  from server_turn_command [OF this cmd, of os r h1 w1] srv
  have st: "server_turn os ?s2 = ?t" unfolding lnk by blast
  have l: "length (enc_resp rs) = 16" by (rule resp_struct.length_enc)
  then have ne: "enc_resp rs \<noteq> []" by auto
  have "l_in (b_link ?s2) = []" using assms(1) by (simp add: push_def idle_def)
  then have rd: "read_data (link_kern os) 16 16 ?s2 = Inr ((16, enc_resp rs),
      ?t\<lparr>b_link := w1\<lparr>l_in := (if extralen (resp_cmd rs) = 0 then [] else [ind])\<rparr>\<rparr>)"
    using read_data_turn [of ?s2 os "enc_resp rs" "if extralen (resp_cmd rs) = 0 then [] else [ind]" 16]
      read_data_packet [of ?t "enc_resp rs" "if extralen (resp_cmd rs) = 0 then [] else [ind]" 16 os] st resp(2) l ne
    by (auto simp: TX_BUF_def)
  have dc: "dec_cmd (enc_resp rs) = resp_cmd rs" by (simp add: enc_resp_def cmd_struct.dec_enc_append)
  have body: "command_xchg (link_kern os) cmd 16 out cap inlen s = xchg_body (link_kern os) cmd 16 out cap inlen s"
    by (simp add: command_xchg_def split: sum.splits prod.splits)
  note steps = xchg_body_steps [OF w wo, of 16, simplified, OF rd [simplified], unfolded dc, OF resp(3)]
  show ?thesis
  proof (cases "extralen (resp_cmd rs) = 0")
    case True
    then show ?thesis using resp by (simp add: body steps idle_def)
  next
    case False
    let ?u = "?t\<lparr>b_link := w1\<lparr>l_in := [ind]\<rparr>\<rparr>"
    have i: "extralen (resp_cmd rs) = of_nat (length ind)" "0 < length ind" "length ind \<le> TX_BUF"
      "length ind \<le> cap" "0 < inlen" using ind [OF False] by auto
    have sz: "nat (sint (of_nat (length ind) :: u32)) = length ind"
      using i(3) sint_small [of "length ind"] by (simp add: TX_BUF_def)
    have rd2: "read_data (link_kern os) cap (length ind) ?u = Inr ((int (length ind), ind),
        ?u\<lparr>b_link := (b_link ?u)\<lparr>l_in := []\<rparr>\<rparr>)"
      using i by (intro read_data_packet) auto
    have "extralen (resp_cmd rs) > 0" using False by (simp add: word_neq_0_conv)
    then show ?thesis using resp i sz rd2 False by (simp add: body steps idle_def)
  qed
qed

end
