(* ===== verification/LinkProps.thy ===== *)
theory LinkProps
  imports Link
begin

text \<open>
  End-to-end properties: what a program on the PSP reads, writes and opens through the driver is
  what the PC's file system holds, receives and is asked for.
\<close>

section \<open>The file system behind the link\<close>

lemma delivers_lift:
  "delivers rd rest patience \<Longrightarrow> delivers (\<lambda>n. lift (rd n)) (\<lambda>w. rest (l_fs w)) (\<lambda>w. patience (l_fs w))"
  unfolding delivers_def lift_def by (auto split: prod.splits sum.splits)

lemma accepts_lift:
  "accepts wr sink patience \<Longrightarrow> accepts (\<lambda>bs. lift (wr bs)) (\<lambda>w. sink (l_fs w)) (\<lambda>w. patience (l_fs w))"
  unfolding accepts_def lift_def by (auto split: prod.splits sum.splits)

lemma lift_frame: "(\<lambda>w. (l_out w, l_in w)) (snd (lift f w)) = (\<lambda>w. (l_out w, l_in w)) w"
  by (simp add: lift_def split: prod.splits)

lemma link_fun: "os_read (link_os os) fd = (\<lambda>n. lift (os_read os fd n))"
  "os_write (link_os os) fd = (\<lambda>bs. lift (os_write os fd bs))"
  by (auto simp: fun_eq_iff)

lemma cmd_of_enc:
  "dec_cmd (enc_read c @ r) = read_cmd c" "dec_cmd (enc_id i @ r) = id_cmd i" "dec_cmd (enc_open e @ r) = open_cmd e"
  "dec_cmd (enc_fs f @ r) = fs_cmd f"
  by (simp_all add: enc_read_def enc_id_def enc_open_def enc_fs_def cmd_struct.dec_enc_append)

lemma cmd_of_enc_exact:
  "dec_cmd (enc_read c) = read_cmd c" "dec_cmd (enc_id i) = id_cmd i" "dec_cmd (enc_open e) = open_cmd e"
  "dec_cmd (enc_fs f) = fs_cmd f"
  using cmd_of_enc(1) [of c "[]"] cmd_of_enc(2) [of i "[]"] cmd_of_enc(3) [of e "[]"] cmd_of_enc(4) [of f "[]"]
  by simp_all

section \<open>Reading\<close>

lemma place_Nil [simp]: "place pos [] buf = buf"
  by (simp add: place_def)

lemma read_block_link:
  assumes idle: "idle s" and dlv: "delivers (os_read os fid) rest patience"
    and "fid < MAX_FILES" and "fh_opened (open_files (b_host s) ! fid)"
    and len: "0 < len" "len \<le> HOSTFS_MAX_BLOCK" and room: "xf_pos x + len \<le> length (xf_buf x)"
  defines "c \<equiv> take len (rest (fs_of s))"
  shows "\<exists>s1. read_block (link_kern os) (of_nat fid) len x s
      = Inr ((c \<noteq> [], x\<lparr>xf_buf := place (xf_pos x) c (xf_buf x), xf_pos := xf_pos x + length c,
                          xf_ret := xf_ret x + int (length c)\<rparr>), s1)
    \<and> idle s1 \<and> b_host s1 = b_host s \<and> rest (fs_of s1) = drop len (rest (fs_of s))"
proof -
  let ?cmd = "enc_read \<lparr>read_cmd = hdr CMD_READ 0, read_fid = of_nat fid, read_len = of_nat len\<rparr>"
  let ?w = "(b_link s)\<lparr>l_out := []\<rparr>"
  let ?rs = "mk_resp CMD_READ (of_nat (length c)) (of_nat (length c))"
  have c: "length c \<le> len" "length c = min len (length (rest (l_fs ?w)))" "c = take len (rest (l_fs ?w))"
    by (simp_all add: c_def fs_of_def)
  have d: "delivers (os_read (link_os os) fid) (\<lambda>w. rest (l_fs w)) (\<lambda>w. patience (l_fs w))"
    unfolding link_fun using dlv by (rule delivers_lift)
  obtain w1 k where h: "handle_read (link_os os) (?cmd @ drop 20 (b_buf s)) 20 (b_host s) ?w
      = send_resp_data (link_os os) ?rs c (b_host s) w1"
    and r1: "rest (l_fs w1) = drop len (rest (fs_of s))"
    and fr: "fixed_read (os_read (link_os os) fid) len [] ?w = Some (k, w1)"
    using handle_read_file [OF d assms(3,4) len, of "hdr CMD_READ 0" "drop 20 (b_buf s)" ?w] c
    by (auto simp: fs_of_def)
  have q: "l_out w1 = []" "l_in w1 = []"
    using fixed_read_frame [of "\<lambda>w. (l_out w, l_in w)" "os_read (link_os os) fid", OF _ fr]
      lift_frame idle by (auto simp: link_fun idle_def lift_def split: prod.splits)
  let ?w2 = "w1\<lparr>l_in := enc_resp ?rs # (if of_nat (length c) = (0::u32) then [] else [c])\<rparr>"
  have lc: "(of_nat (length c) :: u32) = 0 \<longleftrightarrow> c = []"
  proof -
    have "length c < 2 ^ 32" using c(1) len(2) by (simp add: HOSTFS_MAX_BLOCK_def)
    then show ?thesis using nat_dvd_not_less [of "length c" "2 ^ 32"]
      by (auto simp: word_of_nat_eq_0_iff)
  qed
  have l20: "length ?cmd = 20" by (rule read_struct.length_enc)
  have "\<exists>r. send_resp_data (link_os os) ?rs c (b_host s) w1 = Inr (r, b_host s, ?w2)"
    using q lc by (auto simp: send_resp_data_def euid_usb_bulk_write_def mk_resp_def word_neq_0_conv [symmetric])
  then obtain r where srv: "do_hostfs (link_os os) (?cmd @ drop (length ?cmd) (b_buf s)) (length ?cmd) (b_host s)
      ((b_link s)\<lparr>l_out := (if ([] :: bytes) = [] then [] else [[]])\<rparr>) = Inr (r, b_host s, ?w2)"
    using h l20 by (auto simp: do_hostfs_def cmd_of_enc hdr_def)
  have fit: "length c \<le> length (xf_buf x) - xf_pos x" using c(1) room by simp
  obtain s1 where x: "command_xchg (link_kern os) ?cmd 16 [] (length (xf_buf x) - xf_pos x) (int len) s
      = Inr (Some (enc_resp ?rs, c), s1)"
    and s1: "idle s1" "b_host s1 = b_host s" "l_fs (b_link s1) = l_fs ?w2"
    using xchg_link [OF idle _ _ _ _ srv, of ?rs c "length (xf_buf x) - xf_pos x" "int len"] q lc c(1) len fit l20
    by (auto simp: cmd_of_enc_exact hdr_def mk_resp_def TX_BUF_def HOSTFS_MAX_BLOCK_def split: if_splits)
  have res: "sint (resp_res (dec_resp (enc_resp ?rs))) = int (length c)"
    using c(1) len(2) by (simp add: resp_struct.dec_enc mk_resp_def sint_small HOSTFS_MAX_BLOCK_def)
  show ?thesis
    using x res s1 r1 by (auto simp: read_block_def Let_def fs_of_def)
qed

lemma length_place: "pos + length bs \<le> length buf \<Longrightarrow> length (place pos bs buf) = length buf"
  by (simp add: place_def)

lemma place_place:
  "pos + length a \<le> length buf \<Longrightarrow> place (pos + length a) b (place pos a buf) = place pos (a @ b) buf"
  by (simp add: place_def drop_drop add.commute add.left_commute)

definition adv :: "bytes \<Rightarrow> xfer \<Rightarrow> xfer" where
  "adv c x = x\<lparr>xf_buf := place (xf_pos x) c (xf_buf x), xf_pos := xf_pos x + length c,
     xf_ret := xf_ret x + int (length c)\<rparr>"

lemma adv_adv: "xf_pos x + length a \<le> length (xf_buf x) \<Longrightarrow> adv b (adv a x) = adv (a @ b) x"
  by (simp add: adv_def place_place)

lemma adv_Nil [simp]: "adv [] x = x"
  by (simp add: adv_def)

lemma read_blocks_link:
  assumes "idle s" and dlv: "delivers (os_read os fid) rest patience"
    and fid: "fid < MAX_FILES" and "fh_opened (open_files (b_host s) ! fid)"
    and "xf_pos x + n * HOSTFS_MAX_BLOCK \<le> length (xf_buf x)"
  shows "\<exists>d s1. read_blocks (link_kern os) (of_nat fid) n x s
      = Inr ((d, adv (take (n * HOSTFS_MAX_BLOCK) (rest (fs_of s))) x), s1)
    \<and> idle s1 \<and> b_host s1 = b_host s \<and> rest (fs_of s1) = drop (n * HOSTFS_MAX_BLOCK) (rest (fs_of s))
    \<and> (d \<or> rest (fs_of s1) = [])"
  using assms(1,4,5)
proof (induction n arbitrary: x s)
  case 0
  then show ?case by (intro exI [of _ True] exI [of _ s]) simp
next
  case (Suc n)
  let ?B = HOSTFS_MAX_BLOCK and ?r = "rest (fs_of s)"
  let ?c = "take ?B ?r"
  have "xf_pos x + ?B \<le> length (xf_buf x)" using Suc.prems(3) by simp
  from read_block_link [OF Suc.prems(1) dlv fid Suc.prems(2) _ _ this]
  obtain s1 where b: "read_block (link_kern os) (of_nat fid) ?B x s = Inr ((?c \<noteq> [], adv ?c x), s1)"
    and s1: "idle s1" "b_host s1 = b_host s" "rest (fs_of s1) = drop ?B ?r"
    by (auto simp: HOSTFS_MAX_BLOCK_def adv_def)
  show ?case
  proof (cases "?r = []")
    case True
    then show ?thesis using b s1 by (intro exI [of _ False] exI [of _ s1]) simp
  next
    case False
    then have c: "?c \<noteq> []" by (simp add: HOSTFS_MAX_BLOCK_def)
    have lc: "xf_pos x + length ?c \<le> length (xf_buf x)" "length ?c \<le> ?B" using Suc.prems(3) by auto
    then have "xf_pos (adv ?c x) + n * ?B \<le> length (xf_buf (adv ?c x))"
      using Suc.prems(3) by (simp add: adv_def length_place)
    from Suc.IH [OF s1(1) _ this] Suc.prems(2) s1(2,3) obtain d s2 where
      r: "read_blocks (link_kern os) (of_nat fid) n (adv ?c x) s1 = Inr ((d, adv (take (n * ?B) (drop ?B ?r)) (adv ?c x)), s2)"
      and s2: "idle s2" "b_host s2 = b_host s" "rest (fs_of s2) = drop (n * ?B) (drop ?B ?r)" "d \<or> rest (fs_of s2) = []"
      by auto
    have "take (Suc n * ?B) ?r = ?c @ take (n * ?B) (drop ?B ?r)" by (simp add: take_add)
    then have "adv (take (n * ?B) (drop ?B ?r)) (adv ?c x) = adv (take (Suc n * ?B) ?r) x"
      using lc by (simp add: adv_adv)
    moreover have "drop (n * ?B) (drop ?B ?r) = drop (Suc n * ?B) ?r" by (simp add: add.commute)
    ultimately show ?thesis using b c r s2 by (intro exI [of _ d] exI [of _ s2]) simp
  qed
qed

text \<open>C1: End to end: a program on the PSP that reads len bytes of an open file of the PC gets
  exactly the next len bytes of the file (fewer only at its end), at the start of its buffer and
  nowhere else, with their number as the result, over any number of 64 KB blocks, whatever partial
  reads and interruptions happen on the PC; the PC's file is left positioned after them, and its
  tables as they were.\<close>

theorem psp_read_returns_file:
  assumes "idle s" and "delivers (os_read os fid) rest patience"
    and "fid < MAX_FILES" and "fh_opened (open_files (b_host s) ! fid)"
    and "0 < len" and "length buf = len"
  shows "\<exists>s1. usb_read_data (link_kern os) (of_nat fid) (Some buf) (int len) s
      = Inr ((int (length (take len (rest (fs_of s)))),
              take len (rest (fs_of s)) @ drop (length (take len (rest (fs_of s)))) buf), s1)
    \<and> idle s1 \<and> b_host s1 = b_host s \<and> rest (fs_of s1) = drop len (rest (fs_of s))"
proof -
  let ?B = HOSTFS_MAX_BLOCK and ?r = "rest (fs_of s)"
  let ?n = "len div ?B" and ?m = "len mod ?B"
  let ?x = "\<lparr>xf_buf = buf, xf_pos = 0, xf_ret = 0\<rparr>"
  have len: "?n * ?B + ?m = len" by simp
  have "xf_pos ?x + ?n * ?B \<le> length (xf_buf ?x)" using len assms(6) by simp
  from read_blocks_link [OF assms(1-4) this] obtain d s1 where
    r: "read_blocks (link_kern os) (of_nat fid) ?n ?x s = Inr ((d, adv (take (?n * ?B) ?r) ?x), s1)"
    and s1: "idle s1" "b_host s1 = b_host s" "rest (fs_of s1) = drop (?n * ?B) ?r" "d \<or> rest (fs_of s1) = []"
    by blast
  have fin: "adv (take len ?r) ?x = \<lparr>xf_buf = take len ?r @ drop (length (take len ?r)) buf,
      xf_pos = length (take len ?r), xf_ret = int (length (take len ?r))\<rparr>"
    by (simp add: adv_def place_def)
  show ?thesis
  proof (cases "d \<and> 0 < ?m")
    case False
    have "take (?n * ?B) ?r = take len ?r \<and> drop (?n * ?B) ?r = drop len ?r"
    proof (cases d)
      case True
      then have "?n * ?B = len" using False len by simp
      then show ?thesis by simp
    next
      case False
      then have "length ?r \<le> ?n * ?B" using s1(3,4) by simp
      moreover have "?n * ?B \<le> len" using len by linarith
      ultimately have "length ?r \<le> ?n * ?B" "length ?r \<le> len" by linarith+
      then show ?thesis by (simp only: take_all drop_all)
    qed
    then show ?thesis using r s1 False fin assms(5) by (auto simp: usb_read_data_def Let_def nat_div_distrib)
  next
    case True
    let ?x1 = "adv (take (?n * ?B) ?r) ?x"
    have "length (take (?n * ?B) ?r) \<le> ?n * ?B" by simp
    with len have lt: "length (take (?n * ?B) ?r) + ?m \<le> len" by linarith
    then have "xf_pos ?x1 + ?m \<le> length (xf_buf ?x1)"
      using assms(6) by (simp add: adv_def length_place)
    moreover have "?m \<le> ?B" by (simp add: HOSTFS_MAX_BLOCK_def)
    ultimately obtain s2 where
      b: "read_block (link_kern os) (of_nat fid) ?m ?x1 s1 = Inr ((take ?m (drop (?n * ?B) ?r) \<noteq> [],
          adv (take ?m (drop (?n * ?B) ?r)) ?x1), s2)"
      and s2: "idle s2" "b_host s2 = b_host s" "rest (fs_of s2) = drop ?m (drop (?n * ?B) ?r)"
      using read_block_link [OF s1(1) assms(2,3), of ?m ?x1] assms(4) s1(2,3) True by (auto simp: adv_def)
    have "take len ?r = take (?n * ?B) ?r @ take ?m (drop (?n * ?B) ?r)"
      by (metis len take_add)
    moreover have "xf_pos ?x + length (take (?n * ?B) ?r) \<le> length (xf_buf ?x)"
      using lt assms(6) by (simp del: length_take)
    ultimately have "adv (take ?m (drop (?n * ?B) ?r)) ?x1 = adv (take len ?r) ?x"
      using adv_adv by metis
    moreover have "drop ?m (drop (?n * ?B) ?r) = drop len ?r" by (metis add.commute drop_drop len)
    ultimately show ?thesis using r b s2 True fin assms(5)
      by (intro exI [of _ s2]) (simp add: usb_read_data_def Let_def nat_div_distrib nat_mod_distrib)
  qed
qed

text \<open>The demo world on both ends of the cable, with descriptor 3 open.\<close>

definition demo_both :: "demo both" where
  "demo_both = \<lparr>b_buf = replicate 512 0, b_host = demo_open,
     b_link = \<lparr>l_out = [], l_in = [], l_fs = demo_world\<rparr>\<rparr>"

lemma demo_both_idle: "idle demo_both" "fh_opened (open_files (b_host demo_both) ! 3)"
  by (simp_all add: idle_def demo_both_def)

theorem psp_read_returns_file_witness:
  "\<exists>s1. usb_read_data (link_kern demo_os) (of_nat 3) (Some [0, 0, 0, 9]) (int 4) demo_both
      = Inr ((4, [1, 2, 3, 4]), s1) \<and> d_rest (fs_of s1) = [5]"
proof -
  have d: "delivers (os_read demo_os 3) d_rest d_eintr" by (simp add: demo_delivers)
  have f: "d_rest (fs_of demo_both) = [1, 2, 3, 4, 5]" by (simp add: fs_of_def demo_both_def demo_world_def)
  from psp_read_returns_file [OF demo_both_idle(1) d _ demo_both_idle(2), of 4 "[0, 0, 0, 9]"] f
  show ?thesis by (auto simp: MAX_FILES_def)
qed

section \<open>Writing\<close>

lemma usb_read_link:
  "os_usb_read (link_os os) ep m (w\<lparr>l_out := p # ps\<rparr>) = ((int (length p), p), w\<lparr>l_out := ps\<rparr>)"
  by simp

lemma write_block_link:
  assumes idle: "idle s" and acc: "accepts (os_write os fid) sink patience"
    and fid: "fid < MAX_FILES" and op: "fh_opened (open_files (b_host s) ! fid)"
    and len: "0 < len" "len \<le> HOSTFS_MAX_BLOCK" and room: "pos + len \<le> length data"
  shows "\<exists>s1. write_block (link_kern os) (of_nat fid) data len pos ret s
      = Inr ((True, pos + len, ret + int len), s1)
    \<and> idle s1 \<and> b_host s1 = b_host s \<and> sink (fs_of s1) = sink (fs_of s) @ take len (drop pos data)"
proof -
  let ?out = "take len (drop pos data)"
  let ?cmd = "enc_id \<lparr>id_cmd = hdr CMD_WRITE (of_nat len), id_val = of_nat fid\<rparr>"
  let ?w = "(b_link s)\<lparr>l_out := [?out]\<rparr>" and ?v = "(b_link s)\<lparr>l_out := []\<rparr>"
  let ?rs = "mk_resp CMD_WRITE 0 (of_nat len)"
  have lo: "length ?out = len" and pl: "pos < length data" using room len(1) by simp_all
  then have ne: "?out \<noteq> []" using len(1) by (metis length_0_conv less_nat_zero_code)
  have a: "accepts (os_write (link_os os) fid) (\<lambda>w. sink (l_fs w)) (\<lambda>w. patience (l_fs w))"
    unfolding link_fun using acc by (rule accepts_lift)
  have us: "os_usb_read (link_os os) 0x81 m ?w = ((int (length ?out), ?out), ?v)" for m
    by (rule usb_read_link)
  obtain w2 k where h: "handle_write (link_os os) (?cmd @ drop 16 (b_buf s)) 16 (b_host s) ?w
      = send_resp (link_os os) ?rs (b_host s) w2"
    and sk: "sink (l_fs w2) = sink (fs_of s) @ ?out"
    and fr: "fixed_write (os_write (link_os os) fid) ?out 0 ?v = Some (k, w2)"
    using handle_write_file [OF a us fid op, of HOSTFS_MAGIC "cmd_num CMD_WRITE" "drop 16 (b_buf s)"] lo len pl
    by (auto simp: fs_of_def hdr_def)
  have q: "l_out w2 = []" "l_in w2 = []"
    using fixed_write_frame [of "\<lambda>w. (l_out w, l_in w)" "os_write (link_os os) fid", OF _ fr]
      lift_frame idle by (auto simp: link_fun idle_def lift_def split: prod.splits)
  have l16: "length ?cmd = 16" by (rule id_struct.length_enc)
  have "\<exists>r. send_resp (link_os os) ?rs (b_host s) w2 = Inr (r, b_host s, w2\<lparr>l_in := [enc_resp ?rs]\<rparr>)"
    using q by (simp add: send_resp_def euid_usb_bulk_write_def)
  then obtain r where srv: "do_hostfs (link_os os) (?cmd @ drop (length ?cmd) (b_buf s)) (length ?cmd) (b_host s)
      ((b_link s)\<lparr>l_out := (if ?out = [] then [] else [?out])\<rparr>) = Inr (r, b_host s, w2\<lparr>l_in := [enc_resp ?rs]\<rparr>)"
    using h l16 ne by (auto simp: do_hostfs_def cmd_of_enc hdr_def)
  obtain s1 where x: "command_xchg (link_kern os) ?cmd 16 ?out 0 0 s = Inr (Some (enc_resp ?rs, []), s1)"
    and s1: "idle s1" "b_host s1 = b_host s" "l_fs (b_link s1) = l_fs w2"
    using xchg_link [OF idle _ _ _ _ srv, of ?rs "[]" 0 0] q len lo l16
    by (auto simp: cmd_of_enc_exact hdr_def mk_resp_def TX_BUF_def HOSTFS_MAX_BLOCK_def)
  have res: "sint (resp_res (dec_resp (enc_resp ?rs))) = int len"
    using len(2) by (simp add: resp_struct.dec_enc mk_resp_def sint_small HOSTFS_MAX_BLOCK_def)
  show ?thesis
    using x res s1 sk room len by (auto simp: write_block_def Let_def fs_of_def)
qed

lemma write_blocks_link:
  assumes "idle s" and acc: "accepts (os_write os fid) sink patience"
    and fid: "fid < MAX_FILES" and "fh_opened (open_files (b_host s) ! fid)"
    and "pos + n * HOSTFS_MAX_BLOCK \<le> length data"
  shows "\<exists>s1. write_blocks (link_kern os) (of_nat fid) data n pos ret s
      = Inr ((True, pos + n * HOSTFS_MAX_BLOCK, ret + int (n * HOSTFS_MAX_BLOCK)), s1)
    \<and> idle s1 \<and> b_host s1 = b_host s
    \<and> sink (fs_of s1) = sink (fs_of s) @ take (n * HOSTFS_MAX_BLOCK) (drop pos data)"
  using assms(1,4,5)
proof (induction n arbitrary: pos ret s)
  case 0
  then show ?case by simp
next
  case (Suc n)
  let ?B = HOSTFS_MAX_BLOCK
  have "pos + ?B \<le> length data" using Suc.prems(3) by simp
  from write_block_link [OF Suc.prems(1) acc fid Suc.prems(2) _ _ this, of ret] obtain s1 where
    b: "write_block (link_kern os) (of_nat fid) data ?B pos ret s = Inr ((True, pos + ?B, ret + int ?B), s1)"
    and s1: "idle s1" "b_host s1 = b_host s" "sink (fs_of s1) = sink (fs_of s) @ take ?B (drop pos data)"
    by (auto simp: HOSTFS_MAX_BLOCK_def)
  from Suc.IH [OF s1(1), of "pos + ?B" "ret + int ?B"] s1(2) Suc.prems(2,3) obtain s2 where
    r: "write_blocks (link_kern os) (of_nat fid) data n (pos + ?B) (ret + int ?B) s1
      = Inr ((True, pos + ?B + n * ?B, ret + int ?B + int (n * ?B)), s2)"
    and s2: "idle s2" "b_host s2 = b_host s"
      "sink (fs_of s2) = sink (fs_of s1) @ take (n * ?B) (drop (pos + ?B) data)" by auto
  have "take (Suc n * ?B) (drop pos data) = take ?B (drop pos data) @ take (n * ?B) (drop (pos + ?B) data)"
    by (simp add: take_add add.commute)
  then show ?case using b r s1 s2 by (auto simp: algebra_simps)
qed

text \<open>C2: End to end: a program on the PSP that writes a buffer of any length to an open file of the
  PC gets the length of the buffer as the result, and exactly the bytes of the buffer, in order,
  have been appended to what the file received before, over any number of 64 KB blocks, partial
  writes and interruptions.\<close>

theorem psp_write_stores_data:
  assumes "idle s" and "accepts (os_write os fid) sink patience"
    and "fid < MAX_FILES" and "fh_opened (open_files (b_host s) ! fid)" and "buf \<noteq> []"
  shows "\<exists>s1. usb_write_data (link_kern os) (of_nat fid) (Some buf) (int (length buf)) s = Inr (int (length buf), s1)
    \<and> idle s1 \<and> b_host s1 = b_host s \<and> sink (fs_of s1) = sink (fs_of s) @ buf"
proof -
  let ?B = HOSTFS_MAX_BLOCK
  let ?n = "length buf div ?B" and ?m = "length buf mod ?B"
  have len: "?n * ?B + ?m = length buf" by simp
  then have "0 + ?n * ?B \<le> length buf" by linarith
  from write_blocks_link [OF assms(1-4) this, of 0] obtain s1 where
    r: "write_blocks (link_kern os) (of_nat fid) buf ?n 0 0 s = Inr ((True, ?n * ?B, int (?n * ?B)), s1)"
    and s1: "idle s1" "b_host s1 = b_host s" "sink (fs_of s1) = sink (fs_of s) @ take (?n * ?B) buf"
    by auto
  have nat: "nat (int (length buf)) = length buf" by simp
  show ?thesis
  proof (cases "?m = 0")
    case True
    then have "?n * ?B = length buf" using len by simp
    then show ?thesis using r s1 True assms(5) by (intro exI [of _ s1]) (simp add: usb_write_data_def)
  next
    case False
    then have m: "0 < ?m" "?m \<le> ?B" "?n * ?B + ?m \<le> length buf" using len by (simp_all add: HOSTFS_MAX_BLOCK_def)
    have op1: "fh_opened (open_files (b_host s1) ! fid)" using assms(4) s1(2) by simp
    obtain s2 where
      b: "write_block (link_kern os) (of_nat fid) buf ?m (?n * ?B) (int (?n * ?B)) s1
        = Inr ((True, ?n * ?B + ?m, int (?n * ?B) + int ?m), s2)"
      and s2: "idle s2" "b_host s2 = b_host s" "sink (fs_of s2) = sink (fs_of s1) @ take ?m (drop (?n * ?B) buf)"
      using write_block_link [OF s1(1) assms(2,3) op1 m, of "int (?n * ?B)"] s1(2) by auto
    have "take (?n * ?B) buf @ take ?m (drop (?n * ?B) buf) = buf"
      by (metis append_take_drop_id len length_drop take_all order_refl add_diff_cancel_left')
    moreover have "int (?n * ?B) + int ?m = int (length buf)" using len by linarith
    moreover have "usb_write_data (link_kern os) (of_nat fid) (Some buf) (int (length buf)) s
        = Inr (int (?n * ?B) + int ?m, s2)"
      using r b m(1) assms(5) by (simp add: usb_write_data_def Let_def)
    ultimately show ?thesis using s1 s2 by (intro exI [of _ s2]) (simp only: append.assoc)
  qed
qed

theorem psp_write_stores_data_witness:
  "\<exists>s1. usb_write_data (link_kern demo_os) (of_nat 3) (Some [7, 8, 9]) (int 3) demo_both = Inr (3, s1)
    \<and> d_file (fs_of s1) = [7, 8, 9]"
proof -
  have a: "accepts (os_write demo_os 3) d_file d_eintr" by (simp add: demo_accepts)
  have f: "d_file (fs_of demo_both) = []" by (simp add: fs_of_def demo_both_def demo_world_def)
  from psp_write_stores_data [OF demo_both_idle(1) a _ demo_both_idle(2), of "[7, 8, 9]"] f
  show ?thesis by (auto simp: MAX_FILES_def)
qed

section \<open>Names\<close>

text \<open>The PC's operations on the file system do not see the cable.\<close>

lemma lift_split: "(case lift f w of (r, w1) \<Rightarrow> P r w1) = (case f (l_fs w) of (r, v) \<Rightarrow> P r (w\<lparr>l_fs := v\<rparr>))"
  by (simp add: lift_def split: prod.splits)

lemma link_ops:
  "os_lock (link_os os) = lift (os_lock os)" "os_readdir (link_os os) p = lift (os_readdir os p)"
  "os_stat (link_os os) p = lift (os_stat os p)" "os_open (link_os os) p f m = lift (os_open os p f m)"
  "os_close (link_os os) fd = lift (os_close os fd)" "os_localtime (link_os os) = os_localtime os"
  by (simp_all add: link_os_def)

lemma find_nocase_link: "find_nocase (link_os os) r p t w = lift (find_nocase os r p t) w"
  unfolding find_nocase_def link_ops lift_def
  by (cases "snprintf PATH_MAX (r @ p)") (auto split: prod.splits option.splits simp: Let_def)

lemma nocase_loop_link: "nocase_loop (link_os os) r d ts p w = lift (nocase_loop os r d ts p) w"
proof (induction ts arbitrary: p w)
  case (Cons t ts)
  obtain found u v where f: "find_nocase os r p t (l_fs w) = ((found, u), v)" by (metis prod_cases3 surj_pair)
  then have "find_nocase (link_os os) r p t w = ((found, u), w\<lparr>l_fs := v\<rparr>)" by (simp add: find_nocase_link lift_def)
  then show ?case using f Cons.IH [of "p @ u @ (if d \<or> ts \<noteq> [] then ''/'' else [])" "w\<lparr>l_fs := v\<rparr>"]
    by (simp only: nocase_loop.simps lift_def prod.case) (auto split: prod.splits)
qed (simp add: lift_def)

lemma make_nocase_link: "make_nocase (link_os os) r p d w = lift (make_nocase os r p d) w"
  by (auto simp: make_nocase_def nocase_loop_link lift_def split: prod.splits option.splits)

lemma make_path_link:
  "make_path (link_os os) h d p b w = (case make_path os h d p b (l_fs w) of
     Inl f \<Rightarrow> Inl f | Inr (r, v) \<Rightarrow> Inr (r, w\<lparr>l_fs := v\<rparr>))"
  by (auto simp: make_path_def Let_def link_ops lift_def make_nocase_link split: prod.splits)

lemma open_file_link:
  "open_file (link_os os) h d p m k w = (case open_file os h d p m k (l_fs w) of
     Inl f \<Rightarrow> Inl f | Inr (r, h1, v) \<Rightarrow> Inr (r, h1, w\<lparr>l_fs := v\<rparr>))"
  by (auto simp: open_file_def make_path_link is_dir_def link_ops lift_def
      split: prod.splits sum.splits option.splits bool.splits)

lemma fill_stat_link:
  "fill_stat (link_os os) None p w = (case fill_stat os None p (l_fs w) of (r, v) \<Rightarrow> (r, w\<lparr>l_fs := v\<rparr>))"
  by (auto simp: fill_stat_def fill_time_def link_ops lift_def Let_def split: prod.splits sum.splits)

text \<open>A name that fits the PC's buffer arrives whole.\<close>

lemma recv_path_link:
  assumes "no_nul f" and "length f < HOSTFS_PATHMAX" and "extralen c = strlen1 f"
  shows "recv_path (link_os os) c (w\<lparr>l_out := [cbytes f]\<rparr>) = Inr (Inr f, w\<lparr>l_out := []\<rparr>)"
proof -
  have "(of_nat (length f + 1) :: u32) \<noteq> 0"
    using assms(2) nat_dvd_not_less [of "length f + 1" "2 ^ 32"] unfolding word_of_nat_eq_0_iff by (auto simp: HOSTFS_PATHMAX_def)
  then have "(1 + of_nat (length f) :: u32) \<noteq> 0" by (simp only: of_nat_add of_nat_1 add.commute not_False_eq_True)
  then show ?thesis using assms
    by (simp add: recv_path_def euid_usb_bulk_read_def strlen1_def)
qed

text \<open>C3: End to end: opening a file on the PSP performs, on the PC, exactly the open of the same name,
  drive, mode and mask, whatever its outcome; the program gets the descriptor, or the error of the
  PC, and the PC's tables and file system are those after that open.\<close>

theorem psp_open_reaches_host:
  assumes "idle s" and "no_nul f" and "length f < HOSTFS_PATHMAX"
    and "open_file os (b_host s) fsn f mode msk (fs_of s) = Inr (res, h1, v)"
  shows "\<exists>s1. io_open (link_kern os) fsn (Some f) mode msk s = Inr (open_res (sint res), s1)
    \<and> idle s1 \<and> b_host s1 = h1 \<and> fs_of s1 = v"
proof -
  let ?c = "\<lparr>open_cmd = hdr CMD_OPEN (strlen1 f), open_mode = mode, open_mask = msk, open_fsnum = fsn\<rparr>"
  let ?cmd = "enc_open ?c" and ?rs = "mk_resp CMD_OPEN 0 res"
  let ?w1 = "(b_link s)\<lparr>l_out := [], l_fs := v, l_in := [enc_resp ?rs]\<rparr>"
  have l24: "length ?cmd = 24" by (rule open_struct.length_enc)
  have ne: "cbytes f \<noteq> []" by (simp add: cbytes_def)
  have rp: "recv_path (link_os os) (hdr CMD_OPEN (strlen1 f)) ((b_link s)\<lparr>l_out := [cbytes f]\<rparr>)
      = Inr (Inr f, (b_link s)\<lparr>l_out := []\<rparr>)"
    by (rule recv_path_link [OF assms(2,3)]) (simp add: hdr_def)
  have "\<exists>r. handle_open (link_os os) (?cmd @ drop 24 (b_buf s)) 24 (b_host s) ((b_link s)\<lparr>l_out := [cbytes f]\<rparr>)
      = Inr (r, h1, ?w1)"
    using assms(1,4) rp by (simp add: handle_open_def open_struct.dec_enc_append Let_def open_file_link fs_of_def
        send_resp_def euid_usb_bulk_write_def idle_def)
  then obtain r where srv: "do_hostfs (link_os os) (?cmd @ drop (length ?cmd) (b_buf s)) (length ?cmd) (b_host s)
      ((b_link s)\<lparr>l_out := (if cbytes f = [] then [] else [cbytes f])\<rparr>) = Inr (r, h1, ?w1)"
    using l24 ne by (auto simp: do_hostfs_def cmd_of_enc hdr_def)
  obtain s1 where x: "command_xchg (link_kern os) ?cmd 16 (cbytes f) 0 0 s = Inr (Some (enc_resp ?rs, []), s1)"
    and s1: "idle s1" "b_host s1 = h1" "l_fs (b_link s1) = v"
    using xchg_link [OF assms(1) _ _ _ _ srv, of ?rs "[]" 0 0] assms(3) l24
    by (auto simp: cmd_of_enc_exact hdr_def mk_resp_def TX_BUF_def HOSTFS_PATHMAX_def)
  show ?thesis
    using x s1 by (simp add: io_open_def xchg_res_def resp_struct.dec_enc mk_resp_def fs_of_def)
qed

lemma demo_io_open:
  "open_file demo_os demo_open 0 ''a'' 1 0 demo_world = Inr (3, demo_open\<lparr>open_files := (open_files demo_open)[3 :=
     \<lparr>fh_opened = True, fh_mode = 1, fh_name = Some ''/psp/a''\<rparr>]\<rparr>, demo_world)"
proof -
  have "make_path demo_os demo_open 0 ''a'' False demo_world = Inr (Some ''/psp/a'', demo_world)" by code_simp
  then show ?thesis
    by (simp add: open_file_def real_mode_def PSP_O_RDWR_def PSP_O_RDONLY_def PSP_O_WRONLY_def is_dir_def
        demo_os_def demo_stat_def S_ISDIR_def MAX_FILES_def)
qed

theorem psp_open_reaches_host_witness:
  "\<exists>s1. io_open (link_kern demo_os) 0 (Some ''a'') 1 0 demo_both = Inr ((Some 3, 0), s1) \<and> idle s1"
proof -
  have "open_file demo_os (b_host demo_both) 0 ''a'' 1 0 (fs_of demo_both) = Inr (3, demo_open\<lparr>open_files :=
     (open_files demo_open)[3 := \<lparr>fh_opened = True, fh_mode = 1, fh_name = Some ''/psp/a''\<rparr>]\<rparr>, demo_world)"
    using demo_io_open by (simp add: demo_both_def fs_of_def)
  from psp_open_reaches_host [OF demo_both_idle(1) _ _ this]
  show ?thesis by (auto simp: no_nul_def HOSTFS_PATHMAX_def open_res_def s32_def)
qed

end
