(* ===== verification/UsbThread.thy ===== *)
theory UsbThread
  imports PspUsb AsyncProps
begin

text \<open>
  The USB thread of the PSP driver (\<^verbatim>\<open>usbhostfs/main.c\<close>): the callbacks of the USB bus set bits
  of the event flag \<^verbatim>\<open>g_mainevent\<close>, the thread waits on them, takes in asynchronous packets,
  and makes and drops the connection with the PC. Callbacks and turns of the thread are the steps
  of a relation; they interleave in any order, a turn being one step.
\<close>

section \<open>State\<close>

text \<open>
  \<open>u_attach\<close>, \<open>u_detach\<close>, \<open>u_async\<close>, \<open>u_connect\<close>: the bits of \<^verbatim>\<open>g_mainevent\<close>. \<open>u_armed\<close>: a
  request for asynchronous data is with the USB bus. \<open>u_retcode\<close>, \<open>u_data\<close>: the \<^verbatim>\<open>retcode\<close> of
  \<^verbatim>\<open>g_async_req\<close> and the \<^verbatim>\<open>recvsize\<close> bytes received into \<^verbatim>\<open>async_data\<close>. \<open>u_readers\<close>: the
  readers of the channels between their wait and their copy.
\<close>

record 'k uthread =
  u_attach :: bool
  u_detach :: bool
  u_async :: bool
  u_connect :: bool
  g_connected :: bool
  u_armed :: bool
  u_retcode :: int
  u_data :: bytes
  u_chans :: async
  u_readers :: "(u32 \<times> int) list"
  u_exited :: bool
  u_k :: 'k

section \<open>Callbacks\<close>

definition usb_attach :: "'k uthread \<Rightarrow> 'k uthread" where
  "usb_attach s = s\<lparr>u_attach := True\<rparr>"

definition usb_detach :: "'k uthread \<Rightarrow> 'k uthread" where
  "usb_detach s = s\<lparr>u_detach := True\<rparr>"

definition async_req_done :: "int \<Rightarrow> bytes \<Rightarrow> 'k uthread \<Rightarrow> 'k uthread" where
  "async_req_done retcode bs s = s\<lparr>u_armed := False, u_retcode := retcode, u_data := bs, u_async := True\<rparr>"

section \<open>The thread\<close>

text \<open>\<^verbatim>\<open>async_data\<close> is aligned to a cache line, so the check of the alignment passes.\<close>

definition set_ayncreq :: "'k uthread \<Rightarrow> 'k uthread" where
  "set_ayncreq s = s\<lparr>u_retcode := 0, u_data := [], u_async := False, u_armed := True\<rparr>"

definition async_turn :: "'k uthread \<Rightarrow> 'k uthread" where
  "async_turn s =
     (if u_retcode s = 0 \<and> length (u_data s) > 0
      then set_ayncreq (s\<lparr>u_chans := fill_async (u_data s) (length (u_data s)) (u_chans s)\<rparr>) else s)"

definition drop_connection :: "'k uthread \<Rightarrow> 'k uthread" where
  "drop_connection s = s\<lparr>g_connected := False, u_connect := False\<rparr>"

text \<open>The attach branch: the PC opens with the magic number, the driver answers with a hello.\<close>

definition attach_turn :: "'k kern \<Rightarrow> 'k uthread \<Rightarrow> 'k uthread run" where
  "attach_turn kn s =
     (let s1 = drop_connection s in
      case read_data kn 4 4 (u_k s1) of
        Inl f \<Rightarrow> Inl f
      | Inr ((n, bs), k1) \<Rightarrow>
          if n = 4 then
            if rd32 0 bs = HOSTFS_MAGIC then
              (case send_hello_cmd kn k1 of
                 Inl f \<Rightarrow> Inl f
               | Inr (ok, k2) \<Rightarrow>
                   if ok then Inr ((set_ayncreq (s1\<lparr>u_k := k2\<rparr>))\<lparr>g_connected := True, u_connect := True\<rparr>)
                   else Inr (s1\<lparr>u_k := k2\<rparr>))
            else Inr (s1\<lparr>u_k := k1\<rparr>)
          else Inr (s1\<lparr>u_k := k1\<rparr>))"

text \<open>One turn of the loop of \<^verbatim>\<open>usb_thread\<close>; \<open>ret\<close> is the result of the wait, which clears the
  bits it waited for.\<close>

definition usb_thread_turn :: "'k kern \<Rightarrow> int \<Rightarrow> 'k uthread \<Rightarrow> 'k uthread run" where
  "usb_thread_turn kn ret s =
     (if ret < 0 then Inr (s\<lparr>u_exited := True\<rparr>) else
      let s0 = s\<lparr>u_attach := False, u_detach := False, u_async := False\<rparr>;
          s1 = (if u_async s then async_turn s0 else s0);
          s2 = (if u_detach s then drop_connection s1 else s1)
      in if u_attach s then attach_turn kn s2 else Inr s2)"

section \<open>The life of the connection\<close>

text \<open>
  A turn is taken when one of the bits is set. A request completes with at most 512 bytes.
  \<open>owners\<close>: a step of a thread that uses the channels.
\<close>

inductive usb_step :: "'k kern \<Rightarrow> 'k uthread \<Rightarrow> 'k uthread \<Rightarrow> bool" for kn where
  attach: "usb_step kn s (usb_attach s)"
| detach: "usb_step kn s (usb_detach s)"
| req_done: "u_armed s \<Longrightarrow> length bs \<le> 512 \<Longrightarrow> usb_step kn s (async_req_done retcode bs s)"
| turn: "\<not> u_exited s \<Longrightarrow> u_attach s \<or> u_detach s \<or> u_async s \<Longrightarrow>
    usb_thread_turn kn ret s = Inr t \<Longrightarrow> usb_step kn s t"
| owners: "async_step (u_chans s, u_readers s) (c, rs) \<Longrightarrow> usb_step kn s (s\<lparr>u_chans := c, u_readers := rs\<rparr>)"
| other: "usb_step kn s (s\<lparr>u_k := k\<rparr>)"

inductive usb_reach :: "'k kern \<Rightarrow> 'k uthread \<Rightarrow> 'k uthread \<Rightarrow> bool" for kn s0 where
  start: "usb_reach kn s0 s0"
| step: "usb_reach kn s0 s \<Longrightarrow> usb_step kn s t \<Longrightarrow> usb_reach kn s0 t"

definition usb_start :: "async \<Rightarrow> 'k \<Rightarrow> 'k uthread" where
  "usb_start a k = \<lparr>u_attach = False, u_detach = False, u_async = False, u_connect = False,
     g_connected = False, u_armed = False, u_retcode = 0, u_data = [], u_chans = a, u_readers = [], u_exited = False, u_k = k\<rparr>"

definition usb_ok :: "'k uthread \<Rightarrow> bool" where
  "usb_ok s \<longleftrightarrow> g_connected s = u_connect s \<and> \<not> (u_armed s \<and> u_async s) \<and> async_ok (reading (u_readers s)) (u_chans s)
     \<and> (g_connected s \<and> \<not> u_armed s \<and> \<not> u_async s \<longrightarrow> u_retcode s \<noteq> 0 \<or> u_data s = [])"

lemma async_turn_ok:
  "usb_ok s \<Longrightarrow> u_async s \<Longrightarrow> usb_ok (async_turn (s\<lparr>u_attach := a, u_detach := d, u_async := False\<rparr>))"
  by (auto simp: usb_ok_def async_turn_def set_ayncreq_def fill_async_ok)

lemma drop_connection_ok: "usb_ok s \<Longrightarrow> usb_ok (drop_connection s)"
  by (auto simp: usb_ok_def drop_connection_def)

lemma usb_ok_k: "usb_ok s \<Longrightarrow> usb_ok (s\<lparr>u_k := k\<rparr>)"
  by (simp add: usb_ok_def)

lemma connect_ok: "usb_ok s \<Longrightarrow> usb_ok ((set_ayncreq (s\<lparr>u_k := k\<rparr>))\<lparr>g_connected := True, u_connect := True\<rparr>)"
  by (simp add: usb_ok_def set_ayncreq_def)

lemma attach_turn_ok: "usb_ok s \<Longrightarrow> attach_turn kn s = Inr t \<Longrightarrow> usb_ok t"
  using drop_connection_ok [of s] unfolding attach_turn_def Let_def
  by (auto simp del: update_convs split: sum.splits if_splits intro!: usb_ok_k connect_ok)

lemma usb_thread_turn_ok:
  assumes "usb_ok s" and "usb_thread_turn kn ret s = Inr t"
  shows "usb_ok t"
proof (cases "ret < 0")
  case True
  then show ?thesis using assms by (auto simp: usb_thread_turn_def usb_ok_def)
next
  case False
  let ?s0 = "s\<lparr>u_attach := False, u_detach := False, u_async := False\<rparr>"
  define s1 where "s1 = (if u_async s then async_turn ?s0 else ?s0)"
  define s2 where "s2 = (if u_detach s then drop_connection s1 else s1)"
  have "usb_ok s1" using assms(1) async_turn_ok [OF assms(1)] by (auto simp: s1_def usb_ok_def)
  then have "usb_ok s2" by (simp add: s2_def drop_connection_ok)
  moreover have "(if u_attach s then attach_turn kn s2 else Inr s2) = Inr t"
    using assms(2) False by (simp only: usb_thread_turn_def Let_def s1_def s2_def if_False)
  ultimately show ?thesis using attach_turn_ok [of s2 kn t] by (auto split: if_splits)
qed

lemma usb_step_ok: "usb_step kn s t \<Longrightarrow> usb_ok s \<Longrightarrow> usb_ok t"
proof (induction rule: usb_step.induct)
  case (turn s ret t)
  then show ?case using usb_thread_turn_ok by blast
next
  case (owners s c rs)
  then show ?case using async_step_ok [OF owners(1)] by (simp add: usb_ok_def)
qed (auto simp: usb_attach_def usb_detach_def async_req_done_def usb_ok_def)

lemma usb_reach_ok: "usb_reach kn s0 s \<Longrightarrow> usb_ok s0 \<Longrightarrow> usb_ok s"
  by (induction rule: usb_reach.induct) (auto intro: usb_step_ok)


text \<open>A kernel whose PC sends the magic number and answers the hello.\<close>

definition demo_kern :: "bytes list kern" where
  "demo_kern = \<lparr>k_bulkin = (\<lambda>bs k. ((0, 0, length bs), k)),
     k_bulkout = (\<lambda>n k. case k of [] \<Rightarrow> (None, []) | p # ps \<Rightarrow> (Some (0, 0, p), ps)),
     k_wait_sema = (\<lambda>k. (0, k)), k_signal_sema = (\<lambda>k. k), k_connected = (\<lambda>k. True)\<rparr>"

lemma demo_kern_simps [simp]:
  "k_bulkin demo_kern bs k = ((0, 0, length bs), k)" "k_bulkout demo_kern n (p # ps) = (Some (0, 0, p), ps)"
  "k_wait_sema demo_kern k = (0, k)" "k_signal_sema demo_kern k = k"
  by (simp_all add: demo_kern_def)

lemma demo_read_data:
  assumes "length p = n" and "0 < n" and "n \<le> TX_BUF"
  shows "read_data demo_kern n n (p # ps) = Inr ((int n, p), ps)"
proof -
  have "read_loop demo_kern n n p ps = Inr ((int n, p), ps)"
    using assms(1) by (simp add: read_loop.simps [of demo_kern n n p])
  moreover have "p \<noteq> []" using assms(1,2) by auto
  ultimately show ?thesis using assms
    by (simp add: read_data_def read_loop.simps [of demo_kern n n "[]"])
qed

lemma demo_write_data: "bs \<noteq> [] \<Longrightarrow> length bs \<le> TX_BUF \<Longrightarrow> write_data demo_kern bs k = (int (length bs), k)"
  by (simp add: write_data_def write_loop.simps [of demo_kern bs])

lemma demo_connects:
  "\<exists>s. usb_thread_turn demo_kern 0 (usb_attach (usb_start a
       [le32 HOSTFS_MAGIC, enc_cmd \<lparr>magic = HOSTFS_MAGIC, command = cmd_num CMD_HELLO, extralen = 0\<rparr>])) = Inr s
     \<and> g_connected s \<and> u_armed s"
proof -
  let ?h = "enc_cmd \<lparr>magic = HOSTFS_MAGIC, command = cmd_num CMD_HELLO, extralen = 0\<rparr>"
  have l: "length ?h = 12" "?h \<noteq> []" using cmd_struct.length_enc [of "\<lparr>magic = HOSTFS_MAGIC, command = cmd_num CMD_HELLO, extralen = 0\<rparr>"] by auto
  have "read_data demo_kern 4 4 [le32 HOSTFS_MAGIC, ?h] = Inr ((4, le32 HOSTFS_MAGIC), [?h])"
    using demo_read_data [of "le32 HOSTFS_MAGIC" 4 "[?h]"] by (simp add: TX_BUF_def)
  moreover have "send_hello_cmd demo_kern [?h] = Inr (True, [])"
    using demo_read_data [of ?h 12 "[]"] l demo_write_data [of ?h "[?h]"]
    by (simp add: send_hello_cmd_def command_xchg_def xchg_body_def TX_BUF_def Let_def cmd_struct.dec_enc)
  ultimately show ?thesis
    by (simp add: usb_thread_turn_def usb_attach_def usb_start_def attach_turn_def drop_connection_def set_ayncreq_def Let_def rd32_le32 [of _ "[]", simplified])
qed


end
