(* ===== verification/ThreadProps.thy ===== *)
theory ThreadProps
  imports UsbThread Link
begin

text \<open>
  The two ends make a connection: the magic number the PC sends when it finds the PSP, the hello
  of the USB thread and the answer of the server, over the link of \<open>Link\<close>.
\<close>

lemma hello_turn:
  assumes "l_out (b_link s) = [enc_cmd c]" and "l_in (b_link s) = []"
    and "c = \<lparr>magic = HOSTFS_MAGIC, command = cmd_num CMD_HELLO, extralen = 0\<rparr>"
  shows "server_turn os s = \<lparr>b_buf = enc_cmd c @ drop 12 (b_buf s), b_host = b_host s,
    b_link = (b_link s)\<lparr>l_out := [], l_in := [enc_cmd c]\<rparr>\<rparr>"
proof -
  have l: "length (enc_cmd c) = 12" by (rule cmd_struct.length_enc)
  have "do_hostfs (link_os os) (enc_cmd c @ drop (length (enc_cmd c)) (b_buf s)) (length (enc_cmd c)) (b_host s)
      ((b_link s)\<lparr>l_out := []\<rparr>) = Inr (12, b_host s, (b_link s)\<lparr>l_out := [], l_in := [enc_cmd c]\<rparr>)"
    using assms l by (simp add: do_hostfs_def cmd_struct.dec_enc_append handle_hello_def)
  from server_turn_command [OF assms(1) _ _ _ this] show ?thesis
    using l assms(3) by (simp add: cmd_struct.dec_enc)
qed

lemma hello_link:
  assumes "idle s"
  shows "\<exists>s1. send_hello_cmd (link_kern os) s = Inr (True, s1) \<and> idle s1 \<and> b_host s1 = b_host s \<and> fs_of s1 = fs_of s"
proof -
  let ?c = "\<lparr>magic = HOSTFS_MAGIC, command = cmd_num CMD_HELLO, extralen = 0\<rparr>"
  let ?h = "enc_cmd ?c"
  have l: "length ?h = 12" by (rule cmd_struct.length_enc)
  then have ne: "?h \<noteq> []" by auto
  let ?s1 = "push ?h s"
  have w: "(if length ?h > 0 then write_data (link_kern os) ?h s else (0, s)) = (int (length ?h), ?s1)"
    using l ne write_data_link [of ?h os s] by (simp add: TX_BUF_def)
  have st: "server_turn os ?s1 = \<lparr>b_buf = ?h @ drop 12 (b_buf s), b_host = b_host s,
      b_link = (b_link s)\<lparr>l_out := [], l_in := [?h]\<rparr>\<rparr>" (is "_ = ?t")
    using hello_turn [of ?s1 ?c os] assms by (simp add: idle_def)
  let ?u = "?t\<lparr>b_link := (b_link s)\<lparr>l_out := [], l_in := []\<rparr>\<rparr>"
  have rd: "read_data (link_kern os) 12 12 ?s1 = Inr ((int 12, ?h), ?u)"
    using read_data_turn [of ?s1 os ?h "[]" 12] read_data_packet [of ?t ?h "[]" 12 os] st l ne assms
    by (simp add: TX_BUF_def idle_def)
  have "xchg_body (link_kern os) ?h 12 [] 0 0 s = Inr (Some (?h, []), ?u)"
    using xchg_body_steps [OF w, of "[]" ?s1 12 ?h ?u 0 0] rd by (simp add: cmd_struct.dec_enc)
  then have "send_hello_cmd (link_kern os) s = Inr (True, ?u)"
    by (simp add: send_hello_cmd_def command_xchg_def)
  then show ?thesis by (simp add: idle_def fs_of_def)
qed

text \<open>C15: Making a connection: when the server finds the PSP (it resets its tables and sends the magic
  number) and the USB thread of the PSP handles the attach, the hello exchange succeeds; both ends
  count as connected, nothing is left on the cable, an asynchronous request is outstanding, and
  neither the server's tables nor the PC's files have been touched by the handshake.\<close>

theorem usb_handshake:
  assumes "idle k" and "euid_usb_bulk_write (link_os os) 0x2 (le32 HOSTFS_MAGIC) (b_link k) = (n, w1)"
    and "u_attach s" and "0 \<le> ret"
    and "u_k s = k\<lparr>b_host := init_hostfs (b_host k), b_link := w1\<rparr>"
  shows "\<exists>t. usb_thread_turn (link_kern os) ret s = Inr t \<and> n = 4 \<and> g_connected t \<and> u_connect t \<and> u_armed t
    \<and> idle (u_k t) \<and> b_host (u_k t) = init_hostfs (b_host k) \<and> fs_of (u_k t) = fs_of k"
proof -
  have w1: "n = 4" "w1 = (b_link k)\<lparr>l_in := [le32 HOSTFS_MAGIC]\<rparr>"
    using assms(1,2) by (auto simp: euid_usb_bulk_write_def idle_def)
  have "le32 HOSTFS_MAGIC \<noteq> []" by (simp add: le32_def)
  then have "read_data (link_kern os) 4 4 (u_k s) = Inr ((4, le32 HOSTFS_MAGIC),
      (u_k s)\<lparr>b_link := w1\<lparr>l_in := []\<rparr>\<rparr>)" (is "_ = Inr (_, ?k1)")
    using read_data_packet [of "u_k s" "le32 HOSTFS_MAGIC" "[]" 4 os] assms(5) w1 by (simp add: TX_BUF_def)
  moreover have "idle ?k1" using assms(1) w1 by (simp add: idle_def)
  from hello_link [OF this, of os] obtain k2 where "send_hello_cmd (link_kern os) ?k1 = Inr (True, k2)"
    "idle k2" "b_host k2 = init_hostfs (b_host k)" "fs_of k2 = fs_of k" using assms(5) w1 by (auto simp: fs_of_def)
  ultimately have "\<exists>t. attach_turn (link_kern os) s2 = Inr t \<and> g_connected t \<and> u_connect t \<and> u_armed t
      \<and> idle (u_k t) \<and> b_host (u_k t) = init_hostfs (b_host k) \<and> fs_of (u_k t) = fs_of k" if "u_k s2 = u_k s" for s2
    using that by (simp add: attach_turn_def drop_connection_def set_ayncreq_def Let_def codec_simps)
  then show ?thesis using assms(3,4) w1
    by (simp add: usb_thread_turn_def Let_def async_turn_def set_ayncreq_def drop_connection_def)
qed

theorem usb_handshake_witness:
  "\<exists>t. usb_thread_turn (link_kern demo_os) 0 (usb_attach (usb_start demo_async
      \<lparr>b_buf = [], b_host = init_hostfs demo_open,
       b_link = \<lparr>l_out = [], l_in = [le32 HOSTFS_MAGIC], l_fs = demo_world\<rparr>\<rparr>)) = Inr t
    \<and> g_connected t \<and> b_host (u_k t) = init_hostfs demo_open"
proof -
  let ?k = "\<lparr>b_buf = [], b_host = demo_open, b_link = \<lparr>l_out = [], l_in = [], l_fs = demo_world\<rparr>\<rparr>"
  have i: "idle ?k" by (simp add: idle_def)
  have w: "euid_usb_bulk_write (link_os demo_os) 0x2 (le32 HOSTFS_MAGIC) (b_link ?k)
      = (4, \<lparr>l_out = [], l_in = [le32 HOSTFS_MAGIC], l_fs = demo_world\<rparr>)"
    by (simp add: euid_usb_bulk_write_def)
  from usb_handshake [OF i w, of "usb_attach (usb_start demo_async
      \<lparr>b_buf = [], b_host = init_hostfs demo_open,
       b_link = \<lparr>l_out = [], l_in = [le32 HOSTFS_MAGIC], l_fs = demo_world\<rparr>\<rparr>)" 0]
  show ?thesis by (auto simp: usb_attach_def usb_start_def)
qed

end
