(* ===== verification/UsbLifecycle.thy ===== *)
theory UsbLifecycle
  imports Prelude
begin

text \<open>
  Start and stop of the PSP driver (\<^verbatim>\<open>start_func\<close> and \<^verbatim>\<open>stop_func\<close> of \<^verbatim>\<open>usbhostfs/main.c\<close>): the
  kernel objects it creates and deletes. The descriptors that \<^verbatim>\<open>start_func\<close> also fills in are
  data handed to the kernel.
\<close>

record usb_ids =
  g_thid :: int
  g_mainevent :: int
  g_transevent :: int
  g_asyncevent :: int
  g_mainsema :: int

datatype kcall = Delete_Thread int | Delete_Event int | Delete_Sema int

text \<open>The identifiers the module starts with.\<close>

definition no_ids :: usb_ids where
  "no_ids = \<lparr>g_thid = - 1, g_mainevent = - 1, g_transevent = - 1, g_asyncevent = - 1, g_mainsema = - 1\<rparr>"

text \<open>
  \<open>ids\<close>: what the kernel returns for the objects, in the order they are created; \<open>started\<close>: the
  result of starting the thread.
\<close>

definition start_func :: "usb_ids \<Rightarrow> int \<Rightarrow> usb_ids \<Rightarrow> int \<times> usb_ids" where
  "start_func ids started s =
     (let s1 = s\<lparr>g_mainevent := g_mainevent ids\<rparr>;
          s2 = s1\<lparr>g_transevent := g_transevent ids\<rparr>;
          s3 = s2\<lparr>g_asyncevent := g_asyncevent ids\<rparr>;
          s4 = s3\<lparr>g_mainsema := g_mainsema ids\<rparr>;
          s5 = s4\<lparr>g_thid := g_thid ids\<rparr>
      in if g_mainevent s1 < 0 then (- 1, s1)
         else if g_transevent s2 < 0 then (- 1, s2)
         else if g_asyncevent s3 < 0 then (- 1, s3)
         else if g_mainsema s4 < 0 then (- 1, s4)
         else if g_thid s5 < 0 then (- 1, s5)
         else if started \<noteq> 0 then (- 1, s5)
         else (0, s5))"

text \<open>The calls made, in order, and the identifiers left.\<close>

definition stop_func :: "usb_ids \<Rightarrow> kcall list \<times> usb_ids" where
  "stop_func s =
     (let (c1, s1) = (if g_thid s \<ge> 0 then ([Delete_Thread (g_thid s)], s\<lparr>g_thid := - 1\<rparr>) else ([], s));
          (c2, s2) = (if g_mainevent s1 \<ge> 0 then ([Delete_Event (g_mainevent s1)], s1\<lparr>g_mainevent := - 1\<rparr>) else ([], s1));
          (c3, s3) = (if g_transevent s2 \<ge> 0 then ([Delete_Event (g_transevent s2)], s2\<lparr>g_mainevent := - 1\<rparr>) else ([], s2));
          (c4, s4) = (if g_asyncevent s3 \<ge> 0 then ([Delete_Event (g_asyncevent s3)], s3\<lparr>g_asyncevent := - 1\<rparr>) else ([], s3));
          (c5, s5) = (if g_mainsema s4 \<ge> 0 then ([Delete_Sema (g_mainsema s4)], s4\<lparr>g_mainsema := - 1\<rparr>) else ([], s4))
      in (c1 @ c2 @ c3 @ c4 @ c5, s5))"

text \<open>Stopping a started driver deletes every object it created, once each, but resets only four of
  the five identifiers: that of the transfer event flag is left, since the code resets the one of
  the main event flag twice. Stopping again deletes the transfer event flag a second time.\<close>

theorem stop_func_stale_transevent:
  assumes "start_func ids 0 s = (0, s1)" and "stop_func s1 = (calls, s2)"
  shows "calls = [Delete_Thread (g_thid ids), Delete_Event (g_mainevent ids), Delete_Event (g_transevent ids),
      Delete_Event (g_asyncevent ids), Delete_Sema (g_mainsema ids)]
    \<and> s2 = no_ids\<lparr>g_transevent := g_transevent ids\<rparr> \<and> stop_func s2 = ([Delete_Event (g_transevent ids)], s2)"
proof -
  have ge: "0 \<le> g_thid ids" "0 \<le> g_mainevent ids" "0 \<le> g_transevent ids" "0 \<le> g_asyncevent ids" "0 \<le> g_mainsema ids"
    and "s1 = s\<lparr>g_mainevent := g_mainevent ids, g_transevent := g_transevent ids, g_asyncevent := g_asyncevent ids,
      g_mainsema := g_mainsema ids, g_thid := g_thid ids\<rparr>"
    using assms(1) by (simp_all add: start_func_def Let_def split: if_splits)
  then have s1: "s1 = \<lparr>g_thid = g_thid ids, g_mainevent = g_mainevent ids, g_transevent = g_transevent ids,
      g_asyncevent = g_asyncevent ids, g_mainsema = g_mainsema ids\<rparr>" by simp
  show ?thesis using assms(2) ge unfolding s1 by (auto simp: stop_func_def no_ids_def)
qed

theorem stop_func_stale_transevent_witness:
  "stop_func (snd (stop_func (snd (start_func \<lparr>g_thid = 1, g_mainevent = 2, g_transevent = 3, g_asyncevent = 4,
     g_mainsema = 5\<rparr> 0 no_ids)))) = ([Delete_Event 3], no_ids\<lparr>g_transevent := 3\<rparr>)"
proof -
  let ?ids = "\<lparr>g_thid = 1, g_mainevent = 2, g_transevent = 3, g_asyncevent = 4, g_mainsema = 5\<rparr>"
  have a: "start_func ?ids 0 no_ids = (0, snd (start_func ?ids 0 no_ids))" by (simp add: start_func_def)
  have b: "stop_func (snd (start_func ?ids 0 no_ids))
      = (fst (stop_func (snd (start_func ?ids 0 no_ids))), snd (stop_func (snd (start_func ?ids 0 no_ids))))" by simp
  from stop_func_stale_transevent [OF a b] show ?thesis by (metis usb_ids.select_convs(3))
qed

end
