(* ===== verification/Breakpoints.thy ===== *)
theory Breakpoints
  imports Prelude
begin

unbundle bit_operations_syntax

text \<open>
  The breakpoints of the PSP debugger, \<^verbatim>\<open>psplink/debug.c\<close>: the table \<^verbatim>\<open>g_bps\<close>, the instructions
  it replaces in memory, the hardware breakpoint, single steps and what happens to a breakpoint
  when it is hit. Memory is a map from physical word addresses; \<open>ph\<close> is the address translation
  of the machine, under which the cached, uncached and kernel addresses of a word are the same.
\<close>

section \<open>State\<close>

definition DEBUG_MAX_BPS :: nat where "DEBUG_MAX_BPS = 32"
definition SW_BREAK_INST :: u32 where "SW_BREAK_INST = 0x0000000d"
definition DEBUG_BP_ACTIVE :: u32 where "DEBUG_BP_ACTIVE = 1"
definition DEBUG_BP_ONESHOT :: u32 where "DEBUG_BP_ONESHOT = 2"
definition DEBUG_BP_HARDWARE :: u32 where "DEBUG_BP_HARDWARE = 4"
definition DEBUG_BP_DISABLED :: u32 where "DEBUG_BP_DISABLED = 8"
definition DEBUG_BP_STEP :: u32 where "DEBUG_BP_STEP = 16"
definition DEBUG_BP_NEXT_REENABLE :: u32 where "DEBUG_BP_NEXT_REENABLE = 32"
definition PSPLINK_EXTYPE_DEBUG :: u32 where "PSPLINK_EXTYPE_DEBUG = 1"

text \<open>\<open>bp_step\<close>: the slot of the other breakpoint of a step, a pointer in the code.\<close>

record Breakpoint =
  bp_addr :: u32
  bp_inst :: u32
  bp_flags :: u32
  bp_thid :: int
  bp_step :: "nat option"

text \<open>The debug registers that the code sets: those of the instruction breakpoint, and \<^verbatim>\<open>DRCNTL\<close>.\<close>

record HwDebugEnv =
  DRCNTL :: u32
  IBC :: u32
  IBA :: u32
  IBAM :: u32

text \<open>\<open>d_hw\<close>: the registers themselves; \<open>psplinkHwContext\<close>: their copy in memory.\<close>

record dbg =
  g_bps :: "Breakpoint list"
  d_mem :: "u32 \<Rightarrow> u32"
  d_hw :: HwDebugEnv
  psplinkHwContext :: HwDebugEnv

text \<open>The registers of a thread stopped by an exception.\<close>

record PsplinkContext =
  cx_r :: "u32 list"
  cx_cause :: u32
  cx_epc :: u32
  cx_fsr :: u32
  cx_type :: u32
  cx_thid :: int
  cx_drcntl :: u32
  cx_cont :: u32
  cx_error :: bool

definition has :: "u32 \<Rightarrow> u32 \<Rightarrow> bool" where
  "has flags f \<longleftrightarrow> flags AND f \<noteq> 0"

section \<open>Memory and hardware\<close>

text \<open>A word access at an address that is not a multiple of four is an exception.\<close>

definition lw :: "(u32 \<Rightarrow> u32) \<Rightarrow> u32 \<Rightarrow> dbg \<Rightarrow> u32 run" where
  "lw ph a s = (if a AND 3 \<noteq> 0 then Inl Bad_Pointer else Inr (d_mem s (ph a)))"

definition sw :: "(u32 \<Rightarrow> u32) \<Rightarrow> u32 \<Rightarrow> u32 \<Rightarrow> dbg \<Rightarrow> dbg run" where
  "sw ph v a s = (if a AND 3 \<noteq> 0 then Inl Bad_Pointer else Inr (s\<lparr>d_mem := (d_mem s)(ph a := v)\<rparr>))"

definition debug_get_env :: "dbg \<Rightarrow> dbg" where
  "debug_get_env s = s\<lparr>psplinkHwContext := d_hw s\<rparr>"

definition debug_set_env :: "dbg \<Rightarrow> dbg" where
  "debug_set_env s = s\<lparr>d_hw := psplinkHwContext s\<rparr>"

definition debug_set_hwbreak :: "u32 \<Rightarrow> dbg \<Rightarrow> dbg" where
  "debug_set_hwbreak addr s =
     (let s1 = debug_get_env s;
          e = (if addr \<noteq> 0 then (psplinkHwContext s1)\<lparr>IBC := 0x12, IBA := addr, IBAM := 0\<rparr>
               else (psplinkHwContext s1)\<lparr>IBC := 0x10, IBA := 0, IBAM := 0\<rparr>)
      in debug_set_env (s1\<lparr>psplinkHwContext := e\<rparr>))"

section \<open>Searching the table\<close>

fun find_slot :: "(Breakpoint \<Rightarrow> bool) \<Rightarrow> Breakpoint list \<Rightarrow> nat option" where
  "find_slot P [] = None"
| "find_slot P (b # bs) = (if P b then Some 0 else map_option Suc (find_slot P bs))"

definition active :: "Breakpoint \<Rightarrow> bool" where
  "active b \<longleftrightarrow> has (bp_flags b) DEBUG_BP_ACTIVE"

definition same_place :: "u32 \<Rightarrow> u32 \<Rightarrow> bool" where
  "same_place a b \<longleftrightarrow> a AND 0x0FFFFFFF = b AND 0x0FFFFFFF"

definition find_bp :: "u32 \<Rightarrow> dbg \<Rightarrow> nat option" where
  "find_bp address s = find_slot (\<lambda>b. active b \<and> same_place (bp_addr b) address) (g_bps s)"

definition find_hwbp :: "dbg \<Rightarrow> nat option" where
  "find_hwbp s = find_slot (\<lambda>b. active b \<and> has (bp_flags b) DEBUG_BP_HARDWARE) (g_bps s)"

definition find_freebp :: "dbg \<Rightarrow> nat option" where
  "find_freebp s = find_slot (\<lambda>b. \<not> active b) (g_bps s)"

definition debugFindBPByIndex :: "int \<Rightarrow> dbg \<Rightarrow> nat option" where
  "debugFindBPByIndex i s =
     (if i \<ge> 0 \<and> i < int DEBUG_MAX_BPS \<and> active (g_bps s ! nat i) then Some (nat i) else None)"

section \<open>Operations\<close>

text \<open>\<open>None\<close> for the result \<^verbatim>\<open>NULL\<close>.\<close>

definition debugSetBP :: "(u32 \<Rightarrow> u32) \<Rightarrow> u32 \<Rightarrow> u32 \<Rightarrow> int \<Rightarrow> dbg \<Rightarrow> (nat option \<times> dbg) run" where
  "debugSetBP ph address flags thid s =
     (if find_bp address s \<noteq> None then Inr (None, s) else
      if has flags DEBUG_BP_HARDWARE \<and> find_hwbp s \<noteq> None then Inr (None, s) else
      case find_freebp s of
        None \<Rightarrow> Inr (None, s)
      | Some i \<Rightarrow>
          (case lw ph address s of
             Inl f \<Rightarrow> Inl f
           | Inr inst \<Rightarrow>
               (case (if has flags DEBUG_BP_HARDWARE then Inr (debug_set_hwbreak address s)
                      else sw ph SW_BREAK_INST address s) of
                  Inl f \<Rightarrow> Inl f
                | Inr s1 \<Rightarrow>
                    Inr (Some i, s1\<lparr>g_bps := (g_bps s1)[i := \<lparr>bp_addr = address, bp_inst = inst,
                      bp_flags = DEBUG_BP_ACTIVE OR flags, bp_thid = thid, bp_step = None\<rparr>]\<rparr>))))"

text \<open>Taking a breakpoint out of memory, or off the hardware.\<close>

definition unplant :: "(u32 \<Rightarrow> u32) \<Rightarrow> Breakpoint \<Rightarrow> dbg \<Rightarrow> dbg run" where
  "unplant ph b s = (if \<not> has (bp_flags b) DEBUG_BP_HARDWARE then sw ph (bp_inst b) (bp_addr b) s
     else Inr (debug_set_hwbreak 0 s))"

definition debugDeleteBP :: "(u32 \<Rightarrow> u32) \<Rightarrow> u32 \<Rightarrow> dbg \<Rightarrow> (int \<times> dbg) run" where
  "debugDeleteBP ph addr s =
     (case find_bp addr s of
        None \<Rightarrow> Inr (0, s)
      | Some i \<Rightarrow>
          (case unplant ph (g_bps s ! i) s of
             Inl f \<Rightarrow> Inl f
           | Inr s1 \<Rightarrow> Inr (1, s1\<lparr>g_bps := (g_bps s1)[i := (g_bps s1 ! i)\<lparr>bp_flags := 0\<rparr>]\<rparr>)))"

definition debugDisableBP :: "(u32 \<Rightarrow> u32) \<Rightarrow> u32 \<Rightarrow> dbg \<Rightarrow> (int \<times> dbg) run" where
  "debugDisableBP ph addr s =
     (case find_bp addr s of
        None \<Rightarrow> Inr (0, s)
      | Some i \<Rightarrow>
          (case unplant ph (g_bps s ! i) s of
             Inl f \<Rightarrow> Inl f
           | Inr s1 \<Rightarrow> Inr (1, s1\<lparr>g_bps := (g_bps s1)[i := (g_bps s1 ! i)\<lparr>bp_flags :=
               bp_flags (g_bps s1 ! i) OR DEBUG_BP_DISABLED\<rparr>]\<rparr>)))"

definition debugEnableBP :: "(u32 \<Rightarrow> u32) \<Rightarrow> u32 \<Rightarrow> dbg \<Rightarrow> (int \<times> dbg) run" where
  "debugEnableBP ph addr s =
     (case find_bp addr s of
        None \<Rightarrow> Inr (0, s)
      | Some i \<Rightarrow>
          (let b = g_bps s ! i in
           case (if \<not> has (bp_flags b) DEBUG_BP_HARDWARE then sw ph SW_BREAK_INST (bp_addr b) s
                 else Inr (debug_set_hwbreak (bp_addr b) s)) of
             Inl f \<Rightarrow> Inl f
           | Inr s1 \<Rightarrow> Inr (1, s1\<lparr>g_bps := (g_bps s1)[i := b\<lparr>bp_flags :=
               bp_flags b AND NOT (DEBUG_BP_DISABLED OR DEBUG_BP_NEXT_REENABLE)\<rparr>]\<rparr>)))"

text \<open>\<open>epc\<close>: where the kernel says the thread is, \<^verbatim>\<open>0\<close> if it does not know.\<close>

definition debugBreakThread :: "(u32 \<Rightarrow> u32) \<Rightarrow> u32 \<Rightarrow> int \<Rightarrow> dbg \<Rightarrow> (int \<times> dbg) run" where
  "debugBreakThread ph epc uid s =
     (if epc \<noteq> 0 then
        (case debugSetBP ph epc DEBUG_BP_ONESHOT uid s of
           Inl f \<Rightarrow> Inl f
         | Inr (r, s1) \<Rightarrow> Inr (if r \<noteq> None then 0 else - 1, s1))
      else Inr (- 1, s))"

section \<open>Stepping\<close>

record branch_info =
  br_branch :: bool
  br_cond :: bool
  br_link :: bool
  br_target :: u32

text \<open>\<open>ofs * 4\<close> for the signed low half of an instruction.\<close>

definition branch_ofs :: "u32 \<Rightarrow> u32" where
  "branch_ofs opcode = scast (ucast opcode :: u16) * 4"

text \<open>The switch of \<^verbatim>\<open>step_generic\<close> on an instruction at \<open>epc\<close>.\<close>

definition decode_branch :: "u32 \<Rightarrow> u32 \<Rightarrow> u32 list \<Rightarrow> branch_info" where
  "decode_branch opcode epc r =
     (let pc4 = epc + 4;
          none = \<lparr>br_branch = False, br_cond = False, br_link = False, br_target = pc4\<rparr>;
          relative = \<lparr>br_branch = True, br_cond = True, br_link = False, br_target = pc4 + branch_ofs opcode\<rparr>;
          op6 = drop_bit 26 opcode
      in if op6 \<in> {0x4, 0x14, 0x7, 0x17, 0x6, 0x16, 0x5, 0x15} then relative
         else if op6 = 0x1 then
           (if (drop_bit 16 opcode) AND 0x1f \<in> {0x1, 0x11, 0x13, 0x3, 0, 0x10, 0x12, 0x2} then relative else none)
         else if op6 \<in> {0x2, 0x3} then
           \<lparr>br_branch = True, br_cond = False, br_link = (op6 = 0x3),
            br_target = push_bit 2 (opcode AND 0x3ffffff) OR (pc4 AND 0xf0000000)\<rparr>
         else if op6 = 0 then
           (if opcode AND 0x3f \<in> {0x9, 0x8} then
              \<lparr>br_branch = True, br_cond = False, br_link = (opcode AND 0x3f = 0x9),
               br_target = r ! unat ((drop_bit 21 opcode) AND 0x1f)\<rparr>
            else none)
         else if op6 \<in> {0x10, 0x11, 0x12} then
           (if (drop_bit 16 opcode) AND 0x3ff \<in> {0x100, 0x102, 0x101, 0x103} then relative else none)
         else none)"

definition STEP_FLAGS :: u32 where
  "STEP_FLAGS = DEBUG_BP_ONESHOT OR DEBUG_BP_STEP"

definition link_step :: "nat option \<Rightarrow> nat option \<Rightarrow> dbg \<Rightarrow> dbg" where
  "link_step p q s = (case p of None \<Rightarrow> s
     | Some i \<Rightarrow> s\<lparr>g_bps := (g_bps s)[i := (g_bps s ! i)\<lparr>bp_step := q\<rparr>]\<rparr>)"

definition step_generic :: "(u32 \<Rightarrow> u32) \<Rightarrow> PsplinkContext \<Rightarrow> bool \<Rightarrow> dbg \<Rightarrow> dbg run" where
  "step_generic ph ctx skip s =
     (let epc = cx_epc ctx in
      case lw ph epc s of
        Inl f \<Rightarrow> Inl f
      | Inr opcode \<Rightarrow>
          (let b = decode_branch opcode epc (cx_r ctx) in
           if br_link b \<and> skip then map_sum id snd (debugSetBP ph (epc + 8) STEP_FLAGS (cx_thid ctx) s)
           else if br_branch b then
             (case debugSetBP ph (br_target b) STEP_FLAGS (cx_thid ctx) s of
                Inl f \<Rightarrow> Inl f
              | Inr (bp1, s1) \<Rightarrow>
                  if br_cond b \<and> br_target b \<noteq> epc + 8 then
                    (case debugSetBP ph (epc + 8) STEP_FLAGS (cx_thid ctx) s1 of
                       Inl f \<Rightarrow> Inl f
                     | Inr (bp2, s2) \<Rightarrow> Inr (link_step bp2 bp1 (link_step bp1 bp2 s2)))
                  else Inr s1)
           else map_sum id snd (debugSetBP ph (br_target b) STEP_FLAGS (cx_thid ctx) s)))"

section \<open>Being hit\<close>

definition delete_at :: "(u32 \<Rightarrow> u32) \<Rightarrow> nat option \<Rightarrow> dbg \<Rightarrow> dbg run" where
  "delete_at ph p s = (case p of None \<Rightarrow> Inr s
     | Some j \<Rightarrow> map_sum id snd (debugDeleteBP ph (bp_addr (g_bps s ! j)) s))"

definition debugClearException ::
  "(u32 \<Rightarrow> u32) \<Rightarrow> PsplinkContext \<Rightarrow> dbg \<Rightarrow> (PsplinkContext \<times> dbg) run" where
  "debugClearException ph ctx s =
     (let ctx1 = (if cx_type ctx = PSPLINK_EXTYPE_DEBUG then ctx\<lparr>cx_drcntl := DRCNTL (psplinkHwContext s)\<rparr> else ctx);
          address = (if has (cx_cause ctx) 0x80000000 then cx_epc ctx + 4 else cx_epc ctx);
          ctx2 = ctx1\<lparr>cx_error := True\<rparr>
      in case find_bp address s of
           None \<Rightarrow> Inr (ctx2, s)
         | Some i \<Rightarrow>
             (let b = g_bps s ! i in
              if has (bp_flags b) DEBUG_BP_DISABLED then Inr (ctx2, s)
              else if has (bp_flags b) DEBUG_BP_ONESHOT then
                (case delete_at ph (Some i) s of
                   Inl f \<Rightarrow> Inl f
                 | Inr s1 \<Rightarrow> (case delete_at ph (bp_step b) s1 of
                     Inl f \<Rightarrow> Inl f
                   | Inr s2 \<Rightarrow> Inr (ctx2\<lparr>cx_error := False\<rparr>, s2)))
              else Inr (ctx2\<lparr>cx_error := False\<rparr>, s)))"

end
