(* ===== verification/BreakpointInv.thy ===== *)
theory BreakpointInv
  imports Breakpoints
begin

unbundle bit_operations_syntax

text \<open>
  What the breakpoint table means: memory is the program with the break instruction laid over it
  at the enabled software breakpoints. Every operation of \<open>Breakpoints\<close> keeps this, so the program
  under the breakpoints never changes.
\<close>

section \<open>Flags\<close>

lemma has_bit [simp]:
  "has w DEBUG_BP_ACTIVE \<longleftrightarrow> bit w 0" "has w DEBUG_BP_ONESHOT \<longleftrightarrow> bit w 1"
  "has w DEBUG_BP_HARDWARE \<longleftrightarrow> bit w 2" "has w DEBUG_BP_DISABLED \<longleftrightarrow> bit w 3"
  using and_exp_eq_0_iff_not_bit [of w 0] and_exp_eq_0_iff_not_bit [of w 1]
    and_exp_eq_0_iff_not_bit [of w 2] and_exp_eq_0_iff_not_bit [of w 3]
  by (simp_all add: has_def DEBUG_BP_ACTIVE_def DEBUG_BP_ONESHOT_def DEBUG_BP_HARDWARE_def DEBUG_BP_DISABLED_def)

lemma flag_exp:
  "DEBUG_BP_ACTIVE = 2 ^ 0" "DEBUG_BP_ONESHOT = 2 ^ 1" "DEBUG_BP_HARDWARE = 2 ^ 2"
  "DEBUG_BP_DISABLED = 2 ^ 3" "DEBUG_BP_STEP = 2 ^ 4" "DEBUG_BP_NEXT_REENABLE = 2 ^ 5"
  by (simp_all add: DEBUG_BP_ACTIVE_def DEBUG_BP_ONESHOT_def DEBUG_BP_HARDWARE_def DEBUG_BP_DISABLED_def
    DEBUG_BP_STEP_def DEBUG_BP_NEXT_REENABLE_def)

lemma bit_u32_exp: "n < 32 \<Longrightarrow> bit ((2::u32) ^ m) n \<longleftrightarrow> n = m"
  by (auto simp: bit_exp_iff)

lemma flag_bits [simp]:
  "n < 32 \<Longrightarrow> bit DEBUG_BP_ACTIVE n \<longleftrightarrow> n = 0" "n < 32 \<Longrightarrow> bit DEBUG_BP_ONESHOT n \<longleftrightarrow> n = 1"
  "n < 32 \<Longrightarrow> bit DEBUG_BP_HARDWARE n \<longleftrightarrow> n = 2" "n < 32 \<Longrightarrow> bit DEBUG_BP_DISABLED n \<longleftrightarrow> n = 3"
  "n < 32 \<Longrightarrow> bit DEBUG_BP_STEP n \<longleftrightarrow> n = 4" "n < 32 \<Longrightarrow> bit DEBUG_BP_NEXT_REENABLE n \<longleftrightarrow> n = 5"
  unfolding flag_exp by (simp_all only: bit_u32_exp)

lemma active_bit [simp]: "active b \<longleftrightarrow> bit (bp_flags b) 0"
  by (simp add: active_def)

section \<open>Searching\<close>

lemma find_slot_None: "find_slot P bs = None \<longleftrightarrow> (\<forall>i < length bs. \<not> P (bs ! i))"
proof (induction bs)
  case (Cons b bs)
  then show ?case by (auto simp: nth_Cons' less_Suc_eq_0_disj)
qed simp

lemma find_slot_Some:
  "find_slot P bs = Some i \<Longrightarrow> i < length bs \<and> P (bs ! i) \<and> (\<forall>j < i. \<not> P (bs ! j))"
proof (induction bs arbitrary: i)
  case (Cons b bs)
  then show ?case by (auto split: if_splits simp: less_Suc_eq_0_disj)
qed simp

lemma find_slot_unique:
  assumes "i < length bs" and "P (bs ! i)" and "\<And>j. j < length bs \<Longrightarrow> P (bs ! j) \<Longrightarrow> j = i"
  shows "find_slot P bs = Some i"
proof (cases "find_slot P bs")
  case None
  then show ?thesis using assms(1,2) by (simp add: find_slot_None)
next
  case (Some j)
  then show ?thesis using find_slot_Some [OF Some] assms(3) by auto
qed

section \<open>The invariant\<close>

definition aliasing :: "(u32 \<Rightarrow> u32) \<Rightarrow> bool" where
  "aliasing ph \<longleftrightarrow> (\<forall>a b. ph a = ph b \<longleftrightarrow> same_place a b)"

definition planted :: "Breakpoint \<Rightarrow> bool" where
  "planted b \<longleftrightarrow> active b \<and> \<not> has (bp_flags b) DEBUG_BP_HARDWARE \<and> \<not> has (bp_flags b) DEBUG_BP_DISABLED"

definition hardware :: "Breakpoint \<Rightarrow> bool" where
  "hardware b \<longleftrightarrow> active b \<and> has (bp_flags b) DEBUG_BP_HARDWARE"

definition armed :: "Breakpoint \<Rightarrow> bool" where
  "armed b \<longleftrightarrow> hardware b \<and> \<not> has (bp_flags b) DEBUG_BP_DISABLED \<and> bp_addr b \<noteq> 0"

definition covered :: "(u32 \<Rightarrow> u32) \<Rightarrow> Breakpoint list \<Rightarrow> u32 \<Rightarrow> bool" where
  "covered ph bs a \<longleftrightarrow> (\<exists>i < length bs. planted (bs ! i) \<and> ph (bp_addr (bs ! i)) = a)"

text \<open>The debug registers: set to the address of an enabled hardware breakpoint, off without one.\<close>

definition hw_ok :: "Breakpoint list \<Rightarrow> HwDebugEnv \<Rightarrow> bool" where
  "hw_ok bs e \<longleftrightarrow> (\<forall>i < length bs. armed (bs ! i) \<longrightarrow> IBC e = 0x12 \<and> IBA e = bp_addr (bs ! i))
     \<and> ((\<forall>i < length bs. \<not> armed (bs ! i)) \<longrightarrow> IBC e \<noteq> 0x12)"

text \<open>\<open>P\<close>: the program, that is memory as it is without breakpoints.\<close>

definition bp_ok :: "(u32 \<Rightarrow> u32) \<Rightarrow> (u32 \<Rightarrow> u32) \<Rightarrow> dbg \<Rightarrow> bool" where
  "bp_ok ph P s \<longleftrightarrow> length (g_bps s) = DEBUG_MAX_BPS
     \<and> (\<forall>i < length (g_bps s). active (g_bps s ! i) \<longrightarrow> bp_addr (g_bps s ! i) AND 3 = 0
          \<and> bp_inst (g_bps s ! i) = P (ph (bp_addr (g_bps s ! i))))
     \<and> (\<forall>i < length (g_bps s). \<forall>j < length (g_bps s). active (g_bps s ! i) \<longrightarrow> active (g_bps s ! j) \<longrightarrow>
          ph (bp_addr (g_bps s ! i)) = ph (bp_addr (g_bps s ! j)) \<longrightarrow> i = j)
     \<and> (\<forall>i < length (g_bps s). \<forall>j < length (g_bps s). hardware (g_bps s ! i) \<longrightarrow> hardware (g_bps s ! j) \<longrightarrow> i = j)
     \<and> (\<forall>a. d_mem s a = (if covered ph (g_bps s) a then SW_BREAK_INST else P a))
     \<and> hw_ok (g_bps s) (d_hw s)"

lemma bp_okD:
  assumes "bp_ok ph P s"
  shows "length (g_bps s) = DEBUG_MAX_BPS"
    and "i < length (g_bps s) \<Longrightarrow> active (g_bps s ! i) \<Longrightarrow> bp_addr (g_bps s ! i) AND 3 = 0"
    and "i < length (g_bps s) \<Longrightarrow> active (g_bps s ! i) \<Longrightarrow> bp_inst (g_bps s ! i) = P (ph (bp_addr (g_bps s ! i)))"
    and "i < length (g_bps s) \<Longrightarrow> j < length (g_bps s) \<Longrightarrow> active (g_bps s ! i) \<Longrightarrow> active (g_bps s ! j)
      \<Longrightarrow> ph (bp_addr (g_bps s ! i)) = ph (bp_addr (g_bps s ! j)) \<Longrightarrow> i = j"
    and "i < length (g_bps s) \<Longrightarrow> j < length (g_bps s) \<Longrightarrow> hardware (g_bps s ! i) \<Longrightarrow> hardware (g_bps s ! j) \<Longrightarrow> i = j"
    and "d_mem s a = (if covered ph (g_bps s) a then SW_BREAK_INST else P a)"
    and "hw_ok (g_bps s) (d_hw s)"
  using assms unfolding bp_ok_def by blast+

lemma find_bp_Some:
  assumes "aliasing ph" and "find_bp a s = Some i"
  shows "i < length (g_bps s)" and "active (g_bps s ! i)" and "ph (bp_addr (g_bps s ! i)) = ph a"
  using find_slot_Some [OF assms(2) [unfolded find_bp_def]] assms(1) by (auto simp: aliasing_def)

lemma find_bp_None:
  assumes "aliasing ph" and "find_bp a s = None" and "i < length (g_bps s)" and "active (g_bps s ! i)"
  shows "ph (bp_addr (g_bps s ! i)) \<noteq> ph a"
  using assms by (auto simp: find_bp_def find_slot_None aliasing_def)

lemma find_bp_eq:
  assumes "aliasing ph" and "bp_ok ph P s" and "i < length (g_bps s)" and "active (g_bps s ! i)"
    and "ph (bp_addr (g_bps s ! i)) = ph a"
  shows "find_bp a s = Some i"
  unfolding find_bp_def
proof (rule find_slot_unique)
  show "active (g_bps s ! i) \<and> same_place (bp_addr (g_bps s ! i)) a" using assms(1,4,5) by (simp add: aliasing_def)
  fix j assume j: "j < length (g_bps s)" "active (g_bps s ! j) \<and> same_place (bp_addr (g_bps s ! j)) a"
  then have "ph (bp_addr (g_bps s ! j)) = ph a" using assms(1) by (simp add: aliasing_def)
  then have "ph (bp_addr (g_bps s ! j)) = ph (bp_addr (g_bps s ! i))" using assms(5) by simp
  then show "j = i" using bp_okD(4) [OF assms(2) j(1) assms(3)] j(2) assms(4) by simp
qed (rule assms(3))

text \<open>One slot changes, and memory at its address with it.\<close>

lemma covered_update:
  assumes "i < length bs"
    and "\<And>j. j < length bs \<Longrightarrow> j \<noteq> i \<Longrightarrow> active (bs ! j) \<Longrightarrow> ph (bp_addr (bs ! j)) \<noteq> ph (bp_addr b)"
    and "planted (bs ! i) \<Longrightarrow> ph (bp_addr (bs ! i)) = ph (bp_addr b)"
  shows "covered ph (bs[i := b]) a = (if a = ph (bp_addr b) then planted b else covered ph bs a)"
proof (cases "a = ph (bp_addr b)")
  case True
  show ?thesis
  proof
    assume "covered ph (bs[i := b]) a"
    then obtain j where j: "j < length bs" "planted (bs[i := b] ! j)" "ph (bp_addr (bs[i := b] ! j)) = a"
      by (auto simp: covered_def)
    then have "j = i" using assms(2) [of j] True by (cases "j = i") (auto simp: planted_def)
    then show "if a = ph (bp_addr b) then planted b else covered ph bs a" using j True assms(1) by simp
  next
    assume "if a = ph (bp_addr b) then planted b else covered ph bs a"
    then show "covered ph (bs[i := b]) a" using True assms(1) by (auto simp: covered_def intro!: exI [of _ i])
  qed
next
  case False
  have "(\<exists>j < length bs. planted (bs[i := b] ! j) \<and> ph (bp_addr (bs[i := b] ! j)) = a)
      \<longleftrightarrow> (\<exists>j < length bs. planted (bs ! j) \<and> ph (bp_addr (bs ! j)) = a)"
    using False assms(1,3) by (metis nth_list_update_eq nth_list_update_neq)
  then show ?thesis using False by (simp add: covered_def)
qed

lemma bp_ok_update:
  assumes ok: "bp_ok ph P s" and i: "i < length (g_bps s)"
    and other: "\<And>j. j < length (g_bps s) \<Longrightarrow> j \<noteq> i \<Longrightarrow> active (g_bps s ! j) \<Longrightarrow>
      ph (bp_addr (g_bps s ! j)) \<noteq> ph (bp_addr b)"
    and old: "planted (g_bps s ! i) \<Longrightarrow> ph (bp_addr (g_bps s ! i)) = ph (bp_addr b)"
    and new: "active b \<Longrightarrow> bp_addr b AND 3 = 0 \<and> bp_inst b = P (ph (bp_addr b))"
    and hw1: "\<And>j. hardware b \<Longrightarrow> j < length (g_bps s) \<Longrightarrow> j \<noteq> i \<Longrightarrow> \<not> hardware (g_bps s ! j)"
    and t: "g_bps t = (g_bps s)[i := b]"
      "d_mem t = (d_mem s)(ph (bp_addr b) := if planted b then SW_BREAK_INST else P (ph (bp_addr b)))"
    and hw: "hw_ok ((g_bps s)[i := b]) (d_hw t)"
  shows "bp_ok ph P t"
  unfolding bp_ok_def t length_list_update
proof (intro conjI allI impI)
  let ?bs = "(g_bps s)[i := b]"
  show "length (g_bps s) = DEBUG_MAX_BPS" by (rule bp_okD(1) [OF ok])
  show "hw_ok ?bs (d_hw t)" by (rule hw)
  fix a show "((d_mem s)(ph (bp_addr b) := if planted b then SW_BREAK_INST else P (ph (bp_addr b)))) a
      = (if covered ph ?bs a then SW_BREAK_INST else P a)"
    using covered_update [OF i other old, of a] bp_okD(6) [OF ok, of a] by auto
next
  fix j assume "j < length (g_bps s)" "active ((g_bps s)[i := b] ! j)"
  then show "bp_addr ((g_bps s)[i := b] ! j) AND 3 = 0"
    "bp_inst ((g_bps s)[i := b] ! j) = P (ph (bp_addr ((g_bps s)[i := b] ! j)))"
    using new bp_okD(2,3) [OF ok, of j] by (cases "j = i"; simp)+
next
  fix j k assume "j < length (g_bps s)" "k < length (g_bps s)" "active ((g_bps s)[i := b] ! j)"
    "active ((g_bps s)[i := b] ! k)" "ph (bp_addr ((g_bps s)[i := b] ! j)) = ph (bp_addr ((g_bps s)[i := b] ! k))"
  then show "j = k" using other [of j] other [of k] bp_okD(4) [OF ok, of j k]
    by (cases "j = i"; cases "k = i"; simp)
next
  fix j k assume "j < length (g_bps s)" "k < length (g_bps s)" "hardware ((g_bps s)[i := b] ! j)"
    "hardware ((g_bps s)[i := b] ! k)"
  then show "j = k" using hw1 [of j] hw1 [of k] bp_okD(5) [OF ok, of j k]
    by (cases "j = i"; cases "k = i"; simp)
qed

section \<open>Operations keep it\<close>

lemma hwbreak_simps [simp]:
  "g_bps (debug_set_hwbreak a s) = g_bps s" "d_mem (debug_set_hwbreak a s) = d_mem s"
  "IBC (d_hw (debug_set_hwbreak a s)) = (if a \<noteq> 0 then 0x12 else 0x10)"
  "IBA (d_hw (debug_set_hwbreak a s)) = a"
  by (simp_all add: debug_set_hwbreak_def debug_get_env_def debug_set_env_def Let_def)

lemma hw_ok_other:
  assumes "hw_ok bs e" and "i < length bs" and "\<not> armed b" and "\<not> armed (bs ! i)"
  shows "hw_ok (bs[i := b]) e"
  using assms unfolding hw_ok_def by (metis length_list_update nth_list_update)

lemma hw_ok_this:
  assumes "i < length bs" and "\<And>j. j < length bs \<Longrightarrow> j \<noteq> i \<Longrightarrow> \<not> hardware (bs ! j)"
    and "armed b \<Longrightarrow> IBC e = 0x12 \<and> IBA e = bp_addr b" and "\<not> armed b \<Longrightarrow> IBC e \<noteq> 0x12"
  shows "hw_ok (bs[i := b]) e"
  unfolding hw_ok_def length_list_update
proof (intro conjI allI impI)
  fix j assume j: "j < length bs" "armed (bs[i := b] ! j)"
  then have "j = i" using assms(2) [of j] by (cases "j = i") (auto simp: armed_def)
  then show "IBC e = 0x12" "IBA e = bp_addr (bs[i := b] ! j)" using j assms(1,3) by auto
next
  assume "\<forall>j < length bs. \<not> armed (bs[i := b] ! j)"
  then have "\<not> armed b" using assms(1) by (metis nth_list_update_eq)
  then show "IBC e \<noteq> 0x12" by (rule assms(4))
qed

text \<open>Memory under an active breakpoint is the program's when nothing is planted there.\<close>

lemma mem_at:
  assumes "bp_ok ph P s" and "\<And>i. i < length (g_bps s) \<Longrightarrow> planted (g_bps s ! i) \<Longrightarrow> ph (bp_addr (g_bps s ! i)) \<noteq> a"
  shows "d_mem s a = P a"
  using bp_okD(6) [OF assms(1), of a] assms(2) by (auto simp: covered_def)

definition new_bp :: "u32 \<Rightarrow> u32 \<Rightarrow> u32 \<Rightarrow> int \<Rightarrow> Breakpoint" where
  "new_bp a inst flags thid = \<lparr>bp_addr = a, bp_inst = inst, bp_flags = DEBUG_BP_ACTIVE OR flags,
     bp_thid = thid, bp_step = None\<rparr>"

lemma new_bp_simps [simp]:
  "bp_addr (new_bp a x f t) = a" "bp_inst (new_bp a x f t) = x" "bp_flags (new_bp a x f t) = DEBUG_BP_ACTIVE OR f"
  "bp_thid (new_bp a x f t) = t" "bp_step (new_bp a x f t) = None"
  by (simp_all add: new_bp_def)

lemma debugSetBP_cases:
  assumes "aliasing ph" and "bp_ok ph P s" and "debugSetBP ph a flags thid s = Inr (r, t)"
  obtains (refused) "r = None" "t = s" "find_bp a s \<noteq> None \<or> find_freebp s = None
      \<or> bit flags 2 \<and> find_hwbp s \<noteq> None"
  | (fresh) i where "r = Some i" "find_bp a s = None" "find_freebp s = Some i" "a AND 3 = 0"
      "bit flags 2 \<Longrightarrow> find_hwbp s = None"
      "g_bps t = (g_bps s)[i := new_bp a (P (ph a)) flags thid]"
      "d_mem t = (if bit flags 2 then d_mem s else (d_mem s)(ph a := SW_BREAK_INST))"
      "d_hw t = (if bit flags 2 then d_hw (debug_set_hwbreak a s) else d_hw s)"
proof (cases "find_bp a s \<noteq> None \<or> find_freebp s = None \<or> bit flags 2 \<and> find_hwbp s \<noteq> None")
  case True
  then show ?thesis using assms(3) refused by (auto simp: debugSetBP_def split: if_splits)
next
  case False
  then obtain i where i: "find_freebp s = Some i" "find_bp a s = None" by auto
  have P: "d_mem s (ph a) = P (ph a)"
    by (rule mem_at [OF assms(2)]) (use find_bp_None [OF assms(1) i(2)] in \<open>auto simp: planted_def\<close>)
  show ?thesis
  proof (rule fresh [of i])
    show "a AND 3 = 0" using assms(3) False i by (auto simp: debugSetBP_def lw_def split: if_splits)
    then show "r = Some i" "g_bps t = (g_bps s)[i := new_bp a (P (ph a)) flags thid]"
      "d_mem t = (if bit flags 2 then d_mem s else (d_mem s)(ph a := SW_BREAK_INST))"
      "d_hw t = (if bit flags 2 then d_hw (debug_set_hwbreak a s) else d_hw s)"
      using assms(3) False i P
      by (auto simp: debugSetBP_def lw_def sw_def new_bp_def split: if_splits)
  qed (use False i in auto)
qed

lemma find_freebp_Some: "find_freebp s = Some i \<Longrightarrow> i < length (g_bps s) \<and> \<not> active (g_bps s ! i)"
  using find_slot_Some unfolding find_freebp_def by blast

lemma find_hwbp_None: "find_hwbp s = None \<Longrightarrow> j < length (g_bps s) \<Longrightarrow> \<not> hardware (g_bps s ! j)"
  by (simp add: find_hwbp_def find_slot_None hardware_def)

lemma debugSetBP_ok:
  assumes al: "aliasing ph" and ok: "bp_ok ph P s" and en: "\<not> bit flags 3"
    and set: "debugSetBP ph a flags thid s = Inr (r, t)"
  shows "bp_ok ph P t"
  using al ok set
proof (cases rule: debugSetBP_cases)
  case refused
  then show ?thesis using ok by simp
next
  case (fresh i)
  note i = find_freebp_Some [OF fresh(3)]
  let ?b = "new_bp a (P (ph a)) flags thid"
  show ?thesis
  proof (rule bp_ok_update [OF ok, of i ?b])
    show "hw_ok ((g_bps s)[i := ?b]) (d_hw t)"
    proof (cases "bit flags 2")
      case True
      show ?thesis using True fresh(8) find_hwbp_None [OF fresh(5) [OF True]] i en
        by (intro hw_ok_this) (auto simp: armed_def hardware_def bit_simps)
    next
      case False
      then show ?thesis using fresh(8) bp_okD(7) [OF ok] i
        by (auto intro!: hw_ok_other simp: armed_def hardware_def bit_simps)
    qed
    show "ph (bp_addr (g_bps s ! j)) \<noteq> ph (bp_addr ?b)" if "j < length (g_bps s)" "active (g_bps s ! j)" for j
      using find_bp_None [OF al fresh(2) that] by simp
    have "d_mem s (ph a) = P (ph a)"
      by (rule mem_at [OF ok]) (use find_bp_None [OF al fresh(2)] in \<open>auto simp: planted_def\<close>)
    then show "d_mem t = (d_mem s)(ph (bp_addr ?b) := if planted ?b then SW_BREAK_INST else P (ph (bp_addr ?b)))"
      using fresh(7) en by (auto simp: planted_def bit_simps)
    show "\<not> hardware (g_bps s ! j)" if "hardware ?b" "j < length (g_bps s)" for j
      using that find_hwbp_None [OF fresh(5)] by (auto simp: hardware_def bit_simps)
  qed (use i fresh(4,6) in \<open>auto simp: planted_def\<close>)
qed

text \<open>Deleting, disabling and enabling rewrite the flags of one breakpoint.\<close>

lemma bp_ok_flags:
  assumes al: "aliasing ph" and ok: "bp_ok ph P s" and f: "find_bp a s = Some i"
    and b: "b = (g_bps s ! i)\<lparr>bp_flags := fl\<rparr>" and act: "bit fl 0 \<Longrightarrow> bit fl 2 = bit (bp_flags (g_bps s ! i)) 2"
    and t: "g_bps t = (g_bps s)[i := b]"
    and sw: "\<not> bit (bp_flags (g_bps s ! i)) 2 \<Longrightarrow> d_hw t = d_hw s \<and>
      d_mem t = (d_mem s)(ph (bp_addr b) := if planted b then SW_BREAK_INST else P (ph (bp_addr b)))"
    and hw: "bit (bp_flags (g_bps s ! i)) 2 \<Longrightarrow> d_mem t = d_mem s \<and>
      d_hw t = d_hw (debug_set_hwbreak (if bit fl 0 \<and> \<not> bit fl 3 then bp_addr b else 0) s)"
  shows "bp_ok ph P t"
proof (rule bp_ok_update [OF ok, of i b])
  note i = find_bp_Some [OF al f]
  let ?h = "bit (bp_flags (g_bps s ! i)) 2"
  show "i < length (g_bps s)" by (rule i(1))
  show *: "ph (bp_addr (g_bps s ! j)) \<noteq> ph (bp_addr b)" if "j < length (g_bps s)" "j \<noteq> i" "active (g_bps s ! j)" for j
    using bp_okD(4) [OF ok that(1) i(1) that(3) i(2)] that(2) b by auto
  show "active b \<Longrightarrow> bp_addr b AND 3 = 0 \<and> bp_inst b = P (ph (bp_addr b))"
    using bp_okD(2,3) [OF ok i(1,2)] b by simp
  show one: "\<not> hardware (g_bps s ! j)" if "hardware b" "j < length (g_bps s)" "j \<noteq> i" for j
    using that b act bp_okD(5) [OF ok that(2) i(1)] i(2) by (auto simp: hardware_def)
  show "hw_ok ((g_bps s)[i := b]) (d_hw t)"
  proof (cases ?h)
    case True
    have "\<not> hardware (g_bps s ! j)" if "j < length (g_bps s)" "j \<noteq> i" for j
      using that bp_okD(5) [OF ok that(1) i(1)] i(2) True by (auto simp: hardware_def)
    then show ?thesis using hw [OF True] i(1) b True act
      by (intro hw_ok_this) (auto simp: armed_def hardware_def)
  next
    case False
    then show ?thesis using sw [OF False] bp_okD(7) [OF ok] i(1) b act
      by (auto intro!: hw_ok_other simp: armed_def hardware_def)
  qed
  show "d_mem t = (d_mem s)(ph (bp_addr b) := if planted b then SW_BREAK_INST else P (ph (bp_addr b)))"
  proof (cases ?h)
    case True
    have "d_mem s (ph (bp_addr b)) = P (ph (bp_addr b))"
    proof (rule mem_at [OF ok])
      fix j assume "j < length (g_bps s)" "planted (g_bps s ! j)"
      then show "ph (bp_addr (g_bps s ! j)) \<noteq> ph (bp_addr b)" using * [of j] True by (cases "j = i") (auto simp: planted_def)
    qed
    moreover have "\<not> planted b" using True act b by (auto simp: planted_def)
    ultimately show ?thesis using hw [OF True] by auto
  qed (simp add: sw)
qed (use assms in auto)

definition unplanted :: "(u32 \<Rightarrow> u32) \<Rightarrow> (u32 \<Rightarrow> u32) \<Rightarrow> Breakpoint \<Rightarrow> dbg \<Rightarrow> dbg" where
  "unplanted ph P b s = (if bit (bp_flags b) 2 then debug_set_hwbreak 0 s
     else s\<lparr>d_mem := (d_mem s)(ph (bp_addr b) := P (ph (bp_addr b)))\<rparr>)"

lemma unplant_ok:
  assumes "aliasing ph" and "bp_ok ph P s" and "find_bp a s = Some i"
  shows "unplant ph (g_bps s ! i) s = Inr (unplanted ph P (g_bps s ! i) s)"
  using bp_okD(2,3) [OF assms(2) find_bp_Some(1,2) [OF assms(1,3)]]
  by (simp add: unplant_def sw_def unplanted_def)

lemma unplanted_simps [simp]: "g_bps (unplanted ph P b s) = g_bps s"
  by (simp add: unplanted_def)

lemma debugDeleteBP_ok:
  assumes "aliasing ph" and "bp_ok ph P s"
  obtains r t where "debugDeleteBP ph a s = Inr (r, t)" and "bp_ok ph P t"
    and "g_bps t = (case find_bp a s of None \<Rightarrow> g_bps s | Some i \<Rightarrow> (g_bps s)[i := (g_bps s ! i)\<lparr>bp_flags := 0\<rparr>])"
    and "r = (if find_bp a s = None then 0 else 1)"
proof (cases "find_bp a s")
  case None
  then show ?thesis using that [of 0 s] assms(2) by (simp add: debugDeleteBP_def)
next
  case (Some i)
  let ?u = "unplanted ph P (g_bps s ! i) s"
  let ?t = "?u\<lparr>g_bps := (g_bps s)[i := (g_bps s ! i)\<lparr>bp_flags := 0\<rparr>]\<rparr>"
  have "bp_ok ph P ?t"
    by (rule bp_ok_flags [OF assms Some refl]) (auto simp: planted_def unplanted_def)
  then show ?thesis using that [of 1 ?t] unplant_ok [OF assms Some] Some by (simp add: debugDeleteBP_def)
qed

lemma debugDisableBP_ok:
  assumes "aliasing ph" and "bp_ok ph P s"
  obtains r t where "debugDisableBP ph a s = Inr (r, t)" and "bp_ok ph P t"
proof (cases "find_bp a s")
  case None
  then show ?thesis using that [of 0 s] assms(2) by (simp add: debugDisableBP_def)
next
  case (Some i)
  let ?u = "unplanted ph P (g_bps s ! i) s"
  let ?fl = "bp_flags (g_bps s ! i) OR DEBUG_BP_DISABLED"
  let ?t = "?u\<lparr>g_bps := (g_bps s)[i := (g_bps s ! i)\<lparr>bp_flags := ?fl\<rparr>]\<rparr>"
  have "bp_ok ph P ?t"
    by (rule bp_ok_flags [OF assms Some refl]) (auto simp: planted_def unplanted_def bit_simps)
  then show ?thesis using that [of 1 ?t] unplant_ok [OF assms Some] Some by (simp add: debugDisableBP_def)
qed

lemma debugEnableBP_ok:
  assumes "aliasing ph" and "bp_ok ph P s"
  obtains r t where "debugEnableBP ph a s = Inr (r, t)" and "bp_ok ph P t"
proof (cases "find_bp a s")
  case None
  then show ?thesis using that [of 0 s] assms(2) by (simp add: debugEnableBP_def)
next
  case (Some i)
  let ?b = "g_bps s ! i"
  note i = find_bp_Some [OF assms(1) Some]
  let ?fl = "bp_flags ?b AND NOT (DEBUG_BP_DISABLED OR DEBUG_BP_NEXT_REENABLE)"
  have fl: "bit ?fl 0" "bit ?fl 2 = bit (bp_flags ?b) 2" "\<not> bit ?fl 3" using i(2) by (simp_all add: bit_simps)
  define u where "u = (if bit (bp_flags ?b) 2 then debug_set_hwbreak (bp_addr ?b) s
    else s\<lparr>d_mem := (d_mem s)(ph (bp_addr ?b) := SW_BREAK_INST)\<rparr>)"
  let ?t = "u\<lparr>g_bps := (g_bps s)[i := ?b\<lparr>bp_flags := ?fl\<rparr>]\<rparr>"
  have "bp_ok ph P ?t"
    by (rule bp_ok_flags [OF assms Some refl]) (use fl in \<open>auto simp: planted_def u_def\<close>)
  moreover have "debugEnableBP ph a s = Inr (1, ?t)"
    using bp_okD(2) [OF assms(2) i(1,2)] Some by (auto simp: debugEnableBP_def sw_def u_def Let_def)
  ultimately show ?thesis using that by blast
qed

end
