(* ===== verification/StepProps.thy ===== *)
theory StepProps
  imports BreakpointInv
begin

unbundle bit_operations_syntax

text \<open>
  Where the processor goes after an instruction, written from the encodings the disassembler of
  the repository lists (\<^verbatim>\<open>pspsh/disasm.C\<close>), and that the decoder of \<^verbatim>\<open>step_generic\<close> covers it.
\<close>

section \<open>Fields of an instruction\<close>

lemma field_and:
  fixes w M k :: u32
  assumes "M AND push_bit n k = push_bit n k" and "drop_bit n (push_bit n k) = k"
  shows "drop_bit n (w AND M) AND k = drop_bit n w AND k"
proof (rule bit_word_eqI)
  fix i assume i: "i < LENGTH(32)"
  have "bit M (n + i)" if "bit k i"
  proof -
    have "bit (drop_bit n (push_bit n k)) i" using assms(2) that by simp
    then have "bit (push_bit n k) (n + i)" by (simp add: bit_drop_bit_eq)
    then show ?thesis using assms(1) by (metis bit_and_iff)
  qed
  then show "bit (drop_bit n (w AND M) AND k) i = bit (drop_bit n w AND k) i"
    by (auto simp: bit_and_iff bit_drop_bit_eq)
qed

lemma op6_and: "drop_bit 26 w AND 0x3F = drop_bit 26 (w::u32)"
proof (rule bit_word_eqI)
  fix i assume "i < LENGTH(32)"
  have "bit (0x3F::u32) i \<longleftrightarrow> i < 6" using bit_mask_iff [where 'a = "32 word", of 6 i] by (auto simp: mask_eq_exp_minus_1)
  then show "bit (drop_bit 26 w AND 0x3F) i = bit (drop_bit 26 w) i"
    using bit_imp_le_length [of w "26 + i"] by (auto simp: bit_and_iff bit_drop_bit_eq)
qed

lemma op6_of:
  fixes w v M :: u32
  assumes "w AND M = v" and "M AND 0xFC000000 = 0xFC000000"
  shows "drop_bit 26 w = drop_bit 26 v"
  using field_and [of M 26 "0x3F" w] assms by (simp add: op6_and)

lemma rt_of:
  fixes w v M :: u32
  assumes "w AND M = v" and "M AND 0x001F0000 = 0x001F0000"
  shows "drop_bit 16 w AND 0x1F = drop_bit 16 v AND 0x1F"
  using field_and [of M 16 "0x1F" w] assms by simp

lemma cop_of:
  fixes w v M :: u32
  assumes "w AND M = v" and "M AND 0x03FF0000 = 0x03FF0000"
  shows "drop_bit 16 w AND 0x3FF = drop_bit 16 v AND 0x3FF"
  using field_and [of M 16 "0x3FF" w] assms by simp

lemma funct_of:
  fixes w v M :: u32
  assumes "w AND M = v" and "M AND 0x3F = 0x3F"
  shows "w AND 0x3F = v AND 0x3F"
  using field_and [of M 0 "0x3F" w] assms by simp

section \<open>The processor\<close>

text \<open>
  For a conditional branch, whether it is taken; \<open>cc\<close> is the condition bit of the coprocessor
  the branch tests.
\<close>

definition reg_s :: "u32 \<Rightarrow> u32 list \<Rightarrow> u32" where
  "reg_s w r = r ! unat (drop_bit 21 w AND 0x1F)"

definition reg_t :: "u32 \<Rightarrow> u32 list \<Rightarrow> u32" where
  "reg_t w r = r ! unat (drop_bit 16 w AND 0x1F)"

definition branch_taken :: "u32 \<Rightarrow> u32 list \<Rightarrow> bool \<Rightarrow> bool option" where
  "branch_taken w r cc =
     (if w AND 0xFC000000 \<in> {0x10000000, 0x50000000} then Some (reg_s w r = reg_t w r)
      else if w AND 0xFC000000 \<in> {0x14000000, 0x54000000} then Some (reg_s w r \<noteq> reg_t w r)
      else if w AND 0xFC1F0000 \<in> {0x18000000, 0x58000000} then Some (sint (reg_s w r) \<le> 0)
      else if w AND 0xFC1F0000 \<in> {0x1C000000, 0x5C000000} then Some (sint (reg_s w r) > 0)
      else if w AND 0xFC1F0000 \<in> {0x04000000, 0x04020000, 0x04100000, 0x04120000} then Some (sint (reg_s w r) < 0)
      else if w AND 0xFC1F0000 \<in> {0x04010000, 0x04030000, 0x04110000, 0x04130000} then Some (sint (reg_s w r) \<ge> 0)
      else if w AND 0xFFFF0000 \<in> {0x45000000, 0x45020000} then Some (\<not> cc)
      else if w AND 0xFFFF0000 \<in> {0x45010000, 0x45030000} then Some cc
      else if w AND 0xFFE30000 \<in> {0x49000000, 0x49020000} then Some (\<not> cc)
      else if w AND 0xFFE30000 \<in> {0x49010000, 0x49030000} then Some cc
      else None)"

definition jump_target :: "u32 \<Rightarrow> u32 \<Rightarrow> u32 list \<Rightarrow> u32 option" where
  "jump_target w pc r =
     (if w AND 0xFC000000 \<in> {0x08000000, 0x0C000000}
      then Some (((pc + 4) AND 0xF0000000) OR push_bit 2 (w AND 0x03FFFFFF))
      else if w AND 0xFC1FFFFF = 0x00000008 then Some (reg_s w r)
      else if w AND 0xFC1F07FF = 0x00000009 then Some (reg_s w r)
      else None)"

text \<open>The address control reaches after the instruction \<open>w\<close> at \<open>pc\<close> and its delay slot.\<close>

definition mips_next :: "u32 \<Rightarrow> u32 \<Rightarrow> u32 list \<Rightarrow> bool \<Rightarrow> u32" where
  "mips_next w pc r cc = (case branch_taken w r cc of
     Some taken \<Rightarrow> if taken then pc + 4 + branch_ofs w else pc + 8
   | None \<Rightarrow> (case jump_target w pc r of Some a \<Rightarrow> a | None \<Rightarrow> pc + 4))"

text \<open>An instruction outside the classes of branches and jumps of the opcode map.\<close>

definition plain_inst :: "u32 \<Rightarrow> bool" where
  "plain_inst w \<longleftrightarrow> drop_bit 26 w \<notin> {1, 2, 3, 4, 5, 6, 7, 0x14, 0x15, 0x16, 0x17}
     \<and> (drop_bit 26 w = 0 \<longrightarrow> w AND 0x3F \<notin> {8, 9})
     \<and> (drop_bit 26 w \<in> {0x10, 0x11, 0x12} \<longrightarrow> drop_bit 21 w AND 0x1F \<noteq> 8)"

definition known_inst :: "u32 \<Rightarrow> bool" where
  "known_inst w \<longleftrightarrow> branch_taken w [] True \<noteq> None \<or> jump_target w 0 [] \<noteq> None \<or> plain_inst w"

text \<open>A branch on a condition of the vector unit other than the first.\<close>

definition vfpu_other_cc :: "u32 \<Rightarrow> bool" where
  "vfpu_other_cc w \<longleftrightarrow> w AND 0xFFE00000 = 0x49000000 \<and> w AND 0x001C0000 \<noteq> 0"

definition successors :: "u32 \<Rightarrow> u32 \<Rightarrow> u32 list \<Rightarrow> u32 set" where
  "successors w pc r = (let b = decode_branch w pc r in
     insert (br_target b) (if br_branch b \<and> br_cond b then {pc + 8} else {}))"

lemma decode_relative:
  assumes "drop_bit 26 w \<in> {0x4, 0x14, 0x7, 0x17, 0x6, 0x16, 0x5, 0x15}
    \<or> drop_bit 26 w = 1 \<and> drop_bit 16 w AND 0x1F \<in> {0x1, 0x11, 0x13, 0x3, 0, 0x10, 0x12, 0x2}
    \<or> drop_bit 26 w \<in> {0x10, 0x11, 0x12} \<and> drop_bit 16 w AND 0x3FF \<in> {0x100, 0x102, 0x101, 0x103}"
  shows "successors w pc r = {pc + 4 + branch_ofs w, pc + 8}"
proof -
  define o6 rt cp where o: "o6 = drop_bit 26 w" "rt = drop_bit 16 w AND 0x1F" "cp = drop_bit 16 w AND 0x3FF"
  let ?A = "{0x4, 0x14, 0x7, 0x17, 0x6, 0x16, 0x5, 0x15} :: u32 set"
    and ?B = "{0x1, 0x11, 0x13, 0x3, 0, 0x10, 0x12, 0x2} :: u32 set" and ?C = "{0x100, 0x102, 0x101, 0x103} :: u32 set"
  consider (a) "(o6 \<in> ?A) = True"
    | (b) "(o6 \<in> ?A) = False" "(o6 = 1) = True" "(rt \<in> ?B) = True"
    | (c) "(o6 \<in> ?A) = False" "(o6 = 1) = False" "(o6 \<in> {0x2, 0x3}) = False" "(o6 = 0) = False"
        "(o6 \<in> {0x10, 0x11, 0x12}) = True" "(cp \<in> ?C) = True"
  proof -
    have "o6 = 1 \<Longrightarrow> o6 \<notin> ?A" by simp
    moreover have "o6 \<in> {0x10, 0x11, 0x12} \<Longrightarrow> o6 \<notin> ?A \<and> o6 \<noteq> 1 \<and> o6 \<notin> {0x2, 0x3} \<and> o6 \<noteq> 0"
      by (elim insertE) simp_all
    ultimately show ?thesis using assms that unfolding o [symmetric] by metis
  qed
  then have "decode_branch w pc r = \<lparr>br_branch = True, br_cond = True, br_link = False, br_target = pc + 4 + branch_ofs w\<rparr>"
    by cases (simp_all only: decode_branch_def Let_def o [symmetric] if_True if_False)
  then show ?thesis by (simp add: successors_def)
qed

lemma vfpu_first_cc:
  assumes "w AND 0xFFE30000 = v" and "v AND 0x001C0000 = 0" and "v AND 0xFFE00000 = 0x49000000" and "\<not> vfpu_other_cc w"
  shows "w AND 0xFFFF0000 = v"
proof -
  have "w AND 0xFFE00000 = (w AND 0xFFE30000) AND 0xFFE00000" by (simp add: and.assoc)
  then have "w AND 0x001C0000 = 0" using assms unfolding vfpu_other_cc_def by simp
  moreover have "w AND 0xFFFF0000 = (w AND 0xFFE30000) OR (w AND 0x001C0000)" by (simp add: bit.conj_disj_distrib [symmetric])
  ultimately show ?thesis using assms(1) by simp
qed

lemma decode_jump:
  assumes "drop_bit 26 w \<in> {0x2, 0x3}"
  shows "successors w pc r = {push_bit 2 (w AND 0x3ffffff) OR ((pc + 4) AND 0xf0000000)}"
proof -
  define o6 where o: "o6 = drop_bit 26 w"
  have "(o6 \<in> {0x4, 0x14, 0x7, 0x17, 0x6, 0x16, 0x5, 0x15}) = False" "(o6 = 1) = False" "(o6 \<in> {0x2, 0x3}) = True"
    using assms unfolding o [symmetric] by (elim insertE; simp)+
  then show ?thesis
    by (simp only: successors_def decode_branch_def Let_def o [symmetric] if_True if_False) simp
qed

lemma decode_special:
  assumes "drop_bit 26 w = 0" and "w AND 0x3F \<in> {0x9, 0x8}"
  shows "successors w pc r = {reg_s w r}"
  using assms by (auto simp: successors_def decode_branch_def Let_def reg_s_def)

lemma decode_plain:
  assumes "plain_inst w"
  shows "successors w pc r = {pc + 4}"
proof -
  define o6 f cp where o: "o6 = drop_bit 26 w" "f = w AND 0x3F" "cp = drop_bit 16 w AND 0x3FF"
  have cp: "drop_bit 21 w AND 0x1F = drop_bit 5 cp" unfolding o by (simp add: drop_bit_and)
  have pl: "o6 \<notin> {1, 2, 3, 4, 5, 6, 7, 0x14, 0x15, 0x16, 0x17}" "o6 = 0 \<longrightarrow> f \<notin> {8, 9}"
    "o6 \<in> {0x10, 0x11, 0x12} \<longrightarrow> drop_bit 5 cp \<noteq> 8"
    using assms unfolding plain_inst_def cp unfolding o by blast+
  have "o6 \<notin> {0x4, 0x14, 0x7, 0x17, 0x6, 0x16, 0x5, 0x15}" "o6 \<noteq> 1" "o6 \<notin> {0x2, 0x3}" using pl(1) by blast+
  moreover have "f \<notin> {0x9, 0x8}" if "o6 = 0" using that pl(2) by blast
  moreover have "cp \<notin> {0x100, 0x102, 0x101, 0x103}" if "o6 \<in> {0x10, 0x11, 0x12}"
  proof
    assume "cp \<in> {0x100, 0x102, 0x101, 0x103}"
    then have "drop_bit 5 cp = 8" by (elim insertE) simp_all
    then show False using that pl(3) by blast
  qed
  ultimately have "decode_branch w pc r = \<lparr>br_branch = False, br_cond = False, br_link = False, br_target = pc + 4\<rparr>"
    by (simp only: decode_branch_def Let_def o [symmetric] if_False if_True if_cancel split: if_split) blast
  then show ?thesis by (simp add: successors_def)
qed

lemma if_Some_neq: "(if b then Some x else y) \<noteq> None \<longleftrightarrow> b \<or> y \<noteq> None"
  by simp

text \<open>The branches of \<^verbatim>\<open>branch_taken\<close> are relative branches for the decoder.\<close>

lemma branch_taken_relative:
  assumes "branch_taken w r cc = Some t" and "\<not> vfpu_other_cc w"
  shows "successors w pc r' = {pc + 4 + branch_ofs w, pc + 8}"
proof -
  have a: "successors w pc r' = {pc + 4 + branch_ofs w, pc + 8}"
    if "w AND 0xFC000000 = v" "v \<in> {0x10000000, 0x50000000, 0x14000000, 0x54000000}" for v
  proof (rule decode_relative)
    have "drop_bit 26 w = drop_bit 26 v" by (rule op6_of [OF that(1)]) simp
    moreover have "drop_bit 26 v \<in> {0x4, 0x14, 0x5, 0x15}" using that(2) by (elim insertE) simp_all
    ultimately show "drop_bit 26 w \<in> {0x4, 0x14, 0x7, 0x17, 0x6, 0x16, 0x5, 0x15} \<or> drop_bit 26 w = 1
      \<and> drop_bit 16 w AND 0x1F \<in> {0x1, 0x11, 0x13, 0x3, 0, 0x10, 0x12, 0x2}
      \<or> drop_bit 26 w \<in> {0x10, 0x11, 0x12} \<and> drop_bit 16 w AND 0x3FF \<in> {0x100, 0x102, 0x101, 0x103}"
      by (metis insert_iff)
  qed
  have b: "successors w pc r' = {pc + 4 + branch_ofs w, pc + 8}"
    if "w AND 0xFC1F0000 = v" "v \<in> {0x18000000, 0x58000000, 0x1C000000, 0x5C000000, 0x04000000, 0x04020000,
      0x04100000, 0x04120000, 0x04010000, 0x04030000, 0x04110000, 0x04130000}" for v
  proof (rule decode_relative)
    have "drop_bit 26 w = drop_bit 26 v" by (rule op6_of [OF that(1)]) simp
    moreover have "drop_bit 16 w AND 0x1F = drop_bit 16 v AND 0x1F" by (rule rt_of [OF that(1)]) simp
    moreover have "drop_bit 26 v \<in> {0x6, 0x16, 0x7, 0x17} \<or> drop_bit 26 v = 1
        \<and> drop_bit 16 v AND 0x1F \<in> {0x1, 0x11, 0x13, 0x3, 0, 0x10, 0x12, 0x2}"
      using that(2) by (elim insertE) simp_all
    ultimately show "drop_bit 26 w \<in> {0x4, 0x14, 0x7, 0x17, 0x6, 0x16, 0x5, 0x15} \<or> drop_bit 26 w = 1
      \<and> drop_bit 16 w AND 0x1F \<in> {0x1, 0x11, 0x13, 0x3, 0, 0x10, 0x12, 0x2}
      \<or> drop_bit 26 w \<in> {0x10, 0x11, 0x12} \<and> drop_bit 16 w AND 0x3FF \<in> {0x100, 0x102, 0x101, 0x103}"
      by (metis insert_iff)
  qed
  have c: "successors w pc r' = {pc + 4 + branch_ofs w, pc + 8}"
    if "w AND 0xFFFF0000 = v" "v \<in> {0x45000000, 0x45020000, 0x45010000, 0x45030000,
      0x49000000, 0x49020000, 0x49010000, 0x49030000}" for v
  proof (rule decode_relative)
    have "drop_bit 26 w = drop_bit 26 v" by (rule op6_of [OF that(1)]) simp
    moreover have "drop_bit 16 w AND 0x3FF = drop_bit 16 v AND 0x3FF" by (rule cop_of [OF that(1)]) simp
    moreover have "drop_bit 26 v \<in> {0x11, 0x12} \<and> drop_bit 16 v AND 0x3FF \<in> {0x100, 0x102, 0x101, 0x103}"
      using that(2) by (elim insertE) simp_all
    ultimately show "drop_bit 26 w \<in> {0x4, 0x14, 0x7, 0x17, 0x6, 0x16, 0x5, 0x15} \<or> drop_bit 26 w = 1
      \<and> drop_bit 16 w AND 0x1F \<in> {0x1, 0x11, 0x13, 0x3, 0, 0x10, 0x12, 0x2}
      \<or> drop_bit 26 w \<in> {0x10, 0x11, 0x12} \<and> drop_bit 16 w AND 0x3FF \<in> {0x100, 0x102, 0x101, 0x103}"
      by (metis insert_iff)
  qed
  have d: "successors w pc r' = {pc + 4 + branch_ofs w, pc + 8}"
    if "w AND 0xFFE30000 = v" "v \<in> {0x49000000, 0x49020000, 0x49010000, 0x49030000}" for v
  proof (rule c)
    have "v AND 0x001C0000 = 0 \<and> v AND 0xFFE00000 = 0x49000000" using that(2) by (elim insertE) simp_all
    then show "w AND 0xFFFF0000 = v" using vfpu_first_cc [OF that(1) _ _ assms(2)] by blast
  qed (use that(2) in blast)
  have "branch_taken w r cc \<noteq> None" using assms(1) by simp
  then show ?thesis
    unfolding branch_taken_def if_Some_neq by (elim disjE insertE emptyE) ((rule a, assumption, simp) | (rule b, assumption, simp)
      | (rule c, assumption, simp) | (rule d, assumption, simp) | simp)+
qed

lemma jump_target_covered:
  assumes "jump_target w pc r = Some a"
  shows "successors w pc r = {a}"
proof -
  consider (j) "w AND 0xFC000000 \<in> {0x08000000, 0x0C000000}" "a = ((pc + 4) AND 0xF0000000) OR push_bit 2 (w AND 0x03FFFFFF)"
    | (jr) "w AND 0xFC1FFFFF = 0x00000008" "a = reg_s w r"
    | (jalr) "w AND 0xFC1F07FF = 0x00000009" "a = reg_s w r"
    using assms unfolding jump_target_def by (metis option.distinct(1) option.inject)
  then show ?thesis
  proof cases
    case j
    have "drop_bit 26 w = drop_bit 26 (w AND 0xFC000000)" by (rule op6_of [OF refl]) simp
    moreover have "drop_bit 26 (w AND 0xFC000000) \<in> {0x2, 0x3}" using j(1) by (elim insertE) simp_all
    ultimately show ?thesis using decode_jump [of w pc r] j(2) by (simp add: or.commute)
  next
    case jr
    have "drop_bit 26 w = 0" using op6_of [OF jr(1)] by simp
    moreover have "w AND 0x3F = 8" using funct_of [OF jr(1)] by simp
    ultimately show ?thesis using decode_special [of w] jr(2) by simp
  next
    case jalr
    have "drop_bit 26 w = 0" using op6_of [OF jalr(1)] by simp
    moreover have "w AND 0x3F = 9" using funct_of [OF jalr(1)] by simp
    ultimately show ?thesis using decode_special [of w] jalr(2) by simp
  qed
qed

text \<open>Being a branch or a jump depends on the instruction alone.\<close>

lemma branch_taken_known: "branch_taken w r cc \<noteq> None \<longleftrightarrow> branch_taken w [] True \<noteq> None"
  unfolding branch_taken_def if_Some_neq by (rule refl)

lemma jump_target_known: "jump_target w pc r \<noteq> None \<longleftrightarrow> jump_target w 0 [] \<noteq> None"
  unfolding jump_target_def if_Some_neq by (rule refl)

lemma mips_next_covered:
  assumes "known_inst w" and "\<not> vfpu_other_cc w"
  shows "mips_next w pc r cc \<in> successors w pc r"
proof (cases "branch_taken w r cc")
  case (Some t)
  then show ?thesis using branch_taken_relative [OF Some assms(2)] by (simp add: mips_next_def)
next
  case None
  note n = None
  show ?thesis
  proof (cases "jump_target w pc r")
    case (Some a)
    then show ?thesis using jump_target_covered [OF Some] n by (simp add: mips_next_def)
  next
    case None
    then have "plain_inst w" using assms(1) n branch_taken_known [of w r cc] jump_target_known [of w pc r]
      by (auto simp: known_inst_def)
    then show ?thesis using decode_plain n None by (simp add: mips_next_def)
  qed
qed

end
