(* ===== verification/BreakpointProps.thy ===== *)
theory BreakpointProps
  imports StepProps
begin

unbundle bit_operations_syntax

text \<open>
  The properties of the breakpoints: the program under them never changes, a single step always
  stops, what a step leaves behind is removed when it is hit, and two faults of the code.
\<close>

section \<open>Changing the step links alone\<close>

lemma bp_ok_links:
  assumes ok: "bp_ok ph P s" and len: "length bs = length (g_bps s)"
    and same: "\<And>i. i < length bs \<Longrightarrow> \<exists>q. bs ! i = (g_bps s ! i)\<lparr>bp_step := q\<rparr>"
  shows "bp_ok ph P (s\<lparr>g_bps := bs\<rparr>)"
proof -
  have *: "bp_addr (bs ! i) = bp_addr (g_bps s ! i)" "bp_inst (bs ! i) = bp_inst (g_bps s ! i)"
    "bp_flags (bs ! i) = bp_flags (g_bps s ! i)" if "i < length bs" for i
    using same [OF that] by auto
  then have "covered ph bs a = covered ph (g_bps s) a" for a using len by (auto simp: covered_def planted_def)
  moreover have "hw_ok bs e = hw_ok (g_bps s) e" for e using * len by (simp add: hw_ok_def armed_def hardware_def)
  ultimately show ?thesis using ok * len unfolding bp_ok_def by (simp add: hardware_def)
qed

lemma link_step_nth:
  assumes "i < length (g_bps s)"
  shows "\<exists>r. g_bps (link_step p q s) ! i = (g_bps s ! i)\<lparr>bp_step := r\<rparr>"
proof -
  have e: "g_bps s ! i = (g_bps s ! i)\<lparr>bp_step := bp_step (g_bps s ! i)\<rparr>" by simp
  show ?thesis
  proof (cases "p = Some i")
    case True
    then show ?thesis using assms by (auto simp: link_step_def)
  next
    case False
    then have "g_bps (link_step p q s) ! i = g_bps s ! i" by (cases p) (auto simp: link_step_def nth_list_update)
    then show ?thesis using e by metis
  qed
qed

lemma link_step_simps [simp]:
  "length (g_bps (link_step p q s)) = length (g_bps s)" "d_mem (link_step p q s) = d_mem s"
  "d_hw (link_step p q s) = d_hw s"
  by (simp_all add: link_step_def split: option.split)

lemma link_step_ok:
  assumes "bp_ok ph P s"
  shows "bp_ok ph P (link_step p q s)"
proof -
  have "link_step p q s = s\<lparr>g_bps := g_bps (link_step p q s)\<rparr>" by (simp add: link_step_def split: option.split)
  moreover have "bp_ok ph P (s\<lparr>g_bps := g_bps (link_step p q s)\<rparr>)"
    by (rule bp_ok_links [OF assms]) (use link_step_nth in auto)
  ultimately show ?thesis by simp
qed

section \<open>Stepping and clearing keep the invariant\<close>

lemma STEP_FLAGS_bits [simp]:
  "n < 32 \<Longrightarrow> bit STEP_FLAGS n \<longleftrightarrow> n = 1 \<or> n = 4"
  by (simp add: STEP_FLAGS_def bit_or_iff)

lemma step_generic_ok:
  assumes al: "aliasing ph" and ok: "bp_ok ph P s" and st: "step_generic ph ctx skip s = Inr t"
  shows "bp_ok ph P t"
proof -
  have one: "bp_ok ph P v" if "debugSetBP ph a STEP_FLAGS thid u = Inr (r, v)" "bp_ok ph P u" for a thid u v r
    by (rule debugSetBP_ok [OF al that(2) _ that(1)]) simp
  have map: "\<exists>r. debugSetBP ph a STEP_FLAGS thid u = Inr (r, v)"
    if "map_sum id snd (debugSetBP ph a STEP_FLAGS thid u) = Inr v" for a thid u v
    using that by (cases "debugSetBP ph a STEP_FLAGS thid u") auto
  show ?thesis using st ok
    by (auto simp: step_generic_def Let_def split: sum.splits if_splits dest!: map one intro!: link_step_ok)
qed

lemma delete_at_ok:
  assumes "aliasing ph" and "bp_ok ph P s"
  obtains t where "delete_at ph p s = Inr t" and "bp_ok ph P t"
proof (cases p)
  case None
  then show ?thesis using that assms(2) by (simp add: delete_at_def)
next
  case (Some j)
  obtain r t where "debugDeleteBP ph (bp_addr (g_bps s ! j)) s = Inr (r, t)" "bp_ok ph P t"
    by (rule debugDeleteBP_ok [OF assms])
  then show ?thesis using that Some by (simp add: delete_at_def)
qed

lemma debugClearException_ok:
  assumes "aliasing ph" and "bp_ok ph P s"
  obtains c t where "debugClearException ph ctx s = Inr (c, t)" and "bp_ok ph P t"
proof -
  have "\<exists>c t. debugClearException ph ctx s = Inr (c, t) \<and> bp_ok ph P t"
  proof -
    have two: "\<exists>t1 t2. delete_at ph p s = Inr t1 \<and> delete_at ph q t1 = Inr t2 \<and> bp_ok ph P t2" for p q
      by (metis delete_at_ok [OF assms(1)] assms(2))
    show ?thesis
    proof (cases "find_bp (if has (cx_cause ctx) 0x80000000 then cx_epc ctx + 4 else cx_epc ctx) s")
      case None
      then show ?thesis using assms(2) by (simp add: debugClearException_def Let_def)
    next
      case (Some i)
      obtain t1 t2 where "delete_at ph (Some i) s = Inr t1" "delete_at ph (bp_step (g_bps s ! i)) t1 = Inr t2" "bp_ok ph P t2"
        using two by blast
      then show ?thesis using Some assms(2) by (simp add: debugClearException_def Let_def)
    qed
  qed
  then show ?thesis using that by blast
qed

section \<open>The program under the breakpoints\<close>

text \<open>
  The operations on the table, in any order: those of the shell and of a remote debugger, the
  steps of stopped threads, and breakpoints that are hit. Breakpoints are set enabled, as all
  callers do.
\<close>

inductive debug_step :: "(u32 \<Rightarrow> u32) \<Rightarrow> dbg \<Rightarrow> dbg \<Rightarrow> bool" for ph where
  setbp: "debugSetBP ph a flags thid s = Inr (r, t) \<Longrightarrow> \<not> has flags DEBUG_BP_DISABLED \<Longrightarrow> debug_step ph s t"
| delete: "debugDeleteBP ph a s = Inr (r, t) \<Longrightarrow> debug_step ph s t"
| disable: "debugDisableBP ph a s = Inr (r, t) \<Longrightarrow> debug_step ph s t"
| enable: "debugEnableBP ph a s = Inr (r, t) \<Longrightarrow> debug_step ph s t"
| break_thread: "debugBreakThread ph epc uid s = Inr (r, t) \<Longrightarrow> debug_step ph s t"
| single: "step_generic ph ctx skip s = Inr t \<Longrightarrow> debug_step ph s t"
| hit: "debugClearException ph ctx s = Inr (c, t) \<Longrightarrow> debug_step ph s t"

inductive debug_reach :: "(u32 \<Rightarrow> u32) \<Rightarrow> dbg \<Rightarrow> dbg \<Rightarrow> bool" for ph s0 where
  start: "debug_reach ph s0 s0"
| step: "debug_reach ph s0 s \<Longrightarrow> debug_step ph s t \<Longrightarrow> debug_reach ph s0 t"

definition no_bp :: Breakpoint where
  "no_bp = \<lparr>bp_addr = 0, bp_inst = 0, bp_flags = 0, bp_thid = 0, bp_step = None\<rparr>"

definition dbg_start :: "(u32 \<Rightarrow> u32) \<Rightarrow> dbg" where
  "dbg_start m = \<lparr>g_bps = replicate DEBUG_MAX_BPS no_bp, d_mem = m,
     d_hw = \<lparr>DRCNTL = 0, IBC = 0, IBA = 0, IBAM = 0\<rparr>,
     psplinkHwContext = \<lparr>DRCNTL = 0, IBC = 0, IBA = 0, IBAM = 0\<rparr>\<rparr>"

lemma dbg_start_ok: "bp_ok ph m (dbg_start m)"
proof -
  have "\<not> active (g_bps (dbg_start m) ! i)" if "i < length (g_bps (dbg_start m))" for i
    using that by (simp add: dbg_start_def no_bp_def)
  then show ?thesis
    by (auto simp: bp_ok_def covered_def planted_def hw_ok_def armed_def hardware_def) (simp_all add: dbg_start_def)
qed

lemma debug_step_ok: "debug_step ph s t \<Longrightarrow> aliasing ph \<Longrightarrow> bp_ok ph P s \<Longrightarrow> bp_ok ph P t"
proof (induction rule: debug_step.induct)
  case (setbp a flags thid s r t)
  then show ?case by (intro debugSetBP_ok [OF setbp(3,4) _ setbp(1)]) simp
next
  case (delete a s r t)
  then show ?case using debugDeleteBP_ok [OF delete(2,3), of a] by fastforce
next
  case (disable a s r t)
  then show ?case using debugDisableBP_ok [OF disable(2,3), of a] by fastforce
next
  case (enable a s r t)
  then show ?case using debugEnableBP_ok [OF enable(2,3), of a] by fastforce
next
  case (break_thread epc uid s r t)
  then obtain q where "debugSetBP ph epc DEBUG_BP_ONESHOT uid s = Inr (q, t) \<or> t = s"
    by (auto simp: debugBreakThread_def split: if_splits sum.splits)
  then show ?case
    using debugSetBP_ok [OF break_thread(2,3), of DEBUG_BP_ONESHOT epc uid q t] break_thread(3) by auto
next
  case (single ctx skip s t)
  then show ?case using step_generic_ok by blast
next
  case (hit ctx s c t)
  then show ?case using debugClearException_ok [OF hit(2,3), of ctx] by fastforce
qed

lemma debug_reach_ok: "debug_reach ph s0 s \<Longrightarrow> aliasing ph \<Longrightarrow> bp_ok ph P s0 \<Longrightarrow> bp_ok ph P s"
  by (induction rule: debug_reach.induct) (auto intro: debug_step_ok)

text \<open>C17: Breakpoints are transparent: after any sequence of setting, deleting, disabling, enabling,
  stepping and hitting breakpoints, memory is the original program with the break instruction
  exactly at the enabled software breakpoints (so once none is enabled it is the original program
  again), no two active breakpoints are at one place, and the debug registers are armed exactly for
  the one enabled hardware breakpoint.\<close>

theorem breakpoints_transparent:
  assumes "aliasing ph" and "debug_reach ph (dbg_start m) s"
  shows "d_mem s a = (if covered ph (g_bps s) a then SW_BREAK_INST else m a)
    \<and> (\<forall>i < DEBUG_MAX_BPS. \<forall>j < DEBUG_MAX_BPS. active (g_bps s ! i) \<longrightarrow> active (g_bps s ! j) \<longrightarrow>
        same_place (bp_addr (g_bps s ! i)) (bp_addr (g_bps s ! j)) \<longrightarrow> i = j)
    \<and> hw_ok (g_bps s) (d_hw s)"
proof -
  have "bp_ok ph m s" by (rule debug_reach_ok [OF assms(2,1) dbg_start_ok])
  from bp_okD [OF this] show ?thesis using assms(1) unfolding aliasing_def by metis
qed

section \<open>A step always stops\<close>

definition guarded :: "(u32 \<Rightarrow> u32) \<Rightarrow> dbg \<Rightarrow> u32 \<Rightarrow> bool" where
  "guarded ph s a \<longleftrightarrow> (\<exists>i < length (g_bps s). active (g_bps s ! i)
     \<and> \<not> has (bp_flags (g_bps s ! i)) DEBUG_BP_DISABLED \<and> ph (bp_addr (g_bps s ! i)) = ph a)"

definition free_slots :: "dbg \<Rightarrow> nat set" where
  "free_slots s = {i. i < length (g_bps s) \<and> \<not> active (g_bps s ! i)}"

definition none_disabled :: "dbg \<Rightarrow> bool" where
  "none_disabled s \<longleftrightarrow> (\<forall>i < length (g_bps s). active (g_bps s ! i) \<longrightarrow> \<not> has (bp_flags (g_bps s ! i)) DEBUG_BP_DISABLED)"

lemma set_guard:
  assumes al: "aliasing ph" and ok: "bp_ok ph P s" and nd: "none_disabled s" and a: "a AND 3 = 0"
    and free: "free_slots s \<noteq> {}"
  obtains r t where "debugSetBP ph a STEP_FLAGS thid s = Inr (r, t)" and "bp_ok ph P t" and "none_disabled t"
    and "guarded ph t a" and "\<And>b. guarded ph s b \<Longrightarrow> guarded ph t b" and "card (free_slots s) \<le> card (free_slots t) + 1"
proof -
  obtain j where j: "find_freebp s = Some j"
    using free by (cases "find_freebp s") (auto simp: free_slots_def find_freebp_def find_slot_None)
  obtain r t where set: "debugSetBP ph a STEP_FLAGS thid s = Inr (r, t)"
    using a j by (cases "find_bp a s") (auto simp: debugSetBP_def lw_def sw_def)
  have "none_disabled t \<and> guarded ph t a \<and> (\<forall>b. guarded ph s b \<longrightarrow> guarded ph t b) \<and> card (free_slots s) \<le> card (free_slots t) + 1"
    using al ok set
  proof (cases rule: debugSetBP_cases)
    case refused
    then obtain i where "find_bp a s = Some i" using j by auto
    from find_bp_Some [OF al this] have "guarded ph s a" using nd by (auto simp: guarded_def none_disabled_def)
    then show ?thesis using refused nd by simp
  next
    case (fresh i)
    note i = find_freebp_Some [OF fresh(3)]
    have g: "g_bps t ! k = (if k = i then new_bp a (P (ph a)) STEP_FLAGS thid else g_bps s ! k)" if "k < length (g_bps s)" for k
      using fresh(6) that by simp
    have len: "length (g_bps t) = length (g_bps s)" using fresh(6) by simp
    have "none_disabled t" using nd g len by (auto simp: none_disabled_def bit_or_iff)
    moreover have "guarded ph t a" unfolding guarded_def
      by (rule exI [of _ i]) (use i g len in \<open>auto simp: bit_or_iff\<close>)
    moreover have "guarded ph t b" if gb: "guarded ph s b" for b
    proof -
      obtain k where k: "k < length (g_bps s)" "active (g_bps s ! k)"
        "\<not> has (bp_flags (g_bps s ! k)) DEBUG_BP_DISABLED" "ph (bp_addr (g_bps s ! k)) = ph b"
        using gb unfolding guarded_def by blast
      moreover have "k \<noteq> i" using k i by auto
      ultimately show ?thesis unfolding guarded_def by (intro exI [of _ k]) (simp add: g len)
    qed
    moreover have "free_slots t = free_slots s - {i}" using g len by (auto simp: free_slots_def bit_or_iff split: if_splits)
    moreover have "card (free_slots s) - card {i} \<le> card (free_slots s - {i})" by (rule diff_card_le_card_Diff) simp
    ultimately show ?thesis by simp
  qed
  then show ?thesis using that [OF set debugSetBP_ok [OF al ok _ set]] by simp
qed

lemma guarded_link [simp]: "guarded ph (link_step p q s) a = guarded ph s a"
proof -
  have "active (g_bps (link_step p q s) ! i) = active (g_bps s ! i)"
    "has (bp_flags (g_bps (link_step p q s) ! i)) f = has (bp_flags (g_bps s ! i)) f"
    "bp_addr (g_bps (link_step p q s) ! i) = bp_addr (g_bps s ! i)" if "i < length (g_bps s)" for i f
    using link_step_nth [OF that, of p q] by auto
  then show ?thesis by (simp add: guarded_def cong: conj_cong del: active_bit has_bit)
qed

text \<open>Every target of the decoder is guarded, provided the targets can be accessed.\<close>

lemma step_guards:
  assumes al: "aliasing ph" and ok: "bp_ok ph P s" and nd: "none_disabled s" and epc: "cx_epc ctx AND 3 = 0"
    and free: "2 \<le> card (free_slots s)"
    and tgt: "br_target (decode_branch (d_mem s (ph (cx_epc ctx))) (cx_epc ctx) (cx_r ctx)) AND 3 = 0"
    and epc8: "(cx_epc ctx + 8) AND 3 = 0"
  obtains t where "step_generic ph ctx False s = Inr t" and "bp_ok ph P t"
    and "\<And>a. a \<in> successors (d_mem s (ph (cx_epc ctx))) (cx_epc ctx) (cx_r ctx) \<Longrightarrow> guarded ph t a"
proof -
  let ?b = "decode_branch (d_mem s (ph (cx_epc ctx))) (cx_epc ctx) (cx_r ctx)"
  have f: "free_slots s \<noteq> {}" using free by auto
  obtain r1 s1 where s1: "debugSetBP ph (br_target ?b) STEP_FLAGS (cx_thid ctx) s = Inr (r1, s1)" "bp_ok ph P s1"
    "none_disabled s1" "guarded ph s1 (br_target ?b)" "card (free_slots s) \<le> card (free_slots s1) + 1"
    by (rule set_guard [OF al ok nd tgt f, of "cx_thid ctx"])
  have "free_slots s1 \<noteq> {}" using s1(5) free by auto
  then obtain r2 s2 where s2: "debugSetBP ph (cx_epc ctx + 8) STEP_FLAGS (cx_thid ctx) s1 = Inr (r2, s2)"
    "bp_ok ph P s2" "guarded ph s2 (cx_epc ctx + 8)" "\<And>b. guarded ph s1 b \<Longrightarrow> guarded ph s2 b"
    using set_guard [OF al s1(2,3) epc8, of "cx_thid ctx"] by metis
  have lw: "lw ph (cx_epc ctx) s = Inr (d_mem s (ph (cx_epc ctx)))" using epc by (simp add: lw_def)
  show ?thesis
  proof (cases "br_branch ?b \<and> br_cond ?b \<and> br_target ?b \<noteq> cx_epc ctx + 8")
    case True
    show ?thesis
      by (rule that [of "link_step r2 r1 (link_step r1 r2 s2)"])
        (use True lw s1 s2 in \<open>auto simp: step_generic_def successors_def Let_def link_step_ok\<close>)
  next
    case False
    then have "step_generic ph ctx False s = Inr s1" using lw s1(1) by (auto simp: step_generic_def Let_def)
    then show ?thesis
    proof (rule that [OF _ s1(2)])
      fix a assume "a \<in> successors (d_mem s (ph (cx_epc ctx))) (cx_epc ctx) (cx_r ctx)"
      then have "a = br_target ?b" using False by (auto simp: successors_def Let_def split: if_splits)
      then show "guarded ph s1 a" using s1(4) by simp
    qed
  qed
qed

lemma aligned_add:
  fixes a b :: u32
  assumes "a AND 3 = 0" and "b AND 3 = 0"
  shows "(a + b) AND 3 = 0"
proof -
  have m: "x AND 3 = 0 \<longleftrightarrow> 4 dvd unat x" for x :: u32
  proof -
    have "unat x AND 3 = take_bit 2 (unat x)" by (simp add: take_bit_eq_mask mask_eq_exp_minus_1)
    then have "unat (x AND 3) = unat x mod 4" by (simp add: unsigned_and_eq take_bit_eq_mod)
    then show ?thesis by (metis dvd_eq_mod_eq_0 unat_0 unat_eq_zero)
  qed
  have "4 dvd unat a + unat b" using assms by (simp add: m)
  then have "4 dvd unat (a + b)" by (simp add: unat_word_ariths dvd_mod_iff)
  then show ?thesis by (simp add: m)
qed

lemma push2_aligned: "push_bit 2 (x::u32) AND 3 = 0"
proof -
  have "take_bit 2 (push_bit 2 x) = 0" by (simp add: take_bit_push_bit)
  then show ?thesis by (simp add: take_bit_eq_mask mask_eq_exp_minus_1)
qed
lemma branch_ofs_aligned: "branch_ofs w AND 3 = 0"
proof -
  have "branch_ofs w = push_bit 2 (scast (ucast w :: u16))" by (simp add: branch_ofs_def push_bit_eq_mult)
  then show ?thesis by (simp add: push2_aligned)
qed

lemma successors_aligned:
  assumes "known_inst w" and "\<not> vfpu_other_cc w" and "pc AND 3 = 0" and "mips_next w pc r cc AND 3 = 0"
    and "a \<in> successors w pc r"
  shows "a AND 3 = 0"
proof (cases "branch_taken w r cc")
  case (Some t)
  have "(pc + 4 + branch_ofs w) AND 3 = 0" "(pc + 8) AND 3 = 0"
    using assms(3) by (simp_all add: aligned_add branch_ofs_aligned)
  then show ?thesis using branch_taken_relative [OF Some assms(2), of pc r] assms(5) by auto
next
  case None
  have "\<exists>b. successors w pc r = {b}"
  proof (cases "jump_target w pc r")
    case (Some b)
    then show ?thesis using jump_target_covered by blast
  next
    case None
    then have "plain_inst w" using assms(1) \<open>branch_taken w r cc = None\<close> branch_taken_known [of w r cc] jump_target_known [of w pc r]
      by (auto simp: known_inst_def)
    then show ?thesis using decode_plain by blast
  qed
  then show ?thesis using mips_next_covered [OF assms(1,2), of pc r cc] assms(4,5) by auto
qed

text \<open>C18: A single step always stops: with two free slots and no disabled breakpoint, stepping plants
  breakpoints such that wherever the processor goes after the instruction at the program counter
  and its delay slot (conditional branch taken or not, whatever the registers and the condition
  bit), an enabled breakpoint is there. The instruction is any but a branch on a condition of the
  vector unit other than the first, and no breakpoint is planted on the instruction itself.\<close>

theorem step_always_stops:
  assumes "aliasing ph" and "debug_reach ph (dbg_start m) s" and "none_disabled s" and "2 \<le> card (free_slots s)"
    and "cx_epc ctx AND 3 = 0" and "\<not> covered ph (g_bps s) (ph (cx_epc ctx))"
    and "known_inst (m (ph (cx_epc ctx)))" and "\<not> vfpu_other_cc (m (ph (cx_epc ctx)))"
    and "mips_next (m (ph (cx_epc ctx))) (cx_epc ctx) (cx_r ctx) cc AND 3 = 0"
  shows "\<exists>t. step_generic ph ctx False s = Inr t
    \<and> guarded ph t (mips_next (m (ph (cx_epc ctx))) (cx_epc ctx) (cx_r ctx) cc)"
proof -
  have ok: "bp_ok ph m s" by (rule debug_reach_ok [OF assms(2,1) dbg_start_ok])
  have w: "d_mem s (ph (cx_epc ctx)) = m (ph (cx_epc ctx))" using bp_okD(6) [OF ok] assms(6) by simp
  have epc8: "(cx_epc ctx + 8) AND 3 = 0" using assms(5) by (simp add: aligned_add)
  have "br_target (decode_branch (m (ph (cx_epc ctx))) (cx_epc ctx) (cx_r ctx)) AND 3 = 0"
    by (rule successors_aligned [OF assms(7,8,5,9)]) (simp add: successors_def Let_def)
  then obtain t where "step_generic ph ctx False s = Inr t"
    "\<And>a. a \<in> successors (m (ph (cx_epc ctx))) (cx_epc ctx) (cx_r ctx) \<Longrightarrow> guarded ph t a"
    using step_guards [OF assms(1) ok assms(3,5,4), unfolded w] epc8 by metis
  then show ?thesis using mips_next_covered [OF assms(7,8)] by blast
qed
end
