(* ===== verification/BreakpointHits.thy ===== *)
theory BreakpointHits
  imports BreakpointProps
begin

text \<open>
  What happens when a breakpoint is hit: a step is cleaned up, and the limits of the code, with
  the properties of the breakpoints applied on a concrete machine.
\<close>

unbundle bit_operations_syntax

section \<open>After the step\<close>

text \<open>The same active breakpoints, and so the same memory.\<close>

definition same_bps :: "dbg \<Rightarrow> dbg \<Rightarrow> bool" where
  "same_bps s t \<longleftrightarrow> length (g_bps t) = length (g_bps s) \<and> (\<forall>i < length (g_bps s).
     active (g_bps t ! i) = active (g_bps s ! i) \<and> (active (g_bps s ! i) \<longrightarrow> g_bps t ! i = g_bps s ! i))"

lemma same_bps_mem:
  assumes "bp_ok ph P s" and "bp_ok ph P t" and "same_bps s t"
  shows "d_mem t = d_mem s"
proof
  fix a
  have "planted (g_bps t ! i) = planted (g_bps s ! i) \<and> (planted (g_bps s ! i) \<longrightarrow> g_bps t ! i = g_bps s ! i)"
    if "i < length (g_bps s)" for i
    using assms(3) that by (auto simp: same_bps_def planted_def)
  then have "covered ph (g_bps t) a = covered ph (g_bps s) a"
    using assms(3) unfolding covered_def same_bps_def by metis
  then show "d_mem t a = d_mem s a" using bp_okD(6) [OF assms(1)] bp_okD(6) [OF assms(2)] by simp
qed

lemma delete_at_this:
  assumes "aliasing ph" and "bp_ok ph P s" and "i < length (g_bps s)" and "active (g_bps s ! i)"
  obtains t where "delete_at ph (Some i) s = Inr t" and "bp_ok ph P t"
    and "g_bps t = (g_bps s)[i := (g_bps s ! i)\<lparr>bp_flags := 0\<rparr>]"
proof -
  have f: "find_bp (bp_addr (g_bps s ! i)) s = Some i" by (rule find_bp_eq [OF assms]) simp
  obtain r t where "debugDeleteBP ph (bp_addr (g_bps s ! i)) s = Inr (r, t)" "bp_ok ph P t"
    "g_bps t = (case find_bp (bp_addr (g_bps s ! i)) s of None \<Rightarrow> g_bps s
      | Some j \<Rightarrow> (g_bps s)[j := (g_bps s ! j)\<lparr>bp_flags := 0\<rparr>])"
    by (rule debugDeleteBP_ok [OF assms(1,2)])
  then show ?thesis using that f by (simp add: delete_at_def)
qed

text \<open>Hitting a one-shot breakpoint removes it and its partner.\<close>

lemma clear_oneshot:
  assumes al: "aliasing ph" and ok: "bp_ok ph P t" and i: "i < length (g_bps t)" "active (g_bps t ! i)"
    and fl: "bit (bp_flags (g_bps t ! i)) 1" "\<not> bit (bp_flags (g_bps t ! i)) 3"
    and addr: "ph (bp_addr (g_bps t ! i)) = ph (if has (cx_cause ctx) 0x80000000 then cx_epc ctx + 4 else cx_epc ctx)"
    and q: "q = bp_step (g_bps t ! i)"
      "\<And>j. q = Some j \<Longrightarrow> j < length (g_bps t) \<and> j \<noteq> i \<and> active (g_bps t ! j)"
  obtains c u where "debugClearException ph ctx t = Inr (c, u)" and "\<not> cx_error c" and "bp_ok ph P u"
    and "length (g_bps u) = length (g_bps t)"
    and "\<And>k. k < length (g_bps t) \<Longrightarrow> g_bps u ! k = (if k = i \<or> q = Some k then (g_bps t ! k)\<lparr>bp_flags := 0\<rparr> else g_bps t ! k)"
proof -
  have f: "find_bp (if has (cx_cause ctx) 0x80000000 then cx_epc ctx + 4 else cx_epc ctx) t = Some i"
    by (rule find_bp_eq [OF al ok i addr])
  obtain u1 where u1: "delete_at ph (Some i) t = Inr u1" "bp_ok ph P u1"
    "g_bps u1 = (g_bps t)[i := (g_bps t ! i)\<lparr>bp_flags := 0\<rparr>]" by (rule delete_at_this [OF al ok i])
  obtain u2 where u2: "delete_at ph q u1 = Inr u2" "bp_ok ph P u2" "length (g_bps u2) = length (g_bps t)"
    "\<And>k. k < length (g_bps t) \<Longrightarrow> g_bps u2 ! k = (if k = i \<or> q = Some k then (g_bps t ! k)\<lparr>bp_flags := 0\<rparr> else g_bps t ! k)"
  proof (cases q)
    case None
    then show ?thesis using that [of u1] u1 by (auto simp: delete_at_def nth_list_update)
  next
    case (Some j)
    then have j: "j < length (g_bps u1)" "active (g_bps u1 ! j)" using q(2) [OF Some] u1(3) by auto
    obtain u2 where "delete_at ph (Some j) u1 = Inr u2" "bp_ok ph P u2"
      "g_bps u2 = (g_bps u1)[j := (g_bps u1 ! j)\<lparr>bp_flags := 0\<rparr>]" by (rule delete_at_this [OF al u1(2) j])
    then show ?thesis using that [of u2] Some q(2) [OF Some] u1(3) by (auto simp: nth_list_update)
  qed
  show ?thesis
    by (rule that [of _ u2, OF _ _ u2(2,3,4)])
      (use f fl u1(1) u2(1) q(1) in \<open>auto simp: debugClearException_def Let_def\<close>)
qed

text \<open>What a step plants: a new breakpoint at each successor, linked in pairs.\<close>

lemma set_fresh:
  assumes al: "aliasing ph" and ok: "bp_ok ph P s" and a: "a AND 3 = 0" and new: "find_bp a s = None"
    and free: "free_slots s \<noteq> {}"
  obtains i t where "debugSetBP ph a STEP_FLAGS thid s = Inr (Some i, t)" and "bp_ok ph P t" and "i < length (g_bps s)"
    and "\<not> active (g_bps s ! i)" and "g_bps t = (g_bps s)[i := new_bp a (P (ph a)) STEP_FLAGS thid]"
proof -
  obtain j where j: "find_freebp s = Some j"
    using free by (cases "find_freebp s") (auto simp: free_slots_def find_freebp_def find_slot_None)
  obtain r t where set: "debugSetBP ph a STEP_FLAGS thid s = Inr (r, t)"
    using a j new by (auto simp: debugSetBP_def lw_def sw_def)
  show ?thesis using al ok set
  proof (cases rule: debugSetBP_cases)
    case refused
    then show ?thesis using j new by simp
  next
    case (fresh i)
    then show ?thesis using that [of i t] set find_freebp_Some [OF fresh(3)] debugSetBP_ok [OF al ok _ set] by simp
  qed
qed

definition step_pair :: "(u32 \<Rightarrow> u32) \<Rightarrow> dbg \<Rightarrow> dbg \<Rightarrow> u32 \<Rightarrow> nat \<Rightarrow> nat option \<Rightarrow> bool" where
  "step_pair ph s t a i q \<longleftrightarrow> length (g_bps t) = length (g_bps s) \<and> i < length (g_bps s) \<and> \<not> active (g_bps s ! i)
     \<and> bp_flags (g_bps t ! i) = DEBUG_BP_ACTIVE OR STEP_FLAGS \<and> ph (bp_addr (g_bps t ! i)) = ph a
     \<and> bp_step (g_bps t ! i) = q
     \<and> (\<forall>j. q = Some j \<longrightarrow> j < length (g_bps s) \<and> j \<noteq> i \<and> \<not> active (g_bps s ! j) \<and> active (g_bps t ! j))
     \<and> (\<forall>k < length (g_bps s). k \<noteq> i \<longrightarrow> q \<noteq> Some k \<longrightarrow> g_bps t ! k = g_bps s ! k)"

lemma step_plants:
  assumes al: "aliasing ph" and ok: "bp_ok ph P s" and epc: "cx_epc ctx AND 3 = 0" "(cx_epc ctx + 8) AND 3 = 0"
    and free: "2 \<le> card (free_slots s)"
    and w: "w = d_mem s (ph (cx_epc ctx))"
    and tgt: "br_target (decode_branch w (cx_epc ctx) (cx_r ctx)) AND 3 = 0"
    and new: "\<And>a. a \<in> successors w (cx_epc ctx) (cx_r ctx) \<Longrightarrow> find_bp a s = None"
  obtains t where "step_generic ph ctx False s = Inr t" and "bp_ok ph P t"
    and "\<And>a. a \<in> successors w (cx_epc ctx) (cx_r ctx) \<Longrightarrow> \<exists>i q. step_pair ph s t a i q"
proof -
  let ?b = "decode_branch w (cx_epc ctx) (cx_r ctx)" and ?e = "cx_epc ctx + 8"
  have f: "free_slots s \<noteq> {}" using free by auto
  have nt: "find_bp (br_target ?b) s = None" by (rule new) (simp add: successors_def Let_def)
  obtain i s1 where s1: "debugSetBP ph (br_target ?b) STEP_FLAGS (cx_thid ctx) s = Inr (Some i, s1)" "bp_ok ph P s1"
    "i < length (g_bps s)" "\<not> active (g_bps s ! i)"
    "g_bps s1 = (g_bps s)[i := new_bp (br_target ?b) (P (ph (br_target ?b))) STEP_FLAGS (cx_thid ctx)]"
    by (rule set_fresh [OF al ok tgt nt f])
  have lw: "lw ph (cx_epc ctx) s = Inr w" using epc w by (simp add: lw_def)
  have one: "step_pair ph s s1 a i None" if "ph a = ph (br_target ?b)" for a
    using that s1(3-5) by (simp add: step_pair_def)
  show ?thesis
  proof (cases "br_branch ?b \<and> br_cond ?b \<and> br_target ?b \<noteq> ?e")
    case False
    then have "step_generic ph ctx False s = Inr s1" using lw s1(1) by (auto simp: step_generic_def Let_def)
    then show ?thesis
    proof (rule that [OF _ s1(2)])
      fix a assume "a \<in> successors w (cx_epc ctx) (cx_r ctx)"
      then have "a = br_target ?b" using False by (auto simp: successors_def Let_def split: if_splits)
      then show "\<exists>i q. step_pair ph s s1 a i q" using one by blast
    qed
  next
    case True
    then have succ: "successors w (cx_epc ctx) (cx_r ctx) = {br_target ?b, ?e}" by (auto simp: successors_def Let_def)
    have ne: "find_bp ?e s = None" by (rule new) (simp add: succ)
    show ?thesis
    proof (cases "find_bp ?e s1")
      case (Some k)
      note k = find_bp_Some [OF al Some]
      have "k = i"
      proof (rule ccontr)
        assume "k \<noteq> i"
        then have "k < length (g_bps s)" "active (g_bps s ! k)" "ph (bp_addr (g_bps s ! k)) = ph ?e" using k s1(5) by auto
        then show False using find_bp_None [OF al ne] by blast
      qed
      then have ph: "ph (br_target ?b) = ph ?e" using k s1(3,5) by simp
      have "debugSetBP ph ?e STEP_FLAGS (cx_thid ctx) s1 = Inr (None, s1)" using Some by (simp add: debugSetBP_def)
      moreover have "link_step None (Some i) (link_step (Some i) None s1) = s1"
        using s1(3,5) by (simp add: link_step_def new_bp_def)
      ultimately have "step_generic ph ctx False s = Inr s1" using lw s1(1) True by (simp add: step_generic_def Let_def)
      moreover have "\<exists>i q. step_pair ph s s1 a i q" if "a \<in> successors w (cx_epc ctx) (cx_r ctx)" for a
        using that one [of a] ph by (auto simp: succ)
      ultimately show ?thesis using that [OF _ s1(2)] by blast
    next
      case None
      have len1: "length (g_bps s1) = length (g_bps s)" using s1(5) by simp
      have "free_slots s1 = free_slots s - {i}" using s1(3,5) by (auto simp: free_slots_def nth_list_update bit_or_iff split: if_splits)
      then have "1 \<le> card (free_slots s1)" using free diff_card_le_card_Diff [of "{i}" "free_slots s"] by simp
      then have "free_slots s1 \<noteq> {}" by auto
      then obtain j s2 where s2: "debugSetBP ph ?e STEP_FLAGS (cx_thid ctx) s1 = Inr (Some j, s2)" "bp_ok ph P s2"
        "j < length (g_bps s1)" "\<not> active (g_bps s1 ! j)"
        "g_bps s2 = (g_bps s1)[j := new_bp ?e (P (ph ?e)) STEP_FLAGS (cx_thid ctx)]"
        using set_fresh [OF al s1(2) epc(2) None, of "cx_thid ctx"] by metis
      have ij: "i \<noteq> j" using s2(4) s1(3,5) by (auto simp: bit_or_iff)
      let ?t = "link_step (Some j) (Some i) (link_step (Some i) (Some j) s2)"
      have t: "g_bps ?t = (g_bps s2)[i := (g_bps s2 ! i)\<lparr>bp_step := Some j\<rparr>, j := (g_bps s2 ! j)\<lparr>bp_step := Some i\<rparr>]"
        using ij by (simp add: link_step_def)
      have st: "step_generic ph ctx False s = Inr ?t" using lw s1(1) s2(1) True by (simp add: step_generic_def Let_def)
      have jn: "\<not> active (g_bps s ! j)" using s2(4) s1(5) ij by simp
      have "step_pair ph s ?t (br_target ?b) i (Some j)" "step_pair ph s ?t ?e j (Some i)"
        using ij jn s1(3-5) s2(3,5) len1 unfolding step_pair_def t by (auto simp: nth_list_update bit_or_iff)
      then have "\<exists>i q. step_pair ph s ?t a i q" if "a \<in> successors w (cx_epc ctx) (cx_r ctx)" for a
        using that by (auto simp only: succ insert_iff empty_iff)
      then show ?thesis using that [OF st link_step_ok [OF link_step_ok [OF s2(2)]]] by blast
    qed
  qed
qed

text \<open>C19: A step leaves no trace: when a single step is made with no breakpoint at its
  successors, and the thread then stops at one of its step breakpoints, the stop is not reported as
  an error, both breakpoints of the step are gone, every other breakpoint is as before the step,
  and memory is as before the step.\<close>

theorem step_leaves_no_trace:
  assumes "aliasing ph" and "debug_reach ph (dbg_start m) s" and "2 \<le> card (free_slots s)"
    and "cx_epc ctx AND 3 = 0" and "\<not> covered ph (g_bps s) (ph (cx_epc ctx))"
    and "w = m (ph (cx_epc ctx))" and "known_inst w" and "\<not> vfpu_other_cc w"
    and "mips_next w (cx_epc ctx) (cx_r ctx) cc AND 3 = 0"
    and "\<And>a. a \<in> successors w (cx_epc ctx) (cx_r ctx) \<Longrightarrow> find_bp a s = None"
    and "step_generic ph ctx False s = Inr t"
    and "cx_epc stop = mips_next w (cx_epc ctx) (cx_r ctx) cc" and "\<not> has (cx_cause stop) 0x80000000"
  shows "\<exists>c u. debugClearException ph stop t = Inr (c, u) \<and> \<not> cx_error c \<and> same_bps s u \<and> d_mem u = d_mem s"
proof -
  have ok: "bp_ok ph m s" by (rule debug_reach_ok [OF assms(2,1) dbg_start_ok])
  have w: "w = d_mem s (ph (cx_epc ctx))" using bp_okD(6) [OF ok] assms(5,6) by simp
  have epc8: "(cx_epc ctx + 8) AND 3 = 0" using assms(4) by (simp add: aligned_add)
  have tgt: "br_target (decode_branch w (cx_epc ctx) (cx_r ctx)) AND 3 = 0"
    by (rule successors_aligned [OF assms(7,8,4,9)]) (simp add: successors_def Let_def)
  have nxt: "mips_next w (cx_epc ctx) (cx_r ctx) cc \<in> successors w (cx_epc ctx) (cx_r ctx)"
    by (rule mips_next_covered [OF assms(7,8)])
  obtain t' where "step_generic ph ctx False s = Inr t'" "bp_ok ph m t'"
    "\<And>a. a \<in> successors w (cx_epc ctx) (cx_r ctx) \<Longrightarrow> \<exists>i q. step_pair ph s t' a i q"
    using step_plants [OF assms(1) ok assms(4) epc8 assms(3) w tgt assms(10)] by blast
  then have okt: "bp_ok ph m t" and "\<exists>i q. step_pair ph s t (cx_epc stop) i q" using assms(11,12) nxt by simp_all
  then obtain i q where sp: "step_pair ph s t (cx_epc stop) i q" by blast
  note p = sp [unfolded step_pair_def]
  obtain c u where u: "debugClearException ph stop t = Inr (c, u)" "\<not> cx_error c" "bp_ok ph m u"
    "length (g_bps u) = length (g_bps t)"
    "\<And>k. k < length (g_bps t) \<Longrightarrow> g_bps u ! k = (if k = i \<or> q = Some k then (g_bps t ! k)\<lparr>bp_flags := 0\<rparr> else g_bps t ! k)"
    by (rule clear_oneshot [OF assms(1) okt, of i stop q]) (use p assms(13) in \<open>auto simp: bit_or_iff\<close>)
  have "same_bps s u" unfolding same_bps_def using p u(4,5) by auto
  then show ?thesis using u same_bps_mem [OF ok u(3)] by blast
qed

section \<open>Limits of the code\<close>

lemma set_keeps_covered:
  assumes "aliasing ph" and "bp_ok ph P s" and "debugSetBP ph a flags thid s = Inr (r, t)" and "covered ph (g_bps s) x"
  shows "covered ph (g_bps t) x"
  using assms(1-3)
proof (cases rule: debugSetBP_cases)
  case refused
  then show ?thesis using assms(4) by simp
next
  case (fresh i)
  obtain k where k: "k < length (g_bps s)" "planted (g_bps s ! k)" "ph (bp_addr (g_bps s ! k)) = x"
    using assms(4) by (auto simp: covered_def)
  then have "k \<noteq> i" using find_freebp_Some [OF fresh(3)] by (auto simp: planted_def)
  then show ?thesis using k fresh(6) unfolding covered_def by (intro exI [of _ k]) simp
qed

lemma link_keeps_covered: "covered ph (g_bps s) x \<Longrightarrow> covered ph (g_bps (link_step p q s)) x"
proof -
  assume "covered ph (g_bps s) x"
  then obtain k where k: "k < length (g_bps s)" "planted (g_bps s ! k)" "ph (bp_addr (g_bps s ! k)) = x"
    by (auto simp: covered_def)
  obtain q' where "g_bps (link_step p q s) ! k = (g_bps s ! k)\<lparr>bp_step := q'\<rparr>" using link_step_nth [OF k(1)] by blast
  then show ?thesis using k unfolding covered_def by (intro exI [of _ k]) (simp add: planted_def)
qed

lemma step_keeps_covered:
  assumes al: "aliasing ph" and ok: "bp_ok ph P s" and st: "step_generic ph ctx skip s = Inr t"
    and c: "covered ph (g_bps s) x"
  shows "covered ph (g_bps t) x"
proof -
  have one: "bp_ok ph P v \<and> covered ph (g_bps v) x"
    if "debugSetBP ph a STEP_FLAGS thid u = Inr (r, v)" "bp_ok ph P u \<and> covered ph (g_bps u) x" for a thid u v r
    using debugSetBP_ok [OF al _ _ that(1)] set_keeps_covered [OF al _ that(1)] that(2) STEP_FLAGS_bits [of 3] by auto
  have map: "\<exists>r. debugSetBP ph a STEP_FLAGS thid u = Inr (r, v)"
    if "map_sum id snd (debugSetBP ph a STEP_FLAGS thid u) = Inr v" for a thid u v
    using that by (cases "debugSetBP ph a STEP_FLAGS thid u") auto
  have "bp_ok ph P s \<and> covered ph (g_bps s) x" using ok c by simp
  then show ?thesis using st
    by (auto simp: step_generic_def Let_def split: sum.splits if_splits dest!: map one intro!: link_keeps_covered)
qed

text \<open>A permanent breakpoint is never passed: when a thread stops at an enabled software breakpoint
  that is not one-shot, the code that handles the stop leaves it in place, and whether the thread is
  then continued or stepped (over calls or into them), the word at its program counter is still the
  break instruction. The comment at the caller says that the breakpoint is disabled when it is hit.\<close>

theorem permanent_breakpoint_stays:
  assumes "aliasing ph" and "debug_reach ph (dbg_start m) s" and "find_bp (cx_epc ctx) s = Some i"
    and "planted (g_bps s ! i)" and "\<not> has (bp_flags (g_bps s ! i)) DEBUG_BP_ONESHOT" and "\<not> has (cx_cause ctx) 0x80000000"
  shows "\<exists>c. debugClearException ph ctx s = Inr (c, s) \<and> \<not> cx_error c \<and> cx_epc c = cx_epc ctx
    \<and> d_mem s (ph (cx_epc ctx)) = SW_BREAK_INST
    \<and> (\<forall>skip t. step_generic ph c skip s = Inr t \<longrightarrow> d_mem t (ph (cx_epc ctx)) = SW_BREAK_INST)"
proof -
  have ok: "bp_ok ph m s" by (rule debug_reach_ok [OF assms(2,1) dbg_start_ok])
  note i = find_bp_Some [OF assms(1,3)]
  have c: "covered ph (g_bps s) (ph (cx_epc ctx))" using i assms(4) unfolding covered_def by blast
  have "d_mem t (ph (cx_epc ctx)) = SW_BREAK_INST" if "step_generic ph x skip s = Inr t" for x skip t
    using step_generic_ok [OF assms(1) ok that] step_keeps_covered [OF assms(1) ok that c]
    by (simp add: bp_okD(6))
  moreover have "d_mem s (ph (cx_epc ctx)) = SW_BREAK_INST" using bp_okD(6) [OF ok] c by simp
  ultimately show ?thesis using assms(3-6) by (auto simp: debugClearException_def Let_def planted_def)
qed

text \<open>A step link outlives its target: when a one-shot breakpoint is hit whose link names a slot that
  has since been given to another breakpoint, that breakpoint is deleted, whatever it is.\<close>

theorem stale_step_link_deletes:
  assumes "aliasing ph" and "debug_reach ph (dbg_start m) s"
    and "find_bp (cx_epc ctx) s = Some i" and "\<not> has (cx_cause ctx) 0x80000000"
    and "has (bp_flags (g_bps s ! i)) DEBUG_BP_ONESHOT" and "\<not> has (bp_flags (g_bps s ! i)) DEBUG_BP_DISABLED"
    and "bp_step (g_bps s ! i) = Some j" and "j < DEBUG_MAX_BPS" and "j \<noteq> i" and "active (g_bps s ! j)"
  shows "\<exists>c t. debugClearException ph ctx s = Inr (c, t) \<and> find_bp (bp_addr (g_bps s ! j)) t = None"
proof -
  have ok: "bp_ok ph m s" by (rule debug_reach_ok [OF assms(2,1) dbg_start_ok])
  note i = find_bp_Some [OF assms(1,3)]
  have jl: "j < length (g_bps s)" using assms(8) bp_okD(1) [OF ok] by simp
  obtain c u where u: "debugClearException ph ctx s = Inr (c, u)" "bp_ok ph m u" "length (g_bps u) = length (g_bps s)"
    "\<And>k. k < length (g_bps s) \<Longrightarrow> g_bps u ! k = (if k = i \<or> Some j = Some k then (g_bps s ! k)\<lparr>bp_flags := 0\<rparr> else g_bps s ! k)"
    by (rule clear_oneshot [OF assms(1) ok i(1,2), of ctx "Some j"]) (use assms i jl in auto)
  have "find_bp (bp_addr (g_bps s ! j)) u = None"
  proof (rule ccontr)
    assume "find_bp (bp_addr (g_bps s ! j)) u \<noteq> None"
    then obtain k where "find_bp (bp_addr (g_bps s ! j)) u = Some k" by blast
    from find_bp_Some [OF assms(1) this] have k: "k < length (g_bps s)" "k \<noteq> i" "k \<noteq> j" "active (g_bps s ! k)"
      "ph (bp_addr (g_bps s ! k)) = ph (bp_addr (g_bps s ! j))" using u(3,4) by (auto split: if_splits)
    then show False using bp_okD(4) [OF ok k(1) jl] assms(10) by auto
  qed
  then show ?thesis using u(1) by blast
qed

lemma set_guarded_only:
  assumes "aliasing ph" and "bp_ok ph P s" and "debugSetBP ph a flags thid s = Inr (r, t)" and "guarded ph t x"
  shows "guarded ph s x \<or> ph x = ph a"
  using assms(1-3)
proof (cases rule: debugSetBP_cases)
  case refused
  then show ?thesis using assms(4) by simp
next
  case (fresh i)
  obtain k where k: "k < length (g_bps t)" "active (g_bps t ! k)" "\<not> has (bp_flags (g_bps t ! k)) DEBUG_BP_DISABLED"
    "ph (bp_addr (g_bps t ! k)) = ph x" using assms(4) unfolding guarded_def by blast
  show ?thesis
  proof (cases "k = i")
    case True
    then show ?thesis using k fresh(6) by simp
  next
    case False
    then show ?thesis using k fresh(6) unfolding guarded_def by (intro disjI1 exI [of _ k]) simp
  qed
qed

lemma decode_vfpu_other:
  assumes "w AND 0xFFE30000 = 0x49010000" and "vfpu_other_cc w"
  shows "decode_branch w pc r = \<lparr>br_branch = False, br_cond = False, br_link = False, br_target = pc + 4\<rparr>"
proof -
  define o6 cp where o: "o6 = drop_bit 26 w" "cp = drop_bit 16 w AND 0x3FF"
  have o6: "o6 = 0x12" using op6_of [OF assms(1)] by (simp add: o)
  have "cp \<notin> {0x100, 0x102, 0x101, 0x103}"
  proof
    assume "cp \<in> {0x100, 0x102, 0x101, 0x103}"
    then have "cp AND 0x1C = 0" by (elim insertE) simp_all
    then have "drop_bit 16 w AND 0x1C = 0" unfolding o by (simp add: and.assoc)
    then have z: "\<not> (bit w (16 + j) \<and> bit (0x1C::u32) j)" for j
    proof -
      have "\<not> bit (drop_bit 16 w AND 0x1C) j" using \<open>drop_bit 16 w AND 0x1C = 0\<close> by (simp only: bit_0_eq bot_apply bot_bool_def not_False_eq_True)
      then show ?thesis by (simp only: bit_and_iff bit_drop_bit_eq o_apply not_False_eq_True)
    qed
    have "w AND push_bit 16 0x1C = 0"
    proof (rule bit_word_eqI)
      fix i show "bit (w AND push_bit 16 0x1C) i = bit 0 i"
        using z [of "i - 16"] by (cases "16 \<le> i") (simp_all only: bit_and_iff bit_push_bit_iff bit_0_eq bot_apply
          le_add_diff_inverse bot_bool_def simp_thms, blast)
    qed
    then have "w AND 0x001C0000 = 0" by simp
    then show False using assms(2) by (simp add: vfpu_other_cc_def)
  qed
  then show ?thesis unfolding decode_branch_def Let_def o [symmetric] o6 by simp
qed

text \<open>A step misses the branches of the vector unit on a condition other than the first: for such a
  bvt the decoder sees no branch, the only breakpoint is planted in the delay slot, and when the branch
  is taken the thread runs on from the target with nothing to stop it.\<close>

theorem step_misses_vfpu_branch:
  assumes "aliasing ph" and "debug_reach ph (dbg_start m) s" and "\<not> covered ph (g_bps s) (ph (cx_epc ctx))"
    and "w = m (ph (cx_epc ctx))" and "w AND 0xFFE30000 = 0x49010000" and "vfpu_other_cc w"
    and "step_generic ph ctx False s = Inr t"
    and "a = cx_epc ctx + 4 + branch_ofs w" and "\<not> guarded ph s a" and "\<not> same_place a (cx_epc ctx + 4)"
  shows "mips_next w (cx_epc ctx) (cx_r ctx) True = a \<and> \<not> guarded ph t a"
proof -
  have ok: "bp_ok ph m s" by (rule debug_reach_ok [OF assms(2,1) dbg_start_ok])
  have w: "d_mem s (ph (cx_epc ctx)) = w" using bp_okD(6) [OF ok] assms(3,4) by simp
  have o6: "drop_bit 26 w = 0x12" using op6_of [OF assms(5)] by simp
  have n: "w AND M \<noteq> v" if "M AND 0xFC000000 = 0xFC000000" "drop_bit 26 v \<noteq> 0x12" for M v
    using op6_of [of w M v] o6 that by auto
  have "branch_taken w r True = Some True" for r
    using assms(5) by (simp add: branch_taken_def n)
  then have "mips_next w (cx_epc ctx) (cx_r ctx) True = a" using assms(8) by (simp add: mips_next_def)
  moreover obtain q where "debugSetBP ph (cx_epc ctx + 4) STEP_FLAGS (cx_thid ctx) s = Inr (q, t)"
    using assms(7) w decode_vfpu_other [OF assms(5,6)]
    by (auto simp: step_generic_def lw_def Let_def split: if_splits sum.splits)
      (cases "debugSetBP ph (cx_epc ctx + 4) STEP_FLAGS (cx_thid ctx) s"; auto)
  moreover from set_guarded_only [OF assms(1) ok this] have "\<not> guarded ph t a"
    using assms(1,9,10) unfolding aliasing_def by blast
  ultimately show ?thesis by simp
qed

section \<open>On a concrete machine\<close>

definition demo_ph :: "u32 \<Rightarrow> u32" where "demo_ph a = a AND 0x0FFFFFFF"

text \<open>\<open>beq a0, a1, 12\<close> at \<open>0x08804000\<close>.\<close>

definition demo_prog :: "u32 \<Rightarrow> u32" where
  "demo_prog a = (if a = 0x08804000 then 0x10850003 else 0)"

definition demo_ctx :: "u32 \<Rightarrow> PsplinkContext" where
  "demo_ctx pc = \<lparr>cx_r = replicate 32 0, cx_cause = 0, cx_epc = pc, cx_fsr = 0, cx_type = 0, cx_thid = 7, cx_drcntl = 0,
     cx_cont = 0, cx_error = False\<rparr>"

lemma demo_aliasing: "aliasing demo_ph"
  by (simp add: aliasing_def demo_ph_def same_place_def)

lemma demo_start_free: "free_slots (dbg_start m) = {..<32}"
  by (auto simp: free_slots_def dbg_start_def no_bp_def DEBUG_MAX_BPS_def)

lemma start_simps: "length (g_bps (dbg_start m)) = 32" "i < 32 \<Longrightarrow> g_bps (dbg_start m) ! i = no_bp" "d_mem (dbg_start m) = m"
  by (simp_all add: dbg_start_def DEBUG_MAX_BPS_def)

lemma start_none: "find_bp a (dbg_start m) = None" "\<not> covered ph (g_bps (dbg_start m)) x" "none_disabled (dbg_start m)"
  by (auto simp: find_bp_def find_slot_None start_simps no_bp_def covered_def planted_def none_disabled_def)

lemma demo_branch:
  "cx_epc (demo_ctx 0x08804000) AND 3 = 0" "demo_prog (demo_ph (cx_epc (demo_ctx 0x08804000))) = 0x10850003"
  "known_inst 0x10850003" "\<not> vfpu_other_cc 0x10850003"
  "mips_next 0x10850003 0x08804000 (replicate 32 0) cc = 0x08804010"
  by (simp_all add: demo_ctx_def demo_prog_def demo_ph_def known_inst_def branch_taken_def vfpu_other_cc_def
      mips_next_def reg_s_def reg_t_def branch_ofs_def)

theorem breakpoints_transparent_witness:
  "\<exists>i s. debugSetBP demo_ph 0x48804000 0 0 (dbg_start demo_prog) = Inr (Some i, s) \<and> d_mem s 0x08804000 = SW_BREAK_INST
     \<and> d_mem s 0x08804004 = demo_prog 0x08804004"
proof -
  obtain i s where s: "debugSetBP demo_ph 0x48804000 0 0 (dbg_start demo_prog) = Inr (Some i, s)"
      "i < 32" "g_bps s = (g_bps (dbg_start demo_prog))[i := new_bp 0x48804000 (demo_prog 0x08804000) 0 0]"
  proof -
    have "find_freebp (dbg_start demo_prog) \<noteq> None"
      by (auto simp: find_freebp_def find_slot_None start_simps no_bp_def intro!: exI [of _ 0])
    then obtain i where i: "find_freebp (dbg_start demo_prog) = Some i" by blast
    then have "i < 32" using find_freebp_Some [OF i] by (simp add: start_simps)
    then show ?thesis using that i
      by (simp add: debugSetBP_def start_none lw_def sw_def demo_ph_def start_simps new_bp_def)
  qed
  have r: "debug_reach demo_ph (dbg_start demo_prog) s"
    by (rule debug_reach.step [OF debug_reach.start debug_step.setbp [OF s(1)]]) simp
  have c: "covered demo_ph (g_bps s) x \<longleftrightarrow> x = 0x08804000" for x
    unfolding s(3) using s(2)
    by (auto simp: covered_def start_simps nth_list_update no_bp_def planted_def demo_ph_def bit_or_iff split: if_splits
        intro!: exI [of _ i])
  show ?thesis
    using s(1) breakpoints_transparent [OF demo_aliasing r, of "0x08804000"] breakpoints_transparent [OF demo_aliasing r, of "0x08804004"] c
    by auto
qed

theorem step_always_stops_witness:
  "\<exists>t. step_generic demo_ph (demo_ctx 0x08804000) False (dbg_start demo_prog) = Inr t \<and> guarded demo_ph t 0x08804010"
  using step_always_stops [OF demo_aliasing debug_reach.start, of demo_prog "demo_ctx 0x08804000" True]
  by (simp add: start_none demo_start_free demo_branch) (simp add: demo_ctx_def demo_branch)

theorem step_leaves_no_trace_witness:
  "\<exists>t c u. step_generic demo_ph (demo_ctx 0x08804000) False (dbg_start demo_prog) = Inr t
     \<and> debugClearException demo_ph (demo_ctx 0x08804010) t = Inr (c, u) \<and> d_mem u = demo_prog"
proof -
  have e: "cx_epc (demo_ctx a) = a" "cx_r (demo_ctx a) = replicate 32 0" "cx_cause (demo_ctx a) = 0" for a
    by (simp_all add: demo_ctx_def)
  obtain t where t: "step_generic demo_ph (demo_ctx 0x08804000) False (dbg_start demo_prog) = Inr t"
    by (rule step_guards [OF demo_aliasing dbg_start_ok start_none(3), of "demo_ctx 0x08804000" demo_prog])
      (simp_all add: demo_start_free demo_branch e start_simps decode_branch_def branch_ofs_def Let_def demo_prog_def demo_ph_def)
  have "\<not> has 0 0x80000000" by (simp add: has_def)
  then show ?thesis
    using step_leaves_no_trace [OF demo_aliasing debug_reach.start, where m = demo_prog and w = "0x10850003"
        and ctx = "demo_ctx 0x08804000" and cc = True and t = t and stop = "demo_ctx 0x08804010"] t
    by (simp add: start_none demo_start_free demo_branch [unfolded e] e start_simps) blast
qed

lemma find_slot_replicate [simp]: "find_slot P (replicate n b) = (if n \<noteq> 0 \<and> P b then Some 0 else None)"
  by (induction n) auto

text \<open>The table with two breakpoints at its start, and what the operations of the scenario do to it.\<close>

definition table2 :: "Breakpoint \<Rightarrow> Breakpoint \<Rightarrow> (u32 \<Rightarrow> u32) \<Rightarrow> dbg" where
  "table2 b c m = (dbg_start m)\<lparr>g_bps := b # c # replicate 30 no_bp\<rparr>"

lemma table2_simps [simp]: "g_bps (table2 b c m) = b # c # replicate 30 no_bp" "d_mem (table2 b c m) = m"
  by (simp_all add: table2_def dbg_start_def)

lemma table2_start: "dbg_start m = table2 no_bp no_bp m"
  by (simp add: table2_def dbg_start_def DEBUG_MAX_BPS_def numeral_eq_Suc)

lemma table2_upd [simp]:
  "(table2 b c m)\<lparr>g_bps := b' # c' # replicate 30 no_bp\<rparr> = table2 b' c' m"
  "(table2 b c m)\<lparr>d_mem := m'\<rparr> = table2 b c m'"
  by (simp_all add: table2_def dbg_start_def)

lemma no_bp_inactive [simp]: "bp_flags no_bp = 0" "no_bp\<lparr>bp_step := None\<rparr> = no_bp"
  by (simp_all add: no_bp_def)

definition step_bp :: "u32 \<Rightarrow> nat \<Rightarrow> Breakpoint" where
  "step_bp a q = \<lparr>bp_addr = a, bp_inst = 0, bp_flags = DEBUG_BP_ACTIVE OR STEP_FLAGS, bp_thid = 7, bp_step = Some q\<rparr>"

definition user_bp :: "u32 \<Rightarrow> Breakpoint" where
  "user_bp a = new_bp a 0 0 0"

lemma demo_bp_simps [simp]:
  "bp_addr (step_bp a q) = a" "bp_inst (step_bp a q) = 0" "bp_flags (step_bp a q) = DEBUG_BP_ACTIVE OR STEP_FLAGS"
  "bp_step (step_bp a q) = Some q" "bp_addr (user_bp a) = a" "bp_flags (user_bp a) = DEBUG_BP_ACTIVE"
  by (simp_all add: step_bp_def user_bp_def)

lemma stale_scenario:
  obtains s1 s2 s where "step_generic demo_ph (demo_ctx 0x08804000) False (dbg_start demo_prog) = Inr s1"
    and "debugDeleteBP demo_ph 0x08804008 s1 = Inr (1, s2)"
    and "debugSetBP demo_ph 0x08801000 0 0 s2 = Inr (Some 1, s)"
    and "g_bps s = step_bp 0x08804010 1 # user_bp 0x08801000 # replicate 30 no_bp"
proof -
  let ?m = "demo_prog(0x08804010 := SW_BREAK_INST, 0x08804008 := SW_BREAK_INST)"
  let ?s1 = "table2 (step_bp 0x08804010 1) (step_bp 0x08804008 0) ?m"
  let ?s2 = "table2 (step_bp 0x08804010 1) ((step_bp 0x08804008 0)\<lparr>bp_flags := 0\<rparr>) (?m(0x08804008 := 0))"
  let ?s = "table2 (step_bp 0x08804010 1) (user_bp 0x08801000) (?m(0x08804008 := 0, 0x08801000 := SW_BREAK_INST))"
  have d: "decode_branch 0x10850003 0x08804000 (replicate 32 0)
      = \<lparr>br_branch = True, br_cond = True, br_link = False, br_target = 0x08804010\<rparr>"
    by (simp add: decode_branch_def branch_ofs_def)
  have e: "cx_epc (demo_ctx a) = a" "cx_r (demo_ctx a) = replicate 32 0" "cx_thid (demo_ctx a) = 7" for a
    by (simp_all add: demo_ctx_def)
  have 1: "step_generic demo_ph (demo_ctx 0x08804000) False (dbg_start demo_prog) = Inr ?s1"
    unfolding table2_start
    by (simp add: step_generic_def e lw_def sw_def demo_ph_def demo_prog_def d Let_def debugSetBP_def find_bp_def
        find_freebp_def bit_or_iff link_step_def same_place_def fun_upd_def)
      (simp add: step_bp_def)
  have 2: "debugDeleteBP demo_ph 0x08804008 ?s1 = Inr (1, ?s2)"
    by (simp add: debugDeleteBP_def find_bp_def bit_or_iff same_place_def unplant_def sw_def demo_ph_def)
  have 3: "debugSetBP demo_ph 0x08801000 0 0 ?s2 = Inr (Some 1, ?s)"
    by (simp add: debugSetBP_def find_bp_def find_freebp_def bit_or_iff same_place_def lw_def sw_def demo_ph_def
        demo_prog_def user_bp_def new_bp_def)
  show ?thesis by (rule that [OF 1 2 3]) simp
qed

theorem stale_step_link_deletes_witness:
  "\<exists>s1 s2 s c t. step_generic demo_ph (demo_ctx 0x08804000) False (dbg_start demo_prog) = Inr s1
     \<and> debugDeleteBP demo_ph 0x08804008 s1 = Inr (1, s2) \<and> debugSetBP demo_ph 0x08801000 0 0 s2 = Inr (Some 1, s)
     \<and> debugClearException demo_ph (demo_ctx 0x08804010) s = Inr (c, t) \<and> find_bp 0x08801000 t = None"
proof -
  obtain s1 s2 s where s: "step_generic demo_ph (demo_ctx 0x08804000) False (dbg_start demo_prog) = Inr s1"
    "debugDeleteBP demo_ph 0x08804008 s1 = Inr (1, s2)" "debugSetBP demo_ph 0x08801000 0 0 s2 = Inr (Some 1, s)"
    "g_bps s = step_bp 0x08804010 1 # user_bp 0x08801000 # replicate 30 no_bp" by (rule stale_scenario)
  have r: "debug_reach demo_ph (dbg_start demo_prog) s"
    by (rule debug_reach.step [OF debug_reach.step [OF debug_reach.step [OF debug_reach.start debug_step.single [OF s(1)]]
      debug_step.delete [OF s(2)]] debug_step.setbp [OF s(3)]]) simp
  have e: "cx_epc (demo_ctx a) = a" "\<not> has (cx_cause (demo_ctx a)) 0x80000000" for a
    by (simp_all add: demo_ctx_def has_def)
  have f: "find_bp 0x08804010 s = Some 0" by (simp add: find_bp_def s(4) bit_or_iff same_place_def)
  have "\<exists>c t. debugClearException demo_ph (demo_ctx 0x08804010) s = Inr (c, t) \<and> find_bp (bp_addr (g_bps s ! 1)) t = None"
    by (rule stale_step_link_deletes [OF demo_aliasing r, of "demo_ctx 0x08804010" 0 1])
      (simp_all add: e f s(4) bit_or_iff DEBUG_MAX_BPS_def)
  then show ?thesis using s by auto
qed

theorem permanent_breakpoint_stays_witness:
  "\<exists>s c. debugSetBP demo_ph 0x08804004 0 0 (dbg_start demo_prog) = Inr (Some 0, s)
     \<and> debugClearException demo_ph (demo_ctx 0x08804004) s = Inr (c, s) \<and> d_mem s 0x08804004 = SW_BREAK_INST"
proof -
  let ?s = "table2 (user_bp 0x08804004) no_bp (demo_prog(0x08804004 := SW_BREAK_INST))"
  have s: "debugSetBP demo_ph 0x08804004 0 0 (dbg_start demo_prog) = Inr (Some 0, ?s)"
    unfolding table2_start
    by (simp add: debugSetBP_def find_bp_def find_freebp_def lw_def sw_def demo_ph_def demo_prog_def user_bp_def new_bp_def)
  have r: "debug_reach demo_ph (dbg_start demo_prog) ?s"
    by (rule debug_reach.step [OF debug_reach.start debug_step.setbp [OF s]]) simp
  have e: "cx_epc (demo_ctx a) = a" "\<not> has (cx_cause (demo_ctx a)) 0x80000000" for a
    by (simp_all add: demo_ctx_def has_def)
  have f: "find_bp 0x08804004 ?s = Some 0" by (simp add: find_bp_def same_place_def)
  from permanent_breakpoint_stays [OF demo_aliasing r, of "demo_ctx 0x08804004" 0] show ?thesis
    using s by (auto simp: e f planted_def)
qed

text \<open>bvt 1, 12 at 0x08804000.\<close>

theorem step_misses_vfpu_branch_witness:
  "\<exists>t. step_generic demo_ph (demo_ctx 0x08804000) False (dbg_start (\<lambda>a. 0x49050003)) = Inr t
     \<and> mips_next 0x49050003 0x08804000 (replicate 32 0) True = 0x08804010 \<and> \<not> guarded demo_ph t 0x08804010"
proof -
  have e: "cx_epc (demo_ctx a) = a" "cx_r (demo_ctx a) = replicate 32 0" "cx_thid (demo_ctx a) = 7" for a
    by (simp_all add: demo_ctx_def)
  have v: "0x49050003 AND 0xFFE30000 = (0x49010000::u32)" "vfpu_other_cc 0x49050003" by (simp_all add: vfpu_other_cc_def)
  obtain t where t: "step_generic demo_ph (demo_ctx 0x08804000) False (dbg_start (\<lambda>a. 0x49050003)) = Inr t"
    unfolding table2_start
    by (simp add: step_generic_def e lw_def sw_def decode_vfpu_other [OF v] Let_def debugSetBP_def find_bp_def find_freebp_def)
  have g: "\<not> guarded demo_ph (dbg_start m) a" for m a by (auto simp: guarded_def start_simps)
  from step_misses_vfpu_branch [OF demo_aliasing debug_reach.start _ refl v t refl g]
  show ?thesis using t by (auto simp: e start_none branch_ofs_def same_place_def)
qed

end
