(* ===== verification/DebugEvents.thy ===== *)
theory DebugEvents
  imports Breakpoints
begin

unbundle bit_operations_syntax

text \<open>
  Who is told about an exception (\<^verbatim>\<open>psplink/debug.c\<close>, \<^verbatim>\<open>psplink/exception.c\<close>): the linked list of
  event handlers that debuggers register, the posting of an exception along it, and the trap
  itself, from the stop of a thread to the step it is resumed with.
\<close>

section \<open>The list of handlers\<close>

text \<open>
  Handlers are memory of the debuggers, found by their addresses; \<open>0\<close> is the null pointer. The
  first word of a handler is a union: its size before it is registered, the next handler after.
\<close>

record DebugEventHandler =
  eh_link :: u32
  eh_membase :: u32
  eh_memtop :: u32
  eh_mbox :: int

record events =
  e_mem :: "u32 \<Rightarrow> DebugEventHandler"
  g_eventhead :: u32

definition HANDLER_SIZE :: u32 where "HANDLER_SIZE = 16"

definition set_link :: "u32 \<Rightarrow> u32 \<Rightarrow> events \<Rightarrow> events" where
  "set_link p q s = s\<lparr>e_mem := (e_mem s)(p := (e_mem s p)\<lparr>eh_link := q\<rparr>)\<rparr>"

definition debugRegisterEventHandler :: "u32 \<Rightarrow> events \<Rightarrow> int \<times> events" where
  "debugRegisterEventHandler h s =
     (if h = 0 \<or> eh_link (e_mem s h) \<noteq> HANDLER_SIZE \<or> eh_mbox (e_mem s h) < 0 then (- 1, s)
      else if eh_membase (e_mem s h) > eh_memtop (e_mem s h) then (- 1, s)
      else (0, (set_link h (g_eventhead s) s)\<lparr>g_eventhead := h\<rparr>))"

text \<open>The loop of \<^verbatim>\<open>debugUnregisterEventHandler\<close>, which may not end on a list that is a circle.\<close>

partial_function (option) find_prev :: "(u32 \<Rightarrow> DebugEventHandler) \<Rightarrow> u32 \<Rightarrow> u32 \<Rightarrow> u32 option" where
  "find_prev m h ev =
     (if ev \<noteq> 0 \<and> eh_link (m ev) \<noteq> h then find_prev m h (eh_link (m ev)) else Some ev)"

definition debugUnregisterEventHandler :: "u32 \<Rightarrow> events \<Rightarrow> (int \<times> events) run" where
  "debugUnregisterEventHandler h s =
     (if g_eventhead s = h then
        (if h = 0 then Inl Bad_Pointer else Inr (0, s\<lparr>g_eventhead := eh_link (e_mem s h)\<rparr>))
      else (case find_prev (e_mem s) h (g_eventhead s) of
              None \<Rightarrow> Inl No_Return
            | Some ev \<Rightarrow>
                if ev = 0 then Inr (0, s)
                else if h = 0 then Inl Bad_Pointer
                else Inr (0, set_link ev (eh_link (e_mem s h)) s)))"

section \<open>An exception\<close>

definition PSP_EXCEPTION_EXIT :: u32 where "PSP_EXCEPTION_EXIT = 0"
definition PSP_EXCEPTION_CONTINUE :: u32 where "PSP_EXCEPTION_CONTINUE = 1"
definition PSP_EXCEPTION_STEP :: u32 where "PSP_EXCEPTION_STEP = 2"
definition PSP_EXCEPTION_SKIP :: u32 where "PSP_EXCEPTION_SKIP = 3"
definition PSP_EXCEPTION_NOT_HANDLED :: u32 where "PSP_EXCEPTION_NOT_HANDLED = 4"

text \<open>
  The contexts of stopped threads, \<open>PSPLINK_MAX_CONTEXT\<close> of them, named by their index: whether each
  is in use and the one after it, the context that the shell looks at, and the start of the list.
\<close>

definition PSPLINK_MAX_CONTEXT :: nat where "PSPLINK_MAX_CONTEXT = 8"

record contexts =
  x_valid :: "bool list"
  x_next :: "nat option list"
  g_currex :: "nat option"
  g_list :: "nat option"

text \<open>All the state of the debugger, and the rest of the machine.\<close>

record 'k dworld =
  w_bps :: dbg
  w_events :: events
  w_ctxs :: contexts
  w_k :: 'k

text \<open>
  What the kernel does for the trap. \<open>v_thread\<close>: the entry of a thread and whether it is the
  parse thread \<^verbatim>\<open>PspLink\<close>, \<open>None\<close> when it is not known. \<open>v_send\<close>: the result of posting to a
  mailbox. \<open>v_sleep\<close>: what a debugger has done to the stopped thread when it wakes it, and what
  has happened meanwhile. \<open>v_longjmp\<close>, \<open>v_parseenv\<close>: addresses the code returns to.
\<close>

record 'k denv =
  v_thread :: "int \<Rightarrow> 'k dworld \<Rightarrow> (u32 \<times> bool) option"
  v_send :: "int \<Rightarrow> 'k dworld \<Rightarrow> int \<times> 'k dworld"
  v_sleep :: "PsplinkContext \<Rightarrow> 'k dworld \<Rightarrow> PsplinkContext \<times> 'k dworld"
  v_longjmp :: u32
  v_parseenv :: u32

text \<open>\<open>addr0\<close>: what the variable \<^verbatim>\<open>addr\<close> holds when the thread is not known.\<close>

definition debugCheckThread :: "'k denv \<Rightarrow> u32 \<Rightarrow> PsplinkContext \<Rightarrow> 'k dworld \<Rightarrow> bool \<times> u32" where
  "debugCheckThread env addr0 ctx w =
     (case v_thread env (cx_thid ctx) w of None \<Rightarrow> (False, addr0) | Some (entry, parse) \<Rightarrow> (parse, entry))"

text \<open>The loop over the handlers; the next one is read from memory after the wait.\<close>

partial_function (option) post_loop ::
  "'k denv \<Rightarrow> u32 \<Rightarrow> u32 \<Rightarrow> PsplinkContext \<Rightarrow> 'k dworld \<Rightarrow> (PsplinkContext \<times> 'k dworld) option" where
  "post_loop env addr ev ctx w =
     (if ev = 0 then Some (ctx, w) else
      let h = e_mem (w_events w) ev in
      if addr \<ge> eh_membase h \<and> addr \<le> eh_memtop h then
        (case v_send env (eh_mbox h) w of (r, w1) \<Rightarrow>
           if r = 0 then
             (case v_sleep env ctx w1 of (c2, w2) \<Rightarrow>
                if cx_cont c2 \<noteq> PSP_EXCEPTION_NOT_HANDLED then Some (c2, w2)
                else post_loop env addr (eh_link (e_mem (w_events w2) ev)) c2 w2)
           else post_loop env addr (eh_link (e_mem (w_events w1) ev)) ctx w1)
      else post_loop env addr (eh_link h) ctx w)"

text \<open>What is done with an exception no debugger took; printing it changes nothing.\<close>

definition not_handled :: "'k denv \<Rightarrow> bool \<Rightarrow> PsplinkContext \<Rightarrow> 'k dworld \<Rightarrow> PsplinkContext \<times> 'k dworld" where
  "not_handled env initex c w =
     (if cx_cont c = PSP_EXCEPTION_NOT_HANDLED then
        (if \<not> initex then v_sleep env c w
         else (c\<lparr>cx_epc := v_longjmp env, cx_r := (cx_r c)[4 := v_parseenv env, 5 := 1],
                 cx_cont := PSP_EXCEPTION_CONTINUE\<rparr>, w))
      else (c, w))"

definition debugHandleException ::
  "'k denv \<Rightarrow> u32 \<Rightarrow> PsplinkContext \<Rightarrow> 'k dworld \<Rightarrow> (PsplinkContext \<times> 'k dworld) run" where
  "debugHandleException env addr0 ctx w =
     (case debugCheckThread env addr0 ctx w of (initex, addr) \<Rightarrow>
      case post_loop env addr (g_eventhead (w_events w)) (ctx\<lparr>cx_cont := PSP_EXCEPTION_NOT_HANDLED\<rparr>) w of
        None \<Rightarrow> Inl No_Return
      | Some (c, w1) \<Rightarrow> Inr (not_handled env initex c w1))"

text \<open>
  The trap on a context in memory: \<open>None\<close> when the thread is ended. \<open>thid\<close> is the current thread.
\<close>

definition trap_thread ::
  "(u32 \<Rightarrow> u32) \<Rightarrow> 'k denv \<Rightarrow> u32 \<Rightarrow> int \<Rightarrow> PsplinkContext \<Rightarrow> 'k dworld
     \<Rightarrow> (PsplinkContext option \<times> 'k dworld) run" where
  "trap_thread ph env addr0 thid ctx w =
     (case debugClearException ph (ctx\<lparr>cx_thid := thid\<rparr>) (w_bps w) of
        Inl f \<Rightarrow> Inl f
      | Inr (c1, s1) \<Rightarrow>
          (case debugHandleException env addr0 c1 (w\<lparr>w_bps := s1\<rparr>) of
             Inl f \<Rightarrow> Inl f
           | Inr (c2, w2) \<Rightarrow>
               if cx_cont c2 = PSP_EXCEPTION_EXIT then Inr (None, w2)
               else if cx_cont c2 = PSP_EXCEPTION_SKIP \<or> cx_cont c2 = PSP_EXCEPTION_STEP then
                 (case step_generic ph c2 (cx_cont c2 = PSP_EXCEPTION_SKIP) (w_bps w2) of
                    Inl f \<Rightarrow> Inl f
                  | Inr s2 \<Rightarrow> Inr (Some c2, w2\<lparr>w_bps := s2\<rparr>))
               else Inr (Some c2, w2)))"

text \<open>
  The trap. \<open>p\<close> is the context it is given, \<open>None\<close> for the null pointer, and \<open>ctx\<close> what it holds;
  the current context is taken if there is none, and given up at the end. In an interrupt the code
  loops for ever.
\<close>

definition trap_enter :: "nat option \<Rightarrow> contexts \<Rightarrow> contexts" where
  "trap_enter p x = (if g_currex x = None then x\<lparr>g_currex := p\<rparr> else x)"

definition trap_leave :: "nat option \<Rightarrow> contexts \<Rightarrow> contexts" where
  "trap_leave p x = (if g_currex x = p then x\<lparr>g_currex := None\<rparr> else x)"

definition psplinkTrap ::
  "(u32 \<Rightarrow> u32) \<Rightarrow> 'k denv \<Rightarrow> u32 \<Rightarrow> bool \<Rightarrow> int \<Rightarrow> nat option \<Rightarrow> PsplinkContext \<Rightarrow> 'k dworld
     \<Rightarrow> (PsplinkContext option \<times> 'k dworld) run" where
  "psplinkTrap ph env addr0 intr thid p ctx w =
     (if intr then Inl No_Return
      else if p = None then Inl Bad_Pointer
      else case trap_thread ph env addr0 thid ctx (w\<lparr>w_ctxs := trap_enter p (w_ctxs w)\<rparr>) of
        Inl f \<Rightarrow> Inl f
      | Inr (None, w2) \<Rightarrow> Inr (None, w2)
      | Inr (Some c, w2) \<Rightarrow> Inr (Some c, w2\<lparr>w_ctxs := trap_leave p (w_ctxs w2)\<rparr>))"

section \<open>The list as a list\<close>

fun chain :: "(u32 \<Rightarrow> DebugEventHandler) \<Rightarrow> u32 \<Rightarrow> u32 list \<Rightarrow> bool" where
  "chain m p [] \<longleftrightarrow> p = 0"
| "chain m p (h # hs) \<longleftrightarrow> p = h \<and> h \<noteq> 0 \<and> chain m (eh_link (m h)) hs"

lemma chain_cong: "(\<And>h. h \<in> set hs \<Longrightarrow> eh_link (m' h) = eh_link (m h)) \<Longrightarrow> chain m' p hs = chain m p hs"
  by (induction hs arbitrary: p) auto

lemma chain_unique: "chain m p hs \<Longrightarrow> chain m p gs \<Longrightarrow> hs = gs"
proof (induction hs arbitrary: p gs)
  case Nil
  then show ?case by (cases gs) auto
next
  case (Cons h hs)
  then show ?case by (cases gs) auto
qed

lemma chain_suffix: "chain m p (hs @ h # gs) \<Longrightarrow> chain m h (h # gs)"
  by (induction hs arbitrary: p) auto

lemma chain_distinct: "chain m p hs \<Longrightarrow> distinct hs"
proof (induction hs arbitrary: p)
  case (Cons h hs)
  have "h \<notin> set hs"
  proof
    assume "h \<in> set hs"
    then obtain as bs where hs: "hs = as @ h # bs" by (meson split_list)
    have "chain m h (h # bs)" using Cons.prems hs chain_suffix [of m p "h # as" h bs] by simp
    moreover have "chain m h (h # hs)" using Cons.prems by simp
    ultimately have "h # bs = h # hs" by (rule chain_unique)
    then show False using hs by simp
  qed
  then show ?case using Cons by auto
qed simp

lemma chain_link_outside: "h \<notin> set hs \<Longrightarrow> chain (e_mem (set_link h q s)) p hs = chain (e_mem s) p hs"
  by (rule chain_cong) (auto simp: set_link_def)

text \<open>The search for the handler before \<open>h\<close>.\<close>

lemma find_prev_chain:
  assumes "chain m p hs" and "h \<noteq> 0" and "p \<noteq> h"
  shows "(h \<notin> set hs \<and> find_prev m h p = Some 0)
    \<or> (\<exists>as ev bs. hs = as @ ev # h # bs \<and> find_prev m h p = Some ev)"
  using assms
proof (induction hs arbitrary: p)
  case Nil
  then show ?case by (simp add: find_prev.simps)
next
  case (Cons x hs)
  then have px: "p = x" "x \<noteq> 0" "chain m (eh_link (m x)) hs" by auto
  show ?case
  proof (cases "eh_link (m x) = h")
    case True
    then obtain bs where "hs = h # bs" using px(3) Cons.prems(2) by (cases hs) auto
    then show ?thesis using True px by (intro disjI2 exI [of _ "[]"]) (simp add: find_prev.simps)
  next
    case False
    then have f: "find_prev m h p = find_prev m h (eh_link (m x))" using px by (simp add: find_prev.simps [of m h x])
    show ?thesis using Cons.IH [OF px(3) Cons.prems(2) False]
    proof
      assume "h \<notin> set hs \<and> find_prev m h (eh_link (m x)) = Some 0"
      then show ?thesis using f px Cons.prems(3) by auto
    next
      assume "\<exists>as ev bs. hs = as @ ev # h # bs \<and> find_prev m h (eh_link (m x)) = Some ev"
      then obtain as ev bs where "hs = as @ ev # h # bs" "find_prev m h (eh_link (m x)) = Some ev" by blast
      then show ?thesis using f by (intro disjI2 exI [of _ "x # as"] exI [of _ ev] exI [of _ bs]) simp
    qed
  qed
qed

lemma chain_split:
  assumes "eh_link (m' ev) = eh_link (m h)" and "\<And>x. x \<noteq> ev \<Longrightarrow> m' x = m x"
  shows "chain m p (as @ ev # h # bs) \<Longrightarrow> distinct (as @ ev # h # bs) \<Longrightarrow> chain m' p (as @ ev # bs)"
proof (induction as arbitrary: p)
  case Nil
  have "chain m' (eh_link (m h)) bs = chain m (eh_link (m h)) bs"
  proof (rule chain_cong)
    fix x assume "x \<in> set bs"
    then have "x \<noteq> ev" using Nil by auto
    then show "eh_link (m' x) = eh_link (m x)" by (simp add: assms(2))
  qed
  then show ?case using Nil assms(1) by auto
next
  case (Cons a as)
  then show ?case using assms(2) by auto
qed

lemma debugUnregister_chain:
  assumes "chain (e_mem s) (g_eventhead s) hs" and "h \<noteq> 0"
  shows "\<exists>t. debugUnregisterEventHandler h s = Inr (0, t) \<and> chain (e_mem t) (g_eventhead t) (remove1 h hs)
    \<and> (\<forall>x. x \<notin> set hs \<longrightarrow> e_mem t x = e_mem s x)"
proof (cases "g_eventhead s = h")
  case True
  then obtain bs where "hs = h # bs" using assms by (cases hs) auto
  then show ?thesis using True assms by (auto simp: debugUnregisterEventHandler_def)
next
  case False
  from find_prev_chain [OF assms False] show ?thesis
  proof
    assume "h \<notin> set hs \<and> find_prev (e_mem s) h (g_eventhead s) = Some 0"
    then show ?thesis using assms False by (simp add: debugUnregisterEventHandler_def remove1_idem)
  next
    assume "\<exists>as ev bs. hs = as @ ev # h # bs \<and> find_prev (e_mem s) h (g_eventhead s) = Some ev"
    then obtain as ev bs where hs: "hs = as @ ev # h # bs" and f: "find_prev (e_mem s) h (g_eventhead s) = Some ev" by blast
    have d: "distinct hs" by (rule chain_distinct [OF assms(1)])
    have "ev \<noteq> 0" using chain_suffix [of "e_mem s" "g_eventhead s" as ev "h # bs"] assms(1) hs by simp
    then have u: "debugUnregisterEventHandler h s = Inr (0, set_link ev (eh_link (e_mem s h)) s)"
      using f False assms(2) by (simp add: debugUnregisterEventHandler_def)
    have "remove1 h hs = as @ ev # bs" using d hs by (auto simp: remove1_append)
    moreover have "chain (e_mem (set_link ev (eh_link (e_mem s h)) s)) (g_eventhead s) (as @ ev # bs)"
      by (rule chain_split [where h = h and m = "e_mem s"]) (use assms(1) d hs in \<open>auto simp: set_link_def\<close>)
    ultimately show ?thesis using u hs by (auto simp: set_link_def)
  qed
qed

end
