(* ===== verification/DebugEventProps.thy ===== *)
theory DebugEventProps
  imports DebugEvents
begin

text \<open>
  The properties of the list of event handlers and of the delivery of an exception along it.
\<close>

section \<open>The list\<close>

text \<open>
  \<open>prepare\<close>: the owner of a handler that is not registered writes it. No handler is at the
  address that equals the size of a handler, which the code tells apart from a link.
\<close>

inductive event_step :: "events \<Rightarrow> events \<Rightarrow> bool" where
  prepare: "chain (e_mem s) (g_eventhead s) hs \<Longrightarrow> h \<notin> set hs \<Longrightarrow> event_step s (s\<lparr>e_mem := (e_mem s)(h := x)\<rparr>)"
| register: "h \<noteq> HANDLER_SIZE \<Longrightarrow> debugRegisterEventHandler h s = (r, t) \<Longrightarrow> event_step s t"
| unregister: "h \<noteq> 0 \<Longrightarrow> debugUnregisterEventHandler h s = Inr (r, t) \<Longrightarrow> event_step s t"

inductive event_reach :: "events \<Rightarrow> bool" where
  start: "g_eventhead s = 0 \<Longrightarrow> event_reach s"
| step: "event_reach s \<Longrightarrow> event_step s t \<Longrightarrow> event_reach t"

definition events_ok :: "events \<Rightarrow> u32 list \<Rightarrow> bool" where
  "events_ok s hs \<longleftrightarrow> chain (e_mem s) (g_eventhead s) hs \<and> HANDLER_SIZE \<notin> set hs"

text \<open>A registered handler holds a link, never its size.\<close>

lemma registered_link:
  assumes "events_ok s hs" and "h \<in> set hs"
  shows "eh_link (e_mem s h) \<noteq> HANDLER_SIZE"
proof -
  obtain as bs where hs: "hs = as @ h # bs" using assms(2) by (meson split_list)
  have "chain (e_mem s) h (h # bs)" using assms(1) chain_suffix unfolding events_ok_def hs by metis
  then show ?thesis using assms(1) hs unfolding events_ok_def by (cases bs) (auto simp: HANDLER_SIZE_def)
qed

lemma register_ok:
  assumes "events_ok s hs" and "h \<noteq> HANDLER_SIZE" and "debugRegisterEventHandler h s = (r, t)"
  shows "if r = 0 then h \<notin> set hs \<and> events_ok t (h # hs) else t = s"
proof (cases "r = 0")
  case True
  then have r: "h \<noteq> 0" "eh_link (e_mem s h) = HANDLER_SIZE" "t = (set_link h (g_eventhead s) s)\<lparr>g_eventhead := h\<rparr>"
    using assms(3) by (auto simp: debugRegisterEventHandler_def split: if_splits)
  then have n: "h \<notin> set hs" using registered_link [OF assms(1)] by blast
  then have "chain (e_mem (set_link h (g_eventhead s) s)) (g_eventhead s) hs"
    using assms(1) by (simp add: chain_link_outside events_ok_def)
  then show ?thesis using True n r assms(1,2) by (simp add: events_ok_def set_link_def)
next
  case False
  then show ?thesis using assms(3) by (auto simp: debugRegisterEventHandler_def split: if_splits)
qed

lemma event_step_ok: "event_step s t \<Longrightarrow> events_ok s hs \<Longrightarrow> \<exists>gs. events_ok t gs"
proof (induction rule: event_step.induct)
  case (prepare s gs h x)
  then have "gs = hs" using chain_unique unfolding events_ok_def by blast
  then have "chain ((e_mem s)(h := x)) (g_eventhead s) hs = chain (e_mem s) (g_eventhead s) hs"
    using prepare by (intro chain_cong) auto
  then show ?case using prepare by (auto simp: events_ok_def)
next
  case (register h s r t)
  then show ?case using register_ok [OF register(3,1,2)] by (metis)
next
  case (unregister h s r t)
  then show ?case using debugUnregister_chain [of s hs h] set_remove1_subset [of h hs] by (auto simp: events_ok_def)
qed

lemma event_reach_ok: "event_reach s \<Longrightarrow> \<exists>hs. events_ok s hs"
proof (induction rule: event_reach.induct)
  case (start s)
  then show ?case by (intro exI [of _ "[]"]) (simp add: events_ok_def)
next
  case (step s t)
  then show ?case using event_step_ok by blast
qed

text \<open>C20: The list of event handlers never becomes a circle and loses nobody: after any sequence of
  registrations and removals (a handler's memory being written only while it is not registered) the
  links form a finite list without repetition; a registration that succeeds adds a handler that was
  not in it, at its front, so registering one twice fails; a removal returns and takes away exactly
  the handler it names, wherever it is, and nothing when it is not registered.\<close>

theorem event_list_consistent:
  assumes "event_reach s"
  shows "\<exists>hs. chain (e_mem s) (g_eventhead s) hs \<and> distinct hs
    \<and> (\<forall>h r t. h \<noteq> HANDLER_SIZE \<longrightarrow> debugRegisterEventHandler h s = (r, t) \<longrightarrow>
         (if r = 0 then h \<notin> set hs \<and> chain (e_mem t) (g_eventhead t) (h # hs) else t = s))
    \<and> (\<forall>h. h \<noteq> 0 \<longrightarrow> (\<exists>t. debugUnregisterEventHandler h s = Inr (0, t)
         \<and> chain (e_mem t) (g_eventhead t) (remove1 h hs)))"
proof -
  obtain hs where ok: "events_ok s hs" using event_reach_ok [OF assms] by blast
  then have c: "chain (e_mem s) (g_eventhead s) hs" by (simp add: events_ok_def)
  have "if r = 0 then h \<notin> set hs \<and> chain (e_mem t) (g_eventhead t) (h # hs) else t = s"
    if "h \<noteq> HANDLER_SIZE" "debugRegisterEventHandler h s = (r, t)" for h r t
    using register_ok [OF ok that] unfolding events_ok_def by (cases "r = 0") simp_all
  then show ?thesis using c chain_distinct [OF c] debugUnregister_chain [OF c] by blast
qed

definition demo_events :: events where
  "demo_events = \<lparr>e_mem = (\<lambda>_. \<lparr>eh_link = 16, eh_membase = 0x08800000, eh_memtop = 0x0A000000, eh_mbox = 5\<rparr>), g_eventhead = 0\<rparr>"

text \<open>Registering the same handler again fails.\<close>

theorem event_list_consistent_witness:
  "\<exists>t. debugRegisterEventHandler 0x1000 demo_events = (0, t) \<and> debugRegisterEventHandler 0x1000 t = (- 1, t)
     \<and> (\<exists>u. debugUnregisterEventHandler 0x1000 t = Inr (0, u) \<and> g_eventhead u = 0)"
proof -
  obtain t where t: "debugRegisterEventHandler 0x1000 demo_events = (0, t)" and h: "g_eventhead t = 0x1000"
    by (simp add: debugRegisterEventHandler_def demo_events_def HANDLER_SIZE_def)
  have "event_reach t"
    by (rule event_reach.step [OF event_reach.start event_step.register [OF _ t]]) (simp_all add: demo_events_def HANDLER_SIZE_def)
  from event_list_consistent [OF this] obtain hs where hs: "chain (e_mem t) (g_eventhead t) hs"
    and un: "\<exists>u. debugUnregisterEventHandler 0x1000 t = Inr (0, u) \<and> chain (e_mem u) (g_eventhead u) (remove1 0x1000 hs)" by auto
  have t': "t = (set_link 0x1000 0 demo_events)\<lparr>g_eventhead := 0x1000\<rparr>"
    using t by (simp add: debugRegisterEventHandler_def demo_events_def HANDLER_SIZE_def)
  have "hs = [0x1000]" using hs unfolding t' by (cases hs; cases "tl hs") (auto simp: set_link_def)
  then have "\<exists>u. debugUnregisterEventHandler 0x1000 t = Inr (0, u) \<and> g_eventhead u = 0" using un by auto
  moreover have "debugRegisterEventHandler 0x1000 t = (- 1, t)"
    by (simp add: t' debugRegisterEventHandler_def set_link_def HANDLER_SIZE_def)
  ultimately show ?thesis using t by blast
qed

section \<open>Delivery\<close>

text \<open>The exception offered to a list of handlers in turn.\<close>

fun offer :: "'k denv \<Rightarrow> u32 \<Rightarrow> u32 list \<Rightarrow> PsplinkContext \<Rightarrow> 'k dworld \<Rightarrow> PsplinkContext \<times> 'k dworld" where
  "offer env addr [] c w = (c, w)"
| "offer env addr (h # hs) c w =
     (let e = e_mem (w_events w) h in
      if addr < eh_membase e \<or> addr > eh_memtop e then offer env addr hs c w
      else case v_send env (eh_mbox e) w of (r, w1) \<Rightarrow>
        if r \<noteq> 0 then offer env addr hs c w1
        else case v_sleep env c w1 of (c2, w2) \<Rightarrow>
          if cx_cont c2 \<noteq> PSP_EXCEPTION_NOT_HANDLED then (c2, w2) else offer env addr hs c2 w2)"

definition keeps_events :: "'k denv \<Rightarrow> bool" where
  "keeps_events env \<longleftrightarrow> (\<forall>m w. w_events (snd (v_send env m w)) = w_events w)
     \<and> (\<forall>c w. w_events (snd (v_sleep env c w)) = w_events w)"

lemma post_loop_offer:
  "keeps_events env \<Longrightarrow> chain (e_mem (w_events w)) p hs \<Longrightarrow> post_loop env addr p c w = Some (offer env addr hs c w)"
proof (induction hs arbitrary: p c w)
  case Nil
  then show ?case by (simp add: post_loop.simps)
next
  case (Cons h hs)
  obtain r w1 where s: "v_send env (eh_mbox (e_mem (w_events w) h)) w = (r, w1)" by fastforce
  obtain c2 w2 where sl: "v_sleep env c w1 = (c2, w2)" by fastforce
  have e: "w_events w1 = w_events w" "w_events w2 = w_events w"
    using Cons.prems(1) s sl unfolding keeps_events_def by (metis snd_conv)+
  have next_link: "chain (e_mem (w_events w)) (eh_link (e_mem (w_events w) h)) hs" "p = h" "h \<noteq> 0"
    using Cons.prems(2) by auto
  show ?case
    using next_link s sl e Cons.IH [OF Cons.prems(1), of w] Cons.IH [OF Cons.prems(1), of w1] Cons.IH [OF Cons.prems(1), of w2]
    by (simp add: post_loop.simps [of env addr h] Let_def not_le [symmetric])
qed

text \<open>C21: An exception is always delivered: with the handlers of the list left registered while they are
  asked, handling an exception returns, and it is offered once to each handler in the order of the
  list (the last registered first) whose memory range holds the entry of the thread and whose
  mailbox takes the message, up to the first that answers; the answer of that one is the result.
  When none does, the thread sleeps, or the parse thread goes back to its prompt.\<close>

theorem exception_delivered:
  assumes "keeps_events env" and "chain (e_mem (w_events w)) (g_eventhead (w_events w)) hs"
    and "debugCheckThread env addr0 ctx w = (initex, addr)"
  shows "debugHandleException env addr0 ctx w
    = Inr (case offer env addr hs (ctx\<lparr>cx_cont := PSP_EXCEPTION_NOT_HANDLED\<rparr>) w of (c, v) \<Rightarrow> not_handled env initex c v)"
  using assms(3) post_loop_offer [OF assms(1,2)]
  by (simp add: debugHandleException_def split: prod.split)

definition demo_denv :: "unit denv" where
  "demo_denv = \<lparr>v_thread = (\<lambda>t w. Some (0x08804000, False)), v_send = (\<lambda>m w. (0, w)),
     v_sleep = (\<lambda>c w. (c\<lparr>cx_cont := PSP_EXCEPTION_STEP\<rparr>, w)), v_longjmp = 0, v_parseenv = 0\<rparr>"

definition demo_bps :: dbg where
  "demo_bps = \<lparr>g_bps = [], d_mem = (\<lambda>_. 0), d_hw = \<lparr>DRCNTL = 0, IBC = 0, IBA = 0, IBAM = 0\<rparr>,
     psplinkHwContext = \<lparr>DRCNTL = 0, IBC = 0, IBA = 0, IBAM = 0\<rparr>\<rparr>"

definition demo_ctxs :: contexts where
  "demo_ctxs = \<lparr>x_valid = replicate 8 False, x_next = replicate 8 None, g_currex = None, g_list = None\<rparr>"

theorem exception_delivered_witness:
  "\<exists>t c v. debugRegisterEventHandler 0x1000 demo_events = (0, t)
     \<and> debugHandleException demo_denv 0 (\<lparr>cx_r = [], cx_cause = 0, cx_epc = 0x08804000, cx_fsr = 0, cx_type = 0, cx_thid = 1,
          cx_drcntl = 0, cx_cont = 0, cx_error = False\<rparr>) \<lparr>w_bps = demo_bps, w_events = t, w_ctxs = demo_ctxs, w_k = ()\<rparr> = Inr (c, v)
     \<and> cx_cont c = PSP_EXCEPTION_STEP"
proof -
  let ?t = "(set_link 0x1000 0 demo_events)\<lparr>g_eventhead := 0x1000\<rparr>"
  let ?c = "\<lparr>cx_r = [], cx_cause = 0, cx_epc = 0x08804000, cx_fsr = 0, cx_type = 0, cx_thid = 1, cx_drcntl = 0, cx_cont = 0, cx_error = False\<rparr>"
  let ?w = "\<lparr>w_bps = demo_bps, w_events = ?t, w_ctxs = demo_ctxs, w_k = ()\<rparr>"
  have t: "debugRegisterEventHandler 0x1000 demo_events = (0, ?t)"
    by (simp add: debugRegisterEventHandler_def demo_events_def HANDLER_SIZE_def)
  have k: "keeps_events demo_denv" by (simp add: keeps_events_def demo_denv_def)
  have c: "chain (e_mem (w_events ?w)) (g_eventhead (w_events ?w)) [0x1000]" by (simp add: set_link_def)
  have a: "debugCheckThread demo_denv 0 ?c ?w = (False, 0x08804000)" by (simp add: debugCheckThread_def demo_denv_def)
  from exception_delivered [OF k c a] show ?thesis
    using t by (simp add: set_link_def demo_events_def demo_denv_def not_handled_def PSP_EXCEPTION_STEP_def
        PSP_EXCEPTION_NOT_HANDLED_def)
qed

end
