(* ===== verification/ExceptionCtx.thy ===== *)
theory ExceptionCtx
  imports DebugEvents
begin

text \<open>
  The contexts of stopped threads (\<^verbatim>\<open>psplink/exception.c\<close>, \<^verbatim>\<open>psplink/exception_asm.S\<close>): the pool the
  exception handler takes them from, its way through the trap and back, and all interleavings of
  threads that stop, go on or end, and of the shell choosing a context to look at.
\<close>

section \<open>The pool\<close>

definition exceptionInit :: "contexts \<Rightarrow> contexts" where
  "exceptionInit x = x\<lparr>x_valid := replicate PSPLINK_MAX_CONTEXT False,
     x_next := map (\<lambda>i. if i < PSPLINK_MAX_CONTEXT - 1 then Some (i + 1) else None) [0..<PSPLINK_MAX_CONTEXT],
     g_list := Some 0\<rparr>"

definition exceptionSetCtx :: "int \<Rightarrow> contexts \<Rightarrow> contexts" where
  "exceptionSetCtx ex x =
     (if ex \<ge> 0 \<and> ex < int PSPLINK_MAX_CONTEXT then
        (case g_list x of
           None \<Rightarrow> x
         | Some l \<Rightarrow> if x_valid x ! (l + nat ex) then x\<lparr>g_currex := Some (l + nat ex)\<rparr> else x)
      else x)"

text \<open>The scan of the assembly, along the links; the result \<open>Some None\<close> is the null pointer.\<close>

partial_function (option) find_context :: "contexts \<Rightarrow> nat option \<Rightarrow> nat option option" where
  "find_context x p = (case p of None \<Rightarrow> Some None
     | Some i \<Rightarrow> if x_valid x ! i then find_context x (x_next x ! i) else Some (Some i))"

definition take_context :: "nat \<Rightarrow> contexts \<Rightarrow> contexts" where
  "take_context i x = x\<lparr>x_valid := (x_valid x)[i := True]\<rparr>"

definition release_context :: "nat \<Rightarrow> contexts \<Rightarrow> contexts" where
  "release_context i x = x\<lparr>x_valid := (x_valid x)[i := False]\<rparr>"

text \<open>
  The handler in assembly: it saves the registers \<open>ctx\<close> of the thread in a free context, calls the
  trap, and when that returns frees the context and restores the thread from it.
\<close>

definition psplinkExceptionHandler ::
  "(u32 \<Rightarrow> u32) \<Rightarrow> 'k denv \<Rightarrow> u32 \<Rightarrow> bool \<Rightarrow> int \<Rightarrow> PsplinkContext \<Rightarrow> 'k dworld
     \<Rightarrow> (PsplinkContext option \<times> 'k dworld) run" where
  "psplinkExceptionHandler ph env addr0 intr thid ctx w =
     (case find_context (w_ctxs w) (Some 0) of
        None \<Rightarrow> Inl No_Return
      | Some None \<Rightarrow> psplinkTrap ph env addr0 intr thid None ctx w
      | Some (Some i) \<Rightarrow>
          (case psplinkTrap ph env addr0 intr thid (Some i) ctx (w\<lparr>w_ctxs := take_context i (w_ctxs w)\<rparr>) of
             Inl f \<Rightarrow> Inl f
           | Inr (None, w2) \<Rightarrow> Inr (None, w2)
           | Inr (Some c, w2) \<Rightarrow> Inr (Some c, w2\<lparr>w_ctxs := release_context i (w_ctxs w2)\<rparr>)))"

section \<open>All interleavings\<close>

text \<open>
  A state is the pool, the contexts of the threads that are inside the trap, and the number of
  threads that a debugger has ended there. \<open>stop\<close> is a thread getting into the trap, \<open>resume\<close> one
  that leaves it and \<open>die\<close> one that is ended by \<^verbatim>\<open>PSP_EXCEPTION_EXIT\<close>.
\<close>

type_synonym pool_state = "contexts \<times> nat list \<times> nat"

inductive pool_step :: "pool_state \<Rightarrow> pool_state \<Rightarrow> bool" where
  stop: "find_context x (Some 0) = Some (Some i) \<Longrightarrow>
    pool_step (x, ins, g) (trap_enter (Some i) (take_context i x), i # ins, g)"
| resume: "i \<in> set ins \<Longrightarrow>
    pool_step (x, ins, g) (release_context i (trap_leave (Some i) x), remove1 i ins, g)"
| die: "i \<in> set ins \<Longrightarrow> pool_step (x, ins, g) (x, remove1 i ins, Suc g)"
| look: "pool_step (x, ins, g) (exceptionSetCtx ex x, ins, g)"

inductive pool_reach :: "pool_state \<Rightarrow> bool" where
  start: "g_currex x = None \<Longrightarrow> pool_reach (exceptionInit x, [], 0)"
| step: "pool_reach s \<Longrightarrow> pool_step s t \<Longrightarrow> pool_reach t"

definition used :: "contexts \<Rightarrow> nat set" where
  "used x = {i. i < PSPLINK_MAX_CONTEXT \<and> x_valid x ! i}"

definition linked :: "contexts \<Rightarrow> bool" where
  "linked x \<longleftrightarrow> length (x_valid x) = PSPLINK_MAX_CONTEXT \<and> g_list x = Some 0
     \<and> x_next x = map (\<lambda>i. if i < PSPLINK_MAX_CONTEXT - 1 then Some (i + 1) else None) [0..<PSPLINK_MAX_CONTEXT]"

definition pool_ok :: "pool_state \<Rightarrow> bool" where
  "pool_ok s \<longleftrightarrow> (case s of (x, ins, g) \<Rightarrow> linked x \<and> distinct ins \<and> set ins \<subseteq> used x
     \<and> card (used x) = length ins + g \<and> (\<forall>i. g_currex x = Some i \<longrightarrow> i \<in> used x))"

lemma used_finite [simp]: "finite (used x)"
  by (simp add: used_def)

lemma used_bound: "card (used x) \<le> PSPLINK_MAX_CONTEXT"
  using card_mono [of "{..<PSPLINK_MAX_CONTEXT}" "used x"] by (auto simp: used_def)

lemma used_all: "card (used x) = PSPLINK_MAX_CONTEXT \<longleftrightarrow> used x = {..<PSPLINK_MAX_CONTEXT}"
proof -
  have "used x \<subseteq> {..<PSPLINK_MAX_CONTEXT}" by (auto simp: used_def)
  then show ?thesis using card_subset_eq [OF finite_lessThan] by (metis card_lessThan)
qed

lemma pool_select [simp]:
  "g_currex (take_context i x) = g_currex x" "g_currex (release_context i x) = g_currex x"
  "linked (x\<lparr>g_currex := c\<rparr>) = linked x" "used (x\<lparr>g_currex := c\<rparr>) = used x"
  "linked (take_context i x) = linked x" "linked (release_context i x) = linked x"
  by (simp_all add: take_context_def release_context_def linked_def used_def)

lemma pool_current [simp]:
  "linked (trap_enter p x) = linked x" "linked (trap_leave p x) = linked x" "linked (exceptionSetCtx e x) = linked x"
  "used (trap_enter p x) = used x" "used (trap_leave p x) = used x" "used (exceptionSetCtx e x) = used x"
  by (simp_all add: trap_enter_def trap_leave_def exceptionSetCtx_def split: option.split)

lemma used_take [simp]: "linked x \<Longrightarrow> i < PSPLINK_MAX_CONTEXT \<Longrightarrow> used (take_context i x) = insert i (used x)"
  by (auto simp: used_def take_context_def linked_def nth_list_update)

lemma used_release [simp]: "linked x \<Longrightarrow> used (release_context i x) = used x - {i}"
  by (cases "i < PSPLINK_MAX_CONTEXT") (auto simp: used_def release_context_def linked_def nth_list_update)

text \<open>The scan from a slot finds the first free one from there.\<close>

lemma find_context_from:
  assumes "linked x" and "i < PSPLINK_MAX_CONTEXT"
  shows "\<exists>r. find_context x (Some i) = Some r
    \<and> (case r of None \<Rightarrow> {i..<PSPLINK_MAX_CONTEXT} \<subseteq> used x | Some j \<Rightarrow> i \<le> j \<and> j < PSPLINK_MAX_CONTEXT \<and> j \<notin> used x)"
  using assms(2)
proof (induction "PSPLINK_MAX_CONTEXT - i" arbitrary: i)
  case 0
  then show ?case by simp
next
  case (Suc n)
  show ?case
  proof (cases "i \<in> used x")
    case False
    then show ?thesis using Suc.prems by (simp add: find_context.simps [of x "Some i"] used_def)
  next
    case True
    show ?thesis
    proof (cases "i + 1 < PSPLINK_MAX_CONTEXT")
      case last: False
      then have "x_next x ! i = None" using assms(1) Suc.prems by (simp add: linked_def)
      then have "find_context x (Some i) = Some None"
        using True by (simp add: find_context.simps [of x "Some i"] find_context.simps [of x None] used_def)
      moreover have "{i..<PSPLINK_MAX_CONTEXT} = {i}" using last Suc.prems by auto
      ultimately show ?thesis using True by simp
    next
      case more: True
      then obtain r where r: "find_context x (Some (i + 1)) = Some r"
        "case r of None \<Rightarrow> {i + 1..<PSPLINK_MAX_CONTEXT} \<subseteq> used x | Some j \<Rightarrow> i + 1 \<le> j \<and> j < PSPLINK_MAX_CONTEXT \<and> j \<notin> used x"
        using Suc.hyps(1) [of "i + 1"] Suc.hyps(2) by force
      have "x_next x ! i = Some (i + 1)" using assms(1) more by (simp add: linked_def)
      then have "find_context x (Some i) = Some r"
        using r(1) True by (simp add: find_context.simps [of x "Some i"] used_def)
      moreover have "{i..<PSPLINK_MAX_CONTEXT} \<subseteq> insert i {i + 1..<PSPLINK_MAX_CONTEXT}" by auto
      ultimately show ?thesis using r(2) True by (auto split: option.splits)
    qed
  qed
qed

lemma find_context_result:
  assumes "linked x"
  obtains r where "find_context x (Some 0) = Some r" and "r = None \<longleftrightarrow> card (used x) = PSPLINK_MAX_CONTEXT"
    and "\<And>j. r = Some j \<Longrightarrow> j < PSPLINK_MAX_CONTEXT \<and> j \<notin> used x"
proof -
  obtain r where r: "find_context x (Some 0) = Some r"
    "case r of None \<Rightarrow> {0..<PSPLINK_MAX_CONTEXT} \<subseteq> used x | Some j \<Rightarrow> 0 \<le> j \<and> j < PSPLINK_MAX_CONTEXT \<and> j \<notin> used x"
    using find_context_from [OF assms, of 0] by (auto simp: PSPLINK_MAX_CONTEXT_def)
  have "used x \<subseteq> {..<PSPLINK_MAX_CONTEXT}" by (auto simp: used_def)
  then have "r = None \<longleftrightarrow> used x = {..<PSPLINK_MAX_CONTEXT}" using r(2) by (cases r) auto
  then show thesis using that r used_all by (cases r) auto
qed

lemma pool_start: "g_currex x = None \<Longrightarrow> pool_ok (exceptionInit x, [], 0)"
  by (auto simp: pool_ok_def exceptionInit_def linked_def used_def)

lemma remove1_length: "i \<in> set xs \<Longrightarrow> Suc (length (remove1 i xs)) = length xs"
  by (induction xs) auto

lemma pool_step_ok: "pool_step s t \<Longrightarrow> pool_ok s \<Longrightarrow> pool_ok t"
proof (induction rule: pool_step.induct)
  case (stop x i ins g)
  then have l: "linked x" by (simp add: pool_ok_def)
  obtain r where "find_context x (Some 0) = Some r" "\<And>j. r = Some j \<Longrightarrow> j < PSPLINK_MAX_CONTEXT \<and> j \<notin> used x"
    by (rule find_context_result [OF l]) blast
  then have "i < PSPLINK_MAX_CONTEXT" "i \<notin> used x" using stop.hyps by auto
  then show ?case using stop.prems l by (auto simp: pool_ok_def trap_enter_def)
next
  case (resume i ins x g)
  let ?y = "trap_leave (Some i) x"
  have ok: "linked x" "distinct ins" "set ins \<subseteq> used x" "card (used x) = length ins + g"
    "\<And>i. g_currex x = Some i \<Longrightarrow> i \<in> used x" using resume.prems by (auto simp: pool_ok_def)
  have i: "i \<in> used x" using resume.hyps ok(3) by blast
  have "card (used x - {i}) = length (remove1 i ins) + g"
    using i ok(4) remove1_length [OF resume.hyps] by simp
  moreover have "g_currex ?y = Some j \<Longrightarrow> j \<in> used x - {i}" for j
    using ok(5) by (auto simp: trap_leave_def split: if_splits)
  ultimately show ?case using ok by (auto simp: pool_ok_def)
next
  case (die i ins x g)
  then show ?case using remove1_length [OF die.hyps] set_remove1_subset [of i ins] by (auto simp: pool_ok_def)
next
  case (look x ins g ex)
  have "g_currex (exceptionSetCtx ex x) = Some j \<Longrightarrow> j \<in> used x" for j
    using look.prems by (auto simp: pool_ok_def exceptionSetCtx_def linked_def used_def split: option.splits if_splits)
  then show ?case using look.prems by (simp add: pool_ok_def)
qed

lemma pool_reach_ok: "pool_reach s \<Longrightarrow> pool_ok s"
  by (induction rule: pool_reach.induct) (auto intro: pool_start pool_step_ok)

section \<open>Properties\<close>

text \<open>C22: A context belongs to one stopped thread: in every interleaving of threads that stop, are resumed or
  are ended and of the shell choosing a context, the threads in the trap have different contexts, all
  marked as used; the search for a context returns, with one that no thread has, unless as many
  threads as there are contexts are stopped or were ended while they were; and the current context of
  the shell is one that is in use.\<close>

theorem exception_contexts_exclusive:
  assumes "pool_reach (x, ins, g)"
  shows "distinct ins \<and> (\<forall>i \<in> set ins. i < PSPLINK_MAX_CONTEXT \<and> x_valid x ! i)
    \<and> length ins + g \<le> PSPLINK_MAX_CONTEXT
    \<and> (\<exists>r. find_context x (Some 0) = Some r \<and> (r = None \<longleftrightarrow> length ins + g = PSPLINK_MAX_CONTEXT)
          \<and> (\<forall>i. r = Some i \<longrightarrow> i < PSPLINK_MAX_CONTEXT \<and> i \<notin> set ins \<and> \<not> x_valid x ! i))
    \<and> (\<forall>i. g_currex x = Some i \<longrightarrow> i < PSPLINK_MAX_CONTEXT \<and> x_valid x ! i)"
proof -
  have ok: "pool_ok (x, ins, g)" by (rule pool_reach_ok [OF assms])
  then have l: "linked x" and s: "set ins \<subseteq> used x" by (auto simp: pool_ok_def)
  obtain r where r: "find_context x (Some 0) = Some r" "r = None \<longleftrightarrow> card (used x) = PSPLINK_MAX_CONTEXT"
    "\<And>j. r = Some j \<Longrightarrow> j < PSPLINK_MAX_CONTEXT \<and> j \<notin> used x" by (rule find_context_result [OF l]) blast
  show ?thesis
  proof (intro conjI exI [of _ r])
    show "length ins + g \<le> PSPLINK_MAX_CONTEXT" using ok used_bound [of x] by (simp add: pool_ok_def)
    show "\<forall>i. r = Some i \<longrightarrow> i < PSPLINK_MAX_CONTEXT \<and> i \<notin> set ins \<and> \<not> x_valid x ! i"
      using r(3) s by (auto simp: used_def)
  qed (use r ok s in \<open>auto simp: pool_ok_def used_def\<close>)
qed

text \<open>Ending a stopped thread leaks its context: once a debugger has ended as many threads as there are
  contexts, whatever else has happened, the next exception of any thread makes the handler pass the
  null pointer to the trap, which writes through it. The comment in the handler says that the thread
  is terminated.\<close>

theorem ended_threads_exhaust_contexts:
  assumes "pool_reach (x, ins, PSPLINK_MAX_CONTEXT)" and "w_ctxs w = x"
  shows "psplinkExceptionHandler ph env addr0 False thid ctx w = Inl Bad_Pointer"
proof -
  have ok: "pool_ok (x, ins, PSPLINK_MAX_CONTEXT)" by (rule pool_reach_ok [OF assms(1)])
  then have l: "linked x" and "card (used x) \<ge> PSPLINK_MAX_CONTEXT" by (auto simp: pool_ok_def)
  then have "find_context x (Some 0) = Some None" using find_context_result [OF l] used_bound [of x] by (metis le_antisym)
  then show ?thesis using assms(2) by (simp add: psplinkExceptionHandler_def psplinkTrap_def)
qed

section \<open>Witnesses\<close>

definition no_ctxs :: contexts where
  "no_ctxs = \<lparr>x_valid = [], x_next = [], g_currex = None, g_list = None\<rparr>"

definition ended :: "nat \<Rightarrow> contexts" where
  "ended n = (exceptionInit no_ctxs)\<lparr>x_valid := map (\<lambda>i. i < n) [0..<PSPLINK_MAX_CONTEXT],
     g_currex := (if n = 0 then None else Some 0)\<rparr>"

lemma ended_linked: "linked (ended n)"
  by (simp add: linked_def ended_def exceptionInit_def)

lemma ended_scan: "i \<le> n \<Longrightarrow> n < PSPLINK_MAX_CONTEXT \<Longrightarrow> find_context (ended n) (Some i) = Some (Some n)"
proof (induction "n - i" arbitrary: i)
  case 0
  then have "i = n" "\<not> x_valid (ended n) ! n" by (simp_all add: ended_def)
  then show ?case by (simp add: find_context.simps [of "ended n" "Some n"])
next
  case (Suc k)
  then have "x_valid (ended n) ! i" "x_next (ended n) ! i = Some (i + 1)" by (simp_all add: ended_def exceptionInit_def)
  then show ?case using Suc.hyps(1) [of "i + 1"] Suc.hyps(2) Suc.prems by (simp add: find_context.simps [of "ended n" "Some i"])
qed

lemma ended_reach: "n \<le> PSPLINK_MAX_CONTEXT \<Longrightarrow> pool_reach (ended n, [], n)"
proof (induction n)
  case 0
  have "ended 0 = exceptionInit no_ctxs"
    by (simp add: ended_def exceptionInit_def no_ctxs_def PSPLINK_MAX_CONTEXT_def upt_rec numeral_eq_Suc)
  then show ?case using pool_reach.start [of no_ctxs] by (simp add: no_ctxs_def)
next
  case (Suc n)
  have e: "trap_enter (Some n) (take_context n (ended n)) = ended (Suc n)"
  proof -
    have "(map (\<lambda>i. i < n) [0..<PSPLINK_MAX_CONTEXT])[n := True] = map (\<lambda>i. i < Suc n) [0..<PSPLINK_MAX_CONTEXT]"
      using Suc.prems by (auto simp: list_eq_iff_nth_eq nth_list_update less_Suc_eq)
    then show ?thesis by (simp add: trap_enter_def take_context_def ended_def)
  qed
  have "pool_step (ended n, [], n) (ended (Suc n), [n], n)"
    using stop [OF ended_scan [of 0 n], of "[]" n] Suc.prems e by simp
  moreover have "pool_step (ended (Suc n), [n], n) (ended (Suc n), [], Suc n)"
    using die [of n "[n]" "ended (Suc n)" n] by simp
  ultimately show ?case using Suc by (meson Suc_leD pool_reach.step)
qed

theorem exception_contexts_exclusive_witness:
  "pool_reach (ended 3, [], 3) \<and> (\<exists>r. find_context (ended 3) (Some 0) = Some r \<and> r \<noteq> None)"
proof -
  have r: "pool_reach (ended 3, [], 3)" by (rule ended_reach) (simp add: PSPLINK_MAX_CONTEXT_def)
  show ?thesis using exception_contexts_exclusive [OF r] r by (simp add: PSPLINK_MAX_CONTEXT_def) blast
qed

theorem ended_threads_exhaust_contexts_witness:
  "psplinkExceptionHandler id \<lparr>v_thread = (\<lambda>t w. None), v_send = (\<lambda>m w. (0, w)), v_sleep = (\<lambda>c w. (c, w)),
       v_longjmp = 0, v_parseenv = 0\<rparr> 0 False 1
     \<lparr>cx_r = [], cx_cause = 0, cx_epc = 0x08804000, cx_fsr = 0, cx_type = 0, cx_thid = 1, cx_drcntl = 0, cx_cont = 0, cx_error = False\<rparr>
     \<lparr>w_bps = \<lparr>g_bps = [], d_mem = (\<lambda>_. 0), d_hw = \<lparr>DRCNTL = 0, IBC = 0, IBA = 0, IBAM = 0\<rparr>,
        psplinkHwContext = \<lparr>DRCNTL = 0, IBC = 0, IBA = 0, IBAM = 0\<rparr>\<rparr>,
      w_events = \<lparr>e_mem = (\<lambda>_. \<lparr>eh_link = 0, eh_membase = 0, eh_memtop = 0, eh_mbox = 0\<rparr>), g_eventhead = 0\<rparr>,
      w_ctxs = ended PSPLINK_MAX_CONTEXT, w_k = ()\<rparr> = Inl Bad_Pointer"
  by (rule ended_threads_exhaust_contexts [where ins = "[]", OF ended_reach]) simp_all

end
