(* ===== verification/Util.thy ===== *)
theory Util
  imports CLib "HOL-Library.Char_ord"
begin

unbundle bit_operations_syntax

text \<open>
  The helpers of \<^verbatim>\<open>psplink/util.c\<close> on characters and text. A string is the list of its characters
  before the terminating NUL; a function that writes a string into a buffer of its caller returns it.
\<close>

section \<open>Characters\<close>

definition upcase :: "char \<Rightarrow> char" where
  "upcase ch = (if ch \<ge> CHR ''a'' \<and> ch \<le> CHR ''z'' then chr_of (byte_of ch XOR 32) else ch)"

definition is_alnum :: "char \<Rightarrow> bool" where
  "is_alnum ch \<longleftrightarrow> (let c = upcase ch in c \<ge> CHR ''A'' \<and> c \<le> CHR ''Z'' \<or> c \<ge> CHR ''0'' \<and> c \<le> CHR ''9'')"

definition is_oct :: "char \<Rightarrow> bool" where
  "is_oct ch \<longleftrightarrow> ch \<ge> CHR ''0'' \<and> ch < CHR ''8''"

definition oct_to_int :: "char \<Rightarrow> int" where
  "oct_to_int ch = (if ch \<ge> CHR ''0'' \<and> ch < CHR ''8'' then int (code ch) - int (code (CHR ''0'')) else 0)"

definition is_hex :: "char \<Rightarrow> bool" where
  "is_hex ch \<longleftrightarrow> (let c = upcase ch in c \<ge> CHR ''0'' \<and> c \<le> CHR ''9'' \<or> c \<ge> CHR ''A'' \<and> c \<le> CHR ''F'')"

definition hex_to_int :: "char \<Rightarrow> int" where
  "hex_to_int ch =
     (if ch \<ge> CHR ''0'' \<and> ch \<le> CHR ''9'' then int (code ch) - int (code (CHR ''0''))
      else let c = upcase ch in
        if c \<ge> CHR ''A'' \<and> c \<le> CHR ''F'' then int (code c) - int (code (CHR ''A'')) + 10 else 0)"

definition is_aspace :: "char \<Rightarrow> bool" where
  "is_aspace ch \<longleftrightarrow> ch = CHR '' '' \<or> ch = CHR 0x09 \<or> ch = CHR 0x0A \<or> ch = CHR 0x0D"

section \<open>Numbers\<close>

definition strtoint :: "string \<Rightarrow> u32 option" where
  "strtoint str = (case strtoul 32 0 str of (val, endp) \<Rightarrow> if endp \<noteq> [] then None else Some (of_nat val))"

text \<open>The data of a string of hexadecimal digits; the result \<open>0\<close> is \<open>None\<close>.\<close>

fun hex_pairs :: "string \<Rightarrow> u8 list option" where
  "hex_pairs (a # b # s) =
     (if \<not> is_hex a \<or> \<not> is_hex b then None
      else map_option ((#) (word_of_int (hex_to_int a * 16 + hex_to_int b))) (hex_pairs s))"
| "hex_pairs _ = Some []"

definition decode_hexstr :: "string \<Rightarrow> nat \<Rightarrow> u8 list option" where
  "decode_hexstr str mx =
     (let hexlen = length str in
      if odd hexlen then None else if hexlen div 2 > mx then None else hex_pairs str)"

section \<open>Searching memory\<close>

fun memcmp :: "u8 list \<Rightarrow> u8 list \<Rightarrow> nat \<Rightarrow> int" where
  "memcmp d1 d2 0 = 0"
| "memcmp d1 d2 (Suc n) = (if hd d1 \<noteq> hd d2 then uint (hd d1) - uint (hd d2) else memcmp (tl d1) (tl d2) n)"

fun memcmp_masked :: "u8 list \<Rightarrow> u8 list \<Rightarrow> u8 list \<Rightarrow> nat \<Rightarrow> int" where
  "memcmp_masked d1 d2 m 0 = 0"
| "memcmp_masked d1 d2 m (Suc n) =
     (if hd d1 AND hd m \<noteq> hd d2 then uint (hd d1 AND hd m) - uint (hd d2)
      else memcmp_masked (tl d1) (tl d2) (tl m) n)"

definition memcmp_mask :: "u8 list \<Rightarrow> u8 list \<Rightarrow> u8 list option \<Rightarrow> nat \<Rightarrow> int" where
  "memcmp_mask data1 data2 msk len = (case msk of None \<Rightarrow> memcmp data1 data2 len
     | Some m \<Rightarrow> memcmp_masked data1 data2 m len)"

text \<open>The position where the search stops; \<open>n\<close> places are left to try.\<close>

fun memmem_from :: "nat \<Rightarrow> u8 list \<Rightarrow> u8 list option \<Rightarrow> nat \<Rightarrow> u8 list \<Rightarrow> nat \<Rightarrow> nat option" where
  "memmem_from i data msk 0 search slen = None"
| "memmem_from i data msk (Suc n) search slen =
     (if memcmp_mask data search msk slen = 0 then Some i
      else memmem_from (i + 1) (tl data) msk n search slen)"

definition memmem_mask :: "u8 list option \<Rightarrow> u8 list option \<Rightarrow> int \<Rightarrow> u8 list option \<Rightarrow> int \<Rightarrow> nat option" where
  "memmem_mask data msk len search slen =
     (case (data, search) of
        (Some d, Some s) \<Rightarrow>
          if len < 0 \<or> slen < 0 then None
          else memmem_from 0 d msk (nat (len - slen + 1)) s (nat slen)
      | _ \<Rightarrow> None)"

section \<open>Lines\<close>

definition strip_whitesp :: "string \<Rightarrow> string" where
  "strip_whitesp s = dropWhile is_aspace (rev (dropWhile is_aspace (rev s)))"

text \<open>The first occurrence of a character: the text before it and the text after it.\<close>

definition strchr :: "string \<Rightarrow> char \<Rightarrow> (string \<times> string) option" where
  "strchr s c = (if c \<in> set s then Some (takeWhile (\<lambda>x. x \<noteq> c) s, drop 1 (dropWhile (\<lambda>x. x \<noteq> c) s)) else None)"

lemma strchr_append: "c \<notin> set a \<Longrightarrow> strchr (a @ c # b) c = Some (a, b)"
  by (induction a) (auto simp: strchr_def)

lemma strchr_length: "strchr s c = Some (a, b) \<Longrightarrow> length a + length b < length s"
  by (induction s arbitrary: a) (auto simp: strchr_def split: if_splits)

section \<open>Laws of the classes\<close>

lemma char_code: "(a :: char) \<le> b \<longleftrightarrow> code a \<le> code b" "(a :: char) < b \<longleftrightarrow> code a < code b"
  by (simp_all add: less_eq_char_def less_char_def)

end
