(* ===== verification/Libs.thy ===== *)
theory Libs
  imports Util
begin

unbundle bit_operations_syntax

text \<open>
  The libraries of the modules in memory (\<^verbatim>\<open>psplink/libs.c\<close>): the search for a library among the
  exports or the imports of a module, for a function in it by its number or its name, and the
  patching of a function. The tables are the kernel's: the entry at each offset of a table is what
  \<open>ent_top\<close> and \<open>stub_top\<close> say, and their arrays are words of memory.
\<close>

record SceLibraryEntryTable =
  libname :: "string option"
  ent_len :: u8
  vstubcount :: u8
  stubcount :: u16
  entrytable :: u32
  attribute :: u16

record PspModuleImport =
  imp_name :: "string option"
  entLen :: u8
  varCount :: u8
  funcCount :: u16
  fnids :: u32
  funcs :: u32
  imp_attribute :: u16
  vnids :: u32
  vars :: u32

text \<open>\<open>ent_addr\<close>, \<open>stub_addr\<close>: where the tables are.\<close>

record SceModule =
  ent_addr :: u32
  stub_addr :: u32
  ent_top :: "nat \<Rightarrow> SceLibraryEntryTable"
  ent_size :: int
  stub_top :: "nat \<Rightarrow> PspModuleImport"
  stub_size :: int

text \<open>\<open>k_sha1\<close>: the digest of a text, \<open>None\<close> when it fails. \<open>k_word\<close>: the memory.\<close>

record libenv =
  k_module_by_uid :: "int \<Rightarrow> SceModule option"
  k_sha1 :: "string \<Rightarrow> (nat \<Rightarrow> u8) option"
  k_word :: "u32 \<Rightarrow> u32"

section \<open>Libraries\<close>

text \<open>
  The loop over a table, which does not end at an entry of length \<open>0\<close>. A library of no name is asked
  for by the null pointer, and comparing a name with that is a fault.
\<close>

partial_function (option) find_library ::
  "(nat \<Rightarrow> SceLibraryEntryTable) \<Rightarrow> int \<Rightarrow> string option \<Rightarrow> nat \<Rightarrow> SceLibraryEntryTable option run option" where
  "find_library tab len library i =
     (if int i < len then
        (case libname (tab i) of
           Some n \<Rightarrow>
             (case library of
                None \<Rightarrow> Some (Inl Bad_Pointer)
              | Some l \<Rightarrow> if n = l then Some (Inr (Some (tab i)))
                          else find_library tab len library (i + unat (ent_len (tab i)) * 4))
         | None \<Rightarrow> if library = None then Some (Inr (Some (tab i)))
                   else find_library tab len library (i + unat (ent_len (tab i)) * 4))
      else Some (Inr None))"

declare find_library.simps [code]

definition libsFindLibrary :: "libenv \<Rightarrow> int \<Rightarrow> string option \<Rightarrow> SceLibraryEntryTable option run" where
  "libsFindLibrary env uid library =
     (case k_module_by_uid env uid of
        None \<Rightarrow> Inr None
      | Some m \<Rightarrow> (case find_library (ent_top m) (ent_size m) library 0 of None \<Rightarrow> Inl No_Return | Some r \<Rightarrow> r))"

partial_function (option) find_import ::
  "(nat \<Rightarrow> PspModuleImport) \<Rightarrow> int \<Rightarrow> string option \<Rightarrow> nat \<Rightarrow> PspModuleImport option run option" where
  "find_import tab len library i =
     (if int i < len then
        (case imp_name (tab i) of
           Some n \<Rightarrow>
             (case library of
                None \<Rightarrow> Some (Inl Bad_Pointer)
              | Some l \<Rightarrow> if n = l then Some (Inr (Some (tab i)))
                          else find_import tab len library (i + unat (entLen (tab i)) * 4))
         | None \<Rightarrow> find_import tab len library (i + unat (entLen (tab i)) * 4))
      else Some (Inr None))"

declare find_import.simps [code]

definition libsFindImport :: "libenv \<Rightarrow> int \<Rightarrow> string option \<Rightarrow> PspModuleImport option run" where
  "libsFindImport env uid library =
     (case k_module_by_uid env uid of
        None \<Rightarrow> Inr None
      | Some m \<Rightarrow> (case find_import (stub_top m) (stub_size m) library 0 of None \<Rightarrow> Inl No_Return | Some r \<Rightarrow> r))"

section \<open>Functions\<close>

text \<open>The first index below \<open>n\<close> whose word at \<open>a\<close> is \<open>nid\<close>.\<close>

definition nid_index :: "libenv \<Rightarrow> u32 \<Rightarrow> u32 \<Rightarrow> nat \<Rightarrow> nat option" where
  "nid_index env a nid n = List.find (\<lambda>i. k_word env (a + 4 * of_nat i) = nid) [0..<n]"

definition libsFindExportAddrByNid :: "libenv \<Rightarrow> int \<Rightarrow> string option \<Rightarrow> u32 \<Rightarrow> u32 option run" where
  "libsFindExportAddrByNid env uid library nid =
     (case libsFindLibrary env uid library of
        Inl f \<Rightarrow> Inl f
      | Inr None \<Rightarrow> Inr None
      | Inr (Some e) \<Rightarrow>
          (let total = unat (stubcount e) + unat (vstubcount e) in
           Inr (map_option (\<lambda>i. entrytable e + 4 * of_nat (i + total))
             (nid_index env (entrytable e) nid (unat (stubcount e))))))"

definition libsNameToNid :: "libenv \<Rightarrow> string \<Rightarrow> u32" where
  "libsNameToNid env name = (case k_sha1 env name of None \<Rightarrow> 0
     | Some d \<Rightarrow> ucast (d 0) OR push_bit 8 (ucast (d 1)) OR push_bit 16 (ucast (d 2)) OR push_bit 24 (ucast (d 3)))"

definition libsFindExportAddrByName :: "libenv \<Rightarrow> int \<Rightarrow> string option \<Rightarrow> string \<Rightarrow> u32 option run" where
  "libsFindExportAddrByName env uid library name = libsFindExportAddrByNid env uid library (libsNameToNid env name)"

definition word_at :: "libenv \<Rightarrow> u32 option run \<Rightarrow> u32 run" where
  "word_at env r = map_sum id (\<lambda>p. case p of None \<Rightarrow> 0 | Some a \<Rightarrow> k_word env a) r"

definition libsFindExportByName :: "libenv \<Rightarrow> int \<Rightarrow> string option \<Rightarrow> string \<Rightarrow> u32 run" where
  "libsFindExportByName env uid library name = word_at env (libsFindExportAddrByName env uid library name)"

definition libsFindExportByNid :: "libenv \<Rightarrow> int \<Rightarrow> string option \<Rightarrow> u32 \<Rightarrow> u32 run" where
  "libsFindExportByNid env uid library nid = word_at env (libsFindExportAddrByNid env uid library nid)"

definition libsFindImportAddrByNid :: "libenv \<Rightarrow> int \<Rightarrow> string option \<Rightarrow> u32 \<Rightarrow> u32 run" where
  "libsFindImportAddrByNid env uid library nid =
     (case libsFindImport env uid library of
        Inl f \<Rightarrow> Inl f
      | Inr None \<Rightarrow> Inr 0
      | Inr (Some p) \<Rightarrow> Inr (case nid_index env (fnids p) nid (unat (funcCount p)) of
            None \<Rightarrow> 0 | Some i \<Rightarrow> funcs p + 4 * of_nat (i * 2)))"

definition libsFindImportAddrByName :: "libenv \<Rightarrow> int \<Rightarrow> string option \<Rightarrow> string \<Rightarrow> u32 run" where
  "libsFindImportAddrByName env uid library name = libsFindImportAddrByNid env uid library (libsNameToNid env name)"

text \<open>The patch makes the function return a constant: \<^verbatim>\<open>jr $ra\<close> and, in its delay slot, \<^verbatim>\<open>li $v0\<close>.\<close>

definition libsPatchFunction :: "libenv \<Rightarrow> int \<Rightarrow> string option \<Rightarrow> u32 \<Rightarrow> u16 \<Rightarrow> (int \<times> libenv) run" where
  "libsPatchFunction env uid library nid retval =
     (case libsFindExportByNid env uid library nid of
        Inl f \<Rightarrow> Inl f
      | Inr addr \<Rightarrow>
          if addr = 0 then Inr (0, env)
          else if addr AND 3 \<noteq> 0 then Inl Bad_Pointer
          else Inr (1, env\<lparr>k_word := (k_word env)(addr := 0x03E00008, addr + 4 := 0x24020000 OR ucast retval)\<rparr>))"

end
