(* ===== verification/DecodeAddr.thy ===== *)
theory DecodeAddr
  imports Libs Breakpoints
begin

unbundle bit_operations_syntax

text \<open>
  The calculator of the shell (\<^verbatim>\<open>psplink/decodeaddr.c\<close>): which memory may be touched, and the value of
  an expression over numbers, registers of the stopped thread, modules and threads, with memory
  dereferenced on the way.
\<close>

section \<open>Valid memory\<close>

definition MEM_ATTRIB_READ :: u32 where "MEM_ATTRIB_READ = 1"
definition MEM_ATTRIB_BYTE :: u32 where "MEM_ATTRIB_BYTE = 8"
definition MEM_ATTRIB_WORD :: u32 where "MEM_ATTRIB_WORD = 32"
definition MEM_ATTRIB_ALL :: u32 where "MEM_ATTRIB_ALL = 0xFFFFFFFF"

record mem_entry =
  me_addr :: u32
  me_size :: int
  me_attrib :: u32
  me_v1only :: bool

definition g_memareas :: "mem_entry list" where
  "g_memareas =
    [\<lparr>me_addr = 0x00010000, me_size = 16 * 1024, me_attrib = MEM_ATTRIB_ALL, me_v1only = False\<rparr>,
     \<lparr>me_addr = 0x40010000, me_size = 16 * 1024, me_attrib = MEM_ATTRIB_ALL, me_v1only = False\<rparr>,
     \<lparr>me_addr = 0x04000000, me_size = 2 * 1024 * 1024, me_attrib = MEM_ATTRIB_ALL, me_v1only = False\<rparr>,
     \<lparr>me_addr = 0x44000000, me_size = 2 * 1024 * 1024, me_attrib = MEM_ATTRIB_ALL, me_v1only = False\<rparr>,
     \<lparr>me_addr = 0x08800000, me_size = 24 * 1024 * 1024, me_attrib = MEM_ATTRIB_ALL, me_v1only = False\<rparr>,
     \<lparr>me_addr = 0x48800000, me_size = 24 * 1024 * 1024, me_attrib = MEM_ATTRIB_ALL, me_v1only = False\<rparr>,
     \<lparr>me_addr = 0x88000000, me_size = 4 * 1024 * 1024, me_attrib = MEM_ATTRIB_ALL, me_v1only = False\<rparr>,
     \<lparr>me_addr = 0xA8000000, me_size = 4 * 1024 * 1024, me_attrib = MEM_ATTRIB_ALL, me_v1only = False\<rparr>,
     \<lparr>me_addr = 0x88400000, me_size = 4 * 1024 * 1024, me_attrib = MEM_ATTRIB_ALL, me_v1only = True\<rparr>,
     \<lparr>me_addr = 0xA8400000, me_size = 4 * 1024 * 1024, me_attrib = MEM_ATTRIB_ALL, me_v1only = True\<rparr>,
     \<lparr>me_addr = 0x88800000, me_size = 24 * 1024 * 1024, me_attrib = MEM_ATTRIB_ALL, me_v1only = False\<rparr>,
     \<lparr>me_addr = 0xA8800000, me_size = 24 * 1024 * 1024, me_attrib = MEM_ATTRIB_ALL, me_v1only = False\<rparr>,
     \<lparr>me_addr = 0xBFC00000, me_size = 1024 * 1024, me_attrib = MEM_ATTRIB_ALL, me_v1only = False\<rparr>]"

text \<open>\<open>g_isv1\<close>: the firmware is version 1; \<open>g_protoff\<close>: the protection is off.\<close>

record protection =
  g_isv1 :: bool
  g_protoff :: bool

fun scan_areas :: "bool \<Rightarrow> u32 \<Rightarrow> u32 \<Rightarrow> mem_entry list \<Rightarrow> int" where
  "scan_areas v1 addr attrib [] = 0"
| "scan_areas v1 addr attrib (e # es) =
     (if addr \<ge> me_addr e \<and> addr < me_addr e + word_of_int (me_size e) then
        (if me_attrib e AND attrib = attrib then
           (if \<not> me_v1only e \<or> v1 then me_size e - sint (addr - me_addr e) else 0)
         else 0)
      else scan_areas v1 addr attrib es)"

definition memValidate :: "protection \<Rightarrow> u32 \<Rightarrow> u32 \<Rightarrow> int" where
  "memValidate p addr attrib =
     (let size_left = scan_areas (g_isv1 p) addr attrib g_memareas in
      if g_protoff p \<and> size_left = 0 then 256 else size_left)"

definition memSetProtoff :: "bool \<Rightarrow> protection \<Rightarrow> protection" where
  "memSetProtoff b p = p\<lparr>g_protoff := b\<rparr>"

section \<open>Operators\<close>

datatype Operator = OP_START | OP_NONE | OP_PLUS | OP_MINUS | OP_AND | OP_OR | OP_XOR | OP_SHL | OP_SHR
  | OP_LAND | OP_LOR | OP_NEQ | OP_EQ | OP_LT | OP_LEQ | OP_GT | OP_GEQ | OP_MUL | OP_DIV

definition truth :: "bool \<Rightarrow> u32" where
  "truth b = (if b then 1 else 0)"

text \<open>C does not define a shift of a word by its width or more.\<close>

definition do_op :: "Operator \<Rightarrow> nat \<Rightarrow> u32 \<Rightarrow> u32 \<Rightarrow> u32 run" where
  "do_op op nots left right0 =
     (let right = ((NOT) ^^ nots) right0 in
      case op of
        OP_PLUS \<Rightarrow> Inr (left + right)
      | OP_MINUS \<Rightarrow> Inr (left - right)
      | OP_AND \<Rightarrow> Inr (left AND right)
      | OP_OR \<Rightarrow> Inr (left OR right)
      | OP_XOR \<Rightarrow> Inr (left XOR right)
      | OP_SHL \<Rightarrow> if right < 32 then Inr (push_bit (unat right) left) else Inl Undefined_Value
      | OP_SHR \<Rightarrow> if right < 32 then Inr (drop_bit (unat right) left) else Inl Undefined_Value
      | OP_LAND \<Rightarrow> Inr (truth (left \<noteq> 0 \<and> right \<noteq> 0))
      | OP_LOR \<Rightarrow> Inr (truth (left \<noteq> 0 \<or> right \<noteq> 0))
      | OP_NEQ \<Rightarrow> Inr (truth (left \<noteq> right))
      | OP_EQ \<Rightarrow> Inr (truth (left = right))
      | OP_LT \<Rightarrow> Inr (truth (left < right))
      | OP_GT \<Rightarrow> Inr (truth (left > right))
      | OP_LEQ \<Rightarrow> Inr (truth (left \<le> right))
      | OP_GEQ \<Rightarrow> Inr (truth (left \<ge> right))
      | OP_MUL \<Rightarrow> Inr (left * right)
      | OP_DIV \<Rightarrow> Inr (if right \<noteq> 0 then left div right else 1)
      | _ \<Rightarrow> Inr right)"

section \<open>Operands\<close>

record ModuleInfo =
  nsegment :: nat
  segmentaddr :: "u32 list"
  segmentsize :: "u32 list"
  text_addr :: u32
  text_size :: u32
  data_size :: u32
  bss_size :: u32

record ThreadInfo =
  ti_entry :: u32
  ti_stack :: u32
  ti_stackSize :: u32

text \<open>
  What an expression is evaluated over: the current stopped thread, the memory and its protection,
  the libraries, and what the kernel knows of modules and threads.
\<close>

record calc =
  c_cur :: "PsplinkContext option"
  c_prot :: protection
  c_libs :: libenv
  c_module_by_name :: "string \<Rightarrow> int option"
  c_module_by_addr :: "u32 \<Rightarrow> int option"
  c_QueryModuleInfo :: "int \<Rightarrow> ModuleInfo option"
  c_thread_by_name :: "string \<Rightarrow> int option"
  c_thread_status :: "int \<Rightarrow> ThreadInfo option"

definition regName :: "string list" where
  "regName = [''zr'', ''at'', ''v0'', ''v1'', ''a0'', ''a1'', ''a2'', ''a3'',
     ''t0'', ''t1'', ''t2'', ''t3'', ''t4'', ''t5'', ''t6'', ''t7'',
     ''s0'', ''s1'', ''s2'', ''s3'', ''s4'', ''s5'', ''s6'', ''s7'',
     ''t8'', ''t9'', ''k0'', ''k1'', ''gp'', ''sp'', ''fp'', ''ra'']"

text \<open>The value at the pointer of \<^verbatim>\<open>exceptionGetReg\<close>, \<open>None\<close> for the null pointer.\<close>

definition exceptionGetReg :: "calc \<Rightarrow> string \<Rightarrow> u32 option" where
  "exceptionGetReg env reg =
     (case c_cur env of
        None \<Rightarrow> None
      | Some cx \<Rightarrow>
          if reg = ''epc'' then Some (cx_epc cx)
          else if reg = ''fsr'' then Some (cx_fsr cx)
          else if reg = ''mod'' then
            Some (case c_module_by_addr env (cx_epc cx) of
                    None \<Rightarrow> 0
                  | Some m \<Rightarrow> (case c_QueryModuleInfo env m of None \<Rightarrow> 0 | Some i \<Rightarrow> text_addr i))
          else map_option (\<lambda>i. cx_r cx ! i) (List.find (\<lambda>i. regName ! i = reg) [0..<32]))"

fun deref_addr :: "calc \<Rightarrow> nat \<Rightarrow> u32 \<Rightarrow> u32 option" where
  "deref_addr env 0 val = Some val"
| "deref_addr env (Suc deref) val =
     (if val AND 3 \<noteq> 0 then None
      else if memValidate (c_prot env) val (MEM_ATTRIB_READ OR MEM_ATTRIB_WORD) < 4 then None
      else deref_addr env deref (k_word (c_libs env) val))"

text \<open>The name and what follows the first colon.\<close>

definition split_colon :: "string \<Rightarrow> string \<times> string option" where
  "split_colon s = (case strchr s CHR '':'' of None \<Rightarrow> (s, None) | Some (a, b) \<Rightarrow> (a, Some b))"

definition no_info :: ModuleInfo where
  "no_info = \<lparr>nsegment = 0, segmentaddr = [0, 0, 0, 0], segmentsize = [0, 0, 0, 0], text_addr = 0, text_size = 0,
     data_size = 0, bss_size = 0\<rparr>"

definition psplinkReferModule :: "calc \<Rightarrow> int \<Rightarrow> int \<times> ModuleInfo" where
  "psplinkReferModule env uid = (case c_QueryModuleInfo env uid of Some i \<Rightarrow> (1, i) | None \<Rightarrow> (0, no_info))"

text \<open>\<open>Inr None\<close> is an error that has been printed.\<close>

definition get_modaddr :: "calc \<Rightarrow> string \<Rightarrow> u32 option run" where
  "get_modaddr env arg =
     (case split_colon arg of (name, pcolon) \<Rightarrow>
      case (case c_module_by_name env name of
              Some modid \<Rightarrow> Some modid
            | None \<Rightarrow> (case strtoul 32 16 name of (v, endp) \<Rightarrow>
                if endp \<noteq> [] then None else Some (sint (of_nat v :: u32)))) of
        None \<Rightarrow> Inr None
      | Some uid \<Rightarrow>
          (let info = snd (psplinkReferModule env uid) in
           case pcolon of
             None \<Rightarrow> Inr (Some (text_addr info))
           | Some ext \<Rightarrow>
               if ext = ''text'' then Inr (Some (text_addr info))
               else if ext = ''stext'' then Inr (Some (text_size info))
               else if ext = ''sdata'' then Inr (Some (data_size info))
               else if ext = ''sbss'' then Inr (Some (bss_size info))
               else (case strchr ext CHR '','' of
                 Some (lib, func) \<Rightarrow>
                   map_sum id Some
                     (if take 2 func = ''0x'' then
                        libsFindExportByNid (c_libs env) uid (Some lib) (of_nat (fst (strtoul 32 16 func)))
                      else libsFindExportByName (c_libs env) uid (Some lib) func)
               | None \<Rightarrow>
                   (case ext of
                      [s, d] \<Rightarrow>
                        if s = CHR ''s'' \<and> d \<ge> CHR ''1'' \<and> d \<le> CHR ''4'' then
                          (let i = code d - code (CHR ''1'') in
                           Inr (Some (if i < nsegment info then segmentsize info ! i else 0)))
                        else Inr None
                    | [d] \<Rightarrow>
                        if d \<ge> CHR ''1'' \<and> d \<le> CHR ''4'' then
                          (let i = code d - code (CHR ''1'') in
                           Inr (Some (if i < nsegment info then segmentaddr info ! i else 0)))
                        else Inr None
                    | _ \<Rightarrow> Inr None))))"

definition get_threadaddr :: "calc \<Rightarrow> string \<Rightarrow> u32 option" where
  "get_threadaddr env arg =
     (case split_colon arg of (name, pcolon) \<Rightarrow>
      case (case c_thread_by_name env name of
              Some uid \<Rightarrow> Some uid
            | None \<Rightarrow> (case strtoul 32 16 name of (v, endp) \<Rightarrow>
                if endp \<noteq> [] then None else Some (sint (of_nat v :: u32)))) of
        None \<Rightarrow> None
      | Some uid \<Rightarrow>
          (case c_thread_status env uid of
             None \<Rightarrow> None
           | Some info \<Rightarrow>
               (case pcolon of
                  None \<Rightarrow> Some (ti_entry info)
                | Some ext \<Rightarrow>
                    if ext = ''stack'' then Some (ti_stack info)
                    else if ext = ''sstack'' then Some (ti_stackSize info)
                    else None)))"

section \<open>Expressions\<close>

text \<open>The scan for the bracket that closes the \<open>depth\<close> open ones: the text before it and after it.\<close>

fun close_bracket :: "nat \<Rightarrow> string \<Rightarrow> (string \<times> string) option" where
  "close_bracket depth [] = None"
| "close_bracket depth (c # s) =
     (if c = CHR ''('' then map_option (apfst ((#) c)) (close_bracket (depth + 1) s)
      else if c = CHR '')'' then
        (if depth - 1 = 0 then Some ([], s) else map_option (apfst ((#) c)) (close_bracket (depth - 1) s))
      else map_option (apfst ((#) c)) (close_bracket depth s))"

text \<open>The name of a register: at most \<open>n\<close> letters and digits.\<close>

fun scan_alnum :: "nat \<Rightarrow> string \<Rightarrow> string \<times> string" where
  "scan_alnum (Suc n) (c # s) = (if is_alnum c then apfst ((#) c) (scan_alnum n s) else ([], c # s))"
| "scan_alnum n s = ([], s)"

datatype operand = Register string | Module string | Thread string | Bracket string | Number u32

text \<open>
  What stands at the start of a text: an operand and the rest, an error, or neither, for an
  operator to be read.
\<close>

datatype scanned = Operand operand string | Scan_Error | No_Operand

definition scan_operand :: "Operator \<Rightarrow> string \<Rightarrow> scanned" where
  "scan_operand op line =
     (let c = hd line; s = tl line in
      if c = CHR ''$'' then (case scan_alnum 15 s of (buf, r) \<Rightarrow> Operand (Register buf) r)
      else if c = CHR ''@'' then (case strchr s CHR ''@'' of None \<Rightarrow> Scan_Error | Some (a, r) \<Rightarrow> Operand (Module a) r)
      else if c = CHR ''%'' then (case strchr s CHR ''%'' of None \<Rightarrow> Scan_Error | Some (a, r) \<Rightarrow> Operand (Thread a) r)
      else if c = CHR ''('' then (case close_bracket 1 s of None \<Rightarrow> Scan_Error | Some (a, r) \<Rightarrow> Operand (Bracket a) r)
      else if is_hex c then
        (if op = OP_NONE then Scan_Error
         else (case strtoul 32 0 line of (v, r) \<Rightarrow> Operand (Number (of_nat v)) r))
      else No_Operand)"

definition scan_operator :: "string \<Rightarrow> (Operator \<times> string) option" where
  "scan_operator line =
     (let c = hd line; s = tl line; c1 = take 1 s in
      if c = CHR ''+'' then Some (OP_PLUS, s)
      else if c = CHR ''-'' then Some (OP_MINUS, s)
      else if c = CHR ''&'' then (if c1 = ''&'' then Some (OP_LAND, tl s) else Some (OP_AND, s))
      else if c = CHR ''|'' then (if c1 = ''|'' then Some (OP_LOR, tl s) else Some (OP_OR, s))
      else if c = CHR ''^'' then Some (OP_XOR, s)
      else if c = CHR ''='' then (if c1 = ''='' then Some (OP_EQ, tl s) else None)
      else if c = CHR ''!'' then (if c1 = ''='' then Some (OP_NEQ, tl s) else None)
      else if c = CHR ''<'' then
        (if c1 = ''<'' then Some (OP_SHL, tl s) else if c1 = ''='' then Some (OP_LEQ, tl s) else Some (OP_LT, s))
      else if c = CHR ''>'' then
        (if c1 = ''>'' then Some (OP_SHR, tl s) else if c1 = ''='' then Some (OP_GEQ, tl s) else Some (OP_GT, s))
      else if c = CHR ''*'' then Some (OP_MUL, s)
      else if c = CHR ''/'' then Some (OP_DIV, s)
      else None)"

text \<open>The value of an operand that is not in brackets.\<close>

definition operand_value :: "calc \<Rightarrow> operand \<Rightarrow> u32 option run" where
  "operand_value env x =
     (case x of
        Register r \<Rightarrow> Inr (exceptionGetReg env r)
      | Module a \<Rightarrow> get_modaddr env a
      | Thread a \<Rightarrow> Inr (get_threadaddr env a)
      | Number n \<Rightarrow> Inr (Some n)
      | Bracket a \<Rightarrow> Inr None)"

text \<open>An operand is dereferenced, then combined with the value so far.\<close>

definition combine :: "calc \<Rightarrow> Operator \<Rightarrow> nat \<Rightarrow> nat \<Rightarrow> u32 \<Rightarrow> u32 \<Rightarrow> u32 option run" where
  "combine env op derefs nots val temp =
     (case deref_addr env derefs temp of
        None \<Rightarrow> Inr None
      | Some t \<Rightarrow> map_sum id Some (do_op op nots val t))"

lemma close_bracket_length: "close_bracket d s = Some (a, r) \<Longrightarrow> length a + length r < length s"
proof (induction d s arbitrary: a rule: close_bracket.induct)
  case (2 d c s)
  then show ?case by (fastforce split: if_splits)
qed simp

lemma scan_alnum_length: "scan_alnum n s = (a, r) \<Longrightarrow> length r \<le> length s"
proof (induction n s arbitrary: a rule: scan_alnum.induct)
  case (1 n c s)
  then show ?case by (cases "scan_alnum n s") (auto split: if_splits)
qed auto

lemma scan_digits_length: "scan_digits b acc s = (n, r) \<Longrightarrow> length r \<le> length s"
  by (induction s arbitrary: acc) (auto split: if_splits intro: le_SucI)

lemma skip_space_length: "length (skip_space s) \<le> length s"
  by (induction s) auto

lemma number_base_length: "number_base b s = (c, r) \<Longrightarrow> length r \<le> length s"
  by (auto simp: number_base_def split: if_splits)

lemma strtoul_length:
  assumes "strtoul w b s = (n, r)"
  shows "length r \<le> length s"
proof -
  let ?s1 = "skip_space s"
  let ?s2 = "if ?s1 \<noteq> [] \<and> (hd ?s1 = CHR ''-'' \<or> hd ?s1 = CHR ''+'') then tl ?s1 else ?s1"
  obtain c s3 where b: "number_base b ?s2 = (c, s3)" by fastforce
  obtain m q where d: "scan_digits c 0 s3 = (m, q)" by fastforce
  have "r = s \<or> r = q" using assms b d by (auto simp: strtoul_def Let_def split: if_splits)
  moreover have "length q \<le> length s"
    using scan_digits_length [OF d] number_base_length [OF b] skip_space_length [of s]
    by (auto split: if_splits)
  ultimately show ?thesis by auto
qed

lemma scan_operand_length:
  assumes "scan_operand op (c # s) = Operand x r"
  shows "length r \<le> length s \<or> op \<noteq> OP_NONE \<and> length r \<le> length (c # s)"
    and "x = Bracket a \<Longrightarrow> length a < length (c # s)"
  using assms strtoul_length [of 32 0 "c # s"]
  by (auto simp: scan_operand_def Let_def split: if_splits option.splits prod.splits
      dest!: close_bracket_length scan_alnum_length strchr_length)

lemma scan_operator_length: "scan_operator (c # s) = Some (op, r) \<Longrightarrow> length r \<le> length s"
  by (auto simp: scan_operator_def Let_def split: if_splits)

function parse_line :: "calc \<Rightarrow> Operator \<Rightarrow> nat \<Rightarrow> nat \<Rightarrow> u32 \<Rightarrow> string \<Rightarrow> u32 option run" where
  "parse_line env op derefs nots val [] = Inr (Some val)"
| "parse_line env op derefs nots val (c # s) =
     (if is_aspace c then parse_line env op derefs nots val s
      else if c = CHR ''*'' \<and> (op = OP_START \<or> op \<noteq> OP_NONE) then parse_line env op (derefs + 1) nots val s
      else if c = CHR ''~'' then parse_line env op derefs (nots + 1) val s
      else case scan_operand op (c # s) of
        Scan_Error \<Rightarrow> Inr None
      | Operand x r \<Rightarrow>
          (case (case x of Bracket a \<Rightarrow> parse_line env OP_START 0 0 0 a | _ \<Rightarrow> operand_value env x) of
             Inl f \<Rightarrow> Inl f
           | Inr None \<Rightarrow> Inr None
           | Inr (Some temp) \<Rightarrow>
               (case combine env op derefs nots val temp of
                  Inl f \<Rightarrow> Inl f
                | Inr None \<Rightarrow> Inr None
                | Inr (Some v) \<Rightarrow> parse_line env OP_NONE 0 0 v r))
      | No_Operand \<Rightarrow>
          if op \<noteq> OP_NONE then Inr None
          else (case scan_operator (c # s) of
                  None \<Rightarrow> Inr None
                | Some (op2, r) \<Rightarrow> parse_line env op2 derefs nots val r))"
  by pat_completeness auto
termination
  by (relation "measure (\<lambda>(env, op, d, n, v, s). 3 * length s + (if op = OP_NONE then 0 else 1))")
    (auto dest: scan_operand_length scan_operator_length)

text \<open>The text is copied into a buffer, which cuts it.\<close>

definition memDecode :: "calc \<Rightarrow> string \<Rightarrow> u32 option run" where
  "memDecode env line = parse_line env OP_START 0 0 0 (take 1023 line)"

end
