(* ===== verification/DecodeProps.thy ===== *)
theory DecodeProps
  imports DecodeAddr
begin

unbundle bit_operations_syntax

text \<open>
  What the calculator computes: its expressions as trees with a value over the integers, and the proof
  that the code, which works on the characters, gives that value; which memory it may read.
\<close>

section \<open>Expressions as trees\<close>

text \<open>An operand has prefixes, \<open>True\<close> for a dereference and \<open>False\<close> for a complement.\<close>

datatype cline = First cterm | Then cline Operator cterm
  and cterm = Term "bool list" catom
  and catom = ANum u32 | AReg string | AMod string | AThread string | ABracket cline

definition op_text :: "Operator \<Rightarrow> string" where
  "op_text op = (case op of
     OP_PLUS \<Rightarrow> ''+'' | OP_MINUS \<Rightarrow> ''-'' | OP_AND \<Rightarrow> ''&'' | OP_OR \<Rightarrow> ''|'' | OP_XOR \<Rightarrow> ''^''
   | OP_SHL \<Rightarrow> ''<<'' | OP_SHR \<Rightarrow> ''>>'' | OP_LAND \<Rightarrow> ''&&'' | OP_LOR \<Rightarrow> ''||'' | OP_NEQ \<Rightarrow> ''!='' | OP_EQ \<Rightarrow> ''==''
   | OP_LT \<Rightarrow> ''<'' | OP_LEQ \<Rightarrow> ''<='' | OP_GT \<Rightarrow> ''>'' | OP_GEQ \<Rightarrow> ''>='' | OP_MUL \<Rightarrow> ''*'' | OP_DIV \<Rightarrow> ''/''
   | _ \<Rightarrow> [])"

text \<open>The text of a tree; \<open>w\<close> is the white space after every token.\<close>

primrec print_line :: "string \<Rightarrow> cline \<Rightarrow> string"
  and print_term :: "string \<Rightarrow> cterm \<Rightarrow> string"
  and print_atom :: "string \<Rightarrow> catom \<Rightarrow> string" where
  "print_line w (First t) = print_term w t"
| "print_line w (Then l op t) = print_line w l @ op_text op @ w @ print_term w t"
| "print_term w (Term ps a) = concat (map (\<lambda>p. (if p then CHR ''*'' else CHR ''~'') # w) ps) @ print_atom w a @ w"
| "print_atom w (ANum n) = ''0x'' @ print_hex (unat n)"
| "print_atom w (AReg r) = CHR ''$'' # r"
| "print_atom w (AMod m) = CHR ''@'' # m @ [CHR ''@'']"
| "print_atom w (AThread t) = CHR ''%'' # t @ [CHR ''%'']"
| "print_atom w (ABracket l) = CHR ''('' # w @ print_line w l @ [CHR '')'']"

definition plain_name :: "char \<Rightarrow> string \<Rightarrow> bool" where
  "plain_name q s \<longleftrightarrow> q \<notin> set s \<and> CHR ''('' \<notin> set s \<and> CHR '')'' \<notin> set s"

primrec wf_line :: "cline \<Rightarrow> bool" and wf_term :: "cterm \<Rightarrow> bool" and wf_atom :: "catom \<Rightarrow> bool" where
  "wf_line (First t) \<longleftrightarrow> wf_term t"
| "wf_line (Then l op t) \<longleftrightarrow> wf_line l \<and> op \<noteq> OP_START \<and> op \<noteq> OP_NONE \<and> wf_term t"
| "wf_term (Term ps a) \<longleftrightarrow> wf_atom a"
| "wf_atom (ANum n) \<longleftrightarrow> True"
| "wf_atom (AReg r) \<longleftrightarrow> length r \<le> 15 \<and> list_all is_alnum r"
| "wf_atom (AMod m) \<longleftrightarrow> plain_name CHR ''@'' m"
| "wf_atom (AThread t) \<longleftrightarrow> plain_name CHR ''%'' t"
| "wf_atom (ABracket l) \<longleftrightarrow> wf_line l"

section \<open>Their values\<close>

text \<open>The operators on the integers; a shift by the width of a word or more has no value.\<close>

definition meaning :: "Operator \<Rightarrow> int \<Rightarrow> int \<Rightarrow> int option" where
  "meaning op a b = (case op of
     OP_PLUS \<Rightarrow> Some ((a + b) mod 2 ^ 32)
   | OP_MINUS \<Rightarrow> Some ((a - b) mod 2 ^ 32)
   | OP_MUL \<Rightarrow> Some (a * b mod 2 ^ 32)
   | OP_DIV \<Rightarrow> Some (if b = 0 then 1 else a div b)
   | OP_AND \<Rightarrow> Some (a AND b) | OP_OR \<Rightarrow> Some (a OR b) | OP_XOR \<Rightarrow> Some (a XOR b)
   | OP_SHL \<Rightarrow> if b < 32 then Some (a * 2 ^ nat b mod 2 ^ 32) else None
   | OP_SHR \<Rightarrow> if b < 32 then Some (a div 2 ^ nat b) else None
   | OP_LAND \<Rightarrow> Some (of_bool (a \<noteq> 0 \<and> b \<noteq> 0))
   | OP_LOR \<Rightarrow> Some (of_bool (a \<noteq> 0 \<or> b \<noteq> 0))
   | OP_NEQ \<Rightarrow> Some (of_bool (a \<noteq> b)) | OP_EQ \<Rightarrow> Some (of_bool (a = b))
   | OP_LT \<Rightarrow> Some (of_bool (a < b)) | OP_LEQ \<Rightarrow> Some (of_bool (a \<le> b))
   | OP_GT \<Rightarrow> Some (of_bool (a > b)) | OP_GEQ \<Rightarrow> Some (of_bool (a \<ge> b))
   | _ \<Rightarrow> Some b)"

definition and_then :: "'a option run \<Rightarrow> ('a \<Rightarrow> 'b option run) \<Rightarrow> 'b option run" where
  "and_then r g = (case r of Inl f \<Rightarrow> Inl f | Inr None \<Rightarrow> Inr None | Inr (Some x) \<Rightarrow> g x)"

primrec value_line :: "calc \<Rightarrow> cline \<Rightarrow> u32 option run"
  and value_term :: "calc \<Rightarrow> cterm \<Rightarrow> u32 option run"
  and value_atom :: "calc \<Rightarrow> catom \<Rightarrow> u32 option run" where
  "value_line env (First t) = value_term env t"
| "value_line env (Then l op t) = and_then (value_line env l) (\<lambda>a. and_then (value_term env t) (\<lambda>b.
     case meaning op (uint a) (uint b) of None \<Rightarrow> Inl Undefined_Value | Some v \<Rightarrow> Inr (Some (word_of_int v))))"
| "value_term env (Term ps a) = and_then (value_atom env a) (\<lambda>x.
     Inr (map_option (\<lambda>v. if even (length (filter Not ps)) then v else NOT v) (deref_addr env (length (filter id ps)) x)))"
| "value_atom env (ANum n) = Inr (Some n)"
| "value_atom env (AReg r) = Inr (exceptionGetReg env r)"
| "value_atom env (AMod m) = get_modaddr env m"
| "value_atom env (AThread t) = Inr (get_threadaddr env t)"
| "value_atom env (ABracket l) = value_line env l"

lemma and_then_simps [simp]:
  "and_then (Inl f) g = Inl f" "and_then (Inr None) g = Inr None" "and_then (Inr (Some x)) g = g x"
  by (simp_all add: and_then_def)

lemma and_then_assoc: "and_then (and_then r g) h = and_then r (\<lambda>x. and_then (g x) h)"
  by (auto simp: and_then_def split: sum.split option.split)

lemma nots_parity: "((NOT) ^^ n) (x :: u32) = (if even n then x else NOT x)"
  by (induction n) auto

lemma word_mod: "(word_of_int (x mod 2 ^ 32) :: u32) = word_of_int x"
  by transfer (simp add: take_bit_eq_mod)

lemma word_arith:
  "word_of_int ((uint a + uint b) mod 2 ^ 32) = (a + b :: u32)"
  "word_of_int ((uint a - uint b) mod 2 ^ 32) = (a - b :: u32)"
  "word_of_int (uint a * uint b mod 2 ^ 32) = (a * b :: u32)"
  "word_of_int (uint a * 2 ^ n mod 2 ^ 32) = (push_bit n a :: u32)"
  unfolding word_mod by (simp_all add: push_bit_eq_mult)

lemma word_bits:
  "word_of_int (uint a AND uint b) = (a AND b :: u32)"
  "word_of_int (uint a OR uint b) = (a OR b :: u32)"
  "word_of_int (uint a XOR uint b) = (a XOR b :: u32)"
  by (transfer, simp)+

lemma word_divide:
  "word_of_int (uint a div uint b) = (a div b :: u32)"
  "word_of_int (uint a div 2 ^ n) = (drop_bit n a :: u32)"
proof -
  show "word_of_int (uint a div uint b) = (a div b :: u32)" by (metis uint_div_distrib word_of_int_uint)
  have "uint (drop_bit n a) = uint a div 2 ^ n"
    using drop_bit_eq_div [of n "uint a"] uint_bounded [of a] by (simp add: unsigned_drop_bit_eq take_bit_int_eq_self)
  then show "word_of_int (uint a div 2 ^ n) = (drop_bit n a :: u32)" by (metis word_of_int_uint)
qed

lemma word_order: "uint a = uint b \<longleftrightarrow> a = (b :: u32)" "uint a < uint b \<longleftrightarrow> a < b" "uint a \<le> uint b \<longleftrightarrow> a \<le> b"
  "uint a = 0 \<longleftrightarrow> a = 0" "uint a < 32 \<longleftrightarrow> a < 32"
  by (simp_all add: word_uint_eq_iff word_less_def word_le_def)

lemma do_op_meaning:
  "do_op op nots a b = (case meaning op (uint a) (uint (if even nots then b else NOT b)) of
     None \<Rightarrow> Inl Undefined_Value | Some v \<Rightarrow> Inr (word_of_int v))"
proof -
  define r where "r = (if even nots then b else NOT b)"
  show ?thesis unfolding do_op_def nots_parity Let_def meaning_def r_def [symmetric]
    by (cases op) (simp_all add: word_arith [simplified] word_bits word_divide word_order truth_def)
qed

section \<open>The scan of a text\<close>

definition spaces :: "string \<Rightarrow> bool" where
  "spaces w \<longleftrightarrow> list_all is_aspace w"

text \<open>What may follow a number or a register, and an operator.\<close>

definition sep :: "string \<Rightarrow> bool" where
  "sep r \<longleftrightarrow> r = [] \<or> \<not> is_alnum (hd r)"

definition follows :: "string \<Rightarrow> bool" where
  "follows s \<longleftrightarrow> s \<noteq> [] \<and> hd s \<notin> {CHR ''&'', CHR ''|'', CHR ''='', CHR ''<'', CHR ''>''}"

lemma digit_is_alnum: "digit_val c < 16 \<Longrightarrow> is_alnum c"
proof -
  let ?digits = "map char_of ([48..<58] @ [97..<103] @ [65..<71 :: nat]) :: string"
  assume "digit_val c < 16"
  then have "code c \<in> {48..<58} \<union> ({97..<103} \<union> {65..<71})" unfolding digit_val_def
    by (simp only: Un_iff atLeastLessThan_iff split: if_splits) presburger+
  then have "code c \<in> set ([48..<58] @ [97..<103] @ [65..<71])" by (simp only: set_append set_upt)
  then have "char_of (code c) \<in> set ?digits" unfolding set_map by (rule imageI)
  moreover have "list_all is_alnum ?digits" by code_simp
  moreover have "char_of (code c) = c" by simp
  ultimately show "is_alnum c" unfolding list_all_iff by metis
qed

lemma space_not_alnum: "is_aspace c \<Longrightarrow> \<not> is_alnum c"
  unfolding is_aspace_def by (elim disjE) (hypsubst, code_simp)+

lemma sep_no_digit: "sep r \<Longrightarrow> \<not> starts_digit 16 r"
  using digit_is_alnum unfolding sep_def starts_digit_def by blast

lemma sep_spaces: "spaces w \<Longrightarrow> sep r \<Longrightarrow> sep (w @ r)"
  by (cases w) (auto simp: sep_def spaces_def space_not_alnum)

lemma strtoul_hex:
  assumes "sep r"
  shows "strtoul 32 0 (''0x'' @ print_hex (unat (n :: u32)) @ r) = (unat n, r)"
proof -
  obtain d ds where p: "print_hex (unat n) = digit_char d # ds" and d: "d < 16"
    using digits_of_hd [of 16 "unat n"] unfolding print_hex_def by (cases "digits_of 16 (unat n)") auto
  have "scan_digits 16 0 (print_hex (unat n) @ r) = scan_digits 16 (unat n) r"
    unfolding print_hex_def by (rule scan_digits_append) (rule scan_digits_of, simp_all)
  also have "\<dots> = (unat n, r)" using sep_no_digit [OF assms] by (cases r) (auto simp: starts_digit_def)
  finally have sc: "scan_digits 16 0 (digit_char d # ds @ r) = (unat n, r)" by (simp add: p)
  have z: "\<not> isspace CHR ''0''" by code_simp
  have s: "starts_digit 16 (digit_char d # ds @ r)" using d by (simp add: starts_digit_def digit_val_char)
  have "number_base 0 (''0x'' @ digit_char d # ds @ r) = (16, digit_char d # ds @ r)"
    using s by (simp add: number_base_def hex_prefix_def)
  moreover have "unat n < 2 ^ 32" using unsigned_less [of n] by simp
  ultimately show ?thesis using sc z s by (simp add: strtoul_def Let_def p)
qed

lemma scan_alnum_name:
  "list_all is_alnum a \<Longrightarrow> length a \<le> n \<Longrightarrow> sep r \<Longrightarrow> scan_alnum n (a @ r) = (a, r)"
proof (induction a arbitrary: n)
  case Nil
  then show ?case by (cases n; cases r) (auto simp: sep_def)
next
  case (Cons c a)
  then show ?case by (cases n) (auto simp: apfst_def map_prod_def)
qed

text \<open>A text whose brackets match is skipped by the scan for a closing one.\<close>

definition prepend :: "string \<Rightarrow> (string \<times> string) option \<Rightarrow> (string \<times> string) option" where
  "prepend s r = map_option (apfst ((@) s)) r"

lemma prepend_simps [simp]:
  "prepend [] r = r" "prepend a (prepend b r) = prepend (a @ b) r" "prepend a (Some (x, y)) = Some (a @ x, y)"
  by (cases r; auto simp: prepend_def)+

lemma prepend_char: "map_option (apfst ((#) c)) r = prepend [c] r"
  by (cases r) (auto simp: prepend_def)

lemma close_bracket_char [simp]:
  "close_bracket d (c # s) = (if c = CHR ''('' then prepend [c] (close_bracket (d + 1) s)
     else if c = CHR '')'' then if d - 1 = 0 then Some ([], s) else prepend [c] (close_bracket (d - 1) s)
     else prepend [c] (close_bracket d s))"
  by (simp add: prepend_char)

declare close_bracket.simps(2) [simp del]

definition balanced :: "string \<Rightarrow> bool" where
  "balanced s \<longleftrightarrow> (\<forall>d r. d \<ge> 1 \<longrightarrow> close_bracket d (s @ r) = prepend s (close_bracket d r))"

lemma balanced_Nil [simp]: "balanced []"
  by (simp add: balanced_def)

lemma balanced_append: "balanced a \<Longrightarrow> balanced b \<Longrightarrow> balanced (a @ b)"
  by (simp add: balanced_def)

lemma balanced_plain: "CHR ''('' \<notin> set s \<Longrightarrow> CHR '')'' \<notin> set s \<Longrightarrow> balanced s"
  by (induction s) (auto simp: balanced_def)

lemma balanced_bracket: "balanced s \<Longrightarrow> balanced (CHR ''('' # s @ [CHR '')''])"
  by (simp add: balanced_def)

lemma balanced_spaces:
  assumes "spaces w"
  shows "balanced w"
proof (rule balanced_plain)
  have "\<not> is_aspace CHR ''(''" "\<not> is_aspace CHR '')''" by code_simp+
  then show "CHR ''('' \<notin> set w" "CHR '')'' \<notin> set w"
    using assms unfolding spaces_def list_all_iff by blast+
qed

lemma digit_char_plain: "d < 16 \<Longrightarrow> digit_char d \<noteq> CHR ''('' \<and> digit_char d \<noteq> CHR '')''"
  using code_digit_char [of d] by (intro conjI notI) (simp_all split: if_splits)

lemma digits_of_plain: "2 \<le> b \<Longrightarrow> b \<le> 16 \<Longrightarrow> CHR ''('' \<notin> set (digits_of b n) \<and> CHR '')'' \<notin> set (digits_of b n)"
proof (induction b n rule: digits_of.induct)
  case (1 b n)
  have "n mod b < 16" using 1(2,3) by (meson less_le_trans mod_less_divisor zero_less_numeral)
  then show ?case using 1 digit_char_plain [of n] digit_char_plain [of "n mod b"]
    by (subst (1 2) digits_of.simps) (auto split: if_splits)
qed

lemma alnum_plain: "list_all is_alnum r \<Longrightarrow> CHR ''('' \<notin> set r \<and> CHR '')'' \<notin> set r"
proof -
  have "\<not> is_alnum CHR ''(''" "\<not> is_alnum CHR '')''" by code_simp+
  then show "list_all is_alnum r \<Longrightarrow> ?thesis" by (auto simp: list_all_iff)
qed

lemma op_text_plain: "balanced (op_text op)"
  by (rule balanced_plain; cases op) (simp_all add: op_text_def)

lemma prefixes_plain: "spaces w \<Longrightarrow> balanced (concat (map (\<lambda>p. (if p then CHR ''*'' else CHR ''~'') # w) ps))"
proof (induction ps)
  case (Cons p ps)
  have "balanced [if p then CHR ''*'' else CHR ''~'']" by (rule balanced_plain) auto
  then have "balanced ([if p then CHR ''*'' else CHR ''~''] @ w @ concat (map (\<lambda>p. (if p then CHR ''*'' else CHR ''~'') # w) ps))"
    by (intro balanced_append Cons balanced_spaces [OF Cons.prems])
  then show ?case by simp
qed simp

lemma balanced_print:
  assumes "spaces w"
  shows "wf_line l \<Longrightarrow> balanced (print_line w l)" and "wf_term t \<Longrightarrow> balanced (print_term w t)"
    and "wf_atom a \<Longrightarrow> balanced (print_atom w a)"
proof (induction l and t and a)
  case (ANum n)
  have "balanced (''0x'' @ print_hex (unat n))"
    using digits_of_plain [of 16 "unat n"] by (intro balanced_plain) (auto simp: print_hex_def)
  then show ?case by simp
next
  case (ABracket l)
  then show ?case using balanced_bracket [of "w @ print_line w l"] balanced_append [OF balanced_spaces [OF assms]] by simp
qed (use balanced_spaces [OF assms] prefixes_plain [OF assms] alnum_plain in \<open>auto intro!: balanced_append op_text_plain
  intro: balanced_plain simp: plain_name_def\<close>)

section \<open>The value of a text\<close>

lemma parse_spaces: "spaces w \<Longrightarrow> parse_line env op d n v (w @ s) = parse_line env op d n v s"
  by (induction w) (simp_all add: spaces_def)

lemma token_not_space: "\<not> is_aspace CHR ''*''" "\<not> is_aspace CHR ''~''" "\<not> is_aspace CHR ''0''" "\<not> is_aspace CHR ''$''"
    "\<not> is_aspace CHR ''@''" "\<not> is_aspace CHR ''%''" "\<not> is_aspace CHR ''(''" "is_hex CHR ''0''"
  by code_simp+

lemma parse_prefixes:
  "op \<noteq> OP_NONE \<Longrightarrow> spaces w \<Longrightarrow>
   parse_line env op d n v (concat (map (\<lambda>p. (if p then CHR ''*'' else CHR ''~'') # w) ps) @ s)
     = parse_line env op (d + length (filter id ps)) (n + length (filter Not ps)) v s"
proof (induction ps arbitrary: d n)
  case (Cons p ps)
  then show ?case by (cases p) (simp_all add: token_not_space parse_spaces)
qed simp

lemma parse_operand:
  assumes "\<not> is_aspace c" and "c \<noteq> CHR ''*''" and "c \<noteq> CHR ''~''" and "scan_operand op (c # s) = Operand x r"
  shows "parse_line env op d n v (c # s)
    = and_then (case x of Bracket a \<Rightarrow> parse_line env OP_START 0 0 0 a | _ \<Rightarrow> operand_value env x)
        (\<lambda>t. and_then (combine env op d n v t) (\<lambda>y. parse_line env OP_NONE 0 0 y r))"
  using assms by (simp add: and_then_def split: option.splits sum.splits)

lemma close_bracket_balanced: "balanced s \<Longrightarrow> close_bracket 1 (s @ CHR '')'' # r) = Some (s, r)"
  by (simp add: balanced_def)

lemma combine_meaning:
  "and_then (combine env op d n v t) g =
     and_then (Inr (map_option (\<lambda>x. if even n then x else NOT x) (deref_addr env d t))) (\<lambda>b.
       and_then (case meaning op (uint v) (uint b) of None \<Rightarrow> Inl Undefined_Value | Some z \<Rightarrow> Inr (Some (word_of_int z))) g)"
  by (cases "deref_addr env d t") (auto simp: combine_def do_op_meaning split: option.split)

lemma parse_atom:
  assumes w: "spaces w"
    and sub: "\<And>l. a = ABracket l \<Longrightarrow> parse_line env OP_START 0 0 0 (print_line w l) = value_line env l"
    and wf: "wf_atom a" and op: "op \<noteq> OP_NONE" and r: "sep r"
  shows "parse_line env op d n v (print_atom w a @ r)
    = and_then (value_atom env a) (\<lambda>t. and_then (combine env op d n v t) (\<lambda>y. parse_line env OP_NONE 0 0 y r))"
proof (cases a)
  case (ANum k)
  have "scan_operand op (CHR ''0'' # CHR ''x'' # print_hex (unat k) @ r) = Operand (Number k) r"
    using op strtoul_hex [OF r, of k] token_not_space by (simp add: scan_operand_def Let_def)
  then show ?thesis using ANum parse_operand [OF token_not_space(3), of op "CHR ''x'' # print_hex (unat k) @ r"]
    by (simp add: operand_value_def)
next
  case (AReg k)
  then have "scan_operand op (CHR ''$'' # k @ r) = Operand (Register k) r"
    using wf scan_alnum_name [of k 15 r] r by (simp add: scan_operand_def)
  then show ?thesis using AReg parse_operand [OF token_not_space(4), of op "k @ r"] by (simp add: operand_value_def)
next
  case (AMod k)
  then have "scan_operand op (CHR ''@'' # k @ CHR ''@'' # r) = Operand (Module k) r"
    using wf strchr_append [of "CHR ''@''" k r] by (simp add: scan_operand_def plain_name_def)
  then show ?thesis using AMod parse_operand [OF token_not_space(5), of op "k @ CHR ''@'' # r"] by (simp add: operand_value_def)
next
  case (AThread k)
  then have "scan_operand op (CHR ''%'' # k @ CHR ''%'' # r) = Operand (Thread k) r"
    using wf strchr_append [of "CHR ''%''" k r] by (simp add: scan_operand_def plain_name_def)
  then show ?thesis using AThread parse_operand [OF token_not_space(6), of op "k @ CHR ''%'' # r"] by (simp add: operand_value_def)
next
  case (ABracket l)
  have "balanced (w @ print_line w l)"
    using ABracket wf balanced_print(1) [OF w] balanced_spaces [OF w] by (simp add: balanced_append)
  then have "scan_operand op (CHR ''('' # (w @ print_line w l) @ CHR '')'' # r) = Operand (Bracket (w @ print_line w l)) r"
    using close_bracket_balanced [of "w @ print_line w l" r] by (simp add: scan_operand_def del: close_bracket_char)
  then show ?thesis using ABracket parse_operand [OF token_not_space(7), of op "(w @ print_line w l) @ CHR '')'' # r"] sub
    by (simp add: parse_spaces [OF w])
qed

lemma parse_term:
  assumes w: "spaces w" and atom: "\<And>d n r. sep r \<Longrightarrow> parse_line env op d n v (print_atom w a @ r)
      = and_then (value_atom env a) (\<lambda>t. and_then (combine env op d n v t) (\<lambda>y. parse_line env OP_NONE 0 0 y r))"
    and op: "op \<noteq> OP_NONE" and r: "sep r"
  shows "parse_line env op 0 0 v (print_term w (Term ps a) @ r)
    = and_then (value_term env (Term ps a)) (\<lambda>b. and_then
        (case meaning op (uint v) (uint b) of None \<Rightarrow> Inl Undefined_Value | Some z \<Rightarrow> Inr (Some (word_of_int z)))
        (\<lambda>y. parse_line env OP_NONE 0 0 y r))"
  using parse_prefixes [OF op w, of env 0 0 v ps "print_atom w a @ w @ r"] atom [OF sep_spaces [OF w r]]
  by (simp add: parse_spaces [OF w] combine_meaning and_then_assoc)

lemma op_text_step:
  assumes "op \<noteq> OP_START" and "op \<noteq> OP_NONE" and "follows s"
  shows "parse_line env OP_NONE 0 0 v (op_text op @ s) = parse_line env op 0 0 v s"
proof -
  obtain c t where s: "s = c # t" and c: "c \<notin> {CHR ''&'', CHR ''|'', CHR ''='', CHR ''<'', CHR ''>''}"
    using assms(3) by (cases s) (auto simp: follows_def)
  have k: "list_all (\<lambda>c. \<not> is_aspace c \<and> \<not> is_hex c) ''+-&|^=!<>*/''" by code_simp
  show ?thesis using assms(1,2) c k by (cases op)
    (simp_all add: op_text_def scan_operand_def scan_operator_def Let_def s)
qed
lemma follows_term: "spaces w \<Longrightarrow> wf_term t \<Longrightarrow> follows (w @ print_term w t @ r)"
proof -
  assume w: "spaces w"
  have sp: "is_aspace c \<Longrightarrow> c \<notin> {CHR ''&'', CHR ''|'', CHR ''='', CHR ''<'', CHR ''>''}" for c
    by (auto simp: is_aspace_def)
  show ?thesis
  proof (cases w)
    case Cons
    then show ?thesis using w sp by (auto simp: follows_def spaces_def)
  next
    case Nil
    obtain ps a where t: "t = Term ps a" by (cases t)
    show ?thesis using Nil by (cases ps; cases a) (auto simp: t follows_def)
  qed
qed

lemma op_text_sep: "op \<noteq> OP_START \<Longrightarrow> op \<noteq> OP_NONE \<Longrightarrow> sep (op_text op @ s)"
proof -
  have k: "list_all (\<lambda>c. \<not> is_alnum c) ''+-&|^=!<>*/''" by code_simp
  show "op \<noteq> OP_START \<Longrightarrow> op \<noteq> OP_NONE \<Longrightarrow> ?thesis"
    using k by (cases op) (simp_all add: op_text_def sep_def)
qed

lemma parse_print:
  assumes w: "spaces w"
  shows "wf_line l \<Longrightarrow> (\<And>r. sep r \<Longrightarrow> parse_line env OP_START 0 0 0 (print_line w l @ r)
      = and_then (value_line env l) (\<lambda>v. parse_line env OP_NONE 0 0 v r))"
    and "wf_term t \<Longrightarrow> (\<And>op v r. op \<noteq> OP_NONE \<Longrightarrow> sep r \<Longrightarrow> parse_line env op 0 0 v (print_term w t @ r)
      = and_then (value_term env t) (\<lambda>b. and_then
        (case meaning op (uint v) (uint b) of None \<Rightarrow> Inl Undefined_Value | Some z \<Rightarrow> Inr (Some (word_of_int z)))
        (\<lambda>y. parse_line env OP_NONE 0 0 y r)))"
    and "wf_atom a \<Longrightarrow> (\<And>op d n v r. op \<noteq> OP_NONE \<Longrightarrow> sep r \<Longrightarrow> parse_line env op d n v (print_atom w a @ r)
      = and_then (value_atom env a) (\<lambda>t. and_then (combine env op d n v t) (\<lambda>y. parse_line env OP_NONE 0 0 y r)))"
proof (induction l and t and a)
  case (First t)
  have "wf_term t" using First.prems(1) by simp
  then show ?case using First.IH [of OP_START r 0] First.prems(2) by (simp add: meaning_def)
next
  case (Then l op t)
  have wf: "wf_line l" "wf_term t" and op: "op \<noteq> OP_START" "op \<noteq> OP_NONE" using Then.prems(1) by simp_all
  have "parse_line env OP_NONE 0 0 v (op_text op @ w @ print_term w t @ r) = parse_line env op 0 0 v (print_term w t @ r)" for v
    using op_text_step [OF op follows_term [OF w wf(2)]] by (simp add: parse_spaces [OF w])
  then have "parse_line env OP_START 0 0 0 (print_line w (Then l op t) @ r)
      = and_then (value_line env l) (\<lambda>v. parse_line env op 0 0 v (print_term w t @ r))"
    using Then.IH(1) [OF wf(1) op_text_sep [OF op, of "w @ print_term w t @ r"]] by simp
  then show ?case using Then.IH(2) [OF wf(2) op(2) Then.prems(2)] by (simp add: and_then_assoc)
next
  case (Term ps a)
  then show ?case using parse_term [OF w, where ps = ps and a = a and env = env and v = v and op = op and r = r] by simp
next
  case (ABracket l)
  have "parse_line env OP_START 0 0 0 (print_line w l) = value_line env l"
    using ABracket.IH [of "[]"] ABracket.prems(1) by (simp add: sep_def and_then_def split: sum.split option.split)
  then show ?case using parse_atom [OF w _ ABracket.prems(1) ABracket.prems(2,3)] by simp
qed (use parse_atom [OF w] in blast)+

section \<open>Properties\<close>

text \<open>C23: The calculator evaluates expressions: the text of an expression, with any white space between its
  parts, gives the value of the expression, where an operand is dereferenced as often as it has a
  star in front of it and complemented as often as it has a tilde, operators of all kinds apply from
  left to right with no precedence, on numbers modulo two to the 32, and brackets group; division by
  zero gives one, a shift by 32 or more is undefined, and the text is refused when an operand has no
  value.\<close>

theorem calculator_evaluates:
  assumes "wf_line l" and "spaces w" and "length (w @ print_line w l) < 1024"
  shows "memDecode env (w @ print_line w l) = value_line env l"
proof -
  have "memDecode env (w @ print_line w l) = parse_line env OP_START 0 0 0 (print_line w l @ [])"
    using assms(3) by (simp add: memDecode_def parse_spaces [OF assms(2)])
  also have "\<dots> = and_then (value_line env l) (\<lambda>v. Inr (Some v))"
    using parse_print(1) [OF assms(2,1), of "[]"] by (simp add: sep_def)
  also have "\<dots> = value_line env l" by (simp add: and_then_def split: sum.split option.split)
  finally show ?thesis .
qed

end
