(* ===== verification/DecodeMem.thy ===== *)
theory DecodeMem
  imports DecodeProps
begin

unbundle bit_operations_syntax

text \<open>Which memory the calculator touches.\<close>

section \<open>The areas\<close>

definition area_last :: "mem_entry \<Rightarrow> int" where
  "area_last e = uint (me_addr e) + me_size e"

definition in_area :: "mem_entry \<Rightarrow> u32 \<Rightarrow> bool" where
  "in_area e a \<longleftrightarrow> uint (me_addr e) \<le> uint a \<and> uint a < area_last e"

text \<open>Areas are not empty, end below the top of memory, allow every access and do not overlap.\<close>

definition areas_ok :: "mem_entry list \<Rightarrow> bool" where
  "areas_ok es \<longleftrightarrow> list_all (\<lambda>e. 0 < me_size e \<and> me_size e < 2 ^ 31 \<and> area_last e < 2 ^ 32 \<and> me_attrib e = MEM_ATTRIB_ALL) es
     \<and> sorted_wrt (\<lambda>e f. area_last e \<le> uint (me_addr f) \<or> area_last f \<le> uint (me_addr e)) es"

lemma g_memareas_ok: "areas_ok g_memareas"
  by code_simp

lemma area_test:
  assumes "0 < me_size e" and "me_size e < 2 ^ 31" and "area_last e < 2 ^ 32"
  shows "a \<ge> me_addr e \<and> a < me_addr e + word_of_int (me_size e) \<longleftrightarrow> in_area e a"
    and "in_area e a \<Longrightarrow> me_size e - sint (a - me_addr e) = area_last e - uint a"
proof -
  have "uint (me_addr e + word_of_int (me_size e)) = area_last e"
    using assms by (simp add: uint_plus_if' area_last_def uint_word_of_int)
  then show "a \<ge> me_addr e \<and> a < me_addr e + word_of_int (me_size e) \<longleftrightarrow> in_area e a"
    by (simp add: in_area_def word_le_def word_less_def)
  show "me_size e - sint (a - me_addr e) = area_last e - uint a" if "in_area e a"
  proof -
    have "uint (a - me_addr e) = uint a - uint (me_addr e)" using that by (simp add: uint_sub_if' in_area_def)
    moreover have "uint a - uint (me_addr e) < 2 ^ 31" using that assms(2) by (simp add: in_area_def area_last_def)
    ultimately have "sint (a - me_addr e) = uint a - uint (me_addr e)" using that
      by (simp add: sint_uint signed_take_bit_int_eq_self in_area_def)
    then show ?thesis by (simp add: area_last_def)
  qed
qed

lemma all_ones: "MEM_ATTRIB_ALL = - 1"
  by (simp add: MEM_ATTRIB_ALL_def)

lemma find_member: "List.find P xs = Some x \<Longrightarrow> x \<in> set xs \<and> P x"
  by (metis find_Some_iff nth_mem)

lemma scan_areas_ok:
  assumes "areas_ok es"
  shows "scan_areas v1 a attrib es = (case List.find (\<lambda>e. in_area e a) es of None \<Rightarrow> 0
    | Some e \<Rightarrow> if \<not> me_v1only e \<or> v1 then area_last e - uint a else 0)"
  using assms
proof (induction es)
  case (Cons e es)
  have e: "0 < me_size e" "me_size e < 2 ^ 31" "area_last e < 2 ^ 32" "me_attrib e = MEM_ATTRIB_ALL"
    and es: "areas_ok es" using Cons.prems by (simp_all add: areas_ok_def)
  have "MEM_ATTRIB_ALL AND attrib = attrib" unfolding all_ones by (rule and.left_neutral)
  then show ?case using Cons.IH [OF es] area_test [OF e(1-3), of a] e(4) by (simp split: option.split)
qed simp

text \<open>With the protection on, what may be touched from an address is what is left of its area.\<close>

lemma memValidate_area:
  assumes "\<not> g_protoff p" and "0 < memValidate p a attrib"
  shows "\<exists>e \<in> set g_memareas. in_area e a \<and> (\<not> me_v1only e \<or> g_isv1 p) \<and> uint a + memValidate p a attrib = area_last e"
proof -
  have v: "memValidate p a attrib = scan_areas (g_isv1 p) a attrib g_memareas"
    using assms(1) by (simp add: memValidate_def)
  then obtain e where "List.find (\<lambda>e. in_area e a) g_memareas = Some e" and "\<not> me_v1only e \<or> g_isv1 p"
    and "memValidate p a attrib = area_last e - uint a"
    using assms(2) unfolding v scan_areas_ok [OF g_memareas_ok] by (cases "List.find (\<lambda>e. in_area e a) g_memareas") (auto split: if_splits)
  then show ?thesis using find_member by fastforce
qed

section \<open>Reading\<close>

definition readable :: "protection \<Rightarrow> u32 \<Rightarrow> bool" where
  "readable p a \<longleftrightarrow> a AND 3 = 0 \<and> (\<exists>e \<in> set g_memareas. uint (me_addr e) \<le> uint a \<and> uint a + 4 \<le> area_last e
     \<and> (\<not> me_v1only e \<or> g_isv1 p))"

definition with_memory :: "(u32 \<Rightarrow> u32) \<Rightarrow> calc \<Rightarrow> calc" where
  "with_memory m env = env\<lparr>c_libs := (c_libs env)\<lparr>k_word := m\<rparr>\<rparr>"

lemma with_memory_select [simp]:
  "c_prot (with_memory m env) = c_prot env" "k_word (c_libs (with_memory m env)) = m"
  "exceptionGetReg (with_memory m env) r = exceptionGetReg env r" "get_threadaddr (with_memory m env) t = get_threadaddr env t"
  by (simp_all add: with_memory_def exceptionGetReg_def get_threadaddr_def cong: option.case_cong prod.case_cong if_cong)

lemma deref_addr_valid:
  assumes "\<not> g_protoff (c_prot env)" and "\<And>a. readable (c_prot env) a \<Longrightarrow> m a = k_word (c_libs env) a"
  shows "deref_addr (with_memory m env) d v = deref_addr env d v"
proof (induction d arbitrary: v)
  case (Suc d)
  show ?case
  proof (cases "v AND 3 = 0 \<and> 4 \<le> memValidate (c_prot env) v (MEM_ATTRIB_READ OR MEM_ATTRIB_WORD)")
    case True
    then have "readable (c_prot env) v"
      using memValidate_area [OF assms(1), of v "MEM_ATTRIB_READ OR MEM_ATTRIB_WORD"] by (force simp: readable_def in_area_def)
    then show ?thesis using True Suc assms(2) by simp
  next
    case False
    then show ?thesis by auto
  qed
qed simp

lemma close_bracket_set: "close_bracket d s = Some (a, r) \<Longrightarrow> set a \<subseteq> set s \<and> set r \<subseteq> set s"
proof (induction s arbitrary: d a)
  case (Cons c s)
  then show ?case by (fastforce simp: prepend_def split: if_splits)
qed simp

lemma scan_alnum_set: "scan_alnum n s = (a, r) \<Longrightarrow> set r \<subseteq> set s"
proof (induction n s arbitrary: a rule: scan_alnum.induct)
  case (1 n c s)
  then show ?case by (cases "scan_alnum n s") (auto split: if_splits)
qed auto

lemma scan_digits_set: "scan_digits b acc s = (n, r) \<Longrightarrow> set r \<subseteq> set s"
  by (induction s arbitrary: acc) (auto split: if_splits)

lemma skip_space_set: "set (skip_space s) \<subseteq> set s"
  by (induction s) auto

lemma strtoul_set:
  assumes "strtoul w b s = (n, r)"
  shows "set r \<subseteq> set s"
proof -
  let ?s1 = "skip_space s"
  let ?s2 = "if ?s1 \<noteq> [] \<and> (hd ?s1 = CHR ''-'' \<or> hd ?s1 = CHR ''+'') then tl ?s1 else ?s1"
  obtain c s3 where b: "number_base b ?s2 = (c, s3)" by fastforce
  obtain m q where d: "scan_digits c 0 s3 = (m, q)" by fastforce
  have "r = s \<or> r = q" using assms b d by (auto simp: strtoul_def Let_def split: if_splits)
  moreover have "set s3 \<subseteq> set ?s2" using b by (auto simp: number_base_def split: if_splits dest: in_set_dropD)
  moreover have "set ?s2 \<subseteq> set ?s1" by (cases ?s1) auto
  ultimately show ?thesis using scan_digits_set [OF d] skip_space_set [of s] by blast
qed

lemma strchr_set: "strchr s c = Some (a, r) \<Longrightarrow> set r \<subseteq> set s"
  by (auto simp: strchr_def split: if_splits dest: in_set_dropD set_dropWhileD)

lemma scan_operand_set:
  assumes "scan_operand op (c # s) = Operand x r" and "CHR ''@'' \<notin> set (c # s)"
  shows "CHR ''@'' \<notin> set r \<and> (\<forall>a. x \<noteq> Module a) \<and> (\<forall>a. x = Bracket a \<longrightarrow> CHR ''@'' \<notin> set a)"
  using assms strtoul_set [of 32 0 "c # s"]
  by (auto simp: scan_operand_def Let_def split: if_splits option.splits prod.splits
      dest!: close_bracket_set scan_alnum_set strchr_set)

lemma scan_operator_set: "scan_operator (c # s) = Some (op, r) \<Longrightarrow> set r \<subseteq> set s"
  using set_drop_subset [of 1 s] by (auto simp: scan_operator_def Let_def drop_Suc split: if_splits)

lemma parse_line_memory:
  assumes "\<not> g_protoff (c_prot env)" and "\<And>a. readable (c_prot env) a \<Longrightarrow> m a = k_word (c_libs env) a"
    and "CHR ''@'' \<notin> set s"
  shows "parse_line (with_memory m env) op d n v s = parse_line env op d n v s"
  using assms
proof (induction env op d n v s rule: parse_line.induct)
  case (2 env op d n v c s)
  note same = 2(7,8)
  have cb: "combine (with_memory m env) op d n v t = combine env op d n v t" for t
    by (simp add: combine_def deref_addr_valid [OF same])
  show ?case
  proof (cases "is_aspace c \<or> c = CHR ''*'' \<and> op \<noteq> OP_NONE \<or> c = CHR ''~''")
    case True
    then show ?thesis using 2 by auto
  next
    case False
    then have k: "\<not> is_aspace c" "\<not> (c = CHR ''*'' \<and> (op = OP_START \<or> op \<noteq> OP_NONE))" "c \<noteq> CHR ''~''" by auto
    show ?thesis
    proof (cases "scan_operand op (c # s)")
      case (Operand x r)
      note set = scan_operand_set [OF Operand 2(9)]
      have val: "(case x of Bracket a \<Rightarrow> parse_line (with_memory m env) OP_START 0 0 0 a | _ \<Rightarrow> operand_value (with_memory m env) x)
          = (case x of Bracket a \<Rightarrow> parse_line env OP_START 0 0 0 a | _ \<Rightarrow> operand_value env x)"
        using set 2(4) [OF k Operand _ same] by (cases x) (simp_all add: operand_value_def)
      have rest: "parse_line (with_memory m env) OP_NONE 0 0 y r = parse_line env OP_NONE 0 0 y r"
        if "(case x of Bracket a \<Rightarrow> parse_line env OP_START 0 0 0 a | _ \<Rightarrow> operand_value env x) = Inr (Some t)"
          and "combine env op d n v t = Inr (Some y)" for t y
        using 2(5) [OF k Operand that(1) _ that(2) _ same] set by simp
      show ?thesis unfolding parse_line.simps(2) if_not_P [OF k(1)] if_not_P [OF k(2)] if_not_P [OF k(3)]
          Operand scanned.case val cb
        by (auto split: sum.split option.split intro: rest)
    next
      case No_Operand
      have rest: "parse_line (with_memory m env) op2 d n v r = parse_line env op2 d n v r"
        if "\<not> op \<noteq> OP_NONE" and "scan_operator (c # s) = Some (op2, r)" for op2 r
        using 2(6) [OF k No_Operand that refl same] scan_operator_set [OF that(2)] 2(9) by auto
      show ?thesis unfolding parse_line.simps(2) if_not_P [OF k(1)] if_not_P [OF k(2)] if_not_P [OF k(3)]
          No_Operand scanned.case
        using rest by (auto split: option.split)
    next
      case Scan_Error
      show ?thesis unfolding parse_line.simps(2) if_not_P [OF k(1)] if_not_P [OF k(2)] if_not_P [OF k(3)]
          Scan_Error scanned.case by (rule refl)
    qed
  qed
qed simp

section \<open>Properties\<close>

text \<open>C24: The calculator reads only memory that is there: with the protection on, the result for any text that
  names no module depends on no word of memory except the aligned ones that lie wholly inside an area
  of the memory map, and the areas of version 1 only on a version 1 machine.\<close>

theorem calculator_reads_valid_memory:
  assumes "\<not> g_protoff (c_prot env)" and "CHR ''@'' \<notin> set line"
    and "\<And>a. readable (c_prot env) a \<Longrightarrow> m a = k_word (c_libs env) a"
  shows "memDecode (with_memory m env) line = memDecode env line"
  unfolding memDecode_def by (rule parse_line_memory) (use assms in \<open>auto dest: in_set_takeD\<close>)

section \<open>Witnesses\<close>

definition demo_calc :: calc where
  "demo_calc = \<lparr>c_cur = Some \<lparr>cx_r = replicate 32 0, cx_cause = 0, cx_epc = 0x08804000, cx_fsr = 0, cx_type = 0, cx_thid = 7,
       cx_drcntl = 0, cx_cont = 0, cx_error = False\<rparr>,
     c_prot = \<lparr>g_isv1 = False, g_protoff = False\<rparr>,
     c_libs = \<lparr>k_module_by_uid = (\<lambda>_. None), k_sha1 = (\<lambda>_. None), k_word = (\<lambda>a. a + 0x10)\<rparr>,
     c_module_by_name = (\<lambda>_. None), c_module_by_addr = (\<lambda>_. None), c_QueryModuleInfo = (\<lambda>_. None),
     c_thread_by_name = (\<lambda>_. None), c_thread_status = (\<lambda>_. None)\<rparr>"

text \<open>The word at the program counter and four, times two: no operator binds more tightly.\<close>

definition demo_line :: cline where
  "demo_line = Then (Then (First (Term [True] (AReg ''epc''))) OP_PLUS (Term [] (ANum 4)))
     OP_MUL (Term [] (ABracket (Then (First (Term [False] (ANum 0))) OP_AND (Term [] (ANum 2)))))"

theorem calculator_evaluates_witness:
  "memDecode demo_calc '' * $epc + 0x4 * ( ~ 0x0 & 0x2 ) '' = Inr (Some 0x11008028)"
proof -
  have p: "'' '' @ print_line '' '' demo_line = '' * $epc + 0x4 * ( ~ 0x0 & 0x2 ) ''" by code_simp
  have v: "value_line demo_calc demo_line = Inr (Some 0x11008028)" by code_simp
  have "wf_line demo_line" "spaces '' ''" "length ('' '' @ print_line '' '' demo_line) < 1024" by code_simp+
  from calculator_evaluates [OF this, of demo_calc] show ?thesis unfolding p v .
qed

theorem calculator_reads_valid_memory_witness:
  "memDecode (with_memory (\<lambda>a. if uint a < 0x10000 then 0 else a + 0x10) demo_calc) ''*$epc+4'' = memDecode demo_calc ''*$epc+4''"
proof -
  have low: "list_all (\<lambda>e. 0x10000 \<le> uint (me_addr e)) g_memareas" by code_simp
  have "(if uint a < 0x10000 then 0 else a + 0x10) = k_word (c_libs demo_calc) a" if "readable (c_prot demo_calc) a" for a
    using that low by (force simp: readable_def list_all_iff demo_calc_def)
  moreover have "\<not> g_protoff (c_prot demo_calc)" by (simp add: demo_calc_def)
  ultimately show ?thesis by (intro calculator_reads_valid_memory) simp_all
qed

end
