(* ===== verification/ByteMem.thy ===== *)
theory ByteMem
  imports BreakpointInv
begin

unbundle bit_operations_syntax

text \<open>
  The bytes of a memory of words, as the stub (\<^verbatim>\<open>usbgdb/main.c\<close>) and the commands of the shell read and write them,
  under an address translation that identifies the mappings of the same place.
\<close>

text \<open>A byte of the memory of words.\<close>

definition byte_shift :: "u32 \<Rightarrow> nat" where
  "byte_shift a = 8 * unat (a AND 3)"

definition lb :: "(u32 \<Rightarrow> u32) \<Rightarrow> u32 \<Rightarrow> dbg \<Rightarrow> u8" where
  "lb ph a s = ucast (drop_bit (byte_shift a) (d_mem s (ph (a AND NOT 3))))"

definition sb :: "(u32 \<Rightarrow> u32) \<Rightarrow> u8 \<Rightarrow> u32 \<Rightarrow> dbg \<Rightarrow> dbg" where
  "sb ph v a s = (let p = ph (a AND NOT 3) in
     s\<lparr>d_mem := (d_mem s)(p := (d_mem s p AND NOT (push_bit (byte_shift a) 0xFF)) OR push_bit (byte_shift a) (ucast v))\<rparr>)"

section \<open>Bytes of words\<close>

lemma low_mask: "(3 :: u32) = mask 2" "(0xFF :: u32) = mask 8" "(0x0FFFFFFF :: u32) = mask 28"
  by (simp_all add: mask_eq_exp_minus_1)

lemma and_3_unat: "unat (va AND 3 :: u32) = unat va mod 4"
  unfolding low_mask(1) by (simp add: unat_mod_distrib take_bit_eq_mod flip: take_bit_eq_mask)

lemma byte_shift_cases: "byte_shift a \<in> {0, 8, 16, 24}"
proof -
  have "unat (a AND 3) < 4"
    unfolding low_mask(1) by (simp add: unat_mod_distrib take_bit_eq_mod unat_arith_simps flip: take_bit_eq_mask)
  then show ?thesis by (auto simp: byte_shift_def)
qed

lemma byte_shift_eq: "byte_shift a = byte_shift b \<longleftrightarrow> a AND 3 = b AND 3"
  by (simp add: byte_shift_def word_unat_eq_iff)

lemma byte_written:
  assumes "m \<in> {0, 8, 16, 24}" and "n \<in> {0, 8, 16, 24}"
  shows "(ucast (drop_bit m ((w AND NOT (push_bit n 0xFF)) OR push_bit n (ucast (v :: u8)))) :: u8)
    = (if m = n then v else ucast (drop_bit m (w :: u32)))"
  unfolding low_mask
proof (rule bit_word_eqI)
  fix i assume i: "i < LENGTH(8)"
  show "bit (ucast (drop_bit m ((w AND NOT (push_bit n (mask 8))) OR push_bit n (ucast v))) :: u8) i
      = bit (if m = n then v else ucast (drop_bit m w)) i"
    using assms i by (auto simp: bit_simps dest: bit_imp_le_length)
qed

lemma take_bit_eq_iff: "take_bit n (a :: u32) = take_bit n b \<longleftrightarrow> (\<forall>i < n. bit a i = bit b i)"
proof
  assume "take_bit n a = take_bit n b"
  then show "\<forall>i < n. bit a i = bit b i" by (metis bit_take_bit_iff)
qed (auto intro!: bit_eqI simp: bit_take_bit_iff)

lemma same_place_bits: "same_place a b \<longleftrightarrow> (\<forall>i < 28. bit a i = bit b i)"
  unfolding same_place_def low_mask by (simp add: take_bit_eq_iff flip: take_bit_eq_mask)

lemma low_bits: "a AND 3 = b AND 3 \<longleftrightarrow> (\<forall>i < 2. bit a i = bit (b :: u32) i)"
  unfolding low_mask by (simp add: take_bit_eq_iff flip: take_bit_eq_mask)

lemma same_byte: "same_place (a AND NOT 3) (b AND NOT 3) \<and> a AND 3 = b AND 3 \<longleftrightarrow> same_place a b"
proof -
  have w: "i < 28 \<Longrightarrow> bit (x AND NOT 3) i \<longleftrightarrow> 2 \<le> i \<and> bit x i" for x :: u32 and i
    unfolding low_mask by (auto simp: bit_simps)
  have "same_place (a AND NOT 3) (b AND NOT 3) \<longleftrightarrow> (\<forall>i < 28. 2 \<le> i \<longrightarrow> bit a i = bit b i)"
    unfolding same_place_bits using w by (simp cong: imp_cong) blast
  then show ?thesis unfolding same_place_bits low_bits by (auto simp: not_le [symmetric])
qed

lemma lb_sb:
  assumes "aliasing ph"
  shows "lb ph a (sb ph v b s) = (if same_place a b then v else lb ph a s)"
proof (cases "ph (a AND NOT 3) = ph (b AND NOT 3)")
  case True
  then have "same_place (a AND NOT 3) (b AND NOT 3)" using assms by (simp add: aliasing_def)
  then have "byte_shift a = byte_shift b \<longleftrightarrow> same_place a b" using same_byte [of a b] by (simp add: byte_shift_eq)
  then show ?thesis using True byte_written [OF byte_shift_cases byte_shift_cases, of a _ b]
    unfolding lb_def sb_def Let_def by simp
next
  case False
  then have "\<not> same_place a b" using assms same_byte [of a b] by (auto simp: aliasing_def)
  then show ?thesis using False by (simp add: lb_def sb_def Let_def)
qed

section \<open>Runs of bytes\<close>

fun write_bytes :: "(u32 \<Rightarrow> u32) \<Rightarrow> u32 \<Rightarrow> bytes \<Rightarrow> dbg \<Rightarrow> dbg" where
  "write_bytes ph a [] s = s"
| "write_bytes ph a (b # bs) s = write_bytes ph (a + 1) bs (sb ph b a s)"

lemma same_place_run: "i < 2 ^ 28 \<Longrightarrow> j < 2 ^ 28 \<Longrightarrow> same_place (a + of_nat i) (a + of_nat j) \<longleftrightarrow> i = j"
proof -
  have le: "i = j" if "same_place (a + of_nat i) (a + of_nat j)" "i \<le> j" "j < 2 ^ 28" for i j
  proof -
    have "take_bit 28 (a + of_nat i) = take_bit 28 (a + of_nat j)"
      using that(1) unfolding same_place_def low_mask by (simp flip: take_bit_eq_mask)
    then have "unat (take_bit 28 (a + of_nat i)) = unat (take_bit 28 (a + of_nat j))" by simp
    moreover have "unat (take_bit 28 (a + of_nat k)) = (unat a + k) mod 2 ^ 28" for k
    proof -
      have "unat (a + of_nat k) = (unat a + k) mod 2 ^ 32" by (simp add: unat_word_ariths unsigned_of_nat take_bit_eq_mod mod_simps)
      moreover have "(m :: nat) mod 2 ^ 32 mod 2 ^ 28 = m mod 2 ^ 28" for m by (rule mod_mod_cancel) simp
      moreover have "unat (take_bit 28 (w :: u32)) = unat w mod 2 ^ 28" for w
        by (simp add: unsigned_take_bit_eq take_bit_nat_def)
      ultimately show ?thesis by simp
    qed
    ultimately have "2 ^ 28 dvd (unat a + j) - (unat a + i)"
      using that(2) by (simp only: mod_eq_dvd_iff_nat [symmetric] add_le_cancel_left)
    then have "j - i = 0 \<or> 2 ^ 28 \<le> j - i" using dvd_imp_le [of "2 ^ 28" "j - i"] by auto
    then have "j - i = 0" using that(3) by linarith
    then show "i = j" using that(2) by simp
  qed
  have sym: "same_place x y = same_place y x" for x y by (auto simp: same_place_def)
  show "i < 2 ^ 28 \<Longrightarrow> j < 2 ^ 28 \<Longrightarrow> ?thesis"
    using le [of i j] le [of j i] sym by (cases "i \<le> j") (auto simp: same_place_def)
qed

lemma lb_write_bytes_other:
  "aliasing ph \<Longrightarrow> (\<And>i. i < length bs \<Longrightarrow> \<not> same_place b (a + of_nat i)) \<Longrightarrow> lb ph b (write_bytes ph a bs s) = lb ph b s"
proof (induction bs arbitrary: a s)
  case (Cons x bs)
  have "lb ph b (write_bytes ph (a + 1) bs (sb ph x a s)) = lb ph b (sb ph x a s)"
    using Cons.prems(2) [of "Suc i" for i] by (intro Cons.IH [OF Cons.prems(1)]) (simp add: add.assoc)
  then show ?case using Cons.prems(2) [of 0] by (simp add: lb_sb [OF Cons.prems(1)])
qed simp

lemma lb_write_bytes:
  "aliasing ph \<Longrightarrow> length bs < 2 ^ 28 \<Longrightarrow> i < length bs \<Longrightarrow> lb ph (a + of_nat i) (write_bytes ph a bs s) = bs ! i"
proof (induction bs arbitrary: a s i)
  case (Cons x bs)
  show ?case
  proof (cases i)
    case 0
    have "\<not> same_place a (a + 1 + of_nat j)" if "j < length bs" for j
      using same_place_run [of 0 "Suc j" a] that Cons.prems(2) by (simp add: add.assoc)
    then show ?thesis using 0 lb_write_bytes_other [OF Cons.prems(1), of bs a "a + 1"] lb_sb [OF Cons.prems(1), of a x a]
      by (simp add: same_place_def)
  next
    case (Suc j)
    then show ?thesis using Cons.IH [of j "a + 1"] Cons.prems by (simp add: add.assoc)
  qed
qed simp

end
