(* ===== verification/GdbStub.thy ===== *)
theory GdbStub
  imports ByteMem
begin

unbundle bit_operations_syntax

text \<open>
  The GDB stub (\<^verbatim>\<open>usbgdb/gdb-stub.c\<close> and the byte accesses of \<^verbatim>\<open>usbgdb/main.c\<close>): the framing of packets,
  the conversions to and from hexadecimal, and every command a debugger can send, over the memory
  and the breakpoints of the machine. Characters are bytes; the two buffers of the code are lists of
  \<open>MAX_BUF\<close> bytes, and a pointer into one is an index or the rest of the list.
\<close>

section \<open>Characters and buffers\<close>

definition MAX_BUF :: nat where "MAX_BUF = 2048"
definition OUTPUT_BUF :: nat where "OUTPUT_BUF = 4096"

definition text_bytes :: "string \<Rightarrow> bytes" where
  "text_bytes s = map byte_of s"

definition hexchars :: bytes where
  "hexchars = text_bytes ''0123456789abcdef''"

definition hex_digit :: "u8 \<Rightarrow> u8" where
  "hex_digit n = hexchars ! unat (n AND 0xF)"

text \<open>The two digits of a byte.\<close>

definition hex_byte :: "u8 \<Rightarrow> bytes" where
  "hex_byte ch = [hex_digit (drop_bit 4 ch), hex_digit ch]"

definition hex :: "u8 \<Rightarrow> int" where
  "hex ch = (if ch \<ge> byte_of CHR ''a'' \<and> ch \<le> byte_of CHR ''f'' then uint ch - uint (byte_of CHR ''a'') + 10
     else if ch \<ge> byte_of CHR ''0'' \<and> ch \<le> byte_of CHR ''9'' then uint ch - uint (byte_of CHR ''0'')
     else if ch \<ge> byte_of CHR ''A'' \<and> ch \<le> byte_of CHR ''F'' then uint ch - uint (byte_of CHR ''A'') + 10
     else - 1)"

text \<open>A byte put together from two digits, as the code does it for any two characters.\<close>

definition hex_pair :: "u8 \<Rightarrow> u8 \<Rightarrow> u8" where
  "hex_pair a b = word_of_int (hex a * 16) OR word_of_int (hex b)"

definition put_at :: "nat \<Rightarrow> bytes \<Rightarrow> bytes \<Rightarrow> bytes" where
  "put_at i xs buf = take i buf @ xs @ drop (i + length xs) buf"

text \<open>The string at the start of a buffer; it may not be terminated.\<close>

definition c_string :: "bytes \<Rightarrow> bytes run" where
  "c_string buf = (if 0 \<in> set buf then Inr (takeWhile (\<lambda>b. b \<noteq> 0) buf) else Inl Unterminated_String)"

section \<open>Packets\<close>

definition checksum :: "bytes \<Rightarrow> u8" where
  "checksum bs = sum_list bs"

text \<open>
  \<^verbatim>\<open>putpacket\<close>: \<open>sent\<close> is what the output buffer holds, to which every round adds the packet again.
  The characters that answer are the rest of the input; when there are none the code waits for ever.
\<close>

definition packet :: "bytes \<Rightarrow> bytes" where
  "packet bs = byte_of CHR ''$'' # bs @ byte_of CHR ''#'' # hex_byte (checksum bs)"

fun send_rounds :: "bytes \<Rightarrow> bytes \<Rightarrow> bytes \<Rightarrow> bytes \<Rightarrow> (bytes \<times> bytes) run" where
  "send_rounds sent bs inp out =
     (let sent2 = sent @ packet bs in
      if length sent2 > OUTPUT_BUF then Inl Buffer_Overflow
      else case inp of
        [] \<Rightarrow> Inl No_Return
      | ch # inp2 \<Rightarrow>
          if ch AND 0x7F = byte_of CHR ''+'' then Inr (inp2, out @ sent2)
          else send_rounds sent2 bs inp2 (out @ sent2))"

declare send_rounds.simps [simp del]

definition putpacket :: "bytes \<Rightarrow> bytes \<Rightarrow> bytes \<Rightarrow> (bytes \<times> bytes) run" where
  "putpacket buffer inp out = (case c_string buffer of Inl f \<Rightarrow> Inl f | Inr bs \<Rightarrow> send_rounds [] bs inp out)"

text \<open>
  \<^verbatim>\<open>getpacket\<close>. The characters after the start of a packet, up to the end mark or until the buffer is
  full; \<open>None\<close> when the input ends first.
\<close>

fun skip_to_start :: "bytes \<Rightarrow> bytes option" where
  "skip_to_start [] = None"
| "skip_to_start (ch # inp) = (if ch AND 0x7F = byte_of CHR ''$'' then Some inp else skip_to_start inp)"

datatype body = Waiting | Complete bytes bytes | Full bytes bytes

fun recv_body :: "nat \<Rightarrow> bytes \<Rightarrow> body" where
  "recv_body count inp =
     (if count \<ge> MAX_BUF then Full [] inp
      else case inp of
        [] \<Rightarrow> Waiting
      | ch # inp2 \<Rightarrow>
          if ch = byte_of CHR ''#'' then Complete [] inp2
          else (case recv_body (count + 1) inp2 of
                  Waiting \<Rightarrow> Waiting
                | Complete bs r \<Rightarrow> Complete (ch # bs) r
                | Full bs r \<Rightarrow> Full (ch # bs) r))"

declare recv_body.simps [simp del]

text \<open>The removal of a sequence id from a packet, up to and with its terminating NUL.\<close>

definition strip_sequence :: "bytes \<Rightarrow> bytes" where
  "strip_sequence buf =
     (let count = length (takeWhile (\<lambda>b. b \<noteq> 0) buf) in
      if count < 3 then buf else put_at 0 (take (count - 2) (drop 3 buf)) buf)"

lemma recv_body_length:
  "(recv_body count inp = Complete bs r \<longrightarrow> length r < length inp) \<and> (recv_body count inp = Full bs r \<longrightarrow> length r \<le> length inp)"
proof (induction count inp arbitrary: bs rule: recv_body.induct)
  case (1 count inp)
  then show ?case by (subst (1 2) recv_body.simps) (fastforce split: list.splits body.splits if_splits)
qed

lemma skip_to_start_length: "skip_to_start inp = Some r \<Longrightarrow> length r < length inp"
  by (induction inp) (auto split: if_splits)

text \<open>The result is the buffer, the rest of the input and the output, \<open>None\<close> when the code waits for ever.\<close>

function getpacket :: "bytes \<Rightarrow> bytes \<Rightarrow> bytes \<Rightarrow> (bytes \<times> bytes \<times> bytes) option" where
  "getpacket buf inp out =
     (case skip_to_start inp of
        None \<Rightarrow> None
      | Some inp1 \<Rightarrow>
          (case recv_body 0 inp1 of
             Waiting \<Rightarrow> None
           | Full bs inp2 \<Rightarrow>
               if checksum bs \<noteq> 0xFF then getpacket (put_at 0 bs buf) inp2 out
               else Some (put_at 0 bs buf, inp2, out)
           | Complete bs inp2 \<Rightarrow>
               (let buf1 = put_at 0 (bs @ [0]) buf in
                case inp2 of
                  a # b # inp3 \<Rightarrow>
                    if checksum bs \<noteq> hex_pair (a AND 0x7F) (b AND 0x7F)
                    then getpacket buf1 inp3 (out @ [byte_of CHR ''-''])
                    else if buf1 ! 2 = byte_of CHR '':''
                    then Some (strip_sequence buf1, inp3, out @ [byte_of CHR ''+'', buf1 ! 0, buf1 ! 1])
                    else Some (buf1, inp3, out @ [byte_of CHR ''+''])
                | _ \<Rightarrow> None)))"
  by pat_completeness auto
termination
  by (relation "measure (\<lambda>(buf, inp, out). length inp)")
    (auto dest!: skip_to_start_length simp: conjunct1 [OF recv_body_length] dest: recv_body_length [THEN conjunct1, rule_format]
      recv_body_length [THEN conjunct2, rule_format])

declare getpacket.simps [simp del]

section \<open>Memory\<close>

text \<open>
  The addresses a debugger may touch: user memory between \<open>userbase\<close> and \<open>usertop\<close>, in every mapping,
  and the low kernel memory in its own two.
\<close>

record range =
  userbase :: u32
  usertop :: u32

definition gdb_valid :: "range \<Rightarrow> u32 \<Rightarrow> bool" where
  "gdb_valid g address =
     (let nibble = drop_bit 28 address; addr = address AND 0x0FFFFFFF in
      addr \<ge> userbase g \<and> addr < usertop g \<and> (nibble = 0 \<or> nibble = 4 \<or> nibble = 8 \<or> nibble = 10)
      \<or> addr \<ge> 0x08000000 \<and> addr < 0x08400000 \<and> (nibble = 8 \<or> nibble = 10))"

definition GdbReadByte :: "(u32 \<Rightarrow> u32) \<Rightarrow> range \<Rightarrow> u32 \<Rightarrow> dbg \<Rightarrow> u8 option" where
  "GdbReadByte ph g address s = (if gdb_valid g address then Some (lb ph address s) else None)"

definition GdbWriteByte :: "(u32 \<Rightarrow> u32) \<Rightarrow> range \<Rightarrow> u8 \<Rightarrow> u32 \<Rightarrow> dbg \<Rightarrow> dbg option" where
  "GdbWriteByte ph g val dest s = (if gdb_valid g dest then Some (sb ph val dest s) else None)"

text \<open>
  The digits of \<open>count\<close> bytes of memory: whether all could be read, and the digits of those before
  the first that could not.
\<close>

fun read_hex :: "(u32 \<Rightarrow> u32) \<Rightarrow> range \<Rightarrow> dbg \<Rightarrow> u32 \<Rightarrow> nat \<Rightarrow> bool \<times> bytes" where
  "read_hex ph g s mem 0 = (True, [])"
| "read_hex ph g s mem (Suc count) =
     (case GdbReadByte ph g mem s of
        None \<Rightarrow> (False, [])
      | Some ch \<Rightarrow> apsnd ((@) (hex_byte ch)) (read_hex ph g s (mem + 1) count))"

text \<open>
  \<^verbatim>\<open>mem2hex\<close> into the output buffer, at an index or through the null pointer; the result is the index
  behind the digits, or null.
\<close>

definition mem2hex :: "(u32 \<Rightarrow> u32) \<Rightarrow> range \<Rightarrow> dbg \<Rightarrow> u32 \<Rightarrow> nat option \<Rightarrow> nat \<Rightarrow> bytes \<Rightarrow> (nat option \<times> bytes) run" where
  "mem2hex ph g s mem buf count out =
     (case read_hex ph g s mem count of (ok, ds) \<Rightarrow>
        (let w = ds @ (if ok then [0] else []) in
         if w = [] then Inr (None, out)
         else case buf of
           None \<Rightarrow> Inl Bad_Pointer
         | Some i \<Rightarrow>
             if i + length w > MAX_BUF then Inl Buffer_Overflow
             else Inr (if ok then Some (i + length ds) else None, put_at i w out)))"

text \<open>
  \<^verbatim>\<open>hex2mem\<close>: \<open>count\<close> bytes from the input buffer, as digits or as escaped binary. The digits are not
  checked, and their number is not compared with the length of the packet.
\<close>

fun hex2mem :: "(u32 \<Rightarrow> u32) \<Rightarrow> range \<Rightarrow> bytes \<Rightarrow> u32 \<Rightarrow> nat \<Rightarrow> bool \<Rightarrow> dbg \<Rightarrow> (u32 \<times> dbg) run" where
  "hex2mem ph g buf mem 0 binary s = Inr (mem, s)"
| "hex2mem ph g buf mem (Suc count) binary s =
     (case (if binary then
              (case buf of
                 a # b # r \<Rightarrow> if a = 0x7D then Some (0x20 XOR b, r) else Some (a, b # r)
               | [a] \<Rightarrow> if a = 0x7D then None else Some (a, [])
               | [] \<Rightarrow> None)
            else (case buf of a # b # r \<Rightarrow> Some (hex_pair a b, r) | _ \<Rightarrow> None)) of
        None \<Rightarrow> Inl Buffer_Overflow
      | Some (ch, r) \<Rightarrow>
          (case GdbWriteByte ph g ch mem s of
             None \<Rightarrow> Inr (0, s)
           | Some s2 \<Rightarrow> hex2mem ph g r (mem + 1) count binary s2))"

text \<open>
  \<^verbatim>\<open>hexToInt\<close>: the number of digits read, the value (of the last eight), and the pointer moved on.
\<close>

fun hex_to_word :: "nat \<Rightarrow> u32 \<Rightarrow> bytes \<Rightarrow> (nat \<times> u32 \<times> bytes) run" where
  "hex_to_word numChars v [] = Inl Unterminated_String"
| "hex_to_word numChars v (c # r) =
     (if c = 0 \<or> hex c < 0 then Inr (numChars, v, c # r)
      else hex_to_word (numChars + 1) (push_bit 4 v OR word_of_int (hex c)) r)"

definition hexToInt :: "bytes \<Rightarrow> (nat \<times> u32 \<times> bytes) run" where
  "hexToInt p = hex_to_word 0 0 p"

text \<open>The digits of a text; a character is signed, and one beyond 127 indexes in front of the table.\<close>

fun strtohex :: "bytes \<Rightarrow> bytes run" where
  "strtohex [] = Inr []"
| "strtohex (c # cs) = (if c \<ge> 128 then Inl Bad_Pointer else map_sum id ((@) (hex_byte c)) (strtohex cs))"

end
