(* ===== verification/GdbServer.thy ===== *)
theory GdbServer
  imports GdbStub DebugEvents
begin

unbundle bit_operations_syntax

text \<open>
  The commands of the GDB stub (\<^verbatim>\<open>usbgdb/gdb-stub.c\<close>), the loop that serves them while a thread is
  stopped, and what they use: the threads of a module (\<^verbatim>\<open>psplink/util.c\<close>) and the registers of a
  thread that is not the stopped one (\<^verbatim>\<open>psplink/thctx.c\<close>).
\<close>

section \<open>State\<close>

text \<open>The part of the kernel's record of a thread that is read; \<open>ki_gpr\<close> are 31 words, \<open>ki_fpr\<close> 32.\<close>

record ThreadKInfo =
  ki_gpr :: "u32 list"
  ki_fpr :: "u32 list"
  ki_hi :: u32
  ki_lo :: u32
  ki_EPC :: u32
  ki_SR :: u32
  ki_retAddr :: u32
  sc_epc :: u32
  sc_status :: u32
  sc_sp :: u32
  sc_ra :: u32
  sc_k1 :: u32

text \<open>
  The stub: characters not yet received, characters sent, the two buffers, the machine, whether the
  program was started, the static variables of the thread queries, and the kernel.
\<close>

record 'k gdb =
  g_in :: bytes
  g_out :: bytes
  g_input :: bytes
  g_output :: bytes
  g_dbg :: dbg
  g_started :: bool
  q_threads :: "int list"
  q_thread_count :: nat
  q_thread_loc :: nat
  g_k :: 'k

text \<open>
  What does not change: the mapping of addresses, the addresses that may be touched, the debugged
  module, and the functions of the kernel. \<open>gk_start\<close> and \<open>gk_reset\<close> run other code; \<open>gk_local\<close> is the
  address of a local variable.
\<close>

record 'k genv =
  ge_ph :: "u32 \<Rightarrow> u32"
  ge_range :: range
  gk_uid :: int
  gk_text_addr :: u32
  gk_elf :: bool
  gk_thread_ids :: "'k \<Rightarrow> int list option"
  gk_thread_entry :: "'k \<Rightarrow> int \<Rightarrow> u32 option"
  gk_module_by_addr :: "'k \<Rightarrow> u32 \<Rightarrow> int option"
  gk_module_known :: "'k \<Rightarrow> int \<Rightarrow> bool"
  gk_thread_status :: "'k \<Rightarrow> int \<Rightarrow> u32 + bytes"
  gk_kinfo :: "'k \<Rightarrow> int \<Rightarrow> ThreadKInfo option"
  gk_suspend :: "int \<Rightarrow> 'k \<Rightarrow> 'k"
  gk_resume :: "int \<Rightarrow> 'k \<Rightarrow> 'k"
  gk_start :: "dbg \<times> 'k \<Rightarrow> dbg \<times> 'k"
  gk_reset :: "dbg \<times> 'k \<Rightarrow> dbg \<times> 'k"
  gk_local :: u32

definition run_then :: "'a run \<Rightarrow> ('a \<Rightarrow> 'b run) \<Rightarrow> 'b run" where
  "run_then r f = (case r of Inl e \<Rightarrow> Inl e | Inr x \<Rightarrow> f x)"

lemma run_then_simps [simp]: "run_then (Inl e) f = Inl e" "run_then (Inr x) f = f x"
  by (simp_all add: run_then_def)

section \<open>The context of a thread in memory\<close>

definition CTX_r :: u32 where "CTX_r = 32"
definition CTX_status :: u32 where "CTX_status = 160"
definition CTX_cause :: u32 where "CTX_cause = 176"
definition CTX_epc :: u32 where "CTX_epc = 180"
definition CTX_fpr :: u32 where "CTX_fpr = 184"
definition CTX_fsr :: u32 where "CTX_fsr = 312"
definition CTX_frame_ptr :: u32 where "CTX_frame_ptr = 320"
definition CTX_index :: u32 where "CTX_index = 328"
definition CTX_type :: u32 where "CTX_type = 392"
definition CTX_thid :: u32 where "CTX_thid = 912"
definition CTX_cont :: u32 where "CTX_cont = 920"
definition CTX_words :: nat where "CTX_words = 232"

definition ctx_get :: "'k genv \<Rightarrow> u32 \<Rightarrow> u32 \<Rightarrow> 'k gdb \<Rightarrow> u32" where
  "ctx_get env p field s = d_mem (g_dbg s) (ge_ph env (p + field))"

definition ctx_set :: "'k genv \<Rightarrow> u32 \<Rightarrow> u32 \<Rightarrow> u32 \<Rightarrow> 'k gdb \<Rightarrow> 'k gdb" where
  "ctx_set env p field v s =
     s\<lparr>g_dbg := (g_dbg s)\<lparr>d_mem := (d_mem (g_dbg s))(ge_ph env (p + field) := v)\<rparr>\<rparr>"

text \<open>\<^verbatim>\<open>psplinkGetFullThreadContext\<close>: the words of a context, all of them written.\<close>

definition set_field :: "u32 \<Rightarrow> u32 \<Rightarrow> u32 list \<Rightarrow> u32 list" where
  "set_field field v ws = ws[unat field div 4 := v]"

fun set_fields :: "u32 \<Rightarrow> u32 list \<Rightarrow> u32 list \<Rightarrow> u32 list" where
  "set_fields field [] ws = ws"
| "set_fields field (v # vs) ws = set_fields (field + 4) vs (set_field field v ws)"

definition thread_context :: "int \<Rightarrow> ThreadKInfo \<Rightarrow> u32 list" where
  "thread_context uid i =
     (let c0 = replicate CTX_words 0;
          c1 = set_field CTX_thid (word_of_int uid) c0;
          c2 = set_fields (CTX_r + 4) (take 31 (ki_gpr i)) c1;
          c3 = set_fields CTX_fpr (take 32 (ki_fpr i)) c2;
          c4 = set_field (CTX_status + 8) (ki_hi i) c3;
          c5 = set_field (CTX_status + 4) (ki_lo i) c4
      in if ki_retAddr i \<noteq> 0 then
           set_field (CTX_r + 4 * 27) (sc_k1 i) (set_field (CTX_r + 4 * 31) (sc_ra i)
             (set_field (CTX_r + 4 * 29) (sc_sp i) (set_field CTX_frame_ptr (sc_sp i)
               (set_field CTX_status (sc_status i) (set_field CTX_epc (sc_epc i) c5)))))
         else set_field CTX_frame_ptr (ki_gpr i ! 28) (set_field CTX_status (ki_SR i) (set_field CTX_epc (ki_EPC i) c5)))"

fun store_words :: "'k genv \<Rightarrow> u32 \<Rightarrow> u32 list \<Rightarrow> 'k gdb \<Rightarrow> 'k gdb" where
  "store_words env p [] s = s"
| "store_words env p (w # ws) s = store_words env (p + 4) ws (ctx_set env p 0 w s)"

definition psplinkGetFullThreadContext :: "'k genv \<Rightarrow> int \<Rightarrow> u32 \<Rightarrow> 'k gdb \<Rightarrow> bool \<times> 'k gdb" where
  "psplinkGetFullThreadContext env uid ctx s =
     (case gk_kinfo env (g_k s) uid of
        None \<Rightarrow> (False, s)
      | Some i \<Rightarrow> (True, store_words env ctx (thread_context uid i) s))"

section \<open>The threads of a module\<close>

text \<open>\<^verbatim>\<open>refer_module_by_addr\<close>, and the module of a thread by the address of its entry.\<close>

definition refer_module_by_addr :: "'k genv \<Rightarrow> 'k \<Rightarrow> u32 \<Rightarrow> int" where
  "refer_module_by_addr env k addr = (case gk_module_by_addr env k addr of
     None \<Rightarrow> - 1 | Some m \<Rightarrow> if gk_module_known env k m then m else - 1)"

definition get_thread_addr :: "'k genv \<Rightarrow> 'k \<Rightarrow> int \<Rightarrow> u32" where
  "get_thread_addr env k uid = (case gk_thread_entry env k uid of None \<Rightarrow> 0 | Some a \<Rightarrow> a)"

definition psplinkReferThreadsByModule :: "'k genv \<Rightarrow> int \<Rightarrow> nat \<Rightarrow> 'k \<Rightarrow> int list" where
  "psplinkReferThreadsByModule env modid mx k =
     (case gk_thread_ids env k of
        None \<Rightarrow> []
      | Some thids \<Rightarrow> take mx (filter (\<lambda>t. refer_module_by_addr env k (get_thread_addr env k t) = modid) thids))"

definition suspend_module :: "'k genv \<Rightarrow> 'k gdb \<Rightarrow> 'k gdb" where
  "suspend_module env s = s\<lparr>g_k := fold (gk_suspend env) (psplinkReferThreadsByModule env (gk_uid env) 20 (g_k s)) (g_k s)\<rparr>"

definition resume_module :: "'k genv \<Rightarrow> 'k gdb \<Rightarrow> 'k gdb" where
  "resume_module env s = s\<lparr>g_k := fold (gk_resume env) (psplinkReferThreadsByModule env (gk_uid env) 20 (g_k s)) (g_k s)\<rparr>"

section \<open>Replies\<close>

text \<open>\<^verbatim>\<open>%08x\<close> and \<^verbatim>\<open>%08X\<close>.\<close>

definition print08x :: "u32 \<Rightarrow> bytes" where
  "print08x w = hex_byte (ucast (drop_bit 24 w)) @ hex_byte (ucast (drop_bit 16 w)) @ hex_byte (ucast (drop_bit 8 w)) @ hex_byte (ucast w)"

definition byte_upper :: "u8 \<Rightarrow> u8" where
  "byte_upper c = (if c \<ge> byte_of CHR ''a'' \<and> c \<le> byte_of CHR ''f'' then c - 32 else c)"

definition print08X :: "u32 \<Rightarrow> bytes" where
  "print08X w = map byte_upper (print08x w)"

definition strcpy_out :: "bytes \<Rightarrow> 'k gdb \<Rightarrow> 'k gdb" where
  "strcpy_out bs s = s\<lparr>g_output := put_at 0 (bs @ [0]) (g_output s)\<rparr>"

text \<open>Characters stored through a pointer into the output buffer, which moves on.\<close>

definition put_out :: "bytes \<Rightarrow> nat option \<times> bytes \<Rightarrow> (nat option \<times> bytes) run" where
  "put_out xs po = (case po of
     (None, out) \<Rightarrow> Inl Bad_Pointer
   | (Some i, out) \<Rightarrow> if i + length xs > MAX_BUF then Inl Buffer_Overflow else Inr (Some (i + length xs), put_at i xs out))"

definition put_mem :: "'k genv \<Rightarrow> 'k gdb \<Rightarrow> u32 \<Rightarrow> nat \<Rightarrow> nat option \<times> bytes \<Rightarrow> (nat option \<times> bytes) run" where
  "put_mem env s mem count po = (case po of (p, out) \<Rightarrow> mem2hex (ge_ph env) (ge_range env) (g_dbg s) mem p count out)"

definition build_trap_cmd :: "'k genv \<Rightarrow> u8 \<Rightarrow> u32 \<Rightarrow> 'k gdb \<Rightarrow> 'k gdb run" where
  "build_trap_cmd env sigval p s =
     run_then (put_out (byte_of CHR ''T'' # hex_byte sigval @ text_bytes ''25:'') (Some 0, g_output s)) (\<lambda>o1.
     run_then (put_mem env s (p + CTX_epc) 4 o1) (\<lambda>o2.
     run_then (put_out (text_bytes '';1e:'') o2) (\<lambda>o3.
     run_then (put_mem env s (p + CTX_r + 4 * 30) 4 o3) (\<lambda>o4.
     run_then (put_out (text_bytes '';1d:'') o4) (\<lambda>o5.
     run_then (put_mem env s (p + CTX_r + 4 * 29) 4 o5) (\<lambda>o6.
     run_then (put_out (text_bytes '';thread:'' @ print08x (ctx_get env p CTX_thid s) @ text_bytes '';'' @ [0]) o6) (\<lambda>o7.
       Inr (s\<lparr>g_output := snd o7\<rparr>))))))))"

text \<open>\<^verbatim>\<open>putpacket (output)\<close>.\<close>

definition reply :: "'k gdb \<Rightarrow> 'k gdb run" where
  "reply s = map_sum id (\<lambda>(i, out). s\<lparr>g_in := i, g_out := out\<rparr>) (putpacket (g_output s) (g_in s) (g_out s))"

text \<open>The default of the table is \<^verbatim>\<open>SIGHUP\<close>.\<close>

definition hard_trap_info :: "(u32 \<times> u8) list" where
  "hard_trap_info = [(6, 10), (7, 10), (9, 5), (10, 4), (12, 8), (13, 5), (14, 11), (15, 8), (23, 11), (31, 11)]"

definition computeSignal :: "u32 \<Rightarrow> u8" where
  "computeSignal tt = (case map_of hard_trap_info tt of None \<Rightarrow> 1 | Some signo \<Rightarrow> signo)"

section \<open>Queries and breakpoints\<close>

definition starts :: "string \<Rightarrow> bytes \<Rightarrow> bool" where
  "starts t p \<longleftrightarrow> take (length t) p = text_bytes t"

text \<open>\<open>p\<close> is the packet after its first character.\<close>

definition handle_query :: "'k genv \<Rightarrow> u32 \<Rightarrow> bytes \<Rightarrow> 'k gdb \<Rightarrow> 'k gdb run" where
  "handle_query env ctx p s =
     (let c = hd p in
      if c = byte_of CHR ''C'' then Inr (strcpy_out (text_bytes ''QC'' @ print08X (ctx_get env ctx CTX_thid s)) s)
      else if c = byte_of CHR ''f'' then
        (if starts ''fThreadInfo'' p then
           (let ts = psplinkReferThreadsByModule env (gk_uid env) 20 (g_k s);
                s1 = s\<lparr>q_thread_count := length ts, q_threads := ts @ drop (length ts) (q_threads s)\<rparr>
            in if length ts > 0 then
                 Inr (strcpy_out (byte_of CHR ''m'' # print08X (word_of_int (q_threads s1 ! 0))) (s1\<lparr>q_thread_loc := 1\<rparr>))
               else Inr s1)
         else Inr s)
      else if c = byte_of CHR ''s'' then
        (if starts ''sThreadInfo'' p then
           (if q_thread_loc s < q_thread_count s then
              Inr (strcpy_out (byte_of CHR ''m'' # print08X (word_of_int (q_threads s ! q_thread_loc s)))
                (s\<lparr>q_thread_loc := q_thread_loc s + 1\<rparr>))
            else Inr (strcpy_out (text_bytes ''l'') s))
         else Inr s)
      else if c = byte_of CHR ''T'' then
        (if starts ''ThreadExtraInfo,'' p then
           run_then (hexToInt (drop 16 p)) (\<lambda>(n, thid, r).
             if n \<noteq> 0 then
               run_then (strtohex (case gk_thread_status env (g_k s) (sint thid) of
                   Inr name \<Rightarrow> name
                 | Inl e \<Rightarrow> text_bytes ''Error: 0x'' @ print08X e)) (\<lambda>ds. Inr (strcpy_out ds s))
             else Inr s)
         else Inr s)
      else if c = byte_of CHR ''O'' then
        (if starts ''Offsets'' p \<and> \<not> gk_elf env then
           (let t = print08X (gk_text_addr env) in
            Inr (strcpy_out (text_bytes ''Text='' @ t @ text_bytes '';Data='' @ t @ text_bytes '';Bss='' @ t) s))
         else Inr s)
      else Inr s)"

definition is_comma :: "bytes \<Rightarrow> bool" where
  "is_comma r \<longleftrightarrow> r \<noteq> [] \<and> hd r = byte_of CHR '',''"

text \<open>Two numbers with a comma between: the numbers and the rest, \<open>None\<close> when they are not there.\<close>

definition two_numbers :: "bytes \<Rightarrow> (u32 \<times> u32 \<times> bytes) option run" where
  "two_numbers p =
     run_then (hexToInt p) (\<lambda>(n, addr, r).
       if n = 0 \<or> \<not> is_comma r then Inr None
       else run_then (hexToInt (tl r)) (\<lambda>(m, len, r2). Inr (if m = 0 then None else Some (addr, len, r2))))"

definition handle_bp :: "'k genv \<Rightarrow> bytes \<Rightarrow> bool \<Rightarrow> 'k gdb \<Rightarrow> 'k gdb run" where
  "handle_bp env p plant s =
     (let kind = p ! 0 in
      if \<not> (kind \<ge> byte_of CHR ''0'' \<and> kind \<le> byte_of CHR ''9'') \<or> p ! 1 \<noteq> byte_of CHR '','' then
        Inr (strcpy_out (text_bytes ''E01'') s)
      else run_then (two_numbers (drop 2 p)) (\<lambda>r. case r of
        None \<Rightarrow> Inr (strcpy_out (text_bytes ''E01'') s)
      | Some (addr, len, _) \<Rightarrow>
          if kind = byte_of CHR ''0'' \<or> kind = byte_of CHR ''1'' then
            (let flags = (if kind = byte_of CHR ''1'' then DEBUG_BP_HARDWARE else 0) in
             if plant then
               run_then (debugSetBP (ge_ph env) addr flags 0 (g_dbg s)) (\<lambda>(b, d).
                 Inr (strcpy_out (text_bytes (if b \<noteq> None then ''OK'' else ''E03'')) (s\<lparr>g_dbg := d\<rparr>)))
             else
               run_then (debugDeleteBP (ge_ph env) addr (g_dbg s)) (\<lambda>(r, d).
                 Inr (strcpy_out (text_bytes (if r \<noteq> 0 then ''OK'' else ''EO3'')) (s\<lparr>g_dbg := d\<rparr>))))
          else Inr s))"

section \<open>Commands\<close>

text \<open>A length is an \<^verbatim>\<open>int\<close> to the loops that count it down.\<close>

definition count_of :: "u32 \<Rightarrow> nat" where
  "count_of len = nat (sint len)"

definition read_registers :: "'k genv \<Rightarrow> u32 \<Rightarrow> 'k gdb \<Rightarrow> 'k gdb run" where
  "read_registers env p s =
     run_then (put_mem env s (p + CTX_r) (32 * 4) (Some 0, g_output s)) (\<lambda>o1.
     run_then (put_mem env s (p + CTX_status) (6 * 4) o1) (\<lambda>o2.
     run_then (put_mem env s (p + CTX_fpr) (32 * 4) o2) (\<lambda>o3.
     run_then (put_mem env s (p + CTX_fsr) (2 * 4) o3) (\<lambda>o4.
     run_then (put_mem env s (p + CTX_frame_ptr) (2 * 4) o4) (\<lambda>o5.
     run_then (put_mem env s (p + CTX_index) (16 * 4) o5) (\<lambda>o6. Inr (s\<lparr>g_output := snd o6\<rparr>)))))))"

definition write_regs_part :: "'k genv \<Rightarrow> nat \<Rightarrow> u32 \<Rightarrow> nat \<Rightarrow> 'k gdb \<Rightarrow> 'k gdb run" where
  "write_regs_part env ofs mem count s =
     map_sum id (\<lambda>(r, d). s\<lparr>g_dbg := d\<rparr>)
       (hex2mem (ge_ph env) (ge_range env) (drop (1 + ofs) (g_input s)) mem count False (g_dbg s))"

definition write_registers :: "'k genv \<Rightarrow> u32 \<Rightarrow> 'k gdb \<Rightarrow> 'k gdb run" where
  "write_registers env p s =
     run_then (write_regs_part env 0 (p + CTX_r) (32 * 4) s) (\<lambda>s1.
     run_then (write_regs_part env (32 * 8) (p + CTX_status) (6 * 4) s1) (\<lambda>s2.
     run_then (write_regs_part env (38 * 8) (p + CTX_fpr) (32 * 4) s2) (\<lambda>s3.
     run_then (write_regs_part env (70 * 8) (p + CTX_fsr) (2 * 4) s3) (\<lambda>s4.
     run_then (write_regs_part env (72 * 8) (p + CTX_frame_ptr) (2 * 4) s4) (\<lambda>s5.
       write_regs_part env (74 * 8) (p + CTX_index) (16 * 4) s5)))))"

definition read_memory :: "'k genv \<Rightarrow> 'k gdb \<Rightarrow> 'k gdb run" where
  "read_memory env s =
     run_then (two_numbers (drop 1 (g_input s))) (\<lambda>r. case r of
       None \<Rightarrow> Inr (strcpy_out (text_bytes ''E01'') s)
     | Some (addr, len, _) \<Rightarrow>
         run_then (put_mem env s addr (count_of len) (Some 0, g_output s)) (\<lambda>(p, out).
           let s1 = s\<lparr>g_output := out\<rparr> in Inr (if p \<noteq> None then s1 else strcpy_out (text_bytes ''E03'') s1)))"

definition write_memory :: "'k genv \<Rightarrow> bool \<Rightarrow> 'k gdb \<Rightarrow> 'k gdb run" where
  "write_memory env binary s =
     run_then (two_numbers (drop 1 (g_input s))) (\<lambda>r. case r of
       None \<Rightarrow> Inr (strcpy_out (text_bytes ''E02'') s)
     | Some (addr, len, q) \<Rightarrow>
         if q = [] \<or> hd q \<noteq> byte_of CHR '':'' then Inr (strcpy_out (text_bytes ''E02'') s)
         else run_then (hex2mem (ge_ph env) (ge_range env) (tl q) addr (count_of len) binary (g_dbg s)) (\<lambda>(m, d).
           Inr (strcpy_out (text_bytes (if m \<noteq> 0 then ''OK'' else ''E03'')) (s\<lparr>g_dbg := d\<rparr>))))"

text \<open>What is done with a command: a reply, or the thread is resumed and \<^verbatim>\<open>ret\<close> is returned.\<close>

datatype gdb_outcome = Reply | Restart nat

text \<open>\<open>thid\<close> is the thread selected for the register commands.\<close>

definition gdb_command :: "'k genv \<Rightarrow> u32 \<Rightarrow> u8 \<Rightarrow> int \<Rightarrow> 'k gdb \<Rightarrow> (gdb_outcome \<times> int \<times> 'k gdb) run" where
  "gdb_command env ctx sigval thid s0 =
     (let s = s0\<lparr>g_output := put_at 0 [0] (g_output s0)\<rparr>;
          c = g_input s ! 0;
          own = sint (ctx_get env ctx CTX_thid s);
          replied = (\<lambda>r. run_then r (\<lambda>t. Inr (Reply, thid, t)))
      in if c = byte_of CHR ''?'' then replied (build_trap_cmd env sigval ctx s)
         else if c = byte_of CHR ''c'' then
           run_then
             (if \<not> g_started s then
                (case gk_start env (g_dbg s, g_k s) of (d, k) \<Rightarrow> Inr (s\<lparr>g_dbg := d, g_k := k, g_started := True\<rparr>))
              else run_then (hexToInt (drop 1 (g_input s))) (\<lambda>(n, addr, _).
                Inr (if n \<noteq> 0 then ctx_set env ctx CTX_epc addr s else s)))
             (\<lambda>t. Inr (Restart 1, thid, ctx_set env ctx CTX_cont PSP_EXCEPTION_CONTINUE t))
         else if c = byte_of CHR ''D'' then
           run_then (reply s) (\<lambda>t. Inr (Restart 0, thid, ctx_set env ctx CTX_cont PSP_EXCEPTION_CONTINUE t))
         else if c = byte_of CHR ''g'' then
           (if thid \<noteq> 0 \<and> thid \<noteq> own then
              (case psplinkGetFullThreadContext env thid (gk_local env) s of
                 (ok, t) \<Rightarrow> if ok then replied (read_registers env (gk_local env) t)
                           else replied (Inr (strcpy_out (text_bytes ''E03'') t)))
            else replied (read_registers env ctx s))
         else if c = byte_of CHR ''G'' then
           replied (run_then (if thid \<noteq> 0 \<and> thid = own then write_registers env ctx s else Inr s)
             (\<lambda>t. Inr (strcpy_out (text_bytes ''OK'') t)))
         else if c = byte_of CHR ''m'' then replied (read_memory env s)
         else if c = byte_of CHR ''X'' then replied (write_memory env True s)
         else if c = byte_of CHR ''M'' then replied (write_memory env False s)
         else if c = byte_of CHR ''s'' then
           run_then (hexToInt (drop 1 (g_input s))) (\<lambda>(n, addr, _).
             Inr (Restart 1, thid,
               ctx_set env ctx CTX_cont PSP_EXCEPTION_STEP (if n \<noteq> 0 then ctx_set env ctx CTX_epc addr s else s)))
         else if c = byte_of CHR ''H'' then
           (if g_input s ! 1 = byte_of CHR ''g'' then
              run_then (hexToInt (drop 2 (g_input s))) (\<lambda>(n, addr, _).
                if n \<noteq> 0 then Inr (Reply, sint addr, strcpy_out (text_bytes ''OK'') s)
                else Inr (Reply, thid, strcpy_out (text_bytes ''EO3'') s))
            else Inr (Reply, thid, s))
         else if c = byte_of CHR ''q'' then replied (handle_query env ctx (drop 1 (g_input s)) s)
         else if c = byte_of CHR ''Z'' then replied (handle_bp env (drop 1 (g_input s)) True s)
         else if c = byte_of CHR ''z'' then replied (handle_bp env (drop 1 (g_input s)) False s)
         else if c = byte_of CHR ''k'' \<or> c = byte_of CHR ''r'' then
           (case gk_reset env (g_dbg s, g_k s) of (d, k) \<Rightarrow> Inr (Reply, thid, s\<lparr>g_dbg := d, g_k := k\<rparr>))
         else Inr (Reply, thid, s))"

text \<open>The loop over the packets; \<open>None\<close> when it never ends.\<close>

partial_function (option) gdb_loop :: "'k genv \<Rightarrow> u32 \<Rightarrow> u8 \<Rightarrow> int \<Rightarrow> 'k gdb \<Rightarrow> (nat \<times> 'k gdb) run option" where
  "gdb_loop env ctx sigval thid s =
     (case getpacket (g_input s) (g_in s) (g_out s) of
        None \<Rightarrow> None
      | Some (buf, i, out) \<Rightarrow>
          (case gdb_command env ctx sigval thid (s\<lparr>g_input := buf, g_in := i, g_out := out\<rparr>) of
             Inl f \<Rightarrow> Some (Inl f)
           | Inr (Restart ret, _, t) \<Rightarrow> Some (Inr (ret, t))
           | Inr (Reply, thid2, t) \<Rightarrow>
               (case reply t of
                  Inl f \<Rightarrow> Some (Inl f)
                | Inr u \<Rightarrow> gdb_loop env ctx sigval thid2 u)))"

declare gdb_loop.simps [code]

definition GdbHandleException :: "'k genv \<Rightarrow> u32 \<Rightarrow> 'k gdb \<Rightarrow> (nat \<times> 'k gdb) run" where
  "GdbHandleException env ctx s0 =
     (let s = suspend_module env s0;
          sigval = (if ctx_get env ctx CTX_type s = PSPLINK_EXTYPE_DEBUG then 5
                    else computeSignal (drop_bit 2 (ctx_get env ctx CTX_cause s AND 0x7C)))
      in run_then (if g_started s then run_then (build_trap_cmd env sigval ctx s) reply else Inr s) (\<lambda>t.
         case gdb_loop env ctx sigval 0 t of
           None \<Rightarrow> Inl No_Return
         | Some r \<Rightarrow> map_sum id (\<lambda>(ret, u). (ret, resume_module env u)) r))"

end
