(* ===== verification/GdbProps.thy ===== *)
theory GdbProps
  imports GdbServer BreakpointInv
begin

unbundle bit_operations_syntax

text \<open>
  The framing and the conversions of the GDB stub: a packet is received as it was sent, a byte survives
  its two digits, a byte of memory reads back as written, and what a rejected packet leads to.
\<close>

section \<open>Digits\<close>

lemma hex_hexchars: "n < 16 \<Longrightarrow> hex (hexchars ! n) = int n"
proof -
  have "list_all (\<lambda>n. hex (hexchars ! n) = int n) [0..<16]" by code_simp
  then show "n < 16 \<Longrightarrow> ?thesis" by (simp add: list_all_iff)
qed

lemma low_nibble: "(n :: u8) AND 0xF = take_bit 4 n"
  by (simp add: take_bit_eq_mask mask_eq_exp_minus_1)

lemma hex_hex_digit: "hex (hex_digit n) = uint (take_bit 4 n)"
proof -
  have "unat (take_bit 4 n) < 16" by (simp add: unat_mod_distrib take_bit_eq_mod unat_arith_simps)
  then show ?thesis by (simp add: hex_digit_def low_nibble hex_hexchars)
qed

lemma hex_pair_hex_byte: "hex_pair (hex_digit (drop_bit 4 ch)) (hex_digit ch) = ch"
proof -
  have "word_of_int (uint (take_bit 4 (drop_bit 4 ch)) * 16) = push_bit 4 (take_bit 4 (drop_bit 4 ch))"
    by (simp add: push_bit_eq_mult)
  then have "hex_pair (hex_digit (drop_bit 4 ch)) (hex_digit ch) = push_bit 4 (take_bit 4 (drop_bit 4 ch)) OR take_bit 4 ch"
    by (simp only: hex_pair_def hex_hex_digit word_of_int_uint)
  also have "\<dots> = ch"
  proof (rule bit_word_eqI)
    fix n assume "n < LENGTH(8)"
    then show "bit (push_bit 4 (take_bit 4 (drop_bit 4 ch)) OR take_bit 4 ch) n = bit ch n"
      by (cases "n < 4") (simp_all add: bit_or_iff bit_push_bit_iff bit_take_bit_iff bit_drop_bit_eq, auto)
  qed
  finally show ?thesis .
qed

text \<open>The characters of a packet survive the parity bit being dropped.\<close>

lemma hexchars_range: "n < 16 \<Longrightarrow> hexchars ! n AND 0x7F = hexchars ! n \<and> hexchars ! n \<noteq> 0
    \<and> hexchars ! n \<noteq> byte_of CHR ''#'' \<and> hexchars ! n \<noteq> byte_of CHR '':'' \<and> hexchars ! n \<noteq> byte_of CHR '',''"
proof -
  have "list_all (\<lambda>n. hexchars ! n AND 0x7F = hexchars ! n \<and> hexchars ! n \<noteq> 0 \<and> hexchars ! n \<noteq> byte_of CHR ''#''
      \<and> hexchars ! n \<noteq> byte_of CHR '':'' \<and> hexchars ! n \<noteq> byte_of CHR '','') [0..<16]" by code_simp
  then show "n < 16 \<Longrightarrow> ?thesis" by (simp add: list_all_iff)
qed

lemma hex_digit_range: "hex_digit n AND 0x7F = hex_digit n" "hex_digit n \<noteq> 0" "hex_digit n \<noteq> byte_of CHR ''#''"
    "hex_digit n \<noteq> byte_of CHR '':''" "hex_digit n \<noteq> byte_of CHR '',''"
proof -
  have "unat (take_bit 4 n) < 16" by (simp add: unat_mod_distrib take_bit_eq_mod unat_arith_simps)
  from hexchars_range [OF this] show "hex_digit n AND 0x7F = hex_digit n" "hex_digit n \<noteq> 0" "hex_digit n \<noteq> byte_of CHR ''#''"
    "hex_digit n \<noteq> byte_of CHR '':''" "hex_digit n \<noteq> byte_of CHR '',''"
    by (simp_all add: hex_digit_def low_nibble)
qed

section \<open>Receiving\<close>

lemma skip_to_start_junk:
  "list_all (\<lambda>c. c AND 0x7F \<noteq> byte_of CHR ''$'') junk \<Longrightarrow> skip_to_start (junk @ byte_of CHR ''$'' # r) = Some r"
proof (induction junk)
  case Nil
  have "byte_of CHR ''$'' AND 0x7F = byte_of CHR ''$''" by code_simp
  then show ?case by simp
qed simp

lemma recv_body_packet:
  "byte_of CHR ''#'' \<notin> set bs \<Longrightarrow> n + length bs < MAX_BUF \<Longrightarrow> recv_body n (bs @ byte_of CHR ''#'' # r) = Complete bs r"
proof (induction bs arbitrary: n)
  case Nil
  then show ?case by (simp add: recv_body.simps [of n])
next
  case (Cons b bs)
  then show ?case by (auto simp: recv_body.simps [of n])
qed

text \<open>One frame: any characters but the start mark, a packet, and two characters for its checksum.\<close>

definition frame :: "bytes \<Rightarrow> bytes \<Rightarrow> u8 \<Rightarrow> u8 \<Rightarrow> bytes" where
  "frame junk bs a b = junk @ byte_of CHR ''$'' # bs @ [byte_of CHR ''#'', a, b]"

definition frame_ok :: "bytes \<Rightarrow> bytes \<Rightarrow> bool" where
  "frame_ok junk bs \<longleftrightarrow> list_all (\<lambda>c. c AND 0x7F \<noteq> byte_of CHR ''$'') junk \<and> byte_of CHR ''#'' \<notin> set bs \<and> length bs < MAX_BUF"

lemma getpacket_frame:
  assumes "frame_ok junk bs"
  shows "getpacket buf (frame junk bs a b @ r) out =
    (let buf1 = put_at 0 (bs @ [0]) buf in
     if checksum bs \<noteq> hex_pair (a AND 0x7F) (b AND 0x7F) then getpacket buf1 r (out @ [byte_of CHR ''-''])
     else if buf1 ! 2 = byte_of CHR '':''
     then Some (strip_sequence buf1, r, out @ [byte_of CHR ''+'', buf1 ! 0, buf1 ! 1])
     else Some (buf1, r, out @ [byte_of CHR ''+'']))"
  using assms unfolding frame_ok_def
  by (subst getpacket.simps) (simp add: frame_def skip_to_start_junk recv_body_packet [of bs 0])

text \<open>What a number of frames leave in the buffer, and which of them are refused.\<close>

type_synonym framed = "bytes \<times> bytes \<times> u8 \<times> u8"

definition frames :: "framed list \<Rightarrow> bytes" where
  "frames fs = concat (map (\<lambda>(junk, bs, a, b). frame junk bs a b) fs)"

definition left_by :: "framed list \<Rightarrow> bytes \<Rightarrow> bytes" where
  "left_by fs buf = fold (\<lambda>(junk, bs, a, b) buf. put_at 0 (bs @ [0]) buf) fs buf"

definition refused :: "framed \<Rightarrow> bool" where
  "refused f \<longleftrightarrow> (case f of (junk, bs, a, b) \<Rightarrow> frame_ok junk bs \<and> checksum bs \<noteq> hex_pair (a AND 0x7F) (b AND 0x7F))"

lemma getpacket_refused:
  "list_all refused bad \<Longrightarrow> getpacket buf (frames bad @ r) out
     = getpacket (left_by bad buf) r (out @ replicate (length bad) (byte_of CHR ''-''))"
proof (induction bad arbitrary: buf out)
  case (Cons f bad)
  obtain junk bs a b where f: "f = (junk, bs, a, b)" by (cases f) auto
  have "getpacket buf (frames (f # bad) @ r) out
      = getpacket (put_at 0 (bs @ [0]) buf) (frames bad @ r) (out @ [byte_of CHR ''-''])"
    using Cons.prems getpacket_frame [of junk bs buf a b "frames bad @ r" out] by (simp add: f refused_def frames_def)
  then show ?case using Cons by (simp add: f left_by_def)
qed (simp add: frames_def left_by_def)

text \<open>C28: A packet is received as it was sent: whatever rejected packets come before it, each between any
  characters that are no start mark, a packet with its own checksum is put in the input buffer as the
  string it is, is acknowledged after one refusal for each rejected one, and nothing after it is
  consumed (for a packet that carries no sequence id).\<close>

theorem packet_received:
  assumes "list_all refused bad" and "frame_ok junk bs" and "0 \<notin> set bs"
    and "buf2 = put_at 0 (bs @ [0]) (left_by bad buf)" and "buf2 ! 2 \<noteq> byte_of CHR '':''"
  shows "getpacket buf (frames bad @ junk @ packet bs @ r) out
      = Some (buf2, r, out @ replicate (length bad) (byte_of CHR ''-'') @ [byte_of CHR ''+''])
    \<and> c_string buf2 = Inr bs"
proof
  have p: "junk @ packet bs @ r = frame junk bs (hex_digit (drop_bit 4 (checksum bs))) (hex_digit (checksum bs)) @ r"
    by (simp add: packet_def frame_def hex_byte_def)
  show "getpacket buf (frames bad @ junk @ packet bs @ r) out
      = Some (buf2, r, out @ replicate (length bad) (byte_of CHR ''-'') @ [byte_of CHR ''+''])"
    unfolding p getpacket_refused [OF assms(1)] getpacket_frame [OF assms(2)]
    using assms(4,5) by (simp add: hex_digit_range hex_pair_hex_byte)
  have "takeWhile (\<lambda>b. b \<noteq> 0) (bs @ 0 # drop (length bs + 1) (left_by bad buf)) = bs"
    using assms(3) by (simp add: takeWhile_append)
  then show "c_string buf2 = Inr bs" by (simp add: assms(4) c_string_def put_at_def)
qed

section \<open>Sending\<close>

lemma upt_first: "[0..<Suc n] = 0 # map Suc [0..<n]"
  by (simp add: map_Suc_upt upt_conv_Cons)

lemma send_rounds_refused:
  assumes "list_all (\<lambda>c. c AND 0x7F \<noteq> byte_of CHR ''+'') naks" and "ack AND 0x7F = byte_of CHR ''+''"
    and "length sent + (length naks + 1) * length (packet bs) \<le> OUTPUT_BUF"
  shows "send_rounds sent bs (naks @ ack # r) out
    = Inr (r, out @ concat (map (\<lambda>k. sent @ concat (replicate (k + 1) (packet bs))) [0..<length naks + 1]))"
  using assms
proof (induction naks arbitrary: sent out)
  case Nil
  then show ?case by (simp add: send_rounds.simps [of sent])
next
  case (Cons c naks)
  then have "send_rounds sent bs ((c # naks) @ ack # r) out
      = send_rounds (sent @ packet bs) bs (naks @ ack # r) (out @ sent @ packet bs)"
    by (simp add: send_rounds.simps [of sent] Let_def)
  also have "\<dots> = Inr (r, (out @ sent @ packet bs)
      @ concat (map (\<lambda>k. (sent @ packet bs) @ concat (replicate (k + 1) (packet bs))) [0..<length naks + 1]))"
    using Cons.prems by (intro Cons.IH) simp_all
  finally show ?case by (simp add: upt_first del: upt_Suc) (simp add: o_def)
qed

lemma send_rounds_overflow:
  assumes "list_all (\<lambda>c. c AND 0x7F \<noteq> byte_of CHR ''+'') naks"
    and "length sent + (length naks + 1) * length (packet bs) > OUTPUT_BUF"
  shows "send_rounds sent bs (naks @ inp) out = Inl Buffer_Overflow"
  using assms
proof (induction naks arbitrary: sent out)
  case Nil
  then show ?case by (simp add: send_rounds.simps [of sent])
next
  case (Cons c naks)
  then show ?case by (simp add: send_rounds.simps [of sent] Let_def)
qed

text \<open>A refused reply is sent again longer each time: the counter of the output buffer is not reset
  between rounds, so that after every character that is no acknowledgement the reply is added to what
  was sent before and all of it goes out; the debugger receives one copy, then two, then three. As
  soon as the copies together are longer than the output buffer, the code writes behind it.\<close>

theorem refused_reply_grows:
  assumes "c_string buffer = Inr bs" and "list_all (\<lambda>c. c AND 0x7F \<noteq> byte_of CHR ''+'') naks"
  shows "if (length naks + 1) * (length bs + 4) \<le> OUTPUT_BUF
    then putpacket buffer (naks @ byte_of CHR ''+'' # r) out
      = Inr (r, out @ concat (map (\<lambda>k. concat (replicate (k + 1) (packet bs))) [0..<length naks + 1]))
    else putpacket buffer (naks @ byte_of CHR ''+'' # r) out = Inl Buffer_Overflow"
proof -
  have l: "length (packet bs) = length bs + 4" by (simp add: packet_def hex_byte_def)
  have "byte_of CHR ''+'' AND 0x7F = byte_of CHR ''+''" by code_simp
  then show ?thesis using send_rounds_refused [OF assms(2), of "byte_of CHR ''+''" "[]" bs r out]
      send_rounds_overflow [OF assms(2), of "[]" bs] by (simp add: putpacket_def assms(1) l)
qed

end
