(* ===== verification/GdbMemory.thy ===== *)
theory GdbMemory
  imports GdbProps
begin

unbundle bit_operations_syntax

text \<open>
  Memory seen through the GDB stub: the laws of bytes in a memory of words, and the commands that
  write and read it.
\<close>

section \<open>The loops of the commands\<close>

text \<open>How a debugger writes data: two digits a byte, or binary with its own marks escaped.\<close>

definition escape :: "u8 \<Rightarrow> bytes" where
  "escape b = (if b \<in> {0x23, 0x24, 0x7D} then [0x7D, 0x20 XOR b] else [b])"

definition encode_data :: "bool \<Rightarrow> bytes \<Rightarrow> bytes" where
  "encode_data binary bs = concat (map (if binary then escape else hex_byte) bs)"

lemma hex2mem_data:
  "(\<And>i. i < length bs \<Longrightarrow> gdb_valid g (mem + of_nat i)) \<Longrightarrow>
   hex2mem ph g (encode_data binary bs @ x # r) mem (length bs) binary s
     = Inr (mem + of_nat (length bs), write_bytes ph mem bs s)"
proof (induction bs arbitrary: mem s)
  case (Cons b bs)
  have v: "gdb_valid g mem" using Cons.prems [of 0] by simp
  have ih: "hex2mem ph g (encode_data binary bs @ x # r) (mem + 1) (length bs) binary (sb ph b mem s)
      = Inr (mem + of_nat (length (b # bs)), write_bytes ph mem (b # bs) s)"
    using Cons.IH [of "mem + 1"] Cons.prems [of "Suc i" for i] by (simp add: add.assoc)
  obtain y q where q: "encode_data binary bs @ x # r = y # q" by (cases "encode_data binary bs @ x # r") auto
  have x: "32 XOR (32 XOR b) = b" by (metis xor.assoc xor_self_eq xor.left_neutral)
  show ?case
  proof (cases binary)
    case True
    then show ?thesis using ih v q x by (auto simp: encode_data_def escape_def GdbWriteByte_def)
  next
    case False
    then show ?thesis using ih v by (simp add: encode_data_def hex_byte_def GdbWriteByte_def hex_pair_hex_byte)
  qed
qed (simp add: encode_data_def)

lemma read_hex_valid:
  "(\<And>i. i < n \<Longrightarrow> gdb_valid g (mem + of_nat i)) \<Longrightarrow>
   read_hex ph g s mem n = (True, concat (map (\<lambda>i. hex_byte (lb ph (mem + of_nat i) s)) [0..<n]))"
proof (induction n arbitrary: mem)
  case (Suc n)
  have "gdb_valid g mem" using Suc.prems [of 0] by simp
  moreover have "read_hex ph g s (mem + 1) n = (True, concat (map (\<lambda>i. hex_byte (lb ph (mem + 1 + of_nat i) s)) [0..<n]))"
    using Suc.IH [of "mem + 1"] Suc.prems [of "Suc i" for i] by (simp add: add.assoc)
  ultimately show ?case by (simp add: GdbReadByte_def upt_first o_def add.assoc del: upt_Suc)
qed simp

text \<open>The spellings of a number.\<close>

definition spells :: "bytes \<Rightarrow> u32 \<Rightarrow> bool" where
  "spells ds v \<longleftrightarrow> ds \<noteq> [] \<and> list_all (\<lambda>c. hex c \<ge> 0) ds \<and> fold (\<lambda>c v. push_bit 4 v OR word_of_int (hex c)) ds 0 = v"

lemma hex_to_word_digits:
  "list_all (\<lambda>c. hex c \<ge> 0) ds \<Longrightarrow> x = 0 \<or> hex x < 0 \<Longrightarrow>
   hex_to_word n v (ds @ x # r) = Inr (n + length ds, fold (\<lambda>c v. push_bit 4 v OR word_of_int (hex c)) ds v, x # r)"
proof (induction ds arbitrary: n v)
  case (Cons c ds)
  have "hex 0 < 0" by code_simp
  then have "c \<noteq> 0" using Cons.prems(1) by auto
  then show ?case using Cons by simp
qed auto

lemma hex_marks: "hex (byte_of CHR '','') < 0" "hex (byte_of CHR '':'') < 0"
  by code_simp+

lemma two_numbers_spelled:
  assumes "spells da a" and "spells dl l" and "x = 0 \<or> hex x < 0"
  shows "two_numbers (da @ byte_of CHR '','' # dl @ x # r) = Inr (Some (a, l, x # r))"
  using assms hex_to_word_digits [of da "byte_of CHR '',''" 0 0 "dl @ x # r"] hex_to_word_digits [of dl x 0 0 r] hex_marks(1)
  by (simp add: two_numbers_def hexToInt_def spells_def is_comma_def)

lemma count_of_nat: "n < 2 ^ 31 \<Longrightarrow> count_of (of_nat n) = n"
  by (simp add: count_of_def signed_of_nat signed_take_bit_int_eq_self)

lemma c_string_put: "0 \<notin> set bs \<Longrightarrow> c_string (put_at 0 (bs @ [0]) buf) = Inr bs"
  by (simp add: c_string_def put_at_def takeWhile_append)

section \<open>Writing and reading by command\<close>

definition holds_packet :: "bytes \<Rightarrow> 'k gdb \<Rightarrow> bool" where
  "holds_packet bs s \<longleftrightarrow> (\<exists>rest. g_input s = bs @ 0 # rest)"

definition write_packet :: "bool \<Rightarrow> bytes \<Rightarrow> bytes \<Rightarrow> bytes \<Rightarrow> bytes" where
  "write_packet binary da dl bs = byte_of (if binary then CHR ''X'' else CHR ''M'') # da @ byte_of CHR '','' # dl
     @ byte_of CHR '':'' # encode_data binary bs"

definition read_packet :: "bytes \<Rightarrow> bytes \<Rightarrow> bytes" where
  "read_packet da dl = byte_of CHR ''m'' # da @ byte_of CHR '','' # dl"

lemma text_bytes_simps [simp]: "text_bytes [] = []" "text_bytes (c # cs) = byte_of c # text_bytes cs"
  by (simp_all add: text_bytes_def)

lemma c_string_strcpy: "0 \<notin> set bs \<Longrightarrow> c_string (g_output (strcpy_out bs s)) = Inr bs"
  by (simp add: strcpy_out_def c_string_put)

lemma hex_bytes_no_nul: "0 \<notin> set (concat (map (\<lambda>i. hex_byte (f i)) is))"
  using hex_digit_range(2) by (auto simp: hex_byte_def)

lemma length_hex_bytes: "length (concat (map (\<lambda>i. hex_byte (f i)) is)) = 2 * length is"
  by (induction "is") (simp_all add: hex_byte_def)

lemma valid_end:
  assumes "gdb_valid g a"
  shows "a + 1 \<noteq> 0"
proof
  assume "a + 1 = 0"
  then have "a = - 1" by (metis add.inverse_unique add.commute)
  then show False using assms by (simp add: gdb_valid_def Let_def mask_eq_exp_minus_1)
qed

lemma command_write:
  assumes "spells da a" and "spells dl (of_nat (length bs))" and "bs \<noteq> []" and "length bs < 2 ^ 31"
    and valid: "\<And>i. i < length bs \<Longrightarrow> gdb_valid (ge_range env) (a + of_nat i)"
    and "holds_packet (write_packet binary da dl bs) s"
  shows "\<exists>t. gdb_command env ctx sigval thid s = Inr (Reply, thid, t) \<and> c_string (g_output t) = Inr (text_bytes ''OK'')
    \<and> g_dbg t = write_bytes (ge_ph env) a bs (g_dbg s)"
proof -
  obtain rest where i: "g_input s = write_packet binary da dl bs @ 0 # rest" using assms(6) by (auto simp: holds_packet_def)
  let ?s = "s\<lparr>g_output := put_at 0 [0] (g_output s)\<rparr>"
  have two: "two_numbers (drop 1 (g_input s)) = Inr (Some (a, of_nat (length bs), byte_of CHR '':'' # encode_data binary bs @ 0 # rest))"
    using two_numbers_spelled [OF assms(1,2), of "byte_of CHR '':''"] hex_marks by (simp add: i write_packet_def)
  have m: "a + of_nat (length bs) \<noteq> 0"
  proof -
    obtain n where n: "length bs = Suc n" using assms(3) by (cases bs) auto
    show ?thesis using valid_end [OF valid [of n]] n by (simp add: algebra_simps)
  qed
  let ?t = "strcpy_out (text_bytes ''OK'') (?s\<lparr>g_dbg := write_bytes (ge_ph env) a bs (g_dbg s)\<rparr>)"
  have "write_memory env binary ?s = Inr ?t"
    using two m hex2mem_data [OF valid, where ph = "ge_ph env" and binary = binary and x = 0 and r = rest and s = "g_dbg s"] count_of_nat [OF assms(4)]
    by (simp add: write_memory_def)
  moreover have "g_input s ! 0 = byte_of (if binary then CHR ''X'' else CHR ''M'')" by (simp add: i write_packet_def)
  ultimately have "gdb_command env ctx sigval thid s = Inr (Reply, thid, ?t)"
    by (cases binary) (simp_all add: gdb_command_def Let_def byte_of_inj)
  moreover have "c_string (g_output ?t) = Inr (text_bytes ''OK'')"
    by (rule c_string_strcpy) (simp add: byte_of_eq_0)
  ultimately show ?thesis by (auto simp: strcpy_out_def)
qed

lemma command_read:
  assumes "spells da a" and "spells dl (of_nat n)" and "2 * n < MAX_BUF"
    and valid: "\<And>i. i < n \<Longrightarrow> gdb_valid (ge_range env) (a + of_nat i)"
    and "holds_packet (read_packet da dl) s"
  shows "\<exists>t. gdb_command env ctx sigval thid s = Inr (Reply, thid, t) \<and> g_dbg t = g_dbg s
    \<and> c_string (g_output t) = Inr (concat (map (\<lambda>i. hex_byte (lb (ge_ph env) (a + of_nat i) (g_dbg s))) [0..<n]))"
proof -
  obtain rest where i: "g_input s = read_packet da dl @ 0 # rest" using assms(5) by (auto simp: holds_packet_def)
  let ?s = "s\<lparr>g_output := put_at 0 [0] (g_output s)\<rparr>"
  let ?ds = "concat (map (\<lambda>i. hex_byte (lb (ge_ph env) (a + of_nat i) (g_dbg s))) [0..<n])"
  let ?t = "?s\<lparr>g_output := put_at 0 (?ds @ [0]) (g_output ?s)\<rparr>"
  have two: "two_numbers (drop 1 (g_input s)) = Inr (Some (a, of_nat n, 0 # rest))"
    using two_numbers_spelled [OF assms(1,2), of 0] by (simp add: i read_packet_def)
  have "put_mem env ?s a n (Some 0, g_output ?s) = Inr (Some (length ?ds), put_at 0 (?ds @ [0]) (g_output ?s))"
    using read_hex_valid [OF valid, where ph = "ge_ph env" and s = "g_dbg s"] assms(3)
    by (simp add: put_mem_def mem2hex_def length_hex_bytes)
  then have "read_memory env ?s = Inr ?t"
    using two count_of_nat [of n] assms(3) by (simp add: read_memory_def MAX_BUF_def)
  then have "gdb_command env ctx sigval thid s = Inr (Reply, thid, ?t)"
    by (simp add: gdb_command_def Let_def byte_of_inj i read_packet_def)
  then show ?thesis using c_string_put [OF hex_bytes_no_nul] by auto
qed

text \<open>C29: What a debugger writes it reads back: after a packet that writes data to addresses it may touch, in
  hexadecimal or in escaped binary, with the numbers spelled in any way, the stub answers OK, and a
  packet that reads the same addresses is answered with the digits of the data, while the rest of
  memory is as it was.\<close>

theorem memory_write_read:
  assumes "aliasing (ge_ph env)" and "\<And>i. i < length bs \<Longrightarrow> gdb_valid (ge_range env) (a + of_nat i)"
    and "spells da a" and "spells dl (of_nat (length bs))" and "bs \<noteq> []" and "2 * length bs < MAX_BUF"
    and "holds_packet (write_packet binary da dl bs) s"
  shows "\<exists>t. gdb_command env ctx sigval thid s = Inr (Reply, thid, t) \<and> c_string (g_output t) = Inr (text_bytes ''OK'')
    \<and> (\<forall>b. (\<forall>i < length bs. \<not> same_place b (a + of_nat i)) \<longrightarrow> lb (ge_ph env) b (g_dbg t) = lb (ge_ph env) b (g_dbg s))
    \<and> (\<forall>u. holds_packet (read_packet da dl) u \<longrightarrow> g_dbg u = g_dbg t \<longrightarrow>
        (\<exists>v. gdb_command env ctx sigval thid u = Inr (Reply, thid, v) \<and> g_dbg v = g_dbg t
          \<and> c_string (g_output v) = Inr (concat (map hex_byte bs))))"
proof -
  have l: "length bs < 2 ^ 31" "length bs < 2 ^ 28" using assms(6) by (simp_all add: MAX_BUF_def)
  obtain t where t: "gdb_command env ctx sigval thid s = Inr (Reply, thid, t)" "c_string (g_output t) = Inr (text_bytes ''OK'')"
    "g_dbg t = write_bytes (ge_ph env) a bs (g_dbg s)"
    using command_write [OF assms(3-5) l(1) assms(2,7)] by blast
  have "map (\<lambda>i. hex_byte (lb (ge_ph env) (a + of_nat i) (g_dbg t))) [0..<length bs] = map hex_byte bs"
    unfolding t(3) by (rule nth_equalityI) (simp_all add: lb_write_bytes [OF assms(1) l(2)])
  then have rd: "\<exists>v. gdb_command env ctx sigval thid u = Inr (Reply, thid, v) \<and> g_dbg v = g_dbg t
      \<and> c_string (g_output v) = Inr (concat (map hex_byte bs))" if "holds_packet (read_packet da dl) u" "g_dbg u = g_dbg t" for u
    using command_read [OF assms(3,4,6,2) that(1), of ctx sigval thid] by (simp add: that(2))
  have other: "lb (ge_ph env) b (g_dbg t) = lb (ge_ph env) b (g_dbg s)" if "\<forall>i < length bs. \<not> same_place b (a + of_nat i)" for b
    unfolding t(3) by (rule lb_write_bytes_other [OF assms(1)]) (use that in blast)
  show ?thesis by (rule exI [of _ t]) (use t(1,2) other rd in blast)
qed

text \<open>Register writes are dropped unless a thread was selected by its id: with no thread selected, or
  thread 0 as a debugger does for any thread, the packet that writes all registers of the stopped
  thread is answered with OK and nothing is written.\<close>

theorem register_write_dropped:
  assumes "g_input s ! 0 = byte_of CHR ''G''"
  shows "\<exists>t. gdb_command env ctx sigval 0 s = Inr (Reply, 0, t) \<and> c_string (g_output t) = Inr (text_bytes ''OK'')
    \<and> g_dbg t = g_dbg s"
proof -
  let ?t = "strcpy_out (text_bytes ''OK'') (s\<lparr>g_output := put_at 0 [0] (g_output s)\<rparr>)"
  have "gdb_command env ctx sigval 0 s = Inr (Reply, 0, ?t)"
    using assms by (simp add: gdb_command_def Let_def byte_of_inj)
  moreover have "c_string (g_output ?t) = Inr (text_bytes ''OK'')" by (rule c_string_strcpy) (simp add: byte_of_eq_0)
  ultimately show ?thesis by (auto simp: strcpy_out_def)
qed

section \<open>Witnesses\<close>

theorem packet_received_witness:
  "getpacket (replicate 2048 0) (frames [([0x2B], text_bytes ''m0,4'', 0x30, 0x30)] @ [0x03] @ packet (text_bytes ''qC'') @ [1, 2]) []
    = Some (put_at 0 (text_bytes ''qC'' @ [0]) (left_by [([0x2B], text_bytes ''m0,4'', 0x30, 0x30)] (replicate 2048 0)), [1, 2],
        text_bytes ''-+'')"
proof -
  have "list_all refused [([0x2B], text_bytes ''m0,4'', 0x30, 0x30)]" by code_simp
  moreover have "frame_ok [0x03] (text_bytes ''qC'')" "0 \<notin> set (text_bytes ''qC'')" by code_simp+
  moreover have "put_at 0 (text_bytes ''qC'' @ [0]) (left_by [([0x2B], text_bytes ''m0,4'', 0x30, 0x30)] (replicate 2048 0)) ! 2
      \<noteq> byte_of CHR '':''"
    by (simp add: put_at_def left_by_def) code_simp
  ultimately show ?thesis using packet_received [of "[([0x2B], text_bytes ''m0,4'', 0x30, 0x30)]" "[0x03]" "text_bytes ''qC''"
      _ "replicate 2048 0" "[1, 2]" "[]"] by simp
qed

text \<open>Two refusals of the empty reply: six copies in all.\<close>

theorem refused_reply_grows_witness:
  "putpacket [0] (text_bytes ''--+'') [] = Inr ([], concat (replicate 6 (text_bytes ''$#00'')))"
proof -
  have b: "c_string [0] = Inr []" by code_simp
  have n: "list_all (\<lambda>c. c AND 0x7F \<noteq> byte_of CHR ''+'') (text_bytes ''--'')" by code_simp
  have p: "packet [] = text_bytes ''$#00''" by code_simp
  from refused_reply_grows [OF b n, of "[]" "[]"] show ?thesis
    by (simp add: OUTPUT_BUF_def p numeral_eq_Suc upt_rec)
qed

definition demo_gdb :: "string \<Rightarrow> unit gdb" where
  "demo_gdb p = \<lparr>g_in = [], g_out = [], g_input = text_bytes p @ replicate 8 0, g_output = replicate 64 0,
     g_dbg = \<lparr>g_bps = [], d_mem = (\<lambda>_. 0), d_hw = \<lparr>DRCNTL = 0, IBC = 0, IBA = 0, IBAM = 0\<rparr>,
       psplinkHwContext = \<lparr>DRCNTL = 0, IBC = 0, IBA = 0, IBAM = 0\<rparr>\<rparr>,
     g_started = True, q_threads = replicate 20 0, q_thread_count = 0, q_thread_loc = 0, g_k = ()\<rparr>"

definition demo_genv :: "unit genv" where
  "demo_genv = \<lparr>ge_ph = (\<lambda>a. a AND 0x0FFFFFFF), ge_range = \<lparr>userbase = 0x08800000, usertop = 0x0A000000\<rparr>,
     gk_uid = 1, gk_text_addr = 0x08804000, gk_elf = False, gk_thread_ids = (\<lambda>_. None), gk_thread_entry = (\<lambda>_ _. None),
     gk_module_by_addr = (\<lambda>_ _. None), gk_module_known = (\<lambda>_ _. False), gk_thread_status = (\<lambda>_ _. Inl 0),
     gk_kinfo = (\<lambda>_ _. None), gk_suspend = (\<lambda>_ k. k), gk_resume = (\<lambda>_ k. k), gk_start = id, gk_reset = id, gk_local = 0x88100000\<rparr>"

theorem memory_write_read_witness:
  "\<exists>t. gdb_command demo_genv 0x88010000 5 0 (demo_gdb ''M88804002,3:12abff'') = Inr (Reply, 0, t)
     \<and> (\<exists>v. gdb_command demo_genv 0x88010000 5 0 ((demo_gdb ''m88804002,3'')\<lparr>g_dbg := g_dbg t\<rparr>) = Inr (Reply, 0, v)
          \<and> c_string (g_output v) = Inr (text_bytes ''12abff''))"
proof -
  let ?bs = "[0x12, 0xAB, 0xFF] :: bytes"
  have al: "aliasing (ge_ph demo_genv)" by (simp add: aliasing_def same_place_def demo_genv_def)
  have three: "gdb_valid (ge_range demo_genv) (0x88804002 + of_nat i)" if "i < length ?bs" for i
  proof -
    have "list_all (\<lambda>i. gdb_valid (ge_range demo_genv) (0x88804002 + of_nat i)) [0..<3]" by code_simp
    then show ?thesis using that by (simp add: list_all_iff)
  qed
  have sp: "spells (text_bytes ''88804002'') 0x88804002" "spells (text_bytes ''3'') (of_nat (length ?bs))" by code_simp+
  have w: "g_input (demo_gdb ''M88804002,3:12abff'') = write_packet False (text_bytes ''88804002'') (text_bytes ''3'') ?bs @ 0 # replicate 7 0"
    by code_simp
  have r: "g_input (demo_gdb ''m88804002,3'') = read_packet (text_bytes ''88804002'') (text_bytes ''3'') @ 0 # replicate 7 0"
    by code_simp
  have d: "concat (map hex_byte ?bs) = text_bytes ''12abff''" by code_simp
  have hw: "holds_packet (write_packet False (text_bytes ''88804002'') (text_bytes ''3'') ?bs) (demo_gdb ''M88804002,3:12abff'')"
    using w unfolding holds_packet_def by blast
  obtain t where t: "gdb_command demo_genv 0x88010000 5 0 (demo_gdb ''M88804002,3:12abff'') = Inr (Reply, 0, t)"
    "\<And>u. holds_packet (read_packet (text_bytes ''88804002'') (text_bytes ''3'')) u \<Longrightarrow> g_dbg u = g_dbg t \<Longrightarrow>
      \<exists>v. gdb_command demo_genv 0x88010000 5 0 u = Inr (Reply, 0, v) \<and> g_dbg v = g_dbg t
        \<and> c_string (g_output v) = Inr (concat (map hex_byte ?bs))"
    using memory_write_read [OF al three sp _ _ hw, where ctx = "0x88010000" and sigval = 5 and thid = 0] by (auto simp: MAX_BUF_def)
  have "holds_packet (read_packet (text_bytes ''88804002'') (text_bytes ''3'')) ((demo_gdb ''m88804002,3'')\<lparr>g_dbg := g_dbg t\<rparr>)"
    using r unfolding holds_packet_def by auto
  from t(2) [OF this] show ?thesis using t(1) d by auto
qed

theorem register_write_dropped_witness:
  "\<exists>t. gdb_command demo_genv 0x88010000 5 0 (demo_gdb ''G0000'') = Inr (Reply, 0, t) \<and> g_dbg t = g_dbg (demo_gdb ''G0000'')"
proof -
  have "g_input (demo_gdb ''G0000'') ! 0 = byte_of CHR ''G''" by code_simp
  from register_write_dropped [OF this] show ?thesis by blast
qed

end
