(* ===== verification/ParseArgs.thy ===== *)
theory ParseArgs
  imports CLib "HOL-Library.Char_ord"
begin

unbundle bit_operations_syntax

text \<open>
  The reader of a command line (\<^verbatim>\<open>pspsh/parse_args.C\<close>): escapes, quotes, variables and redirection.
  The input is the text before its terminating NUL; what a function writes behind its output pointer
  is the list it returns. \<^verbatim>\<open>parse_cli\<close> writes the words one after another into the array of its
  caller, each ended by a NUL, the last one followed by a \<open>1\<close>.
\<close>

section \<open>Characters\<close>

definition ispunct :: "char \<Rightarrow> bool" where
  "ispunct c \<longleftrightarrow> (33 \<le> code c \<and> code c \<le> 47) \<or> (58 \<le> code c \<and> code c \<le> 64)
     \<or> (91 \<le> code c \<and> code c \<le> 96) \<or> (123 \<le> code c \<and> code c \<le> 126)"

definition isxdigit :: "char \<Rightarrow> bool" where
  "isxdigit c \<longleftrightarrow> isdigit c \<or> (65 \<le> code c \<and> code c \<le> 70) \<or> (97 \<le> code c \<and> code c \<le> 102)"

definition c_toupper :: "char \<Rightarrow> char" where
  "c_toupper c = (if 97 \<le> code c \<and> code c \<le> 122 then char_of (code c - 32) else c)"

text \<open>The letters count from \<open>0\<close>, as the source has it.\<close>

definition hex_to_int_pc :: "char \<Rightarrow> nat" where
  "hex_to_int_pc c = (let ch = c_toupper c in
     if code (CHR ''0'') \<le> code ch \<and> code ch \<le> code (CHR ''9'') then code ch - code (CHR ''0'')
     else if code (CHR ''A'') \<le> code ch \<and> code ch \<le> code (CHR ''F'') then code ch - code (CHR ''A'')
     else 0)"

definition isodigit :: "char \<Rightarrow> bool" where
  "isodigit ch \<longleftrightarrow> code (CHR ''0'') \<le> code ch \<and> code ch < code (CHR ''8'')"

definition oct_to_int_pc :: "char \<Rightarrow> nat" where
  "oct_to_int_pc ch = (if code (CHR ''0'') \<le> code ch \<and> code ch < code (CHR ''8'')
     then code ch - code (CHR ''0'') else 0)"

section \<open>Escapes\<close>

text \<open>The loop over at most \<open>n\<close> digits: how many there were, and the byte they make.\<close>

fun hex_loop :: "nat \<Rightarrow> nat \<Rightarrow> u8 \<Rightarrow> string \<Rightarrow> nat \<times> u8" where
  "hex_loop 0 i ch str = (i, ch)"
| "hex_loop (Suc n) i ch [] = (i, ch)"
| "hex_loop (Suc n) i ch (c # str) =
     (if \<not> isxdigit c then (i, ch)
      else hex_loop n (i + 1) (push_bit 4 ch OR of_nat (hex_to_int_pc c)) str)"

definition decode_hex :: "string \<Rightarrow> nat \<times> u8" where
  "decode_hex str = (case hex_loop 2 0 0 str of (i, ch) \<Rightarrow>
     if i = 0 then (0, ch) else if ch = 0 then (0, ch) else (i, ch))"

fun oct_loop :: "nat \<Rightarrow> nat \<Rightarrow> u8 \<Rightarrow> string \<Rightarrow> nat \<times> u8" where
  "oct_loop 0 i ch str = (i, ch)"
| "oct_loop (Suc n) i ch [] = (i, ch)"
| "oct_loop (Suc n) i ch (c # str) =
     (if \<not> isodigit c then (i, ch)
      else oct_loop n (i + 1) (push_bit 3 ch OR of_nat (oct_to_int_pc c)) str)"

definition decode_oct :: "string \<Rightarrow> nat \<times> u8" where
  "decode_oct str = (case oct_loop 4 0 0 str of (i, ch) \<Rightarrow>
     if i = 0 then (0, ch) else if ch = 0 then (0, ch) else (i, ch))"

section \<open>Variables\<close>

text \<open>
  What the reader looks up: the arguments of the running script (\<open>None\<close> for a null \<^verbatim>\<open>sargv\<close>, and an
  entry \<open>None\<close> for a null pointer in it) and the environment.
\<close>

record lookups =
  sargc :: int
  sargv :: "string option list option"
  getenv :: "string \<Rightarrow> string option"

text \<open>An \<^verbatim>\<open>unsigned long\<close> of 64 bits kept in an \<^verbatim>\<open>int\<close>.\<close>

definition arg_index :: "string \<Rightarrow> int \<times> string" where
  "arg_index s = (case strtoul 64 10 s of (v, endp) \<Rightarrow> (sint (of_nat v :: u32), endp))"

text \<open>The value of the argument \<open>val\<close>: an index before the array is outside of it.\<close>

definition script_arg :: "lookups \<Rightarrow> int \<Rightarrow> string run" where
  "script_arg e val =
     (if val < sargc e then
        (case sargv e of
           None \<Rightarrow> Inr []
         | Some args \<Rightarrow>
             if val < 0 \<or> int (length args) \<le> val then Inl Bad_Pointer
             else (case args ! nat val of None \<Rightarrow> Inr [] | Some s \<Rightarrow> Inr s))
      else Inr [])"

definition env_value :: "lookups \<Rightarrow> string \<Rightarrow> string" where
  "env_value e name = (if name = [] then [] else case getenv e name of None \<Rightarrow> [] | Some v \<Rightarrow> v)"

text \<open>The text inserted for the variable whose name starts the input, and the input after it.\<close>

definition insert_arg :: "lookups \<Rightarrow> string \<Rightarrow> (string \<times> string) run" where
  "insert_arg e inp =
     (case inp of
        [] \<Rightarrow> Inr ([], ''$'')
      | c # rest \<Rightarrow>
          if isdigit c then
            (case arg_index inp of (val, endp) \<Rightarrow> map_sum id (\<lambda>s. (endp, s)) (script_arg e val))
          else if c = CHR ''('' then
            (let name = takeWhile (\<lambda>x. x \<noteq> CHR '')'') rest;
                 after = dropWhile (\<lambda>x. x \<noteq> CHR '')'') rest
             in if PATH_MAX \<le> length name then Inl Buffer_Overflow
                else if after = [] then Inr ([], [])
                else Inr (tl after, env_value e name))
          else if ispunct c then Inr (rest, env_value e [c])
          else Inr (inp, ''$''))"

lemma scan_digits_rest: "scan_digits b acc s = (v, r) \<Longrightarrow> length r \<le> length s"
  by (induction b acc s rule: scan_digits.induct) (auto split: if_splits)

lemma skip_space_shorter: "length (skip_space s) \<le> length s"
  by (induction s) auto

lemma strtoul_rest: "strtoul w 10 s = (v, r) \<Longrightarrow> length r \<le> length s"
  using skip_space_shorter [of s]
  by (auto simp: strtoul_def number_base_def Let_def split: if_splits prod.splits
      dest!: scan_digits_rest)

lemma insert_arg_rest:
  assumes "insert_arg e inp = Inr (inp', s)"
  shows "length inp' \<le> length inp"
proof (cases inp)
  case Nil
  then show ?thesis using assms by (simp add: insert_arg_def)
next
  case (Cons c rest)
  have "length (dropWhile (\<lambda>x. x \<noteq> CHR '')'') rest) \<le> length rest" by (rule length_dropWhile_le)
  then show ?thesis using assms Cons
    by (auto simp: insert_arg_def arg_index_def Let_def map_sum_def split: if_splits sum.splits
        prod.splits dest: strtoul_rest)
qed

section \<open>Words\<close>

text \<open>
  The loop of \<^verbatim>\<open>read_string\<close>: \<open>q\<close> is the quote the text is in. The result is the input left, what was
  written, the quote at the end and whether an escape was malformed.
\<close>

function string_loop :: "lookups \<Rightarrow> char option \<Rightarrow> string \<Rightarrow> string \<Rightarrow> (string \<times> string \<times> char option \<times> bool) run" where
  "string_loop e q [] out = Inr ([], out, q, False)"
| "string_loop e q (c # s) out =
     (if c = CHR 0x5C then
        (if q = Some (CHR 0x27) then
           (case s of [] \<Rightarrow> string_loop e q [] (out @ [c]) | d # t \<Rightarrow> string_loop e q t (out @ [c, d]))
         else
           (case s of
              [] \<Rightarrow> string_loop e q [] out
            | d # t \<Rightarrow>
                if d = CHR ''n'' then string_loop e q t (out @ [CHR 0x0A])
                else if d = CHR ''r'' then string_loop e q t (out @ [CHR 0x0D])
                else if d = CHR ''0'' then
                  (case decode_oct t of (i, ch) \<Rightarrow>
                     if i = 0 \<or> i = 1 then Inr (t, out, q, True)
                     else string_loop e q (drop i t) (out @ [chr_of ch]))
                else if d = CHR ''x'' then
                  (case decode_hex t of (i, ch) \<Rightarrow>
                     if i = 0 \<or> i = 1 then Inr (t, out, q, True)
                     else string_loop e q (drop i t) (out @ [chr_of ch]))
                else string_loop e q t (out @ [d])))
      else if isspace c \<and> q = None then Inr (skip_space (c # s), out, q, False)
      else if c = CHR ''>'' \<and> q = None then Inr (c # s, out, q, False)
      else if c = CHR 0x22 \<or> c = CHR 0x27 then
        (case q of
           Some k \<Rightarrow> if c = k then string_loop e None s out else string_loop e q s (out @ [c])
         | None \<Rightarrow> string_loop e (Some c) s out)
      else if c = CHR ''$'' \<and> q \<noteq> Some (CHR 0x27) then
        (case insert_arg e s of
           Inl f \<Rightarrow> Inl f
         | Inr (s', v) \<Rightarrow> string_loop e q s' (out @ v))
      else string_loop e q s (out @ [c]))"
  by pat_completeness auto
termination
  by (relation "measure (\<lambda>(e, q, s, out). length s)") (auto dest: insert_arg_rest)

declare string_loop.simps [simp del]

text \<open>
  The string is read into \<open>out\<close>: the input left, all that was written and the length \<^verbatim>\<open>read_string\<close>
  returns, \<open>0\<close> when there is no string, a quote is not closed or an escape is malformed.
\<close>

definition read_string :: "lookups \<Rightarrow> string \<Rightarrow> (string \<times> string \<times> nat) run" where
  "read_string e inp =
     (case skip_space inp of
        [] \<Rightarrow> Inr ([], [], 0)
      | s \<Rightarrow> (case string_loop e None s [] of
           Inl f \<Rightarrow> Inl f
         | Inr (rest, out, q, err) \<Rightarrow>
             if q \<noteq> None \<or> err then Inr (rest, out, 0)
             else Inr (rest, out @ [CHR 0x00], length out + 1)))"

section \<open>Command lines\<close>

datatype redir_type = REDIR_TYPE_NONE | REDIR_TYPE_NEW | REDIR_TYPE_CAT

text \<open>
  The outputs of \<^verbatim>\<open>parse_cli\<close>: the text written into \<^verbatim>\<open>out\<close>, the strings \<^verbatim>\<open>argv\<close> points to in it, the
  redirection and the string last written into \<^verbatim>\<open>redir\<close>.
\<close>

record cli =
  cli_out :: string
  cli_argv :: "string list"
  cli_type :: redir_type
  cli_redir :: string

definition cli_empty :: cli where
  "cli_empty = \<lparr>cli_out = [], cli_argv = [], cli_type = REDIR_TYPE_NONE, cli_redir = []\<rparr>"

lemma string_loop_rest: "string_loop e q s out = Inr (rest, r) \<Longrightarrow> length rest \<le> length s"
proof (induction "length s" arbitrary: q s out rule: less_induct)
  case less
  show ?case
  proof (cases s)
    case Nil
    then show ?thesis using less.prems by (simp add: string_loop.simps)
  next
    case (Cons c s')
    have ih: "length rest \<le> length t" if "string_loop e q' t out' = Inr (rest, r)" and "length t \<le> length s'" for q' t out'
      using less.hyps [OF _ that(1)] that(2) Cons by simp
    show ?thesis
      using less.prems skip_space_shorter [of "c # s'"] unfolding Cons
      by (subst (asm) string_loop.simps)
        (auto split: if_splits list.splits prod.splits option.splits sum.splits
          dest!: ih dest: insert_arg_rest)
  qed
qed

lemma read_string_rest: "read_string e inp = Inr (rest, out, n) \<Longrightarrow> length rest \<le> length inp"
  using skip_space_shorter [of inp] string_loop_rest [of e None "skip_space inp" "[]"]
  by (auto simp: read_string_def split: list.splits sum.splits prod.splits if_splits)

text \<open>
  The loop over the words; \<open>n\<close> more fit into \<^verbatim>\<open>argv\<close>. The arrays of the caller have \<open>outsz\<close> and \<open>redirsz\<close>
  bytes. The flag tells whether the loop was left by the return for a redirection without a name.
\<close>

function cli_loop :: "lookups \<Rightarrow> nat \<Rightarrow> nat \<Rightarrow> nat \<Rightarrow> string \<Rightarrow> cli \<Rightarrow> (bool \<times> cli) run" where
  "cli_loop e outsz redirsz 0 inp st = Inr (True, st)"
| "cli_loop e outsz redirsz (Suc n) inp st =
     (if inp \<noteq> [] \<and> hd inp = CHR ''>'' then
        (let cat = (tl inp \<noteq> [] \<and> hd (tl inp) = CHR ''>'');
             inp' = (if cat then tl (tl inp) else tl inp);
             st' = st\<lparr>cli_type := if cat then REDIR_TYPE_CAT else REDIR_TYPE_NEW\<rparr>
         in case read_string e inp' of
              Inl f \<Rightarrow> Inl f
            | Inr (rest, out, len) \<Rightarrow>
                if redirsz < length out then Inl Buffer_Overflow
                else if len = 0 then Inr (False, st'\<lparr>cli_redir := out\<rparr>)
                else cli_loop e outsz redirsz (Suc n) rest (st'\<lparr>cli_redir := butlast out\<rparr>))
      else
        (case read_string e inp of
           Inl f \<Rightarrow> Inl f
         | Inr (rest, out, len) \<Rightarrow>
             (let st' = st\<lparr>cli_out := cli_out st @ out\<rparr> in
              if outsz < length (cli_out st') then Inl Buffer_Overflow
              else if len = 0 then Inr (True, st')
              else cli_loop e outsz redirsz n rest (st'\<lparr>cli_argv := cli_argv st @ [butlast out]\<rparr>))))"
  by pat_completeness auto
termination
  by (relation "measures [\<lambda>(e, o', r, n, s, st). n, \<lambda>(e, o', r, n, s, st). length s]")
    (auto dest!: read_string_rest simp: neq_Nil_conv split: if_splits)

declare cli_loop.simps(2) [simp del]

definition parse_cli :: "lookups \<Rightarrow> nat \<Rightarrow> nat \<Rightarrow> nat \<Rightarrow> string \<Rightarrow> (nat \<times> cli) run" where
  "parse_cli e outsz redirsz max_args inp =
     (if max_args = 0 then Inr (0, cli_empty)
      else case skip_space inp of
        [] \<Rightarrow> Inr (0, cli_empty)
      | s \<Rightarrow> (case cli_loop e outsz redirsz (max_args - 1) s cli_empty of
           Inl f \<Rightarrow> Inl f
         | Inr (ok, st) \<Rightarrow>
             if \<not> ok then Inr (0, st)
             else if outsz < length (cli_out st) + 1 then Inl Buffer_Overflow
             else Inr (length (cli_out st) + 1, st\<lparr>cli_out := cli_out st @ [CHR 0x01]\<rparr>)))"

end
