(* ===== verification/ShellCommands.thy ===== *)
theory ShellCommands
  imports CLib
begin

text \<open>
  The command table the PC terminal and the PSP shell share (\<^verbatim>\<open>psplink/shellcmd.h\<close>). The macros of
  the table are the constructors of an entry: a category, a command of the PSP, a command both sides
  handle, one only the terminal has and one only the PSP has. Of the texts the usage is kept; the
  descriptions are only printed.
\<close>

section \<open>Marks of the frames\<close>

definition SHELL_CMD_BEGIN :: char where "SHELL_CMD_BEGIN = CHR 0xFF"
definition SHELL_CMD_END :: char where "SHELL_CMD_END = CHR 0xFE"
definition SHELL_CMD_SUCCESS :: char where "SHELL_CMD_SUCCESS = CHR 0xFD"
definition SHELL_CMD_ERROR :: char where "SHELL_CMD_ERROR = CHR 0xFC"
definition SHELL_CMD_CWD :: char where "SHELL_CMD_CWD = CHR 0xFB"
definition SHELL_CMD_TAB :: char where "SHELL_CMD_TAB = CHR 0xFA"
definition SHELL_CMD_LASTMOD :: char where "SHELL_CMD_LASTMOD = CHR 0xF9"
definition SHELL_CMD_DISASM :: char where "SHELL_CMD_DISASM = CHR 0xF8"
definition SHELL_CMD_SYMLOAD :: char where "SHELL_CMD_SYMLOAD = CHR 0xF7"

section \<open>The table\<close>

text \<open>Name, synonym, function, least number of arguments, usage.\<close>

datatype sh_entry =
    SHELL_CAT string
  | SHELL_CMD string "string option" string nat string
  | SHELL_CMD_SHARED string "string option" string nat string
  | SHELL_CMD_PCTERM string "string option" string nat string
  | SHELL_CMD_PSP string "string option" string nat string

definition thread_commands :: "sh_entry list" where
  "thread_commands =
    [SHELL_CAT ''thread'',
     SHELL_CMD ''thlist'' (Some ''tl'') ''thlist_cmd'' 0 ''[v]'',
     SHELL_CMD ''thsllist'' None ''thsllist_cmd'' 0 ''[v]'',
     SHELL_CMD ''thdelist'' None ''thdelist_cmd'' 0 ''[v]'',
     SHELL_CMD ''thsulist'' None ''thsulist_cmd'' 0 ''[v]'',
     SHELL_CMD ''thdolist'' None ''thdolist_cmd'' 0 ''[v]'',
     SHELL_CMD ''thinfo'' (Some ''ti'') ''thinfo_cmd'' 1 ''uid|@name'',
     SHELL_CMD ''thsusp'' (Some ''ts'') ''thsusp_cmd'' 1 ''uid|@name'',
     SHELL_CMD ''thspuser'' None ''thspuser_cmd'' 0 '''',
     SHELL_CMD ''thresm'' (Some ''tr'') ''thresm_cmd'' 1 ''uid|@name'',
     SHELL_CMD ''thwake'' (Some ''tw'') ''thwake_cmd'' 1 ''uid|@name'',
     SHELL_CMD ''thterm'' (Some ''tt'') ''thterm_cmd'' 1 ''uid|@name'',
     SHELL_CMD ''thdel'' (Some ''td'') ''thdel_cmd'' 1 ''uid|@name'',
     SHELL_CMD ''thtdel'' (Some ''tx'') ''thtdel_cmd'' 1 ''uid|@name'',
     SHELL_CMD ''thctx'' None ''thctx_cmd'' 1 ''uid|@name'',
     SHELL_CMD ''thpri'' (Some ''tp'') ''thpri_cmd'' 2 ''uid|@name pri'',
     SHELL_CMD ''thcreat'' (Some ''tc'') ''thcreat_cmd'' 5 ''name entry pri stack attr'',
     SHELL_CMD ''lwmtxlist'' (Some ''ll'') ''lwmtxlist_cmd'' 0 ''[v]'',
     SHELL_CMD ''lwmtxinfo'' (Some ''lii'') ''lwmtxinfo_cmd'' 1 ''uid'',
     SHELL_CMD ''evlist'' (Some ''el'') ''evlist_cmd'' 0 ''[v]'',
     SHELL_CMD ''evinfo'' (Some ''ei'') ''evinfo_cmd'' 1 ''uid|@name'',
     SHELL_CMD ''evdel'' (Some ''ed'') ''evdel_cmd'' 1 ''uid|@name'',
     SHELL_CMD ''evset'' (Some ''es'') ''evset_cmd'' 2 ''uid|@name pattern'',
     SHELL_CMD ''evclr'' (Some ''ec'') ''evclr_cmd'' 2 ''uid|@name pattern'',
     SHELL_CMD ''smlist'' (Some ''sl'') ''smlist_cmd'' 0 ''[v]'',
     SHELL_CMD ''sminfo'' (Some ''si'') ''sminfo_cmd'' 1 ''uid|@name'',
     SHELL_CMD ''smdel'' (Some ''sd'') ''smdel_cmd'' 1 ''uid|@name'',
     SHELL_CMD ''mxlist'' (Some ''xl'') ''mxlist_cmd'' 0 ''[v]'',
     SHELL_CMD ''mxinfo'' (Some ''xi'') ''mxinfo_cmd'' 1 ''uid|@name'',
     SHELL_CMD ''mxdel'' (Some ''xd'') ''mxdel_cmd'' 1 ''uid|@name'',
     SHELL_CMD ''cblist'' (Some ''cl'') ''cblist_cmd'' 0 ''[v]'',
     SHELL_CMD ''cbinfo'' (Some ''ci'') ''cbinfo_cmd'' 1 ''uid|@name'',
     SHELL_CMD ''cbdel'' (Some ''cbd'') ''cbdel_cmd'' 1 ''uid|@name'',
     SHELL_CMD ''vtlist'' (Some ''zl'') ''vtlist_cmd'' 0 ''[v]'',
     SHELL_CMD ''vtinfo'' (Some ''zi'') ''vtinfo_cmd'' 1 ''uid|@name'',
     SHELL_CMD ''vtdel'' (Some ''zd'') ''vtdel_cmd'' 1 ''uid|@name'',
     SHELL_CMD ''vpllist'' (Some ''vl'') ''vpllist_cmd'' 0 ''[v]'',
     SHELL_CMD ''vplinfo'' (Some ''vi'') ''vplinfo_cmd'' 1 ''uid|@name'',
     SHELL_CMD ''vpldel'' (Some ''vd'') ''vpldel_cmd'' 1 ''uid|@name'',
     SHELL_CMD ''fpllist'' (Some ''fl'') ''fpllist_cmd'' 0 ''[v]'',
     SHELL_CMD ''fplinfo'' (Some ''fi'') ''fplinfo_cmd'' 1 ''uid|@name'',
     SHELL_CMD ''fpldel'' (Some ''fd'') ''fpldel_cmd'' 1 ''uid|@name'',
     SHELL_CMD ''mpplist'' (Some ''pl'') ''mpplist_cmd'' 0 ''[v]'',
     SHELL_CMD ''mppinfo'' (Some ''pi'') ''mppinfo_cmd'' 1 ''uid|@name'',
     SHELL_CMD ''mppdel'' (Some ''pd'') ''mppdel_cmd'' 1 ''uid|@name'',
     SHELL_CMD ''thevlist'' (Some ''tel'') ''thevlist_cmd'' 0 ''[v]'',
     SHELL_CMD ''thevinfo'' (Some ''tei'') ''thevinfo_cmd'' 1 ''uid|@name'',
     SHELL_CMD ''thevdel'' (Some ''ted'') ''thevdel_cmd'' 1 ''uid|@name'',
     SHELL_CMD ''thmon'' (Some ''tm'') ''thmon_cmd'' 1 ''u|k|a [csed]'',
     SHELL_CMD ''thmonoff'' None ''thmonoff_cmd'' 0 '''',
     SHELL_CMD ''sysstat'' None ''sysstat_cmd'' 0 '''']"

definition module_commands :: "sh_entry list" where
  "module_commands =
    [SHELL_CAT ''module'',
     SHELL_CMD ''modlist'' (Some ''ml'') ''modlist_cmd'' 0 ''[opts]'',
     SHELL_CMD ''modinfo'' (Some ''mi'') ''modinfo_cmd'' 1 ''uid|@name [opts]'',
     SHELL_CMD ''modstop'' (Some ''ms'') ''modstop_cmd'' 1 ''uid|@name'',
     SHELL_CMD ''modunld'' (Some ''mu'') ''modunld_cmd'' 1 ''uid|@name'',
     SHELL_CMD ''modstun'' (Some ''mn'') ''modstun_cmd'' 1 ''uid|@name'',
     SHELL_CMD ''modload'' (Some ''md'') ''modload_cmd'' 1 ''path'',
     SHELL_CMD ''modstart'' (Some ''mt'') ''modstart_cmd'' 1 ''uid|@name [args]'',
     SHELL_CMD ''modexec'' (Some ''me'') ''modexec_cmd'' 1 ''[@key] path [args]'',
     SHELL_CMD ''modaddr'' (Some ''ma'') ''modaddr_cmd'' 1 ''addr [opts]'',
     SHELL_CMD ''ldstart'' (Some ''ld'') ''ldstart_cmd'' 1 ''path [args]'',
     SHELL_CMD ''kill'' None ''kill_cmd'' 1 ''uid|@name'',
     SHELL_CMD ''debug'' (Some ''d'') ''debug_cmd'' 1 ''program.elf [args]'',
     SHELL_CMD ''modexp'' (Some ''mp'') ''modexp_cmd'' 1 ''uid|@name'',
     SHELL_CMD ''modimp'' None ''modimp_cmd'' 1 ''uid|@name'',
     SHELL_CMD ''modfindx'' (Some ''mfx'') ''modfindx_cmd'' 3 ''uid|@name library nid|@name'',
     SHELL_CMD ''modfindi'' (Some ''mfi'') ''modfindi_cmd'' 3 ''uid|@name library nid|@name'',
     SHELL_CMD ''apihook'' None ''apihook_cmd'' 4 ''uid|@name library nid|@name ret [param]'',
     SHELL_CMD ''apihooks'' None ''apihooks_cmd'' 4 ''uid|@name library nid|@name ret [param]'',
     SHELL_CMD ''apihp'' None ''apihp_cmd'' 0 '''',
     SHELL_CMD ''apihd'' None ''apihd_cmd'' 1 ''id'']"

definition memory_commands :: "sh_entry list" where
  "memory_commands =
    [SHELL_CAT ''memory'',
     SHELL_CMD ''meminfo'' (Some ''mf'') ''meminfo_cmd'' 0 ''[partitionid]'',
     SHELL_CMD ''memreg'' (Some ''mr'') ''memreg_cmd'' 0 '''',
     SHELL_CMD ''memdump'' (Some ''dm'') ''memdump_cmd'' 0 ''[addr|-] [b|h|w]'',
     SHELL_CMD ''memblocks'' (Some ''mk'') ''memblocks_cmd'' 0 ''[f|t]'',
     SHELL_CMD ''malloc'' None ''malloc_cmd'' 4 ''pid name l|h size'',
     SHELL_CMD ''mfree'' None ''mfree_cmd'' 1 ''uid'',
     SHELL_CMD ''mhead'' None ''mhead_cmd'' 1 ''uid'',
     SHELL_CMD ''savemem'' (Some ''sm'') ''savemem_cmd'' 3 ''addr size path'',
     SHELL_CMD ''loadmem'' (Some ''lm'') ''loadmem_cmd'' 2 ''addr path [maxsize]'',
     SHELL_CMD ''pokew'' (Some ''pw'') ''pokew_cmd'' 2 ''addr val1 [val2..valN]'',
     SHELL_CMD ''pokeh'' (Some ''ph'') ''pokeh_cmd'' 2 ''addr val1 [val2..valN]'',
     SHELL_CMD ''pokeb'' (Some ''pb'') ''pokeb_cmd'' 2 ''addr val1 [val2..valN]'',
     SHELL_CMD ''pokes'' (Some ''ps'') ''pokes_cmd'' 2 ''addr str'',
     SHELL_CMD ''peekw'' (Some ''kw'') ''peekw_cmd'' 1 ''addr [o|b|x|f]'',
     SHELL_CMD ''peekh'' (Some ''kh'') ''peekh_cmd'' 1 ''addr [o|b|x]'',
     SHELL_CMD ''peekb'' (Some ''kb'') ''peekb_cmd'' 1 ''addr [o|b|x]'',
     SHELL_CMD ''fillw'' (Some ''fw'') ''fillw_cmd'' 3 ''addr size val'',
     SHELL_CMD ''fillh'' (Some ''fh'') ''fillh_cmd'' 3 ''addr size val'',
     SHELL_CMD ''fillb'' (Some ''fb'') ''fillb_cmd'' 3 ''addr size val'',
     SHELL_CMD ''copymem'' (Some ''cm'') ''copymem_cmd'' 3 ''srcaddr destaddr size'',
     SHELL_CMD ''findstr'' (Some ''ns'') ''findstr_cmd'' 3 ''addr size str'',
     SHELL_CMD ''findhex'' (Some ''nx'') ''findhex_cmd'' 3 ''addr size hexstr [mask]'',
     SHELL_CMD ''findw'' (Some ''nw'') ''findw_cmd'' 3 ''addr size val1 [val2..valN]'',
     SHELL_CMD ''findh'' (Some ''nh'') ''findh_cmd'' 3 ''addr size val1 [val2..valN]'',
     SHELL_CMD ''dcache'' (Some ''dc'') ''dcache_cmd'' 1 ''w|i|wi [addr size]'',
     SHELL_CMD ''icache'' (Some ''ic'') ''icache_cmd'' 0 ''[addr size]'',
     SHELL_CMD ''disasm'' (Some ''di'') ''disasm_cmd'' 1 ''address [count]'',
     SHELL_CMD_PCTERM ''asm'' None ''asm_cmd'' 1 ''addr [inst]'',
     SHELL_CMD_PCTERM ''disopts'' None ''disopts_cmd'' 0 ''[+opts|-opts]'',
     SHELL_CMD ''memprot'' None ''memprot_cmd'' 1 ''on|off'']"

definition fileio_commands :: "sh_entry list" where
  "fileio_commands =
    [SHELL_CAT ''fileio'',
     SHELL_CMD ''ls'' (Some ''dir'') ''ls_cmd'' 0 ''[path1..pathN]'',
     SHELL_CMD ''chdir'' (Some ''cd'') ''chdir_cmd'' 1 ''path'',
     SHELL_CMD ''cp'' (Some ''copy'') ''cp_cmd'' 2 ''source destination'',
     SHELL_CMD ''mv'' (Some ''move'') ''mv_cmd'' 2 ''source destination'',
     SHELL_CMD ''mkdir'' None ''mkdir_cmd'' 1 ''dir'',
     SHELL_CMD ''rm'' (Some ''del'') ''rm_cmd'' 1 ''file'',
     SHELL_CMD ''rmdir'' (Some ''rd'') ''rmdir_cmd'' 1 ''dir'',
     SHELL_CMD ''rename'' (Some ''ren'') ''rename_cmd'' 2 ''src dst'',
     SHELL_CMD ''remap'' None ''remap_cmd'' 2 ''devfrom: devto:'',
     SHELL_CMD ''pwd'' None ''pwd_cmd'' 0 '''']"

definition debugger_commands :: "sh_entry list" where
  "debugger_commands =
    [SHELL_CAT ''debugger'',
     SHELL_CMD ''exprint'' (Some ''ep'') ''exprint_cmd'' 0 ''[ex]'',
     SHELL_CMD ''exlist'' (Some ''exl'') ''exlist_cmd'' 0 '''',
     SHELL_CMD ''exctx'' (Some ''ecx'') ''exctx_cmd'' 1 ''ex'',
     SHELL_CMD ''exresume'' (Some ''c'') ''exresume_cmd'' 0 ''[addr]'',
     SHELL_CMD ''exprfpu'' (Some ''ef'') ''exprfpu_cmd'' 0 ''[ex]'',
     SHELL_CMD ''exprvfpu'' (Some ''ev'') ''exprvfpu_cmd'' 0 ''[s|c|r|m|e] [ex]'',
     SHELL_CMD ''setreg'' (Some ''str'') ''setreg_cmd'' 2 ''$reg value'',
     SHELL_CMD ''bpset'' (Some ''bp'') ''bpset_cmd'' 1 ''addr [opts]'',
     SHELL_CMD ''bpdel'' (Some ''bc'') ''bpdel_cmd'' 1 ''num|addr'',
     SHELL_CMD ''bpdis'' (Some ''bd'') ''bpdis_cmd'' 1 ''num|addr'',
     SHELL_CMD ''bpena'' (Some ''be'') ''bpena_cmd'' 1 ''num|addr'',
     SHELL_CMD ''bpth'' None ''bpth_cmd'' 1 ''uid|@name'',
     SHELL_CMD ''bpprint'' (Some ''bl'') ''bpprint_cmd'' 0 '''',
     SHELL_CMD ''hwprint'' None ''hwprint_cmd'' 0 '''',
     SHELL_CMD ''step'' (Some ''s'') ''step_cmd'' 0 '''',
     SHELL_CMD ''skip'' (Some ''k'') ''skip_cmd'' 0 '''',
     SHELL_CMD ''call'' None ''call_cmd'' 1 ''addr [arg0...arg5]'']"

definition misc_commands :: "sh_entry list" where
  "misc_commands =
    [SHELL_CAT ''misc'',
     SHELL_CMD ''usbstat'' (Some ''us'') ''usbstat_cmd'' 0 '''',
     SHELL_CMD ''uidlist'' (Some ''ul'') ''uidlist_cmd'' 0 ''[root]'',
     SHELL_CMD ''uidinfo'' (Some ''ui'') ''uidinfo_cmd'' 1 ''uid|@name [parent]'',
     SHELL_CMD ''cop0'' (Some ''c0'') ''cop0_cmd'' 0 '''',
     SHELL_CMD_SHARED ''exit'' (Some ''quit'') ''exit_cmd'' 0 '''',
     SHELL_CMD_PCTERM ''close'' None ''close_cmd'' 0 '''',
     SHELL_CMD ''scrshot'' (Some ''ss'') ''scrshot_cmd'' 1 ''file [pri]'',
     SHELL_CMD ''calc'' None ''calc_cmd'' 1 ''addr [d|o|x]'',
     SHELL_CMD ''reset'' (Some ''r'') ''reset_cmd'' 0 ''[key]'',
     SHELL_CMD ''ver'' (Some ''v'') ''version_cmd'' 0 '''',
     SHELL_CMD ''pspver'' None ''pspver_cmd'' 0 '''',
     SHELL_CMD ''config'' None ''config_cmd'' 0 '''',
     SHELL_CMD ''confset'' None ''confset_cmd'' 1 ''name [value]'',
     SHELL_CMD ''confdel'' None ''confdel_cmd'' 1 ''name'',
     SHELL_CMD ''power'' None ''power_cmd'' 0 '''',
     SHELL_CMD ''poweroff'' None ''poweroff_cmd'' 0 '''',
     SHELL_CMD ''clock'' None ''clock_cmd'' 3 ''cpu ram bus'',
     SHELL_CMD_PCTERM ''tty'' None ''tty_cmd'' 0 '''',
     SHELL_CMD ''tonid'' None ''tonid_cmd'' 1 ''name'',
     SHELL_CMD ''profmode'' None ''profmode_cmd'' 0 ''[t|g|o]'',
     SHELL_CMD ''debugreg'' None ''debugreg_cmd'' 0 ''[val]'',
     SHELL_CMD ''irqs'' None ''irqs_cmd'' 0 ''[intno]'',
     SHELL_CMD ''iena'' None ''iena_cmd'' 2 ''d|e intno [sub]'',
     SHELL_CMD ''irel'' None ''irel_cmd'' 1 ''intno [sub]'',
     SHELL_CMD ''backtrace'' (Some ''bt'') ''backtrace_cmd'' 0 '''',
     SHELL_CMD_PCTERM ''env'' None ''env_cmd'' 0 '''',
     SHELL_CMD_PCTERM ''set'' None ''set_cmd'' 1 ''name=value'',
     SHELL_CMD_PCTERM ''unset'' None ''unset_cmd'' 1 ''name'',
     SHELL_CMD_PCTERM ''echo'' None ''echo_cmd'' 0 ''[args...]'',
     SHELL_CMD_PCTERM ''error'' None ''error_cmd'' 1 ''no'',
     SHELL_CMD_PCTERM ''strlen'' None ''strlen_cmd'' 1 ''str'',
     SHELL_CMD_PSP ''tab'' None ''tab_cmd'' 1 ''dir [file]'',
     SHELL_CMD_SHARED ''symload'' None ''symload_cmd'' 0 ''symload [@module|file]'',
     SHELL_CMD_PCTERM ''help'' (Some ''?'') ''help_cmd'' 0 ''[category|command]'']"

definition SHELL_COMMANDS :: "sh_entry list" where
  "SHELL_COMMANDS = thread_commands @ module_commands @ memory_commands @ fileio_commands
     @ debugger_commands @ misc_commands"

text \<open>A table ends at the entry whose name is the null pointer.\<close>

record sh_command =
  cmd_name :: string
  cmd_syn :: "string option"
  cmd_func :: "string option"
  min_args :: nat
  cmd_help :: "string option"

fun pcterm_table :: "sh_entry list \<Rightarrow> sh_command list" where
  "pcterm_table [] = []"
| "pcterm_table (SHELL_CAT n # es) =
     \<lparr>cmd_name = n, cmd_syn = None, cmd_func = None, min_args = 0, cmd_help = None\<rparr> # pcterm_table es"
| "pcterm_table (SHELL_CMD n s f m h # es) =
     \<lparr>cmd_name = n, cmd_syn = s, cmd_func = None, min_args = m, cmd_help = Some h\<rparr> # pcterm_table es"
| "pcterm_table (SHELL_CMD_SHARED n s f m h # es) =
     \<lparr>cmd_name = n, cmd_syn = s, cmd_func = Some f, min_args = m, cmd_help = Some h\<rparr> # pcterm_table es"
| "pcterm_table (SHELL_CMD_PCTERM n s f m h # es) =
     \<lparr>cmd_name = n, cmd_syn = s, cmd_func = Some f, min_args = m, cmd_help = Some h\<rparr> # pcterm_table es"
| "pcterm_table (SHELL_CMD_PSP n s f m h # es) = pcterm_table es"

text \<open>The PSP keeps no usage.\<close>

fun psp_table :: "sh_entry list \<Rightarrow> sh_command list" where
  "psp_table [] = []"
| "psp_table (SHELL_CAT n # es) = psp_table es"
| "psp_table (SHELL_CMD n s f m h # es) =
     \<lparr>cmd_name = n, cmd_syn = s, cmd_func = Some f, min_args = m, cmd_help = None\<rparr> # psp_table es"
| "psp_table (SHELL_CMD_SHARED n s f m h # es) =
     \<lparr>cmd_name = n, cmd_syn = s, cmd_func = Some f, min_args = m, cmd_help = None\<rparr> # psp_table es"
| "psp_table (SHELL_CMD_PCTERM n s f m h # es) = psp_table es"
| "psp_table (SHELL_CMD_PSP n s f m h # es) =
     \<lparr>cmd_name = n, cmd_syn = s, cmd_func = Some f, min_args = m, cmd_help = None\<rparr> # psp_table es"

definition g_commands :: "sh_command list" where
  "g_commands = pcterm_table SHELL_COMMANDS"

definition psp_commands :: "sh_command list" where
  "psp_commands = psp_table SHELL_COMMANDS"

text \<open>The first command of that name or synonym; both sides have the same function.\<close>

fun find_command :: "sh_command list \<Rightarrow> string \<Rightarrow> sh_command option" where
  "find_command [] cmd = None"
| "find_command (c # cs) cmd =
     (if cmd = cmd_name c then Some c
      else if cmd_syn c = Some cmd then Some c
      else find_command cs cmd)"

section \<open>The two tables\<close>

definition entry_names :: "sh_command \<Rightarrow> string list" where
  "entry_names c = cmd_name c # (case cmd_syn c of None \<Rightarrow> [] | Some s \<Rightarrow> [s])"

fun entry_kind :: "sh_entry \<Rightarrow> nat" where
  "entry_kind (SHELL_CAT n) = 0"
| "entry_kind (SHELL_CMD n s f m h) = 1"
| "entry_kind (SHELL_CMD_SHARED n s f m h) = 1"
| "entry_kind (SHELL_CMD_PCTERM n s f m h) = 0"
| "entry_kind (SHELL_CMD_PSP n s f m h) = 2"

definition entry_side :: "nat \<Rightarrow> sh_entry list \<Rightarrow> sh_entry list" where
  "entry_side k es = filter (\<lambda>e. entry_kind e = k) es"

definition side_names :: "nat \<Rightarrow> sh_entry list \<Rightarrow> string list" where
  "side_names k es = concat (map entry_names (pcterm_table (entry_side k es) @ psp_table (entry_side k es)))"

definition same_command :: "sh_command \<Rightarrow> sh_command \<Rightarrow> bool" where
  "same_command a b \<longleftrightarrow> cmd_name a = cmd_name b \<and> cmd_syn a = cmd_syn b \<and> min_args a = min_args b"

lemma find_command_sides:
  assumes "n \<notin> set (side_names 0 es)" and "n \<notin> set (side_names 2 es)"
  shows "rel_option same_command (find_command (pcterm_table es) n) (find_command (psp_table es) n)"
  using assms
proof (induction es)
  case Nil
  then show ?case by simp
next
  case (Cons e es)
  then show ?case
    by (cases e) (auto simp: side_names_def entry_side_def entry_names_def same_command_def split: option.splits if_splits)
qed

text \<open>The commands of the terminal that are none of the PSP, and the reverse.\<close>

definition local_names :: "string list" where
  "local_names = [''thread'', ''module'', ''asm'', ''disopts'', ''memory'', ''fileio'', ''debugger'', ''misc'', ''close'',
     ''tty'', ''env'', ''set'', ''unset'', ''echo'', ''error'', ''strlen'', ''help'', ''?'']"

lemma local_names_side: "list_all (\<lambda>n. List.member local_names n) (side_names 0 SHELL_COMMANDS)"
  by code_simp

lemma psp_names_side: "side_names 2 SHELL_COMMANDS = [''tab'']"
  by code_simp

lemma local_not_psp1: "list_all (\<lambda>n. find_command psp_commands n = None) (take 6 local_names)"
  by code_simp

lemma local_not_psp2: "list_all (\<lambda>n. find_command psp_commands n = None) (take 6 (drop 6 local_names))"
  by code_simp

lemma local_not_psp3: "list_all (\<lambda>n. find_command psp_commands n = None) (drop 12 local_names)"
  by code_simp

lemma local_not_psp: "n \<in> set local_names \<Longrightarrow> find_command psp_commands n = None"
proof -
  assume n: "n \<in> set local_names"
  have "local_names = take 6 local_names @ take 6 (drop 6 local_names) @ drop 12 local_names"
    by (simp add: local_names_def)
  then have "list_all (\<lambda>n. find_command psp_commands n = None) local_names"
    using local_not_psp1 local_not_psp2 local_not_psp3 by (metis list_all_append)
  with n show ?thesis by (simp add: list_all_iff)
qed

lemma tab_not_pcterm: "find_command g_commands ''tab'' = None"
  by code_simp


end
