(* ===== verification/Pspsh.thy ===== *)
theory Pspsh
  imports ParseArgs ShellCommands PspErrors
begin

text \<open>
  The terminal on the PC (\<^verbatim>\<open>pspsh/pspsh.C\<close>): the commands it handles itself, the execution of a line,
  scripts, and the answers of the PSP. The global context is the state; what is written to the socket
  of the PSP, to that of its standard input and to the screen is kept in it.
\<close>

section \<open>The context\<close>

text \<open>What \<^verbatim>\<open>write\<close> does on a socket.\<close>

datatype wrote = Wrote nat | Interrupted | Broken

datatype shown =
    Stdout string
  | Stderr string
  | Redirected string string
  | Warn_Redirect string
  | Help_Categories
  | Help_Category string "string list"
  | Help_Command sh_command
  | Help_Unknown string
  | Unknown_Command string
  | Usage string
  | No_Help string
  | Show_Environment
  | Show_Options "char \<Rightarrow> bool"
  | Unknown_Option char
  | Tab_Mismatch string
  | Bad_Disasm string
  | Symbol_Load string string string
  | Ran string
  | Changed_Dir string

record pspsh =
  px_exit :: bool
  px_sock :: bool
  px_outsock :: bool
  px_script :: bool
  px_exec :: string
  px_currpath :: string
  px_currcmd :: string
  px_fredir :: "string option"
  px_fscript :: "string option"
  px_sargc :: int
  px_sargv :: "string option list option"
  px_env :: "string \<Rightarrow> string option"
  px_lasterr :: bool
  px_asmmode :: bool
  px_asmaddr :: u32
  px_ttymode :: bool
  px_disopts :: "char \<Rightarrow> bool"
  px_net :: "wrote list"
  px_sent :: string
  px_stdin :: string
  px_shown :: "shown list"
  px_prompt :: string

text \<open>
  The surroundings: which files can be opened for a redirection, the text of a script file, the names
  the C library gives its errors, the assembler and the disassembler.
\<close>

record penv =
  pe_append :: "string \<Rightarrow> bool"
  pe_create :: "string \<Rightarrow> bool"
  pe_file :: "string \<Rightarrow> string option"
  pe_stdin :: string
  pe_strerror :: "u32 \<Rightarrow> string"
  pe_assemble :: "string \<Rightarrow> u32 \<Rightarrow> u32 option"
  pe_disasm :: "(char \<Rightarrow> bool) \<Rightarrow> u32 \<Rightarrow> u32 \<Rightarrow> string"

definition show_text :: "shown \<Rightarrow> pspsh \<Rightarrow> pspsh" where
  "show_text t s = s\<lparr>px_shown := px_shown s @ [t]\<rparr>"

definition put_env :: "string \<Rightarrow> string \<Rightarrow> pspsh \<Rightarrow> pspsh" where
  "put_env name val s = s\<lparr>px_env := (px_env s)(name := Some val)\<rparr>"

definition lookups_of :: "pspsh \<Rightarrow> lookups" where
  "lookups_of s = \<lparr>sargc = px_sargc s, sargv = px_sargv s, getenv = px_env s\<rparr>"

section \<open>Sending a line\<close>

text \<open>What was sent, whether all of it was, and the results of later writes.\<close>

fun sh_fixed_write :: "wrote list \<Rightarrow> string \<Rightarrow> string \<times> bool \<times> wrote list" where
  "sh_fixed_write [] buf = (buf, True, [])"
| "sh_fixed_write (r # rs) buf =
     (if buf = [] then ([], True, r # rs)
      else case r of
        Interrupted \<Rightarrow> sh_fixed_write rs buf
      | Broken \<Rightarrow> ([], False, rs)
      | Wrote n \<Rightarrow> (case sh_fixed_write rs (drop n buf) of (out, ok, net) \<Rightarrow> (take n buf @ out, ok, net)))"

text \<open>The end of \<^verbatim>\<open>execute_line\<close>: the redirection is opened and the bytes of the command are sent.\<close>

definition open_redir :: "penv \<Rightarrow> cli \<Rightarrow> pspsh \<Rightarrow> pspsh" where
  "open_redir e c s =
     (if cli_type c = REDIR_TYPE_NONE then s
      else if (if cli_type c = REDIR_TYPE_NEW then pe_create e (cli_redir c) else pe_append e (cli_redir c))
        then s\<lparr>px_fredir := Some (cli_redir c)\<rparr>
        else show_text (Warn_Redirect (cli_redir c)) (s\<lparr>px_fredir := None\<rparr>))"

definition send_line :: "penv \<Rightarrow> cli \<Rightarrow> string \<Rightarrow> pspsh \<Rightarrow> int \<times> pspsh" where
  "send_line e c args s =
     (let s1 = open_redir e c s in
      case (if px_sock s1 then sh_fixed_write (px_net s1) args else ([], False, px_net s1)) of
        (out, ok, net) \<Rightarrow>
          (let s2 = s1\<lparr>px_sent := px_sent s1 @ out, px_net := net\<rparr>
           in if \<not> ok then (-1, s2\<lparr>px_sock := False\<rparr>)
              else (1, s2\<lparr>px_currcmd := takeWhile (\<lambda>x. x \<noteq> CHR 0x00) args\<rparr>)))"

section \<open>Commands of the terminal\<close>

text \<open>\<^verbatim>\<open>disasmSetOpts\<close> of \<^verbatim>\<open>disasm.C\<close>: the letters of the options with a sign before them.\<close>

definition DISASM_OPTS :: string where "DISASM_OPTS = ''xrsmpgwd''"

fun set_opts :: "bool \<Rightarrow> string \<Rightarrow> pspsh \<Rightarrow> pspsh" where
  "set_opts on [] s = s"
| "set_opts on (c # cs) s =
     (if c = CHR ''+'' then set_opts True cs s
      else if c = CHR ''-'' then set_opts False cs s
      else if c \<in> set DISASM_OPTS then set_opts on cs (s\<lparr>px_disopts := (px_disopts s)(c := on)\<rparr>)
      else set_opts on cs (show_text (Unknown_Option c) s))"

definition disopts_cmd :: "string list \<Rightarrow> pspsh \<Rightarrow> pspsh" where
  "disopts_cmd args s = (case args of [] \<Rightarrow> show_text (Show_Options (px_disopts s)) s | a # _ \<Rightarrow> set_opts True a s)"

text \<open>The commands listed under a category, up to the next category.\<close>

definition category :: "string \<Rightarrow> string list" where
  "category cmd = map cmd_name (takeWhile (\<lambda>k. cmd_help k \<noteq> None)
     (drop 1 (dropWhile (\<lambda>k. \<not> (cmd = cmd_name k \<or> cmd_syn k = Some cmd)) g_commands)))"

definition help_cmd :: "string list \<Rightarrow> pspsh \<Rightarrow> pspsh" where
  "help_cmd args s =
     (case args of
        [] \<Rightarrow> show_text Help_Categories s
      | a # _ \<Rightarrow> (case find_command g_commands a of
           None \<Rightarrow> show_text (Help_Unknown a) s
         | Some k \<Rightarrow> if cmd_help k = None then show_text (Help_Category (cmd_name k) (category a)) s
                     else show_text (Help_Command k) s))"

definition isalpha :: "char \<Rightarrow> bool" where
  "isalpha c \<longleftrightarrow> (65 \<le> code c \<and> code c \<le> 90) \<or> (97 \<le> code c \<and> code c \<le> 122)"

text \<open>
  A name with a character that is neither letter nor digit is reported, and set all the same: the
  \<^verbatim>\<open>break\<close> leaves only the loop over the name.
\<close>

definition set_cmd :: "string \<Rightarrow> pspsh \<Rightarrow> pspsh" where
  "set_cmd arg s =
     (if CHR ''='' \<notin> set arg then show_text (Stdout ''Error, no value specified'') s
      else let name = takeWhile (\<lambda>x. x \<noteq> CHR ''='') arg;
               val = tl (dropWhile (\<lambda>x. x \<noteq> CHR ''='') arg)
        in if name = [] then show_text (Stdout ''Error, no name specified'') s
           else if \<not> isalpha (hd name)
             then show_text (Stdout ''Error, variable names must start with a letter'') s
           else put_env name val
             (if list_all (\<lambda>c. isalpha c \<or> isdigit c) name then s
              else show_text (Stdout ''Error, variable names must be alphanumeric'') s))"

definition unset_cmd :: "string \<Rightarrow> pspsh \<Rightarrow> pspsh" where
  "unset_cmd arg s = s\<lparr>px_env := (px_env s)(arg := None)\<rparr>"

definition strlen_cmd :: "string \<Rightarrow> pspsh \<Rightarrow> pspsh" where
  "strlen_cmd arg s = put_env ''?'' (print_dec (length arg)) s"

fun echo_text :: "string list \<Rightarrow> string" where
  "echo_text [] = [CHR 0x0A]"
| "echo_text [a] = a @ [CHR 0x0A]"
| "echo_text (a # b # as) = a @ '' '' @ echo_text (b # as)"

text \<open>\<^verbatim>\<open>error\<close>: the number is an \<^verbatim>\<open>unsigned int\<close>.\<close>

definition error_cmd :: "penv \<Rightarrow> string \<Rightarrow> pspsh \<Rightarrow> pspsh" where
  "error_cmd e arg s =
     (let err = (of_nat (fst (strtoul 64 0 arg)) :: u32);
          facility = drop_bit 16 err;
          unknown = show_text (Stdout (''Unknown error code 0x'' @ fmt_08X err)) s
      in if facility = 0x8002 then
           (case error_name PspKernelErrorCodes err of
              Some n \<Rightarrow> show_text (Stdout (''Error: '' @ n)) s | None \<Rightarrow> unknown)
         else if facility = 0x8001 then show_text (Stdout (''Error: '' @ pe_strerror e (err AND 0xFFFF))) s
         else unknown)"

text \<open>The words of a \<^verbatim>\<open>pokew\<close> written behind \<open>cmd\<close>, \<open>None\<close> when one does not assemble.\<close>

fun asm_words :: "penv \<Rightarrow> string \<Rightarrow> string list \<Rightarrow> string option run" where
  "asm_words e cmd [] = Inr (Some cmd)"
| "asm_words e cmd (a # as) =
     (case pe_assemble e a 0 of
        None \<Rightarrow> Inr None
      | Some opcode \<Rightarrow>
          (let cmd' = cmd @ ''0x'' @ fmt_08X opcode @ '' '' in
           if 1024 \<le> length cmd' then Inl Buffer_Overflow else asm_words e cmd' as))"

definition asm_cmd :: "(string \<Rightarrow> pspsh \<Rightarrow> (int \<times> pspsh) run) \<Rightarrow> penv \<Rightarrow> string \<Rightarrow> string list \<Rightarrow> pspsh \<Rightarrow> pspsh run" where
  "asm_cmd exec e a0 as s =
     (if as \<noteq> [] then
        (case asm_words e (fst (snprintf 1024 (''pokew '' @ [CHR 0x27] @ a0 @ [CHR 0x27] @ '' ''))) as of
           Inl f \<Rightarrow> Inl f
         | Inr None \<Rightarrow> Inr s
         | Inr (Some cmd) \<Rightarrow> map_sum id snd (exec cmd s))
      else map_sum id (\<lambda>(r, s'). s'\<lparr>px_asmmode := True, px_asmaddr := 0\<rparr>)
        (exec (fst (snprintf 1024 (''calc '' @ [CHR 0x27] @ a0 @ [CHR 0x27]))) s))"

text \<open>
  A function of the table: whether the line is sent to the PSP as well. The null pointer behind the
  last argument is \<open>Bad_Pointer\<close> for those that take one.
\<close>

definition with_arg :: "string list \<Rightarrow> (string \<Rightarrow> pspsh) \<Rightarrow> (bool \<times> pspsh) run" where
  "with_arg args f = (case args of [] \<Rightarrow> Inl Bad_Pointer | a # _ \<Rightarrow> Inr (False, f a))"

definition local_cmd ::
  "(string \<Rightarrow> pspsh \<Rightarrow> (int \<times> pspsh) run) \<Rightarrow> penv \<Rightarrow> string \<Rightarrow> string list \<Rightarrow> pspsh \<Rightarrow> (bool \<times> pspsh) run" where
  "local_cmd exec e f args s =
     (if f = ''exit_cmd'' then Inr (True, s\<lparr>px_exit := True\<rparr>)
      else if f = ''symload_cmd'' then
        Inr (args = [] \<or> hd args \<noteq> [] \<and> hd (hd args) = CHR ''@'', s)
      else if f = ''close_cmd'' then
        Inr (False, s\<lparr>px_exit := True, px_prompt := if px_script s then px_prompt s else []\<rparr>)
      else if f = ''tty_cmd'' then Inr (False, s\<lparr>px_ttymode := True, px_prompt := []\<rparr>)
      else if f = ''help_cmd'' then Inr (False, help_cmd args s)
      else if f = ''echo_cmd'' then Inr (False, show_text (Stdout (echo_text args)) s)
      else if f = ''env_cmd'' then Inr (False, show_text Show_Environment s)
      else if f = ''disopts_cmd'' then Inr (False, disopts_cmd args s)
      else if f = ''set_cmd'' then with_arg args (\<lambda>a. set_cmd a s)
      else if f = ''unset_cmd'' then with_arg args (\<lambda>a. unset_cmd a s)
      else if f = ''strlen_cmd'' then with_arg args (\<lambda>a. strlen_cmd a s)
      else if f = ''error_cmd'' then with_arg args (\<lambda>a. error_cmd e a s)
      else (case args of
          [] \<Rightarrow> Inl Bad_Pointer
        | a # as \<Rightarrow> map_sum id (\<lambda>s'. (False, s')) (asm_cmd exec e a as s)))"

section \<open>Executing a line\<close>

definition execute_line_with ::
  "(string \<Rightarrow> string list \<Rightarrow> pspsh \<Rightarrow> (bool \<times> pspsh) run) \<Rightarrow> penv \<Rightarrow> string \<Rightarrow> pspsh \<Rightarrow> (int \<times> pspsh) run" where
  "execute_line_with handle e buf s =
     (if buf = [] then Inr (0, s)
      else case parse_cli (lookups_of s) 4096 PATH_MAX 16 buf of
        Inl f \<Rightarrow> Inl f
      | Inr (binlen, c) \<Rightarrow>
          (let send = (\<lambda>args s'. send_line e c args (if px_script s' then s' else s'\<lparr>px_prompt := []\<rparr>)) in
           if binlen = 0 \<or> hd (cli_out c) = CHR ''#'' then Inr (0, s)
           else case cli_argv c of
             [] \<Rightarrow> Inl Bad_Pointer
           | cmd # args \<Rightarrow>
               if CHR ''.'' \<in> set cmd \<or> CHR ''/'' \<in> set cmd then
                 (if 4096 < binlen + 3 then Inl Buffer_Overflow
                  else Inr (send (''ld'' @ [CHR 0x00] @ cli_out c) s))
               else
                 (case Option.bind (find_command g_commands cmd) cmd_func of
                    None \<Rightarrow> Inr (send (cli_out c) s)
                  | Some f \<Rightarrow>
                      if length args < min_args (the (find_command g_commands cmd))
                      then Inr (0, help_cmd (cmd # args) s)
                      else (case handle f args s of
                          Inl ft \<Rightarrow> Inl ft
                        | Inr (go, s') \<Rightarrow> if go then Inr (send (cli_out c) s') else Inr (0, s')))))"

text \<open>
  \<^verbatim>\<open>asm\<close> executes a line of its own, so the recursion is bounded by a number of levels.
\<close>

primrec exec_line :: "nat \<Rightarrow> penv \<Rightarrow> string \<Rightarrow> pspsh \<Rightarrow> (int \<times> pspsh) run" where
  "exec_line 0 e buf s = Inl No_Return"
| "exec_line (Suc n) e buf s = execute_line_with (local_cmd (exec_line n e) e) e buf s"

definition execute_line :: "penv \<Rightarrow> string \<Rightarrow> pspsh \<Rightarrow> (int \<times> pspsh) run" where
  "execute_line e buf s = exec_line 2 e buf s"

section \<open>Scripts\<close>

definition close_script :: "pspsh \<Rightarrow> pspsh" where
  "close_script s = s\<lparr>px_fscript := None, px_sargv := None, px_sargc := 0, px_exit := px_script s \<or> px_exit s\<rparr>"

definition open_script :: "penv \<Rightarrow> string \<Rightarrow> string list \<Rightarrow> pspsh \<Rightarrow> bool \<times> pspsh" where
  "open_script e file args s =
     (let s1 = close_script s in
      case (if file = ''-'' then Some (pe_stdin e) else pe_file e file) of
        None \<Rightarrow> (False, close_script (show_text (Stderr (''Could not open script file '' @ file)) s1))
      | Some text \<Rightarrow>
          (True, if args = [] then s1\<lparr>px_fscript := Some text\<rparr>
             else s1\<lparr>px_fscript := Some text, px_sargv := Some (map Some args), px_sargc := int (length args)\<rparr>))"

definition in_script :: "pspsh \<Rightarrow> bool" where
  "in_script s \<longleftrightarrow> px_exec s \<noteq> [] \<or> px_fscript s \<noteq> None"

text \<open>\<^verbatim>\<open>fgets\<close> into \<^verbatim>\<open>char line[1024]\<close>: at most 1023 characters, up to the end of the line; \<open>n\<close> are left.\<close>

fun fgets_up_to :: "nat \<Rightarrow> string \<Rightarrow> string \<times> string" where
  "fgets_up_to 0 s = ([], s)"
| "fgets_up_to (Suc n) [] = ([], [])"
| "fgets_up_to (Suc n) (c # s) =
     (if c = CHR 0x0A then ([c], s) else (case fgets_up_to n s of (l, r) \<Rightarrow> (c # l, r)))"

definition fgets_line :: "string \<Rightarrow> (string \<times> string) option" where
  "fgets_line text = (if text = [] then None else Some (fgets_up_to 1023 text))"

lemma fgets_up_to_append: "fgets_up_to n s = (l, r) \<Longrightarrow> l @ r = s"
  by (induction n s arbitrary: l rule: fgets_up_to.induct) (auto split: if_splits prod.splits)

lemma fgets_up_to_nonempty: "n > 0 \<Longrightarrow> s \<noteq> [] \<Longrightarrow> fst (fgets_up_to n s) \<noteq> []"
  by (cases n; cases s) (auto split: prod.splits)

lemma fgets_line_shorter: "fgets_line text = Some (l, r) \<Longrightarrow> length r < length text"
proof -
  assume a: "fgets_line text = Some (l, r)"
  then have f: "text \<noteq> []" "fgets_up_to 1023 text = (l, r)" by (auto simp: fgets_line_def split: if_splits)
  have "l @ r = text" using f(2) by (rule fgets_up_to_append)
  moreover have "l \<noteq> []" using fgets_up_to_nonempty [of 1023 "text"] f by simp
  ultimately show ?thesis by auto
qed

text \<open>The loop over the lines of a script, up to the first that is sent.\<close>

function script_loop :: "penv \<Rightarrow> string \<Rightarrow> pspsh \<Rightarrow> (int \<times> pspsh) run" where
  "script_loop e text s =
     (case fgets_line text of
        None \<Rightarrow> Inr (0, close_script s)
      | Some (line, rest) \<Rightarrow>
          (case execute_line e (takeWhile (\<lambda>x. x \<noteq> CHR 0x00) line) (s\<lparr>px_fscript := Some rest\<rparr>) of
             Inl f \<Rightarrow> Inl f
           | Inr (ret, s') \<Rightarrow>
               if ret < 0 then Inr (-1, s') else if ret > 0 then Inr (1, s') else script_loop e rest s'))"
  by pat_completeness auto
termination
  by (relation "measure (\<lambda>(e, text, s). length text)") (auto dest: fgets_line_shorter)

declare script_loop.simps [simp del]

definition execute_script_line :: "penv \<Rightarrow> pspsh \<Rightarrow> (int \<times> pspsh) run" where
  "execute_script_line e s =
     (if px_exec s \<noteq> [] then
        (case execute_line e (px_exec s) s of
           Inl f \<Rightarrow> Inl f
         | Inr (ret, s1) \<Rightarrow>
             (let s2 = s1\<lparr>px_exec := '' ''\<rparr> in
              if ret < 0 then Inr (-1, s2) else if ret > 0 then Inr (1, s2) else Inr (0, close_script s2)))
      else (case px_fscript s of None \<Rightarrow> Inr (0, s) | Some text \<Rightarrow> script_loop e text s))"

definition execute_script :: "penv \<Rightarrow> string \<Rightarrow> pspsh \<Rightarrow> (int \<times> pspsh) run" where
  "execute_script e cmd s =
     (if cmd = [] then Inr (0, s)
      else case parse_cli \<lparr>sargc = 0, sargv = None, getenv = px_env s\<rparr> 4096 PATH_MAX 16 cmd of
        Inl f \<Rightarrow> Inl f
      | Inr (binlen, c) \<Rightarrow>
          if binlen = 0 then Inr (0, s)
          else case cli_argv c of
            [] \<Rightarrow> Inl Bad_Pointer
          | file # args \<Rightarrow>
              (case open_script e file (file # args) s of
                 (ok, s1) \<Rightarrow> if \<not> ok then Inr (0, s1)
                   else map_sum id (\<lambda>(r, s2). (if r > 0 then 1 else 0, s2)) (execute_script_line e s1)))"

section \<open>A line typed by the user\<close>

definition path_prompt :: "pspsh \<Rightarrow> pspsh" where
  "path_prompt s = s\<lparr>px_prompt := fst (snprintf PATH_MAX (px_currpath s @ ''> ''))\<rparr>"

definition starts_with :: "string \<Rightarrow> string \<Rightarrow> bool" where
  "starts_with pre s \<longleftrightarrow> take (length pre) s = pre"

text \<open>The connection for the commands of the file server is never made, so \<^verbatim>\<open>@\<close> has no effect.\<close>

definition cli_handler :: "penv \<Rightarrow> string \<Rightarrow> pspsh \<Rightarrow> pspsh run" where
  "cli_handler e buf s =
     (if px_ttymode s then
        (if starts_with ''~.'' buf then Inr (path_prompt (s\<lparr>px_ttymode := False\<rparr>))
         else if px_outsock s then
           Inr (s\<lparr>px_stdin := px_stdin s @ fst (snprintf 1024 (buf @ [CHR 0x0A]))\<rparr>)
         else Inr s)
      else (let b = skip_space buf in
        if b = [] then
          Inr (if px_asmmode s then path_prompt (s\<lparr>px_asmmode := False, px_asmaddr := 0\<rparr>) else s)
        else if in_script s then Inr (if b = ''stop'' then close_script s else s)
        else if px_asmmode s then
          (case pe_assemble e b (px_asmaddr s) of
             None \<Rightarrow> Inr s
           | Some opcode \<Rightarrow>
               map_sum id snd (execute_line e
                 (''pokew 0x'' @ fmt_08X (px_asmaddr s) @ '' 0x'' @ fmt_08X opcode @ '' '') s))
        else if hd b = CHR ''!'' then
          Inr (if starts_with ''cd '' (tl b) then show_text (Changed_Dir (drop 4 b)) s
               else show_text (Ran (tl b)) s)
        else if hd b = CHR ''@'' then Inr s
        else if hd b = CHR ''%'' then map_sum id snd (execute_script e (tl b) s)
        else map_sum id snd (execute_line e b s)))"

section \<open>Answers of the PSP\<close>


text \<open>The end of a command: what is reported of a failed one, and the next line of a script or a prompt.\<close>

definition report_error :: "pspsh \<Rightarrow> pspsh" where
  "report_error s =
     (let s1 = (if px_currcmd s = [] then s
        else case find_command g_commands (px_currcmd s) of
            None \<Rightarrow> show_text (Unknown_Command (px_currcmd s)) s
          | Some k \<Rightarrow> (case cmd_help k of
              Some h \<Rightarrow> show_text (Usage h) s | None \<Rightarrow> show_text (No_Help (px_currcmd s)) s));
          s2 = (if in_script s1 then close_script s1 else s1)
      in s2\<lparr>px_lasterr := True\<rparr>)"

definition next_asmaddr :: "string \<Rightarrow> u32 \<Rightarrow> u32" where
  "next_asmaddr val addr = (if addr = 0 then of_nat (fst (strtoul 64 0 val)) else addr + 4)"

definition command_done :: "penv \<Rightarrow> bool \<Rightarrow> string \<Rightarrow> pspsh \<Rightarrow> pspsh run" where
  "command_done e failed val s =
     (let s1 = (if failed then report_error s else s\<lparr>px_lasterr := False\<rparr>);
          s2 = (put_env ''?'' val s1)\<lparr>px_currcmd := [], px_fredir := None\<rparr>
      in case execute_script_line e s2 of
           Inl f \<Rightarrow> Inl f
         | Inr (r, s3) \<Rightarrow>
             if r \<le> 0 \<and> \<not> px_script s3 then
               Inr (if px_asmmode s3 then
                   (let a = next_asmaddr val (px_asmaddr s3) in
                    s3\<lparr>px_asmaddr := a, px_prompt := ''asm:0x'' @ fmt_08X a @ ''> ''\<rparr>)
                 else path_prompt (s3\<lparr>px_ttymode := False\<rparr>))
             else Inr s3)"

definition process_cmd :: "penv \<Rightarrow> string \<Rightarrow> pspsh \<Rightarrow> pspsh run" where
  "process_cmd e str s =
     (let c = (if str = [] then CHR 0x00 else hd str); arg = tl str in
      if code c < 128 then
        Inr (case px_fredir s of
            Some f \<Rightarrow> show_text (Redirected f str) s | None \<Rightarrow> show_text (Stdout str) s)
      else if c = SHELL_CMD_CWD then
        (let path = fst (snprintf PATH_MAX arg) in Inr (put_env ''PSPPWD'' path (s\<lparr>px_currpath := path\<rparr>)))
      else if c = SHELL_CMD_SUCCESS \<or> c = SHELL_CMD_ERROR then command_done e (c = SHELL_CMD_ERROR) arg s
      else if c = SHELL_CMD_TAB then Inr (show_text (Tab_Mismatch arg) s)
      else if c = SHELL_CMD_DISASM then
        (case strtoul 64 16 arg of
           (addr, endp) \<Rightarrow>
             if endp = [] \<or> hd endp \<noteq> CHR '':'' then Inr (show_text (Bad_Disasm arg) s)
             else Inr (show_text (Stdout (pe_disasm e (px_disopts s) (of_nat (fst (strtoul 64 16 (tl endp)))) (of_nat addr)
                    @ [CHR 0x0A])) s))
      else if c = SHELL_CMD_SYMLOAD then
        Inr (if length arg > 48
          then show_text (Symbol_Load (drop 48 arg) (take 8 (drop 40 arg)) (take 40 arg)) s else s)
      else Inr s)"

text \<open>
  The reader of the socket. \<open>Some acc\<close> is a frame of which \<open>acc\<close> has arrived, \<open>None\<close> is between frames
  (position 0 of the static buffer of 16 KB).
\<close>

definition LINE_MAX :: nat where "LINE_MAX = 16 * 1024"

fun read_frames :: "penv \<Rightarrow> string \<Rightarrow> string option \<Rightarrow> pspsh \<Rightarrow> (string option \<times> pspsh) run" where
  "read_frames e [] fr s = Inr (fr, s)"
| "read_frames e (c # cs) fr s =
     (if c = SHELL_CMD_BEGIN then read_frames e cs (Some []) s
      else case fr of
        None \<Rightarrow> read_frames e cs None s
      | Some acc \<Rightarrow>
          if c = SHELL_CMD_END then
            (if acc = [] then read_frames e cs (Some []) s
             else if LINE_MAX \<le> length acc then Inl Buffer_Overflow
             else case process_cmd e acc s of
               Inl f \<Rightarrow> Inl f
             | Inr s' \<Rightarrow> read_frames e cs None s')
          else if LINE_MAX \<le> length acc then Inl Buffer_Overflow
          else read_frames e cs (Some (acc @ [c])) s)"

text \<open>What one \<^verbatim>\<open>read\<close> returned, which is taken as a string.\<close>

definition read_socket :: "penv \<Rightarrow> string \<Rightarrow> string option \<Rightarrow> pspsh \<Rightarrow> (string option \<times> pspsh) run" where
  "read_socket e chunk fr s = read_frames e (takeWhile (\<lambda>x. x \<noteq> CHR 0x00) chunk) fr s"

end
