(* ===== verification/UsbShell.thy ===== *)
theory UsbShell
  imports ShellCommands
begin

text \<open>
  The shell of the PSP: the reader of a command (\<^verbatim>\<open>psplink/usbshell.c\<close>), its execution and the thread
  that answers (\<^verbatim>\<open>psplink/shell.c\<close>), and the printing of an answer in blocks. The functions of the
  commands are a parameter, as is the formatting done by \<^verbatim>\<open>prnt\<close> of the kernel, which hands its text
  to the callback of this file character by character.
\<close>

section \<open>Reading a command\<close>

definition MAX_CLI :: nat where "MAX_CLI = 4096"

text \<open>The array of the thread, the position in it, the start of the next argument and the arguments.\<close>

record shinput =
  si_cli :: string
  si_pos :: nat
  si_argstart :: nat
  si_argv :: "nat list"

text \<open>
  The loop over the bytes of the channel. \<open>None\<close>: the command is not complete and the thread waits.
  The bytes after the command stay in the channel.
\<close>

fun read_input :: "nat \<Rightarrow> nat \<Rightarrow> string \<Rightarrow> shinput \<Rightarrow> (shinput \<times> string) option" where
  "read_input max_cli max_arg [] st = None"
| "read_input max_cli max_arg (c # cs) st =
     (if c = CHR 0x01 then Some (st\<lparr>si_cli := (si_cli st)[si_pos st := CHR 0x00]\<rparr>, cs)
      else (let st1 = st\<lparr>si_cli := (si_cli st)[si_pos st := c]\<rparr> in
        read_input max_cli max_arg cs
          (if si_pos st < max_cli - 1 then
             (let st2 = (if c = CHR 0x00 \<and> length (si_argv st) < max_arg
                 then st1\<lparr>si_argv := si_argv st @ [si_argstart st], si_argstart := si_pos st + 1\<rparr> else st1)
              in st2\<lparr>si_pos := si_pos st + 1\<rparr>)
           else st1)))"

definition usbShellReadInput :: "string \<Rightarrow> nat \<Rightarrow> nat \<Rightarrow> string \<Rightarrow> (shinput \<times> string) option" where
  "usbShellReadInput cli max_cli max_arg chan =
     read_input max_cli max_arg chan \<lparr>si_cli = cli, si_pos = 0, si_argstart = 0, si_argv = []\<rparr>"

text \<open>The string an argument points to.\<close>

definition arg_at :: "string \<Rightarrow> nat \<Rightarrow> string" where
  "arg_at cli p = takeWhile (\<lambda>c. c \<noteq> CHR 0x00) (drop p cli)"

definition argv_of :: "shinput \<Rightarrow> string list" where
  "argv_of st = map (arg_at (si_cli st)) (si_argv st)"

section \<open>Printing\<close>

definition CTX_BUF_SIZE :: nat where "CTX_BUF_SIZE = 128"

text \<open>The calls of the callback: \<^verbatim>\<open>0x200\<close>, a character, \<^verbatim>\<open>0x201\<close>.\<close>

datatype prnt_event = Begin | Char char | End

text \<open>The buffer and the blocks written to the channel.\<close>

record prnt_ctx =
  pc_buf :: string
  pc_out :: "string list"

definition cb_put :: "char \<Rightarrow> prnt_ctx \<Rightarrow> prnt_ctx" where
  "cb_put c ctx =
     (let b = pc_buf ctx @ [c] in
      if length b = CTX_BUF_SIZE then ctx\<lparr>pc_buf := [], pc_out := pc_out ctx @ [b]\<rparr>
      else ctx\<lparr>pc_buf := b\<rparr>)"

fun cb :: "prnt_ctx \<Rightarrow> prnt_event \<Rightarrow> prnt_ctx" where
  "cb ctx Begin = ctx\<lparr>pc_buf := []\<rparr>"
| "cb ctx End = ctx\<lparr>pc_buf := [], pc_out := pc_out ctx @ [pc_buf ctx]\<rparr>"
| "cb ctx (Char c) = cb_put c (if c = CHR 0x0A then cb_put (CHR 0x0D) ctx else ctx)"

text \<open>The blocks a formatted text is written in.\<close>

definition shprintf :: "string \<Rightarrow> string list" where
  "shprintf txt = pc_out (fold (\<lambda>ev ctx. cb ctx ev) (Begin # map Char txt @ [End]) \<lparr>pc_buf = [], pc_out = []\<rparr>)"

definition SHELL_PRINT :: "string \<Rightarrow> string list" where
  "SHELL_PRINT txt = shprintf ([CHR 0xFF] @ txt @ [CHR 0xFE])"

definition SHELL_PRINT_CMD :: "char \<Rightarrow> string \<Rightarrow> string list" where
  "SHELL_PRINT_CMD cmd txt = shprintf ([CHR 0xFF] @ [cmd] @ txt @ [CHR 0xFE])"

section \<open>Executing a command\<close>

datatype cmd_result = CMD_OK | CMD_ERROR | CMD_EXITSHELL

text \<open>
  What a function does: its result (\<open>None\<close> when an exception made it jump back to the thread), the
  value it leaves in \<^verbatim>\<open>vRet\<close>, the texts it prints and its effect.
\<close>

type_synonym 'w command = "string list \<Rightarrow> 'w \<Rightarrow> cmd_result option \<times> u32 \<times> string list \<times> 'w"

definition shellExecute ::
  "(string \<Rightarrow> 'w command) \<Rightarrow> string list \<Rightarrow> 'w \<Rightarrow> cmd_result option \<times> u32 \<times> string list \<times> 'w" where
  "shellExecute fn argv w =
     (case argv of
        [] \<Rightarrow> (Some CMD_OK, 0, [], w)
      | cmd # args \<Rightarrow>
          if cmd \<noteq> [] \<and> hd cmd = CHR ''#'' then (Some CMD_OK, 0, [], w)
          else (case find_command psp_commands cmd of
              None \<Rightarrow> (Some CMD_ERROR, 0, [], w)
            | Some c \<Rightarrow> (case cmd_func c of
                None \<Rightarrow> (Some CMD_ERROR, 0, [], w)
              | Some f \<Rightarrow> if min_args c \<le> length args then fn f args w else (Some CMD_ERROR, 0, [], w))))"

text \<open>\<^verbatim>\<open>0x%08X\<close>.\<close>

definition fmt_ret :: "u32 \<Rightarrow> string" where
  "fmt_ret w = ''0x'' @ fmt_08X w"

text \<open>
  A turn of \<^verbatim>\<open>shellParseThread\<close>: \<open>None\<close> while no command is complete. The blocks written, whether the
  shell was left, the array, the rest of the channel and the effect.
\<close>

definition reply_of :: "cmd_result option \<Rightarrow> u32 \<Rightarrow> string list" where
  "reply_of r v =
     (case r of
        None \<Rightarrow> SHELL_PRINT_CMD (CHR 0xFC) (fmt_ret v)
      | Some CMD_OK \<Rightarrow> SHELL_PRINT_CMD (CHR 0xFD) (fmt_ret v)
      | Some CMD_ERROR \<Rightarrow> SHELL_PRINT_CMD (CHR 0xFC) (fmt_ret v)
      | Some CMD_EXITSHELL \<Rightarrow> [])"

definition shellParseTurn ::
  "(string \<Rightarrow> 'w command) \<Rightarrow> string \<Rightarrow> string \<Rightarrow> 'w \<Rightarrow> (string list \<times> bool \<times> string \<times> string \<times> 'w) option" where
  "shellParseTurn fn cli chan w =
     (case usbShellReadInput cli MAX_CLI 16 chan of
        None \<Rightarrow> None
      | Some (st, rest) \<Rightarrow>
          if si_argv st = [] then Some ([], False, si_cli st, rest, w)
          else (case shellExecute fn (argv_of st) w of
             (r, v, texts, w') \<Rightarrow>
               Some (concat (map SHELL_PRINT texts) @ reply_of r v, r = Some CMD_EXITSHELL, si_cli st, rest, w')))"

section \<open>The blocks carry the text\<close>

text \<open>Every line feed is preceded by a carriage return.\<close>

definition crlf :: "string \<Rightarrow> string" where
  "crlf s = concat (map (\<lambda>c. if c = CHR 0x0A then [CHR 0x0D, CHR 0x0A] else [c]) s)"

definition printed :: "prnt_ctx \<Rightarrow> string" where
  "printed ctx = concat (pc_out ctx) @ pc_buf ctx"

lemma printed_put [simp]: "printed (cb_put c ctx) = printed ctx @ [c]"
  by (simp add: cb_put_def printed_def Let_def)

lemma printed_chars:
  "printed (fold (\<lambda>ev ctx. cb ctx ev) (map Char s) ctx) = printed ctx @ crlf s"
  by (induction s arbitrary: ctx) (simp_all add: crlf_def)

lemma shprintf_concat: "concat (shprintf s) = crlf s"
proof -
  let ?c0 = "\<lparr>pc_buf = [], pc_out = []\<rparr>"
  have "printed (fold (\<lambda>ev ctx. cb ctx ev) (map Char s) ?c0) = crlf s"
    using printed_chars [of s ?c0] by (simp add: printed_def)
  then show ?thesis by (simp add: shprintf_def printed_def)
qed

lemma cb_put_bounded: "length (pc_buf ctx) < CTX_BUF_SIZE \<Longrightarrow> length (pc_buf (cb_put c ctx)) < CTX_BUF_SIZE"
  by (simp add: cb_put_def Let_def CTX_BUF_SIZE_def)

end
