(* ===== verification/ParseProps.thy ===== *)
theory ParseProps
  imports ParseArgs
begin

text \<open>
  What a command line means. A word is a sequence of pieces, bare or quoted; a line is a sequence of
  words and redirections with white space between them. The meaning of each is given on its own, and
  the reader of \<^verbatim>\<open>parse_args.C\<close> is shown to compute it on the text of any line. The grammar has every form
  the reader accepts without a message: all escapes, \<open>\x\<close> with any two hexadecimal digits, \<open>\0\<close> with two to four
  octal ones, the arguments of a script \<open>$1\<close>, named and internal variables, and a dollar that starts none of them.
  What it complains about is left out: a quote or a name without its end, other escapes, an escaped NUL.
\<close>

section \<open>The grammar\<close>

datatype atom =
    Plain char
  | Escaped char
  | Newline
  | Return
  | Hex char char
  | Oct string
  | Var string
  | PunctVar char
  | Arg string
  | Dollar

datatype piece = Bare atom | Single string | Double "atom list"

fun show_atom :: "atom \<Rightarrow> string" where
  "show_atom (Plain c) = [c]"
| "show_atom (Escaped c) = [CHR 0x5C, c]"
| "show_atom Newline = [CHR 0x5C, CHR ''n'']"
| "show_atom Return = [CHR 0x5C, CHR ''r'']"
| "show_atom (Hex a b) = [CHR 0x5C, CHR ''x'', a, b]"
| "show_atom (Oct ds) = [CHR 0x5C, CHR ''0''] @ ds"
| "show_atom (Var name) = ''$('' @ name @ '')''"
| "show_atom (PunctVar c) = [CHR ''$'', c]"
| "show_atom (Arg ds) = CHR ''$'' # ds"
| "show_atom Dollar = ''$''"

definition show_atoms :: "atom list \<Rightarrow> string" where
  "show_atoms as = concat (map show_atom as)"

fun show_piece :: "piece \<Rightarrow> string" where
  "show_piece (Bare a) = show_atom a"
| "show_piece (Single s) = CHR 0x27 # s @ [CHR 0x27]"
| "show_piece (Double as) = CHR 0x22 # show_atoms as @ [CHR 0x22]"

definition show_word :: "piece list \<Rightarrow> string" where
  "show_word ps = concat (map show_piece ps)"

text \<open>A character that stands for itself outside (\<open>False\<close>) and inside double quotes.\<close>

definition plain_ok :: "bool \<Rightarrow> char \<Rightarrow> bool" where
  "plain_ok dq c \<longleftrightarrow> c \<noteq> CHR 0x00 \<and> c \<noteq> CHR 0x5C \<and> c \<noteq> CHR ''$'' \<and> c \<noteq> CHR 0x22
     \<and> (dq \<or> \<not> isspace c \<and> c \<noteq> CHR ''>'' \<and> c \<noteq> CHR 0x27)"

text \<open>Numbers in base 8 and 10. A hexadecimal letter of either case counts from \<open>0\<close>, not from ten: that is what the
  reader makes of it (\<^verbatim>\<open>hex_to_int\<close>).\<close>

definition number_of :: "nat \<Rightarrow> string \<Rightarrow> nat" where
  "number_of base ds = foldl (\<lambda>v c. v * base + digit_val c) 0 ds"

definition hex_digit :: "char \<Rightarrow> nat" where
  "hex_digit c = (if isdigit c then digit_val c else (code c - 65) mod 32)"

definition hex_value :: "char \<Rightarrow> char \<Rightarrow> nat" where
  "hex_value a b = hex_digit a * 16 + hex_digit b"

text \<open>The argument of the running script with a number; the array has one for each number below the count.\<close>

definition arg_value :: "lookups \<Rightarrow> nat \<Rightarrow> string" where
  "arg_value e n = (case sargv e of
       None \<Rightarrow> []
     | Some args \<Rightarrow> if int n < sargc e then (case args ! n of None \<Rightarrow> [] | Some s \<Rightarrow> s) else [])"

definition arg_there :: "lookups \<Rightarrow> nat \<Rightarrow> bool" where
  "arg_there e n \<longleftrightarrow> (case sargv e of None \<Rightarrow> True | Some args \<Rightarrow> int n < sargc e \<longrightarrow> n < length args)"

fun atom_ok :: "lookups \<Rightarrow> bool \<Rightarrow> atom \<Rightarrow> bool" where
  "atom_ok e dq (Plain c) = plain_ok dq c"
| "atom_ok e dq (Escaped c) = (c \<notin> {CHR ''n'', CHR ''r'', CHR ''0'', CHR ''x'', CHR 0x00})"
| "atom_ok e dq Newline = True"
| "atom_ok e dq Return = True"
| "atom_ok e dq (Hex a b) = (isxdigit a \<and> isxdigit b \<and> hex_value a b \<noteq> 0)"
| "atom_ok e dq (Oct ds) = (length ds \<in> {2, 3, 4} \<and> list_all isodigit ds \<and> number_of 8 ds mod 256 \<noteq> 0)"
| "atom_ok e dq (Var name) = (CHR '')'' \<notin> set name \<and> no_nul name \<and> length name < PATH_MAX)"
| "atom_ok e dq (PunctVar c) = (ispunct c \<and> c \<noteq> CHR ''('')"
| "atom_ok e dq (Arg ds) = (ds \<noteq> [] \<and> list_all isdigit ds \<and> int (number_of 10 ds) < 2 ^ 31 \<and> arg_there e (number_of 10 ds))"
| "atom_ok e dq Dollar = True"

text \<open>What may follow some of them, so that they end where they are meant to.\<close>

definition fits :: "atom \<Rightarrow> string \<Rightarrow> bool" where
  "fits a s = (case a of
       Oct ds \<Rightarrow> length ds = 4 \<or> s = [] \<or> \<not> isodigit (hd s)
     | Arg ds \<Rightarrow> s = [] \<or> \<not> isdigit (hd s)
     | Dollar \<Rightarrow> s = [] \<or> \<not> isdigit (hd s) \<and> \<not> ispunct (hd s)
     | _ \<Rightarrow> True)"

fun atoms_fit :: "atom list \<Rightarrow> string \<Rightarrow> bool" where
  "atoms_fit [] s = True"
| "atoms_fit (a # as) s = (fits a (show_atoms as @ s) \<and> atoms_fit as s)"

fun pieces_fit :: "piece list \<Rightarrow> string \<Rightarrow> bool" where
  "pieces_fit [] s = True"
| "pieces_fit (p # ps) s = ((case p of
       Bare a \<Rightarrow> fits a (show_word ps @ s)
     | Single t \<Rightarrow> True
     | Double as \<Rightarrow> atoms_fit as [CHR 0x22]) \<and> pieces_fit ps s)"

text \<open>In single quotes a backslash keeps the character after it, a quote included.\<close>

fun single_ok :: "string \<Rightarrow> bool" where
  "single_ok [] = True"
| "single_ok (c # s) =
     (if c = CHR 0x5C then (case s of [] \<Rightarrow> False | d # t \<Rightarrow> d \<noteq> CHR 0x00 \<and> single_ok t)
      else c \<noteq> CHR 0x27 \<and> c \<noteq> CHR 0x00 \<and> single_ok s)"

fun piece_ok :: "lookups \<Rightarrow> piece \<Rightarrow> bool" where
  "piece_ok e (Bare a) = atom_ok e False a"
| "piece_ok e (Single s) = single_ok s"
| "piece_ok e (Double as) = list_all (atom_ok e True) as"

fun atom_value :: "lookups \<Rightarrow> atom \<Rightarrow> string" where
  "atom_value e (Plain c) = [c]"
| "atom_value e (Escaped c) = [c]"
| "atom_value e Newline = [CHR 0x0A]"
| "atom_value e Return = [CHR 0x0D]"
| "atom_value e (Hex a b) = [char_of (hex_value a b)]"
| "atom_value e (Oct ds) = [char_of (number_of 8 ds)]"
| "atom_value e (Var name) = env_value e name"
| "atom_value e (PunctVar c) = env_value e [c]"
| "atom_value e (Arg ds) = arg_value e (number_of 10 ds)"
| "atom_value e Dollar = ''$''"

fun piece_value :: "lookups \<Rightarrow> piece \<Rightarrow> string" where
  "piece_value e (Bare a) = atom_value e a"
| "piece_value e (Single s) = s"
| "piece_value e (Double as) = concat (map (atom_value e) as)"

definition word_value :: "lookups \<Rightarrow> piece list \<Rightarrow> string" where
  "word_value e ps = concat (map (piece_value e) ps)"

text \<open>Each item is followed by white space.\<close>

datatype item = Word "piece list" string | Redir bool string "piece list" string

fun is_redir :: "item \<Rightarrow> bool" where
  "is_redir (Redir _ _ _ _) = True"
| "is_redir (Word _ _) = False"

fun show_item :: "item \<Rightarrow> string" where
  "show_item (Word ps g) = show_word ps @ g"
| "show_item (Redir cat g0 ps g) = (if cat then ''>>'' else ''>'') @ g0 @ show_word ps @ g"

definition show_items :: "item list \<Rightarrow> string" where
  "show_items its = concat (map show_item its)"

text \<open>A word in front of a text, and the items of a line. \<open>e\<close> counts only for the arguments of the script.\<close>

definition word_ok :: "lookups \<Rightarrow> piece list \<Rightarrow> string \<Rightarrow> bool" where
  "word_ok e ps s \<longleftrightarrow> ps \<noteq> [] \<and> list_all (piece_ok e) ps \<and> pieces_fit ps s"

fun items_ok :: "lookups \<Rightarrow> item list \<Rightarrow> bool" where
  "items_ok e [] = True"
| "items_ok e (Word ps g # its) =
     (word_ok e ps (g @ show_items its) \<and> list_all isspace g \<and> (g \<noteq> [] \<or> its = [] \<or> is_redir (hd its))
      \<and> items_ok e its)"
| "items_ok e (Redir cat g0 ps g # its) =
     (list_all isspace g0 \<and> word_ok e ps (g @ show_items its) \<and> list_all isspace g
      \<and> (g \<noteq> [] \<or> its = [] \<or> is_redir (hd its)) \<and> items_ok e its)"

fun items_words :: "lookups \<Rightarrow> item list \<Rightarrow> string list" where
  "items_words e [] = []"
| "items_words e (Word ps g # its) = word_value e ps # items_words e its"
| "items_words e (Redir cat g0 ps g # its) = items_words e its"

fun items_redirs :: "lookups \<Rightarrow> item list \<Rightarrow> (redir_type \<times> string) list" where
  "items_redirs e [] = []"
| "items_redirs e (Word ps g # its) = items_redirs e its"
| "items_redirs e (Redir cat g0 ps g # its) =
     (if cat then REDIR_TYPE_CAT else REDIR_TYPE_NEW, word_value e ps) # items_redirs e its"

text \<open>The words as they are sent: each ended by a NUL.\<close>

definition pack :: "string list \<Rightarrow> string" where
  "pack ws = concat (map (\<lambda>w. w @ [CHR 0x00]) ws)"

section \<open>Reading an atom\<close>

lemma isdigit_digit_val: "isdigit c \<Longrightarrow> digit_val c < 10"
  by (auto simp: isdigit_def digit_val_def)

lemma isodigit_digit_val: "isodigit c \<Longrightarrow> digit_val c < 8"
  by (auto simp: isodigit_def digit_val_def)

lemma xdigit_cases:
  assumes "isxdigit c"
  obtains "isdigit c" | "65 \<le> code c" "code c \<le> 70" "\<not> isdigit c" | "97 \<le> code c" "code c \<le> 102" "\<not> isdigit c"
  using assms by (auto simp: isxdigit_def)

lemma letter_value: "65 \<le> k \<Longrightarrow> k \<le> (70 :: nat) \<Longrightarrow> (k - 65) mod 32 = k - 65" "97 \<le> k \<Longrightarrow> k \<le> 102 \<Longrightarrow> (k - 65) mod 32 = k - 97"
  by (simp, simp add: le_mod_geq [of 32 "k - 65"])

lemma hex_to_int_digit: "isxdigit c \<Longrightarrow> hex_to_int_pc c = hex_digit c"
proof (erule xdigit_cases)
  assume "isdigit c"
  then show ?thesis by (auto simp: isdigit_def hex_to_int_pc_def hex_digit_def digit_val_def c_toupper_def)
next
  assume "65 \<le> code c" "code c \<le> 70" "\<not> isdigit c"
  then show ?thesis using letter_value(1) by (simp add: hex_to_int_pc_def hex_digit_def c_toupper_def)
next
  assume k: "97 \<le> code c" "code c \<le> 102" "\<not> isdigit c"
  then have "code (char_of (code c - 32) :: char) = code c - 32" by (simp add: of_char_of take_bit_nat_def)
  moreover have "65 \<le> code c - 32" "code c - 32 \<le> 70" "code c - 32 - 65 = code c - 97" using k by simp_all
  ultimately show ?thesis using k letter_value(2) by (simp add: hex_to_int_pc_def hex_digit_def c_toupper_def Let_def)
qed

lemma hex_digit_less: "isxdigit c \<Longrightarrow> hex_digit c < 16"
proof (erule xdigit_cases)
  assume "isdigit c"
  then show ?thesis using isdigit_digit_val [of c] by (simp add: hex_digit_def)
qed (simp_all add: hex_digit_def letter_value)

lemma oct_to_int_digit: "isodigit c \<Longrightarrow> oct_to_int_pc c = digit_val c"
  by (auto simp: isodigit_def oct_to_int_pc_def digit_val_def)

lemma push_or:
  assumes "v < 2 ^ k"
  shows "push_bit k (w :: u8) OR of_nat v = w * 2 ^ k + of_nat v"
proof -
  have v: "\<not> bit v n" if "k \<le> n" for n
  proof -
    have "v < 2 ^ n" using assms that by (meson le_trans less_le_trans one_le_numeral power_increasing)
    then show ?thesis by (simp add: bit_iff_odd)
  qed
  have "push_bit k w AND of_nat v = 0"
    by (rule bit_word_eqI) (use v in \<open>auto simp: bit_simps\<close>)
  then have "push_bit k w OR of_nat v = push_bit k w + of_nat v"
    by (simp add: disjunctive_add_eq_or)
  then show ?thesis by (simp add: push_bit_eq_mult)
qed

lemma hex_loop_digit:
  "isxdigit c \<Longrightarrow> hex_loop (Suc n) i (of_nat x) (c # s) = hex_loop n (i + 1) (of_nat (x * 16 + hex_digit c)) s"
  using push_or [of "hex_digit c" 4 "of_nat x"] hex_digit_less [of c]
  by (simp add: hex_to_int_digit)

lemma oct_loop_digit:
  "isodigit c \<Longrightarrow> oct_loop (Suc n) i (of_nat x) (c # s) = oct_loop n (i + 1) (of_nat (x * 8 + digit_val c)) s"
  using push_or [of "digit_val c" 3 "of_nat x"] isodigit_digit_val [of c]
  by (simp add: oct_to_int_digit)

text \<open>The loop over octal digits, which ends at the fourth one or where the digits end.\<close>

lemma oct_loop_digits:
  "list_all isodigit ds \<Longrightarrow> length ds \<le> n \<Longrightarrow> length ds = n \<or> s = [] \<or> \<not> isodigit (hd s) \<Longrightarrow>
    oct_loop n i (of_nat x) (ds @ s) = (i + length ds, of_nat (foldl (\<lambda>v c. v * 8 + digit_val c) x ds))"
proof (induction ds arbitrary: n i x)
  case Nil
  then show ?case by (cases n; cases s) auto
next
  case (Cons d ds)
  then obtain m where n: "n = Suc m" by (cases n) auto
  have "oct_loop n i (of_nat x) ((d # ds) @ s) = oct_loop m (i + 1) (of_nat (x * 8 + digit_val d)) (ds @ s)"
    using Cons.prems(1) oct_loop_digit [of d m i x "ds @ s"] by (simp add: n del: oct_loop.simps of_nat_add of_nat_mult)
  then show ?case using Cons.IH [of m "i + 1" "x * 8 + digit_val d"] Cons.prems n
    by (simp del: oct_loop.simps of_nat_add of_nat_mult)
qed

lemma chr_of_of_nat: "chr_of (of_nat n :: u8) = char_of n"
proof -
  have "(char_of (n mod 256) :: char) = char_of n" by (metis char_of_mod_256)
  then show ?thesis by (simp add: chr_of_def unsigned_of_nat take_bit_eq_mod)
qed

lemma of_nat_u8_0: "(of_nat n :: u8) = 0 \<longleftrightarrow> n mod 256 = 0"
  by (simp add: word_of_nat_eq_0_iff mod_eq_0_iff_dvd)

lemma decode_hex_digits:
  assumes "isxdigit a" and "isxdigit b" and "hex_value a b \<noteq> 0"
  shows "decode_hex (a # b # s) = (2, of_nat (hex_value a b))"
proof -
  have "hex_loop (Suc (Suc 0)) 0 (of_nat 0) (a # b # s) = (2, of_nat (hex_value a b))"
    using assms(1,2) by (simp only: hex_loop_digit hex_value_def mult_0 add_0) simp
  then have "hex_loop 2 0 0 (a # b # s) = (2, of_nat (hex_value a b))" by (simp add: numeral_2_eq_2)
  moreover have "hex_value a b mod 256 \<noteq> 0"
    using assms(3) hex_digit_less [OF assms(1)] hex_digit_less [OF assms(2)] by (simp add: hex_value_def)
  ultimately show ?thesis by (simp add: decode_hex_def of_nat_u8_0)
qed

lemma decode_oct_digits:
  assumes "list_all isodigit ds" and "length ds \<in> {2, 3, 4}" and "number_of 8 ds mod 256 \<noteq> 0"
    and "length ds = 4 \<or> s = [] \<or> \<not> isodigit (hd s)"
  shows "decode_oct (ds @ s) = (length ds, of_nat (number_of 8 ds))"
  using oct_loop_digits [of ds 4 s 0 0] assms by (auto simp: decode_oct_def of_nat_u8_0 number_of_def)

text \<open>The number of an argument.\<close>

lemma scan_number:
  "list_all isdigit ds \<Longrightarrow> s = [] \<or> \<not> isdigit (hd s) \<Longrightarrow>
    scan_digits 10 acc (ds @ s) = (foldl (\<lambda>v c. v * 10 + digit_val c) acc ds, s)"
proof (induction ds arbitrary: acc)
  case Nil
  then show ?case by (cases s) (auto simp: digit_val_def isdigit_def)
next
  case (Cons d ds)
  then show ?case using isdigit_digit_val [of d] by simp
qed

lemma arg_index_number:
  assumes "ds \<noteq> []" and "list_all isdigit ds" and "int (number_of 10 ds) < 2 ^ 31" and "s = [] \<or> \<not> isdigit (hd s)"
  shows "arg_index (ds @ s) = (int (number_of 10 ds), s)"
proof -
  obtain d t where ds: "ds = d # t" "isdigit d" using assms(1,2) by (cases ds) auto
  have d: "\<not> isspace d" "d \<noteq> CHR ''-''" "d \<noteq> CHR ''+''" using ds(2) by (auto simp: isdigit_def isspace_def)
  have "strtoul 64 10 (ds @ s) = (number_of 10 ds, s)"
    using scan_number [OF assms(2,4), of 0] d ds isdigit_digit_val [OF ds(2)] assms(3)
    by (simp add: strtoul_def number_base_def starts_digit_def Let_def number_of_def)
  moreover have "sint (of_nat (number_of 10 ds) :: u32) = int (number_of 10 ds)"
    using assms(3) by (simp add: signed_of_nat signed_take_bit_int_eq_self)
  ultimately show ?thesis by (simp add: arg_index_def)
qed

lemma insert_arg_number:
  assumes "ds \<noteq> []" and "list_all isdigit ds" and "int (number_of 10 ds) < 2 ^ 31" and "arg_there e (number_of 10 ds)"
    and "s = [] \<or> \<not> isdigit (hd s)"
  shows "insert_arg e (ds @ s) = Inr (s, arg_value e (number_of 10 ds))"
proof -
  have "script_arg e (int (number_of 10 ds)) = Inr (arg_value e (number_of 10 ds))"
    using assms(4) by (auto simp: script_arg_def arg_value_def arg_there_def split: option.splits)
  moreover obtain d t where "ds = d # t" "isdigit d" using assms(1,2) by (cases ds) auto
  ultimately show ?thesis using arg_index_number [OF assms(1-3,5)] by (simp add: insert_arg_def)
qed

lemma insert_arg_none:
  "s = [] \<or> \<not> isdigit (hd s) \<and> \<not> ispunct (hd s) \<Longrightarrow> insert_arg e s = Inr (s, ''$'')"
proof (cases s)
  case (Cons c t)
  assume "s = [] \<or> \<not> isdigit (hd s) \<and> \<not> ispunct (hd s)"
  then have "\<not> isdigit c" "\<not> ispunct c" using Cons by auto
  moreover from this(2) have "c \<noteq> CHR ''(''" by (auto simp: ispunct_def)
  ultimately show ?thesis using Cons by (simp add: insert_arg_def)
qed (simp add: insert_arg_def)

definition quote_of :: "bool \<Rightarrow> char option" where
  "quote_of dq = (if dq then Some (CHR 0x22) else None)"

lemma insert_arg_name:
  "CHR '')'' \<notin> set name \<Longrightarrow> length name < PATH_MAX \<Longrightarrow>
   insert_arg e (CHR ''('' # name @ CHR '')'' # s) = Inr (s, env_value e name)"
proof -
  assume "CHR '')'' \<notin> set name" "length name < PATH_MAX"
  moreover from this(1) have "takeWhile (\<lambda>x. x \<noteq> CHR '')'') (name @ CHR '')'' # s) = name"
    "dropWhile (\<lambda>x. x \<noteq> CHR '')'') (name @ CHR '')'' # s) = CHR '')'' # s"
    by (induction name) auto
  ultimately show ?thesis by (simp add: insert_arg_def isdigit_def)
qed

lemma insert_arg_punct:
  "ispunct c \<Longrightarrow> c \<noteq> CHR ''('' \<Longrightarrow> insert_arg e (c # s) = Inr (s, env_value e [c])"
  by (auto simp: insert_arg_def ispunct_def isdigit_def)

lemma read_atom:
  assumes "atom_ok e dq a" and "fits a s"
  shows "string_loop e (quote_of dq) (show_atom a @ s) out = string_loop e (quote_of dq) s (out @ atom_value e a)"
proof (cases a)
  case (Plain c)
  then show ?thesis using assms
    by (cases dq) (auto simp: string_loop.simps(2) quote_of_def plain_ok_def)
next
  case (Hex x y)
  then show ?thesis using assms
    by (simp add: string_loop.simps(2) quote_of_def decode_hex_digits chr_of_of_nat)
next
  case (Oct ds)
  then have "decode_oct (ds @ s) = (length ds, of_nat (number_of 8 ds))" "length ds \<noteq> 0" "length ds \<noteq> 1"
    using assms by (auto intro!: decode_oct_digits simp: fits_def)
  then show ?thesis using Oct
    by (simp add: string_loop.simps(2) quote_of_def chr_of_of_nat)
next
  case (Var name)
  then show ?thesis using assms
    by (simp add: string_loop.simps(2) quote_of_def insert_arg_name isspace_def)
next
  case (PunctVar c)
  then show ?thesis using assms
    by (simp add: string_loop.simps(2) quote_of_def insert_arg_punct isspace_def)
next
  case (Arg ds)
  then have "insert_arg e (ds @ s) = Inr (s, arg_value e (number_of 10 ds))"
    using assms by (intro insert_arg_number) (simp_all add: fits_def)
  then show ?thesis using Arg by (simp add: string_loop.simps(2) quote_of_def isspace_def)
next
  case Dollar
  then have "insert_arg e s = Inr (s, ''$'')" using assms(2) by (intro insert_arg_none) (simp add: fits_def)
  then show ?thesis using Dollar by (simp add: string_loop.simps(2) quote_of_def isspace_def)
qed (use assms in \<open>simp_all add: string_loop.simps(2) quote_of_def\<close>)

lemma read_atoms:
  "list_all (atom_ok e dq) as \<Longrightarrow> atoms_fit as s \<Longrightarrow> string_loop e (quote_of dq) (show_atoms as @ s) out
   = string_loop e (quote_of dq) s (out @ concat (map (atom_value e) as))"
  by (induction as arbitrary: out) (simp_all add: show_atoms_def read_atom)

text \<open>Only the character behind an atom counts.\<close>

lemma fits_append: "s \<noteq> [] \<Longrightarrow> fits a (s @ t) = fits a s"
  by (cases s) (simp_all add: fits_def split: atom.split)

lemma atoms_fit_append: "s \<noteq> [] \<Longrightarrow> atoms_fit as (s @ t) = atoms_fit as s"
  using fits_append [of "show_atoms bs @ s" a t for a bs] by (induction as) simp_all

lemma pieces_fit_append: "s \<noteq> [] \<Longrightarrow> pieces_fit ps (s @ t) = pieces_fit ps s"
  using fits_append [of "show_word qs @ s" a t for a qs] by (induction ps) (simp_all split: piece.split)

section \<open>Reading a word\<close>

lemma read_single:
  "single_ok t \<Longrightarrow> string_loop e (Some (CHR 0x27)) (t @ CHR 0x27 # s) out = string_loop e None s (out @ t)"
proof (induction t arbitrary: out rule: single_ok.induct)
  case 1
  then show ?case by (simp add: string_loop.simps(2))
next
  case (2 c t)
  show ?case
  proof (cases "c = CHR 0x5C")
    case True
    then obtain d u where "t = d # u" "single_ok u" using 2(3) by (auto split: list.splits)
    then show ?thesis using 2(1) [OF True] True
      by (simp add: string_loop.simps(2) [of e _ "CHR 0x5C"])
  next
    case False
    then show ?thesis using 2(2) [OF False] 2(3) by (simp add: string_loop.simps(2) [of e _ c])
  qed
qed

lemma read_piece:
  assumes "piece_ok e p" and "pieces_fit (p # ps) s"
  shows "string_loop e None (show_piece p @ show_word ps @ s) out = string_loop e None (show_word ps @ s) (out @ piece_value e p)"
proof (cases p)
  case (Bare a)
  then show ?thesis using assms read_atom [of e False a "show_word ps @ s" out] by (simp add: quote_of_def)
next
  case (Single t)
  then show ?thesis using assms read_single [of t e "show_word ps @ s" out]
    by (simp add: string_loop.simps(2) [of e None] isspace_def)
next
  case (Double as)
  then have "atoms_fit as ([CHR 0x22] @ show_word ps @ s)" using assms(2) by (subst atoms_fit_append) simp_all
  then show ?thesis using Double assms(1) read_atoms [of e True as "CHR 0x22 # show_word ps @ s" out]
    by (simp add: string_loop.simps(2) quote_of_def isspace_def)
qed

lemma read_pieces:
  "list_all (piece_ok e) ps \<Longrightarrow> pieces_fit ps s \<Longrightarrow>
   string_loop e None (show_word ps @ s) out = string_loop e None s (out @ word_value e ps)"
proof (induction ps arbitrary: out)
  case (Cons p ps)
  then show ?case using read_piece [of e p ps s out] by (simp add: show_word_def word_value_def)
qed (simp add: show_word_def word_value_def)

text \<open>A word of characters that stand for themselves.\<close>

lemma plain_word_ok: "list_all (plain_ok False) w \<Longrightarrow> w \<noteq> [] \<Longrightarrow> word_ok e (map (\<lambda>c. Bare (Plain c)) w) s"
proof -
  have "pieces_fit (map (\<lambda>c. Bare (Plain c)) w) s" by (induction w) (simp_all add: fits_def)
  then show "list_all (plain_ok False) w \<Longrightarrow> w \<noteq> [] \<Longrightarrow> ?thesis" by (simp add: word_ok_def list_all_iff)
qed

definition ends_word :: "string \<Rightarrow> bool" where
  "ends_word s \<longleftrightarrow> s = [] \<or> isspace (hd s) \<or> hd s = CHR ''>''"

lemma read_end: "ends_word s \<Longrightarrow> string_loop e None s out = Inr (skip_space s, out, None, False)"
proof (cases s)
  case (Cons c t)
  assume "ends_word s"
  then have "isspace c \<or> c = CHR ''>''" "c \<noteq> CHR 0x5C" using Cons by (auto simp: ends_word_def isspace_def)
  moreover have "\<not> isspace (CHR ''>'')" by (simp add: isspace_def)
  ultimately show ?thesis using Cons by (auto simp: string_loop.simps(2))
qed (simp add: string_loop.simps(1))

lemma show_piece_start:
  "piece_ok e p \<Longrightarrow> \<exists>c r. show_piece p = c # r \<and> \<not> isspace c \<and> c \<noteq> CHR ''>''"
proof (cases p)
  case (Bare a)
  then show "piece_ok e p \<Longrightarrow> ?thesis" by (cases a) (auto simp: plain_ok_def isspace_def)
qed (auto simp: isspace_def)

lemma show_word_start:
  assumes "word_ok e ps s"
  obtains c r where "show_word ps = c # r" and "\<not> isspace c" and "c \<noteq> CHR ''>''"
  using assms show_piece_start [of e "hd ps"] by (cases ps) (auto simp: show_word_def word_ok_def)

lemma skip_space_gap: "list_all isspace g \<Longrightarrow> skip_space (g @ s) = skip_space s"
  by (induction g) auto

lemma read_word:
  assumes "word_ok e ps s" and "list_all isspace g" and "ends_word s"
  shows "read_string e (g @ show_word ps @ s)
    = Inr (skip_space s, word_value e ps @ [CHR 0x00], length (word_value e ps) + 1)"
proof -
  obtain c r where c: "show_word ps = c # r" "\<not> isspace c" "c \<noteq> CHR ''>''"
    using show_word_start [OF assms(1)] .
  have "string_loop e None (c # r @ s) [] = Inr (skip_space s, word_value e ps, None, False)"
    using read_pieces [of e ps s "[]"] assms(1) read_end [OF assms(3), of e "word_value e ps"] c(1) by (simp add: word_ok_def)
  then show ?thesis using c assms(2) by (simp add: read_string_def skip_space_gap)
qed

section \<open>Reading a line\<close>

lemma show_item_start:
  assumes "items_ok e (i # its)"
  shows "\<exists>c r. show_item i = c # r \<and> \<not> isspace c \<and> (c = CHR ''>'') = is_redir i"
proof (cases i)
  case (Word ps g)
  then show ?thesis using assms show_word_start [of e ps _ ?thesis] by auto
next
  case (Redir cat g0 ps g)
  then show ?thesis by (cases cat) (auto simp: isspace_def)
qed

text \<open>Text that may stand behind the items of a line: it starts a word, and white space is before it.\<close>

fun item_gap :: "item \<Rightarrow> string" where
  "item_gap (Word ps g) = g"
| "item_gap (Redir cat g0 ps g) = g"

definition tail_ok :: "item list \<Rightarrow> string \<Rightarrow> bool" where
  "tail_ok its tail \<longleftrightarrow> tail = [] \<or> \<not> isspace (hd tail) \<and> hd tail \<noteq> CHR ''>'' \<and> (its = [] \<or> item_gap (last its) \<noteq> [])"

lemma tail_ok_Nil [simp]: "tail_ok its []"
  by (simp add: tail_ok_def)

lemma tail_ok_Cons: "tail_ok (i # its) tail \<Longrightarrow> tail_ok its tail"
  by (auto simp: tail_ok_def)

lemma items_start:
  "items_ok e its \<Longrightarrow> tail_ok its tail \<Longrightarrow> skip_space (show_items its @ tail) = show_items its @ tail"
proof (cases its)
  case Nil
  then show "tail_ok its tail \<Longrightarrow> ?thesis" by (cases tail) (auto simp: show_items_def tail_ok_def)
qed (auto simp: show_items_def dest!: show_item_start)

lemma items_end:
  assumes "items_ok e its" and "list_all isspace g"
    and "g \<noteq> [] \<or> its \<noteq> [] \<and> is_redir (hd its) \<or> its = [] \<and> tail = []"
  shows "ends_word (g @ show_items its @ tail)"
proof (cases g)
  case Nil
  then show ?thesis
    using assms by (cases its) (auto simp: ends_word_def show_items_def dest!: show_item_start)
qed (use assms in \<open>simp add: ends_word_def\<close>)

lemma read_item_word:
  assumes "word_ok e ps (g @ show_items its)" and "list_all isspace g0" and "list_all isspace g"
    and "g \<noteq> [] \<or> its \<noteq> [] \<and> is_redir (hd its) \<or> its = [] \<and> tail = []" and "items_ok e its"
    and "tail_ok its tail"
  shows "read_string e (g0 @ show_word ps @ g @ show_items its @ tail)
    = Inr (show_items its @ tail, word_value e ps @ [CHR 0x00], length (word_value e ps) + 1)"
proof -
  have "word_ok e ps (g @ show_items its @ tail)"
  proof (cases "g @ show_items its = []")
    case True
    then have "its = [] \<and> tail = []" using assms(4,5) by (cases its) (auto simp: show_items_def dest!: show_item_start)
    then show ?thesis using assms(1) True by simp
  next
    case False
    then show ?thesis using assms(1) pieces_fit_append [OF False, of ps tail] by (simp add: word_ok_def)
  qed
  then show ?thesis using read_word [OF _ assms(2) items_end [OF assms(5,3,4)]] items_start [OF assms(5,6)]
    by (simp add: skip_space_gap assms(3))
qed

lemma items_gap:
  assumes "items_ok e (i # its)" and "tail_ok (i # its) tail"
  shows "item_gap i \<noteq> [] \<or> its \<noteq> [] \<and> is_redir (hd its) \<or> its = [] \<and> tail = []"
  using assms by (cases i) (auto simp: tail_ok_def)

definition items_result :: "lookups \<Rightarrow> item list \<Rightarrow> cli \<Rightarrow> cli" where
  "items_result e its st = st\<lparr>
     cli_out := cli_out st @ pack (items_words e its),
     cli_argv := cli_argv st @ items_words e its,
     cli_type := (if items_redirs e its = [] then cli_type st else fst (last (items_redirs e its))),
     cli_redir := (if items_redirs e its = [] then cli_redir st else snd (last (items_redirs e its)))\<rparr>"

lemma items_result_simps:
  "items_result e [] st = st"
  "items_result e (Word ps g # its) st = items_result e its
     (st\<lparr>cli_out := cli_out st @ word_value e ps @ [CHR 0x00], cli_argv := cli_argv st @ [word_value e ps]\<rparr>)"
  "items_result e (Redir cat g0 ps g # its) st = items_result e its
     (st\<lparr>cli_type := if cat then REDIR_TYPE_CAT else REDIR_TYPE_NEW, cli_redir := word_value e ps\<rparr>)"
  by (simp_all add: items_result_def pack_def)

lemma cli_loop_items:
  assumes "items_ok e its" and "length (items_words e its) \<le> n"
    and "length (cli_out st) + length (pack (items_words e its)) \<le> outsz"
    and "\<forall>(t, f) \<in> set (items_redirs e its). length f < redirsz" and "tail_ok its tail"
  shows "cli_loop e outsz redirsz (Suc n) (show_items its @ tail) st
    = cli_loop e outsz redirsz (Suc (n - length (items_words e its))) tail (items_result e its st)"
  using assms
proof (induction its arbitrary: n st)
  case Nil
  then show ?case by (simp add: show_items_def items_result_simps)
next
  case (Cons i its)
  note tl = tail_ok_Cons [OF Cons.prems(5)] and gap = items_gap [OF Cons.prems(1,5)]
  show ?case
  proof (cases i)
    case (Word ps g)
    obtain c r where c: "show_item i = c # r" "c \<noteq> CHR ''>''"
      using show_item_start [OF Cons.prems(1)] Word by (metis is_redir.simps(2))
    have line: "show_items (i # its) @ tail = [] @ show_word ps @ g @ show_items its @ tail"
      using Word by (simp add: show_items_def)
    have rd: "read_string e (show_items (i # its) @ tail)
        = Inr (show_items its @ tail, word_value e ps @ [CHR 0x00], length (word_value e ps) + 1)"
      unfolding line using Cons.prems(1) Word gap tl by (intro read_item_word) auto
    obtain m where n: "n = Suc m" using Cons.prems(2) Word by (cases n) auto
    have "hd (show_items (i # its) @ tail) \<noteq> CHR ''>''" using c by (simp add: show_items_def)
    then show ?thesis
      using Cons.prems Word rd tl Cons.IH [of m "st\<lparr>cli_out := cli_out st @ word_value e ps @ [CHR 0x00],
          cli_argv := cli_argv st @ [word_value e ps]\<rparr>"]
      by (simp add: cli_loop.simps(2) [of _ _ _ "Suc m" "show_items (Word ps g # its) @ tail"] n items_result_simps pack_def Let_def)
  next
    case (Redir cat g0 ps g)
    define L where "L = g0 @ show_word ps @ g @ show_items its @ tail"
    have line: "show_items (i # its) @ tail = (if cat then ''>>'' else ''>'') @ L"
      using Redir by (simp add: show_items_def L_def)
    have rd: "read_string e L = Inr (show_items its @ tail, word_value e ps @ [CHR 0x00], length (word_value e ps) + 1)"
      unfolding L_def using Cons.prems(1) Redir gap tl by (intro read_item_word) auto
    have one: "L = [] \<or> hd L \<noteq> CHR ''>''"
      using Cons.prems(1) Redir show_word_start [of e ps _ "hd L \<noteq> CHR ''>''"]
      by (cases g0) (auto simp: L_def isspace_def)
    let ?st = "st\<lparr>cli_type := if cat then REDIR_TYPE_CAT else REDIR_TYPE_NEW, cli_redir := word_value e ps\<rparr>"
    have "length (word_value e ps) < redirsz" using Cons.prems(4) Redir by simp
    then have "cli_loop e outsz redirsz (Suc n) ((if cat then ''>>'' else ''>'') @ L) st
        = cli_loop e outsz redirsz (Suc n) (show_items its @ tail) ?st"
      using rd one by (subst cli_loop.simps(2)) (cases cat; auto simp: Let_def)
    moreover have "cli_loop e outsz redirsz (Suc n) (show_items its @ tail) ?st
        = cli_loop e outsz redirsz (Suc (n - length (items_words e its))) tail (items_result e its ?st)"
      using Cons.prems Redir tl by (intro Cons.IH) auto
    ultimately show ?thesis
      unfolding line unfolding Redir items_result_simps by simp
  qed
qed

lemma cli_loop_end: "length (cli_out st) \<le> outsz \<Longrightarrow> cli_loop e outsz redirsz (Suc n) [] st = Inr (True, st)"
  by (simp add: cli_loop.simps(2) read_string_def)

lemma items_result_out: "length (cli_out (items_result e its st)) = length (cli_out st) + length (pack (items_words e its))"
  by (simp add: items_result_def)

text \<open>The array of the arguments and the redirection.\<close>

lemma parse_cli_items:
  assumes "items_ok e its" and "its \<noteq> []" and "list_all isspace lead"
    and "length (items_words e its) + 2 \<le> max_args"
    and "length (pack (items_words e its)) < outsz"
    and "\<forall>(t, f) \<in> set (items_redirs e its). length f < redirsz"
  shows "parse_cli e outsz redirsz max_args (lead @ show_items its) =
    Inr (length (pack (items_words e its)) + 1,
      \<lparr>cli_out = pack (items_words e its) @ [CHR 0x01],
       cli_argv = items_words e its,
       cli_type = (if items_redirs e its = [] then REDIR_TYPE_NONE else fst (last (items_redirs e its))),
       cli_redir = (if items_redirs e its = [] then [] else snd (last (items_redirs e its)))\<rparr>)"
proof -
  define n where "n = max_args - 2"
  have n: "max_args - 1 = Suc n" "max_args \<noteq> 0" "length (items_words e its) \<le> n"
    using assms(4) by (simp_all add: n_def)
  obtain i r0 where its: "its = i # r0" using assms(2) by (cases its) auto
  obtain c r where c: "show_items its = c # r"
    using assms(1) show_item_start [of e i r0] its by (auto simp: show_items_def)
  have sk: "skip_space (lead @ show_items its) = c # r"
    using items_start [OF assms(1), of "[]"] assms(3) c by (simp add: skip_space_gap)
  have "cli_loop e outsz redirsz (Suc n) (show_items its @ []) cli_empty
      = cli_loop e outsz redirsz (Suc (n - length (items_words e its))) [] (items_result e its cli_empty)"
    using assms n by (intro cli_loop_items) (auto simp: cli_empty_def)
  also have "\<dots> = Inr (True, items_result e its cli_empty)"
    using assms(5) by (intro cli_loop_end) (simp add: items_result_out cli_empty_def)
  finally have run: "cli_loop e outsz redirsz (max_args - 1) (c # r) cli_empty
      = Inr (True, items_result e its cli_empty)"
    by (simp only: n c append_Nil2)
  show ?thesis
    using assms(5) n(2) unfolding parse_cli_def sk list.case run
    by (simp add: items_result_def cli_empty_def)
qed


text \<open>The script was called with \<open>run one\<close>.\<close>

definition demo_lookups :: lookups where
  "demo_lookups = \<lparr>sargc = 2, sargv = Some [Some ''run'', Some ''one''],
     getenv = (\<lambda>n. if n = ''?'' then Some ''0x10'' else None)\<rparr>"

text \<open>\<^verbatim>\<open>cp "a $?\x4f" 'b>'$1\041 >>log\n\<close>: the letter \<open>f\<close> counts as five, so the escape is an \<open>E\<close>.\<close>

definition demo_items :: "item list" where
  "demo_items = [Word [Bare (Plain CHR ''c''), Bare (Plain CHR ''p'')] '' '',
     Word [Double [Plain CHR ''a'', Plain CHR '' '', PunctVar CHR ''?'', Hex CHR ''4'' CHR ''f'']] '' '',
     Word [Single ''b>'', Bare (Arg ''1''), Bare (Oct ''41'')] '' '',
     Redir True [] [Bare (Plain CHR ''l''), Bare Newline] []]"


end
