(* ===== verification/ShellProps.thy ===== *)
theory ShellProps
  imports Pspsh UsbShell ParseProps
begin

text \<open>
  From the line typed on the PC to the function on the PSP and back: the words of the line are the
  arguments of the command, and its result is what the terminal reports.
\<close>

section \<open>The command as the PSP reads it\<close>

fun scan_args :: "nat \<Rightarrow> string \<Rightarrow> nat \<Rightarrow> nat \<Rightarrow> nat list \<Rightarrow> nat \<times> nat list" where
  "scan_args k [] p a v = (a, v)"
| "scan_args k (c # cs) p a v =
     (if c = CHR 0x00 \<and> length v < k then scan_args k cs (p + 1) (p + 1) (v @ [a])
      else scan_args k cs (p + 1) a v)"

lemma read_input_run:
  assumes "CHR 0x01 \<notin> set xs" and "length (si_cli st) = n" and "si_pos st + length xs < n"
  shows "\<exists>cli. length cli = n \<and> take (si_pos st + length xs) cli = take (si_pos st) (si_cli st) @ xs \<and>
    read_input n k (xs @ ys) st = read_input n k ys
      \<lparr>si_cli = cli, si_pos = si_pos st + length xs,
       si_argstart = fst (scan_args k xs (si_pos st) (si_argstart st) (si_argv st)),
       si_argv = snd (scan_args k xs (si_pos st) (si_argstart st) (si_argv st))\<rparr>"
  using assms
proof (induction xs arbitrary: st)
  case Nil
  then show ?case by (cases st) (intro exI [of _ "si_cli st"], simp)
next
  case (Cons c xs)
  let ?go = "c = CHR 0x00 \<and> length (si_argv st) < k"
  define st' where "st' = \<lparr>si_cli = (si_cli st)[si_pos st := c], si_pos = si_pos st + 1,
    si_argstart = (if ?go then si_pos st + 1 else si_argstart st),
    si_argv = (if ?go then si_argv st @ [si_argstart st] else si_argv st)\<rparr>"
  have p: "si_pos st < n - 1" "c \<noteq> CHR 0x01" using Cons.prems by auto
  have step: "read_input n k ((c # xs) @ ys) st = read_input n k (xs @ ys) st'"
    using p by (cases st) (auto simp: Let_def st'_def)
  have "take (si_pos st + 1) ((si_cli st)[si_pos st := c]) = take (si_pos st) (si_cli st) @ [c]"
    using Cons.prems(2,3) by (simp add: take_Suc_conv_app_nth)
  then obtain cli where "length cli = n" "take (si_pos st' + length xs) cli = (take (si_pos st) (si_cli st) @ [c]) @ xs"
    "read_input n k (xs @ ys) st' = read_input n k ys
      \<lparr>si_cli = cli, si_pos = si_pos st' + length xs,
       si_argstart = fst (scan_args k xs (si_pos st') (si_argstart st') (si_argv st')),
       si_argv = snd (scan_args k xs (si_pos st') (si_argstart st') (si_argv st'))\<rparr>"
    using Cons.IH [of st'] Cons.prems by (auto simp: st'_def)
  then show ?case unfolding step by (intro exI [of _ cli]) (simp add: st'_def)
qed

fun arg_offs :: "nat \<Rightarrow> string list \<Rightarrow> nat list" where
  "arg_offs a [] = []"
| "arg_offs a (w # ws) = a # arg_offs (a + length w + 1) ws"

lemma scan_args_word:
  "CHR 0x00 \<notin> set w \<Longrightarrow> scan_args k (w @ r) p a v = scan_args k r (p + length w) a v"
  by (induction w arbitrary: p) auto

lemma scan_args_pack:
  assumes "list_all no_nul ws" and "length v + length ws \<le> k"
  shows "scan_args k (pack ws @ r) a a v
    = scan_args k r (a + length (pack ws)) (a + length (pack ws)) (v @ arg_offs a ws)"
  using assms
proof (induction ws arbitrary: a v)
  case Nil
  then show ?case by (simp add: pack_def)
next
  case (Cons w ws)
  then have "scan_args k (pack (w # ws) @ r) a a v = scan_args k (pack ws @ r) (a + length w + 1) (a + length w + 1) (v @ [a])"
    using scan_args_word [of w k "CHR 0x00 # pack ws @ r" a a v] by (simp add: pack_def no_nul_def)
  then show ?case using Cons.IH [of "v @ [a]" "a + length w + 1"] Cons.prems
    by (simp add: pack_def add.assoc)
qed

lemma arg_at_word: "CHR 0x00 \<notin> set w \<Longrightarrow> arg_at (pre @ w @ CHR 0x00 # r) (length pre) = w"
  by (induction w) (auto simp: arg_at_def)

lemma args_of_offs:
  "list_all no_nul ws \<Longrightarrow> map (arg_at (pre @ pack ws @ r)) (arg_offs (length pre) ws) = ws"
proof (induction ws arbitrary: pre)
  case (Cons w ws)
  then have w: "CHR 0x00 \<notin> set w" by (simp add: no_nul_def)
  have "arg_at (pre @ pack (w # ws) @ r) (length pre) = w"
    using arg_at_word [OF w, of pre "pack ws @ r"] by (simp add: pack_def)
  moreover have "map (arg_at ((pre @ w @ [CHR 0x00]) @ pack ws @ r)) (arg_offs (length (pre @ w @ [CHR 0x00])) ws) = ws"
    using Cons.prems by (intro Cons.IH) simp
  ultimately show ?case by (simp add: pack_def)
qed (simp add: pack_def)

text \<open>
  The arguments the PSP reads are the words the terminal packed; a text behind the last NUL is none.
\<close>

lemma input_of_pack:
  assumes "list_all no_nul ws" and "no_nul t" and "CHR 0x01 \<notin> set (pack ws @ t)" and "length ws \<le> k"
    and "length (pack ws @ t) < n" and "length cli = n"
  obtains st where "usbShellReadInput cli n k ((pack ws @ t) @ [CHR 0x01] @ later) = Some (st, later)"
    and "argv_of st = ws" and "length (si_cli st) = n"
proof -
  let ?p = "pack ws @ t"
  let ?s0 = "\<lparr>si_cli = cli, si_pos = 0, si_argstart = 0, si_argv = []\<rparr>"
  obtain cli' where c: "length cli' = n" "take (length ?p) cli' = ?p"
    "read_input n k (?p @ [CHR 0x01] @ later) ?s0 = read_input n k ([CHR 0x01] @ later)
      \<lparr>si_cli = cli', si_pos = length ?p,
       si_argstart = fst (scan_args k ?p 0 0 []), si_argv = snd (scan_args k ?p 0 0 [])\<rparr>"
    using read_input_run [OF assms(3), of ?s0 n k "[CHR 0x01] @ later"] assms(5,6) by auto
  have v: "snd (scan_args k ?p 0 0 []) = arg_offs 0 ws"
    using scan_args_pack [OF assms(1), of "[]" k t 0] scan_args_word [of t k "[]"] assms(2,4) by (simp add: no_nul_def)
  let ?st = "\<lparr>si_cli = cli'[length ?p := CHR 0x00], si_pos = length ?p,
       si_argstart = fst (scan_args k ?p 0 0 []), si_argv = arg_offs 0 ws\<rparr>"
  have "take (length (pack ws)) (cli'[length ?p := CHR 0x00]) = pack ws"
    using c(2) by (metis append_eq_conv_conj length_append le_add1 min.absorb1 take_take take_update_cancel)
  then have "cli'[length ?p := CHR 0x00] = pack ws @ drop (length (pack ws)) (cli'[length ?p := CHR 0x00])"
    by (metis append_take_drop_id)
  then have "argv_of ?st = ws"
    using args_of_offs [OF assms(1), of "[]"] by (metis append_Nil argv_of_def list.size(3) shinput.select_convs(1,4))
  moreover have "usbShellReadInput cli n k (?p @ [CHR 0x01] @ later) = Some (?st, later)"
    using c(3) v by (simp add: usbShellReadInput_def)
  ultimately show thesis using that [of ?st] c(1) by simp
qed

section \<open>The line as the terminal sends it\<close>

lemma sh_fixed_write_all:
  "Broken \<notin> set net \<Longrightarrow> \<exists>net'. sh_fixed_write net buf = (buf, True, net') \<and> Broken \<notin> set net'"
proof (induction net arbitrary: buf)
  case (Cons r rs)
  show ?case
  proof (cases r)
    case (Wrote n)
    obtain net' where "sh_fixed_write rs (drop n buf) = (drop n buf, True, net')" "Broken \<notin> set net'"
      using Cons.IH [of "drop n buf"] Cons.prems by auto
    then show ?thesis using Wrote Cons.prems by simp
  qed (use Cons in auto)
qed simp

definition no_redirs :: "lookups \<Rightarrow> item list \<Rightarrow> bool" where
  "no_redirs e its \<longleftrightarrow> items_redirs e its = []"

text \<open>A name the terminal passes on: neither a comment nor a path nor a command of its own.\<close>

definition passed_on :: "string \<Rightarrow> bool" where
  "passed_on cmd \<longleftrightarrow> cmd \<noteq> [] \<and> hd cmd \<noteq> CHR ''#'' \<and> CHR ''.'' \<notin> set cmd \<and> CHR ''/'' \<notin> set cmd
     \<and> Option.bind (find_command g_commands cmd) cmd_func = None"

lemma execute_parsed:
  assumes parse: "parse_cli (lookups_of s) 4096 PATH_MAX 16 ln
      = Inr (Suc n, \<lparr>cli_out = cmd @ CHR 0x00 # r, cli_argv = cmd # args, cli_type = REDIR_TYPE_NONE, cli_redir = []\<rparr>)"
    and cmd: "passed_on cmd" "no_nul cmd" and sock: "px_sock s" "Broken \<notin> set (px_net s)"
  obtains net prompt where "Broken \<notin> set net" and
    "execute_line e ln s = Inr (1, s\<lparr>px_sent := px_sent s @ cmd @ CHR 0x00 # r, px_net := net,
       px_currcmd := cmd, px_prompt := prompt\<rparr>)"
proof -
  let ?out = "cmd @ CHR 0x00 # r"
  let ?c = "\<lparr>cli_out = ?out, cli_argv = cmd # args, cli_type = REDIR_TYPE_NONE, cli_redir = []\<rparr>"
  have ne: "ln \<noteq> []" using parse by (auto simp: parse_cli_def)
  obtain net where w: "sh_fixed_write (px_net s) ?out = (?out, True, net)" "Broken \<notin> set net"
    using sh_fixed_write_all [OF sock(2), of ?out] by auto
  have hd: "hd ?out \<noteq> CHR ''#''" using cmd(1) by (cases cmd) (auto simp: passed_on_def)
  have cc: "takeWhile (\<lambda>x. x \<noteq> CHR 0x00) ?out = cmd"
    using cmd(2) by (auto simp: no_nul_def takeWhile_append)
  have "exec_line 2 e ln s = Inr (send_line e ?c ?out (if px_script s then s else s\<lparr>px_prompt := []\<rparr>))"
    using parse ne hd cmd(1) by (simp add: numeral_2_eq_2 execute_line_with_def passed_on_def Let_def)
  then have "execute_line e ln s = Inr (1, s\<lparr>px_sent := px_sent s @ ?out, px_net := net,
      px_currcmd := cmd, px_prompt := (if px_script s then px_prompt s else [])\<rparr>)"
    using w cc sock(1) by (simp add: execute_line_def send_line_def open_redir_def Let_def)
  then show thesis using that w(2) by blast
qed

lemma execute_psp_line:
  assumes its: "items_ok (lookups_of s) its" "its \<noteq> []" "list_all isspace lead"
    and words: "items_words (lookups_of s) its = cmd # args" and rd: "items_redirs (lookups_of s) its = []"
    and len: "length args \<le> 13" "length (pack (cmd # args)) < 4096"
    and cmd: "passed_on cmd" "no_nul cmd"
    and sock: "px_sock s" "Broken \<notin> set (px_net s)"
  obtains net prompt where "Broken \<notin> set net" and
    "execute_line e (lead @ show_items its) s = Inr (1, s\<lparr>px_sent := px_sent s @ pack (cmd # args) @ [CHR 0x01],
       px_net := net, px_currcmd := cmd, px_prompt := prompt\<rparr>)"
proof -
  have out: "pack (cmd # args) @ [CHR 0x01] = cmd @ CHR 0x00 # pack args @ [CHR 0x01]" by (simp add: pack_def)
  have "parse_cli (lookups_of s) 4096 PATH_MAX 16 (lead @ show_items its)
      = Inr (Suc (length (pack (cmd # args))), \<lparr>cli_out = cmd @ CHR 0x00 # pack args @ [CHR 0x01],
          cli_argv = cmd # args, cli_type = REDIR_TYPE_NONE, cli_redir = []\<rparr>)"
    using parse_cli_items [OF its(1,2,3), of 16 4096 PATH_MAX] words rd len by (simp add: out [simplified])
  from execute_parsed [OF this cmd sock] that show thesis unfolding out by blast
qed

section \<open>The answer as the terminal reads it\<close>

text \<open>The reads of the socket, each of which returns any part of what was sent.\<close>

fun read_all :: "penv \<Rightarrow> string list \<Rightarrow> string option \<Rightarrow> pspsh \<Rightarrow> (string option \<times> pspsh) run" where
  "read_all e [] fr s = Inr (fr, s)"
| "read_all e (ch # chs) fr s =
     (case read_socket e ch fr s of Inl f \<Rightarrow> Inl f | Inr (fr', s') \<Rightarrow> read_all e chs fr' s')"

lemma read_frames_append:
  "read_frames e (a @ b) fr s =
    (case read_frames e a fr s of Inl f \<Rightarrow> Inl f | Inr (fr', s') \<Rightarrow> read_frames e b fr' s')"
proof (induction a arbitrary: fr s)
  case (Cons c a)
  show ?case
  proof (cases fr)
    case None
    then show ?thesis using Cons.IH by simp
  next
    case (Some acc)
    show ?thesis
      unfolding Some append_Cons read_frames.simps(2) option.case
      by (simp add: Cons.IH split: sum.split del: read_frames.simps)
  qed
qed simp

lemma read_all_concat:
  "CHR 0x00 \<notin> set (concat chs) \<Longrightarrow> read_all e chs fr s = read_frames e (concat chs) fr s"
proof (induction chs arbitrary: fr s)
  case (Cons ch chs)
  then have n: "CHR 0x00 \<notin> set ch" "CHR 0x00 \<notin> set (concat chs)" by auto
  have "takeWhile (\<lambda>x. x \<noteq> CHR 0x00) ch = ch"
    unfolding takeWhile_eq_all_conv using n(1) by blast
  then have "read_socket e ch fr s = read_frames e ch fr s"
    by (simp only: read_socket_def)
  then show ?case
    unfolding read_all.simps concat.simps read_frames_append
    by (cases "read_frames e ch fr s") (auto simp: Cons.IH [OF n(2)])
qed simp

definition payload_ok :: "string \<Rightarrow> bool" where
  "payload_ok t \<longleftrightarrow> t \<noteq> [] \<and> SHELL_CMD_BEGIN \<notin> set t \<and> SHELL_CMD_END \<notin> set t \<and> CHR 0x00 \<notin> set t
     \<and> length t < LINE_MAX"

lemma read_payload:
  assumes "SHELL_CMD_BEGIN \<notin> set t" and "SHELL_CMD_END \<notin> set t" and "length acc + length t \<le> LINE_MAX"
  shows "read_frames e (t @ r) (Some acc) s = read_frames e r (Some (acc @ t)) s"
  using assms by (induction t arbitrary: acc) auto

lemma read_frame:
  assumes "payload_ok t" and "process_cmd e t s = Inr s'"
  shows "read_frames e (SHELL_CMD_BEGIN # t @ SHELL_CMD_END # r) fr s = read_frames e r None s'"
proof -
  have "SHELL_CMD_BEGIN \<noteq> SHELL_CMD_END" by (simp add: SHELL_CMD_BEGIN_def SHELL_CMD_END_def)
  then show ?thesis
    using assms read_payload [of t "[]" e "SHELL_CMD_END # r" s] by (auto simp: payload_ok_def)
qed

text \<open>A text a command prints: one that arrives as printed.\<close>

definition text_ok :: "string \<Rightarrow> bool" where
  "text_ok t \<longleftrightarrow> payload_ok (crlf t) \<and> code (hd (crlf t)) < 128"

lemma set_crlf: "set (crlf t) \<subseteq> set t \<union> {CHR 0x0D}"
  by (auto simp: crlf_def split: if_splits)

lemma SHELL_PRINT_bytes: "concat (SHELL_PRINT t) = SHELL_CMD_BEGIN # crlf t @ [SHELL_CMD_END]"
  unfolding SHELL_PRINT_def shprintf_concat by (simp add: crlf_def SHELL_CMD_BEGIN_def SHELL_CMD_END_def)

lemma read_texts:
  assumes "list_all text_ok texts" and "px_fredir s = None"
  shows "read_frames e (concat (concat (map SHELL_PRINT texts)) @ r) None s
    = read_frames e r None (s\<lparr>px_shown := px_shown s @ map (\<lambda>t. Stdout (crlf t)) texts\<rparr>)"
  using assms
proof (induction texts arbitrary: s)
  case (Cons t ts)
  have "process_cmd e (crlf t) s = Inr (show_text (Stdout (crlf t)) s)"
    using Cons.prems by (simp add: process_cmd_def text_ok_def payload_ok_def)
  then have "read_frames e (SHELL_CMD_BEGIN # crlf t @ SHELL_CMD_END # (concat (concat (map SHELL_PRINT ts)) @ r)) None s
      = read_frames e (concat (concat (map SHELL_PRINT ts)) @ r) None (show_text (Stdout (crlf t)) s)"
    using Cons.prems by (intro read_frame) (simp_all add: text_ok_def)
  then show ?case
    using Cons by (simp add: SHELL_PRINT_bytes show_text_def)
qed simp

lemma report_error_shown: "\<exists>extra. px_shown (report_error s) = px_shown s @ extra"
  by (auto simp: report_error_def show_text_def close_script_def Let_def split: option.split)

text \<open>The status of a command, when no script is running.\<close>

lemma command_done_idle:
  assumes "failed \<or> px_fscript s = None" and "px_exec s = []"
  obtains s' extra where "command_done e failed val s = Inr s'"
    and "px_shown s' = px_shown s @ extra" and "\<not> failed \<longrightarrow> extra = []"
    and "px_env s' ''?'' = Some val" and "px_lasterr s' = failed" and "px_currcmd s' = []"
    and "px_sent s' = px_sent s" and "px_fscript s' = None" and "px_exec s' = []"
proof -
  define s1 where "s1 = (if failed then report_error s else s\<lparr>px_lasterr := False\<rparr>)"
  have s1: "px_fscript s1 = None" "px_exec s1 = []" "px_sent s1 = px_sent s" "px_lasterr s1 = failed"
    using assms by (auto simp: s1_def report_error_def show_text_def in_script_def close_script_def Let_def split: option.split)
  have "\<exists>extra. px_shown s1 = px_shown s @ extra \<and> (\<not> failed \<longrightarrow> extra = [])"
    using report_error_shown [of s] by (auto simp: s1_def)
  then obtain extra where x: "px_shown s1 = px_shown s @ extra" "\<not> failed \<longrightarrow> extra = []" by blast
  let ?s2 = "(put_env ''?'' val s1)\<lparr>px_currcmd := [], px_fredir := None\<rparr>"
  have run: "execute_script_line e ?s2 = Inr (0, ?s2)"
    using s1 by (simp add: execute_script_line_def put_env_def)
  have "command_done e failed val s = (if \<not> px_script s1 then
      Inr (if px_asmmode s1 then
          (let a = next_asmaddr val (px_asmaddr s1) in
           ?s2\<lparr>px_asmaddr := a, px_prompt := ''asm:0x'' @ fmt_08X a @ ''> ''\<rparr>)
        else path_prompt (?s2\<lparr>px_ttymode := False\<rparr>)) else Inr ?s2)"
    unfolding command_done_def s1_def [symmetric] Let_def run by (simp add: put_env_def)
  then show thesis
    using that [of _ extra] x s1
    by (cases "px_script s1"; cases "px_asmmode s1") (simp_all add: put_env_def path_prompt_def Let_def)
qed

lemma crlf_plain: "CHR 0x0A \<notin> set t \<Longrightarrow> crlf t = t"
  by (induction t) (auto simp: crlf_def)

lemma hex_upper_code: "d < 16 \<Longrightarrow> 48 \<le> code (hex_upper d) \<and> code (hex_upper d) \<le> 70"
  by (auto simp: hex_upper_def of_char_of)

lemma fmt_ret_chars: "c \<in> set (fmt_ret v) \<Longrightarrow> 48 \<le> code c \<and> code c \<le> 120"
proof -
  assume "c \<in> set (fmt_ret v)"
  then consider "c = CHR ''0''" | "c = CHR ''x''" | n where "c = hex_upper (n mod 16)"
    by (auto simp: fmt_ret_def fmt_08X_def)
  then show ?thesis
  proof cases
    case (3 n)
    then show ?thesis using hex_upper_code [of "n mod 16"] by simp
  qed simp_all
qed

lemma length_fmt_ret: "length (fmt_ret v) = 10"
  by (simp add: fmt_ret_def fmt_08X_def)

lemma read_status:
  assumes "c = SHELL_CMD_SUCCESS \<or> c = SHELL_CMD_ERROR"
  shows "read_frames e (concat (SHELL_PRINT_CMD c (fmt_ret v))) fr s
    = map_sum id (Pair None) (command_done e (c = SHELL_CMD_ERROR) (fmt_ret v) s)"
proof -
  have codes: "\<forall>x \<in> set (fmt_ret v). code x \<le> 120 \<and> 48 \<le> code x" using fmt_ret_chars by blast
  have nl: "CHR 0x0A \<notin> set (c # fmt_ret v)"
    using codes assms by (auto simp: SHELL_CMD_SUCCESS_def SHELL_CMD_ERROR_def)
  have bytes: "concat (SHELL_PRINT_CMD c (fmt_ret v)) = SHELL_CMD_BEGIN # (c # fmt_ret v) @ SHELL_CMD_END # []"
    unfolding SHELL_PRINT_CMD_def shprintf_concat
    using crlf_plain [OF nl] by (simp add: crlf_def SHELL_CMD_BEGIN_def SHELL_CMD_END_def)
  have ok: "payload_ok (c # fmt_ret v)"
    using codes assms length_fmt_ret [of v]
    by (auto simp: payload_ok_def LINE_MAX_def SHELL_CMD_BEGIN_def SHELL_CMD_END_def
        SHELL_CMD_SUCCESS_def SHELL_CMD_ERROR_def)
  have pc: "process_cmd e (c # fmt_ret v) s = command_done e (c = SHELL_CMD_ERROR) (fmt_ret v) s"
    using assms by (auto simp: process_cmd_def SHELL_CMD_CWD_def SHELL_CMD_SUCCESS_def SHELL_CMD_ERROR_def Let_def)
  show ?thesis
  proof (cases "command_done e (c = SHELL_CMD_ERROR) (fmt_ret v) s")
    case (Inr s')
    then show ?thesis unfolding bytes using read_frame [OF ok, of e s s' "[]" fr] pc by simp
  next
    case (Inl f)
    have "SHELL_CMD_BEGIN \<noteq> SHELL_CMD_END" by (simp add: SHELL_CMD_BEGIN_def SHELL_CMD_END_def)
    then show ?thesis unfolding bytes
      using Inl pc ok read_payload [of "c # fmt_ret v" "[]" e "[SHELL_CMD_END]" s]
      by (auto simp: payload_ok_def)
  qed
qed

section \<open>There and back\<close>

definition status_of :: "cmd_result \<Rightarrow> char" where
  "status_of r = (if r = CMD_OK then SHELL_CMD_SUCCESS else SHELL_CMD_ERROR)"

lemma reply_of_status: "r \<noteq> CMD_EXITSHELL \<Longrightarrow> reply_of (Some r) v = SHELL_PRINT_CMD (status_of r) (fmt_ret v)"
  by (cases r) (simp_all add: reply_of_def status_of_def SHELL_CMD_SUCCESS_def SHELL_CMD_ERROR_def)

lemma turn_of_pack:
  assumes "list_all no_nul (cmd # args)" and "\<forall>w \<in> set (cmd # args). CHR 0x01 \<notin> set w" and "length args \<le> 13"
    and "length (pack (cmd # args)) < MAX_CLI" and "length cli = MAX_CLI"
    and "cmd \<noteq> []" and "hd cmd \<noteq> CHR ''#''"
    and "find_command psp_commands cmd = Some c" and "cmd_func c = Some fname" and "min_args c \<le> length args"
    and "fn fname args w = (r, v, texts, w')"
  shows "\<exists>cli'. length cli' = MAX_CLI \<and> shellParseTurn fn cli (pack (cmd # args) @ [CHR 0x01] @ later) w
    = Some (concat (map SHELL_PRINT texts) @ reply_of r v, r = Some CMD_EXITSHELL, cli', later, w')"
proof -
  have a: "no_nul []" "CHR 0x01 \<notin> set (pack (cmd # args) @ [])" "length (cmd # args) \<le> 16"
    "length (pack (cmd # args) @ []) < MAX_CLI"
    using assms(2-4) by (auto simp: no_nul_def pack_def)
  obtain st where st: "usbShellReadInput cli MAX_CLI 16 ((pack (cmd # args) @ []) @ [CHR 0x01] @ later) = Some (st, later)"
    "argv_of st = cmd # args" "length (si_cli st) = MAX_CLI"
    by (rule input_of_pack [OF assms(1) a assms(5)])
  have "shellExecute fn (cmd # args) w = (r, v, texts, w')"
    using assms(6-11) by (simp add: shellExecute_def)
  moreover have "si_argv st \<noteq> []" using st(2) by (auto simp: argv_of_def)
  ultimately show ?thesis using st by (simp add: shellParseTurn_def)
qed

lemma read_reply:
  assumes "list_all text_ok texts" and "px_fredir s = None" and "px_fscript s = None" and "px_exec s = []"
    and "r \<noteq> CMD_EXITSHELL"
    and "concat chunks = concat (concat (map SHELL_PRINT texts) @ reply_of (Some r) v)"
  obtains s' extra where "read_all e chunks None s = Inr (None, s')"
    and "px_shown s' = px_shown s @ map (\<lambda>t. Stdout (crlf t)) texts @ extra" and "r = CMD_OK \<longrightarrow> extra = []"
    and "px_env s' ''?'' = Some (fmt_ret v)" and "px_lasterr s' = (r = CMD_ERROR)" and "px_sent s' = px_sent s"
proof -
  let ?s = "s\<lparr>px_shown := px_shown s @ map (\<lambda>t. Stdout (crlf t)) texts\<rparr>"
  have st: "status_of r = SHELL_CMD_SUCCESS \<or> status_of r = SHELL_CMD_ERROR" by (simp add: status_of_def)
  have fl: "(status_of r = SHELL_CMD_ERROR) = (r = CMD_ERROR)"
    using assms(5) by (cases r) (simp_all add: status_of_def SHELL_CMD_SUCCESS_def SHELL_CMD_ERROR_def)
  have bytes: "concat chunks = concat (concat (map SHELL_PRINT texts)) @ concat (SHELL_PRINT_CMD (status_of r) (fmt_ret v))"
    using assms(5,6) by (simp add: reply_of_status)
  have "CHR 0x00 \<notin> set (concat (SHELL_PRINT t))" if "t \<in> set texts" for t
    using assms(1) that
    by (auto simp: SHELL_PRINT_bytes list_all_iff text_ok_def payload_ok_def SHELL_CMD_BEGIN_def SHELL_CMD_END_def)
  moreover have "CHR 0x00 \<notin> set (concat (SHELL_PRINT_CMD (status_of r) (fmt_ret v)))"
    unfolding SHELL_PRINT_CMD_def shprintf_concat
    using fmt_ret_chars [of "CHR 0x00" v] set_crlf [of "[CHR 0xFF] @ [status_of r] @ fmt_ret v @ [CHR 0xFE]"] st
    by (auto simp: SHELL_CMD_SUCCESS_def SHELL_CMD_ERROR_def)
  ultimately have nul: "CHR 0x00 \<notin> set (concat chunks)"
    unfolding bytes by auto
  have idle: "r = CMD_ERROR \<or> px_fscript ?s = None" "px_exec ?s = []" using assms(3,4) by simp_all
  obtain s' extra where s': "command_done e (r = CMD_ERROR) (fmt_ret v) ?s = Inr s'"
    "px_shown s' = px_shown ?s @ extra" "\<not> r = CMD_ERROR \<longrightarrow> extra = []"
    "px_env s' ''?'' = Some (fmt_ret v)" "px_lasterr s' = (r = CMD_ERROR)" "px_currcmd s' = []"
    "px_sent s' = px_sent ?s" "px_fscript s' = None" "px_exec s' = []"
    by (rule command_done_idle [OF idle, of e "fmt_ret v"])
  have "read_all e chunks None s = Inr (None, s')"
    unfolding read_all_concat [OF nul] bytes read_texts [OF assms(1,2)] read_status [OF st] fl
    using s'(1) by simp
  then show thesis using that [of s' extra] s' by simp
qed

text \<open>C31: the round trip of a command. The words of a line typed on the PC are the command and the
  arguments that the function on the PSP is called with, whatever follows on the channel; the texts it
  prints are shown and its result and value are what the terminal keeps, however the bytes of the
  answer are cut into reads.
\<close>

theorem command_round_trip:
  assumes "items_ok (lookups_of s) its" and "its \<noteq> []" and "list_all isspace lead"
    and "items_words (lookups_of s) its = cmd # args" and "items_redirs (lookups_of s) its = []"
    and "length args \<le> 13" and "length (pack (cmd # args)) < MAX_CLI" and "passed_on cmd"
    and "list_all no_nul (cmd # args)" and "\<forall>w \<in> set (cmd # args). CHR 0x01 \<notin> set w"
    and "px_sock s" and "Broken \<notin> set (px_net s)" and "px_fredir s = None"
    and "px_fscript s = None" and "px_exec s = []"
    and "length cli = MAX_CLI" and "find_command psp_commands cmd = Some c" and "cmd_func c = Some fname"
    and "min_args c \<le> length args" and "fn fname args w = (Some r, v, texts, w')" and "r \<noteq> CMD_EXITSHELL"
    and "list_all text_ok texts"
  shows "\<exists>s1 sent blocks cli'.
     execute_line e (lead @ show_items its) s = Inr (1, s1) \<and> px_sent s1 = px_sent s @ sent \<and>
     shellParseTurn fn cli (sent @ later) w = Some (blocks, False, cli', later, w') \<and>
     (\<forall>chunks. concat chunks = concat blocks \<longrightarrow>
       (\<exists>s2 extra. read_all e chunks None s1 = Inr (None, s2) \<and>
          px_shown s2 = px_shown s @ map (\<lambda>t. Stdout (crlf t)) texts @ extra \<and> (r = CMD_OK \<longrightarrow> extra = []) \<and>
          px_env s2 ''?'' = Some (fmt_ret v) \<and> px_lasterr s2 = (r = CMD_ERROR)))"
proof -
  have cmd: "cmd \<noteq> []" "hd cmd \<noteq> CHR ''#''" "no_nul cmd" using assms(8,9) by (simp_all add: passed_on_def)
  have len: "length (pack (cmd # args)) < 4096" using assms(7) by (simp add: MAX_CLI_def)
  obtain net prompt where "Broken \<notin> set net" and
    ex: "execute_line e (lead @ show_items its) s = Inr (1, s\<lparr>px_sent := px_sent s @ pack (cmd # args) @ [CHR 0x01],
       px_net := net, px_currcmd := cmd, px_prompt := prompt\<rparr>)" (is "_ = Inr (1, ?s1)")
    by (rule execute_psp_line [OF assms(1-6) len assms(8) cmd(3) assms(11,12)])
  obtain cli' where tr: "shellParseTurn fn cli (pack (cmd # args) @ [CHR 0x01] @ later) w
    = Some (concat (map SHELL_PRINT texts) @ reply_of (Some r) v, False, cli', later, w')"
    using turn_of_pack [OF assms(9,10,6,7,16) cmd(1,2) assms(17-19), of fn w "Some r" v texts w' later]
      assms(20,21) by auto
  have rd: "\<exists>s2 extra. read_all e chunks None ?s1 = Inr (None, s2) \<and>
      px_shown s2 = px_shown s @ map (\<lambda>t. Stdout (crlf t)) texts @ extra \<and> (r = CMD_OK \<longrightarrow> extra = []) \<and>
      px_env s2 ''?'' = Some (fmt_ret v) \<and> px_lasterr s2 = (r = CMD_ERROR)"
    if "concat chunks = concat (concat (map SHELL_PRINT texts) @ reply_of (Some r) v)" for chunks
  proof -
    note chunks = that
    have idle: "px_fredir ?s1 = None" "px_fscript ?s1 = None" "px_exec ?s1 = []" using assms(13-15) by simp_all
    obtain s2 extra where "read_all e chunks None ?s1 = Inr (None, s2)"
      "px_shown s2 = px_shown ?s1 @ map (\<lambda>t. Stdout (crlf t)) texts @ extra" "r = CMD_OK \<longrightarrow> extra = []"
      "px_env s2 ''?'' = Some (fmt_ret v)" "px_lasterr s2 = (r = CMD_ERROR)" "px_sent s2 = px_sent ?s1"
      by (rule read_reply [OF assms(22) idle assms(21) chunks])
    then show ?thesis by (intro exI [of _ s2] exI [of _ extra]) simp
  qed
  show ?thesis
    using ex tr rd
    by (intro exI [of _ ?s1] exI [of _ "pack (cmd # args) @ [CHR 0x01]"]
        exI [of _ "concat (map SHELL_PRINT texts) @ reply_of (Some r) v"] exI [of _ cli']) simp
qed

end
