(* ===== verification/ShellScripts.thy ===== *)
theory ShellScripts
  imports ShellProps
begin

text \<open>
  Scripts of the terminal run in step with the answers of the PSP, and what happens to lines the
  parser refuses in the middle.
\<close>

section \<open>Nested execution\<close>

text \<open>
  The only command that executes a line is \<^verbatim>\<open>asm\<close>, and its lines start with \<^verbatim>\<open>pokew\<close> or \<^verbatim>\<open>calc\<close>,
  which the PSP handles: two levels are enough.
\<close>

lemma cli_loop_redir:
  assumes "cli_loop e o' r (Suc n) inp st = Inr (b, st')" and "inp \<noteq> []" and "hd inp = CHR ''>''"
  shows "cli_argv st' = cli_argv st \<or> (\<exists>rest st1. length rest < length inp \<and> cli_argv st1 = cli_argv st \<and>
    cli_loop e o' r (Suc n) rest st1 = Inr (b, st'))"
proof -
  define cat where "cat = (tl inp \<noteq> [] \<and> hd (tl inp) = CHR ''>'')"
  define inp' where "inp' = (if cat then tl (tl inp) else tl inp)"
  let ?st = "st\<lparr>cli_type := if cat then REDIR_TYPE_CAT else REDIR_TYPE_NEW\<rparr>"
  have run: "(case read_string e inp' of Inl f \<Rightarrow> Inl f
      | Inr (rest, out, len) \<Rightarrow>
          if r < length out then Inl Buffer_Overflow
          else if len = 0 then Inr (False, ?st\<lparr>cli_redir := out\<rparr>)
          else cli_loop e o' r (Suc n) rest (?st\<lparr>cli_redir := butlast out\<rparr>)) = Inr (b, st')"
    using assms unfolding cat_def inp'_def by (subst (asm) cli_loop.simps(2)) (simp add: Let_def)
  have l: "length inp' < length inp" using assms(2) by (auto simp: inp'_def cat_def neq_Nil_conv)
  obtain rest out len where rs: "read_string e inp' = Inr (rest, out, len)" using run by (auto split: sum.splits)
  then have lr: "length rest < length inp" using read_string_rest [OF rs] l by simp
  show ?thesis
  proof (cases "len = 0")
    case True
    then show ?thesis using run rs by (auto split: if_splits)
  next
    case False
    then have "cli_loop e o' r (Suc n) rest (?st\<lparr>cli_redir := butlast out\<rparr>) = Inr (b, st')"
      using run rs by (simp split: if_splits)
    then show ?thesis using lr 
      by (intro disjI2 exI [of _ rest] exI [of _ "?st\<lparr>cli_redir := butlast out\<rparr>"] conjI) simp_all
  qed
qed

lemma cli_loop_word:
  assumes "cli_loop e o' r (Suc n) inp st = Inr (b, st')" and "\<not> (inp \<noteq> [] \<and> hd inp = CHR ''>'')"
    and "read_string e inp = Inr (rest, out, len)"
  shows "(len = 0 \<and> cli_argv st' = cli_argv st) \<or> (\<exists>st1. cli_argv st1 = cli_argv st @ [butlast out] \<and>
    cli_loop e o' r n rest st1 = Inr (b, st'))"
proof -
  let ?st = "st\<lparr>cli_out := cli_out st @ out\<rparr>"
  have run: "(if o' < length (cli_out ?st) then Inl Buffer_Overflow
      else if len = 0 then Inr (True, ?st)
      else cli_loop e o' r n rest (?st\<lparr>cli_argv := cli_argv st @ [butlast out]\<rparr>)) = Inr (b, st')"
    using assms(1) by (subst (asm) cli_loop.simps(2)) (simp only: assms(2,3) if_False sum.case prod.case Let_def)
  show ?thesis
  proof (cases "len = 0")
    case True
    then show ?thesis using run by (auto split: if_splits)
  next
    case False
    then have "cli_loop e o' r n rest (?st\<lparr>cli_argv := cli_argv st @ [butlast out]\<rparr>) = Inr (b, st')"
      using run by (simp split: if_splits)
    then show ?thesis 
      by (intro disjI2 exI [of _ "?st\<lparr>cli_argv := cli_argv st @ [butlast out]\<rparr>"] conjI) simp_all
  qed
qed

lemma cli_loop_argv:
  "cli_loop e o' r n inp st = Inr (b, st') \<Longrightarrow> \<exists>ws. cli_argv st' = cli_argv st @ ws"
proof (induction n arbitrary: inp st)
  case (Suc n)
  note outer = Suc.IH
  show ?case using Suc.prems
  proof (induction "length inp" arbitrary: inp st rule: less_induct)
    case less
    show ?case
    proof (cases "inp \<noteq> [] \<and> hd inp = CHR ''>''")
      case True
      then show ?thesis using cli_loop_redir [OF less.prems] less.hyps by (metis append_Nil2)
    next
      case False
      obtain rest out len where rs: "read_string e inp = Inr (rest, out, len)"
        using less.prems False by (subst (asm) cli_loop.simps(2)) (auto split: sum.splits)
      from cli_loop_word [OF less.prems False rs] show ?thesis
        using outer by (metis append_Nil2 append_assoc)
    qed
  qed
qed simp

lemma parse_cli_first:
  assumes "list_all (plain_ok False) w" and "w \<noteq> []" and "parse_cli e o' r 16 (w @ CHR '' '' # t) = Inr (n, c)" and "n \<noteq> 0"
  shows "\<exists>ws. cli_argv c = w # ws"
proof -
  let ?inp = "w @ CHR '' '' # t"
  obtain a w' where w: "w = a # w'" "\<not> isspace a" "a \<noteq> CHR ''>''" using assms(1,2) by (cases w) (auto simp: plain_ok_def)
  have "show_word (map (\<lambda>c. Bare (Plain c)) w) = w" "word_value e (map (\<lambda>c. Bare (Plain c)) w) = w"
    by (simp_all add: show_word_def word_value_def o_def)
  moreover have "word_ok e (map (\<lambda>c. Bare (Plain c)) w) (CHR '' '' # t)"
    using assms(1,2) by (rule plain_word_ok)
  ultimately have rs: "read_string e ?inp = Inr (skip_space (CHR '' '' # t), w @ [CHR 0x00], length w + 1)"
    using read_word [of e "map (\<lambda>c. Bare (Plain c)) w" "CHR '' '' # t" "[]"] assms(2)
    by (simp add: ends_word_def isspace_def)
  obtain ok st where run: "cli_loop e o' r (Suc 14) ?inp cli_empty = Inr (ok, st)" "cli_argv c = cli_argv st"
    using assms(3,4) w by (auto simp: parse_cli_def split: sum.splits prod.splits if_splits)
  obtain st1 where "cli_argv st1 = [w]" "cli_loop e o' r 14 (skip_space (CHR '' '' # t)) st1 = Inr (ok, st)"
    using cli_loop_word [OF run(1) _ rs] w by (auto simp: cli_empty_def)
  then show ?thesis using cli_loop_argv run(2) by (metis append_Cons append_Nil)
qed

definition from_psp :: "string \<Rightarrow> bool" where
  "from_psp w \<longleftrightarrow> w \<noteq> [] \<and> list_all (plain_ok False) w \<and> Option.bind (find_command g_commands w) cmd_func = None"

lemma execute_line_with_any:
  assumes "from_psp w"
  shows "execute_line_with h1 e (w @ CHR '' '' # t) s = execute_line_with h2 e (w @ CHR '' '' # t) s"
proof (cases "parse_cli (lookups_of s) 4096 PATH_MAX 16 (w @ CHR '' '' # t)")
  case (Inl f)
  then show ?thesis by (simp add: execute_line_with_def)
next
  case (Inr nc)
  obtain n c where nc: "nc = (n, c)" by (cases nc)
  show ?thesis
  proof (cases "n = 0")
    case True
    then show ?thesis using Inr nc by (simp add: execute_line_with_def)
  next
    case False
    obtain ws where "cli_argv c = w # ws"
      using parse_cli_first [of w "lookups_of s" 4096 PATH_MAX t n c] assms Inr nc False by (auto simp: from_psp_def)
    moreover have "Option.bind (find_command g_commands w) cmd_func = None" using assms by (simp add: from_psp_def)
    ultimately show ?thesis using Inr nc by (simp add: execute_line_with_def Let_def)
  qed
qed

lemma asm_words_prefix: "asm_words e cmd as = Inr (Some r) \<Longrightarrow> \<exists>t. r = cmd @ t"
  by (induction e cmd as rule: asm_words.induct) (auto simp: Let_def split: option.splits if_splits)

lemma from_psp_asm: "from_psp ''pokew''" "from_psp ''calc''"
proof -
  have "Option.bind (find_command g_commands ''pokew'') cmd_func = None"
    "Option.bind (find_command g_commands ''calc'') cmd_func = None"
    by code_simp+
  then show "from_psp ''pokew''" "from_psp ''calc''" by (simp_all add: from_psp_def plain_ok_def isspace_def)
qed

lemma asm_cmd_any:
  assumes "\<And>w t s. from_psp w \<Longrightarrow> x1 (w @ CHR '' '' # t) s = x2 (w @ CHR '' '' # t) s"
  shows "asm_cmd x1 e a0 as s = asm_cmd x2 e a0 as s"
proof -
  let ?pre = "fst (snprintf 1024 (''pokew '' @ [CHR 0x27] @ a0 @ [CHR 0x27] @ '' ''))"
  have pre: "\<exists>t. ?pre = ''pokew'' @ CHR '' '' # t" by (simp add: snprintf_def)
  have "x1 cmd s = x2 cmd s" if "asm_words e ?pre as = Inr (Some cmd)" for cmd
    using asm_words_prefix [OF that] pre assms [OF from_psp_asm(1)] by auto
  moreover have "x1 (fst (snprintf 1024 (''calc '' @ r))) s = x2 (fst (snprintf 1024 (''calc '' @ r))) s" for r
    using assms [OF from_psp_asm(2), of "take 1018 r"] by (simp add: snprintf_def)
  ultimately show ?thesis
    by (auto simp: asm_cmd_def split: sum.split option.split)
qed

lemma exec_line_depth: "exec_line (Suc (Suc n)) e buf s = execute_line e buf s"
proof -
  have inner: "exec_line (Suc n) e (w @ CHR '' '' # t) s' = exec_line (Suc 0) e (w @ CHR '' '' # t) s'"
    if "from_psp w" for w t s'
    using execute_line_with_any [OF that] by simp
  have asm: "asm_cmd (exec_line (Suc n) e) e = asm_cmd (exec_line (Suc 0) e) e"
    by (intro ext asm_cmd_any inner)
  have "local_cmd (exec_line (Suc n) e) e = local_cmd (exec_line (Suc 0) e) e"
    unfolding local_cmd_def asm ..
  then show ?thesis by (simp add: execute_line_def numeral_2_eq_2)
qed

section \<open>Scripts\<close>

text \<open>Items whose words do not depend on variables.\<close>

fun constant_atom :: "atom \<Rightarrow> bool" where
  "constant_atom (Var name) = False"
| "constant_atom (PunctVar c) = False"
| "constant_atom (Arg ds) = False"
| "constant_atom a = True"

fun constant_piece :: "piece \<Rightarrow> bool" where
  "constant_piece (Bare a) = constant_atom a"
| "constant_piece (Single s) = True"
| "constant_piece (Double as) = list_all constant_atom as"

fun constant_item :: "item \<Rightarrow> bool" where
  "constant_item (Word ps g) = list_all constant_piece ps"
| "constant_item (Redir cat g0 ps g) = False"

lemma atom_value_constant: "constant_atom a \<Longrightarrow> atom_value e a = atom_value e' a"
  by (cases a) simp_all

lemma word_value_constant: "list_all constant_piece ps \<Longrightarrow> word_value e ps = word_value e' ps"
proof -
  have "piece_value e p = piece_value e' p" if "constant_piece p" for p
  proof (cases p)
    case (Double as)
    then have "map (atom_value e) as = map (atom_value e') as"
      using that atom_value_constant by (auto simp: list_all_iff)
    then show ?thesis using Double by (simp only: piece_value.simps)
  qed (use that atom_value_constant in auto)
  then show "list_all constant_piece ps \<Longrightarrow> ?thesis"
    by (induction ps) (auto simp: word_value_def)
qed

lemma items_constant:
  "list_all constant_item its \<Longrightarrow> items_words e its = items_words e' its \<and> items_redirs e its = []"
proof (induction its)
  case (Cons i its)
  then show ?case by (cases i) (auto intro: word_value_constant)
qed simp

lemma items_ok_constant: "list_all constant_item its \<Longrightarrow> items_ok e its = items_ok e' its"
proof (induction its)
  case (Cons i its)
  have a: "atom_ok e dq a = atom_ok e' dq a" if "constant_atom a" for dq a
    using that by (cases a) simp_all
  have p: "piece_ok e p = piece_ok e' p" if "constant_piece p" for p
    using that a by (cases p) (auto simp: list_all_iff)
  have w: "word_ok e ps s = word_ok e' ps s" if "list_all constant_piece ps" for ps s
    using that p by (auto simp: word_ok_def list_all_iff)
  show ?case using Cons w by (cases i) auto
qed simp

definition no_lookups :: lookups where
  "no_lookups = \<lparr>sargc = 0, sargv = None, getenv = (\<lambda>n. None)\<rparr>"

text \<open>A line of a script: words the terminal passes to the PSP, ended by a line feed.\<close>

definition script_line :: "item list \<Rightarrow> bool" where
  "script_line its \<longleftrightarrow> items_ok no_lookups its \<and> list_all constant_item its \<and> no_nul (show_items its) \<and>
     show_items its \<noteq> [] \<and> last (show_items its) = CHR 0x0A \<and> CHR 0x0A \<notin> set (butlast (show_items its)) \<and>
     length (show_items its) \<le> 1023 \<and>
     (case items_words no_lookups its of [] \<Rightarrow> False
      | cmd # args \<Rightarrow> passed_on cmd \<and> no_nul cmd \<and> length args \<le> 13 \<and> length (pack (cmd # args)) < 4096)"

definition line_bytes :: "item list \<Rightarrow> string" where
  "line_bytes its = pack (items_words no_lookups its) @ [CHR 0x01]"

lemma fgets_up_to_line:
  "CHR 0x0A \<notin> set l \<Longrightarrow> length l < n \<Longrightarrow> fgets_up_to n (l @ CHR 0x0A # r) = (l @ [CHR 0x0A], r)"
proof (induction l arbitrary: n)
  case Nil
  then show ?case by (cases n) auto
next
  case (Cons c l)
  then show ?case by (cases n) auto
qed

lemma fgets_script_line:
  assumes "script_line its"
  shows "fgets_line (show_items its @ r) = Some (show_items its, r)"
proof -
  let ?l = "butlast (show_items its)"
  have s: "show_items its = ?l @ [CHR 0x0A]" using assms by (metis append_butlast_last_id script_line_def)
  have "CHR 0x0A \<notin> set ?l" "length ?l < 1023" using assms by (auto simp: script_line_def)
  then have "fgets_up_to 1023 (?l @ CHR 0x0A # r) = (?l @ [CHR 0x0A], r)" by (rule fgets_up_to_line)
  moreover have "?l @ CHR 0x0A # r = show_items its @ r" using s by (metis append.assoc append_Cons append_Nil)
  ultimately have "fgets_up_to 1023 (show_items its @ r) = (show_items its, r)" using s by metis
  then show ?thesis using assms by (simp add: fgets_line_def script_line_def)
qed

text \<open>The next line is sent, and it alone.\<close>

lemma script_loop_sends:
  assumes "script_line its" and "px_sock s" and "Broken \<notin> set (px_net s)"
  obtains s' where "script_loop e (show_items its @ r) s = Inr (1, s')"
    and "px_sent s' = px_sent s @ line_bytes its" and "px_fscript s' = Some r" and "px_exec s' = px_exec s"
    and "px_sock s'" and "Broken \<notin> set (px_net s')"
proof -
  let ?s = "s\<lparr>px_fscript := Some r\<rparr>"
  obtain cmd args where w: "items_words no_lookups its = cmd # args" and p: "passed_on cmd" "no_nul cmd"
    "length args \<le> 13" "length (pack (cmd # args)) < 4096"
    using assms(1) by (auto simp: script_line_def split: list.splits)
  have c: "items_words (lookups_of ?s) its = cmd # args" "items_redirs (lookups_of ?s) its = []"
    using items_constant [of its "lookups_of ?s" no_lookups] assms(1) w by (auto simp: script_line_def)
  have its: "items_ok (lookups_of ?s) its" "its \<noteq> []" "list_all isspace []"
    using assms(1) items_ok_constant [of its "lookups_of ?s" no_lookups] by (auto simp: script_line_def show_items_def)
  have sk: "px_sock ?s" "Broken \<notin> set (px_net ?s)" using assms(2,3) by simp_all
  obtain net prompt where net: "Broken \<notin> set net" and
    ex: "execute_line e ([] @ show_items its) ?s = Inr (1, ?s\<lparr>px_sent := px_sent ?s @ pack (cmd # args) @ [CHR 0x01],
       px_net := net, px_currcmd := cmd, px_prompt := prompt\<rparr>)" (is "_ = Inr (1, ?s')")
    by (rule execute_psp_line [OF its c p(3,4) p(1,2) sk])
  have cs: "takeWhile (\<lambda>x. x \<noteq> CHR 0x00) (show_items its) = show_items its"
    unfolding takeWhile_eq_all_conv using assms(1) unfolding script_line_def no_nul_def by blast
  have "execute_line e (takeWhile (\<lambda>x. x \<noteq> CHR 0x00) (show_items its)) ?s = Inr (1, ?s')"
    unfolding cs using ex by simp
  then have "script_loop e (show_items its @ r) s = Inr (1, ?s')"
    by (subst script_loop.simps) (simp add: fgets_script_line [OF assms(1)] del: takeWhile_eq_all_conv)
  then show thesis using that [of ?s'] w net assms(2) by (simp add: line_bytes_def)
qed

text \<open>The answers of the PSP, one after another: whether the command failed, and its value.\<close>

fun answers :: "penv \<Rightarrow> (bool \<times> string) list \<Rightarrow> pspsh \<Rightarrow> pspsh run" where
  "answers e [] s = Inr s"
| "answers e ((failed, v) # as) s =
     (case command_done e failed v s of Inl f \<Rightarrow> Inl f | Inr s' \<Rightarrow> answers e as s')"

definition running :: "string \<Rightarrow> pspsh \<Rightarrow> bool" where
  "running r s \<longleftrightarrow> px_fscript s = Some r \<and> px_exec s = [] \<and> px_sock s \<and> Broken \<notin> set (px_net s)"

lemma command_done_script:
  assumes "script_line its" and "running (show_items its @ r) s"
  obtains s' where "command_done e False v s = Inr s'" and "px_sent s' = px_sent s @ line_bytes its"
    and "running r s'"
proof -
  let ?s2 = "(put_env ''?'' v (s\<lparr>px_lasterr := False\<rparr>))\<lparr>px_currcmd := [], px_fredir := None\<rparr>"
  have sk: "px_sock ?s2" "Broken \<notin> set (px_net ?s2)" using assms(2) by (simp_all add: running_def put_env_def)
  obtain s' where s': "script_loop e (show_items its @ r) ?s2 = Inr (1, s')" "px_sent s' = px_sent ?s2 @ line_bytes its"
    "px_fscript s' = Some r" "px_exec s' = px_exec ?s2" "px_sock s'" "Broken \<notin> set (px_net s')"
    by (rule script_loop_sends [OF assms(1) sk])
  have "command_done e False v s = Inr s'"
    using assms(2) s'(1) by (simp add: command_done_def execute_script_line_def running_def put_env_def Let_def)
  then show thesis using that [of s'] s' assms(2) by (simp add: running_def put_env_def)
qed

lemma answers_run:
  assumes "list_all script_line (take (length vs) lines)" and "length vs \<le> length lines"
    and "running (concat (map show_items lines) @ r) s"
  obtains s' where "answers e (map (Pair False) vs) s = Inr s'"
    and "px_sent s' = px_sent s @ concat (map line_bytes (take (length vs) lines))"
    and "running (concat (map show_items (drop (length vs) lines)) @ r) s'"
  using assms
proof (induction vs arbitrary: lines s thesis)
  case Nil
  then show ?case by simp
next
  case (Cons v vs)
  obtain l ls where ls: "lines = l # ls" using Cons.prems(3) by (cases lines) auto
  have l: "script_line l" "running (show_items l @ (concat (map show_items ls) @ r)) s"
    using Cons.prems ls by simp_all
  obtain s1 where s1: "command_done e False v s = Inr s1" "px_sent s1 = px_sent s @ line_bytes l"
    "running (concat (map show_items ls) @ r) s1"
    by (rule command_done_script [OF l])
  obtain s' where "answers e (map (Pair False) vs) s1 = Inr s'"
    "px_sent s' = px_sent s1 @ concat (map line_bytes (take (length vs) ls))"
    "running (concat (map show_items (drop (length vs) ls)) @ r) s'"
  proof (rule Cons.IH [where lines = ls and s = s1])
    show "list_all script_line (take (length vs) ls)" "length vs \<le> length ls" using Cons.prems(2,3) ls by simp_all
    show "running (concat (map show_items ls) @ r) s1" by (rule s1(3))
  qed
  then show ?case using Cons.prems(1) [of s'] s1 ls by simp
qed

lemma answers_idle:
  assumes "px_fscript s = None" and "px_exec s = []"
  shows "\<exists>s'. answers e as s = Inr s' \<and> px_sent s' = px_sent s"
  using assms
proof (induction "as" arbitrary: s)
  case (Cons a "as")
  obtain failed v where a: "a = (failed, v)" by (cases a)
  have idle: "failed \<or> px_fscript s = None" using Cons.prems(1) by simp
  obtain s1 extra where s1: "command_done e failed v s = Inr s1" "px_shown s1 = px_shown s @ extra"
    "\<not> failed \<longrightarrow> extra = []" "px_env s1 ''?'' = Some v" "px_lasterr s1 = failed" "px_currcmd s1 = []"
    "px_sent s1 = px_sent s" "px_fscript s1 = None" "px_exec s1 = []"
    by (rule command_done_idle [OF idle Cons.prems(2)])
  then show ?case using Cons.IH [of s1] a by simp
qed simp

text \<open>C33: a script runs in step with the PSP. Each answer that a command succeeded sends the next line, in
  order and nothing else; after the answer that one failed no line is ever sent, whatever the PSP
  answers later.
\<close>

theorem script_in_step:
  assumes "list_all script_line (take (length vs) lines)" and "length vs \<le> length lines"
    and "px_fscript s = Some (concat (map show_items lines))" and "px_exec s = []"
    and "px_sock s" and "Broken \<notin> set (px_net s)"
  shows "\<exists>s'. answers e (map (Pair False) vs) s = Inr s' \<and>
     px_sent s' = px_sent s @ concat (map line_bytes (take (length vs) lines)) \<and>
     (\<exists>s''. answers e ((True, v) # later) s' = Inr s'' \<and> px_sent s'' = px_sent s')"
proof -
  have run: "running (concat (map show_items lines) @ []) s" using assms by (simp add: running_def)
  obtain s' where s': "answers e (map (Pair False) vs) s = Inr s'"
    "px_sent s' = px_sent s @ concat (map line_bytes (take (length vs) lines))"
    "running (concat (map show_items (drop (length vs) lines)) @ []) s'"
    by (rule answers_run [OF assms(1,2) run])
  have ex: "True \<or> px_fscript s' = None" "px_exec s' = []" using s'(3) by (simp_all add: running_def)
  obtain s1 extra where s1: "command_done e True v s' = Inr s1" "px_shown s1 = px_shown s' @ extra"
    "\<not> True \<longrightarrow> extra = []" "px_env s1 ''?'' = Some v" "px_lasterr s1 = True" "px_currcmd s1 = []"
    "px_sent s1 = px_sent s'" "px_fscript s1 = None" "px_exec s1 = []"
    by (rule command_done_idle [OF ex])
  then show ?thesis using s' answers_idle [of s1 e later] by auto
qed

section \<open>Lines the parser refuses in the middle\<close>

lemma read_unclosed:
  assumes "single_ok t"
  shows "read_string e (CHR 0x27 # t) = Inr ([], t, 0)"
proof -
  have "string_loop e (Some (CHR 0x27)) t out = Inr ([], out @ t, Some (CHR 0x27), False)" for out
    using assms
  proof (induction t arbitrary: out rule: single_ok.induct)
    case 1
    then show ?case by (simp add: string_loop.simps(1))
  next
    case (2 c t)
    show ?case
    proof (cases "c = CHR 0x5C")
      case True
      then obtain d u where "t = d # u" "single_ok u" using 2(3) by (auto split: list.splits)
      then show ?thesis using 2(1) [OF True] True by (simp add: string_loop.simps(2) [of e _ "CHR 0x5C"])
    next
      case False
      then show ?thesis using 2(2) [OF False] 2(3) by (simp add: string_loop.simps(2) [of e _ c])
    qed
  qed
  then show ?thesis
    by (simp add: read_string_def isspace_def string_loop.simps(2) [of e None])
qed

lemma parse_unclosed:
  assumes "items_ok e its" and "its \<noteq> []" and "tail_ok its (CHR 0x27 # t)" and "list_all isspace lead" and "single_ok t"
    and "items_words e its = ws" and "items_redirs e its = []" and "length ws \<le> 14"
    and "length (pack ws @ t) < outsz"
  shows "parse_cli e outsz redirsz 16 (lead @ show_items its @ CHR 0x27 # t)
    = Inr (Suc (length (pack ws @ t)),
        \<lparr>cli_out = pack ws @ t @ [CHR 0x01], cli_argv = ws, cli_type = REDIR_TYPE_NONE, cli_redir = []\<rparr>)"
proof -
  let ?l = "show_items its @ CHR 0x27 # t"
  obtain i r0 where its: "its = i # r0" using assms(2) by (cases its) auto
  obtain c r where c: "?l = c # r"
    using assms(1) show_item_start [of e i r0] its by (auto simp: show_items_def)
  have sk: "skip_space (lead @ ?l) = c # r"
    using items_start [OF assms(1,3)] assms(4) c by (simp add: skip_space_gap)
  define st where "st = items_result e its cli_empty"
  have st: "cli_out st = pack ws" "cli_argv st = ws" "cli_type st = REDIR_TYPE_NONE" "cli_redir st = []"
    using assms(6,7) by (simp_all add: st_def items_result_def cli_empty_def)
  have "cli_loop e outsz redirsz (Suc 14) ?l cli_empty = cli_loop e outsz redirsz (Suc (14 - length ws)) (CHR 0x27 # t) st"
    using cli_loop_items [OF assms(1) _ _ _ assms(3), of 14 cli_empty outsz redirsz] assms(6-9)
    by (simp add: st_def cli_empty_def)
  also have "\<dots> = Inr (True, st\<lparr>cli_out := pack ws @ t\<rparr>)"
    using assms(9) st by (simp add: cli_loop.simps(2) read_unclosed [OF assms(5)])
  finally have run: "cli_loop e outsz redirsz (16 - 1) (c # r) cli_empty = Inr (True, st\<lparr>cli_out := pack ws @ t\<rparr>)"
    unfolding c by simp
  show ?thesis
    using assms(9) st unfolding parse_cli_def sk list.case run by simp
qed

lemma single_ok_no_nul: "single_ok t \<Longrightarrow> no_nul t"
proof (induction t rule: single_ok.induct)
  case (2 c t)
  show ?case
  proof (cases "c = CHR 0x5C")
    case True
    then obtain d u where "t = d # u" "single_ok u" "d \<noteq> CHR 0x00" using 2(3) by (auto split: list.splits)
    then show ?thesis using 2(1) [OF True] True by (simp add: no_nul_def)
  next
    case False
    then show ?thesis using 2(2) [OF False] 2(3) by (auto simp: no_nul_def)
  qed
qed (simp add: no_nul_def)

text \<open>A line whose last quote is not closed is not refused. The words before the quote are sent as a
  command and the PSP executes it with these arguments; the unfinished word is dropped on the way.
\<close>

theorem unclosed_quote_is_executed:
  assumes "items_ok (lookups_of s) its" and "its \<noteq> []" and "tail_ok its (CHR 0x27 # t)" and "list_all isspace lead" and "single_ok t"
    and "items_words (lookups_of s) its = cmd # args" and "items_redirs (lookups_of s) its = []"
    and "length args \<le> 13" and "length (pack (cmd # args) @ t) < MAX_CLI" and "passed_on cmd"
    and "list_all no_nul (cmd # args)" and "CHR 0x01 \<notin> set (pack (cmd # args) @ t)"
    and "px_sock s" and "Broken \<notin> set (px_net s)" and "length cli = MAX_CLI"
  shows "\<exists>s' sent st.
     execute_line e (lead @ show_items its @ CHR 0x27 # t) s = Inr (1, s') \<and> px_sent s' = px_sent s @ sent \<and>
     usbShellReadInput cli MAX_CLI 16 (sent @ later) = Some (st, later) \<and> argv_of st = cmd # args"
proof -
  have len: "length (cmd # args) \<le> 14" "length (pack (cmd # args) @ t) < 4096" using assms(8,9) by (simp_all add: MAX_CLI_def)
  have out: "pack (cmd # args) @ t @ [CHR 0x01] = cmd @ CHR 0x00 # pack args @ t @ [CHR 0x01]" by (simp add: pack_def)
  have parse: "parse_cli (lookups_of s) 4096 PATH_MAX 16 (lead @ show_items its @ CHR 0x27 # t)
    = Inr (Suc (length (pack (cmd # args) @ t)),
        \<lparr>cli_out = cmd @ CHR 0x00 # pack args @ t @ [CHR 0x01], cli_argv = cmd # args,
         cli_type = REDIR_TYPE_NONE, cli_redir = []\<rparr>)"
    using parse_unclosed [OF assms(1-7) len] unfolding out .
  have cmd: "no_nul cmd" using assms(11) by simp
  obtain net prompt where "Broken \<notin> set net" and ex: "execute_line e (lead @ show_items its @ CHR 0x27 # t) s
      = Inr (1, s\<lparr>px_sent := px_sent s @ cmd @ CHR 0x00 # pack args @ t @ [CHR 0x01], px_net := net,
         px_currcmd := cmd, px_prompt := prompt\<rparr>)" (is "_ = Inr (1, ?s')")
    by (rule execute_parsed [OF parse assms(10) cmd assms(13,14)])
  have k: "length (cmd # args) \<le> 16" using assms(8) by simp
  obtain st where "usbShellReadInput cli MAX_CLI 16 ((pack (cmd # args) @ t) @ [CHR 0x01] @ later) = Some (st, later)"
    "argv_of st = cmd # args" "length (si_cli st) = MAX_CLI"
    by (rule input_of_pack [OF assms(11) single_ok_no_nul [OF assms(5)] assms(12) k assms(9,15)])
  then show ?thesis
    using ex by (intro exI [of _ ?s'] exI [of _ "(pack (cmd # args) @ t) @ [CHR 0x01]"] exI [of _ st]) (simp add: pack_def)
qed

text \<open>A line of redirections alone follows the null pointer behind the last argument.\<close>

lemma lone_redirection_crashes:
  assumes "items_ok (lookups_of s) its" and "its \<noteq> []" and "list_all isspace lead" and "items_words (lookups_of s) its = []"
    and "\<forall>(t, f) \<in> set (items_redirs (lookups_of s) its). length f < PATH_MAX"
  shows "execute_line e (lead @ show_items its) s = Inl Bad_Pointer"
proof -
  obtain c where "parse_cli (lookups_of s) 4096 PATH_MAX 16 (lead @ show_items its) = Inr (1, c)"
    "cli_out c = [CHR 0x01]" "cli_argv c = []"
    using parse_cli_items [OF assms(1-3) _ _ assms(5), of 16 4096] assms(4) by (simp add: pack_def)
  moreover from this(1) have "lead @ show_items its \<noteq> []" by (auto simp: parse_cli_def)
  ultimately show ?thesis
    by (simp add: execute_line_def numeral_2_eq_2 execute_line_with_def Let_def)
qed

section \<open>Examples\<close>

definition demo_penv :: penv where
  "demo_penv = \<lparr>pe_append = (\<lambda>f. True), pe_create = (\<lambda>f. True), pe_file = (\<lambda>f. None), pe_stdin = [],
     pe_strerror = (\<lambda>n. []), pe_assemble = (\<lambda>t a. None), pe_disasm = (\<lambda>o' a b. [])\<rparr>"

text \<open>A terminal whose socket takes two bytes, is interrupted, and then takes everything.\<close>

definition demo_pspsh :: pspsh where
  "demo_pspsh = \<lparr>px_exit = False, px_sock = True, px_outsock = False, px_script = False, px_exec = [],
     px_currpath = ''ms0:/'', px_currcmd = [], px_fredir = None, px_fscript = None, px_sargc = 0, px_sargv = None,
     px_env = (\<lambda>n. if n = ''d'' then Some ''x y'' else None), px_lasterr = False, px_asmmode = False, px_asmaddr = 0,
     px_ttymode = False, px_disopts = (\<lambda>c. False), px_net = [Wrote 2, Interrupted], px_sent = [], px_stdin = [],
     px_shown = [], px_prompt = []\<rparr>"

text \<open>\<^verbatim>\<open>ls '-l' $(d)\<close>\<close>

definition demo_ls :: "item list" where
  "demo_ls = [Word [Bare (Plain CHR ''l''), Bare (Plain CHR ''s'')] '' '', Word [Single ''-l''] '' '',
     Word [Bare (Var ''d'')] '' '']"

text \<open>A function that prints its arguments and counts its calls.\<close>

definition demo_fn :: "string \<Rightarrow> nat command" where
  "demo_fn f args w = (Some CMD_OK, of_nat (length args), [f, concat args], w + 1)"

definition demo_cmd :: sh_command where
  "demo_cmd = \<lparr>cmd_name = ''ls'', cmd_syn = Some ''dir'', cmd_func = Some ''ls_cmd'', min_args = 0, cmd_help = None\<rparr>"

lemma demo_facts:
  "items_ok (lookups_of demo_pspsh) demo_ls" "items_words (lookups_of demo_pspsh) demo_ls = ''ls'' # [''-l'', ''x y'']"
  "items_redirs (lookups_of demo_pspsh) demo_ls = []" "passed_on ''ls''"
  "find_command psp_commands ''ls'' = Some demo_cmd" "list_all text_ok [''ls_cmd'', ''-lx y'']"
  by code_simp+

lemma command_round_trip_witness:
  "\<exists>s1 sent blocks cli'.
     execute_line demo_penv ('' '' @ show_items demo_ls) demo_pspsh = Inr (1, s1) \<and> px_sent s1 = sent \<and>
     shellParseTurn demo_fn (replicate MAX_CLI CHR 0x00) (sent @ ''next'') 7 = Some (blocks, False, cli', ''next'', 8) \<and>
       (\<exists>s2. read_all demo_penv [concat blocks] None s1 = Inr (None, s2) \<and>
          px_shown s2 = [Stdout (crlf ''ls_cmd''), Stdout (crlf ''-lx y'')] \<and>
          px_env s2 ''?'' = Some (fmt_ret 2) \<and> px_lasterr s2 = False)"
proof -
  have "\<exists>s1 sent blocks cli'.
     execute_line demo_penv ('' '' @ show_items demo_ls) demo_pspsh = Inr (1, s1) \<and> px_sent s1 = px_sent demo_pspsh @ sent \<and>
     shellParseTurn demo_fn (replicate MAX_CLI CHR 0x00) (sent @ ''next'') 7 = Some (blocks, False, cli', ''next'', 8) \<and>
     (\<forall>chunks. concat chunks = concat blocks \<longrightarrow>
       (\<exists>s2 extra. read_all demo_penv chunks None s1 = Inr (None, s2) \<and>
          px_shown s2 = px_shown demo_pspsh @ map (\<lambda>t. Stdout (crlf t)) [''ls_cmd'', ''-lx y''] @ extra \<and>
          (CMD_OK = CMD_OK \<longrightarrow> extra = []) \<and>
          px_env s2 ''?'' = Some (fmt_ret 2) \<and> px_lasterr s2 = (CMD_OK = CMD_ERROR)))"
    by (rule command_round_trip [where args = "[''-l'', ''x y'']" and c = demo_cmd and fname = "''ls_cmd''"])
      (use demo_facts in \<open>simp_all add: demo_pspsh_def demo_cmd_def demo_fn_def MAX_CLI_def no_nul_def pack_def
        isspace_def demo_ls_def\<close>)
  then obtain s1 sent blocks cli' where
    ex: "execute_line demo_penv ('' '' @ show_items demo_ls) demo_pspsh = Inr (1, s1)" "px_sent s1 = px_sent demo_pspsh @ sent"
    "shellParseTurn demo_fn (replicate MAX_CLI CHR 0x00) (sent @ ''next'') 7 = Some (blocks, False, cli', ''next'', 8)"
    and rd: "\<forall>chunks. concat chunks = concat blocks \<longrightarrow>
       (\<exists>s2 extra. read_all demo_penv chunks None s1 = Inr (None, s2) \<and>
          px_shown s2 = px_shown demo_pspsh @ map (\<lambda>t. Stdout (crlf t)) [''ls_cmd'', ''-lx y''] @ extra \<and>
          (CMD_OK = CMD_OK \<longrightarrow> extra = []) \<and>
          px_env s2 ''?'' = Some (fmt_ret 2) \<and> px_lasterr s2 = (CMD_OK = CMD_ERROR))"
    by blast
  have "concat [concat blocks] = concat blocks" by simp
  then obtain s2 extra where "read_all demo_penv [concat blocks] None s1 = Inr (None, s2)"
    "px_shown s2 = px_shown demo_pspsh @ map (\<lambda>t. Stdout (crlf t)) [''ls_cmd'', ''-lx y''] @ extra" "extra = []"
    "px_env s2 ''?'' = Some (fmt_ret 2)" "px_lasterr s2 = (CMD_OK = CMD_ERROR)"
    using rd by blast
  moreover have "px_sent demo_pspsh = []" "px_shown demo_pspsh = []" by (simp_all add: demo_pspsh_def)
  ultimately show ?thesis
    using ex by (intro exI [of _ s1] exI [of _ sent] exI [of _ blocks] exI [of _ cli'] conjI exI [of _ s2]) simp_all
qed

definition demo_lines :: "item list list" where
  "demo_lines = [[Word [Bare (Plain CHR ''r''), Bare (Plain CHR ''m'')] '' '', Word [Single ''a b''] [CHR 0x0A]],
     [Word [Bare (Plain CHR ''p''), Bare (Plain CHR ''w''), Bare (Plain CHR ''d'')] [CHR 0x0A]]]"

definition demo_script :: pspsh where
  "demo_script = demo_pspsh\<lparr>px_fscript := Some (concat (map show_items demo_lines)), px_script := True\<rparr>"

lemma demo_lines_ok: "list_all script_line demo_lines"
  by code_simp

lemma script_in_step_witness:
  "\<exists>s'. answers demo_penv (map (Pair False) [''0x0'']) demo_script = Inr s' \<and>
     px_sent s' = px_sent demo_script @ concat (map line_bytes (take (length [''0x0'']) demo_lines)) \<and>
     (\<exists>s''. answers demo_penv ((True, ''0x1'') # [(False, ''0x0'')]) s' = Inr s'' \<and> px_sent s'' = px_sent s')"
  by (rule script_in_step)
    (use demo_lines_ok in \<open>simp_all add: demo_lines_def demo_script_def demo_pspsh_def\<close>)

lemma unclosed_quote_is_executed_witness:
  "\<exists>s' sent st.
     execute_line demo_penv ([] @ show_items demo_ls @ CHR 0x27 # ''my file'') demo_pspsh = Inr (1, s')
     \<and> px_sent s' = px_sent demo_pspsh @ sent \<and>
     usbShellReadInput (replicate MAX_CLI CHR 0x00) MAX_CLI 16 (sent @ []) = Some (st, [])
     \<and> argv_of st = [''ls'', ''-l'', ''x y'']"
  by (rule unclosed_quote_is_executed [where args = "[''-l'', ''x y'']"])
    (use demo_facts in \<open>simp_all add: demo_pspsh_def MAX_CLI_def no_nul_def pack_def tail_ok_def demo_ls_def isspace_def\<close>)

end
