(* ===== verification/PspshMain.thy ===== *)
theory PspshMain
  imports ShellScripts
begin

text \<open>
  The rest of the terminal: completion of names, the options, the commands a symbolic link stands for,
  and the loop over the sockets.
\<close>

section \<open>Completion\<close>

definition g_drive_prefix :: "string list" where
  "g_drive_prefix = [''ms0:/'', ''flash0:/'', ''flash1:/'', ''disc0:/'', ''host0:/'', ''host1:/'', ''host2:/'',
     ''host3:/'', ''host4:/'', ''host5:/'', ''host6:/'', ''host7:/'']"

text \<open>The results of the successive calls of \<^verbatim>\<open>command_gen\<close>.\<close>

definition command_gen :: "string \<Rightarrow> string list" where
  "command_gen txt =
     concat (map (\<lambda>k. if starts_with txt (cmd_name k) then [cmd_name k]
         else case cmd_syn k of Some s \<Rightarrow> if starts_with txt s then [s] else [] | None \<Rightarrow> []) g_commands)
     @ filter (starts_with txt) g_drive_prefix"

definition add_drive_prefixes :: "string \<Rightarrow> string list \<Rightarrow> string list" where
  "add_drive_prefixes txt entries = filter (starts_with txt) g_drive_prefix @ entries"

text \<open>
  The frames of the answer to a completion: the entries, the frame that is open, what was shown and
  whether the command has ended. The rest of a chunk is read after that as well.
\<close>

record tabread =
  tr_entries :: "string list"
  tr_frame :: "string option"
  tr_shown :: "string list"
  tr_done :: bool

definition tab_frame :: "string \<Rightarrow> tabread \<Rightarrow> tabread" where
  "tab_frame str t =
     (if code (hd str) < 128 then t\<lparr>tr_shown := tr_shown t @ [str]\<rparr>
      else if hd str = SHELL_CMD_SUCCESS \<or> hd str = SHELL_CMD_ERROR then t\<lparr>tr_done := True\<rparr>
      else if hd str = SHELL_CMD_TAB then t\<lparr>tr_entries := tr_entries t @ [tl str]\<rparr>
      else t)"

fun read_tab_bytes :: "string \<Rightarrow> tabread \<Rightarrow> tabread run" where
  "read_tab_bytes [] t = Inr t"
| "read_tab_bytes (c # cs) t =
     (if c = SHELL_CMD_BEGIN then read_tab_bytes cs (t\<lparr>tr_frame := Some []\<rparr>)
      else case tr_frame t of
        None \<Rightarrow> read_tab_bytes cs t
      | Some acc \<Rightarrow>
          if c = SHELL_CMD_END then
            (if acc = [] then read_tab_bytes cs t
             else if LINE_MAX \<le> length acc then Inl Buffer_Overflow
             else read_tab_bytes cs ((tab_frame acc t)\<lparr>tr_frame := None\<rparr>))
          else if LINE_MAX \<le> length acc then Inl Buffer_Overflow
          else read_tab_bytes cs (t\<lparr>tr_frame := Some (acc @ [c])\<rparr>))"

definition read_tab :: "string \<Rightarrow> tabread \<Rightarrow> tabread run" where
  "read_tab chunk t = read_tab_bytes (takeWhile (\<lambda>x. x \<noteq> CHR 0x00) chunk) t"

text \<open>What \<^verbatim>\<open>select\<close> and \<^verbatim>\<open>read\<close> bring; an error, the end of the stream and the time limit end the loop.\<close>

datatype tab_event = Chunk string | Interrupt | Give_Up

fun read_tab_completion :: "tab_event list \<Rightarrow> tabread \<Rightarrow> tabread run" where
  "read_tab_completion [] t = Inr t"
| "read_tab_completion (ev # evs) t =
     (case ev of
        Interrupt \<Rightarrow> read_tab_completion evs t
      | Give_Up \<Rightarrow> Inr t
      | Chunk ch \<Rightarrow> (case read_tab ch t of
          Inl f \<Rightarrow> Inl f
        | Inr t' \<Rightarrow> if tr_done t' then Inr t' else read_tab_completion evs t'))"

text \<open>
  The list of an unfinished completion is freed two entries at a time, through the link of the second:
  with an odd number of entries that is a null pointer.
\<close>

fun free_tabs :: "string list \<Rightarrow> unit run" where
  "free_tabs [] = Inr ()"
| "free_tabs [a] = Inl Bad_Pointer"
| "free_tabs (a # b # r) = free_tabs r"

lemma free_tabs_odd: "free_tabs entries = (if odd (length entries) then Inl Bad_Pointer else Inr ())"
  by (induction entries rule: free_tabs.induct) auto

text \<open>The directory of a name with its slash, and the rest.\<close>

definition split_name :: "string \<Rightarrow> string \<times> string" where
  "split_name txt = (rev (dropWhile (\<lambda>c. c \<noteq> CHR ''/'') (rev txt)), rev (takeWhile (\<lambda>c. c \<noteq> CHR ''/'') (rev txt)))"

definition filename_request :: "string \<Rightarrow> (string \<times> string) run" where
  "filename_request txt =
     (if PATH_MAX \<le> length txt then Inl Buffer_Overflow
      else case split_name txt of (dir, name) \<Rightarrow>
        Inr (dir, pack ([''tab'', dir] @ (if name = [] then [] else [name])) @ [CHR 0x01]))"

record tabgen =
  tg_dir :: string
  tg_entries :: "string list"
  tg_append :: "char option"

text \<open>A call of the generator: \<open>ask\<close> is the answer of the PSP to a request.\<close>

definition filename_first :: "(string \<Rightarrow> string list) \<Rightarrow> string \<Rightarrow> tabgen \<Rightarrow> tabgen run" where
  "filename_first ask txt g =
     (case free_tabs (tg_entries g) of
        Inl f \<Rightarrow> Inl f
      | Inr _ \<Rightarrow> (case filename_request txt of
          Inl f \<Rightarrow> Inl f
        | Inr (dir, req) \<Rightarrow>
            Inr (if ask req = [] then g\<lparr>tg_dir := [], tg_entries := add_drive_prefixes txt []\<rparr>
                 else g\<lparr>tg_dir := dir, tg_entries := ask req\<rparr>)))"

definition filename_next :: "tabgen \<Rightarrow> (string option \<times> tabgen) run" where
  "filename_next g =
     (case tg_entries g of
        [] \<Rightarrow> Inr (None, g)
      | e # r \<Rightarrow>
          (let name = tg_dir g @ e in
           if name = [] then Inl Bad_Pointer
           else Inr (Some name, g\<lparr>tg_entries := r,
               tg_append := (if last name = CHR ''/'' then None else Some (CHR '' ''))\<rparr>)))"

definition filename_gen :: "(string \<Rightarrow> string list) \<Rightarrow> string \<Rightarrow> bool \<Rightarrow> tabgen \<Rightarrow> (string option \<times> tabgen) run" where
  "filename_gen ask txt first g =
     (case (if first then filename_first ask txt g else Inr g) of Inl f \<Rightarrow> Inl f | Inr g' \<Rightarrow> filename_next g')"

definition uid_gen :: "(string \<Rightarrow> string list) \<Rightarrow> string \<Rightarrow> bool \<Rightarrow> string list \<Rightarrow> (string option \<times> string list) run" where
  "uid_gen ask txt first entries =
     (case (if first then map_sum id (\<lambda>_. ask (pack [''tab'', txt] @ [CHR 0x01])) (free_tabs entries) else Inr entries) of
        Inl f \<Rightarrow> Inl f
      | Inr [] \<Rightarrow> Inr (None, [])
      | Inr (e # r) \<Rightarrow> Inr (Some e, r))"

datatype completer = Local_File | Command_Name | Psp_File | Psp_Uid

text \<open>The completer of the word that starts at \<open>start\<close>.\<close>

definition shell_completion :: "string \<Rightarrow> string \<Rightarrow> nat \<Rightarrow> completer" where
  "shell_completion ln txt start =
     (let curr = skip_space ln in
      if curr \<noteq> [] \<and> hd curr \<in> {CHR ''!'', CHR ''@'', CHR ''%''} then Local_File
      else if start = length ln - length curr then
        (if CHR ''.'' \<in> set txt \<or> CHR ''/'' \<in> set txt then Psp_File else Command_Name)
      else if txt \<noteq> [] \<and> hd txt = CHR ''@'' then Psp_Uid else Psp_File)"

section \<open>Options\<close>

definition DEFAULT_PORT :: u16 where "DEFAULT_PORT = 10000"
definition EXEC_SIZE :: int where "EXEC_SIZE = 1024"

record pspsh_args =
  ar_ip :: string
  ar_hist :: "string option"
  ar_port :: u16
  ar_script :: bool
  ar_exec :: string
  ar_notty :: bool
  ar_verbose :: bool

text \<open>
  The pieces written with \<^verbatim>\<open>snprintf\<close> one behind the other. It returns the length of the whole piece, so
  the room left becomes negative, and as a \<^verbatim>\<open>size_t\<close> that is no limit.
\<close>

fun put_pieces :: "string list \<Rightarrow> int \<Rightarrow> string \<Rightarrow> string run" where
  "put_pieces [] len acc = Inr acc"
| "put_pieces (p # ps) len acc =
     (if len < 0 then Inl Buffer_Overflow
      else put_pieces ps (len - int (length p)) (acc @ take (nat len - 1) p))"

definition base_name :: "string \<Rightarrow> string" where
  "base_name name = rev (takeWhile (\<lambda>c. c \<noteq> CHR ''/'') (rev name))"

text \<open>The name the program was started by: \<open>True\<close> when it stands for a command.\<close>

definition check_symlink :: "string \<Rightarrow> string list \<Rightarrow> pspsh_args \<Rightarrow> (bool \<times> pspsh_args) run" where
  "check_symlink name argv a =
     (let cmd = base_name name in
      if cmd \<noteq> ''pspsh'' \<and> starts_with ''psp'' cmd then
        (let cmd3 = drop 3 cmd in
         if cmd3 = [] then Inr (True, a\<lparr>ar_exec := []\<rparr>)
         else (case put_pieces (cmd3 # map (\<lambda>x. '' '' @ [CHR 0x27] @ x @ [CHR 0x27]) argv) EXEC_SIZE [] of
              Inl f \<Rightarrow> Inl f
            | Inr txt \<Rightarrow> Inr (True, a\<lparr>ar_exec := txt, ar_script := True, ar_notty := True\<rparr>)))
      else Inr (False, a))"

text \<open>
  An option as \<^verbatim>\<open>getopt\<close> returns it, with its argument. \<open>Inl\<close> ends the program: with the list of
  links it was asked for, or with the help.
\<close>

datatype stop = Links bool | Help

definition apply_option :: "char \<times> string \<Rightarrow> pspsh_args \<Rightarrow> stop + pspsh_args" where
  "apply_option op a =
     (case op of (ch, optarg) \<Rightarrow>
        if ch = CHR ''p'' then Inr (a\<lparr>ar_port := of_nat (fst (strtoul 64 10 optarg))\<rparr>)
        else if ch = CHR ''h'' then Inr (a\<lparr>ar_hist := Some optarg\<rparr>)
        else if ch = CHR ''n'' then Inr (a\<lparr>ar_notty := True\<rparr>)
        else if ch = CHR ''i'' then Inr (a\<lparr>ar_ip := optarg\<rparr>)
        else if ch = CHR ''e'' then Inr (a\<lparr>ar_exec := fst (snprintf 1024 optarg), ar_script := True, ar_notty := True\<rparr>)
        else if ch = CHR ''s'' then Inl (Links False)
        else if ch = CHR ''r'' then Inl (Links True)
        else if ch = CHR ''v'' then Inr (a\<lparr>ar_verbose := True\<rparr>)
        else Inl Help)"

fun apply_options :: "(char \<times> string) list \<Rightarrow> pspsh_args \<Rightarrow> stop + pspsh_args" where
  "apply_options [] a = Inr a"
| "apply_options (op # ops) a = (case apply_option op a of Inl st \<Rightarrow> Inl st | Inr a' \<Rightarrow> apply_options ops a')"

definition default_args :: pspsh_args where
  "default_args = \<lparr>ar_ip = ''localhost'', ar_hist = None, ar_port = DEFAULT_PORT, ar_script = False, ar_exec = [],
     ar_notty = False, ar_verbose = False\<rparr>"

text \<open>\<open>opts\<close> and \<open>rest\<close> are what \<^verbatim>\<open>getopt\<close> made of the arguments behind the name.\<close>

definition parse_args ::
  "penv \<Rightarrow> string \<Rightarrow> (char \<times> string) list \<Rightarrow> string list \<Rightarrow> pspsh \<Rightarrow> (stop + (pspsh_args \<times> pspsh)) run" where
  "parse_args e name opts rest s =
     (case apply_options opts default_args of
        Inl st \<Rightarrow> Inr (Inl st)
      | Inr a \<Rightarrow> (case check_symlink name rest a of
          Inl f \<Rightarrow> Inl f
        | Inr (True, a') \<Rightarrow> Inr (Inr (a', s))
        | Inr (False, a') \<Rightarrow>
            Inr (case rest of
               [] \<Rightarrow> Inr (a', s)
             | file # _ \<Rightarrow> (case open_script e file rest s of (ok, s') \<Rightarrow>
                 if ok then Inr (a'\<lparr>ar_script := True, ar_notty := True\<rparr>, s') else Inl Help))))"

text \<open>The lines of the shell script that makes or removes the links.\<close>

definition dump_symlinks :: "bool \<Rightarrow> string list" where
  "dump_symlinks remove =
     (let ln = (\<lambda>n. (if remove then ''rm psp'' else ''ln -s pspsh psp'') @ n) in
      ''#!/bin/sh'' # concat (map (\<lambda>k. if cmd_help k = None then []
          else ln (cmd_name k) # (case cmd_syn k of None \<Rightarrow> []
             | Some sy \<Rightarrow> if sy \<noteq> [] \<and> hd sy = CHR ''?'' then [] else [ln sy])) g_commands))"

definition HISTORY_FILE :: string where "HISTORY_FILE = ''.pspsh.hist''"

definition build_histfile :: "(string \<Rightarrow> string option) \<Rightarrow> pspsh_args \<Rightarrow> string" where
  "build_histfile env a =
     fst (snprintf PATH_MAX (case ar_hist a of
         Some h \<Rightarrow> h
       | None \<Rightarrow> (case env ''HOME'' of None \<Rightarrow> HISTORY_FILE | Some home \<Rightarrow> home @ ''/'' @ HISTORY_FILE)))"

section \<open>The loop\<close>

text \<open>What \<^verbatim>\<open>select\<close> reports; \<open>Typed None\<close> is the end of the input, \<open>None\<close> the end of a stream.\<close>

datatype shell_event =
    Typed "string option"
  | From_Psp "string option"
  | From_Stdout "string option"
  | Resumed

record shell_loop =
  sl_state :: pspsh
  sl_frame :: "string option"
  sl_open :: bool
  sl_status :: "int option"

text \<open>\<open>sl_status\<close> is the status the program ends with, once it has.\<close>

definition shell_event :: "penv \<Rightarrow> shell_event \<Rightarrow> shell_loop \<Rightarrow> shell_loop run" where
  "shell_event e ev l =
     (if sl_status l \<noteq> None then Inr l
      else (let l' = (case ev of
          Typed None \<Rightarrow> Inr (if px_script (sl_state l) then l else l\<lparr>sl_status := Some 0\<rparr>)
        | Typed (Some buf) \<Rightarrow>
            if px_script (sl_state l) then Inr l
            else map_sum id (\<lambda>s. l\<lparr>sl_state := s\<rparr>) (cli_handler e buf (sl_state l))
        | From_Psp None \<Rightarrow> Inr (l\<lparr>sl_open := False, sl_state := (sl_state l)\<lparr>px_sock := False\<rparr>\<rparr>)
        | From_Psp (Some ch) \<Rightarrow>
            map_sum id (\<lambda>(fr, s). l\<lparr>sl_state := s, sl_frame := fr\<rparr>) (read_socket e ch (sl_frame l) (sl_state l))
        | From_Stdout None \<Rightarrow> Inr (l\<lparr>sl_state := (sl_state l)\<lparr>px_outsock := False\<rparr>\<rparr>)
        | From_Stdout (Some ch) \<Rightarrow>
            Inr (l\<lparr>sl_state := show_text (Stdout (takeWhile (\<lambda>x. x \<noteq> CHR 0x00) ch)) (sl_state l)\<rparr>)
        | Resumed \<Rightarrow> Inr l)
      in map_sum id (\<lambda>l2. if sl_status l2 = None \<and> (px_exit (sl_state l2) \<or> \<not> sl_open l2)
           then l2\<lparr>sl_status := Some (if px_lasterr (sl_state l2) then 1 else 0)\<rparr> else l2) l'))"

text \<open>Before the loop the current directory is asked for.\<close>

definition shell_start :: "penv \<Rightarrow> bool \<Rightarrow> pspsh \<Rightarrow> shell_loop run" where
  "shell_start e connected s =
     (if \<not> connected then Inr \<lparr>sl_state = s, sl_frame = None, sl_open = False, sl_status = Some 1\<rparr>
      else map_sum id (\<lambda>(r, s'). \<lparr>sl_state = s', sl_frame = None, sl_open = True, sl_status = None\<rparr>)
        (execute_line e ''cd .'' (s\<lparr>px_sock := True\<rparr>)))"

section \<open>Links\<close>

text \<open>A link passes on its arguments as they are, as long as they hold no quote and fit.\<close>

lemma put_pieces_fit: "int (length (concat ps)) < len \<Longrightarrow> put_pieces ps len acc = Inr (acc @ concat ps)"
proof (induction ps arbitrary: len acc)
  case (Cons p ps)
  then have "take (nat len - 1) p = p" "0 \<le> len" by auto
  then show ?case using Cons by simp
qed simp

fun link_items :: "string list \<Rightarrow> item list" where
  "link_items [] = []"
| "link_items [x] = [Word [Single x] []]"
| "link_items (x # y # xs) = Word [Single x] '' '' # link_items (y # xs)"

lemma link_items_facts:
  "list_all single_ok xs \<Longrightarrow> items_ok e (link_items xs) \<and> items_words e (link_items xs) = xs \<and>
     items_redirs e (link_items xs) = [] \<and>
     concat (map (\<lambda>x. '' '' @ [CHR 0x27] @ x @ [CHR 0x27]) xs) = (if xs = [] then [] else '' '' @ show_items (link_items xs))"
  by (induction xs rule: link_items.induct)
    (auto simp: show_items_def show_word_def word_value_def word_ok_def isspace_def)

definition command_item :: "string \<Rightarrow> string list \<Rightarrow> item" where
  "command_item cmd args = Word (map (\<lambda>c. Bare (Plain c)) cmd) (if args = [] then [] else '' '')"

definition link_line :: "string \<Rightarrow> string list \<Rightarrow> item list" where
  "link_line cmd args = command_item cmd args # link_items args"

lemma link_passes_arguments:
  assumes "base_name name = ''psp'' @ cmd" and "cmd \<noteq> ''sh''" and "cmd \<noteq> []" and "list_all (plain_ok False) cmd"
    and "list_all single_ok args" and "length (concat (cmd # map (\<lambda>x. '' '' @ [CHR 0x27] @ x @ [CHR 0x27]) args)) < 1024"
  shows "check_symlink name args a = Inr (True, a\<lparr>ar_exec := show_items (link_line cmd args), ar_script := True, ar_notty := True\<rparr>)"
    and "items_ok e (link_line cmd args)" and "items_words e (link_line cmd args) = cmd # args" and "items_redirs e (link_line cmd args) = []"
proof -
  note facts = link_items_facts [OF assms(5)]
  have cmd: "show_word (map (\<lambda>c. Bare (Plain c)) cmd) = cmd" "word_value e (map (\<lambda>c. Bare (Plain c)) cmd) = cmd"
    by (simp_all add: show_word_def word_value_def o_def)
  have shown: "show_items (link_line cmd args) = concat (cmd # map (\<lambda>x. '' '' @ [CHR 0x27] @ x @ [CHR 0x27]) args)"
    using facts cmd(1) by (simp add: link_line_def command_item_def show_items_def)
  have "int (length (concat (cmd # map (\<lambda>x. '' '' @ [CHR 0x27] @ x @ [CHR 0x27]) args))) < EXEC_SIZE"
    using assms(6) unfolding EXEC_SIZE_def by linarith
  from put_pieces_fit [OF this, of "[]"]
  show "check_symlink name args a = Inr (True, a\<lparr>ar_exec := show_items (link_line cmd args), ar_script := True, ar_notty := True\<rparr>)"
    using assms(1-3) unfolding shown by (simp add: check_symlink_def starts_with_def)
  show "items_ok e (link_line cmd args)" "items_words e (link_line cmd args) = cmd # args" "items_redirs e (link_line cmd args) = []"
    using facts assms(3,4) cmd(2) plain_word_ok [OF assms(4,3)] by (auto simp: link_line_def command_item_def isspace_def)
qed

lemma symlink_overflow:
  "put_pieces [replicate 1025 CHR ''a'', '' b''] EXEC_SIZE [] = Inl Buffer_Overflow"
  by (simp add: EXEC_SIZE_def)

end
