(* ===== verification/ApiHook.thy ===== *)
theory ApiHook
  imports Libs DecodeAddr
begin

unbundle bit_operations_syntax

text \<open>
  The hooks on functions of modules (\<^verbatim>\<open>psplink/apihook.c\<close>) and the code a hooked call runs
  (\<^verbatim>\<open>psplink/kmode.S\<close>). A hook replaces a word of memory, an entry of the table
  of system calls or the jump of an import, by a pointer or a jump to one of sixteen stubs.
\<close>

definition APIHOOK_MAXNAME :: nat where "APIHOOK_MAXNAME = 32"
definition APIHOOK_MAXPARAM :: nat where "APIHOOK_MAXPARAM = 6"
definition APIHOOK_MAXIDS :: nat where "APIHOOK_MAXIDS = 16"

record ApiHookGeneric =
  hk_name :: string
  hk_param :: string
  hk_ret :: char
  hk_func :: u32
  hk_syscall :: u32
  hk_sleep :: int
  hk_imphook :: bool

text \<open>
  \<open>h_env\<close>: memory and modules; \<open>h_ptr\<close>: control register 12, the address of the pointer to the table of
  system calls; \<open>h_apiHook0\<close>: the address of the first stub in the kernel.
\<close>

record hooks =
  h_env :: libenv
  h_prot :: protection
  h_ptr :: u32
  h_apiHook0 :: u32
  g_userdispatch :: u32
  g_apihooks :: "ApiHookGeneric list"

definition no_hook :: ApiHookGeneric where
  "no_hook = \<lparr>hk_name = replicate APIHOOK_MAXNAME (CHR 0x00), hk_param = replicate APIHOOK_MAXPARAM (CHR 0x00),
     hk_ret = CHR ''v'', hk_func = 0, hk_syscall = 0, hk_sleep = 0, hk_imphook = False\<rparr>"

definition mem_of :: "hooks \<Rightarrow> u32 \<Rightarrow> u32" where
  "mem_of st = k_word (h_env st)"

definition set_hook :: "nat \<Rightarrow> ApiHookGeneric \<Rightarrow> hooks \<Rightarrow> hooks" where
  "set_hook i h st = st\<lparr>g_apihooks := (g_apihooks st)[i := h]\<rparr>"

section \<open>Memory\<close>

text \<open>A word is written at an aligned address.\<close>

definition store_word :: "u32 \<Rightarrow> u32 \<Rightarrow> hooks \<Rightarrow> hooks run" where
  "store_word a v st =
     (if a AND 3 \<noteq> 0 then Inl Bad_Pointer
      else Inr (st\<lparr>h_env := (h_env st)\<lparr>k_word := (k_word (h_env st))(a := v)\<rparr>\<rparr>))"

definition find_syscall_addr :: "u32 \<Rightarrow> hooks \<Rightarrow> u32" where
  "find_syscall_addr addr st =
     (if h_ptr st = 0 then 0
      else (let head = mem_of st (h_ptr st);
                syscalls = head + 0x10;
                size = unat (mem_of st (head + 12) - 0x10) div 4
            in case List.find (\<lambda>i. mem_of st (syscalls + 4 * of_nat i) = addr) [0..<size] of
                 None \<Rightarrow> 0 | Some i \<Rightarrow> syscalls + 4 * of_nat i))"

definition apiHookRegisterUserDispatch :: "u32 \<Rightarrow> hooks \<Rightarrow> hooks" where
  "apiHookRegisterUserDispatch dispatch st = st\<lparr>g_userdispatch := dispatch\<rparr>"

definition apiHookAddr :: "u32 \<Rightarrow> u32 \<Rightarrow> hooks \<Rightarrow> (u32 \<times> hooks) run" where
  "apiHookAddr addr func st =
     (if addr = 0 then Inr (0, st) else map_sum id (Pair addr) (store_word addr func st))"

text \<open>The jump \<^verbatim>\<open>j func\<close>.\<close>

definition jump_to :: "u32 \<Rightarrow> u32" where
  "jump_to func = 0x08000000 OR drop_bit 2 (func AND 0x0FFFFFFF)"

definition apiHookImport :: "u32 \<Rightarrow> u32 \<Rightarrow> hooks \<Rightarrow> (u32 \<times> hooks) run" where
  "apiHookImport addr func st =
     (if addr = 0 then Inr (0, st) else map_sum id (Pair addr) (store_word addr (jump_to func) st))"

section \<open>Hooks\<close>

definition find_free_hook :: "hooks \<Rightarrow> nat option" where
  "find_free_hook st = List.find (\<lambda>i. hk_func (g_apihooks st ! i) = 0) [0..<APIHOOK_MAXIDS]"

definition apiHookGenericDelete :: "int \<Rightarrow> hooks \<Rightarrow> hooks run" where
  "apiHookGenericDelete n st =
     (if n < 0 \<or> n \<ge> int APIHOOK_MAXIDS then Inr st
      else (let i = nat n; h = g_apihooks st ! i in
        if hk_func h = 0 then Inr st
        else map_sum (\<lambda>f. f) (\<lambda>r. set_hook i (h\<lparr>hk_func := 0\<rparr>) (snd r))
          (if hk_imphook h then apiHookImport (hk_syscall h) (hk_func h) st
           else apiHookAddr (hk_syscall h) (hk_func h) st)))"

text \<open>
  \<open>hook_target\<close> is the choice of the word to replace, of the function behind it and of the first stub; an
  error is its message.
\<close>

definition hook_target :: "u32 \<Rightarrow> bool \<Rightarrow> hooks \<Rightarrow> (string + u32 \<times> u32 \<times> u32) run" where
  "hook_target addr imphook st =
     (if addr = 0 then Inr (Inl ''Couldn't find export address'')
      else if imphook then
        (let user = addr AND 0x80000000 = 0 in
         if user \<and> g_userdispatch st = 0 then Inr (Inl ''Cannot hook user calls without psplink_user'')
         else (let hookaddr = (if user then g_userdispatch st else h_apiHook0 st) in
           if addr AND 3 \<noteq> 0 then Inl Bad_Pointer
           else if mem_of st addr AND NOT 0x03FFFFFF \<noteq> 0x08000000 then Inr (Inl ''Cannot hook syscall imports'')
           else Inr (Inr (addr, push_bit 2 (mem_of st addr AND 0x03FFFFFF) OR addr AND 0xF0000000, hookaddr))))
      else (let syscall = find_syscall_addr addr st in
        if syscall = 0 then Inr (Inl ''Couldn't find syscall address'')
        else Inr (Inr (syscall, addr, h_apiHook0 st))))"

definition new_hook :: "u32 \<Rightarrow> u32 \<Rightarrow> bool \<Rightarrow> string \<Rightarrow> char \<Rightarrow> string \<Rightarrow> int \<Rightarrow> ApiHookGeneric" where
  "new_hook syscall target imphook name ret format slp =
     \<lparr>hk_name = (strncpy APIHOOK_MAXNAME name)[APIHOOK_MAXNAME - 1 := CHR 0x00],
      hk_param = strncpy APIHOOK_MAXPARAM format, hk_ret = ret, hk_func = target, hk_syscall = syscall,
      hk_sleep = slp, hk_imphook = imphook\<rparr>"

text \<open>The result, the message printed and the state. The name of the library is not used.\<close>

definition apiHookGenericCommon ::
  "u32 \<Rightarrow> bool \<Rightarrow> string \<Rightarrow> char \<Rightarrow> string \<Rightarrow> int \<Rightarrow> hooks \<Rightarrow> (int \<times> string list \<times> hooks) run" where
  "apiHookGenericCommon addr imphook name ret format slp st =
     (case find_free_hook st of
        None \<Rightarrow> Inr (0, [''No free API hooks left''], st)
      | Some n \<Rightarrow>
          (case hook_target addr imphook st of
             Inl f \<Rightarrow> Inl f
           | Inr (Inl msg) \<Rightarrow> Inr (0, [msg], st)
           | Inr (Inr (syscall, target, hookaddr)) \<Rightarrow>
               (let st1 = set_hook n (new_hook syscall target imphook name ret format slp) st;
                    stub = hookaddr + 4 * of_nat (n * 2)
                in map_sum (\<lambda>f. f) (\<lambda>r. (1, [], snd r))
                     (if imphook then apiHookImport syscall stub st1 else apiHookAddr syscall stub st1))))"

text \<open>An export is preferred to an import.\<close>

definition export_or_import :: "u32 run \<Rightarrow> u32 run \<Rightarrow> (u32 \<times> bool) run" where
  "export_or_import e i =
     (case e of Inl f \<Rightarrow> Inl f
      | Inr addr \<Rightarrow> if addr \<noteq> 0 then Inr (addr, False) else map_sum (\<lambda>f. f) (\<lambda>a. (a, True)) i)"

definition apiHookGenericByName ::
  "int \<Rightarrow> string option \<Rightarrow> string \<Rightarrow> char \<Rightarrow> string \<Rightarrow> int \<Rightarrow> hooks \<Rightarrow> (int \<times> string list \<times> hooks) run" where
  "apiHookGenericByName uid library name ret format slp st =
     (case export_or_import (libsFindExportByName (h_env st) uid library name)
             (libsFindImportAddrByName (h_env st) uid library name) of
        Inl f \<Rightarrow> Inl f
      | Inr (addr, imphook) \<Rightarrow> apiHookGenericCommon addr imphook name ret format slp st)"

definition apiHookGenericByNid ::
  "int \<Rightarrow> string option \<Rightarrow> u32 \<Rightarrow> char \<Rightarrow> string \<Rightarrow> int \<Rightarrow> hooks \<Rightarrow> (int \<times> string list \<times> hooks) run" where
  "apiHookGenericByNid uid library nid ret format slp st =
     (case export_or_import (libsFindExportByNid (h_env st) uid library nid)
             (libsFindImportAddrByNid (h_env st) uid library nid) of
        Inl f \<Rightarrow> Inl f
      | Inr (addr, imphook) \<Rightarrow> apiHookGenericCommon addr imphook (''Nid:0x'' @ fmt_08X nid) ret format slp st)"

text \<open>The hooks of other modules, which bring their own function and are not in the list.\<close>

definition hook_direct :: "u32 \<Rightarrow> bool \<Rightarrow> u32 \<Rightarrow> hooks \<Rightarrow> (u32 \<times> hooks) run" where
  "hook_direct addr imphook func st =
     (if imphook then
        if addr = 0 then Inr (0, st) else apiHookImport addr func st
      else map_sum (\<lambda>f. f) (\<lambda>(r, st'). (if r = 0 then 0 else addr, st'))
             (apiHookAddr (find_syscall_addr addr st) func st))"

definition apiHookByName :: "int \<Rightarrow> string option \<Rightarrow> string \<Rightarrow> u32 \<Rightarrow> hooks \<Rightarrow> (u32 \<times> hooks) run" where
  "apiHookByName uid library name func st =
     (case export_or_import (libsFindExportByName (h_env st) uid library name)
             (libsFindImportAddrByName (h_env st) uid library name) of
        Inl f \<Rightarrow> Inl f
      | Inr (addr, imphook) \<Rightarrow> hook_direct addr imphook func st)"

definition apiHookByNid :: "int \<Rightarrow> string option \<Rightarrow> u32 \<Rightarrow> u32 \<Rightarrow> hooks \<Rightarrow> (u32 \<times> hooks) run" where
  "apiHookByNid uid library nid func st =
     (case export_or_import (libsFindExportByNid (h_env st) uid library nid)
             (libsFindImportAddrByNid (h_env st) uid library nid) of
        Inl f \<Rightarrow> Inl f
      | Inr (addr, imphook) \<Rightarrow> hook_direct addr imphook func st)"

section \<open>A hooked call\<close>

datatype hook_event = Hook_Print string | Sleep_Thread

record caller =
  c_thid :: u32
  c_ra :: u32

text \<open>\<open>None\<close>: there is no function in the hook.\<close>

definition active_hook :: "int \<Rightarrow> hooks \<Rightarrow> ApiHookGeneric option" where
  "active_hook n st =
     (if n \<ge> 0 \<and> n < int APIHOOK_MAXIDS \<and> hk_func (g_apihooks st ! nat n) \<noteq> 0
      then Some (g_apihooks st ! nat n) else None)"

definition mem_byte :: "hooks \<Rightarrow> u32 \<Rightarrow> u8" where
  "mem_byte st a = ucast (drop_bit (8 * unat (a AND 3)) (mem_of st (a AND NOT 3)))"

definition mem_chars :: "hooks \<Rightarrow> u32 \<Rightarrow> nat \<Rightarrow> string" where
  "mem_chars st a n = map (\<lambda>i. chr_of (mem_byte st (a + of_nat i))) [0..<n]"

definition print_arg :: "hooks \<Rightarrow> char \<Rightarrow> u32 \<Rightarrow> string list" where
  "print_arg st type a =
     (if type = CHR ''i'' then [fmt_d a @ [CHR 0x0A]]
      else if type = CHR ''x'' then [''0x'' @ fmt_08X a @ [CHR 0x0A]]
      else if type = CHR ''o'' then [''0'' @ fmt_o a @ [CHR 0x0A]]
      else if type = CHR ''s'' \<or> type = CHR ''p'' then
        (let strleft = memValidate (h_prot st) a (MEM_ATTRIB_READ OR MEM_ATTRIB_BYTE) in
         if strleft = 0 then [''Invalid pointer 0x'' @ fmt_08X a @ [CHR 0x0A]]
         else if type = CHR ''s'' then
           [CHR 0x22 # str_of (mem_chars st a (nat (min strleft 127))) @ [CHR 0x22, CHR 0x0A]]
         else [''0x'' @ fmt_08X a @ '' - ''] @
           map (\<lambda>i. ''0x'' @ fmt_02X (mem_byte st (a + of_nat i)) @ '' '') [0..<nat (min strleft 32)] @
           [[CHR 0x0A]])
      else [''Unknown parameter type '' @ [CHR 0x27, type, CHR 0x27, CHR 0x0A]])"

fun print_args :: "hooks \<Rightarrow> nat \<Rightarrow> string \<Rightarrow> u32 list \<Rightarrow> string list" where
  "print_args st i (t # ts) (a # args) =
     (if t = CHR 0x00 then []
      else (''Arg '' @ print_dec i @ '': '') # print_arg st t a @ print_args st (i + 1) ts args)"
| "print_args st i _ _ = []"

definition sleep_events :: "caller \<Rightarrow> ApiHookGeneric \<Rightarrow> hook_event list" where
  "sleep_events c h = (if hk_sleep h = 0 then []
     else [Hook_Print (''Sleeping thread 0x'' @ fmt_08X (c_thid c) @ [CHR 0x0A]), Sleep_Thread])"

text \<open>\<open>args\<close>: the six registers.\<close>

definition apiHookHandle :: "caller \<Rightarrow> int \<Rightarrow> u32 list \<Rightarrow> hooks \<Rightarrow> u32 \<times> hook_event list" where
  "apiHookHandle c n args st =
     (case active_hook n st of
        None \<Rightarrow> (0, [])
      | Some h \<Rightarrow> (hk_func h,
          Hook_Print (''Function '' @ str_of (hk_name h) @ '' called from thread 0x'' @ fmt_08X (c_thid c) @
              '' (RA:0x'' @ fmt_08X (c_ra c) @ '')'' @ [CHR 0x0A])
            # map Hook_Print (print_args st 0 (hk_param h) args) @ sleep_events c h))"

definition apiHookReturn :: "caller \<Rightarrow> int \<Rightarrow> u32 \<Rightarrow> u32 \<Rightarrow> hooks \<Rightarrow> hook_event list" where
  "apiHookReturn c n ret0 ret1 st =
     (case active_hook n st of
        None \<Rightarrow> []
      | Some h \<Rightarrow>
          [Hook_Print (''Function '' @ str_of (hk_name h) @ '' returned ''),
           Hook_Print ((if hk_ret h = CHR ''i'' then fmt_d ret0
              else if hk_ret h = CHR ''x'' then ''0x'' @ fmt_08X ret0
              else if hk_ret h = CHR ''X'' then ''0x'' @ fmt_08X ret1 @ fmt_08X ret0
              else ''void'') @ [CHR 0x0A])] @ sleep_events c h)"

definition apiHookGenericPrint :: "hooks \<Rightarrow> string list" where
  "apiHookGenericPrint st =
     concat (map (\<lambda>i. let h = g_apihooks st ! i in
       if hk_func h = 0 then []
       else [''Hook '' @ (if i < 10 then '' '' else []) @ print_dec i @ '': Name '' @ str_of (hk_name h) @ '', Ret ''
             @ [hk_ret h] @ '' Param '' @ str_of (hk_param h) @ '', Sleep '' @ fmt_d (s32 (hk_sleep h)) @
             '', Syscall 0x'' @ fmt_08X (hk_syscall h) @ '' Imp '' @ (if hk_imphook h then ''1'' else ''0'')
             @ [CHR 0x0A]]) [0..<APIHOOK_MAXIDS])"

text \<open>
  The stubs and \<^verbatim>\<open>_apiHookEntry\<close>: stub \<open>n\<close> puts its number into \<^verbatim>\<open>$v0\<close>; the entry saves \<^verbatim>\<open>$ra\<close>, the six
  registers of arguments and the number in a frame of eight words. \<open>real\<close> is the hooked function: from its
  address and the registers of arguments, \<^verbatim>\<open>$v0\<close>, \<^verbatim>\<open>$v1\<close> and the state it leaves. The result is \<^verbatim>\<open>$v0\<close>, and
  \<^verbatim>\<open>$v1\<close> unless the function was not called, where it is what \<^verbatim>\<open>_apiHookHandle\<close> left there. Both are saved
  in the frame over the first two arguments while \<^verbatim>\<open>_apiHookReturn\<close> reads them, and loaded back. (The copy
  of this entry in \<^verbatim>\<open>psplink_user/kmode.S\<close>, which nothing here models, loads \<^verbatim>\<open>$v1\<close> from the first slot.)
\<close>

type_synonym hooked_fun = "u32 \<Rightarrow> u32 list \<Rightarrow> hooks \<Rightarrow> u32 \<times> u32 \<times> hooks"

definition apiHookEntry ::
  "caller \<Rightarrow> hooked_fun \<Rightarrow> u32 \<Rightarrow> u32 list \<Rightarrow> hooks \<Rightarrow> (u32 \<times> u32 option) \<times> hook_event list \<times> hooks" where
  "apiHookEntry c real v0 args st =
     (let frame = c_ra c # args @ [v0];
          (func, ev) = apiHookHandle c (sint (frame ! 7)) (take 6 (drop 1 frame)) st
      in if func = 0 then ((func, None), ev, st)
         else (let (r0, r1, st1) = real func (take 6 (drop 1 frame)) st;
                   frame1 = frame[1 := r0, 2 := r1];
                   ev1 = apiHookReturn c (sint (frame1 ! 7)) (frame1 ! 1) (frame1 ! 2) st1
               in ((frame1 ! 1, Some (frame1 ! 2)), ev @ ev1, st1)))"

definition apiHook_stub ::
  "nat \<Rightarrow> caller \<Rightarrow> hooked_fun \<Rightarrow> u32 list \<Rightarrow> hooks \<Rightarrow> (u32 \<times> u32 option) \<times> hook_event list \<times> hooks" where
  "apiHook_stub n c real args st = apiHookEntry c real (of_nat n) args st"

end
