(* ===== verification/ApiHookProps.thy ===== *)
theory ApiHookProps
  imports ApiHook
begin

unbundle bit_operations_syntax

text \<open>
  The hooks never lose the word they replace: an invariant over any sequence of hooks and deletions, what a
  hooked call does, and what deleting two hooks of one import in the order of their making leaves behind.
\<close>

section \<open>The words hooks replace\<close>

text \<open>The word a deletion writes.\<close>

definition restored :: "ApiHookGeneric \<Rightarrow> u32" where
  "restored h = (if hk_imphook h then jump_to (hk_func h) else hk_func h)"

definition hooked :: "hooks \<Rightarrow> nat \<Rightarrow> bool" where
  "hooked st i \<longleftrightarrow> i < APIHOOK_MAXIDS \<and> hk_func (g_apihooks st ! i) \<noteq> 0"

definition word_of_hook :: "hooks \<Rightarrow> nat \<Rightarrow> u32" where
  "word_of_hook st i = hk_syscall (g_apihooks st ! i)"

text \<open>
  The invariant: \<open>m\<close> is the memory without hooks. Each hook has a word of its own and can restore it; every
  other word is unchanged.
\<close>

definition hooks_inv :: "(u32 \<Rightarrow> u32) \<Rightarrow> hooks \<Rightarrow> bool" where
  "hooks_inv m st \<longleftrightarrow> length (g_apihooks st) = APIHOOK_MAXIDS
     \<and> (\<forall>i. hooked st i \<longrightarrow> word_of_hook st i \<noteq> 0 \<and> word_of_hook st i AND 3 = 0
          \<and> restored (g_apihooks st ! i) = m (word_of_hook st i))
     \<and> (\<forall>i j. hooked st i \<longrightarrow> hooked st j \<longrightarrow> word_of_hook st i = word_of_hook st j \<longrightarrow> i = j)
     \<and> (\<forall>a. (\<forall>i. hooked st i \<longrightarrow> word_of_hook st i \<noteq> a) \<longrightarrow> mem_of st a = m a)"

lemma jump_to_target:
  assumes "w AND NOT 0x03FFFFFF = (0x08000000 :: u32)"
  shows "jump_to (push_bit 2 (w AND 0x03FFFFFF) OR a AND 0xF0000000) = w"
proof -
  have m: "(0x03FFFFFF :: u32) = mask 26" "(0x0FFFFFFF :: u32) = mask 28" "(0xF0000000 :: u32) = NOT (mask 28)"
    by (simp_all add: mask_eq_exp_minus_1)
  have w: "(0x08000000 :: u32) = w AND NOT (mask 26)" using assms unfolding m by simp
  show ?thesis unfolding jump_to_def w m
    by (rule bit_word_eqI) (auto simp: bit_simps)
qed

text \<open>The write of a hook or of its deletion.\<close>

definition with_word :: "u32 \<Rightarrow> u32 \<Rightarrow> hooks \<Rightarrow> hooks" where
  "with_word a v st = st\<lparr>h_env := (h_env st)\<lparr>k_word := (k_word (h_env st))(a := v)\<rparr>\<rparr>"

lemma hooks_simps [simp]:
  "mem_of (with_word a v st) = (mem_of st)(a := v)"
  "g_apihooks (with_word a v st) = g_apihooks st"
  "mem_of (set_hook i h st) = mem_of st"
  "g_apihooks (set_hook i h st) = (g_apihooks st)[i := h]"
  "h_ptr (set_hook i h st) = h_ptr st" "h_apiHook0 (set_hook i h st) = h_apiHook0 st"
  "g_userdispatch (set_hook i h st) = g_userdispatch st"
  "h_ptr (with_word a v st) = h_ptr st" "h_apiHook0 (with_word a v st) = h_apiHook0 st"
  "g_userdispatch (with_word a v st) = g_userdispatch st"
  by (simp_all add: mem_of_def with_word_def set_hook_def)

lemma hook_write:
  "(if imp then apiHookImport a f st else apiHookAddr a f st) =
     (if a = 0 then Inr (0, st) else if a AND 3 \<noteq> 0 then Inl Bad_Pointer
      else Inr (a, with_word a (if imp then jump_to f else f) st))"
  by (simp add: apiHookImport_def apiHookAddr_def store_word_def with_word_def)

lemma hooked_set_hook:
  "i < APIHOOK_MAXIDS \<Longrightarrow> length (g_apihooks st) = APIHOOK_MAXIDS
    \<Longrightarrow> hooked (set_hook i h st) j \<longleftrightarrow> (if j = i then hk_func h \<noteq> 0 else hooked st j)"
  by (auto simp: hooked_def nth_list_update)

lemma word_of_set_hook:
  "i < APIHOOK_MAXIDS \<Longrightarrow> length (g_apihooks st) = APIHOOK_MAXIDS
    \<Longrightarrow> word_of_hook (set_hook i h st) j = (if j = i then hk_syscall h else word_of_hook st j)"
  by (auto simp: word_of_hook_def nth_list_update)

lemma hooked_with_word [simp]: "hooked (with_word a v st) i = hooked st i"
  by (simp add: hooked_def)

lemma word_of_with_word [simp]: "word_of_hook (with_word a v st) i = word_of_hook st i"
  by (simp add: word_of_hook_def)

lemma delete_not_hooked: "\<not> (0 \<le> n \<and> hooked st (nat n)) \<Longrightarrow> apiHookGenericDelete n st = Inr st"
  by (auto simp: apiHookGenericDelete_def hooked_def Let_def nat_less_iff)

lemma delete_hooked:
  assumes "0 \<le> n" and "hooked st (nat n)"
    and "word_of_hook st (nat n) \<noteq> 0" and "word_of_hook st (nat n) AND 3 = 0"
  shows "apiHookGenericDelete n st = Inr (set_hook (nat n) ((g_apihooks st ! nat n)\<lparr>hk_func := 0\<rparr>)
           (with_word (word_of_hook st (nat n)) (restored (g_apihooks st ! nat n)) st))"
  using assms
  by (auto simp: apiHookGenericDelete_def hooked_def word_of_hook_def Let_def nat_less_iff hook_write restored_def)

lemma free_hook:
  assumes "find_free_hook st = Some i"
  shows "i < APIHOOK_MAXIDS" and "\<not> hooked st i"
  using assms by (auto simp: find_free_hook_def hooked_def find_Some_iff)

lemma hook_Inr_1:
  assumes "apiHookGenericCommon addr imp name ret fm slp st = Inr (1, msg, st')"
  obtains i w f base where "find_free_hook st = Some i" and "hook_target addr imp st = Inr (Inr (w, f, base))"
    and "w = 0 \<longrightarrow> st' = set_hook i (new_hook w f imp name ret fm slp) st"
    and "w \<noteq> 0 \<longrightarrow> w AND 3 = 0 \<and>
      st' = with_word w (if imp then jump_to (base + 4 * of_nat (i * 2)) else base + 4 * of_nat (i * 2))
              (set_hook i (new_hook w f imp name ret fm slp) st)"
proof (cases "find_free_hook st")
  case None
  then show thesis using assms by (simp add: apiHookGenericCommon_def)
next
  case (Some i)
  show thesis
  proof (cases "hook_target addr imp st")
    case (Inl a)
    then show thesis using assms Some by (simp add: apiHookGenericCommon_def)
  next
    case (Inr r)
    show thesis
    proof (cases r)
      case (Inl m)
      then show thesis using assms Some Inr by (simp add: apiHookGenericCommon_def)
    next
      case t: (Inr q)
      obtain w f base where q: "q = (w, f, base)" by (cases q)
      show thesis
        using assms Some Inr t q
        by (intro that [of i w f base]) (auto simp: apiHookGenericCommon_def Let_def hook_write split: if_splits)
    qed
  qed
qed

text \<open>The word found holds what the deletion writes.\<close>

lemma hook_target_restores:
  assumes "hook_target addr imp st = Inr (Inr (w, f, base))"
  shows "w \<noteq> 0" and "(if imp then jump_to f else f) = mem_of st w"
proof -
  have "w \<noteq> 0 \<and> (if imp then jump_to f else f) = mem_of st w"
  proof (cases imp)
    case True
    then show ?thesis using assms
      by (auto simp: hook_target_def Let_def jump_to_target [simplified] split: if_splits)
  next
    case False
    then have "find_syscall_addr addr st = w" "f = addr" "w \<noteq> 0"
      using assms by (auto simp: hook_target_def Let_def split: if_splits)
    then show ?thesis using False
      by (auto simp: find_syscall_addr_def Let_def find_Some_iff split: if_splits option.splits)
  qed
  then show "w \<noteq> 0" and "(if imp then jump_to f else f) = mem_of st w" by auto
qed

lemma hook_made:
  assumes "apiHookGenericCommon addr imp name ret fm slp st = Inr (1, msg, st')"
  obtains i w f base where "find_free_hook st = Some i" and "hook_target addr imp st = Inr (Inr (w, f, base))"
    and "w AND 3 = 0"
    and "st' = with_word w (if imp then jump_to (base + 4 * of_nat (i * 2)) else base + 4 * of_nat (i * 2))
              (set_hook i (new_hook w f imp name ret fm slp) st)"
  by (rule hook_Inr_1 [OF assms]) (auto dest: hook_target_restores(1) intro: that)

lemma hook_refused:
  "apiHookGenericCommon addr imp name ret fm slp st = Inr (r, msg, st') \<Longrightarrow> r \<noteq> 1 \<Longrightarrow> st' = st"
  by (auto simp: apiHookGenericCommon_def Let_def hook_write split: option.splits sum.splits if_splits)

section \<open>The invariant is kept\<close>

lemma delete_inv:
  assumes "hooks_inv m st"
  shows "\<exists>st'. apiHookGenericDelete n st = Inr st' \<and> hooks_inv m st'
           \<and> (\<forall>i. hooked st' i \<longleftrightarrow> hooked st i \<and> int i \<noteq> n)"
proof (cases "0 \<le> n \<and> hooked st (nat n)")
  case False
  then have "apiHookGenericDelete n st = Inr st" by (rule delete_not_hooked)
  then show ?thesis using False assms by auto
next
  case True
  let ?i = "nat n" and ?w = "word_of_hook st (nat n)"
  have len: "length (g_apihooks st) = APIHOOK_MAXIDS" and i: "?i < APIHOOK_MAXIDS"
    using assms True by (auto simp: hooks_inv_def hooked_def)
  have w: "?w \<noteq> 0" "?w AND 3 = 0" and r: "restored (g_apihooks st ! ?i) = m ?w"
    using assms True by (auto simp: hooks_inv_def)
  let ?st = "set_hook ?i ((g_apihooks st ! ?i)\<lparr>hk_func := 0\<rparr>) (with_word ?w (m ?w) st)"
  have h: "hooked ?st j \<longleftrightarrow> hooked st j \<and> j \<noteq> ?i" for j
    using i len by (simp add: hooked_set_hook)
  have e: "g_apihooks ?st ! j = g_apihooks st ! j" and wj: "word_of_hook ?st j = word_of_hook st j" if "j \<noteq> ?i" for j
    using that i len by (simp_all add: word_of_set_hook nth_list_update)
  have "hooks_inv m ?st"
    unfolding hooks_inv_def
  proof (intro conjI allI impI)
    show "length (g_apihooks ?st) = APIHOOK_MAXIDS" using len by simp
  next
    fix j assume "hooked ?st j"
    then have j: "hooked st j" "j \<noteq> ?i" by (simp_all add: h)
    then show "word_of_hook ?st j \<noteq> 0" "word_of_hook ?st j AND 3 = 0"
      "restored (g_apihooks ?st ! j) = m (word_of_hook ?st j)"
      using assms e [of j] wj [of j] by (auto simp: hooks_inv_def)
  next
    fix j k assume "hooked ?st j" "hooked ?st k" "word_of_hook ?st j = word_of_hook ?st k"
    then show "j = k" using assms wj by (auto simp: h hooks_inv_def)
  next
    fix a assume a: "\<forall>j. hooked ?st j \<longrightarrow> word_of_hook ?st j \<noteq> a"
    show "mem_of ?st a = m a"
    proof (cases "a = ?w")
      case False
      then have "\<forall>j. hooked st j \<longrightarrow> word_of_hook st j \<noteq> a" using a wj by (auto simp: h)
      then show ?thesis using False assms by (simp add: hooks_inv_def)
    qed simp
  qed
  moreover have "apiHookGenericDelete n st = Inr ?st"
    using delete_hooked [of n st] True w r by simp
  moreover have "j = ?i \<longleftrightarrow> int j = n" for j using True by auto
  ultimately show ?thesis using h by blast
qed

text \<open>A hook keeps it when its word is not hooked already and the jump it replaces does not go to address 0.\<close>

lemma hook_inv:
  assumes inv: "hooks_inv m st"
    and c: "apiHookGenericCommon addr imp name ret fm slp st = Inr (1, msg, st')"
    and ok: "\<And>w f base. hook_target addr imp st = Inr (Inr (w, f, base)) \<Longrightarrow>
      f \<noteq> 0 \<and> (\<forall>j. hooked st j \<longrightarrow> word_of_hook st j \<noteq> w)"
  shows "hooks_inv m st'"
proof -
  obtain i w f base where ff: "find_free_hook st = Some i" and t: "hook_target addr imp st = Inr (Inr (w, f, base))"
    and al: "w AND 3 = 0"
    and st': "st' = with_word w (if imp then jump_to (base + 4 * of_nat (i * 2)) else base + 4 * of_nat (i * 2))
              (set_hook i (new_hook w f imp name ret fm slp) st)"
    by (rule hook_made [OF c])
  have i: "i < APIHOOK_MAXIDS" "\<not> hooked st i" using free_hook [OF ff] by auto
  have f: "f \<noteq> 0" and fresh: "\<forall>j. hooked st j \<longrightarrow> word_of_hook st j \<noteq> w" using ok [OF t] by auto
  have len: "length (g_apihooks st) = APIHOOK_MAXIDS" using inv by (simp add: hooks_inv_def)
  have mw: "mem_of st w = m w" using inv fresh by (simp add: hooks_inv_def)
  have res: "restored (new_hook w f imp name ret fm slp) = m w"
    using hook_target_restores(2) [OF t] by (auto simp: restored_def new_hook_def mw split: if_splits)
  have h: "hooked st' j \<longleftrightarrow> hooked st j \<or> j = i" for j
    using i len f by (auto simp: st' hooked_set_hook new_hook_def)
  have wi: "word_of_hook st' i = w" and wj: "j \<noteq> i \<Longrightarrow> word_of_hook st' j = word_of_hook st j" for j
    using i len by (simp_all add: st' word_of_set_hook new_hook_def)
  have e: "g_apihooks st' ! j = (if j = i then new_hook w f imp name ret fm slp else g_apihooks st ! j)" for j
    using i len by (simp add: st' nth_list_update)
  show ?thesis
    unfolding hooks_inv_def
  proof (intro conjI allI impI)
    show "length (g_apihooks st') = APIHOOK_MAXIDS" using len by (simp add: st')
  next
    fix j assume "hooked st' j"
    then show "word_of_hook st' j \<noteq> 0" "word_of_hook st' j AND 3 = 0"
      "restored (g_apihooks st' ! j) = m (word_of_hook st' j)"
      using inv al hook_target_restores(1) [OF t] res wi wj [of j] e [of j]
      by (cases "j = i"; auto simp: h hooks_inv_def)+
  next
    fix j k assume "hooked st' j" "hooked st' k" "word_of_hook st' j = word_of_hook st' k"
    then show "j = k" using inv fresh wi wj [of j] wj [of k]
      by (cases "j = i"; cases "k = i") (auto simp: h hooks_inv_def)
  next
    fix a assume a: "\<forall>j. hooked st' j \<longrightarrow> word_of_hook st' j \<noteq> a"
    then have "a \<noteq> w" using wi by (auto simp: h)
    moreover have "\<forall>j. hooked st j \<longrightarrow> word_of_hook st j \<noteq> a" using a i(2) wj by (metis h)
    ultimately show "mem_of st' a = m a" using inv by (simp add: st' hooks_inv_def)
  qed
qed

section \<open>Any sequence\<close>

datatype hook_op = Hook u32 bool string char string int | Unhook int

fun hook_step :: "hook_op \<Rightarrow> hooks \<Rightarrow> hooks run" where
  "hook_step (Hook addr imp name ret fm slp) st =
     map_sum (\<lambda>f. f) (\<lambda>r. snd (snd r)) (apiHookGenericCommon addr imp name ret fm slp st)"
| "hook_step (Unhook n) st = apiHookGenericDelete n st"

fun run_hooks :: "hook_op list \<Rightarrow> hooks \<Rightarrow> hooks run" where
  "run_hooks [] st = Inr st"
| "run_hooks (x # xs) st = (case hook_step x st of Inl f \<Rightarrow> Inl f | Inr st' \<Rightarrow> run_hooks xs st')"

text \<open>A hook is put on a word without one, and not on a jump to address 0.\<close>

definition fresh_target :: "hooks \<Rightarrow> hook_op \<Rightarrow> bool" where
  "fresh_target st x = (case x of
     Hook addr imp name ret fm slp \<Rightarrow>
       (case hook_target addr imp st of
          Inr (Inr (w, f, base)) \<Rightarrow> f \<noteq> 0 \<and> (\<forall>i \<in> set [0..<APIHOOK_MAXIDS]. hooked st i \<longrightarrow> word_of_hook st i \<noteq> w)
        | _ \<Rightarrow> True)
   | Unhook n \<Rightarrow> True)"

fun fresh_targets :: "hooks \<Rightarrow> hook_op list \<Rightarrow> bool" where
  "fresh_targets st [] = True"
| "fresh_targets st (x # xs) \<longleftrightarrow> fresh_target st x
     \<and> (case hook_step x st of Inl f \<Rightarrow> True | Inr st' \<Rightarrow> fresh_targets st' xs)"

definition no_hooks :: "hooks \<Rightarrow> bool" where
  "no_hooks st \<longleftrightarrow> length (g_apihooks st) = APIHOOK_MAXIDS \<and> (\<forall>h \<in> set (g_apihooks st). hk_func h = 0)"

lemma no_hooks_inv: "no_hooks st \<Longrightarrow> hooks_inv (mem_of st) st"
  by (auto simp: no_hooks_def hooks_inv_def hooked_def)

lemma hook_step_inv:
  assumes "hooks_inv m st" and "fresh_target st x" and "hook_step x st = Inr st'"
  shows "hooks_inv m st'"
proof (cases x)
  case (Unhook n)
  then show ?thesis using delete_inv [OF assms(1), of n] assms(3) by auto
next
  case (Hook addr imp name ret fm slp)
  then obtain r msg where c: "apiHookGenericCommon addr imp name ret fm slp st = Inr (r, msg, st')"
    using assms(3) by (cases "apiHookGenericCommon addr imp name ret fm slp st") auto
  show ?thesis
  proof (cases "r = 1")
    case False
    then show ?thesis using hook_refused [OF c] assms(1) by simp
  next
    case True
    show ?thesis
    proof (rule hook_inv [OF assms(1) c [unfolded True]])
      fix w f base assume "hook_target addr imp st = Inr (Inr (w, f, base))"
      then show "f \<noteq> 0 \<and> (\<forall>j. hooked st j \<longrightarrow> word_of_hook st j \<noteq> w)"
        using assms(2) Hook by (auto simp: fresh_target_def hooked_def)
    qed
  qed
qed

lemma run_hooks_inv:
  "hooks_inv m st \<Longrightarrow> fresh_targets st xs \<Longrightarrow> run_hooks xs st = Inr st' \<Longrightarrow> hooks_inv m st'"
proof (induction xs arbitrary: st)
  case (Cons x xs)
  then obtain st1 where s: "hook_step x st = Inr st1" and r: "run_hooks xs st1 = Inr st'"
    by (auto split: sum.splits)
  have "hooks_inv m st1" using hook_step_inv [OF Cons.prems(1) _ s] Cons.prems(2) by simp
  then show ?case using Cons.IH [OF _ _ r] Cons.prems(2) s by simp
qed simp

lemma delete_all:
  "hooks_inv m st \<Longrightarrow> \<exists>st'. run_hooks (map Unhook ns) st = Inr st' \<and> hooks_inv m st'
     \<and> (\<forall>i. hooked st' i \<longleftrightarrow> hooked st i \<and> int i \<notin> set ns)"
proof (induction ns arbitrary: st)
  case (Cons n ns)
  obtain st1 where s: "apiHookGenericDelete n st = Inr st1" and i: "hooks_inv m st1"
    and h: "\<forall>i. hooked st1 i \<longleftrightarrow> hooked st i \<and> int i \<noteq> n"
    using delete_inv [OF Cons.prems, of n] by blast
  obtain st2 where "run_hooks (map Unhook ns) st1 = Inr st2" "hooks_inv m st2"
    "\<forall>i. hooked st2 i \<longleftrightarrow> hooked st1 i \<and> int i \<notin> set ns"
    using Cons.IH [OF i] by blast
  then show ?case using s h by (intro exI [of _ st2]) auto
qed simp

text \<open>C34: Hooks are transparent. After any sequence of hooks and deletions from a state without hooks, each on a
  word without one, a word of memory that no hook covers is as it was; and deleting all hooks in any order
  succeeds and gives back the memory of the start.
\<close>

theorem hooks_give_memory_back:
  assumes "no_hooks st" and "fresh_targets st xs" and "run_hooks xs st = Inr st'"
  shows "(\<forall>a. (\<forall>i. hooked st' i \<longrightarrow> word_of_hook st' i \<noteq> a) \<longrightarrow> mem_of st' a = mem_of st a)
    \<and> (\<forall>ns. (\<forall>i < APIHOOK_MAXIDS. int i \<in> set ns) \<longrightarrow>
           (\<exists>st''. run_hooks (map Unhook ns) st' = Inr st'' \<and> mem_of st'' = mem_of st))"
proof (intro conjI)
  have i: "hooks_inv (mem_of st) st'"
    by (rule run_hooks_inv [OF no_hooks_inv [OF assms(1)] assms(2,3)])
  then show "\<forall>a. (\<forall>i. hooked st' i \<longrightarrow> word_of_hook st' i \<noteq> a) \<longrightarrow> mem_of st' a = mem_of st a"
    by (simp add: hooks_inv_def)
  show "\<forall>ns. (\<forall>i < APIHOOK_MAXIDS. int i \<in> set ns) \<longrightarrow>
           (\<exists>st''. run_hooks (map Unhook ns) st' = Inr st'' \<and> mem_of st'' = mem_of st)"
  proof (intro allI impI)
    fix ns assume all: "\<forall>i < APIHOOK_MAXIDS. int i \<in> set ns"
    obtain st2 where r: "run_hooks (map Unhook ns) st' = Inr st2" and i2: "hooks_inv (mem_of st) st2"
      and h: "\<forall>i. hooked st2 i \<longleftrightarrow> hooked st' i \<and> int i \<notin> set ns"
      using delete_all [OF i, of ns] by blast
    have "\<not> hooked st2 j" for j using h all by (auto simp: hooked_def)
    then have "mem_of st2 = mem_of st" using i2 by (auto simp: hooks_inv_def)
    then show "\<exists>st''. run_hooks (map Unhook ns) st' = Inr st'' \<and> mem_of st'' = mem_of st" using r by blast
  qed
qed

text \<open>
  A table of two system calls at \<^verbatim>\<open>0x88001000\<close>, the second of which is the function at \<^verbatim>\<open>0x88010000\<close>, and a
  user import at \<^verbatim>\<open>0x08804000\<close> which jumps to \<^verbatim>\<open>0x08900000\<close>.
\<close>

definition demo_hooks :: hooks where
  "demo_hooks = \<lparr>
     h_env = \<lparr>k_module_by_uid = (\<lambda>u. None), k_sha1 = (\<lambda>s. None),
       k_word = (\<lambda>a. 0)(0x88000100 := 0x88001000, 0x8800100C := 0x18, 0x88001014 := 0x88010000,
         0x08804000 := 0x0A240000)\<rparr>,
     h_prot = \<lparr>g_isv1 = False, g_protoff = False\<rparr>, h_ptr = 0x88000100, h_apiHook0 = 0x88020000,
     g_userdispatch = 0x08A00000, g_apihooks = replicate APIHOOK_MAXIDS no_hook\<rparr>"

definition demo_hook_ops :: "hook_op list" where
  "demo_hook_ops =
    [Hook 0x88010000 False ''sceIoOpen'' (CHR ''x'') ''sxx'' 0, Hook 0x08804000 True ''work'' (CHR ''X'') ''i'' 0, Unhook 0]"

definition demo_hooked :: hooks where
  "demo_hooked = (case run_hooks demo_hook_ops demo_hooks of Inl f \<Rightarrow> demo_hooks | Inr st \<Rightarrow> st)"

lemma demo_hooks_ok:
  "no_hooks demo_hooks" "fresh_targets demo_hooks demo_hook_ops"
  "run_hooks demo_hook_ops demo_hooks = Inr demo_hooked"
proof -
  show "no_hooks demo_hooks" by code_simp
  show "fresh_targets demo_hooks demo_hook_ops" by code_simp
  have "\<not> isl (run_hooks demo_hook_ops demo_hooks)" by code_simp
  then show "run_hooks demo_hook_ops demo_hooks = Inr demo_hooked"
    unfolding demo_hooked_def by (cases "run_hooks demo_hook_ops demo_hooks") auto
qed

theorem hooks_give_memory_back_witness:
  "mem_of demo_hooked 0x88001014 = mem_of demo_hooks 0x88001014
    \<and> mem_of demo_hooked 0x08804000 \<noteq> mem_of demo_hooks 0x08804000
    \<and> (\<exists>st''. run_hooks (map Unhook (map int [0..<16])) demo_hooked = Inr st'' \<and> mem_of st'' = mem_of demo_hooks)"
proof (intro conjI)
  note t = hooks_give_memory_back [OF demo_hooks_ok]
  have w: "\<forall>i \<in> set [0..<APIHOOK_MAXIDS]. \<not> (hooked demo_hooked i \<and> word_of_hook demo_hooked i = 0x88001014)"
    by code_simp
  have "hooked demo_hooked i \<longrightarrow> word_of_hook demo_hooked i \<noteq> 0x88001014" for i
    using w by (cases "i < APIHOOK_MAXIDS") (auto simp: hooked_def)
  then show "mem_of demo_hooked 0x88001014 = mem_of demo_hooks 0x88001014" using t by blast
  show "mem_of demo_hooked 0x08804000 \<noteq> mem_of demo_hooks 0x08804000" by code_simp
  have "\<forall>i < APIHOOK_MAXIDS. int i \<in> set (map int [0..<16])" by (auto simp: APIHOOK_MAXIDS_def)
  then show "\<exists>st''. run_hooks (map Unhook (map int [0..<16])) demo_hooked = Inr st'' \<and> mem_of st'' = mem_of demo_hooks"
    using t by blast
qed

section \<open>Calls\<close>

lemma sint_index: "n < APIHOOK_MAXIDS \<Longrightarrow> sint (of_nat n :: u32) = int n"
  using sint_s32 [of "int n"] by (simp add: s32_def APIHOOK_MAXIDS_def)

text \<open>What a stub does, by whether its hook is there.\<close>

lemma stub_hooked:
  assumes "hooked st n" and "length args = 6" and "real (hk_func (g_apihooks st ! n)) args st = (r0, r1, st1)"
  shows "apiHook_stub n c real args st = ((r0, Some r1),
    snd (apiHookHandle c (int n) args st) @ apiHookReturn c (int n) r0 r1 st1, st1)"
proof -
  obtain a0 a1 a2 a3 t0 t1 where a: "args = [a0, a1, a2, a3, t0, t1]"
    using assms(2) by (auto simp: numeral_eq_Suc length_Suc_conv)
  have "active_hook (int n) st = Some (g_apihooks st ! n)" "hk_func (g_apihooks st ! n) \<noteq> 0"
    using assms(1) by (auto simp: active_hook_def hooked_def)
  then show ?thesis using assms sint_index [of n]
    by (simp add: a hooked_def apiHook_stub_def apiHookEntry_def apiHookHandle_def Let_def)
qed

lemma stub_free:
  assumes "\<not> hooked st n" and "length args = 6" and "n < APIHOOK_MAXIDS"
  shows "apiHook_stub n c real args st = ((0, None), [], st)"
proof -
  obtain a0 a1 a2 a3 t0 t1 where a: "args = [a0, a1, a2, a3, t0, t1]"
    using assms(2) by (auto simp: numeral_eq_Suc length_Suc_conv)
  have "active_hook (int n) st = None" using assms(1) by (auto simp: active_hook_def hooked_def)
  then show ?thesis using assms sint_index [of n]
    by (simp add: a apiHook_stub_def apiHookEntry_def apiHookHandle_def Let_def)
qed



section \<open>Two hooks of one import\<close>

text \<open>
  A hook may be put on an import which has one; the second hook then calls the stub of the first. Deleted in
  the order they were made, the import is left with a jump to the stub of the first hook, which has no function:
  the calls of the module return 0 without a call.
\<close>

lemma double_hook_dangles:
  assumes "length (g_apihooks st) = APIHOOK_MAXIDS" and "find_free_hook st = Some i"
    and "hook_target addr True st = Inr (Inr (addr, f, base))" and "f \<noteq> 0"
    and "apiHookGenericCommon addr True n1 r1 f1 s1 st = Inr (1, m1, st1)"
    and "find_free_hook st1 = Some j" and "hook_target addr True st1 = Inr (Inr (addr, g, base))" and "g \<noteq> 0"
    and "apiHookGenericCommon addr True n2 r2 f2 s2 st1 = Inr (1, m2, st2)"
    and "apiHookGenericDelete (int i) st2 = Inr st3" and "apiHookGenericDelete (int j) st3 = Inr st4"
  shows "mem_of st3 addr = mem_of st addr"
    and "mem_of st4 addr = jump_to (base + 4 * of_nat (i * 2))"
    and "\<And>c real args. length args = 6 \<Longrightarrow> apiHook_stub i c real args st4 = ((0, None), [], st4)"
proof -
  have i: "i < APIHOOK_MAXIDS" and j: "j < APIHOOK_MAXIDS" "\<not> hooked st1 j"
    using free_hook [OF assms(2)] free_hook [OF assms(6)] by auto
  have al: "addr AND 3 = 0"
    and st1: "st1 = with_word addr (jump_to (base + 4 * of_nat (i * 2))) (set_hook i (new_hook addr f True n1 r1 f1 s1) st)"
    using hook_made [OF assms(5)] assms(2,3) by (metis Inr_inject Pair_inject option.inject)+
  have st2: "st2 = with_word addr (jump_to (base + 4 * of_nat (j * 2))) (set_hook j (new_hook addr g True n2 r2 f2 s2) st1)"
    using hook_made [OF assms(9)] assms(6,7) by (metis Inr_inject Pair_inject option.inject)
  have z: "addr \<noteq> 0" and jf: "jump_to f = mem_of st addr" and jg: "jump_to g = mem_of st1 addr"
    using hook_target_restores [OF assms(3)] hook_target_restores [OF assms(7)] by auto
  have ij: "i \<noteq> j" using j(2) i assms(1,4) by (auto simp: st1 hooked_def new_hook_def)
  have st3: "st3 = set_hook i ((new_hook addr f True n1 r1 f1 s1)\<lparr>hk_func := 0\<rparr>) (with_word addr (jump_to f) st2)"
    using assms(10,1,4) i ij al z
    by (simp add: apiHookGenericDelete_def st2 st1 new_hook_def hook_write Let_def)
  have st4: "st4 = set_hook j ((new_hook addr g True n2 r2 f2 s2)\<lparr>hk_func := 0\<rparr>) (with_word addr (jump_to g) st3)"
    using assms(11,1,8) j ij al z
    by (simp add: apiHookGenericDelete_def st3 st2 st1 new_hook_def hook_write Let_def)
  show "mem_of st3 addr = mem_of st addr" by (simp add: st3 jf)
  show "mem_of st4 addr = jump_to (base + 4 * of_nat (i * 2))" by (simp add: st4 jg st1)
  have "\<not> hooked st4 i" using i j ij assms(1) by (simp add: st4 st3 st2 st1 hooked_def)
  then show "apiHook_stub i c real args st4 = ((0, None), [], st4)" if "length args = 6" for c real args
    using that i by (rule stub_free)
qed

end
