(* ===== verification/Config.thy ===== *)
theory Config
  imports Util
begin

unbundle bit_operations_syntax

text \<open>
  The configuration file of the PSP (\<^verbatim>\<open>psplink/config.c\<close>, \<^verbatim>\<open>psplinkcnf.c\<close>) and the list of modules to load
  (\<^verbatim>\<open>modload.c\<close>), with the buffered reading of lines both use (\<^verbatim>\<open>util.c\<close>). The file calls of the kernel
  are a parameter.
\<close>

section \<open>Reading a file\<close>

text \<open>
  The calls on files: a result below 0 is an error. \<open>io_read\<close> gives an error or the bytes read, which are as
  many as its result says.
\<close>

record 'w psp_io =
  io_open :: "string \<Rightarrow> u32 \<Rightarrow> 'w \<Rightarrow> int \<times> 'w"
  io_close :: "int \<Rightarrow> 'w \<Rightarrow> int \<times> 'w"
  io_read :: "int \<Rightarrow> nat \<Rightarrow> 'w \<Rightarrow> (int + string) \<times> 'w"
  io_write :: "int \<Rightarrow> string \<Rightarrow> 'w \<Rightarrow> int \<times> 'w"
  io_remove :: "string \<Rightarrow> 'w \<Rightarrow> int \<times> 'w"
  io_rename :: "string \<Rightarrow> string \<Rightarrow> 'w \<Rightarrow> int \<times> 'w"
  io_load_module :: "string \<Rightarrow> 'w \<Rightarrow> 'w"

definition MAX_BUFFER :: nat where "MAX_BUFFER = 4096"

record PspFile =
  pf_fd :: int
  pf_buf :: string
  pf_size :: nat
  pf_pos :: nat

definition openfile :: "'w psp_io \<Rightarrow> string \<Rightarrow> 'w \<Rightarrow> bool \<times> PspFile \<times> 'w" where
  "openfile io filename w = (case io_open io filename PSP_O_RDONLY w of (fd, w') \<Rightarrow>
     (fd \<ge> 0, \<lparr>pf_fd = fd, pf_buf = replicate MAX_BUFFER (CHR 0x00), pf_size = 0, pf_pos = 0\<rparr>, w'))"

definition closefile :: "'w psp_io \<Rightarrow> PspFile \<Rightarrow> 'w \<Rightarrow> bool \<times> 'w" where
  "closefile io f w = (if pf_fd f < 0 then (False, w) else (True, snd (io_close io (pf_fd f) w)))"

text \<open>
  The buffer is filled when nothing has been read yet, never again. A byte is a signed \<^verbatim>\<open>char\<close>, so the byte
  \<^verbatim>\<open>0xFF\<close> reads as the end of the file.
\<close>

definition fill_buffer :: "'w psp_io \<Rightarrow> PspFile \<Rightarrow> 'w \<Rightarrow> PspFile \<times> 'w" where
  "fill_buffer io f w =
     (if pf_size f = 0 then
        (case io_read io (pf_fd f) MAX_BUFFER w of
           (Inl e, w') \<Rightarrow> (f\<lparr>pf_size := 0, pf_pos := 0\<rparr>, w')
         | (Inr d, w') \<Rightarrow> (let bs = take MAX_BUFFER d in
             (f\<lparr>pf_buf := bs @ drop (length bs) (pf_buf f), pf_size := length bs, pf_pos := 0\<rparr>, w')))
      else (f, w))"

definition fdgetc :: "'w psp_io \<Rightarrow> PspFile \<Rightarrow> 'w \<Rightarrow> int \<times> PspFile \<times> 'w" where
  "fdgetc io f w =
     (case fill_buffer io f w of (f', w') \<Rightarrow>
        if pf_pos f' < pf_size f'
        then (sint (byte_of (pf_buf f' ! pf_pos f')), f'\<lparr>pf_pos := pf_pos f' + 1\<rparr>, w')
        else (- 1, f', w'))"

text \<open>The characters stored by a loop with room for \<open>n\<close> more.\<close>

fun fdgets_loop :: "'w psp_io \<Rightarrow> nat \<Rightarrow> PspFile \<Rightarrow> 'w \<Rightarrow> string \<times> PspFile \<times> 'w" where
  "fdgets_loop io 0 f w = ([], f, w)"
| "fdgets_loop io (Suc n) f w =
     (case fdgetc io f w of (ch, f', w') \<Rightarrow>
        if ch = - 1 then ([], f', w')
        else (let c = chr_of (word_of_int ch) in
          if c = CHR 0x0A then ([c], f', w')
          else (case fdgets_loop io n f' w' of (s, r) \<Rightarrow> (c # s, r))))"

definition fdgets :: "'w psp_io \<Rightarrow> PspFile \<Rightarrow> nat \<Rightarrow> 'w \<Rightarrow> string \<times> PspFile \<times> 'w" where
  "fdgets io f mx w = fdgets_loop io (mx - 1) f w"

text \<open>The characters a file can still give.\<close>

definition file_left :: "PspFile \<Rightarrow> nat" where
  "file_left f = (if pf_size f = 0 then MAX_BUFFER + 1 else pf_size f - pf_pos f)"

lemma fdgetc_left:
  "fdgetc io f w = (ch, f', w') \<Longrightarrow> file_left f' \<le> file_left f \<and> (ch \<noteq> - 1 \<longrightarrow> file_left f' < file_left f)"
  by (auto simp: fdgetc_def fill_buffer_def file_left_def Let_def MAX_BUFFER_def min_def split: if_splits prod.splits sum.splits)

lemma fdgets_loop_left:
  "fdgets_loop io n f w = (s, f', w') \<Longrightarrow> file_left f' \<le> file_left f \<and> (s \<noteq> [] \<longrightarrow> file_left f' < file_left f)"
proof (induction n arbitrary: f w s f' w')
  case (Suc n)
  obtain ch f1 w1 where c: "fdgetc io f w = (ch, f1, w1)" by (cases "fdgetc io f w") auto
  obtain s2 f2 w2 where r: "fdgets_loop io n f1 w1 = (s2, f2, w2)" by (cases "fdgets_loop io n f1 w1") auto
  show ?case using Suc.prems Suc.IH [OF r] fdgetc_left [OF c] c r
    by (auto simp: Let_def split: if_splits)
qed simp

lemma fdgets_left:
  "fdgets io f mx w = (s, f', w') \<Longrightarrow> s \<noteq> [] \<Longrightarrow> file_left f' < file_left f"
  using fdgets_loop_left [of io "mx - 1" f w s f' w'] by (simp add: fdgets_def)

section \<open>Entries\<close>

record ConfigFile =
  cf_file :: PspFile
  cf_line :: nat

definition psplinkConfigOpen :: "'w psp_io \<Rightarrow> string \<Rightarrow> 'w \<Rightarrow> bool \<times> ConfigFile \<times> 'w" where
  "psplinkConfigOpen io filename w =
     (case openfile io filename w of (ok, f, w') \<Rightarrow> (ok, \<lparr>cf_file = f, cf_line = 0\<rparr>, w'))"

definition psplinkConfigClose :: "'w psp_io \<Rightarrow> ConfigFile \<Rightarrow> 'w \<Rightarrow> 'w" where
  "psplinkConfigClose io cnf w = snd (closefile io (cf_file cnf) w)"

text \<open>The entry in the line just read, \<open>None\<close> when the loop goes on to the next.\<close>

definition line_entry :: "string \<Rightarrow> (string \<times> string) option" where
  "line_entry buf =
     (let s = strip_whitesp (str_of buf) in
      if s = [] \<or> hd s = CHR ''#'' then None
      else (case strchr s (CHR ''='') of
              None \<Rightarrow> None
            | Some (name, v) \<Rightarrow>
                if v \<noteq> [] \<and> hd v = CHR 0x22 then
                  (case strchr (tl v) (CHR 0x22) of None \<Rightarrow> None | Some (q, r) \<Rightarrow> Some (name, q))
                else Some (name, v)))"

function psplinkConfigReadNext ::
  "'w psp_io \<Rightarrow> ConfigFile \<Rightarrow> 'w \<Rightarrow> (string \<times> string) option \<times> ConfigFile \<times> 'w" where
  "psplinkConfigReadNext io cnf w =
     (case fdgets io (cf_file cnf) MAX_BUFFER w of (buf, f, w') \<Rightarrow>
        if buf = [] then (None, cnf\<lparr>cf_file := f\<rparr>, w')
        else (let cnf' = cnf\<lparr>cf_file := f, cf_line := cf_line cnf + 1\<rparr> in
          case line_entry buf of
            Some e \<Rightarrow> (Some e, cnf', w')
          | None \<Rightarrow> psplinkConfigReadNext io cnf' w'))"
  by pat_completeness auto

termination
  by (relation "measure (\<lambda>(io, cnf, w). file_left (cf_file cnf))") (auto dest: fdgets_left [OF sym])

declare psplinkConfigReadNext.simps [simp del]

lemma config_read_left:
  "psplinkConfigReadNext io cnf w = (Some e, cnf', w') \<Longrightarrow> file_left (cf_file cnf') < file_left (cf_file cnf)"
proof (induction io cnf w arbitrary: cnf' w' rule: psplinkConfigReadNext.induct)
  case (1 io cnf w)
  obtain buf f w1 where g: "fdgets io (cf_file cnf) MAX_BUFFER w = (buf, f, w1)"
    by (cases "fdgets io (cf_file cnf) MAX_BUFFER w") auto
  have b: "buf \<noteq> []" using 1(2) g by (subst (asm) psplinkConfigReadNext.simps) auto
  have l: "file_left f < file_left (cf_file cnf)" by (rule fdgets_left [OF g b])
  show ?case
  proof (cases "line_entry buf")
    case (Some x)
    then show ?thesis using 1(2) g b l by (subst (asm) psplinkConfigReadNext.simps) (auto simp: Let_def)
  next
    case None
    let ?c = "cnf\<lparr>cf_file := f, cf_line := cf_line cnf + 1\<rparr>"
    have "psplinkConfigReadNext io ?c w1 = (Some e, cnf', w')"
      using 1(2) g b None by (subst (asm) psplinkConfigReadNext.simps) (auto simp: Let_def)
    then have "file_left (cf_file cnf') < file_left (cf_file ?c)"
      using 1(1) [OF g [symmetric] refl b refl None] by blast
    then show ?thesis using l by simp
  qed
qed

text \<open>\<^verbatim>\<open>while((val = psplinkConfigReadNext(&cnf, &name)))\<close> with its body.\<close>

function config_loop ::
  "'w psp_io \<Rightarrow> (nat \<Rightarrow> string \<Rightarrow> string \<Rightarrow> 's \<Rightarrow> 'w \<Rightarrow> 's \<times> 'w) \<Rightarrow> 's \<Rightarrow> ConfigFile \<Rightarrow> 'w \<Rightarrow> 's \<times> ConfigFile \<times> 'w" where
  "config_loop io body s cnf w =
     (case psplinkConfigReadNext io cnf w of
        (None, cnf', w') \<Rightarrow> (s, cnf', w')
      | (Some (name, val), cnf', w') \<Rightarrow>
          (case body (cf_line cnf') name val s w' of (s', w'') \<Rightarrow> config_loop io body s' cnf' w''))"
  by pat_completeness auto

termination
  by (relation "measure (\<lambda>(io, body, s, cnf, w). file_left (cf_file cnf))") (auto dest: config_read_left [OF sym])

declare config_loop.simps [simp del]

section \<open>Loading\<close>

record ConfigContext =
  enableuser :: int
  resetonexit :: int
  pid :: int

text \<open>The table of names with their handlers; every value is a number.\<close>

definition config_names :: "(string \<times> (u32 \<Rightarrow> ConfigContext \<Rightarrow> ConfigContext)) list" where
  "config_names =
    [(''pluser'', \<lambda>v ctx. ctx\<lparr>enableuser := sint v\<rparr>),
     (''resetonexit'', \<lambda>v ctx. ctx\<lparr>resetonexit := sint v\<rparr>),
     (''pid'', \<lambda>v ctx. ctx\<lparr>pid := sint v\<rparr>)]"

text \<open>The loop over the table, which a value that is no number ends.\<close>

fun apply_config :: "(string \<times> (u32 \<Rightarrow> ConfigContext \<Rightarrow> ConfigContext)) list \<Rightarrow> string \<Rightarrow> string \<Rightarrow>
    ConfigContext \<Rightarrow> ConfigContext" where
  "apply_config [] name val ctx = ctx"
| "apply_config ((n, h) # es) name val ctx =
     (if n = name then
        (case strtoul 32 0 val of (i, endp) \<Rightarrow>
           if endp \<noteq> [] then ctx else apply_config es name val (h (of_nat i) ctx))
      else apply_config es name val ctx)"

definition CNF_PATH :: nat where "CNF_PATH = 256"

text \<open>\<^verbatim>\<open>strcpy\<close> and \<^verbatim>\<open>strcat\<close> into an array of 256 characters.\<close>

definition cnf_path :: "string \<Rightarrow> string \<Rightarrow> string run" where
  "cnf_path bootpath file =
     (if length bootpath + length file < CNF_PATH then Inr (bootpath @ file) else Inl Buffer_Overflow)"

definition configLoad :: "'w psp_io \<Rightarrow> string \<Rightarrow> 'w \<Rightarrow> (ConfigContext \<times> 'w) run" where
  "configLoad io bootpath w =
     (let ctx = \<lparr>enableuser = 0, resetonexit = 0, pid = 0\<rparr> in
      map_sum (\<lambda>f. f) (\<lambda>path.
        case psplinkConfigOpen io path w of (ok, cnf, w1) \<Rightarrow>
          if \<not> ok then (ctx, w1)
          else (case config_loop io (\<lambda>l name val ctx w. (apply_config config_names name val ctx, w)) ctx cnf w1 of
                  (ctx', cnf', w2) \<Rightarrow> (ctx', psplinkConfigClose io cnf' w2)))
        (cnf_path bootpath ''psplink.ini''))"

definition configPrint :: "'w psp_io \<Rightarrow> string \<Rightarrow> 'w \<Rightarrow> (string list \<times> 'w) run" where
  "configPrint io bootpath w =
     map_sum (\<lambda>f. f) (\<lambda>path.
        case psplinkConfigOpen io path w of (ok, cnf, w1) \<Rightarrow>
          (let out = [''Config Path '' @ path @ [CHR 0x0A]] in
           if \<not> ok then (out, w1)
           else (case config_loop io (\<lambda>l name val out w. (out @ [name @ ''='' @ val @ [CHR 0x0A]], w)) out cnf w1 of
                  (out', cnf', w2) \<Rightarrow> (out', psplinkConfigClose io cnf' w2))))
        (cnf_path bootpath ''psplink.ini'')"

section \<open>Changing\<close>

definition CONFIG_MODE_ADD :: int where "CONFIG_MODE_ADD = 1"
definition CONFIG_MODE_DEL :: int where "CONFIG_MODE_DEL = 2"

text \<open>\<^verbatim>\<open>fdprintf (fd, "%s=\"%s\"\n", name, val)\<close>\<close>

definition config_text :: "string \<Rightarrow> string \<Rightarrow> string" where
  "config_text name val = name @ ''='' @ [CHR 0x22] @ val @ [CHR 0x22, CHR 0x0A]"

definition write_entry :: "'w psp_io \<Rightarrow> int \<Rightarrow> string \<Rightarrow> string \<Rightarrow> 'w \<Rightarrow> 'w" where
  "write_entry io fd name val w = snd (io_write io fd (config_text name val) w)"

definition change_entry ::
  "'w psp_io \<Rightarrow> int \<Rightarrow> string \<Rightarrow> string \<Rightarrow> int \<Rightarrow> nat \<Rightarrow> string \<Rightarrow> string \<Rightarrow> bool \<Rightarrow> 'w \<Rightarrow> bool \<times> 'w" where
  "change_entry io fd newname newval mode l name val found w =
     (if name = newname then
        (if mode = CONFIG_MODE_ADD then (True, write_entry io fd newname newval w) else (found, w))
      else (found, write_entry io fd name val w))"

text \<open>Replacing the old file by the new one.\<close>

definition replace_file :: "'w psp_io \<Rightarrow> string \<Rightarrow> string \<Rightarrow> 'w \<Rightarrow> string list \<times> 'w" where
  "replace_file io new old w =
     (case io_remove io old w of (r, w1) \<Rightarrow>
        if r < 0 then ([''Error deleting original configuration''], w1)
        else (case io_rename io new old w1 of (r2, w2) \<Rightarrow>
          (if r2 < 0 then [''Error renaming configuration''] else [], w2)))"

definition rewrite_config ::
  "'w psp_io \<Rightarrow> int \<Rightarrow> string \<Rightarrow> string \<Rightarrow> string \<Rightarrow> string \<Rightarrow> int \<Rightarrow> ConfigFile \<Rightarrow> 'w \<Rightarrow> string list \<times> 'w" where
  "rewrite_config io fd new old newname newval mode cnf w =
     (case config_loop io (change_entry io fd newname newval mode) False cnf w of (found, cnf', w1) \<Rightarrow>
       (let w2 = (if mode = CONFIG_MODE_ADD \<and> \<not> found then write_entry io fd newname newval w1 else w1);
            w3 = snd (io_close io fd w2);
            w4 = psplinkConfigClose io cnf' w3
        in replace_file io new old w4))"

definition configChange ::
  "'w psp_io \<Rightarrow> string \<Rightarrow> string \<Rightarrow> string \<Rightarrow> int \<Rightarrow> 'w \<Rightarrow> (string list \<times> 'w) run" where
  "configChange io bootpath newname newval mode w =
     (if mode \<noteq> CONFIG_MODE_ADD \<and> mode \<noteq> CONFIG_MODE_DEL then Inr ([], w)
      else (case cnf_path bootpath ''psplink.ini'' of
        Inl f \<Rightarrow> Inl f
      | Inr old \<Rightarrow> map_sum (\<lambda>f. f) (\<lambda>new.
          (case io_open io new (PSP_O_WRONLY OR PSP_O_TRUNC OR PSP_O_CREAT) w of (fd, w1) \<Rightarrow>
            if fd < 0 then ([''Config Path '' @ old], w1)
            else (case psplinkConfigOpen io old w1 of (ok, cnf, w2) \<Rightarrow>
              if ok then
                (case rewrite_config io fd new old newname newval mode cnf w2 of (out, w3) \<Rightarrow>
                  ((''Config Path '' @ old) # out, w3))
              else ([''Config Path '' @ old, ''Couldn't open temporary config file '' @ new],
                    snd (io_remove io new (snd (io_close io fd w2)))))))
          (cnf_path bootpath ''psplink.ini.tmp'')))"

section \<open>Modules to load\<close>

function modload_loop :: "'w psp_io \<Rightarrow> PspFile \<Rightarrow> 'w \<Rightarrow> PspFile \<times> 'w" where
  "modload_loop io f w =
     (case fdgets io f 1024 w of (buf, f', w') \<Rightarrow>
        if buf = [] then (f', w')
        else (let s = strip_whitesp (str_of buf) in
          modload_loop io f' (if s = [] then w' else io_load_module io s w')))"
  by pat_completeness auto

termination
  by (relation "measure (\<lambda>(io, f, w). file_left f)") (auto dest: fdgets_left [OF sym])

declare modload_loop.simps [simp del]

text \<open>\<^verbatim>\<open>load_start_module\<close> without arguments is \<open>io_load_module\<close>.\<close>

definition modLoad :: "'w psp_io \<Rightarrow> string \<Rightarrow> 'w \<Rightarrow> 'w run" where
  "modLoad io bootpath w =
     (if length bootpath + 11 \<ge> 1024 then Inl Buffer_Overflow
      else Inr (case openfile io (bootpath @ ''modload.ini'') w of (ok, f, w1) \<Rightarrow>
        if \<not> ok then w1
        else (case modload_loop io f w1 of (f', w2) \<Rightarrow> snd (closefile io f' w2))))"

end
