(* ===== verification/ConfigProps.thy ===== *)
theory ConfigProps
  imports Config
begin

unbundle bit_operations_syntax

text \<open>
  What the configuration file means: its entries, as a function of its text; changing an entry and loading the
  result; and what is lost of a file longer than the buffer.
\<close>

section \<open>Files\<close>

text \<open>
  The file calls at work: \<open>files\<close> is the text of each file, \<open>fds\<close> the path and the position of each open
  descriptor. A descriptor of a new open is not in use; a read gives what there is, up to the size asked for; a
  write at the end of a file appends.
\<close>

definition file_calls ::
  "'w psp_io \<Rightarrow> ('w \<Rightarrow> string \<Rightarrow> string option) \<Rightarrow> ('w \<Rightarrow> int \<Rightarrow> (string \<times> nat) option) \<Rightarrow> bool" where
  "file_calls io files fds \<longleftrightarrow>
     (\<forall>w p t. files w p = Some t \<longrightarrow> (\<exists>fd w'. io_open io p PSP_O_RDONLY w = (fd, w') \<and> fd \<ge> 0
        \<and> fds w fd = None \<and> files w' = files w \<and> fds w' = (fds w)(fd \<mapsto> (p, 0))))
   \<and> (\<forall>w p. \<exists>fd w'. io_open io p (PSP_O_WRONLY OR PSP_O_TRUNC OR PSP_O_CREAT) w = (fd, w') \<and> fd \<ge> 0
        \<and> fds w fd = None \<and> files w' = (files w)(p \<mapsto> []) \<and> fds w' = (fds w)(fd \<mapsto> (p, 0)))
   \<and> (\<forall>w fd p k t n. fds w fd = Some (p, k) \<longrightarrow> files w p = Some t \<longrightarrow>
        (\<exists>w'. io_read io fd n w = (Inr (take n (drop k t)), w') \<and> files w' = files w
          \<and> fds w' = (fds w)(fd \<mapsto> (p, k + length (take n (drop k t))))))
   \<and> (\<forall>w fd p t s. fds w fd = Some (p, length t) \<longrightarrow> files w p = Some t \<longrightarrow>
        files (snd (io_write io fd s w)) = (files w)(p \<mapsto> t @ s)
        \<and> fds (snd (io_write io fd s w)) = (fds w)(fd \<mapsto> (p, length (t @ s))))
   \<and> (\<forall>w fd. fds w fd \<noteq> None \<longrightarrow> files (snd (io_close io fd w)) = files w
        \<and> fds (snd (io_close io fd w)) = (fds w)(fd := None))
   \<and> (\<forall>w p. files w p \<noteq> None \<longrightarrow> (\<exists>r w'. io_remove io p w = (r, w') \<and> r \<ge> 0
        \<and> files w' = (files w)(p := None) \<and> fds w' = fds w))
   \<and> (\<forall>w p q t. files w p = Some t \<longrightarrow> files w q = None \<longrightarrow> (\<exists>r w'. io_rename io p q w = (r, w') \<and> r \<ge> 0
        \<and> files w' = (files w)(p := None, q \<mapsto> t) \<and> fds w' = fds w))"

text \<open>The laws one by one.\<close>

lemmas file_laws = file_calls_def [THEN iffD1]
lemmas open_existing_law = file_laws [THEN conjunct1]
lemmas open_new_law = file_laws [THEN conjunct2, THEN conjunct1]
lemmas read_call_law = file_laws [THEN conjunct2, THEN conjunct2, THEN conjunct1]
lemmas write_call_law = file_laws [THEN conjunct2, THEN conjunct2, THEN conjunct2, THEN conjunct1]
lemmas close_call_law = file_laws [THEN conjunct2, THEN conjunct2, THEN conjunct2, THEN conjunct2, THEN conjunct1]
lemmas remove_call_law = file_laws [THEN conjunct2, THEN conjunct2, THEN conjunct2, THEN conjunct2, THEN conjunct2, THEN conjunct1]
lemmas rename_call_law = file_laws [THEN conjunct2, THEN conjunct2, THEN conjunct2, THEN conjunct2, THEN conjunct2, THEN conjunct2]

lemma open_existing:
  assumes "file_calls io files fds" and "files w p = Some t"
  obtains fd w' where "io_open io p PSP_O_RDONLY w = (fd, w')" and "fd \<ge> 0" and "fds w fd = None"
    and "files w' = files w" and "fds w' = (fds w)(fd \<mapsto> (p, 0))"
  using open_existing_law [OF assms(1)] assms(2-) by blast

lemma open_new:
  assumes "file_calls io files fds"
  obtains fd w' where "io_open io p (PSP_O_WRONLY OR PSP_O_TRUNC OR PSP_O_CREAT) w = (fd, w')" and "fd \<ge> 0"
    and "fds w fd = None" and "files w' = (files w)(p \<mapsto> [])" and "fds w' = (fds w)(fd \<mapsto> (p, 0))"
  using open_new_law [OF assms(1)] by blast

lemma read_call:
  assumes "file_calls io files fds" and "fds w fd = Some (p, k)" and "files w p = Some t"
  obtains w' where "io_read io fd n w = (Inr (take n (drop k t)), w')" and "files w' = files w"
    and "fds w' = (fds w)(fd \<mapsto> (p, k + length (take n (drop k t))))"
  using read_call_law [OF assms(1)] assms(2-) by blast

lemma write_call:
  "file_calls io files fds \<Longrightarrow> fds w fd = Some (p, length t) \<Longrightarrow> files w p = Some t \<Longrightarrow>
     files (snd (io_write io fd s w)) = (files w)(p \<mapsto> t @ s)
     \<and> fds (snd (io_write io fd s w)) = (fds w)(fd \<mapsto> (p, length (t @ s)))"
  using write_call_law by blast

lemma close_call:
  "file_calls io files fds \<Longrightarrow> fds w fd \<noteq> None \<Longrightarrow>
     files (snd (io_close io fd w)) = files w \<and> fds (snd (io_close io fd w)) = (fds w)(fd := None)"
  using close_call_law by blast

lemma remove_call:
  assumes "file_calls io files fds" and "files w p \<noteq> None"
  obtains r w' where "io_remove io p w = (r, w')" and "r \<ge> 0" and "files w' = (files w)(p := None)" and "fds w' = fds w"
  using remove_call_law [OF assms(1)] assms(2-) by blast

lemma rename_call:
  assumes "file_calls io files fds" and "files w p = Some t" and "files w q = None"
  obtains r w' where "io_rename io p q w = (r, w')" and "r \<ge> 0" and "files w' = (files w)(p := None, q \<mapsto> t)"
    and "fds w' = fds w"
  using rename_call_law [OF assms(1)] assms(2-) by blast

section \<open>The reader\<close>

text \<open>The text a reader has not given yet.\<close>

definition reader_at ::
  "('w \<Rightarrow> string \<Rightarrow> string option) \<Rightarrow> ('w \<Rightarrow> int \<Rightarrow> (string \<times> nat) option) \<Rightarrow> string \<Rightarrow> PspFile \<Rightarrow> 'w \<Rightarrow> string \<Rightarrow> bool"
  where
  "reader_at files fds p f w r \<longleftrightarrow>
     (if pf_size f = 0 then (\<exists>t. files w p = Some t \<and> fds w (pf_fd f) = Some (p, 0) \<and> r = take MAX_BUFFER t)
      else fds w (pf_fd f) \<noteq> None \<and> pf_pos f \<le> pf_size f \<and> pf_size f \<le> length (pf_buf f)
        \<and> r = drop (pf_pos f) (take (pf_size f) (pf_buf f)))"

text \<open>Nothing but the position of the reader's own descriptor has changed.\<close>

definition only_reads ::
  "('w \<Rightarrow> string \<Rightarrow> string option) \<Rightarrow> ('w \<Rightarrow> int \<Rightarrow> (string \<times> nat) option) \<Rightarrow> int \<Rightarrow> 'w \<Rightarrow> 'w \<Rightarrow> bool" where
  "only_reads files fds fd w w' \<longleftrightarrow> files w' = files w \<and> (\<forall>g. g \<noteq> fd \<longrightarrow> fds w' g = fds w g)"

lemma only_reads_trans [trans]:
  "only_reads files fds fd w w1 \<Longrightarrow> only_reads files fds fd w1 w2 \<Longrightarrow> only_reads files fds fd w w2"
  by (simp add: only_reads_def)

lemma only_reads_refl [simp]: "only_reads files fds fd w w"
  by (simp add: only_reads_def)

lemma fill_buffer_reader:
  assumes "file_calls io files fds" and "reader_at files fds p f w r"
  obtains f' w' where "fill_buffer io f w = (f', w')" and "reader_at files fds p f' w' r"
    and "pf_fd f' = pf_fd f" and "only_reads files fds (pf_fd f) w w'"
    and "pf_size f' = 0 \<longrightarrow> r = []" and "pf_size f' = 0 \<longrightarrow> pf_pos f' = 0"
proof (cases "pf_size f = 0")
  case False
  then show thesis using assms(2) by (intro that [of f w]) (simp_all add: fill_buffer_def)
next
  case True
  then obtain t where t: "files w p = Some t" "fds w (pf_fd f) = Some (p, 0)" "r = take MAX_BUFFER t"
    using assms(2) by (auto simp: reader_at_def)
  obtain w' where r: "io_read io (pf_fd f) MAX_BUFFER w = (Inr (take MAX_BUFFER (drop 0 t)), w')"
    "files w' = files w" "fds w' = (fds w)(pf_fd f \<mapsto> (p, 0 + length (take MAX_BUFFER (drop 0 t))))"
    using read_call [OF assms(1) t(2,1)] by metis
  show thesis
    using True t r
    by (intro that [of "f\<lparr>pf_buf := take MAX_BUFFER t @ drop (length (take MAX_BUFFER t)) (pf_buf f),
          pf_size := length (take MAX_BUFFER t), pf_pos := 0\<rparr>" w'])
      (auto simp: fill_buffer_def reader_at_def only_reads_def Let_def MAX_BUFFER_def min_def)
qed

lemma fdgetc_reader:
  assumes "file_calls io files fds" and "reader_at files fds p f w r"
  obtains f' w' where
    "fdgetc io f w = (case r of [] \<Rightarrow> - 1 | c # cs \<Rightarrow> sint (byte_of c), f', w')"
    and "reader_at files fds p f' w' (tl r)" and "pf_fd f' = pf_fd f" and "only_reads files fds (pf_fd f) w w'"
proof -
  obtain f1 w1 where f: "fill_buffer io f w = (f1, w1)" "reader_at files fds p f1 w1 r" "pf_fd f1 = pf_fd f"
    "only_reads files fds (pf_fd f) w w1" "pf_size f1 = 0 \<longrightarrow> r = []" "pf_size f1 = 0 \<longrightarrow> pf_pos f1 = 0"
    by (rule fill_buffer_reader [OF assms])
  show thesis
  proof (cases r)
    case Nil
    then have "\<not> pf_pos f1 < pf_size f1" using f(2,6) by (auto simp: reader_at_def split: if_splits)
    then show thesis using Nil f by (intro that [of f1 w1]) (auto simp: fdgetc_def)
  next
    case (Cons c cs)
    then have s: "pf_size f1 \<noteq> 0" using f(5) by auto
    then have d: "drop (pf_pos f1) (take (pf_size f1) (pf_buf f1)) = c # cs" and l: "pf_size f1 \<le> length (pf_buf f1)"
      using f(2) Cons by (auto simp: reader_at_def)
    have p: "pf_pos f1 < pf_size f1"
      using d by (metis drop_all leI length_take list.distinct(1) min.absorb2 l)
    then have c: "c = pf_buf f1 ! pf_pos f1" and cs: "cs = drop (pf_pos f1 + 1) (take (pf_size f1) (pf_buf f1))"
      using d l by (simp_all add: Cons_nth_drop_Suc [symmetric])
    show thesis
    proof (rule that [of "f1\<lparr>pf_pos := pf_pos f1 + 1\<rparr>" w1])
      show "fdgetc io f w = (case r of [] \<Rightarrow> - 1 | c # cs \<Rightarrow> sint (byte_of c), f1\<lparr>pf_pos := pf_pos f1 + 1\<rparr>, w1)"
        using p c f(1) by (simp add: fdgetc_def Cons)
      show "reader_at files fds p (f1\<lparr>pf_pos := pf_pos f1 + 1\<rparr>) w1 (tl r)"
        using p s cs f(2) unfolding reader_at_def Cons list.sel by simp
    qed (use f(3,4) in simp_all)
  qed
qed

text \<open>The next line of a text, of at most \<open>n\<close> characters, and what follows it.\<close>

fun next_line :: "nat \<Rightarrow> string \<Rightarrow> string \<times> string" where
  "next_line 0 r = ([], r)"
| "next_line (Suc n) [] = ([], [])"
| "next_line (Suc n) (c # r) =
     (if c = CHR 0x0A then ([c], r) else (case next_line n r of (s, r') \<Rightarrow> (c # s, r')))"

text \<open>No byte of the text is \<^verbatim>\<open>0xFF\<close>.\<close>

definition no_ff :: "string \<Rightarrow> bool" where
  "no_ff s \<longleftrightarrow> CHR 0xFF \<notin> set s"

lemma sint_byte_eq: "sint (byte_of c) = - 1 \<longleftrightarrow> c = CHR 0xFF"
proof
  assume "sint (byte_of c) = - 1"
  then have "byte_of c = - 1" by (metis signed_minus_1 signed_word_eqI)
  moreover have "byte_of (CHR 0xFF) = - 1" by (simp add: byte_of_def)
  ultimately show "c = CHR 0xFF" using byte_of_inj by metis
qed (simp add: byte_of_def)

lemma next_line_append: "next_line n r = (s, r') \<Longrightarrow> s @ r' = r"
  by (induction n r arbitrary: s r' rule: next_line.induct) (auto split: if_splits prod.splits)

lemma fdgets_loop_reader:
  assumes "file_calls io files fds" and "reader_at files fds p f w r" and "no_ff r"
  shows "\<exists>f' w'. fdgets_loop io n f w = (fst (next_line n r), f', w') \<and> reader_at files fds p f' w' (snd (next_line n r))
    \<and> pf_fd f' = pf_fd f \<and> only_reads files fds (pf_fd f) w w'"
  using assms(2,3)
proof (induction n r arbitrary: f w rule: next_line.induct)
  case (1 r)
  then show ?case by (auto intro!: exI [of _ f] exI [of _ w])
next
  case (2 n)
  obtain f' w' where "fdgetc io f w = (- 1, f', w')" "reader_at files fds p f' w' []" "pf_fd f' = pf_fd f"
    "only_reads files fds (pf_fd f) w w'"
    using fdgetc_reader [OF assms(1) 2(1)] by auto
  then show ?case by auto
next
  case (3 n c r)
  obtain f' w' where g: "fdgetc io f w = (sint (byte_of c), f', w')" "reader_at files fds p f' w' r" "pf_fd f' = pf_fd f"
    "only_reads files fds (pf_fd f) w w'"
    using fdgetc_reader [OF assms(1) 3(2)] by auto
  have c: "sint (byte_of c) \<noteq> - 1" using 3(3) by (auto simp: sint_byte_eq no_ff_def)
  show ?case
  proof (cases "c = CHR 0x0A")
    case True
    then show ?thesis using g c by auto
  next
    case False
    have "no_ff r" using 3(3) by (simp add: no_ff_def)
    then obtain f2 w2 where "fdgets_loop io n f' w' = (fst (next_line n r), f2, w2)"
      "reader_at files fds p f2 w2 (snd (next_line n r))" "pf_fd f2 = pf_fd f'" "only_reads files fds (pf_fd f') w' w2"
      using 3(1) [OF False g(2)] by blast
    then show ?thesis using g c False by (auto split: prod.splits intro: only_reads_trans)
  qed
qed

section \<open>The entries of a text\<close>

lemma next_line_shorter:
  assumes "next_line n r = (s, r')" and "r \<noteq> []" and "0 < n"
  shows "s \<noteq> [] \<and> length r' < length r"
proof -
  have "s \<noteq> []" using assms by (cases n; cases r) (auto split: if_splits prod.splits)
  then show ?thesis using next_line_append [OF assms(1)] by auto
qed

function text_entries :: "string \<Rightarrow> (string \<times> string) list" where
  "text_entries r =
     (if r = [] then []
      else (case next_line (MAX_BUFFER - 1) r of (s, r') \<Rightarrow>
        (case line_entry s of None \<Rightarrow> text_entries r' | Some e \<Rightarrow> e # text_entries r')))"
  by pat_completeness auto

termination
  by (relation "measure length") (auto simp: MAX_BUFFER_def dest!: next_line_shorter [OF sym])

declare text_entries.simps [simp del]

lemma next_line_Nil: "next_line n r = ([], r') \<Longrightarrow> 0 < n \<Longrightarrow> r = [] \<and> r' = []"
  by (cases n; cases r) (auto split: if_splits prod.splits)

lemma no_ff_next: "no_ff r \<Longrightarrow> next_line n r = (s, r') \<Longrightarrow> no_ff r'"
  using next_line_append [of n r s r'] by (auto simp: no_ff_def)

lemma config_read_reader:
  assumes "file_calls io files fds" and "reader_at files fds p (cf_file cnf) w r" and "no_ff r"
  shows "\<exists>cnf' w' r'. psplinkConfigReadNext io cnf w =
      (if text_entries r = [] then None else Some (hd (text_entries r)), cnf', w')
    \<and> reader_at files fds p (cf_file cnf') w' r' \<and> no_ff r' \<and> text_entries r' = tl (text_entries r)
    \<and> pf_fd (cf_file cnf') = pf_fd (cf_file cnf) \<and> only_reads files fds (pf_fd (cf_file cnf)) w w'"
  using assms(2,3)
proof (induction r arbitrary: cnf w rule: text_entries.induct)
  case (1 r)
  obtain s r' where n: "next_line (MAX_BUFFER - 1) r = (s, r')" by (cases "next_line (MAX_BUFFER - 1) r")
  obtain f w1 where g: "fdgets_loop io (MAX_BUFFER - 1) (cf_file cnf) w = (s, f, w1)" "reader_at files fds p f w1 r'"
    "pf_fd f = pf_fd (cf_file cnf)" "only_reads files fds (pf_fd (cf_file cnf)) w w1"
    using fdgets_loop_reader [OF assms(1) 1(3,4), of "MAX_BUFFER - 1"] n by auto
  have ff: "no_ff r'" by (rule no_ff_next [OF 1(4) n])
  show ?case
  proof (cases "r = []")
    case True
    then have "s = []" "r' = []" using next_line_append [OF n] by auto
    then show ?thesis using True g ff
      by (subst psplinkConfigReadNext.simps)
        (auto simp: fdgets_def text_entries.simps intro!: exI [of _ "cnf\<lparr>cf_file := f\<rparr>"] exI [of _ w1] exI [of _ "[]"])
  next
    case False
    have s: "s \<noteq> []" using next_line_shorter [OF n False] by (simp add: MAX_BUFFER_def)
    let ?c = "cnf\<lparr>cf_file := f, cf_line := cf_line cnf + 1\<rparr>"
    show ?thesis
    proof (cases "line_entry s")
      case (Some e)
      then have "text_entries r = e # text_entries r'" using False n by (subst text_entries.simps) simp
      then show ?thesis using False g s ff Some
        by (subst psplinkConfigReadNext.simps)
          (auto simp: fdgets_def Let_def intro!: exI [of _ ?c] exI [of _ w1] exI [of _ r'])
    next
      case None
      then have t: "text_entries r = text_entries r'" using False n by (subst text_entries.simps) simp
      have "reader_at files fds p (cf_file ?c) w1 r'" using g(2) by simp
      then obtain cnf' w' r'' where ih: "psplinkConfigReadNext io ?c w1 =
          (if text_entries r' = [] then None else Some (hd (text_entries r')), cnf', w')"
        "reader_at files fds p (cf_file cnf') w' r''" "no_ff r''" "text_entries r'' = tl (text_entries r')"
        "pf_fd (cf_file cnf') = pf_fd f" "only_reads files fds (pf_fd f) w1 w'"
        using 1(1) [OF False n [symmetric] None, of ?c w1] ff by auto
      have "psplinkConfigReadNext io cnf w = psplinkConfigReadNext io ?c w1"
        using g s None by (subst psplinkConfigReadNext.simps) (simp add: fdgets_def Let_def)
      then show ?thesis using ih g t by (auto intro: only_reads_trans intro!: exI [of _ cnf'] exI [of _ w'] exI [of _ r''])
    qed
  qed
qed

lemma reader_at_cong:
  "reader_at files fds p f w r \<Longrightarrow> files w' p = files w p \<Longrightarrow> fds w' (pf_fd f) = fds w (pf_fd f) \<Longrightarrow>
     reader_at files fds p f w' r"
  by (simp add: reader_at_def)

lemma reader_open: "reader_at files fds p f w r \<Longrightarrow> fds w (pf_fd f) \<noteq> None"
  by (auto simp: reader_at_def split: if_splits)

text \<open>
  The loop over the entries. \<open>I es s w\<close>: the state after the entries \<open>es\<close>, which the body keeps, without
  touching the file and the descriptor it is read from.
\<close>

lemma config_loop_entries:
  assumes calls: "file_calls io files fds"
    and step: "\<And>es e l s w. I es s w \<Longrightarrow> (case body l (fst e) (snd e) s w of (s', w') \<Rightarrow>
          I (es @ [e]) s' w' \<and> files w' p = files w p \<and> fds w' fd = fds w fd)"
    and stable: "\<And>es s w w'. I es s w \<Longrightarrow> only_reads files fds fd w w' \<Longrightarrow> I es s w'"
    and start: "reader_at files fds p (cf_file cnf) w r" "no_ff r" "pf_fd (cf_file cnf) = fd" "I es s w"
  shows "\<exists>s' cnf' w'. config_loop io body s cnf w = (s', cnf', w') \<and> I (es @ text_entries r) s' w'
    \<and> pf_fd (cf_file cnf') = fd \<and> fds w' fd \<noteq> None"
  using start
proof (induction "text_entries r" arbitrary: r cnf w es s)
  case Nil
  then show ?case
    using config_read_reader [OF calls Nil(2,3)] stable [OF Nil(5)]
    by (subst config_loop.simps) (fastforce dest: reader_open)
next
  case (Cons e rest)
  have te: "text_entries r = e # rest" using Cons(2) by simp
  obtain cnf1 w1 r1 where n: "psplinkConfigReadNext io cnf w = (Some e, cnf1, w1)"
    "reader_at files fds p (cf_file cnf1) w1 r1" "no_ff r1" "text_entries r1 = rest"
    "pf_fd (cf_file cnf1) = fd" "only_reads files fds fd w w1"
    using config_read_reader [OF calls Cons(3,4)] unfolding te Cons(5) by (elim exE conjE) (rule that, simp_all)
  obtain s2 w2 where b: "body (cf_line cnf1) (fst e) (snd e) s w1 = (s2, w2)"
    by (cases "body (cf_line cnf1) (fst e) (snd e) s w1")
  have i: "I (es @ [e]) s2 w2" and same: "files w2 p = files w1 p" "fds w2 fd = fds w1 fd"
    using step [OF stable [OF Cons(6) n(6)], of e "cf_line cnf1"] b by auto
  have "reader_at files fds p (cf_file cnf1) w2 r1"
    by (rule reader_at_cong [OF n(2)]) (simp_all add: same n(5))
  then obtain s' cnf' w' where "config_loop io body s2 cnf1 w2 = (s', cnf', w')"
    "I ((es @ [e]) @ text_entries r1) s' w'" "pf_fd (cf_file cnf') = fd" "fds w' fd \<noteq> None"
    using Cons(1) [OF n(4) [symmetric] _ n(3,5) i] by blast
  moreover have "config_loop io body s cnf w = config_loop io body s2 cnf1 w2"
    using n(1) b by (subst config_loop.simps) (auto split: prod.splits)
  ultimately show ?case using Cons(2) n(4) by auto
qed

section \<open>Loading and changing\<close>

definition render :: "(string \<times> string) list \<Rightarrow> string" where
  "render es = concat (map (\<lambda>e. config_text (fst e) (snd e)) es)"

definition changed_entry :: "string \<Rightarrow> string \<Rightarrow> int \<Rightarrow> string \<times> string \<Rightarrow> (string \<times> string) list" where
  "changed_entry n v mode e =
     (if fst e = n then (if mode = CONFIG_MODE_ADD then [(n, v)] else []) else [e])"

text \<open>The entries with \<open>n\<close> set to \<open>v\<close>, or without \<open>n\<close>.\<close>

definition changed_entries :: "string \<Rightarrow> string \<Rightarrow> int \<Rightarrow> (string \<times> string) list \<Rightarrow> (string \<times> string) list" where
  "changed_entries n v mode es = concat (map (changed_entry n v mode) es) @
     (if mode = CONFIG_MODE_ADD \<and> n \<notin> fst ` set es then [(n, v)] else [])"

lemma render_append [simp]: "render (a @ b) = render a @ render b"
  by (simp add: render_def)

lemma open_reader:
  assumes "file_calls io files fds" and "files w p = Some t"
  obtains cnf w' where "psplinkConfigOpen io p w = (True, cnf, w')" and "files w' = files w"
    and "reader_at files fds p (cf_file cnf) w' (take MAX_BUFFER t)"
    and "fds w (pf_fd (cf_file cnf)) = None" and "\<forall>g. g \<noteq> pf_fd (cf_file cnf) \<longrightarrow> fds w' g = fds w g"
    and "pf_fd (cf_file cnf) \<ge> 0"
proof -
  obtain fd w' where o: "io_open io p PSP_O_RDONLY w = (fd, w')" "fd \<ge> 0" "fds w fd = None"
    "files w' = files w" "fds w' = (fds w)(fd \<mapsto> (p, 0))"
    by (rule open_existing [OF assms])
  let ?f = "\<lparr>pf_fd = fd, pf_buf = replicate MAX_BUFFER (CHR 0x00), pf_size = 0, pf_pos = 0\<rparr>"
  show thesis
  proof (rule that [of "\<lparr>cf_file = ?f, cf_line = 0\<rparr>" w'])
    show "psplinkConfigOpen io p w = (True, \<lparr>cf_file = ?f, cf_line = 0\<rparr>, w')"
      using o(1,2) by (simp add: psplinkConfigOpen_def openfile_def)
    show "reader_at files fds p (cf_file \<lparr>cf_file = ?f, cf_line = 0\<rparr>) w' (take MAX_BUFFER t)"
      using o(4,5) assms(2) unfolding reader_at_def by simp
  qed (use o(2-5) in simp_all)
qed

definition load_entries :: "(string \<times> string) list \<Rightarrow> ConfigContext" where
  "load_entries es = foldl (\<lambda>ctx e. apply_config config_names (fst e) (snd e) ctx)
     \<lparr>enableuser = 0, resetonexit = 0, pid = 0\<rparr> es"

lemma configLoad_entries:
  assumes calls: "file_calls io files fds"
    and path: "length bootpath + 11 < 256" and txt0: "files w (bootpath @ ''psplink.ini'') = Some t"
    and ff: "no_ff (take MAX_BUFFER t)"
  shows "\<exists>w'. configLoad io bootpath w = Inr (load_entries (text_entries (take MAX_BUFFER t)), w') \<and> files w' = files w"
proof -
  let ?p = "bootpath @ ''psplink.ini''" and ?r = "take MAX_BUFFER t"
  obtain cnf w1 where o: "psplinkConfigOpen io ?p w = (True, cnf, w1)" "files w1 = files w"
    "reader_at files fds ?p (cf_file cnf) w1 ?r" "fds w (pf_fd (cf_file cnf)) = None"
    "\<forall>g. g \<noteq> pf_fd (cf_file cnf) \<longrightarrow> fds w1 g = fds w g" "pf_fd (cf_file cnf) \<ge> 0"
    by (rule open_reader [OF calls, of w, OF txt0])
  let ?fd = "pf_fd (cf_file cnf)" and ?c0 = "\<lparr>enableuser = 0, resetonexit = 0, pid = 0\<rparr>"
  let ?body = "\<lambda>(l :: nat) name val ctx w. (apply_config config_names name val ctx, w)"
  let ?I = "\<lambda>es s w'. s = load_entries es \<and> files w' = files w1"
  have "\<exists>s' cnf' w'. config_loop io ?body ?c0 cnf w1 = (s', cnf', w') \<and> ?I ([] @ text_entries ?r) s' w'
    \<and> pf_fd (cf_file cnf') = ?fd \<and> fds w' ?fd \<noteq> None"
  proof (rule config_loop_entries [OF calls _ _ o(3) ff, where I = ?I and body = ?body and es = "[]" and s = ?c0])
    show "?I [] ?c0 w1" by (simp add: load_entries_def)
  qed (simp_all add: load_entries_def only_reads_def)
  then obtain cnf' w2 where l: "config_loop io ?body ?c0 cnf w1 = (load_entries (text_entries ?r), cnf', w2)"
    "files w2 = files w1" "pf_fd (cf_file cnf') = ?fd" "fds w2 ?fd \<noteq> None" by auto
  have "files (psplinkConfigClose io cnf' w2) = files w2"
    using close_call [OF calls l(4)] o(6) l(3) by (simp add: psplinkConfigClose_def closefile_def)
  then show ?thesis using path o l by (simp add: configLoad_def cnf_path_def CNF_PATH_def)
qed

text \<open>The loop of a change: what has been written to the new file.\<close>

definition change_state ::
  "('w \<Rightarrow> string \<Rightarrow> string option) \<Rightarrow> ('w \<Rightarrow> int \<Rightarrow> (string \<times> nat) option) \<Rightarrow> (string \<Rightarrow> string option) \<Rightarrow>
     string \<Rightarrow> int \<Rightarrow> string \<Rightarrow> string \<Rightarrow> int \<Rightarrow> (string \<times> string) list \<Rightarrow> bool \<Rightarrow> 'w \<Rightarrow> bool" where
  "change_state files fds old new fd n v mode es found w \<longleftrightarrow>
     (let out = render (concat (map (changed_entry n v mode) es)) in
      files w = old(new \<mapsto> out) \<and> fds w fd = Some (new, length out)
      \<and> found = (mode = CONFIG_MODE_ADD \<and> n \<in> fst ` set es))"

lemma change_state_step:
  assumes "file_calls io files fds" and "change_state files fds old new fd n v mode es found w"
    and "fd' \<noteq> fd" and "p \<noteq> new"
  shows "case change_entry io fd n v mode l (fst e) (snd e) found w of (s', w') \<Rightarrow>
     change_state files fds old new fd n v mode (es @ [e]) s' w' \<and> files w' p = files w p \<and> fds w' fd' = fds w fd'"
proof -
  let ?out = "render (concat (map (changed_entry n v mode) es))"
  have w: "files w = old(new \<mapsto> ?out)" "fds w fd = Some (new, length ?out)"
    "found = (mode = CONFIG_MODE_ADD \<and> n \<in> fst ` set es)"
    using assms(2) by (simp_all add: change_state_def Let_def)
  have wr: "files (snd (io_write io fd s w)) = old(new \<mapsto> ?out @ s)"
    "fds (snd (io_write io fd s w)) = (fds w)(fd \<mapsto> (new, length (?out @ s)))" for s
    using write_call [OF assms(1) w(2)] w(1) by simp_all
  show ?thesis
    using wr w assms(3,4)
    by (cases "fst e = n"; cases "mode = CONFIG_MODE_ADD")
      (auto simp: change_entry_def change_state_def write_entry_def changed_entry_def render_def)
qed

lemma configChange_entries:
  assumes calls: "file_calls io files fds"
    and path: "length bootpath + 15 < 256" and txt0: "files w (bootpath @ ''psplink.ini'') = Some t"
    and ff: "no_ff (take MAX_BUFFER t)" and mode: "mode = CONFIG_MODE_ADD \<or> mode = CONFIG_MODE_DEL"
  shows "\<exists>out w'. configChange io bootpath n v mode w = Inr (out, w') \<and>
    files w' = ((files w)(bootpath @ ''psplink.ini.tmp'' := None))
      (bootpath @ ''psplink.ini'' \<mapsto> render (changed_entries n v mode (text_entries (take MAX_BUFFER t))))"
proof -
  let ?p = "bootpath @ ''psplink.ini''" and ?q = "bootpath @ ''psplink.ini.tmp''" and ?r = "take MAX_BUFFER t"
  let ?es = "text_entries ?r"
  have pq: "?p \<noteq> ?q" by simp
  obtain fd w1 where o1: "io_open io ?q (PSP_O_WRONLY OR PSP_O_TRUNC OR PSP_O_CREAT) w = (fd, w1)" "fd \<ge> 0"
    "fds w fd = None" "files w1 = (files w)(?q \<mapsto> [])" "fds w1 = (fds w)(fd \<mapsto> (?q, 0))"
    by (rule open_new [OF calls, where w = w])
  have t1: "files w1 ?p = Some t" using txt0 pq o1(4) by simp
  obtain cnf w2 where o2: "psplinkConfigOpen io ?p w1 = (True, cnf, w2)" "files w2 = files w1"
    "reader_at files fds ?p (cf_file cnf) w2 ?r" "fds w1 (pf_fd (cf_file cnf)) = None"
    "\<forall>g. g \<noteq> pf_fd (cf_file cnf) \<longrightarrow> fds w2 g = fds w1 g" "pf_fd (cf_file cnf) \<ge> 0"
    by (rule open_reader [OF calls, of w1, OF t1])
  let ?rd = "pf_fd (cf_file cnf)"
  let ?I = "change_state files fds (files w) ?q fd n v mode"
  have ne: "?rd \<noteq> fd" using o1(5) o2(4) by auto
  have "\<exists>s' cnf' w'. config_loop io (change_entry io fd n v mode) False cnf w2 = (s', cnf', w')
    \<and> ?I ([] @ ?es) s' w' \<and> pf_fd (cf_file cnf') = ?rd \<and> fds w' ?rd \<noteq> None"
  proof (rule config_loop_entries [OF calls _ _ o2(3) ff, where I = ?I and body = "change_entry io fd n v mode"
        and es = "[]" and s = False])
    show "?I [] False w2"
      using o1(4,5) o2(2,5) ne by (simp add: change_state_def render_def)
    show "case change_entry io fd n v mode l (fst e) (snd e) s w of (s', w') \<Rightarrow>
        ?I (es @ [e]) s' w' \<and> files w' ?p = files w ?p \<and> fds w' ?rd = fds w ?rd" if "?I es s w" for es e l s w
      using change_state_step [OF calls that ne pq] .
    show "?I es s w'" if "?I es s w" "only_reads files fds ?rd w w'" for es s w w'
      using that ne by (auto simp: change_state_def only_reads_def Let_def)
  qed simp
  then obtain found cnf' w3 where l: "config_loop io (change_entry io fd n v mode) False cnf w2 = (found, cnf', w3)"
    "?I ?es found w3" "pf_fd (cf_file cnf') = ?rd" "fds w3 ?rd \<noteq> None" by auto
  let ?out = "render (concat (map (changed_entry n v mode) ?es))"
    and ?new = "render (changed_entries n v mode ?es)"
  have s3: "files w3 = (files w)(?q \<mapsto> ?out)" "fds w3 fd = Some (?q, length ?out)"
    "found = (mode = CONFIG_MODE_ADD \<and> n \<in> fst ` set ?es)"
    using l(2) by (simp_all add: change_state_def Let_def)
  define w4 where "w4 = (if mode = CONFIG_MODE_ADD \<and> \<not> found then write_entry io fd n v w3 else w3)"
  have s4: "files w4 = (files w)(?q \<mapsto> ?new)" "fds w4 fd \<noteq> None" "fds w4 ?rd \<noteq> None"
    using write_call [OF calls s3(2), of "config_text n v"] s3 l(4) ne
    by (auto simp: w4_def write_entry_def changed_entries_def render_def)
  define w5 where "w5 = snd (io_close io fd w4)"
  have s5: "files w5 = files w4" "fds w5 ?rd \<noteq> None"
    using close_call [OF calls s4(2)] s4(3) ne by (simp_all add: w5_def)
  define w6 where "w6 = psplinkConfigClose io cnf' w5"
  have s6: "files w6 = files w4"
    using close_call [OF calls s5(2)] s5(1) l(3) o2(6) by (simp add: w6_def psplinkConfigClose_def closefile_def)
  have old: "files w6 ?p \<noteq> None" using s6 s4(1) pq txt0 by simp
  obtain r7 w7 where s7: "io_remove io ?p w6 = (r7, w7)" "r7 \<ge> 0" "files w7 = (files w6)(?p := None)" "fds w7 = fds w6"
    by (rule remove_call [OF calls, of w6, OF old])
  have tmp: "files w7 ?q = Some ?new" "files w7 ?p = None" using s7(3) s6 s4(1) by simp_all
  obtain r8 w8 where s8: "io_rename io ?q ?p w7 = (r8, w8)" "r8 \<ge> 0"
    "files w8 = (files w7)(?q := None, ?p \<mapsto> ?new)" "fds w8 = fds w7"
    by (rule rename_call [OF calls, of w7, OF tmp])
  have "rewrite_config io fd ?q ?p n v mode cnf w2 = ([], w8)"
    unfolding rewrite_config_def replace_file_def using l(1) s7(1,2) s8(1,2)
    by (simp add: w4_def [symmetric] w5_def [symmetric] w6_def [symmetric] Let_def)
  then have "configChange io bootpath n v mode w = Inr ([''Config Path '' @ ?p], w8)"
    using path mode o1(1,2) o2(1) by (auto simp: configChange_def cnf_path_def CNF_PATH_def)
  moreover have "files w8 = (files w)(?q := None, ?p \<mapsto> ?new)"
    using s8(3) s7(3) s6 s4(1) pq by (auto simp: fun_eq_iff)
  ultimately show ?thesis by blast
qed

section \<open>Reading back what was written\<close>

definition clean_name :: "string \<Rightarrow> bool" where
  "clean_name n \<longleftrightarrow> (n \<noteq> [] \<longrightarrow> \<not> is_aspace (hd n) \<and> hd n \<noteq> CHR ''#'')
     \<and> (\<forall>c \<in> set n. c \<noteq> CHR ''='' \<and> c \<noteq> CHR 0x0A \<and> c \<noteq> CHR 0x00 \<and> c \<noteq> CHR 0xFF)"

definition clean_value :: "string \<Rightarrow> bool" where
  "clean_value v \<longleftrightarrow> (\<forall>c \<in> set v. c \<noteq> CHR 0x0A \<and> c \<noteq> CHR 0x00 \<and> c \<noteq> CHR 0xFF)"

definition no_quote :: "string \<Rightarrow> bool" where
  "no_quote v \<longleftrightarrow> CHR 0x22 \<notin> set v"

lemma clean_name_set:
  "clean_name n \<Longrightarrow> CHR ''='' \<notin> set n \<and> CHR 0x0A \<notin> set n \<and> CHR 0x00 \<notin> set n \<and> CHR 0xFF \<notin> set n"
  unfolding clean_name_def by blast

lemma clean_value_set: "clean_value v \<Longrightarrow> CHR 0x0A \<notin> set v \<and> CHR 0x00 \<notin> set v \<and> CHR 0xFF \<notin> set v"
  unfolding clean_value_def by blast

lemma str_of_id: "CHR 0x00 \<notin> set s \<Longrightarrow> str_of s = s"
  unfolding str_of_def takeWhile_eq_all_conv by blast

lemma line_entry_text:
  assumes "clean_name n" and "clean_value v" and "no_quote v"
  shows "line_entry (config_text n v) = Some (n, v)"
proof -
  have nul: "CHR 0x00 \<notin> set (config_text n v)"
    using clean_name_set [OF assms(1)] clean_value_set [OF assms(2)] by (simp add: config_text_def)
  let ?s = "n @ CHR ''='' # CHR 0x22 # v @ [CHR 0x22]"
  have "strip_whitesp (config_text n v) = dropWhile is_aspace ?s"
    by (simp add: strip_whitesp_def config_text_def is_aspace_def)
  also have "\<dots> = ?s" using assms(1) by (cases n) (auto simp: clean_name_def is_aspace_def)
  finally have strip: "strip_whitesp (config_text n v) = ?s" .
  have "hd ?s \<noteq> CHR ''#''" using assms(1) by (cases n) (auto simp: clean_name_def)
  moreover have "strchr ?s (CHR ''='') = Some (n, CHR 0x22 # v @ [CHR 0x22])"
    using clean_name_set [OF assms(1)] by (intro strchr_append) simp
  moreover have "strchr (v @ [CHR 0x22]) (CHR 0x22) = Some (v, [])"
    using assms(3) by (intro strchr_append) (simp add: no_quote_def)
  ultimately show ?thesis unfolding line_entry_def str_of_id [OF nul] strip Let_def by simp
qed

lemma next_line_first:
  "CHR 0x0A \<notin> set l \<Longrightarrow> length l < n \<Longrightarrow> next_line n (l @ CHR 0x0A # r) = (l @ [CHR 0x0A], r)"
proof (induction l arbitrary: n)
  case Nil
  then show ?case by (cases n) auto
next
  case (Cons c l)
  then show ?case by (cases n) auto
qed

lemma text_entries_render:
  "(\<forall>e \<in> set es. clean_name (fst e) \<and> clean_value (snd e) \<and> no_quote (snd e)) \<Longrightarrow> length (render es) < MAX_BUFFER
    \<Longrightarrow> text_entries (render es) = es"
proof (induction es)
  case Nil
  then show ?case by (subst text_entries.simps) (simp add: render_def)
next
  case (Cons e es)
  obtain n v where e: "e = (n, v)" by (cases e)
  let ?l = "n @ ''='' @ [CHR 0x22] @ v @ [CHR 0x22]"
  have t: "config_text n v = ?l @ [CHR 0x0A]" by (simp add: config_text_def)
  have r: "render (e # es) = ?l @ CHR 0x0A # render es" by (simp add: render_def e t)
  have "clean_name n" "clean_value v" using Cons(2) by (auto simp: e)
  then have "CHR 0x0A \<notin> set ?l" using clean_name_set [of n] clean_value_set [of v] by simp
  moreover have "length ?l < MAX_BUFFER - 1" using Cons(3) unfolding r by simp
  ultimately have "next_line (MAX_BUFFER - 1) (render (e # es)) = (config_text n v, render es)"
    unfolding r t by (rule next_line_first)
  moreover have "line_entry (config_text n v) = Some (n, v)" using Cons(2) by (intro line_entry_text) (auto simp: e)
  moreover have "text_entries (render es) = es" using Cons unfolding r by simp
  moreover have "render (e # es) \<noteq> []" by (simp add: r)
  ultimately show ?case by (subst text_entries.simps) (simp add: e)
qed

text \<open>An entry that was read has such a name, and a value without a line break.\<close>

lemma next_line_break: "next_line n r = (s, r') \<Longrightarrow> CHR 0x0A \<notin> set (butlast s)"
  by (induction n r arbitrary: s r' rule: next_line.induct) (auto split: if_splits prod.splits)

lemma set_strip: "set (strip_whitesp s) \<subseteq> set s"
proof -
  have "set (dropWhile is_aspace t) \<subseteq> set t" for t by (meson set_dropWhileD subsetI)
  from this [of "rev (dropWhile is_aspace (rev s))"] this [of "rev s"] show ?thesis
    unfolding strip_whitesp_def by auto
qed

lemma strip_no_break:
  assumes "CHR 0x0A \<notin> set (butlast s)"
  shows "CHR 0x0A \<notin> set (strip_whitesp s)"
proof (cases s rule: rev_cases)
  case Nil
  then show ?thesis by (simp add: strip_whitesp_def)
next
  case (snoc t c)
  show ?thesis
  proof (cases "is_aspace c")
    case True
    then have "strip_whitesp s = strip_whitesp t" by (simp add: strip_whitesp_def snoc)
    then show ?thesis using set_strip [of t] assms snoc by auto
  next
    case False
    then have "c \<noteq> CHR 0x0A" by (auto simp: is_aspace_def)
    then show ?thesis using set_strip [of s] assms snoc by auto
  qed
qed

lemma strip_hd: "strip_whitesp s \<noteq> [] \<Longrightarrow> \<not> is_aspace (hd (strip_whitesp s))"
  unfolding strip_whitesp_def by (rule hd_dropWhile)

lemma butlast_takeWhile: "set (butlast (takeWhile P s)) \<subseteq> set (butlast s)"
  by (induction s) (auto dest: set_takeWhileD)

lemma str_of_butlast: "c \<notin> set (butlast s) \<Longrightarrow> c \<notin> set (butlast (str_of s))"
  using butlast_takeWhile [of _ s] unfolding str_of_def by blast

lemma strchr_Some:
  assumes "strchr s c = Some (a, b)"
  shows "s = a @ c # b \<and> c \<notin> set a"
proof -
  have "c \<in> set s" using assms unfolding strchr_def by (metis option.distinct(1))
  then obtain ys zs where s: "s = ys @ c # zs" "c \<notin> set ys" by (metis split_list_first)
  then have "strchr s c = Some (ys, zs)" by (simp only: strchr_append simp_thms)
  then show ?thesis using assms s by simp
qed

lemma line_entry_clean:
  assumes "line_entry s = Some (n, v)" and "CHR 0x0A \<notin> set (butlast s)" and "no_ff s"
  shows "clean_name n \<and> clean_value v"
proof -
  let ?s = "strip_whitesp (str_of s)"
  have ne: "?s \<noteq> []" "hd ?s \<noteq> CHR ''#''" using assms(1) by (auto simp: line_entry_def Let_def split: if_splits)
  obtain v0 where v0: "strchr ?s (CHR ''='') = Some (n, v0)" and sub: "set v \<subseteq> set v0"
  proof (cases "strchr ?s (CHR ''='')")
    case None
    then show thesis using assms(1) ne by (simp add: line_entry_def Let_def)
  next
    case (Some q)
    obtain n' v0 where q: "q = (n', v0)" by (cases q)
    have "n' = n \<and> set v \<subseteq> set v0"
    proof (cases "v0 \<noteq> [] \<and> hd v0 = CHR 0x22")
      case False
      then show ?thesis using assms(1) ne Some q by (auto simp: line_entry_def Let_def)
    next
      case True
      then obtain r where "strchr (tl v0) (CHR 0x22) = Some (v, r)" "n' = n"
        using assms(1) ne Some q by (auto simp: line_entry_def Let_def split: option.splits)
      then show ?thesis using strchr_Some [of "tl v0" "CHR 0x22" v r] True by (cases v0) auto
    qed
    then show thesis using Some q by (intro that) auto
  qed
  have s: "?s = n @ CHR ''='' # v0" "CHR ''='' \<notin> set n" using strchr_Some [OF v0] by auto
  have "CHR 0x0A \<notin> set ?s" by (rule strip_no_break [OF str_of_butlast [OF assms(2)]])
  moreover have "set ?s \<subseteq> set (str_of s)" by (rule set_strip)
  moreover have "CHR 0x00 \<notin> set (str_of s)" "set (str_of s) \<subseteq> set s"
    unfolding str_of_def by (auto dest: set_takeWhileD)
  moreover have "n \<noteq> [] \<longrightarrow> \<not> is_aspace (hd n) \<and> hd n \<noteq> CHR ''#''" using strip_hd [OF ne(1)] ne(2) s(1) by auto
  ultimately show ?thesis using s sub assms(3) unfolding clean_name_def clean_value_def no_ff_def by auto
qed

lemma text_entries_clean: "no_ff r \<Longrightarrow> e \<in> set (text_entries r) \<Longrightarrow> clean_name (fst e) \<and> clean_value (snd e)"
proof (induction r rule: text_entries.induct)
  case (1 r)
  obtain s r' where n: "next_line (MAX_BUFFER - 1) r = (s, r')" by (cases "next_line (MAX_BUFFER - 1) r")
  have ne: "r \<noteq> []" using 1(4) by (subst (asm) text_entries.simps) (auto split: if_splits)
  have ff: "no_ff s" "no_ff r'" using next_line_append [OF n] 1(3) by (auto simp: no_ff_def)
  show ?case
  proof (cases "line_entry s")
    case None
    then have "e \<in> set (text_entries r')" using 1(4) ne n by (subst (asm) text_entries.simps) simp
    then show ?thesis using 1(1) [OF ne n [symmetric] None ff(2)] by blast
  next
    case (Some x)
    then have "e = x \<or> e \<in> set (text_entries r')" using 1(4) ne n by (subst (asm) text_entries.simps) auto
    then show ?thesis
      using 1(2) [OF ne n [symmetric] Some ff(2)] line_entry_clean [of s "fst x" "snd x"] Some next_line_break [OF n] ff(1)
      by auto
  qed
qed

lemma changed_entries_set:
  "e \<in> set (changed_entries n v mode es) \<Longrightarrow> e = (n, v) \<or> e \<in> set es"
  by (auto simp: changed_entries_def changed_entry_def split: if_splits)

text \<open>C36: Setting or deleting a name of the configuration and reading it back. When the file fits into the buffer,
  before and after, and no value has a quote inside, the new file has the old entries with the name changed
  everywhere, added at the end, or removed; and loading it gives the configuration of these entries.
\<close>

theorem config_change_round_trip:
  assumes "file_calls io files fds"
    and "length bootpath + 15 < 256" and "files w (bootpath @ ''psplink.ini'') = Some t"
    and "length t \<le> MAX_BUFFER" and "no_ff t"
    and "mode = CONFIG_MODE_ADD \<or> mode = CONFIG_MODE_DEL"
    and "clean_name n" and "clean_value v" and "no_quote v"
    and "\<forall>e \<in> set (text_entries t). no_quote (snd e)"
    and "length (render (changed_entries n v mode (text_entries t))) < MAX_BUFFER"
  shows "\<exists>out w' t' w''. configChange io bootpath n v mode w = Inr (out, w')
     \<and> files w' (bootpath @ ''psplink.ini'') = Some t'
     \<and> text_entries t' = changed_entries n v mode (text_entries t)
     \<and> configLoad io bootpath w' = Inr (load_entries (changed_entries n v mode (text_entries t)), w'')"
proof -
  let ?es = "changed_entries n v mode (text_entries t)"
  have tk: "take MAX_BUFFER t = t" using assms(4) by simp
  obtain out w' where c: "configChange io bootpath n v mode w = Inr (out, w')"
    and f: "files w' = ((files w)(bootpath @ ''psplink.ini.tmp'' := None))(bootpath @ ''psplink.ini'' \<mapsto> render ?es)"
    using configChange_entries [OF assms(1,2), of w, OF assms(3) _ assms(6), of n v] assms(5) unfolding tk by blast
  have clean: "\<forall>e \<in> set ?es. clean_name (fst e) \<and> clean_value (snd e) \<and> no_quote (snd e)"
  proof
    fix e assume "e \<in> set ?es"
    then consider "e = (n, v)" | "e \<in> set (text_entries t)" using changed_entries_set by blast
    then show "clean_name (fst e) \<and> clean_value (snd e) \<and> no_quote (snd e)"
      using assms(7-10) text_entries_clean [OF assms(5), of e] by cases auto
  qed
  have again: "text_entries (render ?es) = ?es" by (rule text_entries_render [OF clean assms(11)])
  have ff: "no_ff (render ?es)"
    using clean clean_name_set clean_value_set by (fastforce simp: no_ff_def render_def config_text_def)
  have w': "files w' (bootpath @ ''psplink.ini'') = Some (render ?es)" by (simp add: f)
  have tk': "take MAX_BUFFER (render ?es) = render ?es" using assms(11) by simp
  have "length bootpath + 11 < 256" using assms(2) by simp
  then obtain w'' where "configLoad io bootpath w' = Inr (load_entries ?es, w'')"
    using configLoad_entries [OF assms(1), of bootpath w', OF _ w'] ff unfolding tk' again by blast
  then show ?thesis using c w' again by blast
qed

text \<open>C37: A configuration file longer than the buffer loses its tail. The buffer of a reader is filled once, so a
  change rewrites the file from its first 4096 bytes: whatever follows them is gone.
\<close>

theorem config_change_loses_tail:
  assumes "file_calls io files fds"
    and "length bootpath + 15 < 256" and "files w (bootpath @ ''psplink.ini'') = Some (a @ b)"
    and "length a = MAX_BUFFER" and "no_ff a"
    and "mode = CONFIG_MODE_ADD \<or> mode = CONFIG_MODE_DEL"
  shows "\<exists>out w'. configChange io bootpath n v mode w = Inr (out, w')
     \<and> files w' (bootpath @ ''psplink.ini'') = Some (render (changed_entries n v mode (text_entries a)))"
proof -
  have tk: "take MAX_BUFFER (a @ b) = a" using assms(4) by simp
  show ?thesis
    using configChange_entries [OF assms(1,2), of w, OF assms(3) _ assms(6), of n v] assms(5) unfolding tk by fastforce
qed

section \<open>A small file system\<close>

record demo_fs =
  ds_files :: "string \<Rightarrow> string option"
  ds_fds :: "(string \<times> nat) option list"

definition ds_fd :: "demo_fs \<Rightarrow> int \<Rightarrow> (string \<times> nat) option" where
  "ds_fd w fd = (if 0 \<le> fd \<and> nat fd < length (ds_fds w) then ds_fds w ! nat fd else None)"

definition demo_psp_io :: "demo_fs psp_io" where
  "demo_psp_io = \<lparr>
     io_open = (\<lambda>p fl w. if fl = PSP_O_RDONLY \<and> ds_files w p = None then (- 1, w)
        else (int (length (ds_fds w)), w\<lparr>ds_files := (if fl = PSP_O_RDONLY then ds_files w else (ds_files w)(p \<mapsto> [])),
                ds_fds := ds_fds w @ [Some (p, 0)]\<rparr>)),
     io_close = (\<lambda>fd w. (0, w\<lparr>ds_fds := (ds_fds w)[nat fd := None]\<rparr>)),
     io_read = (\<lambda>fd n w. case ds_fd w fd of None \<Rightarrow> (Inl (- 1), w)
        | Some (p, k) \<Rightarrow> (case ds_files w p of None \<Rightarrow> (Inl (- 1), w)
          | Some t \<Rightarrow> (let d = take n (drop k t) in
              (Inr d, w\<lparr>ds_fds := (ds_fds w)[nat fd := Some (p, k + length d)]\<rparr>)))),
     io_write = (\<lambda>fd s w. case ds_fd w fd of None \<Rightarrow> (- 1, w)
        | Some (p, k) \<Rightarrow> (case ds_files w p of None \<Rightarrow> (- 1, w)
          | Some t \<Rightarrow> (int (length s), w\<lparr>ds_files := (ds_files w)(p \<mapsto> take k t @ s @ drop (k + length s) t),
              ds_fds := (ds_fds w)[nat fd := Some (p, k + length s)]\<rparr>))),
     io_remove = (\<lambda>p w. if ds_files w p = None then (- 1, w) else (0, w\<lparr>ds_files := (ds_files w)(p := None)\<rparr>)),
     io_rename = (\<lambda>p q w. if ds_files w p = None then (- 1, w)
        else (0, w\<lparr>ds_files := (ds_files w)(p := None, q := ds_files w p)\<rparr>)),
     io_load_module = (\<lambda>s w. w)\<rparr>"

lemma ds_fd_update:
  "ds_fd w fd \<noteq> None \<Longrightarrow> ds_fd (w\<lparr>ds_files := x, ds_fds := (ds_fds w)[nat fd := y]\<rparr>) = (ds_fd w)(fd := y)"
  "ds_fd w fd \<noteq> None \<Longrightarrow> ds_fd (w\<lparr>ds_fds := (ds_fds w)[nat fd := y]\<rparr>) = (ds_fd w)(fd := y)"
  by (auto simp: ds_fd_def fun_eq_iff nth_list_update split: if_splits)

lemma ds_fd_new:
  "ds_fd (w\<lparr>ds_files := x, ds_fds := ds_fds w @ [y]\<rparr>) = (ds_fd w)(int (length (ds_fds w)) := y)"
  "ds_fd (w\<lparr>ds_fds := ds_fds w @ [y]\<rparr>) = (ds_fd w)(int (length (ds_fds w)) := y)"
  "ds_fd (w\<lparr>ds_files := x\<rparr>) = ds_fd w"
  by (auto simp: ds_fd_def fun_eq_iff nth_append)

lemma ds_fd_next [simp]: "ds_fd w (int (length (ds_fds w))) = None"
  by (simp add: ds_fd_def)

lemma demo_file_calls: "file_calls demo_psp_io ds_files ds_fd"
proof -
  have fl: "PSP_O_WRONLY OR PSP_O_TRUNC OR PSP_O_CREAT \<noteq> PSP_O_RDONLY" by code_simp
  show ?thesis
    unfolding file_calls_def
    by (intro conjI allI impI) (auto simp: demo_psp_io_def ds_fd_update ds_fd_new fl Let_def)
qed

definition demo_ini :: string where
  "demo_ini = ''# settings'' @ [CHR 0x0A] @ '' pluser=1'' @ [CHR 0x0A] @ ''pid='' @ [CHR 0x22] @ ''0x1C9'' @ [CHR 0x22, CHR 0x0A]"

definition demo_disk :: "string \<Rightarrow> demo_fs" where
  "demo_disk t = \<lparr>ds_files = (\<lambda>p. None)(''ms0:/psplink.ini'' \<mapsto> t), ds_fds = []\<rparr>"

lemma demo_ini_entries:
  "text_entries demo_ini = [(''pluser'', ''1''), (''pid'', ''0x1C9'')]"
  "changed_entries ''pid'' ''5'' CONFIG_MODE_ADD [(''pluser'', ''1''), (''pid'', ''0x1C9'')] = [(''pluser'', ''1''), (''pid'', ''5'')]"
  "length demo_ini \<le> MAX_BUFFER" "no_ff demo_ini" "clean_name ''pid''" "clean_value ''5''" "no_quote ''5''"
  "length (render [(''pluser'', ''1''), (''pid'', ''5'')]) < MAX_BUFFER"
  by code_simp+

theorem config_change_round_trip_witness:
  "\<exists>out w' t' w''. configChange demo_psp_io ''ms0:/'' ''pid'' ''5'' CONFIG_MODE_ADD (demo_disk demo_ini) = Inr (out, w')
     \<and> ds_files w' ''ms0:/psplink.ini'' = Some t' \<and> text_entries t' = [(''pluser'', ''1''), (''pid'', ''5'')]
     \<and> configLoad demo_psp_io ''ms0:/'' w' = Inr (load_entries [(''pluser'', ''1''), (''pid'', ''5'')], w'')"
proof -
  have p: "length ''ms0:/'' + 15 < 256" and f: "ds_files (demo_disk demo_ini) (''ms0:/'' @ ''psplink.ini'') = Some demo_ini"
    by (simp_all add: demo_disk_def)
  have q: "\<forall>e \<in> set (text_entries demo_ini). no_quote (snd e)" unfolding demo_ini_entries(1) by (simp add: no_quote_def)
  have l: "length (render (changed_entries ''pid'' ''5'' CONFIG_MODE_ADD (text_entries demo_ini))) < MAX_BUFFER"
    unfolding demo_ini_entries(1,2) by (rule demo_ini_entries(8))
  from config_change_round_trip [of demo_psp_io ds_files ds_fd "''ms0:/''" "demo_disk demo_ini" demo_ini CONFIG_MODE_ADD
      "''pid''" "''5''", OF demo_file_calls p f demo_ini_entries(3,4) _ demo_ini_entries(5-7) q l]
  show ?thesis unfolding demo_ini_entries(1,2) by simp
qed

theorem config_change_loses_tail_witness:
  "\<exists>out w'. configChange demo_psp_io ''ms0:/'' ''pluser'' ''1'' CONFIG_MODE_ADD
        (demo_disk (replicate MAX_BUFFER (CHR ''#'') @ [CHR 0x0A] @ ''pid=5'')) = Inr (out, w')
     \<and> ds_files w' ''ms0:/psplink.ini'' =
         Some (render (changed_entries ''pluser'' ''1'' CONFIG_MODE_ADD (text_entries (replicate MAX_BUFFER (CHR ''#'')))))"
proof -
  have p: "length ''ms0:/'' + 15 < 256"
    and f: "ds_files (demo_disk (replicate MAX_BUFFER (CHR ''#'') @ [CHR 0x0A] @ ''pid=5'')) (''ms0:/'' @ ''psplink.ini'')
      = Some (replicate MAX_BUFFER (CHR ''#'') @ [CHR 0x0A] @ ''pid=5'')"
    by (simp_all add: demo_disk_def)
  have "length (replicate MAX_BUFFER (CHR ''#'')) = MAX_BUFFER" "no_ff (replicate MAX_BUFFER (CHR ''#''))"
    by (simp_all add: no_ff_def MAX_BUFFER_def)
  from config_change_loses_tail [of demo_psp_io ds_files ds_fd "''ms0:/''" _ _ "[CHR 0x0A] @ ''pid=5''" CONFIG_MODE_ADD
      "''pluser''" "''1''", OF demo_file_calls p f this]
  show ?thesis by simp
qed

end
