(* ===== verification/Asm.thy ===== *)
theory Asm
  imports CLib
begin

unbundle bit_operations_syntax

text \<open>
  The assembler of the PC shell (\<^verbatim>\<open>pspsh/asm.C\<close>): the tables of instructions and registers, the parsing of
  operands and the assembling of a line. The messages on the error stream are not kept.
\<close>

section \<open>Tables\<close>

datatype instr = Instr (in_name: string) (in_opcode: u32) (in_mask: u32) (in_fmt: string) (in_operands: nat)

definition regName_pc :: "string list" where
  "regName_pc =
    [''zr'', ''at'', ''v0'', ''v1'', ''a0'', ''a1'', ''a2'', ''a3'',
     ''t0'', ''t1'', ''t2'', ''t3'', ''t4'', ''t5'', ''t6'', ''t7'',
     ''s0'', ''s1'', ''s2'', ''s3'', ''s4'', ''s5'', ''s6'', ''s7'',
     ''t8'', ''t9'', ''k0'', ''k1'', ''gp'', ''sp'', ''fp'', ''ra'']"

definition cop0_regs :: "string option list" where
  "cop0_regs =
    [None, None, None, None, None, None, None, None,
     Some ''BadVaddr'', Some ''Count'', None, Some ''Compare'', Some ''Status'', Some ''Cause'', Some ''EPC'', Some ''PrID'',
     Some ''Config'', None, None, None, None, None, None, None,
     None, Some ''EBase'', None, None, Some ''TagLo'', Some ''TagHi'', Some ''ErrorPC'', None]"

definition dr_regs :: "string option list" where
  "dr_regs =
    [Some ''DRCNTL'', Some ''DEPC'', Some ''DDATA0'', Some ''DDATA1'', Some ''IBC'', Some ''DBC'', None, None,
     Some ''IBA'', Some ''IBAM'', None, None, Some ''DBA'', Some ''DBAM'', Some ''DBD'', Some ''DBDM'']"

text \<open>The macros, then the instructions of the processor; those of the FPU and the VFPU are compiled out.\<close>

definition asm_macro :: "instr list" where
  "asm_macro =
    [Instr ''nop'' 0x00000000 0xFFFFFFFF '''' 0,
     Instr ''li'' 0x24000000 0xFFE00000 ''%t, %i'' 2,
     Instr ''li'' 0x34000000 0xFFE00000 ''%t, %I'' 2,
     Instr ''move'' 0x00000021 0xFC1F07FF ''%d, %s'' 2,
     Instr ''move'' 0x00000025 0xFC1F07FF ''%d, %s'' 2,
     Instr ''b'' 0x10000000 0xFFFF0000 ''%O'' 1,
     Instr ''b'' 0x04010000 0xFFFF0000 ''%O'' 1,
     Instr ''bal'' 0x04110000 0xFFFF0000 ''%O'' 1,
     Instr ''bnez'' 0x14000000 0xFC1F0000 ''%s, %O'' 2,
     Instr ''bnezl'' 0x54000000 0xFC1F0000 ''%s, %O'' 2,
     Instr ''beqz'' 0x10000000 0xFC1F0000 ''%s, %O'' 2,
     Instr ''beqzl'' 0x50000000 0xFC1F0000 ''%s, %O'' 2,
     Instr ''neg'' 0x00000022 0xFFE007FF ''%d, %t'' 2,
     Instr ''negu'' 0x00000023 0xFFE007FF ''%d, %t'' 2,
     Instr ''not'' 0x00000027 0xFC1F07FF ''%d, %s'' 2,
     Instr ''jalr'' 0x0000F809 0xFC1FFFFF ''%s'' 1]"

definition asm_inst_a :: "instr list" where
  "asm_inst_a =
    [Instr ''add'' 0x00000020 0xFC0007FF ''%d, %s, %t'' 3,
     Instr ''addi'' 0x20000000 0xFC000000 ''%t, %s, %i'' 3,
     Instr ''addiu'' 0x24000000 0xFC000000 ''%t, %s, %i'' 3,
     Instr ''addu'' 0x00000021 0xFC0007FF ''%d, %s, %t'' 3,
     Instr ''and'' 0x00000024 0xFC0007FF ''%d, %s, %t'' 3,
     Instr ''andi'' 0x30000000 0xFC000000 ''%t, %s, %I'' 3,
     Instr ''beq'' 0x10000000 0xFC000000 ''%s, %t, %O'' 3,
     Instr ''beql'' 0x50000000 0xFC000000 ''%s, %t, %O'' 3,
     Instr ''bgez'' 0x04010000 0xFC1F0000 ''%s, %O'' 2,
     Instr ''bgezal'' 0x04110000 0xFC1F0000 ''%s, %0'' 2,
     Instr ''bgezl'' 0x04030000 0xFC1F0000 ''%s, %O'' 2,
     Instr ''bgtz'' 0x1C000000 0xFC1F0000 ''%s, %O'' 2,
     Instr ''bgtzl'' 0x5C000000 0xFC1F0000 ''%s, %O'' 2,
     Instr ''bitrev'' 0x7C000520 0xFFE007FF ''%d, %t'' 2,
     Instr ''blez'' 0x18000000 0xFC1F0000 ''%s, %O'' 2,
     Instr ''blezl'' 0x58000000 0xFC1F0000 ''%s, %O'' 2,
     Instr ''bltz'' 0x04000000 0xFC1F0000 ''%s, %O'' 2,
     Instr ''bltzl'' 0x04020000 0xFC1F0000 ''%s, %O'' 2,
     Instr ''bltzal'' 0x04100000 0xFC1F0000 ''%s, %O'' 2,
     Instr ''bltzall'' 0x04120000 0xFC1F0000 ''%s, %O'' 2,
     Instr ''bne'' 0x14000000 0xFC000000 ''%s, %t, %O'' 3,
     Instr ''bnel'' 0x54000000 0xFC000000 ''%s, %t, %O'' 3,
     Instr ''break'' 0x0000000D 0xFC00003F ''%c'' 1,
     Instr ''cache'' 0xBC000000 0xFC000000 ''%k, %o'' 2,
     Instr ''cfc0'' 0x40400000 0xFFE007FF ''%t, %p'' 2,
     Instr ''clo'' 0x00000017 0xFC1F07FF ''%d, %s'' 2,
     Instr ''clz'' 0x00000016 0xFC1F07FF ''%d, %s'' 2,
     Instr ''ctc0'' 0x40C00000 0xFFE007FF ''%t, %p'' 2,
     Instr ''max'' 0x0000002C 0xFC0007FF ''%d, %s, %t'' 3,
     Instr ''min'' 0x0000002D 0xFC0007FF ''%d, %s, %t'' 3,
     Instr ''dbreak'' 0x7000003F 0xFFFFFFFF '''' 0,
     Instr ''div'' 0x0000001A 0xFC00FFFF ''%s, %t'' 2,
     Instr ''divu'' 0x0000001B 0xFC00FFFF ''%s, %t'' 2,
     Instr ''dret'' 0x7000003E 0xFFFFFFFF '''' 0,
     Instr ''eret'' 0x42000018 0xFFFFFFFF '''' 0,
     Instr ''ext'' 0x7C000000 0xFC00003F ''%t, %s, %a, %n'' 4,
     Instr ''ins'' 0x7C000004 0xFC00003F ''%t, %s, %a, %n'' 4,
     Instr ''j'' 0x08000000 0xFC000000 ''%j'' 1,
     Instr ''jr'' 0x00000008 0xFC1FFFFF ''%s'' 1,
     Instr ''jalr'' 0x00000009 0xFC1F07FF ''%s, %d'' 2,
     Instr ''jal'' 0x0C000000 0xFC000000 ''%j'' 1,
     Instr ''lb'' 0x80000000 0xFC000000 ''%t, %o'' 2,
     Instr ''lbu'' 0x90000000 0xFC000000 ''%t, %o'' 2,
     Instr ''lh'' 0x84000000 0xFC000000 ''%t, %o'' 2,
     Instr ''lhu'' 0x94000000 0xFC000000 ''%t, %o'' 2,
     Instr ''ll'' 0xC0000000 0xFC000000 ''%t, %O'' 2,
     Instr ''lui'' 0x3C000000 0xFFE00000 ''%t, %I'' 2,
     Instr ''lw'' 0x8C000000 0xFC000000 ''%t, %o'' 2,
     Instr ''lwl'' 0x88000000 0xFC000000 ''%t, %o'' 2,
     Instr ''lwr'' 0x98000000 0xFC000000 ''%t, %o'' 2]"

definition asm_inst_b :: "instr list" where
  "asm_inst_b =
    [Instr ''madd'' 0x0000001C 0xFC00FFFF ''%s, %t'' 2,
     Instr ''maddu'' 0x0000001D 0xFC00FFFF ''%s, %t'' 2,
     Instr ''mfc0'' 0x40000000 0xFFE007FF ''%t, %0'' 2,
     Instr ''mfdr'' 0x7000003D 0xFFE007FF ''%t, %r'' 2,
     Instr ''mfhi'' 0x00000010 0xFFFF07FF ''%d'' 1,
     Instr ''mfic'' 0x70000024 0xFFE007FF ''%t, %p'' 2,
     Instr ''mflo'' 0x00000012 0xFFFF07FF ''%d'' 1,
     Instr ''movn'' 0x0000000B 0xFC0007FF ''%d, %s, %t'' 3,
     Instr ''movz'' 0x0000000A 0xFC0007FF ''%d, %s, %t'' 3,
     Instr ''msub'' 0x0000002E 0xFC00FFFF ''%d, %t'' 2,
     Instr ''msubu'' 0x0000002F 0xFC00FFFF ''%d, %t'' 2,
     Instr ''mtc0'' 0x40800000 0xFFE007FF ''%t, %0'' 2,
     Instr ''mtdr'' 0x7080003D 0xFFE007FF ''%t, %r'' 2,
     Instr ''mtic'' 0x70000026 0xFFE007FF ''%t, %p'' 2,
     Instr ''halt'' 0x70000000 0xFFFFFFFF '''' 0,
     Instr ''mthi'' 0x00000011 0xFC1FFFFF ''%s'' 1,
     Instr ''mtlo'' 0x00000013 0xFC1FFFFF ''%s'' 1,
     Instr ''mult'' 0x00000018 0xFC00FFFF ''%s, %t'' 2,
     Instr ''multu'' 0x00000019 0xFC0007FF ''%s, %t'' 2,
     Instr ''nor'' 0x00000027 0xFC0007FF ''%d, %s, %t'' 3,
     Instr ''or'' 0x00000025 0xFC0007FF ''%d, %s, %t'' 3,
     Instr ''ori'' 0x34000000 0xFC000000 ''%t, %s, %I'' 3,
     Instr ''rotr'' 0x00200002 0xFFE0003F ''%d, %t, %a'' 3,
     Instr ''rotv'' 0x00000046 0xFC0007FF ''%d, %t, %s'' 3,
     Instr ''seb'' 0x7C000420 0xFFE007FF ''%d, %t'' 2,
     Instr ''seh'' 0x7C000620 0xFFE007FF ''%d, %t'' 2,
     Instr ''sb'' 0xA0000000 0xFC000000 ''%t, %o'' 2,
     Instr ''sh'' 0xA4000000 0xFC000000 ''%t, %o'' 2,
     Instr ''sllv'' 0x00000004 0xFC0007FF ''%d, %t, %s'' 3,
     Instr ''sll'' 0x00000000 0xFFE0003F ''%d, %t, %a'' 3,
     Instr ''slt'' 0x0000002A 0xFC0007FF ''%d, %s, %t'' 3,
     Instr ''slti'' 0x28000000 0xFC000000 ''%t, %s, %i'' 3,
     Instr ''sltiu'' 0x2C000000 0xFC000000 ''%t, %s, %i'' 3,
     Instr ''sltu'' 0x0000002B 0xFC0007FF ''%d, %s, %t'' 3,
     Instr ''sra'' 0x00000003 0xFFE0003F ''%d, %t, %a'' 3,
     Instr ''srav'' 0x00000007 0xFC0007FF ''%d, %t, %s'' 3,
     Instr ''srlv'' 0x00000006 0xFC0007FF ''%d, %t, %s'' 3,
     Instr ''srl'' 0x00000002 0xFFE0003F ''%d, %t, %a'' 3,
     Instr ''sw'' 0xAC000000 0xFC000000 ''%t, %o'' 2,
     Instr ''swl'' 0xA8000000 0xFC000000 ''%t, %o'' 2,
     Instr ''swr'' 0xB8000000 0xFC000000 ''%t, %o'' 2,
     Instr ''sub'' 0x00000022 0xFC0007FF ''%d, %s, %t'' 3,
     Instr ''subu'' 0x00000023 0xFC0007FF ''%d, %s, %t'' 3,
     Instr ''sync'' 0x0000000F 0xFFFFFFFF '''' 0,
     Instr ''syscall'' 0x0000000C 0xFC00003F ''%C'' 1,
     Instr ''xor'' 0x00000026 0xFC0007FF ''%d, %s, %t'' 3,
     Instr ''xori'' 0x38000000 0xFC000000 ''%t, %s, %I'' 3,
     Instr ''wsbh'' 0x7C0000A0 0xFFE007FF ''%d, %t'' 2,
     Instr ''wsbw'' 0x7C0000E0 0xFFE007FF ''%d, %t'' 2]"

definition asm_inst :: "instr list" where
  "asm_inst = asm_inst_a @ asm_inst_b"

section \<open>Operands\<close>

text \<open>\<^verbatim>\<open>long\<close> has 64 bits on the PC, \<^verbatim>\<open>int\<close> 32. A number is taken when it is the whole text.\<close>

definition parse_regnum :: "string \<Rightarrow> int \<Rightarrow> int" where
  "parse_regnum reg mx =
     (case strtoul 64 10 reg of (v, endp) \<Rightarrow>
        let ret = sint (of_nat v :: u32) in
        if length endp \<noteq> length reg \<and> endp = [] \<and> ret \<ge> 0 \<and> ret < mx then ret else - 1)"

text \<open>The first index of a table whose name is \<open>s\<close>.\<close>

fun name_index_from :: "nat \<Rightarrow> string option list \<Rightarrow> string \<Rightarrow> nat option" where
  "name_index_from i [] s = None"
| "name_index_from i (n # ns) s =
     (if (case n of None \<Rightarrow> False | Some m \<Rightarrow> strcaseeq m s) then Some i else name_index_from (Suc i) ns s)"

definition name_index :: "string option list \<Rightarrow> string \<Rightarrow> nat option" where
  "name_index tab s = name_index_from 0 tab s"

definition parse_gpr :: "string \<Rightarrow> int" where
  "parse_gpr reg =
     (case reg of
        [] \<Rightarrow> - 1
      | c # r \<Rightarrow>
          if c = CHR ''$'' then
            (case name_index (map Some regName_pc) r of Some i \<Rightarrow> int i | None \<Rightarrow> parse_regnum r 32)
          else if c = CHR ''r'' then parse_regnum r 32
          else - 1)"

definition find_inst :: "string \<Rightarrow> nat \<Rightarrow> instr option" where
  "find_inst op argcount =
     (case List.find (\<lambda>e. strcaseeq (in_name e) op \<and> in_operands e = argcount) asm_macro of
        Some e \<Rightarrow> Some e
      | None \<Rightarrow> List.find (\<lambda>e. strcaseeq (in_name e) op \<and> in_operands e = argcount) asm_inst)"

definition strip_wsp :: "string \<Rightarrow> string option" where
  "strip_wsp buf = (let r = trim_line buf in if r = [] then None else Some r)"

text \<open>\<^verbatim>\<open>SETRD\<close> and the like: a value is or-ed into the opcode at a position.\<close>

definition put_field :: "nat \<Rightarrow> int \<Rightarrow> u32 \<Rightarrow> u32" where
  "put_field pos v opcode = opcode OR push_bit pos (word_of_int v)"

text \<open>The low 16 bits of a number, when \<open>sign\<close> cut to the range of a \<^verbatim>\<open>short\<close>.\<close>

definition cut_short :: "int \<Rightarrow> int" where
  "cut_short v = (if v < - 32768 then - 32768 else if v > 32767 then 32767 else v)"

definition set_imm :: "string \<Rightarrow> bool \<Rightarrow> u32 \<Rightarrow> u32 option" where
  "set_imm imm sign opcode =
     (case strtol 64 0 imm of (v, endp) \<Rightarrow>
        if length endp \<noteq> length imm \<and> endp = [] then
          (let val = sint (word_of_int v :: u32);
               val = (if sign then cut_short val else val)
           in Some (opcode OR (word_of_int val AND 0xFFFF)))
        else None)"

definition set_gpr :: "string \<Rightarrow> char \<Rightarrow> u32 \<Rightarrow> u32 option" where
  "set_gpr reg type opcode =
     (let regval = parse_gpr reg in
      if regval < 0 then None
      else if type = CHR ''d'' then Some (put_field 11 regval opcode)
      else if type = CHR ''s'' then Some (put_field 21 regval opcode)
      else if type = CHR ''t'' then Some (put_field 16 regval opcode)
      else None)"

definition set_cop0 :: "string \<Rightarrow> u32 \<Rightarrow> u32 option" where
  "set_cop0 reg opcode =
     (let regval = (if reg \<noteq> [] \<and> hd reg = CHR ''$'' then parse_regnum (tl reg) 32
          else (case name_index cop0_regs reg of None \<Rightarrow> - 1 | Some i \<Rightarrow> int i))
      in if regval < 0 then None else Some (put_field 11 regval opcode))"

text \<open>
  A debug register is looked up among the names of the other table, at the places where the table of debug
  registers has a name; comparing with a null pointer is a fault.
\<close>

fun dr_index :: "nat list \<Rightarrow> string \<Rightarrow> int run" where
  "dr_index [] reg = Inr (- 1)"
| "dr_index (i # is) reg =
     (if dr_regs ! i = None then dr_index is reg
      else (case cop0_regs ! i of
              None \<Rightarrow> Inl Bad_Pointer
            | Some n \<Rightarrow> if strcaseeq n reg then Inr (int i) else dr_index is reg))"

definition set_dr :: "string \<Rightarrow> u32 \<Rightarrow> u32 option run" where
  "set_dr reg opcode =
     map_sum (\<lambda>f. f) (\<lambda>regval. if regval < 0 then None else Some (put_field 11 regval opcode))
       (if reg \<noteq> [] \<and> hd reg = CHR ''$'' then Inr (parse_regnum (tl reg) 16) else dr_index [0..<16] reg)"

definition set_sa :: "string \<Rightarrow> u32 \<Rightarrow> u32 option" where
  "set_sa sa opcode = (let v = parse_regnum sa 32 in if v < 0 then None else Some (put_field 6 v opcode))"

definition set_n :: "string \<Rightarrow> u32 \<Rightarrow> u32 option" where
  "set_n n opcode = (let v = parse_regnum n 33 in if v \<le> 0 then None else Some (put_field 11 (v - 1) opcode))"

definition set_k :: "string \<Rightarrow> u32 \<Rightarrow> u32 option" where
  "set_k n opcode = (let v = parse_regnum n 32 in if v < 0 then None else Some (put_field 16 v opcode))"

text \<open>The text before the first \<open>c\<close> and the text after it.\<close>

definition split_at :: "char \<Rightarrow> string \<Rightarrow> (string \<times> string) option" where
  "split_at c s = (if c \<in> set s then Some (takeWhile (\<lambda>x. x \<noteq> c) s, tl (dropWhile (\<lambda>x. x \<noteq> c) s)) else None)"

definition set_regofs :: "string \<Rightarrow> u32 \<Rightarrow> u32 option" where
  "set_regofs ofs opcode =
     (if length ofs \<ge> 128 then None
      else (case split_at (CHR ''('') ofs of
              None \<Rightarrow> None
            | Some (imm, r) \<Rightarrow>
                (case split_at (CHR '')'') r of
                   None \<Rightarrow> None
                 | Some (reg, rest) \<Rightarrow>
                     (case strip_wsp imm of
                        None \<Rightarrow> None
                      | Some imm' \<Rightarrow>
                          (case strip_wsp reg of
                             None \<Rightarrow> None
                           | Some reg' \<Rightarrow>
                               (case set_imm imm' True opcode of
                                  None \<Rightarrow> None
                                | Some opcode' \<Rightarrow> set_gpr reg' (CHR ''s'') opcode'))))))"

text \<open>Division of C rounds towards zero.\<close>

definition div4 :: "int \<Rightarrow> int" where
  "div4 i = (if i < 0 then - ((- i) div 4) else i div 4)"

definition set_pcofs :: "string \<Rightarrow> u32 \<Rightarrow> u32 \<Rightarrow> u32 option" where
  "set_pcofs jump PC opcode =
     (case strtoul 64 0 jump of (v, endp) \<Rightarrow>
        if length endp \<noteq> length jump \<and> endp = [] then
          (let ofs = cut_short (div4 (sint (of_nat v - PC - 4 :: u32)))
           in Some (opcode OR (word_of_int ofs AND 0xFFFF)))
        else None)"

definition set_jump :: "string \<Rightarrow> u32 \<Rightarrow> u32 option" where
  "set_jump jump opcode =
     (case strtoul 64 0 jump of (v, endp) \<Rightarrow>
        if length endp \<noteq> length jump \<and> endp = [] then
          Some (opcode OR drop_bit 2 (of_nat v AND 0x0FFFFFFF))
        else None)"

section \<open>Lines\<close>

text \<open>One operand of the format; an operand the assembler does not know is an error.\<close>

definition encode_arg :: "char \<Rightarrow> string \<Rightarrow> u32 \<Rightarrow> u32 \<Rightarrow> u32 option run" where
  "encode_arg k a PC opcode =
     (if k = CHR ''d'' \<or> k = CHR ''t'' \<or> k = CHR ''s'' then Inr (set_gpr a k opcode)
      else if k = CHR ''i'' then Inr (set_imm a True opcode)
      else if k = CHR ''I'' then Inr (set_imm a False opcode)
      else if k = CHR ''o'' then Inr (set_regofs a opcode)
      else if k = CHR ''O'' then Inr (set_pcofs a PC opcode)
      else if k = CHR ''j'' then Inr (set_jump a opcode)
      else if k = CHR ''a'' then Inr (set_sa a opcode)
      else if k = CHR ''0'' then Inr (set_cop0 a opcode)
      else if k = CHR ''n'' then Inr (set_n a opcode)
      else if k = CHR ''k'' then Inr (set_k a opcode)
      else if k = CHR ''r'' then set_dr a opcode
      else Inr None)"

fun encode_args :: "string list \<Rightarrow> string \<Rightarrow> u32 \<Rightarrow> u32 \<Rightarrow> u32 option run" where
  "encode_args args [] PC opcode = Inr (Some opcode)"
| "encode_args args (c # fmt) PC opcode =
     (if c \<noteq> CHR ''%'' then encode_args args fmt PC opcode
      else (case args of
              [] \<Rightarrow> Inr (Some opcode)
            | a # as \<Rightarrow>
                (case fmt of
                   [] \<Rightarrow> Inr (Some opcode)
                 | k # fmt' \<Rightarrow>
                     (case encode_arg k a PC opcode of
                        Inl f \<Rightarrow> Inl f
                      | Inr None \<Rightarrow> Inr None
                      | Inr (Some opcode') \<Rightarrow> encode_args as fmt' PC opcode'))))"

definition assemble_op :: "string \<Rightarrow> string list \<Rightarrow> u32 \<Rightarrow> u32 option run" where
  "assemble_op op args PC =
     (case find_inst op (length args) of
        None \<Rightarrow> Inr None
      | Some e \<Rightarrow> encode_args args (in_fmt e) PC (in_opcode e))"

text \<open>The arguments between commas, at most \<open>n\<close>; an argument of blanks is an error.\<close>

fun asm_args :: "nat \<Rightarrow> string \<Rightarrow> string list option" where
  "asm_args 0 s = Some []"
| "asm_args (Suc n) s =
     (case strtok (\<lambda>c. c = CHR '','') s of
        None \<Rightarrow> Some []
      | Some (t, r) \<Rightarrow>
          (case strip_wsp t of None \<Rightarrow> None | Some a \<Rightarrow> map_option ((#) a) (asm_args n r)))"

definition asm_blank :: "char \<Rightarrow> bool" where
  "asm_blank c \<longleftrightarrow> c = CHR '' '' \<or> c = CHR 0x09 \<or> c = CHR 0x0D \<or> c = CHR 0x0A"

definition asmAssemble :: "string \<Rightarrow> u32 \<Rightarrow> u32 option run" where
  "asmAssemble str PC =
     (if length str \<ge> 1024 then Inr None
      else (case strtok asm_blank str of
              None \<Rightarrow> Inr None
            | Some (op, r) \<Rightarrow>
                (case asm_args 32 (skip_space r) of
                   None \<Rightarrow> Inr None
                 | Some args \<Rightarrow> assemble_op op args PC)))"

end
