(* ===== verification/DisasmTables.thy ===== *)
theory DisasmTables
  imports Asm
begin

unbundle bit_operations_syntax

text \<open>
  The tables of the disassembler (\<^verbatim>\<open>pspsh/disasm.C\<close>): name, opcode, mask, format of the operands, kind of
  address and type of an instruction. The format codes are explained at the head of the file.
\<close>

definition INSTR_TYPE_PSP :: u32 where "INSTR_TYPE_PSP = 1"
definition INSTR_TYPE_B :: u32 where "INSTR_TYPE_B = 2"
definition INSTR_TYPE_JUMP :: u32 where "INSTR_TYPE_JUMP = 4"
definition INSTR_TYPE_JAL :: u32 where "INSTR_TYPE_JAL = 8"

definition INSTR_TYPE_BRANCH :: u32 where
  "INSTR_TYPE_BRANCH = INSTR_TYPE_B OR INSTR_TYPE_JUMP OR INSTR_TYPE_JAL"

datatype addr_type = ADDR_TYPE_NONE | ADDR_TYPE_16 | ADDR_TYPE_26 | ADDR_TYPE_REG

datatype dinstr = DInstr (di_name: string) (di_opcode: u32) (di_mask: u32) (di_fmt: string)
  (di_addrtype: addr_type) (di_type: u32)

definition dis_macro :: "dinstr list" where
  "dis_macro =
    [DInstr ''nop'' 0x00000000 0xFFFFFFFF '''' ADDR_TYPE_NONE 0,
     DInstr ''li'' 0x24000000 0xFFE00000 ''%t, %i'' ADDR_TYPE_NONE 0,
     DInstr ''li'' 0x34000000 0xFFE00000 ''%t, %I'' ADDR_TYPE_NONE 0,
     DInstr ''move'' 0x00000021 0xFC1F07FF ''%d, %s'' ADDR_TYPE_NONE 0,
     DInstr ''move'' 0x00000025 0xFC1F07FF ''%d, %s'' ADDR_TYPE_NONE 0,
     DInstr ''b'' 0x10000000 0xFFFF0000 ''%O'' ADDR_TYPE_16 INSTR_TYPE_B,
     DInstr ''b'' 0x04010000 0xFFFF0000 ''%O'' ADDR_TYPE_16 INSTR_TYPE_B,
     DInstr ''bal'' 0x04110000 0xFFFF0000 ''%O'' ADDR_TYPE_16 INSTR_TYPE_JAL,
     DInstr ''bnez'' 0x14000000 0xFC1F0000 ''%s, %O'' ADDR_TYPE_16 INSTR_TYPE_B,
     DInstr ''bnezl'' 0x54000000 0xFC1F0000 ''%s, %O'' ADDR_TYPE_16 INSTR_TYPE_B,
     DInstr ''beqz'' 0x10000000 0xFC1F0000 ''%s, %O'' ADDR_TYPE_16 INSTR_TYPE_B,
     DInstr ''beqzl'' 0x50000000 0xFC1F0000 ''%s, %O'' ADDR_TYPE_16 INSTR_TYPE_B,
     DInstr ''neg'' 0x00000022 0xFFE007FF ''%d, %t'' ADDR_TYPE_NONE 0,
     DInstr ''negu'' 0x00000023 0xFFE007FF ''%d, %t'' ADDR_TYPE_NONE 0,
     DInstr ''not'' 0x00000027 0xFC1F07FF ''%d, %s'' ADDR_TYPE_NONE 0,
     DInstr ''jalr'' 0x0000F809 0xFC1FFFFF ''%J'' ADDR_TYPE_REG INSTR_TYPE_JAL]"

text \<open>The instructions of the processor.\<close>

definition dis_cpu_a :: "dinstr list" where
  "dis_cpu_a =
    [DInstr ''add'' 0x00000020 0xFC0007FF ''%d, %s, %t'' ADDR_TYPE_NONE 0,
     DInstr ''addi'' 0x20000000 0xFC000000 ''%t, %s, %i'' ADDR_TYPE_NONE 0,
     DInstr ''addiu'' 0x24000000 0xFC000000 ''%t, %s, %i'' ADDR_TYPE_NONE 0,
     DInstr ''addu'' 0x00000021 0xFC0007FF ''%d, %s, %t'' ADDR_TYPE_NONE 0,
     DInstr ''and'' 0x00000024 0xFC0007FF ''%d, %s, %t'' ADDR_TYPE_NONE 0,
     DInstr ''andi'' 0x30000000 0xFC000000 ''%t, %s, %I'' ADDR_TYPE_NONE 0,
     DInstr ''beq'' 0x10000000 0xFC000000 ''%s, %t, %O'' ADDR_TYPE_16 INSTR_TYPE_B,
     DInstr ''beql'' 0x50000000 0xFC000000 ''%s, %t, %O'' ADDR_TYPE_16 INSTR_TYPE_B,
     DInstr ''bgez'' 0x04010000 0xFC1F0000 ''%s, %O'' ADDR_TYPE_16 INSTR_TYPE_B,
     DInstr ''bgezal'' 0x04110000 0xFC1F0000 ''%s, %0'' ADDR_TYPE_16 INSTR_TYPE_JAL,
     DInstr ''bgezl'' 0x04030000 0xFC1F0000 ''%s, %O'' ADDR_TYPE_16 INSTR_TYPE_B,
     DInstr ''bgtz'' 0x1C000000 0xFC1F0000 ''%s, %O'' ADDR_TYPE_16 INSTR_TYPE_B,
     DInstr ''bgtzl'' 0x5C000000 0xFC1F0000 ''%s, %O'' ADDR_TYPE_16 INSTR_TYPE_B,
     DInstr ''bitrev'' 0x7C000520 0xFFE007FF ''%d, %t'' ADDR_TYPE_NONE INSTR_TYPE_PSP,
     DInstr ''blez'' 0x18000000 0xFC1F0000 ''%s, %O'' ADDR_TYPE_16 INSTR_TYPE_B,
     DInstr ''blezl'' 0x58000000 0xFC1F0000 ''%s, %O'' ADDR_TYPE_16 INSTR_TYPE_B,
     DInstr ''bltz'' 0x04000000 0xFC1F0000 ''%s, %O'' ADDR_TYPE_16 INSTR_TYPE_B,
     DInstr ''bltzl'' 0x04020000 0xFC1F0000 ''%s, %O'' ADDR_TYPE_16 INSTR_TYPE_B,
     DInstr ''bltzal'' 0x04100000 0xFC1F0000 ''%s, %O'' ADDR_TYPE_16 INSTR_TYPE_JAL,
     DInstr ''bltzall'' 0x04120000 0xFC1F0000 ''%s, %O'' ADDR_TYPE_16 INSTR_TYPE_JAL,
     DInstr ''bne'' 0x14000000 0xFC000000 ''%s, %t, %O'' ADDR_TYPE_16 INSTR_TYPE_B,
     DInstr ''bnel'' 0x54000000 0xFC000000 ''%s, %t, %O'' ADDR_TYPE_16 INSTR_TYPE_B,
     DInstr ''break'' 0x0000000D 0xFC00003F ''%c'' ADDR_TYPE_NONE 0,
     DInstr ''cache'' 0xBC000000 0xFC000000 ''%k, %o'' ADDR_TYPE_NONE 0,
     DInstr ''cfc0'' 0x40400000 0xFFE007FF ''%t, %p'' ADDR_TYPE_NONE INSTR_TYPE_PSP,
     DInstr ''clo'' 0x00000017 0xFC1F07FF ''%d, %s'' ADDR_TYPE_NONE INSTR_TYPE_PSP,
     DInstr ''clz'' 0x00000016 0xFC1F07FF ''%d, %s'' ADDR_TYPE_NONE INSTR_TYPE_PSP,
     DInstr ''ctc0'' 0x40C00000 0xFFE007FF ''%t, %p'' ADDR_TYPE_NONE INSTR_TYPE_PSP,
     DInstr ''max'' 0x0000002C 0xFC0007FF ''%d, %s, %t'' ADDR_TYPE_NONE INSTR_TYPE_PSP,
     DInstr ''min'' 0x0000002D 0xFC0007FF ''%d, %s, %t'' ADDR_TYPE_NONE INSTR_TYPE_PSP,
     DInstr ''dbreak'' 0x7000003F 0xFFFFFFFF '''' ADDR_TYPE_NONE INSTR_TYPE_PSP,
     DInstr ''div'' 0x0000001A 0xFC00FFFF ''%s, %t'' ADDR_TYPE_NONE 0,
     DInstr ''divu'' 0x0000001B 0xFC00FFFF ''%s, %t'' ADDR_TYPE_NONE 0,
     DInstr ''dret'' 0x7000003E 0xFFFFFFFF '''' ADDR_TYPE_NONE INSTR_TYPE_PSP,
     DInstr ''eret'' 0x42000018 0xFFFFFFFF '''' ADDR_TYPE_NONE 0,
     DInstr ''ext'' 0x7C000000 0xFC00003F ''%t, %s, %a, %ne'' ADDR_TYPE_NONE INSTR_TYPE_PSP,
     DInstr ''ins'' 0x7C000004 0xFC00003F ''%t, %s, %a, %ni'' ADDR_TYPE_NONE INSTR_TYPE_PSP,
     DInstr ''j'' 0x08000000 0xFC000000 ''%j'' ADDR_TYPE_26 INSTR_TYPE_JUMP,
     DInstr ''jr'' 0x00000008 0xFC1FFFFF ''%J'' ADDR_TYPE_REG INSTR_TYPE_JUMP,
     DInstr ''jalr'' 0x00000009 0xFC1F07FF ''%J, %d'' ADDR_TYPE_REG INSTR_TYPE_JAL,
     DInstr ''jal'' 0x0C000000 0xFC000000 ''%j'' ADDR_TYPE_26 INSTR_TYPE_JAL,
     DInstr ''lb'' 0x80000000 0xFC000000 ''%t, %o'' ADDR_TYPE_NONE 0,
     DInstr ''lbu'' 0x90000000 0xFC000000 ''%t, %o'' ADDR_TYPE_NONE 0,
     DInstr ''lh'' 0x84000000 0xFC000000 ''%t, %o'' ADDR_TYPE_NONE 0,
     DInstr ''lhu'' 0x94000000 0xFC000000 ''%t, %o'' ADDR_TYPE_NONE 0,
     DInstr ''ll'' 0xC0000000 0xFC000000 ''%t, %O'' ADDR_TYPE_NONE 0,
     DInstr ''lui'' 0x3C000000 0xFFE00000 ''%t, %I'' ADDR_TYPE_NONE 0,
     DInstr ''lw'' 0x8C000000 0xFC000000 ''%t, %o'' ADDR_TYPE_NONE 0,
     DInstr ''lwl'' 0x88000000 0xFC000000 ''%t, %o'' ADDR_TYPE_NONE 0,
     DInstr ''lwr'' 0x98000000 0xFC000000 ''%t, %o'' ADDR_TYPE_NONE 0]"

definition dis_cpu_b :: "dinstr list" where
  "dis_cpu_b =
    [DInstr ''madd'' 0x0000001C 0xFC00FFFF ''%s, %t'' ADDR_TYPE_NONE INSTR_TYPE_PSP,
     DInstr ''maddu'' 0x0000001D 0xFC00FFFF ''%s, %t'' ADDR_TYPE_NONE INSTR_TYPE_PSP,
     DInstr ''mfc0'' 0x40000000 0xFFE007FF ''%t, %0'' ADDR_TYPE_NONE 0,
     DInstr ''mfdr'' 0x7000003D 0xFFE007FF ''%t, %r'' ADDR_TYPE_NONE INSTR_TYPE_PSP,
     DInstr ''mfhi'' 0x00000010 0xFFFF07FF ''%d'' ADDR_TYPE_NONE 0,
     DInstr ''mfic'' 0x70000024 0xFFE007FF ''%t, %p'' ADDR_TYPE_NONE INSTR_TYPE_PSP,
     DInstr ''mflo'' 0x00000012 0xFFFF07FF ''%d'' ADDR_TYPE_NONE 0,
     DInstr ''movn'' 0x0000000B 0xFC0007FF ''%d, %s, %t'' ADDR_TYPE_NONE INSTR_TYPE_PSP,
     DInstr ''movz'' 0x0000000A 0xFC0007FF ''%d, %s, %t'' ADDR_TYPE_NONE INSTR_TYPE_PSP,
     DInstr ''msub'' 0x0000002E 0xFC00FFFF ''%d, %t'' ADDR_TYPE_NONE INSTR_TYPE_PSP,
     DInstr ''msubu'' 0x0000002F 0xFC00FFFF ''%d, %t'' ADDR_TYPE_NONE INSTR_TYPE_PSP,
     DInstr ''mtc0'' 0x40800000 0xFFE007FF ''%t, %0'' ADDR_TYPE_NONE 0,
     DInstr ''mtdr'' 0x7080003D 0xFFE007FF ''%t, %r'' ADDR_TYPE_NONE INSTR_TYPE_PSP,
     DInstr ''mtic'' 0x70000026 0xFFE007FF ''%t, %p'' ADDR_TYPE_NONE INSTR_TYPE_PSP,
     DInstr ''halt'' 0x70000000 0xFFFFFFFF '''' ADDR_TYPE_NONE INSTR_TYPE_PSP,
     DInstr ''mthi'' 0x00000011 0xFC1FFFFF ''%s'' ADDR_TYPE_NONE 0,
     DInstr ''mtlo'' 0x00000013 0xFC1FFFFF ''%s'' ADDR_TYPE_NONE 0,
     DInstr ''mult'' 0x00000018 0xFC00FFFF ''%s, %t'' ADDR_TYPE_NONE 0,
     DInstr ''multu'' 0x00000019 0xFC0007FF ''%s, %t'' ADDR_TYPE_NONE 0,
     DInstr ''nor'' 0x00000027 0xFC0007FF ''%d, %s, %t'' ADDR_TYPE_NONE 0,
     DInstr ''or'' 0x00000025 0xFC0007FF ''%d, %s, %t'' ADDR_TYPE_NONE 0,
     DInstr ''ori'' 0x34000000 0xFC000000 ''%t, %s, %I'' ADDR_TYPE_NONE 0,
     DInstr ''rotr'' 0x00200002 0xFFE0003F ''%d, %t, %a'' ADDR_TYPE_NONE 0,
     DInstr ''rotv'' 0x00000046 0xFC0007FF ''%d, %t, %s'' ADDR_TYPE_NONE 0,
     DInstr ''seb'' 0x7C000420 0xFFE007FF ''%d, %t'' ADDR_TYPE_NONE 0,
     DInstr ''seh'' 0x7C000620 0xFFE007FF ''%d, %t'' ADDR_TYPE_NONE 0,
     DInstr ''sb'' 0xA0000000 0xFC000000 ''%t, %o'' ADDR_TYPE_NONE 0,
     DInstr ''sh'' 0xA4000000 0xFC000000 ''%t, %o'' ADDR_TYPE_NONE 0,
     DInstr ''sllv'' 0x00000004 0xFC0007FF ''%d, %t, %s'' ADDR_TYPE_NONE 0,
     DInstr ''sll'' 0x00000000 0xFFE0003F ''%d, %t, %a'' ADDR_TYPE_NONE 0,
     DInstr ''slt'' 0x0000002A 0xFC0007FF ''%d, %s, %t'' ADDR_TYPE_NONE 0,
     DInstr ''slti'' 0x28000000 0xFC000000 ''%t, %s, %i'' ADDR_TYPE_NONE 0,
     DInstr ''sltiu'' 0x2C000000 0xFC000000 ''%t, %s, %i'' ADDR_TYPE_NONE 0,
     DInstr ''sltu'' 0x0000002B 0xFC0007FF ''%d, %s, %t'' ADDR_TYPE_NONE 0,
     DInstr ''sra'' 0x00000003 0xFFE0003F ''%d, %t, %a'' ADDR_TYPE_NONE 0,
     DInstr ''srav'' 0x00000007 0xFC0007FF ''%d, %t, %s'' ADDR_TYPE_NONE 0,
     DInstr ''srlv'' 0x00000006 0xFC0007FF ''%d, %t, %s'' ADDR_TYPE_NONE 0,
     DInstr ''srl'' 0x00000002 0xFFE0003F ''%d, %t, %a'' ADDR_TYPE_NONE 0,
     DInstr ''sw'' 0xAC000000 0xFC000000 ''%t, %o'' ADDR_TYPE_NONE 0,
     DInstr ''swl'' 0xA8000000 0xFC000000 ''%t, %o'' ADDR_TYPE_NONE 0,
     DInstr ''swr'' 0xB8000000 0xFC000000 ''%t, %o'' ADDR_TYPE_NONE 0,
     DInstr ''sub'' 0x00000022 0xFC0007FF ''%d, %s, %t'' ADDR_TYPE_NONE 0,
     DInstr ''subu'' 0x00000023 0xFC0007FF ''%d, %s, %t'' ADDR_TYPE_NONE 0,
     DInstr ''sync'' 0x0000000F 0xFFFFFFFF '''' ADDR_TYPE_NONE 0,
     DInstr ''syscall'' 0x0000000C 0xFC00003F ''%C'' ADDR_TYPE_NONE 0,
     DInstr ''xor'' 0x00000026 0xFC0007FF ''%d, %s, %t'' ADDR_TYPE_NONE 0,
     DInstr ''xori'' 0x38000000 0xFC000000 ''%t, %s, %I'' ADDR_TYPE_NONE 0,
     DInstr ''wsbh'' 0x7C0000A0 0xFFE007FF ''%d, %t'' ADDR_TYPE_NONE INSTR_TYPE_PSP,
     DInstr ''wsbw'' 0x7C0000E0 0xFFE007FF ''%d, %t'' ADDR_TYPE_NONE INSTR_TYPE_PSP]"

text \<open>Those of the floating point unit and of the vector unit.\<close>

definition dis_fpu :: "dinstr list" where
  "dis_fpu =
    [DInstr ''abs.s'' 0x46000005 0xFFFF003F ''%D, %S'' ADDR_TYPE_NONE 0,
     DInstr ''add.s'' 0x46000000 0xFFE0003F ''%D, %S, %T'' ADDR_TYPE_NONE 0,
     DInstr ''bc1f'' 0x45000000 0xFFFF0000 ''%O'' ADDR_TYPE_16 INSTR_TYPE_B,
     DInstr ''bc1fl'' 0x45020000 0xFFFF0000 ''%O'' ADDR_TYPE_16 INSTR_TYPE_B,
     DInstr ''bc1t'' 0x45010000 0xFFFF0000 ''%O'' ADDR_TYPE_16 INSTR_TYPE_B,
     DInstr ''bc1tl'' 0x45030000 0xFFFF0000 ''%O'' ADDR_TYPE_16 INSTR_TYPE_B,
     DInstr ''c.f.s'' 0x46000030 0xFFE007FF ''%S, %T'' ADDR_TYPE_NONE 0,
     DInstr ''c.un.s'' 0x46000031 0xFFE007FF ''%S, %T'' ADDR_TYPE_NONE 0,
     DInstr ''c.eq.s'' 0x46000032 0xFFE007FF ''%S, %T'' ADDR_TYPE_NONE 0,
     DInstr ''c.ueq.s'' 0x46000033 0xFFE007FF ''%S, %T'' ADDR_TYPE_NONE 0,
     DInstr ''c.olt.s'' 0x46000034 0xFFE007FF ''%S, %T'' ADDR_TYPE_NONE 0,
     DInstr ''c.ult.s'' 0x46000035 0xFFE007FF ''%S, %T'' ADDR_TYPE_NONE 0,
     DInstr ''c.ole.s'' 0x46000036 0xFFE007FF ''%S, %T'' ADDR_TYPE_NONE 0,
     DInstr ''c.ule.s'' 0x46000037 0xFFE007FF ''%S, %T'' ADDR_TYPE_NONE 0,
     DInstr ''c.sf.s'' 0x46000038 0xFFE007FF ''%S, %T'' ADDR_TYPE_NONE 0,
     DInstr ''c.ngle.s'' 0x46000039 0xFFE007FF ''%S, %T'' ADDR_TYPE_NONE 0,
     DInstr ''c.seq.s'' 0x4600003A 0xFFE007FF ''%S, %T'' ADDR_TYPE_NONE 0,
     DInstr ''c.ngl.s'' 0x4600003B 0xFFE007FF ''%S, %T'' ADDR_TYPE_NONE 0,
     DInstr ''c.lt.s'' 0x4600003C 0xFFE007FF ''%S, %T'' ADDR_TYPE_NONE 0,
     DInstr ''c.nge.s'' 0x4600003D 0xFFE007FF ''%S, %T'' ADDR_TYPE_NONE 0,
     DInstr ''c.le.s'' 0x4600003E 0xFFE007FF ''%S, %T'' ADDR_TYPE_NONE 0,
     DInstr ''c.ngt.s'' 0x4600003F 0xFFE007FF ''%S, %T'' ADDR_TYPE_NONE 0,
     DInstr ''ceil.w.s'' 0x4600000E 0xFFFF003F ''%D, %S'' ADDR_TYPE_NONE 0,
     DInstr ''cfc1'' 0x44400000 0xFFE007FF ''%t, %p'' ADDR_TYPE_NONE 0,
     DInstr ''ctc1'' 0x44C00000 0xFFE007FF ''%t, %p'' ADDR_TYPE_NONE 0,
     DInstr ''cvt.s.w'' 0x46800020 0xFFFF003F ''%D, %S'' ADDR_TYPE_NONE 0,
     DInstr ''cvt.w.s'' 0x46000024 0xFFFF003F ''%D, %S'' ADDR_TYPE_NONE 0,
     DInstr ''div.s'' 0x46000003 0xFFE0003F ''%D, %S, %T'' ADDR_TYPE_NONE 0,
     DInstr ''floor.w.s'' 0x4600000F 0xFFFF003F ''%D, %S'' ADDR_TYPE_NONE 0,
     DInstr ''lwc1'' 0xC4000000 0xFC000000 ''%T, %o'' ADDR_TYPE_NONE 0,
     DInstr ''mfc1'' 0x44000000 0xFFE007FF ''%t, %1'' ADDR_TYPE_NONE 0,
     DInstr ''mov.s'' 0x46000006 0xFFFF003F ''%D, %S'' ADDR_TYPE_NONE 0,
     DInstr ''mtc1'' 0x44800000 0xFFE007FF ''%t, %1'' ADDR_TYPE_NONE 0,
     DInstr ''mul.s'' 0x46000002 0xFFE0003F ''%D, %S, %T'' ADDR_TYPE_NONE 0,
     DInstr ''neg.s'' 0x46000007 0xFFFF003F ''%D, %S'' ADDR_TYPE_NONE 0,
     DInstr ''round.w.s'' 0x4600000C 0xFFFF003F ''%D, %S'' ADDR_TYPE_NONE 0,
     DInstr ''sqrt.s'' 0x46000004 0xFFFF003F ''%D, %S'' ADDR_TYPE_NONE 0,
     DInstr ''sub.s'' 0x46000001 0xFFE0003F ''%D, %S, %T'' ADDR_TYPE_NONE 0,
     DInstr ''swc1'' 0xE4000000 0xFC000000 ''%T, %o'' ADDR_TYPE_NONE 0,
     DInstr ''trunc.w.s'' 0x4600000D 0xFFFF003F ''%D, %S'' ADDR_TYPE_NONE 0]"

definition dis_vfpu_a :: "dinstr list" where
  "dis_vfpu_a =
    [DInstr ''bvf'' 0x49000000 0xFFE30000 ''%Zc, %O'' ADDR_TYPE_16 (INSTR_TYPE_PSP OR INSTR_TYPE_B),
     DInstr ''bvfl'' 0x49020000 0xFFE30000 ''%Zc, %O'' ADDR_TYPE_16 (INSTR_TYPE_PSP OR INSTR_TYPE_B),
     DInstr ''bvt'' 0x49010000 0xFFE30000 ''%Zc, %O'' ADDR_TYPE_16 (INSTR_TYPE_PSP OR INSTR_TYPE_B),
     DInstr ''bvtl'' 0x49030000 0xFFE30000 ''%Zc, %O'' ADDR_TYPE_16 (INSTR_TYPE_PSP OR INSTR_TYPE_B),
     DInstr ''lv.q'' 0xD8000000 0xFC000002 ''%Xq, %Y'' ADDR_TYPE_NONE INSTR_TYPE_PSP,
     DInstr ''lv.s'' 0xC8000000 0xFC000000 ''%Xs, %Y'' ADDR_TYPE_NONE INSTR_TYPE_PSP,
     DInstr ''lvl.q'' 0xD4000000 0xFC000002 ''%Xq, %Y'' ADDR_TYPE_NONE INSTR_TYPE_PSP,
     DInstr ''lvr.q'' 0xD4000002 0xFC000002 ''%Xq, %Y'' ADDR_TYPE_NONE INSTR_TYPE_PSP,
     DInstr ''mfv'' 0x48600000 0xFFE0FF80 ''%t, %zs'' ADDR_TYPE_NONE INSTR_TYPE_PSP,
     DInstr ''mfvc'' 0x48600000 0xFFE0FF00 ''%t, %2d'' ADDR_TYPE_NONE INSTR_TYPE_PSP,
     DInstr ''mtv'' 0x48E00000 0xFFE0FF80 ''%t, %zs'' ADDR_TYPE_NONE INSTR_TYPE_PSP,
     DInstr ''mtvc'' 0x48E00000 0xFFE0FF00 ''%t, %2d'' ADDR_TYPE_NONE INSTR_TYPE_PSP,
     DInstr ''sv.q'' 0xF8000000 0xFC000002 ''%Xq, %Y'' ADDR_TYPE_NONE INSTR_TYPE_PSP,
     DInstr ''sv.s'' 0xE8000000 0xFC000000 ''%Xs, %Y'' ADDR_TYPE_NONE INSTR_TYPE_PSP,
     DInstr ''svl.q'' 0xF4000000 0xFC000002 ''%Xq, %Y'' ADDR_TYPE_NONE INSTR_TYPE_PSP,
     DInstr ''svr.q'' 0xF4000002 0xFC000002 ''%Xq, %Y'' ADDR_TYPE_NONE INSTR_TYPE_PSP,
     DInstr ''vabs.p'' 0xD0010080 0xFFFF8080 ''%zp, %yp'' ADDR_TYPE_NONE INSTR_TYPE_PSP,
     DInstr ''vabs.q'' 0xD0018080 0xFFFF8080 ''%zq, %yq'' ADDR_TYPE_NONE INSTR_TYPE_PSP,
     DInstr ''vabs.s'' 0xD0010000 0xFFFF8080 ''%zs, %ys'' ADDR_TYPE_NONE INSTR_TYPE_PSP,
     DInstr ''vabs.t'' 0xD0018000 0xFFFF8080 ''%zt, %yt'' ADDR_TYPE_NONE INSTR_TYPE_PSP,
     DInstr ''vadd.p'' 0x60000080 0xFF808080 ''%zp, %yp, %xp'' ADDR_TYPE_NONE INSTR_TYPE_PSP,
     DInstr ''vadd.q'' 0x60008080 0xFF808080 ''%zq, %yq, %xq'' ADDR_TYPE_NONE INSTR_TYPE_PSP,
     DInstr ''vadd.s'' 0x60000000 0xFF808080 ''%zs, %ys, %xs'' ADDR_TYPE_NONE INSTR_TYPE_PSP,
     DInstr ''vadd.t'' 0x60008000 0xFF808080 ''%zt, %yt, %xt'' ADDR_TYPE_NONE INSTR_TYPE_PSP,
     DInstr ''vasin.p'' 0xD0170080 0xFFFF8080 ''%zp, %yp'' ADDR_TYPE_NONE INSTR_TYPE_PSP,
     DInstr ''vasin.q'' 0xD0178080 0xFFFF8080 ''%zq, %yq'' ADDR_TYPE_NONE INSTR_TYPE_PSP,
     DInstr ''vasin.s'' 0xD0170000 0xFFFF8080 ''%zs, %ys'' ADDR_TYPE_NONE INSTR_TYPE_PSP,
     DInstr ''vasin.t'' 0xD0178000 0xFFFF8080 ''%zt, %yt'' ADDR_TYPE_NONE INSTR_TYPE_PSP,
     DInstr ''vavg.p'' 0xD0470080 0xFFFF8080 ''%zp, %yp'' ADDR_TYPE_NONE INSTR_TYPE_PSP,
     DInstr ''vavg.q'' 0xD0478080 0xFFFF8080 ''%zq, %yq'' ADDR_TYPE_NONE INSTR_TYPE_PSP,
     DInstr ''vavg.t'' 0xD0478000 0xFFFF8080 ''%zt, %yt'' ADDR_TYPE_NONE INSTR_TYPE_PSP,
     DInstr ''vbfy1.p'' 0xD0420080 0xFFFF8080 ''%zp, %yp'' ADDR_TYPE_NONE INSTR_TYPE_PSP,
     DInstr ''vbfy1.q'' 0xD0428080 0xFFFF8080 ''%zq, %yq'' ADDR_TYPE_NONE INSTR_TYPE_PSP,
     DInstr ''vbfy2.q'' 0xD0438080 0xFFFF8080 ''%zq, %yq'' ADDR_TYPE_NONE INSTR_TYPE_PSP,
     DInstr ''vcmovf.p'' 0xD2A80080 0xFFF88080 ''%zp, %yp, %v3'' ADDR_TYPE_NONE INSTR_TYPE_PSP,
     DInstr ''vcmovf.q'' 0xD2A88080 0xFFF88080 ''%zq, %yq, %v3'' ADDR_TYPE_NONE INSTR_TYPE_PSP,
     DInstr ''vcmovf.s'' 0xD2A80000 0xFFF88080 ''%zs, %ys, %v3'' ADDR_TYPE_NONE INSTR_TYPE_PSP,
     DInstr ''vcmovf.t'' 0xD2A88000 0xFFF88080 ''%zt, %yt, %v3'' ADDR_TYPE_NONE INSTR_TYPE_PSP,
     DInstr ''vcmovt.p'' 0xD2A00080 0xFFF88080 ''%zp, %yp, %v3'' ADDR_TYPE_NONE INSTR_TYPE_PSP,
     DInstr ''vcmovt.q'' 0xD2A08080 0xFFF88080 ''%zq, %yq, %v3'' ADDR_TYPE_NONE INSTR_TYPE_PSP,
     DInstr ''vcmovt.s'' 0xD2A00000 0xFFF88080 ''%zs, %ys, %v3'' ADDR_TYPE_NONE INSTR_TYPE_PSP]"

definition dis_vfpu_b :: "dinstr list" where
  "dis_vfpu_b =
    [DInstr ''vcmovt.t'' 0xD2A08000 0xFFF88080 ''%zt, %yt, %v3'' ADDR_TYPE_NONE INSTR_TYPE_PSP,
     DInstr ''vcmp.p'' 0x6C000080 0xFF8080F0 ''%Zn, %yp, %xp'' ADDR_TYPE_NONE INSTR_TYPE_PSP,
     DInstr ''vcmp.p'' 0x6C000080 0xFFFF80F0 ''%Zn, %yp'' ADDR_TYPE_NONE INSTR_TYPE_PSP,
     DInstr ''vcmp.p'' 0x6C000080 0xFFFFFFF0 ''%Zn'' ADDR_TYPE_NONE INSTR_TYPE_PSP,
     DInstr ''vcmp.q'' 0x6C008080 0xFF8080F0 ''%Zn, %yq, %xq'' ADDR_TYPE_NONE INSTR_TYPE_PSP,
     DInstr ''vcmp.q'' 0x6C008080 0xFFFF80F0 ''%Zn, %yq'' ADDR_TYPE_NONE INSTR_TYPE_PSP,
     DInstr ''vcmp.q'' 0x6C008080 0xFFFFFFF0 ''%Zn'' ADDR_TYPE_NONE INSTR_TYPE_PSP,
     DInstr ''vcmp.s'' 0x6C000000 0xFF8080F0 ''%Zn, %ys, %xs'' ADDR_TYPE_NONE INSTR_TYPE_PSP,
     DInstr ''vcmp.s'' 0x6C000000 0xFFFF80F0 ''%Zn, %ys'' ADDR_TYPE_NONE INSTR_TYPE_PSP,
     DInstr ''vcmp.s'' 0x6C000000 0xFFFFFFF0 ''%Zn'' ADDR_TYPE_NONE INSTR_TYPE_PSP,
     DInstr ''vcmp.t'' 0x6C008000 0xFF8080F0 ''%Zn, %yt, %xt'' ADDR_TYPE_NONE INSTR_TYPE_PSP,
     DInstr ''vcmp.t'' 0x6C008000 0xFFFF80F0 ''%Zn, %yt'' ADDR_TYPE_NONE INSTR_TYPE_PSP,
     DInstr ''vcmp.t'' 0x6C008000 0xFFFFFFF0 ''%Zn'' ADDR_TYPE_NONE INSTR_TYPE_PSP,
     DInstr ''vcos.p'' 0xD0130080 0xFFFF8080 ''%zp, %yp'' ADDR_TYPE_NONE INSTR_TYPE_PSP,
     DInstr ''vcos.q'' 0xD0138080 0xFFFF8080 ''%zq, %yq'' ADDR_TYPE_NONE INSTR_TYPE_PSP,
     DInstr ''vcos.s'' 0xD0130000 0xFFFF8080 ''%zs, %ys'' ADDR_TYPE_NONE INSTR_TYPE_PSP,
     DInstr ''vcos.t'' 0xD0138000 0xFFFF8080 ''%zt, %yt'' ADDR_TYPE_NONE INSTR_TYPE_PSP,
     DInstr ''vcrs.t'' 0x66808000 0xFF808080 ''%zt, %yt, %xt'' ADDR_TYPE_NONE INSTR_TYPE_PSP,
     DInstr ''vcrsp.t'' 0xF2808000 0xFF808080 ''%zt, %yt, %xt'' ADDR_TYPE_NONE INSTR_TYPE_PSP,
     DInstr ''vcst.p'' 0xD0600080 0xFFE0FF80 ''%zp, %vk'' ADDR_TYPE_NONE INSTR_TYPE_PSP,
     DInstr ''vcst.q'' 0xD0608080 0xFFE0FF80 ''%zq, %vk'' ADDR_TYPE_NONE INSTR_TYPE_PSP,
     DInstr ''vcst.s'' 0xD0600000 0xFFE0FF80 ''%zs, %vk'' ADDR_TYPE_NONE INSTR_TYPE_PSP,
     DInstr ''vcst.t'' 0xD0608000 0xFFE0FF80 ''%zt, %vk'' ADDR_TYPE_NONE INSTR_TYPE_PSP,
     DInstr ''vdet.p'' 0x67000080 0xFF808080 ''%zs, %yp, %xp'' ADDR_TYPE_NONE INSTR_TYPE_PSP,
     DInstr ''vdiv.p'' 0x63800080 0xFF808080 ''%zp, %yp, %xp'' ADDR_TYPE_NONE INSTR_TYPE_PSP,
     DInstr ''vdiv.q'' 0x63808080 0xFF808080 ''%zq, %yq, %xq'' ADDR_TYPE_NONE INSTR_TYPE_PSP,
     DInstr ''vdiv.s'' 0x63800000 0xFF808080 ''%zs, %ys, %xs'' ADDR_TYPE_NONE INSTR_TYPE_PSP,
     DInstr ''vdiv.t'' 0x63808000 0xFF808080 ''%zt, %yt, %xt'' ADDR_TYPE_NONE INSTR_TYPE_PSP,
     DInstr ''vdot.p'' 0x64800080 0xFF808080 ''%zs, %yp, %xp'' ADDR_TYPE_NONE INSTR_TYPE_PSP,
     DInstr ''vdot.q'' 0x64808080 0xFF808080 ''%zs, %yq, %xq'' ADDR_TYPE_NONE INSTR_TYPE_PSP,
     DInstr ''vdot.t'' 0x64808000 0xFF808080 ''%zs, %yt, %xt'' ADDR_TYPE_NONE INSTR_TYPE_PSP,
     DInstr ''vexp2.p'' 0xD0140080 0xFFFF8080 ''%zp, %yp'' ADDR_TYPE_NONE INSTR_TYPE_PSP,
     DInstr ''vexp2.q'' 0xD0148080 0xFFFF8080 ''%zq, %yq'' ADDR_TYPE_NONE INSTR_TYPE_PSP,
     DInstr ''vexp2.s'' 0xD0140000 0xFFFF8080 ''%zs, %ys'' ADDR_TYPE_NONE INSTR_TYPE_PSP,
     DInstr ''vexp2.t'' 0xD0148000 0xFFFF8080 ''%zt, %yt'' ADDR_TYPE_NONE INSTR_TYPE_PSP,
     DInstr ''vf2h.p'' 0xD0320080 0xFFFF8080 ''%zs, %yp'' ADDR_TYPE_NONE INSTR_TYPE_PSP,
     DInstr ''vf2h.q'' 0xD0328080 0xFFFF8080 ''%zp, %yq'' ADDR_TYPE_NONE INSTR_TYPE_PSP,
     DInstr ''vf2id.p'' 0xD2600080 0xFFE08080 ''%zp, %yp, %v5'' ADDR_TYPE_NONE INSTR_TYPE_PSP,
     DInstr ''vf2id.q'' 0xD2608080 0xFFE08080 ''%zq, %yq, %v5'' ADDR_TYPE_NONE INSTR_TYPE_PSP,
     DInstr ''vf2id.s'' 0xD2600000 0xFFE08080 ''%zs, %ys, %v5'' ADDR_TYPE_NONE INSTR_TYPE_PSP,
     DInstr ''vf2id.t'' 0xD2608000 0xFFE08080 ''%zt, %yt, %v5'' ADDR_TYPE_NONE INSTR_TYPE_PSP]"

definition dis_vfpu_c :: "dinstr list" where
  "dis_vfpu_c =
    [DInstr ''vf2in.p'' 0xD2000080 0xFFE08080 ''%zp, %yp, %v5'' ADDR_TYPE_NONE INSTR_TYPE_PSP,
     DInstr ''vf2in.q'' 0xD2008080 0xFFE08080 ''%zq, %yq, %v5'' ADDR_TYPE_NONE INSTR_TYPE_PSP,
     DInstr ''vf2in.s'' 0xD2000000 0xFFE08080 ''%zs, %ys, %v5'' ADDR_TYPE_NONE INSTR_TYPE_PSP,
     DInstr ''vf2in.t'' 0xD2008000 0xFFE08080 ''%zt, %yt, %v5'' ADDR_TYPE_NONE INSTR_TYPE_PSP,
     DInstr ''vf2iu.p'' 0xD2400080 0xFFE08080 ''%zp, %yp, %v5'' ADDR_TYPE_NONE INSTR_TYPE_PSP,
     DInstr ''vf2iu.q'' 0xD2408080 0xFFE08080 ''%zq, %yq, %v5'' ADDR_TYPE_NONE INSTR_TYPE_PSP,
     DInstr ''vf2iu.s'' 0xD2400000 0xFFE08080 ''%zs, %ys, %v5'' ADDR_TYPE_NONE INSTR_TYPE_PSP,
     DInstr ''vf2iu.t'' 0xD2408000 0xFFE08080 ''%zt, %yt, %v5'' ADDR_TYPE_NONE INSTR_TYPE_PSP,
     DInstr ''vf2iz.p'' 0xD2200080 0xFFE08080 ''%zp, %yp, %v5'' ADDR_TYPE_NONE INSTR_TYPE_PSP,
     DInstr ''vf2iz.q'' 0xD2208080 0xFFE08080 ''%zq, %yq, %v5'' ADDR_TYPE_NONE INSTR_TYPE_PSP,
     DInstr ''vf2iz.s'' 0xD2200000 0xFFE08080 ''%zs, %ys, %v5'' ADDR_TYPE_NONE INSTR_TYPE_PSP,
     DInstr ''vf2iz.t'' 0xD2208000 0xFFE08080 ''%zt, %yt, %v5'' ADDR_TYPE_NONE INSTR_TYPE_PSP,
     DInstr ''vfad.p'' 0xD0460080 0xFFFF8080 ''%zp, %yp'' ADDR_TYPE_NONE INSTR_TYPE_PSP,
     DInstr ''vfad.q'' 0xD0468080 0xFFFF8080 ''%zq, %yq'' ADDR_TYPE_NONE INSTR_TYPE_PSP,
     DInstr ''vfad.t'' 0xD0468000 0xFFFF8080 ''%zt, %yt'' ADDR_TYPE_NONE INSTR_TYPE_PSP,
     DInstr ''vfim.s'' 0xDF800000 0xFF800000 ''%xs, %vh'' ADDR_TYPE_NONE INSTR_TYPE_PSP,
     DInstr ''vflush'' 0xFFFF040D 0xFFFFFFFF '''' ADDR_TYPE_NONE INSTR_TYPE_PSP,
     DInstr ''vh2f.p'' 0xD0330080 0xFFFF8080 ''%zq, %yp'' ADDR_TYPE_NONE INSTR_TYPE_PSP,
     DInstr ''vh2f.s'' 0xD0330000 0xFFFF8080 ''%zp, %ys'' ADDR_TYPE_NONE INSTR_TYPE_PSP,
     DInstr ''vhdp.p'' 0x66000080 0xFF808080 ''%zs, %yp, %xp'' ADDR_TYPE_NONE INSTR_TYPE_PSP,
     DInstr ''vhdp.q'' 0x66008080 0xFF808080 ''%zs, %yq, %xq'' ADDR_TYPE_NONE INSTR_TYPE_PSP,
     DInstr ''vhdp.t'' 0x66008000 0xFF808080 ''%zs, %yt, %xt'' ADDR_TYPE_NONE INSTR_TYPE_PSP,
     DInstr ''vhtfm2.p'' 0xF0800000 0xFF808080 ''%zp, %ym, %xp'' ADDR_TYPE_NONE INSTR_TYPE_PSP,
     DInstr ''vhtfm3.t'' 0xF1000080 0xFF808080 ''%zt, %yn, %xt'' ADDR_TYPE_NONE INSTR_TYPE_PSP,
     DInstr ''vhtfm4.q'' 0xF1808000 0xFF808080 ''%zq, %yo, %xq'' ADDR_TYPE_NONE INSTR_TYPE_PSP,
     DInstr ''vi2c.q'' 0xD03D8080 0xFFFF8080 ''%zs, %yq'' ADDR_TYPE_NONE INSTR_TYPE_PSP,
     DInstr ''vi2f.p'' 0xD2800080 0xFFE08080 ''%zp, %yp, %v5'' ADDR_TYPE_NONE INSTR_TYPE_PSP,
     DInstr ''vi2f.q'' 0xD2808080 0xFFE08080 ''%zq, %yq, %v5'' ADDR_TYPE_NONE INSTR_TYPE_PSP,
     DInstr ''vi2f.s'' 0xD2800000 0xFFE08080 ''%zs, %ys, %v5'' ADDR_TYPE_NONE INSTR_TYPE_PSP,
     DInstr ''vi2f.t'' 0xD2808000 0xFFE08080 ''%zt, %yt, %v5'' ADDR_TYPE_NONE INSTR_TYPE_PSP,
     DInstr ''vi2s.p'' 0xD03F0080 0xFFFF8080 ''%zs, %yp'' ADDR_TYPE_NONE INSTR_TYPE_PSP,
     DInstr ''vi2s.q'' 0xD03F8080 0xFFFF8080 ''%zp, %yq'' ADDR_TYPE_NONE INSTR_TYPE_PSP,
     DInstr ''vi2uc.q'' 0xD03C8080 0xFFFF8080 ''%zq, %yq'' ADDR_TYPE_NONE INSTR_TYPE_PSP,
     DInstr ''vi2us.p'' 0xD03E0080 0xFFFF8080 ''%zq, %yq'' ADDR_TYPE_NONE INSTR_TYPE_PSP,
     DInstr ''vi2us.q'' 0xD03E8080 0xFFFF8080 ''%zq, %yq'' ADDR_TYPE_NONE INSTR_TYPE_PSP,
     DInstr ''vidt.p'' 0xD0030080 0xFFFFFF80 ''%zp'' ADDR_TYPE_NONE INSTR_TYPE_PSP,
     DInstr ''vidt.q'' 0xD0038080 0xFFFFFF80 ''%zq'' ADDR_TYPE_NONE INSTR_TYPE_PSP,
     DInstr ''viim.s'' 0xDF000000 0xFF800000 ''%xs, %vi'' ADDR_TYPE_NONE INSTR_TYPE_PSP,
     DInstr ''vlgb.s'' 0xD0370000 0xFFFF8080 ''%zs, %ys'' ADDR_TYPE_NONE INSTR_TYPE_PSP,
     DInstr ''vlog2.p'' 0xD0150080 0xFFFF8080 ''%zp, %yp'' ADDR_TYPE_NONE INSTR_TYPE_PSP,
     DInstr ''vlog2.q'' 0xD0158080 0xFFFF8080 ''%zq, %yq'' ADDR_TYPE_NONE INSTR_TYPE_PSP]"

definition dis_vfpu_d :: "dinstr list" where
  "dis_vfpu_d =
    [DInstr ''vlog2.s'' 0xD0150000 0xFFFF8080 ''%zs, %ys'' ADDR_TYPE_NONE INSTR_TYPE_PSP,
     DInstr ''vlog2.t'' 0xD0158000 0xFFFF8080 ''%zt, %yt'' ADDR_TYPE_NONE INSTR_TYPE_PSP,
     DInstr ''vmax.p'' 0x6D800080 0xFF808080 ''%zp, %yp, %xp'' ADDR_TYPE_NONE INSTR_TYPE_PSP,
     DInstr ''vmax.q'' 0x6D808080 0xFF808080 ''%zq, %yq, %xq'' ADDR_TYPE_NONE INSTR_TYPE_PSP,
     DInstr ''vmax.s'' 0x6D800000 0xFF808080 ''%zs, %ys, %xs'' ADDR_TYPE_NONE INSTR_TYPE_PSP,
     DInstr ''vmax.t'' 0x6D808000 0xFF808080 ''%zt, %yt, %xt'' ADDR_TYPE_NONE INSTR_TYPE_PSP,
     DInstr ''vmfvc'' 0xD0500000 0xFFFF0080 ''%zs, %2s'' ADDR_TYPE_NONE INSTR_TYPE_PSP,
     DInstr ''vmidt.p'' 0xF3830080 0xFFFFFF80 ''%zm'' ADDR_TYPE_NONE INSTR_TYPE_PSP,
     DInstr ''vmidt.q'' 0xF3838080 0xFFFFFF80 ''%zo'' ADDR_TYPE_NONE INSTR_TYPE_PSP,
     DInstr ''vmidt.t'' 0xF3838000 0xFFFFFF80 ''%zn'' ADDR_TYPE_NONE INSTR_TYPE_PSP,
     DInstr ''vmin.p'' 0x6D000080 0xFF808080 ''%zp, %yp, %xp'' ADDR_TYPE_NONE INSTR_TYPE_PSP,
     DInstr ''vmin.q'' 0x6D008080 0xFF808080 ''%zq, %yq, %xq'' ADDR_TYPE_NONE INSTR_TYPE_PSP,
     DInstr ''vmin.s'' 0x6D000000 0xFF808080 ''%zs, %ys, %xs'' ADDR_TYPE_NONE INSTR_TYPE_PSP,
     DInstr ''vmin.t'' 0x6D008000 0xFF808080 ''%zt, %yt, %xt'' ADDR_TYPE_NONE INSTR_TYPE_PSP,
     DInstr ''vmmov.p'' 0xF3800080 0xFFFF8080 ''%zm, %ym'' ADDR_TYPE_NONE INSTR_TYPE_PSP,
     DInstr ''vmmov.q'' 0xF3808080 0xFFFF8080 ''%zo, %yo'' ADDR_TYPE_NONE INSTR_TYPE_PSP,
     DInstr ''vmmov.t'' 0xF3808000 0xFFFF8080 ''%zn, %yn'' ADDR_TYPE_NONE INSTR_TYPE_PSP,
     DInstr ''vmmul.p'' 0xF0000080 0xFF808080 ''%?%zm, %ym, %xm'' ADDR_TYPE_NONE INSTR_TYPE_PSP,
     DInstr ''vmmul.q'' 0xF0008080 0xFF808080 ''%?%zo, %yo, %xo'' ADDR_TYPE_NONE INSTR_TYPE_PSP,
     DInstr ''vmmul.t'' 0xF0008000 0xFF808080 ''%?%zn, %yn, %xn'' ADDR_TYPE_NONE INSTR_TYPE_PSP,
     DInstr ''vmone.p'' 0xF3870080 0xFFFFFF80 ''%zp'' ADDR_TYPE_NONE INSTR_TYPE_PSP,
     DInstr ''vmone.q'' 0xF3878080 0xFFFFFF80 ''%zq'' ADDR_TYPE_NONE INSTR_TYPE_PSP,
     DInstr ''vmone.t'' 0xF3878000 0xFFFFFF80 ''%zt'' ADDR_TYPE_NONE INSTR_TYPE_PSP,
     DInstr ''vmov.p'' 0xD0000080 0xFFFF8080 ''%zp, %yp'' ADDR_TYPE_NONE INSTR_TYPE_PSP,
     DInstr ''vmov.q'' 0xD0008080 0xFFFF8080 ''%zq, %yq'' ADDR_TYPE_NONE INSTR_TYPE_PSP,
     DInstr ''vmov.s'' 0xD0000000 0xFFFF8080 ''%zs, %ys'' ADDR_TYPE_NONE INSTR_TYPE_PSP,
     DInstr ''vmov.t'' 0xD0008000 0xFFFF8080 ''%zt, %yt'' ADDR_TYPE_NONE INSTR_TYPE_PSP,
     DInstr ''vmscl.p'' 0xF2000080 0xFF808080 ''%zm, %ym, %xs'' ADDR_TYPE_NONE INSTR_TYPE_PSP,
     DInstr ''vmscl.q'' 0xF2008080 0xFF808080 ''%zo, %yo, %xs'' ADDR_TYPE_NONE INSTR_TYPE_PSP,
     DInstr ''vmscl.t'' 0xF2008000 0xFF808080 ''%zn, %yn, %xs'' ADDR_TYPE_NONE INSTR_TYPE_PSP,
     DInstr ''vmtvc'' 0xD0510000 0xFFFF8000 ''%2d, %ys'' ADDR_TYPE_NONE INSTR_TYPE_PSP,
     DInstr ''vmul.p'' 0x64000080 0xFF808080 ''%zp, %yp, %xp'' ADDR_TYPE_NONE INSTR_TYPE_PSP,
     DInstr ''vmul.q'' 0x64008080 0xFF808080 ''%zq, %yq, %xq'' ADDR_TYPE_NONE INSTR_TYPE_PSP,
     DInstr ''vmul.s'' 0x64000000 0xFF808080 ''%zs, %ys, %xs'' ADDR_TYPE_NONE INSTR_TYPE_PSP,
     DInstr ''vmul.t'' 0x64008000 0xFF808080 ''%zt, %yt, %xt'' ADDR_TYPE_NONE INSTR_TYPE_PSP,
     DInstr ''vmzero.p'' 0xF3860080 0xFFFFFF80 ''%zm'' ADDR_TYPE_NONE INSTR_TYPE_PSP,
     DInstr ''vmzero.q'' 0xF3868080 0xFFFFFF80 ''%zo'' ADDR_TYPE_NONE INSTR_TYPE_PSP,
     DInstr ''vmzero.t'' 0xF3868000 0xFFFFFF80 ''%zn'' ADDR_TYPE_NONE INSTR_TYPE_PSP,
     DInstr ''vneg.p'' 0xD0020080 0xFFFF8080 ''%zp, %yp'' ADDR_TYPE_NONE INSTR_TYPE_PSP,
     DInstr ''vneg.q'' 0xD0028080 0xFFFF8080 ''%zq, %yq'' ADDR_TYPE_NONE INSTR_TYPE_PSP,
     DInstr ''vneg.s'' 0xD0020000 0xFFFF8080 ''%zs, %ys'' ADDR_TYPE_NONE INSTR_TYPE_PSP]"

definition dis_vfpu_e :: "dinstr list" where
  "dis_vfpu_e =
    [DInstr ''vneg.t'' 0xD0028000 0xFFFF8080 ''%zt, %yt'' ADDR_TYPE_NONE INSTR_TYPE_PSP,
     DInstr ''vnop'' 0xFFFF0000 0xFFFFFFFF '''' ADDR_TYPE_NONE INSTR_TYPE_PSP,
     DInstr ''vnrcp.p'' 0xD0180080 0xFFFF8080 ''%zp, %yp'' ADDR_TYPE_NONE INSTR_TYPE_PSP,
     DInstr ''vnrcp.q'' 0xD0188080 0xFFFF8080 ''%zq, %yq'' ADDR_TYPE_NONE INSTR_TYPE_PSP,
     DInstr ''vnrcp.s'' 0xD0180000 0xFFFF8080 ''%zs, %ys'' ADDR_TYPE_NONE INSTR_TYPE_PSP,
     DInstr ''vnrcp.t'' 0xD0188000 0xFFFF8080 ''%zt, %yt'' ADDR_TYPE_NONE INSTR_TYPE_PSP,
     DInstr ''vnsin.p'' 0xD01A0080 0xFFFF8080 ''%zp, %yp'' ADDR_TYPE_NONE INSTR_TYPE_PSP,
     DInstr ''vnsin.q'' 0xD01A8080 0xFFFF8080 ''%zq, %yq'' ADDR_TYPE_NONE INSTR_TYPE_PSP,
     DInstr ''vnsin.s'' 0xD01A0000 0xFFFF8080 ''%zs, %ys'' ADDR_TYPE_NONE INSTR_TYPE_PSP,
     DInstr ''vnsin.t'' 0xD01A8000 0xFFFF8080 ''%zt, %yt'' ADDR_TYPE_NONE INSTR_TYPE_PSP,
     DInstr ''vocp.p'' 0xD0440080 0xFFFF8080 ''%zp, %yp'' ADDR_TYPE_NONE INSTR_TYPE_PSP,
     DInstr ''vocp.q'' 0xD0448080 0xFFFF8080 ''%zq, %yq'' ADDR_TYPE_NONE INSTR_TYPE_PSP,
     DInstr ''vocp.s'' 0xD0440000 0xFFFF8080 ''%zs, %ys'' ADDR_TYPE_NONE INSTR_TYPE_PSP,
     DInstr ''vocp.t'' 0xD0448000 0xFFFF8080 ''%zt, %yt'' ADDR_TYPE_NONE INSTR_TYPE_PSP,
     DInstr ''vone.p'' 0xD0070080 0xFFFFFF80 ''%zp'' ADDR_TYPE_NONE INSTR_TYPE_PSP,
     DInstr ''vone.q'' 0xD0078080 0xFFFFFF80 ''%zq'' ADDR_TYPE_NONE INSTR_TYPE_PSP,
     DInstr ''vone.s'' 0xD0070000 0xFFFFFF80 ''%zs'' ADDR_TYPE_NONE INSTR_TYPE_PSP,
     DInstr ''vone.t'' 0xD0078000 0xFFFFFF80 ''%zt'' ADDR_TYPE_NONE INSTR_TYPE_PSP,
     DInstr ''vpfxd'' 0xDE000000 0xFF000000 ''[%vp4, %vp5, %vp6, %vp7]'' ADDR_TYPE_NONE INSTR_TYPE_PSP,
     DInstr ''vpfxs'' 0xDC000000 0xFF000000 ''[%vp0, %vp1, %vp2, %vp3]'' ADDR_TYPE_NONE INSTR_TYPE_PSP,
     DInstr ''vpfxt'' 0xDD000000 0xFF000000 ''[%vp0, %vp1, %vp2, %vp3]'' ADDR_TYPE_NONE INSTR_TYPE_PSP,
     DInstr ''vqmul.q'' 0xF2808080 0xFF808080 ''%zq, %yq, %xq'' ADDR_TYPE_NONE INSTR_TYPE_PSP,
     DInstr ''vrcp.p'' 0xD0100080 0xFFFF8080 ''%zp, %yp'' ADDR_TYPE_NONE INSTR_TYPE_PSP,
     DInstr ''vrcp.q'' 0xD0108080 0xFFFF8080 ''%zq, %yq'' ADDR_TYPE_NONE INSTR_TYPE_PSP,
     DInstr ''vrcp.s'' 0xD0100000 0xFFFF8080 ''%zs, %ys'' ADDR_TYPE_NONE INSTR_TYPE_PSP,
     DInstr ''vrcp.t'' 0xD0108000 0xFFFF8080 ''%zt, %yt'' ADDR_TYPE_NONE INSTR_TYPE_PSP,
     DInstr ''vrexp2.p'' 0xD01C0080 0xFFFF8080 ''%zp, %yp'' ADDR_TYPE_NONE INSTR_TYPE_PSP,
     DInstr ''vrexp2.q'' 0xD01C8080 0xFFFF8080 ''%zq, %yq'' ADDR_TYPE_NONE INSTR_TYPE_PSP,
     DInstr ''vrexp2.s'' 0xD01C0000 0xFFFF8080 ''%zs, %ys'' ADDR_TYPE_NONE INSTR_TYPE_PSP,
     DInstr ''vrexp2.t'' 0xD01C8000 0xFFFF8080 ''%zt, %yt'' ADDR_TYPE_NONE INSTR_TYPE_PSP,
     DInstr ''vrndf1.p'' 0xD0220080 0xFFFFFF80 ''%zp'' ADDR_TYPE_NONE INSTR_TYPE_PSP,
     DInstr ''vrndf1.q'' 0xD0228080 0xFFFFFF80 ''%zq'' ADDR_TYPE_NONE INSTR_TYPE_PSP,
     DInstr ''vrndf1.s'' 0xD0220000 0xFFFFFF80 ''%zs'' ADDR_TYPE_NONE INSTR_TYPE_PSP,
     DInstr ''vrndf1.t'' 0xD0228000 0xFFFFFF80 ''%zt'' ADDR_TYPE_NONE INSTR_TYPE_PSP,
     DInstr ''vrndf2.p'' 0xD0230080 0xFFFFFF80 ''%zp'' ADDR_TYPE_NONE INSTR_TYPE_PSP,
     DInstr ''vrndf2.q'' 0xD0238080 0xFFFFFF80 ''%zq'' ADDR_TYPE_NONE INSTR_TYPE_PSP,
     DInstr ''vrndf2.s'' 0xD0230000 0xFFFFFF80 ''%zs'' ADDR_TYPE_NONE INSTR_TYPE_PSP,
     DInstr ''vrndf2.t'' 0xD0238000 0xFFFFFF80 ''%zt'' ADDR_TYPE_NONE INSTR_TYPE_PSP,
     DInstr ''vrndi.p'' 0xD0210080 0xFFFFFF80 ''%zp'' ADDR_TYPE_NONE INSTR_TYPE_PSP,
     DInstr ''vrndi.q'' 0xD0218080 0xFFFFFF80 ''%zq'' ADDR_TYPE_NONE INSTR_TYPE_PSP,
     DInstr ''vrndi.s'' 0xD0210000 0xFFFFFF80 ''%zs'' ADDR_TYPE_NONE INSTR_TYPE_PSP]"

definition dis_vfpu_f :: "dinstr list" where
  "dis_vfpu_f =
    [DInstr ''vrndi.t'' 0xD0218000 0xFFFFFF80 ''%zt'' ADDR_TYPE_NONE INSTR_TYPE_PSP,
     DInstr ''vrnds.s'' 0xD0200000 0xFFFF80FF ''%ys'' ADDR_TYPE_NONE INSTR_TYPE_PSP,
     DInstr ''vrot.p'' 0xF3A00080 0xFFE08080 ''%zp, %ys, %vr'' ADDR_TYPE_NONE INSTR_TYPE_PSP,
     DInstr ''vrot.q'' 0xF3A08080 0xFFE08080 ''%zq, %ys, %vr'' ADDR_TYPE_NONE INSTR_TYPE_PSP,
     DInstr ''vrot.t'' 0xF3A08000 0xFFE08080 ''%zt, %ys, %vr'' ADDR_TYPE_NONE INSTR_TYPE_PSP,
     DInstr ''vrsq.p'' 0xD0110080 0xFFFF8080 ''%zp, %yp'' ADDR_TYPE_NONE INSTR_TYPE_PSP,
     DInstr ''vrsq.q'' 0xD0118080 0xFFFF8080 ''%zq, %yq'' ADDR_TYPE_NONE INSTR_TYPE_PSP,
     DInstr ''vrsq.s'' 0xD0110000 0xFFFF8080 ''%zs, %ys'' ADDR_TYPE_NONE INSTR_TYPE_PSP,
     DInstr ''vrsq.t'' 0xD0118000 0xFFFF8080 ''%zt, %yt'' ADDR_TYPE_NONE INSTR_TYPE_PSP,
     DInstr ''vs2i.p'' 0xD03B0080 0xFFFF8080 ''%zq, %yp'' ADDR_TYPE_NONE INSTR_TYPE_PSP,
     DInstr ''vs2i.s'' 0xD03B0000 0xFFFF8080 ''%zp, %ys'' ADDR_TYPE_NONE INSTR_TYPE_PSP,
     DInstr ''vsat0.p'' 0xD0040080 0xFFFF8080 ''%zp, %yp'' ADDR_TYPE_NONE INSTR_TYPE_PSP,
     DInstr ''vsat0.q'' 0xD0048080 0xFFFF8080 ''%zq, %yq'' ADDR_TYPE_NONE INSTR_TYPE_PSP,
     DInstr ''vsat0.s'' 0xD0040000 0xFFFF8080 ''%zs, %ys'' ADDR_TYPE_NONE INSTR_TYPE_PSP,
     DInstr ''vsat0.t'' 0xD0048000 0xFFFF8080 ''%zt, %yt'' ADDR_TYPE_NONE INSTR_TYPE_PSP,
     DInstr ''vsat1.p'' 0xD0050080 0xFFFF8080 ''%zp, %yp'' ADDR_TYPE_NONE INSTR_TYPE_PSP,
     DInstr ''vsat1.q'' 0xD0058080 0xFFFF8080 ''%zq, %yq'' ADDR_TYPE_NONE INSTR_TYPE_PSP,
     DInstr ''vsat1.s'' 0xD0050000 0xFFFF8080 ''%zs, %ys'' ADDR_TYPE_NONE INSTR_TYPE_PSP,
     DInstr ''vsat1.t'' 0xD0058000 0xFFFF8080 ''%zt, %yt'' ADDR_TYPE_NONE INSTR_TYPE_PSP,
     DInstr ''vsbn.s'' 0x61000000 0xFF808080 ''%zs, %ys, %xs'' ADDR_TYPE_NONE INSTR_TYPE_PSP,
     DInstr ''vsbz.s'' 0xD0360000 0xFFFF8080 ''%zs, %ys'' ADDR_TYPE_NONE INSTR_TYPE_PSP,
     DInstr ''vscl.p'' 0x65000080 0xFF808080 ''%zp, %yp, %xs'' ADDR_TYPE_NONE INSTR_TYPE_PSP,
     DInstr ''vscl.q'' 0x65008080 0xFF808080 ''%zq, %yq, %xs'' ADDR_TYPE_NONE INSTR_TYPE_PSP,
     DInstr ''vscl.t'' 0x65008000 0xFF808080 ''%zt, %yt, %xs'' ADDR_TYPE_NONE INSTR_TYPE_PSP,
     DInstr ''vscmp.p'' 0x6E800080 0xFF808080 ''%zp, %yp, %xp'' ADDR_TYPE_NONE INSTR_TYPE_PSP,
     DInstr ''vscmp.q'' 0x6E808080 0xFF808080 ''%zq, %yq, %xq'' ADDR_TYPE_NONE INSTR_TYPE_PSP,
     DInstr ''vscmp.s'' 0x6E800000 0xFF808080 ''%zs, %ys, %xs'' ADDR_TYPE_NONE INSTR_TYPE_PSP,
     DInstr ''vscmp.t'' 0x6E808000 0xFF808080 ''%zt, %yt, %xt'' ADDR_TYPE_NONE INSTR_TYPE_PSP,
     DInstr ''vsge.p'' 0x6F000080 0xFF808080 ''%zp, %yp, %xp'' ADDR_TYPE_NONE INSTR_TYPE_PSP,
     DInstr ''vsge.q'' 0x6F008080 0xFF808080 ''%zq, %yq, %xq'' ADDR_TYPE_NONE INSTR_TYPE_PSP,
     DInstr ''vsge.s'' 0x6F000000 0xFF808080 ''%zs, %ys, %xs'' ADDR_TYPE_NONE INSTR_TYPE_PSP,
     DInstr ''vsge.t'' 0x6F008000 0xFF808080 ''%zt, %yt, %xt'' ADDR_TYPE_NONE INSTR_TYPE_PSP,
     DInstr ''vsgn.p'' 0xD04A0080 0xFFFF8080 ''%zp, %yp'' ADDR_TYPE_NONE INSTR_TYPE_PSP,
     DInstr ''vsgn.q'' 0xD04A8080 0xFFFF8080 ''%zq, %yq'' ADDR_TYPE_NONE INSTR_TYPE_PSP,
     DInstr ''vsgn.s'' 0xD04A0000 0xFFFF8080 ''%zs, %ys'' ADDR_TYPE_NONE INSTR_TYPE_PSP,
     DInstr ''vsgn.t'' 0xD04A8000 0xFFFF8080 ''%zt, %yt'' ADDR_TYPE_NONE INSTR_TYPE_PSP,
     DInstr ''vsin.p'' 0xD0120080 0xFFFF8080 ''%zp, %yp'' ADDR_TYPE_NONE INSTR_TYPE_PSP,
     DInstr ''vsin.q'' 0xD0128080 0xFFFF8080 ''%zq, %yq'' ADDR_TYPE_NONE INSTR_TYPE_PSP,
     DInstr ''vsin.s'' 0xD0120000 0xFFFF8080 ''%zs, %ys'' ADDR_TYPE_NONE INSTR_TYPE_PSP,
     DInstr ''vsin.t'' 0xD0128000 0xFFFF8080 ''%zt, %yt'' ADDR_TYPE_NONE INSTR_TYPE_PSP,
     DInstr ''vslt.p'' 0x6F800080 0xFF808080 ''%zp, %yp, %xp'' ADDR_TYPE_NONE INSTR_TYPE_PSP]"

definition dis_vfpu_g :: "dinstr list" where
  "dis_vfpu_g =
    [DInstr ''vslt.q'' 0x6F808080 0xFF808080 ''%zq, %yq, %xq'' ADDR_TYPE_NONE INSTR_TYPE_PSP,
     DInstr ''vslt.s'' 0x6F800000 0xFF808080 ''%zs, %ys, %xs'' ADDR_TYPE_NONE INSTR_TYPE_PSP,
     DInstr ''vslt.t'' 0x6F808000 0xFF808080 ''%zt, %yt, %xt'' ADDR_TYPE_NONE INSTR_TYPE_PSP,
     DInstr ''vsocp.p'' 0xD0450080 0xFFFF8080 ''%zq, %yp'' ADDR_TYPE_NONE INSTR_TYPE_PSP,
     DInstr ''vsocp.s'' 0xD0450000 0xFFFF8080 ''%zp, %ys'' ADDR_TYPE_NONE INSTR_TYPE_PSP,
     DInstr ''vsqrt.p'' 0xD0160080 0xFFFF8080 ''%zp, %yp'' ADDR_TYPE_NONE INSTR_TYPE_PSP,
     DInstr ''vsqrt.q'' 0xD0168080 0xFFFF8080 ''%zq, %yq'' ADDR_TYPE_NONE INSTR_TYPE_PSP,
     DInstr ''vsqrt.s'' 0xD0160000 0xFFFF8080 ''%zs, %ys'' ADDR_TYPE_NONE INSTR_TYPE_PSP,
     DInstr ''vsqrt.t'' 0xD0168000 0xFFFF8080 ''%zt, %yt'' ADDR_TYPE_NONE INSTR_TYPE_PSP,
     DInstr ''vsrt1.q'' 0xD0408080 0xFFFF8080 ''%zq, %yq'' ADDR_TYPE_NONE INSTR_TYPE_PSP,
     DInstr ''vsrt2.q'' 0xD0418080 0xFFFF8080 ''%zq, %yq'' ADDR_TYPE_NONE INSTR_TYPE_PSP,
     DInstr ''vsrt3.q'' 0xD0488080 0xFFFF8080 ''%zq, %yq'' ADDR_TYPE_NONE INSTR_TYPE_PSP,
     DInstr ''vsrt4.q'' 0xD0498080 0xFFFF8080 ''%zq, %yq'' ADDR_TYPE_NONE INSTR_TYPE_PSP,
     DInstr ''vsub.p'' 0x60800080 0xFF808080 ''%zp, %yp, %xp'' ADDR_TYPE_NONE INSTR_TYPE_PSP,
     DInstr ''vsub.q'' 0x60808080 0xFF808080 ''%zq, %yq, %xq'' ADDR_TYPE_NONE INSTR_TYPE_PSP,
     DInstr ''vsub.s'' 0x60800000 0xFF808080 ''%zs, %ys, %xs'' ADDR_TYPE_NONE INSTR_TYPE_PSP,
     DInstr ''vsub.t'' 0x60808000 0xFF808080 ''%zt, %yt, %xt'' ADDR_TYPE_NONE INSTR_TYPE_PSP,
     DInstr ''vsync'' 0xFFFF0000 0xFFFF0000 ''%I'' ADDR_TYPE_NONE INSTR_TYPE_PSP,
     DInstr ''vsync'' 0xFFFF0320 0xFFFFFFFF '''' ADDR_TYPE_NONE INSTR_TYPE_PSP,
     DInstr ''vt4444.q'' 0xD0598080 0xFFFF8080 ''%zq, %yq'' ADDR_TYPE_NONE INSTR_TYPE_PSP,
     DInstr ''vt5551.q'' 0xD05A8080 0xFFFF8080 ''%zq, %yq'' ADDR_TYPE_NONE INSTR_TYPE_PSP,
     DInstr ''vt5650.q'' 0xD05B8080 0xFFFF8080 ''%zq, %yq'' ADDR_TYPE_NONE INSTR_TYPE_PSP,
     DInstr ''vtfm2.p'' 0xF0800080 0xFF808080 ''%zp, %ym, %xp'' ADDR_TYPE_NONE INSTR_TYPE_PSP,
     DInstr ''vtfm3.t'' 0xF1008000 0xFF808080 ''%zt, %yn, %xt'' ADDR_TYPE_NONE INSTR_TYPE_PSP,
     DInstr ''vtfm4.q'' 0xF1808080 0xFF808080 ''%zq, %yo, %xq'' ADDR_TYPE_NONE INSTR_TYPE_PSP,
     DInstr ''vus2i.p'' 0xD03A0080 0xFFFF8080 ''%zq, %yp'' ADDR_TYPE_NONE INSTR_TYPE_PSP,
     DInstr ''vus2i.s'' 0xD03A0000 0xFFFF8080 ''%zp, %ys'' ADDR_TYPE_NONE INSTR_TYPE_PSP,
     DInstr ''vwb.q'' 0xF8000002 0xFC000002 ''%Xq, %Y'' ADDR_TYPE_NONE INSTR_TYPE_PSP,
     DInstr ''vwbn.s'' 0xD3000000 0xFF008080 ''%zs, %xs, %I'' ADDR_TYPE_NONE INSTR_TYPE_PSP,
     DInstr ''vzero.p'' 0xD0060080 0xFFFFFF80 ''%zp'' ADDR_TYPE_NONE INSTR_TYPE_PSP,
     DInstr ''vzero.q'' 0xD0068080 0xFFFFFF80 ''%zq'' ADDR_TYPE_NONE INSTR_TYPE_PSP,
     DInstr ''vzero.s'' 0xD0060000 0xFFFFFF80 ''%zs'' ADDR_TYPE_NONE INSTR_TYPE_PSP,
     DInstr ''vzero.t'' 0xD0068000 0xFFFFFF80 ''%zt'' ADDR_TYPE_NONE INSTR_TYPE_PSP,
     DInstr ''mfvme'' 0x68000000 0xFC000000 ''%t, %i'' ADDR_TYPE_NONE 0,
     DInstr ''mtvme'' 0xB0000000 0xFC000000 ''%t, %i'' ADDR_TYPE_NONE 0]"

definition dis_cpu :: "dinstr list" where "dis_cpu = dis_cpu_a @ dis_cpu_b"

definition dis_inst :: "dinstr list" where
  "dis_inst = dis_cpu @ dis_fpu @ dis_vfpu_a @ dis_vfpu_b @ dis_vfpu_c @ dis_vfpu_d @ dis_vfpu_e @ dis_vfpu_f @ dis_vfpu_g"

end
