(* ===== verification/Disasm.thy ===== *)
theory Disasm
  imports DisasmTables
begin

unbundle bit_operations_syntax

text \<open>
  The disassembler of the PC shell (\<^verbatim>\<open>pspsh/disasm.C\<close>): printing of operands, of a line, and the targets of
  branches. \<open>da_opt\<close> tells which of the options (a character each) are set; \<open>da_syms\<close> is the table of symbols,
  if there is one; \<open>da_fmt_g\<close> is the printing of the bits of a \<^verbatim>\<open>float\<close> by \<^verbatim>\<open>%g\<close>. Looking up a symbol in a
  \<^verbatim>\<open>std::map\<close> adds a null entry, which reads as no entry.
\<close>

section \<open>Symbols\<close>

datatype SymbolType = SYMBOL_NOSYM | SYMBOL_UNK | SYMBOL_FUNC | SYMBOL_LOCAL | SYMBOL_DATA

record SymbolEntry =
  se_addr :: u32
  se_type :: SymbolType
  se_size :: u32
  se_name :: string
  se_refs :: "u32 list"

type_synonym SymbolMap = "u32 \<Rightarrow> SymbolEntry option"

record disasm =
  da_opt :: "char \<Rightarrow> bool"
  da_syms :: "SymbolMap option"
  da_fmt_g :: "u32 \<Rightarrow> string"

definition disasmFindSymbol :: "disasm \<Rightarrow> u32 \<Rightarrow> SymbolEntry option" where
  "disasmFindSymbol d PC = (case da_syms d of None \<Rightarrow> None | Some m \<Rightarrow> m PC)"

text \<open>The type and the name; the name is written when there is an entry.\<close>

definition disasmResolveSymbol :: "disasm \<Rightarrow> u32 \<Rightarrow> nat \<Rightarrow> SymbolType \<times> string" where
  "disasmResolveSymbol d PC namelen =
     (case da_syms d of
        None \<Rightarrow> (SYMBOL_NOSYM, [])
      | Some m \<Rightarrow> (case m PC of
          None \<Rightarrow> (SYMBOL_NOSYM, [])
        | Some s \<Rightarrow> (se_type s, fst (snprintf namelen (se_name s)))))"

section \<open>Branches\<close>

definition branch_target :: "addr_type \<Rightarrow> u32 \<Rightarrow> u32 \<Rightarrow> u32" where
  "branch_target ty opcode PC =
     (case ty of
        ADDR_TYPE_16 \<Rightarrow> PC + 4 + signed_take_bit 15 (opcode AND 0xFFFF) * 4
      | ADDR_TYPE_26 \<Rightarrow> push_bit 2 (opcode AND 0x03FFFFFF) + (PC AND 0xF0000000)
      | _ \<Rightarrow> 0xFFFFFFFF)"

text \<open>The loop over the table with the type and the target found so far; the address \<open>0xFFFFFFFF\<close> ends it.\<close>

fun is_branch :: "dinstr list \<Rightarrow> u32 \<Rightarrow> u32 \<Rightarrow> u32 \<times> u32 option \<Rightarrow> u32 \<times> u32 option" where
  "is_branch [] opcode PC r = r"
| "is_branch (e # es) opcode PC r =
     (if opcode AND di_mask e = di_opcode e \<and> di_type e AND INSTR_TYPE_BRANCH \<noteq> 0 then
        (let addr = branch_target (di_addrtype e) opcode PC in
         if addr = 0xFFFFFFFF then r else is_branch es opcode PC (di_type e, Some addr))
      else is_branch es opcode PC r)"

definition disasmIsBranch :: "u32 \<Rightarrow> u32 \<Rightarrow> u32 \<times> u32 option" where
  "disasmIsBranch opcode PC = is_branch dis_inst opcode PC (0, None)"

definition disasmAddBranchSymbols :: "u32 \<Rightarrow> u32 \<Rightarrow> SymbolMap \<Rightarrow> SymbolMap" where
  "disasmAddBranchSymbols opcode PC syms =
     (case disasmIsBranch opcode PC of
        (insttype, Some addr) \<Rightarrow>
          if insttype = 0 then syms
          else (let (name, type) = (if insttype AND (INSTR_TYPE_B OR INSTR_TYPE_JUMP) \<noteq> 0
                    then (''loc_'' @ fmt_08X addr, SYMBOL_LOCAL) else (''sub_'' @ fmt_08X addr, SYMBOL_FUNC))
                in case syms addr of
                     None \<Rightarrow> syms(addr \<mapsto> \<lparr>se_addr = addr, se_type = type, se_size = 0, se_name = name, se_refs = [PC]\<rparr>)
                   | Some s \<Rightarrow> syms(addr \<mapsto> s\<lparr>se_type := (if se_type s \<noteq> SYMBOL_FUNC \<and> type = SYMBOL_FUNC
                                  then SYMBOL_FUNC else se_type s), se_refs := se_refs s @ [PC]\<rparr>))
      | (insttype, None) \<Rightarrow> syms)"

section \<open>Fields\<close>

definition op_field :: "nat \<Rightarrow> nat \<Rightarrow> u32 \<Rightarrow> nat" where
  "op_field pos width w = unat (take_bit width (drop_bit pos w))"

definition RT :: "u32 \<Rightarrow> nat" where "RT = op_field 16 5"
definition RS :: "u32 \<Rightarrow> nat" where "RS = op_field 21 5"
definition RD :: "u32 \<Rightarrow> nat" where "RD = op_field 11 5"
definition SA :: "u32 \<Rightarrow> nat" where "SA = op_field 6 5"
definition IMM :: "u32 \<Rightarrow> int" where "IMM w = sint (ucast w :: u16)"
definition IMMU :: "u32 \<Rightarrow> nat" where "IMMU = op_field 0 16"
definition CODE :: "u32 \<Rightarrow> nat" where "CODE = op_field 6 20"
definition JUMP :: "u32 \<Rightarrow> u32 \<Rightarrow> u32" where
  "JUMP w pc = pc AND 0xF0000000 OR push_bit 2 (w AND 0x3FFFFFF)"
definition VO :: "u32 \<Rightarrow> nat" where "VO w = op_field 0 2 w * 32 + op_field 16 5 w"
definition VCC :: "u32 \<Rightarrow> nat" where "VCC = op_field 18 3"
definition VD :: "u32 \<Rightarrow> nat" where "VD = op_field 0 7"
definition VS :: "u32 \<Rightarrow> nat" where "VS = op_field 8 7"
definition VT :: "u32 \<Rightarrow> nat" where "VT = op_field 16 7"
definition VED :: "u32 \<Rightarrow> nat" where "VED = op_field 0 8"
definition VES :: "u32 \<Rightarrow> nat" where "VES = op_field 8 8"
definition VCN :: "u32 \<Rightarrow> nat" where "VCN = op_field 0 4"
definition VI3 :: "u32 \<Rightarrow> nat" where "VI3 = op_field 16 3"
definition VI5 :: "u32 \<Rightarrow> nat" where "VI5 = op_field 16 5"
definition VI8 :: "u32 \<Rightarrow> nat" where "VI8 = op_field 16 8"

section \<open>Operands\<close>

text \<open>A text, with the registers it mentions as bits, kept when the option \<^verbatim>\<open>g\<close> is set.\<close>

type_synonym shown = "string \<times> u32"

definition plain_text :: "string \<Rightarrow> shown" where "plain_text s = (s, 0)"

definition print_cpureg :: "disasm \<Rightarrow> nat \<Rightarrow> shown" where
  "print_cpureg d reg =
     (if \<not> da_opt d (CHR ''r'') then CHR ''$'' # regName_pc ! reg
      else if reg > 0 then CHR ''r'' # print_dec reg else ''0'',
      if da_opt d (CHR ''g'') then push_bit reg 1 else 0)"

definition print_hex0x :: "nat \<Rightarrow> string" where "print_hex0x n = ''0x'' @ digits_upper n"

definition print_imm :: "disasm \<Rightarrow> int \<Rightarrow> string" where
  "print_imm d ofs =
     (if da_opt d (CHR ''x'') then
        if da_opt d (CHR ''d'') \<and> ofs < 0 then CHR ''-'' # print_hex0x (nat (- ofs))
        else print_hex0x (unat (word_of_int ofs AND 0xFFFF :: u32))
      else print_dint ofs)"

definition print_jump :: "disasm \<Rightarrow> u32 \<Rightarrow> string" where
  "print_jump d addr =
     (case disasmResolveSymbol d addr 128 of (ty, name) \<Rightarrow>
        if ty \<noteq> SYMBOL_NOSYM then name else ''0x'' @ fmt_08X addr)"

text \<open>\<open>realregs\<close>: the values of the registers, if known.\<close>

definition print_ofs :: "disasm \<Rightarrow> int \<Rightarrow> nat \<Rightarrow> (nat \<Rightarrow> u32) option \<Rightarrow> shown" where
  "print_ofs d ofs reg realregs =
     (case realregs of
        Some rr \<Rightarrow> if da_opt d (CHR ''p'') then plain_text (print_jump d (rr reg + word_of_int ofs))
                   else (print_imm d ofs @ ''('' @ fst (print_cpureg d reg) @ '')'', snd (print_cpureg d reg))
      | None \<Rightarrow> (print_imm d ofs @ ''('' @ fst (print_cpureg d reg) @ '')'', snd (print_cpureg d reg)))"

definition print_pcofs :: "disasm \<Rightarrow> int \<Rightarrow> u32 \<Rightarrow> string" where
  "print_pcofs d ofs PC = print_jump d (PC + 4 + word_of_int (ofs * 4))"

definition print_jumpr :: "disasm \<Rightarrow> nat \<Rightarrow> (nat \<Rightarrow> u32) option \<Rightarrow> shown" where
  "print_jumpr d reg realregs =
     (case realregs of
        Some rr \<Rightarrow> if da_opt d (CHR ''p'') then plain_text (print_jump d (rr reg)) else print_cpureg d reg
      | None \<Rightarrow> print_cpureg d reg)"

definition print_cop0 :: "nat \<Rightarrow> string" where
  "print_cop0 reg = (case cop0_regs ! reg of Some n \<Rightarrow> n | None \<Rightarrow> CHR ''$'' # print_dec reg)"

definition print_cop1 :: "nat \<Rightarrow> string" where "print_cop1 reg = ''$fcr'' @ print_dec reg"

definition vfpu_extra_regs :: "string option list" where
  "vfpu_extra_regs =
    [Some ''VFPU_PFXS'', Some ''VFPU_PFXT'', Some ''VFPU_PFXD'', Some ''VFPU_CC '', Some ''VFPU_INF4'', None, None,
     Some ''VFPU_REV'', Some ''VFPU_RCX0'', Some ''VFPU_RCX1'', Some ''VFPU_RCX2'', Some ''VFPU_RCX3'',
     Some ''VFPU_RCX4'', Some ''VFPU_RCX5'', Some ''VFPU_RCX6'', Some ''VFPU_RCX7'']"

definition print_cop2 :: "nat \<Rightarrow> string" where
  "print_cop2 reg =
     (case (if 128 \<le> reg \<and> reg < 144 then vfpu_extra_regs ! (reg - 128) else None) of
        Some n \<Rightarrow> n | None \<Rightarrow> CHR ''$'' # print_dec reg)"

definition vfpu_cond_names :: "string list" where
  "vfpu_cond_names =
    [''FL'', ''EQ'', ''LT'', ''LE'', ''TR'', ''NE'', ''GE'', ''GT'',
     ''EZ'', ''EN'', ''EI'', ''ES'', ''NZ'', ''NN'', ''NI'', ''NS'']"

definition print_vfpu_cond :: "nat \<Rightarrow> string" where
  "print_vfpu_cond c = (if c < 16 then vfpu_cond_names ! c else print_dec c)"

definition vfpu_const_names :: "string list" where
  "vfpu_const_names =
    ['''', ''VFPU_HUGE'', ''VFPU_SQRT2'', ''VFPU_SQRT1_2'', ''VFPU_2_SQRTPI'', ''VFPU_2_PI'', ''VFPU_1_PI'',
     ''VFPU_PI_4'', ''VFPU_PI_2'', ''VFPU_PI'', ''VFPU_E'', ''VFPU_LOG2E'', ''VFPU_LOG10E'', ''VFPU_LN2'',
     ''VFPU_LN10'', ''VFPU_2PI'', ''VFPU_PI_6'', ''VFPU_LOG10TWO'', ''VFPU_LOG2TEN'', ''VFPU_SQRT3_2'']"

definition print_vfpu_const :: "nat \<Rightarrow> string" where
  "print_vfpu_const k = (if k > 0 \<and> k < 20 then vfpu_const_names ! k else print_dec k)"

text \<open>
  A number of 16 bits as a \<^verbatim>\<open>float\<close>. The loop over a fraction of ten bits which is not 0 ends after at most ten
  turns, the fuel it is called with.
\<close>

fun half_normal :: "nat \<Rightarrow> u32 \<Rightarrow> int \<Rightarrow> u32 \<times> int" where
  "half_normal 0 fraction expo = (fraction, expo)"
| "half_normal (Suc n) fraction expo =
     (let fr = push_bit 1 fraction in
      if fr AND 0x400 = 0 then half_normal n fr (expo - 1) else (fr, expo - 1))"

definition print_vfpu_halffloat :: "disasm \<Rightarrow> u32 \<Rightarrow> string" where
  "print_vfpu_halffloat d l =
     (let sgn = op_field 15 1 l; expo = op_field 10 5 l; fraction = l AND 0x3FF;
          signchar = (if sgn = 1 then CHR ''-'' else CHR ''+'')
      in if expo = 31 then (if fraction = 0 then signchar # ''Inf'' else signchar # ''NaN'')
         else if expo = 0 \<and> fraction = 0 then [signchar, CHR ''0'']
         else (let (fr, e) = (if expo = 0
                   then (case half_normal 10 fraction 0 of (f, e) \<Rightarrow> (f AND 0x3FF, e)) else (fraction, int expo))
               in da_fmt_g d (push_bit 31 (of_nat sgn) OR push_bit 23 (word_of_int (e + 112)) OR push_bit 13 fr)))"

definition pfx_cst_names :: "string list" where
  "pfx_cst_names = [''0'', ''1'', ''2'', ''1/2'', ''3'', ''1/3'', ''1/4'', ''1/6'']"

definition pfx_swz_names :: "string list" where "pfx_swz_names = [''x'', ''y'', ''z'', ''w'']"

definition pfx_sat_names :: "string list" where "pfx_sat_names = ['''', ''[0:1]'', '''', ''[-1:1]'']"

definition print_vfpu_prefix :: "u32 \<Rightarrow> char \<Rightarrow> string" where
  "print_vfpu_prefix l pos =
     (if CHR ''0'' = pos \<or> CHR ''1'' = pos \<or> CHR ''2'' = pos \<or> CHR ''3'' = pos then
        (let k = code pos - 48; swz = op_field (k * 2) 2 l in
         (if op_field (k + 16) 1 l \<noteq> 0 then ''-'' else '''') @
         (if op_field (k + 12) 1 l \<noteq> 0 then pfx_cst_names ! (op_field (k + 8) 1 l * 4 + swz)
          else if op_field (k + 8) 1 l \<noteq> 0 then ''|'' @ pfx_swz_names ! swz @ ''|''
          else pfx_swz_names ! swz))
      else if CHR ''4'' = pos \<or> CHR ''5'' = pos \<or> CHR ''6'' = pos \<or> CHR ''7'' = pos then
        (let k = code pos - 52 in
         if op_field (k + 8) 1 l \<noteq> 0 then ''m'' else pfx_sat_names ! op_field (k * 2) 2 l)
      else '''')"

text \<open>
  The rotation of \<^verbatim>\<open>vrot\<close>. Every \<^verbatim>\<open>sprintf\<close> writes to the start of the output, so that the closing bracket and
  the NUL after it are what stays; the bytes between that NUL and the position returned are never seen.
\<close>

definition vrot_elements :: "u32 \<Rightarrow> string list" where
  "vrot_elements l =
     (let rotators = op_field 16 5 l; rothi = rotators div 4 mod 4; rotlo = rotators mod 4;
          s = (if rotators div 16 mod 2 \<noteq> 0 then ''-s'' else ''s'');
          els = (if rothi = rotlo then [s, s, s, s] else [''0'', ''0'', ''0'', ''0''])
      in els[rothi := s, rotlo := ''c''])"

definition print_vfpu_rotator :: "u32 \<Rightarrow> string" where
  "print_vfpu_rotator l =
     (let opcode = l AND 0x8080;
          opsize = (if opcode = 0x80 then 2 else if opcode = 0x8000 then 3 else if opcode = 0x8080 then 4 else 0);
          len = 2 + sum_list (map (\<lambda>i. length (vrot_elements l ! i)) [0..<max 1 opsize])
      in CHR '']'' # replicate (len - 1) (CHR 0x00))"

definition print_fpureg :: "nat \<Rightarrow> string" where "print_fpureg reg = ''$fpr'' @ fmt_02d reg"

definition print_debugreg :: "nat \<Rightarrow> string" where
  "print_debugreg reg =
     (case (if reg < 16 then dr_regs ! reg else None) of
        Some n \<Rightarrow> n | None \<Rightarrow> CHR ''$'' # fmt_02d reg @ [CHR 0x0A])"

definition print_vfpusingle :: "nat \<Rightarrow> string" where
  "print_vfpusingle reg =
     CHR ''S'' # print_dec (reg div 4 mod 8) @ print_dec (reg mod 4) @ print_dec (reg div 32 mod 4)"

definition print_vfpu_reg :: "nat \<Rightarrow> nat \<Rightarrow> char \<Rightarrow> char \<Rightarrow> string" where
  "print_vfpu_reg reg offset one two =
     (if reg div 32 mod 2 = 1 then two # print_dec (reg div 4 mod 8) @ print_dec offset @ print_dec (reg mod 4)
      else one # print_dec (reg div 4 mod 8) @ print_dec (reg mod 4) @ print_dec offset)"

definition print_vfpuquad :: "nat \<Rightarrow> string" where
  "print_vfpuquad reg = print_vfpu_reg reg 0 (CHR ''C'') (CHR ''R'')"

definition print_vfpupair :: "nat \<Rightarrow> string" where
  "print_vfpupair reg = print_vfpu_reg reg (if reg div 64 mod 2 = 1 then 2 else 0) (CHR ''C'') (CHR ''R'')"

definition print_vfputriple :: "nat \<Rightarrow> string" where
  "print_vfputriple reg = print_vfpu_reg reg (if reg div 64 mod 2 = 1 then 1 else 0) (CHR ''C'') (CHR ''R'')"

definition print_vfpumpair :: "nat \<Rightarrow> string" where
  "print_vfpumpair reg = print_vfpu_reg reg (if reg div 64 mod 2 = 1 then 2 else 0) (CHR ''M'') (CHR ''E'')"

definition print_vfpumtriple :: "nat \<Rightarrow> string" where
  "print_vfpumtriple reg = print_vfpu_reg reg (if reg div 64 mod 2 = 1 then 1 else 0) (CHR ''M'') (CHR ''E'')"

definition print_vfpumatrix :: "nat \<Rightarrow> string" where
  "print_vfpumatrix reg = print_vfpu_reg reg 0 (CHR ''M'') (CHR ''E'')"

definition print_vfpureg :: "nat \<Rightarrow> char \<Rightarrow> string" where
  "print_vfpureg reg type =
     (if type = CHR ''s'' then print_vfpusingle reg
      else if type = CHR ''q'' then print_vfpuquad reg
      else if type = CHR ''p'' then print_vfpupair reg
      else if type = CHR ''t'' then print_vfputriple reg
      else if type = CHR ''m'' then print_vfpumpair reg
      else if type = CHR ''n'' then print_vfpumtriple reg
      else if type = CHR ''o'' then print_vfpumatrix reg
      else '''')"

section \<open>Lines\<close>

text \<open>The codes of one character.\<close>

definition decode_one :: "disasm \<Rightarrow> (nat \<Rightarrow> u32) option \<Rightarrow> u32 \<Rightarrow> u32 \<Rightarrow> char \<Rightarrow> shown option" where
  "decode_one d rr opcode PC k =
     (if k = CHR ''d'' then Some (print_cpureg d (RD opcode))
      else if k = CHR ''t'' then Some (print_cpureg d (RT opcode))
      else if k = CHR ''s'' then Some (print_cpureg d (RS opcode))
      else if k = CHR ''i'' then Some (plain_text (print_imm d (IMM opcode)))
      else if k = CHR ''I'' then Some (plain_text (print_hex0x (IMMU opcode)))
      else if k = CHR ''o'' \<or> k = CHR ''V'' then Some (print_ofs d (IMM opcode) (RS opcode) rr)
      else if k = CHR ''O'' then Some (plain_text (print_pcofs d (IMM opcode) PC))
      else if k = CHR ''j'' then Some (plain_text (print_jump d (JUMP opcode PC)))
      else if k = CHR ''J'' then Some (print_jumpr d (RS opcode) rr)
      else if k = CHR ''a'' then Some (plain_text (print_dec (SA opcode)))
      else if k = CHR ''0'' then Some (plain_text (print_cop0 (RD opcode)))
      else if k = CHR ''1'' then Some (plain_text (print_cop1 (RD opcode)))
      else if k = CHR ''p'' then Some (plain_text (CHR ''$'' # print_dec (RD opcode)))
      else if k = CHR ''k'' then Some (plain_text (print_hex0x (RT opcode)))
      else if k = CHR ''D'' then Some (plain_text (print_fpureg (SA opcode)))
      else if k = CHR ''T'' then Some (plain_text (print_fpureg (RT opcode)))
      else if k = CHR ''S'' then Some (plain_text (print_fpureg (RD opcode)))
      else if k = CHR ''r'' then Some (plain_text (print_debugreg (RD opcode)))
      else if k = CHR ''c'' \<or> k = CHR ''C'' then Some (plain_text (print_hex0x (CODE opcode)))
      else if k = CHR ''Y'' then Some (print_ofs d (4 * (IMM opcode div 4)) (RS opcode) rr)
      else None)"

text \<open>The codes of two characters which read the second one only when they know it.\<close>

definition decode_two :: "disasm \<Rightarrow> u32 \<Rightarrow> char \<Rightarrow> char \<Rightarrow> string option" where
  "decode_two d opcode k c =
     (if k = CHR ''2'' then
        if c = CHR ''d'' then Some (print_cop2 (VED opcode))
        else if c = CHR ''s'' then Some (print_cop2 (VES opcode)) else None
      else if k = CHR ''n'' then
        if c = CHR ''e'' then Some (print_dec (RD opcode + 1))
        else if c = CHR ''i'' then Some (print_dint (int (RD opcode) - int (SA opcode) + 1)) else None
      else if k = CHR ''Z'' then
        if c = CHR ''c'' then Some (print_imm d (int (VCC opcode)))
        else if c = CHR ''n'' then Some (print_vfpu_cond (VCN opcode)) else None
      else if k = CHR ''v'' then
        if c = CHR ''3'' then Some (print_dec (VI3 opcode))
        else if c = CHR ''5'' then Some (print_dec (VI5 opcode))
        else if c = CHR ''8'' then Some (print_dec (VI8 opcode))
        else if c = CHR ''k'' then Some (print_vfpu_const (VI5 opcode))
        else if c = CHR ''i'' then Some (print_dint (IMM opcode))
        else if c = CHR ''h'' then Some (print_vfpu_halffloat d opcode)
        else if c = CHR ''r'' then Some (print_vfpu_rotator opcode) else None
      else None)"

text \<open>The registers of the vector unit, by the kind of operand; \<^verbatim>\<open>vmmul\<close> turns the second one.\<close>

definition vfpu_operand :: "u32 \<Rightarrow> bool \<Rightarrow> char \<Rightarrow> nat" where
  "vfpu_operand opcode vmmul k =
     (if k = CHR ''x'' then VT opcode
      else if k = CHR ''y'' then
        (let reg = VS opcode in
         if vmmul then (if reg div 32 mod 2 = 1 then reg - 32 else reg + 32) else reg)
      else if k = CHR ''z'' then VD opcode
      else VO opcode)"

definition add_shown :: "shown \<Rightarrow> shown \<Rightarrow> shown" where
  "add_shown a b = (fst a @ fst b, snd a OR snd b)"

function decode_args :: "disasm \<Rightarrow> (nat \<Rightarrow> u32) option \<Rightarrow> u32 \<Rightarrow> u32 \<Rightarrow> bool \<Rightarrow> string \<Rightarrow> shown" where
  "decode_args d rr opcode PC vmmul fmt =
     (case fmt of
        [] \<Rightarrow> ([], 0)
      | c # f \<Rightarrow>
          if c \<noteq> CHR ''%'' then add_shown ([c], 0) (decode_args d rr opcode PC vmmul f)
          else (case f of
            [] \<Rightarrow> ([], 0)
          | k # f1 \<Rightarrow>
              (case decode_one d rr opcode PC k of
                 Some s \<Rightarrow> add_shown s (decode_args d rr opcode PC vmmul f1)
               | None \<Rightarrow>
                   if k = CHR ''?'' then decode_args d rr opcode PC True f1
                   else (case f1 of
                     [] \<Rightarrow> ([], 0)
                   | c2 # f2 \<Rightarrow>
                       if k \<in> {CHR ''x'', CHR ''y'', CHR ''z'', CHR ''X''} then
                         add_shown (plain_text (print_vfpureg (vfpu_operand opcode vmmul k) c2))
                           (decode_args d rr opcode PC vmmul f2)
                       else if k = CHR ''v'' \<and> c2 = CHR ''p'' \<and> f2 \<noteq> [] then
                         add_shown (plain_text (print_vfpu_prefix opcode (hd f2)))
                           (decode_args d rr opcode PC vmmul (tl f2))
                       else (case decode_two d opcode k c2 of
                           Some t \<Rightarrow> add_shown (plain_text t) (decode_args d rr opcode PC vmmul f2)
                         | None \<Rightarrow> decode_args d rr opcode PC vmmul f1)))))"
  by pat_completeness auto

termination
  by (relation "measure (\<lambda>(d, rr, opcode, PC, vmmul, fmt). length fmt)") auto

declare decode_args.simps [simp del]

definition line_ascii :: "u32 \<Rightarrow> string" where
  "line_ascii opcode = map (\<lambda>i. let ch = op_field (i * 8) 8 opcode in
     if ch < 32 \<or> ch > 126 then CHR ''.'' else char_of ch) [0..<4]"

definition format_line :: "disasm \<Rightarrow> string \<Rightarrow> u32 \<Rightarrow> (string \<times> string) option \<Rightarrow> bool \<Rightarrow> string" where
  "format_line d addr opcode inst noaddr =
     (let (name, args) = (case inst of None \<Rightarrow> (''Unknown'', '''') | Some na \<Rightarrow> na) in
      fst (snprintf 1024
        (if noaddr then pad_right 10 name @ '' '' @ args
         else if da_opt d (CHR ''w'') then
           pad_right 10 name @ '' '' @ pad_right 30 args @ '' ; '' @ addr @ '': 0x'' @ fmt_08X opcode
             @ '' '' @ [CHR 0x27] @ line_ascii opcode @ [CHR 0x27]
         else addr @ '': 0x'' @ fmt_08X opcode @ '' '' @ [CHR 0x27] @ line_ascii opcode @ [CHR 0x27] @ '' - ''
             @ pad_right 10 name @ '' '' @ args)))"

definition find_opcode :: "dinstr list \<Rightarrow> u32 \<Rightarrow> dinstr option" where
  "find_opcode es opcode = List.find (\<lambda>e. opcode AND di_mask e = di_opcode e) es"

text \<open>The macros are looked up when the option \<^verbatim>\<open>m\<close> is not set.\<close>

definition find_dinst :: "disasm \<Rightarrow> u32 \<Rightarrow> dinstr option" where
  "find_dinst d opcode =
     (case (if da_opt d (CHR ''m'') then None else find_opcode dis_macro opcode) of
        Some e \<Rightarrow> Some e
      | None \<Rightarrow> find_opcode dis_inst opcode)"

text \<open>The text of the line and the registers it mentions, which are reported when the instruction is known.\<close>

definition disasmInstruction ::
  "disasm \<Rightarrow> u32 \<Rightarrow> u32 \<Rightarrow> (nat \<Rightarrow> u32) option \<Rightarrow> bool \<Rightarrow> string \<times> u32 option" where
  "disasmInstruction d opcode PC realregs noaddr =
     (let addr = (case disasmResolveSymbol d PC 128 of (ty, name) \<Rightarrow>
            if ty \<noteq> SYMBOL_NOSYM \<and> da_opt d (CHR ''s'') then pad_right 20 name else ''0x'' @ fmt_08X PC)
      in case find_dinst d opcode of
           None \<Rightarrow> (format_line d addr opcode None noaddr, None)
         | Some e \<Rightarrow>
             (let args = decode_args d realregs opcode PC False (di_fmt e)
              in (format_line d addr opcode (Some (di_name e, str_of (fst args))) noaddr, Some (snd args))))"

text \<open>The lines of \<^verbatim>\<open>disasmPrintOpts\<close>.\<close>

definition disopt_names :: "(char \<times> string) list" where
  "disopt_names =
    [(CHR ''x'', ''Hex Integers''), (CHR ''r'', ''Mnemonic Registers''), (CHR ''s'', ''Symbol Address''),
     (CHR ''m'', ''Macros''), (CHR ''p'', ''Print Real Address''), (CHR ''g'', ''Print Regs''),
     (CHR ''w'', ''Print Swap''), (CHR ''d'', ''Signed Hex'')]"

definition disasmPrintOpts :: "disasm \<Rightarrow> string list" where
  "disasmPrintOpts d =
     ''Disassembler Options:'' # map (\<lambda>(c, n). [c] @ '' : '' @ pad_right 3 (if da_opt d c then ''on'' else ''off'')
        @ '' - '' @ n @ '' '') disopt_names"

end
