(* ===== verification/DisasmProps.thy ===== *)
theory DisasmProps
  imports Disasm
begin

unbundle bit_operations_syntax

text \<open>
  What the disassembler prints the assembler reads: the numbers and registers it prints are read back as
  they are, an operand fills the bits it was printed from, and a line of an instruction whose operands and
  mask cover the whole word is assembled to that word. The instructions for which this fails are listed.
\<close>

section \<open>Numbers\<close>

text \<open>The characters of an operand: printing characters other than the comma.\<close>

definition operand_char :: "char \<Rightarrow> bool" where
  "operand_char c \<longleftrightarrow> 33 \<le> code c \<and> code c \<le> 126 \<and> c \<noteq> CHR '',''"

definition operand_text :: "string \<Rightarrow> bool" where
  "operand_text t \<longleftrightarrow> t \<noteq> [] \<and> length t \<le> 24 \<and> (\<forall>c \<in> set t. operand_char c)"

definition hex_value :: "nat list \<Rightarrow> nat" where
  "hex_value ds = foldl (\<lambda>a d. a * 16 + d) 0 ds"

lemma code_hex_upper: "d < 16 \<Longrightarrow> code (hex_upper d) = (if d < 10 then 48 + d else 55 + d)"
  by (auto simp: hex_upper_def of_char_of take_bit_nat_def)

lemma digit_val_hex_upper: "d < 16 \<Longrightarrow> digit_val (hex_upper d) = d"
  by (auto simp: digit_val_def code_hex_upper)

lemma operand_hex_upper: "d < 16 \<Longrightarrow> operand_char (hex_upper d)"
  using code_hex_upper [of d] by (cases "hex_upper d = CHR '',''") (auto simp: operand_char_def split: if_splits)

lemma scan_hex: "\<forall>d \<in> set ds. d < 16 \<Longrightarrow> scan_digits 16 acc (map hex_upper ds) = (foldl (\<lambda>a d. a * 16 + d) acc ds, [])"
  by (induction ds arbitrary: acc) (auto simp: digit_val_hex_upper)

lemma number_base_hex:
  assumes "ds \<noteq> []" and "\<forall>d \<in> set ds. d < 16"
  shows "number_base 0 (''0x'' @ map hex_upper ds) = (16, map hex_upper ds)" "starts_digit 16 (map hex_upper ds)"
proof -
  obtain d ds' where ds: "ds = d # ds'" using assms(1) by (cases ds) auto
  show s: "starts_digit 16 (map hex_upper ds)" using assms(2) by (simp add: ds starts_digit_def digit_val_hex_upper)
  show "number_base 0 (''0x'' @ map hex_upper ds) = (16, map hex_upper ds)"
    using s by (simp add: number_base_def hex_prefix_def ds)
qed

lemma zero_not_space: "\<not> isspace (CHR ''0'')" "\<not> isspace (CHR ''-'')"
  by code_simp+

text \<open>A text \<^verbatim>\<open>0x...\<close> is read as its value, also after a sign.\<close>

lemma hex_back:
  assumes "ds \<noteq> []" and "\<forall>d \<in> set ds. d < 16" and "hex_value ds < 2 ^ 32"
  shows "strtoul 64 0 (''0x'' @ map hex_upper ds) = (hex_value ds, [])"
    and "strtol 64 0 (''0x'' @ map hex_upper ds) = (int (hex_value ds), [])"
    and "strtol 64 0 (CHR ''-'' # ''0x'' @ map hex_upper ds) = (- int (hex_value ds), [])"
proof -
  note b = number_base_hex [OF assms(1,2)]
  have sc: "scan_digits 16 0 (map hex_upper ds) = (hex_value ds, [])"
    using scan_hex [OF assms(2), of 0] by (simp add: hex_value_def)
  have h: "''0x'' @ map hex_upper ds = CHR ''0'' # CHR ''x'' # map hex_upper ds" by simp
  have skip: "skip_space (''0x'' @ map hex_upper ds) = ''0x'' @ map hex_upper ds"
    unfolding h by (simp add: zero_not_space)
  have skip': "skip_space (CHR ''-'' # ''0x'' @ map hex_upper ds) = CHR ''-'' # ''0x'' @ map hex_upper ds"
    by (simp add: zero_not_space)
  show "strtoul 64 0 (''0x'' @ map hex_upper ds) = (hex_value ds, [])"
    unfolding strtoul_def skip Let_def using b sc assms(3) by simp
  show "strtol 64 0 (''0x'' @ map hex_upper ds) = (int (hex_value ds), [])"
    unfolding strtol_def skip Let_def using b sc assms(3) by simp
  show "strtol 64 0 (CHR ''-'' # ''0x'' @ map hex_upper ds) = (- int (hex_value ds), [])"
    unfolding strtol_def skip' Let_def using b sc assms(3) by simp
qed

lemma foldl_hex_snoc: "hex_value (ds @ [d]) = hex_value ds * 16 + d"
  by (simp add: hex_value_def)

lemma digits_upper_hex:
  "\<exists>ds. digits_upper n = map hex_upper ds \<and> ds \<noteq> [] \<and> (\<forall>d \<in> set ds. d < 16) \<and> hex_value ds = n
     \<and> (\<forall>k. 0 < k \<longrightarrow> n < 16 ^ k \<longrightarrow> length ds \<le> k)"
proof (induction n rule: digits_upper.induct)
  case (1 n)
  show ?case
  proof (cases "n < 16")
    case True
    then show ?thesis by (subst digits_upper.simps) (auto intro!: exI [of _ "[n]"] simp: hex_value_def)
  next
    case False
    then obtain ds where ds: "digits_upper (n div 16) = map hex_upper ds" "ds \<noteq> []" "\<forall>d \<in> set ds. d < 16"
      "hex_value ds = n div 16" "\<forall>k. 0 < k \<longrightarrow> n div 16 < 16 ^ k \<longrightarrow> length ds \<le> k"
      using 1 by blast
    have len: "length (ds @ [n mod 16]) \<le> k" if "0 < k" "n < 16 ^ k" for k
    proof (cases k)
      case (Suc j)
      have "0 < j" using that False Suc by (cases j) auto
      moreover have "n div 16 < 16 ^ j" using that(2) Suc by (simp add: less_mult_imp_div_less mult.commute)
      ultimately show ?thesis using ds(5) Suc by auto
    qed (use that in simp)
    show ?thesis using False ds len
      by (subst digits_upper.simps) (auto intro!: exI [of _ "ds @ [n mod 16]"] simp: foldl_hex_snoc)
  qed
qed

lemma fmt_08X_hex:
  "\<exists>ds. fmt_08X w = map hex_upper ds \<and> ds \<noteq> [] \<and> (\<forall>d \<in> set ds. d < 16) \<and> hex_value ds = unat w \<and> length ds = 8"
proof -
  let ?n = "unat w"
  let ?ds = "map (\<lambda>i. ?n div 16 ^ (7 - i) mod 16) [0, 1, 2, 3, 4, 5, 6, 7]"
  have "?n < 16 ^ 8" using unsigned_less [of w] by simp
  then have top: "?n div 16 ^ 7 mod 16 = ?n div 16 ^ 7" by (simp add: less_mult_imp_div_less)
  have st: "?n div 16 ^ Suc k * 16 + ?n div 16 ^ k mod 16 = ?n div 16 ^ k" for k
    using div_mult_mod_eq [of "?n div 16 ^ k" 16] by (simp add: div_mult2_eq [symmetric] mult.commute)
  have "hex_value ?ds = ?n"
    using top st [of 6] st [of 5] st [of 4] st [of 3] st [of 2] st [of 1] st [of 0]
    by (simp add: hex_value_def)
  moreover have "fmt_08X w = map hex_upper ?ds" unfolding fmt_08X_def by (simp only: map_map o_def)
  moreover have "\<forall>d \<in> set ?ds. d < 16" unfolding set_map by (intro ballI) (elim imageE, simp)
  moreover have "length ?ds = 8" "?ds \<noteq> []" by (simp_all only: length_map list.size list.map) simp_all
  ultimately show ?thesis by blast
qed

text \<open>Decimal numbers, in base 10 and with the base to be found.\<close>

lemma print_dec_head: "\<exists>d ds. print_dec n = digit_char d # ds \<and> d < 10 \<and> (1 \<le> n \<longrightarrow> 1 \<le> d)"
  using digits_of_hd [of 10 n] unfolding print_dec_def by (cases "digits_of 10 n") auto

lemma read_dec:
  assumes "n < 2 ^ 32"
  shows "strtoul 64 10 (print_dec n) = (n, [])"
    and "strtol 64 0 (print_dec n) = (int n, [])"
    and "1 \<le> n \<Longrightarrow> strtol 64 0 (CHR ''-'' # print_dec n) = (- int n, [])"
proof -
  show "strtoul 64 10 (print_dec n) = (n, [])"
    using strtoul_print_dec [of n 64 "[]"] assms by (simp add: starts_digit_def)
  obtain d ds where p: "print_dec n = digit_char d # ds" and d: "d < 10" and d1: "1 \<le> n \<longrightarrow> 1 \<le> d"
    using print_dec_head by blast
  have sc: "scan_digits 10 0 (print_dec n) = (n, [])" unfolding print_dec_def by (rule scan_digits_of) simp_all
  have sd: "starts_digit 10 (print_dec n)" using d by (simp add: p starts_digit_def digit_val_char)
  have sp: "\<not> isspace (digit_char d)" using d by simp
  have nb: "number_base 0 (print_dec n) = (10, print_dec n)" if "1 \<le> n"
  proof -
    have "digit_char d \<noteq> CHR ''0''" using code_digit_char [of d] d d1 that by (intro notI) simp
    then show ?thesis by (simp add: number_base_def hex_prefix_def p)
  qed
  have skip: "skip_space (print_dec n) = print_dec n" using sp by (simp add: p)
  have skip': "skip_space (CHR ''-'' # print_dec n) = CHR ''-'' # print_dec n" by (simp add: zero_not_space)
  have sg: "hd (print_dec n) \<noteq> CHR ''-''" "hd (print_dec n) \<noteq> CHR ''+''" "print_dec n \<noteq> []"
    using digit_char_signs [OF d] by (simp_all add: p)
  show "strtol 64 0 (print_dec n) = (int n, [])"
  proof (cases "1 \<le> n")
    case True
    then show ?thesis unfolding strtol_def skip Let_def using sg sd sc nb assms by simp
  next
    case False
    then have "n = 0" by simp
    moreover have "strtol 64 0 (print_dec 0) = (0, [])"
    proof -
      have "print_dec 0 = ''0''" by code_simp
      moreover have "number_base 0 ''0'' = (8, ''0'')" "starts_digit 8 ''0''" "scan_digits 8 0 ''0'' = (0, [])"
        "skip_space ''0'' = ''0''" by code_simp+
      ultimately show ?thesis unfolding strtol_def Let_def by simp
    qed
    ultimately show ?thesis by simp
  qed
  show "strtol 64 0 (CHR ''-'' # print_dec n) = (- int n, [])" if "1 \<le> n"
    unfolding strtol_def skip' Let_def using sd sc nb [OF that] assms by simp
qed

lemma operand_digit: "d < 10 \<Longrightarrow> operand_char (digit_char d)"
  using code_digit_char [of d] by (cases "digit_char d = CHR '',''") (auto simp: operand_char_def)

lemma print_dec_chars: "(\<forall>c \<in> set (print_dec n). operand_char c) \<and> (\<forall>k. 0 < k \<longrightarrow> n < 10 ^ k \<longrightarrow> length (print_dec n) \<le> k)"
proof -
  have "(\<forall>c \<in> set (digits_of b n). operand_char c) \<and> (\<forall>k. 0 < k \<longrightarrow> n < b ^ k \<longrightarrow> length (digits_of b n) \<le> k)"
    if "b = 10" for b using that
  proof (induction b n rule: digits_of.induct)
    case (1 b n)
    show ?case
    proof (cases "n < b")
      case True
      then show ?thesis using 1(2) by (subst (1 2) digits_of.simps) (auto simp: operand_digit)
    next
      case False
      then have ih: "\<forall>c \<in> set (digits_of b (n div b)). operand_char c"
        "\<forall>k. 0 < k \<longrightarrow> n div b < b ^ k \<longrightarrow> length (digits_of b (n div b)) \<le> k" using 1 by auto
      have len: "Suc (length (digits_of b (n div b))) \<le> k" if "0 < k" "n < b ^ k" for k
      proof (cases k)
        case (Suc j)
        have "0 < j" using that False Suc by (cases j) auto
        moreover have "n div b < b ^ j" using that(2) Suc by (simp add: less_mult_imp_div_less mult.commute)
        ultimately show ?thesis using ih(2) Suc by auto
      qed (use that in simp)
      show ?thesis using False 1(2) ih(1) len by (subst (1 2) digits_of.simps) (auto simp: operand_digit)
    qed
  qed
  then show ?thesis unfolding print_dec_def by blast
qed

section \<open>Texts of operands\<close>

text \<open>The characters of numbers.\<close>

definition number_text :: "nat \<Rightarrow> string \<Rightarrow> bool" where
  "number_text n t \<longleftrightarrow> t \<noteq> [] \<and> length t \<le> n \<and> (\<forall>c \<in> set t. 45 \<le> code c \<and> code c \<le> 126)"

lemma number_operand: "number_text n t \<Longrightarrow> n \<le> 24 \<Longrightarrow> operand_text t"
  by (fastforce simp: number_text_def operand_text_def operand_char_def)

lemma operand_not_space: "operand_char c \<Longrightarrow> \<not> isspace c"
  by (simp add: operand_char_def isspace_def)

lemma strip_operand: "operand_text t \<Longrightarrow> strip_wsp t = Some t"
proof -
  assume t: "operand_text t"
  then have ne: "t \<noteq> []" and c: "\<forall>c \<in> set t. \<not> isspace c" by (auto simp: operand_text_def operand_not_space)
  have "\<not> isspace (hd t)" "\<not> isspace (hd (rev t))" using ne c by (simp_all add: hd_rev)
  then have "skip_space (rev t) = rev t" "skip_space t = t" using ne by (auto intro: skip_space_id)
  then have "trim_line t = t" by (simp add: trim_line_def)
  then show ?thesis using ne by (simp add: strip_wsp_def)
qed

lemma print_dec_text: "n < 10 ^ k \<Longrightarrow> 0 < k \<Longrightarrow> number_text k (print_dec n)"
proof -
  assume k: "n < 10 ^ k" "0 < k"
  have "\<forall>c \<in> set (digits_of b n). 45 \<le> code c \<and> code c \<le> 126" if "b = 10" for b
    using that by (induction b n rule: digits_of.induct) (subst digits_of.simps, auto simp: code_digit_char)
  then have "\<forall>c \<in> set (print_dec n). 45 \<le> code c \<and> code c \<le> 126" by (simp add: print_dec_def)
  moreover have "print_dec n \<noteq> []" using print_dec_head [of n] by auto
  ultimately show ?thesis using print_dec_chars [of n] k by (auto simp: number_text_def)
qed

lemma hex_text: "ds \<noteq> [] \<Longrightarrow> \<forall>d \<in> set ds. d < 16 \<Longrightarrow> number_text (2 + length ds) (''0x'' @ map hex_upper ds)"
  by (auto simp: number_text_def code_hex_upper)

lemma print_hex0x_hex:
  "\<exists>ds. print_hex0x n = ''0x'' @ map hex_upper ds \<and> ds \<noteq> [] \<and> (\<forall>d \<in> set ds. d < 16) \<and> hex_value ds = n
     \<and> (n < 2 ^ 32 \<longrightarrow> length ds \<le> 8)"
proof -
  have "(2 :: nat) ^ 32 = 16 ^ 8" by simp
  then show ?thesis using digits_upper_hex [of n] unfolding print_hex0x_def by (metis zero_less_numeral)
qed

section \<open>Fields\<close>

lemma put_field_op:
  "pos + width \<le> 32 \<Longrightarrow> put_field pos (int (op_field pos width w)) w0 = w0 OR (w AND push_bit pos (mask width))"
  unfolding put_field_def op_field_def
  by (rule bit_word_eqI) (auto simp: bit_simps)

lemma op_field_less: "op_field pos width w < 2 ^ width"
proof -
  have "unat (take_bit width (drop_bit pos w)) = take_bit width (unat (drop_bit pos w))"
    by (rule unsigned_take_bit_eq)
  then show ?thesis by (simp add: op_field_def)
qed

lemma IMM_range: "- 32768 \<le> IMM w \<and> IMM w < 32768"
  using sint_ge [of "ucast w :: u16"] sint_less [of "ucast w :: u16"] by (simp add: IMM_def)

lemma IMM_bits: "(word_of_int (IMM w) :: u32) AND 0xFFFF = w AND 0xFFFF"
proof -
  have m: "(0xFFFF :: u32) = mask 16" by (simp add: mask_eq_exp_minus_1)
  have "word_of_int (IMM w) = (scast (ucast w :: u16) :: u32)" by (simp add: IMM_def)
  then show ?thesis unfolding m by (intro bit_word_eqI) (auto simp: bit_simps)
qed

lemma sint_of_small: "- (2 ^ 31) \<le> i \<Longrightarrow> i < 2 ^ 31 \<Longrightarrow> sint (word_of_int i :: u32) = i"
  using sint_s32 [of i] by (simp add: s32_def)

lemma IMMU_bits: "(of_nat (IMMU w) :: u32) AND 0xFFFF = w AND 0xFFFF"
proof -
  have m: "(0xFFFF :: u32) = mask 16" by (simp add: mask_eq_exp_minus_1)
  show ?thesis unfolding m IMMU_def op_field_def by (intro bit_word_eqI) (auto simp: bit_simps)
qed

section \<open>Operands are read back\<close>

text \<open>
  The options under which the texts are those of the assembler: no symbols, registers by name, and
  hexadecimal numbers with their sign.
\<close>

definition plain_opts :: "disasm \<Rightarrow> bool" where
  "plain_opts d \<longleftrightarrow> da_syms d = None \<and> \<not> da_opt d (CHR ''r'') \<and> (da_opt d (CHR ''x'') \<longrightarrow> da_opt d (CHR ''d''))"

lemma gpr_texts:
  assumes "r < 32"
  shows "parse_gpr (CHR ''$'' # regName_pc ! r) = int r" and "length (regName_pc ! r) = 2"
    and "\<forall>c \<in> set (regName_pc ! r). 45 \<le> code c \<and> code c \<le> 126"
proof -
  have "\<forall>r \<in> set [0..<32]. parse_gpr (CHR ''$'' # regName_pc ! r) = int r \<and> length (regName_pc ! r) = 2
      \<and> (\<forall>c \<in> set (regName_pc ! r). 45 \<le> code c \<and> code c \<le> 126)" by code_simp
  then show "parse_gpr (CHR ''$'' # regName_pc ! r) = int r" "length (regName_pc ! r) = 2"
    "\<forall>c \<in> set (regName_pc ! r). 45 \<le> code c \<and> code c \<le> 126" using assms by auto
qed

lemma cpureg_text: "plain_opts d \<Longrightarrow> fst (print_cpureg d r) = CHR ''$'' # regName_pc ! r"
  by (simp add: print_cpureg_def plain_opts_def)

lemma operand_dollar: "(\<forall>c \<in> set t. 45 \<le> code c \<and> code c \<le> 126) \<Longrightarrow> length t \<le> 23 \<Longrightarrow> operand_text (CHR ''$'' # t)"
  by (fastforce simp: operand_text_def operand_char_def)

lemma gpr_back:
  assumes "plain_opts d" and "r < 32"
  shows "operand_text (fst (print_cpureg d r))"
    and "set_gpr (fst (print_cpureg d r)) (CHR ''d'') w0 = Some (put_field 11 (int r) w0)"
    and "set_gpr (fst (print_cpureg d r)) (CHR ''s'') w0 = Some (put_field 21 (int r) w0)"
    and "set_gpr (fst (print_cpureg d r)) (CHR ''t'') w0 = Some (put_field 16 (int r) w0)"
  using gpr_texts [OF assms(2)] operand_dollar [of "regName_pc ! r"]
  by (simp_all add: cpureg_text [OF assms(1)] set_gpr_def)

text \<open>A signed immediate.\<close>

lemma print_imm_back:
  assumes "plain_opts d"
  shows "number_text 11 (print_imm d (IMM w))"
    and "set_imm (print_imm d (IMM w)) True w0 = Some (w0 OR (w AND 0xFFFF))"
proof -
  let ?i = "IMM w"
  have r: "- 32768 \<le> ?i" "?i < 32768" using IMM_range [of w] by auto
  have "number_text 11 (print_imm d ?i) \<and> strtol 64 0 (print_imm d ?i) = (?i, [])"
  proof (cases "da_opt d (CHR ''x'')")
    case True
    then have sd: "da_opt d (CHR ''d'')" using assms by (simp add: plain_opts_def)
    let ?n = "nat \<bar>?i\<bar>"
    have n: "?n < 2 ^ 32" using r by simp
    obtain ds where ds: "print_hex0x ?n = ''0x'' @ map hex_upper ds" "ds \<noteq> []" "\<forall>d \<in> set ds. d < 16"
      "hex_value ds = ?n" "length ds \<le> 8" using print_hex0x_hex [of ?n] n by blast
    have v: "hex_value ds < 2 ^ 32" using ds(4) n by simp
    note rd = hex_back [OF ds(2,3) v] and tx = hex_text [OF ds(2,3)]
    show ?thesis
    proof (cases "?i < 0")
      case neg: True
      then have t: "print_imm d ?i = CHR ''-'' # ''0x'' @ map hex_upper ds" using True sd ds(1) by (simp add: print_imm_def)
      have "number_text 11 (CHR ''-'' # ''0x'' @ map hex_upper ds)" using tx ds(5) by (auto simp: number_text_def)
      then show ?thesis unfolding t using rd(3) ds(4) neg by simp
    next
      case False
      have "uint (word_of_int ?i :: u32) = ?i" using False r by (simp add: unsigned_of_int take_bit_int_eq_self)
      then have w: "(word_of_int ?i AND 0xFFFF :: u32) = word_of_int ?i"
      proof -
        have "(0xFFFF :: u32) = mask 16" by (simp add: mask_eq_exp_minus_1)
        moreover have "take_bit 16 (word_of_int ?i :: u32) = word_of_int (take_bit 16 ?i)" by (rule bit_word_eqI) (auto simp: bit_simps)
        moreover have "take_bit 16 ?i = ?i" using False r by (simp add: take_bit_int_eq_self)
        ultimately show ?thesis by (metis take_bit_eq_mask)
      qed
      have "unat (word_of_int ?i :: u32) = ?n" using False r by (simp add: unsigned_of_int take_bit_int_eq_self unat_eq_nat_uint)
      then have t: "print_imm d ?i = ''0x'' @ map hex_upper ds"
        using True False ds(1) w by (simp add: print_imm_def)
      have "number_text 11 (''0x'' @ map hex_upper ds)" using tx ds(5) by (auto simp: number_text_def)
      then show ?thesis unfolding t using rd(2) ds(4) False by simp
    qed
  next
    case False
    let ?n = "nat \<bar>?i\<bar>"
    have n: "?n < 2 ^ 32" "?n < 10 ^ 10" using r by simp_all
    have tx: "number_text 10 (print_dec ?n)" using n(2) by (intro print_dec_text) simp_all
    show ?thesis
    proof (cases "?i < 0")
      case True
      then have t: "print_imm d ?i = CHR ''-'' # print_dec ?n" using False by (simp add: print_imm_def print_dint_def)
      show ?thesis unfolding t using tx read_dec(3) [OF n(1)] True by (auto simp: number_text_def)
    next
      case pos: False
      then have t: "print_imm d ?i = print_dec ?n" using False by (simp add: print_imm_def print_dint_def)
      show ?thesis unfolding t using tx read_dec(2) [OF n(1)] pos by (auto simp: number_text_def)
    qed
  qed
  then show "number_text 11 (print_imm d ?i)" and "set_imm (print_imm d ?i) True w0 = Some (w0 OR (w AND 0xFFFF))"
    using r sint_of_small [of ?i] IMM_bits [of w] by (auto simp: set_imm_def number_text_def cut_short_def Let_def)
qed

text \<open>An unsigned immediate, a shift, a size, a register of the coprocessor.\<close>

lemma immu_back:
  "number_text 11 (print_hex0x (IMMU w))"
  "set_imm (print_hex0x (IMMU w)) False w0 = Some (w0 OR (w AND 0xFFFF))"
proof -
  have n: "IMMU w < 2 ^ 16" using op_field_less [of 0 16 w] by (simp add: IMMU_def)
  then have n32: "IMMU w < 2 ^ 32" by simp
  obtain ds where ds: "print_hex0x (IMMU w) = ''0x'' @ map hex_upper ds" "ds \<noteq> []" "\<forall>d \<in> set ds. d < 16"
    "hex_value ds = IMMU w" "length ds \<le> 8" using print_hex0x_hex [of "IMMU w"] n32 by blast
  have v: "hex_value ds < 2 ^ 32" using ds(4) n32 by simp
  show t: "number_text 11 (print_hex0x (IMMU w))"
    using hex_text [OF ds(2,3)] ds(5) unfolding ds(1) by (auto simp: number_text_def)
  have s: "strtol 64 0 (print_hex0x (IMMU w)) = (int (IMMU w), [])" unfolding ds(1) hex_back(2) [OF ds(2,3) v] by (simp add: ds(4))
  have "sint (word_of_int (int (IMMU w)) :: u32) = int (IMMU w)" using n by (intro sint_of_small) simp_all
  then show "set_imm (print_hex0x (IMMU w)) False w0 = Some (w0 OR (w AND 0xFFFF))"
    using s t IMMU_bits [of w] unfolding set_imm_def by (simp add: number_text_def Let_def)
qed

lemma regnum_back:
  assumes "n < mx" and "mx \<le> 33"
  shows "parse_regnum (print_dec n) (int mx) = int n"
proof -
  have n: "n < 2 ^ 32" using assms by simp
  have "sint (of_nat n :: u32) = int n" using sint_of_small [of "int n"] assms by simp
  then show ?thesis using read_dec(1) [OF n] print_dec_text [of n 2] assms
    by (simp add: parse_regnum_def number_text_def Let_def)
qed

lemma sa_back:
  "number_text 11 (print_dec (SA w))" "set_sa (print_dec (SA w)) w0 = Some (w0 OR (w AND 0x7C0))"
proof -
  have n: "SA w < 32" using op_field_less [of 6 5 w] by (simp add: SA_def)
  show "number_text 11 (print_dec (SA w))" using n by (intro print_dec_text) simp_all
  have "parse_regnum (print_dec (SA w)) 32 = int (SA w)" using regnum_back [of "SA w" 32] n by simp
  moreover have "push_bit 6 (mask 5) = (0x7C0 :: u32)" by (simp add: mask_eq_exp_minus_1)
  ultimately show "set_sa (print_dec (SA w)) w0 = Some (w0 OR (w AND 0x7C0))"
    using put_field_op [of 6 5 w w0] by (simp add: set_sa_def SA_def)
qed

lemma n_back:
  "number_text 11 (print_dec (RD w + 1))" "set_n (print_dec (RD w + 1)) w0 = Some (w0 OR (w AND 0xF800))"
proof -
  have n: "RD w < 32" using op_field_less [of 11 5 w] by (simp add: RD_def)
  show "number_text 11 (print_dec (RD w + 1))" using n by (intro print_dec_text) simp_all
  have "parse_regnum (print_dec (RD w + 1)) 33 = int (RD w + 1)" using regnum_back [of "RD w + 1" 33] n by simp
  moreover have "push_bit 11 (mask 5) = (0xF800 :: u32)" by (simp add: mask_eq_exp_minus_1)
  ultimately show "set_n (print_dec (RD w + 1)) w0 = Some (w0 OR (w AND 0xF800))"
    using put_field_op [of 11 5 w w0] by (simp add: set_n_def RD_def)
qed

lemma cop0_names:
  assumes "r < 32" and "cop0_regs ! r = Some n"
  shows "name_index cop0_regs n = Some r" and "n \<noteq> [] \<and> hd n \<noteq> CHR ''$''" and "number_text 11 n"
proof -
  have "\<forall>r \<in> set [0..<32]. case cop0_regs ! r of None \<Rightarrow> True
    | Some n \<Rightarrow> name_index cop0_regs n = Some r \<and> n \<noteq> [] \<and> hd n \<noteq> CHR ''$'' \<and> number_text 11 n" by code_simp
  moreover have "r \<in> set [0..<32]" using assms(1) by simp
  ultimately have "case cop0_regs ! r of None \<Rightarrow> True
    | Some n \<Rightarrow> name_index cop0_regs n = Some r \<and> n \<noteq> [] \<and> hd n \<noteq> CHR ''$'' \<and> number_text 11 n" by blast
  then show "name_index cop0_regs n = Some r" "n \<noteq> [] \<and> hd n \<noteq> CHR ''$''" "number_text 11 n"
    using assms(2) by auto
qed

lemma cop0_back:
  "operand_text (print_cop0 (RD w))" "set_cop0 (print_cop0 (RD w)) w0 = Some (w0 OR (w AND 0xF800))"
proof -
  have n: "RD w < 32" using op_field_less [of 11 5 w] by (simp add: RD_def)
  have m: "push_bit 11 (mask 5) = (0xF800 :: u32)" by (simp add: mask_eq_exp_minus_1)
  have f: "put_field 11 (int (RD w)) w0 = w0 OR (w AND 0xF800)"
    using put_field_op [of 11 5 w w0] m by (simp add: RD_def)
  have "operand_text (print_cop0 (RD w)) \<and> set_cop0 (print_cop0 (RD w)) w0 = Some (w0 OR (w AND 0xF800))"
  proof (cases "cop0_regs ! RD w")
    case None
    have t: "number_text 2 (print_dec (RD w))" using n by (intro print_dec_text) simp_all
    have "parse_regnum (print_dec (RD w)) 32 = int (RD w)" using regnum_back [of "RD w" 32] n by simp
    then show ?thesis using None t f operand_dollar [of "print_dec (RD w)"]
      by (simp add: print_cop0_def set_cop0_def number_text_def)
  next
    case (Some nm)
    then show ?thesis using cop0_names [OF n Some] f number_operand [of 11 nm] by (simp add: print_cop0_def set_cop0_def)
  qed
  then show "operand_text (print_cop0 (RD w))" "set_cop0 (print_cop0 (RD w)) w0 = Some (w0 OR (w AND 0xF800))" by auto
qed

text \<open>Addresses.\<close>

lemma jump_text:
  assumes "plain_opts d"
  shows "number_text 11 (print_jump d a)" and "strtoul 64 0 (print_jump d a) = (unat a, [])"
proof -
  have t: "print_jump d a = ''0x'' @ fmt_08X a"
    using assms by (simp add: print_jump_def disasmResolveSymbol_def plain_opts_def)
  obtain ds where ds: "fmt_08X a = map hex_upper ds" "ds \<noteq> []" "\<forall>d \<in> set ds. d < 16" "hex_value ds = unat a" "length ds = 8"
    using fmt_08X_hex [of a] by blast
  have v: "hex_value ds < 2 ^ 32" using ds(4) unsigned_less [of a] by simp
  show "number_text 11 (print_jump d a)" using hex_text [OF ds(2,3)] ds(5) unfolding t ds(1) by (auto simp: number_text_def)
  show "strtoul 64 0 (print_jump d a) = (unat a, [])" unfolding t ds(1) hex_back(1) [OF ds(2,3) v] ds(4) ..
qed

lemma pcofs_back:
  assumes "plain_opts d"
  shows "set_pcofs (print_pcofs d (IMM w) PC) PC w0 = Some (w0 OR (w AND 0xFFFF))"
proof -
  let ?a = "PC + 4 + word_of_int (IMM w * 4) :: u32"
  have r: "- 32768 \<le> IMM w" "IMM w < 32768" using IMM_range [of w] by auto
  have "of_nat (unat ?a) - PC - 4 = (word_of_int (IMM w * 4) :: u32)" by simp
  then have "sint (of_nat (unat ?a) - PC - 4 :: u32) = IMM w * 4"
    using sint_of_small [of "IMM w * 4"] r by (simp only:) simp
  moreover have "div4 (i * 4) = i" for i unfolding div4_def by presburger
  ultimately have "div4 (sint (of_nat (unat ?a) - PC - 4 :: u32)) = IMM w" by simp
  then have "cut_short (div4 (sint (of_nat (unat ?a) - PC - 4 :: u32))) = IMM w" using r by (simp add: cut_short_def)
  then show ?thesis using jump_text [OF assms, of ?a] IMM_bits [of w]
    unfolding set_pcofs_def print_pcofs_def by (simp add: number_text_def Let_def)
qed

lemma jump_back:
  assumes "plain_opts d"
  shows "set_jump (print_jump d (JUMP w PC)) w0 = Some (w0 OR (w AND 0x3FFFFFF))"
proof -
  have m: "(0x0FFFFFFF :: u32) = mask 28" "(0x3FFFFFF :: u32) = mask 26" "(0xF0000000 :: u32) = NOT (mask 28)"
    by (simp_all add: mask_eq_exp_minus_1)
  have "drop_bit 2 (JUMP w PC AND 0x0FFFFFFF) = w AND 0x3FFFFFF"
    unfolding JUMP_def m by (rule bit_word_eqI) (auto simp: bit_simps)
  then show ?thesis using jump_text [OF assms, of "JUMP w PC"] unfolding set_jump_def by (simp add: number_text_def)
qed

end
