(* ===== verification/DisasmTrip.thy ===== *)
theory DisasmTrip
  imports DisasmProps
begin

unbundle bit_operations_syntax

text \<open>
  Assembling what was disassembled: the formats of the tables, the words they cover, the round trip of a whole
  line, and the instructions that do not make it.
\<close>

section \<open>One operand\<close>

text \<open>The text of an operand, the code the assembler has for it, and the bits it is printed from.\<close>

definition dis_text :: "disasm \<Rightarrow> u32 \<Rightarrow> u32 \<Rightarrow> char \<Rightarrow> string" where
  "dis_text d w PC k =
     (if k = CHR ''n'' then print_dec (RD w + 1)
      else (case decode_one d None w PC k of Some s \<Rightarrow> fst s | None \<Rightarrow> ''''))"

definition asm_key :: "char \<Rightarrow> char" where
  "asm_key k = (if k = CHR ''J'' then CHR ''s'' else k)"

definition field_mask :: "char \<Rightarrow> u32" where
  "field_mask k =
     (if k = CHR ''d'' \<or> k = CHR ''0'' \<or> k = CHR ''n'' then 0xF800
      else if k = CHR ''t'' then 0x1F0000
      else if k = CHR ''s'' \<or> k = CHR ''J'' then 0x3E00000
      else if k = CHR ''i'' \<or> k = CHR ''I'' \<or> k = CHR ''O'' then 0xFFFF
      else if k = CHR ''o'' then 0x3E0FFFF
      else if k = CHR ''j'' then 0x3FFFFFF
      else 0x7C0)"

definition two_way :: "char list" where
  "two_way = ''dtsiIoOjJa0n''"

lemma reg_masks:
  "push_bit 11 (mask 5) = (0xF800 :: u32)" "push_bit 16 (mask 5) = (0x1F0000 :: u32)"
  "push_bit 21 (mask 5) = (0x3E00000 :: u32)"
  by (simp_all add: mask_eq_exp_minus_1)

lemma reg_fields:
  "put_field 11 (int (RD w)) w0 = w0 OR (w AND 0xF800)" "RD w < 32"
  "put_field 16 (int (RT w)) w0 = w0 OR (w AND 0x1F0000)" "RT w < 32"
  "put_field 21 (int (RS w)) w0 = w0 OR (w AND 0x3E00000)" "RS w < 32"
  using put_field_op [of 11 5 w w0] put_field_op [of 16 5 w w0] put_field_op [of 21 5 w w0]
    op_field_less [of 11 5 w] op_field_less [of 16 5 w] op_field_less [of 21 5 w]
  by (simp_all add: reg_masks RD_def RT_def RS_def)

lemma split_at_first: "c \<notin> set a \<Longrightarrow> split_at c (a @ c # b) = Some (a, b)"
  by (induction a) (auto simp: split_at_def)

text \<open>An offset with its register.\<close>

lemma regofs_back:
  assumes "plain_opts d"
  shows "operand_text (fst (print_ofs d (IMM w) (RS w) None))"
    and "set_regofs (fst (print_ofs d (IMM w) (RS w) None)) w0 = Some (w0 OR (w AND 0x3E0FFFF))"
proof -
  let ?i = "print_imm d (IMM w)" and ?r = "fst (print_cpureg d (RS w))"
  have t: "fst (print_ofs d (IMM w) (RS w) None) = ?i @ CHR ''('' # ?r @ CHR '')'' # []"
    by (simp add: print_ofs_def)
  have i: "number_text 11 ?i" and si: "set_imm ?i True w0 = Some (w0 OR (w AND 0xFFFF))"
    using print_imm_back [OF assms] by auto
  have r: "operand_text ?r" and sr: "set_gpr ?r (CHR ''s'') w1 = Some (w1 OR (w AND 0x3E00000))" for w1
    using gpr_back(1,3) [OF assms reg_fields(6)] reg_fields(5) by auto
  have reg: "?r = CHR ''$'' # regName_pc ! RS w" by (rule cpureg_text [OF assms])
  note names = gpr_texts [OF reg_fields(6)]
  have "code (CHR ''('') = 40" "code (CHR '')'') = 41" by code_simp+
  then have nb: "CHR ''('' \<notin> set ?i" "CHR '')'' \<notin> set ?r"
    using i names(3) unfolding number_text_def reg by (fastforce, fastforce)
  have ops: "operand_text ?i" using i by (rule number_operand) simp
  have len: "length (?i @ CHR ''('' # ?r @ CHR '')'' # []) \<le> 16"
    using i names(2) by (simp add: number_text_def reg)
  have "operand_char (CHR ''('')" "operand_char (CHR '')'')" by (simp_all add: operand_char_def)
  then show "operand_text (fst (print_ofs d (IMM w) (RS w) None))"
    using ops r len unfolding t operand_text_def by auto
  have m: "(w0 OR (w AND 0xFFFF)) OR (w AND 0x3E00000) = w0 OR (w AND 0x3E0FFFF)"
  proof -
    have e: "(0x3E0FFFF :: u32) = 0xFFFF OR 0x3E00000" by simp
    show ?thesis unfolding e by (simp only: bit.conj_disj_distrib or.assoc)
  qed
  show "set_regofs (fst (print_ofs d (IMM w) (RS w) None)) w0 = Some (w0 OR (w AND 0x3E0FFFF))"
    unfolding t set_regofs_def split_at_first [OF nb(1)] option.case prod.case split_at_first [OF nb(2)]
      strip_operand [OF ops] strip_operand [OF r] si sr m
    using len by simp
qed

lemma operand_back:
  assumes "plain_opts d" and "k \<in> set two_way"
  shows "operand_text (dis_text d w PC k)"
    and "encode_arg (asm_key k) (dis_text d w PC k) PC w0 = Inr (Some (w0 OR (w AND field_mask k)))"
proof -
  let ?P = "\<lambda>k. operand_text (dis_text d w PC k) \<and>
    encode_arg (asm_key k) (dis_text d w PC k) PC w0 = Inr (Some (w0 OR (w AND field_mask k)))"
  note defs = dis_text_def decode_one_def asm_key_def encode_arg_def field_mask_def plain_text_def
  note num = number_operand [where n = 11]
  have p: "?P (CHR ''d'')" "?P (CHR ''t'')" "?P (CHR ''s'')" "?P (CHR ''J'')"
    using gpr_back [OF assms(1) reg_fields(2)] gpr_back [OF assms(1) reg_fields(4)] gpr_back [OF assms(1) reg_fields(6)]
    by (simp_all add: defs print_jumpr_def reg_fields)
  have q: "?P (CHR ''i'')" "?P (CHR ''I'')" "?P (CHR ''o'')"
    using num [OF print_imm_back(1) [OF assms(1)]] num [OF immu_back(1)]
    by (simp_all add: defs print_imm_back(2) [OF assms(1)] immu_back(2) regofs_back [OF assms(1)])
  have r: "?P (CHR ''O'')" "?P (CHR ''j'')"
    using num [OF jump_text(1) [OF assms(1)]] pcofs_back [OF assms(1)] jump_back [OF assms(1)]
    by (simp_all add: defs print_pcofs_def)
  have t: "?P (CHR ''a'')" "?P (CHR ''0'')" "?P (CHR ''n'')"
    using num [OF sa_back(1)] num [OF n_back(1)]
    by (simp_all add: defs sa_back(2) n_back(2) [simplified] cop0_back)
  have "k \<in> {CHR ''d'', CHR ''t'', CHR ''s'', CHR ''i'', CHR ''I'', CHR ''o'', CHR ''O'', CHR ''j'', CHR ''J'', CHR ''a'',
    CHR ''0'', CHR ''n''}" using assms(2) by (simp add: two_way_def)
  then have "?P k" using p q r t by blast
  then show "operand_text (dis_text d w PC k)"
    and "encode_arg (asm_key k) (dis_text d w PC k) PC w0 = Inr (Some (w0 OR (w AND field_mask k)))" by auto
qed

section \<open>Formats\<close>

fun join_ops :: "string list \<Rightarrow> string" where
  "join_ops [] = []"
| "join_ops (t # ts) = (if ts = [] then t else t @ CHR '','' # CHR '' '' # join_ops ts)"

definition dis_item :: "char \<Rightarrow> string" where
  "dis_item k = (if k = CHR ''n'' then ''%ne'' else [CHR ''%'', k])"

definition dis_fmt :: "char list \<Rightarrow> string" where "dis_fmt ks = join_ops (map dis_item ks)"

definition asm_fmt :: "char list \<Rightarrow> string" where "asm_fmt ks = join_ops (map (\<lambda>k. [CHR ''%'', asm_key k]) ks)"

lemma decode_char: "c \<noteq> CHR ''%'' \<Longrightarrow> fst (decode_args d rr w PC vm (c # f)) = c # fst (decode_args d rr w PC vm f)"
  by (subst decode_args.simps) (simp add: add_shown_def)

lemma decode_item:
  assumes "k \<in> set two_way"
  shows "fst (decode_args d None w PC False (dis_item k @ f)) = dis_text d w PC k @ fst (decode_args d None w PC False f)"
proof (cases "k = CHR ''n''")
  case True
  then show ?thesis
    by (subst decode_args.simps)
      (simp add: dis_item_def decode_one_def decode_two_def dis_text_def add_shown_def plain_text_def)
next
  case False
  then obtain s where s: "decode_one d None w PC k = Some s"
    using assms by (cases "decode_one d None w PC k") (auto simp: two_way_def decode_one_def split: if_splits)
  then show ?thesis using False
    by (subst decode_args.simps) (simp add: dis_item_def dis_text_def add_shown_def)
qed

lemma decode_nil [simp]: "fst (decode_args d rr w PC vm []) = []"
  by (subst decode_args.simps) simp

lemma decode_fmt:
  "set ks \<subseteq> set two_way \<Longrightarrow> fst (decode_args d None w PC False (dis_fmt ks)) = join_ops (map (dis_text d w PC) ks)"
proof (induction ks)
  case Nil
  then show ?case by (simp add: dis_fmt_def)
next
  case (Cons k ks)
  then have k: "k \<in> set two_way" and ih: "fst (decode_args d None w PC False (dis_fmt ks)) = join_ops (map (dis_text d w PC) ks)"
    by auto
  show ?case
    using decode_item [OF k, of d w PC "[]"] decode_item [OF k, of d w PC "CHR '','' # CHR '' '' # dis_fmt ks"] ih
    by (cases "ks = []") (simp_all add: dis_fmt_def decode_char)
qed

definition masks :: "char list \<Rightarrow> u32" where
  "masks ks = foldr (\<lambda>k m. field_mask k OR m) ks 0"

lemma encode_fmt:
  assumes "plain_opts d"
  shows "set ks \<subseteq> set two_way \<Longrightarrow>
    encode_args (map (dis_text d w PC) ks) (asm_fmt ks) PC w0 = Inr (Some (w0 OR (w AND masks ks)))"
proof (induction ks arbitrary: w0)
  case Nil
  then show ?case by (simp add: asm_fmt_def masks_def)
next
  case (Cons k ks)
  then have k: "k \<in> set two_way" and ih: "\<And>w0. encode_args (map (dis_text d w PC) ks) (asm_fmt ks) PC w0
      = Inr (Some (w0 OR (w AND masks ks)))" by auto
  have m: "(w0 OR (w AND field_mask k)) OR (w AND masks ks) = w0 OR (w AND masks (k # ks))"
    unfolding masks_def by (simp only: foldr.simps o_apply bit.conj_disj_distrib or.assoc)
  note b = operand_back(2) [OF assms k, of w PC w0]
  show ?case
  proof (cases "ks = []")
    case True
    then show ?thesis using b by (simp add: asm_fmt_def masks_def)
  next
    case False
    have f: "asm_fmt (k # ks) = CHR ''%'' # asm_key k # CHR '','' # CHR '' '' # asm_fmt ks"
      using False by (simp add: asm_fmt_def)
    have "encode_args (map (dis_text d w PC) (k # ks)) (asm_fmt (k # ks)) PC w0
        = encode_args (map (dis_text d w PC) ks) (asm_fmt ks) PC (w0 OR (w AND field_mask k))"
      unfolding f using b by simp
    also have "\<dots> = Inr (Some (w0 OR (w AND masks (k # ks))))" unfolding ih m ..
    finally show ?thesis .
  qed
qed

section \<open>Arguments\<close>

lemma operand_no_comma: "operand_text t \<Longrightarrow> \<forall>c \<in> set t. \<not> c = CHR '',''"
  by (auto simp: operand_text_def operand_char_def)

lemma strip_space_operand:
  assumes "operand_text t"
  shows "strip_wsp (CHR '' '' # t) = Some t"
proof -
  have ne: "t \<noteq> []" and c: "\<forall>c \<in> set t. \<not> isspace c" using assms by (auto simp: operand_text_def operand_not_space)
  have "\<not> isspace (hd (rev t @ [CHR '' '']))" using ne c by (simp add: hd_append hd_rev)
  then have r: "skip_space (rev (CHR '' '' # t)) = rev (CHR '' '' # t)"
    using ne by (intro skip_space_id) (simp add: hd_append)
  have "\<not> isspace (hd t)" using ne c by simp
  then have "skip_space t = t" by (simp add: skip_space_id)
  then have "trim_line (CHR '' '' # t) = t" unfolding trim_line_def r by (simp add: isspace_def)
  then show ?thesis using ne by (simp add: strip_wsp_def)
qed

lemma asm_args_join:
  "\<forall>t \<in> set ts. operand_text t \<Longrightarrow> ts \<noteq> [] \<Longrightarrow> length ts \<le> n \<Longrightarrow> sp = [] \<or> sp = '' '' \<Longrightarrow>
     asm_args n (sp @ join_ops ts) = Some ts"
proof (induction ts arbitrary: n sp)
  case (Cons t ts)
  let ?comma = "\<lambda>c. c = CHR '',''"
  obtain m where n: "n = Suc m" using Cons.prems(3) by (cases n) auto
  have t: "operand_text t" using Cons.prems(1) by simp
  have st: "strip_wsp (sp @ t) = Some t" using Cons.prems(4) strip_operand [OF t] strip_space_operand [OF t] by auto
  have ne: "t \<noteq> []" using t by (simp add: operand_text_def)
  have sp: "\<forall>c \<in> set sp. \<not> ?comma c" using Cons.prems(4) by (elim disjE) simp_all
  have tk: "sp @ t \<noteq> []" "\<forall>c \<in> set (sp @ t). \<not> ?comma c"
    using ne by simp (use operand_no_comma [OF t] sp in \<open>simp add: ball_Un\<close>)
  have cc: "?comma (CHR '','')" by simp
  note tok = strtok_token [where d = ?comma, OF tk cc]
  show ?case
  proof (cases "ts = []")
    case True
    have "asm_args m [] = Some []" by (cases m) simp_all
    then show ?thesis using True n tok(2) st by simp
  next
    case False
    have "asm_args m ('' '' @ join_ops ts) = Some ts"
      using Cons.prems False n by (intro Cons.IH) simp_all
    then show ?thesis using False n tok(1) [of "CHR '' '' # join_ops ts"] st by simp
  qed
qed simp

section \<open>Instructions\<close>

text \<open>The operands of a format of codes the assembler and the disassembler agree on.\<close>

fun dis_operands :: "string \<Rightarrow> char list option" where
  "dis_operands (c # k # r) =
     (if c \<noteq> CHR ''%'' then None
      else (let r' = (if k = CHR ''n'' then tl r else r) in
        if k = CHR ''n'' \<and> (r = [] \<or> hd r \<noteq> CHR ''e'') then None
        else if r' = [] then Some [k]
        else if take 2 r' = '', '' \<and> length r' > 2 then map_option ((#) k) (dis_operands (drop 2 r'))
        else None))"
| "dis_operands [] = Some []"
| "dis_operands [c] = None"

lemma dis_operands_fmt: "dis_operands f = Some ks \<Longrightarrow> f = dis_fmt ks"
proof (induction f arbitrary: ks rule: dis_operands.induct)
  case (1 c k r)
  let ?r = "if k = CHR ''n'' then tl r else r"
  have c: "c = CHR ''%''" and n: "k = CHR ''n'' \<longrightarrow> r \<noteq> [] \<and> hd r = CHR ''e''"
    using 1(2) by (auto simp: Let_def split: if_splits)
  have f: "c # k # r = dis_item k @ ?r" using c n by (cases r) (auto simp: dis_item_def)
  show ?case
  proof (cases "?r = []")
    case True
    then have "ks = [k]" using 1(2) c n by (auto simp: Let_def split: if_splits)
    then show ?thesis using f True by (simp add: dis_fmt_def)
  next
    case False
    then have t: "take 2 ?r = '', ''" "length ?r > 2"
      using 1(2) c n by (auto simp: Let_def split: if_splits)
    then obtain ks' where ks': "dis_operands (drop 2 ?r) = Some ks'" "ks = k # ks'"
      using 1(2) c n False by (auto simp: Let_def split: if_splits)
    have "\<not> (k = CHR ''n'' \<and> (r = [] \<or> hd r \<noteq> CHR ''e''))" using n by blast
    then have ih: "drop 2 ?r = dis_fmt ks'"
      using 1(1) [OF _ refl _ False _ ks'(1)] c t by blast
    have "?r = '', '' @ drop 2 ?r" using t(1) by (metis append_take_drop_id)
    moreover have "ks' \<noteq> []" using ih t(2) by (auto simp: dis_fmt_def)
    ultimately show ?thesis using f ih ks'(2) by (simp add: dis_fmt_def)
  qed
qed (simp_all add: dis_fmt_def)

text \<open>
  An instruction the assembler has under the same name and number of operands, with the same opcode and
  operands, which together with the mask cover the word.
\<close>

definition assemblable :: "dinstr \<Rightarrow> bool" where
  "assemblable e =
     (case dis_operands (di_fmt e) of
        None \<Rightarrow> False
      | Some ks \<Rightarrow> list_all (\<lambda>k. k \<in> set two_way) ks \<and> length ks \<le> 4 \<and> di_name e \<noteq> []
          \<and> list_all (\<lambda>c. \<not> asm_blank c \<and> c \<noteq> CHR 0x00) (di_name e) \<and> length (di_name e) \<le> 10
          \<and> (case find_inst (di_name e) (length ks) of
               None \<Rightarrow> False
             | Some a \<Rightarrow> in_opcode a = di_opcode e \<and> in_fmt a = asm_fmt ks)
          \<and> di_mask e OR masks ks = 0xFFFFFFFF)"

lemma join_ops_length: "\<forall>t \<in> set ts. operand_text t \<Longrightarrow> length (join_ops ts) \<le> 26 * length ts"
  by (induction ts) (auto simp: operand_text_def)

lemma join_ops_no_nul: "\<forall>t \<in> set ts. operand_text t \<Longrightarrow> CHR 0x00 \<notin> set (join_ops ts)"
proof (induction ts)
  case (Cons t ts)
  have "\<not> operand_char (CHR 0x00)" by (simp add: operand_char_def)
  moreover have "\<forall>c \<in> set t. operand_char c" using Cons(2) by (simp add: operand_text_def)
  ultimately have "CHR 0x00 \<notin> set t" by blast
  then show ?case using Cons by simp
qed simp

lemma join_ops_hd: "\<forall>t \<in> set ts. operand_text t \<Longrightarrow> ts \<noteq> [] \<Longrightarrow> join_ops ts \<noteq> [] \<and> \<not> isspace (hd (join_ops ts))"
  by (cases ts) (auto simp: operand_text_def operand_not_space)

lemma skip_spaces: "skip_space (replicate n (CHR '' '') @ s) = skip_space s"
  by (induction n) (simp_all add: isspace_def)

lemma assemble_line:
  assumes "\<forall>t \<in> set ts. operand_text t" and "length ts \<le> 4"
    and "n \<noteq> []" and "\<forall>c \<in> set n. \<not> asm_blank c" and "length n \<le> 10"
  shows "asmAssemble (fst (snprintf 1024 (pad_right 10 n @ '' '' @ join_ops ts))) PC = assemble_op n ts PC"
proof -
  let ?l = "pad_right 10 n @ '' '' @ join_ops ts"
  have len: "length ?l < 1023" using join_ops_length [OF assms(1)] assms(2,5) by (simp add: pad_right_def)
  then have sn: "fst (snprintf 1024 ?l) = ?l" by (simp add: snprintf_def)
  obtain m where m: "?l = n @ CHR '' '' # replicate m (CHR '' '') @ join_ops ts"
  proof (rule that [of "10 - length n"])
    show "?l = n @ CHR '' '' # replicate (10 - length n) (CHR '' '') @ join_ops ts"
      by (simp add: pad_right_def replicate_app_Cons_same)
  qed
  have "asm_blank (CHR '' '')" by (simp add: asm_blank_def)
  then have tok: "strtok asm_blank ?l = Some (n, replicate m (CHR '' '') @ join_ops ts)"
    unfolding m by (rule strtok_token(1) [OF assms(3,4)])
  have args: "asm_args 32 (skip_space (replicate m (CHR '' '') @ join_ops ts)) = Some ts"
  proof (cases "ts = []")
    case True
    have "asm_args 32 [] = Some []" by (simp add: numeral_eq_Suc)
    then show ?thesis using True skip_spaces [of m "[]"] by simp
  next
    case False
    have "skip_space (join_ops ts) = join_ops ts" using join_ops_hd [OF assms(1) False] by (intro skip_space_id) simp
    moreover have "asm_args 32 ([] @ join_ops ts) = Some ts" using assms(1,2) False by (intro asm_args_join) simp_all
    ultimately show ?thesis by (simp add: skip_spaces)
  qed
  show ?thesis unfolding sn asmAssemble_def using len tok args by simp
qed

lemma find_opcode_matches: "find_opcode es w = Some e \<Longrightarrow> w AND di_mask e = di_opcode e"
  by (auto simp: find_opcode_def find_Some_iff)

lemma find_dinst_matches: "find_dinst d w = Some e \<Longrightarrow> w AND di_mask e = di_opcode e"
  by (auto simp: find_dinst_def split: if_splits option.splits dest: find_opcode_matches)

text \<open>C38: What the disassembler prints the assembler assembles. With the options that print registers by name and
  numbers with their sign, and without symbols, the line of an instruction both tables agree on is assembled,
  at the same address, to the word it was printed from, whatever the word and the address.
\<close>

theorem disassemble_assemble:
  assumes "plain_opts d" and "find_dinst d w = Some e" and "assemblable e"
  shows "asmAssemble (fst (disasmInstruction d w PC None True)) PC = Inr (Some w)"
proof -
  obtain ks where f: "dis_operands (di_fmt e) = Some ks" using assms(3) by (auto simp: assemblable_def split: option.splits)
  have ks: "set ks \<subseteq> set two_way" "length ks \<le> 4" and nm: "di_name e \<noteq> []" "\<forall>c \<in> set (di_name e). \<not> asm_blank c"
    "length (di_name e) \<le> 10" and m: "di_mask e OR masks ks = 0xFFFFFFFF"
    using assms(3) f by (auto simp: assemblable_def list_all_iff)
  obtain a where a: "find_inst (di_name e) (length ks) = Some a" "in_opcode a = di_opcode e" "in_fmt a = asm_fmt ks"
    using assms(3) f by (auto simp: assemblable_def split: option.splits)
  let ?ts = "map (dis_text d w PC) ks"
  have ts: "\<forall>t \<in> set ?ts. operand_text t" using operand_back(1) [OF assms(1)] ks(1) by auto
  have args: "fst (decode_args d None w PC False (di_fmt e)) = join_ops ?ts"
    unfolding dis_operands_fmt [OF f] by (rule decode_fmt [OF ks(1)])
  have nul: "str_of (join_ops ?ts) = join_ops ?ts"
    using join_ops_no_nul [OF ts] unfolding str_of_def takeWhile_eq_all_conv by blast
  have "fst (disasmInstruction d w PC None True) = fst (snprintf 1024 (pad_right 10 (di_name e) @ '' '' @ join_ops ?ts))"
    by (simp add: disasmInstruction_def assms(2) format_line_def args nul split: prod.split)
  also have "asmAssemble \<dots> PC = assemble_op (di_name e) ?ts PC"
    using ks(2) by (intro assemble_line [OF ts _ nm]) simp
  also have "\<dots> = Inr (Some (di_opcode e OR (w AND masks ks)))"
    using a encode_fmt [OF assms(1) ks(1)] by (simp add: assemble_op_def)
  also have "di_opcode e OR (w AND masks ks) = w AND (di_mask e OR masks ks)"
    unfolding find_dinst_matches [OF assms(2), symmetric] by (simp only: bit.conj_disj_distrib)
  also have "\<dots> = w"
  proof -
    have one: "(0xFFFFFFFF :: u32) = - 1" by simp
    show ?thesis unfolding m one by (rule and.right_neutral)
  qed
  finally show ?thesis .
qed

text \<open>The instructions for which the two tables do not agree, by name.\<close>

definition one_way :: "dinstr list \<Rightarrow> string list" where
  "one_way es = map di_name (filter (\<lambda>e. \<not> assemblable e) es)"

lemma one_way_macro: "one_way dis_macro = [''li'', ''move'', ''b'']"
  by code_simp

lemma one_way_a: "one_way dis_cpu_a = [''bgezal'', ''break'', ''cache'', ''cfc0'', ''ctc0'', ''ins'', ''ll'']"
  by code_simp

lemma one_way_b: "one_way dis_cpu_b = [''mfdr'', ''mfic'', ''msub'', ''msubu'', ''mtdr'', ''mtic'', ''multu'', ''syscall'']"
  by code_simp

end
