(* ===== verification/DisasmFaults.thy ===== *)
theory DisasmFaults
  imports DisasmTrip
begin

unbundle bit_operations_syntax

text \<open>
  Lines that are not assembled to what they were printed from, the lines that crash the assembler, and the
  round trip on a concrete word.
\<close>

lemma find_opcode_append: "find_opcode (a @ b) w = (case find_opcode a w of Some e \<Rightarrow> Some e | None \<Rightarrow> find_opcode b w)"
  by (induction a) (simp_all add: find_opcode_def)

definition demo_disasm :: disasm where
  "demo_disasm = \<lparr>da_opt = (\<lambda>c. False), da_syms = None, da_fmt_g = (\<lambda>w. [])\<rparr>"

lemma demo_plain: "plain_opts demo_disasm"
  by (simp add: plain_opts_def demo_disasm_def)

text \<open>\<^verbatim>\<open>addiu $sp, $sp, -32\<close>\<close>

lemma demo_addiu:
  "find_dinst demo_disasm 0x27BDFFE0 = Some (DInstr ''addiu'' 0x24000000 0xFC000000 ''%t, %s, %i'' ADDR_TYPE_NONE 0)"
  "assemblable (DInstr ''addiu'' 0x24000000 0xFC000000 ''%t, %s, %i'' ADDR_TYPE_NONE 0)"
proof -
  have "find_opcode dis_macro 0x27BDFFE0 = None" by code_simp
  moreover have "find_opcode dis_cpu_a 0x27BDFFE0 = Some (DInstr ''addiu'' 0x24000000 0xFC000000 ''%t, %s, %i'' ADDR_TYPE_NONE 0)"
    by code_simp
  ultimately show "find_dinst demo_disasm 0x27BDFFE0 = Some (DInstr ''addiu'' 0x24000000 0xFC000000 ''%t, %s, %i'' ADDR_TYPE_NONE 0)"
    by (simp add: find_dinst_def demo_disasm_def dis_inst_def dis_cpu_def find_opcode_append)
  show "assemblable (DInstr ''addiu'' 0x24000000 0xFC000000 ''%t, %s, %i'' ADDR_TYPE_NONE 0)" by code_simp
qed

theorem disassemble_assemble_witness:
  "asmAssemble (fst (disasmInstruction demo_disasm 0x27BDFFE0 0x08804000 None True)) 0x08804000 = Inr (Some 0x27BDFFE0)
    \<and> find_dinst demo_disasm 0x27BDFFE0 \<noteq> None"
  using disassemble_assemble [OF demo_plain demo_addiu] demo_addiu(1) by simp

section \<open>Immediates of 16 bits\<close>

text \<open>The first macro that matches a word.\<close>

lemma li_found:
  assumes "\<not> da_opt d (CHR ''m'')" and "w AND 0xFFE00000 = (0x34000000 :: u32)"
  shows "find_dinst d w = Some (DInstr ''li'' 0x34000000 0xFFE00000 ''%t, %I'' ADDR_TYPE_NONE 0)"
proof -
  have "w \<noteq> 0"
  proof
    assume "w = 0"
    with assms(2) show False by simp
  qed
  moreover have "w AND 0xFFFFFFFF = w"
  proof -
    have "(0xFFFFFFFF :: u32) = - 1" by simp
    then show ?thesis by (simp only: and.right_neutral)
  qed
  ultimately show ?thesis using assms by (simp add: find_dinst_def find_opcode_def dis_macro_def)
qed

lemma li_first: "find_inst ''li'' 2 = Some (Instr ''li'' 0x24000000 0xFFE00000 ''%t, %i'' 2)"
  by code_simp

text \<open>A load of an unsigned immediate is not read back. The disassembler prints an ori from the zero
  register as the macro li, which the assembler takes for an addiu with a signed immediate: from 0x8000 on,
  whatever the immediate is, the word it makes loads 0x7FFF.
\<close>

theorem li_loads_other_value:
  assumes "plain_opts d" and "\<not> da_opt d (CHR ''m'')"
    and "w AND 0xFFE00000 = 0x34000000" and "bit w 15"
  shows "asmAssemble (fst (disasmInstruction d w PC None True)) PC = Inr (Some (0x24007FFF OR (w AND 0x1F0000)))"
proof -
  let ?ks = "''tI''"
  let ?ts = "map (dis_text d w PC) ?ks"
  have two: "set ?ks \<subseteq> set two_way" by (simp add: two_way_def)
  have ts: "\<forall>t \<in> set ?ts. operand_text t" using operand_back(1) [OF assms(1)] two by auto
  have fmt: "dis_fmt ?ks = ''%t, %I''" by (simp add: dis_fmt_def dis_item_def)
  have args: "fst (decode_args d None w PC False ''%t, %I'') = join_ops ?ts"
    using decode_fmt [OF two, of d w PC] unfolding fmt .
  have nul: "str_of (join_ops ?ts) = join_ops ?ts"
    using join_ops_no_nul [OF ts] unfolding str_of_def takeWhile_eq_all_conv by blast
  have line: "fst (disasmInstruction d w PC None True) = fst (snprintf 1024 (pad_right 10 ''li'' @ '' '' @ join_ops ?ts))"
    by (simp only: disasmInstruction_def li_found [OF assms(2,3)] format_line_def args nul Let_def prod.case
        option.case dinstr.sel fst_conv if_True)
  have parsed: "asmAssemble (fst (snprintf 1024 (pad_right 10 ''li'' @ '' '' @ join_ops ?ts))) PC = assemble_op ''li'' ?ts PC"
    by (intro assemble_line [OF ts]) (simp_all add: asm_blank_def)
  have enc: "assemble_op ''li'' ?ts PC = encode_args ?ts ''%t, %i'' PC 0x24000000"
  proof -
    have "length ?ts = 2" by simp
    then show ?thesis by (simp only: assemble_op_def li_first option.case instr.sel)
  qed
  have word: "encode_args ?ts ''%t, %i'' PC 0x24000000 = Inr (Some (0x24007FFF OR (w AND 0x1F0000)))"
  proof -
    let ?w1 = "0x24000000 OR (w AND 0x1F0000) :: u32"
    have t: "encode_arg (CHR ''t'') (dis_text d w PC (CHR ''t'')) PC 0x24000000 = Inr (Some ?w1)"
      using operand_back(2) [OF assms(1), of "CHR ''t''" w PC "0x24000000"] by (simp add: two_way_def asm_key_def field_mask_def)
    have imm: "32768 \<le> IMMU w" "IMMU w < 65536"
    proof -
      have "unat (take_bit 16 (drop_bit 0 w)) = take_bit 16 (unat w)" by (simp add: unsigned_take_bit_eq)
      moreover have "bit (unat w) 15" using assms(4) by (simp add: bit_unsigned_iff)
      then have "32768 \<le> take_bit 16 (unat w)"
      proof -
        assume b: "bit (unat w) 15"
        have "take_bit 16 (unat w) = take_bit 15 (unat w) + 2 ^ 15 * of_bool (bit (unat w) 15)"
          using take_bit_Suc_from_most [of 15 "unat w"] by simp
        then show ?thesis using b by simp
      qed
      ultimately show "32768 \<le> IMMU w" by (simp add: IMMU_def op_field_def)
      show "IMMU w < 65536" using op_field_less [of 0 16 w] by (simp add: IMMU_def)
    qed
    obtain ds where ds: "print_hex0x (IMMU w) = ''0x'' @ map hex_upper ds" "ds \<noteq> []" "\<forall>d \<in> set ds. d < 16"
      "hex_value ds = IMMU w" using print_hex0x_hex [of "IMMU w"] by blast
    have v: "hex_value ds < 2 ^ 32" using ds(4) imm by simp
    have s: "strtol 64 0 (print_hex0x (IMMU w)) = (int (IMMU w), [])" unfolding ds(1) hex_back(2) [OF ds(2,3) v] by (simp add: ds(4))
    have si: "sint (word_of_int (int (IMMU w)) :: u32) = int (IMMU w)" using imm by (intro sint_of_small) simp_all
    have "dis_text d w PC (CHR ''I'') = print_hex0x (IMMU w)" by (simp add: dis_text_def decode_one_def plain_text_def)
    moreover have "set_imm (print_hex0x (IMMU w)) True ?w1 = Some (?w1 OR 0x7FFF)"
      using s si imm immu_back(1) [of w] unfolding set_imm_def by (simp add: number_text_def cut_short_def Let_def)
    moreover have "?w1 OR 0x7FFF = 0x24007FFF OR (w AND 0x1F0000)"
    proof -
      have "(0x24007FFF :: u32) = 0x24000000 OR 0x7FFF" by simp
      then show ?thesis by (simp only: or.assoc or.commute or.left_commute)
    qed
    ultimately show ?thesis using t by (simp add: encode_arg_def)
  qed
  show ?thesis unfolding line parsed enc word ..
qed

theorem li_loads_other_value_witness:
  "asmAssemble (fst (disasmInstruction demo_disasm 0x3404A000 0 None True)) 0 = Inr (Some 0x24047FFF)"
proof -
  have "\<not> da_opt demo_disasm (CHR ''m'')" by (simp add: demo_disasm_def)
  moreover have "(0x3404A000 :: u32) AND 0xFFE00000 = 0x34000000" "bit (0x3404A000 :: u32) 15" by code_simp+
  moreover have "0x24007FFF OR ((0x3404A000 :: u32) AND 0x1F0000) = 0x24047FFF" by code_simp
  ultimately show ?thesis using li_loads_other_value [OF demo_plain, of "0x3404A000" 0] by simp
qed

section \<open>Other lines\<close>

text \<open>The name of a debug register crashes the assembler.\<close>

lemma mfdr_name_crashes:
  assumes "reg = [] \<or> hd reg \<noteq> CHR ''$''"
  shows "set_dr reg w = Inl Bad_Pointer"
proof -
  have "[0..<16] = 0 # [1..<16]" by (simp add: upt_conv_Cons)
  then have "dr_index [0..<16] reg = Inl Bad_Pointer" by (simp add: dr_regs_def cop0_regs_def)
  then show ?thesis using assms by (auto simp: set_dr_def)
qed

end
