(* ===== verification/Printf.thy ===== *)
theory Printf
  imports CLib
begin

text \<open>
  The formatting that the shell asks of the kernel's \<^verbatim>\<open>prnt\<close>: the conversions of C it uses, with their
  flags and widths. A pointer is printed as the kernel chooses, so its text is an argument.
\<close>

datatype farg = Num "32 word" | Str string

definition fmt_X :: "32 word \<Rightarrow> string" where
  "fmt_X w = digits_upper (unat w)"

definition conv_text :: "char \<Rightarrow> farg \<Rightarrow> string" where
  "conv_text c a =
     (case a of
        Str t \<Rightarrow> t
      | Num n \<Rightarrow>
          if c = CHR ''d'' then fmt_d n
          else if c = CHR ''x'' then print_hex (unat n)
          else if c = CHR ''X'' then fmt_X n
          else if c = CHR ''o'' then fmt_o n
          else if c = CHR ''c'' then [chr_of (ucast n)]
          else [])"

text \<open>Zeros go between the sign and the digits.\<close>

definition pad_zero :: "nat \<Rightarrow> string \<Rightarrow> string" where
  "pad_zero n s =
     (if s \<noteq> [] \<and> hd s = CHR ''-'' then CHR ''-'' # replicate (n - length s) (CHR ''0'') @ tl s
      else replicate (n - length s) (CHR ''0'') @ s)"

definition pad_left :: "nat \<Rightarrow> string \<Rightarrow> string" where
  "pad_left n s = replicate (n - length s) (CHR '' '') @ s"

text \<open>A conversion after its percent sign: the text for the argument, and what follows it.\<close>

definition conv_spec :: "string \<Rightarrow> farg \<Rightarrow> string \<times> string" where
  "conv_spec s a =
     (let flags = takeWhile (\<lambda>c. c = CHR ''-'' \<or> c = CHR ''0'') s;
          s1 = dropWhile (\<lambda>c. c = CHR ''-'' \<or> c = CHR ''0'') s;
          width = fst (scan_digits 10 0 (takeWhile isdigit s1));
          s2 = dropWhile isdigit s1
      in case s2 of
           [] \<Rightarrow> ([], [])
         | c # r \<Rightarrow> ((if CHR ''-'' \<in> set flags then pad_right width
                     else if CHR ''0'' \<in> set flags then pad_zero width
                     else pad_left width) (conv_text c a), r))"

lemma conv_spec_length: "conv_spec s a = (t, r) \<Longrightarrow> length r \<le> length s"
proof -
  assume c: "conv_spec s a = (t, r)"
  let ?P = "\<lambda>c. c = CHR ''-'' \<or> c = CHR ''0''"
  have "length (dropWhile isdigit (dropWhile ?P s)) \<le> length s"
    using length_dropWhile_le [of isdigit "dropWhile ?P s"] length_dropWhile_le [of ?P s] by linarith
  then show "length r \<le> length s" using c
    by (cases "dropWhile isdigit (dropWhile ?P s)") (auto simp: conv_spec_def Let_def)
qed

function sprintf :: "string \<Rightarrow> farg list \<Rightarrow> string" where
  "sprintf [] as = []"
| "sprintf (c # s) as =
     (if c \<noteq> CHR ''%'' then c # sprintf s as
      else (case s of
              [] \<Rightarrow> []
            | d # r \<Rightarrow>
                if d = CHR ''%'' then d # sprintf r as
                else (case as of
                        [] \<Rightarrow> []
                      | a # as' \<Rightarrow> (case conv_spec s a of (t, r') \<Rightarrow> t @ sprintf r' as'))))"
  by pat_completeness auto

termination
  by (relation "measure (\<lambda>(s, as). length s)") (auto dest: conv_spec_length [OF sym])

text \<open>A line.\<close>

definition println :: "string \<Rightarrow> farg list \<Rightarrow> string" where
  "println s as = sprintf s as @ [CHR 0x0A]"

definition int_arg :: "int \<Rightarrow> farg" where
  "int_arg i = Num (word_of_int i)"

end
