(* ===== verification/ShellState.thy ===== *)
theory ShellState
  imports Printf UsbShell Config ByteMem DecodeAddr ExceptionCtx
begin

unbundle bit_operations_syntax

text \<open>
  What the commands of the PSP shell (\<^verbatim>\<open>psplink/shell.c\<close>) work on, and what they ask of the kernel.
\<close>

section \<open>The kernel\<close>

text \<open>
  A structure the kernel fills in: a name, and the other fields of a word by their names in C.
\<close>

record sh_info =
  oi_name :: string
  oi_field :: "string \<Rightarrow> u32"

text \<open>A block of the kernel's list of objects; the pointers are addresses.\<close>

record uidControlBlock =
  ub_parent :: u32
  ub_nextChild :: u32
  ub_type :: u32
  ub_UID :: int
  ub_name :: string
  ub_size :: u32
  ub_attribute :: u32
  ub_nextEntry :: u32

text \<open>
  The calls of the kernel, by the name of the function. \<open>k_call\<close>: a call with numbers and strings, which gives
  a word. \<open>k_info\<close>: a call that fills in a structure. \<open>k_ids\<close>: a call that fills an array of 100 identifiers, and
  the count it reports. \<open>k_calc\<close>: what the calculator asks. \<open>k_ptr\<close> and \<open>k_float\<close>: the text of a pointer and of a
  floating point number. \<open>k_debugsec\<close>: the word at \<^verbatim>\<open>sceKernelRemoveByDebugSection\<close>, a jump of the kernel's code. \<open>k_uid\<close>: the block of an object at an
  address.
\<close>

record 'k senv =
  k_ph :: "u32 \<Rightarrow> u32"
  k_calc :: "'k \<Rightarrow> calc"
  k_ptr :: "u32 \<Rightarrow> string"
  k_float :: "u32 \<Rightarrow> nat \<Rightarrow> string"
  k_io :: "'k psp_io"
  k_call :: "string \<Rightarrow> farg list \<Rightarrow> 'k \<Rightarrow> u32 \<times> 'k"
  k_info :: "string \<Rightarrow> farg list \<Rightarrow> 'k \<Rightarrow> int \<times> sh_info \<times> 'k"
  k_debugsec :: u32
  k_uid :: "'k \<Rightarrow> u32 \<Rightarrow> uidControlBlock option"
  k_ids :: "string \<Rightarrow> farg list \<Rightarrow> 'k \<Rightarrow> int \<times> int list \<times> int"

section \<open>The state\<close>

text \<open>What else the context of a stopped thread holds; the floating point registers as their bits.\<close>

record ex_regs =
  er_status :: u32
  er_badvaddr :: u32
  er_fir :: u32
  er_fpr :: "u32 list"
  er_vfpu :: "u32 list"

text \<open>
  Memory with its breakpoints, the protection, the contexts of stopped threads, the fields of
  \<^verbatim>\<open>struct GlobalContext\<close>, the static variables of \<^verbatim>\<open>memdump_cmd\<close>, and the rest of the machine. \<open>p_usbhost\<close>: \<^verbatim>\<open>USB_NOSTART\<close>, \<^verbatim>\<open>USB_ON\<close>, \<^verbatim>\<open>USB_OFF\<close>. The file is
  \<open>None\<close> when the shell was started without arguments, and the address of a dump is \<open>None\<close> when an evaluation that failed has left something in it.
\<close>

record 'k psp =
  p_dbg :: dbg
  p_prot :: protection
  p_ctxs :: contexts
  p_saved :: "nat \<Rightarrow> PsplinkContext"
  p_regs :: "nat \<Rightarrow> ex_regs"
  p_currdir :: string
  p_bootfile :: "string option"
  p_bootpath :: string
  p_resetonexit :: bool
  p_thevent :: int
  p_gdb :: bool
  p_rebootkey :: nat
  p_pid :: u32
  p_usbhost :: nat
  p_md_addr :: "u32 option"
  p_md_type :: nat
  p_k :: 'k

definition calc_of :: "'k senv \<Rightarrow> 'k psp \<Rightarrow> calc" where
  "calc_of env st =
     (let c = k_calc env (p_k st) in
      c\<lparr>c_cur := map_option (p_saved st) (g_currex (p_ctxs st)), c_prot := p_prot st,
        c_libs := (c_libs c)\<lparr>k_word := \<lambda>a. d_mem (p_dbg st) (k_ph env a)\<rparr>\<rparr>)"

definition mem_left :: "'k psp \<Rightarrow> u32 \<Rightarrow> u32 \<Rightarrow> int" where
  "mem_left st addr attrib = memValidate (p_prot st) addr attrib"

section \<open>Commands\<close>

text \<open>
  What a command does: its result, the value it leaves in \<^verbatim>\<open>vRet\<close>, the texts it prints and the state. An
  answer printed for the PC shell itself starts with its mark.
\<close>

type_synonym 'k outcome = "(cmd_result \<times> u32 \<times> string list \<times> 'k psp) run"

type_synonym 'k sh_fun = "'k senv \<Rightarrow> string list \<Rightarrow> 'k psp \<Rightarrow> 'k outcome"

definition finish :: "cmd_result \<Rightarrow> string list \<Rightarrow> 'k psp \<Rightarrow> 'k outcome" where
  "finish r out st = Inr (r, 0, out, st)"

definition finish_ret :: "u32 \<Rightarrow> string list \<Rightarrow> 'k psp \<Rightarrow> 'k outcome" where
  "finish_ret v out st = Inr (CMD_OK, v, out, st)"

definition mark_cmd :: "char \<Rightarrow> string \<Rightarrow> string" where
  "mark_cmd c s = c # s"

lemma SHELL_PRINT_mark: "SHELL_PRINT (mark_cmd c s) = SHELL_PRINT_CMD c s"
  by (simp add: SHELL_PRINT_def SHELL_PRINT_CMD_def mark_cmd_def)

text \<open>\<^verbatim>\<open>if(memDecode(arg, &v)) { good } else { bad }\<close>; the error itself is printed by the calculator.\<close>

definition decoded :: "'k senv \<Rightarrow> string \<Rightarrow> 'k psp \<Rightarrow> 'a run \<Rightarrow> (u32 \<Rightarrow> 'a run) \<Rightarrow> 'a run" where
  "decoded env arg st bad good =
     (case memDecode (calc_of env st) arg of
        Inl f \<Rightarrow> Inl f
      | Inr None \<Rightarrow> bad
      | Inr (Some v) \<Rightarrow> good v)"

lemma decoded_simps:
  "memDecode (calc_of env st) arg = Inr (Some v) \<Longrightarrow> decoded env arg st bad good = good v"
  "memDecode (calc_of env st) arg = Inr None \<Longrightarrow> decoded env arg st bad good = bad"
  "memDecode (calc_of env st) arg = Inl f \<Longrightarrow> decoded env arg st bad good = Inl f"
  by (simp_all add: decoded_def)

definition fst_char :: "string \<Rightarrow> char" where
  "fst_char s = (case s of [] \<Rightarrow> CHR 0x00 | c # _ \<Rightarrow> c)"

text \<open>\<^verbatim>\<open>strtoul (s, NULL, base)\<close> and the whole string as a number.\<close>

definition to_ul :: "nat \<Rightarrow> string \<Rightarrow> u32" where
  "to_ul base s = of_nat (fst (strtoul 32 base s))"

definition whole_ul :: "nat \<Rightarrow> string \<Rightarrow> u32 option" where
  "whole_ul base s = (case strtoul 32 base s of (v, r) \<Rightarrow> if r = [] then Some (of_nat v) else None)"

definition with_k :: "'k psp \<Rightarrow> 'k \<Rightarrow> 'k psp" where
  "with_k st k = st\<lparr>p_k := k\<rparr>"

section \<open>Sequences\<close>

text \<open>Steps that print and change the state, one after the other.\<close>

type_synonym ('k, 'a) act = "'k psp \<Rightarrow> ('a \<times> string list \<times> 'k psp) run"

definition sh_ret :: "'a \<Rightarrow> ('k, 'a) act" where "sh_ret x st = Inr (x, [], st)"
definition sh_say :: "string \<Rightarrow> ('k, unit) act" where "sh_say t st = Inr ((), [t], st)"
definition sh_fault :: "fault \<Rightarrow> ('k, 'a) act" where "sh_fault f st = Inl f"
definition sh_ask :: "('k psp \<Rightarrow> 'a) \<Rightarrow> ('k, 'a) act" where "sh_ask g st = Inr (g st, [], st)"
definition sh_set :: "('k psp \<Rightarrow> 'k psp) \<Rightarrow> ('k, unit) act" where "sh_set g st = Inr ((), [], g st)"

definition sh_bind :: "('k, 'a) act \<Rightarrow> ('a \<Rightarrow> ('k, 'b) act) \<Rightarrow> ('k, 'b) act" where
  "sh_bind m f st =
     (case m st of
        Inl e \<Rightarrow> Inl e
      | Inr (x, out, st1) \<Rightarrow> map_sum id (\<lambda>(y, out2, st2). (y, out @ out2, st2)) (f x st1))"

definition sh_then :: "('k, unit) act \<Rightarrow> ('k, 'b) act \<Rightarrow> ('k, 'b) act" where
  "sh_then m n = sh_bind m (\<lambda>_. n)"

definition sh_when :: "bool \<Rightarrow> ('k, unit) act \<Rightarrow> ('k, unit) act" where
  "sh_when b m = (if b then m else sh_ret ())"

fun sh_each :: "('b \<Rightarrow> ('k, unit) act) \<Rightarrow> 'b list \<Rightarrow> ('k, unit) act" where
  "sh_each f [] = sh_ret ()"
| "sh_each f (x # xs) = sh_then (f x) (sh_each f xs)"

definition sh_call :: "'k senv \<Rightarrow> string \<Rightarrow> farg list \<Rightarrow> ('k, u32) act" where
  "sh_call env fn as st = (case k_call env fn as (p_k st) of (r, k) \<Rightarrow> Inr (r, [], with_k st k))"

definition sh_do :: "'k senv \<Rightarrow> string \<Rightarrow> farg list \<Rightarrow> ('k, unit) act" where
  "sh_do env fn as = sh_bind (sh_call env fn as) (\<lambda>_. sh_ret ())"

definition sh_info :: "'k senv \<Rightarrow> string \<Rightarrow> farg list \<Rightarrow> ('k, int \<times> sh_info) act" where
  "sh_info env fn as st = (case k_info env fn as (p_k st) of (r, i, k) \<Rightarrow> Inr ((r, i), [], with_k st k))"

text \<open>A command from a sequence, with the value it leaves.\<close>

definition sh_cmd :: "('k, cmd_result \<times> u32) act \<Rightarrow> 'k psp \<Rightarrow> 'k outcome" where
  "sh_cmd m st = map_sum id (\<lambda>((r, v), out, st1). (r, v, out, st1)) (m st)"

definition sh_result :: "cmd_result \<Rightarrow> ('k, cmd_result \<times> u32) act" where
  "sh_result r = sh_ret (r, 0)"

definition sh_error :: "string \<Rightarrow> ('k, cmd_result \<times> u32) act" where
  "sh_error t = sh_then (sh_say t) (sh_result CMD_ERROR)"

definition sh_decode :: "'k senv \<Rightarrow> string \<Rightarrow> ('k, u32 option) act" where
  "sh_decode env arg st = map_sum id (\<lambda>v. (v, [], st)) (memDecode (calc_of env st) arg)"

end
