(* ===== verification/PspPath.thy ===== *)
theory PspPath
  imports ShellState
begin

unbundle bit_operations_syntax

text \<open>
  Paths, arguments of modules and the debug register (\<^verbatim>\<open>psplink/util.c\<close>).
\<close>

definition MAXPATHLEN :: nat where "MAXPATHLEN = 1024"

datatype path_type = TYPE_FILE | TYPE_DIR | TYPE_ETHER

section \<open>Removing dots\<close>

text \<open>\<^verbatim>\<open>strstr (s, "/.")\<close>: the text before it and after it.\<close>

fun find_dot :: "string \<Rightarrow> (string \<times> string) option" where
  "find_dot [] = None"
| "find_dot (c # s) =
     (if c = CHR ''/'' \<and> s \<noteq> [] \<and> hd s = CHR ''.'' then Some ([], tl s)
      else map_option (apfst ((#) c)) (find_dot s))"

lemma find_dot_length: "find_dot s = Some (a, r) \<Longrightarrow> length r + 2 \<le> length s"
proof (induction s arbitrary: a)
  case (Cons c s)
  then show ?case by (cases s) (auto split: if_splits)
qed simp

text \<open>The text before the last slash.\<close>

definition before_slash :: "string \<Rightarrow> string" where
  "before_slash s = rev (drop 1 (dropWhile (\<lambda>c. c \<noteq> CHR ''/'') (rev s)))"

text \<open>
  The loop of \<^verbatim>\<open>handlepath\<close> over the dots, with the text up to the pointer and from it. The result
  \<open>False\<close> is the return in the middle. A path that starts with \<^verbatim>\<open>/..\<close> is searched before its start.
\<close>

function dots_loop :: "string \<Rightarrow> string \<Rightarrow> (bool \<times> string) run" where
  "dots_loop done rest =
     (case find_dot rest of
        None \<Rightarrow> Inr (True, done @ rest)
      | Some (a, r) \<Rightarrow>
          if r = [] \<or> hd r = CHR ''/'' then Inr (True, done @ a @ r)
          else if hd r = CHR ''.'' then
            (let p2 = tl r in
             if p2 \<noteq> [] \<and> hd p2 \<noteq> CHR ''/'' then dots_loop (done @ a @ ''/.'' @ take 2 r) (drop 2 r)
             else if done @ a = [] then Inl Bad_Pointer
             else if CHR ''/'' \<notin> set (done @ a) then Inr (False, done @ a @ ''/.'' @ r)
             else dots_loop (before_slash (done @ a)) p2)
          else dots_loop (done @ a @ ''/.'') r)"
  by pat_completeness auto

termination
  by (relation "measure (\<lambda>(d, r). length r)") (auto dest!: find_dot_length)

declare dots_loop.simps [simp del]

section \<open>Normalising\<close>

definition next_slash :: "string \<Rightarrow> nat \<Rightarrow> nat option" where
  "next_slash path i = map_option (\<lambda>(a, b). i + length a) (strchr (drop i path) (CHR ''/''))"

text \<open>The slash before a position, not the first character; the position itself if there is none.\<close>

definition slash_back :: "string \<Rightarrow> nat \<Rightarrow> nat" where
  "slash_back path l = (case List.find (\<lambda>i. path ! i = CHR ''/'') (rev [1..<l]) of None \<Rightarrow> l | Some i \<Rightarrow> i)"

text \<open>The body of the loop: the path and the position of \<^verbatim>\<open>curr_pos\<close> in it.\<close>

definition norm_step :: "string \<Rightarrow> nat option \<Rightarrow> nat \<Rightarrow> string \<times> nat" where
  "norm_step path last_dir pos =
     (case last_dir of
        None \<Rightarrow> (path, pos)
      | Some l \<Rightarrow>
          (let seg = take (pos - l) (drop l path) in
           if seg = ''/'' \<or> seg = ''/.'' then (take l path @ drop pos path, l)
           else if seg = ''/..'' then
             (let l' = slash_back path l in (take l' path @ drop pos path, l'))
           else (path, pos)))"

lemma next_slash_bound: "next_slash path i = Some c \<Longrightarrow> i \<le> c \<and> c < length path"
  using strchr_length [of "drop i path" "CHR ''/''"] by (force simp: next_slash_def)

lemma norm_step_bound:
  assumes "norm_step path l pos = (path', pos')" and "next_slash path' (pos' + 1) = Some c"
  shows "length path' - c < length path - pos"
proof -
  have c: "pos' < c" "c < length path'" using next_slash_bound [OF assms(2)] by auto
  have "length path' \<le> pos' + (length path - pos) \<or> path' = path \<and> pos' = pos"
    using assms(1) by (auto simp: norm_step_def Let_def split: option.splits if_splits)
  then show ?thesis using c by auto
qed

function norm_loop :: "string \<Rightarrow> nat option \<Rightarrow> nat \<Rightarrow> string" where
  "norm_loop path last_dir pos =
     (case norm_step path last_dir pos of (path', pos') \<Rightarrow>
        (case next_slash path' (pos' + 1) of
           None \<Rightarrow> path'
         | Some c \<Rightarrow> norm_loop path' (Some pos') c))"
  by pat_completeness auto

termination
  by (relation "measure (\<lambda>(path, l, pos). length path - pos)") (auto dest!: norm_step_bound [OF sym])

declare norm_loop.simps [simp del]

text \<open>\<open>None\<close>: the result \<open>0\<close>.\<close>

definition normalize_path :: "string \<Rightarrow> string option" where
  "normalize_path path =
     (if path \<noteq> [] \<and> hd path = CHR ''/'' then None
      else case next_slash path 0 of None \<Rightarrow> Some path | Some c \<Rightarrow> Some (norm_loop path None c))"

section \<open>Directories and files\<close>

definition is_dir_stat :: "sh_info \<Rightarrow> bool" where
  "is_dir_stat i \<longleftrightarrow> oi_field i ''st_attr'' AND 0x38 = 0x10 \<or> oi_field i ''st_mode'' AND 0xF000 = 0x1000"

definition isdir :: "'k senv \<Rightarrow> string \<Rightarrow> 'k \<Rightarrow> (bool \<times> 'k) run" where
  "isdir env path k =
     (if length path \<ge> 1024 then Inl Buffer_Overflow
      else if length path < 2 then Inr (False, k)
      else if last path = CHR ''/'' \<and> path ! (length path - 2) = CHR '':'' \<and> CHR ''/'' \<notin> set (butlast path)
      then Inr (True, k)
      else (case k_info env ''sceIoGetstat'' [Str (if last path = CHR ''/'' then butlast path else path)] k of
              (r, i, k') \<Rightarrow> Inr (r = 0 \<and> is_dir_stat i, k')))"

definition is_file :: "'k senv \<Rightarrow> string \<Rightarrow> 'k \<Rightarrow> bool \<times> 'k" where
  "is_file env path k =
     (case io_open (k_io env) path PSP_O_RDONLY k of (fd, k1) \<Rightarrow>
        if fd < 0 then (False, k1) else (True, snd (io_close (k_io env) fd k1)))"

definition path_base :: "string \<Rightarrow> string \<Rightarrow> string" where
  "path_base cur rel =
     (if CHR '':'' \<in> set rel then []
      else if rel \<noteq> [] \<and> hd rel = CHR ''/'' then
        takeWhile (\<lambda>c. c \<noteq> CHR '':'') cur @ (if CHR '':'' \<in> set cur then '':'' else [])
      else cur)"

definition strip_end :: "string \<Rightarrow> string" where
  "strip_end s = rev (dropWhile is_aspace (rev s))"

text \<open>The slash at the end, for the type of the path.\<close>

definition end_slash :: "path_type \<Rightarrow> string \<Rightarrow> string" where
  "end_slash type s =
     (if type = TYPE_DIR \<and> last s \<noteq> CHR ''/'' then s @ ''/''
      else if type = TYPE_FILE \<and> last s = CHR ''/'' then butlast s else s)"

text \<open>Whether the path is good, the path in the array of the caller, the texts printed and the kernel.\<close>

definition handlepath ::
  "'k senv \<Rightarrow> string \<Rightarrow> string \<Rightarrow> path_type \<Rightarrow> bool \<Rightarrow> 'k \<Rightarrow> (bool \<times> string \<times> string list \<times> 'k) run" where
  "handlepath env cur rel type valid k =
     (let p0 = path_base cur rel @ rel in
      if length p0 \<ge> MAXPATHLEN then Inl Buffer_Overflow
      else (case dots_loop [] p0 of
        Inl f \<Rightarrow> Inl f
      | Inr (False, p) \<Rightarrow> Inr (False, p, [], k)
      | Inr (True, p1) \<Rightarrow>
          (let p2 = strip_end p1 in
           if p2 = [] then Inr (False, p2, [], k)
           else (let p3 = end_slash type p2 in
             if length p3 \<ge> MAXPATHLEN then Inl Buffer_Overflow
             else (case normalize_path p3 of
               None \<Rightarrow> Inr (False, p3, [], k)
             | Some p \<Rightarrow>
                 if \<not> valid then Inr (True, p, [], k)
                 else (case type of
                   TYPE_DIR \<Rightarrow> map_sum id (\<lambda>(r, k'). (r, p, [], k')) (isdir env p k)
                 | TYPE_FILE \<Rightarrow> (case is_file env p k of (r, k') \<Rightarrow> Inr (r, p, [], k'))
                 | TYPE_ETHER \<Rightarrow> Inr (False, p, [println ''unable to validate ether type'' []], k)))))))"

section \<open>Modules and their arguments\<close>

text \<open>The arguments, each with its NUL, in an array of 1024 characters.\<close>

definition build_args :: "string \<Rightarrow> string list \<Rightarrow> string run" where
  "build_args execfile argv =
     (let s = concat (map (\<lambda>a. a @ [CHR 0x00]) (execfile # argv)) in
      if length s > 1024 then Inl Buffer_Overflow else Inr s)"

definition load_start_module :: "'k senv \<Rightarrow> string \<Rightarrow> string list \<Rightarrow> 'k \<Rightarrow> (u32 \<times> 'k) run" where
  "load_start_module env name argv k =
     (case k_call env ''sceKernelLoadModule'' [Str name] k of (modid, k1) \<Rightarrow>
        if 0 \<le> sint modid then
          map_sum id (\<lambda>args. k_call env ''sceKernelStartModule'' [Num modid, Str args] k1) (build_args name argv)
        else Inr (modid, k1))"

end
