(* ===== verification/ShellThreads.thy ===== *)
theory ShellThreads
  imports PspPath
begin

unbundle bit_operations_syntax

text \<open>
  The commands of the shell on threads and the other objects of the thread manager
  (\<^verbatim>\<open>psplink/shell.c\<close>): lists, information, deletion, and the monitor of thread events.
\<close>

section \<open>Names and lists\<close>

text \<open>The identifier of an object, negative when there is none, and the texts printed.\<close>

definition get_thread_uid :: "'k senv \<Rightarrow> string \<Rightarrow> string \<Rightarrow> 'k \<Rightarrow> int \<times> string list \<times> 'k" where
  "get_thread_uid env refer name k =
     (if fst_char name = CHR ''@'' then
        (case k_info env refer [Str (tl name)] k of (r, i, k1) \<Rightarrow>
           if r < 0 then (- 1, [println ''ERROR: Invalid name %s'' [Str name]], k1)
           else (sint (oi_field i ''uid''), [], k1))
      else (case whole_ul 0 name of
              None \<Rightarrow> (- 1, [println ''ERROR: Invalid uid %s'' [Str name]], k)
            | Some v \<Rightarrow> (sint v, [], k)))"

text \<open>
  The array of 100 identifiers, cleared before the kernel fills it in. The code reads as many as the kernel
  counts, which may be more.
\<close>

definition id_array :: "int list \<Rightarrow> int \<Rightarrow> int list run" where
  "id_array ids count = (if count > 100 then Inl Undefined_Value else Inr (take (nat count) (ids @ replicate 100 0)))"

text \<open>What prints an object: its result, the texts and the kernel.\<close>

type_synonym 'k printer = "'k senv \<Rightarrow> int \<Rightarrow> bool \<Rightarrow> 'k \<Rightarrow> int \<times> string list \<times> 'k"

fun print_objects :: "'k senv \<Rightarrow> 'k printer \<Rightarrow> string \<Rightarrow> bool \<Rightarrow> int list \<Rightarrow> 'k \<Rightarrow> string list \<times> 'k" where
  "print_objects env pinfo name verbose [] k = ([], k)"
| "print_objects env pinfo name verbose (i # ids) k =
     (case pinfo env i verbose k of (r, out, k1) \<Rightarrow>
        (case print_objects env pinfo name verbose ids k1 of (rest, k2) \<Rightarrow>
          (out @ (if r < 0 then [println ''ERROR: Unknown %s 0x%08X'' [Str name, int_arg i]] else []) @ rest, k2)))"

definition threadmanlist_cmd :: "string \<Rightarrow> string \<Rightarrow> 'k printer \<Rightarrow> 'k sh_fun" where
  "threadmanlist_cmd type name pinfo env argv st =
     (let verbose = (argv \<noteq> [] \<and> hd argv = ''v'') in
      case k_ids env ''sceKernelGetThreadmanIdList'' [Str type] (p_k st) of (r, ids, count) \<Rightarrow>
        if r < 0 then finish CMD_OK [] st
        else (case id_array ids count of
          Inl f \<Rightarrow> Inl f
        | Inr a \<Rightarrow> (case print_objects env pinfo name verbose a (p_k st) of (out, k1) \<Rightarrow>
            finish CMD_OK (println ''<%s List (%d entries)>'' [Str name, int_arg count] # out) (with_k st k1))))"

definition threadmaninfo_cmd :: "string \<Rightarrow> 'k printer \<Rightarrow> string \<Rightarrow> 'k sh_fun" where
  "threadmaninfo_cmd name pinfo refer env argv st =
     (case get_thread_uid env refer (hd argv) (p_k st) of (uid, out, k1) \<Rightarrow>
        if uid < 0 then finish CMD_ERROR out (with_k st k1)
        else (case pinfo env uid True k1 of (r, out2, k2) \<Rightarrow>
          finish CMD_OK (out @ out2 @ (if r < 0 then [println ''ERROR: Unknown %s 0x%08X'' [Str name, int_arg uid]] else []))
            (with_k st k2)))"

text \<open>\<open>fn\<close>: the function to call on the identifier.\<close>

definition thread_do :: "'k senv \<Rightarrow> string \<Rightarrow> string \<Rightarrow> string \<Rightarrow> (int \<Rightarrow> ('k, u32) act) \<Rightarrow> 'k psp \<Rightarrow> 'k outcome" where
  "thread_do env name type refer fn st =
     (case get_thread_uid env refer name (p_k st) of (uid, out, k1) \<Rightarrow>
        if uid < 0 then finish CMD_ERROR out (with_k st k1)
        else map_sum id (\<lambda>(err, out2, st2).
          (CMD_OK, 0, out @ out2 @ (if sint err < 0
              then [println ''Cannot %s uid 0x%08X (error: 0x%08X)'' [Str type, int_arg uid, Num err]] else []), st2))
          (fn uid (with_k st k1)))"

definition thread_do_cmd :: "string \<Rightarrow> string \<Rightarrow> string \<Rightarrow> 'k sh_fun" where
  "thread_do_cmd type refer fn env argv st = thread_do env (hd argv) type refer (\<lambda>uid. sh_call env fn [int_arg uid]) st"

section \<open>Threads\<close>

definition REFER_THREAD :: string where "REFER_THREAD = ''pspSdkReferThreadStatusByName''"

definition get_thread_status :: "u32 \<Rightarrow> string" where
  "get_thread_status s =
     (if s AND 1 \<noteq> 0 then ''RUNNING '' else []) @ (if s AND 2 \<noteq> 0 then ''READY '' else []) @
     (if s AND 4 \<noteq> 0 then ''WAITING '' else []) @ (if s AND 8 \<noteq> 0 then ''SUSPEND '' else []) @
     (if s AND 16 \<noteq> 0 then ''STOPPED '' else []) @ (if s AND 32 \<noteq> 0 then ''KILLED '' else [])"

definition uid_line :: "int \<Rightarrow> sh_info \<Rightarrow> string" where
  "uid_line uid i = println ''UID: 0x%08X - Name: %s'' [int_arg uid, Str (oi_name i)]"

definition print_threadinfo :: "'k printer" where
  "print_threadinfo env uid verbose k =
     (case k_info env ''sceKernelReferThreadStatus'' [int_arg uid] k of (r, i, k1) \<Rightarrow>
        let x = oi_field i; ptr = (\<lambda>f. Str (k_ptr env (x f))); num = (\<lambda>f. Num (x f)) in
        if r \<noteq> 0 then (r, [], k1)
        else if \<not> verbose then (r, [uid_line uid i], k1)
        else (case k_call env ''sceKernelGetThreadStackFreeSize'' [int_arg uid] k1 of (free, k2) \<Rightarrow>
          (case k_info env ''sceIoGetThreadCwd'' [int_arg uid, Num 512] k2 of (c, cwd, k3) \<Rightarrow>
            (r, [uid_line uid i,
               println ''Attr: 0x%08X - Status: %d/%s- Entry: 0x%p''
                 [num ''attr'', num ''status'', Str (get_thread_status (x ''status'')), ptr ''entry''],
               println ''Stack: 0x%p - StackSize 0x%08X - GP: 0x%08X'' [ptr ''stack'', num ''stackSize'', num ''gpReg''],
               println ''InitPri: %d - CurrPri: %d - WaitType %d'' [num ''initPriority'', num ''currentPriority'', num ''waitType''],
               println ''WaitId: 0x%08X - WakeupCount: %d - ExitStatus: 0x%08X'' [num ''waitId'', num ''wakeupCount'', num ''exitStatus''],
               println ''RunClocks: %d - IntrPrempt: %d - ThreadPrempt: %d''
                 [num ''runClocks.low'', num ''intrPreemptCount'', num ''threadPreemptCount''],
               println ''ReleaseCount: %d, StackFree: %d'' [num ''releaseCount'', Num free]]
              @ (if c > 0 then [println ''Current Dir: %s'' [Str (oi_name cwd)]] else []), k3))))"

definition thlist_cmd :: "'k sh_fun" where
  "thlist_cmd = threadmanlist_cmd ''SCE_KERNEL_TMID_Thread'' ''Thread'' print_threadinfo"
definition thsllist_cmd :: "'k sh_fun" where
  "thsllist_cmd = threadmanlist_cmd ''SCE_KERNEL_TMID_SleepThread'' ''Sleep Thread'' print_threadinfo"
definition thdelist_cmd :: "'k sh_fun" where
  "thdelist_cmd = threadmanlist_cmd ''SCE_KERNEL_TMID_DelayThread'' ''Delay Thread'' print_threadinfo"
definition thsulist_cmd :: "'k sh_fun" where
  "thsulist_cmd = threadmanlist_cmd ''SCE_KERNEL_TMID_SuspendThread'' ''Suspend Thread'' print_threadinfo"
definition thdolist_cmd :: "'k sh_fun" where
  "thdolist_cmd = threadmanlist_cmd ''SCE_KERNEL_TMID_DormantThread'' ''Dormant Thread'' print_threadinfo"

definition thinfo_cmd :: "'k sh_fun" where "thinfo_cmd = threadmaninfo_cmd ''Thread'' print_threadinfo REFER_THREAD"
definition thsusp_cmd :: "'k sh_fun" where "thsusp_cmd = thread_do_cmd ''suspend'' REFER_THREAD ''sceKernelSuspendThread''"
definition thresm_cmd :: "'k sh_fun" where "thresm_cmd = thread_do_cmd ''resume'' REFER_THREAD ''sceKernelResumeThread''"
definition thwake_cmd :: "'k sh_fun" where "thwake_cmd = thread_do_cmd ''wakeup'' REFER_THREAD ''sceKernelWakeupThread''"
definition thterm_cmd :: "'k sh_fun" where "thterm_cmd = thread_do_cmd ''terminate'' REFER_THREAD ''sceKernelTerminateThread''"
definition thdel_cmd :: "'k sh_fun" where "thdel_cmd = thread_do_cmd ''delete'' REFER_THREAD ''sceKernelDeleteThread''"
definition thtdel_cmd :: "'k sh_fun" where
  "thtdel_cmd = thread_do_cmd ''terminate delete'' REFER_THREAD ''sceKernelTerminateDeleteThread''"

text \<open>Rows of four registers; the first one is always shown as zero.\<close>

definition exceptionPrintCPURegs :: "(nat \<Rightarrow> u32) \<Rightarrow> string list" where
  "exceptionPrintCPURegs r =
     println ''%s:0x00000000 %s:0x%08X %s:0x%08X %s:0x%08X'' [Str (regName ! 0), Str (regName ! 1), Num (r 1),
       Str (regName ! 2), Num (r 2), Str (regName ! 3), Num (r 3)]
     # map (\<lambda>q. let i = 4 * q + 4 in
         println ''%s:0x%08X %s:0x%08X %s:0x%08X %s:0x%08X'' [Str (regName ! i), Num (r i), Str (regName ! (i + 1)), Num (r (i + 1)),
           Str (regName ! (i + 2)), Num (r (i + 2)), Str (regName ! (i + 3)), Num (r (i + 3))]) [0..<7]"

text \<open>
  The information the kernel keeps of a thread, and the words of its context: all zero without one.
\<close>

definition thread_info :: "'k senv \<Rightarrow> int \<Rightarrow> ('k, int \<times> sh_info) act" where
  "thread_info env uid = sh_info env ''ThreadManForKernel_2D69D086'' [int_arg uid]"

definition context_words :: "'k senv \<Rightarrow> sh_info \<Rightarrow> 'k psp \<Rightarrow> nat \<Rightarrow> u32" where
  "context_words env i st n =
     (let c = oi_field i ''thContext'' in if c = 0 then 0 else d_mem (p_dbg st) (k_ph env (c + 4 * of_nat n)))"

text \<open>The word of \<^verbatim>\<open>EPC\<close> in \<^verbatim>\<open>struct SceThreadContext\<close>, after the type, 31 and 32 registers and four more words (a
  structure of the kernel's headers).\<close>

definition EPC_WORD :: nat where "EPC_WORD = 68"

definition threadFindContext :: "'k senv \<Rightarrow> int \<Rightarrow> ('k, u32) act" where
  "threadFindContext env uid =
     sh_bind (thread_info env uid) (\<lambda>(r, i).
     sh_bind (sh_ask (context_words env i)) (\<lambda>w.
       let x = oi_field i in
       if r = 0 then
         sh_then (sh_each sh_say
           ([println ''kstack 0x%08X kstacksize 0x%08X'' [Num (x ''kstack''), Num (x ''kstackSize'')],
             println ''stack  0x%08X stacksize  0x%08X'' [Num (x ''stack''), Num (x ''stackSize'')],
             println ''context 0x%08X, vfpu 0x%08X'' [Num (x ''thContext''), Num (x ''vfpuContext'')],
             println ''Context EPC 0x%08X, Real EPC 0x%08X'' [Num (w EPC_WORD), Num (x ''retAddr'')]]
            @ exceptionPrintCPURegs w)) (sh_ret 0)
       else sh_ret (- 1)))"

definition thGetCurrentEPC :: "'k senv \<Rightarrow> int \<Rightarrow> ('k, u32) act" where
  "thGetCurrentEPC env uid =
     sh_bind (thread_info env uid) (\<lambda>(r, i).
     sh_bind (sh_ask (context_words env i)) (\<lambda>w.
       if r = 0 then
         (if oi_field i ''retAddr'' \<noteq> 0 then sh_ret (oi_field i ''retAddr'')
          else if oi_field i ''thContext'' = 0 then sh_fault Bad_Pointer
          else sh_ret (w EPC_WORD))
       else sh_ret 0))"

definition thctx_cmd :: "'k sh_fun" where
  "thctx_cmd env argv st = thread_do env (hd argv) ''get context'' REFER_THREAD (threadFindContext env) st"

definition thspuser_cmd :: "'k sh_fun" where
  "thspuser_cmd env argv st = finish CMD_OK [] (with_k st (snd (k_call env ''sceKernelSuspendAllUserThreads'' [] (p_k st))))"

definition thpri_cmd :: "'k sh_fun" where
  "thpri_cmd env argv st =
     (case get_thread_uid env REFER_THREAD (hd argv) (p_k st) of (uid, out, k1) \<Rightarrow>
        if uid < 0 then finish CMD_ERROR out (with_k st k1)
        else (case strtoint (argv ! 1) of
          None \<Rightarrow> finish CMD_ERROR out (with_k st k1)
        | Some pri \<Rightarrow> (case k_call env ''sceKernelChangeThreadPriority'' [int_arg uid, Num pri] k1 of (err, k2) \<Rightarrow>
            finish CMD_OK (out @ (if sint err < 0
                then [println ''Cannot %s uid 0x%08X (error: 0x%08X)'' [Str ''change priority'', int_arg uid, Num err]] else []))
              (with_k st k2))))"

definition thcreat_cmd :: "'k sh_fun" where
  "thcreat_cmd env argv st =
     decoded env (argv ! 1) st
       (finish CMD_ERROR [println ''Invalid entry address %s'' [Str (argv ! 1)]] st) (\<lambda>entry.
     case k_call env ''sceKernelCreateThread''
       [Str (hd argv), Num entry, Num (to_ul 0 (argv ! 2)), Num (to_ul 0 (argv ! 3)), Num (to_ul 0 (argv ! 4))] (p_k st) of
     (uid, k1) \<Rightarrow>
       if sint uid < 0 then finish CMD_ERROR [println ''Could not create thread 0x%08X'' [Num uid]] (with_k st k1)
       else (case k_call env ''sceKernelStartThread'' [Num uid, Num 0] k1 of (r, k2) \<Rightarrow>
         if sint r < 0
         then finish CMD_ERROR [println ''Could not start thread %s 0x%08X'' [Str (hd argv), Num uid]] (with_k st k2)
         else finish_ret uid [println ''Created/Started thread %s UID:0x%08X'' [Str (hd argv), Num uid]] (with_k st k2)))"

section \<open>The other objects\<close>

text \<open>A structure is asked for; the lines after the first only when they are wanted.\<close>

definition print_object :: "string \<Rightarrow> ('k senv \<Rightarrow> sh_info \<Rightarrow> string list) \<Rightarrow> 'k printer" where
  "print_object fn rest env uid verbose k =
     (case k_info env fn [int_arg uid] k of (r, i, k1) \<Rightarrow>
        (r, if r = 0 then uid_line uid i # (if verbose then rest env i else []) else [], k1))"

definition nums :: "sh_info \<Rightarrow> string list \<Rightarrow> farg list" where
  "nums i fs = map (\<lambda>f. Num (oi_field i f)) fs"

definition field_ptr :: "'k senv \<Rightarrow> sh_info \<Rightarrow> string \<Rightarrow> farg" where
  "field_ptr env i f = Str (k_ptr env (oi_field i f))"

text \<open>The light-weight mutexes are asked for in another way; an error is below zero.\<close>

definition print_lwmtxinfo :: "'k printer" where
  "print_lwmtxinfo env uid verbose k =
     (case k_info env ''sceKernelReferLwMutexStatusByID'' [int_arg uid] k of (r, i, k1) \<Rightarrow>
        if r < 0 then (r, [], k1)
        else (0, println ''UID: 0x%08X - Workarea: 0x%08X - Name: %s'' (nums i [''uid'', ''workarea''] @ [Str (oi_name i)]) #
          (if verbose then [println ''Attr: 0x%08X'' (nums i [''attr'']) @
             println ''InitCount: %d - CurrentCount: %d'' (nums i [''initCount'', ''currentCount'']) @
             println ''LockThread: 0x%08X - NumWaitThreads: %d'' (nums i [''lockThread'', ''numWaitThreads''])] else []), k1))"

definition print_eventinfo :: "'k printer" where
  "print_eventinfo = print_object ''sceKernelReferEventFlagStatus'' (\<lambda>env i.
     [println ''Attr: 0x%08X - initPattern 0x%08X - currPatten 0x%08X'' (nums i [''attr'', ''initPattern'', ''currentPattern'']),
      println ''NumWaitThreads: 0x%08X'' (nums i [''numWaitThreads''])])"

definition print_semainfo :: "'k printer" where
  "print_semainfo = print_object ''sceKernelReferSemaStatus'' (\<lambda>env i.
     [println ''Attr: 0x%08X - initCount: 0x%08X - currCount: 0x%08X'' (nums i [''attr'', ''initCount'', ''currentCount'']),
      println ''maxCount: 0x%08X - NumWaitThreads: 0x%08X'' (nums i [''maxCount'', ''numWaitThreads''])])"

definition print_mboxinfo :: "'k printer" where
  "print_mboxinfo = print_object ''sceKernelReferMbxStatus'' (\<lambda>env i.
     [println ''Attr: 0x%08X - numWaitThreads: 0x%08X - numMessages: 0x%08X'' (nums i [''attr'', ''numWaitThreads'', ''numMessages'']),
      println ''firstMessage 0x%p'' [field_ptr env i ''firstMessage'']])"

definition print_cbinfo :: "'k printer" where
  "print_cbinfo = print_object ''sceKernelReferCallbackStatus'' (\<lambda>env i.
     [println ''threadId 0x%08X - callback 0x%p - common 0x%p''
        (nums i [''threadId''] @ [field_ptr env i ''callback'', field_ptr env i ''common'']),
      println ''notifyCount %d - notifyArg %d'' (nums i [''notifyCount'', ''notifyArg''])])"

definition print_vtinfo :: "'k printer" where
  "print_vtinfo = print_object ''sceKernelReferVTimerStatus'' (\<lambda>env i.
     [println ''active %d - base.hi %d - base.low %d - current.hi %d - current.low %d''
        (nums i [''active'', ''base.hi'', ''base.low'', ''current.hi'', ''current.low'']),
      println ''schedule.hi %d - schedule.low %d - handler 0x%p - common 0x%p''
        (nums i [''schedule.hi'', ''schedule.low''] @ [field_ptr env i ''handler'', field_ptr env i ''common''])])"

definition print_vplinfo :: "'k printer" where
  "print_vplinfo = print_object ''sceKernelReferVplStatus'' (\<lambda>env i.
     [println ''Attr 0x%08X - poolSize %d - freeSize %d - numWaitThreads %d''
        (nums i [''attr'', ''poolSize'', ''freeSize'', ''numWaitThreads''])])"

definition print_fplinfo :: "'k printer" where
  "print_fplinfo = print_object ''sceKernelReferFplStatus'' (\<lambda>env i.
     [println ''Attr 0x%08X - blockSize %d - numBlocks %d - freeBlocks %d - numWaitThreads %d''
        (nums i [''attr'', ''blockSize'', ''numBlocks'', ''freeBlocks'', ''numWaitThreads''])])"

definition print_mppinfo :: "'k printer" where
  "print_mppinfo = print_object ''sceKernelReferMsgPipeStatus'' (\<lambda>env i.
     [println ''Attr 0x%08X - bufSize %d - freeSize %d'' (nums i [''attr'', ''bufSize'', ''freeSize'']),
      println ''numSendWaitThreads %d - numReceiveWaitThreads %d'' (nums i [''numSendWaitThreads'', ''numReceiveWaitThreads''])])"

definition print_thevinfo :: "'k printer" where
  "print_thevinfo = print_object ''sceKernelReferThreadEventHandlerStatus'' (\<lambda>env i.
     [println ''threadId 0x%08X - mask %02X - handler 0x%p'' (nums i [''threadId'', ''mask''] @ [field_ptr env i ''handler'']),
      println ''common 0x%p'' [field_ptr env i ''common'']])"

definition evlist_cmd :: "'k sh_fun" where
  "evlist_cmd = threadmanlist_cmd ''SCE_KERNEL_TMID_EventFlag'' ''EventFlag'' print_eventinfo"
definition evinfo_cmd :: "'k sh_fun" where
  "evinfo_cmd = threadmaninfo_cmd ''EventFlag'' print_eventinfo ''pspSdkReferEventFlagStatusByName''"
definition evdel_cmd :: "'k sh_fun" where
  "evdel_cmd = thread_do_cmd ''delete'' ''pspSdkReferEventFlagStatusByName'' ''sceKernelDeleteEventFlag''"

definition smlist_cmd :: "'k sh_fun" where
  "smlist_cmd = threadmanlist_cmd ''SCE_KERNEL_TMID_Semaphore'' ''Semaphore'' print_semainfo"
definition sminfo_cmd :: "'k sh_fun" where
  "sminfo_cmd = threadmaninfo_cmd ''Semaphore'' print_semainfo ''pspSdkReferSemaStatusByName''"
definition smdel_cmd :: "'k sh_fun" where
  "smdel_cmd = thread_do_cmd ''delete'' ''pspSdkReferSemaStatusByName'' ''sceKernelDeleteSema''"

definition mxlist_cmd :: "'k sh_fun" where
  "mxlist_cmd = threadmanlist_cmd ''SCE_KERNEL_TMID_Mbox'' ''Message Box'' print_mboxinfo"
definition mxinfo_cmd :: "'k sh_fun" where
  "mxinfo_cmd = threadmaninfo_cmd ''Message Box'' print_mboxinfo ''pspSdkReferMboxStatusByName''"
definition mxdel_cmd :: "'k sh_fun" where
  "mxdel_cmd = thread_do_cmd ''delete'' ''pspSdkReferMboxStatusByName'' ''sceKernelDeleteMbx''"

definition cblist_cmd :: "'k sh_fun" where
  "cblist_cmd = threadmanlist_cmd ''SCE_KERNEL_TMID_Callback'' ''Callback'' print_cbinfo"
definition cbinfo_cmd :: "'k sh_fun" where
  "cbinfo_cmd = threadmaninfo_cmd ''Callback'' print_cbinfo ''pspSdkReferCallbackStatusByName''"
definition cbdel_cmd :: "'k sh_fun" where
  "cbdel_cmd = thread_do_cmd ''delete'' ''pspSdkReferCallbackStatusByName'' ''sceKernelDeleteCallback''"

definition vtlist_cmd :: "'k sh_fun" where
  "vtlist_cmd = threadmanlist_cmd ''SCE_KERNEL_TMID_VTimer'' ''VTimer'' print_vtinfo"
definition vtinfo_cmd :: "'k sh_fun" where
  "vtinfo_cmd = threadmaninfo_cmd ''VTimer'' print_vtinfo ''pspSdkReferVTimerStatusByName''"
definition vtdel_cmd :: "'k sh_fun" where
  "vtdel_cmd = thread_do_cmd ''delete'' ''pspSdkReferVTimerStatusByName'' ''sceKernelDeleteVTimer''"

definition vpllist_cmd :: "'k sh_fun" where
  "vpllist_cmd = threadmanlist_cmd ''SCE_KERNEL_TMID_Vpl'' ''Vpl'' print_vplinfo"
definition vplinfo_cmd :: "'k sh_fun" where
  "vplinfo_cmd = threadmaninfo_cmd ''Vpl'' print_vplinfo ''pspSdkReferVplStatusByName''"
definition vpldel_cmd :: "'k sh_fun" where
  "vpldel_cmd = thread_do_cmd ''delete'' ''pspSdkReferVplStatusByName'' ''sceKernelDeleteVpl''"

definition fpllist_cmd :: "'k sh_fun" where
  "fpllist_cmd = threadmanlist_cmd ''SCE_KERNEL_TMID_Fpl'' ''Fpl'' print_fplinfo"
definition fplinfo_cmd :: "'k sh_fun" where
  "fplinfo_cmd = threadmaninfo_cmd ''Fpl'' print_fplinfo ''pspSdkReferFplStatusByName''"
definition fpldel_cmd :: "'k sh_fun" where
  "fpldel_cmd = thread_do_cmd ''delete'' ''pspSdkReferFplStatusByName'' ''sceKernelDeleteFpl''"

definition mpplist_cmd :: "'k sh_fun" where
  "mpplist_cmd = threadmanlist_cmd ''SCE_KERNEL_TMID_Mpipe'' ''Message Pipe'' print_mppinfo"
definition mppinfo_cmd :: "'k sh_fun" where
  "mppinfo_cmd = threadmaninfo_cmd ''Message Pipe'' print_mppinfo ''pspSdkReferMppStatusByName''"
definition mppdel_cmd :: "'k sh_fun" where
  "mppdel_cmd = thread_do_cmd ''delete'' ''pspSdkReferMppStatusByName'' ''sceKernelDeleteMsgPipe''"

definition thevlist_cmd :: "'k sh_fun" where
  "thevlist_cmd = threadmanlist_cmd ''SCE_KERNEL_TMID_ThreadEventHandler'' ''Thread Event Handler'' print_thevinfo"
definition thevinfo_cmd :: "'k sh_fun" where
  "thevinfo_cmd = threadmaninfo_cmd ''Thread Event Handler'' print_thevinfo ''pspSdkReferThreadEventHandlerStatusByName''"
definition thevdel_cmd :: "'k sh_fun" where
  "thevdel_cmd = thread_do_cmd ''delete'' ''pspSdkReferThreadEventHandlerStatusByName'' ''sceKernelReleaseThreadEventHandler''"

definition lwmtxlist_cmd :: "'k sh_fun" where
  "lwmtxlist_cmd = threadmanlist_cmd ''13'' ''LwMutex'' print_lwmtxinfo"

definition lwmtxinfo_cmd :: "'k sh_fun" where
  "lwmtxinfo_cmd env argv st =
     (case whole_ul 0 (hd argv) of
        None \<Rightarrow> finish CMD_ERROR [println ''ERROR: Invalid uid %s'' [Str (hd argv)]] st
      | Some uid \<Rightarrow> (case print_lwmtxinfo env (sint uid) True (p_k st) of (r, out, k1) \<Rightarrow>
          if r \<noteq> 0 then finish CMD_ERROR (out @ [println ''Error refering LwMutex - 0x%08X'' [int_arg r]]) (with_k st k1)
          else finish CMD_OK out (with_k st k1)))"

text \<open>Setting and clearing bits of an event flag; \<open>bits\<close> is what the kernel is given.\<close>

definition change_event :: "string \<Rightarrow> string \<Rightarrow> (u32 \<Rightarrow> u32) \<Rightarrow> 'k sh_fun" where
  "change_event fn what bits env argv st =
     (case get_thread_uid env ''pspSdkReferEventFlagStatusByName'' (hd argv) (p_k st) of (uid, out, k1) \<Rightarrow>
        if uid < 0 then finish CMD_ERROR out (with_k st k1)
        else (case k_call env fn [int_arg uid, Num (bits (to_ul 0 (argv ! 1)))] k1 of (r, k2) \<Rightarrow>
          finish CMD_OK (out @ (if sint r < 0 then [println ''Error %s EventFlag - 0x%08X'' [Str what, Num r]] else []))
            (with_k st k2)))"

definition evset_cmd :: "'k sh_fun" where "evset_cmd = change_event ''sceKernelSetEventFlag'' ''setting'' (\<lambda>b. b)"
definition evclr_cmd :: "'k sh_fun" where "evclr_cmd = change_event ''sceKernelClearEventFlag'' ''clearing'' (\<lambda>b. NOT b)"

section \<open>Events of threads\<close>

definition THREAD_CREATE :: u32 where "THREAD_CREATE = 1"
definition THREAD_START :: u32 where "THREAD_START = 2"
definition THREAD_EXIT :: u32 where "THREAD_EXIT = 4"
definition THREAD_DELETE :: u32 where "THREAD_DELETE = 8"

definition thread_event_handler :: "'k senv \<Rightarrow> u32 \<Rightarrow> int \<Rightarrow> 'k \<Rightarrow> string \<times> 'k" where
  "thread_event_handler env ev thid k =
     (let event = (if ev = THREAD_CREATE then ''Create'' else if ev = THREAD_START then ''Start''
          else if ev = THREAD_EXIT then ''Exit'' else if ev = THREAD_DELETE then ''Delete'' else ''Unknown'')
      in case k_info env ''sceKernelReferThreadStatus'' [int_arg thid] k of (r, i, k1) \<Rightarrow>
        (println ''Thread %-6s: thid 0x%08X name %s''
           [Str event, int_arg thid, Str (if r = 0 then oi_name i else ''Unknown'')], k1))"

definition thmonoff_cmd :: "'k sh_fun" where
  "thmonoff_cmd env argv st =
     finish CMD_OK []
       (if p_thevent st \<ge> 0
        then (with_k st (snd (k_call env ''sceKernelReleaseThreadEventHandler'' [int_arg (p_thevent st)] (p_k st))))\<lparr>p_thevent := - 1\<rparr>
        else st)"

definition event_mask :: "string \<Rightarrow> u32" where
  "event_mask s = foldl (\<lambda>m c. m OR (if c = CHR ''c'' then THREAD_CREATE else if c = CHR ''s'' then THREAD_START
     else if c = CHR ''e'' then THREAD_EXIT else if c = CHR ''d'' then THREAD_DELETE else 0)) 0 s"

text \<open>The monitor that runs is released before the arguments are looked at.\<close>

definition thmon_cmd :: "'k sh_fun" where
  "thmon_cmd env argv st =
     (let c = fst_char (hd argv) in
      case thmonoff_cmd env argv st of
        Inl f \<Rightarrow> Inl f
      | Inr (_, _, _, st1) \<Rightarrow>
          if c \<noteq> CHR ''a'' \<and> c \<noteq> CHR ''u'' \<and> c \<noteq> CHR ''k'' then finish CMD_ERROR [] st1
          else (let uid = (if c = CHR ''a'' then ''THREADEVENT_ALL'' else if c = CHR ''u'' then ''THREADEVENT_USER'' else ''THREADEVENT_KERN'');
                    ms = (if length argv > 1 then event_mask (argv ! 1)
                      else THREAD_CREATE OR THREAD_START OR THREAD_EXIT OR THREAD_DELETE)
                in case k_call env ''sceKernelRegisterThreadEventHandler'' [Str ''PSPLINK_THEV'', Str uid, Num ms] (p_k st1) of
                     (h, k1) \<Rightarrow> finish CMD_OK [] ((with_k st1 k1)\<lparr>p_thevent := sint h\<rparr>)))"

section \<open>The system\<close>

definition sysstat_cmd :: "'k sh_fun" where
  "sysstat_cmd env argv st =
     (case k_info env ''sceKernelReferSystemStatus'' [] (p_k st) of (r, i, k1) \<Rightarrow>
        finish CMD_OK
          (if r = 0 then
            [println ''System Status: 0x%08X'' (nums i [''status'']),
             println ''Idle Clocks:   %08X%08X'' (nums i [''idleClocks.hi'', ''idleClocks.low'']),
             println ''Resume Count:  %d'' (nums i [''comesOutOfIdleCount'']),
             println ''Thread Switch: %d'' (nums i [''threadSwitchCount'']),
             println ''VFPU Switch:   %d'' (nums i [''vfpuSwitchCount''])]
           else []) (with_k st k1))"

text \<open>\<open>regs\<close>: the 64 registers that the assembly reads.\<close>

definition cop0_line :: "u32 list \<Rightarrow> nat \<Rightarrow> nat \<Rightarrow> string" where
  "cop0_line regs b i = println ''$%02d: 0x%08X  -  $%02d: 0x%08X''
     [int_arg (int i), Num (regs ! (b + i)), int_arg (int (i + 1)), Num (regs ! (b + i + 1))]"

definition cop0_text :: "u32 list \<Rightarrow> string list" where
  "cop0_text regs =
     [println ''MXC0 Regs:'' []] @ map (\<lambda>i. cop0_line regs 0 (2 * i)) [0..<16] @ [println [] [], println ''CXC0 Regs:'' []]
     @ map (\<lambda>i. cop0_line regs 32 (2 * i)) [0..<16]"

text \<open>\<^verbatim>\<open>psplinkGetCop0\<close> reads register after register.\<close>

definition cop0_cmd :: "'k sh_fun" where
  "cop0_cmd env argv st =
     finish CMD_OK (cop0_text (map (\<lambda>i. fst (k_call env ''psplinkGetCop0'' [int_arg (int i)] (p_k st))) [0..<64])) st"

end
