(* ===== verification/ShellModules.thy ===== *)
theory ShellModules
  imports ShellThreads ApiHook
begin

unbundle bit_operations_syntax

text \<open>
  The commands of the shell on modules (\<^verbatim>\<open>psplink/shell.c\<close>): information, loading, starting, stopping, the search
  for exports and imports, hooks, and the completion of names.
\<close>

section \<open>The switch of the kernel's messages\<close>

definition DEBUG_REG_KPRINTF_ENABLE :: u32 where "DEBUG_REG_KPRINTF_ENABLE = 0x00001000"

text \<open>The address of the register is put together from two instructions of the kernel.\<close>

definition get_debug_register :: "'k senv \<Rightarrow> 'k psp \<Rightarrow> u32" where
  "get_debug_register env st =
     (let p = 0x80000000 OR push_bit 2 (k_debugsec env AND 0x03FFFFFF);
          w = (\<lambda>a. d_mem (p_dbg st) (k_ph env a))
      in push_bit 16 (w p AND 0xFFFF) + scast (ucast (w (p + 8)) :: u16))"

definition set_debug_register :: "'k senv \<Rightarrow> (u32 \<Rightarrow> u32) \<Rightarrow> ('k, unit) act" where
  "set_debug_register env f st =
     (let r = get_debug_register env st in
      case lw (k_ph env) r (p_dbg st) of
        Inl e \<Rightarrow> Inl e
      | Inr v \<Rightarrow> map_sum id (\<lambda>d. ((), [], st\<lparr>p_dbg := d\<rparr>)) (sw (k_ph env) (f v) r (p_dbg st)))"

definition enable_kprintf :: "'k senv \<Rightarrow> bool \<Rightarrow> ('k, unit) act" where
  "enable_kprintf env enable = set_debug_register env (\<lambda>v.
     if enable then v OR DEBUG_REG_KPRINTF_ENABLE else v AND NOT DEBUG_REG_KPRINTF_ENABLE)"

section \<open>Naming a module\<close>

definition get_module_uid :: "'k senv \<Rightarrow> string \<Rightarrow> ('k, int) act" where
  "get_module_uid env name =
     (if fst_char name = CHR ''@'' then
        sh_ask (\<lambda>st. case c_module_by_name (k_calc env (p_k st)) (tl name) of None \<Rightarrow> - 1 | Some m \<Rightarrow> m)
      else (case whole_ul 0 name of
              None \<Rightarrow> sh_then (sh_say (println ''ERROR: Invalid uid %s'' [Str name])) (sh_ret (- 1))
            | Some v \<Rightarrow> sh_ret (sint v)))"

text \<open>A command on a module; \<open>bad\<close> is the message for a name that is none.\<close>

definition on_module :: "'k senv \<Rightarrow> string \<Rightarrow> string \<Rightarrow> (int \<Rightarrow> ('k, cmd_result \<times> u32) act) \<Rightarrow> ('k, cmd_result \<times> u32) act" where
  "on_module env bad name f =
     sh_bind (get_module_uid env name) (\<lambda>uid. if uid \<ge> 0 then f uid else sh_error (println bad [Str name]))"

definition BAD_ARGUMENT :: string where "BAD_ARGUMENT = ''ERROR: Invalid argument %s''"

definition query_module :: "'k senv \<Rightarrow> int \<Rightarrow> ('k, int \<times> sh_info) act" where
  "query_module env uid = sh_info env ''sceKernelQueryModuleInfo'' [int_arg uid]"

text \<open>\<^verbatim>\<open>psplinkReferModule\<close>: whether the module is known, and its information.\<close>

definition refer_module :: "'k senv \<Rightarrow> int \<Rightarrow> ('k, bool \<times> sh_info) act" where
  "refer_module env uid =
     sh_then (enable_kprintf env False) (sh_bind (query_module env uid) (\<lambda>(r, i).
       sh_then (enable_kprintf env True) (sh_ret (r = 0, i))))"

section \<open>Threads and callbacks of a module\<close>

text \<open>\<^verbatim>\<open>refer_module_by_addr\<close>\<close>

definition module_at :: "'k senv \<Rightarrow> u32 \<Rightarrow> ('k, int) act" where
  "module_at env a =
     sh_bind (sh_ask (\<lambda>st. c_module_by_addr (k_calc env (p_k st)) a)) (\<lambda>m. case m of
       None \<Rightarrow> sh_ret (- 1)
     | Some uid \<Rightarrow> sh_bind (refer_module env uid) (\<lambda>(ok, i). sh_ret (if ok then uid else - 1)))"

text \<open>Where the code of a thread or a callback is.\<close>

definition object_addr :: "'k senv \<Rightarrow> string \<Rightarrow> int \<Rightarrow> ('k, u32) act" where
  "object_addr env type uid =
     (if type = ''SCE_KERNEL_TMID_Thread'' then
        sh_bind (sh_info env ''sceKernelReferThreadStatus'' [int_arg uid]) (\<lambda>(r, i). sh_ret (if r = 0 then oi_field i ''entry'' else 0))
      else sh_bind (sh_info env ''sceKernelReferCallbackStatus'' [int_arg uid]) (\<lambda>(r, i). sh_ret (if r = 0 then oi_field i ''callback'' else 0)))"

fun objects_in :: "'k senv \<Rightarrow> string \<Rightarrow> int \<Rightarrow> int list \<Rightarrow> ('k, int list) act" where
  "objects_in env type modid [] = sh_ret []"
| "objects_in env type modid (i # ids) =
     sh_bind (object_addr env type i) (\<lambda>a. sh_bind (module_at env a) (\<lambda>m.
       sh_bind (objects_in env type modid ids) (\<lambda>r. sh_ret (if m = modid then i # r else r))))"

definition refer_objects :: "'k senv \<Rightarrow> string \<Rightarrow> int \<Rightarrow> ('k, int list) act" where
  "refer_objects env type modid st =
     (case k_ids env ''sceKernelGetThreadmanIdList'' [Str type] (p_k st) of (r, ids, count) \<Rightarrow>
        if r < 0 then sh_ret [] st
        else (case id_array ids count of Inl f \<Rightarrow> Inl f | Inr a \<Rightarrow> objects_in env type modid a st))"

definition sh_print :: "'k printer \<Rightarrow> 'k senv \<Rightarrow> int \<Rightarrow> bool \<Rightarrow> ('k, unit) act" where
  "sh_print p env uid verbose st = (case p env uid verbose (p_k st) of (r, out, k) \<Rightarrow> Inr ((), out, with_k st k))"

definition print_modthids :: "'k senv \<Rightarrow> int \<Rightarrow> bool \<Rightarrow> string \<Rightarrow> string \<Rightarrow> 'k printer \<Rightarrow> ('k, unit) act" where
  "print_modthids env uid verbose name type p =
     sh_bind (refer_objects env type uid) (\<lambda>ids. sh_when (ids \<noteq> [])
       (sh_then (sh_say (println ''Module %s (%d)'' [Str name, int_arg (int (length ids))]))
         (sh_each (\<lambda>i. sh_then (sh_print p env i verbose) (sh_say (println [] []))) ids)))"

definition print_modthreads :: "'k senv \<Rightarrow> int \<Rightarrow> bool \<Rightarrow> ('k, unit) act" where
  "print_modthreads env uid verbose = print_modthids env uid verbose ''Thread'' ''SCE_KERNEL_TMID_Thread'' print_threadinfo"

definition print_modcallbacks :: "'k senv \<Rightarrow> int \<Rightarrow> bool \<Rightarrow> ('k, unit) act" where
  "print_modcallbacks env uid verbose = print_modthids env uid verbose ''Callback'' ''SCE_KERNEL_TMID_Callback'' print_cbinfo"

section \<open>Information\<close>

definition segment_lines :: "sh_info \<Rightarrow> string list" where
  "segment_lines i =
     map (\<lambda>n. println ''Segment %d: Addr 0x%08X - Size 0x%08X'' [int_arg (int n),
         Num (oi_field i (''segmentaddr'' @ print_dec n)), Num (oi_field i (''segmentsize'' @ print_dec n))])
       [0..<nat (min 4 (sint (oi_field i ''nsegment'')))]"

definition print_modinfo :: "'k senv \<Rightarrow> int \<Rightarrow> bool \<Rightarrow> string \<Rightarrow> ('k, int) act" where
  "print_modinfo env uid verbose opts =
     sh_then (enable_kprintf env False) (sh_bind (query_module env uid) (\<lambda>(r, i).
     sh_then
       (if r \<ge> 0 then
          sh_then (sh_say (println ''UID: 0x%08X Attr: %04X - Name: %s'' [int_arg uid, Num (oi_field i ''attribute''), Str (oi_name i)]))
          (sh_then (sh_when verbose (sh_each sh_say
            ([println ''Entry: 0x%08X - GP: 0x%08X - TextAddr: 0x%08X'' (nums i [''entry_addr'', ''gp_value'', ''text_addr'']),
              println ''TextSize: 0x%08X - DataSize: 0x%08X BssSize: 0x%08X'' (nums i [''text_size'', ''data_size'', ''bss_size''])]
             @ segment_lines i @ [println [] []])))
          (sh_each (\<lambda>c. if c = CHR ''t'' then print_modthreads env uid verbose
             else if c = CHR ''c'' then print_modcallbacks env uid verbose else sh_ret ()) opts))
        else sh_say (println ''Error querying module 0x%08X'' [int_arg r]))
     (sh_then (enable_kprintf env True) (sh_ret r))))"

definition modinfo_cmd :: "'k sh_fun" where
  "modinfo_cmd env argv = sh_cmd (on_module env ''ERROR: Invalid module %s'' (hd argv) (\<lambda>uid.
     sh_bind (print_modinfo env uid True (if length argv > 1 then argv ! 1 else [])) (\<lambda>r.
       if r < 0 then sh_error (println ''ERROR: Unknown module 0x%08X'' [int_arg uid]) else sh_result CMD_OK)))"

definition module_ids :: "'k senv \<Rightarrow> ('k, int list option) act" where
  "module_ids env st =
     (case k_ids env ''sceKernelGetModuleIdList'' [] (p_k st) of (r, ids, count) \<Rightarrow>
        if r < 0 then sh_ret None st
        else (case id_array ids count of Inl f \<Rightarrow> Inl f | Inr a \<Rightarrow> sh_ret (Some a) st))"

definition modlist_cmd :: "'k sh_fun" where
  "modlist_cmd env argv = sh_cmd
     (let opts = (if argv = [] then [] else hd argv) in
      sh_bind (module_ids env) (\<lambda>ids. case ids of
        None \<Rightarrow> sh_result CMD_OK
      | Some a \<Rightarrow>
          sh_then (sh_say (println ''<Module List (%d modules)>'' [int_arg (int (length a))]))
          (sh_then (sh_each (\<lambda>i. sh_bind (print_modinfo env i (CHR ''v'' \<in> set opts) opts) (\<lambda>_. sh_ret ())) a)
            (sh_result CMD_OK))))"

definition modaddr_cmd :: "'k sh_fun" where
  "modaddr_cmd env argv = sh_cmd
     (sh_bind (sh_decode env (hd argv)) (\<lambda>v. case v of
        None \<Rightarrow> sh_error (println ''Invalid address %s'' [Str (hd argv)])
      | Some addr \<Rightarrow>
          sh_bind (sh_ask (\<lambda>st. c_module_by_addr (k_calc env (p_k st)) addr)) (\<lambda>m.
          sh_then (case m of
              None \<Rightarrow> sh_say (println ''Couldn't find module at address 0x%08X'' [Num addr])
            | Some uid \<Rightarrow> sh_bind (print_modinfo env uid True (if length argv > 1 then argv ! 1 else [])) (\<lambda>_. sh_ret ()))
            (sh_result CMD_OK))))"

section \<open>Starting and stopping\<close>

definition modstop_cmd :: "'k sh_fun" where
  "modstop_cmd env argv = sh_cmd (on_module env BAD_ARGUMENT (hd argv) (\<lambda>uid.
     sh_bind (sh_info env ''sceKernelStopModule'' [int_arg uid]) (\<lambda>(r, i).
       sh_then (sh_say (println ''Module Stop 0x%08X Status 0x%08X'' [int_arg r, Num (oi_field i ''status'')]))
         (sh_result CMD_OK))))"

definition modunld_cmd :: "'k sh_fun" where
  "modunld_cmd env argv = sh_cmd (on_module env BAD_ARGUMENT (hd argv) (\<lambda>uid.
     sh_bind (sh_call env ''sceKernelUnloadModule'' [int_arg uid]) (\<lambda>r.
       sh_then (sh_say (println ''Module Unload 0x%08X'' [Num r])) (sh_result CMD_OK))))"

definition modstun_cmd :: "'k sh_fun" where
  "modstun_cmd env argv = sh_cmd (on_module env BAD_ARGUMENT (hd argv) (\<lambda>uid.
     sh_bind (sh_info env ''sceKernelStopModule'' [int_arg uid]) (\<lambda>(r, i).
     sh_bind (sh_call env ''sceKernelUnloadModule'' [int_arg uid]) (\<lambda>u.
       sh_then (sh_say (println ''Module Stop/Unload 0x%08X/0x%08X Status 0x%08X'' [int_arg r, Num u, Num (oi_field i ''status'')]))
         (sh_result CMD_OK)))))"

definition sh_args :: "string \<Rightarrow> string list \<Rightarrow> ('k, string) act" where
  "sh_args file argv st = (case build_args file argv of Inl f \<Rightarrow> Inl f | Inr s \<Rightarrow> sh_ret s st)"

definition modstart_cmd :: "'k sh_fun" where
  "modstart_cmd env argv = sh_cmd (on_module env BAD_ARGUMENT (hd argv) (\<lambda>uid.
     sh_bind (if length argv > 1 then sh_args (argv ! 1) (drop 2 argv) else sh_args ''unknown'' []) (\<lambda>args.
     sh_bind (sh_info env ''sceKernelStartModule'' [int_arg uid, Str args]) (\<lambda>(r, i).
       sh_then (sh_say (println ''Module Start 0x%08X Status 0x%08X'' [int_arg r, Num (oi_field i ''status'')]))
         (sh_result CMD_OK)))))"

text \<open>A path for a command: whether it is good, and what is in the array.\<close>

definition sh_path :: "'k senv \<Rightarrow> string \<Rightarrow> path_type \<Rightarrow> bool \<Rightarrow> ('k, bool \<times> string) act" where
  "sh_path env rel type valid st =
     map_sum id (\<lambda>(ok, path, out, k). ((ok, path), out, with_k st k))
       (handlepath env (p_currdir st) rel type valid (p_k st))"

definition modload_cmd :: "'k sh_fun" where
  "modload_cmd env argv = sh_cmd
     (sh_bind (sh_path env (hd argv) TYPE_FILE True) (\<lambda>(ok, path).
      if \<not> ok then sh_then (sh_say (println ''Error invalid file %s'' [Str path])) (sh_result CMD_OK)
      else sh_bind (sh_call env ''sceKernelLoadModule'' [Str path]) (\<lambda>modid.
        sh_bind (refer_module env (sint modid)) (\<lambda>(known, i).
          sh_then (sh_say (if \<not> known then println ''Module Load '%s' UID: 0x%08X'' [Str path, Num modid]
            else println ''Module Load '%s' UID: 0x%08X Name: %s'' [Str path, Num modid, Str (oi_name i)]))
          (sh_ret (CMD_OK, modid))))))"

definition sh_load_start :: "'k senv \<Rightarrow> string \<Rightarrow> string list \<Rightarrow> ('k, u32) act" where
  "sh_load_start env path argv st =
     map_sum id (\<lambda>(modid, k). (modid, [], with_k st k)) (load_start_module env path argv (p_k st))"

definition ldstart_cmd :: "'k sh_fun" where
  "ldstart_cmd env argv = sh_cmd
     (if argv = [] then sh_result CMD_ERROR
      else sh_bind (sh_path env (hd argv) TYPE_FILE True) (\<lambda>(ok, path).
        if \<not> ok then sh_error (println ''Error invalid file %s'' [Str path])
        else sh_bind (sh_load_start env path (tl argv)) (\<lambda>modid.
          sh_then
            (if 0 \<le> sint modid then
               sh_bind (refer_module env (sint modid)) (\<lambda>(known, i).
                 sh_say (if \<not> known then println ''Load/Start %s UID: 0x%08X'' [Str path, Num modid]
                   else println ''Load/Start %s UID: 0x%08X Name: %s'' [Str path, Num modid, Str (oi_name i)]))
             else sh_say (println ''Failed to Load/Start module '%s' Error: 0x%08X'' [Str path, Num modid]))
            (sh_ret (CMD_OK, modid)))))"

definition kill_cmd :: "'k sh_fun" where
  "kill_cmd env argv = sh_cmd
     (sh_bind (get_module_uid env (hd argv)) (\<lambda>uid.
      if uid < 0 then sh_result CMD_ERROR
      else sh_bind (sh_info env ''sceKernelStopModule'' [int_arg uid]) (\<lambda>(r, i).
        if r < 0 then sh_error (println ''Error could not stop module 0x%08X'' [int_arg r])
        else sh_then (sh_say (println ''Stop status %08X'' [Num (oi_field i ''status'')]))
          (sh_bind (refer_objects env ''SCE_KERNEL_TMID_Thread'' uid) (\<lambda>ids.
           sh_then (sh_each (\<lambda>t. sh_do env ''sceKernelTerminateDeleteThread'' [int_arg t]) ids)
             (sh_bind (sh_call env ''sceKernelUnloadModule'' [int_arg uid]) (\<lambda>u.
               if sint u < 0 then sh_error (println ''Error could not unload module'' []) else sh_result CMD_OK)))))))"

text \<open>The debugger is loaded once; \<^verbatim>\<open>strcpy\<close> and \<^verbatim>\<open>strcat\<close> into an array of \<open>MAXPATHLEN\<close>.\<close>

definition load_gdb :: "'k senv \<Rightarrow> string list \<Rightarrow> ('k, u32) act" where
  "load_gdb env argv =
     sh_bind (sh_ask p_bootpath) (\<lambda>b.
     if length b + 10 \<ge> MAXPATHLEN then sh_fault Buffer_Overflow
     else sh_then (sh_set (\<lambda>st. st\<lparr>p_gdb := True\<rparr>)) (sh_load_start env (b @ ''usbgdb.prx'') argv))"

definition debug_cmd :: "'k sh_fun" where
  "debug_cmd env argv = sh_cmd
     (sh_bind (sh_path env (hd argv) TYPE_FILE True) (\<lambda>(ok, path).
      if \<not> ok then sh_error (println ''Error invalid file %s'' [Str path])
      else sh_bind (sh_ask p_gdb) (\<lambda>g.
        sh_then (if g then sh_say (println ''Error GDB already running, please reset'' [])
            else sh_bind (load_gdb env (path # tl argv)) (\<lambda>_. sh_ret ()))
          (sh_result CMD_OK))))"

definition psplinkStop :: "'k senv \<Rightarrow> ('k, unit) act" where
  "psplinkStop env =
     sh_bind (sh_ask p_thevent) (\<lambda>t. sh_when (t \<ge> 0) (sh_do env ''sceKernelReleaseThreadEventHandler'' [int_arg t]))"

text \<open>
  The arguments after the first one follow the path, also when the first one is a key: then the file is
  among them once more.
\<close>

definition modexec_cmd :: "'k sh_fun" where
  "modexec_cmd env argv = sh_cmd
     (let at = (fst_char (hd argv) = CHR ''@'') in
      if at \<and> length argv < 2 then sh_result CMD_ERROR
      else sh_bind (sh_path env (if at then argv ! 1 else hd argv) TYPE_FILE True) (\<lambda>(ok, path).
        sh_then (if \<not> ok then sh_ret ()
            else sh_bind (sh_args path (tl argv)) (\<lambda>args.
              sh_then (psplinkStop env)
                (sh_do env ''sceKernelLoadExec'' [Str path, Str args, Str (if at then tl (hd argv) else [])])))
          (sh_result CMD_OK)))"

section \<open>Exports, imports and hooks\<close>

text \<open>The number of a function: by its name, or in hexadecimal.\<close>

definition find_in_module ::
  "'k senv \<Rightarrow> (libenv \<Rightarrow> int \<Rightarrow> string option \<Rightarrow> string \<Rightarrow> u32 run) \<Rightarrow> (libenv \<Rightarrow> int \<Rightarrow> string option \<Rightarrow> u32 \<Rightarrow> u32 run)
     \<Rightarrow> string \<Rightarrow> string \<Rightarrow> string list \<Rightarrow> ('k, cmd_result \<times> u32) act" where
  "find_in_module env by_name by_nid shown missing argv =
     sh_bind (get_module_uid env (hd argv)) (\<lambda>uid.
     sh_bind
       (if uid < 0 then sh_then (sh_say (println BAD_ARGUMENT [Str (hd argv)])) (sh_ret 0)
        else if fst_char (argv ! 2) = CHR ''@'' then
          (\<lambda>st. map_sum id (\<lambda>a. (a, [], st)) (by_name (c_libs (calc_of env st)) uid (Some (argv ! 1)) (tl (argv ! 2))))
        else (case whole_ul 16 (argv ! 2) of
                None \<Rightarrow> sh_then (sh_say (println ''ERROR: Invalid nid %s'' [Str (argv ! 2)])) (sh_ret 0)
              | Some nid \<Rightarrow> (\<lambda>st. map_sum id (\<lambda>a. (a, [], st)) (by_nid (c_libs (calc_of env st)) uid (Some (argv ! 1)) nid))))
       (\<lambda>addr. if addr \<noteq> 0
          then sh_then (sh_say (println shown [Str (argv ! 1), Str (argv ! 2), Num addr])) (sh_result CMD_OK)
          else sh_error (println missing [])))"

definition modfindx_cmd :: "'k sh_fun" where
  "modfindx_cmd env argv = sh_cmd (find_in_module env libsFindExportByName libsFindExportByNid
     ''Library: %s, Exp %s, Addr: 0x%08X'' ''Couldn't find module export'' argv)"

definition modfindi_cmd :: "'k sh_fun" where
  "modfindi_cmd env argv = sh_cmd (find_in_module env libsFindImportAddrByName libsFindImportAddrByNid
     ''Library: %s, Imp %s, Addr: 0x%08X'' ''Couldn't find module import'' argv)"

text \<open>
  The hooks have a state of their own (\<open>ApiHook\<close>); \<open>uid\<close> is what \<open>get_module_uid\<close> gives for the first argument.
  A hook by number never sleeps.
\<close>

definition apihook_common :: "int \<Rightarrow> string list \<Rightarrow> int \<Rightarrow> hooks \<Rightarrow> (cmd_result \<times> string list \<times> hooks) run" where
  "apihook_common uid argv slp h =
     (let param = (if length argv > 4 then argv ! 4 else []);
          fin = (\<lambda>(r, out, h'). (if r \<noteq> (0 :: int) then CMD_OK else CMD_ERROR, map (\<lambda>t. println t []) out, h'))
      in if uid < 0 then Inr (CMD_ERROR, [println BAD_ARGUMENT [Str (hd argv)]], h)
         else if fst_char (argv ! 2) = CHR ''@'' then
           map_sum id fin (apiHookGenericByName uid (Some (argv ! 1)) (tl (argv ! 2)) (fst_char (argv ! 3)) param slp h)
         else (case whole_ul 16 (argv ! 2) of
                 None \<Rightarrow> Inr (CMD_ERROR, [println ''ERROR: Invalid nid %s'' [Str (argv ! 2)]], h)
               | Some nid \<Rightarrow> map_sum id fin (apiHookGenericByNid uid (Some (argv ! 1)) nid (fst_char (argv ! 3)) param 0 h)))"

definition apihook_cmd :: "int \<Rightarrow> string list \<Rightarrow> hooks \<Rightarrow> (cmd_result \<times> string list \<times> hooks) run" where
  "apihook_cmd uid argv h = apihook_common uid argv 0 h"

definition apihooks_cmd :: "int \<Rightarrow> string list \<Rightarrow> hooks \<Rightarrow> (cmd_result \<times> string list \<times> hooks) run" where
  "apihooks_cmd uid argv h = apihook_common uid argv 1 h"

definition apihp_cmd :: "hooks \<Rightarrow> (cmd_result \<times> string list \<times> hooks) run" where
  "apihp_cmd h = Inr (CMD_OK, apiHookGenericPrint h, h)"

definition apihd_cmd :: "string list \<Rightarrow> hooks \<Rightarrow> (cmd_result \<times> string list \<times> hooks) run" where
  "apihd_cmd argv h =
     (case strtoint (hd argv) of
        None \<Rightarrow> Inr (CMD_ERROR, [println ''Invalid ID for delete'' []], h)
      | Some i \<Rightarrow> map_sum id (\<lambda>h'. (CMD_OK, [], h')) (apiHookGenericDelete (sint i) h))"

section \<open>Completion, symbols and calls\<close>

text \<open>The names of the modules that the query did \<^emph>\<open>not\<close> find are compared.\<close>

definition tab_do_uid :: "'k senv \<Rightarrow> string \<Rightarrow> ('k, unit) act" where
  "tab_do_uid env arg =
     (let name = tl arg in
      sh_then (enable_kprintf env False) (sh_bind (module_ids env) (\<lambda>ids.
        sh_then (case ids of
            None \<Rightarrow> sh_ret ()
          | Some a \<Rightarrow> sh_each (\<lambda>m. sh_bind (refer_module env m) (\<lambda>(known, i).
              sh_when (\<not> known \<and> take (length name) (oi_name i) = name)
                (sh_say (mark_cmd SHELL_CMD_TAB (sprintf ''@%s'' [Str (oi_name i)]))))) a)
          (enable_kprintf env True))))"

definition print_sym_info :: "'k senv \<Rightarrow> int \<Rightarrow> ('k, unit) act" where
  "print_sym_info env uid =
     sh_then (enable_kprintf env False) (sh_bind (query_module env uid) (\<lambda>(r, i).
       sh_then (if r \<ge> 0 then sh_bind (sh_call env ''sceKernelDevkitVersion'' []) (\<lambda>v.
            sh_say (mark_cmd SHELL_CMD_SYMLOAD (sprintf ''%08X%08X%s'' [Num (oi_field i ''text_addr''), Num v, Str (oi_name i)])))
          else sh_ret ())
         (enable_kprintf env True)))"

definition symload_cmd :: "'k sh_fun" where
  "symload_cmd env argv = sh_cmd
     (if argv \<noteq> [] then
        sh_bind (get_module_uid env (hd argv)) (\<lambda>uid.
          if uid < 0 then sh_result CMD_ERROR else sh_then (print_sym_info env uid) (sh_result CMD_OK))
      else sh_bind (module_ids env) (\<lambda>ids.
        sh_then (case ids of None \<Rightarrow> sh_ret () | Some a \<Rightarrow> sh_each (print_sym_info env) a) (sh_result CMD_OK)))"

text \<open>The arguments of a call, in a frame for six.\<close>

fun call_args :: "'k senv \<Rightarrow> string list \<Rightarrow> ('k, string + u32 list) act" where
  "call_args env [] = sh_ret (Inr [])"
| "call_args env (a # as) =
     sh_bind (sh_decode env a) (\<lambda>v. case v of
       None \<Rightarrow> sh_ret (Inl a)
     | Some x \<Rightarrow> sh_bind (call_args env as) (\<lambda>r. sh_ret (map_sum id ((#) x) r)))"

definition call_cmd :: "'k sh_fun" where
  "call_cmd env argv = sh_cmd
     (sh_bind (sh_decode env (hd argv)) (\<lambda>f. case f of
        None \<Rightarrow> sh_error (println ''Invalid function address %s'' [Str (hd argv)])
      | Some fn \<Rightarrow> if length argv > 7 then sh_fault Buffer_Overflow
          else sh_bind (call_args env (tl argv)) (\<lambda>r. case r of
            Inl a \<Rightarrow> sh_error (println ''Invalid parameter %s'' [Str a])
          | Inr as \<Rightarrow>
              sh_then (sh_each sh_say ([sprintf ''Func 0x%p '' [Str (k_ptr env fn)]] @
                  map (\<lambda>i. sprintf ''arg%d 0x%08x '' [int_arg (int i), Num (as ! i)]) [0..<length as] @ [println [] []]))
              (sh_bind (sh_call env ''sceKernelCreateThread''
                  [Str ''CallThread'', Str ''call_thread'', Num 0x18, Num 0x1000, Num 0]) (\<lambda>uid.
               sh_then (sh_when (0 \<le> sint uid)
                   (sh_then (sh_do env ''sceKernelStartThread'' ([Num uid, Num fn] @ map Num (take 6 (as @ replicate 6 0))))
                     (sh_do env ''sceKernelWaitThreadEnd'' [Num uid, Num 1000000])))
                 (sh_result CMD_OK))))))"

end
