(* ===== verification/ShellFiles.thy ===== *)
theory ShellFiles
  imports ShellModules
begin

unbundle bit_operations_syntax

text \<open>
  The commands of the shell on files and directories (\<^verbatim>\<open>psplink/shell.c\<close>). The calls on directories are
  \<open>k_call\<close> and \<open>k_info\<close>, those on files the fields of \<open>k_io\<close>.
\<close>

section \<open>Listing\<close>

text \<open>The entries of an open directory, in the order the kernel gives them; \<open>None\<close> when they never end.\<close>

partial_function (option) read_dir :: "'k senv \<Rightarrow> u32 \<Rightarrow> sh_info list \<Rightarrow> 'k \<Rightarrow> (sh_info list \<times> 'k) option" where
  "read_dir env dfd es k =
     (case k_info env ''sceIoDread'' [Num dfd] k of (r, e, k1) \<Rightarrow>
        if r > 0 then read_dir env dfd (es @ [e]) k1 else Some (es, k1))"

definition sh_read_dir :: "'k senv \<Rightarrow> u32 \<Rightarrow> ('k, sh_info list) act" where
  "sh_read_dir env dfd st =
     (case read_dir env dfd [] (p_k st) of
        None \<Rightarrow> Inl No_Return
      | Some (es, k) \<Rightarrow> Inr (es, [], with_k st k))"

definition mode_text :: "u32 \<Rightarrow> string" where
  "mode_text m = concat (map (\<lambda>i. let bits = drop_bit (i * 3) m AND 7 in
     [if bits AND 4 \<noteq> 0 then CHR ''r'' else CHR ''-'',
      if bits AND 2 \<noteq> 0 then CHR ''w'' else CHR ''-'',
      if bits AND 1 \<noteq> 0 then CHR ''x'' else CHR ''-'']) [2, 1, 0])"

text \<open>A line of at most 310 characters, in an array of 512.\<close>

definition dir_line :: "sh_info \<Rightarrow> string" where
  "dir_line e =
     (let f = oi_field e in
      (if is_dir_stat e then ''d'' else ''-'') @ mode_text (f ''st_mode'')
      @ sprintf '' %8d '' [Num (f ''st_size'')]
      @ sprintf ''%02d-%02d-%04d %02d:%02d '' [Num (f ''day''), Num (f ''month''), Num (f ''year''),
          Num (f ''hour''), Num (f ''minute'')]
      @ oi_name e)"

definition list_dir :: "'k senv \<Rightarrow> string \<Rightarrow> ('k, cmd_result) act" where
  "list_dir env name =
     sh_bind (sh_call env ''sceIoDopen'' [Str name]) (\<lambda>dfd.
       if 0 \<le> sint dfd then
         sh_bind (sh_read_dir env dfd) (\<lambda>es.
           sh_then (sh_each (\<lambda>e. sh_say (println ''%s'' [Str (dir_line e)])) es)
             (sh_then (sh_do env ''sceIoDclose'' [Num dfd]) (sh_ret CMD_OK)))
       else sh_then (sh_say (println (''Could not open directory '' @ [CHR 0x27] @ ''%s'' @ [CHR 0x27]) [Str name]))
              (sh_ret CMD_ERROR))"

definition show_dir :: "'k senv \<Rightarrow> string \<Rightarrow> ('k, unit) act" where
  "show_dir env path =
     sh_then (sh_say (println ''Listing directory %s'' [Str path])) (sh_bind (list_dir env path) (\<lambda>_. sh_ret ()))"

definition ls_cmd :: "'k sh_fun" where
  "ls_cmd env argv = sh_cmd
     (sh_then
       (if argv = [] then sh_bind (sh_ask p_currdir) (show_dir env)
        else sh_each (\<lambda>a. sh_bind (sh_path env a TYPE_DIR True) (\<lambda>(ok, path). sh_when ok (show_dir env path))) argv)
       (sh_result CMD_OK))"

section \<open>The current directory\<close>

definition chdir_cmd :: "'k sh_fun" where
  "chdir_cmd env argv = sh_cmd
     (sh_bind (sh_path env (hd argv) TYPE_DIR True) (\<lambda>(ok, path).
        if \<not> ok then sh_error (println ([CHR 0x27] @ ''%s'' @ [CHR 0x27] @ '' not a valid directory'') [Str (hd argv)])
        else sh_then (sh_set (\<lambda>st. st\<lparr>p_currdir := path\<rparr>))
               (sh_then (sh_say (mark_cmd SHELL_CMD_CWD path)) (sh_result CMD_OK))))"

definition pwd_cmd :: "'k sh_fun" where
  "pwd_cmd env argv = sh_cmd
     (sh_bind (sh_ask p_currdir) (\<lambda>d. sh_then (sh_say (println ''%s'' [Str d])) (sh_result CMD_OK)))"

section \<open>Names\<close>

definition rename_cmd :: "'k sh_fun" where
  "rename_cmd env argv = sh_cmd
     (sh_bind (sh_path env (hd argv) TYPE_FILE True) (\<lambda>(ok, asrc).
      if \<not> ok then sh_result CMD_ERROR
      else sh_bind (sh_path env (argv ! 1) TYPE_FILE False) (\<lambda>(ok2, adst).
        if \<not> ok2 then sh_result CMD_ERROR
        else (\<lambda>st. case io_rename (k_io env) asrc adst (p_k st) of (r, k) \<Rightarrow>
          (if r < 0 then sh_result CMD_ERROR
           else sh_then (sh_say (println ''rename %s -> %s'' [Str asrc, Str adst])) (sh_result CMD_OK)) (with_k st k)))))"

text \<open>The file of the first argument, once for every argument.\<close>

definition rm_cmd :: "'k sh_fun" where
  "rm_cmd env argv = sh_cmd
     (sh_then
       (sh_each (\<lambda>i. sh_bind (sh_path env (argv ! 0) TYPE_FILE True) (\<lambda>(ok, afile).
          if \<not> ok then sh_ret ()
          else (\<lambda>st. case io_remove (k_io env) afile (p_k st) of (r, k) \<Rightarrow>
            (if r < 0 then sh_ret () else sh_say (println ''rm %s'' [Str afile])) (with_k st k)))) [0..<length argv])
       (sh_result CMD_OK))"

definition make_remove_dir :: "string \<Rightarrow> farg list \<Rightarrow> string \<Rightarrow> 'k senv \<Rightarrow> string list \<Rightarrow> ('k, cmd_result \<times> u32) act" where
  "make_remove_dir fn extra what env argv =
     sh_bind (sh_path env (hd argv) TYPE_FILE False) (\<lambda>(ok, afile).
       if \<not> ok then sh_result CMD_ERROR
       else sh_bind (sh_call env fn (Str afile # extra)) (\<lambda>r.
         if sint r < 0 then sh_result CMD_ERROR
         else sh_then (sh_say (println what [Str afile])) (sh_result CMD_OK)))"

definition mkdir_cmd :: "'k sh_fun" where
  "mkdir_cmd env argv = sh_cmd (make_remove_dir ''sceIoMkdir'' [Num 0x1FF] ''mkdir %s'' env argv)"

definition rmdir_cmd :: "'k sh_fun" where
  "rmdir_cmd env argv = sh_cmd (make_remove_dir ''sceIoRmdir'' [] ''rmdir %s'' env argv)"

definition remap_cmd :: "'k sh_fun" where
  "remap_cmd env argv = sh_cmd
     (sh_then (sh_do env ''sceIoUnassign'' [Str (argv ! 1)])
       (sh_bind (sh_call env ''sceIoAssign'' [Str (argv ! 1), Str (hd argv), Num 0, Num 0, Num 0, Num 0]) (\<lambda>r.
         sh_then (sh_when (sint r < 0)
             (sh_say (println ''Error remapping %s to %s, %08X'' [Str (hd argv), Str (argv ! 1), Num r])))
           (sh_result CMD_OK))))"

section \<open>Copying\<close>

text \<open>Blocks of 4096 until a short one; an error of a read is a short one.\<close>

partial_function (option) copy_loop :: "'k senv \<Rightarrow> int \<Rightarrow> int \<Rightarrow> 'k \<Rightarrow> 'k option" where
  "copy_loop env fd0 fd1 k =
     (case io_read (k_io env) fd0 4096 k of (r, k1) \<Rightarrow>
        (let data = (case r of Inl e \<Rightarrow> [] | Inr s \<Rightarrow> s);
             k2 = (if data \<noteq> [] then snd (io_write (k_io env) fd1 data k1) else k1);
             k3 = snd (k_call env ''sceKernelDelayThread'' [Num 1] k2)
         in if length data < 4096 then Some k3 else copy_loop env fd0 fd1 k3))"

definition CopyFile :: "'k senv \<Rightarrow> string \<Rightarrow> string \<Rightarrow> bool \<Rightarrow> 'k \<Rightarrow> 'k option" where
  "CopyFile env src dst move k =
     (case io_open (k_io env) src PSP_O_RDONLY k of (fd0, k1) \<Rightarrow>
      case io_open (k_io env) dst (PSP_O_WRONLY OR PSP_O_CREAT OR PSP_O_TRUNC) k1 of (fd1, k2) \<Rightarrow>
        map_option (\<lambda>k3.
            let k4 = snd (io_close (k_io env) fd1 (snd (io_close (k_io env) fd0 k3)));
                k6 = (case k_info env ''sceIoGetstat'' [Str src] k4 of (r, i, k5) \<Rightarrow>
                        snd (k_call env ''sceIoChstat'' [Str dst, Num (oi_field i ''st_mode''), Num (oi_field i ''st_attr''), Num 0] k5))
            in if move then snd (io_remove (k_io env) src k6) else k6)
          (copy_loop env fd0 fd1 k2))"

definition open_copy :: "'k senv \<Rightarrow> string \<Rightarrow> string \<Rightarrow> 'k \<Rightarrow> u32 \<times> 'k" where
  "open_copy env src dst k =
     (case k_call env ''sceIoDopen'' [Str src] k of (dfd, k1) \<Rightarrow>
        (dfd, snd (k_call env ''sceIoMkdir'' [Str dst, Num 0x1FF] k1)))"

definition close_copy :: "'k senv \<Rightarrow> string \<Rightarrow> bool \<Rightarrow> u32 \<Rightarrow> 'k \<Rightarrow> 'k" where
  "close_copy env src move dfd k =
     (let k1 = snd (k_call env ''sceIoDclose'' [Num dfd] k) in
      if move then snd (k_call env ''sceIoRmdir'' [Str src] k1) else k1)"

text \<open>The loop over the entries, with the recursion for the directories among them.\<close>

partial_function (option) copy_entries :: "'k senv \<Rightarrow> string \<Rightarrow> string \<Rightarrow> bool \<Rightarrow> u32 \<Rightarrow> 'k \<Rightarrow> 'k option" where
  "copy_entries env src dst move dfd k =
     (case k_info env ''sceIoDread'' [Num dfd] k of (r, e, k1) \<Rightarrow>
        if r \<le> 0 then Some k1
        else if oi_name e = [] \<or> oi_name e = ''.'' \<or> oi_name e = ''..'' then copy_entries env src dst move dfd k1
        else
          (let childsrc = src @ ''/'' @ oi_name e; childdst = dst @ ''/'' @ oi_name e in
           Option.bind
             (if oi_field e ''st_attr'' AND 0x10 \<noteq> 0 then
                (case open_copy env childsrc childdst k1 of (cfd, k2) \<Rightarrow>
                   Option.bind (copy_entries env childsrc childdst move cfd k2)
                     (\<lambda>k3. Some (close_copy env childsrc move cfd k3)))
              else CopyFile env childsrc childdst move k1)
             (copy_entries env src dst move dfd)))"

definition CopyDirectory :: "'k senv \<Rightarrow> string \<Rightarrow> string \<Rightarrow> bool \<Rightarrow> 'k \<Rightarrow> 'k option" where
  "CopyDirectory env src dst move k =
     (case open_copy env src dst k of (dfd, k1) \<Rightarrow>
        map_option (close_copy env src move dfd) (copy_entries env src dst move dfd k1))"

text \<open>The last slash with what follows it, the pointer of \<^verbatim>\<open>strrchr (s, '/')\<close>.\<close>

definition last_slash :: "string \<Rightarrow> string option" where
  "last_slash s = (if CHR ''/'' \<in> set s then Some (CHR ''/'' # rev (takeWhile (\<lambda>c. c \<noteq> CHR ''/'') (rev s))) else None)"

definition sh_isdir :: "'k senv \<Rightarrow> string \<Rightarrow> ('k, bool) act" where
  "sh_isdir env path st = map_sum id (\<lambda>(r, k). (r, [], with_k st k)) (isdir env path (p_k st))"

definition sh_is_file :: "'k senv \<Rightarrow> string \<Rightarrow> ('k, bool) act" where
  "sh_is_file env path st = (case is_file env path (p_k st) of (r, k) \<Rightarrow> Inr (r, [], with_k st k))"

definition sh_copy :: "('k \<Rightarrow> 'k option) \<Rightarrow> ('k, unit) act" where
  "sh_copy f st = (case f (p_k st) of None \<Rightarrow> Inl No_Return | Some k \<Rightarrow> Inr ((), [], with_k st k))"

text \<open>
  The name of the source goes below a destination that is a directory, unless both are directories of one
  name. The pointers of \<^verbatim>\<open>strrchr\<close> are not checked.
\<close>

definition below_dst :: "bool \<Rightarrow> bool \<Rightarrow> string \<Rightarrow> string \<Rightarrow> string run" where
  "below_dst dstisdir srcisdir fsrc fdst =
     (let slash = last_slash fsrc;
          put = (case slash of
            None \<Rightarrow> Inl Bad_Pointer
          | Some s \<Rightarrow>
              (let d = fdst @ (if fdst \<noteq> [] \<and> last fdst \<noteq> CHR ''/'' then ''/'' else []) @ tl s in
               if length d \<ge> MAXPATHLEN then Inl Buffer_Overflow else Inr d))
      in if \<not> dstisdir then Inr fdst
         else if \<not> srcisdir then put
         else if slash = None \<or> last_slash fdst = None then Inl Bad_Pointer
         else if slash \<noteq> last_slash fdst then put
         else Inr fdst)"

text \<open>
  What \<^verbatim>\<open>cp_cmd\<close> and \<^verbatim>\<open>mv_cmd\<close> have in common: the two paths, and whether the source is a directory; \<open>None\<close> for
  the return of an error. \<open>drive\<close>: a destination that ends with a colon counts as a directory.
\<close>

definition copy_paths :: "bool \<Rightarrow> string \<Rightarrow> 'k senv \<Rightarrow> string list \<Rightarrow> ('k, (string \<times> string) option) act" where
  "copy_paths drive shown env argv =
     sh_bind (sh_path env (hd argv) TYPE_ETHER False) (\<lambda>(ok, fsrc).
     if \<not> ok then sh_ret None else
     sh_bind (sh_path env (argv ! 1) TYPE_ETHER False) (\<lambda>(ok2, fdst0).
     if \<not> ok2 then sh_ret None else
     sh_bind (sh_isdir env fsrc) (\<lambda>srcisdir.
     sh_bind (if srcisdir then sh_ret True else sh_is_file env fsrc) (\<lambda>there.
     if \<not> there then sh_ret None else
     sh_bind (sh_isdir env fdst0) (\<lambda>dstisdir.
     case below_dst (dstisdir \<or> drive \<and> fdst0 \<noteq> [] \<and> last fdst0 = CHR '':'') srcisdir fsrc fdst0 of
       Inl f \<Rightarrow> sh_fault f
     | Inr fdst \<Rightarrow>
         sh_bind (if srcisdir then sh_isdir env fdst else sh_is_file env fdst) (\<lambda>n.
         if n then sh_then (sh_do env ''printf'' [Str ''The destination is already exists.'']) (sh_ret None)
         else sh_then (sh_do env ''printf'' [Str (println shown [Str fsrc, Str fdst])]) (sh_ret (Some (fsrc, fdst)))))))))"

definition copy_or_move :: "'k senv \<Rightarrow> string \<Rightarrow> string \<Rightarrow> bool \<Rightarrow> ('k, unit) act" where
  "copy_or_move env fsrc fdst move =
     sh_bind (sh_isdir env fsrc) (\<lambda>d.
       sh_copy (if d then CopyDirectory env fsrc fdst move else CopyFile env fsrc fdst move))"

definition cp_cmd :: "'k sh_fun" where
  "cp_cmd env argv = sh_cmd
     (sh_bind (copy_paths False ''cp %s -> %s'' env argv) (\<lambda>p. case p of
        None \<Rightarrow> sh_result CMD_ERROR
      | Some (fsrc, fdst) \<Rightarrow> sh_then (copy_or_move env fsrc fdst False) (sh_result CMD_OK)))"

text \<open>
  The device of the source, in an array of 8 characters with no room for the NUL after a colon in the last one:
  its name, and how many characters are compared. A path without a colon there leaves no NUL.
\<close>

definition src_devname :: "string \<Rightarrow> (string \<times> nat) run" where
  "src_devname fsrc =
     (case List.find (\<lambda>i. fsrc ! i = CHR '':'') [0..<min 8 (length fsrc)] of
        Some i \<Rightarrow> if i = 7 then Inl Buffer_Overflow else Inr (take (i + 1) fsrc, i + 1)
      | None \<Rightarrow> Inr (take 8 fsrc, 8))"

text \<open>Whether the drive has moved the file itself.\<close>

definition move_on_device :: "'k senv \<Rightarrow> string \<Rightarrow> string \<Rightarrow> ('k, bool) act" where
  "move_on_device env fsrc fdst =
     (case src_devname fsrc of
        Inl f \<Rightarrow> sh_fault f
      | Inr (dev, n) \<Rightarrow>
          if take n fdst \<noteq> dev then sh_ret False
          else if length fsrc < n then sh_fault Undefined_Value
          else if CHR '':'' \<notin> set dev then sh_fault Unterminated_String
          else sh_bind (sh_call env ''sceIoDevctl'' [Str dev, Num 0x02415830, Str (drop n fsrc), Str (drop n fdst)])
                 (\<lambda>r. sh_ret (r = 0)))"

definition mv_cmd :: "'k sh_fun" where
  "mv_cmd env argv = sh_cmd
     (sh_bind (copy_paths True ''mv %s -> %s'' env argv) (\<lambda>p. case p of
        None \<Rightarrow> sh_result CMD_ERROR
      | Some (fsrc, fdst) \<Rightarrow> sh_bind (move_on_device env fsrc fdst) (\<lambda>moved.
          sh_then (if moved then sh_ret () else copy_or_move env fsrc fdst True) (sh_result CMD_OK))))"

section \<open>Completion\<close>

definition tab_do_dir :: "'k senv \<Rightarrow> string list \<Rightarrow> ('k, unit) act" where
  "tab_do_dir env argv =
     sh_bind (sh_path env (hd argv) TYPE_DIR True) (\<lambda>(ok, path).
       let name = (if length argv > 1 then argv ! 1 else []) in
       if \<not> ok then sh_ret ()
       else sh_bind (sh_call env ''sceIoDopen'' [Str path]) (\<lambda>did.
         sh_when (0 \<le> sint did)
           (sh_bind (sh_read_dir env did) (\<lambda>es.
              sh_then (sh_each (\<lambda>e. sh_when (oi_name e \<noteq> ''.'' \<and> oi_name e \<noteq> ''..'' \<and> take (length name) (oi_name e) = name)
                  (sh_say (mark_cmd SHELL_CMD_TAB (oi_name e @ (if is_dir_stat e then ''/'' else []))))) es)
                (sh_do env ''sceIoDclose'' [Num did])))))"

definition tab_cmd :: "'k sh_fun" where
  "tab_cmd env argv = sh_cmd
     (sh_then (if fst_char (hd argv) = CHR ''@'' then tab_do_uid env (hd argv) else tab_do_dir env argv)
       (sh_result CMD_OK))"

end
