(* ===== verification/ShellDebug.thy ===== *)
theory ShellDebug
  imports ShellModules
begin

unbundle bit_operations_syntax

text \<open>
  The commands of the shell on stopped threads and breakpoints (\<^verbatim>\<open>psplink/shell.c\<close>), with the printing of
  exceptions (\<^verbatim>\<open>psplink/exception.c\<close>) and of breakpoints (\<^verbatim>\<open>psplink/debug.c\<close>).
\<close>

section \<open>The text of an exception\<close>

text \<open>The array has 32 entries and 31 names: there is none for 19, so the last entry is the null pointer.\<close>

definition codeTxt :: "string list" where
  "codeTxt =
    [''Interrupt'', ''TLB modification'', ''TLB load/inst fetch'', ''TLB store'',
     ''Address load/inst fetch'', ''Address store'', ''Bus error (instr)'',
     ''Bus error (data)'', ''Syscall'', ''Breakpoint'', ''Reserved instruction'',
     ''Coprocessor unusable'', ''Arithmetic overflow'', ''Unknown 13'', ''Unknown 14'',
     ''FPU Exception'', ''Unknown 16'', ''Unknown 17'', ''Unknown 18'',
     ''Unknown 20'', ''Unknown 21'', ''Unknown 22'', ''Unknown 23'',
     ''Unknown 24'', ''Unknown 25'', ''Unknown 26'', ''Unknown 27'',
     ''Unknown 28'', ''Unknown 29'', ''Unknown 30'', ''Unknown 31'']"

definition codeFpu :: string where "codeFpu = ''IUOZVE''"
definition codeDebug :: string where "codeDebug = ''XSB??ID''"
definition FPU_EXCEPTION :: nat where "FPU_EXCEPTION = 15"

text \<open>The letters of the bits that are set, in brackets.\<close>

definition bit_letters :: "string \<Rightarrow> u32 \<Rightarrow> string" where
  "bit_letters cs w = '' ('' @ map (\<lambda>i. cs ! i) (filter (\<lambda>i. bit w i) [0..<length cs]) @ '')''"

definition PSPLINK_EXTYPE_NORMAL :: u32 where "PSPLINK_EXTYPE_NORMAL = 0"

definition exception_cause :: "PsplinkContext \<Rightarrow> string run" where
  "exception_cause c =
     (if cx_type c = PSPLINK_EXTYPE_NORMAL then
        (let code = unat (drop_bit 2 (cx_cause c) AND 31) in
         if code \<ge> length codeTxt then Inl Bad_Pointer
         else if code = FPU_EXCEPTION then Inr (codeTxt ! code @ bit_letters codeFpu (drop_bit 12 (cx_fsr c)))
         else Inr (codeTxt ! code))
      else Inr (''DEBUG'' @ bit_letters codeDebug (drop_bit 6 (cx_drcntl c))))"

text \<open>The context that is looked at, with its index.\<close>

definition current_context :: "'k psp \<Rightarrow> nat option" where
  "current_context st = g_currex (p_ctxs st)"

definition exceptionPrint :: "'k senv \<Rightarrow> ('k, unit) act" where
  "exceptionPrint env =
     sh_bind (sh_ask id) (\<lambda>st. case current_context st of
       None \<Rightarrow> sh_say (println ''No exception occurred'' [])
     | Some i \<Rightarrow>
         (let c = p_saved st i; rs = p_regs st i; epc = cx_epc c;
              addr = (if epc < 0x88000000 \<or> epc > 0x88400000 then epc AND 0x7FFFFFFF else epc)
          in case exception_cause c of
               Inl f \<Rightarrow> sh_fault f
             | Inr cause \<Rightarrow>
                 sh_then (sh_say (println ''Exception - %s'' [Str cause]))
                (sh_then (sh_say (println ''Thread ID - 0x%08X'' [int_arg (cx_thid c)]))
                (sh_bind (sh_info env ''sceKernelReferThreadStatus'' [int_arg (cx_thid c)]) (\<lambda>(r, t).
                 sh_then (sh_when (r = 0) (sh_say (println ''Th Name   - %s'' [Str (oi_name t)])))
                (sh_bind (sh_ask (\<lambda>s. c_module_by_addr (k_calc env (p_k s)) addr)) (\<lambda>m.
                 sh_then (case m of
                     None \<Rightarrow> sh_ret ()
                   | Some modid \<Rightarrow>
                       sh_then (sh_say (println ''Module ID - 0x%08X'' [int_arg modid]))
                      (sh_then (enable_kprintf env False)
                      (sh_bind (query_module env modid) (\<lambda>(r2, mi).
                       sh_then (sh_when (r2 = 0) (sh_say (println ''Mod Name  - %s'' [Str (oi_name mi)])))
                         (enable_kprintf env True)))))
                 (sh_each sh_say
                   ([println ''EPC       - 0x%08X'' [Num epc]]
                    @ (if cx_type c = PSPLINK_EXTYPE_NORMAL
                       then [println ''Cause     - 0x%08X'' [Num (cx_cause c)], println ''BadVAddr  - 0x%08X'' [Num (er_badvaddr rs)]]
                       else [println ''DRCNTL    - 0x%08X'' [Num (cx_drcntl c)]])
                    @ [println ''Status    - 0x%08X'' [Num (er_status rs)]]
                    @ exceptionPrintCPURegs (\<lambda>n. cx_r c ! n))))))))))"

definition exceptionList :: "('k, unit) act" where
  "exceptionList =
     sh_bind (sh_ask id) (\<lambda>st. case g_list (p_ctxs st) of
       None \<Rightarrow> sh_say (println ''No exception handler registered'' [])
     | Some l \<Rightarrow> sh_each (\<lambda>i. sh_when (x_valid (p_ctxs st) ! (l + i))
         (case exception_cause (p_saved st (l + i)) of
            Inl f \<Rightarrow> sh_fault f
          | Inr cause \<Rightarrow> sh_say (println ''Exception %-2d: EPC 0x%08X, Cause %s''
              [int_arg (int i), Num (cx_epc (p_saved st (l + i))), Str cause]))) [0..<PSPLINK_MAX_CONTEXT])"

section \<open>Floating point registers\<close>

definition exceptionPrintFPURegs :: "'k senv \<Rightarrow> u32 list \<Rightarrow> u32 \<Rightarrow> u32 \<Rightarrow> ('k, unit) act" where
  "exceptionPrintFPURegs env fpr fsr fir =
     sh_then (sh_do env ''pspSdkDisableFPUExceptions'' [])
       (sh_each sh_say
         (map (\<lambda>q. println ''fpr%02d: %-20s - fpr%02d: %-20s''
              [int_arg (int (2 * q)), Str (k_float env (fpr ! (2 * q)) 6),
               int_arg (int (2 * q + 1)), Str (k_float env (fpr ! (2 * q + 1)) 6)]) [0..<16]
          @ [println ''fsr: %08X   - fir %08X'' [Num fsr, Num fir]]))"

text \<open>A print that needs a unit of the processor, which a bit of the status says was on.\<close>

definition print_unit :: "u32 \<Rightarrow> string \<Rightarrow> (PsplinkContext \<Rightarrow> ex_regs \<Rightarrow> ('k, unit) act) \<Rightarrow> ('k, unit) act" where
  "print_unit bits off f =
     sh_bind (sh_ask id) (\<lambda>st. case current_context st of
       None \<Rightarrow> sh_say (println ''No exception occurred'' [])
     | Some i \<Rightarrow> if er_status (p_regs st i) AND bits \<noteq> 0 then f (p_saved st i) (p_regs st i) else sh_say (println off []))"

definition exceptionFpuPrint :: "'k senv \<Rightarrow> ('k, unit) act" where
  "exceptionFpuPrint env = print_unit 0x20000000 ''FPU not enabled in context''
     (\<lambda>c rs. exceptionPrintFPURegs env (er_fpr rs) (cx_fsr c) (er_fir rs))"

datatype vfpu_mode = VFPU_PRINT_SINGLE | VFPU_PRINT_COL | VFPU_PRINT_ROW | VFPU_PRINT_MATRIX | VFPU_PRINT_TRANS

definition MAT_NUM :: "nat \<Rightarrow> nat" where "MAT_NUM x = x div 16"
definition COL_NUM :: "nat \<Rightarrow> nat" where "COL_NUM x = x div 4 mod 4"
definition ROW_NUM :: "nat \<Rightarrow> nat" where "ROW_NUM x = x mod 4"

text \<open>A row of four registers, by their numbers; no letter for the rows below the first one of a matrix.\<close>

definition print_vfpu_row :: "(nat \<Rightarrow> string) \<Rightarrow> (char \<times> nat \<times> nat \<times> nat) option \<Rightarrow> nat list \<Rightarrow> string" where
  "print_vfpu_row txt type is =
     (case type of
        Some (t, m, c, r) \<Rightarrow> println ''%c%d%d%d: { %14s, %14s, %14s, %14s }''
          ([Num (of_char t), int_arg (int m), int_arg (int c), int_arg (int r)] @ map (\<lambda>i. Str (txt i)) is)
      | None \<Rightarrow> println ''      { %14s, %14s, %14s, %14s }'' (map (\<lambda>i. Str (txt i)) is))"

definition vfpu_matrix :: "(nat \<Rightarrow> string) \<Rightarrow> char \<Rightarrow> (nat \<Rightarrow> nat list) \<Rightarrow> string list" where
  "vfpu_matrix txt t row =
     concat (map (\<lambda>m. map (\<lambda>j. print_vfpu_row txt (if j = 0 then Some (t, m, 0, 0) else None) (map ((+) (16 * m)) (row j)))
       [0..<4]) [0..<8])"

definition vfpu_text :: "(nat \<Rightarrow> string) \<Rightarrow> vfpu_mode \<Rightarrow> string list" where
  "vfpu_text txt mode =
     (case mode of
        VFPU_PRINT_SINGLE \<Rightarrow>
          map (\<lambda>q. let i = 2 * q; nums = (\<lambda>i. [int_arg (int (MAT_NUM i)), int_arg (int (COL_NUM i)), int_arg (int (ROW_NUM i)), Str (txt i)])
                   in println ''S%d%d%d: %-20s - S%d%d%d: %-20s'' (nums i @ nums (i + 1))) [0..<64]
      | VFPU_PRINT_COL \<Rightarrow>
          map (\<lambda>q. let i = 4 * q in print_vfpu_row txt (Some (CHR ''C'', MAT_NUM i, COL_NUM i, 0)) [i, i + 1, i + 2, i + 3]) [0..<32]
      | VFPU_PRINT_ROW \<Rightarrow>
          concat (map (\<lambda>m. map (\<lambda>j. print_vfpu_row txt (Some (CHR ''R'', m, 0, j))
            [16 * m + j, 16 * m + j + 4, 16 * m + j + 8, 16 * m + j + 12]) [0..<4]) [0..<8])
      | VFPU_PRINT_MATRIX \<Rightarrow> vfpu_matrix txt CHR ''M'' (\<lambda>j. [j, j + 4, j + 8, j + 12])
      | VFPU_PRINT_TRANS \<Rightarrow> vfpu_matrix txt CHR ''E'' (\<lambda>j. [4 * j, 4 * j + 1, 4 * j + 2, 4 * j + 3]))"

definition exceptionPrintVFPURegs :: "'k senv \<Rightarrow> u32 list \<Rightarrow> vfpu_mode \<Rightarrow> ('k, unit) act" where
  "exceptionPrintVFPURegs env fpr mode =
     sh_then (sh_do env ''pspSdkDisableFPUExceptions'' [])
       (sh_each sh_say (vfpu_text (\<lambda>i. k_float env (fpr ! i) 6) mode))"

definition exceptionVfpuPrint :: "'k senv \<Rightarrow> vfpu_mode \<Rightarrow> ('k, unit) act" where
  "exceptionVfpuPrint env mode = print_unit 0x40000000 ''VFPU not enabled in context''
     (\<lambda>c rs. exceptionPrintVFPURegs env (er_vfpu rs) mode)"

section \<open>Registers of the current context\<close>

definition on_context :: "nat \<Rightarrow> (PsplinkContext \<Rightarrow> PsplinkContext) \<Rightarrow> 'k psp \<Rightarrow> 'k psp" where
  "on_context i f st = st\<lparr>p_saved := (p_saved st)(i := f (p_saved st i))\<rparr>"

text \<open>
  A word written through the pointer of \<^verbatim>\<open>exceptionGetReg\<close>, \<open>None\<close> for the null pointer. The address of a module is
  in a variable that the next call sets again.
\<close>

definition write_reg :: "string \<Rightarrow> u32 \<Rightarrow> 'k psp \<Rightarrow> 'k psp option" where
  "write_reg reg v st =
     (case current_context st of
        None \<Rightarrow> None
      | Some i \<Rightarrow>
          if reg = ''epc'' then Some (on_context i (\<lambda>c. c\<lparr>cx_epc := v\<rparr>) st)
          else if reg = ''fsr'' then Some (on_context i (\<lambda>c. c\<lparr>cx_fsr := v\<rparr>) st)
          else if reg = ''mod'' then Some st
          else map_option (\<lambda>j. on_context i (\<lambda>c. c\<lparr>cx_r := (cx_r c)[j := v]\<rparr>) st)
                 (List.find (\<lambda>j. regName ! j = reg) [0..<32]))"

definition sh_write_reg :: "string \<Rightarrow> u32 \<Rightarrow> ('k, bool) act" where
  "sh_write_reg reg v st = (case write_reg reg v st of None \<Rightarrow> Inr (False, [], st) | Some st' \<Rightarrow> Inr (True, [], st'))"

definition exceptionResume :: "'k senv \<Rightarrow> u32 \<Rightarrow> ('k, unit) act" where
  "exceptionResume env cont =
     sh_bind (sh_ask id) (\<lambda>st. case current_context st of
       None \<Rightarrow> sh_ret ()
     | Some i \<Rightarrow>
         sh_then (sh_set (on_context i (\<lambda>c. c\<lparr>cx_cont := cont\<rparr>)))
           (sh_do env ''sceKernelWakeupThread'' [int_arg (cx_thid (p_saved st i))]))"

section \<open>Commands on exceptions\<close>

definition exprint_cmd :: "'k sh_fun" where
  "exprint_cmd env argv = sh_cmd (sh_then (exceptionPrint env) (sh_result CMD_OK))"

definition exlist_cmd :: "'k sh_fun" where
  "exlist_cmd env argv = sh_cmd (sh_then exceptionList (sh_result CMD_OK))"

definition atoi :: "string \<Rightarrow> int" where
  "atoi s = fst (strtol 32 10 s)"

definition exctx_cmd :: "'k sh_fun" where
  "exctx_cmd env argv = sh_cmd
     (sh_then (sh_set (\<lambda>st. st\<lparr>p_ctxs := exceptionSetCtx (atoi (hd argv)) (p_ctxs st)\<rparr>)) (sh_result CMD_OK))"

definition exprfpu_cmd :: "'k sh_fun" where
  "exprfpu_cmd env argv = sh_cmd (sh_then (exceptionFpuPrint env) (sh_result CMD_OK))"

definition exprvfpu_cmd :: "'k sh_fun" where
  "exprvfpu_cmd env argv = sh_cmd
     (let c = (if argv = [] then CHR ''s'' else fst_char (hd argv)) in
      case map_of [(CHR ''s'', VFPU_PRINT_SINGLE), (CHR ''c'', VFPU_PRINT_COL), (CHR ''r'', VFPU_PRINT_ROW),
          (CHR ''m'', VFPU_PRINT_MATRIX), (CHR ''e'', VFPU_PRINT_TRANS)] c of
        None \<Rightarrow> sh_error (println (''Unknown format code '' @ [CHR 0x27] @ ''%c'' @ [CHR 0x27]) [Num (of_char c)])
      | Some type \<Rightarrow> sh_then (exceptionVfpuPrint env type) (sh_result CMD_OK))"

definition exresume_cmd :: "'k sh_fun" where
  "exresume_cmd env argv = sh_cmd
     (let go = sh_then (exceptionResume env PSP_EXCEPTION_CONTINUE) (sh_result CMD_OK) in
      if argv = [] then go
      else sh_bind (sh_decode env (hd argv)) (\<lambda>v. case v of
        None \<Rightarrow> sh_result CMD_ERROR
      | Some addr \<Rightarrow> sh_bind (sh_write_reg ''epc'' addr) (\<lambda>ok.
          sh_then (sh_when (\<not> ok) (sh_say (println ''Could not get EPC register'' []))) go)))"

definition setreg_cmd :: "'k sh_fun" where
  "setreg_cmd env argv = sh_cmd
     (sh_bind (sh_decode env (argv ! 1)) (\<lambda>v. case v of
        None \<Rightarrow> sh_result CMD_OK
      | Some addr \<Rightarrow>
          if fst_char (hd argv) \<noteq> CHR ''$'' then sh_error (println ''Error register must start with a $'' [])
          else sh_bind (sh_write_reg (tl (hd argv)) addr) (\<lambda>ok.
            if ok then sh_result CMD_OK else sh_error (println ''Error could not find register %s'' [Str (hd argv)]))))"

definition step_cmd :: "'k sh_fun" where
  "step_cmd env argv = sh_cmd (sh_then (exceptionResume env PSP_EXCEPTION_STEP) (sh_result CMD_OK))"

definition skip_cmd :: "'k sh_fun" where
  "skip_cmd env argv = sh_cmd (sh_then (exceptionResume env PSP_EXCEPTION_SKIP) (sh_result CMD_OK))"

section \<open>Breakpoints\<close>

definition sh_dbg :: "(dbg \<Rightarrow> ('a \<times> dbg) run) \<Rightarrow> ('k, 'a) act" where
  "sh_dbg f st = map_sum id (\<lambda>(r, d). (r, [], st\<lparr>p_dbg := d\<rparr>)) (f (p_dbg st))"

definition bpth_cmd :: "'k sh_fun" where
  "bpth_cmd env argv st = thread_do env (hd argv) ''break'' REFER_THREAD
     (\<lambda>uid. sh_bind (thGetCurrentEPC env uid) (\<lambda>epc.
        sh_bind (sh_dbg (debugBreakThread (k_ph env) epc uid)) (\<lambda>r. sh_ret (word_of_int r)))) st"

definition bp_flags_of :: "string \<Rightarrow> u32" where
  "bp_flags_of s = (if CHR ''1'' \<in> set s then DEBUG_BP_ONESHOT else 0) OR (if CHR ''h'' \<in> set s then DEBUG_BP_HARDWARE else 0)"

definition bpset_cmd :: "'k sh_fun" where
  "bpset_cmd env argv = sh_cmd
     (let fl = (if length argv > 1 then bp_flags_of (argv ! 1) else 0) in
      sh_bind (sh_decode env (hd argv)) (\<lambda>v. case v of
        None \<Rightarrow> sh_result CMD_ERROR
      | Some a \<Rightarrow>
          (let addr = a AND NOT 3 in
           sh_bind (sh_ask (\<lambda>st. mem_left st addr (2 OR MEM_ATTRIB_WORD OR 4))) (\<lambda>size_left.
             if (word_of_int size_left :: u32) \<ge> 4 then
               sh_bind (sh_dbg (debugSetBP (k_ph env) addr fl 0)) (\<lambda>r.
                 if r \<noteq> None then sh_result CMD_OK else sh_error (println ''Could not set breakpoint'' []))
             else sh_error (println ''Error, invalidate memory address for breakpoint'' [])))))"

text \<open>A breakpoint by its number, or by its address when no breakpoint has the number.\<close>

definition on_breakpoint :: "((u32 \<Rightarrow> u32) \<Rightarrow> u32 \<Rightarrow> dbg \<Rightarrow> (int \<times> dbg) run) \<Rightarrow> 'k sh_fun" where
  "on_breakpoint f env argv = sh_cmd
     (sh_bind (sh_decode env (hd argv)) (\<lambda>v. case v of
        None \<Rightarrow> sh_error (println ''Invalid ID for delete'' [])
      | Some i \<Rightarrow> sh_bind (sh_dbg (\<lambda>d. case debugFindBPByIndex (sint i) d of
            Some n \<Rightarrow> f (k_ph env) (bp_addr (g_bps d ! n)) d
          | None \<Rightarrow> f (k_ph env) i d)) (\<lambda>r. sh_result CMD_OK)))"

definition bpdel_cmd :: "'k sh_fun" where "bpdel_cmd = on_breakpoint debugDeleteBP"
definition bpdis_cmd :: "'k sh_fun" where "bpdis_cmd = on_breakpoint debugDisableBP"
definition bpena_cmd :: "'k sh_fun" where "bpena_cmd = on_breakpoint debugEnableBP"

definition debugPrintBPs :: "dbg \<Rightarrow> string list" where
  "debugPrintBPs d =
     println ''Breakpoint List:'' []
     # concat (map (\<lambda>i. let b = g_bps d ! i;
             mark = (\<lambda>fl c. Num (of_char (if has (bp_flags b) fl then c else CHR ''-'')))
         in if active b then [println ''%-2d: Addr:0x%08X Inst:0x%08X Flags:%c%c%c'' [int_arg (int i), Num (bp_addr b), Num (bp_inst b),
              mark DEBUG_BP_ONESHOT CHR ''O'', mark DEBUG_BP_HARDWARE CHR ''H'', mark DEBUG_BP_DISABLED CHR ''D'']] else [])
       [0..<DEBUG_MAX_BPS])"

definition bpprint_cmd :: "'k sh_fun" where
  "bpprint_cmd env argv = sh_cmd
     (sh_bind (sh_ask p_dbg) (\<lambda>d. sh_then (sh_each sh_say (debugPrintBPs d)) (sh_result CMD_OK)))"

text \<open>The registers that no operation of the code sets are read from the kernel.\<close>

definition debugPrintHWRegs :: "'k senv \<Rightarrow> ('k, unit) act" where
  "debugPrintHWRegs env =
     sh_then (sh_set (\<lambda>st. st\<lparr>p_dbg := debug_get_env (p_dbg st)\<rparr>))
    (sh_bind (sh_info env ''debug_get_env'' []) (\<lambda>(r, i).
     sh_bind (sh_ask (\<lambda>st. psplinkHwContext (p_dbg st))) (\<lambda>h.
       sh_each sh_say (println ''<HW Debug Registers>'' []
         # map (\<lambda>(n, v). println ''%-6s: 0x%08X'' [Str n, Num v])
             ([(''DRCNTL'', DRCNTL h), (''IBC'', IBC h), (''DBC'', oi_field i ''DBC''), (''IBA'', IBA h), (''IBAM'', IBAM h)]
              @ map (\<lambda>n. (n, oi_field i n)) [''DBA'', ''DBAM'', ''DBD'', ''DBDM''])))))"

definition hwprint_cmd :: "'k sh_fun" where
  "hwprint_cmd env argv = sh_cmd (sh_then (debugPrintHWRegs env) (sh_result CMD_OK))"

end
