(* ===== verification/Bitmap.thy ===== *)
theory Bitmap
  imports ShellState
begin

unbundle bit_operations_syntax

text \<open>
  The dump of the screen as a bitmap (\<^verbatim>\<open>psplink/bitmap.c\<close>). The frame is read from memory; the buffer the
  bitmap is put together in is a list of bytes.
\<close>

section \<open>Pixels\<close>

definition FRAME_WIDTH :: nat where "FRAME_WIDTH = 480"
definition FRAME_HEIGHT :: nat where "FRAME_HEIGHT = 272"

text \<open>A frame in memory, by its bytes: its lines are 512 pixels apart.\<close>

definition pixel_at :: "(u32 \<Rightarrow> u8) \<Rightarrow> u32 \<Rightarrow> nat \<Rightarrow> nat \<Rightarrow> u16" where
  "pixel_at rd frame h i =
     (let a = frame + of_nat (2 * (h * 512 + i)) in ucast (rd a) OR push_bit 8 (ucast (rd (a + 1))))"

text \<open>The three bytes of a pixel in the file, for the four formats of the display.\<close>

definition bytes_8888 :: "(u32 \<Rightarrow> u8) \<Rightarrow> u32 \<Rightarrow> nat \<Rightarrow> nat \<Rightarrow> u8 list" where
  "bytes_8888 rd frame h i = (let p = frame + of_nat (h * 512 * 4 + i * 4) in [rd (p + 2), rd (p + 1), rd p])"

definition bytes_5551 :: "(u32 \<Rightarrow> u8) \<Rightarrow> u32 \<Rightarrow> nat \<Rightarrow> nat \<Rightarrow> u8 list" where
  "bytes_5551 rd frame h i =
     (let p = pixel_at rd frame h i in
      [ucast (push_bit 3 (drop_bit 10 p AND 0x1F)), ucast (push_bit 3 (drop_bit 5 p AND 0x1F)), ucast (push_bit 3 (p AND 0x1F))])"

definition bytes_565 :: "(u32 \<Rightarrow> u8) \<Rightarrow> u32 \<Rightarrow> nat \<Rightarrow> nat \<Rightarrow> u8 list" where
  "bytes_565 rd frame h i =
     (let p = pixel_at rd frame h i in
      [ucast (push_bit 3 (drop_bit 11 p AND 0x1F)), ucast (push_bit 2 (drop_bit 5 p AND 0x3F)), ucast (push_bit 3 (p AND 0x1F))])"

definition bytes_4444 :: "(u32 \<Rightarrow> u8) \<Rightarrow> u32 \<Rightarrow> nat \<Rightarrow> nat \<Rightarrow> u8 list" where
  "bytes_4444 rd frame h i =
     (let p = pixel_at rd frame h i in
      [ucast (push_bit 4 (drop_bit 8 p AND 0xF)), ucast (push_bit 4 (drop_bit 4 p AND 0xF)), ucast (push_bit 4 (p AND 0xF))])"

text \<open>The lines from the last one to the first one.\<close>

definition write_data :: "(nat \<Rightarrow> nat \<Rightarrow> u8 list) \<Rightarrow> u8 list" where
  "write_data px = concat (map (\<lambda>h. concat (map (px h) [0..<FRAME_WIDTH])) (rev [0..<FRAME_HEIGHT]))"

text \<open>The formats \<^verbatim>\<open>PSP_DISPLAY_PIXEL_FORMAT_565\<close>, \<^verbatim>\<open>5551\<close>, \<^verbatim>\<open>4444\<close> and \<^verbatim>\<open>8888\<close>.\<close>

definition pixel_format :: "u32 \<Rightarrow> ((u32 \<Rightarrow> u8) \<Rightarrow> u32 \<Rightarrow> nat \<Rightarrow> nat \<Rightarrow> u8 list) option" where
  "pixel_format fmt =
     (if fmt = 0 then Some bytes_565 else if fmt = 1 then Some bytes_5551
      else if fmt = 2 then Some bytes_4444 else if fmt = 3 then Some bytes_8888 else None)"

section \<open>The file\<close>

definition BITMAP_HEADER :: nat where "BITMAP_HEADER = 54"
definition BITMAP_DATA :: nat where "BITMAP_DATA = 480 * 272 * 3"

definition bitmap_header :: "u8 list" where
  "bitmap_header =
     [of_char CHR ''B'', of_char CHR ''M''] @ le32 (of_nat (BITMAP_DATA + BITMAP_HEADER)) @ le32 0 @ le32 (of_nat BITMAP_HEADER)
     @ le32 0x28 @ le32 480 @ le32 272 @ le16 1 @ le16 24 @ le32 0 @ le32 (of_nat BITMAP_DATA)
     @ le32 2834 @ le32 2834 @ le32 0 @ le32 0"

text \<open>The result of \<^verbatim>\<open>fixed_write\<close>, with how many bytes are written already.\<close>

function bmp_fixed_write :: "'w psp_io \<Rightarrow> int \<Rightarrow> u8 list \<Rightarrow> int \<Rightarrow> 'w \<Rightarrow> int \<times> 'w" where
  "bmp_fixed_write io fd data writelen w =
     (if data = [] then (writelen, w)
      else (case io_write io fd (map chr_of data) w of (ret, w1) \<Rightarrow>
        if ret \<le> 0 then (- 1, w1) else bmp_fixed_write io fd (drop (nat ret) data) (writelen + ret) w1))"
  by pat_completeness auto

termination
  by (relation "measure (\<lambda>(io, fd, data, n, w). length data)") auto

declare bmp_fixed_write.simps [simp del]

text \<open>
  The result, the text printed and the file system. \<open>old\<close>: what the buffer holds, which is what a format that
  is none leaves in it.
\<close>

definition bitmapWrite ::
  "'w psp_io \<Rightarrow> (u32 \<Rightarrow> u8) \<Rightarrow> u32 \<Rightarrow> u8 list \<Rightarrow> u32 \<Rightarrow> string \<Rightarrow> 'w \<Rightarrow> int \<times> string list \<times> 'w" where
  "bitmapWrite io rd frame old fmt file w =
     (case io_open io file (PSP_O_WRONLY OR PSP_O_CREAT OR PSP_O_TRUNC) w of (fd, w1) \<Rightarrow>
        if fd < 0 then
          (- 1, [println (''Could not open file '' @ [CHR 0x27] @ ''%s'' @ [CHR 0x27] @ '' for writing'') [Str file]], w1)
        else
          (let data = (case pixel_format fmt of None \<Rightarrow> take BITMAP_DATA old | Some px \<Rightarrow> write_data (px rd frame));
               w2 = snd (bmp_fixed_write io fd (bitmap_header @ data) 0 w1)
           in (0, [], snd (io_close io fd w2))))"

end
