(* ===== verification/ShellSystem.thy ===== *)
theory ShellSystem
  imports ShellFiles ShellDebug Bitmap "HOL-Library.Signed_Division"
begin

unbundle bit_operations_syntax

text \<open>
  The other commands of the shell (\<^verbatim>\<open>psplink/shell.c\<close>): the calculator, blocks of memory, the screen, the
  configuration, power, profiler and interrupts; and the reset with the start after it (\<^verbatim>\<open>psplink/main.c\<close>).
\<close>

section \<open>Calculator and configuration\<close>

definition calc_cmd :: "'k sh_fun" where
  "calc_cmd env argv = sh_cmd
     (sh_bind (sh_decode env (hd argv)) (\<lambda>v. case v of
        None \<Rightarrow> sh_then (sh_say (println ''Error could not calculate address'' [])) (sh_result CMD_OK)
      | Some val \<Rightarrow>
          (let disp = (if length argv > 1 then upcase (fst_char (argv ! 1)) else CHR ''X'') in
           sh_then (sh_say (println (if disp = CHR ''D'' then ''%d'' else if disp = CHR ''O'' then ''%o'' else ''0x%08X'') [Num val]))
             (sh_ret (CMD_OK, val)))))"

definition sh_config :: "('k \<Rightarrow> (string list \<times> 'k) run) \<Rightarrow> ('k, unit) act" where
  "sh_config f st = map_sum id (\<lambda>(out, k). ((), out, with_k st k)) (f (p_k st))"

definition config_cmd :: "'k sh_fun" where
  "config_cmd env argv = sh_cmd
     (sh_bind (sh_ask p_bootpath) (\<lambda>b. sh_then (sh_config (configPrint (k_io env) b)) (sh_result CMD_OK)))"

definition change_config :: "int \<Rightarrow> string \<Rightarrow> 'k sh_fun" where
  "change_config mode val env argv = sh_cmd
     (sh_bind (sh_ask p_bootpath) (\<lambda>b.
        sh_then (sh_config (configChange (k_io env) b (hd argv) val mode)) (sh_result CMD_OK)))"

definition confset_cmd :: "'k sh_fun" where
  "confset_cmd env argv = change_config CONFIG_MODE_ADD (if length argv > 1 then argv ! 1 else []) env argv"

definition confdel_cmd :: "'k sh_fun" where
  "confdel_cmd = change_config CONFIG_MODE_DEL []"

section \<open>Memory of the kernel\<close>

definition meminfo_line :: "'k senv \<Rightarrow> int \<Rightarrow> ('k, unit) act" where
  "meminfo_line env i =
     sh_bind (sh_info env ''sceKernelQueryMemoryPartitionInfo'' [int_arg i]) (\<lambda>(r, info).
       if r \<noteq> 0 then sh_ret ()
       else sh_bind (sh_call env ''sceKernelPartitionMaxFreeMemSize'' [int_arg i]) (\<lambda>free.
            sh_bind (sh_call env ''sceKernelPartitionTotalFreeMemSize'' [int_arg i]) (\<lambda>total.
              sh_say (println ''%-2d | 0x%08X | %8d | %9d | %9d | %04X |'' [int_arg i, Num (oi_field info ''startaddr''),
                Num (oi_field info ''memsize''), Num total, Num free, Num (oi_field info ''attr'')]))))"

text \<open>One partition and the one after it, or all eleven.\<close>

definition meminfo_cmd :: "'k sh_fun" where
  "meminfo_cmd env argv = sh_cmd
     (let pid = (if argv = [] then 1 else atoi (hd argv));
          lim = (if argv = [] then 11 else pid + 1)
      in sh_then (sh_when (argv \<noteq> []) (sh_say (println ''pid: %d'' [int_arg pid])))
           (if pid < 1 \<or> pid > 11 then sh_error (println ''Error, invalid partition number %d'' [int_arg pid])
            else sh_then (sh_each sh_say
                [println ''Memory Partitions:'' [],
                 println ''N  |    BASE    |   SIZE   | TOTALFREE |  MAXFREE  | ATTR |'' [],
                 println ''---|------------|----------|-----------|-----------|------|'' []])
              (sh_then (sh_each (meminfo_line env) [pid..lim]) (sh_result CMD_OK))))"

definition memarea_descs :: "string list" where
  "memarea_descs =
    [''Scratchpad'', ''Scratchpad (uncached)'', ''VRAM'', ''VRAM (uncached)'', ''User memory'', ''User memory (uncached)'',
     ''Kernel memory (low)'', ''Kernel memory (low uncached)'', ''Kernel memory (mid v1.0 only)'',
     ''Kernel memory (mid v1.0 only uncached)'', ''Kernel memory (high)'', ''Kernel memory (high uncached)'', ''Internal RAM'']"

definition memPrintRegions :: "bool \<Rightarrow> string list" where
  "memPrintRegions isv1 =
     println ''Memory Regions:'' []
     # map (\<lambda>(i, e, d). println ''Region %2d: Base 0x%08X - Size 0x%08X - %s''
           [int_arg (int i), Num (me_addr e), int_arg (me_size e), Str d])
         (filter (\<lambda>(i, e, d). \<not> me_v1only e \<or> isv1) (List.enumerate 0 (zip g_memareas memarea_descs)))"

definition memreg_cmd :: "'k sh_fun" where
  "memreg_cmd env argv = sh_cmd
     (sh_bind (sh_ask p_prot) (\<lambda>p. sh_then (sh_each sh_say (memPrintRegions (g_isv1 p))) (sh_result CMD_OK)))"

definition memblocks_cmd :: "'k sh_fun" where
  "memblocks_cmd env argv = sh_cmd
     (if argv = [] then sh_then (sh_do env ''sceKernelSysMemDumpBlock'' []) (sh_result CMD_OK)
      else if fst_char (hd argv) = CHR ''f'' then sh_then (sh_do env ''sceKernelSysMemDump'' []) (sh_result CMD_OK)
      else if fst_char (hd argv) = CHR ''t'' then sh_then (sh_do env ''sceKernelSysMemDumpTail'' []) (sh_result CMD_OK)
      else sh_result CMD_ERROR)"

definition malloc_cmd :: "'k sh_fun" where
  "malloc_cmd env argv = sh_cmd
     (let pid = to_ul 0 (hd argv); sz = to_ul 0 (argv ! 3);
          type = (if fst_char (argv ! 2) = CHR ''h'' then 1 else 0)
      in sh_bind (sh_call env ''sceKernelAllocPartitionMemory'' [Num pid, Str (argv ! 1), Num type, Num sz, Num 0]) (\<lambda>uid.
         if sint uid < 0 then sh_error (println ''Error allocating memory in pid:%d'' [Num pid])
         else sh_bind (sh_call env ''sceKernelGetBlockHeadAddr'' [Num uid]) (\<lambda>h.
           sh_then (sh_say (println ''Allocated %d bytes in pid:%d (UID:0x%08X, Head:0x%08X)'' [Num sz, Num pid, Num uid, Num h]))
             (sh_ret (CMD_OK, uid)))))"

definition mfree_cmd :: "'k sh_fun" where
  "mfree_cmd env argv = sh_cmd
     (let uid = to_ul 0 (hd argv) in
      sh_bind (sh_call env ''sceKernelFreePartitionMemory'' [Num uid]) (\<lambda>r.
        sh_then (sh_when (sint r < 0) (sh_say (println ''Could not free memory block 0x%08X'' [Num uid]))) (sh_result CMD_OK)))"

definition mhead_cmd :: "'k sh_fun" where
  "mhead_cmd env argv = sh_cmd
     (let uid = to_ul 0 (hd argv) in
      sh_bind (sh_call env ''sceKernelGetBlockHeadAddr'' [Num uid]) (\<lambda>p.
        if p = 0 then sh_then (sh_say (println ''Could not get head of memory block 0x%08X'' [Num uid])) (sh_result CMD_OK)
        else sh_then (sh_say (println ''Head:0x%08X'' [Num p])) (sh_ret (CMD_OK, p))))"

section \<open>The screen\<close>

text \<open>The frame is read through the uncached mapping; the buffer holds what its memory held.\<close>

definition scrshot_cmd :: "'k sh_fun" where
  "scrshot_cmd env argv = sh_cmd
     (let pri = (if length argv > 1 then atoi (argv ! 1) else 2) in
      sh_bind (sh_path env (hd argv) TYPE_FILE False) (\<lambda>(ok, path).
      if \<not> ok then sh_error (println ''Error invalid path'' [])
      else sh_bind (sh_info env ''sceDisplayGetFrameBufferInternal'' [int_arg pri, Num 1]) (\<lambda>(r, i).
        let frame = oi_field i ''topaddr''; width = oi_field i ''bufferwidth''; fmt = oi_field i ''pixelformat'' in
        if r < 0 \<or> frame = 0 then sh_error (println ''Invalid frame address'' [])
        else sh_bind (sh_call env ''sceKernelAllocPartitionMemory'' [Num 4, Str ''scrshot'', Num 0, Num (512 * 1024), Num 0]) (\<lambda>block.
          if sint block < 0 then sh_error (println ''Error could not allocate memory buffer 0x%08X'' [Num block])
          else sh_bind (sh_call env ''sceKernelGetBlockHeadAddr'' [Num block]) (\<lambda>buf.
            sh_then (sh_say (println ''frame_addr 0x%p, frame_width %d, pixel_format %d output %s''
                [Str (k_ptr env frame), Num width, Num fmt, Str path]))
           (sh_then (\<lambda>st. (let rd = (\<lambda>a. lb (k_ph env) a (p_dbg st));
                p = (if frame AND 0x80000000 \<noteq> 0 then frame OR 0xA0000000 else frame OR 0x40000000);
                old = map (\<lambda>n. rd (buf + of_nat (BITMAP_HEADER + n))) [0..<BITMAP_DATA]
              in case bitmapWrite (k_io env) rd p old fmt path (p_k st) of (res, out, k) \<Rightarrow> Inr ((), out, with_k st k)))
           (sh_then (sh_do env ''sceKernelFreePartitionMemory'' [Num block]) (sh_result CMD_OK))))))))"

section \<open>State of the machine\<close>

text \<open>The bits \<^verbatim>\<open>PSP_USB_ACTIVATED\<close> and \<^verbatim>\<open>PSP_USB_CABLE_CONNECTED\<close>; the last line shows the first one again.\<close>

definition usbstat_text :: "u32 \<Rightarrow> string list" where
  "usbstat_text s =
     [println ''USB Status:'' [],
      println ''Connection    : %s'' [Str (if s AND 0x200 \<noteq> 0 then ''activated'' else ''deactivated'')],
      println ''USB Cable     : %s'' [Str (if s AND 0x020 \<noteq> 0 then ''connected'' else ''disconnected'')],
      println ''USB Connection: %s'' [Str (if s AND 0x200 \<noteq> 0 then ''established'' else ''notpresent'')]]"

definition usbstat_cmd :: "'k sh_fun" where
  "usbstat_cmd env argv = sh_cmd
     (sh_bind (sh_call env ''sceUsbGetState'' []) (\<lambda>s. sh_then (sh_each sh_say (usbstat_text s)) (sh_result CMD_OK)))"

definition PSPLINK_VERSION :: string where "PSPLINK_VERSION = ''v3.0''"

definition version_cmd :: "'k sh_fun" where
  "version_cmd env argv = sh_cmd (sh_then (sh_say (println ''PSPLink %s'' [Str PSPLINK_VERSION])) (sh_result CMD_OK))"

definition pspver_cmd :: "'k sh_fun" where
  "pspver_cmd env argv = sh_cmd
     (sh_bind (sh_call env ''sceKernelDevkitVersion'' []) (\<lambda>rev.
        sh_then (sh_say (println ''Version: %d.%d.%d (0x%08X)''
            [Num (drop_bit 24 rev AND 0xFF), Num (drop_bit 16 rev AND 0xFF), Num (drop_bit 8 rev AND 0xFF), Num rev]))
          (sh_result CMD_OK)))"

text \<open>The two branches of the text; the voltage as a text is a parameter.\<close>

definition power_battery :: "'k senv \<Rightarrow> ('k, unit) act" where
  "power_battery env =
     sh_bind (sh_call env ''scePowerIsLowBattery'' []) (\<lambda>low.
     sh_then (sh_say (println ''%-14s: %s'' [Str ''Low Charge'', Str (if low \<noteq> 0 then ''yes'' else ''no '')]))
    (sh_bind (sh_call env ''scePowerIsBatteryCharging'' []) (\<lambda>ch.
     sh_then (sh_say (println ''%-14s: %s'' [Str ''Charging'', Str (if ch \<noteq> 0 then ''yes'' else ''no '')]))
    (sh_bind (sh_call env ''scePowerGetBatteryLifeTime'' []) (\<lambda>life.
     sh_bind (sh_call env ''scePowerGetBatteryVolt'' []) (\<lambda>volt.
     sh_bind (sh_call env ''scePowerGetBatteryLifePercent'' []) (\<lambda>pct.
     sh_then (sh_say (println ''%-14s: %d%% (%02dh%02dm)     '' [Str ''Charge'', Num pct, int_arg (sint life sdiv 60), int_arg (sint life - sint life sdiv 60 * 60)]))
    (sh_bind (sh_info env ''f_cvt'' [Num volt, Num 3]) (\<lambda>(r, i).
     sh_then (sh_say (println ''%-14s: %sV'' [Str ''Volts'', Str (oi_name i)]))
    (sh_bind (sh_call env ''scePowerGetBatteryTemp'' []) (\<lambda>temp.
       sh_say (println ''%-14s: %d deg C'' [Str ''Battery Temp'', Num temp]))))))))))))"

definition power_cmd :: "'k sh_fun" where
  "power_cmd env argv = sh_cmd
     (sh_bind (sh_call env ''scePowerIsPowerOnline'' []) (\<lambda>on.
      sh_then (sh_say (println ''External Power: %s'' [Str (if on \<noteq> 0 then ''yes'' else ''no '')]))
     (sh_bind (sh_call env ''scePowerIsBatteryExist'' []) (\<lambda>b.
      sh_then (sh_say (println ''%-14s: %s'' [Str ''Battery'', Str (if b \<noteq> 0 then ''present'' else ''absent '')]))
     (sh_bind (sh_call env ''scePowerIsBatteryExist'' []) (\<lambda>b2.
      sh_then (if b2 \<noteq> 0 then power_battery env else sh_say (println ''Battery stats unavailable'' []))
     (sh_bind (sh_call env ''scePowerGetCpuClockFrequency'' []) (\<lambda>cpu.
      sh_then (sh_say (println ''%-14s: %d MHz'' [Str ''CPU Speed'', Num cpu]))
     (sh_bind (sh_call env ''scePowerGetBusClockFrequency'' []) (\<lambda>bus.
      sh_then (sh_say (println ''%-14s: %d MHz'' [Str ''Bus Speed'', Num bus])) (sh_result CMD_OK)))))))))))"

definition poweroff_cmd :: "'k sh_fun" where
  "poweroff_cmd env argv = sh_cmd (sh_then (sh_do env ''scePowerRequestStandby'' []) (sh_result CMD_OK))"

definition clock_cmd :: "'k sh_fun" where
  "clock_cmd env argv = sh_cmd
     (case (strtoint (hd argv), strtoint (argv ! 1), strtoint (argv ! 2)) of
        (Some a, Some b, Some c) \<Rightarrow> sh_then (sh_do env ''scePowerSetClockFrequency'' [Num a, Num b, Num c]) (sh_result CMD_OK)
      | _ \<Rightarrow> sh_error (println ''Invalid clock values'' []))"

section \<open>The debug register\<close>

definition DEBUG_REG_GLOBAL_PROFILER :: u32 where "DEBUG_REG_GLOBAL_PROFILER = 0x00800000"
definition DEBUG_REG_THREAD_PROFILER :: u32 where "DEBUG_REG_THREAD_PROFILER = 0x00C00000"
definition DEBUG_REG_PROFILER_MASK :: u32 where "DEBUG_REG_PROFILER_MASK = NOT DEBUG_REG_THREAD_PROFILER"

definition debug_word :: "'k senv \<Rightarrow> ('k, u32) act" where
  "debug_word env st =
     (case lw (k_ph env) (get_debug_register env st) (p_dbg st) of Inl f \<Rightarrow> Inl f | Inr v \<Rightarrow> Inr (v, [], st))"

definition with_debug :: "'k senv \<Rightarrow> ('k, cmd_result \<times> u32) act \<Rightarrow> ('k, cmd_result \<times> u32) act" where
  "with_debug env m = sh_bind (sh_ask (get_debug_register env)) (\<lambda>r. if r = 0 then sh_result CMD_OK else m)"

definition profiler_change :: "char \<Rightarrow> (u32 \<Rightarrow> u32) option" where
  "profiler_change c =
     (if c = CHR ''t'' then Some (\<lambda>v. v AND DEBUG_REG_PROFILER_MASK OR DEBUG_REG_THREAD_PROFILER)
      else if c = CHR ''g'' then Some (\<lambda>v. v AND DEBUG_REG_PROFILER_MASK OR DEBUG_REG_GLOBAL_PROFILER)
      else if c = CHR ''o'' then Some (\<lambda>v. v AND DEBUG_REG_PROFILER_MASK)
      else None)"

definition profiler_mode :: "u32 \<Rightarrow> string" where
  "profiler_mode v =
     (if v AND DEBUG_REG_THREAD_PROFILER = DEBUG_REG_THREAD_PROFILER then ''Thread''
      else if v AND DEBUG_REG_GLOBAL_PROFILER = DEBUG_REG_GLOBAL_PROFILER then ''Global''
      else ''Off'')"

definition profmode_cmd :: "'k sh_fun" where
  "profmode_cmd env argv = sh_cmd (with_debug env
     (if argv = [] then
        sh_bind (debug_word env) (\<lambda>v.
          sh_then (sh_say (println ''Profiler Mode: %s'' [Str (profiler_mode v)])) (sh_result CMD_OK))
      else (case profiler_change (fst_char (hd argv)) of
          None \<Rightarrow> sh_error (println (''Invalid profiler mode '' @ [CHR 0x27] @ ''%s'' @ [CHR 0x27]) [Str (hd argv)])
        | Some f \<Rightarrow> sh_then (set_debug_register env f)
            (sh_then (sh_say (println ''Profiler mode set, you must now reset psplink'' [])) (sh_result CMD_OK)))))"

definition debugreg_cmd :: "'k sh_fun" where
  "debugreg_cmd env argv = sh_cmd (with_debug env
     (if argv = [] then
        sh_bind (debug_word env) (\<lambda>v.
          sh_then (sh_say (println ''Debug Register: 0x%08X'' [Num v])) (sh_result CMD_OK))
      else (case strtoint (hd argv) of
          None \<Rightarrow> sh_error (println (''Invalid debug reg value '' @ [CHR 0x27] @ ''%s'' @ [CHR 0x27]) [Str (hd argv)])
        | Some val \<Rightarrow> sh_then (set_debug_register env (\<lambda>_. val)) (sh_result CMD_OK))))"

section \<open>Interrupts\<close>

definition PspInterruptNames :: "(nat \<times> string) list" where
  "PspInterruptNames =
    [(4, ''GPIO''), (5, ''ATA_ATAPI''), (6, ''UmdMan''), (7, ''MScm0''), (8, ''Wlan''), (10, ''Audio''), (12, ''I2C''),
     (14, ''SIRCS_IrDA''), (15, ''Systimer0''), (16, ''Systimer1''), (17, ''Systimer2''), (18, ''Systimer3''),
     (19, ''Thread0''), (20, ''NAND''), (21, ''DMACPLUS''), (22, ''DMA0''), (23, ''DMA1''), (24, ''Memlmd''), (25, ''GE''),
     (30, ''Display''), (31, ''MeCodec''), (36, ''HP_Remote''), (60, ''MScm1''), (61, ''MScm2''), (65, ''Thread1''),
     (66, ''Interrupt'')]"

definition irq_text :: "sh_info \<Rightarrow> int \<Rightarrow> int \<Rightarrow> string \<Rightarrow> string list" where
  "irq_text i intno subno name =
     (let x = (\<lambda>f. Num (oi_field i f)) in
      [if subno \<ge> 0 then println ''Subintr %d/%d/%s - Calls %d'' [int_arg intno, int_arg subno, Str name, x ''calls'']
       else println ''Interrupt %d/%s - Calls %d'' [int_arg intno, Str name, x ''calls''],
       println ''Entry 0x%08X - Common 0x%08X'' [x ''entry'', x ''common''],
       println ''GP 0x%08X - Intrcode %d'' [x ''gp'', x ''intr_code''],
       println ''SubCount %d - IntrLevel %d'' [x ''sub_count'', x ''intr_level''],
       println ''Enabled %d - field_1c 0x%08X'' [x ''enabled'', x ''field_1C''],
       println ''totalclk_lo 0x%08X - totalclk_hi 0x%08X'' [x ''total_clock_lo'', x ''total_clock_hi''],
       println ''minclk_lo 0x%08X - minclk_hi 0x%08X'' [x ''min_clock_lo'', x ''min_clock_hi''],
       println ''maxclk_lo 0x%08X - maxclk_hi 0x%08X'' [x ''max_clock_lo'', x ''max_clock_hi''] @ println [] []])"

text \<open>The table of names has 67 entries; the number is not checked.\<close>

definition print_irq :: "sh_info \<Rightarrow> int \<Rightarrow> int \<Rightarrow> ('k, unit) act" where
  "print_irq i intno subno =
     (if intno < 0 \<or> intno \<ge> 67 then sh_fault Undefined_Value
      else sh_when (oi_field i ''entry'' \<noteq> 0)
        (sh_each sh_say (irq_text i intno subno (case map_of PspInterruptNames (nat intno) of None \<Rightarrow> ''Unknown'' | Some n \<Rightarrow> n))))"

definition irq_info :: "'k senv \<Rightarrow> int \<Rightarrow> int \<Rightarrow> ('k, int \<times> sh_info) act" where
  "irq_info env intno subno = sh_info env ''QueryIntrHandlerInfo'' [int_arg intno, int_arg subno]"

definition irqs_cmd :: "'k sh_fun" where
  "irqs_cmd env argv = sh_cmd
     (sh_then
       (if argv = [] then
          sh_each (\<lambda>n. sh_bind (irq_info env n (- 1)) (\<lambda>(r, i). print_irq i n (- 1))) [0..66]
        else
          (let intno = sint (to_ul 0 (hd argv)) in
           sh_bind (irq_info env intno (- 1)) (\<lambda>(r, i).
             sh_when (r = 0)
               (sh_then (print_irq i intno (- 1))
                 (sh_each (\<lambda>n. sh_bind (irq_info env intno n) (\<lambda>(r2, i2).
                    if r2 = 0 then print_irq i2 intno n else sh_say (println ''Arg: %08X'' [int_arg r2])))
                   [0..sint (oi_field i ''sub_count'') - 1])))))
       (sh_result CMD_OK))"

text \<open>A call for an interrupt, or for one of its handlers when a number that is not negative is given.\<close>

definition int_or_sub :: "'k senv \<Rightarrow> string \<Rightarrow> string \<Rightarrow> u32 \<Rightarrow> u32 \<Rightarrow> ('k, cmd_result \<times> u32) act" where
  "int_or_sub env whole single intno subno =
     sh_then (if sint subno < 0 then sh_do env whole [Num intno] else sh_do env single [Num intno, Num subno])
       (sh_result CMD_OK)"

definition iena_cmd :: "'k sh_fun" where
  "iena_cmd env argv = sh_cmd
     (let c = fst_char (hd argv); intno = to_ul 0 (argv ! 1); subno = (if length argv > 2 then to_ul 0 (argv ! 2) else - 1) in
      if c = CHR ''e'' then int_or_sub env ''sceKernelEnableIntr'' ''sceKernelEnableSubIntr'' intno subno
      else if c = CHR ''d'' then int_or_sub env ''sceKernelDisableIntr'' ''sceKernelDisableSubIntr'' intno subno
      else sh_result CMD_ERROR)"

definition irel_cmd :: "'k sh_fun" where
  "irel_cmd env argv = sh_cmd
     (int_or_sub env ''sceKernelReleaseIntrHandler'' ''sceKernelReleaseSubIntrHandler'' (to_ul 0 (hd argv))
       (if length argv > 1 then to_ul 0 (argv ! 1) else - 1))"

section \<open>Names and the end\<close>

definition tonid_cmd :: "'k sh_fun" where
  "tonid_cmd env argv = sh_cmd
     (sh_bind (sh_ask (\<lambda>st. libsNameToNid (c_libs (calc_of env st)) (hd argv))) (\<lambda>nid.
        sh_then (sh_say (println ''Name: %s, Nid: 0x%08X'' [Str (hd argv), Num nid])) (sh_result CMD_OK)))"

definition exit_cmd :: "'k sh_fun" where
  "exit_cmd env argv = sh_cmd (sh_result CMD_EXITSHELL)"

section \<open>Reset\<close>

definition rebootkey_arg :: "nat \<Rightarrow> farg" where
  "rebootkey_arg m = (if m = 0 then Str ''game'' else if m = 1 then Str ''vsh'' else if m = 2 then Str ''updater'' else Num 0)"

text \<open>The file the shell was started from and the current directory, in an array of 256 characters.\<close>

definition reset_args :: "string \<Rightarrow> string \<Rightarrow> string run" where
  "reset_args bootfile currdir =
     (let s = bootfile @ [CHR 0x00] @ currdir @ [CHR 0x00] in
      if length s > 256 then Inl Buffer_Overflow else Inr s)"

definition psplinkReset :: "'k senv \<Rightarrow> ('k, unit) act" where
  "psplinkReset env =
     sh_bind (sh_ask id) (\<lambda>st. case p_bootfile st of
       None \<Rightarrow> sh_fault Bad_Pointer
     | Some file \<Rightarrow> (case reset_args file (p_currdir st) of
       Inl f \<Rightarrow> sh_fault f
     | Inr argp \<Rightarrow>
         sh_then (sh_do env ''debugDisableHW'' [])
        (sh_then (sh_do env ''psplinkSetK1'' [Num 0])
        (sh_then (sh_say (println ''Resetting psplink'' []))
        (sh_then (psplinkStop env)
        (sh_then (sh_do env ''sceKernelSuspendAllUserThreads'' [])
          (sh_do env ''sceKernelLoadExecVSHMs2'' [Str file, Str argp, rebootkey_arg (p_rebootkey st)])))))))"

definition reset_cmd :: "'k sh_fun" where
  "reset_cmd env argv = sh_cmd
     (sh_then (case (if argv = [] then None else map_of [(''game'', 0), (''vsh'', 1), (''updater'', 2)] (hd argv)) of
          None \<Rightarrow> sh_ret ()
        | Some m \<Rightarrow> sh_set (\<lambda>st. st\<lparr>p_rebootkey := m\<rparr>))
       (sh_then (psplinkReset env) (sh_result CMD_OK)))"

text \<open>What is put in the place of \<^verbatim>\<open>sceKernelExitGame\<close>.\<close>

definition exit_reset :: "'k senv \<Rightarrow> ('k, unit) act" where
  "exit_reset env =
     sh_then (sh_do env ''psplinkSetK1'' [Num 0])
    (sh_bind (sh_ask p_resetonexit) (\<lambda>b.
     sh_then (if b then
         sh_bind (sh_call env ''sceKernelCreateThread'' [Str ''PspLinkReset'', Str ''reset_thread'', Num 8, Num 0x1000, Num 0]) (\<lambda>thid.
           sh_when (0 \<le> sint thid) (sh_do env ''sceKernelStartThread'' [Num thid, Num 0]))
       else sh_say (CHR 0x0A # println ''sceKernelExitGame caught!'' []))
      (sh_do env ''sceKernelExitThread'' [Num 0])))"

end
