(* ===== verification/ShellStart.thy ===== *)
theory ShellStart
  imports ShellSystem
begin

unbundle bit_operations_syntax

text \<open>
  The start of the shell (\<^verbatim>\<open>psplink/main.c\<close>, \<^verbatim>\<open>psplink/util.c\<close>): its arguments, the directories it works in, the
  connection to the PC and the modules it loads. What other components do to a state of their own (the terminal,
  the hooks, the debug hardware) is a call by name, like the kernel's. The messages for the kernel's debug output are
  left out.
\<close>

section \<open>Arguments\<close>

definition MAX_ARGS :: nat where "MAX_ARGS = 16"

text \<open>The texts in the block of arguments, each with its NUL, and at most 15 of them.\<close>

function parse_args_from :: "nat \<Rightarrow> string \<Rightarrow> string list run" where
  "parse_args_from n s =
     (if s = [] then Inr []
      else if CHR 0x00 \<notin> set s then Inl Unterminated_String
      else (let a = takeWhile (\<lambda>c. c \<noteq> CHR 0x00) s in
            if n + 1 = MAX_ARGS - 1 then Inr [a]
            else map_sum id ((#) a) (parse_args_from (n + 1) (drop (length a + 1) s))))"
  by pat_completeness auto

termination
  by (relation "measure (\<lambda>(n, s). length s)") auto

declare parse_args_from.simps [simp del]

definition parse_sceargs :: "string \<Rightarrow> string list run" where
  "parse_sceargs argp = parse_args_from 0 argp"

section \<open>Connection\<close>

definition USB_NOSTART :: nat where "USB_NOSTART = 0"
definition USB_ON :: nat where "USB_ON = 1"
definition USB_OFF :: nat where "USB_OFF = 2"

definition HOSTFSDRIVER_NAME :: string where "HOSTFSDRIVER_NAME = ''USBHostFSDriver''"
definition HOSTFSDRIVER_PID :: u32 where "HOSTFSDRIVER_PID = 0x1C9"
definition PSP_USBBUS_DRIVERNAME :: string where "PSP_USBBUS_DRIVERNAME = ''USBBusDriver''"

text \<open>A module of the directory the shell was started from; \<^verbatim>\<open>strcpy\<close> and \<^verbatim>\<open>strcat\<close> into an array of \<open>MAXPATHLEN\<close>.\<close>

definition load_prx :: "'k senv \<Rightarrow> string \<Rightarrow> string \<Rightarrow> ('k, unit) act" where
  "load_prx env bootpath prx =
     (if length bootpath + length prx \<ge> MAXPATHLEN then sh_fault Buffer_Overflow
      else (\<lambda>st. map_sum id (\<lambda>(r, k). ((), [], with_k st k)) (load_start_module env (bootpath @ prx) [] (p_k st))))"

text \<open>The drivers are started one after the other; the first one that fails is the result.\<close>

definition init_usbhost :: "'k senv \<Rightarrow> string \<Rightarrow> ('k, u32) act" where
  "init_usbhost env bootpath =
     sh_bind (sh_ask p_usbhost) (\<lambda>u.
     if u = USB_ON then sh_ret 0
     else sh_then (sh_when (u = USB_NOSTART) (load_prx env bootpath ''usbhostfs.prx''))
       (sh_bind (sh_call env ''sceUsbStart'' [Str PSP_USBBUS_DRIVERNAME, Num 0, Num 0]) (\<lambda>r.
        if r \<noteq> 0 then sh_ret r
        else sh_bind (sh_call env ''sceUsbStart'' [Str HOSTFSDRIVER_NAME, Num 0, Num 0]) (\<lambda>r2.
          if r2 \<noteq> 0 then sh_ret r2
          else sh_bind (sh_ask p_pid) (\<lambda>pid.
            sh_bind (sh_call env ''sceUsbActivate'' [Num pid]) (\<lambda>r3.
              sh_then (sh_when (r3 = 0) (sh_set (\<lambda>st. st\<lparr>p_usbhost := USB_ON\<rparr>))) (sh_ret r3)))))))"

definition stop_usbhost :: "'k senv \<Rightarrow> ('k, int) act" where
  "stop_usbhost env =
     sh_bind (sh_ask id) (\<lambda>st.
     if p_usbhost st \<noteq> USB_ON then sh_ret 0
     else sh_then (sh_do env ''sceUsbDeactivate'' [Num (p_pid st)])
         (sh_then (sh_do env ''sceUsbStop'' [Str HOSTFSDRIVER_NAME, Num 0, Num 0])
         (sh_then (sh_do env ''sceUsbStop'' [Str PSP_USBBUS_DRIVERNAME, Num 0, Num 0])
         (sh_then (sh_set (\<lambda>s. s\<lparr>p_usbhost := USB_OFF\<rparr>)) (sh_ret 0)))))"

section \<open>Modules\<close>

text \<open>The loader of the shell is stopped and taken out of memory.\<close>

definition unload_loader :: "'k senv \<Rightarrow> ('k, int) act" where
  "unload_loader env =
     sh_bind (sh_ask (\<lambda>st. c_module_by_name (k_calc env (p_k st)) ''PSPLINKLOADER'')) (\<lambda>m.
       sh_then (case m of
           None \<Rightarrow> sh_ret ()
         | Some modid \<Rightarrow> sh_bind (sh_call env ''sceKernelStopModule'' [int_arg modid]) (\<lambda>r.
             sh_when (0 \<le> sint r) (sh_do env ''sceKernelUnloadModule'' [int_arg modid])))
         (sh_ret 0))"

text \<open>
  \<^verbatim>\<open>refer_module_by_name\<close>: the identifier or \<open>-1\<close>.
\<close>

definition refer_module_by_name :: "'k senv \<Rightarrow> string \<Rightarrow> 'k psp \<Rightarrow> int" where
  "refer_module_by_name env name st = (case c_module_by_name (k_calc env (p_k st)) name of None \<Rightarrow> - 1 | Some m \<Rightarrow> m)"

text \<open>The export is made to point to a function that does nothing, at \<open>dummy\<close>.\<close>

definition psplinkPatchException :: "'k senv \<Rightarrow> u32 \<Rightarrow> ('k, int) act" where
  "psplinkPatchException env dummy =
     (\<lambda>st. case libsFindExportAddrByNid (c_libs (calc_of env st)) (refer_module_by_name env ''sceExceptionManager'' st)
              (Some ''ExceptionManagerForKernel'') 0x565C0B0E of
        Inl f \<Rightarrow> Inl f
      | Inr None \<Rightarrow> sh_ret 0 st
      | Inr (Some addr) \<Rightarrow> (case sw (k_ph env) dummy addr (p_dbg st) of
          Inl f \<Rightarrow> Inl f
        | Inr d \<Rightarrow>
            sh_then (sh_do env ''sceKernelDcacheWritebackInvalidateRange'' [Num addr, Num 4])
              (sh_then (sh_do env ''sceKernelIcacheInvalidateRange'' [Num addr, Num 4]) (sh_ret 0)) (st\<lparr>p_dbg := d\<rparr>)))"

section \<open>The start\<close>

text \<open>The directory of a file, with the slash; nothing for a file without one.\<close>

definition boot_dir :: "string \<Rightarrow> string run" where
  "boot_dir file =
     (if CHR ''/'' \<notin> set file then Inr []
      else (let d = before_slash file @ ''/'' in
        if length d > MAXPATHLEN then Inl Buffer_Overflow
        else if length d = MAXPATHLEN then Inl Unterminated_String
        else Inr d))"

definition no_context :: "'k psp \<Rightarrow> 'k psp" where
  "no_context st = st\<lparr>p_bootfile := None, p_bootpath := [], p_currdir := [], p_resetonexit := False, p_thevent := - 1,
     p_gdb := False, p_pid := 0, p_rebootkey := 0, p_ctxs := exceptionInit (p_ctxs st)\<rparr>"

definition take_args :: "string list \<Rightarrow> ('k, unit) act" where
  "take_args argv =
     (case argv of
        [] \<Rightarrow> sh_ret ()
      | file # _ \<Rightarrow> (case boot_dir file of
          Inl f \<Rightarrow> sh_fault f
        | Inr d \<Rightarrow> sh_set (\<lambda>st. st\<lparr>p_bootfile := Some file, p_bootpath := d\<rparr>)))"

definition load_config :: "'k senv \<Rightarrow> ('k, ConfigContext) act" where
  "load_config env st = map_sum id (\<lambda>(c, k). (c, [], with_k st k)) (configLoad (k_io env) (p_bootpath st) (p_k st))"

definition shellInit :: "string \<Rightarrow> ('k, unit) act" where
  "shellInit init_dir =
     (if length init_dir \<ge> MAXPATHLEN then sh_fault Buffer_Overflow else sh_set (\<lambda>st. st\<lparr>p_currdir := init_dir\<rparr>))"

text \<open>\<open>dummy\<close>, \<open>exit_fn\<close>: the addresses of \<^verbatim>\<open>RegisterExceptionDummy\<close> and \<^verbatim>\<open>exit_reset\<close>.\<close>

definition initialise :: "'k senv \<Rightarrow> u32 \<Rightarrow> u32 \<Rightarrow> string \<Rightarrow> ('k, unit) act" where
  "initialise env dummy exit_fn argp =
     sh_then (sh_set no_context)
    (case parse_sceargs argp of
       Inl f \<Rightarrow> sh_fault f
     | Inr argv \<Rightarrow>
         sh_then (take_args argv)
        (sh_bind (load_config env) (\<lambda>c.
         sh_then (sh_set (\<lambda>st. st\<lparr>p_pid := if pid c \<noteq> 0 then word_of_int (pid c) else HOSTFSDRIVER_PID\<rparr>))
        (sh_then (sh_do env ''ttyInit'' [])
        (sh_bind (sh_ask p_bootpath) (\<lambda>b.
         sh_bind (init_usbhost env b) (\<lambda>_.
         sh_then (shellInit (if length argv > 1 then argv ! 1 else ''host0:/''))
        (sh_bind (\<lambda>st. map_sum id (\<lambda>a. (a, [], st)) (libsFindExportByNid (c_libs (calc_of env st))
            (refer_module_by_name env ''sceUmd_driver'' st) (Some ''sceUmdUser'') 0xC6183D47)) (\<lambda>umd.
         sh_then (sh_when (umd \<noteq> 0) (sh_do env ''sceUmdActivate'' [Num umd, Num 1, Str ''disc0:'']))
        (sh_bind (sh_ask (refer_module_by_name env ''sceLoadExec'')) (\<lambda>m.
         sh_then (sh_do env ''apiHookByNid'' [int_arg m, Str ''LoadExecForUser'', Num 0x05572A5F, Num exit_fn])
        (sh_bind (unload_loader env) (\<lambda>_.
         sh_bind (psplinkPatchException env dummy) (\<lambda>_.
         sh_then (sh_when (enableuser c \<noteq> 0) (load_prx env b ''psplink_user.prx''))
        (sh_then (sh_set (\<lambda>st. st\<lparr>p_resetonexit := resetonexit c \<noteq> 0\<rparr>))
        (sh_then (sh_do env ''sceKernelRegisterDebugPutchar'' [Num 0])
        (sh_then (enable_kprintf env True)
        (sh_then (sh_do env ''debugHwInit'' [])
          (\<lambda>st. map_sum id (\<lambda>k. ((), [], with_k st k)) (modLoad (k_io env) b (p_k st)))))))))))))))))))))"

end
