(* ===== verification/ShellMem.thy ===== *)
theory ShellMem
  imports PspPath
begin

unbundle bit_operations_syntax

text \<open>
  The commands of the shell on memory (\<^verbatim>\<open>psplink/shell.c\<close>): dumping, saving and loading, reading and writing,
  filling, searching, copying and the words for the disassembler.
\<close>

definition MEM_ATTRIB_WRITE :: u32 where "MEM_ATTRIB_WRITE = 2"
definition MEM_ATTRIB_EXEC :: u32 where "MEM_ATTRIB_EXEC = 4"
definition MEM_ATTRIB_HALF :: u32 where "MEM_ATTRIB_HALF = 16"

section \<open>Access\<close>

definition mem_byte_at :: "'k senv \<Rightarrow> 'k psp \<Rightarrow> u32 \<Rightarrow> u8" where
  "mem_byte_at env st a = lb (k_ph env) a (p_dbg st)"

definition mem_word_at :: "'k senv \<Rightarrow> 'k psp \<Rightarrow> u32 \<Rightarrow> u32" where
  "mem_word_at env st a = d_mem (p_dbg st) (k_ph env a)"

text \<open>The half word at an even address.\<close>

definition mem_half_at :: "'k senv \<Rightarrow> 'k psp \<Rightarrow> u32 \<Rightarrow> u16" where
  "mem_half_at env st a = ucast (drop_bit (byte_shift a) (mem_word_at env st (a AND NOT 3)))"

definition mem_bytes_at :: "'k senv \<Rightarrow> 'k psp \<Rightarrow> u32 \<Rightarrow> nat \<Rightarrow> bytes" where
  "mem_bytes_at env st a n = map (\<lambda>i. mem_byte_at env st (a + of_nat i)) [0..<n]"

definition mem_store :: "'k senv \<Rightarrow> u32 \<Rightarrow> bytes \<Rightarrow> 'k psp \<Rightarrow> 'k psp" where
  "mem_store env a bs st = st\<lparr>p_dbg := write_bytes (k_ph env) a bs (p_dbg st)\<rparr>"

section \<open>Writing\<close>

text \<open>
  The loop of the three commands that write values, \<open>w\<close> bytes each: \<open>left\<close> is what is left of the
  memory area. The texts printed and the state.
\<close>

fun poke_loop :: "'k senv \<Rightarrow> nat \<Rightarrow> string list \<Rightarrow> u32 \<Rightarrow> int \<Rightarrow> 'k psp \<Rightarrow> (string list \<times> 'k psp) run" where
  "poke_loop env w [] addr left st = Inr ([], st)"
| "poke_loop env w (a # as) addr left st =
     decoded env a st
       (if left - int w \<le> 0 then Inr ([println ''Invalid value %s'' [Str a]], st)
        else map_sum id (apfst ((#) (println ''Invalid value %s'' [Str a])))
               (poke_loop env w as (addr + of_nat w) (left - int w) st))
       (\<lambda>d. let st' = mem_store env addr (take w (le32 d)) st in
          if left - int w \<le> 0 then Inr ([], st')
          else poke_loop env w as (addr + of_nat w) (left - int w) st')"

definition bad_address :: "u32 \<Rightarrow> 'k psp \<Rightarrow> 'k outcome" where
  "bad_address addr st = finish CMD_ERROR [println ''Invalid memory address 0x%08X'' [Num addr]] st"

definition poke :: "nat \<Rightarrow> u32 \<Rightarrow> 'k sh_fun" where
  "poke w attrib env argv st =
     decoded env (hd argv) st (finish CMD_OK [] st) (\<lambda>a.
       let addr = a AND NOT (of_nat (w - 1));
           left = mem_left st addr (MEM_ATTRIB_WRITE OR attrib)
       in if left \<ge> int w
          then map_sum id (\<lambda>(out, st'). (CMD_OK, 0, out, st')) (poke_loop env w (tl argv) addr left st)
          else bad_address addr st)"

definition pokew_cmd :: "'k sh_fun" where "pokew_cmd = poke 4 MEM_ATTRIB_WORD"
definition pokeh_cmd :: "'k sh_fun" where "pokeh_cmd = poke 2 MEM_ATTRIB_HALF"
definition pokeb_cmd :: "'k sh_fun" where "pokeb_cmd = poke 1 MEM_ATTRIB_BYTE"

definition pokes_cmd :: "'k sh_fun" where
  "pokes_cmd env argv st =
     decoded env (hd argv) st (finish CMD_OK [] st) (\<lambda>addr.
       if mem_left st addr (MEM_ATTRIB_WRITE OR MEM_ATTRIB_WORD) \<ge> int (length (argv ! 1) + 1)
       then finish CMD_OK [] (mem_store env addr (cbytes (argv ! 1)) st)
       else bad_address addr st)"

section \<open>Reading\<close>

definition peek_fmt :: "string list \<Rightarrow> char" where
  "peek_fmt argv = (if length argv > 1 then fst_char (argv ! 1) else CHR ''x'')"

text \<open>A command that reads: the value as a word, and its digits in hexadecimal.\<close>

definition peek :: "nat \<Rightarrow> u32 \<Rightarrow> ('k senv \<Rightarrow> 'k psp \<Rightarrow> u32 \<Rightarrow> u32) \<Rightarrow> string \<Rightarrow> bool \<Rightarrow> 'k sh_fun" where
  "peek w attrib get hex float env argv st =
     decoded env (hd argv) st (finish CMD_OK [] st) (\<lambda>a.
       let addr = a AND NOT (of_nat (w - 1)); fmt = peek_fmt argv; v = get env st addr in
       if mem_left st addr (MEM_ATTRIB_READ OR attrib) \<ge> int w
       then finish CMD_OK
         [if fmt = CHR ''f'' \<and> float then println ''0x%08X: %s'' [Num addr, Str (k_float env v 6)]
          else if fmt = CHR ''d'' then println ''0x%08X: %d'' [Num addr, Num v]
          else if fmt = CHR ''o'' then println ''0x%08X: %o'' [Num addr, Num v]
          else println (''0x%08X: 0x'' @ hex) [Num addr, Num v]] st
       else bad_address addr st)"

definition peekw_cmd :: "'k sh_fun" where
  "peekw_cmd = peek 4 MEM_ATTRIB_WORD mem_word_at ''%08X'' True"

definition peekh_cmd :: "'k sh_fun" where
  "peekh_cmd = peek 2 MEM_ATTRIB_HALF (\<lambda>env st a. ucast (mem_half_at env st a)) ''%04X'' False"

definition peekb_cmd :: "'k sh_fun" where
  "peekb_cmd = peek 1 MEM_ATTRIB_BYTE (\<lambda>env st a. ucast (mem_byte_at env st a)) ''%02X'' False"

section \<open>Filling and copying\<close>

text \<open>The len is cut to the memory area; the value is a plain number.\<close>

definition fill :: "nat \<Rightarrow> u32 \<Rightarrow> 'k sh_fun" where
  "fill w attrib env argv st =
     decoded env (hd argv) st (finish CMD_OK [] st) (\<lambda>a.
     decoded env (argv ! 1) st (finish CMD_OK [] st) (\<lambda>sz.
       let addr = a AND NOT (of_nat (w - 1));
           left = (word_of_int (mem_left st addr (MEM_ATTRIB_WRITE OR attrib)) :: u32);
           n = unat (min sz left) div w
       in case strtoint (argv ! 2) of
            None \<Rightarrow> finish CMD_ERROR [println ''Invalid fill value %s'' [Str (argv ! 2)]] st
          | Some v \<Rightarrow> finish CMD_OK [] (mem_store env addr (concat (replicate n (take w (le32 v)))) st)))"

definition fillb_cmd :: "'k sh_fun" where "fillb_cmd = fill 1 MEM_ATTRIB_BYTE"
definition fillh_cmd :: "'k sh_fun" where "fillh_cmd = fill 2 MEM_ATTRIB_HALF"
definition fillw_cmd :: "'k sh_fun" where "fillw_cmd = fill 4 MEM_ATTRIB_WORD"

definition copymem_cmd :: "'k sh_fun" where
  "copymem_cmd env argv st =
     decoded env (hd argv) st (finish CMD_OK [] st) (\<lambda>src.
     decoded env (argv ! 1) st (finish CMD_OK [] st) (\<lambda>dest.
     decoded env (argv ! 2) st (finish CMD_OK [] st) (\<lambda>sz.
       let attrib = MEM_ATTRIB_WRITE OR MEM_ATTRIB_BYTE;
           srcsize = (word_of_int (mem_left st src attrib) :: u32);
           destsize = word_of_int (mem_left st dest attrib);
           len = min sz (min srcsize destsize)
       in finish CMD_OK [] (mem_store env dest (mem_bytes_at env st src (unat len)) st))))"

section \<open>Searching\<close>

text \<open>The loop over the matches; each search starts after the first byte of the match before it.\<close>

lemma memmem_from_range: "memmem_from i d m n s l = Some j \<Longrightarrow> i \<le> j \<and> j < i + n"
  by (induction i d m n s l rule: memmem_from.induct) (auto split: if_splits)

lemma memmem_mask_range:
  "memmem_mask d m len s slen = Some i \<Longrightarrow> 0 \<le> len \<and> 0 \<le> slen \<and> int i \<le> len - slen"
  using memmem_from_range [of 0 _ m "nat (len - slen + 1)"] by (fastforce simp: memmem_mask_def split: option.splits if_splits)

definition found_at :: "'k senv \<Rightarrow> 'k psp \<Rightarrow> u8 list option \<Rightarrow> u8 list \<Rightarrow> u32 \<Rightarrow> u32 \<Rightarrow> nat option" where
  "found_at env st msk search base len =
     memmem_mask (if base = 0 then None else Some (mem_bytes_at env st base (unat len))) msk (sint len)
       (Some search) (int (length search))"

function find_loop :: "'k senv \<Rightarrow> 'k psp \<Rightarrow> u8 list option \<Rightarrow> u8 list \<Rightarrow> u32 \<Rightarrow> u32 \<Rightarrow> u32 list" where
  "find_loop env st msk search base len =
     (case found_at env st msk search base len of
        None \<Rightarrow> []
      | Some i \<Rightarrow>
          (let found = base + of_nat i; len' = len - of_nat (i + 1) in
           found # (if len' > 0 then find_loop env st msk search (found + 1) len' else [])))"
  by pat_completeness auto

termination
proof (relation "measure (\<lambda>(env, st, msk, search, base, len). nat (sint len + 1))", goal_cases)
  case (2 env st msk search base len i found len')
  have i: "0 \<le> sint len" "int i \<le> sint len"
    using memmem_mask_range [OF 2(1) [unfolded found_at_def]] by auto
  have b: "sint len < 2 ^ 31" using sint_lt [of len] by simp
  have "len' = s32 (sint len - int (i + 1))" by (simp add: s32_def 2(3))
  then have "sint len' = sint len - int (i + 1)" using i b sint_s32 [of "sint len - int (i + 1)"] by simp
  then show ?case using i by simp
qed simp

declare find_loop.simps [simp del]

definition show_matches :: "'k senv \<Rightarrow> u32 list \<Rightarrow> string list" where
  "show_matches env as = map (\<lambda>a. println ''Found match at address 0x%p'' [Str (k_ptr env a)]) as"

definition search_area :: "'k senv \<Rightarrow> 'k psp \<Rightarrow> u32 \<Rightarrow> u32 \<Rightarrow> u8 list option \<Rightarrow> u8 list \<Rightarrow> 'k outcome" where
  "search_area env st addr sz msk search =
     finish CMD_OK (show_matches env (find_loop env st msk search addr
       (min sz (word_of_int (mem_left st addr (MEM_ATTRIB_READ OR MEM_ATTRIB_BYTE)))))) st"

definition findstr_cmd :: "'k sh_fun" where
  "findstr_cmd env argv st =
     decoded env (hd argv) st (finish CMD_OK [] st) (\<lambda>addr.
     decoded env (argv ! 1) st (finish CMD_OK [] st) (\<lambda>sz.
       search_area env st addr sz None (map byte_of (argv ! 2))))"

text \<open>The values to search, \<open>w\<close> bytes each, in an array of 128 bytes; \<open>Inl\<close>: the argument that is no number.\<close>

fun search_values :: "nat \<Rightarrow> string list \<Rightarrow> string + bytes" where
  "search_values w [] = Inr []"
| "search_values w (a # as) =
     (case strtoint a of None \<Rightarrow> Inl a | Some v \<Rightarrow> map_sum id ((@) (take w (le32 v))) (search_values w as))"

definition find_values :: "nat \<Rightarrow> 'k sh_fun" where
  "find_values w env argv st =
     decoded env (hd argv) st (finish CMD_OK [] st) (\<lambda>addr.
     decoded env (argv ! 1) st (finish CMD_OK [] st) (\<lambda>sz.
       case search_values w (drop 2 argv) of
         Inl a \<Rightarrow> finish CMD_ERROR [println ''Invalid search value %s'' [Str a]] st
       | Inr search \<Rightarrow>
           if length search > 128 then Inl Buffer_Overflow else search_area env st addr sz None search))"

definition findw_cmd :: "'k sh_fun" where "findw_cmd = find_values 4"
definition findh_cmd :: "'k sh_fun" where "findh_cmd = find_values 2"

text \<open>The message of \<^verbatim>\<open>decode_hexstr\<close> itself is left out.\<close>

definition findhex_cmd :: "'k sh_fun" where
  "findhex_cmd env argv st =
     decoded env (hd argv) st (finish CMD_OK [] st) (\<lambda>addr.
     decoded env (argv ! 1) st (finish CMD_OK [] st) (\<lambda>sz.
       let hex = (case decode_hexstr (argv ! 2) 128 of None \<Rightarrow> [] | Some h \<Rightarrow> h) in
       if hex = [] then finish CMD_ERROR [println ''Error in search string'' []] st
       else if length argv > 3 then
         (let msk = (case decode_hexstr (argv ! 3) 128 of None \<Rightarrow> [] | Some h \<Rightarrow> h) in
          if msk = [] then finish CMD_ERROR [println ''Error in mask string'' []] st
          else if length msk \<noteq> length hex then finish CMD_ERROR [println ''Hex and mask do not match'' []] st
          else search_area env st addr sz (Some msk) hex)
       else search_area env st addr sz None hex))"

section \<open>Dumping\<close>

definition MAX_MEMDUMP_SIZE :: int where "MAX_MEMDUMP_SIZE = 256"
definition MEMDUMP_TYPE_BYTE :: nat where "MEMDUMP_TYPE_BYTE = 1"
definition MEMDUMP_TYPE_HALF :: nat where "MEMDUMP_TYPE_HALF = 2"
definition MEMDUMP_TYPE_WORD :: nat where "MEMDUMP_TYPE_WORD = 3"

text \<open>
  A cell of a row shows \<open>w\<close> bytes, the last first. The code reads the bytes of a cell whose first one is
  inside the row.
\<close>

definition row_cell :: "nat \<Rightarrow> bytes \<Rightarrow> nat \<Rightarrow> string" where
  "row_cell w row i =
     (if i < length row then concat (map (\<lambda>j. fmt_02X (row ! (i + j))) (rev [0..<w])) else replicate (2 * w) (CHR ''-''))
     @ '' ''"

definition row_char :: "bytes \<Rightarrow> nat \<Rightarrow> char" where
  "row_char row i = (if i < length row \<and> row ! i \<ge> 32 \<and> row ! i < 127 then chr_of (row ! i) else CHR ''.'')"

definition print_row :: "bytes \<Rightarrow> u32 \<Rightarrow> nat \<Rightarrow> string" where
  "print_row row addr type =
     (let w = (if type = MEMDUMP_TYPE_WORD then 4 else if type = MEMDUMP_TYPE_HALF then 2 else 1) in
      println ''%08x - %s- %s'' [Num addr,
        Str (concat (map (row_cell w row) (filter (\<lambda>i. i mod w = 0) [0..<16]))),
        Str (map (row_char row) [0..<16])])"

text \<open>Rows that are not full are not printed.\<close>

definition print_memdump :: "'k senv \<Rightarrow> 'k psp \<Rightarrow> u32 \<Rightarrow> int \<Rightarrow> nat \<Rightarrow> string list" where
  "print_memdump env st addr sz type =
     (if type = MEMDUMP_TYPE_WORD then
        [println ''         - 00       04       08       0c       - 0123456789abcdef'' [],
         println ''-----------------------------------------------------------------'' []]
      else if type = MEMDUMP_TYPE_HALF then
        [println ''         - 00   02   04   06   08   0a   0c   0e   - 0123456789abcdef'' [],
         println ''---------------------------------------------------------------------'' []]
      else
        [println ''         - 00 01 02 03 04 05 06 07 08 09 0a 0b 0c 0d 0e 0f - 0123456789abcdef'' [],
         println ''-----------------------------------------------------------------------------'' []])
     @ map (\<lambda>i. let a = addr + 16 * of_nat i in print_row (mem_bytes_at env st a 16) a type)
         [0..<nat (min MAX_MEMDUMP_SIZE sz) div 16]"

definition memdump_type :: "string list \<Rightarrow> nat \<Rightarrow> nat" where
  "memdump_type argv type =
     (if length argv > 1 then
        (let c = fst_char (argv ! 1) in
         if c = CHR ''w'' then MEMDUMP_TYPE_WORD else if c = CHR ''h'' then MEMDUMP_TYPE_HALF
         else if c = CHR ''b'' then MEMDUMP_TYPE_BYTE else type)
      else type)"

definition memdump_at :: "'k senv \<Rightarrow> u32 \<Rightarrow> nat \<Rightarrow> 'k psp \<Rightarrow> 'k outcome" where
  "memdump_at env addr type st =
     (let left = mem_left st addr (MEM_ATTRIB_READ OR MEM_ATTRIB_BYTE) in
      finish CMD_OK (if left > 0 then print_memdump env st addr left type
          else [println ''Invalid memory address 0x%08X'' [Num addr]])
        (st\<lparr>p_md_addr := Some addr, p_md_type := type\<rparr>))"

text \<open>The page after or before the last one.\<close>

definition memdump_page :: "'k senv \<Rightarrow> (u32 \<Rightarrow> u32) \<Rightarrow> nat \<Rightarrow> 'k psp \<Rightarrow> 'k outcome" where
  "memdump_page env f type st =
     (case p_md_addr st of None \<Rightarrow> Inl Undefined_Value | Some addr \<Rightarrow> memdump_at env (f addr) type st)"

definition memdump_cmd :: "'k sh_fun" where
  "memdump_cmd env argv st =
     (if argv \<noteq> [] then
        (let type = memdump_type argv (p_md_type st) in
         if fst_char (hd argv) = CHR ''-'' then memdump_page env (\<lambda>a. a - word_of_int MAX_MEMDUMP_SIZE) type st
         else decoded env (hd argv) st
           (finish CMD_ERROR [println ''Error, invalid memory address %s'' [Str (hd argv)]] (st\<lparr>p_md_addr := None\<rparr>))
           (\<lambda>addr. memdump_at env addr type st))
      else if p_md_addr st = Some 0 then finish CMD_ERROR [] st
      else memdump_page env (\<lambda>a. a + word_of_int MAX_MEMDUMP_SIZE) (p_md_type st) st)"

section \<open>Saving and loading\<close>

text \<open>
  The loop over the blocks the kernel accepts: \<open>None\<close> when it does not end. A write that gives nothing
  ends it with a message.
\<close>

partial_function (option) write_file_loop ::
  "'k senv \<Rightarrow> int \<Rightarrow> string \<Rightarrow> nat \<Rightarrow> 'k \<Rightarrow> (string list \<times> 'k) option" where
  "write_file_loop env fd data written k =
     (if written < length data then
        (case io_write (k_io env) fd (drop written data) k of (ret, k1) \<Rightarrow>
           if ret \<le> 0 then Some ([println ''Could not write out file'' []], k1)
           else write_file_loop env fd data (written + nat ret) k1)
      else Some ([], k))"

definition savemem_cmd :: "'k sh_fun" where
  "savemem_cmd env argv st =
     (case handlepath env (p_currdir st) (argv ! 2) TYPE_FILE False (p_k st) of
        Inl f \<Rightarrow> Inl f
      | Inr (ok, path, out, k) \<Rightarrow>
          (let st1 = with_k st k in
           if \<not> ok then finish CMD_ERROR (out @ [println ''Error invalid path'' []]) st1
           else (case whole_ul 0 (argv ! 1) of
             None \<Rightarrow> finish CMD_ERROR [println (''Size parameter invalid '%s'' @ [CHR 0x27]) [Str (argv ! 1)]] st1
           | Some sz \<Rightarrow>
               decoded env (hd argv) st1 (finish CMD_ERROR [] st1) (\<lambda>addr.
                 let n = nat (min (sint sz) (mem_left st1 addr (MEM_ATTRIB_READ OR MEM_ATTRIB_BYTE)));
                     (fd, k1) = io_open (k_io env) path (PSP_O_CREAT OR PSP_O_TRUNC OR PSP_O_WRONLY) k in
                 if fd < 0 then
                   finish CMD_OK [println ''Could not open file '%s' for writing 0x%08X'' [Str path, int_arg fd]] (with_k st1 k1)
                 else map_sum id (\<lambda>(out', k2). (CMD_OK, 0, out', with_k st1 (snd (io_close (k_io env) fd k2))))
                   (of_loop (write_file_loop env fd (map chr_of (mem_bytes_at env st1 addr n)) 0 k1))))))"

text \<open>The bytes read go to memory as they come; the texts, what was read and the state.\<close>

partial_function (option) read_file_loop ::
  "'k senv \<Rightarrow> int \<Rightarrow> u32 \<Rightarrow> nat \<Rightarrow> nat \<Rightarrow> 'k psp \<Rightarrow> (string list \<times> nat \<times> 'k psp) option" where
  "read_file_loop env fd addr count readbytes st =
     (if readbytes < count then
        (case io_read (k_io env) fd (count - readbytes) (p_k st) of
           (Inl e, k1) \<Rightarrow> Some ([println ''Could not write out file'' []], readbytes, with_k st k1)
         | (Inr d, k1) \<Rightarrow>
             if d = [] then Some ([], readbytes, with_k st k1)
             else read_file_loop env fd addr count (readbytes + length d)
               (mem_store env (addr + of_nat readbytes) (map byte_of d) (with_k st k1)))
      else Some ([], readbytes, st))"

definition loadmem_cmd :: "'k sh_fun" where
  "loadmem_cmd env argv st =
     (case handlepath env (p_currdir st) (argv ! 1) TYPE_FILE True (p_k st) of
        Inl f \<Rightarrow> Inl f
      | Inr (ok, path, out, k) \<Rightarrow>
          (let st1 = with_k st k in
           if \<not> ok then finish CMD_ERROR (out @ [println ''Error invalid path'' []]) st1
           else (case (if length argv > 2 then whole_ul 0 (argv ! 2) else Some (- 1)) of
             None \<Rightarrow> finish CMD_ERROR [println (''Size parameter invalid '%s'' @ [CHR 0x27]) [Str (argv ! 2)]] st1
           | Some maxsize \<Rightarrow>
               decoded env (hd argv) st1 (finish CMD_ERROR [] st1) (\<lambda>addr.
                 let left = mem_left st1 addr (MEM_ATTRIB_READ OR MEM_ATTRIB_BYTE);
                     count = nat (if sint maxsize \<ge> 0 then min (sint maxsize) left else left);
                     (fd, k1) = io_open (k_io env) path PSP_O_RDONLY k in
                 if fd < 0 then
                   finish CMD_OK [println ''Could not open file '%s' for reading 0x%08X'' [Str path, int_arg fd]] (with_k st1 k1)
                 else map_sum id (\<lambda>(out', n, st2). (CMD_OK, 0, out' @ [println ''Read %d bytes into memory'' [int_arg (int n)]],
                       with_k st2 (snd (io_close (k_io env) fd (p_k st2)))))
                   (of_loop (read_file_loop env fd addr count 0 (with_k st1 k1)))))))"

section \<open>Instructions, protection and caches\<close>

definition disasm_cmd :: "'k sh_fun" where
  "disasm_cmd env argv st =
     (let body = (\<lambda>count :: u32.
        decoded env (hd argv) st (finish CMD_OK [] st) (\<lambda>a.
          let addr = a AND NOT 3;
              left = mem_left st addr (MEM_ATTRIB_READ OR MEM_ATTRIB_WORD OR MEM_ATTRIB_EXEC);
              n = nat (min (uint count) (left div 4))
          in finish CMD_OK (map (\<lambda>i. let p = addr + 4 * of_nat i in
               mark_cmd SHELL_CMD_DISASM (sprintf ''0x%08X:0x%08X'' [Num p, Num (mem_word_at env st p)])) [0..<n]) st))
      in if length argv > 1 then
           decoded env (argv ! 1) st (finish CMD_ERROR [println ''Invalid count argument'' []] st) (\<lambda>count.
             if count = 0 then finish CMD_ERROR [println ''Invalid count argument'' []] st else body count)
         else body 1)"

definition memprot_cmd :: "'k sh_fun" where
  "memprot_cmd env argv st =
     (if hd argv = ''on'' then finish CMD_OK [] (st\<lparr>p_prot := memSetProtoff False (p_prot st)\<rparr>)
      else if hd argv = ''off'' then finish CMD_OK [] (st\<lparr>p_prot := memSetProtoff True (p_prot st)\<rparr>)
      else finish CMD_ERROR [] st)"

definition call_kernel :: "'k senv \<Rightarrow> string \<Rightarrow> farg list \<Rightarrow> 'k psp \<Rightarrow> 'k psp" where
  "call_kernel env name as st = with_k st (snd (k_call env name as (p_k st)))"

text \<open>The range that follows the type of a cache operation; \<open>all\<close> and \<open>range\<close> are the functions to call.\<close>

definition cache_range :: "'k senv \<Rightarrow> string \<Rightarrow> string \<Rightarrow> string list \<Rightarrow> 'k psp \<Rightarrow> 'k outcome" where
  "cache_range env all rnge argv st =
     (if argv = [] then finish CMD_OK [] (call_kernel env all [] st)
      else decoded env (hd argv) st (finish CMD_ERROR [println ''Invalid address'' []] st) (\<lambda>addr.
        case strtoint (argv ! 1) of
          None \<Rightarrow> finish CMD_ERROR [println ''Invalid size argument'' []] st
        | Some sz \<Rightarrow> finish CMD_OK [] (call_kernel env rnge [Num addr, Num sz] st)))"

definition dcache_cmd :: "'k sh_fun" where
  "dcache_cmd env argv st =
     (if length argv = 2 then finish CMD_ERROR [println ''Must specify a size'' []] st
      else if hd argv = ''w'' then
        cache_range env ''sceKernelDcacheWritebackAll'' ''sceKernelDcacheWritebackRange'' (tl argv) st
      else if hd argv = ''i'' then
        cache_range env ''sceKernelDcacheInvalidateAll'' ''sceKernelDcacheInvalidateRange'' (tl argv) st
      else if hd argv = ''wi'' then
        cache_range env ''sceKernelDcacheWritebackInvalidateAll'' ''sceKernelDcacheWritebackInvalidateRange'' (tl argv) st
      else finish CMD_ERROR [println (''Invalid type specifier '%s'' @ [CHR 0x27]) [Str (hd argv)]] st)"

definition icache_cmd :: "'k sh_fun" where
  "icache_cmd env argv st =
     (if length argv = 1 then finish CMD_ERROR [println ''Must specify a size'' []] st
      else cache_range env ''sceKernelIcacheInvalidateAll'' ''sceKernelIcacheInvalidateRange'' argv st)"

end
