(* ===== verification/ShellLists.thy ===== *)
theory ShellLists
  imports ShellModules
begin

unbundle bit_operations_syntax

text \<open>
  The lists of the kernel that the shell prints: the exports and imports of a module (\<^verbatim>\<open>psplink/libs.c\<close>) and the
  objects with an identifier (\<^verbatim>\<open>psplink/memoryUID.c\<close>). An entry of length zero, or blocks linked in another way
  than the kernel does, make the loops endless.
\<close>

section \<open>Exports and imports\<close>

text \<open>The entries of a table, in order.\<close>

partial_function (option) table_entries :: "(nat \<Rightarrow> 'e) \<Rightarrow> ('e \<Rightarrow> nat) \<Rightarrow> int \<Rightarrow> nat \<Rightarrow> 'e list \<Rightarrow> 'e list option" where
  "table_entries tab len lim i acc =
     (if int i < lim then table_entries tab len lim (i + len (tab i)) (acc @ [tab i]) else Some acc)"

definition entry_line :: "string \<Rightarrow> nat \<Rightarrow> u32 \<Rightarrow> u32 \<Rightarrow> string" where
  "entry_line what i nid addr = println (''Entry %-3d: UID 0x%08X, '' @ what @ '' 0x%08X'') [int_arg (int (i + 1)), Num nid, Num addr]"

definition word_of_array :: "(u32 \<Rightarrow> u32) \<Rightarrow> u32 \<Rightarrow> nat \<Rightarrow> u32" where
  "word_of_array rd a n = rd (a + 4 * of_nat n)"

text \<open>The table of an entry: the numbers of the functions and variables, then their addresses.\<close>

definition export_text :: "(u32 \<Rightarrow> u32) \<Rightarrow> SceLibraryEntryTable \<Rightarrow> string list" where
  "export_text rd e =
     (let f = unat (stubcount e); v = unat (vstubcount e); vars = word_of_array rd (entrytable e) in
      [case libname e of Some n \<Rightarrow> println ''Export Library %s, attr 0x%04X'' [Str n, Num (ucast (attribute e))]
       | None \<Rightarrow> println ''Export library %s, attr 0x%04X'' [Str ''syslib'', Num (ucast (attribute e))]]
      @ (if f > 0 then println ''Function Exports:'' [] # map (\<lambda>i. entry_line ''Function'' i (vars i) (vars (i + (f + v)))) [0..<f] else [])
      @ (if v > 0 then println ''Variable Exports:'' []
           # map (\<lambda>i. entry_line ''Variable'' i (vars (i + f)) (vars (i + f + (f + v)))) [0..<v] else [])
      @ [println [] []])"

text \<open>The variables are shown only below functions.\<close>

definition import_text :: "(u32 \<Rightarrow> u32) \<Rightarrow> PspModuleImport \<Rightarrow> string list" where
  "import_text rd m =
     (let f = unat (funcCount m); v = unat (varCount m) in
      [println ''Import Library %s, attr 0x%04X'' [Str (case imp_name m of Some n \<Rightarrow> n | None \<Rightarrow> ''Unknown''), Num (ucast (imp_attribute m))]]
      @ (if f > 0 then println ''Function Imports:'' []
           # map (\<lambda>i. entry_line ''Function'' i (word_of_array rd (fnids m) i) (funcs m + 8 * of_nat i)) [0..<f] else [])
      @ (if f > 0 then println ''Variable Imports:'' []
           # map (\<lambda>i. entry_line ''Variable'' i (word_of_array rd (vnids m) i) (vars m + 8 * of_nat i)) [0..<v] else [])
      @ [println [] []])"

text \<open>\<^verbatim>\<open>None\<close> when there is no such module.\<close>

definition libsPrintEntries :: "'k senv \<Rightarrow> libenv \<Rightarrow> int \<Rightarrow> string list option run" where
  "libsPrintEntries env le uid =
     (case k_module_by_uid le uid of
        None \<Rightarrow> Inr None
      | Some m \<Rightarrow> (case table_entries (ent_top m) (\<lambda>e. unat (ent_len e) * 4) (ent_size m) 0 [] of
          None \<Rightarrow> Inl No_Return
        | Some es \<Rightarrow> Inr (Some (println ''entTab %p - entLen %d'' [Str (k_ptr env (ent_addr m)), int_arg (ent_size m)]
            # concat (map (export_text (k_word le)) es)))))"

definition libsPrintImports :: "'k senv \<Rightarrow> libenv \<Rightarrow> int \<Rightarrow> string list option run" where
  "libsPrintImports env le uid =
     (case k_module_by_uid le uid of
        None \<Rightarrow> Inr None
      | Some m \<Rightarrow> (case table_entries (stub_top m) (\<lambda>e. unat (entLen e) * 4) (stub_size m) 0 [] of
          None \<Rightarrow> Inl No_Return
        | Some es \<Rightarrow> Inr (Some (println ''stubTab %p - stubLen %d'' [Str (k_ptr env (stub_addr m)), int_arg (stub_size m)]
            # concat (map (import_text (k_word le)) es)))))"

definition print_library ::
  "('k senv \<Rightarrow> libenv \<Rightarrow> int \<Rightarrow> string list option run) \<Rightarrow> 'k sh_fun" where
  "print_library f env argv = sh_cmd
     (on_module env BAD_ARGUMENT (hd argv) (\<lambda>uid.
        sh_bind (\<lambda>st. map_sum id (\<lambda>r. (r, [], st)) (f env (c_libs (calc_of env st)) uid)) (\<lambda>r. case r of
          None \<Rightarrow> sh_error (println ''ERROR: Couldn't find module %s'' [Str (hd argv)])
        | Some out \<Rightarrow> sh_then (sh_each sh_say out) (sh_result CMD_OK))))"

definition modexp_cmd :: "'k sh_fun" where "modexp_cmd = print_library libsPrintEntries"
definition modimp_cmd :: "'k sh_fun" where "modimp_cmd = print_library libsPrintImports"

section \<open>Objects\<close>

type_synonym uid_heap = "u32 \<Rightarrow> uidControlBlock option"

text \<open>The block at a pointer.\<close>

definition block_at :: "uid_heap \<Rightarrow> u32 \<Rightarrow> uidControlBlock run" where
  "block_at h a = (case h a of None \<Rightarrow> Inl Bad_Pointer | Some b \<Rightarrow> Inr b)"

text \<open>What is asked of an object: its name, or its identifier if no name is given, and its type.\<close>

definition uid_match :: "uid_heap \<Rightarrow> int \<Rightarrow> string option \<Rightarrow> string option \<Rightarrow> uidControlBlock \<Rightarrow> bool run" where
  "uid_match h uid name parent c =
     (if \<not> (case name of Some n \<Rightarrow> ub_name c = n | None \<Rightarrow> ub_UID c = uid) then Inr False
      else (case parent of
        None \<Rightarrow> Inr True
      | Some p \<Rightarrow> if ub_type c = 0 then Inr True
          else map_sum id (\<lambda>t. ub_name t = p) (block_at h (ub_type c))))"

text \<open>The children of a block: the first one that matches, or where the loop ends.\<close>

partial_function (option) find_child :: "uid_heap \<Rightarrow> (uidControlBlock \<Rightarrow> bool run) \<Rightarrow> u32 \<Rightarrow> (bool \<times> u32) run option" where
  "find_child h test entry =
     (case block_at h entry of
        Inl f \<Rightarrow> Some (Inl f)
      | Inr b \<Rightarrow> (case block_at h (ub_nextChild b) of
          Inl f \<Rightarrow> Some (Inl f)
        | Inr c \<Rightarrow> (case test c of
            Inl f \<Rightarrow> Some (Inl f)
          | Inr hit \<Rightarrow>
              if hit then Some (Inr (True, ub_nextChild b))
              else if ub_nextChild c = ub_type c then Some (Inr (False, ub_nextChild c))
              else find_child h test (ub_nextChild b))))"

partial_function (option) find_object ::
  "uid_heap \<Rightarrow> int \<Rightarrow> (uidControlBlock \<Rightarrow> bool run) \<Rightarrow> u32 \<Rightarrow> u32 \<Rightarrow> u32 option run option" where
  "find_object h uid test last_entry entry =
     (case block_at h entry of
        Inl f \<Rightarrow> Some (Inl f)
      | Inr b \<Rightarrow>
          if ub_UID b = uid then Some (Inr (Some entry))
          else (case (if ub_nextChild b \<noteq> entry then find_child h test entry else Some (Inr (False, entry))) of
            None \<Rightarrow> None
          | Some (Inl f) \<Rightarrow> Some (Inl f)
          | Some (Inr (hit, e)) \<Rightarrow>
              if hit then Some (Inr (Some e))
              else (case block_at h e of
                Inl f \<Rightarrow> Some (Inl f)
              | Inr c \<Rightarrow> (case block_at h (ub_nextEntry c) of
                  Inl f \<Rightarrow> Some (Inl f)
                | Inr d \<Rightarrow> if ub_nextEntry d = last_entry then Some (Inr None)
                          else find_object h uid test last_entry (ub_nextEntry c)))))"

definition endless :: "'a run option \<Rightarrow> 'a run" where
  "endless r = (case r of None \<Rightarrow> Inl No_Return | Some x \<Rightarrow> x)"

text \<open>The start of the list: the entry after the parent of the block the kernel gives, and the parent.\<close>

definition UIDLIST_START_1_0 :: u32 where "UIDLIST_START_1_0 = 0x8800d030"

definition uid_list :: "'k senv \<Rightarrow> ('k, u32 \<times> u32) act" where
  "uid_list env =
     sh_bind (sh_call env ''sceKernelDevkitVersion'' []) (\<lambda>v.
     sh_bind (if v = 0x01000300 then sh_ret UIDLIST_START_1_0 else sh_call env ''SysMemForKernel_536AD5E1'' []) (\<lambda>start.
       (\<lambda>st. let h = k_uid env (p_k st) in
          case block_at h start of
            Inl f \<Rightarrow> Inl f
          | Inr b \<Rightarrow> map_sum id (\<lambda>p. ((ub_parent b, ub_nextEntry p), [], st)) (block_at h (ub_parent b)))))"

definition findUIDObject :: "'k senv \<Rightarrow> int \<Rightarrow> string option \<Rightarrow> string option \<Rightarrow> ('k, u32 option) act" where
  "findUIDObject env uid name parent =
     sh_bind (uid_list env) (\<lambda>(last_entry, entry).
       (\<lambda>st. let h = k_uid env (p_k st) in
          map_sum id (\<lambda>r. (r, [], st)) (endless (find_object h uid (uid_match h uid name parent) last_entry entry))))"

definition findUIDByName :: "'k senv \<Rightarrow> string \<Rightarrow> ('k, int) act" where
  "findUIDByName env name =
     sh_bind (findUIDObject env 0 (Some name) None) (\<lambda>r. case r of
       None \<Rightarrow> sh_ret (- 1)
     | Some e \<Rightarrow> (\<lambda>st. map_sum id (\<lambda>b. (ub_UID b, [], st)) (block_at (k_uid env (p_k st)) e)))"

definition uid_entry_text :: "'k senv \<Rightarrow> u32 \<Rightarrow> uidControlBlock \<Rightarrow> string" where
  "uid_entry_text env e b = println ''(UID): 0x%08X, (entry): 0x%p, (size): %d, (attr): 0x%X, (Name): %s''
     [int_arg (ub_UID b), Str (k_ptr env e), Num (push_bit 2 (ub_size b)), Num (ub_attribute b), Str (ub_name b)]"

definition printUIDEntry :: "'k senv \<Rightarrow> u32 \<Rightarrow> ('k, unit) act" where
  "printUIDEntry env e =
     sh_when (e \<noteq> 0) (\<lambda>st. case block_at (k_uid env (p_k st)) e of Inl f \<Rightarrow> Inl f | Inr b \<Rightarrow> sh_say (uid_entry_text env e b) st)"

text \<open>The children that are printed, and where the loop ends.\<close>

partial_function (option) list_children :: "uid_heap \<Rightarrow> (u32 \<times> uidControlBlock) list \<Rightarrow> u32 \<Rightarrow> ((u32 \<times> uidControlBlock) list \<times> u32) run option" where
  "list_children h acc entry =
     (case block_at h entry of
        Inl f \<Rightarrow> Some (Inl f)
      | Inr b \<Rightarrow> (case block_at h (ub_nextChild b) of
          Inl f \<Rightarrow> Some (Inl f)
        | Inr c \<Rightarrow>
            if ub_nextChild c = ub_type c then Some (Inr (acc @ [(ub_nextChild b, c)], ub_nextChild c))
            else list_children h (acc @ [(ub_nextChild b, c)]) (ub_nextChild b)))"

definition type_text :: "'k senv \<Rightarrow> u32 \<Rightarrow> uidControlBlock \<Rightarrow> (u32 \<times> uidControlBlock) list option \<Rightarrow> string list" where
  "type_text env e b cs =
     (CHR 0x0A # println ''[%s]    UID 0x%08X (attr 0x%X entry 0x%p)''
        [Str (ub_name b), int_arg (ub_UID b), Num (ub_attribute b), Str (k_ptr env e)])
     # (case cs of None \<Rightarrow> [println ''    <No UID objects>'' []] | Some l \<Rightarrow> map (\<lambda>(a, c). uid_entry_text env a c) l)"

partial_function (option) uid_list_text ::
  "'k senv \<Rightarrow> uid_heap \<Rightarrow> string option \<Rightarrow> u32 \<Rightarrow> string list \<Rightarrow> u32 \<Rightarrow> string list run option" where
  "uid_list_text env h name last_entry out entry =
     (case block_at h entry of
        Inl f \<Rightarrow> Some (Inl f)
      | Inr b \<Rightarrow>
          (case (if ub_nextChild b = entry then Some (Inr (None, entry))
                 else map_option (map_sum id (apfst Some)) (list_children h [] entry)) of
            None \<Rightarrow> None
          | Some (Inl f) \<Rightarrow> Some (Inl f)
          | Some (Inr (cs, e)) \<Rightarrow>
              (let out2 = out @ (if name = None \<or> name = Some (ub_name b) then type_text env entry b cs else []) in
               case block_at h e of
                 Inl f \<Rightarrow> Some (Inl f)
               | Inr c \<Rightarrow> (case block_at h (ub_nextEntry c) of
                   Inl f \<Rightarrow> Some (Inl f)
                 | Inr d \<Rightarrow> if ub_nextEntry d = last_entry then Some (Inr out2)
                           else uid_list_text env h name last_entry out2 (ub_nextEntry c)))))"

definition printUIDList :: "'k senv \<Rightarrow> string option \<Rightarrow> ('k, unit) act" where
  "printUIDList env name =
     sh_bind (uid_list env) (\<lambda>(last_entry, entry).
       (\<lambda>st. map_sum id (\<lambda>out. ((), out, st)) (endless (uid_list_text env (k_uid env (p_k st)) name last_entry [] entry))))"

definition uidlist_cmd :: "'k sh_fun" where
  "uidlist_cmd env argv = sh_cmd
     (sh_then (printUIDList env (if argv = [] then None else Some (hd argv))) (sh_result CMD_OK))"

definition uidinfo_cmd :: "'k sh_fun" where
  "uidinfo_cmd env argv = sh_cmd
     (let parent = (if length argv > 1 then Some (argv ! 1) else None) in
      sh_bind (if fst_char (hd argv) = CHR ''@'' then findUIDObject env 0 (Some (tl (hd argv))) parent
               else findUIDObject env (sint (to_ul 0 (hd argv))) None parent) (\<lambda>r. case r of
        None \<Rightarrow> sh_result CMD_OK
      | Some e \<Rightarrow>
          sh_then (printUIDEntry env e)
         (sh_bind (\<lambda>st. map_sum id (\<lambda>b. (ub_type b, [], st)) (block_at (k_uid env (p_k st)) e)) (\<lambda>t.
            sh_then (sh_when (t \<noteq> 0) (sh_then (sh_say (println ''Parent:'' [])) (printUIDEntry env t)))
              (sh_result CMD_OK)))))"

end
