(* ===== verification/Stacktrace.thy ===== *)
theory Stacktrace
  imports ShellState
begin

unbundle bit_operations_syntax

text \<open>
  The trace of a stack by the code of its functions (\<^verbatim>\<open>psplink/trap.c\<close>). The memory \<open>rd\<close> is read as words; the
  complaints of \<^verbatim>\<open>kdbpeek\<close> on the standard output are left out. Addresses below \<open>verylocore\<close> have no code, so the
  search for the start of a function ends; a search over zeros ends at the address \<open>0\<close>, which is not read.
\<close>

section \<open>Instructions\<close>

definition MIPS_JR_RA :: u32 where "MIPS_JR_RA = 0x03e00008"
definition MIPS_JR_K0 :: u32 where "MIPS_JR_K0 = 0x03400008"
definition MIPS_ERET :: u32 where "MIPS_ERET = 0x42000018"
definition verylocore :: u32 where "verylocore = 0x400000"

definition i_op :: "u32 \<Rightarrow> u32" where "i_op w = drop_bit 26 w AND 0x3F"
definition i_rs :: "u32 \<Rightarrow> u32" where "i_rs w = drop_bit 21 w AND 0x1F"
definition i_rt :: "u32 \<Rightarrow> u32" where "i_rt w = drop_bit 16 w AND 0x1F"
definition i_func :: "u32 \<Rightarrow> u32" where "i_func w = w AND 0x3F"
definition i_imm :: "u32 \<Rightarrow> u32" where "i_imm w = scast (ucast w :: u16)"

text \<open>A word of memory; an address that is not aligned or null is not read.\<close>

definition kdbpeek :: "(u32 \<Rightarrow> u32) \<Rightarrow> u32 \<Rightarrow> u32" where
  "kdbpeek rd addr = (if addr AND 3 \<noteq> 0 then - 1 else if addr = 0 then 0xdeadfeed else rd addr)"

text \<open>A register of 32 bits, saved with \<open>n\<close> bytes.\<close>

definition kdbrpeek :: "(u32 \<Rightarrow> u32) \<Rightarrow> u32 \<Rightarrow> u32 \<Rightarrow> u32" where
  "kdbrpeek rd addr n = (if addr AND (n - 1) \<noteq> 0 then - 1 else if addr = 0 then 0xdeadfeed else rd addr)"

section \<open>The start of a function\<close>

lemma unat_minus_4: "(verylocore :: u32) < va \<Longrightarrow> unat (va - 4) < unat va"
  unfolding verylocore_def by (simp add: unat_sub word_le_nat_alt word_less_nat_alt)

text \<open>Back to the end of the function before, or \<open>None\<close> at the end of the memory with code.\<close>

function scan_back :: "(u32 \<Rightarrow> u32) \<Rightarrow> u32 \<Rightarrow> u32 option" where
  "scan_back rd va =
     (if va \<le> verylocore then None
      else (let instr = kdbpeek rd va in
        if instr = MIPS_ERET then Some (va + 4)
        else if instr = MIPS_JR_RA \<or> instr = MIPS_JR_K0 then Some (va + 8)
        else scan_back rd (va - 4)))"
  by pat_completeness auto

termination
  by (relation "measure (\<lambda>(rd, va). unat va)") (auto simp: not_le intro: unat_minus_4)

declare scan_back.simps [simp del]

lemma kdbpeek_zero: "kdbpeek rd va = 0 \<Longrightarrow> va AND 3 = 0 \<and> va \<noteq> 0"
  by (auto simp: kdbpeek_def split: if_splits)

text \<open>How far an address is from the end of the memory.\<close>

definition to_end :: "u32 \<Rightarrow> nat" where
  "to_end va = (if va = 0 then 0 else 2 ^ 32 - unat va)"

lemma to_end_step:
  assumes "va AND 3 = 0" and "va \<noteq> 0"
  shows "to_end (va + 4) < to_end va"
proof -
  have m: "unat va mod 4 = 0" using and_3_unat [of va] assms(1) by simp
  have l: "unat va < 2 ^ 32" using unsigned_less [of va] by simp
  have u: "unat (va + 4) = (unat va + 4) mod 2 ^ 32" by (simp add: unat_word_ariths(1))
  show ?thesis
  proof (cases "va + 4 = 0")
    case True
    then show ?thesis using assms(2) l by (simp add: to_end_def)
  next
    case False
    have "unat va + 4 < 2 ^ 32"
    proof (rule ccontr)
      assume "\<not> ?thesis"
      then have "unat va + 4 \<ge> 4294967296" "unat va < 4294967296" using l by simp_all
      then have "unat va + 4 = 4294967296" using m by presburger
      then have "unat (va + 4) = 0" using u by simp
      then show False using False by (simp add: unat_eq_0)
    qed
    then show ?thesis using False assms(2) u by (simp add: to_end_def)
  qed
qed

text \<open>Over the zeros between two functions.\<close>

function skip_nulls :: "(u32 \<Rightarrow> u32) \<Rightarrow> u32 \<Rightarrow> u32" where
  "skip_nulls rd va = (if kdbpeek rd va = 0 then skip_nulls rd (va + 4) else va)"
  by pat_completeness auto

termination
  by (relation "measure (\<lambda>(rd, va). to_end va)") (auto dest: kdbpeek_zero intro: to_end_step)

declare skip_nulls.simps [simp del]

section \<open>The frame of a function\<close>

record trace =
  t_a0 :: u32
  t_a1 :: u32
  t_a2 :: u32
  t_a3 :: u32
  t_fp :: u32
  t_ra :: u32

text \<open>The registers of the scan, the set of registers found on the stack, and the size of the frame.\<close>

record scan =
  s_regs :: trace
  s_mask :: "u32 list"
  s_size :: "u32 option"

text \<open>After how many more instructions the scan ends.\<close>

definition scan_more :: "u32 \<Rightarrow> nat option" where
  "scan_more w =
     (let p = i_op w in
      if p = 0 then (if i_func w \<in> {8, 9} then Some 2 else if i_func w \<in> {12, 13} then Some 1 else None)
      else if p \<in> {1, 2, 3, 4, 5, 6, 7} then Some 2
      else if p \<in> {16, 17, 18, 19} then (if i_rs w \<in> {8, 12} then Some 2 else None)
      else None)"

text \<open>A register that an instruction puts on the stack, only the first time.\<close>

definition set_saved :: "u32 \<Rightarrow> u32 \<Rightarrow> trace \<Rightarrow> trace" where
  "set_saved rt v t =
     (if rt = 4 then t\<lparr>t_a0 := v\<rparr> else if rt = 5 then t\<lparr>t_a1 := v\<rparr> else if rt = 6 then t\<lparr>t_a2 := v\<rparr>
      else if rt = 7 then t\<lparr>t_a3 := v\<rparr> else if rt = 30 then t\<lparr>t_fp := v\<rparr> else if rt = 31 then t\<lparr>t_ra := v\<rparr> else t)"

definition scan_instr :: "(u32 \<Rightarrow> u32) \<Rightarrow> u32 \<Rightarrow> u32 \<Rightarrow> scan \<Rightarrow> scan" where
  "scan_instr rd sp w s =
     (let p = i_op w in
      if p = 0x2B \<or> p = 0x3F then
        (if i_rs w \<noteq> 29 \<or> i_rt w \<in> set (s_mask s) then s
         else s\<lparr>s_mask := i_rt w # s_mask s,
                s_regs := set_saved (i_rt w) (kdbrpeek rd (sp + i_imm w) (if p = 0x2B then 4 else 8)) (s_regs s)\<rparr>)
      else if p \<in> {8, 9, 24, 25} then
        (if i_rs w \<noteq> 29 \<or> i_rt w \<noteq> 29 \<or> s_size s \<noteq> None then s else s\<lparr>s_size := Some (- i_imm w)\<rparr>)
      else s)"

text \<open>\<open>n\<close>: the instructions before the position in the function.\<close>

fun scan_frame :: "nat \<Rightarrow> (u32 \<Rightarrow> u32) \<Rightarrow> u32 \<Rightarrow> u32 \<Rightarrow> nat \<Rightarrow> scan \<Rightarrow> scan" where
  "scan_frame 0 rd sp va left s = s"
| "scan_frame (Suc n) rd sp va left s =
     (if left = 0 then s
      else (let w = kdbpeek rd va;
                m = (case scan_more w of None \<Rightarrow> left | Some k \<Rightarrow> k)
            in scan_frame n rd sp (va + 4) (if m = 3 then 3 else m - 1) (scan_instr rd sp w s)))"

section \<open>The trace\<close>

definition frame_text :: "u32 \<Rightarrow> trace \<Rightarrow> u32 \<Rightarrow> u32 \<Rightarrow> string" where
  "frame_text subr t pc stksize =
     println ''%x(%x,%x,%x,%x) pc [%x] ra [%x] sz [%d]''
       [Num subr, Num (t_a0 t), Num (t_a1 t), Num (t_a2 t), Num (t_a3 t), Num pc, Num (t_ra t), Num stksize]"

text \<open>
  A frame: the text of a bad position, the start of the function and what its code says; \<open>None\<close> when no start
  is found.
\<close>

definition trace_frame :: "(u32 \<Rightarrow> u32) \<Rightarrow> u32 \<Rightarrow> u32 \<Rightarrow> trace \<Rightarrow> (string list \<times> u32 \<times> trace \<times> u32) option" where
  "trace_frame rd pc sp t =
     (if sp AND 3 \<noteq> 0 then Some ([println ''SP 0x%x: not in kernel'' [Num sp]], 0, t\<lparr>t_ra := 0\<rparr>, 0)
      else if pc AND 3 \<noteq> 0 then Some ([println ''PC 0x%x: not in kernel space'' [Num pc]], 0, t\<lparr>t_ra := 0\<rparr>, 0)
      else (case scan_back rd (pc - 4) of
        None \<Rightarrow> None
      | Some start \<Rightarrow>
          (let subr = skip_nulls rd start;
               s = scan_frame ((unat pc - unat subr) div 4) rd sp subr 3 \<lparr>s_regs = t, s_mask = [], s_size = None\<rparr>
           in Some ([], subr, s_regs s, case s_size s of None \<Rightarrow> 0 | Some z \<Rightarrow> z))))"

text \<open>At most 101 frames: \<open>n\<close> is how many are left.\<close>

fun trace_from :: "nat \<Rightarrow> (u32 \<Rightarrow> u32) \<Rightarrow> u32 \<Rightarrow> u32 \<Rightarrow> trace \<Rightarrow> string list" where
  "trace_from 0 rd pc sp t = [CHR 0x0A # println ''stackframe count exceeded'' [], println ''done!'' []]"
| "trace_from (Suc n) rd pc sp t =
     (case trace_frame rd pc sp t of
        None \<Rightarrow> [println ''done!'' []]
      | Some (msg, subr, t1, stksize) \<Rightarrow>
          msg @ [frame_text subr t1 pc stksize] @
          (if t_ra t1 = 0 then [println ''done!'' []]
           else if pc = t_ra t1 \<and> stksize = 0 then [println ''stacktrace: loop!'' []]
           else trace_from n rd (t_ra t1) (sp + stksize) (t1\<lparr>t_ra := 0\<rparr>)))"

definition stacktrace_subr :: "(u32 \<Rightarrow> u32) \<Rightarrow> u32 \<Rightarrow> u32 \<Rightarrow> trace \<Rightarrow> string list" where
  "stacktrace_subr rd pc sp t = trace_from 101 rd pc sp t"

text \<open>The texts are framed by \<^verbatim>\<open>shprintfex\<close>, with a blank for the command.\<close>

definition framed :: "string \<Rightarrow> string" where
  "framed s = [CHR 0xFF] @ '' '' @ s @ '' '' @ [CHR 0xFE]"

definition stacktracePrint :: "'k senv \<Rightarrow> ('k, unit) act" where
  "stacktracePrint env =
     sh_bind (sh_ask id) (\<lambda>st. case g_currex (p_ctxs st) of
       None \<Rightarrow> sh_say (println ''No exception occurred'' [])
     | Some i \<Rightarrow>
         (let c = p_saved st i; r = (\<lambda>n. cx_r c ! n) in
          sh_each (\<lambda>s. sh_say (framed s))
            (stacktrace_subr (\<lambda>a. d_mem (p_dbg st) (k_ph env a)) (cx_epc c) (r 29)
               \<lparr>t_a0 = r 4, t_a1 = r 5, t_a2 = r 6, t_a3 = r 7, t_fp = r 30, t_ra = r 31\<rparr>)))"

definition backtrace_cmd :: "'k sh_fun" where
  "backtrace_cmd env argv = sh_cmd (sh_then (stacktracePrint env) (sh_result CMD_OK))"

end
