(* ===== verification/ShellTable.thy ===== *)
theory ShellTable
  imports ShellStart ShellMem ShellLists Stacktrace
begin

text \<open>
  The functions that the table of commands of the PSP shell names (\<^verbatim>\<open>psplink/shell.c\<close>, \<^verbatim>\<open>psplink/shellcmd.h\<close>), for the
  thread that executes commands. A fault is a state from which nothing follows.
\<close>

definition sh_functions :: "(string \<times> 'k sh_fun) list" where
  "sh_functions =
    [(''thlist_cmd'', thlist_cmd), (''thsllist_cmd'', thsllist_cmd), (''thdelist_cmd'', thdelist_cmd),
     (''thsulist_cmd'', thsulist_cmd), (''thdolist_cmd'', thdolist_cmd), (''thinfo_cmd'', thinfo_cmd),
     (''thsusp_cmd'', thsusp_cmd), (''thspuser_cmd'', thspuser_cmd), (''thresm_cmd'', thresm_cmd),
     (''thwake_cmd'', thwake_cmd), (''thterm_cmd'', thterm_cmd), (''thdel_cmd'', thdel_cmd),
     (''thtdel_cmd'', thtdel_cmd), (''thctx_cmd'', thctx_cmd), (''thpri_cmd'', thpri_cmd),
     (''thcreat_cmd'', thcreat_cmd), (''lwmtxlist_cmd'', lwmtxlist_cmd), (''lwmtxinfo_cmd'', lwmtxinfo_cmd),
     (''evlist_cmd'', evlist_cmd), (''evinfo_cmd'', evinfo_cmd), (''evdel_cmd'', evdel_cmd),
     (''evset_cmd'', evset_cmd), (''evclr_cmd'', evclr_cmd), (''smlist_cmd'', smlist_cmd),
     (''sminfo_cmd'', sminfo_cmd), (''smdel_cmd'', smdel_cmd), (''mxlist_cmd'', mxlist_cmd),
     (''mxinfo_cmd'', mxinfo_cmd), (''mxdel_cmd'', mxdel_cmd), (''cblist_cmd'', cblist_cmd),
     (''cbinfo_cmd'', cbinfo_cmd), (''cbdel_cmd'', cbdel_cmd), (''vtlist_cmd'', vtlist_cmd),
     (''vtinfo_cmd'', vtinfo_cmd), (''vtdel_cmd'', vtdel_cmd), (''vpllist_cmd'', vpllist_cmd),
     (''vplinfo_cmd'', vplinfo_cmd), (''vpldel_cmd'', vpldel_cmd), (''fpllist_cmd'', fpllist_cmd),
     (''fplinfo_cmd'', fplinfo_cmd), (''fpldel_cmd'', fpldel_cmd), (''mpplist_cmd'', mpplist_cmd),
     (''mppinfo_cmd'', mppinfo_cmd), (''mppdel_cmd'', mppdel_cmd), (''thevlist_cmd'', thevlist_cmd),
     (''thevinfo_cmd'', thevinfo_cmd), (''thevdel_cmd'', thevdel_cmd), (''thmon_cmd'', thmon_cmd),
     (''thmonoff_cmd'', thmonoff_cmd), (''sysstat_cmd'', sysstat_cmd), (''modlist_cmd'', modlist_cmd),
     (''modinfo_cmd'', modinfo_cmd), (''modstop_cmd'', modstop_cmd), (''modunld_cmd'', modunld_cmd),
     (''modstun_cmd'', modstun_cmd), (''modload_cmd'', modload_cmd), (''modstart_cmd'', modstart_cmd),
     (''modexec_cmd'', modexec_cmd), (''modaddr_cmd'', modaddr_cmd), (''ldstart_cmd'', ldstart_cmd),
     (''kill_cmd'', kill_cmd), (''debug_cmd'', debug_cmd), (''modexp_cmd'', modexp_cmd),
     (''modimp_cmd'', modimp_cmd), (''modfindx_cmd'', modfindx_cmd), (''modfindi_cmd'', modfindi_cmd),
     (''meminfo_cmd'', meminfo_cmd), (''memreg_cmd'', memreg_cmd), (''memdump_cmd'', memdump_cmd),
     (''memblocks_cmd'', memblocks_cmd), (''malloc_cmd'', malloc_cmd), (''mfree_cmd'', mfree_cmd),
     (''mhead_cmd'', mhead_cmd), (''savemem_cmd'', savemem_cmd), (''loadmem_cmd'', loadmem_cmd),
     (''pokew_cmd'', pokew_cmd), (''pokeh_cmd'', pokeh_cmd), (''pokeb_cmd'', pokeb_cmd),
     (''pokes_cmd'', pokes_cmd), (''peekw_cmd'', peekw_cmd), (''peekh_cmd'', peekh_cmd),
     (''peekb_cmd'', peekb_cmd), (''fillw_cmd'', fillw_cmd), (''fillh_cmd'', fillh_cmd),
     (''fillb_cmd'', fillb_cmd), (''copymem_cmd'', copymem_cmd), (''findstr_cmd'', findstr_cmd),
     (''findhex_cmd'', findhex_cmd), (''findw_cmd'', findw_cmd), (''findh_cmd'', findh_cmd),
     (''dcache_cmd'', dcache_cmd), (''icache_cmd'', icache_cmd), (''disasm_cmd'', disasm_cmd),
     (''memprot_cmd'', memprot_cmd), (''ls_cmd'', ls_cmd), (''chdir_cmd'', chdir_cmd),
     (''cp_cmd'', cp_cmd), (''mv_cmd'', mv_cmd), (''mkdir_cmd'', mkdir_cmd),
     (''rm_cmd'', rm_cmd), (''rmdir_cmd'', rmdir_cmd), (''rename_cmd'', rename_cmd),
     (''remap_cmd'', remap_cmd), (''pwd_cmd'', pwd_cmd), (''exprint_cmd'', exprint_cmd),
     (''exlist_cmd'', exlist_cmd), (''exctx_cmd'', exctx_cmd), (''exresume_cmd'', exresume_cmd),
     (''exprfpu_cmd'', exprfpu_cmd), (''exprvfpu_cmd'', exprvfpu_cmd), (''setreg_cmd'', setreg_cmd),
     (''bpset_cmd'', bpset_cmd), (''bpdel_cmd'', bpdel_cmd), (''bpdis_cmd'', bpdis_cmd),
     (''bpena_cmd'', bpena_cmd), (''bpth_cmd'', bpth_cmd), (''bpprint_cmd'', bpprint_cmd),
     (''hwprint_cmd'', hwprint_cmd), (''step_cmd'', step_cmd), (''skip_cmd'', skip_cmd),
     (''call_cmd'', call_cmd), (''usbstat_cmd'', usbstat_cmd), (''uidlist_cmd'', uidlist_cmd),
     (''uidinfo_cmd'', uidinfo_cmd), (''cop0_cmd'', cop0_cmd), (''exit_cmd'', exit_cmd),
     (''scrshot_cmd'', scrshot_cmd), (''calc_cmd'', calc_cmd), (''reset_cmd'', reset_cmd),
     (''version_cmd'', version_cmd), (''pspver_cmd'', pspver_cmd), (''config_cmd'', config_cmd),
     (''confset_cmd'', confset_cmd), (''confdel_cmd'', confdel_cmd), (''power_cmd'', power_cmd),
     (''poweroff_cmd'', poweroff_cmd), (''clock_cmd'', clock_cmd), (''tonid_cmd'', tonid_cmd),
     (''profmode_cmd'', profmode_cmd), (''debugreg_cmd'', debugreg_cmd), (''irqs_cmd'', irqs_cmd),
     (''iena_cmd'', iena_cmd), (''irel_cmd'', irel_cmd), (''backtrace_cmd'', backtrace_cmd),
     (''tab_cmd'', tab_cmd), (''symload_cmd'', symload_cmd)]"

text \<open>
  The commands on hooks take the module of their first argument, and work on a state of their own.
\<close>

type_synonym 'k machine = "('k psp \<times> hooks) run"

definition on_psp :: "'k sh_fun \<Rightarrow> 'k senv \<Rightarrow> 'k machine command" where
  "on_psp f env args w =
     (case w of
        Inl e \<Rightarrow> (Some CMD_OK, 0, [], Inl e)
      | Inr (st, h) \<Rightarrow> (case f env args st of
          Inl e \<Rightarrow> (Some CMD_OK, 0, [], Inl e)
        | Inr (r, v, out, st1) \<Rightarrow> (Some r, v, out, Inr (st1, h))))"

definition hook_command ::
  "(int \<Rightarrow> string list \<Rightarrow> hooks \<Rightarrow> (cmd_result \<times> string list \<times> hooks) run) \<Rightarrow> bool \<Rightarrow> 'k senv \<Rightarrow> 'k machine command" where
  "hook_command f named env args w =
     (case w of
        Inl e \<Rightarrow> (Some CMD_OK, 0, [], Inl e)
      | Inr (st, h) \<Rightarrow> (case (if named then get_module_uid env (hd args) st else sh_ret 0 st) of
          Inl e \<Rightarrow> (Some CMD_OK, 0, [], Inl e)
        | Inr (uid, out, st1) \<Rightarrow> (case f uid args h of
            Inl e \<Rightarrow> (Some CMD_OK, 0, [], Inl e)
          | Inr (r, out2, h1) \<Rightarrow> (Some r, 0, out @ out2, Inr (st1, h1)))))"

definition hook_functions :: "(string \<times> ('k senv \<Rightarrow> 'k machine command)) list" where
  "hook_functions =
    [(''apihook_cmd'', hook_command apihook_cmd True), (''apihooks_cmd'', hook_command apihooks_cmd True),
     (''apihp_cmd'', hook_command (\<lambda>_ _. apihp_cmd) False), (''apihd_cmd'', hook_command (\<lambda>_. apihd_cmd) False)]"

definition psp_command :: "'k senv \<Rightarrow> string \<Rightarrow> 'k machine command" where
  "psp_command env name =
     (case map_of sh_functions name of
        Some f \<Rightarrow> on_psp f env
      | None \<Rightarrow> (case map_of hook_functions name of
          Some f \<Rightarrow> f env
        | None \<Rightarrow> (\<lambda>args w. (Some CMD_ERROR, 0, [], w))))"

text \<open>The thread, with the functions of the program.\<close>

definition shell_turn :: "'k senv \<Rightarrow> string \<Rightarrow> string \<Rightarrow> 'k machine \<Rightarrow> (string list \<times> bool \<times> string \<times> string \<times> 'k machine) option" where
  "shell_turn env = shellParseTurn (psp_command env)"

end
