(* ===== verification/ShellMemProps.thy ===== *)
theory ShellMemProps
  imports ShellMem DecodeMem
begin

unbundle bit_operations_syntax

text \<open>
  Properties of the commands on memory: what the writing commands store and where, that reading commands
  show it, and that a search finds every match and nothing else.
\<close>

section \<open>Words and their bytes\<close>

lemma aligned_byte:
  assumes "a AND 3 = (0 :: u32)" and "i < 4"
  shows "(a + of_nat i) AND NOT 3 = a" and "byte_shift (a + of_nat i) = 8 * i"
proof -
  have i: "of_nat i AND NOT 3 = (0 :: u32)" "of_nat i AND 3 = (of_nat i :: u32)"
    using assms(2) by (auto simp: less_Suc_eq numeral_nat)
  have o: "a + of_nat i = a OR of_nat i"
    using assms i by (intro disjunctive_add) (auto simp: bit_eq_iff bit_simps)
  show "(a + of_nat i) AND NOT 3 = a"
    using assms i unfolding o by (auto simp: bit_eq_iff bit_simps)
  have "(a + of_nat i) AND 3 = of_nat i"
    using assms i unfolding o by (auto simp: bit_eq_iff bit_simps)
  then show "byte_shift (a + of_nat i) = 8 * i"
    using assms(2) by (simp add: byte_shift_def unsigned_of_nat take_bit_nat_eq_self)
qed

lemma lb_aligned:
  "a AND 3 = 0 \<Longrightarrow> i < 4 \<Longrightarrow> lb ph (a + of_nat i) s = ucast (drop_bit (8 * i) (d_mem s (ph a)))"
  by (simp only: lb_def aligned_byte)

lemma le32_nth: "i < 4 \<Longrightarrow> le32 w ! i = ucast (drop_bit (8 * i) w)"
  by (auto simp: le32_def less_Suc_eq numeral_nat)

text \<open>A word is what its four bytes are.\<close>

lemma word_by_bytes:
  assumes "\<And>i. i < 4 \<Longrightarrow> (ucast (drop_bit (8 * i) v) :: u8) = ucast (drop_bit (8 * i) (w :: u32))"
  shows "v = w"
proof (rule bit_word_eqI)
  fix n assume n: "n < LENGTH(32)"
  have "bit (ucast (drop_bit (8 * (n div 8)) v) :: u8) (n mod 8) = bit (ucast (drop_bit (8 * (n div 8)) w) :: u8) (n mod 8)"
    using n assms [of "n div 8"] by simp
  then show "bit v n = bit w n" using n by (simp add: bit_simps)
qed

lemma word_from_bytes:
  assumes "a AND 3 = 0" and "\<And>i. i < 4 \<Longrightarrow> lb ph (a + of_nat i) s = le32 v ! i"
  shows "d_mem s (ph a) = v"
  using assms(2) by (intro word_by_bytes) (simp add: lb_aligned [OF assms(1)] le32_nth)

lemma and_1_unat: "unat (va AND 1 :: u32) = unat va mod 2"
  by (simp only: and_one_eq unat_mod_distrib) simp

section \<open>The areas\<close>

text \<open>The areas start and end at multiples of four, so an aligned value is inside or outside as a whole.\<close>

lemma areas_aligned: "list_all (\<lambda>e. uint (me_addr e) mod 4 = 0 \<and> me_size e mod 4 = 0) g_memareas"
  by code_simp

lemma mem_left_dvd:
  assumes "addr AND (of_nat w - 1) = 0" and "w \<in> {1, 2, 4}" and "0 < mem_left st addr attrib"
  shows "int w dvd mem_left st addr attrib"
proof (cases "g_protoff (p_prot st) \<and> scan_areas (g_isv1 (p_prot st)) addr attrib g_memareas = 0")
  case True
  then show ?thesis using assms(2) by (auto simp: mem_left_def memValidate_def)
next
  case False
  let ?p = "(p_prot st)\<lparr>g_protoff := False\<rparr>"
  have v: "mem_left st addr attrib = memValidate ?p addr attrib"
    using False by (auto simp: mem_left_def memValidate_def Let_def)
  then obtain e where e: "e \<in> set g_memareas" "uint addr + mem_left st addr attrib = area_last e"
    using memValidate_area [of ?p addr attrib] assms(3) by auto
  have m: "area_last e mod 4 = 0"
    using e(1) areas_aligned by (auto simp: area_last_def list_all_iff mod_add_eq [symmetric])
  have "unat (addr AND (of_nat w - 1)) = unat addr mod w"
    using assms(2) and_3_unat [of addr] and_1_unat [of addr] by auto
  then have "unat addr mod w = 0" using assms(1) by simp
  then have "int (unat addr) mod int w = 0" by (simp only: of_nat_0 flip: zmod_int)
  then have a: "uint addr mod int w = 0" by (simp only: uint_nat)
  have "int w dvd 4" using assms(2) by auto
  then show ?thesis using a m e(2) by (metis dvd_add_right_iff dvd_trans mod_0_imp_dvd)
qed

section \<open>What a command stores\<close>

text \<open>Nothing but memory changes, and there only bytes that are valid.\<close>

definition writable :: "protection \<Rightarrow> u32 \<Rightarrow> bool" where
  "writable p x \<longleftrightarrow> (\<exists>e \<in> set g_memareas. in_area e x \<and> (\<not> me_v1only e \<or> g_isv1 p))"

definition only_memory :: "'k psp \<Rightarrow> 'k psp \<Rightarrow> bool" where
  "only_memory st st1 \<longleftrightarrow> (\<exists>m. st1 = st\<lparr>p_dbg := (p_dbg st)\<lparr>d_mem := m\<rparr>\<rparr>)"

text \<open>The bytes \<open>bs\<close> are at \<open>a\<close>, and every other byte is as it was.\<close>

definition stored :: "'k senv \<Rightarrow> u32 \<Rightarrow> bytes \<Rightarrow> 'k psp \<Rightarrow> 'k psp \<Rightarrow> bool" where
  "stored env a bs st st1 \<longleftrightarrow> only_memory st st1
     \<and> (\<forall>i < length bs. mem_byte_at env st1 (a + of_nat i) = bs ! i)
     \<and> (\<forall>b. (\<forall>i < length bs. \<not> same_place b (a + of_nat i)) \<longrightarrow> mem_byte_at env st1 b = mem_byte_at env st b)"

lemma write_bytes_memory: "\<exists>m. write_bytes ph a bs s = s\<lparr>d_mem := m\<rparr>"
proof (induction bs arbitrary: a s)
  case Nil
  have "s = s\<lparr>d_mem := d_mem s\<rparr>" by simp
  then show ?case by (metis write_bytes.simps(1))
next
  case (Cons b bs)
  then obtain m where "write_bytes ph a (b # bs) s = (sb ph b a s)\<lparr>d_mem := m\<rparr>" by fastforce
  then show ?case by (auto simp: sb_def Let_def)
qed

lemma stored_store: "aliasing (k_ph env) \<Longrightarrow> length bs < 2 ^ 28 \<Longrightarrow> stored env a bs st (mem_store env a bs st)"
  using write_bytes_memory [of "k_ph env" a bs "p_dbg st"]
  by (auto simp: stored_def only_memory_def mem_store_def mem_byte_at_def lb_write_bytes lb_write_bytes_other)

lemma only_memory_refl: "only_memory st st"
  unfolding only_memory_def by (rule exI [of _ "d_mem (p_dbg st)"]) simp

lemma stored_nothing: "stored env a [] st st"
  by (simp add: stored_def only_memory_refl)

lemma only_memory_trans: "only_memory st st1 \<Longrightarrow> only_memory st1 st2 \<Longrightarrow> only_memory st st2"
  by (auto simp: only_memory_def)

lemma stored_append:
  assumes "stored env a xs st st1" and "stored env (a + of_nat (length xs)) ys st1 st2" and n: "length xs + length ys < 2 ^ 28"
  shows "stored env a (xs @ ys) st st2"
proof -
  have y: "(\<forall>j < length ys. \<not> same_place b (a + of_nat (length xs) + of_nat j)) \<Longrightarrow> mem_byte_at env st2 b = mem_byte_at env st1 b" for b
    using assms(2) by (simp add: stored_def)
  have "mem_byte_at env st2 (a + of_nat i) = (xs @ ys) ! i" if i: "i < length (xs @ ys)" for i
  proof (cases "i < length xs")
    case True
    have "\<not> same_place (a + of_nat i) (a + of_nat (length xs) + of_nat j)" if "j < length ys" for j
      using same_place_run [of i "length xs + j" a] that True n by (simp add: add.assoc)
    then show ?thesis using y True assms(1) by (simp add: stored_def nth_append)
  next
    case False
    then obtain j where "i = length xs + j" "j < length ys" using i by (auto simp: not_less le_iff_add)
    then show ?thesis using assms(2) by (simp add: stored_def nth_append add.assoc)
  qed
  moreover have "mem_byte_at env st2 b = mem_byte_at env st b"
    if b: "\<forall>i < length (xs @ ys). \<not> same_place b (a + of_nat i)" for b
  proof -
    have "\<forall>j < length ys. \<not> same_place b (a + of_nat (length xs) + of_nat j)"
    proof (intro allI impI)
      fix j assume "j < length ys"
      then show "\<not> same_place b (a + of_nat (length xs) + of_nat j)"
        using b [rule_format, of "length xs + j"] by (simp add: add.assoc)
    qed
    then show ?thesis using y b assms(1) by (simp add: stored_def)
  qed
  ultimately show ?thesis using only_memory_trans assms(1,2) by (auto simp: stored_def)
qed

text \<open>A text that the calculator gives one value, whatever the state.\<close>

definition denotes :: "'k senv \<Rightarrow> string \<Rightarrow> u32 \<Rightarrow> bool" where
  "denotes env t v \<longleftrightarrow> (\<forall>st. memDecode (calc_of env st) t = Inr (Some v))"

lemma decoded_denotes [simp]: "denotes env t v \<Longrightarrow> decoded env t st bad good = good v"
  by (simp add: denotes_def decoded_def)

definition values_bytes :: "nat \<Rightarrow> u32 list \<Rightarrow> bytes" where
  "values_bytes w vs = concat (map (\<lambda>v. take w (le32 v)) vs)"

lemma length_values_bytes: "w \<le> 4 \<Longrightarrow> length (values_bytes w vs) = w * length vs"
  by (induction vs) (auto simp: values_bytes_def)

lemma poke_loop_stores:
  assumes "aliasing (k_ph env)" and "w \<in> {1, 2, 4}"
  shows "list_all2 (denotes env) ts vs \<Longrightarrow> int (w * length vs) \<le> left \<Longrightarrow> w * length vs < 2 ^ 28 \<Longrightarrow>
    \<exists>st1. poke_loop env w ts addr left st = Inr ([], st1) \<and> stored env addr (values_bytes w vs) st st1"
proof (induction ts vs arbitrary: addr left st rule: list_all2_induct)
  case Nil
  then show ?case using stored_nothing by (auto simp: values_bytes_def)
next
  case (Cons t ts v vs)
  let ?s = "mem_store env addr (take w (le32 v)) st"
  have w: "length (take w (le32 v)) = w" using assms(2) by auto
  have s: "stored env addr (take w (le32 v)) st ?s" using assms by (intro stored_store) auto
  show ?case
  proof (cases "left - int w \<le> 0")
    case True
    have "vs = []" using True Cons.prems(1) assms(2) by (cases vs) (auto simp: algebra_simps)
    then show ?thesis using s True Cons.hyps by (simp add: values_bytes_def)
  next
    case False
    obtain st1 where "poke_loop env w ts (addr + of_nat w) (left - int w) ?s = Inr ([], st1)"
      and "stored env (addr + of_nat w) (values_bytes w vs) ?s st1"
      using Cons.IH [of "left - int w" "addr + of_nat w" ?s] Cons.prems by (auto simp: algebra_simps)
    moreover have "w + length (values_bytes w vs) < 2 ^ 28" using Cons.prems(2) assms(2) by (auto simp: length_values_bytes)
    ultimately show ?thesis using stored_append [OF s] w False Cons.hyps by (auto simp: values_bytes_def)
  qed
qed

section \<open>Valid memory\<close>

lemma in_area_unique:
  assumes "e \<in> set g_memareas" and "f \<in> set g_memareas" and "in_area e x" and "in_area f x"
  shows "e = f"
proof -
  obtain i j where i: "i < length g_memareas" "g_memareas ! i = e" and j: "j < length g_memareas" "g_memareas ! j = f"
    using assms(1,2) by (auto simp: in_set_conv_nth)
  have s: "sorted_wrt (\<lambda>e f. area_last e \<le> uint (me_addr f) \<or> area_last f \<le> uint (me_addr e)) g_memareas"
    using g_memareas_ok by (simp add: areas_ok_def)
  have "\<not> i < j" "\<not> j < i"
    using sorted_wrt_nth_less [OF s] i j assms(3,4) by (fastforce simp: in_area_def)+
  then show ?thesis using i j by simp
qed

lemma mem_left_area:
  assumes "\<not> g_protoff (p_prot st)" and "e \<in> set g_memareas" and "in_area e x" and "\<not> me_v1only e \<or> g_isv1 (p_prot st)"
  shows "mem_left st x attrib = area_last e - uint x"
proof -
  obtain f where f: "List.find (\<lambda>e. in_area e x) g_memareas = Some f"
    using assms(2,3) by (metis find_None_iff not_None_eq)
  then have "f = e" using find_member [OF f] assms(2,3) in_area_unique by blast
  then show ?thesis using assms(1,4) f
    by (simp add: mem_left_def memValidate_def scan_areas_ok [OF g_memareas_ok])
qed

lemma area_shift:
  assumes "e \<in> set g_memareas" and "in_area e x" and "int n < area_last e - uint x"
  shows "in_area e (x + of_nat n)" and "uint (x + of_nat n) = uint x + int n"
proof -
  have l: "area_last e < 2 ^ 32" using g_memareas_ok assms(1) by (auto simp: areas_ok_def list_all_iff)
  have "int n < 2 ^ 32" using assms(3) l uint_ge_0 [of x] by linarith
  then have "uint (of_nat n :: u32) = int n" by (simp add: uint_nat unsigned_of_nat take_bit_nat_eq_self)
  then show u: "uint (x + of_nat n) = uint x + int n"
    using assms(3) l by (simp add: uint_plus_if')
  show "in_area e (x + of_nat n)" using assms(2,3) u by (simp add: in_area_def)
qed

lemma mem_left_step:
  assumes "\<not> g_protoff (p_prot st)" and "int n < mem_left st a attrib"
  shows "mem_left st (a + of_nat n) attrib2 = mem_left st a attrib - int n" and "writable (p_prot st) (a + of_nat n)"
proof -
  have "0 < mem_left st a attrib" using assms(2) by linarith
  then obtain e where e: "e \<in> set g_memareas" "in_area e a" "\<not> me_v1only e \<or> g_isv1 (p_prot st)"
    and l: "uint a + mem_left st a attrib = area_last e"
    using memValidate_area [OF assms(1), of a attrib] by (auto simp: mem_left_def)
  have n: "int n < area_last e - uint a" using assms(2) l by linarith
  note s = area_shift [OF e(1,2) n]
  show "mem_left st (a + of_nat n) attrib2 = mem_left st a attrib - int n"
    using mem_left_area [OF assms(1) e(1) s(1) e(3)] s(2) l by simp
  show "writable (p_prot st) (a + of_nat n)" using e s(1) by (auto simp: writable_def)
qed

lemma only_memory_select [simp]:
  assumes "only_memory st st1"
  shows "p_prot st1 = p_prot st" and "mem_left st1 = mem_left st"
  using assms by (auto simp: only_memory_def mem_left_def fun_eq_iff)

text \<open>What changes is valid.\<close>

definition writes_valid :: "'k senv \<Rightarrow> 'k psp \<Rightarrow> 'k psp \<Rightarrow> bool" where
  "writes_valid env st st1 \<longleftrightarrow> only_memory st st1
     \<and> (\<forall>b. mem_byte_at env st1 b \<noteq> mem_byte_at env st b \<longrightarrow> (\<exists>x. same_place b x \<and> writable (p_prot st) x))"

lemma writes_valid_refl: "writes_valid env st st"
  by (simp add: writes_valid_def only_memory_refl)

lemma writes_valid_trans: "writes_valid env st st1 \<Longrightarrow> writes_valid env st1 st2 \<Longrightarrow> writes_valid env st st2"
  unfolding writes_valid_def by (metis only_memory_trans only_memory_select(1))

lemma stored_valid:
  assumes "stored env a bs st st1" and "\<not> g_protoff (p_prot st)" and "int (length bs) \<le> mem_left st a attrib"
  shows "writes_valid env st st1"
proof -
  have "\<exists>x. same_place b x \<and> writable (p_prot st) x" if "mem_byte_at env st1 b \<noteq> mem_byte_at env st b" for b
  proof -
    have "\<not> (\<forall>i < length bs. \<not> same_place b (a + of_nat i))" using that assms(1) unfolding stored_def by blast
    then obtain i where "i < length bs" "same_place b (a + of_nat i)" by blast
    then show ?thesis using mem_left_step(2) [OF assms(2), of i a attrib] assms(3) by auto
  qed
  then show ?thesis using assms(1) by (auto simp: writes_valid_def stored_def)
qed

lemma mem_store_valid:
  assumes "aliasing (k_ph env)" and "\<not> g_protoff (p_prot st)" and "int (length bs) \<le> mem_left st a attrib" and "length bs < 2 ^ 28"
  shows "writes_valid env st (mem_store env a bs st)"
  using stored_valid [OF stored_store assms(2,3)] assms(1,4) by blast

section \<open>Every command that writes\<close>

lemma map_sum_eq_Inr: "map_sum f g r = Inr y \<longleftrightarrow> (\<exists>x. r = Inr x \<and> y = g x)"
  by (cases r) auto

lemma poke_loop_valid:
  assumes "aliasing (k_ph env)" and "w \<in> {1, 2, 4}"
  shows "poke_loop env w ts addr left st = Inr (out, st1) \<Longrightarrow> \<not> g_protoff (p_prot st) \<Longrightarrow> left = mem_left st addr attrib
    \<Longrightarrow> 0 < left \<Longrightarrow> int w dvd left \<Longrightarrow> writes_valid env st st1"
proof (induction ts arbitrary: addr left st out)
  case Nil
  then show ?case by (simp add: writes_valid_refl)
next
  case (Cons t ts)
  have w: "int w \<le> left" using Cons.prems(4,5) by (simp add: zdvd_imp_le)
  have dv: "int w dvd left - int w" using Cons.prems(5) by simp
  have step: "left - int w = mem_left st (addr + of_nat w) attrib" if "0 < left - int w"
    using mem_left_step(1) [OF Cons.prems(2), of w addr attrib] that Cons.prems(3) by simp
  have rest: "writes_valid env s st1"
    if "poke_loop env w ts (addr + of_nat w) (left - int w) s = Inr (out', st1)" "only_memory st s" "0 < left - int w" for s out'
    using Cons.IH [OF that(1)] that(2,3) step dv Cons.prems(2) by simp
  show ?case
  proof (cases "memDecode (calc_of env st) t")
    case (Inr r)
    show ?thesis
    proof (cases r)
      case None
      then show ?thesis using Inr Cons.prems(1) rest [OF _ only_memory_refl] writes_valid_refl
        by (auto simp: decoded_simps map_sum_eq_Inr split: if_splits)
    next
      case (Some d)
      let ?s = "mem_store env addr (take w (le32 d)) st"
      have "length (take w (le32 d)) = w" using assms(2) by auto
      then have s: "writes_valid env st ?s"
        using mem_store_valid [OF assms(1) Cons.prems(2), of "take w (le32 d)" addr attrib] w Cons.prems(3) assms(2) by auto
      then have "only_memory st ?s" by (simp add: writes_valid_def)
      then show ?thesis using Inr Some Cons.prems(1) s rest writes_valid_trans [OF s]
        by (auto simp: decoded_simps Let_def split: if_splits)
    qed
  qed (use Cons.prems(1) in \<open>simp add: decoded_simps\<close>)
qed

lemma decoded_eq_Inr:
  "decoded env t st bad good = Inr x \<longleftrightarrow>
     (\<exists>v. memDecode (calc_of env st) t = Inr (Some v) \<and> good v = Inr x) \<or> memDecode (calc_of env st) t = Inr None \<and> bad = Inr x"
  by (auto simp: decoded_def split: sum.splits option.splits)

lemma finish_eq_Inr: "finish r out st = Inr x \<longleftrightarrow> x = (r, 0, out, st)"
  by (auto simp: finish_def)

lemma poke_valid:
  assumes "aliasing (k_ph env)" and "w \<in> {1, 2, 4}" and "\<not> g_protoff (p_prot st)"
    and "poke w attrib env argv st = Inr (r, v, out, st1)"
  shows "writes_valid env st st1"
proof -
  have m: "(a AND NOT x) AND x = (0 :: u32)" for a x by (rule bit_eqI) (auto simp: bit_simps)
  have "of_nat (w - 1) = (of_nat w - 1 :: u32)" using assms(2) by auto
  then have al: "(a AND NOT (of_nat (w - 1))) AND (of_nat w - 1) = (0 :: u32)" for a using m by simp
  have "writes_valid env st st1" if "poke_loop env w ts addr left st = Inr (out', st1)" "addr = a AND NOT (of_nat (w - 1))"
      "left = mem_left st addr at" "int w \<le> left" for ts addr left out' a at
  proof -
    have "0 < left" using that(4) assms(2) by auto
    moreover have "addr AND (of_nat w - 1) = 0" unfolding that(2) by (rule al)
    ultimately show ?thesis using poke_loop_valid [OF assms(1,2) that(1) assms(3) that(3)] mem_left_dvd [OF _ assms(2)] that(3) by blast
  qed
  then show ?thesis using assms(4) writes_valid_refl
    by (auto simp: poke_def decoded_eq_Inr finish_eq_Inr Let_def bad_address_def map_sum_eq_Inr split: if_splits)
qed

lemma pokes_valid:
  assumes "aliasing (k_ph env)" and "\<not> g_protoff (p_prot st)" and "length (argv ! 1) + 1 < 2 ^ 28"
    and "pokes_cmd env argv st = Inr (r, v, out, st1)"
  shows "writes_valid env st st1"
  using assms(4) mem_store_valid [OF assms(1,2), of "cbytes (argv ! 1)"] assms(3) writes_valid_refl
  by (auto simp: pokes_cmd_def decoded_eq_Inr finish_eq_Inr bad_address_def cbytes_def split: if_splits)

lemma mem_left_range: "0 \<le> mem_left st a attrib" "mem_left st a attrib < 2 ^ 27"
proof -
  have a: "list_all (\<lambda>e. area_last e - uint (me_addr e) < 2 ^ 27) g_memareas" by code_simp
  have "0 \<le> scan_areas v a attrib g_memareas \<and> scan_areas v a attrib g_memareas < 2 ^ 27" for v
  proof (cases "List.find (\<lambda>e. in_area e a) g_memareas")
    case (Some e)
    then have "in_area e a" "area_last e - uint (me_addr e) < 2 ^ 27"
      using a find_member [OF Some] by (auto simp: list_all_iff)
    then have "0 \<le> area_last e - uint a" "area_last e - uint a < 2 ^ 27" by (auto simp: in_area_def)
    then show ?thesis using Some by (simp add: scan_areas_ok [OF g_memareas_ok])
  qed (simp add: scan_areas_ok [OF g_memareas_ok])
  then show "0 \<le> mem_left st a attrib" "mem_left st a attrib < 2 ^ 27"
    by (simp_all add: mem_left_def memValidate_def Let_def)
qed

lemma unat_mem_left: "unat (word_of_int (mem_left st a attrib) :: u32) = nat (mem_left st a attrib)"
  using mem_left_range [of st a attrib] by (simp add: unat_eq_nat_uint uint_word_of_int)

lemma below_mem_left: "m \<le> (word_of_int (mem_left st a attrib) :: u32) \<Longrightarrow> unat m \<le> nat (mem_left st a attrib)"
  by (simp only: word_le_nat_alt unat_mem_left)

lemma mem_store_within:
  assumes "aliasing (k_ph env)" and "\<not> g_protoff (p_prot st)" and "length bs \<le> nat (mem_left st a attrib)"
  shows "writes_valid env st (mem_store env a bs st)"
proof -
  have i: "int (length bs) \<le> mem_left st a attrib" using assms(3) mem_left_range [of st a attrib] by linarith
  then have "int (length bs) < 2 ^ 27" using mem_left_range(2) [of st a attrib] by linarith
  then have "length bs < 2 ^ 28" by simp
  with i
  show ?thesis by (rule mem_store_valid [OF assms(1,2)])
qed

lemma fill_valid:
  assumes "aliasing (k_ph env)" and "\<not> g_protoff (p_prot st)" and "w \<in> {1, 2, 4}"
    and "fill w attrib env argv st = Inr (r, v, out, st1)"
  shows "writes_valid env st st1"
proof -
  have "writes_valid env st (mem_store env addr (concat (replicate n (take w (le32 x)))) st)"
    if n: "n = unat (min sz (word_of_int (mem_left st addr at))) div w" for addr n x at and sz :: u32
  proof -
    have "n * w \<le> unat (min sz (word_of_int (mem_left st addr at)))" using n by simp
    also have "\<dots> \<le> nat (mem_left st addr at)" by (intro below_mem_left min.cobounded2)
    finally have "n * w \<le> nat (mem_left st addr at)" .
    moreover have "length (concat (replicate n (take w (le32 x)))) = n * w"
      using assms(3) by (auto simp: length_concat sum_list_replicate)
    ultimately show ?thesis by (intro mem_store_within [OF assms(1,2), where attrib = at]) simp
  qed
  then show ?thesis using assms(4) writes_valid_refl
    by (auto simp: fill_def decoded_eq_Inr finish_eq_Inr Let_def split: option.splits)
qed

lemma copymem_valid:
  assumes "aliasing (k_ph env)" and "\<not> g_protoff (p_prot st)" and "copymem_cmd env argv st = Inr (r, v, out, st1)"
  shows "writes_valid env st st1"
proof -
  have "writes_valid env st (mem_store env dest (mem_bytes_at env st src (unat (min sz (min sl (word_of_int (mem_left st dest at)))))) st)"
    for dest src at and sz sl :: u32
  proof -
    have "unat (min sz (min sl (word_of_int (mem_left st dest at)))) \<le> nat (mem_left st dest at)"
      by (intro below_mem_left min.coboundedI2) simp
    then show ?thesis by (intro mem_store_within [OF assms(1,2), where attrib = at]) (simp add: mem_bytes_at_def)
  qed
  then show ?thesis using assms(3) writes_valid_refl
    by (auto simp: copymem_cmd_def decoded_eq_Inr finish_eq_Inr Let_def)
qed

text \<open>A number in hexadecimal denotes itself.\<close>

lemma length_digits: "2 \<le> b \<Longrightarrow> n < b ^ Suc k \<Longrightarrow> length (digits_of b n) \<le> Suc k"
proof (induction k arbitrary: n)
  case (Suc k)
  have "n div b < b ^ Suc k" using Suc.prems by (simp add: div_less_iff_less_mult mult.commute)
  then have "length (digits_of b (n div b)) \<le> Suc k" using Suc.IH Suc.prems(1) by blast
  then show ?case by (subst digits_of.simps) simp
qed (subst digits_of.simps, simp)

lemma print_hex_short: "length (print_hex (unat (w :: u32))) \<le> 8"
  using length_digits [of 16 "unat w" 7] unsigned_less [of w] by (simp add: print_hex_def)

lemma denotes_number: "denotes env (''0x'' @ print_hex (unat n)) n"
proof -
  have "memDecode c (''0x'' @ print_hex (unat n)) = Inr (Some n)" for c
  proof -
    have "length (''0x'' @ print_hex (unat n)) < 1024"
      using print_hex_short [of n] by simp
    then have "memDecode c (''0x'' @ print_hex (unat n)) = parse_line c OP_START 0 0 0 (print_line [] (First (Term [] (ANum n))) @ [])"
      by (simp add: memDecode_def)
    also have "\<dots> = Inr (Some n)"
      using parse_print(1) [of "[]" "First (Term [] (ANum n))" "[]" c] by (simp add: sep_def spaces_def)
    finally show ?thesis .
  qed
  then show ?thesis by (simp add: denotes_def)
qed

text \<open>C25: The commands of the shell that write to memory (pokew, pokeh, pokeb, pokes, fillb, fillh, fillw and
  copymem), whatever their arguments, change nothing of the state but memory, and of memory only bytes inside the
  areas that are valid on the firmware, when the protection is on: a list of values or a length that goes beyond the area
  is cut there, and an address outside changes nothing.\<close>

theorem memory_commands_stay_valid:
  assumes "aliasing (k_ph env)" and "\<not> g_protoff (p_prot st)" and "list_all (\<lambda>a. length a < MAX_CLI) argv" and "length argv > 1"
    and "f \<in> {pokew_cmd, pokeh_cmd, pokeb_cmd, pokes_cmd, fillb_cmd, fillh_cmd, fillw_cmd, copymem_cmd}"
    and "f env argv st = Inr (r, v, out, st1)"
  shows "(\<exists>m. st1 = st\<lparr>p_dbg := (p_dbg st)\<lparr>d_mem := m\<rparr>\<rparr>)
    \<and> (\<forall>b. mem_byte_at env st1 b \<noteq> mem_byte_at env st b \<longrightarrow> (\<exists>x. same_place b x \<and> writable (p_prot st) x))"
proof -
  have "length (argv ! 1) < MAX_CLI" using assms(3,4) by (simp add: list_all_length)
  then have "length (argv ! 1) + 1 < 2 ^ 28" by (simp add: MAX_CLI_def)
  note pokes = pokes_valid [OF assms(1,2) this]
  have w: "w \<in> {1, 2, 4} \<Longrightarrow> poke w a env argv st = Inr (r, v, out, st1) \<Longrightarrow> writes_valid env st st1"
    "w \<in> {1, 2, 4} \<Longrightarrow> fill w a env argv st = Inr (r, v, out, st1) \<Longrightarrow> writes_valid env st st1" for w a
    by (erule (1) poke_valid [OF assms(1) _ assms(2)], erule (1) fill_valid [OF assms(1,2)])
  have "f = poke 4 MEM_ATTRIB_WORD \<or> f = poke 2 MEM_ATTRIB_HALF \<or> f = poke 1 MEM_ATTRIB_BYTE \<or> f = pokes_cmd
      \<or> f = fill 1 MEM_ATTRIB_BYTE \<or> f = fill 2 MEM_ATTRIB_HALF \<or> f = fill 4 MEM_ATTRIB_WORD \<or> f = copymem_cmd"
    using assms(5) by (simp only: insert_iff empty_iff pokew_cmd_def pokeh_cmd_def pokeb_cmd_def fillb_cmd_def fillh_cmd_def
        fillw_cmd_def disj_assoc simp_thms)
  then have "writes_valid env st st1"
    using assms(6) w(1) [of 4] w(1) [of 2] w(1) [of 1] w(2) [of 1] w(2) [of 2] w(2) [of 4] pokes copymem_valid [OF assms(1,2)]
    by (elim disjE) simp_all
  then show ?thesis by (simp add: writes_valid_def only_memory_def)
qed

section \<open>Reading what was written\<close>

lemma values_bytes_nth:
  assumes "i < length vs" and "j < 4"
  shows "values_bytes 4 vs ! (4 * i + j) = le32 (vs ! i) ! j"
  using assms
proof (induction vs arbitrary: i)
  case (Cons v vs)
  then show ?case by (cases i) (auto simp: values_bytes_def nth_append)
qed simp

lemma aligned_step: "addr AND 3 = 0 \<Longrightarrow> addr + of_nat (4 * i) AND 3 = (0 :: u32)"
proof -
  assume "addr AND 3 = 0"
  then have a: "4 dvd unat addr" using and_3_unat [of addr] by (simp add: mod_eq_0_iff_dvd)
  have "unat (of_nat (4 * i) :: u32) = 4 * i mod 2 ^ 32" by (simp add: unsigned_of_nat take_bit_eq_mod del: of_nat_mult)
  then have "unat (addr + of_nat (4 * i)) = (unat addr + 4 * i mod 2 ^ 32) mod 2 ^ 32"
    by (simp add: unat_word_ariths(1) del: of_nat_mult)
  moreover have "4 dvd (4 * i mod 2 ^ 32)" by (simp add: dvd_mod)
  ultimately have "4 dvd unat (addr + of_nat (4 * i))" using a by (simp add: dvd_mod)
  then have "unat (addr + of_nat (4 * i) AND 3) = 0" using and_3_unat [of "addr + of_nat (4 * i)"] by (simp add: mod_eq_0_iff_dvd)
  then show ?thesis by (simp add: unat_eq_0)
qed

lemma stored_word:
  assumes "stored env addr (values_bytes 4 vs) st st1" and "addr AND 3 = 0" and "i < length vs"
  shows "mem_word_at env st1 (addr + of_nat (4 * i)) = vs ! i"
  unfolding mem_word_at_def
proof (rule word_from_bytes [where ph = "k_ph env" and a = "addr + of_nat (4 * i)"])
  show "addr + of_nat (4 * i) AND 3 = 0" by (rule aligned_step [OF assms(2)])
  fix j :: nat assume j: "j < 4"
  have "4 * i + j < length (values_bytes 4 vs)" using assms(3) j by (simp add: length_values_bytes)
  then have "mem_byte_at env st1 (addr + of_nat (4 * i + j)) = values_bytes 4 vs ! (4 * i + j)"
    using assms(1) unfolding stored_def by blast
  then show "lb (k_ph env) (addr + of_nat (4 * i) + of_nat j) (p_dbg st1) = le32 (vs ! i) ! j"
    by (simp add: mem_byte_at_def values_bytes_nth [OF assms(3) j] add.assoc)
qed

lemma aligned_same: "x AND 3 = (0 :: u32) \<Longrightarrow> x AND NOT 3 = x"
  using aligned_byte(1) [of x 0] by simp

lemma peekw_shows:
  assumes "denotes env u x" and "x AND 3 = 0" and "4 \<le> mem_left st x (MEM_ATTRIB_READ OR MEM_ATTRIB_WORD)"
  shows "peekw_cmd env [u] st = Inr (CMD_OK, 0, [println ''0x%08X: 0x%08X'' [Num x, Num (mem_word_at env st x)]], st)"
proof -
  have m: "(of_nat (4 - 1) :: u32) = 3" by simp
  show ?thesis
    unfolding peekw_cmd_def peek_def list.sel decoded_denotes [OF assms(1)] Let_def m aligned_same [OF assms(2)]
    using assms(3) by (simp add: peek_fmt_def finish_def)
qed

lemma pokew_stores:
  assumes "aliasing (k_ph env)" and "denotes env t a" and "list_all2 (denotes env) ts vs"
    and "addr = a AND NOT 3" and "vs \<noteq> []"
    and "int (4 * length vs) \<le> mem_left st addr (MEM_ATTRIB_WRITE OR MEM_ATTRIB_WORD)"
  obtains st1 where "pokew_cmd env (t # ts) st = Inr (CMD_OK, 0, [], st1)" and "stored env addr (values_bytes 4 vs) st st1"
proof -
  let ?left = "mem_left st addr (MEM_ATTRIB_WRITE OR MEM_ATTRIB_WORD)"
  have n: "4 * length vs < 2 ^ 28" using assms(6) mem_left_range(2) [of st addr "MEM_ATTRIB_WRITE OR MEM_ATTRIB_WORD"] by simp
  have l: "4 \<le> ?left" using assms(5,6) by (cases vs) auto
  have m: "(of_nat (4 - 1) :: u32) = 3" by simp
  obtain st1 where p: "poke_loop env 4 ts addr ?left st = Inr ([], st1)" and s: "stored env addr (values_bytes 4 vs) st st1"
    using poke_loop_stores [OF assms(1) _ assms(3), of 4 ?left addr st] assms(6) n by auto
  have "pokew_cmd env (t # ts) st = Inr (CMD_OK, 0, [], st1)"
    unfolding pokew_cmd_def poke_def list.sel decoded_denotes [OF assms(2)] Let_def m assms(4) [symmetric]
    using p l by simp
  then show ?thesis using s that by blast
qed

text \<open>C26: Words written are read back: pokew with an address and values, of any spelling that the calculator
  understands, when the values fit in the area of the address, prints nothing and stores the values at consecutive
  words from the address rounded down to a word, with every other byte of memory and every other part of the state as it
  was; and peekw of the address of each of them then prints that address and the value written there.\<close>

theorem poke_then_peek:
  assumes "aliasing (k_ph env)" and "\<not> g_protoff (p_prot st)" and "denotes env t a" and "list_all2 (denotes env) ts vs"
    and "addr = a AND NOT 3" and "vs \<noteq> []"
    and "int (4 * length vs) \<le> mem_left st addr (MEM_ATTRIB_WRITE OR MEM_ATTRIB_WORD)"
  shows "\<exists>st1. pokew_cmd env (t # ts) st = Inr (CMD_OK, 0, [], st1) \<and> stored env addr (values_bytes 4 vs) st st1
    \<and> (\<forall>i < length vs. \<forall>u. denotes env u (addr + of_nat (4 * i)) \<longrightarrow>
         peekw_cmd env [u] st1 = Inr (CMD_OK, 0, [println ''0x%08X: 0x%08X'' [Num (addr + of_nat (4 * i)), Num (vs ! i)]], st1))"
proof -
  let ?left = "mem_left st addr (MEM_ATTRIB_WRITE OR MEM_ATTRIB_WORD)"
  obtain st1 where p: "pokew_cmd env (t # ts) st = Inr (CMD_OK, 0, [], st1)" and s: "stored env addr (values_bytes 4 vs) st st1"
    using pokew_stores [OF assms(1,3-7)] by blast
  have al: "addr AND 3 = 0" unfolding assms(5) by (rule bit_eqI) (auto simp: bit_simps)
  have "peekw_cmd env [u] st1 = Inr (CMD_OK, 0, [println ''0x%08X: 0x%08X'' [Num (addr + of_nat (4 * i)), Num (vs ! i)]], st1)"
    if i: "i < length vs" and u: "denotes env u (addr + of_nat (4 * i))" for i u
  proof -
    have "int (4 * i) + 4 \<le> ?left" using i assms(7) by simp
    then have "4 \<le> mem_left st (addr + of_nat (4 * i)) (MEM_ATTRIB_READ OR MEM_ATTRIB_WORD)"
      using mem_left_step(1) [OF assms(2), of "4 * i" addr "MEM_ATTRIB_WRITE OR MEM_ATTRIB_WORD" "MEM_ATTRIB_READ OR MEM_ATTRIB_WORD"] by simp
    moreover have "mem_left st1 = mem_left st" using s by (simp add: stored_def)
    ultimately show ?thesis
      using peekw_shows [OF u aligned_step [OF al]] stored_word [OF s al i] by simp
  qed
  then show ?thesis using p s by blast
qed

section \<open>Searching\<close>

lemma memcmp_zero: "n \<le> length a \<Longrightarrow> n \<le> length b \<Longrightarrow> memcmp a b n = 0 \<longleftrightarrow> (\<forall>k < n. a ! k = b ! k)"
proof (induction a b n rule: memcmp.induct)
  case (2 a b n)
  then obtain x xs y ys where ab: "a = x # xs" "b = y # ys" by (cases a; cases b) auto
  have "(\<forall>k < Suc n. a ! k = b ! k) \<longleftrightarrow> x = y \<and> (\<forall>k < n. xs ! k = ys ! k)" by (simp add: ab All_less_Suc2)
  then show ?case using 2 ab by (auto simp: word_uint_eq_iff)
qed simp

lemma memcmp_masked_zero:
  "n \<le> length a \<Longrightarrow> n \<le> length b \<Longrightarrow> n \<le> length m \<Longrightarrow> memcmp_masked a b m n = 0 \<longleftrightarrow> (\<forall>k < n. a ! k AND m ! k = b ! k)"
proof (induction a b m n rule: memcmp_masked.induct)
  case (2 a b m n)
  then obtain x xs y ys z zs where ab: "a = x # xs" "b = y # ys" "m = z # zs" by (cases a; cases b; cases m) auto
  have "(\<forall>k < Suc n. a ! k AND m ! k = b ! k) \<longleftrightarrow> x AND z = y \<and> (\<forall>k < n. xs ! k AND zs ! k = ys ! k)"
    by (simp add: ab All_less_Suc2)
  then show ?case using 2 ab by (auto simp: word_uint_eq_iff)
qed simp

text \<open>The bytes at an address match a pattern, under a mask of the same length.\<close>

definition matches :: "'k senv \<Rightarrow> 'k psp \<Rightarrow> u8 list option \<Rightarrow> u8 list \<Rightarrow> u32 \<Rightarrow> bool" where
  "matches env st msk search a \<longleftrightarrow>
     (\<forall>k < length search. mem_byte_at env st (a + of_nat k) AND (case msk of None \<Rightarrow> - 1 | Some m \<Rightarrow> m ! k) = search ! k)"

lemma compare_matches:
  assumes "j + length search \<le> n" and "\<And>m. msk = Some m \<Longrightarrow> length m = length search"
  shows "memcmp_mask (drop j (mem_bytes_at env st base n)) search msk (length search) = 0
    \<longleftrightarrow> matches env st msk search (base + of_nat j)"
proof -
  have d: "drop j (mem_bytes_at env st base n) ! k = mem_byte_at env st (base + of_nat j + of_nat k)" if "k < length search" for k
    using that assms(1) by (simp add: mem_bytes_at_def add.assoc)
  have l: "length search \<le> length (drop j (mem_bytes_at env st base n))" using assms(1) by (simp add: mem_bytes_at_def)
  show ?thesis
  proof (cases msk)
    case None
    then show ?thesis using memcmp_zero [OF l, of search] d by (simp add: memcmp_mask_def matches_def)
  next
    case (Some m)
    then show ?thesis using memcmp_masked_zero [OF l, of search m] assms(2) d by (simp add: memcmp_mask_def matches_def)
  qed
qed

lemma find_mapped: "List.find P (map f xs) = map_option f (List.find (\<lambda>x. P (f x)) xs)"
  by (induction xs) auto

lemma memmem_from_find:
  "memmem_from i d msk n s l = map_option ((+) i) (List.find (\<lambda>j. memcmp_mask (drop j d) s msk l = 0) [0..<n])"
proof (induction n arbitrary: i d)
  case (Suc n)
  have u: "[0..<Suc n] = 0 # map Suc [0..<n]" unfolding map_Suc_upt by (simp add: upt_conv_Cons del: upt_Suc)
  have plus_Suc: "(+) (Suc i) = (\<lambda>x. Suc (i + x))" by auto
  have t: "drop (Suc j) d = drop j (tl d)" for j by (cases d) auto
  show ?case unfolding memmem_from.simps Suc.IH u find.simps find_mapped t
    by (simp add: o_def option.map_comp plus_Suc)
qed simp

lemma found_at_find:
  assumes "base \<noteq> 0" and "0 \<le> sint len" and "search \<noteq> []" and "\<And>m. msk = Some m \<Longrightarrow> length m = length search"
  shows "found_at env st msk search base len =
    List.find (\<lambda>j. matches env st msk search (base + of_nat j)) [0..<unat len + 1 - length search]"
proof -
  have "uint len = sint len" using assms(2) sint_lt [of len] unfolding uint_sint by (simp add: take_bit_eq_mod)
  then have i: "sint len = int (unat len)" by (simp only: uint_nat)
  have n: "nat (sint len - int (length search) + 1) = unat len + 1 - length search" unfolding i by linarith
  have z: "(+) (0 :: nat) = id" by auto
  have "found_at env st msk search base len = List.find (\<lambda>j. memcmp_mask (drop j (mem_bytes_at env st base (unat len))) search msk
      (length search) = 0) [0..<unat len + 1 - length search]"
    using assms(1,2) by (simp only: found_at_def memmem_mask_def n memmem_from_find z option.map_id id_apply nat_int if_False option.case
        prod.case not_less [symmetric]) simp
  also have "\<dots> = List.find (\<lambda>j. matches env st msk search (base + of_nat j)) [0..<unat len + 1 - length search]"
  proof (rule find_cong [OF refl])
    fix j assume "j \<in> set [0..<unat len + 1 - length search]"
    then have "j + length search \<le> unat len" using assms(3) by auto
    then show "(memcmp_mask (drop j (mem_bytes_at env st base (unat len))) search msk (length search) = 0)
        = matches env st msk search (base + of_nat j)"
      using compare_matches assms(4) by blast
  qed
  finally show ?thesis .
qed

lemma find_filter:
  "List.find P [0..<n] = Some i \<Longrightarrow> filter P [0..<n] = i # map ((+) (i + 1)) (filter (\<lambda>j. P (i + 1 + j)) [0..<n - (i + 1)])"
  "List.find P [0..<n] = None \<Longrightarrow> filter P [0..<n] = []"
proof -
  assume f: "List.find P [0..<n] = Some i"
  then have i: "i < n" "P i" "\<And>j. j < i \<Longrightarrow> \<not> P j" by (auto simp: find_Some_iff)
  have "[0..<n] = [0..<i] @ i # map ((+) (i + 1)) [0..<n - (i + 1)]"
    using i(1) by (intro nth_equalityI) (auto simp: nth_append nth_Cons split: nat.split)
  then have "filter P [0..<n] = filter P [0..<i] @ filter P (i # map ((+) (i + 1)) [0..<n - (i + 1)])" by simp
  moreover have "filter P [0..<i] = []" using i(3) by (simp add: filter_empty_conv)
  ultimately show "filter P [0..<n] = i # map ((+) (i + 1)) (filter (\<lambda>j. P (i + 1 + j)) [0..<n - (i + 1)])"
    using i(2) by (simp add: filter_map o_def)
qed (auto simp: find_None_iff filter_empty_conv)

lemma find_loop_matches:
  assumes "search \<noteq> []" and "\<And>m. msk = Some m \<Longrightarrow> length m = length search"
  shows "base \<noteq> 0 \<Longrightarrow> 0 \<le> sint len \<Longrightarrow> unat base + unat len \<le> 2 ^ 32 \<Longrightarrow>
    find_loop env st msk search base len =
      map (\<lambda>i. base + of_nat i) (filter (\<lambda>i. matches env st msk search (base + of_nat i)) [0..<unat len + 1 - length search])"
proof (induction "unat len" arbitrary: base len rule: less_induct)
  case less
  let ?P = "\<lambda>i. matches env st msk search (base + of_nat i)"
  let ?n = "unat len + 1 - length search"
  have f: "found_at env st msk search base len = List.find ?P [0..<?n]"
    using found_at_find less.prems(1,2) assms by blast
  show ?case
  proof (cases "List.find ?P [0..<?n]")
    case None
    then show ?thesis using f find_filter(2) [OF None] by (simp add: find_loop.simps)
  next
    case (Some i)
    have i: "i < ?n" using Some by (auto simp: find_Some_iff)
    then have il: "i < unat len" using assms(1) by (cases search) auto
    have ul: "unat len < 2 ^ 32" using unsigned_less [of len] by simp
    let ?len = "len - of_nat (i + 1)" and ?base = "base + of_nat i + 1"
    have u: "unat (of_nat (i + 1) :: u32) = i + 1"
      using il ul by (simp add: unsigned_of_nat take_bit_nat_eq_self del: of_nat_add of_nat_Suc)
    then have l: "unat ?len = unat len - (i + 1)" using il by (simp add: unat_sub word_le_nat_alt del: of_nat_add of_nat_Suc)
    have s: "0 \<le> sint ?len"
    proof -
      have "uint len < 2 ^ 31" using less.prems(2) sint_lt [of len] unfolding uint_sint by (simp add: take_bit_eq_mod)
      then have "uint ?len < 2 ^ 31" using l unfolding uint_nat by linarith
      then have "sint ?len = uint ?len" unfolding sint_uint
        by (intro signed_take_bit_int_eq_self) (auto intro: order_trans [OF _ uint_ge_0])
      then show ?thesis by simp
    qed
    have b: "unat ?base = unat base + (i + 1)" if "i + 1 < unat len"
    proof -
      have be: "?base = base + of_nat (i + 1)" by simp
      have "unat base + (i + 1) < 2 ^ 32" using that less.prems(3) by linarith
      then show ?thesis unfolding be unat_word_ariths(1) u by simp
    qed
    have rest: "(if ?len > 0 then find_loop env st msk search ?base ?len else [])
      = map (\<lambda>j. ?base + of_nat j) (filter (\<lambda>j. matches env st msk search (?base + of_nat j)) [0..<?n - (i + 1)])"
    proof (cases "?len > 0")
      case True
      then have g: "i + 1 < unat len" using l il by (simp add: word_less_nat_alt)
      then have "?base \<noteq> 0" using b by (metis add_is_0 unat_0 zero_neq_one)
      moreover have "unat ?base + unat ?len \<le> 2 ^ 32" using b [OF g] l less.prems(3) il by linarith
      moreover have "unat ?len < unat len" using l il by linarith
      ultimately have "find_loop env st msk search ?base ?len
        = map (\<lambda>j. ?base + of_nat j) (filter (\<lambda>j. matches env st msk search (?base + of_nat j)) [0..<unat ?len + 1 - length search])"
        using less.hyps s by blast
      moreover have "unat ?len + 1 - length search = ?n - (i + 1)" using l il by linarith
      ultimately show ?thesis using True by simp
    next
      case False
      then have "unat len = i + 1" using l il by (simp add: word_less_nat_alt)
      then show ?thesis using False assms(1) by (cases search) auto
    qed
    have "find_loop env st msk search base len
      = (base + of_nat i) # (if ?len > 0 then find_loop env st msk search ?base ?len else [])"
      using Some f by (subst find_loop.simps) (simp add: Let_def)
    then show ?thesis unfolding rest find_filter(1) [OF Some] by (simp add: o_def add_ac)
  qed
qed

text \<open>C27: A search of memory finds what it should: findstr, findw, findh and findhex, with their pattern and mask, print
  a line for each address in the part of the area that was asked for at which all bytes of the pattern are, under the mask,
  in ascending order, overlapping ones too, and nothing else.\<close>

theorem search_finds_every_match:
  assumes "\<not> g_protoff (p_prot st)" and "search \<noteq> []" and "\<And>m. msk = Some m \<Longrightarrow> length m = length search"
    and "n = min (unat sz) (nat (mem_left st addr (MEM_ATTRIB_READ OR MEM_ATTRIB_BYTE)))"
  shows "search_area env st addr sz msk search = Inr (CMD_OK, 0,
    map (\<lambda>i. println ''Found match at address 0x%p'' [Str (k_ptr env (addr + of_nat i))])
      (filter (\<lambda>i. \<forall>k < length search. mem_byte_at env st (addr + of_nat i + of_nat k) AND
          (case msk of None \<Rightarrow> - 1 | Some m \<Rightarrow> m ! k) = search ! k) [0..<n + 1 - length search]), st)"
proof -
  let ?left = "mem_left st addr (MEM_ATTRIB_READ OR MEM_ATTRIB_BYTE)"
  let ?len = "min sz (word_of_int ?left)"
  have un: "unat ?len = n"
    unfolding assms(4) unat_mem_left [symmetric] by (simp add: min_def word_le_nat_alt)
  have n: "n \<le> nat ?left" using assms(4) by simp
  have "uint ?len < 2 ^ 31" using un n mem_left_range [of st addr "MEM_ATTRIB_READ OR MEM_ATTRIB_BYTE"] unfolding uint_nat by simp
  then have "sint ?len = uint ?len" unfolding sint_uint
    by (intro signed_take_bit_int_eq_self) (auto intro: order_trans [OF _ uint_ge_0])
  then have s: "0 \<le> sint ?len" by simp
  have "find_loop env st msk search addr ?len
    = map (\<lambda>i. addr + of_nat i) (filter (\<lambda>i. matches env st msk search (addr + of_nat i)) [0..<n + 1 - length search])"
  proof (cases "0 < ?left")
    case True
    then obtain e where e: "e \<in> set g_memareas" "in_area e addr" and l: "uint addr + ?left = area_last e"
      using memValidate_area [OF assms(1)] by (auto simp: mem_left_def)
    have "area_last e < 2 ^ 32" using g_memareas_ok e(1) by (auto simp: areas_ok_def list_all_iff)
    then have "int (unat addr + n) \<le> int (2 ^ 32)" using l n True unfolding uint_nat of_nat_power of_nat_numeral by linarith
    then have "unat addr + unat ?len \<le> 2 ^ 32" unfolding un of_nat_le_iff .
    moreover have "list_all (\<lambda>e. \<not> in_area e 0) g_memareas" by code_simp
    then have "addr \<noteq> 0" using e by (auto simp: list_all_iff)
    ultimately show ?thesis using find_loop_matches [OF assms(2,3)] s un by blast
  next
    case False
    then have n0: "n = 0" using assms(4) by simp
    then have "?len = 0" using un by (simp only: unat_eq_0)
    then have "found_at env st msk search addr ?len = None"
      using assms(2) by (cases search) (auto simp: found_at_def memmem_mask_def split: option.split)
    then show ?thesis using n0 assms(2) by (cases search) (simp_all add: find_loop.simps)
  qed
  then show ?thesis by (simp add: search_area_def finish_def show_matches_def matches_def o_def)
qed

section \<open>Witnesses\<close>

definition demo_shell_env :: "unit senv" where
  "demo_shell_env = \<lparr>k_ph = (\<lambda>a. a AND 0x0FFFFFFF), k_calc = (\<lambda>_. demo_calc), k_ptr = fmt_X, k_float = (\<lambda>_ _. ''0''),
     k_io = \<lparr>io_open = (\<lambda>_ _ w. (- 1, w)), io_close = (\<lambda>_ w. (0, w)), io_read = (\<lambda>_ _ w. (Inl 0, w)), io_write = (\<lambda>_ _ w. (0, w)),
       io_remove = (\<lambda>_ w. (- 1, w)), io_rename = (\<lambda>_ _ w. (- 1, w)), io_load_module = (\<lambda>_ w. w)\<rparr>,
     k_call = (\<lambda>_ _ w. (0, w)), k_info = (\<lambda>_ _ w. (- 1, \<lparr>oi_name = [], oi_field = (\<lambda>_. 0)\<rparr>, w)), k_debugsec = 0, k_uid = (\<lambda>_ _. None),
     k_ids = (\<lambda>_ _ _. (- 1, [], 0))\<rparr>"

definition no_hw_regs :: HwDebugEnv where
  "no_hw_regs = \<lparr>DRCNTL = 0, IBC = 0, IBA = 0, IBAM = 0\<rparr>"

definition demo_shell :: "unit psp" where
  "demo_shell = 
     \<lparr>p_dbg = \<lparr>g_bps = [], d_mem = (\<lambda>_. 0x41414141), d_hw = no_hw_regs, psplinkHwContext = no_hw_regs\<rparr>,
      p_prot = \<lparr>g_isv1 = False, g_protoff = False\<rparr>, p_ctxs = no_ctxs,
      p_saved = (\<lambda>_. the (c_cur demo_calc)), p_regs = (\<lambda>_. \<lparr>er_status = 0, er_badvaddr = 0, er_fir = 0, er_fpr = [], er_vfpu = []\<rparr>),
      p_currdir = ''host0:/'', p_bootfile = Some ''host0:/psplink.prx'', p_bootpath = ''host0:/'', p_resetonexit = False,
      p_thevent = - 1, p_gdb = False, p_rebootkey = 0, p_pid = 0x1C9, p_usbhost = 1, p_md_addr = Some 0, p_md_type = 1, p_k = ()\<rparr>"

lemma demo_shell_ok:
  "aliasing (k_ph demo_shell_env)" "\<not> g_protoff (p_prot demo_shell)"
  "mem_left demo_shell 0x08804000 attrib = 0x17FC000"
proof -
  show "aliasing (k_ph demo_shell_env)" by (simp add: aliasing_def demo_shell_env_def same_place_def)
  show p: "\<not> g_protoff (p_prot demo_shell)" by (simp add: demo_shell_def)
  have "\<exists>e \<in> set g_memareas. in_area e 0x08804000 \<and> \<not> me_v1only e \<and> area_last e = 0x0A000000" by code_simp
  then show "mem_left demo_shell 0x08804000 attrib = 0x17FC000"
    using mem_left_area [OF p] by fastforce
qed

lemma denotes_text: "''0x'' @ print_hex (unat n) = t \<Longrightarrow> denotes env t n"
  using denotes_number by metis

lemma demo_numbers:
  "denotes env ''0x8804001'' 0x08804001" "denotes env ''0x8804004'' 0x08804004" "denotes env ''0x12345678'' 0x12345678"
  "denotes env ''0xcafe'' 0xCAFE"
  by (rule denotes_text, simp add: print_hex_def digits_of.simps digit_char_def char_of_def bit_Suc_0_iff)+

theorem poke_then_peek_witness:
  "\<exists>st1. pokew_cmd demo_shell_env [''0x8804001'', ''0x12345678'', ''0xcafe''] demo_shell = Inr (CMD_OK, 0, [], st1)
     \<and> peekw_cmd demo_shell_env [''0x8804004''] st1 = Inr (CMD_OK, 0, [println ''0x%08X: 0x%08X'' [Num 0x08804004, Num 0xCAFE]], st1)"
proof -
  have v: "list_all2 (denotes demo_shell_env) [''0x12345678'', ''0xcafe''] [0x12345678, 0xCAFE]" by (simp add: demo_numbers)
  obtain st1 where "pokew_cmd demo_shell_env [''0x8804001'', ''0x12345678'', ''0xcafe''] demo_shell = Inr (CMD_OK, 0, [], st1)"
    and p: "\<forall>i < length [0x12345678, 0xCAFE :: u32]. \<forall>u. denotes demo_shell_env u (0x08804000 + of_nat (4 * i)) \<longrightarrow>
         peekw_cmd demo_shell_env [u] st1 = Inr (CMD_OK, 0, [println ''0x%08X: 0x%08X''
           [Num (0x08804000 + of_nat (4 * i)), Num ([0x12345678, 0xCAFE] ! i)]], st1)"
    using poke_then_peek [OF demo_shell_ok(1,2) demo_numbers(1) v, where addr = "0x08804000"] demo_shell_ok(3) by auto
  then show ?thesis using spec [OF p, of 1] demo_numbers(2) by auto
qed

theorem memory_commands_stay_valid_witness:
  "\<exists>st1. pokew_cmd demo_shell_env [''0x8804001'', ''0x12345678'', ''0xcafe''] demo_shell = Inr (CMD_OK, 0, [], st1)
     \<and> p_currdir st1 = ''host0:/'' \<and> writable (p_prot demo_shell) 0x08804000
     \<and> (\<forall>b. mem_byte_at demo_shell_env st1 b \<noteq> mem_byte_at demo_shell_env demo_shell b
          \<longrightarrow> (\<exists>x. same_place b x \<and> writable (p_prot demo_shell) x))"
proof -
  have v: "list_all2 (denotes demo_shell_env) [''0x12345678'', ''0xcafe''] [0x12345678, 0xCAFE]" by (simp add: demo_numbers)
  obtain st1 where p: "pokew_cmd demo_shell_env [''0x8804001'', ''0x12345678'', ''0xcafe''] demo_shell = Inr (CMD_OK, 0, [], st1)"
    using pokew_stores [OF demo_shell_ok(1) demo_numbers(1) v, where addr = "0x08804000" and st = demo_shell] demo_shell_ok(3) by auto
  have c: "list_all (\<lambda>a. length a < MAX_CLI) [''0x8804001'', ''0x12345678'', ''0xcafe'']" by (simp add: MAX_CLI_def)
  have "writable (p_prot demo_shell) 0x08804000" by code_simp
  then show ?thesis
    using memory_commands_stay_valid [where f = pokew_cmd and st = demo_shell, OF demo_shell_ok(1,2) c _ _ p] p
    by (auto simp: demo_shell_def)
qed

theorem search_finds_every_match_witness:
  "search_area demo_shell_env demo_shell 0x08804000 4 None [0x41, 0x41] = Inr (CMD_OK, 0,
     map (\<lambda>i. println ''Found match at address 0x%p'' [Str (k_ptr demo_shell_env (0x08804000 + of_nat i))]) [0, 1, 2], demo_shell)"
proof -
  have b: "mem_byte_at demo_shell_env demo_shell a = 0x41" for a
    using byte_shift_cases [of a] by (auto simp: mem_byte_at_def lb_def demo_shell_def)
  have "4 = min (unat (4 :: u32)) (nat (mem_left demo_shell 0x08804000 (MEM_ATTRIB_READ OR MEM_ATTRIB_BYTE)))"
    unfolding demo_shell_ok(3) by simp
  then show ?thesis
    using search_finds_every_match [OF demo_shell_ok(2), of "[0x41, 0x41]" None 4 4 "0x08804000" demo_shell_env]
    by (simp add: b upt_rec numeral_eq_Suc less_Suc_eq)
qed

end
