(* ===== verification/PathNormal.thy ===== *)
theory PathNormal
  imports ShellFiles HostPath ShellMemProps
begin

unbundle bit_operations_syntax

text \<open>
  The two programs agree on paths: \<^verbatim>\<open>normalize_path\<close> of the PSP (\<^verbatim>\<open>psplink/util.c\<close>) cuts the dots out of a path in
  place, \<^verbatim>\<open>gen_path\<close> of the PC server (\<^verbatim>\<open>usbhostfs_pc/main.c\<close>) builds the path from its tokens again.
\<close>

section \<open>Directories after each other\<close>

definition dirs :: "string list \<Rightarrow> string" where
  "dirs ss = concat (map (\<lambda>s. CHR ''/'' # s) ss)"

lemma dirs_simps [simp]: "dirs [] = []" "dirs (s # ss) = CHR ''/'' # s @ dirs ss" "dirs (xs @ ys) = dirs xs @ dirs ys"
  by (simp_all add: dirs_def)

lemma emit_dirs: "CHR ''/'' # emit_tokens True ts = dirs ts @ ''/''"
  by (induction ts) simp_all

text \<open>One directory more, as the loop of the PSP takes it: the empty one is dropped too.\<close>

definition dir_step :: "string list \<Rightarrow> string \<Rightarrow> string list" where
  "dir_step out s = (if s = [] then out else dot_step out s)"

lemma next_slash_here:
  "CHR ''/'' \<notin> set s \<Longrightarrow> i = length a \<Longrightarrow> next_slash (a @ s @ CHR ''/'' # r) i = Some (i + length s)"
  by (simp add: next_slash_def strchr_append)

lemma next_slash_none: "CHR ''/'' \<notin> set s \<Longrightarrow> i = length a \<Longrightarrow> next_slash (a @ s) i = None"
  by (simp add: next_slash_def strchr_def)

lemma slash_back_dir:
  assumes "a \<noteq> []" and "CHR ''/'' \<notin> set s" and "l = length a + 1 + length s"
  shows "slash_back (a @ CHR ''/'' # s @ r) l = length a"
proof -
  have u: "[1..<l] = [1..<length a] @ length a # [length a + 1..<l]"
  proof -
    have "[1..<l] = [1..<length a] @ [length a..<l]" using assms(1,3) upt_add_eq_append [of 1 "length a" "l - length a"] by (cases a) auto
    also have "[length a..<l] = length a # [length a + 1..<l]" using assms(3) by (simp add: upt_rec)
    finally show ?thesis .
  qed
  have n: "(a @ CHR ''/'' # s @ r) ! i \<noteq> CHR ''/''" if "i \<in> set (rev [length a + 1..<l])" for i
  proof -
    have "length a < i" "i < l" using that by auto
    then obtain k where k: "i = Suc (length a + k)" using less_imp_Suc_add by blast
    then have "k < length s" using \<open>i < l\<close> assms(3) by simp
    then have "s ! k \<noteq> CHR ''/''" using assms(2) by (metis nth_mem)
    then show ?thesis using \<open>k < length s\<close> by (simp add: k nth_append)
  qed
  have "List.find (\<lambda>i. (a @ CHR ''/'' # s @ r) ! i = CHR ''/'') (rev [1..<l]) = Some (length a)"
  proof -
    have "List.find P (xs @ y # ys) = Some y" if "\<And>x. x \<in> set xs \<Longrightarrow> \<not> P x" "P y" for P :: "nat \<Rightarrow> bool" and xs y ys
      using that by (induction xs) auto
    from this [of "rev [length a + 1..<l]"] n show ?thesis unfolding u by (simp add: nth_append)
  qed
  then show ?thesis by (simp add: slash_back_def)
qed

lemma slash_back_root: "CHR ''/'' \<notin> set a \<Longrightarrow> slash_back (a @ r) (length a) = length a"
proof -
  assume "CHR ''/'' \<notin> set a"
  then have "(a @ r) ! i \<noteq> CHR ''/''" if "i < length a" for i using that by (metis nth_append nth_mem)
  then have "List.find (\<lambda>i. (a @ r) ! i = CHR ''/'') (rev [1..<length a]) = None" by (auto simp: find_None_iff)
  then show ?thesis by (simp add: slash_back_def)
qed

text \<open>A step of the loop at the slash after the directory \<open>s\<close>.\<close>

lemma norm_step_dir:
  assumes "dev \<noteq> []" and "CHR ''/'' \<notin> set dev" and "\<forall>t \<in> set out. CHR ''/'' \<notin> set t" and "CHR ''/'' \<notin> set s"
  shows "norm_step (dev @ dirs out @ CHR ''/'' # s @ CHR ''/'' # r) (Some (length (dev @ dirs out))) (length (dev @ dirs out) + 1 + length s)
    = (dev @ dirs (dir_step out s) @ CHR ''/'' # r, length (dev @ dirs (dir_step out s)))"
proof -
  let ?a = "dev @ dirs out"
  let ?path = "?a @ CHR ''/'' # s @ CHR ''/'' # r" and ?l = "length ?a"
  have seg: "take (?l + 1 + length s - ?l) (drop ?l ?path) = CHR ''/'' # s" by simp
  have rest: "drop (?l + 1 + length s) ?path = CHR ''/'' # r" by simp
  have cut: "take ?l ?path = ?a" by simp
  consider "s = [] \<or> s = ''.''" | "s = ''..''" | "s \<noteq> []" "s \<noteq> ''.''" "s \<noteq> ''..''" by blast
  then show ?thesis
  proof cases
    case 1
    then show ?thesis unfolding norm_step_def option.case Let_def seg rest cut by (auto simp: dir_step_def dot_step_def)
  next
    case 2
    have "slash_back ?path ?l = length (dev @ dirs (butlast out)) \<and> take (length (dev @ dirs (butlast out))) ?path = dev @ dirs (butlast out)"
    proof (cases out rule: rev_cases)
      case Nil
      then show ?thesis using slash_back_root [OF assms(2)] by simp
    next
      case (snoc ts t)
      have "slash_back ((dev @ dirs ts) @ CHR ''/'' # t @ CHR ''/'' # s @ CHR ''/'' # r) ?l = length (dev @ dirs ts)"
        using assms(1,3) by (intro slash_back_dir) (simp_all add: snoc)
      then show ?thesis by (simp add: snoc)
    qed
    then show ?thesis unfolding norm_step_def option.case Let_def seg rest using 2 by (simp add: dir_step_def dot_step_def)
  next
    case 3
    then show ?thesis unfolding norm_step_def option.case Let_def seg by (simp add: dir_step_def dot_step_def)
  qed
qed

lemma dir_step_slash:
  "\<forall>t \<in> set out. CHR ''/'' \<notin> set t \<Longrightarrow> CHR ''/'' \<notin> set s \<Longrightarrow> \<forall>t \<in> set (dir_step out s). CHR ''/'' \<notin> set t"
  by (auto simp: dir_step_def dot_step_def dest: in_set_butlastD)

lemma norm_loop_dirs:
  assumes "dev \<noteq> []" and "CHR ''/'' \<notin> set dev"
  shows "\<forall>t \<in> set out. CHR ''/'' \<notin> set t \<Longrightarrow> \<forall>t \<in> set (s # ss). CHR ''/'' \<notin> set t \<Longrightarrow>
    norm_loop (dev @ dirs out @ dirs (s # ss) @ ''/'') (Some (length (dev @ dirs out))) (length (dev @ dirs out) + 1 + length s)
    = dev @ dirs (foldl dir_step out (s # ss)) @ ''/''"
proof (induction ss arbitrary: out s)
  case Nil
  let ?a = "dev @ dirs (dir_step out s)"
  have "next_slash (?a @ CHR ''/'' # []) (length ?a + 1) = None"
    using next_slash_none [of "[]" _ "?a @ ''/''"] by simp
  then show ?case using norm_step_dir [OF assms Nil.prems(1), of s "[]"] Nil.prems(2)
    by (subst norm_loop.simps) simp
next
  case (Cons u ss)
  let ?a = "dev @ dirs (dir_step out s)"
  let ?r = "u @ dirs ss @ ''/''"
  have s: "CHR ''/'' \<notin> set s" "CHR ''/'' \<notin> set u" using Cons.prems(2) by simp_all
  obtain r where r: "dirs ss @ ''/'' = CHR ''/'' # r" by (cases ss) auto
  have "next_slash (?a @ CHR ''/'' # ?r) (length ?a + 1) = Some (length ?a + 1 + length u)"
    using next_slash_here [OF s(2), of "length ?a + 1" "?a @ ''/''" r] by (simp add: r)
  moreover have "norm_step (dev @ dirs out @ CHR ''/'' # s @ CHR ''/'' # ?r) (Some (length (dev @ dirs out)))
      (length (dev @ dirs out) + 1 + length s) = (?a @ CHR ''/'' # ?r, length ?a)"
    using norm_step_dir [OF assms Cons.prems(1) s(1), of ?r] by simp
  moreover have "norm_loop (dev @ dirs (dir_step out s) @ dirs (u # ss) @ ''/'') (Some (length ?a)) (length ?a + 1 + length u)
      = dev @ dirs (foldl dir_step (dir_step out s) (u # ss)) @ ''/''"
    using Cons.IH [of "dir_step out s" u] dir_step_slash [OF Cons.prems(1) s(1)] Cons.prems(2) by simp
  ultimately show ?case by (subst norm_loop.simps) simp
qed

section \<open>The directories of a path\<close>

lemma path_dirs:
  "p \<noteq> [] \<Longrightarrow> hd p = CHR ''/'' \<Longrightarrow> last p = CHR ''/'' \<Longrightarrow> \<exists>ss. p = dirs ss @ ''/'' \<and> (\<forall>s \<in> set ss. CHR ''/'' \<notin> set s)"
proof (induction "length p" arbitrary: p rule: less_induct)
  case less
  then obtain q where p: "p = CHR ''/'' # q" by (cases p) auto
  show ?case
  proof (cases "q = []")
    case True
    then show ?thesis by (intro exI [of _ "[]"]) (simp add: p)
  next
    case False
    then have "CHR ''/'' \<in> set q" using less.prems(3) last_in_set [of q] by (simp add: p)
    then obtain s r where q: "q = s @ CHR ''/'' # r" and s: "CHR ''/'' \<notin> set s" by (metis split_list_first)
    have "last (CHR ''/'' # r) = CHR ''/''" using less.prems(3) by (auto simp: p q)
    then obtain ss where "CHR ''/'' # r = dirs ss @ ''/''" "\<forall>s \<in> set ss. CHR ''/'' \<notin> set s"
      using less.hyps [of "CHR ''/'' # r"] by (auto simp: p q)
    then show ?thesis using s by (intro exI [of _ "s # ss"]) (simp add: p q)
  qed
qed

lemma components_dirs:
  "\<forall>s \<in> set ss. CHR ''/'' \<notin> set s \<Longrightarrow> components (dirs ss @ ''/'') = filter (\<lambda>s. s \<noteq> []) ss"
proof (induction ss)
  case (Cons s ss)
  obtain r where r: "dirs ss @ ''/'' = CHR ''/'' # r" by (cases ss) auto
  have "components (dirs (s # ss) @ ''/'') = components s @ components r"
    by (simp add: r components_append)
  moreover have "components r = filter (\<lambda>s. s \<noteq> []) ss" using Cons r components_slash by (metis list.set_intros(2))
  moreover have "components s = (if s = [] then [] else [s])" using Cons.prems by (simp add: components_seg segment_def)
  ultimately show ?case by simp
qed simp

lemma foldl_dir_step: "foldl dir_step out ss = foldl dot_step out (filter (\<lambda>s. s \<noteq> []) ss)"
  by (induction ss arbitrary: out) (simp_all add: dir_step_def)

lemma normalize_dirs:
  assumes "dev \<noteq> []" and "CHR ''/'' \<notin> set dev" and "\<forall>s \<in> set ss. CHR ''/'' \<notin> set s"
  shows "normalize_path (dev @ dirs ss @ ''/'') = Some (dev @ dirs (foldl dir_step [] ss) @ ''/'')"
proof -
  obtain r where r: "dirs ss @ ''/'' = CHR ''/'' # r" by (cases ss) auto
  have h: "hd (dev @ q) \<noteq> CHR ''/''" for q using assms(1,2) by (cases dev) auto
  have n0: "next_slash (dev @ CHR ''/'' # r) 0 = Some (length dev)"
    using next_slash_here [OF assms(2), of 0 "[]" r] by simp
  have l: "norm_loop (dev @ CHR ''/'' # r) None (length dev) =
      (case next_slash (dev @ CHR ''/'' # r) (length dev + 1) of None \<Rightarrow> dev @ CHR ''/'' # r
       | Some c \<Rightarrow> norm_loop (dev @ CHR ''/'' # r) (Some (length dev)) c)"
    by (subst norm_loop.simps) (simp add: norm_step_def)
  have "norm_loop (dev @ CHR ''/'' # r) None (length dev) = dev @ dirs (foldl dir_step [] ss) @ ''/''"
  proof (cases ss)
    case Nil
    then have "r = []" using r by simp
    then show ?thesis using l next_slash_none [of "[]" "length dev + 1" "dev @ ''/''"] by (simp add: Nil)
  next
    case (Cons s ts)
    obtain q where q: "dirs ts @ ''/'' = CHR ''/'' # q" by (cases ts) auto
    then have rq: "r = s @ CHR ''/'' # q" using r by (simp add: Cons)
    have "next_slash (dev @ CHR ''/'' # r) (length dev + 1) = Some (length dev + 1 + length s)"
      using next_slash_here [of s "length dev + 1" "dev @ ''/''" q] assms(3) by (simp add: Cons rq)
    then show ?thesis using l norm_loop_dirs [OF assms(1,2), of "[]" s ts] assms(3) r by (simp add: Cons q rq)
  qed
  then show ?thesis using h [of "[]"] by (simp add: normalize_path_def r n0 assms(1))
qed



section \<open>The current directory\<close>

lemma foldl_dir_plain: "\<forall>s \<in> set ss. CHR ''/'' \<notin> set s \<Longrightarrow> \<forall>t \<in> set (foldl dir_step [] ss). plain t"
  unfolding foldl_dir_step by (rule foldl_dot_plain) (auto simp: segment_def)

lemma normalize_plain:
  assumes "normalize_path p = Some q" and "p \<noteq> []" and "last p = CHR ''/''"
  obtains dev ts where "q = dev @ dirs ts @ ''/''" and "dev \<noteq> []" and "CHR ''/'' \<notin> set dev" and "\<forall>t \<in> set ts. plain t"
proof -
  have "CHR ''/'' \<in> set p" using assms(2,3) last_in_set by metis
  then obtain dev r where p: "p = dev @ CHR ''/'' # r" and d: "CHR ''/'' \<notin> set dev" by (metis split_list_first)
  have n: "dev \<noteq> []" using assms(1) by (cases dev) (auto simp: p normalize_path_def)
  have "last (CHR ''/'' # r) = CHR ''/''" using assms(3) by (simp add: p)
  then obtain ss where "CHR ''/'' # r = dirs ss @ ''/''" and ss: "\<forall>s \<in> set ss. CHR ''/'' \<notin> set s"
    using path_dirs [of "CHR ''/'' # r"] by auto
  then have "q = dev @ dirs (foldl dir_step [] ss) @ ''/''" using assms(1) normalize_dirs [OF n d ss] by (simp add: p)
  then show ?thesis using that n d foldl_dir_plain [OF ss] by blast
qed

lemma map_sum_Inr: "map_sum id f x = Inr y \<longleftrightarrow> (\<exists>z. x = Inr z \<and> y = f z)"
  by (cases x) auto

lemma handlepath_dir:
  assumes "handlepath env cur rel TYPE_DIR valid k = Inr (True, path, out, k1)"
  shows "out = []" and "\<exists>p. normalize_path p = Some path \<and> p \<noteq> [] \<and> last p = CHR ''/''"
proof -
  have e: "end_slash TYPE_DIR s \<noteq> [] \<and> last (end_slash TYPE_DIR s) = CHR ''/''" if "s \<noteq> []" for s
    using that by (auto simp: end_slash_def)
  show "out = []" and "\<exists>p. normalize_path p = Some path \<and> p \<noteq> [] \<and> last p = CHR ''/''"
    using assms e unfolding handlepath_def Let_def
    by (auto split: if_splits sum.splits option.splits bool.splits prod.splits simp: map_sum_Inr)
qed





end
