(* ===== verification/Restart.thy ===== *)
theory Restart
  imports ShellStart ShellMemProps
begin

unbundle bit_operations_syntax

text \<open>
  The restart of the shell (\<^verbatim>\<open>psplinkReset\<close>, \<^verbatim>\<open>initialise\<close>): what a run of a sequence leaves, as the weakest condition
  before it, and that the shell comes back in the directory it was in.
\<close>

section \<open>What holds after a sequence\<close>

definition post :: "('k, 'a) act \<Rightarrow> ('a \<Rightarrow> 'k psp \<Rightarrow> bool) \<Rightarrow> 'k psp \<Rightarrow> bool" where
  "post m q st \<longleftrightarrow> (case m st of Inl _ \<Rightarrow> True | Inr (x, out, st1) \<Rightarrow> q x st1)"

lemma post_simps [simp]:
  "post (sh_bind m f) q st = post m (\<lambda>x. post (f x) q) st"
  "post (sh_then m1 n) q st = post m1 (\<lambda>_. post n q) st"
  "post (sh_ret x) q st = q x st" "post (sh_say t) q2 st = q2 () st" "post (sh_fault e) q st"
  "post (sh_set g) q2 st = q2 () (g st)" "post (sh_ask h) q3 st = q3 (h st) st"
  "post (sh_when b m1) q2 st = (if b then post m1 q2 st else q2 () st)"
  by (auto simp: post_def sh_bind_def sh_then_def sh_ret_def sh_say_def sh_fault_def sh_set_def sh_ask_def sh_when_def
      split: sum.splits prod.splits)

lemma post_mono: "post m q st \<Longrightarrow> (\<And>x s. q x s \<Longrightarrow> q' x s) \<Longrightarrow> post m q' st"
  by (auto simp: post_def split: sum.splits)

text \<open>The file and the directory of the shell.\<close>

definition same_place_in :: "'k psp \<Rightarrow> 'k psp \<Rightarrow> bool" where
  "same_place_in st s \<longleftrightarrow> p_bootfile s = p_bootfile st \<and> p_currdir s = p_currdir st"

definition stays :: "('k, 'a) act \<Rightarrow> bool" where
  "stays m \<longleftrightarrow> (\<forall>st. post m (\<lambda>_. same_place_in st) st)"

lemma stays_post: "stays m \<Longrightarrow> (\<And>x s. same_place_in st s \<Longrightarrow> q x s) \<Longrightarrow> post m q st"
  unfolding stays_def by (blast intro: post_mono)

named_theorems stay

lemma stays_bind [stay]:
  assumes "stays m" and "\<And>x. stays (f x)"
  shows "stays (sh_bind m f)"
proof -
  have "post m (\<lambda>x. post (f x) (\<lambda>_. same_place_in st)) st" for st
  proof (rule stays_post [OF assms(1)])
    fix x s assume s: "same_place_in st s"
    show "post (f x) (\<lambda>_. same_place_in st) s"
      using s by (intro stays_post [OF assms(2)]) (simp add: same_place_in_def)
  qed
  then show ?thesis by (simp add: stays_def)
qed

lemma stays_seq [stay]:
  "stays m \<Longrightarrow> stays n \<Longrightarrow> stays (sh_then m n)" "stays m \<Longrightarrow> stays (sh_when b m)"
  "stays (sh_ret x)" "stays (sh_say t)" "stays (sh_fault e)" "stays (sh_ask h)"
  by (auto simp: sh_then_def intro: stays_bind) (simp_all add: stays_def same_place_in_def sh_when_def)

lemma stays_field [stay]: "(\<And>st. same_place_in st (g st)) \<Longrightarrow> stays (sh_set g)"
  by (simp add: stays_def)

lemma stays_kernel [stay]:
  "stays (sh_call env fn as)" "stays (sh_do env fn as)" "stays (sh_info env fn as)"
  "stays (\<lambda>st. map_sum id (\<lambda>(r, k). (f r, [], with_k st k)) (c st))" "stays (\<lambda>st. map_sum id (\<lambda>a. (a, [], st)) (d st))"
  "stays (\<lambda>st. map_sum id (\<lambda>k. (u, [], with_k st k)) (e st))"
  by (auto simp: stays_def post_def sh_call_def sh_do_def sh_bind_def sh_ret_def sh_info_def with_k_def same_place_in_def
      map_sum_def split: sum.splits prod.splits)



lemma stays_set_debug_register [stay]: "stays (set_debug_register env f)"
  by (auto simp: stays_def post_def set_debug_register_def Let_def same_place_in_def map_sum_def split: sum.splits)

lemma stays_parts [stay]:
  "stays (load_config env)" "stays (load_prx env b p)" "stays (enable_kprintf env e)" "stays (init_usbhost env b)"
  "stays (unload_loader env)"
  unfolding load_config_def [abs_def] load_prx_def enable_kprintf_def init_usbhost_def unload_loader_def
  by (auto intro!: stay simp: same_place_in_def split: option.split)

lemma stays_patch [stay]: "stays (psplinkPatchException env a)"
proof -
  let ?m = "\<lambda>x. sh_then (sh_do env ''sceKernelDcacheWritebackInvalidateRange'' [Num x, Num 4])
      (sh_then (sh_do env ''sceKernelIcacheInvalidateRange'' [Num x, Num 4]) (sh_ret (0 :: int)))"
  have m: "post (?m x) (\<lambda>_. same_place_in st) (st\<lparr>p_dbg := d\<rparr>)" for x st d
  proof (rule stays_post)
    show "stays (?m x)" by (intro stay)
  qed (simp add: same_place_in_def)
  have "post (psplinkPatchException env a) (\<lambda>_. same_place_in st) st" for st
  proof (cases "libsFindExportAddrByNid (c_libs (calc_of env st)) (refer_module_by_name env ''sceExceptionManager'' st)
      (Some ''ExceptionManagerForKernel'') 0x565C0B0E")
    case (Inl f)
    then show ?thesis by (simp add: post_def psplinkPatchException_def)
  next
    case (Inr o1)
    show ?thesis
    proof (cases o1)
      case None
      then show ?thesis using Inr by (simp add: post_def psplinkPatchException_def sh_ret_def same_place_in_def)
    next
      case (Some x)
      show ?thesis
      proof (cases "sw (k_ph env) a x (p_dbg st)")
        case (Inl f)
        then show ?thesis using Inr Some by (simp add: post_def psplinkPatchException_def)
      next
        case d: (Inr d)
        have "psplinkPatchException env a st = ?m x (st\<lparr>p_dbg := d\<rparr>)"
          unfolding psplinkPatchException_def using Inr Some d by simp
        then show ?thesis using m [of x st d] unfolding post_def by simp
      qed
    qed
  qed
  then show ?thesis by (simp add: stays_def)
qed

section \<open>The arguments\<close>

lemma parse_args_step:
  assumes "CHR 0x00 \<notin> set a"
  shows "parse_args_from n (a @ CHR 0x00 # s) = (if n + 1 = MAX_ARGS - 1 then Inr [a] else map_sum id ((#) a) (parse_args_from (n + 1) s))"
proof -
  have t: "takeWhile (\<lambda>c. c \<noteq> CHR 0x00) (a @ CHR 0x00 # s) = a" using assms by (induction a) auto
  have d: "drop (length a + 1) (a @ CHR 0x00 # s) = s" by simp
  show ?thesis by (subst parse_args_from.simps) (simp only: t d Let_def, simp)
qed

lemma parse_args_texts:
  "list_all (\<lambda>a. CHR 0x00 \<notin> set a) as \<Longrightarrow> n < MAX_ARGS - 1 \<Longrightarrow>
    parse_args_from n (concat (map (\<lambda>a. a @ [CHR 0x00]) as)) = Inr (take (MAX_ARGS - 1 - n) as)"
proof (induction as arbitrary: n)
  case Nil
  then show ?case by (simp add: parse_args_from.simps)
next
  case (Cons a as)
  then show ?case
    using parse_args_step [of a n "concat (map (\<lambda>a. a @ [CHR 0x00]) as)"] Cons.IH [of "n + 1"]
    by (auto simp: take_Cons' Suc_diff_Suc)
qed

lemma build_args_parsed:
  "build_args file argv = Inr s \<Longrightarrow> list_all (\<lambda>a. CHR 0x00 \<notin> set a) (file # argv) \<Longrightarrow> parse_sceargs s = Inr (take 15 (file # argv))"
  using parse_args_texts [of "file # argv" 0] by (simp add: build_args_def parse_sceargs_def MAX_ARGS_def Let_def split: if_splits)

lemma reset_args_parsed:
  "reset_args file cur = Inr s \<Longrightarrow> CHR 0x00 \<notin> set file \<Longrightarrow> CHR 0x00 \<notin> set cur \<Longrightarrow> parse_sceargs s = Inr [file, cur]"
  using parse_args_texts [of "[file, cur]" 0] by (simp add: reset_args_def parse_sceargs_def MAX_ARGS_def Let_def split: if_splits)

section \<open>The restart\<close>

lemma post_seqI:
  "post m (\<lambda>x. post (f x) q) st \<Longrightarrow> post (sh_bind m f) q st" "post m1 (\<lambda>_. post n q) st \<Longrightarrow> post (sh_then m1 n) q st"
  by simp_all

lemma post_take_args:
  "(\<And>s. p_bootfile s = Some file \<Longrightarrow> q () s) \<Longrightarrow> post (take_args (file # as)) q st"
  by (simp add: take_args_def split: sum.split)

lemma post_keep_file:
  "stays m \<Longrightarrow> p_bootfile st = Some file \<Longrightarrow> (\<And>x s. p_bootfile s = Some file \<Longrightarrow> q x s) \<Longrightarrow> post m q st"
  by (erule stays_post) (simp add: same_place_in_def)

lemma post_shellInit:
  "p_bootfile st = Some file \<Longrightarrow> (\<And>s. p_bootfile s = Some file \<and> p_currdir s = d \<Longrightarrow> q () s) \<Longrightarrow> post (shellInit d) q st"
  by (simp add: shellInit_def)

lemma post_keep_place:
  "stays m \<Longrightarrow> p_bootfile st = Some file \<and> p_currdir st = cur \<Longrightarrow> post m (\<lambda>_ s. p_bootfile s = Some file \<and> p_currdir s = cur) st"
  by (erule stays_post) (simp add: same_place_in_def)

text \<open>C39: After a reset the shell is where it was: the new start, given the arguments that the reset passes on, has the same
  file for the next reset and the same current directory, whatever its memory holds, the kernel answers and the
  configuration says, provided it gets through.\<close>

theorem reset_keeps_place:
  assumes "reset_args file cur = Inr argp" and "CHR 0x00 \<notin> set file" and "CHR 0x00 \<notin> set cur"
    and "initialise env dummy exit_fn argp st = Inr ((), out, st1)"
  shows "p_bootfile st1 = Some file \<and> p_currdir st1 = cur"
proof -
  let ?q = "\<lambda>_ s. p_bootfile s = Some file \<and> p_currdir s = cur"
  have dir: "(if length [file, cur] > 1 then [file, cur] ! 1 else ''host0:/'') = cur" by simp
  have "post (initialise env dummy exit_fn argp) ?q st"
    unfolding initialise_def reset_args_parsed [OF assms(1-3)] sum.case dir
    apply (rule post_seqI, subst post_simps(6))
    apply (rule post_seqI, rule post_take_args)
    apply (rule post_seqI, rule post_keep_file, (intro stay; simp add: same_place_in_def), assumption)+
    apply (rule post_seqI, rule post_shellInit, assumption)
    apply (rule post_keep_place)
     apply (intro stay; simp add: same_place_in_def)
    apply assumption
    done
  then show ?thesis using assms(4) by (simp add: post_def)
qed


definition reset_shell :: "unit psp" where
  "reset_shell = demo_shell\<lparr>p_dbg := (p_dbg demo_shell)\<lparr>d_mem := (\<lambda>_. 0)\<rparr>\<rparr>"

theorem reset_keeps_place_witness:
  "\<exists>out st1. initialise demo_shell_env 0x88000000 0x88001000 (''host0:/psplink.prx'' @ [CHR 0x00] @ ''host0:/game/'' @ [CHR 0x00])
       reset_shell = Inr ((), out, st1)
     \<and> p_bootfile st1 = Some ''host0:/psplink.prx'' \<and> p_currdir st1 = ''host0:/game/''"
proof -
  let ?r = "initialise demo_shell_env 0x88000000 0x88001000 (''host0:/psplink.prx'' @ [CHR 0x00] @ ''host0:/game/'' @ [CHR 0x00]) reset_shell"
  have "\<not> isl ?r" by code_simp
  then obtain out st1 where r: "?r = Inr ((), out, st1)" by (cases ?r) auto
  have a: "reset_args ''host0:/psplink.prx'' ''host0:/game/'' = Inr (''host0:/psplink.prx'' @ [CHR 0x00] @ ''host0:/game/'' @ [CHR 0x00])"
    by (simp add: reset_args_def)
  show ?thesis using reset_keeps_place [OF a _ _ r] r by auto
qed

end
