(* ===== verification/StackProps.thy ===== *)
theory StackProps
  imports Stacktrace
begin

unbundle bit_operations_syntax

text \<open>
  What the trace of a stack finds (\<^verbatim>\<open>psplink/trap.c\<close>) in a function as compilers write it: one instruction makes room
  on the stack, the next one saves the return address there, and what follows up to the position neither jumps, nor
  moves the stack pointer, nor saves the return address again.
\<close>

section \<open>Code of a function\<close>

definition ends_function :: "u32 \<Rightarrow> bool" where
  "ends_function w \<longleftrightarrow> w = MIPS_ERET \<or> w = MIPS_JR_RA \<or> w = MIPS_JR_K0"

definition moves_stack :: "u32 \<Rightarrow> bool" where
  "moves_stack w \<longleftrightarrow> i_op w \<in> {8, 9, 24, 25} \<and> i_rs w = 29 \<and> i_rt w = 29"

definition saves :: "u32 \<Rightarrow> u32 \<Rightarrow> bool" where
  "saves rt w \<longleftrightarrow> (i_op w = 0x2B \<or> i_op w = 0x3F) \<and> i_rs w = 29 \<and> i_rt w = rt"

text \<open>An instruction of the body.\<close>

definition body_instr :: "u32 \<Rightarrow> bool" where
  "body_instr w \<longleftrightarrow> scan_more w = None \<and> \<not> ends_function w \<and> \<not> moves_stack w"

definition code_at :: "(u32 \<Rightarrow> u32) \<Rightarrow> u32 \<Rightarrow> u32 list \<Rightarrow> bool" where
  "code_at rd a ws \<longleftrightarrow> (\<forall>i < length ws. rd (a + of_nat (4 * i)) = ws ! i)"

lemma code_at_Cons: "code_at rd a (w # ws) \<longleftrightarrow> rd a = w \<and> code_at rd (a + 4) ws"
proof -
  have "(\<forall>i < length (w # ws). rd (a + of_nat (4 * i)) = (w # ws) ! i) \<longleftrightarrow>
      rd a = w \<and> (\<forall>i < length ws. rd (a + of_nat (4 * Suc i)) = ws ! i)"
    by (simp add: All_less_Suc2)
  then show ?thesis by (simp add: code_at_def algebra_simps)
qed

text \<open>An address with room for \<open>n\<close> words after it.\<close>

definition room :: "u32 \<Rightarrow> nat \<Rightarrow> bool" where
  "room a n \<longleftrightarrow> a AND 3 = 0 \<and> a \<noteq> 0 \<and> unat a + 4 * n < 2 ^ 32"

lemma room_Suc: "room a (Suc n) \<Longrightarrow> room (a + 4) n"
proof -
  assume r: "room a (Suc n)"
  then have u: "unat (a + 4) = unat a + 4" by (simp add: room_def unat_word_ariths(1))
  have "(unat a) mod 4 = 0" using r and_3_unat [of a] by (simp add: room_def)
  then have "unat (a + 4 AND 3) = 0" using and_3_unat [of "a + 4"] u by simp
  then show ?thesis using r u by (auto simp: room_def unat_eq_0 [symmetric])
qed

lemma room_peek: "room a n \<Longrightarrow> kdbpeek rd a = rd a"
  by (simp add: room_def kdbpeek_def)

section \<open>The scan of the body\<close>

lemma scan_body:
  "\<forall>w \<in> set ws. body_instr w \<Longrightarrow> code_at rd a ws \<Longrightarrow> room a (length ws) \<Longrightarrow> s_size s = Some z \<Longrightarrow> 31 \<in> set (s_mask s) \<Longrightarrow>
    s_size (scan_frame (length ws) rd sp a 3 s) = Some z \<and> t_ra (s_regs (scan_frame (length ws) rd sp a 3 s)) = t_ra (s_regs s)"
proof (induction ws arbitrary: a s)
  case (Cons w ws)
  have w: "body_instr w" "rd a = w" "code_at rd (a + 4) ws" "room (a + 4) (length ws)"
    using Cons.prems by (auto simp: code_at_Cons intro: room_Suc)
  have p: "kdbpeek rd a = w" using Cons.prems(3) w(2) by (auto dest: room_peek)
  let ?s = "scan_instr rd sp w s"
  have "s_size ?s = Some z" "31 \<in> set (s_mask ?s)" "t_ra (s_regs ?s) = t_ra (s_regs s)"
    using Cons.prems(4,5) w(1) by (auto simp: scan_instr_def Let_def set_saved_def body_instr_def moves_stack_def)
  moreover have "scan_frame (length (w # ws)) rd sp a 3 s = scan_frame (length ws) rd sp (a + 4) 3 ?s"
    using w(1) by (simp add: p body_instr_def)
  ultimately show ?case using Cons.IH [of "a + 4" ?s] Cons.prems(1) w by simp
qed simp


lemma room_add: "room a n \<Longrightarrow> i \<le> n \<Longrightarrow> room (a + of_nat (4 * i)) (n - i) \<and> unat (a + of_nat (4 * i)) = unat a + 4 * i"
proof (induction i)
  case (Suc i)
  then have r: "room (a + of_nat (4 * i)) (n - i)" and u: "unat (a + of_nat (4 * i)) = unat a + 4 * i" by simp_all
  have n: "n - i = Suc (n - Suc i)" using Suc.prems by simp
  have e: "a + of_nat (4 * Suc i) = a + of_nat (4 * i) + 4" by (simp add: algebra_simps)
  have "unat a + 4 * i + 4 < 2 ^ 32" using Suc.prems by (simp add: room_def)
  then have "unat (a + of_nat (4 * i) + 4) = unat a + 4 * i + 4" using u by (simp add: unat_word_ariths(1) del: of_nat_mult)
  then show ?case using room_Suc [of "a + of_nat (4 * i)" "n - Suc i"] r n unfolding e by simp
qed simp

section \<open>The start of the function\<close>

lemma scan_back_body:
  "\<forall>w \<in> set ws. \<not> ends_function w \<Longrightarrow> code_at rd a ws \<Longrightarrow> room a (length ws) \<Longrightarrow> verylocore < a \<Longrightarrow>
    scan_back rd (a + of_nat (4 * length ws) - 4) = scan_back rd (a - 4)"
proof (induction ws rule: rev_induct)
  case (snoc w ws)
  let ?va = "a + of_nat (4 * length ws)"
  have r: "room ?va 1" "unat ?va = unat a + 4 * length ws" using room_add [OF snoc.prems(3), of "length ws"] by simp_all
  have "\<not> ?va \<le> verylocore" using snoc.prems(4) r(2) by (simp add: word_less_nat_alt not_le)
  moreover have "kdbpeek rd ?va = w"
    using snoc.prems(2) room_peek [OF r(1)] unfolding code_at_def by (metis length_append_singleton lessI nth_append_length)
  ultimately have "scan_back rd ?va = scan_back rd (?va - 4)"
    using snoc.prems(1) by (subst scan_back.simps) (simp add: ends_function_def)
  moreover have "code_at rd a ws" using snoc.prems(2) by (auto simp: code_at_def nth_append split: if_splits)
  moreover have "room a (length ws)" using snoc.prems(3) by (simp add: room_def)
  moreover have "a + of_nat (4 * length (ws @ [w])) - 4 = ?va" by (simp add: algebra_simps)
  ultimately show ?case using snoc.IH snoc.prems(1,4) by (metis Un_iff set_append)
qed simp

lemma straight: "i_op w \<in> {8, 9, 24, 25} \<Longrightarrow> scan_more w = None" "i_op w = 0x2B \<Longrightarrow> scan_more w = None"
  unfolding scan_more_def Let_def by (elim insertE emptyE; simp only:; simp) (simp only:; simp)



text \<open>A function at \<open>0x08804008\<close>, stopped at its third instruction.\<close>

definition demo_code :: "u32 \<Rightarrow> u32" where
  "demo_code a = (if a = 0x08804000 then 0x03e00008 else if a = 0x08804008 then 0x27BDFFE0 else if a = 0x0880400C then 0xAFBF0010
     else if a = 0x08804010 then 0x00851021 else if a = 0x09FFFF10 then 0x08804100 else 0)"

definition demo_trace :: trace where
  "demo_trace = \<lparr>t_a0 = 1, t_a1 = 2, t_a2 = 3, t_a3 = 4, t_fp = 0, t_ra = 0x08804014\<rparr>"


end
