(* ===== verification/Spec2Isabelle.thy ===== *)
theory Spec2Isabelle
  imports HostPathProps HostProps HostReplies AsyncProps LinkProps ThreadProps UsbLifecycle BreakpointHits DebugEventProps
    ExceptionCtx DecodeMem GdbMemory PspshMain ApiHookProps ConfigProps DisasmFaults ShellTable ShellMemProps PathNormal
    Restart StackProps
begin

text \<open>
  Verification of PSPLINK, the remote shell, debugger and USB file system of the PSP.

  \<^bold>\<open>The program.\<close> A PC and a PSP are joined by a USB cable. On the PC \<^verbatim>\<open>usbhostfs_pc\<close> serves the files below
  its drives and passes asynchronous channels on to other programs; on the PSP the driver \<^verbatim>\<open>usbhostfs\<close>
  offers those files as the device \<^verbatim>\<open>host:\<close> and the channels to the programs of the PSP. Over the
  channels run the shell: \<^verbatim>\<open>pspsh\<close> on the PC reads lines, splits them into words and sends them,
  \<^verbatim>\<open>psplink\<close> on the PSP executes them and prints in frames, which \<^verbatim>\<open>pspsh\<close> takes apart again; and the GDB stub
  \<^verbatim>\<open>usbgdb\<close>. Both use the debugger core of \<^verbatim>\<open>psplink\<close>.

  \<^bold>\<open>Conventions.\<close> C integers keep their width as words; a structure is a record, an enumeration a datatype;
  a function of the code is a function of the same name that returns the new state with its result. A
  statement that writes past a buffer, follows a bad pointer, reads an unterminated string, has no
  defined value or never ends gives a \<open>fault\<close> (\<open>Prelude\<close>). System calls and the kernel of the PSP are
  parameters: fields of a record of functions (\<open>os\<close>, \<open>pe\<close> on the PC, \<open>kn\<close>, \<open>denv\<close>, \<open>calc\<close>, \<open>genv\<close>, \<open>psp_io\<close>, \<open>senv\<close>
  on the PSP), or the \<open>fixes\<close> of a locale, with what the code relies on as named hypotheses. In the commands of
  the PSP shell a call of the kernel is named by its text (\<open>k_call\<close>: a result; \<open>k_info\<close>: a result and a filled
  structure, by the names of its fields; \<open>k_ids\<close>: a list of identifiers; \<open>k_uid\<close>: a block of the kernel's list of objects).

  \<^bold>\<open>Theories and sources.\<close>
  \<^item> \<open>Prelude\<close>, \<open>CLib\<close>, \<open>Util\<close>, \<open>ByteMem\<close>, \<open>Printf\<close>: machine types, C strings, little-endian fields, \<^verbatim>\<open>strtok\<close>, \<^verbatim>\<open>strtoul\<close>,
    the helpers of \<^verbatim>\<open>psplink/util.c\<close>, bytes in a memory of words, formatted texts.
  \<^item> \<open>Protocol\<close>: the packets of \<^verbatim>\<open>usbhostfs/usbhostfs.h\<close> and their byte layout.
  \<^item> \<open>HostOs\<close>, \<open>HostPath\<close>, \<open>HostServer\<close>, \<open>HostShell\<close>, \<open>HostSession\<close>: \<^verbatim>\<open>usbhostfs_pc/main.c\<close>: the system calls, the
    resolution of paths, every command handler, the console and the drive table, the command loop and
    the asynchronous and bulk channels. \<open>HostFiles\<close> is a file system that meets the laws of the locale the
    properties of files are proved in.
  \<^item> \<open>PspUsb\<close>, \<open>HostDriver\<close>, \<open>AsyncChan\<close>, \<open>UsbThread\<close>: \<^verbatim>\<open>usbhostfs/main.c\<close> and \<^verbatim>\<open>usbhostfs/host_driver.c\<close>: block
    transfers, the exchange of a command and its response, the operations of the device, the ring
    buffers, the USB thread with its callbacks, start and stop of the driver.
  \<^item> \<open>Link\<close>: both ends put together: the driver's calls are answered by the server's handlers.
  \<^item> \<open>Breakpoints\<close>, \<open>DebugEvents\<close>, \<open>ExceptionCtx\<close>: \<^verbatim>\<open>psplink/debug.c\<close>, \<^verbatim>\<open>psplink/exception.c\<close> and the handler of
    \<^verbatim>\<open>psplink/exception_asm.S\<close>: the breakpoint table over memory and the debug registers, stepping, the list
    of event handlers, the trap and the pool of contexts of stopped threads.
  \<^item> \<open>Libs\<close>, \<open>DecodeAddr\<close>, \<open>ApiHook\<close>, \<open>Config\<close>: \<^verbatim>\<open>psplink/libs.c\<close>, \<^verbatim>\<open>psplink/decodeaddr.c\<close>, \<^verbatim>\<open>psplink/apihook.c\<close> with the entries
    of \<^verbatim>\<open>psplink/kmode.S\<close>, \<^verbatim>\<open>psplink/config.c\<close>, \<^verbatim>\<open>psplink/psplinkcnf.c\<close>, \<^verbatim>\<open>psplink/modload.c\<close>: the libraries of modules, the
    memory map and the calculator, the hooks of functions, the configuration files.
  \<^item> \<open>GdbStub\<close>, \<open>GdbServer\<close>: \<^verbatim>\<open>usbgdb/gdb-stub.c\<close>, with the byte accesses of \<^verbatim>\<open>usbgdb/main.c\<close>, the register
    blocks of \<^verbatim>\<open>psplink/thctx.c\<close> and the threads of a module of \<^verbatim>\<open>psplink/util.c\<close>.
  \<^item> \<open>ParseArgs\<close>, \<open>ShellCommands\<close>, \<open>PspErrors\<close>, \<open>Pspsh\<close>, \<open>PspshMain\<close>: \<^verbatim>\<open>pspsh/parse_args.C\<close>, the table of \<^verbatim>\<open>psplink/shellcmd.h\<close> as
    each side expands it, the names of \<^verbatim>\<open>pspsh/psp_error.C\<close>, and \<^verbatim>\<open>pspsh/pspsh.C\<close>: words, quotes and redirections, the
    local commands, scripts, completion, the answers of the PSP, the loop of the program.
  \<^item> \<open>Asm\<close>, \<open>DisasmTables\<close>, \<open>Disasm\<close>: \<^verbatim>\<open>pspsh/asm.C\<close> and \<^verbatim>\<open>pspsh/disasm.C\<close>, with their tables of instructions.
  \<^item> \<open>UsbShell\<close>: \<^verbatim>\<open>psplink/usbshell.c\<close> and the thread of \<^verbatim>\<open>psplink/shell.c\<close> that executes commands.
  \<^item> \<open>ShellState\<close>, \<open>PspPath\<close>, \<open>ShellMem\<close>, \<open>ShellThreads\<close>, \<open>ShellModules\<close>, \<open>ShellFiles\<close>, \<open>ShellDebug\<close>, \<open>ShellSystem\<close>, \<open>ShellLists\<close>,
    \<open>ShellTable\<close>: every command of \<^verbatim>\<open>psplink/shell.c\<close>, over one state \<open>psp\<close> of the program, with the paths and
    arguments of \<^verbatim>\<open>psplink/util.c\<close>, the lists of \<^verbatim>\<open>psplink/memoryUID.c\<close>, and the printing of \<^verbatim>\<open>psplink/exception.c\<close>,
    \<^verbatim>\<open>psplink/debug.c\<close>, \<^verbatim>\<open>psplink/libs.c\<close>. A command is a function of its arguments and the state (\<open>sh_fun\<close>), put together
    by the sequences \<open>sh_bind\<close>, \<open>sh_then\<close>; \<open>ShellTable\<close> joins the functions with the table of commands and the thread.
  \<^item> \<open>ShellStart\<close>, \<open>Bitmap\<close>, \<open>Stacktrace\<close>: start, stop and reset (\<^verbatim>\<open>psplink/main.c\<close>), the frame dump (\<^verbatim>\<open>psplink/bitmap.c\<close>), the
    stack traces (\<^verbatim>\<open>psplink/trap.c\<close>).

  The other theories hold properties: \<open>HostPathProps\<close>, \<open>HostServerProps\<close>, \<open>HostConfine\<close>, \<open>HostProps\<close>, \<open>HostReplies\<close> (the
  server), \<open>AsyncProps\<close>, \<open>ThreadProps\<close>, \<open>UsbLifecycle\<close> (the driver), \<open>LinkProps\<close> (end to end), \<open>BreakpointInv\<close>,
  \<open>StepProps\<close>, \<open>BreakpointProps\<close>, \<open>BreakpointHits\<close>, \<open>DebugEventProps\<close> (the debugger), \<open>DecodeProps\<close>, \<open>DecodeMem\<close>
  (the calculator), \<open>GdbProps\<close>, \<open>GdbMemory\<close> (the stub), \<open>ParseProps\<close>, \<open>ShellProps\<close>, \<open>ShellScripts\<close> (from the line on the PC
  to the command on the PSP), \<open>ApiHookProps\<close>, \<open>ConfigProps\<close>, \<open>DisasmProps\<close>, \<open>DisasmTrip\<close>, \<open>DisasmFaults\<close> (the assembler and
  the disassembler), \<open>ShellMemProps\<close> (memory commands), \<open>PathNormal\<close> (paths of both programs), \<open>Restart\<close> (reset and
  start), \<open>StackProps\<close> (stack traces). \<open>Demo\<close> holds the small worlds of the examples.

  \<^bold>\<open>What is shown.\<close>
  \<^item> End to end: a read, a write and an open on the PSP have the effect of the file operation on the PC,
    over any number of blocks; the handshake of the two ends succeeds; the words of a line typed on the PC are the
    arguments of the command executed on the PSP; both programs resolve the dots of a path alike.
  \<^item> The server: no command reaches a file outside the roots of the drives; in every reachable state the
    handle tables are well formed; each answer has the type of its command; a saved
    drive table loads back; path buffers hold.
  \<^item> The driver: a channel is a queue across every wrap of its ring; no wake-up is lost; in every
    interleaving of callbacks, thread and users the connection is as the event flag says.
  \<^item> The debugger: breakpoints change memory at their own addresses only and are undone; a step stops at
    the next instruction, against a reference semantics of the branches of the processor, and leaves
    nothing behind; an exception goes along the list of handlers in order; contexts are exclusive; a stack trace
    unwinds a function as compilers write it.
  \<^item> The calculator: an expression has the value of its tree over the integers; only valid memory is read.
  \<^item> The shell: the commands that write to memory stay inside the valid areas; what is poked is peeked; a search
    finds all matches; the current directory is in normal form; a reset keeps the place; a change of the
    configuration changes one entry; deleting the hooks gives the memory back; both tables of commands agree.
  \<^item> Assembler and disassembler: the text of an instruction is assembled back to it, but for listed exceptions.
  \<^item> The stub: a packet is received as sent; what is written to memory is read back.
  \<^item> Errors of the code are theorems of the model too: each is stated for every input it concerns.

  \<^bold>\<open>Bounds and fuel.\<close> A loop that may not end is a partial function into options,
  and a theorem about it says that it returns (\<open>event_list_consistent\<close>, \<open>exception_delivered\<close>,
  \<open>exception_contexts_exclusive\<close>, \<open>packet_received\<close>); the other loops are shown to end by a measure (the
  text that is left, the directory that is left, the distance to the end of a ring or of memory). Constants of the
  code, such as block, buffer and table sizes, are the ones of the sources: 4096 bytes for the arguments of a
  command and 16 arguments, 16 KB for a line of the answers, 1024 for a path, 101 frames of a stack trace. Counters
  that bound a recursion are the ones of the code or enough by construction: a script or command is executed at
  depth 2 at most (a script may not start another one); a half float is normalised in at most 10 shifts, the width
  of its fraction; \<open>scan_frame\<close> is given the number of instructions before the position.

  \<^bold>\<open>Not modelled.\<close> Cache maintenance, memory barriers and the inline assembly that switches interrupts have
  no counterpart in a sequential memory; messages for the kernel's debug output are left out. Parameters of the
  model are the text of floating point numbers and of pointers, the texts of the calculator's errors, \<^verbatim>\<open>getopt\<close>, \<^verbatim>\<open>readline\<close>
  and sockets on the PC. The remote display (\<^verbatim>\<open>tools/remotejoy\<close>), the stream drivers (\<^verbatim>\<open>psplink/stdio.c\<close>, \<^verbatim>\<open>psplink/tty.c\<close>)
  and the smaller parts listed in the manifest are calls of the kernel or of a window system with little logic of
  their own and are not modelled.
  Copies kept for reference (\<^verbatim>\<open>.orig\<close>, \<^verbatim>\<open>old_apihook.c\<close>, \<^verbatim>\<open>myushell/bak\<close>), import stubs in assembly
  (\<^verbatim>\<open>libpspkernel\<close>, \<^verbatim>\<open>libpsplink\<close>) and the Windows driver package are not part of the program's logic.
\<close>

end
